(* ===== verification/Prelude.thy ===== *)
theory Prelude
  imports Complex_Main "HOL-Library.AList"
begin

text \<open>
  What every component of the development shares: the JavaScript list and map operations the
  source uses (\<open>findIndex\<close>, \<open>splice\<close>, \<open>new Set\<close>, \<open>Map\<close> in insertion order), the reading of an
  operation that may hand back the very object it was given, a locale for rows that carry a key,
  and a locale for machines whose steps keep an invariant.
\<close>

section \<open>Numbers\<close>

text \<open>
  A field that the source types as \<open>number\<close> and that may hold a fraction is a rational here:
  every finite double is one, and the source only compares, adds and multiplies such fields by
  powers of two within the range where doubles are exact. Ids and lengths are \<open>int\<close>.
\<close>

type_synonym number = rat

definition isInteger :: "number \<Rightarrow> bool" where
  "isInteger x \<longleftrightarrow> snd (quotient_of x) = 1"

lemma isInteger_of_int [simp]: "isInteger (of_int k)"
  by (simp add: isInteger_def)

lemma isInteger_numeral [simp]: "isInteger (numeral k)" "isInteger 0" "isInteger 1"
  by (simp_all add: isInteger_def)

lemma isInteger_iff: "isInteger x \<longleftrightarrow> (\<exists>k. x = of_int k)"
proof
  assume "isInteger x"
  then have "x = of_int (fst (quotient_of x))"
    using quotient_of_div [of x "fst (quotient_of x)" 1]
    by (cases "quotient_of x") (auto simp: isInteger_def)
  then show "\<exists>k. x = of_int k" by blast
qed auto

section \<open>Lists as the source handles them\<close>

text \<open>\<open>xs.findIndex(P)\<close>: \<open>None\<close> is the source's \<open>-1\<close>.\<close>

fun findIndex :: "('a \<Rightarrow> bool) \<Rightarrow> 'a list \<Rightarrow> nat option" where
  "findIndex P [] = None"
| "findIndex P (x # xs) = (if P x then Some 0 else map_option Suc (findIndex P xs))"

lemma findIndex_Some:
  "findIndex P xs = Some i \<Longrightarrow> i < length xs \<and> P (xs ! i) \<and> (\<forall>j<i. \<not> P (xs ! j))"
proof (induction xs arbitrary: i)
  case Nil
  then show ?case by simp
next
  case (Cons x xs)
  show ?case
  proof (cases "P x")
    case True
    with Cons.prems show ?thesis by simp
  next
    case False
    with Cons.prems obtain j where j: "findIndex P xs = Some j" "i = Suc j" by auto
    with Cons.IH [OF j(1)] False show ?thesis by (auto simp: nth_Cons split: nat.splits)
  qed
qed

lemma findIndex_None: "findIndex P xs = None \<longleftrightarrow> (\<forall>x\<in>set xs. \<not> P x)"
  by (induction xs) auto

lemma find_findIndex: "List.find P xs = map_option ((!) xs) (findIndex P xs)"
  by (induction xs) (auto simp: option.map_comp comp_def)

text \<open>\<open>ys = [...xs]; ys.splice(n, 0, ...zs)\<close>: an index past the end appends.\<close>

definition spliceAt :: "nat \<Rightarrow> 'a list \<Rightarrow> 'a list \<Rightarrow> 'a list" where
  "spliceAt n zs xs = take n xs @ zs @ drop n xs"

lemma set_spliceAt [simp]: "set (spliceAt n zs xs) = set zs \<union> set xs"
  by (simp add: spliceAt_def) (metis append_take_drop_id set_append sup_commute sup_left_commute)

lemma length_spliceAt [simp]: "length (spliceAt n zs xs) = length zs + length xs"
  by (simp add: spliceAt_def)

lemma map_spliceAt: "map f (spliceAt n zs xs) = spliceAt n (map f zs) (map f xs)"
  by (simp add: spliceAt_def take_map drop_map)

lemma distinct_insert_middle:
  "distinct (us @ zs @ vs) \<longleftrightarrow> distinct zs \<and> distinct (us @ vs) \<and> set zs \<inter> set (us @ vs) = {}"
  by auto

lemma distinct_spliceAt:
  "distinct (spliceAt n zs xs) \<longleftrightarrow> distinct zs \<and> distinct xs \<and> set zs \<inter> set xs = {}"
  using distinct_insert_middle [of "take n xs" zs "drop n xs"]
  by (simp only: spliceAt_def append_take_drop_id)

text \<open>\<open>xs\<close> with the element at \<open>n\<close> taken out (\<open>filter (x) => x !== current\<close> on a row of the list).\<close>

definition dropAt :: "nat \<Rightarrow> 'a list \<Rightarrow> 'a list" where
  "dropAt n xs = take n xs @ drop (Suc n) xs"

lemma set_dropAt_subset: "set (dropAt n xs) \<subseteq> set xs"
  using set_take_subset set_drop_subset by (fastforce simp: dropAt_def)

lemma map_dropAt: "map f (dropAt n xs) = dropAt n (map f xs)"
  by (simp add: dropAt_def take_map drop_map)

lemma distinct_dropAt: "distinct xs \<Longrightarrow> distinct (dropAt n xs)"
  using set_take_disj_set_drop_if_distinct [of xs n "Suc n"] by (auto simp: dropAt_def)

text \<open>\<open>[...new Set(xs)]\<close>: first occurrences, in order.\<close>

fun uniq :: "'a list \<Rightarrow> 'a list" where
  "uniq [] = []"
| "uniq (x # xs) = x # filter (\<lambda>y. y \<noteq> x) (uniq xs)"

lemma set_uniq [simp]: "set (uniq xs) = set xs"
  by (induction xs) auto

lemma distinct_uniq [simp]: "distinct (uniq xs)"
  by (induction xs) auto

lemma uniq_distinct: "distinct xs \<Longrightarrow> uniq xs = xs"
  by (induction xs) (auto simp: filter_id_conv)

text \<open>
  A JavaScript \<open>Map\<close> read back in insertion order is an association list under \<open>AList.update\<close>:
  a known key keeps its place, a new key goes to the end.
\<close>

lemma distinct_filter_map: "distinct (map f xs) \<Longrightarrow> distinct (map f (filter P xs))"
  by (induction xs) auto

lemma list_all_Ball [simp]: "list_all P xs \<longleftrightarrow> (\<forall>x\<in>set xs. P x)"
  by (simp add: list_all_iff)

lemma list_ex_Bex [simp]: "list_ex P xs \<longleftrightarrow> (\<exists>x\<in>set xs. P x)"
  by (simp add: list_ex_iff)

section \<open>The same object or a fresh one\<close>

text \<open>
  Many operations of the client hand back the object they were given when nothing changed, and
  their callers test this by reference. Such an operation is modelled with the result type
  \<open>'a option\<close>: \<open>None\<close> is the object it was given, \<open>Some y\<close> a fresh object \<open>y\<close> (which may have
  the same value).
\<close>

definition settle :: "'a \<Rightarrow> 'a option \<Rightarrow> 'a" where
  "settle x r = (case r of None \<Rightarrow> x | Some y \<Rightarrow> y)"

lemma settle_simps [simp]: "settle x None = x" "settle x (Some y) = y"
  by (simp_all add: settle_def)

definition andThen :: "'a \<Rightarrow> 'a option \<Rightarrow> ('a \<Rightarrow> 'a option) \<Rightarrow> 'a option" where
  "andThen x r f = (case f (settle x r) of None \<Rightarrow> r | Some y \<Rightarrow> Some y)"

lemma settle_andThen [simp]: "settle x (andThen x r f) = settle (settle x r) (f (settle x r))"
  by (cases r; cases "f (settle x r)") (simp_all add: andThen_def)

text \<open>\<open>base === current ? current : fresh\<close>, where \<open>same\<close> is the outcome of the reference test.\<close>

definition handBack :: "bool \<Rightarrow> 'b \<Rightarrow> 'b \<Rightarrow> 'a \<Rightarrow> 'a option" where
  "handBack same base current fresh = (if same \<and> base = current then None else Some fresh)"

section \<open>Rows that carry a key\<close>

text \<open>
  The editor's lists (sectors, cells) are lists of rows with a key. The contract: an edit of a row
  keeps its key. What the editor's proofs need of such lists follows from it once.
\<close>

locale keyed_rows =
  fixes key :: "'row \<Rightarrow> 'key"
    and edit :: "'change \<Rightarrow> 'row \<Rightarrow> 'row"
  assumes key_edit: "key (edit c r) = key r"
begin

lemma keys_edit_some: "map key (map (\<lambda>r. if P r then edit c r else r) rows) = map key rows"
  by (induction rows) (auto simp: key_edit)

lemma find_key: "distinct (map key rows) \<Longrightarrow> r \<in> set rows \<Longrightarrow> List.find (\<lambda>x. key x = key r) rows = Some r"
  by (induction rows) force+

lemma find_key_iff:
  assumes "distinct (map key rows)"
  shows "List.find (\<lambda>x. key x = k) rows = Some r \<longleftrightarrow> r \<in> set rows \<and> key r = k"
  using assms find_key [OF assms, of r] by (auto simp: find_Some_iff in_set_conv_nth)

lemma edit_found:
  assumes "distinct (map key rows)" "r \<in> set rows" "key r = k"
  shows "map (\<lambda>x. if key x = k then edit c x else x) rows
    = map (\<lambda>x. if x = r then edit c r else x) rows"
proof (rule map_cong [OF refl])
  fix x assume x: "x \<in> set rows"
  have "key x = k \<longleftrightarrow> x = r"
    using inj_onD [of key "set rows" x r] assms x by (auto simp: distinct_map)
  then show "(if key x = k then edit c x else x) = (if x = r then edit c r else x)" by auto
qed

lemma find_edited:
  assumes "distinct (map key rows)" "r \<in> set rows" "key r = k"
  shows "List.find (\<lambda>x. key x = k) (map (\<lambda>x. if key x = k then edit c x else x) rows) = Some (edit c r)"
  using assms by (induction rows) (force simp: key_edit)+

lemma find_other:
  assumes "k' \<noteq> k"
  shows "List.find (\<lambda>x. key x = k') (map (\<lambda>x. if key x = k then edit c x else x) rows)
    = List.find (\<lambda>x. key x = k') rows"
  using assms by (induction rows) (auto simp: key_edit)

end

section \<open>Machines whose steps keep an invariant\<close>

text \<open>
  A component with state is a step function over its events. The contract a component proves of
  itself is one-step preservation under the condition \<open>ok\<close> on the event; here it is lifted to runs.
\<close>

fun runAll :: "('s \<Rightarrow> 'e \<Rightarrow> 's) \<Rightarrow> 's \<Rightarrow> 'e list \<Rightarrow> 's" where
  "runAll step s [] = s"
| "runAll step s (e # es) = runAll step (step s e) es"

fun runOk :: "('s \<Rightarrow> 'e \<Rightarrow> 's) \<Rightarrow> ('s \<Rightarrow> 'e \<Rightarrow> bool) \<Rightarrow> 's \<Rightarrow> 'e list \<Rightarrow> bool" where
  "runOk step ok s [] = True"
| "runOk step ok s (e # es) = (ok s e \<and> runOk step ok (step s e) es)"

locale invariant_machine =
  fixes step :: "'s \<Rightarrow> 'e \<Rightarrow> 's"
    and ok :: "'s \<Rightarrow> 'e \<Rightarrow> bool"
    and inv :: "'s \<Rightarrow> bool"
  assumes step_inv: "inv s \<Longrightarrow> ok s e \<Longrightarrow> inv (step s e)"
begin

lemma run_inv: "inv s \<Longrightarrow> runOk step ok s es \<Longrightarrow> inv (runAll step s es)"
proof (induction es arbitrary: s)
  case Nil
  then show ?case by simp
next
  case (Cons e es)
  then have "inv (step s e)" by (auto intro: step_inv)
  with Cons show ?case by simp
qed

end

lemma runAll_append: "runAll step s (xs @ ys) = runAll step (runAll step s xs) ys"
  by (induction xs arbitrary: s) auto

end
