(* ===== verification/EditTypes.thy ===== *)
theory EditTypes
  imports Prelude
begin

text \<open>
  The data of the station editor (apps/client/src/features/station-editing/model/types.ts and
  apps/client/src/features/shared/location/types.ts). A record's fields carry a short prefix for
  its type: \<open>st\<close> station, \<open>pl\<close> place, \<open>se\<close> sector, \<open>ce\<close> cell, \<open>sn\<close> snapshot, \<open>ft\<close> field target.
  A field the source types as \<open>T | null\<close> is an option; a field that may also be absent
  (\<open>undefined\<close>) is an option of it.
\<close>

section \<open>Enumerations\<close>

datatype tech = Nr | Lte | Umts | Gsm
datatype editKind = KindEditor | KindReview | KindForm
datatype editAction = ActCreate | ActUpdate | ActDelete

datatype cellNumberField =
    Lac | Cid | Rnc | Enbid | Gnbid | Clid | Tac | Pci | Psc | Bsic | Uarfcn | Earfcn | Arfcn
datatype cellFlagField = IsEGsm | SupportsIot | SupportsRedCap

datatype identifierKind = NetworksId | NetworksName | OperatorName
datatype stationStatus = StActive | StAwaitingCells | StInactive
datatype backhaulMedium = Fiber | Microwave | Satellite | Xdsl
datatype locationMove = MoveStation | MoveLocation
datatype cellType = Macro | Micro | Pico | Femto
datatype nrMode = Nsa | Sa

text \<open>
  \<open>EditField\<close> is the union of the station, place, sector, cell, photo and general fields;
  \<open>notes\<close> and \<open>isConfirmed\<close> belong to two of them.
\<close>

datatype editField =
    FSiteId | FOperatorId | FHostStationId | FStatus | FIsConfirmed | FNotes | FIdentifiers
  | FIdentifier identifierKind | FBackhaulMedium | FBackhaulSpeedMbps | FBackhaulModel
  | FCoordinates | FRegionId | FCity | FAddress | FStructureType | FStructureOwner
  | FStructureNote | FMove
  | FDegrees
  | FBandId | FSectorKey | FCellType | FMode | FGnbidLength | FExtraPlmns
  | FNumber cellNumberField | FFlag cellFlagField
  | FUploads | FPicks | FMainPhoto
  | FNote | FChanges | FCells

text \<open>The type of a structure is compared and copied, never inspected: any name.\<close>

type_synonym structureType = string
type_synonym draftKey = string

section \<open>Station and place\<close>

record backhaulDraft =
  bh_medium :: "backhaulMedium option"
  bh_speedMbps :: "number option"
  bh_model :: string

record stationDraft =
  st_siteId :: string
  st_operatorId :: "int option"
  st_hostStationId :: "int option"
  st_status :: stationStatus
  st_isConfirmed :: bool
  st_notes :: string
  st_identifiers :: "identifierKind \<Rightarrow> string"
  st_backhaul :: backhaulDraft

datatype ownerChoice = OwnerUnknown | OwnerListed int | OwnerProposed string

record structureDraft =
  sd_type :: "structureType option"
  sd_owner :: ownerChoice
  sd_note :: string

record placeDraft =
  pl_locationId :: "int option"
  pl_latitude :: "number option"
  pl_longitude :: "number option"
  pl_regionId :: "int option"
  pl_isRegionPicked :: bool
  pl_city :: string
  pl_address :: string
  pl_structure :: structureDraft
  pl_move :: locationMove

section \<open>Sectors, cells, area codes\<close>

record sectorDraft =
  se_key :: draftKey
  se_id :: "int option"
  se_degrees :: "number option"

text \<open>
  \<open>numbers\<close> and \<open>flags\<close> are partial records of the source: a field is absent (\<open>None\<close>), or holds
  \<open>null\<close> (\<open>Some None\<close>) or a number.
\<close>

record cellDraft =
  ce_key :: draftKey
  ce_id :: "int option"
  ce_createdAt :: "string option"
  ce_updatedAt :: "string option"
  ce_rat :: tech
  ce_bandId :: "int option"
  ce_sectorKey :: "draftKey option"
  ce_cellType :: "cellType option"
  ce_notes :: string
  ce_isConfirmed :: bool
  ce_mode :: "nrMode option"
  ce_numbers :: "cellNumberField \<Rightarrow> number option option"
  ce_flags :: "cellFlagField \<Rightarrow> bool option"
  ce_gnbidLength :: "int option"
  ce_extraPlmns :: "string list"
  ce_isDeleted :: bool

datatype areaCode = Shared "number option" | PerCell

record stationSnapshot =
  sn_station :: stationDraft
  sn_place :: "placeDraft option"
  sn_sectors :: "sectorDraft list"
  sn_cells :: "cellDraft list"
  sn_areaCodes :: "tech \<Rightarrow> areaCode"

section \<open>Errors and the session\<close>

datatype targetScope =
    ScStation | ScPlace | ScSector | ScCell | ScAreaCode | ScPhotos | ScGeneral

record fieldTarget =
  ft_scope :: targetScope
  ft_key :: "draftKey option"
  ft_rat :: "tech option"
  ft_field :: "editField option"

datatype textValue = TextString string | TextNumber number
type_synonym textValues = "(string \<times> textValue) list"

record editError =
  er_target :: fieldTarget
  er_messageKey :: string
  er_values :: "textValues option"
  er_isQuiet :: "bool option"

record editSession =
  es_kind :: editKind
  es_action :: editAction
  es_countryCode :: "string option"
  es_hoistedTac :: bool
  es_editsHostStations :: bool
  es_live :: "stationSnapshot option"
  es_proposed :: "stationSnapshot option"
  es_initial :: stationSnapshot
  es_draft :: stationSnapshot
  es_enabledRats :: "tech list"
  es_serverErrors :: "editError list"
  es_isSaveAttempted :: bool

datatype rowKind = RowSame | RowNew | RowChanged | RowDeleted

section \<open>Stations around the edited one\<close>

record siteStation =
  ss_id :: int
  ss_operatorId :: "int option"
  ss_hostStationId :: "int option"

record hostSite =
  hs_stationId :: "int option"
  hs_stations :: "siteStation list"

datatype orphanKind = OrphanCell | OrphanSector
record proposalOrphan =
  or_kind :: orphanKind
  or_action :: editAction
  or_id :: int

section \<open>Finite enumerations for the evaluator\<close>

text \<open>
  A cell's \<open>numbers\<close> and the area codes are functions over enumerations; the code generator
  compares such functions once the enumeration is an instance of \<open>enum\<close>.
\<close>

instantiation tech :: enum
begin

definition enum_tech :: "tech list" where
  "enum_tech = [Nr, Lte, Umts, Gsm]"

definition enum_all_tech :: "(tech \<Rightarrow> bool) \<Rightarrow> bool" where
  "enum_all_tech P \<longleftrightarrow> P Nr \<and> P Lte \<and> P Umts \<and> P Gsm"

definition enum_ex_tech :: "(tech \<Rightarrow> bool) \<Rightarrow> bool" where
  "enum_ex_tech P \<longleftrightarrow> P Nr \<or> P Lte \<or> P Umts \<or> P Gsm"

instance proof
  show "(UNIV :: tech set) = set enum_class.enum"
    by (auto simp: enum_tech_def intro: tech.exhaust)
  show "distinct (enum_class.enum :: tech list)" by (simp add: enum_tech_def)
  show "enum_class.enum_all P \<longleftrightarrow> Ball UNIV P" for P :: "tech \<Rightarrow> bool"
    unfolding enum_all_tech_def by (metis UNIV_I tech.exhaust)
  show "enum_class.enum_ex P \<longleftrightarrow> Bex UNIV P" for P :: "tech \<Rightarrow> bool"
    unfolding enum_ex_tech_def by (metis UNIV_I tech.exhaust)
qed

end

lemma all_tech: "(\<forall>r. P r) \<longleftrightarrow> P Nr \<and> P Lte \<and> P Umts \<and> P Gsm"
  by (metis tech.exhaust)

lemma all_identifierKind: "(\<forall>k. P k) \<longleftrightarrow> P NetworksId \<and> P NetworksName \<and> P OperatorName"
  by (metis identifierKind.exhaust)

end
