(* ===== verification/RatFields.thy ===== *)
theory RatFields
  imports EditTypes
begin

text \<open>
  What the editor knows of each radio technology: model/ratFields.ts and model/networks.ts of the
  station editor. \<open>RAT_FIELDS\<close> is the table of a technology's numbers (with their largest value,
  and whether only a standalone NR cell has them), its flags and the fields that name its node,
  cell, channel and area.
\<close>

datatype siteSwitch = SwitchPsc | SwitchBsic

record numberFieldSpec =
  nf_field :: cellNumberField
  nf_max :: number
  nf_isSaOnly :: bool
  nf_siteSwitch :: "siteSwitch option"

record flagFieldSpec =
  ff_field :: cellFlagField
  ff_isSaOnly :: bool

datatype computedIdKind = LongCid | Eci | Nci

record ratSpec =
  rs_numbers :: "numberFieldSpec list"
  rs_flags :: "flagFieldSpec list"
  rs_areaCodeField :: cellNumberField
  rs_nodeField :: "cellNumberField option"
  rs_cellIdField :: "cellNumberField option"
  rs_channelField :: "cellNumberField option"
  rs_computedId :: "computedIdKind option"
  rs_hasMode :: bool

definition RAT_ORDER :: "tech list" where
  "RAT_ORDER = [Nr, Lte, Umts, Gsm]"

definition MAX_SECTORS :: nat where "MAX_SECTORS = 15"
definition OMNIDIRECTIONAL_DEGREES :: number where "OMNIDIRECTIONAL_DEGREES = 360"
definition MAX_CELL_CHANGES :: nat where "MAX_CELL_CHANGES = 200"
definition DEFAULT_CELL_TYPE :: cellType where "DEFAULT_CELL_TYPE = Macro"
definition DEFAULT_NR_MODE :: nrMode where "DEFAULT_NR_MODE = Nsa"
definition NCI_BITS :: int where "NCI_BITS = 36"
definition ECI_ENBID_FACTOR :: number where "ECI_ENBID_FACTOR = 256"
definition LONG_CID_RNC_FACTOR :: number where "LONG_CID_RNC_FACTOR = 65536"
definition MAX_16_BIT :: number where "MAX_16_BIT = 65535"
definition GNBID_MIN_LENGTH :: int where "GNBID_MIN_LENGTH = 22"
definition GNBID_MAX_LENGTH :: int where "GNBID_MAX_LENGTH = 32"
definition DEFAULT_GNBID_LENGTH :: int where "DEFAULT_GNBID_LENGTH = 24"

lemmas rat_constants = MAX_SECTORS_def OMNIDIRECTIONAL_DEGREES_def MAX_CELL_CHANGES_def
  DEFAULT_CELL_TYPE_def DEFAULT_NR_MODE_def NCI_BITS_def ECI_ENBID_FACTOR_def
  LONG_CID_RNC_FACTOR_def MAX_16_BIT_def GNBID_MIN_LENGTH_def GNBID_MAX_LENGTH_def
  DEFAULT_GNBID_LENGTH_def

definition numberField :: "cellNumberField \<Rightarrow> number \<Rightarrow> numberFieldSpec" where
  "numberField f m = \<lparr>nf_field = f, nf_max = m, nf_isSaOnly = False, nf_siteSwitch = None\<rparr>"

definition saOnlyField :: "cellNumberField \<Rightarrow> number \<Rightarrow> numberFieldSpec" where
  "saOnlyField f m = \<lparr>nf_field = f, nf_max = m, nf_isSaOnly = True, nf_siteSwitch = None\<rparr>"

fun switchField :: "siteSwitch \<Rightarrow> cellNumberField" where
  "switchField SwitchPsc = Psc"
| "switchField SwitchBsic = Bsic"

definition switchedField :: "siteSwitch \<Rightarrow> number \<Rightarrow> numberFieldSpec" where
  "switchedField sw m =
    \<lparr>nf_field = switchField sw, nf_max = m, nf_isSaOnly = False, nf_siteSwitch = Some sw\<rparr>"

fun RAT_FIELDS :: "tech \<Rightarrow> ratSpec" where
  "RAT_FIELDS Nr = \<lparr>
     rs_numbers =
       [saOnlyField Tac 16777215, saOnlyField Gnbid 4294967295, saOnlyField Clid 16383,
        numberField Pci 1007, numberField Arfcn 3279165],
     rs_flags = [\<lparr>ff_field = SupportsRedCap, ff_isSaOnly = True\<rparr>],
     rs_areaCodeField = Tac, rs_nodeField = Some Gnbid, rs_cellIdField = Some Clid,
     rs_channelField = Some Arfcn, rs_computedId = Some Nci, rs_hasMode = True\<rparr>"
| "RAT_FIELDS Lte = \<lparr>
     rs_numbers =
       [numberField Tac MAX_16_BIT, numberField Enbid 1048575, numberField Clid 255,
        numberField Pci 503, numberField Earfcn 262143],
     rs_flags = [\<lparr>ff_field = SupportsIot, ff_isSaOnly = False\<rparr>],
     rs_areaCodeField = Tac, rs_nodeField = Some Enbid, rs_cellIdField = Some Clid,
     rs_channelField = Some Earfcn, rs_computedId = Some Eci, rs_hasMode = False\<rparr>"
| "RAT_FIELDS Umts = \<lparr>
     rs_numbers =
       [numberField Lac MAX_16_BIT, numberField Rnc MAX_16_BIT, numberField Cid MAX_16_BIT,
        numberField Uarfcn 16383, switchedField SwitchPsc 511],
     rs_flags = [],
     rs_areaCodeField = Lac, rs_nodeField = Some Rnc, rs_cellIdField = Some Cid,
     rs_channelField = Some Uarfcn, rs_computedId = Some LongCid, rs_hasMode = False\<rparr>"
| "RAT_FIELDS Gsm = \<lparr>
     rs_numbers = [numberField Lac MAX_16_BIT, numberField Cid MAX_16_BIT, switchedField SwitchBsic 63],
     rs_flags = [\<lparr>ff_field = IsEGsm, ff_isSaOnly = False\<rparr>],
     rs_areaCodeField = Lac, rs_nodeField = None, rs_cellIdField = Some Cid,
     rs_channelField = None, rs_computedId = None, rs_hasMode = False\<rparr>"

lemmas field_specs = numberField_def saOnlyField_def switchedField_def

definition TAC_RATS :: "tech list" where
  "TAC_RATS = filter (\<lambda>r. rs_areaCodeField (RAT_FIELDS r) = Tac) RAT_ORDER"

lemma set_RAT_ORDER [simp]: "set RAT_ORDER = UNIV" "r \<in> set RAT_ORDER"
  using tech.exhaust by (auto simp: RAT_ORDER_def)

lemma distinct_RAT_ORDER [simp]: "distinct RAT_ORDER"
  by (simp add: RAT_ORDER_def)

lemma set_TAC_RATS: "set TAC_RATS = {Nr, Lte}"
  by (auto simp: TAC_RATS_def RAT_ORDER_def)

lemma TAC_RATS_iff: "r \<in> set TAC_RATS \<longleftrightarrow> r = Nr \<or> r = Lte"
  by (simp add: set_TAC_RATS)

section \<open>Reading a cell\<close>

definition findNumberFieldSpec :: "tech \<Rightarrow> cellNumberField \<Rightarrow> numberFieldSpec option" where
  "findNumberFieldSpec r f = List.find (\<lambda>spec. nf_field spec = f) (rs_numbers (RAT_FIELDS r))"

definition getAreaCodeField :: "tech \<Rightarrow> cellNumberField" where
  "getAreaCodeField r = rs_areaCodeField (RAT_FIELDS r)"

definition getAreaCodeMax :: "tech \<Rightarrow> number" where
  "getAreaCodeMax r =
    (case findNumberFieldSpec r (getAreaCodeField r) of Some spec \<Rightarrow> nf_max spec | None \<Rightarrow> MAX_16_BIT)"

definition canShareAreaCode :: "tech \<Rightarrow> bool \<Rightarrow> bool" where
  "canShareAreaCode r hoistedTac \<longleftrightarrow> hoistedTac \<or> r \<notin> set TAC_RATS"

definition carriesAreaCode :: "cellDraft \<Rightarrow> bool" where
  "carriesAreaCode c \<longleftrightarrow> ce_rat c \<noteq> Nr \<or> ce_mode c = Some Sa"

definition isFieldInUse :: "cellDraft \<Rightarrow> bool \<Rightarrow> bool" where
  "isFieldInUse c isSaOnly \<longleftrightarrow> \<not> isSaOnly \<or> ce_mode c = Some Sa"

definition getCellNumber :: "cellDraft \<Rightarrow> cellNumberField \<Rightarrow> number option" where
  "getCellNumber c f = (case ce_numbers c f of None \<Rightarrow> None | Some v \<Rightarrow> v)"

definition getCellFlag :: "cellDraft \<Rightarrow> cellFlagField \<Rightarrow> bool" where
  "getCellFlag c f = (case ce_flags c f of None \<Rightarrow> False | Some b \<Rightarrow> b)"

text \<open>\<open>2 ** n\<close> for an integer \<open>n\<close>, as a rational.\<close>

definition pow2 :: "int \<Rightarrow> number" where
  "pow2 n = (if 0 \<le> n then 2 ^ nat n else 1 / 2 ^ nat (- n))"

definition getCellNumberMax :: "cellDraft \<Rightarrow> numberFieldSpec \<Rightarrow> int \<Rightarrow> number" where
  "getCellNumberMax c spec defaultGnbidLength =
    (if ce_rat c \<noteq> Nr then nf_max spec
     else let len = (case ce_gnbidLength c of None \<Rightarrow> defaultGnbidLength | Some l \<Rightarrow> l)
          in if nf_field spec = Gnbid then min (nf_max spec) (pow2 len - 1)
             else if nf_field spec = Clid then min (nf_max spec) (pow2 (NCI_BITS - len) - 1)
             else nf_max spec)"

definition isKnownNode :: "number option \<Rightarrow> bool" where
  "isKnownNode v \<longleftrightarrow> v \<noteq> None \<and> v \<noteq> Some 0"

definition computeCellId :: "cellDraft \<Rightarrow> int \<Rightarrow> number option" where
  "computeCellId c defaultGnbidLength =
    (case (rs_computedId (RAT_FIELDS (ce_rat c)), rs_nodeField (RAT_FIELDS (ce_rat c)),
           rs_cellIdField (RAT_FIELDS (ce_rat c))) of
       (Some kind, Some nodeField, Some cellIdField) \<Rightarrow>
         (case (getCellNumber c nodeField, getCellNumber c cellIdField) of
            (Some node, Some cellId) \<Rightarrow>
              (if \<not> isKnownNode (Some node) then None
               else case kind of
                 LongCid \<Rightarrow> Some (node * LONG_CID_RNC_FACTOR + cellId)
               | Eci \<Rightarrow> Some (node * ECI_ENBID_FACTOR + cellId)
               | Nci \<Rightarrow> Some (node * pow2 (NCI_BITS - (case ce_gnbidLength c of
                                  None \<Rightarrow> defaultGnbidLength | Some l \<Rightarrow> l)) + cellId))
          | _ \<Rightarrow> None)
     | _ \<Rightarrow> None)"

definition toAzimuth :: "number \<Rightarrow> number option" where
  "toAzimuth degrees = (if degrees = OMNIDIRECTIONAL_DEGREES then None else Some degrees)"

definition toDegrees :: "number option \<Rightarrow> number" where
  "toDegrees azimuth = (case azimuth of None \<Rightarrow> OMNIDIRECTIONAL_DEGREES | Some d \<Rightarrow> d)"

section \<open>Networks of a cell\<close>

fun EXTRA_PLMN_LIMITS :: "tech \<Rightarrow> nat" where
  "EXTRA_PLMN_LIMITS Gsm = 0"
| "EXTRA_PLMN_LIMITS Umts = 5"
| "EXTRA_PLMN_LIMITS Lte = 5"
| "EXTRA_PLMN_LIMITS Nr = 11"

definition isSameCodes :: "string list \<Rightarrow> string list \<Rightarrow> bool" where
  "isSameCodes left right \<longleftrightarrow> length left = length right \<and> list_all (\<lambda>c. c \<in> set right) left"

definition toPlmnList :: "string option \<Rightarrow> string list \<Rightarrow> string list" where
  "toPlmnList ownerPlmn extras =
    (let others = filter (\<lambda>code. Some code \<noteq> ownerPlmn) extras
     in case ownerPlmn of None \<Rightarrow> others | Some owner \<Rightarrow> owner # others)"

section \<open>Cell ids of a node do not collide\<close>

text \<open>
  Within the ranges the editor accepts, the computed id names its node and cell: the cell part
  stays below the factor of the node part.
\<close>

lemma pow2_add: "0 \<le> m \<Longrightarrow> 0 \<le> n \<Longrightarrow> pow2 m * pow2 n = pow2 (m + n)"
  by (simp add: pow2_def power_add nat_add_distrib)

lemma pow2_pos [simp]: "0 < pow2 n"
  by (simp add: pow2_def)

lemma pow2_integer: "0 \<le> n \<Longrightarrow> pow2 n = of_int (2 ^ nat n)"
  by (simp add: pow2_def)

lemma split_id_unique:
  fixes n n' c c' :: int
  assumes "n * k + c = n' * k + c'" "0 \<le> c" "c < k" "0 \<le> c'" "c' < k"
  shows "n = n' \<and> c = c'"
proof -
  have "(n * k + c) div k = n" using assms(2,3) by simp
  moreover have "(n' * k + c') div k = n'" using assms(4,5) by simp
  ultimately have "n = n'" using assms(1) by simp
  then show ?thesis using assms(1) by simp
qed

end
