(* ===== verification/Packs.thy ===== *)
theory Packs
  imports RatFields
begin

text \<open>
  The country packs (packages/country-packs): the conventions a country overrides, the registry
  that merges them with the defaults, and the Polish and British packs. The conventions that only
  rewrite Unicode text (\<open>validateAddress\<close>, \<open>suggestOperatorName\<close>, \<open>normalizeGeocodedPlace\<close>) are
  not modelled.
\<close>

record operatorRef =
  op_id :: int
  op_primaryPlmn :: "string option"
  op_sharedNetworkPlmns :: "string list"

record lteSectorRuleSpec =
  lr_clidStep :: nat
  lr_isSequenceStart :: "int \<Rightarrow> bool"
  lr_supportsFourthSector :: bool

record countryConventions =
  cv_identifierKinds :: "operatorRef \<Rightarrow> identifierKind list"
  cv_formatIdentifier :: "identifierKind \<Rightarrow> string \<Rightarrow> string"
  cv_equivalentEnbids :: "operatorRef \<Rightarrow> nat \<Rightarrow> nat list"
  cv_lteSectorRule :: "operatorRef \<Rightarrow> lteSectorRuleSpec option"
  cv_gnbidLength :: "operatorRef \<Rightarrow> int"
  cv_hoistedTac :: bool

definition defaultConventions :: countryConventions where
  "defaultConventions = \<lparr>
     cv_identifierKinds = (\<lambda>_. []),
     cv_formatIdentifier = (\<lambda>_ value. value),
     cv_equivalentEnbids = (\<lambda>_ enbid. [enbid]),
     cv_lteSectorRule = (\<lambda>_. None),
     cv_gnbidLength = (\<lambda>_. DEFAULT_GNBID_LENGTH),
     cv_hoistedTac = False\<rparr>"

definition gnbidLengthByPlmn :: "(string \<rightharpoonup> int) \<Rightarrow> operatorRef \<Rightarrow> int" where
  "gnbidLengthByPlmn lengths operator =
    (case Option.bind (op_primaryPlmn operator) lengths of Some l \<Rightarrow> l | None \<Rightarrow> DEFAULT_GNBID_LENGTH)"

section \<open>Poland\<close>

definition PLUS_PLMN :: string where "PLUS_PLMN = ''26001''"
definition TMOBILE_PLMN :: string where "TMOBILE_PLMN = ''26002''"
definition ORANGE_PLMN :: string where "ORANGE_PLMN = ''26003''"
definition PLAY_PLMN :: string where "PLAY_PLMN = ''26006''"
definition NETWORKS_PLMN :: string where "NETWORKS_PLMN = ''26034''"

lemmas plmn_defs = PLUS_PLMN_def TMOBILE_PLMN_def ORANGE_PLMN_def PLAY_PLMN_def NETWORKS_PLMN_def

definition isNetworksMember :: "operatorRef \<Rightarrow> bool" where
  "isNetworksMember operator \<longleftrightarrow> NETWORKS_PLMN \<in> set (op_sharedNetworkPlmns operator)"

definition plIdentifierKinds :: "operatorRef \<Rightarrow> identifierKind list" where
  "plIdentifierKinds operator =
    (if isNetworksMember operator then [NetworksId, NetworksName, OperatorName]
     else if op_primaryPlmn operator = Some PLUS_PLMN \<or> op_primaryPlmn operator = Some PLAY_PLMN
     then [OperatorName] else [])"

definition plFormatIdentifier :: "identifierKind \<Rightarrow> string \<Rightarrow> string" where
  "plFormatIdentifier kind value = (if kind = NetworksId then ''N!'' @ value else value)"

definition isPlaySequenceStart :: "int \<Rightarrow> bool" where
  "isPlaySequenceStart ecid \<longleftrightarrow> (let d = (ecid div 10) mod 10 in d = 1 \<or> d = 4 \<or> d = 7)"

definition isConsecutiveSequenceStart :: "int \<Rightarrow> bool" where
  "isConsecutiveSequenceStart ecid \<longleftrightarrow> (ecid mod 10) mod 3 = 0"

definition PLAY_SECTOR_RULE :: lteSectorRuleSpec where
  "PLAY_SECTOR_RULE = \<lparr>lr_clidStep = 10, lr_isSequenceStart = isPlaySequenceStart,
     lr_supportsFourthSector = True\<rparr>"

definition PLUS_SECTOR_RULE :: lteSectorRuleSpec where
  "PLUS_SECTOR_RULE = \<lparr>lr_clidStep = 1, lr_isSequenceStart = isConsecutiveSequenceStart,
     lr_supportsFourthSector = True\<rparr>"

definition NETWORKS_SECTOR_RULE :: lteSectorRuleSpec where
  "NETWORKS_SECTOR_RULE = \<lparr>lr_clidStep = 1, lr_isSequenceStart = isConsecutiveSequenceStart,
     lr_supportsFourthSector = False\<rparr>"

lemmas sector_rules = PLAY_SECTOR_RULE_def PLUS_SECTOR_RULE_def NETWORKS_SECTOR_RULE_def

definition plLteSectorRule :: "operatorRef \<Rightarrow> lteSectorRuleSpec option" where
  "plLteSectorRule operator =
    (if op_primaryPlmn operator = Some PLAY_PLMN then Some PLAY_SECTOR_RULE
     else if op_primaryPlmn operator = Some PLUS_PLMN then Some PLUS_SECTOR_RULE
     else if isNetworksMember operator then Some NETWORKS_SECTOR_RULE else None)"

text \<open>
  \<open>splitFirstDigit\<close> reads the place of the leading decimal digit from the length of the number's
  decimal text.
\<close>

fun firstDigitPlace :: "nat \<Rightarrow> nat" where
  "firstDigitPlace n = (if n < 10 then 1 else 10 * firstDigitPlace (n div 10))"

declare firstDigitPlace.simps [simp del]

definition plEquivalentEnbids :: "operatorRef \<Rightarrow> nat \<Rightarrow> nat list" where
  "plEquivalentEnbids operator enbid =
    (if \<not> isNetworksMember operator \<or> enbid \<le> 9 then [enbid]
     else map (\<lambda>d. enbid mod firstDigitPlace enbid + d * firstDigitPlace enbid)
            [1, 2, 3, 4, 5, 6, 7, 8, 9])"

definition plConventions :: countryConventions where
  "plConventions = \<lparr>
     cv_identifierKinds = plIdentifierKinds,
     cv_formatIdentifier = plFormatIdentifier,
     cv_equivalentEnbids = plEquivalentEnbids,
     cv_lteSectorRule = plLteSectorRule,
     cv_gnbidLength = gnbidLengthByPlmn [PLAY_PLMN \<mapsto> 28],
     cv_hoistedTac = True\<rparr>"

section \<open>Great Britain and the registry\<close>

definition gbConventions :: countryConventions where
  "gbConventions = defaultConventions\<lparr>cv_gnbidLength := (\<lambda>_. 22)\<rparr>"

definition conventionsFor :: "string option \<Rightarrow> countryConventions" where
  "conventionsFor countryCode =
    (case countryCode of
       None \<Rightarrow> defaultConventions
     | Some code \<Rightarrow>
         (if code = ''PL'' then plConventions
          else if code = ''GB'' then gbConventions else defaultConventions))"

definition hasCellNetworks :: "string \<Rightarrow> bool" where
  "hasCellNetworks countryCode \<longleftrightarrow> countryCode \<noteq> ''PL''"

definition extraPlmnLimitsFor :: "string option \<Rightarrow> tech \<Rightarrow> nat" where
  "extraPlmnLimitsFor countryCode =
    (case countryCode of
       None \<Rightarrow> EXTRA_PLMN_LIMITS
     | Some code \<Rightarrow> (if hasCellNetworks code then EXTRA_PLMN_LIMITS else (\<lambda>_. 0)))"

section \<open>Equivalent eNBIDs\<close>

lemma firstDigitPlace_bounds: "0 < n \<Longrightarrow> firstDigitPlace n \<le> n \<and> n < 10 * firstDigitPlace n"
proof (induction n rule: firstDigitPlace.induct)
  case (1 n)
  show ?case
  proof (cases "n < 10")
    case True
    with "1.prems" show ?thesis by (subst (1 2) firstDigitPlace.simps) simp
  next
    case False
    then have ih: "firstDigitPlace (n div 10) \<le> n div 10" "n div 10 < 10 * firstDigitPlace (n div 10)"
      using "1.IH" by auto
    have "firstDigitPlace n = 10 * firstDigitPlace (n div 10)"
      using False by (subst firstDigitPlace.simps) simp
    with ih show ?thesis by linarith
  qed
qed

lemma firstDigitPlace_pos [simp]: "0 < firstDigitPlace n"
  by (induction n rule: firstDigitPlace.induct) (subst firstDigitPlace.simps, simp)

lemma firstDigitPlace_unique:
  assumes "firstDigitPlace n \<le> m" "m < 10 * firstDigitPlace n" "0 < n"
  shows "firstDigitPlace m = firstDigitPlace n"
  using assms
proof (induction n arbitrary: m rule: firstDigitPlace.induct)
  case (1 n)
  show ?case
  proof (cases "n < 10")
    case True
    then have "firstDigitPlace n = 1" by (subst firstDigitPlace.simps) simp
    with "1.prems" show ?thesis by (subst firstDigitPlace.simps) simp
  next
    case False
    then have n: "firstDigitPlace n = 10 * firstDigitPlace (n div 10)"
      by (subst firstDigitPlace.simps) simp
    moreover have "firstDigitPlace (n div 10) \<le> m div 10" "m div 10 < 10 * firstDigitPlace (n div 10)"
      using "1.prems"(1,2) n by linarith+
    ultimately have "firstDigitPlace (m div 10) = firstDigitPlace (n div 10)"
      using "1.IH" [OF False] False by simp
    moreover have "\<not> m < 10"
      using "1.prems"(1) n firstDigitPlace_pos [of "n div 10"] by linarith
    ultimately show ?thesis using n by (subst firstDigitPlace.simps) simp
  qed
qed

end
