(* ===== verification/Drafts.thy ===== *)
theory Drafts
  imports Packs
begin

text \<open>
  The rows of a draft and its shared area codes: the constructors of model/snapshots.ts, the area
  code a group of cells agrees on (\<open>deriveAreaCode\<close>), and the rule that a country either shares
  the tracking area code of a technology's cells or stores it cell by cell (\<open>applyTacRule\<close>).
\<close>

definition IDENTIFIER_KINDS :: "identifierKind list" where
  "IDENTIFIER_KINDS = [NetworksId, NetworksName, OperatorName]"

definition EMPTY_BACKHAUL :: backhaulDraft where
  "EMPTY_BACKHAUL = \<lparr>bh_medium = None, bh_speedMbps = None, bh_model = []\<rparr>"

definition createEmptyIdentifiers :: "identifierKind \<Rightarrow> string" where
  "createEmptyIdentifiers = (\<lambda>_. [])"

definition createEmptyStation :: stationDraft where
  "createEmptyStation = \<lparr>
     st_siteId = [], st_operatorId = None, st_hostStationId = None, st_status = StAwaitingCells,
     st_isConfirmed = False, st_notes = [], st_identifiers = createEmptyIdentifiers,
     st_backhaul = EMPTY_BACKHAUL\<rparr>"

definition createEmptyPlace :: placeDraft where
  "createEmptyPlace = \<lparr>
     pl_locationId = None, pl_latitude = None, pl_longitude = None, pl_regionId = None,
     pl_isRegionPicked = False, pl_city = [], pl_address = [],
     pl_structure = \<lparr>sd_type = None, sd_owner = OwnerUnknown, sd_note = []\<rparr>,
     pl_move = MoveStation\<rparr>"

definition createSharedAreaCodes :: "tech \<Rightarrow> areaCode" where
  "createSharedAreaCodes = (\<lambda>_. Shared None)"

definition EMPTY_SNAPSHOT :: stationSnapshot where
  "EMPTY_SNAPSHOT = \<lparr>
     sn_station = createEmptyStation, sn_place = None, sn_sectors = [], sn_cells = [],
     sn_areaCodes = createSharedAreaCodes\<rparr>"

text \<open>
  A key made by \<open>nanoid\<close> is not under src/: \<open>freshKey\<close> is a parameter, the key \<open>newDraftKey\<close>
  returns at this call.
\<close>

definition createSectorDraft :: "number option \<Rightarrow> draftKey option \<Rightarrow> draftKey \<Rightarrow> sectorDraft" where
  "createSectorDraft degrees key freshKey =
    \<lparr>se_key = (case key of None \<Rightarrow> freshKey | Some k \<Rightarrow> k), se_id = None, se_degrees = degrees\<rparr>"

definition emptyNumbers :: "tech \<Rightarrow> cellNumberField \<Rightarrow> number option option" where
  "emptyNumbers r =
    fold (\<lambda>spec numbers. numbers(nf_field spec \<mapsto> None)) (rs_numbers (RAT_FIELDS r)) Map.empty"

definition emptyFlags :: "tech \<Rightarrow> cellFlagField \<Rightarrow> bool option" where
  "emptyFlags r =
    fold (\<lambda>spec flags. flags(ff_field spec \<mapsto> False)) (rs_flags (RAT_FIELDS r)) Map.empty"

text \<open>\<open>CellInit\<close>: every field of a cell but its technology, each of them optional.\<close>

record cellInit =
  ci_key :: "draftKey option"
  ci_id :: "int option"
  ci_createdAt :: "string option"
  ci_updatedAt :: "string option"
  ci_bandId :: "int option"
  ci_sectorKey :: "draftKey option"
  ci_cellType :: "cellType option option"
  ci_notes :: "string option"
  ci_isConfirmed :: "bool option"
  ci_mode :: "nrMode option"
  ci_numbers :: "cellNumberField \<Rightarrow> number option option"
  ci_flags :: "cellFlagField \<Rightarrow> bool option"
  ci_gnbidLength :: "int option"
  ci_extraPlmns :: "string list option"
  ci_isDeleted :: "bool option"

definition noInit :: cellInit where
  "noInit = \<lparr>
     ci_key = None, ci_id = None, ci_createdAt = None, ci_updatedAt = None, ci_bandId = None,
     ci_sectorKey = None, ci_cellType = None, ci_notes = None, ci_isConfirmed = None,
     ci_mode = None, ci_numbers = Map.empty, ci_flags = Map.empty, ci_gnbidLength = None,
     ci_extraPlmns = None, ci_isDeleted = None\<rparr>"

definition createCellDraft :: "tech \<Rightarrow> cellInit \<Rightarrow> draftKey \<Rightarrow> cellDraft" where
  "createCellDraft r init freshKey = \<lparr>
     ce_key = (case ci_key init of None \<Rightarrow> freshKey | Some k \<Rightarrow> k),
     ce_id = ci_id init,
     ce_createdAt = ci_createdAt init,
     ce_updatedAt = ci_updatedAt init,
     ce_rat = r,
     ce_bandId = ci_bandId init,
     ce_sectorKey = ci_sectorKey init,
     ce_cellType = (case ci_cellType init of None \<Rightarrow> Some DEFAULT_CELL_TYPE | Some t \<Rightarrow> t),
     ce_notes = (case ci_notes init of None \<Rightarrow> [] | Some n \<Rightarrow> n),
     ce_isConfirmed = (case ci_isConfirmed init of None \<Rightarrow> False | Some b \<Rightarrow> b),
     ce_mode = (if r = Nr then (case ci_mode init of None \<Rightarrow> Some DEFAULT_NR_MODE | Some m \<Rightarrow> Some m)
                else None),
     ce_numbers = emptyNumbers r ++ ci_numbers init,
     ce_flags = emptyFlags r ++ ci_flags init,
     ce_gnbidLength = ci_gnbidLength init,
     ce_extraPlmns = (case ci_extraPlmns init of None \<Rightarrow> [] | Some codes \<Rightarrow> codes),
     ce_isDeleted = (case ci_isDeleted init of None \<Rightarrow> False | Some b \<Rightarrow> b)\<rparr>"

lemma createCellDraft_simps [simp]:
  "ce_rat (createCellDraft r i k) = r"
  "ce_id (createCellDraft r i k) = ci_id i"
  "ce_sectorKey (createCellDraft r i k) = ci_sectorKey i"
  "ce_key (createCellDraft r i k) = (case ci_key i of None \<Rightarrow> k | Some k' \<Rightarrow> k')"
  "ce_isDeleted (createCellDraft r i k) = (case ci_isDeleted i of None \<Rightarrow> False | Some b \<Rightarrow> b)"
  by (simp_all add: createCellDraft_def)

lemma createSectorDraft_simps [simp]:
  "se_key (createSectorDraft d k f) = (case k of None \<Rightarrow> f | Some k' \<Rightarrow> k')"
  "se_degrees (createSectorDraft d k f) = d"
  by (simp_all add: createSectorDraft_def)

section \<open>The area code a technology's cells agree on\<close>

definition areaCarriers :: "cellDraft list \<Rightarrow> tech \<Rightarrow> cellDraft list" where
  "areaCarriers cells r = filter (\<lambda>c. ce_rat c = r \<and> \<not> ce_isDeleted c \<and> carriesAreaCode c) cells"

definition deriveAreaCode :: "cellDraft list \<Rightarrow> tech \<Rightarrow> areaCode" where
  "deriveAreaCode cells r =
    (let field = getAreaCodeField r;
         values = map (\<lambda>c. getCellNumber c field) (areaCarriers cells r);
         first = (case values of [] \<Rightarrow> None | v # _ \<Rightarrow> v)
     in if 1 < length (uniq values) then PerCell else Shared first)"

definition deriveAreaCodes :: "cellDraft list \<Rightarrow> tech \<Rightarrow> areaCode" where
  "deriveAreaCodes cells =
    fold (\<lambda>r areaCodes. areaCodes(r := deriveAreaCode cells r)) RAT_ORDER createSharedAreaCodes"

lemma deriveAreaCodes_apply [simp]: "deriveAreaCodes cells r = deriveAreaCode cells r"
  by (cases r) (simp_all add: deriveAreaCodes_def RAT_ORDER_def)

text \<open>The area value of a cell in a snapshot (model/changes.ts): the shared code, or its own.\<close>

definition getAreaValue :: "stationSnapshot \<Rightarrow> cellDraft \<Rightarrow> number option" where
  "getAreaValue snapshot c =
    (if \<not> carriesAreaCode c then None
     else case sn_areaCodes snapshot (ce_rat c) of
       Shared v \<Rightarrow> v
     | PerCell \<Rightarrow> getCellNumber c (getAreaCodeField (ce_rat c)))"

section \<open>Sharing and splitting the tracking area code\<close>

definition copySharedAreaCode :: "cellDraft \<Rightarrow> areaCode \<Rightarrow> cellDraft" where
  "copySharedAreaCode c areaCode =
    (case areaCode of
       PerCell \<Rightarrow> c
     | Shared v \<Rightarrow>
         (if \<not> carriesAreaCode c \<or> getCellNumber c (getAreaCodeField (ce_rat c)) = v then c
          else c\<lparr>ce_numbers := (ce_numbers c)(getAreaCodeField (ce_rat c) \<mapsto> v)\<rparr>))"

fun isShared :: "areaCode \<Rightarrow> bool" where
  "isShared (Shared _) = True"
| "isShared PerCell = False"

definition splitSharedTacs :: "stationSnapshot \<Rightarrow> stationSnapshot" where
  "splitSharedTacs snapshot =
    (let sharedRats = filter (\<lambda>r. isShared (sn_areaCodes snapshot r)) TAC_RATS
     in if sharedRats = [] then snapshot
        else snapshot\<lparr>
          sn_cells := map (\<lambda>c. if ce_rat c \<in> set sharedRats
                                then copySharedAreaCode c (sn_areaCodes snapshot (ce_rat c)) else c)
                        (sn_cells snapshot),
          sn_areaCodes := fold (\<lambda>r areaCodes. areaCodes(r := PerCell)) sharedRats (sn_areaCodes snapshot)\<rparr>)"

definition shareAgreeingTacs :: "stationSnapshot \<Rightarrow> stationSnapshot" where
  "shareAgreeingTacs snapshot =
    (let perCellRats = filter (\<lambda>r. \<not> isShared (sn_areaCodes snapshot r)) TAC_RATS;
         areaCodes = fold (\<lambda>r areaCodes. areaCodes(r := deriveAreaCode (sn_cells snapshot) r))
                       perCellRats (sn_areaCodes snapshot)
     in if list_all (\<lambda>r. \<not> isShared (areaCodes r)) perCellRats then snapshot
        else snapshot\<lparr>sn_areaCodes := areaCodes\<rparr>)"

definition applyTacRule :: "stationSnapshot \<Rightarrow> bool \<Rightarrow> stationSnapshot" where
  "applyTacRule snapshot hoistedTac =
    (if hoistedTac then shareAgreeingTacs snapshot else splitSharedTacs snapshot)"

text \<open>\<open>for (const r of rats) areaCodes[r] = f(r)\<close>, read at one technology.\<close>

lemma fold_updates [simp]:
  "fold (\<lambda>r m. m(r := f r)) rs m r = (if r \<in> set rs then f r else m r)"
  by (induction rs arbitrary: m) auto

lemma areaCodes_splitSharedTacs:
  "sn_areaCodes (splitSharedTacs sn) r = (if r \<in> set TAC_RATS then PerCell else sn_areaCodes sn r)"
proof (cases "filter (\<lambda>r. isShared (sn_areaCodes sn r)) TAC_RATS = []")
  case True
  then have "r \<in> set TAC_RATS \<Longrightarrow> sn_areaCodes sn r = PerCell"
    by (cases "sn_areaCodes sn r") (auto simp: filter_empty_conv)
  with True show ?thesis by (simp add: splitSharedTacs_def)
next
  case False
  then show ?thesis
    by (cases "sn_areaCodes sn r") (auto simp: splitSharedTacs_def Let_def)
qed

lemma cells_splitSharedTacs:
  "sn_cells (splitSharedTacs sn) =
    map (\<lambda>c. if ce_rat c \<in> set TAC_RATS then copySharedAreaCode c (sn_areaCodes sn (ce_rat c)) else c)
      (sn_cells sn)"
proof (cases "filter (\<lambda>r. isShared (sn_areaCodes sn r)) TAC_RATS = []")
  case True
  then have "r \<in> set TAC_RATS \<Longrightarrow> sn_areaCodes sn r = PerCell" for r
    by (cases "sn_areaCodes sn r") (auto simp: filter_empty_conv)
  with True show ?thesis by (auto simp: splitSharedTacs_def copySharedAreaCode_def intro: map_idI [symmetric])
next
  case False
  have "\<not> isShared a \<Longrightarrow> copySharedAreaCode c a = c" for a c
    by (cases a) (simp_all add: copySharedAreaCode_def)
  with False show ?thesis by (auto simp: splitSharedTacs_def Let_def)
qed

lemma applyTacRule_frame [simp]:
  "sn_station (applyTacRule sn h) = sn_station sn"
  "sn_place (applyTacRule sn h) = sn_place sn"
  "sn_sectors (applyTacRule sn h) = sn_sectors sn"
  by (simp_all add: applyTacRule_def shareAgreeingTacs_def splitSharedTacs_def Let_def)

lemma copySharedAreaCode_frame [simp]:
  "ce_key (copySharedAreaCode c a) = ce_key c" "ce_id (copySharedAreaCode c a) = ce_id c"
  "ce_rat (copySharedAreaCode c a) = ce_rat c" "ce_sectorKey (copySharedAreaCode c a) = ce_sectorKey c"
  "ce_mode (copySharedAreaCode c a) = ce_mode c" "ce_flags (copySharedAreaCode c a) = ce_flags c"
  "ce_isDeleted (copySharedAreaCode c a) = ce_isDeleted c"
  "carriesAreaCode (copySharedAreaCode c a) = carriesAreaCode c"
  by (simp_all add: copySharedAreaCode_def carriesAreaCode_def split: areaCode.split)

lemma cells_applyTacRule:
  "\<exists>f. sn_cells (applyTacRule sn h) = map f (sn_cells sn) \<and>
    (\<forall>c. f c = c \<or> (\<exists>v. f c = copySharedAreaCode c v))"
proof (cases h)
  case True
  then have "sn_cells (applyTacRule sn h) = map (\<lambda>c. c) (sn_cells sn)"
    by (simp add: applyTacRule_def shareAgreeingTacs_def Let_def)
  then show ?thesis by blast
next
  case False
  then show ?thesis
    by (intro exI [of _ "\<lambda>c. if ce_rat c \<in> set TAC_RATS
          then copySharedAreaCode c (sn_areaCodes sn (ce_rat c)) else c"])
      (auto simp: applyTacRule_def cells_splitSharedTacs)
qed

text \<open>Whatever only depends on fields the copy keeps is kept along the whole list.\<close>

lemma map_cells_applyTacRule:
  assumes "\<And>c v. g (copySharedAreaCode c v) = g c"
  shows "map g (sn_cells (applyTacRule sn h)) = map g (sn_cells sn)"
proof -
  obtain f where f: "sn_cells (applyTacRule sn h) = map f (sn_cells sn)"
    "\<forall>c. f c = c \<or> (\<exists>v. f c = copySharedAreaCode c v)"
    using cells_applyTacRule by blast
  have "g (f c) = g c" for c using f(2) assms by metis
  then show ?thesis by (simp add: f(1))
qed

end
