(* ===== verification/CellPatch.thy ===== *)
theory CellPatch
  imports Drafts
begin

text \<open>
  Editing one cell row: \<open>patchCell\<close> of model/draftReducer.ts and what it is built from. A patch
  names the fields to write; a technology takes only its own numbers and flags, only an NR cell
  has a mode and a gNBID length, and a non-standalone cell loses its standalone-only fields.
\<close>

record cellPatch =
  cp_bandId :: "int option option"
  cp_sectorKey :: "draftKey option option"
  cp_cellType :: "cellType option option"
  cp_notes :: "string option"
  cp_isConfirmed :: "bool option"
  cp_mode :: "nrMode option option"
  cp_gnbidLength :: "int option option"
  cp_extraPlmns :: "string list option"
  cp_numbers :: "(cellNumberField \<Rightarrow> number option option) option"
  cp_flags :: "(cellFlagField \<Rightarrow> bool option) option"

definition noPatch :: cellPatch where
  "noPatch = \<lparr>
     cp_bandId = None, cp_sectorKey = None, cp_cellType = None, cp_notes = None,
     cp_isConfirmed = None, cp_mode = None, cp_gnbidLength = None, cp_extraPlmns = None,
     cp_numbers = None, cp_flags = None\<rparr>"

text \<open>\<open>patch.f === undefined ? old : patch.f\<close>, also \<open>patch.f ?? old\<close> where \<open>f\<close> is never null.\<close>

definition orElse :: "'a option \<Rightarrow> 'a \<Rightarrow> 'a" where
  "orElse new old = (case new of None \<Rightarrow> old | Some v \<Rightarrow> v)"

lemma orElse_simps [simp]: "orElse None old = old" "orElse (Some v) old = v"
  by (simp_all add: orElse_def)

lemma orElse_idem [simp]: "orElse new (orElse new old) = orElse new old"
  by (cases new) simp_all

definition clearStandaloneFields :: "cellDraft \<Rightarrow> cellDraft" where
  "clearStandaloneFields c =
    (let spec = RAT_FIELDS (ce_rat c)
     in c\<lparr>ce_numbers := fold (\<lambda>s numbers. if nf_isSaOnly s then numbers(nf_field s \<mapsto> None) else numbers)
                          (rs_numbers spec) (ce_numbers c),
          ce_flags := fold (\<lambda>s flags. if ff_isSaOnly s then flags(ff_field s \<mapsto> False) else flags)
                        (rs_flags spec) (ce_flags c)\<rparr>)"

definition mergeNumbers ::
  "cellDraft \<Rightarrow> (cellNumberField \<Rightarrow> number option option) option \<Rightarrow> cellNumberField \<Rightarrow> number option option" where
  "mergeNumbers c patch =
    (case patch of
       None \<Rightarrow> ce_numbers c
     | Some p \<Rightarrow> fold (\<lambda>s numbers. case p (nf_field s) of None \<Rightarrow> numbers | Some v \<Rightarrow> numbers(nf_field s \<mapsto> v))
                  (rs_numbers (RAT_FIELDS (ce_rat c))) (ce_numbers c))"

definition mergeFlags ::
  "cellDraft \<Rightarrow> (cellFlagField \<Rightarrow> bool option) option \<Rightarrow> cellFlagField \<Rightarrow> bool option" where
  "mergeFlags c patch =
    (case patch of
       None \<Rightarrow> ce_flags c
     | Some p \<Rightarrow> fold (\<lambda>s flags. case p (ff_field s) of None \<Rightarrow> flags | Some v \<Rightarrow> flags(ff_field s \<mapsto> v))
                  (rs_flags (RAT_FIELDS (ce_rat c))) (ce_flags c))"

definition isSameCell :: "cellDraft \<Rightarrow> cellDraft \<Rightarrow> bool" where
  "isSameCell left right \<longleftrightarrow>
     ce_bandId left = ce_bandId right \<and>
     ce_sectorKey left = ce_sectorKey right \<and>
     ce_cellType left = ce_cellType right \<and>
     ce_notes left = ce_notes right \<and>
     ce_isConfirmed left = ce_isConfirmed right \<and>
     ce_mode left = ce_mode right \<and>
     ce_gnbidLength left = ce_gnbidLength right \<and>
     ce_isDeleted left = ce_isDeleted right \<and>
     isSameCodes (ce_extraPlmns left) (ce_extraPlmns right) \<and>
     list_all (\<lambda>s. getCellNumber left (nf_field s) = getCellNumber right (nf_field s))
       (rs_numbers (RAT_FIELDS (ce_rat left))) \<and>
     list_all (\<lambda>s. getCellFlag left (ff_field s) = getCellFlag right (ff_field s))
       (rs_flags (RAT_FIELDS (ce_rat left)))"

definition resolveMode :: "cellDraft \<Rightarrow> cellPatch \<Rightarrow> nrMode option" where
  "resolveMode c patch = (if ce_rat c \<noteq> Nr then None else orElse (cp_mode patch) (ce_mode c))"

definition mergeCell :: "cellDraft \<Rightarrow> cellPatch \<Rightarrow> cellDraft" where
  "mergeCell c patch = c\<lparr>
     ce_bandId := orElse (cp_bandId patch) (ce_bandId c),
     ce_sectorKey := orElse (cp_sectorKey patch) (ce_sectorKey c),
     ce_cellType := orElse (cp_cellType patch) (ce_cellType c),
     ce_notes := orElse (cp_notes patch) (ce_notes c),
     ce_isConfirmed := orElse (cp_isConfirmed patch) (ce_isConfirmed c),
     ce_mode := resolveMode c patch,
     ce_gnbidLength := (if ce_rat c = Nr then orElse (cp_gnbidLength patch) (ce_gnbidLength c)
                        else ce_gnbidLength c),
     ce_numbers := mergeNumbers c (cp_numbers patch),
     ce_flags := mergeFlags c (cp_flags patch),
     ce_extraPlmns := orElse (cp_extraPlmns patch) (ce_extraPlmns c)\<rparr>"

definition patchedCell :: "cellDraft \<Rightarrow> cellPatch \<Rightarrow> cellDraft" where
  "patchedCell c patch =
    (let merged = mergeCell c patch
     in if ce_mode merged = Some Nsa then clearStandaloneFields merged else merged)"

text \<open>\<open>patchCell\<close> hands back the cell itself when the patch changes nothing the editor shows.\<close>

definition patchCell :: "cellDraft \<Rightarrow> cellPatch \<Rightarrow> cellDraft" where
  "patchCell c patch = (let next = patchedCell c patch in if isSameCell c next then c else next)"

definition toNumberPatch :: "cellNumberField \<Rightarrow> number option \<Rightarrow> cellPatch" where
  "toNumberPatch f v = noPatch\<lparr>cp_numbers := Some [f \<mapsto> v]\<rparr>"

definition toFlagPatch :: "cellFlagField \<Rightarrow> bool \<Rightarrow> cellPatch" where
  "toFlagPatch f v = noPatch\<lparr>cp_flags := Some [f \<mapsto> v]\<rparr>"

section \<open>What the loops over a technology's fields compute\<close>

text \<open>The fields of a technology, and those only a standalone cell has.\<close>

definition ratNumbers :: "tech \<Rightarrow> cellNumberField set" where
  "ratNumbers r = set (map nf_field (rs_numbers (RAT_FIELDS r)))"

definition ratFlags :: "tech \<Rightarrow> cellFlagField set" where
  "ratFlags r = set (map ff_field (rs_flags (RAT_FIELDS r)))"

definition saNumbers :: "tech \<Rightarrow> cellNumberField set" where
  "saNumbers r = set (map nf_field (filter nf_isSaOnly (rs_numbers (RAT_FIELDS r))))"

definition saFlags :: "tech \<Rightarrow> cellFlagField set" where
  "saFlags r = set (map ff_field (filter ff_isSaOnly (rs_flags (RAT_FIELDS r))))"

lemmas rat_field_sets = ratNumbers_def ratFlags_def saNumbers_def saFlags_def

lemma saNumbers_simps [simp]:
  "saNumbers Nr = {Tac, Gnbid, Clid}" "saNumbers Lte = {}" "saNumbers Umts = {}" "saNumbers Gsm = {}"
  by (simp_all add: saNumbers_def field_specs)

lemma saFlags_simps [simp]:
  "saFlags Nr = {SupportsRedCap}" "saFlags Lte = {}" "saFlags Umts = {}" "saFlags Gsm = {}"
  by (simp_all add: saFlags_def)

lemma fold_clear:
  "fold (\<lambda>s m. if P s then m(f s \<mapsto> v) else m) xs m x =
    (if x \<in> f ` {s \<in> set xs. P s} then Some v else m x)"
  by (induction xs arbitrary: m) (auto simp: image_iff)

lemma fold_merge:
  "fold (\<lambda>s m. case p (f s) of None \<Rightarrow> m | Some v \<Rightarrow> m(f s \<mapsto> v)) xs m x =
    (if x \<in> f ` set xs \<and> p x \<noteq> None then p x else m x)"
  by (induction xs arbitrary: m) (auto split: option.splits)

lemma numbers_clearStandaloneFields [simp]:
  "ce_numbers (clearStandaloneFields c) x =
    (if x \<in> saNumbers (ce_rat c) then Some None else ce_numbers c x)"
  by (simp add: clearStandaloneFields_def fold_clear saNumbers_def Let_def)

lemma flags_clearStandaloneFields [simp]:
  "ce_flags (clearStandaloneFields c) x =
    (if x \<in> saFlags (ce_rat c) then Some False else ce_flags c x)"
  by (simp add: clearStandaloneFields_def fold_clear saFlags_def Let_def)

lemma mergeNumbers_apply:
  "mergeNumbers c (Some p) x =
    (if x \<in> ratNumbers (ce_rat c) \<and> p x \<noteq> None then p x else ce_numbers c x)"
  by (simp add: mergeNumbers_def fold_merge ratNumbers_def)

lemma mergeFlags_apply:
  "mergeFlags c (Some p) x =
    (if x \<in> ratFlags (ce_rat c) \<and> p x \<noteq> None then p x else ce_flags c x)"
  by (simp add: mergeFlags_def fold_merge ratFlags_def)

lemma mergeNumbers_None [simp]: "mergeNumbers c None = ce_numbers c"
  by (simp add: mergeNumbers_def)

lemma mergeFlags_None [simp]: "mergeFlags c None = ce_flags c"
  by (simp add: mergeFlags_def)

section \<open>What a patch keeps\<close>

lemma clearStandaloneFields_frame [simp]:
  "ce_key (clearStandaloneFields c) = ce_key c" "ce_id (clearStandaloneFields c) = ce_id c"
  "ce_rat (clearStandaloneFields c) = ce_rat c" "ce_mode (clearStandaloneFields c) = ce_mode c"
  "ce_sectorKey (clearStandaloneFields c) = ce_sectorKey c"
  "ce_bandId (clearStandaloneFields c) = ce_bandId c"
  "ce_notes (clearStandaloneFields c) = ce_notes c"
  "ce_isConfirmed (clearStandaloneFields c) = ce_isConfirmed c"
  "ce_cellType (clearStandaloneFields c) = ce_cellType c"
  "ce_gnbidLength (clearStandaloneFields c) = ce_gnbidLength c"
  "ce_extraPlmns (clearStandaloneFields c) = ce_extraPlmns c"
  "ce_isDeleted (clearStandaloneFields c) = ce_isDeleted c"
  by (simp_all add: clearStandaloneFields_def Let_def)

lemma patchedCell_frame [simp]:
  "ce_key (patchedCell c p) = ce_key c" "ce_id (patchedCell c p) = ce_id c"
  "ce_rat (patchedCell c p) = ce_rat c" "ce_isDeleted (patchedCell c p) = ce_isDeleted c"
  "ce_sectorKey (patchedCell c p) = orElse (cp_sectorKey p) (ce_sectorKey c)"
  "ce_mode (patchedCell c p) = resolveMode c p"
  by (simp_all add: patchedCell_def mergeCell_def Let_def)

lemma patchCell_frame [simp]:
  "ce_key (patchCell c p) = ce_key c" "ce_id (patchCell c p) = ce_id c"
  "ce_rat (patchCell c p) = ce_rat c" "ce_isDeleted (patchCell c p) = ce_isDeleted c"
  by (simp_all add: patchCell_def Let_def)

lemma sectorKey_patchCell: "ce_sectorKey (patchCell c p) = orElse (cp_sectorKey p) (ce_sectorKey c)"
  by (auto simp: patchCell_def Let_def isSameCell_def)

lemma mode_patchCell: "ce_mode (patchCell c p) = resolveMode c p"
  by (auto simp: patchCell_def Let_def isSameCell_def)

lemma isSameCell_refl [simp]: "isSameCell c c"
  by (simp add: isSameCell_def isSameCodes_def)

lemma patchCell_cases:
  obtains (same) "patchCell c p = c" "isSameCell c (patchedCell c p)"
    | (fresh) "patchCell c p = patchedCell c p" "\<not> isSameCell c (patchedCell c p)"
  by (cases "isSameCell c (patchedCell c p)") (auto simp: patchCell_def Let_def)

text \<open>What a patched cell shows is what the merged row would show, whichever object came back.\<close>

lemma isSameCell_sym: "ce_rat a = ce_rat b \<Longrightarrow> isSameCell a b \<Longrightarrow> set (ce_extraPlmns b) \<subseteq> set (ce_extraPlmns a) \<Longrightarrow> isSameCell b a"
  by (auto simp: isSameCell_def isSameCodes_def)

lemma number_patchCell:
  assumes "f \<in> ratNumbers (ce_rat c)"
  shows "getCellNumber (patchCell c p) f = getCellNumber (patchedCell c p) f"
  using assms
  by (cases rule: patchCell_cases [of c p]) (auto simp: isSameCell_def ratNumbers_def)

lemma flag_patchCell:
  assumes "f \<in> ratFlags (ce_rat c)"
  shows "getCellFlag (patchCell c p) f = getCellFlag (patchedCell c p) f"
  using assms
  by (cases rule: patchCell_cases [of c p]) (auto simp: isSameCell_def ratFlags_def)

lemma saNumbers_ratNumbers: "saNumbers r \<subseteq> ratNumbers r"
  by (auto simp: rat_field_sets)

lemma saFlags_ratFlags: "saFlags r \<subseteq> ratFlags r"
  by (auto simp: rat_field_sets)

section \<open>Well-formed cells\<close>

text \<open>
  Only NR cells have a mode, and a non-standalone cell shows no standalone-only number and no
  standalone-only flag.
\<close>

definition nsaClean :: "cellDraft \<Rightarrow> bool" where
  "nsaClean c \<longleftrightarrow>
     (ce_rat c \<noteq> Nr \<longrightarrow> ce_mode c = None) \<and>
     (ce_mode c = Some Nsa \<longrightarrow>
        (\<forall>f\<in>saNumbers (ce_rat c). getCellNumber c f = None) \<and>
        (\<forall>f\<in>saFlags (ce_rat c). \<not> getCellFlag c f))"

lemma nsaClean_patchedCell: "nsaClean (patchedCell c p)"
proof -
  have mode: "ce_mode (mergeCell c p) = resolveMode c p" "ce_rat (mergeCell c p) = ce_rat c"
    by (simp_all add: mergeCell_def)
  show ?thesis
  proof (cases "resolveMode c p = Some Nsa")
    case True
    then show ?thesis
      by (auto simp: nsaClean_def patchedCell_def Let_def mode getCellNumber_def getCellFlag_def
          resolveMode_def split: if_splits)
  next
    case False
    then show ?thesis by (auto simp: nsaClean_def patchedCell_def Let_def mode resolveMode_def)
  qed
qed

lemma nsaClean_patchCell: "nsaClean (patchCell c p)"
proof (cases rule: patchCell_cases [of c p])
  case same
  have clean: "nsaClean (patchedCell c p)" by (rule nsaClean_patchedCell)
  have number: "getCellNumber c f = getCellNumber (patchedCell c p) f" if "f \<in> saNumbers (ce_rat c)" for f
    using same(2) that saNumbers_ratNumbers by (auto simp: isSameCell_def ratNumbers_def)
  have flag: "getCellFlag c f = getCellFlag (patchedCell c p) f" if "f \<in> saFlags (ce_rat c)" for f
    using same(2) that saFlags_ratFlags by (auto simp: isSameCell_def ratFlags_def)
  have "ce_mode c = ce_mode (patchedCell c p)"
    using same(2) by (simp add: isSameCell_def)
  with clean number flag show ?thesis
    unfolding same(1) nsaClean_def by simp
next
  case fresh
  then show ?thesis using nsaClean_patchedCell [of c p] by simp
qed

interpretation cells: keyed_rows ce_key "\<lambda>p c. patchCell c p"
  by unfold_locales simp

interpretation sectors: keyed_rows se_key "\<lambda>degrees s. s\<lparr>se_degrees := degrees\<rparr>"
  by unfold_locales simp

text \<open>Applying the same patch twice changes nothing more.\<close>

lemma numbers_patchedCell:
  "ce_numbers (patchedCell c p) f =
    (if resolveMode c p = Some Nsa \<and> f \<in> saNumbers (ce_rat c) then Some None
     else mergeNumbers c (cp_numbers p) f)"
  by (simp add: patchedCell_def mergeCell_def Let_def)

lemma flags_patchedCell:
  "ce_flags (patchedCell c p) f =
    (if resolveMode c p = Some Nsa \<and> f \<in> saFlags (ce_rat c) then Some False
     else mergeFlags c (cp_flags p) f)"
  by (simp add: patchedCell_def mergeCell_def Let_def)

lemma resolveMode_patchedCell [simp]: "resolveMode (patchedCell c p) p = resolveMode c p"
  by (simp add: resolveMode_def)

lemma numbers_patchedCell_twice:
  "ce_numbers (patchedCell (patchedCell c p) p) f = ce_numbers (patchedCell c p) f"
proof (cases "cp_numbers p")
  case None
  then show ?thesis by (simp add: numbers_patchedCell)
next
  case (Some q)
  then show ?thesis
    by (simp add: numbers_patchedCell [of "patchedCell c p"] mergeNumbers_apply)
      (simp add: numbers_patchedCell mergeNumbers_apply)
qed

lemma flags_patchedCell_twice:
  "ce_flags (patchedCell (patchedCell c p) p) f = ce_flags (patchedCell c p) f"
proof (cases "cp_flags p")
  case None
  then show ?thesis by (simp add: flags_patchedCell)
next
  case (Some q)
  then show ?thesis
    by (simp add: flags_patchedCell [of "patchedCell c p"] mergeFlags_apply)
      (simp add: flags_patchedCell mergeFlags_apply)
qed

lemma patchedCell_idem_shown: "isSameCell (patchedCell c p) (patchedCell (patchedCell c p) p)"
proof -
  have rest: "ce_bandId (patchedCell d p) = orElse (cp_bandId p) (ce_bandId d)"
    "ce_cellType (patchedCell d p) = orElse (cp_cellType p) (ce_cellType d)"
    "ce_notes (patchedCell d p) = orElse (cp_notes p) (ce_notes d)"
    "ce_isConfirmed (patchedCell d p) = orElse (cp_isConfirmed p) (ce_isConfirmed d)"
    "ce_extraPlmns (patchedCell d p) = orElse (cp_extraPlmns p) (ce_extraPlmns d)"
    "ce_gnbidLength (patchedCell d p) = (if ce_rat d = Nr then orElse (cp_gnbidLength p) (ce_gnbidLength d)
       else ce_gnbidLength d)" for d
    by (simp_all add: patchedCell_def mergeCell_def Let_def)
  show ?thesis
    by (simp add: isSameCell_def isSameCodes_def rest getCellNumber_def getCellFlag_def
        numbers_patchedCell_twice flags_patchedCell_twice)
qed

lemma patchCell_idem: "patchCell (patchCell c p) p = patchCell c p"
proof (cases rule: patchCell_cases [of c p])
  case same
  then show ?thesis by simp
next
  case fresh
  then show ?thesis
    using patchedCell_idem_shown [of c p] by (simp add: patchCell_def Let_def)
qed

end
