(* ===== verification/DraftReducer.thy ===== *)
theory DraftReducer
  imports CellPatch
begin

text \<open>
  The editor's state machine, model/draftReducer.ts: the session, one function per action, and the
  reducer that also drops the server errors an action makes outdated. A function of type
  \<open>editSession option\<close> returns \<open>None\<close> where the source hands back the session it was given.

  Two things the source reads from its runtime are parameters: \<open>freshKey\<close>, the key \<open>newDraftKey\<close>
  (nanoid) returns, and \<open>same\<close>, whether an object of the live snapshot that an action hands back is
  the very object the draft already holds (it is when the draft still shares it).
\<close>

section \<open>Where the edited station stands (model/changes.ts)\<close>

definition isMarkerAt :: "placeDraft \<Rightarrow> placeDraft \<Rightarrow> bool" where
  "isMarkerAt p q \<longleftrightarrow> pl_latitude p = pl_latitude q \<and> pl_longitude p = pl_longitude q"

definition isMarkerMoved :: "placeDraft option \<Rightarrow> placeDraft option \<Rightarrow> bool" where
  "isMarkerMoved place basePlace =
    (case (place, basePlace) of
       (Some p, Some b) \<Rightarrow> pl_latitude p \<noteq> None \<and> pl_longitude p \<noteq> None \<and> \<not> isMarkerAt p b
     | _ \<Rightarrow> False)"

definition hasMarkerMoved :: "editSession \<Rightarrow> bool" where
  "hasMarkerMoved s = isMarkerMoved (sn_place (es_draft s)) (Option.bind (es_live s) sn_place)"

definition movesStationAlone :: "editSession \<Rightarrow> bool" where
  "movesStationAlone s \<longleftrightarrow>
     hasMarkerMoved s \<and> map_option pl_move (sn_place (es_draft s)) \<noteq> Some MoveLocation"

definition findStationLocationId :: "editSession \<Rightarrow> int option" where
  "findStationLocationId s =
    Option.bind (case es_live s of None \<Rightarrow> sn_place (es_draft s) | Some live \<Rightarrow> sn_place live)
      pl_locationId"

section \<open>The session\<close>

record sessionInput =
  in_kind :: editKind
  in_action :: editAction
  in_countryCode :: "string option"
  in_live :: "stationSnapshot option"
  in_proposed :: "stationSnapshot option"
  in_initialDraft :: "stationSnapshot option"

definition listRatsWithCells :: "cellDraft list \<Rightarrow> tech list" where
  "listRatsWithCells cells = filter (\<lambda>r. list_ex (\<lambda>c. ce_rat c = r) cells) RAT_ORDER"

definition listEnabledRats :: "tech list \<Rightarrow> cellDraft list \<Rightarrow> tech list" where
  "listEnabledRats wantedRats cells =
    filter (\<lambda>r. r \<in> set wantedRats \<or> list_ex (\<lambda>c. ce_rat c = r) cells) RAT_ORDER"

definition createSession :: "sessionInput \<Rightarrow> editSession" where
  "createSession input =
    (let hoistedTac = (case in_countryCode input of None \<Rightarrow> True
                       | Some code \<Rightarrow> cv_hoistedTac (conventionsFor (Some code)));
         base = (case in_initialDraft input of Some d \<Rightarrow> d
                 | None \<Rightarrow> (case in_proposed input of Some p \<Rightarrow> p
                            | None \<Rightarrow> (case in_live input of Some l \<Rightarrow> l | None \<Rightarrow> EMPTY_SNAPSHOT)));
         initial = applyTacRule base hoistedTac
     in \<lparr>es_kind = in_kind input, es_action = in_action input,
         es_countryCode = in_countryCode input, es_hoistedTac = hoistedTac,
         es_editsHostStations = False, es_live = in_live input, es_proposed = in_proposed input,
         es_initial = initial, es_draft = initial,
         es_enabledRats = listRatsWithCells (sn_cells initial),
         es_serverErrors = [], es_isSaveAttempted = False\<rparr>)"

definition isSameOwner :: "ownerChoice \<Rightarrow> ownerChoice \<Rightarrow> bool" where
  "isSameOwner left right =
    (case (left, right) of
       (OwnerListed i, OwnerListed j) \<Rightarrow> i = j
     | (OwnerProposed n, OwnerProposed m) \<Rightarrow> n = m
     | (OwnerUnknown, OwnerUnknown) \<Rightarrow> True
     | _ \<Rightarrow> False)"

lemma isSameOwner_eq [simp]: "isSameOwner left right \<longleftrightarrow> left = right"
  by (cases left; cases right) (simp_all add: isSameOwner_def)

text \<open>
  The callers of \<open>withDraft\<close>, \<open>withStation\<close> and \<open>withPlace\<close> pass an object they have just built,
  except the reverts, which state their reference test themselves (\<open>handBack\<close>).
\<close>

definition withDraft :: "editSession \<Rightarrow> stationSnapshot \<Rightarrow> editSession" where
  "withDraft s d = s\<lparr>es_draft := d\<rparr>"

definition withStation :: "editSession \<Rightarrow> stationDraft \<Rightarrow> editSession" where
  "withStation s st = withDraft s ((es_draft s)\<lparr>sn_station := st\<rparr>)"

definition withPlace :: "editSession \<Rightarrow> placeDraft option \<Rightarrow> editSession" where
  "withPlace s p = withDraft s ((es_draft s)\<lparr>sn_place := p\<rparr>)"

definition withCells :: "editSession \<Rightarrow> cellDraft list \<Rightarrow> editSession" where
  "withCells s cells =
    (let enabledRats = listEnabledRats (es_enabledRats s) cells
     in (withDraft s ((es_draft s)\<lparr>sn_cells := cells\<rparr>))\<lparr>
          es_enabledRats := (if length enabledRats = length (es_enabledRats s)
                             then es_enabledRats s else enabledRats)\<rparr>)"

section \<open>Station\<close>

record stationPatch =
  sp_siteId :: "string option"
  sp_status :: "stationStatus option"
  sp_isConfirmed :: "bool option"
  sp_notes :: "string option"

definition patchStation :: "editSession \<Rightarrow> stationPatch \<Rightarrow> editSession option" where
  "patchStation s patch =
    (let station = sn_station (es_draft s);
         next = station\<lparr>
           st_siteId := orElse (sp_siteId patch) (st_siteId station),
           st_status := orElse (sp_status patch) (st_status station),
           st_isConfirmed := orElse (sp_isConfirmed patch) (st_isConfirmed station),
           st_notes := orElse (sp_notes patch) (st_notes station)\<rparr>;
         isSame = (st_siteId next = st_siteId station \<and> st_status next = st_status station \<and>
           st_isConfirmed next = st_isConfirmed station \<and> st_notes next = st_notes station)
     in if isSame then None else Some (withStation s next))"

definition dropOwnerPlmn :: "editSession \<Rightarrow> string option \<Rightarrow> editSession option" where
  "dropOwnerPlmn s ownerPlmn =
    (case ownerPlmn of
       None \<Rightarrow> None
     | Some plmn \<Rightarrow>
         (if \<not> list_ex (\<lambda>c. plmn \<in> set (ce_extraPlmns c)) (sn_cells (es_draft s)) then None
          else Some (withCells s
            (map (\<lambda>c. if plmn \<in> set (ce_extraPlmns c)
                       then c\<lparr>ce_extraPlmns := filter (\<lambda>code. code \<noteq> plmn) (ce_extraPlmns c)\<rparr> else c)
              (sn_cells (es_draft s))))))"

definition setOperator ::
  "editSession \<Rightarrow> int option \<Rightarrow> string option \<Rightarrow> identifierKind list \<Rightarrow> editSession option" where
  "setOperator s operatorId ownerPlmn identifierKinds =
    (let station = sn_station (es_draft s);
         identifiers = fold (\<lambda>kind ids. if kind \<notin> set identifierKinds then ids(kind := []) else ids)
                         IDENTIFIER_KINDS (st_identifiers station);
         keepsIdentifiers = list_all (\<lambda>kind. identifiers kind = st_identifiers station kind) IDENTIFIER_KINDS
     in if st_operatorId station = operatorId \<and> keepsIdentifiers then None
        else let next = withStation s (station\<lparr>st_operatorId := operatorId,
                     st_identifiers := (if keepsIdentifiers then st_identifiers station else identifiers)\<rparr>)
             in if st_operatorId station = operatorId then Some next
                else Some (settle next (dropOwnerPlmn next ownerPlmn)))"

definition setHostStation :: "editSession \<Rightarrow> int option \<Rightarrow> editSession option" where
  "setHostStation s hostStationId =
    (let station = sn_station (es_draft s)
     in if st_hostStationId station = hostStationId then None
        else Some (withStation s (station\<lparr>st_hostStationId := hostStationId\<rparr>)))"

definition liveHostStationId :: "editSession \<Rightarrow> int option" where
  "liveHostStationId s = Option.bind (es_live s) (\<lambda>live. st_hostStationId (sn_station live))"

definition setHostStationEditing :: "editSession \<Rightarrow> bool \<Rightarrow> editSession option" where
  "setHostStationEditing s editsHostStations =
    (if es_editsHostStations s = editsHostStations then None
     else let next = s\<lparr>es_editsHostStations := editsHostStations\<rparr>
          in if editsHostStations then Some next
             else Some (settle next (setHostStation next (liveHostStationId s))))"

definition leavesHostLocation :: "editSession \<Rightarrow> editSession \<Rightarrow> bool" where
  "leavesHostLocation before after =
    (case es_live after of
       None \<Rightarrow> findStationLocationId after \<noteq> findStationLocationId before
     | Some _ \<Rightarrow> movesStationAlone after)"

definition dropHostOfMovedStation :: "editSession \<Rightarrow> editSession option \<Rightarrow> editSession option" where
  "dropHostOfMovedStation before r =
    andThen before r (\<lambda>after.
      if \<not> es_editsHostStations after \<or> \<not> leavesHostLocation before after then None
      else setHostStation after None)"

definition setIdentifier :: "editSession \<Rightarrow> identifierKind \<Rightarrow> string \<Rightarrow> editSession option" where
  "setIdentifier s kind value =
    (let station = sn_station (es_draft s)
     in if st_identifiers station kind = value then None
        else Some (withStation s (station\<lparr>st_identifiers := (st_identifiers station)(kind := value)\<rparr>)))"

record backhaulPatch =
  bp_medium :: "backhaulMedium option option"
  bp_speedMbps :: "number option option"
  bp_model :: "string option"

definition setBackhaul :: "editSession \<Rightarrow> backhaulPatch \<Rightarrow> editSession option" where
  "setBackhaul s patch =
    (let station = sn_station (es_draft s);
         current = st_backhaul station;
         medium = orElse (bp_medium patch) (bh_medium current);
         speedMbps = orElse (bp_speedMbps patch) (bh_speedMbps current);
         model = orElse (bp_model patch) (bh_model current);
         backhaul = (if medium = None then EMPTY_BACKHAUL
                     else \<lparr>bh_medium = medium, bh_speedMbps = speedMbps, bh_model = model\<rparr>);
         isSame = (bh_medium backhaul = bh_medium current \<and>
           bh_speedMbps backhaul = bh_speedMbps current \<and> bh_model backhaul = bh_model current)
     in if isSame then None else Some (withStation s (station\<lparr>st_backhaul := backhaul\<rparr>)))"

section \<open>Place\<close>

record placePatch =
  pp_locationId :: "int option option"
  pp_latitude :: "number option option"
  pp_longitude :: "number option option"
  pp_regionId :: "int option option"
  pp_isRegionPicked :: "bool option"
  pp_city :: "string option"
  pp_address :: "string option"
  pp_move :: "locationMove option"

definition noPlacePatch :: placePatch where
  "noPlacePatch = \<lparr>
     pp_locationId = None, pp_latitude = None, pp_longitude = None, pp_regionId = None,
     pp_isRegionPicked = None, pp_city = None, pp_address = None, pp_move = None\<rparr>"

definition placeOf :: "editSession \<Rightarrow> placeDraft" where
  "placeOf s = (case sn_place (es_draft s) of None \<Rightarrow> createEmptyPlace | Some p \<Rightarrow> p)"

definition samePlaceValues :: "placeDraft \<Rightarrow> placeDraft \<Rightarrow> bool" where
  "samePlaceValues p q \<longleftrightarrow>
     pl_locationId p = pl_locationId q \<and> pl_latitude p = pl_latitude q \<and>
     pl_longitude p = pl_longitude q \<and> pl_regionId p = pl_regionId q \<and>
     pl_isRegionPicked p = pl_isRegionPicked q \<and> pl_city p = pl_city q \<and>
     pl_address p = pl_address q \<and> pl_move p = pl_move q"

definition patchPlace :: "editSession \<Rightarrow> placePatch \<Rightarrow> editSession option" where
  "patchPlace s patch =
    (let place = placeOf s;
         next = place\<lparr>
           pl_locationId := orElse (pp_locationId patch) (pl_locationId place),
           pl_latitude := orElse (pp_latitude patch) (pl_latitude place),
           pl_longitude := orElse (pp_longitude patch) (pl_longitude place),
           pl_regionId := orElse (pp_regionId patch) (pl_regionId place),
           pl_isRegionPicked := orElse (pp_isRegionPicked patch) (pl_isRegionPicked place),
           pl_city := orElse (pp_city patch) (pl_city place),
           pl_address := orElse (pp_address patch) (pl_address place),
           pl_move := orElse (pp_move patch) (pl_move place)\<rparr>
     in case sn_place (es_draft s) of
          Some current \<Rightarrow> (if samePlaceValues next current then None else Some (withPlace s (Some next)))
        | None \<Rightarrow> Some (withPlace s (Some next)))"

text \<open>A picked place has no \<open>move\<close> and no \<open>isRegionPicked\<close> of its own: both are overwritten.\<close>

definition pickPlace :: "editSession \<Rightarrow> placeDraft \<Rightarrow> editSession option" where
  "pickPlace s picked =
    (let move = (case sn_place (es_draft s) of None \<Rightarrow> MoveStation | Some p \<Rightarrow> pl_move p)
     in Some (withPlace s (Some (picked\<lparr>pl_isRegionPicked := False, pl_move := move\<rparr>))))"

record structurePatch =
  tp_type :: "structureType option option"
  tp_owner :: "ownerChoice option"
  tp_note :: "string option"

definition noStructurePatch :: structurePatch where
  "noStructurePatch = \<lparr>tp_type = None, tp_owner = None, tp_note = None\<rparr>"

definition patchStructure :: "editSession \<Rightarrow> structurePatch \<Rightarrow> editSession option" where
  "patchStructure s patch =
    (let place = placeOf s;
         structure = pl_structure place;
         next = \<lparr>sd_type = orElse (tp_type patch) (sd_type structure),
                 sd_owner = orElse (tp_owner patch) (sd_owner structure),
                 sd_note = orElse (tp_note patch) (sd_note structure)\<rparr>;
         isSame = (sd_type next = sd_type structure \<and> sd_note next = sd_note structure \<and>
           isSameOwner (sd_owner next) (sd_owner structure))
     in if sn_place (es_draft s) \<noteq> None \<and> isSame then None
        else Some (withPlace s (Some (place\<lparr>pl_structure := next\<rparr>))))"

section \<open>Sectors\<close>

definition hasSectorRow :: "sectorDraft list \<Rightarrow> draftKey \<Rightarrow> bool" where
  "hasSectorRow sectors key \<longleftrightarrow> key \<in> set (map se_key sectors)"

definition isAttached :: "sectorDraft list \<Rightarrow> cellDraft \<Rightarrow> bool" where
  "isAttached sectors c =
    (case ce_sectorKey c of None \<Rightarrow> True | Some key \<Rightarrow> hasSectorRow sectors key)"

definition detachCells :: "cellDraft list \<Rightarrow> sectorDraft list \<Rightarrow> cellDraft list" where
  "detachCells cells sectors =
    (if list_all (isAttached sectors) cells then cells
     else map (\<lambda>c. if isAttached sectors c then c else c\<lparr>ce_sectorKey := None\<rparr>) cells)"

definition withSectors :: "editSession \<Rightarrow> sectorDraft list \<Rightarrow> editSession" where
  "withSectors s sectors =
    withDraft s ((es_draft s)\<lparr>sn_sectors := sectors, sn_cells := detachCells (sn_cells (es_draft s)) sectors\<rparr>)"

definition addSector :: "editSession \<Rightarrow> number option \<Rightarrow> draftKey option \<Rightarrow> draftKey \<Rightarrow> editSession option" where
  "addSector s degrees newKey freshKey =
    (let sectors = sn_sectors (es_draft s)
     in if MAX_SECTORS \<le> length sectors then None
        else Some (withSectors s (sectors @ [createSectorDraft degrees newKey freshKey])))"

definition setSector :: "editSession \<Rightarrow> draftKey \<Rightarrow> number option \<Rightarrow> editSession option" where
  "setSector s key degrees =
    (let sectors = sn_sectors (es_draft s)
     in if \<not> list_ex (\<lambda>sector. se_key sector = key \<and> se_degrees sector \<noteq> degrees) sectors then None
        else Some (withSectors s
          (map (\<lambda>sector. if se_key sector = key then sector\<lparr>se_degrees := degrees\<rparr> else sector) sectors)))"

definition removeSector :: "editSession \<Rightarrow> draftKey \<Rightarrow> editSession option" where
  "removeSector s key =
    (let sectors = sn_sectors (es_draft s)
     in if \<not> list_ex (\<lambda>sector. se_key sector = key) sectors then None
        else Some (withSectors s (filter (\<lambda>sector. se_key sector \<noteq> key) sectors)))"

definition moveSector :: "editSession \<Rightarrow> draftKey \<Rightarrow> int \<Rightarrow> editSession option" where
  "moveSector s key toIndex =
    (let sectors = sn_sectors (es_draft s);
         target = nat (max 0 (min (int (length sectors) - 1) toIndex))
     in case findIndex (\<lambda>sector. se_key sector = key) sectors of
          None \<Rightarrow> None
        | Some fromIndex \<Rightarrow>
            (if fromIndex = target then None
             else Some (withSectors s
               (spliceAt target (take 1 (drop fromIndex sectors))
                 (filter (\<lambda>sector. se_key sector \<noteq> key) sectors)))))"

definition orderSectors :: "editSession \<Rightarrow> draftKey list \<Rightarrow> editSession option" where
  "orderSectors s keys =
    (let sectors = sn_sectors (es_draft s);
         wanted = uniq keys;
         listed = concat (map (\<lambda>key. case List.find (\<lambda>sector. se_key sector = key) sectors of
                                        None \<Rightarrow> [] | Some sector \<Rightarrow> [sector]) wanted);
         ordered = listed @ filter (\<lambda>sector. se_key sector \<notin> set wanted) sectors
     in if ordered = take (length ordered) sectors then None else Some (withSectors s ordered))"

section \<open>Cells\<close>

record newCellOptions =
  nc_isConfirmed :: bool
  nc_bandId :: "int option"
  nc_afterKey :: "draftKey option"
  nc_newKey :: "draftKey option"

fun NODE_COPIED_TO_NEW_ROW :: "tech \<Rightarrow> cellNumberField option" where
  "NODE_COPIED_TO_NEW_ROW Lte = Some Enbid"
| "NODE_COPIED_TO_NEW_ROW Umts = Some Rnc"
| "NODE_COPIED_TO_NEW_ROW _ = None"

definition DUPLICATE_CLEARED_NUMBERS :: "cellNumberField list" where
  "DUPLICATE_CLEARED_NUMBERS = [Pci, Clid, Cid]"

definition findInsertIndex :: "cellDraft list \<Rightarrow> tech \<Rightarrow> draftKey option \<Rightarrow> nat" where
  "findInsertIndex cells r afterKey =
    (case Option.bind afterKey (\<lambda>key. findIndex (\<lambda>c. ce_key c = key) cells) of
       Some afterIndex \<Rightarrow> Suc afterIndex
     | None \<Rightarrow>
         (case findIndex (\<lambda>c. ce_rat c = r) (rev cells) of
            Some fromEnd \<Rightarrow> length cells - fromEnd
          | None \<Rightarrow> length cells))"

definition newCellRow :: "cellDraft list \<Rightarrow> tech \<Rightarrow> newCellOptions \<Rightarrow> draftKey \<Rightarrow> cellDraft" where
  "newCellRow cells r options freshKey =
    (let first = List.find (\<lambda>c. ce_rat c = r \<and> \<not> ce_isDeleted c) cells;
         numbers = (case (first, NODE_COPIED_TO_NEW_ROW r) of
                      (Some f, Some node) \<Rightarrow> [node \<mapsto> getCellNumber f node]
                    | _ \<Rightarrow> Map.empty)
     in createCellDraft r (noInit\<lparr>
          ci_key := Some (orElse (nc_newKey options) freshKey),
          ci_bandId := (case Option.bind first ce_bandId of Some b \<Rightarrow> Some b | None \<Rightarrow> nc_bandId options),
          ci_isConfirmed := Some (nc_isConfirmed options),
          ci_numbers := numbers,
          ci_extraPlmns := map_option ce_extraPlmns first\<rparr>) freshKey)"

definition insertCell :: "cellDraft list \<Rightarrow> tech \<Rightarrow> newCellOptions \<Rightarrow> draftKey \<Rightarrow> cellDraft list" where
  "insertCell cells r options freshKey =
    spliceAt (findInsertIndex cells r (nc_afterKey options)) [newCellRow cells r options freshKey] cells"

text \<open>
  \<open>change\<close> returns \<open>None\<close> for the cell it was given; the row is replaced at its index.
\<close>

definition replaceCell ::
  "editSession \<Rightarrow> draftKey \<Rightarrow> (cellDraft \<Rightarrow> cellDraft option) \<Rightarrow> editSession option" where
  "replaceCell s key change =
    (let cells = sn_cells (es_draft s)
     in case findIndex (\<lambda>c. ce_key c = key) cells of
          None \<Rightarrow> None
        | Some index \<Rightarrow>
            (case change (cells ! index) of
               None \<Rightarrow> None
             | Some next \<Rightarrow> Some (withCells s (cells[index := next]))))"

text \<open>\<open>patchCell\<close> as a change: the same object exactly when the shown values agree.\<close>

definition patchChange :: "cellPatch \<Rightarrow> cellDraft \<Rightarrow> cellDraft option" where
  "patchChange patch c =
    (let next = patchedCell c patch in if isSameCell c next then None else Some next)"

definition copyOfCell :: "cellDraft \<Rightarrow> bool option \<Rightarrow> draftKey option \<Rightarrow> draftKey \<Rightarrow> cellDraft" where
  "copyOfCell source isConfirmed newKey freshKey =
    createCellDraft (ce_rat source) (noInit\<lparr>
      ci_key := Some (orElse newKey freshKey),
      ci_bandId := ce_bandId source,
      ci_cellType := Some (ce_cellType source),
      ci_notes := Some (ce_notes source),
      ci_isConfirmed := Some (orElse isConfirmed (ce_isConfirmed source)),
      ci_mode := ce_mode source,
      ci_gnbidLength := ce_gnbidLength source,
      ci_numbers := fold (\<lambda>f numbers. if numbers f \<noteq> None then numbers(f \<mapsto> None) else numbers)
                      DUPLICATE_CLEARED_NUMBERS (ce_numbers source),
      ci_flags := ce_flags source,
      ci_extraPlmns := Some (ce_extraPlmns source)\<rparr>) freshKey"

definition duplicateCell ::
  "editSession \<Rightarrow> draftKey \<Rightarrow> bool option \<Rightarrow> draftKey option \<Rightarrow> draftKey \<Rightarrow> editSession option" where
  "duplicateCell s key isConfirmed newKey freshKey =
    (let cells = sn_cells (es_draft s)
     in case findIndex (\<lambda>c. ce_key c = key) cells of
          None \<Rightarrow> None
        | Some index \<Rightarrow> Some (withCells s
            (spliceAt (Suc index) [copyOfCell (cells ! index) isConfirmed newKey freshKey] cells)))"

definition removeCell :: "editSession \<Rightarrow> draftKey \<Rightarrow> editSession option" where
  "removeCell s key =
    (let cells = sn_cells (es_draft s)
     in case findIndex (\<lambda>c. ce_key c = key) cells of
          None \<Rightarrow> None
        | Some index \<Rightarrow>
            (if ce_id (cells ! index) \<noteq> None
             then replaceCell s key (\<lambda>c. if ce_isDeleted c then None else Some (c\<lparr>ce_isDeleted := True\<rparr>))
             else Some (withCells s (dropAt index cells))))"

definition restoreCell :: "editSession \<Rightarrow> draftKey \<Rightarrow> editSession option" where
  "restoreCell s key =
    replaceCell s key (\<lambda>c. if ce_isDeleted c then Some (c\<lparr>ce_isDeleted := False\<rparr>) else None)"

section \<open>Area codes\<close>

definition isSameAreaCode :: "areaCode \<Rightarrow> areaCode \<Rightarrow> bool" where
  "isSameAreaCode left right =
    (case (left, right) of
       (Shared v, Shared w) \<Rightarrow> v = w
     | (PerCell, PerCell) \<Rightarrow> True
     | _ \<Rightarrow> False)"

lemma isSameAreaCode_eq [simp]: "isSameAreaCode left right \<longleftrightarrow> left = right"
  by (cases left; cases right) (simp_all add: isSameAreaCode_def)

definition withAreaCode :: "editSession \<Rightarrow> tech \<Rightarrow> areaCode \<Rightarrow> editSession option" where
  "withAreaCode s r areaCode =
    (let areaCodes = sn_areaCodes (es_draft s)
     in if isSameAreaCode (areaCodes r) areaCode then None
        else Some (withDraft s ((es_draft s)\<lparr>sn_areaCodes := areaCodes(r := areaCode)\<rparr>)))"

definition shareAreaCode :: "editSession \<Rightarrow> tech \<Rightarrow> number option \<Rightarrow> editSession option" where
  "shareAreaCode s r value =
    (if canShareAreaCode r (es_hoistedTac s) then withAreaCode s r (Shared value) else None)"

text \<open>\<open>counts\<close> is a \<open>Map\<close>, read back in insertion order.\<close>

definition countValue :: "number \<Rightarrow> (number \<times> nat) list \<Rightarrow> (number \<times> nat) list" where
  "countValue v counts =
    AList.update v (Suc (case map_of counts v of None \<Rightarrow> 0 | Some n \<Rightarrow> n)) counts"

definition areaCodeValues :: "cellDraft list \<Rightarrow> tech \<Rightarrow> number list" where
  "areaCodeValues cells r =
    concat (map (\<lambda>c. case getCellNumber c (getAreaCodeField r) of None \<Rightarrow> [] | Some v \<Rightarrow> [v])
      (filter (\<lambda>c. ce_rat c = r \<and> \<not> ce_isDeleted c \<and> carriesAreaCode c) cells))"

fun pickWinner :: "(number \<times> nat) list \<Rightarrow> number option \<times> nat \<Rightarrow> number option \<times> nat" where
  "pickWinner [] winner = winner"
| "pickWinner ((value, count) # counts) winner =
     pickWinner counts (if count \<le> snd winner then winner else (Some value, count))"

definition findMostFrequentAreaCode :: "cellDraft list \<Rightarrow> tech \<Rightarrow> number option" where
  "findMostFrequentAreaCode cells r =
    fst (pickWinner (fold countValue (areaCodeValues cells r) []) (None, 0))"

section \<open>Country rule, technologies, action\<close>

definition findTacRuleChange :: "editSession \<Rightarrow> string option \<Rightarrow> bool option" where
  "findTacRuleChange s countryCode =
    (case countryCode of
       None \<Rightarrow> None
     | Some code \<Rightarrow>
         (let hoistedTac = cv_hoistedTac (conventionsFor (Some code))
          in if hoistedTac = es_hoistedTac s then None else Some hoistedTac))"

definition setHoistedTac :: "editSession \<Rightarrow> bool \<Rightarrow> editSession option" where
  "setHoistedTac s hoistedTac =
    (if es_hoistedTac s = hoistedTac then None
     else Some (s\<lparr>es_hoistedTac := hoistedTac,
                  es_initial := applyTacRule (es_initial s) hoistedTac,
                  es_draft := applyTacRule (es_draft s) hoistedTac\<rparr>))"

definition setEnabledRats :: "editSession \<Rightarrow> tech list \<Rightarrow> editSession option" where
  "setEnabledRats s rats =
    (let enabledRats = listEnabledRats rats (sn_cells (es_draft s))
     in if enabledRats = es_enabledRats s then None else Some (s\<lparr>es_enabledRats := enabledRats\<rparr>))"

definition setAction :: "editSession \<Rightarrow> editAction \<Rightarrow> editSession option" where
  "setAction s action =
    (if es_live s = None \<or> es_proposed s \<noteq> None \<or> action = ActCreate \<or> es_action s = action then None
     else Some (s\<lparr>es_action := action\<rparr>))"

section \<open>Reverting to the live record\<close>

definition noStationPatch :: stationPatch where
  "noStationPatch = \<lparr>sp_siteId = None, sp_status = None, sp_isConfirmed = None, sp_notes = None\<rparr>"

definition noBackhaulPatch :: backhaulPatch where
  "noBackhaulPatch = \<lparr>bp_medium = None, bp_speedMbps = None, bp_model = None\<rparr>"

definition revertStationField ::
  "bool \<Rightarrow> editSession \<Rightarrow> stationDraft \<Rightarrow> editField option \<Rightarrow> editSession option" where
  "revertStationField same s base field =
    (let station = sn_station (es_draft s)
     in case field of
          None \<Rightarrow> handBack same base station (withStation s base)
        | Some FIdentifiers \<Rightarrow> Some (withStation s (station\<lparr>st_identifiers := st_identifiers base\<rparr>))
        | Some (FIdentifier kind) \<Rightarrow> setIdentifier s kind (st_identifiers base kind)
        | Some FBackhaulMedium \<Rightarrow> Some (withStation s (station\<lparr>st_backhaul := st_backhaul base\<rparr>))
        | Some FBackhaulSpeedMbps \<Rightarrow>
            setBackhaul s (noBackhaulPatch\<lparr>bp_speedMbps := Some (bh_speedMbps (st_backhaul base))\<rparr>)
        | Some FBackhaulModel \<Rightarrow>
            setBackhaul s (noBackhaulPatch\<lparr>bp_model := Some (bh_model (st_backhaul base))\<rparr>)
        | Some FOperatorId \<Rightarrow>
            (if st_operatorId station = st_operatorId base then None
             else Some (withStation s (station\<lparr>st_operatorId := st_operatorId base\<rparr>)))
        | Some FHostStationId \<Rightarrow> setHostStation s (st_hostStationId base)
        | Some FSiteId \<Rightarrow> patchStation s (noStationPatch\<lparr>sp_siteId := Some (st_siteId base)\<rparr>)
        | Some FStatus \<Rightarrow> patchStation s (noStationPatch\<lparr>sp_status := Some (st_status base)\<rparr>)
        | Some FIsConfirmed \<Rightarrow>
            patchStation s (noStationPatch\<lparr>sp_isConfirmed := Some (st_isConfirmed base)\<rparr>)
        | Some FNotes \<Rightarrow> patchStation s (noStationPatch\<lparr>sp_notes := Some (st_notes base)\<rparr>)
        | Some _ \<Rightarrow> None)"

definition revertPlaceValue ::
  "bool \<Rightarrow> editSession \<Rightarrow> placeDraft \<Rightarrow> placeDraft \<Rightarrow> editField \<Rightarrow> editSession option" where
  "revertPlaceValue same s base place field =
    (case field of
       FCoordinates \<Rightarrow>
         (if pl_locationId place \<noteq> None \<and> pl_locationId place \<noteq> pl_locationId base
          then Some (withPlace s (Some base))
          else patchPlace s (noPlacePatch\<lparr>
            pp_latitude := Some (pl_latitude base), pp_longitude := Some (pl_longitude base),
            pp_locationId := Some (pl_locationId base),
            pp_regionId := Some (if pl_isRegionPicked place then pl_regionId place else pl_regionId base)\<rparr>))
     | FRegionId \<Rightarrow> patchPlace s (noPlacePatch\<lparr>pp_regionId := Some (pl_regionId base),
                                  pp_isRegionPicked := Some (pl_isRegionPicked base)\<rparr>)
     | FCity \<Rightarrow> patchPlace s (noPlacePatch\<lparr>pp_city := Some (pl_city base)\<rparr>)
     | FAddress \<Rightarrow> patchPlace s (noPlacePatch\<lparr>pp_address := Some (pl_address base)\<rparr>)
     | FMove \<Rightarrow> patchPlace s (noPlacePatch\<lparr>pp_move := Some (pl_move base)\<rparr>)
     | FStructureType \<Rightarrow>
         patchStructure s (noStructurePatch\<lparr>tp_type := Some (sd_type (pl_structure base))\<rparr>)
     | FStructureOwner \<Rightarrow>
         patchStructure s (noStructurePatch\<lparr>tp_owner := Some (sd_owner (pl_structure base))\<rparr>)
     | FStructureNote \<Rightarrow>
         patchStructure s (noStructurePatch\<lparr>tp_note := Some (sd_note (pl_structure base))\<rparr>)
     | _ \<Rightarrow> None)"

definition revertPlaceField ::
  "bool \<Rightarrow> editSession \<Rightarrow> placeDraft option \<Rightarrow> editField option \<Rightarrow> editSession option" where
  "revertPlaceField same s base field =
    (case (field, base, sn_place (es_draft s)) of
       (Some f, Some b, Some place) \<Rightarrow> revertPlaceValue same s b place f
     | _ \<Rightarrow> handBack (same \<or> base = None) base (sn_place (es_draft s)) (withPlace s base))"

definition revertSector :: "editSession \<Rightarrow> sectorDraft list \<Rightarrow> draftKey option \<Rightarrow> editSession option" where
  "revertSector s base key =
    (let sectors = sn_sectors (es_draft s)
     in case key of
          None \<Rightarrow> Some (withSectors s base)
        | Some k \<Rightarrow>
            (case findIndex (\<lambda>sector. se_key sector = k) base of
               None \<Rightarrow> removeSector s k
             | Some baseIndex \<Rightarrow>
                 (let baseRow = base ! baseIndex
                  in if list_ex (\<lambda>sector. se_key sector = k) sectors
                     then Some (withSectors s
                       (map (\<lambda>sector. if se_key sector = k then baseRow else sector) sectors))
                     else Some (withSectors s
                       (take MAX_SECTORS (spliceAt (min baseIndex (length sectors)) [baseRow] sectors))))))"

definition isNumberOf :: "tech \<Rightarrow> cellNumberField \<Rightarrow> bool" where
  "isNumberOf r f \<longleftrightarrow> list_ex (\<lambda>spec. nf_field spec = f) (rs_numbers (RAT_FIELDS r))"

definition isFlagOf :: "tech \<Rightarrow> cellFlagField \<Rightarrow> bool" where
  "isFlagOf r f \<longleftrightarrow> list_ex (\<lambda>spec. ff_field spec = f) (rs_flags (RAT_FIELDS r))"

definition toFieldPatch :: "cellDraft \<Rightarrow> editField \<Rightarrow> cellPatch" where
  "toFieldPatch base field =
    (case field of
       FNumber f \<Rightarrow> (if isNumberOf (ce_rat base) f then toNumberPatch f (getCellNumber base f) else noPatch)
     | FFlag f \<Rightarrow> (if isFlagOf (ce_rat base) f then toFlagPatch f (getCellFlag base f) else noPatch)
     | FBandId \<Rightarrow> noPatch\<lparr>cp_bandId := Some (ce_bandId base)\<rparr>
     | FSectorKey \<Rightarrow> noPatch\<lparr>cp_sectorKey := Some (ce_sectorKey base)\<rparr>
     | FCellType \<Rightarrow> noPatch\<lparr>cp_cellType := Some (ce_cellType base)\<rparr>
     | FNotes \<Rightarrow> noPatch\<lparr>cp_notes := Some (ce_notes base)\<rparr>
     | FIsConfirmed \<Rightarrow> noPatch\<lparr>cp_isConfirmed := Some (ce_isConfirmed base)\<rparr>
     | FMode \<Rightarrow> noPatch\<lparr>cp_mode := Some (ce_mode base)\<rparr>
     | FGnbidLength \<Rightarrow> noPatch\<lparr>cp_gnbidLength := Some (ce_gnbidLength base)\<rparr>
     | FExtraPlmns \<Rightarrow> noPatch\<lparr>cp_extraPlmns := Some (ce_extraPlmns base)\<rparr>
     | _ \<Rightarrow> noPatch)"

definition restoredCell :: "editSession \<Rightarrow> cellDraft \<Rightarrow> cellDraft" where
  "restoredCell s baseRow =
    (if isAttached (sn_sectors (es_draft s)) baseRow then baseRow else baseRow\<lparr>ce_sectorKey := None\<rparr>)"

definition revertCell ::
  "bool \<Rightarrow> editSession \<Rightarrow> cellDraft list \<Rightarrow> draftKey option \<Rightarrow> editField option \<Rightarrow> editSession option" where
  "revertCell same s base key field =
    (case key of
       None \<Rightarrow> None
     | Some k \<Rightarrow>
         (case List.find (\<lambda>c. ce_key c = k) base of
            None \<Rightarrow> removeCell s k
          | Some baseRow \<Rightarrow>
              (let restored = restoredCell s baseRow
               in case field of
                    None \<Rightarrow> replaceCell s k (\<lambda>c. handBack same restored c restored)
                  | Some f \<Rightarrow> replaceCell s k (patchChange (toFieldPatch restored f)))))"

text \<open>\<open>new Map(base.cells.map((cell) => [cell.key, cell]))\<close>: the last row of a key wins.\<close>

definition baseByKey :: "cellDraft list \<Rightarrow> draftKey \<Rightarrow> cellDraft option" where
  "baseByKey base key = List.find (\<lambda>c. ce_key c = key) (rev base)"

definition revertedAreaCell :: "tech \<Rightarrow> cellDraft list \<Rightarrow> cellDraft \<Rightarrow> cellDraft" where
  "revertedAreaCell r base c =
    (case (if ce_rat c = r then baseByKey base (ce_key c) else None) of
       None \<Rightarrow> c
     | Some baseRow \<Rightarrow>
         patchCell c (toNumberPatch (getAreaCodeField r) (getCellNumber baseRow (getAreaCodeField r))))"

definition revertAreaCode ::
  "editSession \<Rightarrow> stationSnapshot \<Rightarrow> tech option \<Rightarrow> editSession option" where
  "revertAreaCode s base rat =
    (case rat of
       None \<Rightarrow> None
     | Some r \<Rightarrow>
         (let cells = map (revertedAreaCell r (sn_cells base)) (sn_cells (es_draft s));
              hasChangedCell = (cells \<noteq> sn_cells (es_draft s));
              reverted = (if canShareAreaCode r (es_hoistedTac s)
                          then withAreaCode s r (sn_areaCodes base r) else None)
          in if hasChangedCell then Some (withCells (settle s reverted) cells) else reverted))"

definition liveOrEmpty :: "editSession \<Rightarrow> stationSnapshot" where
  "liveOrEmpty s = (case es_live s of None \<Rightarrow> EMPTY_SNAPSHOT | Some live \<Rightarrow> live)"

definition revertToLive :: "bool \<Rightarrow> editSession \<Rightarrow> fieldTarget \<Rightarrow> editSession option" where
  "revertToLive same s target =
    (let base = liveOrEmpty s
     in case ft_scope target of
          ScStation \<Rightarrow> revertStationField same s (sn_station base) (ft_field target)
        | ScPlace \<Rightarrow> revertPlaceField same s (sn_place base) (ft_field target)
        | ScSector \<Rightarrow> revertSector s (sn_sectors base) (ft_key target)
        | ScCell \<Rightarrow> revertCell same s (sn_cells base) (ft_key target) (ft_field target)
        | ScAreaCode \<Rightarrow> revertAreaCode s base (ft_rat target)
        | _ \<Rightarrow> None)"

section \<open>Rebasing and resetting\<close>

definition rebase ::
  "editSession \<Rightarrow> stationSnapshot option \<Rightarrow> stationSnapshot option \<Rightarrow> editSession" where
  "rebase s live proposed =
    (let base = (case proposed of Some p \<Rightarrow> p
                 | None \<Rightarrow> (case live of Some l \<Rightarrow> l | None \<Rightarrow> EMPTY_SNAPSHOT));
         initial = applyTacRule base (es_hoistedTac s)
     in s\<lparr>es_live := live, es_proposed := proposed, es_initial := initial, es_draft := initial,
          es_enabledRats := listEnabledRats (es_enabledRats s) (sn_cells initial),
          es_serverErrors := [], es_isSaveAttempted := False\<rparr>)"

definition resetSession :: "editSession \<Rightarrow> editSession" where
  "resetSession s =
    s\<lparr>es_draft := es_initial s, es_enabledRats := listRatsWithCells (sn_cells (es_initial s)),
      es_serverErrors := [], es_isSaveAttempted := False\<rparr>"

section \<open>The reducer\<close>

datatype draftAction =
    SetStation stationPatch
  | SetOperator "int option" "string option" "identifierKind list"
  | SetHostStation "int option"
  | SetHostStationEditing bool
  | SetIdentifier identifierKind string
  | SetBackhaul backhaulPatch
  | SetPlace placePatch
  | PickPlace placeDraft
  | SetMove locationMove
  | SetStructure structurePatch
  | SetOwner ownerChoice
  | AddSector "number option" "draftKey option"
  | SetSector draftKey "number option"
  | RemoveSector draftKey
  | MoveSector draftKey int
  | OrderSectors "draftKey list"
  | ApplySectors "sectorDraft list"
  | AddCell tech newCellOptions
  | SetCell draftKey cellPatch
  | DuplicateCell draftKey "bool option" "draftKey option"
  | RemoveCell draftKey
  | RestoreCell draftKey
  | SetAreaCode tech "number option"
  | UnifyAreaCode tech
  | SetHoistedTac bool
  | ApplyCells "cellDraft list"
  | SetEnabledRats "tech list"
  | SetAction editAction
  | RevertToLive fieldTarget
  | Rebase "stationSnapshot option" "stationSnapshot option"
  | Reset
  | AttemptSave
  | SetServerErrors "editError list"

fun applyAction :: "bool \<Rightarrow> draftKey \<Rightarrow> editSession \<Rightarrow> draftAction \<Rightarrow> editSession option" where
  "applyAction same freshKey s (SetStation patch) = patchStation s patch"
| "applyAction same freshKey s (SetOperator operatorId ownerPlmn kinds) =
     setOperator s operatorId ownerPlmn kinds"
| "applyAction same freshKey s (SetHostStation hostStationId) = setHostStation s hostStationId"
| "applyAction same freshKey s (SetHostStationEditing edits) = setHostStationEditing s edits"
| "applyAction same freshKey s (SetIdentifier kind value) = setIdentifier s kind value"
| "applyAction same freshKey s (SetBackhaul patch) = setBackhaul s patch"
| "applyAction same freshKey s (SetPlace patch) = dropHostOfMovedStation s (patchPlace s patch)"
| "applyAction same freshKey s (PickPlace place) = dropHostOfMovedStation s (pickPlace s place)"
| "applyAction same freshKey s (SetMove move) =
     (if sn_place (es_draft s) = None then None
      else dropHostOfMovedStation s (patchPlace s (noPlacePatch\<lparr>pp_move := Some move\<rparr>)))"
| "applyAction same freshKey s (SetStructure patch) = patchStructure s patch"
| "applyAction same freshKey s (SetOwner owner) =
     patchStructure s (noStructurePatch\<lparr>tp_owner := Some owner\<rparr>)"
| "applyAction same freshKey s (AddSector degrees newKey) = addSector s degrees newKey freshKey"
| "applyAction same freshKey s (SetSector key degrees) = setSector s key degrees"
| "applyAction same freshKey s (RemoveSector key) = removeSector s key"
| "applyAction same freshKey s (MoveSector key toIndex) = moveSector s key toIndex"
| "applyAction same freshKey s (OrderSectors keys) = orderSectors s keys"
| "applyAction same freshKey s (ApplySectors sectors) = Some (withSectors s (take MAX_SECTORS sectors))"
| "applyAction same freshKey s (AddCell r options) =
     Some (withCells s (insertCell (sn_cells (es_draft s)) r options freshKey))"
| "applyAction same freshKey s (SetCell key patch) = replaceCell s key (patchChange patch)"
| "applyAction same freshKey s (DuplicateCell key isConfirmed newKey) =
     duplicateCell s key isConfirmed newKey freshKey"
| "applyAction same freshKey s (RemoveCell key) = removeCell s key"
| "applyAction same freshKey s (RestoreCell key) = restoreCell s key"
| "applyAction same freshKey s (SetAreaCode r value) = shareAreaCode s r value"
| "applyAction same freshKey s (UnifyAreaCode r) =
     shareAreaCode s r (findMostFrequentAreaCode (sn_cells (es_draft s)) r)"
| "applyAction same freshKey s (SetHoistedTac hoistedTac) = setHoistedTac s hoistedTac"
| "applyAction same freshKey s (ApplyCells cells) = Some (withCells s cells)"
| "applyAction same freshKey s (SetEnabledRats rats) = setEnabledRats s rats"
| "applyAction same freshKey s (SetAction action) = setAction s action"
| "applyAction same freshKey s (RevertToLive target) =
     (let reverted = revertToLive same s target
      in if ft_scope target = ScPlace then dropHostOfMovedStation s reverted else reverted)"
| "applyAction same freshKey s (Rebase live proposed) = Some (rebase s live proposed)"
| "applyAction same freshKey s Reset = Some (resetSession s)"
| "applyAction same freshKey s AttemptSave =
     (if es_isSaveAttempted s then None else Some (s\<lparr>es_isSaveAttempted := True\<rparr>))"
| "applyAction same freshKey s (SetServerErrors errors) =
     Some (s\<lparr>es_serverErrors := errors, es_isSaveAttempted := True\<rparr>)"

definition findCellRat :: "editSession \<Rightarrow> draftKey \<Rightarrow> tech option" where
  "findCellRat s key = map_option ce_rat (List.find (\<lambda>c. ce_key c = key) (sn_cells (es_draft s)))"

definition isCellErrorOf :: "editError \<Rightarrow> draftKey option \<Rightarrow> tech option \<Rightarrow> bool" where
  "isCellErrorOf error key rat =
    (let target = er_target error
     in if ft_scope target = ScAreaCode then ft_rat target = rat
        else if ft_scope target \<noteq> ScCell then False
        else if ft_key target \<noteq> None then ft_key target = key
        else ft_rat target = None \<or> ft_rat target = rat)"

definition hasScope :: "targetScope \<Rightarrow> editError \<Rightarrow> bool" where
  "hasScope scope error \<longleftrightarrow> ft_scope (er_target error) = scope"

fun getOutdatedErrors :: "editSession \<Rightarrow> draftAction \<Rightarrow> (editError \<Rightarrow> bool) option" where
  "getOutdatedErrors s (SetStation _) = Some (hasScope ScStation)"
| "getOutdatedErrors s (SetOperator _ _ _) = Some (hasScope ScStation)"
| "getOutdatedErrors s (SetHostStation _) = Some (hasScope ScStation)"
| "getOutdatedErrors s (SetIdentifier _ _) = Some (hasScope ScStation)"
| "getOutdatedErrors s (SetBackhaul _) = Some (hasScope ScStation)"
| "getOutdatedErrors s (SetPlace _) = Some (hasScope ScPlace)"
| "getOutdatedErrors s (PickPlace _) = Some (hasScope ScPlace)"
| "getOutdatedErrors s (SetMove _) = Some (hasScope ScPlace)"
| "getOutdatedErrors s (SetStructure _) = Some (hasScope ScPlace)"
| "getOutdatedErrors s (SetOwner _) = Some (hasScope ScPlace)"
| "getOutdatedErrors s (AddSector _ _) = Some (hasScope ScSector)"
| "getOutdatedErrors s (SetSector _ _) = Some (hasScope ScSector)"
| "getOutdatedErrors s (RemoveSector _) = Some (hasScope ScSector)"
| "getOutdatedErrors s (MoveSector _ _) = Some (hasScope ScSector)"
| "getOutdatedErrors s (OrderSectors _) = Some (hasScope ScSector)"
| "getOutdatedErrors s (ApplySectors _) = Some (hasScope ScSector)"
| "getOutdatedErrors s (SetCell key _) = Some (\<lambda>e. isCellErrorOf e (Some key) (findCellRat s key))"
| "getOutdatedErrors s (DuplicateCell key _ _) =
     Some (\<lambda>e. isCellErrorOf e (Some key) (findCellRat s key))"
| "getOutdatedErrors s (RemoveCell key) = Some (\<lambda>e. isCellErrorOf e (Some key) (findCellRat s key))"
| "getOutdatedErrors s (RestoreCell key) = Some (\<lambda>e. isCellErrorOf e (Some key) (findCellRat s key))"
| "getOutdatedErrors s (AddCell r _) = Some (\<lambda>e. isCellErrorOf e None (Some r))"
| "getOutdatedErrors s (SetAreaCode r _) = Some (\<lambda>e. isCellErrorOf e None (Some r))"
| "getOutdatedErrors s (UnifyAreaCode r) = Some (\<lambda>e. isCellErrorOf e None (Some r))"
| "getOutdatedErrors s (ApplyCells _) = Some (\<lambda>e. hasScope ScCell e \<or> hasScope ScAreaCode e)"
| "getOutdatedErrors s (RevertToLive target) = Some (hasScope (ft_scope target))"
| "getOutdatedErrors s _ = None"

text \<open>
  \<open>next.serverErrors !== session.serverErrors\<close> compares references. Only \<open>rebase\<close>, \<open>reset\<close> (both
  leave no errors) and \<open>setServerErrors\<close> (which outdates none) replace the list, so comparing the
  lists by value returns the same session.
\<close>

definition dropOutdated :: "editSession \<Rightarrow> draftAction \<Rightarrow> editSession \<Rightarrow> editSession" where
  "dropOutdated s action next =
    (if es_serverErrors next = [] \<or> es_serverErrors next \<noteq> es_serverErrors s then next
     else case getOutdatedErrors s action of
            None \<Rightarrow> next
          | Some isOutdated \<Rightarrow>
              (let serverErrors = filter (\<lambda>e. \<not> isOutdated e) (es_serverErrors next)
               in if length serverErrors = length (es_serverErrors next) then next
                  else next\<lparr>es_serverErrors := serverErrors\<rparr>))"

definition draftReducer :: "bool \<Rightarrow> draftKey \<Rightarrow> editSession \<Rightarrow> draftAction \<Rightarrow> editSession" where
  "draftReducer same freshKey s action =
    (case applyAction same freshKey s action of
       None \<Rightarrow> s
     | Some next \<Rightarrow> dropOutdated s action next)"

fun withNewKey :: "draftKey \<Rightarrow> draftAction \<Rightarrow> draftAction" where
  "withNewKey freshKey (AddCell r options) =
     AddCell r (options\<lparr>nc_newKey := Some (orElse (nc_newKey options) freshKey)\<rparr>)"
| "withNewKey freshKey (DuplicateCell key isConfirmed newKey) =
     DuplicateCell key isConfirmed (Some (orElse newKey freshKey))"
| "withNewKey freshKey (AddSector degrees newKey) = AddSector degrees (Some (orElse newKey freshKey))"
| "withNewKey freshKey action = action"

end
