(* ===== verification/DraftInvariants.thy ===== *)
theory DraftInvariants
  imports DraftReducer "HOL-Library.Multiset"
begin

text \<open>
  The well-formedness of an edit session and its preservation by every action of the reducer.
  \<open>snapshotOk\<close> is what a snapshot promises (keys name rows, no cell points at a sector that is
  gone, the sector limit, the fields of a non-standalone cell, an empty backhaul without a medium),
  \<open>sessionOk\<close> adds what ties the session together (the enabled technologies in their order and
  covering the cells, the tracking area codes split where the country keeps them per cell).
  \<open>actionOk\<close> is what the reducer takes on trust from its callers: the keys they generate are new
  and the rows they pass in are well formed.
\<close>

section \<open>The invariant\<close>

definition cellOk :: "cellDraft \<Rightarrow> bool" where
  "cellOk c \<longleftrightarrow> nsaClean c \<and> (ce_rat c = Nr \<longrightarrow> ce_mode c \<noteq> None)"

definition cellsOk :: "draftKey set \<Rightarrow> cellDraft list \<Rightarrow> bool" where
  "cellsOk keys cells \<longleftrightarrow>
     distinct (map ce_key cells) \<and>
     (\<forall>c\<in>set cells. cellOk c \<and> (\<forall>k. ce_sectorKey c = Some k \<longrightarrow> k \<in> keys))"

definition sectorsOk :: "sectorDraft list \<Rightarrow> bool" where
  "sectorsOk sectors \<longleftrightarrow> distinct (map se_key sectors) \<and> length sectors \<le> MAX_SECTORS"

definition backhaulOk :: "backhaulDraft \<Rightarrow> bool" where
  "backhaulOk b \<longleftrightarrow> (bh_medium b = None \<longrightarrow> b = EMPTY_BACKHAUL)"

definition snapshotOk :: "stationSnapshot \<Rightarrow> bool" where
  "snapshotOk sn \<longleftrightarrow>
     backhaulOk (st_backhaul (sn_station sn)) \<and> sectorsOk (sn_sectors sn) \<and>
     cellsOk (se_key ` set (sn_sectors sn)) (sn_cells sn)"

definition tacsSplit :: "bool \<Rightarrow> stationSnapshot \<Rightarrow> bool" where
  "tacsSplit hoistedTac sn \<longleftrightarrow> hoistedTac \<or> (\<forall>r\<in>set TAC_RATS. sn_areaCodes sn r = PerCell)"

definition ratsOk :: "tech list \<Rightarrow> cellDraft list \<Rightarrow> bool" where
  "ratsOk rats cells \<longleftrightarrow> rats = filter (\<lambda>r. r \<in> set rats) RAT_ORDER \<and> ce_rat ` set cells \<subseteq> set rats"

definition sessionOk :: "editSession \<Rightarrow> bool" where
  "sessionOk s \<longleftrightarrow>
     snapshotOk (es_draft s) \<and> snapshotOk (es_initial s) \<and> snapshotOk (liveOrEmpty s) \<and>
     tacsSplit (es_hoistedTac s) (es_draft s) \<and> tacsSplit (es_hoistedTac s) (es_initial s) \<and>
     ratsOk (es_enabledRats s) (sn_cells (es_draft s))"

lemma snapshotOk_EMPTY [simp]: "snapshotOk EMPTY_SNAPSHOT"
  by (simp add: snapshotOk_def EMPTY_SNAPSHOT_def createEmptyStation_def backhaulOk_def sectorsOk_def
      cellsOk_def)

lemma cellOk_copySharedAreaCode: "cellOk c \<Longrightarrow> cellOk (copySharedAreaCode c v)"
  by (auto simp: cellOk_def nsaClean_def copySharedAreaCode_def getCellNumber_def getCellFlag_def
      carriesAreaCode_def split: areaCode.splits)

lemma cellsOk_map:
  assumes "cellsOk keys cells"
    and "\<And>c. ce_key (f c) = ce_key c"
    and "\<And>c. c \<in> set cells \<Longrightarrow> cellOk c \<Longrightarrow> cellOk (f c)"
    and "\<And>c k. c \<in> set cells \<Longrightarrow> ce_sectorKey (f c) = Some k \<Longrightarrow> k \<in> keys \<or> ce_sectorKey c = Some k"
  shows "cellsOk keys (map f cells)"
proof -
  have keys: "map ce_key (map f cells) = map ce_key cells" by (simp add: assms(2))
  have "cellOk (f c) \<and> (\<forall>k. ce_sectorKey (f c) = Some k \<longrightarrow> k \<in> keys)" if "c \<in> set cells" for c
    using assms(1,3,4) that by (fastforce simp: cellsOk_def)
  with assms(1) show ?thesis unfolding cellsOk_def keys by simp
qed

lemma cellsOk_subset: "cellsOk keys cells \<Longrightarrow> keys \<subseteq> keys' \<Longrightarrow> cellsOk keys' cells"
  by (auto simp: cellsOk_def)

lemma snapshotOk_applyTacRule: "snapshotOk sn \<Longrightarrow> snapshotOk (applyTacRule sn h)"
proof -
  assume ok: "snapshotOk sn"
  obtain f where f: "sn_cells (applyTacRule sn h) = map f (sn_cells sn)"
    "\<forall>c. f c = c \<or> (\<exists>v. f c = copySharedAreaCode c v)"
    using cells_applyTacRule by blast
  have "ce_key (f c) = ce_key c" "ce_sectorKey (f c) = ce_sectorKey c" "cellOk c \<Longrightarrow> cellOk (f c)" for c
    using f(2) cellOk_copySharedAreaCode by (metis copySharedAreaCode_frame(1,4))+
  with ok show ?thesis by (auto simp: snapshotOk_def f(1) intro: cellsOk_map)
qed

lemma tacsSplit_applyTacRule [simp]: "tacsSplit h (applyTacRule sn h)"
  by (simp add: tacsSplit_def applyTacRule_def areaCodes_splitSharedTacs)

section \<open>Enabled technologies\<close>

lemma set_listEnabledRats [simp]: "set (listEnabledRats rats cells) = set rats \<union> ce_rat ` set cells"
  by (auto simp: listEnabledRats_def)

lemma set_listRatsWithCells [simp]: "set (listRatsWithCells cells) = ce_rat ` set cells"
  by (auto simp: listRatsWithCells_def)

lemma ratsOk_filter: "ce_rat ` set cells \<subseteq> Collect P \<Longrightarrow> ratsOk (filter P RAT_ORDER) cells"
  by (auto simp: ratsOk_def intro: filter_cong)

lemma ratsOk_listEnabledRats [simp]: "ratsOk (listEnabledRats rats cells) cells"
  unfolding listEnabledRats_def by (rule ratsOk_filter) auto

lemma ratsOk_listRatsWithCells [simp]: "ratsOk (listRatsWithCells cells) cells"
  unfolding listRatsWithCells_def by (rule ratsOk_filter) auto

text \<open>
  The source keeps the old list of enabled technologies when the new one has the same length:
  sound, as both are parts of \<open>RAT_ORDER\<close> and the new one contains the old one.
\<close>

lemma enabledRats_withCells:
  assumes "es_enabledRats s = filter (\<lambda>r. r \<in> set (es_enabledRats s)) RAT_ORDER"
  shows "es_enabledRats (withCells s cells) = listEnabledRats (es_enabledRats s) cells"
proof (cases "length (listEnabledRats (es_enabledRats s) cells) = length (es_enabledRats s)")
  case True
  let ?old = "es_enabledRats s" and ?new = "listEnabledRats (es_enabledRats s) cells"
  have "distinct ?old" by (subst assms) simp
  moreover have "distinct ?new" by (simp add: listEnabledRats_def)
  ultimately have "card (set ?old) = card (set ?new)"
    using True by (simp add: distinct_card del: set_listEnabledRats)
  moreover have "set ?old \<subseteq> set ?new" by simp
  ultimately have same: "set ?old = set ?new" by (simp add: card_subset_eq)
  have "?new = filter (\<lambda>r. r \<in> set ?new) RAT_ORDER"
    by (rule ratsOk_listEnabledRats [unfolded ratsOk_def, THEN conjunct1])
  also have "\<dots> = ?old" using same assms by simp
  finally show ?thesis using True by (simp add: withCells_def Let_def)
qed (simp add: withCells_def Let_def)

section \<open>The ways an operation writes the session\<close>

definition resultOk :: "editSession option \<Rightarrow> bool" where
  "resultOk r \<longleftrightarrow> (case r of None \<Rightarrow> True | Some s \<Rightarrow> sessionOk s)"

lemma resultOk_simps [simp]: "resultOk None" "resultOk (Some s) \<longleftrightarrow> sessionOk s"
  by (simp_all add: resultOk_def)

lemma resultOk_if: "(P \<Longrightarrow> resultOk a) \<Longrightarrow> (\<not> P \<Longrightarrow> resultOk b) \<Longrightarrow> resultOk (if P then a else b)"
  by simp

lemma sessionOk_settle: "sessionOk s \<Longrightarrow> resultOk r \<Longrightarrow> sessionOk (settle s r)"
  by (cases r) simp_all

lemma resultOk_andThen:
  assumes "sessionOk s" "resultOk r" "\<And>t. sessionOk t \<Longrightarrow> resultOk (f t)"
  shows "resultOk (andThen s r f)"
  using assms(3) [OF sessionOk_settle [OF assms(1,2)]] assms(2)
  by (cases "f (settle s r)") (simp_all add: andThen_def)

lemma resultOk_handBack: "sessionOk fresh \<Longrightarrow> resultOk (handBack same base current fresh)"
  by (simp add: handBack_def)

lemma sessionOk_withStation [simp]:
  "sessionOk s \<Longrightarrow> sessionOk (withStation s st) \<longleftrightarrow> backhaulOk (st_backhaul st)"
  by (simp add: sessionOk_def withStation_def withDraft_def snapshotOk_def tacsSplit_def liveOrEmpty_def)

lemma sessionOk_backhaul [simp]: "sessionOk s \<Longrightarrow> backhaulOk (st_backhaul (sn_station (es_draft s)))"
  by (simp add: sessionOk_def snapshotOk_def)

lemma sessionOk_withPlace [simp]: "sessionOk s \<Longrightarrow> sessionOk (withPlace s p)"
  by (simp add: sessionOk_def withPlace_def withDraft_def snapshotOk_def tacsSplit_def liveOrEmpty_def)

lemma withCells_simps [simp]:
  "es_draft (withCells s cells) = (es_draft s)\<lparr>sn_cells := cells\<rparr>"
  "es_initial (withCells s cells) = es_initial s" "es_live (withCells s cells) = es_live s"
  "es_hoistedTac (withCells s cells) = es_hoistedTac s"
  "es_serverErrors (withCells s cells) = es_serverErrors s"
  by (simp_all add: withCells_def withDraft_def Let_def)

lemma withSectors_simps [simp]:
  "es_draft (withSectors s sectors) = (es_draft s)\<lparr>sn_sectors := sectors,
     sn_cells := detachCells (sn_cells (es_draft s)) sectors\<rparr>"
  "es_initial (withSectors s sectors) = es_initial s" "es_live (withSectors s sectors) = es_live s"
  "es_hoistedTac (withSectors s sectors) = es_hoistedTac s"
  "es_enabledRats (withSectors s sectors) = es_enabledRats s"
  by (simp_all add: withSectors_def withDraft_def)

lemma sessionOk_withCells:
  assumes "sessionOk s" "cellsOk (se_key ` set (sn_sectors (es_draft s))) cells"
  shows "sessionOk (withCells s cells)"
proof -
  have "es_enabledRats (withCells s cells) = listEnabledRats (es_enabledRats s) cells"
    using assms(1) by (intro enabledRats_withCells) (simp add: sessionOk_def ratsOk_def)
  with assms show ?thesis
    by (simp add: sessionOk_def snapshotOk_def tacsSplit_def liveOrEmpty_def)
qed

text \<open>Detaching leaves every row its key and technology, and no row points at a missing sector.\<close>

lemma detachCells_map:
  "detachCells cells sectors =
    map (\<lambda>c. if isAttached sectors c then c else c\<lparr>ce_sectorKey := None\<rparr>) cells"
  by (auto simp: detachCells_def intro: map_idI [symmetric])

lemma isAttached_iff:
  "isAttached sectors c \<longleftrightarrow> (\<forall>k. ce_sectorKey c = Some k \<longrightarrow> k \<in> se_key ` set sectors)"
  by (auto simp: isAttached_def hasSectorRow_def split: option.splits)

lemma cellOk_sectorKey [simp]: "cellOk (c\<lparr>ce_sectorKey := k\<rparr>) \<longleftrightarrow> cellOk c"
  by (simp add: cellOk_def nsaClean_def getCellNumber_def getCellFlag_def)

lemma cellOk_other [simp]:
  "cellOk (c\<lparr>ce_isDeleted := d\<rparr>) \<longleftrightarrow> cellOk c" "cellOk (c\<lparr>ce_extraPlmns := codes\<rparr>) \<longleftrightarrow> cellOk c"
  by (simp_all add: cellOk_def nsaClean_def getCellNumber_def getCellFlag_def)

lemma cellsOk_detachCells:
  assumes "cellsOk keys cells"
  shows "cellsOk (se_key ` set sectors) (detachCells cells sectors)"
proof -
  have "map ce_key (detachCells cells sectors) = map ce_key cells"
    by (simp add: detachCells_map)
  moreover have "c \<in> set (detachCells cells sectors) \<Longrightarrow> cellOk c \<and> isAttached sectors c" for c
    using assms by (auto simp: detachCells_map cellsOk_def isAttached_iff)
  ultimately show ?thesis using assms by (auto simp: cellsOk_def isAttached_iff)
qed

lemma rats_detachCells [simp]: "ce_rat ` set (detachCells cells sectors) = ce_rat ` set cells"
proof -
  have "map ce_rat (detachCells cells sectors) = map ce_rat cells" by (simp add: detachCells_map)
  then show ?thesis by (metis set_map)
qed

lemma sessionOk_withSectors:
  assumes "sessionOk s" "sectorsOk sectors"
  shows "sessionOk (withSectors s sectors)"
  using assms cellsOk_detachCells
  by (auto simp: sessionOk_def snapshotOk_def tacsSplit_def ratsOk_def liveOrEmpty_def)

lemma sessionOk_withAreaCode:
  assumes "sessionOk s" "canShareAreaCode r (es_hoistedTac s)"
  shows "resultOk (withAreaCode s r v)"
  using assms
  by (auto simp: withAreaCode_def Let_def sessionOk_def withDraft_def snapshotOk_def tacsSplit_def
      liveOrEmpty_def canShareAreaCode_def)

section \<open>Station and place operations\<close>

lemma patchStation_ok: "sessionOk s \<Longrightarrow> resultOk (patchStation s p)"
  by (auto simp: patchStation_def Let_def)

lemma dropOwnerPlmn_ok:
  assumes "sessionOk s" shows "resultOk (dropOwnerPlmn s plmn)"
proof (cases plmn)
  case (Some code)
  let ?f = "\<lambda>c. if code \<in> set (ce_extraPlmns c)
    then c\<lparr>ce_extraPlmns := filter (\<lambda>x. x \<noteq> code) (ce_extraPlmns c)\<rparr> else c"
  have "cellsOk (se_key ` set (sn_sectors (es_draft s))) (map ?f (sn_cells (es_draft s)))"
    using assms by (intro cellsOk_map) (auto simp: sessionOk_def snapshotOk_def split: if_splits)
  with assms Some show ?thesis by (simp add: dropOwnerPlmn_def sessionOk_withCells)
qed (simp add: dropOwnerPlmn_def)

lemma setOperator_ok: "sessionOk s \<Longrightarrow> resultOk (setOperator s i plmn kinds)"
  by (auto simp: setOperator_def Let_def simp del: list_all_Ball
      intro!: sessionOk_settle dropOwnerPlmn_ok)

lemma setHostStation_ok: "sessionOk s \<Longrightarrow> resultOk (setHostStation s i)"
  by (auto simp: setHostStation_def Let_def)

lemma setHostStationEditing_ok: "sessionOk s \<Longrightarrow> resultOk (setHostStationEditing s b)"
proof -
  assume "sessionOk s"
  then have "sessionOk (s\<lparr>es_editsHostStations := b\<rparr>)" by (simp add: sessionOk_def liveOrEmpty_def)
  then show ?thesis
    by (auto simp: setHostStationEditing_def Let_def intro!: sessionOk_settle setHostStation_ok)
qed

lemma dropHostOfMovedStation_ok:
  "sessionOk s \<Longrightarrow> resultOk r \<Longrightarrow> resultOk (dropHostOfMovedStation s r)"
  unfolding dropHostOfMovedStation_def
  by (rule resultOk_andThen) (auto intro: setHostStation_ok)

lemma setIdentifier_ok: "sessionOk s \<Longrightarrow> resultOk (setIdentifier s k v)"
  by (auto simp: setIdentifier_def Let_def)

lemma setBackhaul_ok: "sessionOk s \<Longrightarrow> resultOk (setBackhaul s p)"
  by (auto simp: setBackhaul_def Let_def backhaulOk_def)

lemma patchPlace_ok: "sessionOk s \<Longrightarrow> resultOk (patchPlace s p)"
  by (auto simp: patchPlace_def Let_def split: option.splits)

lemma pickPlace_ok: "sessionOk s \<Longrightarrow> resultOk (pickPlace s p)"
  by (simp add: pickPlace_def Let_def sessionOk_withPlace)

lemma patchStructure_ok: "sessionOk s \<Longrightarrow> resultOk (patchStructure s p)"
  by (auto simp: patchStructure_def Let_def)

section \<open>Sector operations\<close>

lemma sessionOk_sectors: "sessionOk s \<Longrightarrow> sectorsOk (sn_sectors (es_draft s))"
  by (simp add: sessionOk_def snapshotOk_def)

lemma addSector_ok:
  "sessionOk s \<Longrightarrow> orElse newKey freshKey \<notin> se_key ` set (sn_sectors (es_draft s)) \<Longrightarrow>
   resultOk (addSector s d newKey freshKey)"
  using sessionOk_sectors [of s]
  by (auto simp: addSector_def Let_def sectorsOk_def orElse_def intro!: sessionOk_withSectors)

lemma sectorsOk_map:
  "sectorsOk sectors \<Longrightarrow> (\<And>r. se_key (f r) = se_key r) \<Longrightarrow> sectorsOk (map f sectors)"
  by (simp add: sectorsOk_def comp_def)

lemma sectorsOk_filter: "sectorsOk sectors \<Longrightarrow> sectorsOk (filter P sectors)"
  by (auto simp: sectorsOk_def distinct_filter_map intro: order_trans [OF length_filter_le])

lemma sectorsOk_mset: "sectorsOk xs \<Longrightarrow> mset ys = mset xs \<Longrightarrow> sectorsOk ys"
  unfolding sectorsOk_def by (metis mset_eq_imp_distinct_iff mset_map size_mset)

lemma setSector_ok: "sessionOk s \<Longrightarrow> resultOk (setSector s k d)"
  by (auto simp: setSector_def Let_def
      intro!: sessionOk_withSectors sectorsOk_map dest: sessionOk_sectors)

lemma removeSector_ok: "sessionOk s \<Longrightarrow> resultOk (removeSector s k)"
  by (auto simp: removeSector_def Let_def
      intro!: sessionOk_withSectors sectorsOk_filter dest: sessionOk_sectors)

text \<open>Taking the row of a key out of distinct rows and putting it back is a permutation.\<close>

lemma filter_key_mset:
  assumes "distinct (map key rows)" "i < length rows" "key (rows ! i) = k"
  shows "add_mset (rows ! i) (mset (filter (\<lambda>r. key r \<noteq> k) rows)) = mset rows"
  using assms
proof (induction rows arbitrary: i)
  case (Cons r rows)
  show ?case
  proof (cases i)
    case 0
    with Cons.prems have "key r = k" "key r \<notin> key ` set rows" by simp_all
    then have "\<forall>x\<in>set rows. key x \<noteq> k" by (metis image_eqI)
    then have "filter (\<lambda>r. key r \<noteq> k) rows = rows" by (rule filter_True)
    with 0 Cons.prems show ?thesis by simp
  next
    case (Suc j)
    with Cons.prems have "key (rows ! j) \<in> key ` set rows" by (intro imageI nth_mem) simp
    with Suc Cons.prems have "key r \<noteq> k" by force
    with Suc Cons.IH [of j] Cons.prems show ?thesis by (simp add: add_mset_commute)
  qed
qed simp

lemma mset_spliceAt: "mset (spliceAt n zs xs) = mset zs + mset xs"
  by (simp add: spliceAt_def) (metis append_take_drop_id mset_append union_commute union_assoc)

lemma moveSector_perm:
  assumes "distinct (map se_key (sn_sectors (es_draft s)))" "moveSector s k i = Some s'"
  shows "mset (sn_sectors (es_draft s')) = mset (sn_sectors (es_draft s))"
proof -
  let ?rows = "sn_sectors (es_draft s)"
  obtain start target where move: "findIndex (\<lambda>r. se_key r = k) ?rows = Some start"
    "s' = withSectors s (spliceAt target (take 1 (drop start ?rows)) (filter (\<lambda>r. se_key r \<noteq> k) ?rows))"
    using assms(2) by (auto simp: moveSector_def Let_def split: option.splits if_splits)
  have at: "start < length ?rows" "se_key (?rows ! start) = k" using findIndex_Some [OF move(1)] by auto
  then have "take 1 (drop start ?rows) = [?rows ! start]" by (simp add: Cons_nth_drop_Suc [symmetric])
  with at filter_key_mset [OF assms(1) at] show ?thesis by (simp add: move(2) mset_spliceAt)
qed

lemma moveSector_ok: "sessionOk s \<Longrightarrow> resultOk (moveSector s k i)"
proof (cases "moveSector s k i")
  case (Some s')
  assume ok: "sessionOk s"
  from Some obtain rows where rows: "s' = withSectors s rows"
    by (auto simp: moveSector_def Let_def split: option.splits if_splits)
  have "mset rows = mset (sn_sectors (es_draft s))"
    using moveSector_perm [OF _ Some] sessionOk_sectors [OF ok] by (simp add: rows sectorsOk_def)
  then show ?thesis
    using ok sessionOk_sectors [OF ok] sectorsOk_mset by (auto simp: Some rows intro: sessionOk_withSectors)
qed simp

text \<open>\<open>orderSectors\<close> lists the wanted rows first: again a permutation.\<close>

definition foundRow :: "('a \<Rightarrow> 'k) \<Rightarrow> 'a list \<Rightarrow> 'k \<Rightarrow> 'a list" where
  "foundRow key rows = (\<lambda>k. case List.find (\<lambda>r. key r = k) rows of None \<Rightarrow> [] | Some r \<Rightarrow> [r])"

lemma set_foundRow: "distinct (map key rows) \<Longrightarrow> set (foundRow key rows k) = {r \<in> set rows. key r = k}"
proof (induction rows)
  case (Cons a rows)
  then show ?case by (cases "key a = k") (auto simp: foundRow_def, metis image_eqI)
qed (simp add: foundRow_def)

lemma distinct_foundRow: "distinct (foundRow key rows k)"
  by (simp add: foundRow_def split: option.split)

lemma set_concat_foundRow:
  "distinct (map key rows) \<Longrightarrow>
   set (concat (map (foundRow key rows) ks)) = {r \<in> set rows. key r \<in> set ks}"
  by (auto simp: set_foundRow)

lemma distinct_concat_foundRow:
  "distinct (map key rows) \<Longrightarrow> distinct ks \<Longrightarrow> distinct (concat (map (foundRow key rows) ks))"
  by (induction ks) (auto simp: set_foundRow distinct_foundRow)

definition orderedRows :: "draftKey list \<Rightarrow> sectorDraft list \<Rightarrow> sectorDraft list" where
  "orderedRows keys sectors =
    concat (map (foundRow se_key sectors) (uniq keys))
    @ filter (\<lambda>sector. se_key sector \<notin> set (uniq keys)) sectors"

lemma mset_orderedRows:
  assumes "distinct (map se_key sectors)"
  shows "mset (orderedRows keys sectors) = mset sectors"
proof -
  have rows: "distinct sectors" using assms by (simp add: distinct_map)
  note listed = set_concat_foundRow [OF assms, of "uniq keys"]
    distinct_concat_foundRow [OF assms distinct_uniq, of keys]
  have "set (orderedRows keys sectors) = set sectors"
    unfolding orderedRows_def set_append listed(1) by auto
  moreover have "distinct (orderedRows keys sectors)"
    unfolding orderedRows_def distinct_append listed(1) using rows listed(2) by auto
  ultimately show ?thesis using rows by (metis mset_set_set)
qed

lemma orderSectors_eq:
  "orderSectors s keys =
    (let sectors = sn_sectors (es_draft s); ordered = orderedRows keys sectors
     in if ordered = take (length ordered) sectors then None else Some (withSectors s ordered))"
  by (simp add: orderSectors_def orderedRows_def foundRow_def Let_def)

lemma orderSectors_ok: "sessionOk s \<Longrightarrow> resultOk (orderSectors s keys)"
  using sectorsOk_mset [OF sessionOk_sectors mset_orderedRows, of s keys] sessionOk_sectors [of s]
  by (auto simp: orderSectors_eq Let_def sectorsOk_def intro!: sessionOk_withSectors)

lemma sectorsOk_take:
  assumes "distinct (map se_key rows)"
  shows "sectorsOk (take MAX_SECTORS rows)"
  using assms by (simp add: sectorsOk_def distinct_take flip: take_map)

lemma revertSector_ok:
  assumes "sessionOk s" "sectorsOk base"
  shows "resultOk (revertSector s base key)"
proof (cases key)
  case None
  with assms show ?thesis by (simp add: revertSector_def Let_def sessionOk_withSectors)
next
  case (Some k)
  let ?rows = "sn_sectors (es_draft s)"
  note rows = sessionOk_sectors [OF assms(1)]
  show ?thesis
  proof (cases "findIndex (\<lambda>r. se_key r = k) base")
    case None
    with Some assms show ?thesis by (simp add: revertSector_def Let_def removeSector_ok)
  next
    case (Some i)
    then have key_i: "se_key (base ! i) = k" using findIndex_Some by fastforce
    show ?thesis
    proof (cases "k \<in> se_key ` set ?rows")
      case True
      then have "resultOk (revertSector s base (Some k))
          \<longleftrightarrow> sessionOk (withSectors s (map (\<lambda>r. if se_key r = k then base ! i else r) ?rows))"
        using Some by (auto simp: revertSector_def Let_def)
      then show ?thesis
        using assms(1) rows key_i \<open>key = Some k\<close> by (auto intro!: sessionOk_withSectors sectorsOk_map)
    next
      case False
      then have "resultOk (revertSector s base (Some k))
          \<longleftrightarrow> sessionOk (withSectors s (take MAX_SECTORS (spliceAt (min i (length ?rows)) [base ! i] ?rows)))"
        using Some by (auto simp: revertSector_def Let_def)
      moreover have "distinct (map se_key (spliceAt (min i (length ?rows)) [base ! i] ?rows))"
        using rows False key_i by (auto simp: map_spliceAt distinct_spliceAt sectorsOk_def)
      ultimately show ?thesis
        using assms(1) \<open>key = Some k\<close> by (auto intro!: sessionOk_withSectors sectorsOk_take)
    qed
  qed
qed

section \<open>Cell operations\<close>

abbreviation draftCellsOk :: "editSession \<Rightarrow> cellDraft list \<Rightarrow> bool" where
  "draftCellsOk s cells \<equiv> cellsOk (se_key ` set (sn_sectors (es_draft s))) cells"

definition cellFits :: "editSession \<Rightarrow> cellDraft \<Rightarrow> bool" where
  "cellFits s c \<longleftrightarrow> cellOk c \<and> isAttached (sn_sectors (es_draft s)) c"

lemma draftCellsOk_iff:
  "draftCellsOk s cells \<longleftrightarrow> distinct (map ce_key cells) \<and> (\<forall>c\<in>set cells. cellFits s c)"
  by (auto simp: cellsOk_def cellFits_def isAttached_iff)

lemma sessionOk_cells: "sessionOk s \<Longrightarrow> draftCellsOk s (sn_cells (es_draft s))"
  by (simp add: sessionOk_def snapshotOk_def)

lemma sessionOk_fits: "sessionOk s \<Longrightarrow> c \<in> set (sn_cells (es_draft s)) \<Longrightarrow> cellFits s c"
  using sessionOk_cells draftCellsOk_iff by blast

lemma cellFits_flags [simp]:
  "cellFits s (c\<lparr>ce_isDeleted := d\<rparr>) \<longleftrightarrow> cellFits s c"
  by (simp add: cellFits_def isAttached_iff)

lemma draftCellsOk_spliceAt:
  assumes "sessionOk s" "cellFits s c" "ce_key c \<notin> ce_key ` set (sn_cells (es_draft s))"
  shows "draftCellsOk s (spliceAt n [c] (sn_cells (es_draft s)))"
  using assms sessionOk_cells [OF assms(1)]
  by (auto simp: draftCellsOk_iff map_spliceAt distinct_spliceAt)

lemma draftCellsOk_dropAt:
  assumes "sessionOk s" shows "draftCellsOk s (dropAt n (sn_cells (es_draft s)))"
  using sessionOk_cells [OF assms] set_dropAt_subset [of n "sn_cells (es_draft s)"]
  by (auto simp: draftCellsOk_iff map_dropAt distinct_dropAt)

lemma replaceCell_ok:
  assumes "sessionOk s"
    and change: "\<And>c c'. c \<in> set (sn_cells (es_draft s)) \<Longrightarrow> ce_key c = key \<Longrightarrow> change c = Some c' \<Longrightarrow>
      ce_key c' = key \<and> cellFits s c'"
  shows "resultOk (replaceCell s key change)"
proof -
  let ?cells = "sn_cells (es_draft s)"
  show ?thesis
  proof (cases "findIndex (\<lambda>c. ce_key c = key) ?cells")
    case (Some i)
    then have i: "i < length ?cells" "ce_key (?cells ! i) = key" using findIndex_Some by auto
    have "draftCellsOk s (?cells[i := c'])" if "change (?cells ! i) = Some c'" for c'
    proof -
      have c': "ce_key c' = key" "cellFits s c'" using change [OF nth_mem [OF i(1)] i(2) that] by auto
      have "map ce_key (?cells[i := c']) = map ce_key ?cells"
        using i c'(1) by (metis list_update_id map_update nth_map)
      moreover have "\<forall>c\<in>set (?cells[i := c']). cellFits s c"
        using c'(2) sessionOk_fits [OF assms(1)] set_update_subset_insert [of ?cells i c'] by blast
      ultimately show ?thesis using sessionOk_cells [OF assms(1)] by (simp add: draftCellsOk_iff)
    qed
    with Some assms(1) show ?thesis
      by (auto simp: replaceCell_def Let_def split: option.split intro: sessionOk_withCells)
  qed (simp add: replaceCell_def Let_def)
qed

text \<open>What a new row shows: the values of its init, and nothing where the init has none.\<close>

lemma fold_fill: "fold (\<lambda>s m. m(f s \<mapsto> v)) xs m x = (if x \<in> f ` set xs then Some v else m x)"
  by (induction xs arbitrary: m) auto

lemma number_createCellDraft:
  "getCellNumber (createCellDraft r init k) f = (case ci_numbers init f of None \<Rightarrow> None | Some v \<Rightarrow> v)"
  by (simp add: getCellNumber_def createCellDraft_def emptyNumbers_def map_add_def fold_fill
      split: option.split)

lemma flag_createCellDraft:
  "getCellFlag (createCellDraft r init k) f = (case ci_flags init f of None \<Rightarrow> False | Some v \<Rightarrow> v)"
  by (simp add: getCellFlag_def createCellDraft_def emptyFlags_def map_add_def fold_fill
      split: option.split)

lemma mode_createCellDraft:
  "ce_mode (createCellDraft r init k) =
    (if r = Nr then Some (orElse (ci_mode init) DEFAULT_NR_MODE) else None)"
  by (simp add: createCellDraft_def split: option.split)

lemma cellOk_createCellDraft:
  assumes "ci_mode init \<noteq> Some Sa \<Longrightarrow> r = Nr \<Longrightarrow>
      (\<forall>f\<in>saNumbers Nr. (case ci_numbers init f of None \<Rightarrow> None | Some v \<Rightarrow> v) = None) \<and>
      (\<forall>f\<in>saFlags Nr. \<not> (case ci_flags init f of None \<Rightarrow> False | Some v \<Rightarrow> v))"
  shows "cellOk (createCellDraft r init k)"
  using assms
  by (cases "ci_mode init")
    (auto simp: cellOk_def nsaClean_def number_createCellDraft flag_createCellDraft
      mode_createCellDraft split: if_splits)

lemma newCellRow_fits: "cellFits s (newCellRow cells r options k)"
proof -
  have "cellOk (newCellRow cells r options k)"
    unfolding newCellRow_def Let_def
    by (rule cellOk_createCellDraft) (auto simp: noInit_def split: option.split)
  then show ?thesis by (simp add: cellFits_def isAttached_def newCellRow_def Let_def noInit_def)
qed

text \<open>Clearing the copied numbers: a field that is present is emptied.\<close>

lemma fold_clear_present:
  fixes m :: "cellNumberField \<Rightarrow> number option option"
  shows "fold (\<lambda>f numbers. if numbers f \<noteq> None then numbers(f \<mapsto> None) else numbers) fs m f =
    (if f \<in> set fs \<and> m f \<noteq> None then Some None else m f)"
  by (induction fs arbitrary: m) auto

lemma number_copyOfCell:
  "getCellNumber (copyOfCell c b newKey k) f =
    (if f \<in> set DUPLICATE_CLEARED_NUMBERS then None else getCellNumber c f)"
  unfolding copyOfCell_def number_createCellDraft
  by (simp add: fold_clear_present getCellNumber_def del: not_None_eq split: option.split)

lemma flag_copyOfCell: "getCellFlag (copyOfCell c b newKey k) f = getCellFlag c f"
  unfolding copyOfCell_def flag_createCellDraft by (simp add: getCellFlag_def)

lemma mode_copyOfCell: "cellOk c \<Longrightarrow> ce_mode (copyOfCell c b newKey k) = ce_mode c"
  unfolding copyOfCell_def mode_createCellDraft
  by (cases "ce_mode c") (auto simp: cellOk_def nsaClean_def)

lemma rat_copyOfCell [simp]: "ce_rat (copyOfCell c b newKey k) = ce_rat c"
  by (simp add: copyOfCell_def)

lemma copyOfCell_fits:
  assumes "cellOk c" shows "cellFits s (copyOfCell c b newKey k)"
proof -
  have "cellOk (copyOfCell c b newKey k)"
    using assms unfolding cellOk_def [of "copyOfCell c b newKey k"] nsaClean_def
    by (simp add: number_copyOfCell flag_copyOfCell mode_copyOfCell) (simp add: cellOk_def nsaClean_def)
  then show ?thesis by (simp add: cellFits_def isAttached_def copyOfCell_def noInit_def)
qed

lemma newCellRow_key: "ce_key (newCellRow cells r options k) = orElse (nc_newKey options) k"
  by (simp add: newCellRow_def Let_def)

lemma copyOfCell_key: "ce_key (copyOfCell c b newKey k) = orElse newKey k"
  by (simp add: copyOfCell_def)

lemma addCell_ok:
  assumes "sessionOk s" "orElse (nc_newKey options) k \<notin> ce_key ` set (sn_cells (es_draft s))"
  shows "sessionOk (withCells s (insertCell (sn_cells (es_draft s)) r options k))"
  using assms
  by (auto simp: insertCell_def newCellRow_key
      intro!: sessionOk_withCells draftCellsOk_spliceAt newCellRow_fits)

lemma duplicateCell_ok:
  assumes "sessionOk s" "orElse newKey k \<notin> ce_key ` set (sn_cells (es_draft s))"
  shows "resultOk (duplicateCell s key b newKey k)"
proof (cases "findIndex (\<lambda>c. ce_key c = key) (sn_cells (es_draft s))")
  case (Some i)
  then have "cellOk (sn_cells (es_draft s) ! i)"
    using findIndex_Some [OF Some] sessionOk_fits [OF assms(1)] by (simp add: cellFits_def)
  with assms Some show ?thesis
    by (auto simp: duplicateCell_def Let_def copyOfCell_key
        intro!: sessionOk_withCells draftCellsOk_spliceAt copyOfCell_fits)
qed (simp add: duplicateCell_def Let_def)

lemma removeCell_ok:
  assumes "sessionOk s" shows "resultOk (removeCell s key)"
proof -
  have "resultOk (replaceCell s key (\<lambda>c. if ce_isDeleted c then None else Some (c\<lparr>ce_isDeleted := True\<rparr>)))"
    by (rule replaceCell_ok [OF assms]) (auto dest: sessionOk_fits [OF assms] split: if_splits)
  with assms show ?thesis
    by (auto simp: removeCell_def Let_def split: option.split intro: sessionOk_withCells draftCellsOk_dropAt)
qed

lemma restoreCell_ok: "sessionOk s \<Longrightarrow> resultOk (restoreCell s key)"
  unfolding restoreCell_def
  by (rule replaceCell_ok) (auto dest: sessionOk_fits split: if_splits)

text \<open>A patch the reducer trusts: it names a sector of the draft and gives an NR cell a mode.\<close>

definition patchFits :: "editSession \<Rightarrow> cellPatch \<Rightarrow> cellDraft \<Rightarrow> bool" where
  "patchFits s p c \<longleftrightarrow> (ce_rat c = Nr \<longrightarrow> cp_mode p \<noteq> Some None) \<and>
     (\<forall>k. cp_sectorKey p = Some (Some k) \<longrightarrow> hasSectorRow (sn_sectors (es_draft s)) k)"

definition patchOk :: "editSession \<Rightarrow> draftKey \<Rightarrow> cellPatch \<Rightarrow> bool" where
  "patchOk s key p \<longleftrightarrow> (\<forall>c\<in>set (sn_cells (es_draft s)). ce_key c = key \<longrightarrow> patchFits s p c)"

lemma patchedCell_fits:
  assumes "cellFits s c" "patchFits s p c"
  shows "cellFits s (patchedCell c p)"
  using assms nsaClean_patchedCell [of c p]
  by (cases "cp_mode p"; cases "cp_sectorKey p")
    (auto simp: cellFits_def cellOk_def patchFits_def isAttached_def resolveMode_def split: option.splits)

lemma patchCell_fits: "cellFits s c \<Longrightarrow> patchFits s p c \<Longrightarrow> cellFits s (patchCell c p)"
  using patchedCell_fits by (simp add: patchCell_def Let_def)

lemma setCell_ok:
  assumes "sessionOk s" "patchOk s key p"
  shows "resultOk (replaceCell s key (patchChange p))"
  using assms(1)
proof (rule replaceCell_ok)
  fix c c' assume "c \<in> set (sn_cells (es_draft s))" "ce_key c = key" "patchChange p c = Some c'"
  then show "ce_key c' = key \<and> cellFits s c'"
    using patchedCell_fits [OF sessionOk_fits [OF assms(1)]] assms(2)
    by (auto simp: patchChange_def patchOk_def Let_def split: if_splits)
qed

section \<open>Area codes, country rule, reverts\<close>

lemma shareAreaCode_ok: "sessionOk s \<Longrightarrow> resultOk (shareAreaCode s r v)"
  by (simp add: shareAreaCode_def sessionOk_withAreaCode)

lemma setHoistedTac_ok: "sessionOk s \<Longrightarrow> resultOk (setHoistedTac s h)"
proof -
  have rats: "ce_rat ` set (sn_cells (applyTacRule sn h)) = ce_rat ` set (sn_cells sn)" for sn
    using map_cells_applyTacRule [of ce_rat sn h] by (metis copySharedAreaCode_frame(3) set_map)
  assume "sessionOk s"
  then show ?thesis
    by (auto simp: setHoistedTac_def sessionOk_def liveOrEmpty_def snapshotOk_applyTacRule ratsOk_def rats
        simp del: image_subset_iff)
qed

lemma setEnabledRats_ok: "sessionOk s \<Longrightarrow> resultOk (setEnabledRats s rats)"
  by (auto simp: setEnabledRats_def Let_def sessionOk_def liveOrEmpty_def)

lemma setAction_ok: "sessionOk s \<Longrightarrow> resultOk (setAction s a)"
  by (auto simp: setAction_def sessionOk_def liveOrEmpty_def)

lemma revertStationField_ok:
  "sessionOk s \<Longrightarrow> backhaulOk (st_backhaul base) \<Longrightarrow> resultOk (revertStationField same s base field)"
  unfolding revertStationField_def Let_def
  by (auto split: option.split editField.split
      intro: resultOk_handBack setIdentifier_ok setBackhaul_ok setHostStation_ok patchStation_ok)

lemma revertPlaceField_ok: "sessionOk s \<Longrightarrow> resultOk (revertPlaceField same s base field)"
  unfolding revertPlaceField_def revertPlaceValue_def
  by (auto split: option.split editField.split
      intro: resultOk_handBack patchPlace_ok patchStructure_ok)

text \<open>The rows of the live record and of the draft that share a key are of one technology.\<close>

definition liveRowsMatch :: "editSession \<Rightarrow> bool" where
  "liveRowsMatch s \<longleftrightarrow> (\<forall>c\<in>set (sn_cells (es_draft s)). \<forall>b\<in>set (sn_cells (liveOrEmpty s)).
     ce_key c = ce_key b \<longrightarrow> ce_rat c = ce_rat b)"

lemma toFieldPatch_frame:
  "cp_mode (toFieldPatch b f) = (if f = FMode then Some (ce_mode b) else None)"
  "cp_sectorKey (toFieldPatch b f) = (if f = FSectorKey then Some (ce_sectorKey b) else None)"
  by (auto simp: toFieldPatch_def toNumberPatch_def toFlagPatch_def noPatch_def split: editField.split)

lemma restoredCell_fits: "cellOk b \<Longrightarrow> cellFits s (restoredCell s b)"
  by (simp add: restoredCell_def cellFits_def isAttached_def)

lemma restoredCell_frame [simp]:
  "ce_key (restoredCell s b) = ce_key b" "ce_rat (restoredCell s b) = ce_rat b"
  by (simp_all add: restoredCell_def)

lemma revertCell_ok:
  assumes "sessionOk s" "liveRowsMatch s"
  shows "resultOk (revertCell same s (sn_cells (liveOrEmpty s)) key field)"
proof (cases "Option.bind key (\<lambda>k. List.find (\<lambda>c. ce_key c = k) (sn_cells (liveOrEmpty s)))")
  case None
  with assms(1) show ?thesis by (cases key) (auto simp: revertCell_def removeCell_ok)
next
  case (Some b)
  then obtain k where k: "key = Some k" "List.find (\<lambda>c. ce_key c = k) (sn_cells (liveOrEmpty s)) = Some b"
    by (cases key) auto
  then have b: "b \<in> set (sn_cells (liveOrEmpty s))" "ce_key b = k"
    by (auto simp: find_Some_iff)
  with assms(1) have fits: "cellFits s (restoredCell s b)"
    by (auto simp: sessionOk_def snapshotOk_def cellsOk_def intro: restoredCell_fits)
  have whole: "resultOk (replaceCell s k (\<lambda>c. handBack same (restoredCell s b) c (restoredCell s b)))"
    using assms(1) by (rule replaceCell_ok) (auto simp: handBack_def fits b split: if_splits)
  have "patchOk s k (toFieldPatch (restoredCell s b) f)" for f
    using fits assms(2) b
    by (auto simp: patchOk_def patchFits_def toFieldPatch_frame liveRowsMatch_def cellFits_def cellOk_def
        isAttached_def split: option.splits)
  with whole show ?thesis
    by (cases field) (auto simp: revertCell_def k Let_def intro: setCell_ok assms(1))
qed

lemma withAreaCode_frame:
  assumes "withAreaCode s r v = Some s'"
  shows "sn_sectors (es_draft s') = sn_sectors (es_draft s)" "sn_cells (es_draft s') = sn_cells (es_draft s)"
  using assms by (auto simp: withAreaCode_def Let_def withDraft_def split: if_splits)

lemma revertAreaCode_ok:
  assumes "sessionOk s" shows "resultOk (revertAreaCode s base rat)"
proof (cases rat)
  case (Some r)
  let ?cells = "map (revertedAreaCell r (sn_cells base)) (sn_cells (es_draft s))"
  let ?reverted = "if canShareAreaCode r (es_hoistedTac s) then withAreaCode s r (sn_areaCodes base r) else None"
  have fits: "cellFits s (revertedAreaCell r b c)" if "c \<in> set (sn_cells (es_draft s))" for b c
    using sessionOk_fits [OF assms that]
    by (auto simp: revertedAreaCell_def patchFits_def toNumberPatch_def noPatch_def
        intro!: patchCell_fits split: option.split)
  have keys: "map ce_key ?cells = map ce_key (sn_cells (es_draft s))"
    by (simp add: revertedAreaCell_def split: option.split)
  have cells: "draftCellsOk s ?cells"
    using sessionOk_cells [OF assms] fits unfolding draftCellsOk_iff keys by simp
  have reverted: "resultOk ?reverted" using assms by (simp add: sessionOk_withAreaCode)
  have "sn_sectors (es_draft (settle s ?reverted)) = sn_sectors (es_draft s)"
    by (cases ?reverted) (auto dest: withAreaCode_frame(1) split: if_splits)
  with cells have "sessionOk (withCells (settle s ?reverted) ?cells)"
    using sessionOk_settle [OF assms reverted] by (intro sessionOk_withCells) simp_all
  with reverted show ?thesis unfolding revertAreaCode_def Some by (simp add: Let_def)
qed (simp add: revertAreaCode_def)

lemma revertToLive_ok:
  assumes "sessionOk s" "liveRowsMatch s"
  shows "resultOk (revertToLive same s target)"
proof -
  have live: "snapshotOk (liveOrEmpty s)" using assms(1) by (simp add: sessionOk_def)
  show ?thesis
    using assms live
    by (cases "ft_scope target")
      (simp_all add: revertToLive_def Let_def snapshotOk_def revertStationField_ok revertPlaceField_ok
        revertSector_ok revertCell_ok revertAreaCode_ok)
qed

section \<open>Every action of the reducer\<close>

definition baseOk :: "stationSnapshot option \<Rightarrow> bool" where
  "baseOk sn \<longleftrightarrow> (case sn of None \<Rightarrow> True | Some d \<Rightarrow> snapshotOk d)"

lemma baseOk_simps [simp]: "baseOk None" "baseOk (Some d) \<longleftrightarrow> snapshotOk d"
  by (simp_all add: baseOk_def)

lemma baseOk_liveOrEmpty: "snapshotOk (liveOrEmpty s) \<longleftrightarrow> baseOk (es_live s)"
  by (simp add: liveOrEmpty_def split: option.split)

fun actionOk :: "draftKey \<Rightarrow> editSession \<Rightarrow> draftAction \<Rightarrow> bool" where
  "actionOk freshKey s (AddSector _ newKey) =
     (\<not> hasSectorRow (sn_sectors (es_draft s)) (orElse newKey freshKey))"
| "actionOk freshKey s (ApplySectors sectors) = distinct (map se_key sectors)"
| "actionOk freshKey s (AddCell _ options) =
     (orElse (nc_newKey options) freshKey \<notin> set (map ce_key (sn_cells (es_draft s))))"
| "actionOk freshKey s (DuplicateCell _ _ newKey) =
     (orElse newKey freshKey \<notin> set (map ce_key (sn_cells (es_draft s))))"
| "actionOk freshKey s (SetCell key patch) = patchOk s key patch"
| "actionOk freshKey s (ApplyCells cells) = draftCellsOk s cells"
| "actionOk freshKey s (RevertToLive _) = liveRowsMatch s"
| "actionOk freshKey s (Rebase live proposed) = (baseOk live \<and> baseOk proposed)"
| "actionOk freshKey s _ = True"

lemma sessionOk_rebase:
  "sessionOk s \<Longrightarrow> baseOk live \<Longrightarrow> baseOk proposed \<Longrightarrow> sessionOk (rebase s live proposed)"
  by (auto simp: rebase_def Let_def sessionOk_def liveOrEmpty_def snapshotOk_applyTacRule split: option.splits)

lemma sessionOk_resetSession: "sessionOk s \<Longrightarrow> sessionOk (resetSession s)"
  by (simp add: resetSession_def sessionOk_def liveOrEmpty_def)

lemma sessionOk_serverErrors [simp]:
  "sessionOk (s\<lparr>es_serverErrors := e\<rparr>) \<longleftrightarrow> sessionOk s"
  "sessionOk (s\<lparr>es_isSaveAttempted := b\<rparr>) \<longleftrightarrow> sessionOk s"
  by (simp_all add: sessionOk_def liveOrEmpty_def)

lemmas action_ok = patchStation_ok setOperator_ok setHostStation_ok setHostStationEditing_ok
  setIdentifier_ok setBackhaul_ok patchPlace_ok pickPlace_ok dropHostOfMovedStation_ok
  patchStructure_ok setSector_ok removeSector_ok moveSector_ok orderSectors_ok setCell_ok
  removeCell_ok restoreCell_ok shareAreaCode_ok setHoistedTac_ok setEnabledRats_ok setAction_ok
  revertToLive_ok sessionOk_rebase sessionOk_resetSession sessionOk_withCells

lemma applyAction_ok:
  assumes "sessionOk s" "actionOk freshKey s a"
  shows "resultOk (applyAction same freshKey s a)"
proof (cases a)
  case (AddSector degrees newKey)
  with assms show ?thesis by (simp add: hasSectorRow_def addSector_ok)
next
  case (ApplySectors sectors)
  with assms show ?thesis by (simp add: sessionOk_withSectors sectorsOk_take)
next
  case (AddCell r options)
  with assms show ?thesis by (simp add: addCell_ok)
next
  case (DuplicateCell key b newKey)
  with assms show ?thesis by (simp add: duplicateCell_ok)
qed (use assms in \<open>simp_all add: action_ok Let_def\<close>)

definition draftStep :: "editSession \<Rightarrow> bool \<times> draftKey \<times> draftAction \<Rightarrow> editSession" where
  "draftStep s e = (case e of (same, freshKey, a) \<Rightarrow> draftReducer same freshKey s a)"

definition draftStepOk :: "editSession \<Rightarrow> bool \<times> draftKey \<times> draftAction \<Rightarrow> bool" where
  "draftStepOk s e = (case e of (same, freshKey, a) \<Rightarrow> actionOk freshKey s a)"

lemma sessionOk_dropOutdated [simp]: "sessionOk (dropOutdated s a next) \<longleftrightarrow> sessionOk next"
  by (simp add: dropOutdated_def Let_def split: option.split)

lemma draftReducer_ok:
  "sessionOk s \<Longrightarrow> actionOk freshKey s a \<Longrightarrow> sessionOk (draftReducer same freshKey s a)"
  using applyAction_ok [of s freshKey a same]
  by (cases "applyAction same freshKey s a") (simp_all add: draftReducer_def)

interpretation editor: invariant_machine draftStep draftStepOk sessionOk
  by unfold_locales (auto simp: draftStep_def draftStepOk_def draftReducer_ok)

lemma sessionOk_createSession:
  assumes "baseOk (in_live input)" "baseOk (in_proposed input)" "baseOk (in_initialDraft input)"
  shows "sessionOk (createSession input)"
proof -
  have "snapshotOk (case in_initialDraft input of Some d \<Rightarrow> d
      | None \<Rightarrow> (case in_proposed input of Some p \<Rightarrow> p
                 | None \<Rightarrow> (case in_live input of Some l \<Rightarrow> l | None \<Rightarrow> EMPTY_SNAPSHOT)))"
    using assms by (auto split: option.split)
  then show ?thesis
    using assms(1)
    by (simp add: createSession_def Let_def sessionOk_def snapshotOk_applyTacRule baseOk_liveOrEmpty)
qed

end
