(* ===== verification/JsValues.thy ===== *)
theory JsValues
  imports Prelude "HOL-Library.Multiset"
begin

text \<open>
  Two things of the JavaScript runtime several components rest on: the decimal text of a number
  (\<open>String(n)\<close>, \<open>/\d+/\<close> and \<open>Number(text)\<close> on digits) and \<open>Array.prototype.sort\<close> with a comparator.
  Numbers are exact: the ids that go through this text are database ids, far below \<open>2^53\<close>.
\<close>

section \<open>Decimal text\<close>

definition digitChar :: "nat \<Rightarrow> char" where
  "digitChar d = char_of (48 + d)"

definition isDigit :: "char \<Rightarrow> bool" where
  "isDigit c \<longleftrightarrow> 48 \<le> (of_char c :: nat) \<and> (of_char c :: nat) \<le> 57"

definition digitValue :: "char \<Rightarrow> nat" where
  "digitValue c = of_char c - 48"

fun natText :: "nat \<Rightarrow> string" where
  "natText n = (if n < 10 then [digitChar n] else natText (n div 10) @ [digitChar (n mod 10)])"

declare natText.simps [simp del]

definition intText :: "int \<Rightarrow> string" where
  "intText i = (if i < 0 then CHR ''-'' # natText (nat (- i)) else natText (nat i))"

definition digitsValue :: "string \<Rightarrow> nat" where
  "digitsValue text = fold (\<lambda>c n. 10 * n + digitValue c) text 0"

lemma digitChar_simps [simp]:
  assumes "d < 10" shows "isDigit (digitChar d)" "digitValue (digitChar d) = d"
  using assms by (simp_all add: digitChar_def isDigit_def digitValue_def)

lemma digitsValue_snoc [simp]: "digitsValue (xs @ [c]) = 10 * digitsValue xs + digitValue c"
  by (simp add: digitsValue_def)

lemma digitsValue_natText [simp]: "digitsValue (natText n) = n"
proof (induction n rule: natText.induct)
  case (1 n)
  show ?case
  proof (cases "n < 10")
    case True
    then have "digitValue (digitChar n) = n" by simp
    with True show ?thesis by (subst natText.simps) (simp add: digitsValue_def)
  next
    case False
    have "digitsValue (natText n) = 10 * (n div 10) + n mod 10"
      using False 1 by (subst natText.simps) simp
    then show ?thesis by simp
  qed
qed

lemma isDigit_natText: "\<forall>c\<in>set (natText n). isDigit c"
proof (induction n rule: natText.induct)
  case (1 n)
  show ?case
  proof (cases "n < 10")
    case False
    with 1 have "\<forall>c\<in>set (natText (n div 10) @ [digitChar (n mod 10)]). isDigit c" by simp
    with False show ?thesis by (subst natText.simps) simp
  qed (subst natText.simps, simp)
qed

lemma natText_ne [simp]: "natText n \<noteq> []"
  by (subst natText.simps) simp

lemma natText_inj [simp]: "natText m = natText n \<longleftrightarrow> m = n"
  by (metis digitsValue_natText)

lemma intText_inj [simp]: "intText i = intText j \<longleftrightarrow> i = j"
proof
  have minus: "\<not> isDigit (CHR ''-'')" by (simp add: isDigit_def)
  have head: "natText n \<noteq> CHR ''-'' # ys" for n ys
    using isDigit_natText [of n] minus by (metis list.set_intros(1))
  assume "intText i = intText j"
  then show "i = j"
    using head [of "nat i"] head [of "nat j"]
    by (auto simp: intText_def split: if_splits dest: sym)
qed simp

section \<open>Sorting with a comparator\<close>

text \<open>
  \<open>xs.sort(compare)\<close> is stable. Where the comparator is consistent (the laws of the locale below)
  the result is determined, and insertion computes it.
\<close>

fun insertBy :: "('a \<Rightarrow> 'a \<Rightarrow> number) \<Rightarrow> 'a \<Rightarrow> 'a list \<Rightarrow> 'a list" where
  "insertBy compare x [] = [x]"
| "insertBy compare x (y # ys) = (if compare x y \<le> 0 then x # y # ys else y # insertBy compare x ys)"

fun sortBy :: "('a \<Rightarrow> 'a \<Rightarrow> number) \<Rightarrow> 'a list \<Rightarrow> 'a list" where
  "sortBy compare [] = []"
| "sortBy compare (x # xs) = insertBy compare x (sortBy compare xs)"

lemma mset_insertBy [simp]: "mset (insertBy compare x ys) = add_mset x (mset ys)"
  by (induction ys) simp_all

lemma mset_sortBy [simp]: "mset (sortBy compare xs) = mset xs"
  by (induction xs) simp_all

lemma set_sortBy [simp]: "set (sortBy compare xs) = set xs"
  by (metis mset_sortBy set_mset_mset)

text \<open>\<open>left || right\<close> on comparator results: the first that is not 0.\<close>

definition orNext :: "number \<Rightarrow> number \<Rightarrow> number" where
  "orNext a b = (if a = 0 then b else a)"

lemma orNext_simps [simp]: "orNext 0 b = b" "a \<noteq> 0 \<Longrightarrow> orNext a b = a"
  by (simp_all add: orNext_def)

locale comparator =
  fixes compare :: "'a \<Rightarrow> 'a \<Rightarrow> number"
  assumes compare_flip: "compare x y \<le> 0 \<longleftrightarrow> 0 \<le> compare y x"
    and compare_trans: "compare x y \<le> 0 \<Longrightarrow> compare y z \<le> 0 \<Longrightarrow> compare x z \<le> 0"
begin

lemma compare_total: "compare x y \<le> 0 \<or> compare y x \<le> 0"
  using compare_flip by (metis linorder_linear)

lemma compare_refl: "compare x x \<le> 0"
  using compare_total [of x x] by simp

lemma sorted_insertBy:
  "sorted_wrt (\<lambda>x y. compare x y \<le> 0) ys \<Longrightarrow> sorted_wrt (\<lambda>x y. compare x y \<le> 0) (insertBy compare x ys)"
proof (induction ys)
  case (Cons y ys)
  show ?case
  proof (cases "compare x y \<le> 0")
    case True
    with Cons.prems show ?thesis by (auto intro: compare_trans)
  next
    case False
    then have "compare y x \<le> 0" using compare_total by blast
    moreover have "set (insertBy compare x ys) = insert x (set ys)"
      by (metis mset_insertBy set_mset_add_mset_insert set_mset_mset)
    ultimately show ?thesis using False Cons by auto
  qed
qed simp

lemma sorted_sortBy: "sorted_wrt (\<lambda>x y. compare x y \<le> 0) (sortBy compare xs)"
  by (induction xs) (simp_all add: sorted_insertBy)

text \<open>Stable: elements the comparator does not tell apart keep their order.\<close>

lemma filter_insertBy:
  assumes "\<And>y. P y \<Longrightarrow> P x \<Longrightarrow> compare x y \<le> 0"
  shows "filter P (insertBy compare x ys) = (if P x then x # filter P ys else filter P ys)"
  using assms by (induction ys) auto

lemma stable_sortBy:
  "filter (\<lambda>y. compare z y = 0) (sortBy compare xs) = filter (\<lambda>y. compare z y = 0) xs"
proof (induction xs)
  case (Cons x xs)
  have eq: "compare x y \<le> 0" if "compare z y = 0" "compare z x = 0" for y
  proof -
    have "compare x z \<le> 0" using compare_flip [of x z] that(2) by simp
    then show ?thesis using compare_trans [of x z y] that(1) by simp
  qed
  then have "filter (\<lambda>y. compare z y = 0) (insertBy compare x (sortBy compare xs))
      = (if compare z x = 0 then x # filter (\<lambda>y. compare z y = 0) (sortBy compare xs)
         else filter (\<lambda>y. compare z y = 0) (sortBy compare xs))"
    by (rule filter_insertBy)
  with Cons show ?case by simp
qed simp

end

text \<open>Comparing by numbers, and by one comparator after another, is consistent.\<close>

lemma comparator_by: "comparator (\<lambda>x y. f x - f y)"
  by unfold_locales auto

lemma comparator_orNext:
  assumes "comparator f" "comparator g"
  shows "comparator (\<lambda>x y. orNext (f x y) (g x y))"
proof
  note f = comparator.compare_flip [OF assms(1)] and g = comparator.compare_flip [OF assms(2)]
  note ft = comparator.compare_trans [OF assms(1)] and gt = comparator.compare_trans [OF assms(2)]
  have zero: "f x y = 0 \<longleftrightarrow> f y x = 0" for x y using f [of x y] f [of y x] by force
  show "orNext (f x y) (g x y) \<le> 0 \<longleftrightarrow> 0 \<le> orNext (f y x) (g y x)" for x y
    using f [of x y] g [of x y] zero [of x y] by (simp add: orNext_def)
  fix x y z
  assume xy: "orNext (f x y) (g x y) \<le> 0" and yz: "orNext (f y z) (g y z) \<le> 0"
  have le: "f x y \<le> 0" "f y z \<le> 0" using xy yz by (auto simp: orNext_def split: if_splits)
  then have xz: "f x z \<le> 0" by (rule ft)
  show "orNext (f x z) (g x z) \<le> 0"
  proof (cases "f x z = 0")
    case True
    have "f z x \<le> 0" using True zero [of x z] by simp
    then have "f z y \<le> 0" "f y x \<le> 0" using ft [of z x y] ft [of y z x] le by auto
    then have "f x y = 0" "f y z = 0" using le f [of y x] f [of z y] by force+
    with xy yz True gt show ?thesis by simp
  qed (use xz in simp)
qed

end
