(* ===== verification/Proposals.thy ===== *)
theory Proposals
  imports DraftInvariants JsValues
begin

text \<open>
  Snapshots and proposals, the rest of model/snapshots.ts: a station record of the API turned into
  a snapshot (its cells sorted), and a submission's changes laid over the live snapshot. Sector and
  cell keys of stored rows are made from their ids, those of proposed rows from the keys of the
  submission's entries. A \<open>Map\<close> that is only looked up in is a partial function.
\<close>

section \<open>Keys\<close>

definition CELL_PREFIX :: string where "CELL_PREFIX = ''c''"
definition SECTOR_PREFIX :: string where "SECTOR_PREFIX = ''s''"
definition PROPOSED_CELL_PREFIX :: string where "PROPOSED_CELL_PREFIX = ''p''"
definition PROPOSED_SECTOR_PREFIX :: string where "PROPOSED_SECTOR_PREFIX = ''q''"

lemmas key_prefixes = CELL_PREFIX_def SECTOR_PREFIX_def PROPOSED_CELL_PREFIX_def PROPOSED_SECTOR_PREFIX_def

definition toCellKey :: "int \<Rightarrow> draftKey" where
  "toCellKey cellId = CELL_PREFIX @ intText cellId"

definition toSectorKey :: "int \<Rightarrow> draftKey" where
  "toSectorKey sectorId = SECTOR_PREFIX @ intText sectorId"

definition startsWith :: "string \<Rightarrow> string \<Rightarrow> bool" where
  "startsWith prefix text \<longleftrightarrow> take (length prefix) text = prefix"

definition getSectorWireKey :: "sectorDraft \<Rightarrow> string" where
  "getSectorWireKey sector =
    (if startsWith PROPOSED_SECTOR_PREFIX (se_key sector)
     then drop (length PROPOSED_SECTOR_PREFIX) (se_key sector) else se_key sector)"

text \<open>\<open>/^sector-(\d+)$/\<close>: the stored sector an entry key names.\<close>

definition storedSectorId :: "string \<Rightarrow> int option" where
  "storedSectorId entryKey =
    (let digits = drop 7 entryKey
     in if startsWith ''sector-'' entryKey \<and> digits \<noteq> [] \<and> list_all isDigit digits
        then Some (int (digitsValue digits)) else None)"

section \<open>A record of the API\<close>

text \<open>The fields of the API's cells, places, sectors and stations that the snapshot is made of.\<close>

record recordCell =
  rc_id :: int
  rc_createdAt :: string
  rc_updatedAt :: string
  rc_rat :: tech
  rc_bandId :: "int option"
  rc_bandLabelMhz :: "number option"
  rc_sectorId :: "int option"
  rc_cellType :: "cellType option"
  rc_notes :: "string option"
  rc_isConfirmed :: bool
  rc_mode :: "nrMode option"
  rc_numbers :: "cellNumberField \<Rightarrow> number option option"
  rc_flags :: "cellFlagField \<Rightarrow> bool option"
  rc_gnbidLength :: "int option"
  rc_plmns :: "string list"

record recordStructure =
  rs_type :: "structureType option"
  rs_ownerId :: "int option"
  rs_note :: "string option"

record recordLocation =
  rl_id :: int
  rl_regionId :: "int option"
  rl_city :: "string option"
  rl_address :: "string option"
  rl_structure :: recordStructure
  rl_latitude :: number
  rl_longitude :: number

record recordSector =
  rx_id :: int
  rx_azimuth :: "number option"

record stationRecord =
  sr_siteId :: "string option"
  sr_operatorId :: "int option"
  sr_operatorPlmn :: "string option"
  sr_hostStationId :: "int option"
  sr_status :: stationStatus
  sr_isConfirmed :: bool
  sr_notes :: "string option"
  sr_identifiers :: "(string \<times> string) list"
  sr_backhaul :: "(backhaulMedium \<times> number option \<times> string option) option"
  sr_location :: "recordLocation option"
  sr_sectors :: "recordSector list"
  sr_cells :: "recordCell list"

definition readNumbers ::
  "tech \<Rightarrow> (cellNumberField \<Rightarrow> number option option) \<Rightarrow> (cellNumberField \<Rightarrow> number option option)
    \<Rightarrow> cellNumberField \<Rightarrow> number option option" where
  "readNumbers r source fallback =
    fold (\<lambda>spec numbers. numbers(nf_field spec \<mapsto>
        (case source (nf_field spec) of
           None \<Rightarrow> (case fallback (nf_field spec) of None \<Rightarrow> None | Some v \<Rightarrow> v)
         | Some v \<Rightarrow> v)))
      (rs_numbers (RAT_FIELDS r)) Map.empty"

definition readFlags ::
  "tech \<Rightarrow> (cellFlagField \<Rightarrow> bool option) \<Rightarrow> (cellFlagField \<Rightarrow> bool option)
    \<Rightarrow> cellFlagField \<Rightarrow> bool option" where
  "readFlags r source fallback =
    fold (\<lambda>spec flags. flags(ff_field spec \<mapsto>
        (case source (ff_field spec) of
           Some v \<Rightarrow> v
         | None \<Rightarrow> (case fallback (ff_field spec) of Some v \<Rightarrow> v | None \<Rightarrow> False))))
      (rs_flags (RAT_FIELDS r)) Map.empty"

text \<open>\<open>value ?? fallback\<close> on a field that may be null.\<close>

definition orValue :: "'a option \<Rightarrow> 'a \<Rightarrow> 'a" where
  "orValue v fallback = (case v of None \<Rightarrow> fallback | Some x \<Rightarrow> x)"

lemma orValue_simps [simp]: "orValue None d = d" "orValue (Some v) d = v"
  by (simp_all add: orValue_def)

definition toCellDraft :: "recordCell \<Rightarrow> string option \<Rightarrow> cellDraft" where
  "toCellDraft c ownerPlmn = \<lparr>
     ce_key = toCellKey (rc_id c),
     ce_id = Some (rc_id c),
     ce_createdAt = Some (rc_createdAt c),
     ce_updatedAt = Some (rc_updatedAt c),
     ce_rat = rc_rat c,
     ce_bandId = rc_bandId c,
     ce_sectorKey = map_option toSectorKey (rc_sectorId c),
     ce_cellType = rc_cellType c,
     ce_notes = orValue (rc_notes c) [],
     ce_isConfirmed = rc_isConfirmed c,
     ce_mode = (if rc_rat c = Nr then rc_mode c else None),
     ce_numbers = readNumbers (rc_rat c) (rc_numbers c) Map.empty,
     ce_flags = readFlags (rc_rat c) (if rc_rat c = Umts then Map.empty else rc_flags c) Map.empty,
     ce_gnbidLength = (if rc_rat c = Nr then rc_gnbidLength c else None),
     ce_extraPlmns = filter (\<lambda>code. Some code \<noteq> ownerPlmn) (rc_plmns c),
     ce_isDeleted = False\<rparr>"

section \<open>The order of a record's cells\<close>

fun getRatRank :: "tech \<Rightarrow> number" where
  "getRatRank Nr = 0" | "getRatRank Lte = 1" | "getRatRank Umts = 2" | "getRatRank Gsm = 3"

definition isNsaCell :: "cellDraft \<Rightarrow> bool" where
  "isNsaCell c \<longleftrightarrow> ce_rat c = Nr \<and> ce_mode c \<noteq> Some Sa"

definition getModeRank :: "cellDraft \<Rightarrow> number" where
  "getModeRank c = (if isNsaCell c then 1 else 0)"

definition getNodeRank :: "cellDraft \<Rightarrow> number" where
  "getNodeRank c =
    (case rs_nodeField (RAT_FIELDS (ce_rat c)) of
       None \<Rightarrow> 0
     | Some nodeField \<Rightarrow> (if isNsaCell c then 0 else orValue (getCellNumber c nodeField) 0))"

definition getCellRank :: "cellDraft \<Rightarrow> number" where
  "getCellRank c =
    (case (if isNsaCell c then Some Pci else rs_cellIdField (RAT_FIELDS (ce_rat c))) of
       None \<Rightarrow> 0
     | Some field \<Rightarrow> orValue (getCellNumber c field) 0)"

definition compareRecordRows :: "cellDraft \<times> number \<Rightarrow> cellDraft \<times> number \<Rightarrow> number" where
  "compareRecordRows left right =
    orNext (getRatRank (ce_rat (fst left)) - getRatRank (ce_rat (fst right)))
   (orNext (getModeRank (fst left) - getModeRank (fst right))
   (orNext (snd left - snd right)
   (orNext (getNodeRank (fst left) - getNodeRank (fst right))
   (orNext (getCellRank (fst left) - getCellRank (fst right))
     (of_int (orValue (ce_id (fst left)) 0) - of_int (orValue (ce_id (fst right)) 0))))))"

definition sortRecordCells :: "recordCell list \<Rightarrow> string option \<Rightarrow> cellDraft list" where
  "sortRecordCells cells ownerPlmn =
    map fst (sortBy compareRecordRows
      (map (\<lambda>c. (toCellDraft c ownerPlmn, orValue (rc_bandLabelMhz c) 0)) cells))"

interpretation recordRows: comparator compareRecordRows
  unfolding compareRecordRows_def by (intro comparator_orNext comparator_by)

definition groupCellsByRat :: "cellDraft list \<Rightarrow> cellDraft list" where
  "groupCellsByRat cells = concat (map (\<lambda>r. filter (\<lambda>c. ce_rat c = r) cells) RAT_ORDER)"

fun identifierKindOf :: "string \<Rightarrow> identifierKind option" where
  "identifierKindOf kind =
    (if kind = ''networksId'' then Some NetworksId
     else if kind = ''networksName'' then Some NetworksName
     else if kind = ''operatorName'' then Some OperatorName else None)"

declare identifierKindOf.simps [simp del]

definition readIdentifiers :: "(string \<times> string) list \<Rightarrow> identifierKind \<Rightarrow> string" where
  "readIdentifiers identifiers =
    fold (\<lambda>(kind, value) values.
        case identifierKindOf kind of None \<Rightarrow> values | Some k \<Rightarrow> values(k := value))
      identifiers createEmptyIdentifiers"

definition toPlaceDraft :: "recordLocation \<Rightarrow> placeDraft" where
  "toPlaceDraft location = \<lparr>
     pl_locationId = Some (rl_id location),
     pl_latitude = Some (rl_latitude location),
     pl_longitude = Some (rl_longitude location),
     pl_regionId = rl_regionId location,
     pl_isRegionPicked = False,
     pl_city = orValue (rl_city location) [],
     pl_address = orValue (rl_address location) [],
     pl_structure = \<lparr>
       sd_type = rs_type (rl_structure location),
       sd_owner = (case rs_ownerId (rl_structure location) of None \<Rightarrow> OwnerUnknown | Some i \<Rightarrow> OwnerListed i),
       sd_note = orValue (rs_note (rl_structure location)) []\<rparr>,
     pl_move = MoveStation\<rparr>"

definition toStationSnapshot :: "stationRecord \<Rightarrow> stationSnapshot" where
  "toStationSnapshot rec =
    (let cells = sortRecordCells (sr_cells rec) (sr_operatorPlmn rec)
     in \<lparr>sn_station = \<lparr>
           st_siteId = orValue (sr_siteId rec) [],
           st_operatorId = sr_operatorId rec,
           st_hostStationId = sr_hostStationId rec,
           st_status = sr_status rec,
           st_isConfirmed = sr_isConfirmed rec,
           st_notes = orValue (sr_notes rec) [],
           st_identifiers = readIdentifiers (sr_identifiers rec),
           st_backhaul = (case sr_backhaul rec of
               None \<Rightarrow> EMPTY_BACKHAUL
             | Some (medium, speedMbps, model) \<Rightarrow>
                 \<lparr>bh_medium = Some medium, bh_speedMbps = speedMbps, bh_model = orValue model []\<rparr>)\<rparr>,
         sn_place = map_option toPlaceDraft (sr_location rec),
         sn_sectors = map (\<lambda>x. \<lparr>se_key = toSectorKey (rx_id x), se_id = Some (rx_id x),
                               se_degrees = Some (toDegrees (rx_azimuth x))\<rparr>) (sr_sectors rec),
         sn_cells = cells,
         sn_areaCodes = deriveAreaCodes cells\<rparr>)"
section \<open>The changes of a submission\<close>

record backhaulChange =
  bc_medium :: "backhaulMedium option"
  bc_speedMbps :: "number option option"
  bc_model :: "string option option"

record stationChange =
  sc_siteId :: "string option option"
  sc_operatorId :: "int option"
  sc_hostStationId :: "int option option"
  sc_notes :: "string option option"
  sc_identifiers :: "(identifierKind \<times> string option) list option"
  sc_backhaul :: "backhaulChange option option"

record structureChange =
  tc_type :: "structureType option option"
  tc_ownerId :: "int option option"
  tc_ownerName :: "string option"
  tc_note :: "string option option"

record locationChange =
  lc_regionId :: "int option"
  lc_city :: "string option option"
  lc_address :: "string option option"
  lc_latitude :: "number option"
  lc_longitude :: "number option"
  lc_structure :: "structureChange option"
  lc_move :: locationMove

record sectorChange =
  xc_action :: "editAction option"
  xc_id :: "int option"
  xc_key :: string
  xc_azimuth :: "number option"

record cellChange =
  cc_changeId :: int
  cc_action :: editAction
  cc_id :: "int option"
  cc_rat :: "tech option"
  cc_bandId :: "int option"
  cc_sectorId :: "int option"
  cc_sectorKey :: "string option"
  cc_isSectorCleared :: bool
  cc_cellType :: "cellType option"
  cc_notes :: "string option"
  cc_isConfirmed :: bool
  cc_mode :: "nrMode option"
  cc_gnbidLength :: "int option"
  cc_extraPlmns :: "string list option"
  cc_numbers :: "cellNumberField \<Rightarrow> number option option"
  cc_flags :: "cellFlagField \<Rightarrow> bool option"

record proposalSource =
  ps_station :: "stationChange option"
  ps_location :: "locationChange option"
  ps_sectors :: "sectorChange list"
  ps_cells :: "cellChange list"

record sectorLayer =
  ly_sectors :: "sectorDraft list"
  ly_keysByEntryKey :: "string \<Rightarrow> draftKey option"
  ly_orphans :: "proposalOrphan list"

section \<open>Station and place\<close>

definition layIdentifiers ::
  "(identifierKind \<Rightarrow> string) \<Rightarrow> (identifierKind \<times> string option) list option \<Rightarrow> identifierKind \<Rightarrow> string" where
  "layIdentifiers base changes =
    (case changes of
       None \<Rightarrow> base
     | Some cs \<Rightarrow> fold (\<lambda>(kind, value) identifiers. identifiers(kind := orValue value [])) cs base)"

definition layBackhaul :: "backhaulDraft \<Rightarrow> backhaulChange option option \<Rightarrow> backhaulDraft" where
  "layBackhaul base change =
    (case change of
       None \<Rightarrow> base
     | Some None \<Rightarrow> EMPTY_BACKHAUL
     | Some (Some c) \<Rightarrow> \<lparr>
         bh_medium = (case bc_medium c of Some m \<Rightarrow> Some m | None \<Rightarrow> bh_medium base),
         bh_speedMbps = orElse (bc_speedMbps c) (bh_speedMbps base),
         bh_model = (case bc_model c of None \<Rightarrow> bh_model base | Some m \<Rightarrow> orValue m [])\<rparr>)"

definition layStation :: "stationDraft \<Rightarrow> stationChange option \<Rightarrow> stationDraft" where
  "layStation base change =
    (case change of
       None \<Rightarrow> base
     | Some c \<Rightarrow> base\<lparr>
         st_siteId := (case sc_siteId c of None \<Rightarrow> st_siteId base | Some v \<Rightarrow> orValue v []),
         st_operatorId := (case sc_operatorId c of Some i \<Rightarrow> Some i | None \<Rightarrow> st_operatorId base),
         st_hostStationId := orElse (sc_hostStationId c) (st_hostStationId base),
         st_notes := (case sc_notes c of None \<Rightarrow> st_notes base | Some v \<Rightarrow> orValue v []),
         st_identifiers := layIdentifiers (st_identifiers base) (sc_identifiers c),
         st_backhaul := layBackhaul (st_backhaul base) (sc_backhaul c)\<rparr>)"

definition layOwner :: "ownerChoice \<Rightarrow> structureChange \<Rightarrow> ownerChoice" where
  "layOwner base change =
    (case tc_ownerName change of
       Some name \<Rightarrow> (if name \<noteq> [] then OwnerProposed name
                    else case tc_ownerId change of None \<Rightarrow> base | Some None \<Rightarrow> OwnerUnknown
                         | Some (Some i) \<Rightarrow> OwnerListed i)
     | None \<Rightarrow> (case tc_ownerId change of None \<Rightarrow> base | Some None \<Rightarrow> OwnerUnknown
                | Some (Some i) \<Rightarrow> OwnerListed i))"

definition layStructure :: "structureDraft \<Rightarrow> structureChange option \<Rightarrow> structureDraft" where
  "layStructure base change =
    (case change of
       None \<Rightarrow> base
     | Some c \<Rightarrow> \<lparr>
         sd_type = orElse (tc_type c) (sd_type base),
         sd_owner = layOwner (sd_owner base) c,
         sd_note = (case tc_note c of None \<Rightarrow> sd_note base | Some v \<Rightarrow> orValue v [])\<rparr>)"

definition layPlace :: "placeDraft option \<Rightarrow> locationChange option \<Rightarrow> placeDraft option" where
  "layPlace base change =
    (case change of
       None \<Rightarrow> base
     | Some c \<Rightarrow>
         (let place = orValue base createEmptyPlace
          in Some (place\<lparr>
               pl_latitude := (case lc_latitude c of Some v \<Rightarrow> Some v | None \<Rightarrow> pl_latitude place),
               pl_longitude := (case lc_longitude c of Some v \<Rightarrow> Some v | None \<Rightarrow> pl_longitude place),
               pl_regionId := (case lc_regionId c of Some v \<Rightarrow> Some v | None \<Rightarrow> pl_regionId place),
               pl_isRegionPicked := (lc_regionId c \<noteq> None),
               pl_city := (case lc_city c of None \<Rightarrow> pl_city place | Some v \<Rightarrow> orValue v []),
               pl_address := (case lc_address c of None \<Rightarrow> pl_address place | Some v \<Rightarrow> orValue v []),
               pl_structure := layStructure (pl_structure place) (lc_structure c),
               pl_move := lc_move c\<rparr>)))"

section \<open>Sectors\<close>

definition toProposedSector :: "sectorChange \<Rightarrow> sectorDraft" where
  "toProposedSector entry =
    \<lparr>se_key = PROPOSED_SECTOR_PREFIX @ xc_key entry, se_id = None,
     se_degrees = Some (toDegrees (xc_azimuth entry))\<rparr>"

text \<open>The loop of \<open>layCompleteSectorList\<close>: \<open>retained\<close>, \<open>added\<close> and \<open>keysByEntryKey\<close>.\<close>

type_synonym retainedRows = "int \<Rightarrow> sectorDraft option"
type_synonym entryKeys = "string \<Rightarrow> draftKey option"

definition findRetained :: "sectorDraft list \<Rightarrow> sectorChange \<Rightarrow> retainedRows \<Rightarrow> sectorDraft option" where
  "findRetained base entry retained =
    (case xc_id entry of
       None \<Rightarrow> List.find (\<lambda>row. case se_id row of None \<Rightarrow> False
                 | Some i \<Rightarrow> se_degrees row = Some (toDegrees (xc_azimuth entry)) \<and> retained i = None) base
     | Some i \<Rightarrow> List.find (\<lambda>row. se_id row = Some i) base)"

fun layCompleteEntries ::
  "sectorDraft list \<Rightarrow> sectorChange list \<Rightarrow> retainedRows \<Rightarrow> sectorDraft list \<Rightarrow> entryKeys
    \<Rightarrow> retainedRows \<times> sectorDraft list \<times> entryKeys" where
  "layCompleteEntries base [] retained added keys = (retained, added, keys)"
| "layCompleteEntries base (entry # entries) retained added keys =
     (let degrees = Some (toDegrees (xc_azimuth entry));
          match = findRetained base entry retained
      in case Option.bind match (\<lambda>m. map_option (\<lambda>i. (m, i)) (se_id m)) of
           None \<Rightarrow>
             (let row = toProposedSector entry
              in layCompleteEntries base entries retained (added @ [row]) (keys(xc_key entry \<mapsto> se_key row)))
         | Some (m, i) \<Rightarrow>
             layCompleteEntries base entries
               (retained(i \<mapsto> (if se_degrees m = degrees then m else m\<lparr>se_degrees := degrees\<rparr>)))
               added (keys(xc_key entry \<mapsto> se_key m)))"

definition layCompleteSectorList :: "sectorDraft list \<Rightarrow> sectorChange list \<Rightarrow> sectorLayer" where
  "layCompleteSectorList base entries =
    (let (retained, added, keys) = layCompleteEntries base entries Map.empty [] Map.empty;
         kept = concat (map (\<lambda>row. case Option.bind (se_id row) retained of None \<Rightarrow> [] | Some r \<Rightarrow> [r]) base)
     in \<lparr>ly_sectors = kept @ added, ly_keysByEntryKey = keys, ly_orphans = []\<rparr>)"

text \<open>\<open>replaced\<close> holds \<open>null\<close> for a deleted sector.\<close>

fun laySectorEntries ::
  "sectorDraft list \<Rightarrow> sectorChange list \<Rightarrow> (int \<Rightarrow> sectorDraft option option) \<Rightarrow> sectorDraft list
    \<Rightarrow> entryKeys \<Rightarrow> proposalOrphan list
    \<Rightarrow> (int \<Rightarrow> sectorDraft option option) \<times> sectorDraft list \<times> entryKeys \<times> proposalOrphan list" where
  "laySectorEntries base [] replaced added keys orphans = (replaced, added, keys, orphans)"
| "laySectorEntries base (entry # entries) replaced added keys orphans =
     (case xc_action entry of
        None \<Rightarrow>
          laySectorEntries base entries replaced (added @ [toProposedSector entry])
            (keys(xc_key entry \<mapsto> se_key (toProposedSector entry))) orphans
      | Some action \<Rightarrow>
          (if action = ActCreate
           then laySectorEntries base entries replaced (added @ [toProposedSector entry])
                  (keys(xc_key entry \<mapsto> se_key (toProposedSector entry))) orphans
           else case List.find (\<lambda>row. se_id row \<noteq> None \<and> se_id row = xc_id entry) base of
                  None \<Rightarrow>
                    laySectorEntries base entries replaced added keys
                      (case xc_id entry of None \<Rightarrow> orphans
                       | Some i \<Rightarrow> orphans @ [\<lparr>or_kind = OrphanSector, or_action = action, or_id = i\<rparr>])
                | Some target \<Rightarrow>
                    laySectorEntries base entries
                      (case se_id target of None \<Rightarrow> replaced
                       | Some i \<Rightarrow> replaced(i \<mapsto>
                          (if action = ActDelete then None
                           else Some (target\<lparr>se_degrees := Some (toDegrees (xc_azimuth entry))\<rparr>))))
                      added (keys(xc_key entry \<mapsto> se_key target)) orphans))"

definition laySectorChanges :: "sectorDraft list \<Rightarrow> sectorChange list \<Rightarrow> sectorLayer" where
  "laySectorChanges base entries =
    (let (replaced, added, keys, orphans) = laySectorEntries base entries Map.empty [] Map.empty [];
         kept = concat (map (\<lambda>row. case se_id row of
                    None \<Rightarrow> [row]
                  | Some i \<Rightarrow> (case replaced i of None \<Rightarrow> [row] | Some None \<Rightarrow> [] | Some (Some r) \<Rightarrow> [r])) base)
     in \<lparr>ly_sectors = kept @ added, ly_keysByEntryKey = keys, ly_orphans = orphans\<rparr>)"

definition layProposedSectors :: "sectorDraft list \<Rightarrow> sectorChange list \<Rightarrow> sectorLayer" where
  "layProposedSectors base entries =
    (if entries = [] then \<lparr>ly_sectors = base, ly_keysByEntryKey = Map.empty, ly_orphans = []\<rparr>
     else if list_ex (\<lambda>entry. xc_action entry = None) entries then layCompleteSectorList base entries
     else laySectorChanges base entries)"

section \<open>Cells\<close>

definition hasSector :: "sectorLayer \<Rightarrow> draftKey \<Rightarrow> bool" where
  "hasSector layer key \<longleftrightarrow> list_ex (\<lambda>sector. se_key sector = key) (ly_sectors layer)"

definition findStoredSectorKey :: "sectorLayer \<Rightarrow> string \<Rightarrow> draftKey option" where
  "findStoredSectorKey layer entryKey =
    (case ly_keysByEntryKey layer entryKey of
       Some mapped \<Rightarrow> (if hasSector layer mapped then Some mapped else None)
     | None \<Rightarrow>
         (case storedSectorId entryKey of
            None \<Rightarrow> None
          | Some i \<Rightarrow> (if hasSector layer (toSectorKey i) then Some (toSectorKey i) else None)))"

definition resolveEntrySector :: "cellChange \<Rightarrow> sectorLayer \<Rightarrow> draftKey option \<Rightarrow> draftKey option" where
  "resolveEntrySector entry layer currentKey =
    (case cc_sectorKey entry of
       Some key \<Rightarrow> findStoredSectorKey layer key
     | None \<Rightarrow>
         (case cc_sectorId entry of
            Some i \<Rightarrow> (if hasSector layer (toSectorKey i) then Some (toSectorKey i) else None)
          | None \<Rightarrow>
              (if cc_isSectorCleared entry then None
               else case currentKey of None \<Rightarrow> None
                    | Some key \<Rightarrow> (if hasSector layer key then Some key else None))))"

definition toProposedCell :: "cellChange \<Rightarrow> tech \<Rightarrow> sectorLayer \<Rightarrow> cellDraft" where
  "toProposedCell entry r layer =
    createCellDraft r (noInit\<lparr>
      ci_key := Some (PROPOSED_CELL_PREFIX @ intText (cc_changeId entry)),
      ci_bandId := cc_bandId entry,
      ci_sectorKey := resolveEntrySector entry layer None,
      ci_cellType := Some (cc_cellType entry),
      ci_notes := Some (orValue (cc_notes entry) []),
      ci_isConfirmed := Some (cc_isConfirmed entry),
      ci_mode := Some (orValue (cc_mode entry) DEFAULT_NR_MODE),
      ci_gnbidLength := (if r = Nr then cc_gnbidLength entry else None),
      ci_extraPlmns := Some (orValue (cc_extraPlmns entry) []),
      ci_numbers := readNumbers r (cc_numbers entry) Map.empty,
      ci_flags := readFlags r (cc_flags entry) Map.empty\<rparr>) []"

definition overlayCell :: "cellDraft \<Rightarrow> cellChange \<Rightarrow> sectorLayer \<Rightarrow> cellDraft" where
  "overlayCell c entry layer = c\<lparr>
     ce_bandId := cc_bandId entry,
     ce_sectorKey := resolveEntrySector entry layer (ce_sectorKey c),
     ce_cellType := cc_cellType entry,
     ce_notes := orValue (cc_notes entry) [],
     ce_mode := (if ce_rat c = Nr then (case cc_mode entry of Some m \<Rightarrow> Some m | None \<Rightarrow> ce_mode c) else None),
     ce_gnbidLength := (if ce_rat c = Nr
       then (case cc_gnbidLength entry of Some l \<Rightarrow> Some l | None \<Rightarrow> ce_gnbidLength c) else None),
     ce_extraPlmns := orValue (cc_extraPlmns entry) (ce_extraPlmns c),
     ce_numbers := readNumbers (ce_rat c) (cc_numbers entry) (ce_numbers c),
     ce_flags := readFlags (ce_rat c) (cc_flags entry) (ce_flags c)\<rparr>"

definition detachFromMissingSector :: "cellDraft \<Rightarrow> sectorLayer \<Rightarrow> cellDraft" where
  "detachFromMissingSector c layer =
    (case ce_sectorKey c of
       None \<Rightarrow> c
     | Some key \<Rightarrow> (if hasSector layer key then c else c\<lparr>ce_sectorKey := None\<rparr>))"

fun layCellEntries ::
  "cellDraft list \<Rightarrow> sectorLayer \<Rightarrow> cellChange list \<Rightarrow> (draftKey \<Rightarrow> cellDraft option) \<Rightarrow> cellDraft list
    \<Rightarrow> proposalOrphan list
    \<Rightarrow> (draftKey \<Rightarrow> cellDraft option) \<times> cellDraft list \<times> proposalOrphan list" where
  "layCellEntries base layer [] replaced added orphans = (replaced, added, orphans)"
| "layCellEntries base layer (entry # entries) replaced added orphans =
     (if cc_action entry = ActCreate
      then layCellEntries base layer entries replaced
             (case cc_rat entry of None \<Rightarrow> added | Some r \<Rightarrow> added @ [toProposedCell entry r layer]) orphans
      else case cc_id entry of
             None \<Rightarrow> layCellEntries base layer entries replaced added orphans
           | Some i \<Rightarrow>
               (let orphan = \<lparr>or_kind = OrphanCell, or_action = cc_action entry, or_id = i\<rparr>
                in case List.find (\<lambda>c. ce_id c = Some i) base of
                     None \<Rightarrow> layCellEntries base layer entries replaced added (orphans @ [orphan])
                   | Some target \<Rightarrow>
                       (if cc_rat entry \<noteq> None \<and> cc_rat entry \<noteq> Some (ce_rat target)
                        then layCellEntries base layer entries replaced added (orphans @ [orphan])
                        else layCellEntries base layer entries
                               (replaced(ce_key target \<mapsto>
                                 (if cc_action entry = ActDelete then target\<lparr>ce_isDeleted := True\<rparr>
                                  else overlayCell target entry layer)))
                               added orphans)))"

definition layProposedCells ::
  "cellDraft list \<Rightarrow> cellChange list \<Rightarrow> sectorLayer \<Rightarrow> cellDraft list \<times> proposalOrphan list" where
  "layProposedCells base entries layer =
    (let (replaced, added, orphans) = layCellEntries base layer entries Map.empty [] [];
         kept = map (\<lambda>c. orValue (replaced (ce_key c)) (detachFromMissingSector c layer)) base
     in (groupCellsByRat (kept @ added), orphans))"

definition toProposedSnapshot :: "stationSnapshot option \<Rightarrow> proposalSource \<Rightarrow> stationSnapshot" where
  "toProposedSnapshot live changes =
    (let base = orValue live EMPTY_SNAPSHOT;
         layer = layProposedSectors (sn_sectors base) (ps_sectors changes);
         cells = fst (layProposedCells (sn_cells base) (ps_cells changes) layer)
     in \<lparr>sn_station = layStation (sn_station base) (ps_station changes),
         sn_place = layPlace (sn_place base) (ps_location changes),
         sn_sectors = ly_sectors layer,
         sn_cells = cells,
         sn_areaCodes = deriveAreaCodes cells\<rparr>)"

definition listProposalOrphans :: "stationSnapshot option \<Rightarrow> proposalSource \<Rightarrow> proposalOrphan list" where
  "listProposalOrphans live changes =
    (let base = orValue live EMPTY_SNAPSHOT;
         layer = layProposedSectors (sn_sectors base) (ps_sectors changes)
     in ly_orphans layer @ snd (layProposedCells (sn_cells base) (ps_cells changes) layer))"

text \<open>The operators and regions the client has loaded are maps; only what is read of a row is kept.\<close>

definition findDraftCountryCode ::
  "stationSnapshot \<Rightarrow> (int \<Rightarrow> string option) \<Rightarrow> (int \<Rightarrow> string option) \<Rightarrow> string option \<Rightarrow> string option" where
  "findDraftCountryCode draft operatorCountries regionCountries fallback =
    (case Option.bind (Option.bind (sn_place draft) pl_regionId) regionCountries of
       Some code \<Rightarrow> Some code
     | None \<Rightarrow>
         (case Option.bind (st_operatorId (sn_station draft)) operatorCountries of
            Some code \<Rightarrow> Some code
          | None \<Rightarrow> fallback))"

section \<open>What laying a proposal keeps\<close>

lemma hasSector_iff: "hasSector layer key \<longleftrightarrow> key \<in> se_key ` set (ly_sectors layer)"
  by (auto simp: hasSector_def)

lemma hasSector_findStoredSectorKey:
  "findStoredSectorKey layer entryKey = Some key \<Longrightarrow> hasSector layer key"
  by (auto simp: findStoredSectorKey_def split: option.splits if_splits)

lemma hasSector_resolveEntrySector:
  "resolveEntrySector entry layer currentKey = Some key \<Longrightarrow> hasSector layer key"
  by (auto simp: resolveEntrySector_def hasSector_findStoredSectorKey split: option.splits if_splits)

definition sitsIn :: "sectorLayer \<Rightarrow> cellDraft \<Rightarrow> bool" where
  "sitsIn layer c \<longleftrightarrow> (\<forall>key. ce_sectorKey c = Some key \<longrightarrow> hasSector layer key)"

lemma sitsIn_rows:
  "sitsIn layer (toProposedCell entry r layer)"
  "sitsIn layer (overlayCell c entry layer)"
  "sitsIn layer (detachFromMissingSector c layer)"
  by (auto simp: sitsIn_def toProposedCell_def overlayCell_def detachFromMissingSector_def
      hasSector_resolveEntrySector split: option.splits)

lemma proposed_rows_frame [simp]:
  "ce_key (toProposedCell entry r layer) = PROPOSED_CELL_PREFIX @ intText (cc_changeId entry)"
  "ce_rat (toProposedCell entry r layer) = r"
  "ce_key (overlayCell c entry layer) = ce_key c" "ce_rat (overlayCell c entry layer) = ce_rat c"
  "ce_key (detachFromMissingSector c layer) = ce_key c"
  "ce_rat (detachFromMissingSector c layer) = ce_rat c"
  by (simp_all add: toProposedCell_def overlayCell_def detachFromMissingSector_def split: option.split)

text \<open>What the loop over the entries keeps of \<open>replaced\<close> and \<open>added\<close>.\<close>

definition replacedOk :: "sectorLayer \<Rightarrow> (draftKey \<Rightarrow> cellDraft option) \<Rightarrow> bool" where
  "replacedOk layer replaced \<longleftrightarrow>
     (\<forall>key c. replaced key = Some c \<longrightarrow> ce_key c = key \<and> (ce_isDeleted c \<or> sitsIn layer c))"

lemma replacedOk_empty [simp]: "replacedOk layer Map.empty"
  by (simp add: replacedOk_def)

lemma replacedOk_update:
  "replacedOk layer replaced \<Longrightarrow> ce_isDeleted c \<or> sitsIn layer c \<Longrightarrow> replacedOk layer (replaced(ce_key c \<mapsto> c))"
  by (simp add: replacedOk_def)

lemma replacedOk_step:
  assumes "replacedOk layer replaced"
  shows "replacedOk layer (replaced(ce_key target \<mapsto>
    (if deletes then target\<lparr>ce_isDeleted := True\<rparr> else overlayCell target entry layer)))"
  using assms replacedOk_update [of layer replaced "target\<lparr>ce_isDeleted := True\<rparr>"]
    replacedOk_update [of layer replaced "overlayCell target entry layer"] sitsIn_rows(2)
  by simp

lemma layCellEntries_replaced:
  "replacedOk layer replaced \<Longrightarrow> layCellEntries base layer entries replaced added orphans = (replaced', added', orphans')
    \<Longrightarrow> replacedOk layer replaced'"
  by (induction base layer entries replaced added orphans rule: layCellEntries.induct)
    (auto simp: Let_def replacedOk_step split: if_splits option.splits)

definition createdCells :: "sectorLayer \<Rightarrow> cellChange list \<Rightarrow> cellDraft list" where
  "createdCells layer entries =
    concat (map (\<lambda>entry. if cc_action entry = ActCreate
        then (case cc_rat entry of None \<Rightarrow> [] | Some r \<Rightarrow> [toProposedCell entry r layer]) else []) entries)"

lemma layCellEntries_added:
  "layCellEntries base layer entries replaced added orphans = (replaced', added', orphans')
    \<Longrightarrow> added' = added @ createdCells layer entries"
  by (induction base layer entries replaced added orphans rule: layCellEntries.induct)
    (auto simp: Let_def createdCells_def split: if_splits option.splits)

definition isOrphan :: "cellDraft list \<Rightarrow> cellChange \<Rightarrow> int \<Rightarrow> bool" where
  "isOrphan base entry i =
    (case List.find (\<lambda>c. ce_id c = Some i) base of
       None \<Rightarrow> True
     | Some target \<Rightarrow> cc_rat entry \<noteq> None \<and> cc_rat entry \<noteq> Some (ce_rat target))"

definition orphanCells :: "cellDraft list \<Rightarrow> cellChange list \<Rightarrow> proposalOrphan list" where
  "orphanCells base entries =
    concat (map (\<lambda>entry. case cc_id entry of None \<Rightarrow> []
        | Some i \<Rightarrow> (if cc_action entry \<noteq> ActCreate \<and> isOrphan base entry i
                     then [\<lparr>or_kind = OrphanCell, or_action = cc_action entry, or_id = i\<rparr>] else [])) entries)"

lemma layCellEntries_orphans:
  "layCellEntries base layer entries replaced added orphans = (replaced', added', orphans')
    \<Longrightarrow> orphans' = orphans @ orphanCells base entries"
  by (induction base layer entries replaced added orphans rule: layCellEntries.induct)
    (auto simp: Let_def orphanCells_def isOrphan_def split: if_splits option.splits)

lemma groupCellsByRat_mset [simp]: "mset (groupCellsByRat cells) = mset cells"
proof (induction cells)
  case (Cons c cells)
  then show ?case
    by (cases "ce_rat c") (simp_all add: groupCellsByRat_def RAT_ORDER_def)
qed (simp add: groupCellsByRat_def RAT_ORDER_def)

lemma set_groupCellsByRat [simp]: "set (groupCellsByRat cells) = set cells"
  using groupCellsByRat_mset by (metis set_mset_mset)

definition keptCells ::
  "cellDraft list \<Rightarrow> sectorLayer \<Rightarrow> (draftKey \<Rightarrow> cellDraft option) \<Rightarrow> cellDraft list" where
  "keptCells base layer replaced =
    map (\<lambda>c. orValue (replaced (ce_key c)) (detachFromMissingSector c layer)) base"

lemma layProposedCells_parts:
  obtains replaced where
    "layProposedCells base entries layer =
      (groupCellsByRat (keptCells base layer replaced @ createdCells layer entries), orphanCells base entries)"
    "replacedOk layer replaced"
proof -
  obtain replaced added orphans where
    run: "layCellEntries base layer entries Map.empty [] [] = (replaced, added, orphans)"
    by (metis prod_cases3)
  show ?thesis
    using that [of replaced] layCellEntries_replaced [OF replacedOk_empty run]
      layCellEntries_added [OF run] layCellEntries_orphans [OF run]
    by (simp add: layProposedCells_def run keptCells_def)
qed

lemma keptCells_keys: "replacedOk layer replaced \<Longrightarrow> map ce_key (keptCells base layer replaced) = map ce_key base"
  by (auto simp: keptCells_def replacedOk_def orValue_def split: option.split)

lemma keptCells_sit:
  "replacedOk layer replaced \<Longrightarrow> c \<in> set (keptCells base layer replaced) \<Longrightarrow> ce_isDeleted c \<or> sitsIn layer c"
  unfolding keptCells_def replacedOk_def
  by (auto simp: orValue_def sitsIn_rows split: option.splits) blast

lemma createdCells_sit: "c \<in> set (createdCells layer entries) \<Longrightarrow> sitsIn layer c"
  by (auto simp: createdCells_def sitsIn_rows split: if_splits option.splits)

definition orphanSectors :: "sectorDraft list \<Rightarrow> sectorChange list \<Rightarrow> proposalOrphan list" where
  "orphanSectors base entries =
    concat (map (\<lambda>entry. case (xc_action entry, xc_id entry) of
        (Some action, Some i) \<Rightarrow>
          (if action \<noteq> ActCreate \<and> Some i \<notin> set (map se_id base)
           then [\<lparr>or_kind = OrphanSector, or_action = action, or_id = i\<rparr>] else [])
      | _ \<Rightarrow> []) entries)"

lemma orphanSectors_Cons:
  "orphanSectors base (entry # entries) =
    (case (xc_action entry, xc_id entry) of
        (Some action, Some i) \<Rightarrow>
          (if action \<noteq> ActCreate \<and> Some i \<notin> set (map se_id base)
           then [\<lparr>or_kind = OrphanSector, or_action = action, or_id = i\<rparr>] else [])
      | _ \<Rightarrow> []) @ orphanSectors base entries"
  by (simp add: orphanSectors_def)

lemma find_row_of_entry:
  "List.find (\<lambda>row. se_id row \<noteq> None \<and> se_id row = x) base = None
    \<longleftrightarrow> x = None \<or> x \<notin> set (map se_id base)"
  by (auto simp: find_None_iff image_iff)

lemma laySectorEntries_orphans:
  "laySectorEntries base entries replaced added keys orphans = (replaced', added', keys', orphans')
    \<Longrightarrow> orphans' = orphans @ orphanSectors base entries"
proof (induction base entries replaced added keys orphans rule: laySectorEntries.induct)
  case (1 base replaced added keys orphans)
  then show ?case by (simp add: orphanSectors_def)
next
  case (2 base entry entries replaced added keys orphans)
  note row = find_row_of_entry [of "xc_id entry" base]
  consider "xc_action entry = None" | "xc_action entry = Some ActCreate"
    | action where "xc_action entry = Some action" "action \<noteq> ActCreate" by fastforce
  then show ?case
  proof cases
    case 1
    then show ?thesis using "2.IH"(1) [OF 1] "2.prems" by (simp add: orphanSectors_Cons fun_upd_def)
  next
    case 2
    then show ?thesis
      using "2.IH"(2) [OF 2] "2.prems" by (simp add: orphanSectors_Cons fun_upd_def split: option.split)
  next
    case (3 action)
    show ?thesis
    proof (cases "List.find (\<lambda>row. se_id row \<noteq> None \<and> se_id row = xc_id entry) base")
      case None
      then show ?thesis
        using "2.IH"(3) [OF 3 None] "2.prems" 3 row
        by (cases "xc_id entry") (simp_all add: orphanSectors_Cons fun_upd_def del: set_map)
    next
      case (Some target)
      then have "xc_id entry \<noteq> None" "xc_id entry \<in> set (map se_id base)" using row by auto
      then show ?thesis
        using "2.IH"(4) [OF 3 Some] "2.prems" 3 Some
        by (cases "xc_id entry") (simp_all add: orphanSectors_Cons fun_upd_def del: set_map)
    qed
  qed
qed

lemma orphans_layProposedSectors:
  "ly_orphans (layProposedSectors base entries) =
    (if list_ex (\<lambda>entry. xc_action entry = None) entries then [] else orphanSectors base entries)"
proof -
  obtain replaced added keys orphans where
    run: "laySectorEntries base entries Map.empty [] Map.empty [] = (replaced, added, keys, orphans)"
    by (metis prod_cases4)
  have "ly_orphans (laySectorChanges base entries) = orphanSectors base entries"
    using laySectorEntries_orphans [OF run] by (simp add: laySectorChanges_def run)
  moreover have "ly_orphans (layCompleteSectorList base entries) = []"
    by (simp add: layCompleteSectorList_def split_beta Let_def)
  ultimately show ?thesis by (auto simp: layProposedSectors_def orphanSectors_def)
qed

section \<open>Snapshots of records\<close>

text \<open>
  What a record has to meet for its snapshot to be well formed. The ids are keys of tables and a cell
  refers to a sector of its station; that an NSA cell stores no TAC, gNB ID and local cell ID is only
  checked where cells are written, and a response of the API does not promise it.
\<close>

definition recordCellOk :: "stationRecord \<Rightarrow> recordCell \<Rightarrow> bool" where
  "recordCellOk rec c \<longleftrightarrow>
     (\<forall>i. rc_sectorId c = Some i \<longrightarrow> i \<in> rx_id ` set (sr_sectors rec)) \<and>
     (rc_rat c = Nr \<longrightarrow> rc_mode c \<noteq> None \<and>
       (rc_mode c = Some Nsa \<longrightarrow>
         (\<forall>f\<in>saNumbers Nr. rc_numbers c f \<in> {None, Some None}) \<and>
         (\<forall>f\<in>saFlags Nr. rc_flags c f \<in> {None, Some False})))"

definition recordOk :: "stationRecord \<Rightarrow> bool" where
  "recordOk rec \<longleftrightarrow>
     distinct (map rc_id (sr_cells rec)) \<and> distinct (map rx_id (sr_sectors rec)) \<and>
     length (sr_sectors rec) \<le> MAX_SECTORS \<and> (\<forall>c\<in>set (sr_cells rec). recordCellOk rec c)"

lemma fold_fill_fun:
  "fold (\<lambda>s m. m(f s \<mapsto> g (f s))) xs m x = (if x \<in> f ` set xs then Some (g x) else m x)"
  by (induction xs arbitrary: m) auto

lemma readNumbers_apply:
  "readNumbers r source fallback f =
    (if f \<in> ratNumbers r
     then Some (case source f of None \<Rightarrow> (case fallback f of None \<Rightarrow> None | Some v \<Rightarrow> v) | Some v \<Rightarrow> v)
     else None)"
  unfolding readNumbers_def
  by (subst fold_fill_fun [where g = "\<lambda>f. case source f of None \<Rightarrow> (case fallback f of None \<Rightarrow> None | Some v \<Rightarrow> v) | Some v \<Rightarrow> v"])
    (simp add: ratNumbers_def)

lemma readFlags_apply:
  "readFlags r source fallback f =
    (if f \<in> ratFlags r
     then Some (case source f of Some v \<Rightarrow> v | None \<Rightarrow> (case fallback f of Some v \<Rightarrow> v | None \<Rightarrow> False))
     else None)"
  unfolding readFlags_def
  by (subst fold_fill_fun [where g = "\<lambda>f. case source f of Some v \<Rightarrow> v | None \<Rightarrow> (case fallback f of Some v \<Rightarrow> v | None \<Rightarrow> False)"])
    (simp add: ratFlags_def)

lemma cellOk_toCellDraft:
  assumes "recordCellOk rec c" shows "cellOk (toCellDraft c ownerPlmn)"
proof (cases "rc_rat c = Nr")
  case True
  have number: "getCellNumber (toCellDraft c ownerPlmn) f = None" if "rc_numbers c f \<in> {None, Some None}" for f
    using that by (auto simp: getCellNumber_def toCellDraft_def readNumbers_apply)
  have flag: "\<not> getCellFlag (toCellDraft c ownerPlmn) f" if "rc_flags c f \<in> {None, Some False}" for f
    using that True by (auto simp: getCellFlag_def toCellDraft_def readFlags_apply)
  have "ce_rat (toCellDraft c ownerPlmn) = Nr" "ce_mode (toCellDraft c ownerPlmn) = rc_mode c"
    using True by (simp_all add: toCellDraft_def)
  with assms True number flag show ?thesis unfolding cellOk_def nsaClean_def recordCellOk_def by metis
next
  case False
  then show ?thesis by (simp add: cellOk_def nsaClean_def toCellDraft_def)
qed

lemma mset_sortRecordCells: "mset (sortRecordCells cells p) = mset (map (\<lambda>c. toCellDraft c p) cells)"
  by (simp add: sortRecordCells_def multiset.map_comp comp_def)

lemma toKey_inj [simp]:
  "toCellKey i = toCellKey j \<longleftrightarrow> i = j" "toSectorKey i = toSectorKey j \<longleftrightarrow> i = j"
  by (simp_all add: toCellKey_def toSectorKey_def)

lemma distinct_keys: "distinct ids \<Longrightarrow> distinct (map toCellKey ids)" "distinct ids \<Longrightarrow> distinct (map toSectorKey ids)"
  by (simp_all add: distinct_map inj_on_def)

section \<open>Properties\<close>

text \<open>
  C21. Laying a proposal over the live snapshot leaves no cell that is not deleted at a sector the
  proposal does not have.
\<close>

theorem proposed_cells_attached:
  "list_all (isAttached (sn_sectors (toProposedSnapshot live changes)))
    (filter (\<lambda>c. \<not> ce_isDeleted c) (sn_cells (toProposedSnapshot live changes)))"
proof -
  let ?layer = "layProposedSectors (sn_sectors (orValue live EMPTY_SNAPSHOT)) (ps_sectors changes)"
  obtain replaced where parts:
    "layProposedCells (sn_cells (orValue live EMPTY_SNAPSHOT)) (ps_cells changes) ?layer =
      (groupCellsByRat (keptCells (sn_cells (orValue live EMPTY_SNAPSHOT)) ?layer replaced
         @ createdCells ?layer (ps_cells changes)), orphanCells (sn_cells (orValue live EMPTY_SNAPSHOT)) (ps_cells changes))"
    "replacedOk ?layer replaced" by (rule layProposedCells_parts)
  have attached: "isAttached (ly_sectors layer) c" if "sitsIn layer c" for layer c
    using that by (auto simp: isAttached_iff sitsIn_def hasSector_iff)
  show ?thesis
    by (auto simp: toProposedSnapshot_def Let_def parts(1)
        dest: keptCells_sit [OF parts(2)] createdCells_sit intro: attached)
qed

text \<open>
  A proposal loses no live cell and adds one cell for each entry that creates one: the keys of
  the proposed cells are those of the live cells and those of the created entries.
\<close>

theorem proposed_cell_keys:
  "mset (map ce_key (sn_cells (toProposedSnapshot live changes)))
    = mset (map ce_key (sn_cells (orValue live EMPTY_SNAPSHOT)))
    + mset (map (\<lambda>entry. PROPOSED_CELL_PREFIX @ intText (cc_changeId entry))
        (filter (\<lambda>entry. cc_action entry = ActCreate \<and> cc_rat entry \<noteq> None) (ps_cells changes)))"
proof -
  let ?base = "orValue live EMPTY_SNAPSHOT"
  let ?layer = "layProposedSectors (sn_sectors ?base) (ps_sectors changes)"
  obtain replaced where parts:
    "layProposedCells (sn_cells ?base) (ps_cells changes) ?layer =
      (groupCellsByRat (keptCells (sn_cells ?base) ?layer replaced
         @ createdCells ?layer (ps_cells changes)), orphanCells (sn_cells ?base) (ps_cells changes))"
    "replacedOk ?layer replaced" by (rule layProposedCells_parts)
  have created: "map ce_key (createdCells layer entries) =
      map (\<lambda>entry. PROPOSED_CELL_PREFIX @ intText (cc_changeId entry))
        (filter (\<lambda>entry. cc_action entry = ActCreate \<and> cc_rat entry \<noteq> None) entries)" for layer entries
    by (induction entries) (auto simp: createdCells_def split: option.split)
  have "mset (map ce_key (keptCells (sn_cells ?base) ?layer replaced)) = mset (map ce_key (sn_cells ?base))"
    by (simp only: keptCells_keys [OF parts(2)])
  moreover have "sn_cells (toProposedSnapshot live changes) =
      groupCellsByRat (keptCells (sn_cells ?base) ?layer replaced @ createdCells ?layer (ps_cells changes))"
    by (simp add: toProposedSnapshot_def Let_def parts(1))
  ultimately show ?thesis
    unfolding created [of ?layer, symmetric] by simp
qed

text \<open>
  The orphans of a proposal are exactly its entries that change or delete a row the station does
  not have (for a cell also: a row of another technology), sectors first, in the order of the
  entries; a complete list of sectors has none.
\<close>

theorem proposal_orphans:
  "listProposalOrphans live changes =
    (let base = orValue live EMPTY_SNAPSHOT
     in (if list_ex (\<lambda>entry. xc_action entry = None) (ps_sectors changes) then []
         else orphanSectors (sn_sectors base) (ps_sectors changes))
        @ orphanCells (sn_cells base) (ps_cells changes))"
proof -
  let ?base = "orValue live EMPTY_SNAPSHOT"
  let ?layer = "layProposedSectors (sn_sectors ?base) (ps_sectors changes)"
  obtain replaced where
    "layProposedCells (sn_cells ?base) (ps_cells changes) ?layer =
      (groupCellsByRat (keptCells (sn_cells ?base) ?layer replaced
         @ createdCells ?layer (ps_cells changes)), orphanCells (sn_cells ?base) (ps_cells changes))"
    by (rule layProposedCells_parts)
  then show ?thesis by (simp only: listProposalOrphans_def Let_def orphans_layProposedSectors snd_conv)
qed

text \<open>A record that meets these conditions gives a well-formed snapshot.\<close>

lemma record_snapshot_well_formed:
  assumes "recordOk rec" shows "snapshotOk (toStationSnapshot rec)"
proof -
  let ?cells = "sortRecordCells (sr_cells rec) (sr_operatorPlmn rec)"
  have set_cells: "set ?cells = (\<lambda>c. toCellDraft c (sr_operatorPlmn rec)) ` set (sr_cells rec)"
    by (metis mset_sortRecordCells set_map set_mset_mset)
  have "mset (map ce_key ?cells) = mset (map toCellKey (map rc_id (sr_cells rec)))"
    by (simp add: mset_sortRecordCells toCellDraft_def comp_def multiset.map_comp)
  moreover have "distinct (map toCellKey (map rc_id (sr_cells rec)))"
    using assms by (intro distinct_keys) (simp add: recordOk_def)
  ultimately have keys: "distinct (map ce_key ?cells)" by (metis mset_eq_imp_distinct_iff)
  have rows: "cellOk c \<and> (\<forall>k. ce_sectorKey c = Some k \<longrightarrow> k \<in> toSectorKey ` rx_id ` set (sr_sectors rec))"
    if "c \<in> set ?cells" for c
  proof -
    from that obtain rc where rc: "rc \<in> set (sr_cells rec)" "c = toCellDraft rc (sr_operatorPlmn rec)"
      unfolding set_cells by blast
    then have "recordCellOk rec rc" using assms by (simp add: recordOk_def)
    then have "cellOk c" "\<forall>i. rc_sectorId rc = Some i \<longrightarrow> i \<in> rx_id ` set (sr_sectors rec)"
      unfolding rc(2) by (rule cellOk_toCellDraft, simp add: recordCellOk_def)
    moreover have "ce_sectorKey c = map_option toSectorKey (rc_sectorId rc)" by (simp add: rc(2) toCellDraft_def)
    ultimately show ?thesis by (cases "rc_sectorId rc") simp_all
  qed
  have cells: "cellsOk (toSectorKey ` rx_id ` set (sr_sectors rec)) ?cells"
    using keys rows by (simp add: cellsOk_def)
  have sector_keys: "map se_key (sn_sectors (toStationSnapshot rec)) = map toSectorKey (map rx_id (sr_sectors rec))"
    by (simp add: toStationSnapshot_def Let_def)
  have "se_key ` set (sn_sectors (toStationSnapshot rec)) = toSectorKey ` rx_id ` set (sr_sectors rec)"
    by (simp add: toStationSnapshot_def Let_def image_image)
  moreover have "sn_cells (toStationSnapshot rec) = ?cells" by (simp add: toStationSnapshot_def Let_def)
  moreover have "distinct (map toSectorKey (map rx_id (sr_sectors rec)))"
    using assms by (intro distinct_keys) (simp add: recordOk_def)
  moreover have "length (sn_sectors (toStationSnapshot rec)) \<le> MAX_SECTORS"
    using assms by (simp add: toStationSnapshot_def Let_def recordOk_def)
  moreover have "backhaulOk (st_backhaul (sn_station (toStationSnapshot rec)))"
    by (simp add: toStationSnapshot_def Let_def backhaulOk_def split: option.split)
  ultimately show ?thesis using cells unfolding snapshotOk_def sectorsOk_def sector_keys by simp
qed

end
