(* ===== verification/TextParts.thy ===== *)
theory TextParts
  imports RatFields JsValues
begin

text \<open>
  The texts the editor shows: JavaScript's decimal texts (\<open>String(x)\<close>, \<open>toFixed\<close>), \<open>trim\<close>, and the
  text helpers at the head of model/changes.ts. A text part is a literal text or the key of a
  translation with its values. Characters are 8-bit, so \<open>trim\<close> knows the white space of Latin-1.
\<close>

section \<open>Numbers as text\<close>

text \<open>The decimals of a fraction, at most \<open>n\<close> of them, without trailing zeros.\<close>

fun decimals :: "nat \<Rightarrow> number \<Rightarrow> string" where
  "decimals 0 x = []"
| "decimals (Suc n) x =
     (if x = 0 then [] else digitChar (nat \<lfloor>10 * x\<rfloor>) # decimals n (10 * x - of_int \<lfloor>10 * x\<rfloor>))"

text \<open>\<open>String(x)\<close>, in plain notation. The numbers shown are integers, or coordinates of few decimals.\<close>

definition numberText :: "number \<Rightarrow> string" where
  "numberText x =
    (if isInteger x then intText \<lfloor>x\<rfloor>
     else (if x < 0 then ''-'' else []) @ natText (nat \<lfloor>\<bar>x\<bar>\<rfloor>) @ ''.'' @ decimals 17 (\<bar>x\<bar> - of_int \<lfloor>\<bar>x\<bar>\<rfloor>))"

text \<open>\<open>x.toFixed(digits)\<close>: the nearest multiple of \<open>10 ^ -digits\<close>, away from zero on a tie.\<close>

definition padLeft :: "nat \<Rightarrow> string \<Rightarrow> string" where
  "padLeft n text = replicate (n - length text) CHR ''0'' @ text"

definition toFixed :: "nat \<Rightarrow> number \<Rightarrow> string" where
  "toFixed digits x =
    (let scaled = padLeft (Suc digits) (natText (nat \<lfloor>\<bar>x\<bar> * 10 ^ digits + 1 / 2\<rfloor>));
         whole = take (length scaled - digits) scaled
     in (if x < 0 then ''-'' else []) @ whole @
        (if digits = 0 then [] else ''.'' @ drop (length scaled - digits) scaled))"

section \<open>Text helpers\<close>

datatype textPart = PartText string | PartKey string textValues

definition EMPTY_VALUE :: string where "EMPTY_VALUE = ''-''"
definition TEXT_SEPARATOR :: string where "TEXT_SEPARATOR = [CHR '' '', CHR 0xB7, CHR '' '']"
definition COORDINATE_DIGITS :: nat where "COORDINATE_DIGITS = 6"

type_synonym translate = "string \<Rightarrow> textValues \<Rightarrow> string"

definition formatTextPart :: "textPart option \<Rightarrow> translate \<Rightarrow> string" where
  "formatTextPart part translate =
    (case part of
       None \<Rightarrow> EMPTY_VALUE
     | Some (PartKey key values) \<Rightarrow> translate key values
     | Some (PartText text) \<Rightarrow> text)"

fun joinTexts :: "string \<Rightarrow> string list \<Rightarrow> string" where
  "joinTexts separator [] = []"
| "joinTexts separator [text] = text"
| "joinTexts separator (text # texts) = text @ separator @ joinTexts separator texts"

definition formatTextParts :: "textPart list \<Rightarrow> translate \<Rightarrow> string" where
  "formatTextParts parts translate =
    joinTexts TEXT_SEPARATOR (map (\<lambda>part. formatTextPart (Some part) translate) parts)"

definition isWhiteSpace :: "char \<Rightarrow> bool" where
  "isWhiteSpace c \<longleftrightarrow> (of_char c :: nat) \<in> {9, 10, 11, 12, 13, 32, 160}"

definition normalizeText :: "string \<Rightarrow> string" where
  "normalizeText text = rev (dropWhile isWhiteSpace (rev (dropWhile isWhiteSpace text)))"

definition keepDigits :: "string \<Rightarrow> string" where
  "keepDigits text = filter isDigit text"

definition parseDigits :: "string \<Rightarrow> nat option \<Rightarrow> number option" where
  "parseDigits text mostDigits =
    (let digits = (case mostDigits of None \<Rightarrow> keepDigits text | Some n \<Rightarrow> take n (keepDigits text))
     in if digits = [] then None else Some (of_nat (digitsValue digits)))"

definition formatCoordinate :: "number \<Rightarrow> string" where
  "formatCoordinate value = toFixed COORDINATE_DIGITS value"

definition formatCoordinatePair :: "number \<Rightarrow> number \<Rightarrow> string" where
  "formatCoordinatePair latitude longitude = formatCoordinate latitude @ '', '' @ formatCoordinate longitude"

definition formatDistance :: "number \<Rightarrow> string" where
  "formatDistance meters =
    (if 1000 \<le> meters then toFixed 2 (meters / 1000) @ '' km'' else intText \<lfloor>meters + 1 / 2\<rfloor> @ '' m'')"

definition YES_KEY :: string where "YES_KEY = ''common:labels.yes''"
definition NO_KEY :: string where "NO_KEY = ''common:labels.no''"
definition UNKNOWN_KEY :: string where "UNKNOWN_KEY = ''common:labels.unknown''"
definition OMNIDIRECTIONAL_KEY :: string where
  "OMNIDIRECTIONAL_KEY = ''stationDetails:sectors.omnidirectional''"

definition toTextPart :: "string \<Rightarrow> textPart option" where
  "toTextPart value = (let text = normalizeText value in if text = [] then None else Some (PartText text))"

definition toNumberPart :: "number option \<Rightarrow> textPart option" where
  "toNumberPart value = map_option (\<lambda>x. PartText (numberText x)) value"

definition toBooleanPart :: "bool \<Rightarrow> textPart" where
  "toBooleanPart value = PartKey (if value then YES_KEY else NO_KEY) []"

definition toDegreesPart :: "number option \<Rightarrow> textPart option" where
  "toDegreesPart degrees =
    (case degrees of
       None \<Rightarrow> None
     | Some d \<Rightarrow> Some (if d = OMNIDIRECTIONAL_DEGREES then PartKey OMNIDIRECTIONAL_KEY []
                     else PartText (numberText d @ [CHR 0xB0])))"

section \<open>The name of a node\<close>

text \<open>packages/shared/src/contract/nodeName.ts\<close>

definition CID_RANGE :: number where "CID_RANGE = 65536"

record nodeIds =
  ni_enbid :: "number option"
  ni_gnbid :: "number option"
  ni_longCid :: "number option"
  ni_gsmCellKey :: "number option"

text \<open>\<open>a % b\<close> of a number that is not negative.\<close>

definition remainder :: "number \<Rightarrow> number \<Rightarrow> number" where
  "remainder a b = a - of_int \<lfloor>a / b\<rfloor> * b"

definition toCellPair :: "number \<Rightarrow> string" where
  "toCellPair key = intText \<lfloor>key / CID_RANGE\<rfloor> @ '':'' @ numberText (remainder key CID_RANGE)"

definition toNodeName :: "nodeIds \<Rightarrow> string option" where
  "toNodeName ids =
    (case ni_enbid ids of
       Some enbid \<Rightarrow> Some (''4G '' @ numberText enbid)
     | None \<Rightarrow>
         (case ni_gnbid ids of
            Some gnbid \<Rightarrow> Some (''5G '' @ numberText gnbid)
          | None \<Rightarrow>
              (case ni_longCid ids of
                 Some key \<Rightarrow> Some (''3G '' @ toCellPair key)
               | None \<Rightarrow> map_option (\<lambda>key. ''2G '' @ toCellPair key) (ni_gsmCellKey ids))))"

section \<open>Laws of the texts\<close>

lemma normalizeText_idem [simp]: "normalizeText (normalizeText text) = normalizeText text"
proof -
  let ?front = "dropWhile isWhiteSpace text"
  let ?trimmed = "rev (dropWhile isWhiteSpace (rev ?front))"
  have "dropWhile isWhiteSpace ?trimmed = ?trimmed"
  proof (cases ?trimmed)
    case (Cons c cs)
    obtain rest where rest: "?front = ?trimmed @ rest"
      by (metis append_Nil2 rev_append rev_rev_ident takeWhile_dropWhile_id)
    then have "?front \<noteq> []" "hd ?front = c" using Cons by auto
    then have "\<not> isWhiteSpace c" by (metis hd_dropWhile)
    with Cons show ?thesis by simp
  next
    case Nil
    then show ?thesis by (simp only: dropWhile.simps)
  qed
  then show ?thesis by (simp add: normalizeText_def)
qed

lemma numberText_int [simp]: "numberText (of_int i) = intText i"
  by (simp add: numberText_def)

lemma parseDigits_intText: "0 \<le> i \<Longrightarrow> parseDigits (numberText (of_int i)) None = Some (of_int i)"
proof -
  assume "0 \<le> i"
  then have "keepDigits (intText i) = natText (nat i)"
    using isDigit_natText [of "nat i"] by (simp add: keepDigits_def intText_def filter_id_conv)
  moreover have "natText (nat i) \<noteq> []" by (subst natText.simps) simp
  ultimately show ?thesis using \<open>0 \<le> i\<close> by (simp add: parseDigits_def of_nat_nat)
qed

end
