(* ===== verification/Changes.thy ===== *)
theory Changes
  imports Proposals TextParts
begin

text \<open>
  What the editor says has changed (model/changes.ts): the list of changes against the live record
  and of corrections against the proposal, the state of each row and field, and the counters.
  The lookups of \<open>ChangeContext\<close> are fields of a record; so is the distance between two points,
  which packages/shared/src/geo.ts computes in floating-point trigonometry.
\<close>

section \<open>Context, items, states\<close>

record changeContext =
  cx_bandText :: "int option \<Rightarrow> string"
  cx_operatorName :: "int option \<Rightarrow> string option"
  cx_operatorShortName :: "int option \<Rightarrow> string option"
  cx_stationCode :: "int \<Rightarrow> string option"
  cx_regionName :: "int option \<Rightarrow> string option"
  cx_ownerName :: "int \<Rightarrow> string option"
  cx_ownerPlmn :: "int option \<Rightarrow> string option"
  cx_gnbidLength :: "int option \<Rightarrow> int"
  cx_networkName :: "string \<Rightarrow> string"
  cx_distance :: "number \<times> number \<Rightarrow> number \<times> number \<Rightarrow> number"

datatype changeGroup = GroupStation | GroupPlace | GroupSectors | GroupRat tech | GroupPhotos
datatype itemKind = ItemAdded | ItemChanged | ItemRemoved

record changeItem =
  it_group :: changeGroup
  it_target :: fieldTarget
  it_kind :: itemKind
  it_label :: "textPart list"
  it_pair :: "(textPart option \<times> textPart option) option"
  it_isCorrection :: bool

datatype markTone = ToneDatabase | ToneSubmitted

record fieldMark =
  mk_tone :: markTone
  mk_value :: "textPart option"

record fieldState =
  fs_isChanged :: bool
  fs_isCorrected :: bool
  fs_marks :: "fieldMark list"

record cellRowState =
  cr_kind :: rowKind
  cr_fields :: "editField \<Rightarrow> fieldState option"

record sectorRowState =
  xr_kind :: rowKind
  xr_field :: fieldState

definition UNCHANGED_FIELD :: fieldState where
  "UNCHANGED_FIELD = \<lparr>fs_isChanged = False, fs_isCorrected = False, fs_marks = []\<rparr>"

datatype comparable = CNull | CText string | CNumber number | CBool bool

definition orNull :: "('a \<Rightarrow> comparable) \<Rightarrow> 'a option \<Rightarrow> comparable" where
  "orNull f v = (case v of None \<Rightarrow> CNull | Some x \<Rightarrow> f x)"

definition targetOf :: "targetScope \<Rightarrow> fieldTarget" where
  "targetOf scope = \<lparr>ft_scope = scope, ft_key = None, ft_rat = None, ft_field = None\<rparr>"

section \<open>Names and keys of texts\<close>

definition FALLBACK_OPERATOR_SHORT_NAME :: string where "FALLBACK_OPERATOR_SHORT_NAME = ''MNO''"
definition GENERAL_GROUP_KEY :: string where "GENERAL_GROUP_KEY = ''stations:edit.groups.general''"
definition CELLS_KEY :: string where "CELLS_KEY = ''common:labels.cells''"

fun statusName :: "stationStatus \<Rightarrow> string" where
  "statusName StActive = ''active''"
| "statusName StAwaitingCells = ''awaitingCells''"
| "statusName StInactive = ''inactive''"

fun STATUS_KEYS :: "stationStatus \<Rightarrow> string" where
  "STATUS_KEYS StActive = ''stations:status.published''"
| "STATUS_KEYS StAwaitingCells = ''stations:status.pending''"
| "STATUS_KEYS StInactive = ''stations:status.inactive''"

fun mediumName :: "backhaulMedium \<Rightarrow> string" where
  "mediumName Fiber = ''fiber''"
| "mediumName Microwave = ''microwave''"
| "mediumName Satellite = ''satellite''"
| "mediumName Xdsl = ''xdsl''"

fun BACKHAUL_MEDIUM_KEYS :: "backhaulMedium \<Rightarrow> string" where
  "BACKHAUL_MEDIUM_KEYS Fiber = ''common:labels.backhaulFiber''"
| "BACKHAUL_MEDIUM_KEYS Microwave = ''common:labels.backhaulMicrowave''"
| "BACKHAUL_MEDIUM_KEYS Satellite = ''common:labels.backhaulSatellite''"
| "BACKHAUL_MEDIUM_KEYS Xdsl = ''common:labels.backhaulXdsl''"

fun CELL_TYPE_KEYS :: "cellType \<Rightarrow> string" where
  "CELL_TYPE_KEYS Macro = ''stations:cells.cellTypes.macrocell''"
| "CELL_TYPE_KEYS Micro = ''stations:cells.cellTypes.microcell''"
| "CELL_TYPE_KEYS Pico = ''stations:cells.cellTypes.picocell''"
| "CELL_TYPE_KEYS Femto = ''stations:cells.cellTypes.femtocell''"

text \<open>\<open>operatorName\<close> has a label of its own.\<close>

fun IDENTIFIER_LABEL_KEYS :: "identifierKind \<Rightarrow> string" where
  "IDENTIFIER_LABEL_KEYS NetworksId = ''common:labels.networksId''"
| "IDENTIFIER_LABEL_KEYS NetworksName = ''common:labels.networksName''"
| "IDENTIFIER_LABEL_KEYS OperatorName = ''common:labels.mnoName''"

fun ratName :: "tech \<Rightarrow> string" where
  "ratName Nr = ''NR''"
| "ratName Lte = ''LTE''"
| "ratName Umts = ''UMTS''"
| "ratName Gsm = ''GSM''"

fun CELL_NUMBER_LABELS :: "cellNumberField \<Rightarrow> string" where
  "CELL_NUMBER_LABELS Lac = ''LAC''"
| "CELL_NUMBER_LABELS Cid = ''CID''"
| "CELL_NUMBER_LABELS Rnc = ''RNC''"
| "CELL_NUMBER_LABELS Enbid = ''eNBID''"
| "CELL_NUMBER_LABELS Gnbid = ''gNBID''"
| "CELL_NUMBER_LABELS Clid = ''CLID''"
| "CELL_NUMBER_LABELS Tac = ''TAC''"
| "CELL_NUMBER_LABELS Pci = ''PCI''"
| "CELL_NUMBER_LABELS Psc = ''PSC''"
| "CELL_NUMBER_LABELS Bsic = ''BSIC''"
| "CELL_NUMBER_LABELS Uarfcn = ''UARFCN''"
| "CELL_NUMBER_LABELS Earfcn = ''EARFCN''"
| "CELL_NUMBER_LABELS Arfcn = ''ARFCN''"

fun CELL_FLAG_LABELS :: "cellFlagField \<Rightarrow> string" where
  "CELL_FLAG_LABELS IsEGsm = ''E-GSM''"
| "CELL_FLAG_LABELS SupportsIot = ''IoT''"
| "CELL_FLAG_LABELS SupportsRedCap = ''RedCap''"

fun getGroupLabel :: "changeGroup \<Rightarrow> textPart" where
  "getGroupLabel GroupStation = PartKey ''common:labels.station'' []"
| "getGroupLabel GroupPlace = PartKey ''common:labels.location'' []"
| "getGroupLabel GroupSectors = PartKey ''common:labels.azimuths'' []"
| "getGroupLabel GroupPhotos = PartKey ''submissions:photos.label'' []"
| "getGroupLabel (GroupRat r) = PartText (ratName r)"

section \<open>Cells and sectors of a snapshot\<close>

text \<open>The index of the cells is a \<open>Map\<close>: of two cells with one key it keeps the later one.\<close>

definition findCell :: "stationSnapshot \<Rightarrow> draftKey \<Rightarrow> cellDraft option" where
  "findCell snapshot key = List.find (\<lambda>c. ce_key c = key) (rev (sn_cells snapshot))"

definition getSectorDegrees :: "stationSnapshot \<Rightarrow> draftKey option \<Rightarrow> number option" where
  "getSectorDegrees snapshot sectorKey =
    Option.bind sectorKey (\<lambda>key.
      Option.bind (List.find (\<lambda>x. se_key x = key) (sn_sectors snapshot)) se_degrees)"

definition namingPair :: "number option \<Rightarrow> number option \<Rightarrow> number option" where
  "namingPair node cellId =
    (case (node, cellId) of
       (Some n, Some i) \<Rightarrow> (if n = 0 then None else Some (n * CID_RANGE + i))
     | _ \<Rightarrow> None)"

definition getNamingKey :: "stationSnapshot \<Rightarrow> cellDraft \<Rightarrow> number option" where
  "getNamingKey snapshot c =
    (case ce_rat c of
       Gsm \<Rightarrow> namingPair (getAreaValue snapshot c) (getCellNumber c Cid)
     | Umts \<Rightarrow> namingPair (getCellNumber c Rnc) (getCellNumber c Cid)
     | Lte \<Rightarrow> (let node = getCellNumber c Enbid in if node = Some 0 then None else node)
     | Nr \<Rightarrow> (let node = getCellNumber c Gnbid in if node = Some 0 then None else node))"

fun lowestKeys ::
  "stationSnapshot \<Rightarrow> cellDraft list \<Rightarrow> (tech \<Rightarrow> number option) \<Rightarrow> tech \<Rightarrow> number option" where
  "lowestKeys snapshot [] lowest = lowest"
| "lowestKeys snapshot (c # cs) lowest =
     (if ce_isDeleted c then lowestKeys snapshot cs lowest
      else case getNamingKey snapshot c of
             None \<Rightarrow> lowestKeys snapshot cs lowest
           | Some key \<Rightarrow>
               lowestKeys snapshot cs
                 (case lowest (ce_rat c) of
                    None \<Rightarrow> lowest(ce_rat c \<mapsto> key)
                  | Some current \<Rightarrow> (if key < current then lowest(ce_rat c \<mapsto> key) else lowest)))"

definition findNodeName :: "stationSnapshot \<Rightarrow> string option" where
  "findNodeName snapshot =
    (let lowest = lowestKeys snapshot (sn_cells snapshot) Map.empty
     in toNodeName \<lparr>ni_enbid = lowest Lte, ni_gnbid = lowest Nr, ni_longCid = lowest Umts,
          ni_gsmCellKey = lowest Gsm\<rparr>)"

text \<open>The removal of a site id: the id and the node name that takes its place.\<close>

definition findSiteIdRemoval :: "editSession \<Rightarrow> (string \<times> string) option" where
  "findSiteIdRemoval s =
    (let siteId = (case es_live s of None \<Rightarrow> [] | Some live \<Rightarrow> normalizeText (st_siteId (sn_station live)))
     in if siteId = [] \<or> normalizeText (st_siteId (sn_station (es_draft s))) \<noteq> [] then None
        else map_option (\<lambda>nodeName. (siteId, nodeName)) (findNodeName (es_draft s)))"

text \<open>
  The API knows the rows of a sector list by position: the stored ids, in ascending order, belong
  to the first rows. An entry is a row with the id, or the key, that the API will see it under.
\<close>

record sectorEntry =
  en_rowKey :: draftKey
  en_id :: "int option"
  en_wireKey :: string
  en_degrees :: "number option"

definition toSectorEntry :: "int list \<Rightarrow> sectorDraft list \<Rightarrow> nat \<Rightarrow> sectorDraft \<Rightarrow> sectorEntry" where
  "toSectorEntry ids added index row =
    (let i = (if index < length ids then Some (ids ! index) else None);
         slot = (if length ids \<le> index \<and> index - length ids < length added
                 then added ! (index - length ids) else row)
     in \<lparr>en_rowKey = se_key row, en_id = i,
         en_wireKey = (if i = None then getSectorWireKey slot else []), en_degrees = se_degrees row\<rparr>)"

definition listedRows :: "sectorDraft list \<Rightarrow> sectorDraft list" where
  "listedRows sectors = filter (\<lambda>x. se_id x \<noteq> None \<or> se_degrees x \<noteq> None) sectors"

definition listSectorEntries :: "sectorDraft list \<Rightarrow> sectorEntry list" where
  "listSectorEntries sectors =
    (let rows = listedRows sectors;
         ids = sort (List.map_filter se_id rows);
         added = filter (\<lambda>x. se_id x = None) rows
     in map (\<lambda>index. toSectorEntry ids added index (rows ! index)) [0..<length rows])"

definition isSameEntry :: "sectorEntry \<Rightarrow> sectorEntry \<Rightarrow> bool" where
  "isSameEntry left right =
    (if en_id left = None then en_id right = None \<and> en_wireKey left = en_wireKey right
     else en_id left = en_id right)"

definition findEntry :: "sectorEntry list \<Rightarrow> sectorEntry \<Rightarrow> sectorEntry option" where
  "findEntry entries wanted = List.find (\<lambda>entry. isSameEntry entry wanted) entries"

section \<open>Station and place\<close>

definition getMoveDistance :: "changeContext \<Rightarrow> placeDraft option \<Rightarrow> placeDraft option \<Rightarrow> number option" where
  "getMoveDistance context place basePlace =
    (case (place, basePlace) of
       (Some p, Some b) \<Rightarrow>
         (case (pl_latitude p, pl_longitude p, pl_latitude b, pl_longitude b) of
            (Some lat, Some lon, Some baseLat, Some baseLon) \<Rightarrow>
              Some (cx_distance context (baseLat, baseLon) (lat, lon))
          | _ \<Rightarrow> None)
     | _ \<Rightarrow> None)"

definition getBackhaulModel :: "stationDraft \<Rightarrow> string" where
  "getBackhaulModel station =
    (if bh_medium (st_backhaul station) = Some Microwave then normalizeText (bh_model (st_backhaul station)) else [])"

fun readOwner :: "ownerChoice \<Rightarrow> string" where
  "readOwner (OwnerListed i) = ''listed:'' @ intText i"
| "readOwner (OwnerProposed name) = ''proposed:'' @ normalizeText name"
| "readOwner OwnerUnknown = ''unknown''"

definition isSameOwnerChoice :: "ownerChoice \<Rightarrow> ownerChoice \<Rightarrow> bool" where
  "isSameOwnerChoice left right \<longleftrightarrow> readOwner left = readOwner right"

fun describeOwner :: "ownerChoice \<Rightarrow> changeContext \<Rightarrow> textPart" where
  "describeOwner OwnerUnknown context = PartKey UNKNOWN_KEY []"
| "describeOwner (OwnerProposed name) context =
     PartKey ''stations:edit.changes.proposedOwner'' [(''name'', TextString (normalizeText name))]"
| "describeOwner (OwnerListed i) context =
     PartText (case cx_ownerName context i of None \<Rightarrow> ''#'' @ intText i | Some name \<Rightarrow> name)"

definition describeStation :: "int option \<Rightarrow> changeContext \<Rightarrow> textPart option" where
  "describeStation stationId context =
    map_option (\<lambda>i. PartText (case cx_stationCode context i of None \<Rightarrow> ''#'' @ intText i | Some code \<Rightarrow> code))
      stationId"

definition describeMedium :: "backhaulMedium option \<Rightarrow> textPart" where
  "describeMedium medium =
    PartKey (case medium of None \<Rightarrow> UNKNOWN_KEY | Some m \<Rightarrow> BACKHAUL_MEDIUM_KEYS m) []"

definition coordinatesOf :: "placeDraft option \<Rightarrow> (number \<times> number) option" where
  "coordinatesOf place =
    (case place of
       None \<Rightarrow> None
     | Some p \<Rightarrow> (case (pl_latitude p, pl_longitude p) of (Some lat, Some lon) \<Rightarrow> Some (lat, lon) | _ \<Rightarrow> None))"

definition describeCoordinates :: "placeDraft option \<Rightarrow> textPart option" where
  "describeCoordinates place =
    map_option (\<lambda>(lat, lon). PartText (formatCoordinatePair lat lon)) (coordinatesOf place)"

definition readCoordinates :: "placeDraft option \<Rightarrow> string option" where
  "readCoordinates place =
    map_option (\<lambda>(lat, lon). numberText lat @ '','' @ numberText lon) (coordinatesOf place)"

record fieldSpec =
  sp_field :: editField
  sp_label :: "stationSnapshot \<Rightarrow> changeContext \<Rightarrow> textPart"
  sp_read :: "stationSnapshot \<Rightarrow> comparable"
  sp_describe :: "stationSnapshot \<Rightarrow> changeContext \<Rightarrow> textPart option"

definition identifierSpec :: "identifierKind \<Rightarrow> fieldSpec" where
  "identifierSpec kind = \<lparr>
     sp_field = FIdentifier kind,
     sp_label = (\<lambda>_ _. PartKey (IDENTIFIER_LABEL_KEYS kind) []),
     sp_read = (\<lambda>sn. CText (normalizeText (st_identifiers (sn_station sn) kind))),
     sp_describe = (\<lambda>sn _. toTextPart (st_identifiers (sn_station sn) kind))\<rparr>"

definition STATION_SPECS :: "fieldSpec list" where
  "STATION_SPECS = [
     \<lparr>sp_field = FSiteId,
       sp_label = (\<lambda>_ _. PartKey ''common:labels.stationId'' []),
       sp_read = (\<lambda>sn. CText (normalizeText (st_siteId (sn_station sn)))),
       sp_describe = (\<lambda>sn _. toTextPart (st_siteId (sn_station sn)))\<rparr>,
     \<lparr>sp_field = FOperatorId,
       sp_label = (\<lambda>_ _. PartKey ''common:labels.operator'' []),
       sp_read = (\<lambda>sn. orNull (\<lambda>i. CNumber (of_int i)) (st_operatorId (sn_station sn))),
       sp_describe = (\<lambda>sn cx. toTextPart (case cx_operatorName cx (st_operatorId (sn_station sn)) of
                         None \<Rightarrow> [] | Some name \<Rightarrow> name))\<rparr>,
     \<lparr>sp_field = FHostStationId,
       sp_label = (\<lambda>_ _. PartKey ''common:labels.hostStation'' []),
       sp_read = (\<lambda>sn. orNull (\<lambda>i. CNumber (of_int i)) (st_hostStationId (sn_station sn))),
       sp_describe = (\<lambda>sn cx. describeStation (st_hostStationId (sn_station sn)) cx)\<rparr>,
     \<lparr>sp_field = FStatus,
       sp_label = (\<lambda>_ _. PartKey ''common:labels.status'' []),
       sp_read = (\<lambda>sn. CText (statusName (st_status (sn_station sn)))),
       sp_describe = (\<lambda>sn _. Some (PartKey (STATUS_KEYS (st_status (sn_station sn))) []))\<rparr>,
     \<lparr>sp_field = FIdentifier OperatorName,
       sp_label = (\<lambda>draft cx. PartKey ''common:labels.mnoName'' [(''brand'', TextString
         (case cx_operatorShortName cx (st_operatorId (sn_station draft)) of
            None \<Rightarrow> FALLBACK_OPERATOR_SHORT_NAME | Some name \<Rightarrow> name))]),
       sp_read = (\<lambda>sn. CText (normalizeText (st_identifiers (sn_station sn) OperatorName))),
       sp_describe = (\<lambda>sn _. toTextPart (st_identifiers (sn_station sn) OperatorName))\<rparr>,
     identifierSpec NetworksId,
     identifierSpec NetworksName,
     \<lparr>sp_field = FBackhaulMedium,
       sp_label = (\<lambda>_ _. PartKey ''common:labels.backhaul'' []),
       sp_read = (\<lambda>sn. orNull (\<lambda>m. CText (mediumName m)) (bh_medium (st_backhaul (sn_station sn)))),
       sp_describe = (\<lambda>sn _. Some (describeMedium (bh_medium (st_backhaul (sn_station sn)))))\<rparr>,
     \<lparr>sp_field = FBackhaulSpeedMbps,
       sp_label = (\<lambda>_ _. PartKey ''common:labels.backhaulSpeed'' []),
       sp_read = (\<lambda>sn. orNull CNumber (bh_speedMbps (st_backhaul (sn_station sn)))),
       sp_describe = (\<lambda>sn _. toNumberPart (bh_speedMbps (st_backhaul (sn_station sn))))\<rparr>,
     \<lparr>sp_field = FBackhaulModel,
       sp_label = (\<lambda>_ _. PartKey ''common:labels.backhaulModel'' []),
       sp_read = (\<lambda>sn. CText (getBackhaulModel (sn_station sn))),
       sp_describe = (\<lambda>sn _. toTextPart (getBackhaulModel (sn_station sn)))\<rparr>,
     \<lparr>sp_field = FNotes,
       sp_label = (\<lambda>_ _. PartKey ''common:labels.notes'' []),
       sp_read = (\<lambda>sn. CText (normalizeText (st_notes (sn_station sn)))),
       sp_describe = (\<lambda>sn _. toTextPart (st_notes (sn_station sn)))\<rparr>,
     \<lparr>sp_field = FIsConfirmed,
       sp_label = (\<lambda>_ _. PartKey ''common:labels.confirmed'' []),
       sp_read = (\<lambda>sn. CBool (st_isConfirmed (sn_station sn))),
       sp_describe = (\<lambda>sn _. Some (toBooleanPart (st_isConfirmed (sn_station sn))))\<rparr>]"

definition placeText :: "(placeDraft \<Rightarrow> string) \<Rightarrow> stationSnapshot \<Rightarrow> string" where
  "placeText f sn = (case sn_place sn of None \<Rightarrow> [] | Some p \<Rightarrow> f p)"

definition PLACE_SPECS :: "fieldSpec list" where
  "PLACE_SPECS = [
     \<lparr>sp_field = FCoordinates,
       sp_label = (\<lambda>_ _. PartKey ''common:labels.coordinates'' []),
       sp_read = (\<lambda>sn. orNull CText (readCoordinates (sn_place sn))),
       sp_describe = (\<lambda>sn _. describeCoordinates (sn_place sn))\<rparr>,
     \<lparr>sp_field = FRegionId,
       sp_label = (\<lambda>_ _. PartKey ''stationDetails:specs.region'' []),
       sp_read = (\<lambda>sn. orNull (\<lambda>i. CNumber (of_int i)) (Option.bind (sn_place sn) pl_regionId)),
       sp_describe = (\<lambda>sn cx. toTextPart (case cx_regionName cx (Option.bind (sn_place sn) pl_regionId) of
                         None \<Rightarrow> [] | Some name \<Rightarrow> name))\<rparr>,
     \<lparr>sp_field = FCity,
       sp_label = (\<lambda>_ _. PartKey ''common:labels.city'' []),
       sp_read = (\<lambda>sn. CText (normalizeText (placeText pl_city sn))),
       sp_describe = (\<lambda>sn _. toTextPart (placeText pl_city sn))\<rparr>,
     \<lparr>sp_field = FAddress,
       sp_label = (\<lambda>_ _. PartKey ''common:labels.address'' []),
       sp_read = (\<lambda>sn. CText (normalizeText (placeText pl_address sn))),
       sp_describe = (\<lambda>sn _. toTextPart (placeText pl_address sn))\<rparr>,
     \<lparr>sp_field = FStructureType,
       sp_label = (\<lambda>_ _. PartKey ''common:structure.type'' []),
       sp_read = (\<lambda>sn. orNull CText (Option.bind (sn_place sn) (\<lambda>p. sd_type (pl_structure p)))),
       sp_describe = (\<lambda>sn _. map_option (\<lambda>t. PartKey (''common:structure.types.'' @ t) [])
                         (Option.bind (sn_place sn) (\<lambda>p. sd_type (pl_structure p))))\<rparr>,
     \<lparr>sp_field = FStructureOwner,
       sp_label = (\<lambda>_ _. PartKey ''common:structure.owner'' []),
       sp_read = (\<lambda>sn. orNull (\<lambda>p. CText (readOwner (sd_owner (pl_structure p)))) (sn_place sn)),
       sp_describe = (\<lambda>sn cx. map_option (\<lambda>p. describeOwner (sd_owner (pl_structure p)) cx) (sn_place sn))\<rparr>,
     \<lparr>sp_field = FStructureNote,
       sp_label = (\<lambda>_ _. PartKey ''common:structure.note'' []),
       sp_read = (\<lambda>sn. CText (normalizeText (placeText (\<lambda>p. sd_note (pl_structure p)) sn))),
       sp_describe = (\<lambda>sn _. toTextPart (placeText (\<lambda>p. sd_note (pl_structure p)) sn))\<rparr>]"

definition differsInPlace :: "fieldSpec \<Rightarrow> stationSnapshot \<Rightarrow> stationSnapshot \<Rightarrow> bool" where
  "differsInPlace spec draft base =
    (case sn_place draft of
       None \<Rightarrow> False
     | Some p \<Rightarrow>
         (if sp_field spec = FRegionId \<and> \<not> pl_isRegionPicked p then False
          else sp_read spec draft \<noteq> sp_read spec base))"

definition pairItem ::
  "changeGroup \<Rightarrow> fieldTarget \<Rightarrow> textPart list \<Rightarrow> textPart option \<Rightarrow> textPart option \<Rightarrow> changeItem" where
  "pairItem grp target label before after = \<lparr>it_group = grp, it_target = target, it_kind = ItemChanged,
     it_label = label, it_pair = Some (before, after), it_isCorrection = False\<rparr>"

definition plainItem :: "changeGroup \<Rightarrow> fieldTarget \<Rightarrow> itemKind \<Rightarrow> textPart list \<Rightarrow> changeItem" where
  "plainItem grp target kind label = \<lparr>it_group = grp, it_target = target, it_kind = kind,
     it_label = label, it_pair = None, it_isCorrection = False\<rparr>"

definition stationChangeItems ::
  "stationSnapshot \<Rightarrow> stationSnapshot \<Rightarrow> changeContext \<Rightarrow> fieldSpec \<Rightarrow> changeItem list" where
  "stationChangeItems draft base context spec =
    (if sp_read spec draft = sp_read spec base then []
     else let target = (targetOf ScStation)\<lparr>ft_field := Some (sp_field spec)\<rparr>
          in if sp_field spec \<noteq> FIsConfirmed
             then [pairItem GroupStation target [sp_label spec draft context]
                     (sp_describe spec base context) (sp_describe spec draft context)]
             else [plainItem GroupStation target ItemChanged [PartKey
                     (if st_isConfirmed (sn_station draft) then ''stations:edit.changes.stationConfirmed''
                      else ''stations:edit.changes.stationUnconfirmed'') []]])"

definition listStationChanges :: "stationSnapshot \<Rightarrow> stationSnapshot \<Rightarrow> changeContext \<Rightarrow> changeItem list" where
  "listStationChanges draft base context = concat (map (stationChangeItems draft base context) STATION_SPECS)"

definition describeMove :: "changeContext \<Rightarrow> placeDraft \<Rightarrow> placeDraft \<Rightarrow> textPart" where
  "describeMove context place basePlace =
    (let values = [(''distance'', TextString (formatDistance
           (case getMoveDistance context (Some place) (Some basePlace) of None \<Rightarrow> 0 | Some d \<Rightarrow> d)))]
     in if pl_move place = MoveLocation then PartKey ''stations:edit.changes.locationMoved'' values
        else let joinsOtherPlace = pl_locationId place \<noteq> None \<and> pl_locationId place \<noteq> pl_locationId basePlace
             in PartKey (if joinsOtherPlace then ''stations:edit.changes.stationMovedToExisting''
                         else ''stations:edit.changes.stationMoved'') values)"

definition placeChangeItems ::
  "placeDraft \<Rightarrow> stationSnapshot \<Rightarrow> stationSnapshot \<Rightarrow> changeContext \<Rightarrow> fieldSpec \<Rightarrow> changeItem list" where
  "placeChangeItems place draft base context spec =
    (if \<not> differsInPlace spec draft base then []
     else let target = (targetOf ScPlace)\<lparr>ft_field := Some (sp_field spec)\<rparr>
          in case sn_place base of
               Some basePlace \<Rightarrow>
                 (if sp_field spec = FCoordinates \<and> isMarkerMoved (Some place) (Some basePlace)
                  then [plainItem GroupPlace target ItemChanged [describeMove context place basePlace]]
                  else [pairItem GroupPlace target [sp_label spec draft context]
                          (sp_describe spec base context) (sp_describe spec draft context)])
             | None \<Rightarrow> [pairItem GroupPlace target [sp_label spec draft context]
                          (sp_describe spec base context) (sp_describe spec draft context)])"

definition listPlaceChanges :: "stationSnapshot \<Rightarrow> stationSnapshot \<Rightarrow> changeContext \<Rightarrow> changeItem list" where
  "listPlaceChanges draft base context =
    (case sn_place draft of
       None \<Rightarrow> []
     | Some place \<Rightarrow> concat (map (placeChangeItems place draft base context) PLACE_SPECS))"

section \<open>Sectors\<close>

definition describeNewSector :: "number option \<Rightarrow> textPart" where
  "describeNewSector degrees =
    (case degrees of
       None \<Rightarrow> PartKey ''stations:edit.changes.sectorAddedEmpty'' []
     | Some d \<Rightarrow>
         (if d = OMNIDIRECTIONAL_DEGREES then PartKey ''stations:edit.changes.sectorAddedOmni'' []
          else PartKey ''stations:edit.changes.sectorAdded'' [(''degrees'', TextNumber d)]))"

definition describeRemovedSector :: "number option \<Rightarrow> textPart" where
  "describeRemovedSector degrees =
    (if degrees = Some OMNIDIRECTIONAL_DEGREES then PartKey ''stations:edit.changes.sectorRemovedOmni'' []
     else PartKey ''stations:edit.changes.sectorRemoved''
       [(''degrees'', case degrees of None \<Rightarrow> TextString EMPTY_VALUE | Some d \<Rightarrow> TextNumber d)])"

definition sectorTarget :: "draftKey \<Rightarrow> fieldTarget" where
  "sectorTarget key = (targetOf ScSector)\<lparr>ft_key := Some key\<rparr>"

definition sectorChangeItems ::
  "sectorEntry list \<Rightarrow> sectorEntry list \<Rightarrow> sectorDraft \<Rightarrow> changeItem list" where
  "sectorChangeItems entries baseEntries sector =
    (let target = (sectorTarget (se_key sector))\<lparr>ft_field := Some FDegrees\<rparr>;
         entry = List.find (\<lambda>candidate. en_rowKey candidate = se_key sector) entries;
         baseEntry = Option.bind entry (findEntry baseEntries)
     in case (entry, baseEntry) of
          (Some e, Some b) \<Rightarrow>
            (if en_degrees b \<noteq> en_degrees e
             then [pairItem GroupSectors target [PartKey ''common:labels.azimuth'' []]
                     (toDegreesPart (en_degrees b)) (toDegreesPart (en_degrees e))]
             else [])
        | _ \<Rightarrow> [plainItem GroupSectors target ItemAdded [describeNewSector (se_degrees sector)]])"

definition removedSectorItems :: "sectorEntry list \<Rightarrow> sectorEntry \<Rightarrow> changeItem list" where
  "removedSectorItems entries baseEntry =
    (if findEntry entries baseEntry \<noteq> None then []
     else [plainItem GroupSectors (sectorTarget (en_rowKey baseEntry)) ItemRemoved
             [describeRemovedSector (en_degrees baseEntry)]])"

definition listSectorChanges :: "stationSnapshot \<Rightarrow> stationSnapshot \<Rightarrow> changeItem list" where
  "listSectorChanges draft base =
    (let entries = listSectorEntries (sn_sectors draft); baseEntries = listSectorEntries (sn_sectors base)
     in concat (map (sectorChangeItems entries baseEntries) (sn_sectors draft)) @
        concat (map (removedSectorItems entries) baseEntries))"

section \<open>Cells\<close>

definition orPart :: "textPart option \<Rightarrow> textPart \<Rightarrow> textPart" where
  "orPart part other = (case part of None \<Rightarrow> other | Some p \<Rightarrow> p)"

definition describeCellIdentity :: "cellDraft \<Rightarrow> stationSnapshot \<Rightarrow> textPart" where
  "describeCellIdentity c snapshot =
    (if ce_rat c = Nr
     then orPart (toDegreesPart (getSectorDegrees snapshot (ce_sectorKey c)))
            (PartKey ''stations:edit.cellName.noAzimuth'' [])
     else if ce_rat c = Lte
     then (case getCellNumber c Clid of
             None \<Rightarrow> PartKey ''stations:edit.cellName.noClid'' []
           | Some clid \<Rightarrow> PartText (''CLID '' @ numberText clid))
     else (case getCellNumber c Cid of
             None \<Rightarrow> PartKey ''stations:edit.cellName.noCid'' []
           | Some cid \<Rightarrow> PartText (''CID '' @ numberText cid)))"

definition describeCell :: "cellDraft \<Rightarrow> stationSnapshot \<Rightarrow> changeContext \<Rightarrow> textPart list" where
  "describeCell c snapshot context =
    [PartText (ratName (ce_rat c) @ '' '' @ cx_bandText context (ce_bandId c)), describeCellIdentity c snapshot]"

definition describeTarget :: "fieldTarget \<Rightarrow> stationSnapshot \<Rightarrow> changeContext \<Rightarrow> textPart list" where
  "describeTarget target snapshot context =
    (let cellsText = [case ft_rat target of None \<Rightarrow> PartKey CELLS_KEY [] | Some r \<Rightarrow> getGroupLabel (GroupRat r)]
     in case ft_scope target of
          ScStation \<Rightarrow> [getGroupLabel GroupStation]
        | ScPlace \<Rightarrow> [getGroupLabel GroupPlace]
        | ScSector \<Rightarrow> [getGroupLabel GroupSectors]
        | ScPhotos \<Rightarrow> [getGroupLabel GroupPhotos]
        | ScGeneral \<Rightarrow> [PartKey GENERAL_GROUP_KEY []]
        | ScCell \<Rightarrow> (case Option.bind (ft_key target) (findCell snapshot) of
                       Some c \<Rightarrow> describeCell c snapshot context | None \<Rightarrow> cellsText)
        | ScAreaCode \<Rightarrow> cellsText)"

definition isSectorChanged :: "cellDraft \<Rightarrow> cellDraft \<Rightarrow> stationSnapshot \<Rightarrow> stationSnapshot \<Rightarrow> bool" where
  "isSectorChanged c baseCell draft base =
    (if ce_sectorKey c = ce_sectorKey baseCell then False
     else getSectorDegrees draft (ce_sectorKey c) \<noteq> getSectorDegrees base (ce_sectorKey baseCell))"

definition isAreaValueChanged :: "cellDraft \<Rightarrow> cellDraft \<Rightarrow> stationSnapshot \<Rightarrow> stationSnapshot \<Rightarrow> bool" where
  "isAreaValueChanged c baseCell draft base =
    (if isShared (sn_areaCodes draft (ce_rat c)) then False
     else getAreaValue draft c \<noteq> getAreaValue base baseCell)"

definition gnbidLengthOr :: "cellDraft \<Rightarrow> int \<Rightarrow> int" where
  "gnbidLengthOr c defaultGnbidLength = (case ce_gnbidLength c of None \<Rightarrow> defaultGnbidLength | Some l \<Rightarrow> l)"

definition numberChanged ::
  "cellDraft \<Rightarrow> cellDraft \<Rightarrow> stationSnapshot \<Rightarrow> stationSnapshot \<Rightarrow> cellNumberField \<Rightarrow> bool" where
  "numberChanged c baseCell draft base f =
    (if f = rs_areaCodeField (RAT_FIELDS (ce_rat c)) then isAreaValueChanged c baseCell draft base
     else getCellNumber c f \<noteq> getCellNumber baseCell f)"

definition listChangedCellFields ::
  "cellDraft \<Rightarrow> cellDraft \<Rightarrow> stationSnapshot \<Rightarrow> stationSnapshot \<Rightarrow> int \<Rightarrow> editField list" where
  "listChangedCellFields c baseCell draft base defaultGnbidLength =
    (let spec = RAT_FIELDS (ce_rat c)
     in (if ce_bandId c \<noteq> ce_bandId baseCell then [FBandId] else []) @
        (if isSectorChanged c baseCell draft base then [FSectorKey] else []) @
        (if ce_mode c \<noteq> ce_mode baseCell then [FMode] else []) @
        (if ce_rat c = Nr \<and> ce_mode c = Some Sa \<and>
            gnbidLengthOr c defaultGnbidLength \<noteq> gnbidLengthOr baseCell defaultGnbidLength
         then [FGnbidLength] else []) @
        map FNumber (filter (numberChanged c baseCell draft base) (map nf_field (rs_numbers spec))) @
        map FFlag (filter (\<lambda>f. getCellFlag c f \<noteq> getCellFlag baseCell f) (map ff_field (rs_flags spec))) @
        (if ce_cellType c \<noteq> ce_cellType baseCell then [FCellType] else []) @
        (if ce_isConfirmed c \<noteq> ce_isConfirmed baseCell then [FIsConfirmed] else []) @
        (if normalizeText (ce_notes c) \<noteq> normalizeText (ce_notes baseCell) then [FNotes] else []) @
        (if \<not> isSameCodes (ce_extraPlmns c) (ce_extraPlmns baseCell) then [FExtraPlmns] else []))"

definition describeNetworks :: "cellDraft \<Rightarrow> stationSnapshot \<Rightarrow> changeContext \<Rightarrow> textPart option" where
  "describeNetworks c snapshot context =
    (let codes = toPlmnList (cx_ownerPlmn context (st_operatorId (sn_station snapshot))) (ce_extraPlmns c)
     in if codes = [] then None else Some (PartText (joinTexts '', '' (map (cx_networkName context) codes))))"

fun modeText :: "nrMode \<Rightarrow> string" where
  "modeText Nsa = ''NSA''"
| "modeText Sa = ''SA''"

text \<open>The fields of a cell; no other field is ever asked for.\<close>

fun describeCellValue ::
  "cellDraft \<Rightarrow> editField \<Rightarrow> stationSnapshot \<Rightarrow> changeContext \<Rightarrow> textPart option" where
  "describeCellValue c FBandId snapshot context = Some (PartText (cx_bandText context (ce_bandId c)))"
| "describeCellValue c FSectorKey snapshot context = toDegreesPart (getSectorDegrees snapshot (ce_sectorKey c))"
| "describeCellValue c FCellType snapshot context = map_option (\<lambda>t. PartKey (CELL_TYPE_KEYS t) []) (ce_cellType c)"
| "describeCellValue c FNotes snapshot context = toTextPart (ce_notes c)"
| "describeCellValue c FIsConfirmed snapshot context = Some (toBooleanPart (ce_isConfirmed c))"
| "describeCellValue c FMode snapshot context = map_option (\<lambda>m. PartText (modeText m)) (ce_mode c)"
| "describeCellValue c FGnbidLength snapshot context =
     toNumberPart (Some (of_int (gnbidLengthOr c (cx_gnbidLength context (st_operatorId (sn_station snapshot))))))"
| "describeCellValue c FExtraPlmns snapshot context = describeNetworks c snapshot context"
| "describeCellValue c (FFlag f) snapshot context = Some (toBooleanPart (getCellFlag c f))"
| "describeCellValue c (FNumber f) snapshot context =
     (if f = getAreaCodeField (ce_rat c) then toNumberPart (getAreaValue snapshot c)
      else toNumberPart (getCellNumber c f))"
| "describeCellValue c _ snapshot context = None"

fun describeCellField :: "editField \<Rightarrow> textPart" where
  "describeCellField FBandId = PartKey ''stations:edit.changes.fields.band'' []"
| "describeCellField FSectorKey = PartKey ''stations:edit.changes.fields.azimuth'' []"
| "describeCellField FCellType = PartKey ''stations:edit.changes.fields.cellType'' []"
| "describeCellField FNotes = PartKey ''stations:edit.changes.fields.note'' []"
| "describeCellField FMode = PartKey ''stations:edit.changes.fields.mode'' []"
| "describeCellField FGnbidLength = PartKey ''stations:edit.cells.columns.gnbidLength'' []"
| "describeCellField FIsConfirmed = PartKey ''common:labels.confirmed'' []"
| "describeCellField FExtraPlmns = PartKey ''stations:edit.changes.fields.networks'' []"
| "describeCellField (FFlag f) = PartText (CELL_FLAG_LABELS f)"
| "describeCellField (FNumber f) = PartText (CELL_NUMBER_LABELS f)"
| "describeCellField _ = PartText []"

definition cellTarget :: "cellDraft \<Rightarrow> fieldTarget" where
  "cellTarget c = (targetOf ScCell)\<lparr>ft_key := Some (ce_key c), ft_rat := Some (ce_rat c)\<rparr>"

definition toCellFieldItem ::
  "cellDraft \<Rightarrow> cellDraft \<Rightarrow> editField \<Rightarrow> stationSnapshot \<Rightarrow> stationSnapshot \<Rightarrow> changeContext \<Rightarrow> changeItem" where
  "toCellFieldItem c baseCell f draft base context =
    (let target = (cellTarget c)\<lparr>ft_field := Some f\<rparr>;
         name = [PartText (cx_bandText context (ce_bandId c)), describeCellIdentity c draft]
     in case f of
          FIsConfirmed \<Rightarrow> plainItem (GroupRat (ce_rat c)) target ItemChanged (name @ [PartKey
            (if ce_isConfirmed c then ''stations:edit.changes.cellConfirmed''
             else ''stations:edit.changes.cellUnconfirmed'') []])
        | FFlag flag \<Rightarrow> plainItem (GroupRat (ce_rat c)) target ItemChanged (name @ [PartKey
            (if getCellFlag c flag then ''stations:edit.changes.flagOn'' else ''stations:edit.changes.flagOff'')
            [(''flag'', TextString (CELL_FLAG_LABELS flag))]])
        | _ \<Rightarrow> pairItem (GroupRat (ce_rat c)) target (name @ [describeCellField f])
                 (describeCellValue baseCell f base context) (describeCellValue c f draft context))"

definition toCellRowItem ::
  "cellDraft \<Rightarrow> stationSnapshot \<Rightarrow> changeContext \<Rightarrow> itemKind \<Rightarrow> string \<Rightarrow> changeItem" where
  "toCellRowItem c snapshot context kind key =
    plainItem (GroupRat (ce_rat c)) (cellTarget c) kind
      [PartKey key [(''band'', TextString (cx_bandText context (ce_bandId c)))], describeCellIdentity c snapshot]"

definition listCellChanges ::
  "cellDraft \<Rightarrow> stationSnapshot \<Rightarrow> stationSnapshot \<Rightarrow> changeContext \<Rightarrow> changeItem list" where
  "listCellChanges c draft base context =
    (case findCell base (ce_key c) of
       None \<Rightarrow> [toCellRowItem c draft context ItemAdded ''stations:edit.changes.cellAdded'']
     | Some baseCell \<Rightarrow>
         (if ce_isDeleted c
          then (if ce_isDeleted baseCell then []
                else [toCellRowItem c draft context ItemRemoved ''stations:edit.changes.cellRemoved''])
          else (if ce_isDeleted baseCell
                then [toCellRowItem c draft context ItemAdded ''stations:edit.changes.cellRestored''] else []) @
               map (\<lambda>f. toCellFieldItem c baseCell f draft base context)
                 (listChangedCellFields c baseCell draft base
                   (cx_gnbidLength context (st_operatorId (sn_station draft))))))"

definition hasAreaCarrier :: "stationSnapshot \<Rightarrow> tech \<Rightarrow> bool" where
  "hasAreaCarrier snapshot r \<longleftrightarrow>
    list_ex (\<lambda>c. ce_rat c = r \<and> \<not> ce_isDeleted c \<and> carriesAreaCode c) (sn_cells snapshot)"

definition isAreaCodeChanged :: "tech \<Rightarrow> stationSnapshot \<Rightarrow> stationSnapshot \<Rightarrow> bool" where
  "isAreaCodeChanged r draft base =
    (case sn_areaCodes draft r of
       PerCell \<Rightarrow> False
     | Shared v \<Rightarrow>
         (if \<not> hasAreaCarrier draft r then False
          else case sn_areaCodes base r of
                 Shared baseValue \<Rightarrow> baseValue \<noteq> v
               | PerCell \<Rightarrow> hasAreaCarrier base r))"

definition describeAreaCode :: "areaCode \<Rightarrow> textPart option" where
  "describeAreaCode areaCode =
    (case areaCode of
       Shared v \<Rightarrow> toNumberPart v | PerCell \<Rightarrow> Some (PartKey ''stations:edit.changes.areaCodeMixed'' []))"

definition listAreaCodeChanges :: "tech \<Rightarrow> stationSnapshot \<Rightarrow> stationSnapshot \<Rightarrow> changeItem list" where
  "listAreaCodeChanges r draft base =
    (if \<not> isAreaCodeChanged r draft base then []
     else let f = getAreaCodeField r
          in [pairItem (GroupRat r) ((targetOf ScAreaCode)\<lparr>ft_rat := Some r, ft_field := Some (FNumber f)\<rparr>)
                [PartKey ''stations:edit.changes.areaCodeAll'' [(''field'', TextString (CELL_NUMBER_LABELS f))]]
                (describeAreaCode (sn_areaCodes base r)) (describeAreaCode (sn_areaCodes draft r))])"

definition listRatChanges ::
  "tech \<Rightarrow> stationSnapshot \<Rightarrow> stationSnapshot \<Rightarrow> changeContext \<Rightarrow> changeItem list" where
  "listRatChanges r draft base context =
    (let rows = concat (map (\<lambda>c. listCellChanges c draft base context)
                  (filter (\<lambda>c. ce_rat c = r) (sn_cells draft)));
         dropped = map (\<lambda>c. toCellRowItem c base context ItemRemoved ''stations:edit.changes.cellRemoved'')
                  (filter (\<lambda>c. ce_rat c = r \<and> \<not> ce_isDeleted c \<and> findCell draft (ce_key c) = None) (sn_cells base))
     in listAreaCodeChanges r draft base @ rows @ dropped)"

definition buildChanges :: "stationSnapshot \<Rightarrow> stationSnapshot \<Rightarrow> changeContext \<Rightarrow> changeItem list" where
  "buildChanges draft base context =
    listStationChanges draft base context @ listPlaceChanges draft base context @
    listSectorChanges draft base @ concat (map (\<lambda>r. listRatChanges r draft base context) RAT_ORDER)"

section \<open>Changes and corrections\<close>

text \<open>The text ids of a target and of its row are equal exactly where these pairs are.\<close>

definition toRowId :: "fieldTarget \<Rightarrow> targetScope \<times> string" where
  "toRowId target = (ft_scope target, case ft_key target of None \<Rightarrow> [] | Some key \<Rightarrow> key)"

definition toTargetId :: "fieldTarget \<Rightarrow> (targetScope \<times> string) \<times> tech option \<times> editField option" where
  "toTargetId target = (toRowId target, ft_rat target, ft_field target)"

definition markCorrections :: "changeItem list \<Rightarrow> changeItem list \<Rightarrow> changeItem list" where
  "markCorrections changes corrections =
    (if corrections = [] then changes
     else let fieldIds = map (\<lambda>item. toTargetId (it_target item)) corrections;
              rowIds = map (\<lambda>item. toRowId (it_target item))
                (filter (\<lambda>item. ft_key (it_target item) \<noteq> None) corrections)
          in map (\<lambda>item.
               let isRowItem = (ft_key (it_target item) \<noteq> None \<and> ft_field (it_target item) = None);
                   isCorrection = (toTargetId (it_target item) \<in> set fieldIds \<or>
                     isRowItem \<and> toRowId (it_target item) \<in> set rowIds)
               in if isCorrection then item\<lparr>it_isCorrection := True\<rparr> else item) changes)"

text \<open>The changes and the corrections.\<close>

definition listChanges :: "editSession \<Rightarrow> changeContext \<Rightarrow> changeItem list \<times> changeItem list" where
  "listChanges s context =
    (if es_action s = ActDelete then ([], [])
     else let base = (case es_live s of None \<Rightarrow> EMPTY_SNAPSHOT | Some live \<Rightarrow> live);
              corrections = (case es_proposed s of
                None \<Rightarrow> []
              | Some proposed \<Rightarrow> map (\<lambda>item. item\<lparr>it_isCorrection := True\<rparr>)
                  (buildChanges (es_draft s) proposed context))
          in (markCorrections (buildChanges (es_draft s) base context) corrections, corrections))"

section \<open>The state of a row\<close>

definition liveBase :: "editSession \<Rightarrow> stationSnapshot" where
  "liveBase s = (case es_live s of None \<Rightarrow> EMPTY_SNAPSHOT | Some live \<Rightarrow> live)"

definition getRowKind :: "editSession \<Rightarrow> cellDraft \<Rightarrow> int \<Rightarrow> rowKind" where
  "getRowKind s c defaultGnbidLength =
    (if ce_isDeleted c then RowDeleted
     else case findCell (liveBase s) (ce_key c) of
            None \<Rightarrow> RowNew
          | Some baseCell \<Rightarrow>
              (if listChangedCellFields c baseCell (es_draft s) (liveBase s) defaultGnbidLength \<noteq> []
               then RowChanged else RowSame))"

text \<open>\<open>None\<close> is \<open>undefined\<close>, \<open>Some None\<close> is \<open>null\<close>.\<close>

definition toMarks :: "textPart option option \<Rightarrow> textPart option option \<Rightarrow> fieldMark list" where
  "toMarks database submitted =
    (case database of None \<Rightarrow> [] | Some v \<Rightarrow> [\<lparr>mk_tone = ToneDatabase, mk_value = v\<rparr>]) @
    (case submitted of None \<Rightarrow> [] | Some v \<Rightarrow> [\<lparr>mk_tone = ToneSubmitted, mk_value = v\<rparr>])"

text \<open>A cell of a snapshot that may be missing, with the snapshot.\<close>

definition cellIn :: "stationSnapshot option \<Rightarrow> draftKey \<Rightarrow> (stationSnapshot \<times> cellDraft) option" where
  "cellIn snapshot key =
    (case snapshot of None \<Rightarrow> None | Some sn \<Rightarrow> map_option (\<lambda>c. (sn, c)) (findCell sn key))"

definition changedAgainst ::
  "cellDraft \<Rightarrow> stationSnapshot \<Rightarrow> int \<Rightarrow> (stationSnapshot \<times> cellDraft) option \<Rightarrow> editField list" where
  "changedAgainst c draft defaultGnbidLength other =
    (case other of None \<Rightarrow> [] | Some (sn, b) \<Rightarrow> listChangedCellFields c b draft sn defaultGnbidLength)"

definition buildCellField ::
  "changeContext \<Rightarrow> (stationSnapshot \<times> cellDraft) option \<Rightarrow> (stationSnapshot \<times> cellDraft) option
    \<Rightarrow> editField list \<Rightarrow> editField list \<Rightarrow> editField list option \<Rightarrow> editField \<Rightarrow> fieldState" where
  "buildCellField context liveCell proposedCell changed corrected submitted f =
    (let isChanged = (f \<in> set changed); isCorrected = (f \<in> set corrected);
         old = (if isChanged then Option.bind liveCell (\<lambda>(sn, c). describeCellValue c f sn context) else None);
         sent = (if isCorrected then Option.bind proposedCell (\<lambda>(sn, c). describeCellValue c f sn context) else None);
         isSentShown = (sent \<noteq> None \<and> (case submitted of None \<Rightarrow> True | Some sentFields \<Rightarrow> f \<in> set sentFields))
     in \<lparr>fs_isChanged = isChanged, fs_isCorrected = isCorrected,
         fs_marks = toMarks (map_option Some old) (if isSentShown then map_option Some sent else None)\<rparr>)"

definition buildCellRowState :: "editSession \<Rightarrow> changeContext \<Rightarrow> cellDraft \<Rightarrow> cellRowState" where
  "buildCellRowState s context c =
    (let liveCell = cellIn (es_live s) (ce_key c); proposedCell = cellIn (es_proposed s) (ce_key c);
         defaultGnbidLength = cx_gnbidLength context (st_operatorId (sn_station (es_draft s)));
         changed = changedAgainst c (es_draft s) defaultGnbidLength liveCell;
         corrected = changedAgainst c (es_draft s) defaultGnbidLength proposedCell;
         submitted = (case (liveCell, proposedCell) of
           (Some (live, lc), Some (proposed, pc)) \<Rightarrow>
             Some (listChangedCellFields pc lc proposed live
               (cx_gnbidLength context (st_operatorId (sn_station proposed))))
         | _ \<Rightarrow> None)
     in \<lparr>cr_kind = getRowKind s c defaultGnbidLength,
         cr_fields = (\<lambda>f. if f \<in> set (changed @ corrected)
           then Some (buildCellField context liveCell proposedCell changed corrected submitted f) else None)\<rparr>)"

text \<open>
  The cache of a row's state hangs on the cell object. A state is taken from it where the live and
  the proposed snapshot and the context are the same objects as when it was built (the outcomes
  of these tests are \<open>refTests\<close>), and the degrees of the cell's sector and the sharing of its area
  code are the same.
\<close>

record refTests =
  rt_live :: bool
  rt_proposed :: bool
  rt_context :: bool

record cachedRowState =
  kr_sectorDegrees :: "number option"
  kr_isAreaShared :: bool
  kr_state :: cellRowState

definition isFreshRowState :: "cachedRowState \<Rightarrow> refTests \<Rightarrow> number option \<Rightarrow> bool \<Rightarrow> bool" where
  "isFreshRowState known tests sectorDegrees isAreaShared \<longleftrightarrow>
    rt_live tests \<and> rt_proposed tests \<and> kr_sectorDegrees known = sectorDegrees \<and>
    kr_isAreaShared known = isAreaShared \<and> rt_context tests"

text \<open>The state, and what the cache then holds for the cell.\<close>

definition getCellRowState ::
  "cachedRowState option \<Rightarrow> refTests \<Rightarrow> editSession \<Rightarrow> changeContext \<Rightarrow> cellDraft
    \<Rightarrow> cellRowState \<times> cachedRowState" where
  "getCellRowState known tests s context c =
    (let sectorDegrees = getSectorDegrees (es_draft s) (ce_sectorKey c);
         isAreaShared = isShared (sn_areaCodes (es_draft s) (ce_rat c));
         built = buildCellRowState s context c;
         fresh = (built, \<lparr>kr_sectorDegrees = sectorDegrees, kr_isAreaShared = isAreaShared, kr_state = built\<rparr>)
     in case known of
          None \<Rightarrow> fresh
        | Some k \<Rightarrow> (if isFreshRowState k tests sectorDegrees isAreaShared then (kr_state k, k) else fresh))"

definition getSectorRowKind :: "bool \<Rightarrow> bool \<Rightarrow> rowKind" where
  "getSectorRowKind isInDatabase isChanged =
    (if \<not> isInDatabase then RowNew else if isChanged then RowChanged else RowSame)"

definition buildSectorRowState :: "editSession \<Rightarrow> sectorDraft \<Rightarrow> sectorRowState" where
  "buildSectorRowState s sector =
    (let entry = List.find (\<lambda>candidate. en_rowKey candidate = se_key sector)
           (listSectorEntries (sn_sectors (es_draft s)));
         liveEntry = Option.bind entry (findEntry (listSectorEntries (sn_sectors (liveBase s))));
         proposedEntries = map_option (\<lambda>sn. listSectorEntries (sn_sectors sn)) (es_proposed s);
         proposedEntry = Option.bind entry (\<lambda>e. Option.bind proposedEntries (\<lambda>es. findEntry es e));
         isChanged = (case (entry, liveEntry) of (Some e, Some l) \<Rightarrow> en_degrees l \<noteq> en_degrees e | _ \<Rightarrow> False);
         isCorrected = (proposedEntries \<noteq> None \<and>
           (case proposedEntry of None \<Rightarrow> True | Some p \<Rightarrow> Some (en_degrees p) \<noteq> map_option en_degrees entry));
         isSentShown = (isCorrected \<and>
           (case proposedEntry of None \<Rightarrow> False | Some p \<Rightarrow> Some (en_degrees p) \<noteq> map_option en_degrees liveEntry));
         old = (if isChanged then map_option (\<lambda>l. toDegreesPart (en_degrees l)) liveEntry else None);
         sent = (if isSentShown then map_option (\<lambda>p. toDegreesPart (en_degrees p)) proposedEntry else None)
     in \<lparr>xr_kind = getSectorRowKind (liveEntry \<noteq> None) isChanged,
         xr_field = \<lparr>fs_isChanged = isChanged, fs_isCorrected = isCorrected, fs_marks = toMarks old sent\<rparr>\<rparr>)"

text \<open>
  The cache of a sector's state hangs on the sector object; the test compares the live and the
  proposed snapshot and the sector list by reference, which is all the state is built from.
\<close>

definition getSectorRowState ::
  "sectorRowState option \<Rightarrow> bool \<Rightarrow> editSession \<Rightarrow> sectorDraft \<Rightarrow> sectorRowState" where
  "getSectorRowState known isFresh s sector =
    (case known of
       Some state \<Rightarrow> (if isFresh then state else buildSectorRowState s sector)
     | None \<Rightarrow> buildSectorRowState s sector)"

section \<open>The state of a field\<close>

definition getSpecState ::
  "editSession \<Rightarrow> changeContext \<Rightarrow> fieldSpec \<Rightarrow> (stationSnapshot \<Rightarrow> stationSnapshot \<Rightarrow> bool) \<Rightarrow> fieldState" where
  "getSpecState s context spec differs =
    (let isChanged = (case es_live s of None \<Rightarrow> False | Some live \<Rightarrow> differs (es_draft s) live);
         isCorrected = (case es_proposed s of None \<Rightarrow> False | Some proposed \<Rightarrow> differs (es_draft s) proposed)
     in if \<not> isChanged \<and> \<not> isCorrected then UNCHANGED_FIELD
        else let old = (if isChanged then map_option (\<lambda>live. sp_describe spec live context) (es_live s) else None);
                 sent = Option.bind (es_proposed s) (\<lambda>proposed.
                   if isCorrected \<and> sp_read spec proposed \<noteq> sp_read spec (liveBase s)
                   then Some (sp_describe spec proposed context) else None)
             in \<lparr>fs_isChanged = isChanged, fs_isCorrected = isCorrected, fs_marks = toMarks old sent\<rparr>)"

definition getAreaCodeState :: "editSession \<Rightarrow> tech \<Rightarrow> fieldState" where
  "getAreaCodeState s r =
    (let isChanged = (case es_live s of None \<Rightarrow> False | Some live \<Rightarrow> isAreaCodeChanged r (es_draft s) live);
         isCorrected = (case es_proposed s of
           None \<Rightarrow> False | Some proposed \<Rightarrow> isAreaCodeChanged r (es_draft s) proposed)
     in if \<not> isChanged \<and> \<not> isCorrected then UNCHANGED_FIELD
        else let describe = (\<lambda>isOther sn. if isOther
                   then map_option (\<lambda>x. describeAreaCode (sn_areaCodes x r)) sn else None)
             in \<lparr>fs_isChanged = isChanged, fs_isCorrected = isCorrected,
                 fs_marks = toMarks (describe isChanged (es_live s)) (describe isCorrected (es_proposed s))\<rparr>)"

definition stationDiffers :: "fieldSpec \<Rightarrow> stationSnapshot \<Rightarrow> stationSnapshot \<Rightarrow> bool" where
  "stationDiffers spec draft base \<longleftrightarrow> sp_read spec draft \<noteq> sp_read spec base"

definition orUnchanged :: "fieldState option \<Rightarrow> fieldState" where
  "orUnchanged state = (case state of None \<Rightarrow> UNCHANGED_FIELD | Some x \<Rightarrow> x)"

text \<open>The row states a field is read from are built anew here; the caches are above.\<close>

definition getFieldState :: "editSession \<Rightarrow> changeContext \<Rightarrow> fieldTarget \<Rightarrow> fieldState" where
  "getFieldState s context target =
    (case ft_scope target of
       ScStation \<Rightarrow> orUnchanged (map_option (\<lambda>spec. getSpecState s context spec (stationDiffers spec))
         (List.find (\<lambda>spec. Some (sp_field spec) = ft_field target) STATION_SPECS))
     | ScPlace \<Rightarrow> orUnchanged (map_option (\<lambda>spec. getSpecState s context spec (differsInPlace spec))
         (List.find (\<lambda>spec. Some (sp_field spec) = ft_field target) PLACE_SPECS))
     | ScAreaCode \<Rightarrow> orUnchanged (map_option (getAreaCodeState s) (ft_rat target))
     | ScSector \<Rightarrow> orUnchanged (map_option (\<lambda>sector. xr_field (buildSectorRowState s sector))
         (List.find (\<lambda>sector. Some (se_key sector) = ft_key target) (sn_sectors (es_draft s))))
     | ScCell \<Rightarrow> orUnchanged (Option.bind (ft_field target) (\<lambda>f.
         Option.bind (Option.bind (ft_key target) (findCell (es_draft s))) (\<lambda>c.
           cr_fields (buildCellRowState s context c) f)))
     | _ \<Rightarrow> UNCHANGED_FIELD)"

section \<open>Counters\<close>

record ratCounters =
  rc_total :: nat
  rc_added :: nat
  rc_changed :: nat
  rc_deleted :: nat

definition countKind :: "rowKind \<Rightarrow> ratCounters \<Rightarrow> ratCounters" where
  "countKind kind counter = counter\<lparr>
     rc_total := rc_total counter + (if kind \<noteq> RowDeleted then 1 else 0),
     rc_added := rc_added counter + (if kind = RowNew then 1 else 0),
     rc_changed := rc_changed counter + (if kind = RowChanged then 1 else 0),
     rc_deleted := rc_deleted counter + (if kind = RowDeleted then 1 else 0)\<rparr>"

definition countCells :: "editSession \<Rightarrow> int \<Rightarrow> tech \<Rightarrow> ratCounters" where
  "countCells s defaultGnbidLength =
    fold (\<lambda>c counters. counters(ce_rat c :=
            countKind (getRowKind s c defaultGnbidLength) (counters (ce_rat c))))
      (sn_cells (es_draft s)) (\<lambda>_. \<lparr>rc_total = 0, rc_added = 0, rc_changed = 0, rc_deleted = 0\<rparr>)"

definition countDraftCells :: "(tech \<Rightarrow> ratCounters) \<Rightarrow> nat" where
  "countDraftCells counters = fold (\<lambda>r total. total + rc_total (counters r)) RAT_ORDER 0"

definition countKey :: "'k \<Rightarrow> ('k \<times> nat) list \<Rightarrow> ('k \<times> nat) list" where
  "countKey key counts = AList.update key (Suc (case map_of counts key of None \<Rightarrow> 0 | Some n \<Rightarrow> n)) counts"

definition getSectorCellCounts :: "stationSnapshot \<Rightarrow> (draftKey \<times> nat) list" where
  "getSectorCellCounts snapshot =
    fold (\<lambda>c counts. if ce_isDeleted c then counts
            else case ce_sectorKey c of None \<Rightarrow> counts | Some key \<Rightarrow> countKey key counts)
      (sn_cells snapshot) []"

definition getSuggestedSectorCount :: "stationSnapshot \<Rightarrow> nat" where
  "getSuggestedSectorCount snapshot =
    (let counts = fold (\<lambda>c counts. if ce_isDeleted c then counts
            else case ce_bandId c of None \<Rightarrow> counts | Some b \<Rightarrow> countKey b counts)
          (sn_cells snapshot) []
     in fold max (map snd counts) 0)"

section \<open>Photos\<close>

record photoChangeCounts =
  pc_addedCount :: nat
  pc_shownCount :: nat
  pc_hiddenCount :: nat
  pc_hasNewMainPhoto :: bool

definition toPhotoItem :: "editField \<Rightarrow> itemKind \<Rightarrow> textPart \<Rightarrow> changeItem" where
  "toPhotoItem f kind label = plainItem GroupPhotos ((targetOf ScPhotos)\<lparr>ft_field := Some f\<rparr>) kind [label]"

definition countPart :: "string \<Rightarrow> nat \<Rightarrow> textPart" where
  "countPart key n = PartKey key [(''count'', TextNumber (of_nat n))]"

definition buildPhotoChanges :: "photoChangeCounts \<Rightarrow> changeItem list" where
  "buildPhotoChanges counts =
    (if 0 < pc_addedCount counts
     then [toPhotoItem FUploads ItemAdded (countPart ''stations:edit.changes.photosAdded'' (pc_addedCount counts))]
     else []) @
    (if 0 < pc_shownCount counts
     then [toPhotoItem FPicks ItemAdded (countPart ''stations:edit.changes.photosShown'' (pc_shownCount counts))]
     else []) @
    (if 0 < pc_hiddenCount counts
     then [toPhotoItem FPicks ItemRemoved (countPart ''stations:edit.changes.photosHidden'' (pc_hiddenCount counts))]
     else []) @
    (if pc_hasNewMainPhoto counts
     then [toPhotoItem FMainPhoto ItemChanged (PartKey ''stations:edit.changes.mainPhoto'' [])] else [])"

end
