(* ===== verification/Bodies.thy ===== *)
theory Bodies
  imports Changes
begin

text \<open>
  What the editor sends (model/bodies.ts): the difference of a draft and a base as the body of a
  station update, a station creation or a submission. An optional property is an option; a
  property that may also be \<open>null\<close> is an option of an option. \<open>BackhaulPart\<close> and \<open>StructurePart\<close>
  have the shape of the changes that come back with a submission, and share their records.
\<close>

section \<open>Wire types\<close>

record draftOwner =
  ow_plmn :: "string option"
  ow_gnbidLength :: int

record photoPicks =
  pp_selectIds :: "string list"
  pp_removeIds :: "string list"
  pp_mainPhotoId :: "string option"

record textEdit =
  te_value :: string
  te_stored :: "string option"

record stationPart = stationChange +
  sp_status :: "stationStatus option"
  sp_isConfirmed :: "bool option"

record locationPart =
  lp_regionId :: "int option"
  lp_city :: "string option option"
  lp_address :: "string option option"
  lp_structure :: "structureChange option"
  lp_latitude :: "number option"
  lp_longitude :: "number option"
  lp_move :: "locationMove option"

datatype sectorPartEntry =
    SectorCreate string "number option"
  | SectorUpdate int "number option"
  | SectorDelete int

datatype wireTarget = TargetId int | TargetKey string

record sectorRef =
  rf_sectorId :: "int option option"
  rf_sectorKey :: "string option"

record cellCommon = sectorRef +
  cm_cellType :: "cellType option"
  cm_notes :: "string option"
  cm_isConfirmed :: "bool option"
  cm_plmns :: "string list option"

record newGsmCell =
  ng_common :: cellCommon
  ng_bandId :: int
  ng_lac :: number
  ng_cid :: number
  ng_isEGsm :: "bool option"
  ng_bsic :: "number option"

record newUmtsCell =
  nu_common :: cellCommon
  nu_bandId :: int
  nu_lac :: "number option"
  nu_rnc :: "number option"
  nu_cid :: "number option"
  nu_psc :: "number option"
  nu_uarfcn :: "number option"

record newLteCell =
  nl_common :: cellCommon
  nl_bandId :: int
  nl_tac :: "number option"
  nl_enbid :: "number option"
  nl_clid :: "number option"
  nl_pci :: "number option"
  nl_earfcn :: "number option"
  nl_supportsIot :: "bool option"

record newNrCell =
  nn_common :: cellCommon
  nn_bandId :: int
  nn_mode :: nrMode
  nn_tac :: "number option"
  nn_gnbid :: "number option"
  nn_gnbidLength :: "int option"
  nn_clid :: "number option"
  nn_pci :: "number option"
  nn_arfcn :: "number option"
  nn_supportsRedCap :: "bool option"

datatype newCell = NewGsm newGsmCell | NewUmts newUmtsCell | NewLte newLteCell | NewNr newNrCell

text \<open>The numbers and flags an update writes, in the order of the technology's table.\<close>

record cellUpdateFields = sectorRef +
  uf_numbers :: "(cellNumberField \<times> number option) list"
  uf_flags :: "(cellFlagField \<times> bool) list"
  uf_bandId :: "int option"
  uf_cellType :: "cellType option option"
  uf_notes :: "string option option"
  uf_isConfirmed :: "bool option"
  uf_mode :: "nrMode option"
  uf_gnbidLength :: "int option"
  uf_plmns :: "string list option"

datatype cellPartEntry = CellCreate newCell | CellUpdate int cellUpdateFields | CellDelete int

datatype confirmation = ConfirmAll | ConfirmNew | ConfirmNone

record sectorPlan =
  pn_entries :: "sectorPartEntry list"
  pn_keys :: "draftKey list"
  pn_targets :: "draftKey \<Rightarrow> wireTarget option"

record partOptions =
  po_isDirect :: bool
  po_allowsOwnerName :: bool
  po_confirmation :: confirmation
  po_storedPlace :: "placeDraft option"
  po_owner :: draftOwner

record parts =
  pt_station :: stationPart
  pt_location :: "locationPart option"
  pt_sectors :: "sectorPartEntry list"
  pt_sectorKeys :: "draftKey list"
  pt_cells :: "cellPartEntry list"
  pt_cellKeys :: "draftKey list"

record 'body builtBody =
  bb_body :: "'body option"
  bb_cellKeys :: "draftKey list"
  bb_sectorKeys :: "draftKey list"

definition NO_OWNER :: draftOwner where
  "NO_OWNER = \<lparr>ow_plmn = None, ow_gnbidLength = DEFAULT_GNBID_LENGTH\<rparr>"

definition DIRECT_OPTIONS :: partOptions where
  "DIRECT_OPTIONS = \<lparr>po_isDirect = True, po_allowsOwnerName = False, po_confirmation = ConfirmAll,
     po_storedPlace = None, po_owner = NO_OWNER\<rparr>"

definition SUBMITTED_OPTIONS :: partOptions where
  "SUBMITTED_OPTIONS = \<lparr>po_isDirect = False, po_allowsOwnerName = True, po_confirmation = ConfirmNone,
     po_storedPlace = None, po_owner = NO_OWNER\<rparr>"

definition nothingBuilt :: "'body option \<Rightarrow> 'body builtBody" where
  "nothingBuilt body = \<lparr>bb_body = body, bb_cellKeys = [], bb_sectorKeys = []\<rparr>"

text \<open>
  The empty objects the parts start from; \<open>hasKeys\<close> asks whether a part has become another one.
\<close>

definition noBackhaulChange :: backhaulChange where
  "noBackhaulChange = \<lparr>bc_medium = None, bc_speedMbps = None, bc_model = None\<rparr>"

definition noStationPart :: stationPart where
  "noStationPart = \<lparr>sc_siteId = None, sc_operatorId = None, sc_hostStationId = None, sc_notes = None,
     sc_identifiers = None, sc_backhaul = None, sp_status = None, sp_isConfirmed = None\<rparr>"

definition noStructureChange :: structureChange where
  "noStructureChange = \<lparr>tc_type = None, tc_ownerId = None, tc_ownerName = None, tc_note = None\<rparr>"

definition noLocationPart :: locationPart where
  "noLocationPart = \<lparr>lp_regionId = None, lp_city = None, lp_address = None, lp_structure = None,
     lp_latitude = None, lp_longitude = None, lp_move = None\<rparr>"

definition noSectorRef :: sectorRef where
  "noSectorRef = \<lparr>rf_sectorId = None, rf_sectorKey = None\<rparr>"

definition noCellUpdate :: cellUpdateFields where
  "noCellUpdate = \<lparr>rf_sectorId = None, rf_sectorKey = None, uf_numbers = [], uf_flags = [], uf_bandId = None,
     uf_cellType = None, uf_notes = None, uf_isConfirmed = None, uf_mode = None, uf_gnbidLength = None,
     uf_plmns = None\<rparr>"

definition hasKeys :: "'part \<Rightarrow> 'part \<Rightarrow> bool" where
  "hasKeys nothing part \<longleftrightarrow> part \<noteq> nothing"

text \<open>A value that is written only under a condition.\<close>

definition whenever :: "bool \<Rightarrow> 'a \<Rightarrow> 'a option" where
  "whenever condition value = (if condition then Some value else None)"

definition toNullableText :: "string \<Rightarrow> string option" where
  "toNullableText value = (let text = normalizeText value in if text = [] then None else Some text)"

section \<open>Station\<close>

definition buildBackhaulPart :: "stationDraft \<Rightarrow> stationDraft \<Rightarrow> backhaulChange option option" where
  "buildBackhaulPart station base =
    (let backhaul = st_backhaul station; model = getBackhaulModel station
     in if bh_medium backhaul = None then (if bh_medium (st_backhaul base) = None then None else Some None)
        else let part = \<lparr>
               bc_medium = (if bh_medium backhaul \<noteq> bh_medium (st_backhaul base) then bh_medium backhaul else None),
               bc_speedMbps = whenever (bh_speedMbps backhaul \<noteq> bh_speedMbps (st_backhaul base)) (bh_speedMbps backhaul),
               bc_model = whenever (model \<noteq> getBackhaulModel base) (toNullableText model)\<rparr>
             in if hasKeys noBackhaulChange part then Some (Some part) else None)"

definition identifierPart :: "stationDraft \<Rightarrow> stationDraft \<Rightarrow> identifierKind \<Rightarrow> (identifierKind \<times> string option) list" where
  "identifierPart station base kind =
    (let value = normalizeText (st_identifiers station kind)
     in if value = normalizeText (st_identifiers base kind) then [] else [(kind, toNullableText value)])"

definition buildStationPart :: "stationDraft \<Rightarrow> stationDraft \<Rightarrow> bool \<Rightarrow> stationPart" where
  "buildStationPart station base isDirect =
    (let siteId = normalizeText (st_siteId station); notes = normalizeText (st_notes station);
         identifiers = concat (map (identifierPart station base) IDENTIFIER_KINDS)
     in \<lparr>sc_siteId = whenever (siteId \<noteq> normalizeText (st_siteId base)) (toNullableText siteId),
         sc_operatorId = (if st_operatorId station \<noteq> st_operatorId base then st_operatorId station else None),
         sc_hostStationId = whenever (st_hostStationId station \<noteq> st_hostStationId base) (st_hostStationId station),
         sc_notes = whenever (notes \<noteq> normalizeText (st_notes base)) (toNullableText notes),
         sc_identifiers = whenever (identifiers \<noteq> []) identifiers,
         sc_backhaul = buildBackhaulPart station base,
         sp_status = whenever (isDirect \<and> st_status station \<noteq> st_status base) (st_status station),
         sp_isConfirmed = whenever (isDirect \<and> st_isConfirmed station \<noteq> st_isConfirmed base)
           (st_isConfirmed station)\<rparr>)"

section \<open>Place\<close>

definition writeOwner :: "structureChange \<Rightarrow> ownerChoice \<Rightarrow> bool \<Rightarrow> structureChange" where
  "writeOwner part owner allowsOwnerName =
    (case owner of
       OwnerUnknown \<Rightarrow> part\<lparr>tc_ownerId := Some None\<rparr>
     | OwnerListed i \<Rightarrow> part\<lparr>tc_ownerId := Some (Some i)\<rparr>
     | OwnerProposed name \<Rightarrow>
         (if allowsOwnerName then part\<lparr>tc_ownerName := Some (normalizeText name)\<rparr> else part))"

definition buildStructurePart ::
  "placeDraft \<Rightarrow> placeDraft option \<Rightarrow> bool \<Rightarrow> partOptions \<Rightarrow> structureChange option" where
  "buildStructurePart place base isResent options =
    (let structure = pl_structure place;
         baseType = Option.bind base (\<lambda>b. sd_type (pl_structure b));
         baseOwner = (case base of None \<Rightarrow> OwnerUnknown | Some b \<Rightarrow> sd_owner (pl_structure b));
         baseNote = normalizeText (case base of None \<Rightarrow> [] | Some b \<Rightarrow> sd_note (pl_structure b));
         stored = map_option pl_structure (po_storedPlace options);
         note = normalizeText (sd_note structure);
         writesType = (sd_type structure \<noteq> baseType \<or> isResent \<and> sd_type structure \<noteq> None \<or>
           (case stored of None \<Rightarrow> False | Some s \<Rightarrow> sd_type s \<noteq> baseType));
         writesOwner = (\<not> isSameOwnerChoice (sd_owner structure) baseOwner \<or>
           isResent \<and> sd_owner structure \<noteq> OwnerUnknown \<or>
           (case stored of None \<Rightarrow> False | Some s \<Rightarrow> \<not> isSameOwnerChoice (sd_owner s) baseOwner));
         writesNote = (note \<noteq> baseNote \<or> isResent \<and> note \<noteq> [] \<or>
           (case stored of None \<Rightarrow> False | Some s \<Rightarrow> normalizeText (sd_note s) \<noteq> baseNote));
         withType = (if writesType then noStructureChange\<lparr>tc_type := Some (sd_type structure)\<rparr> else noStructureChange);
         withOwner = (if writesOwner then writeOwner withType (sd_owner structure) (po_allowsOwnerName options)
           else withType);
         part = (if writesNote then withOwner\<lparr>tc_note := Some (toNullableText note)\<rparr> else withOwner)
     in if hasKeys noStructureChange part then Some part else None)"

definition buildLocationPart :: "placeDraft option \<Rightarrow> placeDraft option \<Rightarrow> partOptions \<Rightarrow> locationPart option" where
  "buildLocationPart place base options =
    map_option (\<lambda>p.
      let isMoved = (base \<noteq> None \<and> isMarkerMoved (Some p) base);
          placesStation = (base = None \<or> isMoved);
          city = normalizeText (pl_city p); address = normalizeText (pl_address p);
          isPlaced = (placesStation \<and> pl_latitude p \<noteq> None \<and> pl_longitude p \<noteq> None)
      in \<lparr>lp_regionId = (if pl_isRegionPicked p \<and>
              (placesStation \<or> pl_regionId p \<noteq> Option.bind base pl_regionId) then pl_regionId p else None),
          lp_city = whenever (city \<noteq> normalizeText (case base of None \<Rightarrow> [] | Some b \<Rightarrow> pl_city b)) (toNullableText city),
          lp_address = whenever (address \<noteq> normalizeText (case base of None \<Rightarrow> [] | Some b \<Rightarrow> pl_address b))
            (toNullableText address),
          lp_structure = buildStructurePart p base (isMoved \<and> pl_move p = MoveStation) options,
          lp_latitude = (if isPlaced then pl_latitude p else None),
          lp_longitude = (if isPlaced then pl_longitude p else None),
          lp_move = whenever isMoved (pl_move p)\<rparr>) place"

section \<open>Sectors\<close>

text \<open>The loop over the rows as the API lists them: the plan so far and the ids that stay.\<close>

definition addToPlan ::
  "draftKey \<Rightarrow> sectorPartEntry \<Rightarrow> sectorPlan \<Rightarrow> sectorPlan" where
  "addToPlan key entry plan = plan\<lparr>pn_entries := pn_entries plan @ [entry], pn_keys := pn_keys plan @ [key]\<rparr>"

definition aimAt :: "draftKey \<Rightarrow> wireTarget \<Rightarrow> sectorPlan \<Rightarrow> sectorPlan" where
  "aimAt key target plan = plan\<lparr>pn_targets := (pn_targets plan)(key \<mapsto> target)\<rparr>"

definition planEntry :: "(int \<Rightarrow> number option option) \<Rightarrow> sectorEntry \<Rightarrow> sectorPlan \<Rightarrow> sectorPlan" where
  "planEntry baseDegrees entry plan =
    (case en_degrees entry of
       None \<Rightarrow> (case en_id entry of None \<Rightarrow> plan | Some i \<Rightarrow> aimAt (en_rowKey entry) (TargetId i) plan)
     | Some degrees \<Rightarrow>
         (case en_id entry of
            None \<Rightarrow> addToPlan (en_rowKey entry) (SectorCreate (en_wireKey entry) (toAzimuth degrees))
              (aimAt (en_rowKey entry) (TargetKey (en_wireKey entry)) plan)
          | Some i \<Rightarrow>
              (let aimed = aimAt (en_rowKey entry) (TargetId i) plan
               in if baseDegrees i = Some (Some degrees) then aimed
                  else addToPlan (en_rowKey entry) (SectorUpdate i (toAzimuth degrees)) aimed)))"

definition planSectors :: "stationSnapshot \<Rightarrow> stationSnapshot \<Rightarrow> sectorPlan" where
  "planSectors draft base =
    (let baseDegrees = map_of (rev (List.map_filter (\<lambda>x. map_option (\<lambda>i. (i, se_degrees x)) (se_id x))
           (sn_sectors base)));
         entries = listSectorEntries (sn_sectors draft);
         keptIds = List.map_filter en_id entries;
         plan = fold (planEntry baseDegrees) entries
           \<lparr>pn_entries = [], pn_keys = [], pn_targets = Map.empty\<rparr>
     in fold (\<lambda>x plan. case se_id x of
            None \<Rightarrow> plan
          | Some i \<Rightarrow> (if i \<in> set keptIds then plan else addToPlan (se_key x) (SectorDelete i) plan))
          (sn_sectors base) plan)"

definition writeSector :: "wireTarget option \<Rightarrow> 'a sectorRef_scheme \<Rightarrow> 'a sectorRef_scheme" where
  "writeSector target ref =
    (case target of
       None \<Rightarrow> ref
     | Some (TargetId i) \<Rightarrow> ref\<lparr>rf_sectorId := Some (Some i)\<rparr>
     | Some (TargetKey key) \<Rightarrow> ref\<lparr>rf_sectorKey := Some key\<rparr>)"

section \<open>New cells\<close>

definition targetFor :: "sectorPlan \<Rightarrow> cellDraft \<Rightarrow> wireTarget option" where
  "targetFor plan c = Option.bind (ce_sectorKey c) (pn_targets plan)"

definition buildCellCommon :: "cellDraft \<Rightarrow> sectorPlan \<Rightarrow> partOptions \<Rightarrow> cellCommon" where
  "buildCellCommon c plan options =
    (let notes = normalizeText (ce_notes c)
     in writeSector (targetFor plan c) \<lparr>
          rf_sectorId = None, rf_sectorKey = None,
          cm_cellType = ce_cellType c,
          cm_notes = whenever (notes \<noteq> []) notes,
          cm_isConfirmed = whenever (po_confirmation options \<noteq> ConfirmNone) (ce_isConfirmed c),
          cm_plmns = whenever (ce_extraPlmns c \<noteq> []) (toPlmnList (ow_plmn (po_owner options)) (ce_extraPlmns c))\<rparr>)"

definition buildNewGsmCell :: "cellDraft \<Rightarrow> cellCommon \<Rightarrow> int \<Rightarrow> number option \<Rightarrow> newGsmCell option" where
  "buildNewGsmCell c common bandId areaValue =
    (case (areaValue, getCellNumber c Cid) of
       (Some lac, Some cid) \<Rightarrow> Some \<lparr>ng_common = common, ng_bandId = bandId, ng_lac = lac, ng_cid = cid,
         ng_isEGsm = whenever (getCellFlag c IsEGsm) True, ng_bsic = getCellNumber c Bsic\<rparr>
     | _ \<Rightarrow> None)"

definition buildNewUmtsCell :: "cellDraft \<Rightarrow> cellCommon \<Rightarrow> int \<Rightarrow> number option \<Rightarrow> newUmtsCell" where
  "buildNewUmtsCell c common bandId areaValue = \<lparr>nu_common = common, nu_bandId = bandId, nu_lac = areaValue,
     nu_rnc = getCellNumber c Rnc, nu_cid = getCellNumber c Cid, nu_psc = getCellNumber c Psc,
     nu_uarfcn = getCellNumber c Uarfcn\<rparr>"

definition buildNewLteCell :: "cellDraft \<Rightarrow> cellCommon \<Rightarrow> int \<Rightarrow> number option \<Rightarrow> newLteCell" where
  "buildNewLteCell c common bandId areaValue = \<lparr>nl_common = common, nl_bandId = bandId, nl_tac = areaValue,
     nl_enbid = getCellNumber c Enbid, nl_clid = getCellNumber c Clid, nl_pci = getCellNumber c Pci,
     nl_earfcn = getCellNumber c Earfcn, nl_supportsIot = whenever (getCellFlag c SupportsIot) True\<rparr>"

definition buildNewNrCell :: "cellDraft \<Rightarrow> cellCommon \<Rightarrow> int \<Rightarrow> number option \<Rightarrow> int \<Rightarrow> newNrCell" where
  "buildNewNrCell c common bandId areaValue defaultGnbidLength = \<lparr>nn_common = common, nn_bandId = bandId,
     nn_mode = (case ce_mode c of None \<Rightarrow> DEFAULT_NR_MODE | Some m \<Rightarrow> m), nn_tac = areaValue,
     nn_gnbid = getCellNumber c Gnbid,
     nn_gnbidLength = whenever (ce_mode c = Some Sa) (gnbidLengthOr c defaultGnbidLength),
     nn_clid = getCellNumber c Clid, nn_pci = getCellNumber c Pci, nn_arfcn = getCellNumber c Arfcn,
     nn_supportsRedCap = whenever (getCellFlag c SupportsRedCap) True\<rparr>"

definition buildNewCell :: "cellDraft \<Rightarrow> stationSnapshot \<Rightarrow> sectorPlan \<Rightarrow> partOptions \<Rightarrow> newCell option" where
  "buildNewCell c draft plan options =
    Option.bind (ce_bandId c) (\<lambda>bandId.
      let common = buildCellCommon c plan options; areaValue = getAreaValue draft c
      in case ce_rat c of
           Gsm \<Rightarrow> map_option NewGsm (buildNewGsmCell c common bandId areaValue)
         | Umts \<Rightarrow> Some (NewUmts (buildNewUmtsCell c common bandId areaValue))
         | Lte \<Rightarrow> Some (NewLte (buildNewLteCell c common bandId areaValue))
         | Nr \<Rightarrow> Some (NewNr (buildNewNrCell c common bandId areaValue (ow_gnbidLength (po_owner options)))))"

section \<open>Changed cells\<close>

definition writeSectorChange ::
  "cellDraft \<Rightarrow> cellDraft \<Rightarrow> stationSnapshot \<Rightarrow> sectorPlan \<Rightarrow> 'a sectorRef_scheme \<Rightarrow> 'a sectorRef_scheme" where
  "writeSectorChange c baseCell base plan written =
    (let baseSectorId = Option.bind (List.find (\<lambda>x. Some (se_key x) = ce_sectorKey baseCell) (sn_sectors base)) se_id
     in case targetFor plan c of
          None \<Rightarrow> (if baseSectorId \<noteq> None then written\<lparr>rf_sectorId := Some None\<rparr> else written)
        | Some target \<Rightarrow>
            (if map_option TargetId baseSectorId = Some target then written
             else writeSector (Some target) written))"

definition numberUpdate ::
  "cellDraft \<Rightarrow> cellDraft \<Rightarrow> stationSnapshot \<Rightarrow> stationSnapshot \<Rightarrow> cellNumberField
    \<Rightarrow> (cellNumberField \<times> number option) list" where
  "numberUpdate c baseCell draft base f =
    (let areaField = getAreaCodeField (ce_rat c);
         value = (if f = areaField then getAreaValue draft c else getCellNumber c f);
         baseValue = (if f = areaField then getAreaValue base baseCell else getCellNumber baseCell f)
     in if value \<noteq> baseValue then [(f, value)] else [])"

definition buildCellUpdateFields ::
  "cellDraft \<Rightarrow> cellDraft \<Rightarrow> stationSnapshot \<Rightarrow> stationSnapshot \<Rightarrow> sectorPlan \<Rightarrow> partOptions \<Rightarrow> cellUpdateFields" where
  "buildCellUpdateFields c baseCell draft base plan options =
    (let spec = RAT_FIELDS (ce_rat c); notes = normalizeText (ce_notes c);
         defaultGnbidLength = ow_gnbidLength (po_owner options)
     in writeSectorChange c baseCell base plan \<lparr>
          rf_sectorId = None, rf_sectorKey = None,
          uf_numbers = concat (map (numberUpdate c baseCell draft base) (map nf_field (rs_numbers spec))),
          uf_flags = map (\<lambda>f. (f, getCellFlag c f))
            (filter (\<lambda>f. getCellFlag c f \<noteq> getCellFlag baseCell f) (map ff_field (rs_flags spec))),
          uf_bandId = (if ce_bandId c \<noteq> ce_bandId baseCell then ce_bandId c else None),
          uf_cellType = whenever (ce_cellType c \<noteq> ce_cellType baseCell) (ce_cellType c),
          uf_notes = whenever (notes \<noteq> normalizeText (ce_notes baseCell)) (toNullableText notes),
          uf_isConfirmed = whenever (po_confirmation options = ConfirmAll \<and> ce_isConfirmed c \<noteq> ce_isConfirmed baseCell)
            (ce_isConfirmed c),
          uf_mode = (if ce_mode c \<noteq> ce_mode baseCell then ce_mode c else None),
          uf_gnbidLength = whenever (ce_rat c = Nr \<and> ce_mode c = Some Sa \<and>
              gnbidLengthOr c defaultGnbidLength \<noteq> gnbidLengthOr baseCell defaultGnbidLength)
            (gnbidLengthOr c defaultGnbidLength),
          uf_plmns = whenever (\<not> isSameCodes (ce_extraPlmns c) (ce_extraPlmns baseCell))
            (toPlmnList (ow_plmn (po_owner options)) (ce_extraPlmns c))\<rparr>)"

definition buildCellEntry ::
  "cellDraft \<Rightarrow> stationSnapshot \<Rightarrow> stationSnapshot \<Rightarrow> sectorPlan \<Rightarrow> partOptions \<Rightarrow> cellPartEntry option" where
  "buildCellEntry c draft base plan options =
    (case ce_id c of
       None \<Rightarrow> (if ce_isDeleted c then None else map_option CellCreate (buildNewCell c draft plan options))
     | Some i \<Rightarrow>
         (case findCell base (ce_key c) of
            None \<Rightarrow> None
          | Some baseCell \<Rightarrow>
              (if ce_isDeleted c then Some (CellDelete i)
               else let written = buildCellUpdateFields c baseCell draft base plan options
                    in if hasKeys noCellUpdate written then Some (CellUpdate i written) else None)))"

section \<open>The parts of a body\<close>

definition buildParts :: "stationSnapshot \<Rightarrow> stationSnapshot \<Rightarrow> partOptions \<Rightarrow> parts" where
  "buildParts draft base options =
    (let plan = planSectors draft base;
         built = List.map_filter (\<lambda>c. map_option (\<lambda>entry. (entry, ce_key c)) (buildCellEntry c draft base plan options))
           (sn_cells draft)
     in \<lparr>pt_station = buildStationPart (sn_station draft) (sn_station base) (po_isDirect options),
         pt_location = buildLocationPart (sn_place draft) (sn_place base) options,
         pt_sectors = pn_entries plan, pt_sectorKeys = pn_keys plan,
         pt_cells = map fst built, pt_cellKeys = map snd built\<rparr>)"

definition countCellEntries :: "editSession \<Rightarrow> nat" where
  "countCellEntries s = length (pt_cells (buildParts (es_draft s) (liveBase s) DIRECT_OPTIONS))"

text \<open>A location part that has something to say.\<close>

definition filledLocation :: "parts \<Rightarrow> locationPart option" where
  "filledLocation p = Option.bind (pt_location p) (\<lambda>l. if hasKeys noLocationPart l then Some l else None)"

definition filledList :: "'a list \<Rightarrow> 'a list option" where
  "filledList xs = whenever (xs \<noteq> []) xs"

section \<open>Direct edits\<close>

record stationUpdate =
  ub_station :: "stationPart option"
  ub_location :: "locationPart option"
  ub_sectors :: "sectorPartEntry list option"
  ub_cells :: "cellPartEntry list option"

definition noStationUpdate :: stationUpdate where
  "noStationUpdate = \<lparr>ub_station = None, ub_location = None, ub_sectors = None, ub_cells = None\<rparr>"

definition buildStationUpdate :: "editSession \<Rightarrow> draftOwner \<Rightarrow> stationUpdate builtBody" where
  "buildStationUpdate s owner =
    (case es_live s of
       None \<Rightarrow> nothingBuilt None
     | Some live \<Rightarrow>
         (let p = buildParts (es_draft s) live (DIRECT_OPTIONS\<lparr>po_owner := owner\<rparr>);
              body = \<lparr>ub_station = whenever (hasKeys noStationPart (pt_station p)) (pt_station p),
                ub_location = filledLocation p, ub_sectors = filledList (pt_sectors p),
                ub_cells = filledList (pt_cells p)\<rparr>
          in \<lparr>bb_body = whenever (hasKeys noStationUpdate body) body, bb_cellKeys = pt_cellKeys p,
              bb_sectorKeys = pt_sectorKeys p\<rparr>))"

definition toNewSectors :: "sectorPartEntry list \<Rightarrow> (string \<times> number option) list" where
  "toNewSectors entries =
    List.map_filter (\<lambda>entry. case entry of SectorCreate key azimuth \<Rightarrow> Some (key, azimuth) | _ \<Rightarrow> None) entries"

definition toNewCells :: "stationSnapshot \<Rightarrow> partOptions \<Rightarrow> (newCell \<times> draftKey) list" where
  "toNewCells draft options =
    (let plan = planSectors draft EMPTY_SNAPSHOT
     in List.map_filter (\<lambda>c. if ce_isDeleted c then None
          else map_option (\<lambda>created. (created, ce_key c)) (buildNewCell c draft plan options)) (sn_cells draft))"

record stationCreate =
  cb_station :: stationPart
  cb_location :: "locationPart option"
  cb_sectors :: "(string \<times> number option) list option"
  cb_cells :: "newCell list option"

text \<open>
  A station part without a status and with a station number only where it is a text; a location
  only with its coordinates, and without a move.
\<close>

definition buildStationCreate :: "editSession \<Rightarrow> draftOwner \<Rightarrow> stationCreate builtBody" where
  "buildStationCreate s owner =
    (let draft = es_draft s; options = DIRECT_OPTIONS\<lparr>po_owner := owner\<rparr>;
         p = buildParts draft EMPTY_SNAPSHOT options; station = pt_station p; cells = toNewCells draft options
     in if sc_operatorId station = None then nothingBuilt None
        else \<lparr>bb_body = Some \<lparr>
            cb_station = station\<lparr>sp_status := None, sp_isConfirmed := Some (st_isConfirmed (sn_station draft)),
              sc_siteId := (case sc_siteId station of Some (Some siteId) \<Rightarrow> Some (Some siteId) | _ \<Rightarrow> None)\<rparr>,
            cb_location = Option.bind (pt_location p) (\<lambda>l.
              if lp_latitude l \<noteq> None \<and> lp_longitude l \<noteq> None then Some (l\<lparr>lp_move := None\<rparr>) else None),
            cb_sectors = (if pt_sectors p \<noteq> [] then Some (toNewSectors (pt_sectors p)) else None),
            cb_cells = filledList (map fst cells)\<rparr>,
          bb_cellKeys = map snd cells, bb_sectorKeys = pt_sectorKeys p\<rparr>)"

section \<open>Submissions\<close>

record photosInput =
  ph_uploadCount :: "nat option"
  ph_selectIds :: "string list option"
  ph_removeIds :: "string list option"
  ph_mainPhotoId :: "string option"

record submissionCreate =
  su_action :: editAction
  su_stationId :: "int option"
  su_station :: "stationPart option"
  su_location :: "locationPart option"
  su_sectors :: "sectorPartEntry list option"
  su_cells :: "cellPartEntry list option"
  su_photos :: "photosInput option"
  su_note :: "string option"
  su_origin :: "string option"

record submissionCreateExtras =
  sx_stationId :: "int option"
  sx_note :: string
  sx_uploadCount :: nat
  sx_picks :: photoPicks
  sx_origin :: "string option"

definition noPhotos :: photosInput where
  "noPhotos = \<lparr>ph_uploadCount = None, ph_selectIds = None, ph_removeIds = None, ph_mainPhotoId = None\<rparr>"

definition pickedMainPhoto :: "photoPicks \<Rightarrow> string option" where
  "pickedMainPhoto picks =
    Option.bind (pp_mainPhotoId picks) (\<lambda>i. if i \<in> set (pp_selectIds picks) then Some i else None)"

definition buildPhotosInput :: "nat \<Rightarrow> photoPicks \<Rightarrow> bool \<Rightarrow> photosInput option" where
  "buildPhotosInput uploadCount picks allowsRemoval =
    (let photos = \<lparr>ph_uploadCount = whenever (0 < uploadCount) uploadCount,
           ph_selectIds = filledList (pp_selectIds picks),
           ph_removeIds = (if allowsRemoval then filledList (pp_removeIds picks) else None),
           ph_mainPhotoId = pickedMainPhoto picks\<rparr>
     in if hasKeys noPhotos photos then Some photos else None)"

definition newSubmission :: "editAction \<Rightarrow> int option \<Rightarrow> submissionCreate" where
  "newSubmission action stationId = \<lparr>su_action = action, su_stationId = stationId, su_station = None,
     su_location = None, su_sectors = None, su_cells = None, su_photos = None, su_note = None, su_origin = None\<rparr>"

definition writeSubmissionLabels :: "submissionCreateExtras \<Rightarrow> submissionCreate \<Rightarrow> submissionCreate" where
  "writeSubmissionLabels extras item = item\<lparr>su_note := toNullableText (sx_note extras), su_origin := sx_origin extras\<rparr>"

definition writeParts :: "parts \<Rightarrow> submissionCreate \<Rightarrow> submissionCreate" where
  "writeParts p item = item\<lparr>su_location := filledLocation p, su_sectors := filledList (pt_sectors p),
     su_cells := filledList (pt_cells p)\<rparr>"

definition buildNewStationSubmission ::
  "editSession \<Rightarrow> partOptions \<Rightarrow> submissionCreateExtras \<Rightarrow> submissionCreate list builtBody" where
  "buildNewStationSubmission s options extras =
    (let p = buildParts (es_draft s) EMPTY_SNAPSHOT options;
         item = writeParts p (writeSubmissionLabels extras
           ((newSubmission ActCreate None)\<lparr>su_station := Some (pt_station p)\<rparr>))
     in \<lparr>bb_body = Some [item\<lparr>su_photos := buildPhotosInput (sx_uploadCount extras) (sx_picks extras) False\<rparr>],
         bb_cellKeys = pt_cellKeys p, bb_sectorKeys = pt_sectorKeys p\<rparr>)"

definition buildStationChangeSubmission ::
  "editSession \<Rightarrow> partOptions \<Rightarrow> submissionCreateExtras \<Rightarrow> int \<Rightarrow> submissionCreate list builtBody" where
  "buildStationChangeSubmission s options extras stationId =
    (let p = buildParts (es_draft s) (liveBase s) options;
         nothing = newSubmission ActUpdate (Some stationId);
         item = (writeParts p (nothing\<lparr>su_station := whenever (hasKeys noStationPart (pt_station p)) (pt_station p)\<rparr>))
           \<lparr>su_photos := buildPhotosInput (sx_uploadCount extras) (sx_picks extras) True\<rparr>
     in if \<not> hasKeys nothing item then nothingBuilt None
        else \<lparr>bb_body = Some [writeSubmissionLabels extras item], bb_cellKeys = pt_cellKeys p,
              bb_sectorKeys = pt_sectorKeys p\<rparr>)"

definition buildSubmissionCreate ::
  "editSession \<Rightarrow> draftOwner \<Rightarrow> submissionCreateExtras \<Rightarrow> submissionCreate list builtBody" where
  "buildSubmissionCreate s owner extras =
    (let options = SUBMITTED_OPTIONS\<lparr>po_owner := owner\<rparr>
     in if es_action s = ActCreate then buildNewStationSubmission s options extras
        else case sx_stationId extras of
               None \<Rightarrow> nothingBuilt None
             | Some stationId \<Rightarrow>
                 (if es_action s = ActUpdate then buildStationChangeSubmission s options extras stationId
                  else nothingBuilt (Some [writeSubmissionLabels extras (newSubmission ActDelete (Some stationId))])))"

definition hasSameIds :: "string list \<Rightarrow> string list \<Rightarrow> bool" where
  "hasSameIds ids others \<longleftrightarrow> length ids = length others \<and> list_all (\<lambda>i. i \<in> set others) ids"

definition isSamePicks :: "photoPicks \<Rightarrow> photoPicks \<Rightarrow> bool" where
  "isSamePicks left right \<longleftrightarrow>
    pp_mainPhotoId left = pp_mainPhotoId right \<and> hasSameIds (pp_selectIds left) (pp_selectIds right) \<and>
    hasSameIds (pp_removeIds left) (pp_removeIds right)"

text \<open>The edited submission: absent, or \<open>null\<close>, or a text.\<close>

definition writeTextEdit :: "textEdit option \<Rightarrow> string option option" where
  "writeTextEdit edit =
    (case edit of
       None \<Rightarrow> None
     | Some e \<Rightarrow>
         (if normalizeText (te_value e) = normalizeText (case te_stored e of None \<Rightarrow> [] | Some t \<Rightarrow> t) then None
          else Some (toNullableText (te_value e))))"

definition writePickEdit :: "editSession \<Rightarrow> (photoPicks \<times> photoPicks) option \<Rightarrow> photosInput option" where
  "writePickEdit s edit =
    (case edit of
       None \<Rightarrow> None
     | Some (value, stored) \<Rightarrow>
         (if isSamePicks value stored then None
          else Some \<lparr>ph_uploadCount = None, ph_selectIds = filledList (pp_selectIds value),
                 ph_removeIds = (if es_action s = ActUpdate then filledList (pp_removeIds value) else None),
                 ph_mainPhotoId = pickedMainPhoto value\<rparr>))"

record submissionUpdate =
  sb_note :: "string option option"
  sb_reviewNote :: "string option option"
  sb_station :: "stationPart option"
  sb_location :: "locationPart option"
  sb_sectors :: "sectorPartEntry list option"
  sb_cells :: "cellPartEntry list option"
  sb_photos :: "photosInput option"

record submissionUpdateExtras =
  ux_note :: "textEdit option"
  ux_reviewNote :: "textEdit option"
  ux_picks :: "(photoPicks \<times> photoPicks) option"

definition noSubmissionUpdate :: submissionUpdate where
  "noSubmissionUpdate = \<lparr>sb_note = None, sb_reviewNote = None, sb_station = None, sb_location = None,
     sb_sectors = None, sb_cells = None, sb_photos = None\<rparr>"

text \<open>
  \<open>isSameJson\<close> compares two parts key by key whatever the order of the keys; a key of a record is
  absent exactly where its field is \<open>None\<close>, so it is equality here.
\<close>

definition isSameJson :: "'part \<Rightarrow> 'part \<Rightarrow> bool" where
  "isSameJson left right \<longleftrightarrow> left = right"

definition buildSubmissionUpdate ::
  "editSession \<Rightarrow> draftOwner \<Rightarrow> submissionUpdateExtras \<Rightarrow> submissionUpdate builtBody" where
  "buildSubmissionUpdate s owner extras =
    (let texts = noSubmissionUpdate\<lparr>sb_note := writeTextEdit (ux_note extras),
           sb_reviewNote := writeTextEdit (ux_reviewNote extras)\<rparr>
     in if es_action s = ActDelete then nothingBuilt (whenever (hasKeys noSubmissionUpdate texts) texts)
        else let base = liveBase s; stored = (case es_proposed s of None \<Rightarrow> base | Some p \<Rightarrow> p);
                 options = SUBMITTED_OPTIONS\<lparr>po_confirmation := (if es_kind s = KindReview then ConfirmNew else ConfirmNone),
                   po_storedPlace := sn_place stored, po_owner := owner\<rparr>;
                 p = buildParts (es_draft s) base options; storedParts = buildParts stored base options;
                 body = texts\<lparr>
                   sb_station := whenever (\<not> isSameJson (pt_station p) (pt_station storedParts)) (pt_station p),
                   sb_location := whenever (\<not> isSameJson (pt_location p) (pt_location storedParts))
                     (case pt_location p of None \<Rightarrow> noLocationPart | Some l \<Rightarrow> l),
                   sb_sectors := whenever (\<not> isSameJson (pt_sectors p) (pt_sectors storedParts)) (pt_sectors p),
                   sb_cells := whenever (\<not> isSameJson (pt_cells p) (pt_cells storedParts)) (pt_cells p),
                   sb_photos := writePickEdit s (ux_picks extras)\<rparr>
             in \<lparr>bb_body = whenever (hasKeys noSubmissionUpdate body) body, bb_cellKeys = pt_cellKeys p,
                 bb_sectorKeys = pt_sectorKeys p\<rparr>)"

record submissionReview =
  rv_isApproved :: bool
  rv_note :: "string option"
  rv_expectedUpdatedAt :: string

definition buildSubmissionReview :: "bool \<Rightarrow> string \<Rightarrow> string \<Rightarrow> submissionReview" where
  "buildSubmissionReview isApproved note expectedUpdatedAt =
    \<lparr>rv_isApproved = isApproved, rv_note = toNullableText note, rv_expectedUpdatedAt = expectedUpdatedAt\<rparr>"

end
