(* ===== verification/Bands.thy ===== *)
theory Bands
  imports TextParts
begin

text \<open>
  The catalogue of the radio bands (packages/shared/src/bandCatalog.ts): the tables, the channel
  numbers of a band and their frequencies; and the frequency texts made from it (frequency.ts).
  Frequencies are kHz. A duplex or a variant that is \<open>undefined\<close> in the source is \<open>None\<close> here.
\<close>

section \<open>Bands\<close>

datatype catalogRat = CatGsm | CatUmts | CatLte | CatNr
datatype catalogDuplex = CatFdd | CatTdd | CatSdl | CatSul

text \<open>A block of channels, with the frequency of channel 0 of its raster.\<close>

datatype channelBlock = BlockRange number number number | BlockList "number list" number

record catalogBand =
  cb_code :: string
  cb_rat :: catalogRat
  cb_number :: "number option"
  cb_labelMhz :: number
  cb_duplex :: catalogDuplex
  cb_downlinkKhz :: "(number \<times> number) option"
  cb_uplinkKhz :: "(number \<times> number) option"
  cb_channels :: "channelBlock list"

record bandLike =
  bl_rat :: string
  bl_value :: "number option"
  bl_duplex :: "string option"
  bl_variant :: "string option"
  bl_code :: "string option"

fun catalogRatName :: "catalogRat \<Rightarrow> string" where
  "catalogRatName CatGsm = ''GSM''"
| "catalogRatName CatUmts = ''UMTS''"
| "catalogRatName CatLte = ''LTE''"
| "catalogRatName CatNr = ''NR''"

text \<open>The table has no step for NR, and none is ever read.\<close>

fun CHANNEL_STEP_KHZ :: "catalogRat \<Rightarrow> number" where
  "CHANNEL_STEP_KHZ CatLte = 100"
| "CHANNEL_STEP_KHZ _ = 200"

record rasterEntry =
  ra_first :: number
  ra_last :: number
  ra_referenceKhz :: number
  ra_referenceChannel :: number
  ra_stepKhz :: number

definition NR_RASTER :: "rasterEntry list" where
  "NR_RASTER = [
     \<lparr>ra_first = 0, ra_last = 599999, ra_referenceKhz = 0, ra_referenceChannel = 0, ra_stepKhz = 5\<rparr>,
     \<lparr>ra_first = 600000, ra_last = 2016666, ra_referenceKhz = 3000000, ra_referenceChannel = 600000, ra_stepKhz = 15\<rparr>,
     \<lparr>ra_first = 2016667, ra_last = 3279165, ra_referenceKhz = 24250080, ra_referenceChannel = 2016667, ra_stepKhz = 60\<rparr>]"

definition khz :: "number \<Rightarrow> number" where
  "khz mhz = of_int \<lfloor>mhz * 1000 + 1 / 2\<rfloor>"

definition khzRange :: "number \<times> number \<Rightarrow> number \<times> number" where
  "khzRange mhz = (khz (fst mhz), khz (snd mhz))"

definition gsmBand ::
  "string \<Rightarrow> number \<Rightarrow> number \<times> number \<Rightarrow> number \<times> number
    \<Rightarrow> (number \<times> number \<times> number \<times> number) list \<Rightarrow> catalogBand" where
  "gsmBand code labelMhz uplink downlink blocks = \<lparr>
     cb_code = code, cb_rat = CatGsm, cb_number = None, cb_labelMhz = labelMhz, cb_duplex = CatFdd,
     cb_downlinkKhz = Some (khzRange downlink), cb_uplinkKhz = Some (khzRange uplink),
     cb_channels = map (\<lambda>(first, final, downlinkMhz, atChannel).
       BlockRange first final (khz downlinkMhz - CHANNEL_STEP_KHZ CatGsm * atChannel)) blocks\<rparr>"

definition umtsBand ::
  "string \<Rightarrow> number \<Rightarrow> number \<Rightarrow> (number \<times> number) option \<Rightarrow> number \<times> number
    \<Rightarrow> number \<times> number \<times> number \<Rightarrow> (number \<times> number list) option \<Rightarrow> catalogBand" where
  "umtsBand code number labelMhz uplink downlink general additional = \<lparr>
     cb_code = code, cb_rat = CatUmts, cb_number = Some number, cb_labelMhz = labelMhz,
     cb_duplex = (if uplink = None then CatSdl else CatFdd),
     cb_downlinkKhz = Some (khzRange downlink), cb_uplinkKhz = map_option khzRange uplink,
     cb_channels = (case general of (offsetMhz, first, final) \<Rightarrow> BlockRange first final (khz offsetMhz)) #
       (case additional of None \<Rightarrow> [] | Some (offsetMhz, channels) \<Rightarrow> [BlockList channels (khz offsetMhz)])\<rparr>"

datatype lteUplink = UplinkAt "number \<times> number" | UplinkTdd | UplinkSdl

definition lteBand :: "number \<Rightarrow> number \<Rightarrow> number \<times> number \<Rightarrow> number \<Rightarrow> lteUplink \<Rightarrow> catalogBand" where
  "lteBand number labelMhz downlink firstChannel uplink =
    (let (low, high) = khzRange downlink
     in \<lparr>cb_code = ''B'' @ numberText number, cb_rat = CatLte, cb_number = Some number, cb_labelMhz = labelMhz,
         cb_duplex = (case uplink of UplinkAt _ \<Rightarrow> CatFdd | UplinkTdd \<Rightarrow> CatTdd | UplinkSdl \<Rightarrow> CatSdl),
         cb_downlinkKhz = Some (low, high),
         cb_uplinkKhz = (case uplink of UplinkAt mhz \<Rightarrow> Some (khzRange mhz)
           | UplinkTdd \<Rightarrow> Some (low, high) | UplinkSdl \<Rightarrow> None),
         cb_channels = [BlockRange firstChannel (firstChannel + (high - low) / CHANNEL_STEP_KHZ CatLte - 1)
           (low - CHANNEL_STEP_KHZ CatLte * firstChannel)]\<rparr>)"

definition nrBand ::
  "number \<Rightarrow> number \<Rightarrow> catalogDuplex \<Rightarrow> (number \<times> number) option \<Rightarrow> (number \<times> number) option \<Rightarrow> catalogBand" where
  "nrBand number labelMhz duplex uplink downlink = \<lparr>
     cb_code = ''n'' @ numberText number, cb_rat = CatNr, cb_number = Some number, cb_labelMhz = labelMhz,
     cb_duplex = duplex, cb_downlinkKhz = map_option khzRange downlink,
     cb_uplinkKhz = map_option khzRange uplink, cb_channels = []\<rparr>"

definition nrTdd :: "number \<Rightarrow> number \<Rightarrow> number \<times> number \<Rightarrow> catalogBand" where
  "nrTdd number labelMhz mhz = nrBand number labelMhz CatTdd (Some mhz) (Some mhz)"

section \<open>Tables\<close>

definition GSM_BANDS :: "catalogBand list" where
  "GSM_BANDS = [
     gsmBand ''GSM450'' 450 (4504 / 10, 4576 / 10) (4604 / 10, 4676 / 10) [(259, 293, 4606 / 10, 259)],
     gsmBand ''GSM480'' 480 (4788 / 10, 486) (4888 / 10, 496) [(306, 340, 489, 306)],
     gsmBand ''GSM850'' 850 (824, 849) (869, 894) [(128, 251, 8692 / 10, 128)],
     gsmBand ''P-GSM900'' 900 (890, 915) (935, 960) [(1, 124, 935, 0)],
     gsmBand ''E-GSM900'' 900 (880, 915) (925, 960) [(0, 124, 935, 0), (975, 1023, 935, 1024)],
     gsmBand ''R-GSM900'' 900 (876, 915) (921, 960) [(0, 124, 935, 0), (955, 1023, 935, 1024)],
     gsmBand ''ER-GSM900'' 900 (873, 915) (918, 960) [(0, 124, 935, 0), (940, 1023, 935, 1024)],
     gsmBand ''DCS1800'' 1800 (1710, 1785) (1805, 1880) [(512, 885, 18052 / 10, 512)],
     gsmBand ''PCS1900'' 1900 (1850, 1910) (1930, 1990) [(512, 810, 19302 / 10, 512)]]"

definition UMTS_BANDS :: "catalogBand list" where
  "UMTS_BANDS = [
     umtsBand ''I'' 1 2100 (Some (1920, 1980)) (2110, 2170) (0, 10562, 10838) None,
     umtsBand ''II'' 2 1900 (Some (1850, 1910)) (1930, 1990) (0, 9662, 9938)
       (Some (18501 / 10, [412, 437, 462, 487, 512, 537, 562, 587, 612, 637, 662, 687])),
     umtsBand ''III'' 3 1800 (Some (1710, 1785)) (1805, 1880) (1575, 1162, 1513) None,
     umtsBand ''IV'' 4 1700 (Some (1710, 1755)) (2110, 2155) (1805, 1537, 1738)
       (Some (17351 / 10, [1887, 1912, 1937, 1962, 1987, 2012, 2037, 2062, 2087])),
     umtsBand ''V'' 5 850 (Some (824, 849)) (869, 894) (0, 4357, 4458)
       (Some (6701 / 10, [1007, 1012, 1032, 1037, 1062, 1087])),
     umtsBand ''VI'' 6 800 (Some (830, 840)) (875, 885) (0, 4387, 4413)
       (Some (6701 / 10, [1037, 1062])),
     umtsBand ''VII'' 7 2600 (Some (2500, 2570)) (2620, 2690) (2175, 2237, 2563)
       (Some (21051 / 10, [2587, 2612, 2637, 2662, 2687, 2712, 2737, 2762, 2787, 2812, 2837, 2862, 2887, 2912])),
     umtsBand ''VIII'' 8 900 (Some (880, 915)) (925, 960) (340, 2937, 3088) None,
     umtsBand ''IX'' 9 1700 (Some (17499 / 10, 17849 / 10)) (18449 / 10, 18799 / 10) (0, 9237, 9387) None,
     umtsBand ''X'' 10 1700 (Some (1710, 1770)) (2110, 2170) (1490, 3112, 3388)
       (Some (14301 / 10, [3412, 3437, 3462, 3487, 3512, 3537, 3562, 3587, 3612, 3637, 3662, 3687])),
     umtsBand ''XI'' 11 1500 (Some (14279 / 10, 14479 / 10)) (14759 / 10, 14959 / 10) (736, 3712, 3787) None,
     umtsBand ''XII'' 12 700 (Some (699, 716)) (729, 746) (-37, 3842, 3903)
       (Some (-549 / 10, [3932, 3957, 3962, 3987, 3992])),
     umtsBand ''XIII'' 13 700 (Some (777, 787)) (746, 756) (-55, 4017, 4043)
       (Some (-649 / 10, [4067, 4092])),
     umtsBand ''XIV'' 14 700 (Some (788, 798)) (758, 768) (-63, 4117, 4143)
       (Some (-729 / 10, [4167, 4192])),
     umtsBand ''XIX'' 19 800 (Some (830, 845)) (875, 890) (735, 712, 763)
       (Some (7201 / 10, [787, 812, 837])),
     umtsBand ''XX'' 20 800 (Some (832, 862)) (791, 821) (-109, 4512, 4638) None,
     umtsBand ''XXI'' 21 1500 (Some (14479 / 10, 14629 / 10)) (14959 / 10, 15109 / 10) (1326, 862, 912) None,
     umtsBand ''XXII'' 22 3500 (Some (3410, 3490)) (3510, 3590) (2580, 4662, 5038) None,
     umtsBand ''XXV'' 25 1900 (Some (1850, 1915)) (1930, 1995) (910, 5112, 5413)
       (Some (6741 / 10, [6292, 6317, 6342, 6367, 6392, 6417, 6442, 6467, 6492, 6517, 6542, 6567, 6592])),
     umtsBand ''XXVI'' 26 850 (Some (814, 849)) (859, 894) (-291, 5762, 5913)
       (Some (-3259 / 10, [5937, 5962, 5987, 5992, 6012, 6017, 6037, 6042, 6062, 6067, 6087])),
     umtsBand ''XXXII'' 32 1500 None (1452, 1496) (131, 6617, 6813)
       (Some (871 / 10, [6837, 6862, 6887, 6912, 6937, 6962, 6987, 7012]))]"

definition LTE_BANDS :: "catalogBand list" where
  "LTE_BANDS = [
     lteBand 1 2100 (2110, 2170) 0 (UplinkAt (1920, 1980)),
     lteBand 2 1900 (1930, 1990) 600 (UplinkAt (1850, 1910)),
     lteBand 3 1800 (1805, 1880) 1200 (UplinkAt (1710, 1785)),
     lteBand 4 1700 (2110, 2155) 1950 (UplinkAt (1710, 1755)),
     lteBand 5 850 (869, 894) 2400 (UplinkAt (824, 849)),
     lteBand 6 800 (875, 885) 2650 (UplinkAt (830, 840)),
     lteBand 7 2600 (2620, 2690) 2750 (UplinkAt (2500, 2570)),
     lteBand 8 900 (925, 960) 3450 (UplinkAt (880, 915)),
     lteBand 9 1700 (18449 / 10, 18799 / 10) 3800 (UplinkAt (17499 / 10, 17849 / 10)),
     lteBand 10 1700 (2110, 2170) 4150 (UplinkAt (1710, 1770)),
     lteBand 11 1500 (14759 / 10, 14959 / 10) 4750 (UplinkAt (14279 / 10, 14479 / 10)),
     lteBand 12 700 (729, 746) 5010 (UplinkAt (699, 716)),
     lteBand 13 700 (746, 756) 5180 (UplinkAt (777, 787)),
     lteBand 14 700 (758, 768) 5280 (UplinkAt (788, 798)),
     lteBand 17 700 (734, 746) 5730 (UplinkAt (704, 716)),
     lteBand 18 800 (860, 875) 5850 (UplinkAt (815, 830)),
     lteBand 19 800 (875, 890) 6000 (UplinkAt (830, 845)),
     lteBand 20 800 (791, 821) 6150 (UplinkAt (832, 862)),
     lteBand 21 1500 (14959 / 10, 15109 / 10) 6450 (UplinkAt (14479 / 10, 14629 / 10)),
     lteBand 22 3500 (3510, 3590) 6600 (UplinkAt (3410, 3490)),
     lteBand 23 2000 (2180, 2200) 7500 (UplinkAt (2000, 2020)),
     lteBand 24 1600 (1525, 1559) 7700 (UplinkAt (16265 / 10, 16605 / 10)),
     lteBand 25 1900 (1930, 1995) 8040 (UplinkAt (1850, 1915)),
     lteBand 26 850 (859, 894) 8690 (UplinkAt (814, 849)),
     lteBand 27 800 (852, 869) 9040 (UplinkAt (807, 824)),
     lteBand 28 700 (758, 803) 9210 (UplinkAt (703, 748)),
     lteBand 29 700 (717, 728) 9660 UplinkSdl,
     lteBand 30 2300 (2350, 2360) 9770 (UplinkAt (2305, 2315)),
     lteBand 31 450 (4625 / 10, 4675 / 10) 9870 (UplinkAt (4525 / 10, 4575 / 10)),
     lteBand 32 1500 (1452, 1496) 9920 UplinkSdl,
     lteBand 33 1900 (1900, 1920) 36000 UplinkTdd,
     lteBand 34 2000 (2010, 2025) 36200 UplinkTdd,
     lteBand 35 1900 (1850, 1910) 36350 UplinkTdd,
     lteBand 36 1900 (1930, 1990) 36950 UplinkTdd,
     lteBand 37 1900 (1910, 1930) 37550 UplinkTdd,
     lteBand 38 2600 (2570, 2620) 37750 UplinkTdd,
     lteBand 39 1900 (1880, 1920) 38250 UplinkTdd,
     lteBand 40 2300 (2300, 2400) 38650 UplinkTdd,
     lteBand 41 2500 (2496, 2690) 39650 UplinkTdd,
     lteBand 42 3500 (3400, 3600) 41590 UplinkTdd,
     lteBand 43 3700 (3600, 3800) 43590 UplinkTdd,
     lteBand 44 700 (703, 803) 45590 UplinkTdd,
     lteBand 45 1500 (1447, 1467) 46590 UplinkTdd,
     lteBand 46 5200 (5150, 5925) 46790 UplinkTdd,
     lteBand 47 5900 (5855, 5925) 54540 UplinkTdd,
     lteBand 48 3500 (3550, 3700) 55240 UplinkTdd,
     lteBand 49 3500 (3550, 3700) 56740 UplinkTdd,
     lteBand 50 1500 (1432, 1517) 58240 UplinkTdd,
     lteBand 51 1500 (1427, 1432) 59090 UplinkTdd,
     lteBand 52 3300 (3300, 3400) 59140 UplinkTdd,
     lteBand 53 2400 (24835 / 10, 2495) 60140 UplinkTdd,
     lteBand 54 1700 (1670, 1675) 60255 UplinkTdd,
     lteBand 65 2100 (2110, 2200) 65536 (UplinkAt (1920, 2010)),
     lteBand 66 1700 (2110, 2200) 66436 (UplinkAt (1710, 1780)),
     lteBand 67 700 (738, 758) 67336 UplinkSdl,
     lteBand 68 700 (753, 783) 67536 (UplinkAt (698, 728)),
     lteBand 69 2600 (2570, 2620) 67836 UplinkSdl,
     lteBand 70 2000 (1995, 2020) 68336 (UplinkAt (1695, 1710)),
     lteBand 71 600 (617, 652) 68586 (UplinkAt (663, 698)),
     lteBand 72 450 (461, 466) 68936 (UplinkAt (451, 456)),
     lteBand 73 450 (460, 465) 68986 (UplinkAt (450, 455)),
     lteBand 74 1500 (1475, 1518) 69036 (UplinkAt (1427, 1470)),
     lteBand 75 1500 (1432, 1517) 69466 UplinkSdl,
     lteBand 76 1500 (1427, 1432) 70316 UplinkSdl,
     lteBand 85 700 (728, 746) 70366 (UplinkAt (698, 716)),
     lteBand 87 410 (420, 425) 70546 (UplinkAt (410, 415)),
     lteBand 88 410 (422, 427) 70596 (UplinkAt (412, 417)),
     lteBand 103 700 (757, 758) 70646 (UplinkAt (787, 788)),
     lteBand 106 900 (935, 940) 70656 (UplinkAt (896, 901)),
     lteBand 111 1800 (1820, 1830) 73386 (UplinkAt (1800, 1810))]"

definition NR_BANDS :: "catalogBand list" where
  "NR_BANDS = [
     nrBand 1 2100 CatFdd (Some (1920, 1980)) (Some (2110, 2170)),
     nrBand 2 1900 CatFdd (Some (1850, 1910)) (Some (1930, 1990)),
     nrBand 3 1800 CatFdd (Some (1710, 1785)) (Some (1805, 1880)),
     nrBand 5 850 CatFdd (Some (824, 849)) (Some (869, 894)),
     nrBand 7 2600 CatFdd (Some (2500, 2570)) (Some (2620, 2690)),
     nrBand 8 900 CatFdd (Some (880, 915)) (Some (925, 960)),
     nrBand 12 700 CatFdd (Some (699, 716)) (Some (729, 746)),
     nrBand 13 700 CatFdd (Some (777, 787)) (Some (746, 756)),
     nrBand 14 700 CatFdd (Some (788, 798)) (Some (758, 768)),
     nrBand 18 800 CatFdd (Some (815, 830)) (Some (860, 875)),
     nrBand 20 800 CatFdd (Some (832, 862)) (Some (791, 821)),
     nrBand 24 1600 CatFdd (Some (16265 / 10, 16605 / 10)) (Some (1525, 1559)),
     nrBand 25 1900 CatFdd (Some (1850, 1915)) (Some (1930, 1995)),
     nrBand 26 850 CatFdd (Some (814, 849)) (Some (859, 894)),
     nrBand 28 700 CatFdd (Some (703, 748)) (Some (758, 803)),
     nrBand 29 700 CatSdl None (Some (717, 728)),
     nrBand 30 2300 CatFdd (Some (2305, 2315)) (Some (2350, 2360)),
     nrBand 31 450 CatFdd (Some (4525 / 10, 4575 / 10)) (Some (4625 / 10, 4675 / 10)),
     nrTdd 34 2000 (2010, 2025),
     nrTdd 38 2600 (2570, 2620),
     nrTdd 39 1900 (1880, 1920),
     nrTdd 40 2300 (2300, 2400),
     nrTdd 41 2500 (2496, 2690),
     nrTdd 46 5200 (5150, 5925),
     nrTdd 47 5900 (5855, 5925),
     nrTdd 48 3500 (3550, 3700),
     nrTdd 50 1500 (1432, 1517),
     nrTdd 51 1500 (1427, 1432),
     nrTdd 53 2400 (24835 / 10, 2495),
     nrTdd 54 1700 (1670, 1675),
     nrBand 65 2100 CatFdd (Some (1920, 2010)) (Some (2110, 2200)),
     nrBand 66 1700 CatFdd (Some (1710, 1780)) (Some (2110, 2200)),
     nrBand 67 700 CatSdl None (Some (738, 758)),
     nrBand 68 700 CatFdd (Some (698, 728)) (Some (753, 783)),
     nrBand 70 2000 CatFdd (Some (1695, 1710)) (Some (1995, 2020)),
     nrBand 71 600 CatFdd (Some (663, 698)) (Some (617, 652)),
     nrBand 72 450 CatFdd (Some (451, 456)) (Some (461, 466)),
     nrBand 74 1500 CatFdd (Some (1427, 1470)) (Some (1475, 1518)),
     nrBand 75 1500 CatSdl None (Some (1432, 1517)),
     nrBand 76 1500 CatSdl None (Some (1427, 1432)),
     nrTdd 77 3700 (3300, 4200),
     nrTdd 78 3500 (3300, 3800),
     nrTdd 79 4700 (4400, 5000),
     nrBand 80 1800 CatSul (Some (1710, 1785)) None,
     nrBand 81 900 CatSul (Some (880, 915)) None,
     nrBand 82 800 CatSul (Some (832, 862)) None,
     nrBand 83 700 CatSul (Some (703, 748)) None,
     nrBand 84 2100 CatSul (Some (1920, 1980)) None,
     nrBand 85 700 CatFdd (Some (698, 716)) (Some (728, 746)),
     nrBand 86 1700 CatSul (Some (1710, 1780)) None,
     nrBand 87 410 CatFdd (Some (410, 415)) (Some (420, 425)),
     nrBand 88 410 CatFdd (Some (412, 417)) (Some (422, 427)),
     nrBand 89 850 CatSul (Some (824, 849)) None,
     nrTdd 90 2500 (2496, 2690),
     nrBand 91 1500 CatFdd (Some (832, 862)) (Some (1427, 1432)),
     nrBand 92 1500 CatFdd (Some (832, 862)) (Some (1432, 1517)),
     nrBand 93 1500 CatFdd (Some (880, 915)) (Some (1427, 1432)),
     nrBand 94 1500 CatFdd (Some (880, 915)) (Some (1432, 1517)),
     nrBand 95 2000 CatSul (Some (2010, 2025)) None,
     nrTdd 96 6000 (5925, 7125),
     nrBand 97 2300 CatSul (Some (2300, 2400)) None,
     nrBand 98 1900 CatSul (Some (1880, 1920)) None,
     nrBand 99 1600 CatSul (Some (16265 / 10, 16605 / 10)) None,
     nrBand 100 900 CatFdd (Some (8744 / 10, 880)) (Some (9194 / 10, 925)),
     nrTdd 101 1900 (1900, 1910),
     nrTdd 102 6000 (5925, 6425),
     nrTdd 104 6500 (6425, 7125),
     nrBand 105 600 CatFdd (Some (663, 703)) (Some (612, 652)),
     nrBand 106 900 CatFdd (Some (896, 901)) (Some (935, 940)),
     nrBand 109 1500 CatFdd (Some (703, 733)) (Some (1432, 1517)),
     nrBand 110 1400 CatFdd (Some (1390, 1395)) (Some (1432, 1435)),
     nrTdd 257 28000 (26500, 29500),
     nrTdd 258 26000 (24250, 27500),
     nrTdd 259 41000 (39500, 43500),
     nrTdd 260 39000 (37000, 40000),
     nrTdd 261 28000 (27500, 28350),
     nrTdd 262 47000 (47200, 48200),
     nrTdd 263 60000 (57000, 71000)]"

definition BAND_CATALOG :: "catalogBand list" where
  "BAND_CATALOG = GSM_BANDS @ UMTS_BANDS @ LTE_BANDS @ NR_BANDS"

text \<open>The bands a nominal frequency may stand for.\<close>

record defaultRule =
  dr_code :: string
  dr_duplex :: "string option"
  dr_variant :: "string option"

definition plainRule :: "string \<Rightarrow> defaultRule" where
  "plainRule code = \<lparr>dr_code = code, dr_duplex = None, dr_variant = None\<rparr>"

fun DEFAULT_CODES :: "catalogRat \<Rightarrow> (number \<times> defaultRule list) list" where
  "DEFAULT_CODES CatGsm = [
     (850, [plainRule ''GSM850'']),
     (900, [(plainRule ''R-GSM900'')\<lparr>dr_variant := Some ''railway''\<rparr>,
            (plainRule ''E-GSM900'')\<lparr>dr_variant := Some ''commercial''\<rparr>]),
     (1800, [plainRule ''DCS1800'']),
     (1900, [plainRule ''PCS1900''])]"
| "DEFAULT_CODES CatUmts = [
     (800, [plainRule ''VI'']), (850, [plainRule ''V'']), (900, [plainRule ''VIII'']), (1700, [plainRule ''IV'']),
     (1800, [plainRule ''III'']), (1900, [plainRule ''II'']), (2100, [plainRule ''I''])]"
| "DEFAULT_CODES CatLte = [
     (700, [plainRule ''B28'']), (800, [plainRule ''B20'']), (850, [plainRule ''B5'']), (900, [plainRule ''B8'']),
     (1800, [plainRule ''B3'']), (1900, [plainRule ''B2'']), (2100, [plainRule ''B1'']),
     (2600, [(plainRule ''B7'')\<lparr>dr_duplex := Some ''FDD''\<rparr>, (plainRule ''B38'')\<lparr>dr_duplex := Some ''TDD''\<rparr>]),
     (3500, [plainRule ''B42'']), (3600, [plainRule ''B43''])]"
| "DEFAULT_CODES CatNr = [
     (700, [plainRule ''n28'']), (800, [plainRule ''n20'']), (900, [plainRule ''n8'']), (1800, [plainRule ''n3'']),
     (2100, [plainRule ''n1'']),
     (2600, [(plainRule ''n7'')\<lparr>dr_duplex := Some ''FDD''\<rparr>, (plainRule ''n41'')\<lparr>dr_duplex := Some ''TDD''\<rparr>]),
     (3500, [plainRule ''n78''])]"

section \<open>Bands of a label\<close>

definition toCatalogRat :: "string \<Rightarrow> catalogRat option" where
  "toCatalogRat rat =
    (if rat = ''GSM'' then Some CatGsm else if rat = ''UMTS'' then Some CatUmts
     else if rat = ''LTE'' then Some CatLte else if rat = ''NR'' then Some CatNr else None)"

text \<open>A text that is missing or empty is falsy.\<close>

definition isGiven :: "string option \<Rightarrow> bool" where
  "isGiven text \<longleftrightarrow> text \<noteq> None \<and> text \<noteq> Some []"

definition findCatalogBand :: "string option \<Rightarrow> catalogBand option" where
  "findCatalogBand code =
    (if \<not> isGiven code then None else List.find (\<lambda>b. Some (cb_code b) = code) (rev BAND_CATALOG))"

definition ruleApplies :: "bandLike \<Rightarrow> defaultRule \<Rightarrow> bool" where
  "ruleApplies b rule \<longleftrightarrow>
    (\<not> isGiven (dr_duplex rule) \<or> \<not> isGiven (bl_duplex b) \<or> dr_duplex rule = bl_duplex b) \<and>
    (\<not> isGiven (dr_variant rule) \<or>
      dr_variant rule = (case bl_variant b of None \<Rightarrow> Some ''commercial'' | Some v \<Rightarrow> Some v))"

definition resolveCatalogBands :: "bandLike \<Rightarrow> catalogBand list" where
  "resolveCatalogBands b =
    (let byRule = (case (toCatalogRat (bl_rat b), bl_value b) of
           (Some rat, Some v) \<Rightarrow>
             List.map_filter (\<lambda>rule. findCatalogBand (Some (dr_code rule)))
               (filter (ruleApplies b) (case map_of (DEFAULT_CODES rat) v of None \<Rightarrow> [] | Some rules \<Rightarrow> rules))
         | _ \<Rightarrow> [])
     in case findCatalogBand (bl_code b) of
          Some coded \<Rightarrow> (if catalogRatName (cb_rat coded) = bl_rat b then [coded] else byRule)
        | None \<Rightarrow> byRule)"

definition resolveCatalogBand :: "bandLike \<Rightarrow> catalogBand option" where
  "resolveCatalogBand b = (case resolveCatalogBands b of [only] \<Rightarrow> Some only | _ \<Rightarrow> None)"

section \<open>Channels\<close>

definition nrChannelKhz :: "number \<Rightarrow> number option" where
  "nrChannelKhz channel =
    (if \<not> isInteger channel then None
     else map_option (\<lambda>raster. ra_referenceKhz raster + ra_stepKhz raster * (channel - ra_referenceChannel raster))
       (List.find (\<lambda>entry. ra_first entry \<le> channel \<and> channel \<le> ra_last entry) NR_RASTER))"

fun blockHas :: "channelBlock \<Rightarrow> number \<Rightarrow> bool" where
  "blockHas (BlockList channels offset) channel \<longleftrightarrow> channel \<in> set channels"
| "blockHas (BlockRange first final offset) channel \<longleftrightarrow> first \<le> channel \<and> channel \<le> final"

fun blockOffset :: "channelBlock \<Rightarrow> number" where
  "blockOffset (BlockList channels offset) = offset"
| "blockOffset (BlockRange first final offset) = offset"

definition channelKhz :: "catalogBand \<Rightarrow> number \<Rightarrow> number option" where
  "channelKhz b channel =
    (if \<not> isInteger channel then None
     else if cb_rat b = CatNr
     then (case (nrChannelKhz channel, cb_downlinkKhz b) of
             (Some frequency, Some (low, high)) \<Rightarrow>
               (if low \<le> frequency \<and> frequency \<le> high then Some frequency else None)
           | _ \<Rightarrow> None)
     else map_option (\<lambda>block. blockOffset block + CHANNEL_STEP_KHZ (cb_rat b) * channel)
       (List.find (\<lambda>block. blockHas block channel) (cb_channels b)))"

definition bandsForChannel :: "string \<Rightarrow> number \<Rightarrow> catalogBand list" where
  "bandsForChannel rat channel =
    filter (\<lambda>b. catalogRatName (cb_rat b) = rat \<and> channelKhz b channel \<noteq> None) BAND_CATALOG"

fun blockRanges :: "channelBlock \<Rightarrow> (number \<times> number) list" where
  "blockRanges (BlockList channels offset) = map (\<lambda>channel. (channel, channel)) channels"
| "blockRanges (BlockRange first final offset) = [(first, final)]"

definition rasterRange :: "number \<Rightarrow> number \<Rightarrow> rasterEntry \<Rightarrow> (number \<times> number) list" where
  "rasterRange lowKhz highKhz entry =
    (let start = max (ra_first entry)
           (ra_referenceChannel entry + of_int \<lceil>(lowKhz - ra_referenceKhz entry) / ra_stepKhz entry\<rceil>);
         stop = min (ra_last entry)
           (ra_referenceChannel entry + of_int \<lfloor>(highKhz - ra_referenceKhz entry) / ra_stepKhz entry\<rfloor>)
     in if start \<le> stop then [(start, stop)] else [])"

definition channelRanges :: "catalogBand \<Rightarrow> (number \<times> number) list" where
  "channelRanges b =
    (if cb_rat b \<noteq> CatNr then concat (map blockRanges (cb_channels b))
     else case cb_downlinkKhz b of
            None \<Rightarrow> []
          | Some (lowKhz, highKhz) \<Rightarrow> concat (map (rasterRange lowKhz highKhz) NR_RASTER))"

definition isChannelValidForBand :: "bandLike \<Rightarrow> number \<Rightarrow> bool" where
  "isChannelValidForBand b channel =
    (if bl_rat b \<noteq> ''UMTS'' \<and> bl_rat b \<noteq> ''LTE'' \<and> bl_rat b \<noteq> ''NR'' then True
     else let candidates = resolveCatalogBands b
          in if candidates = [] then bl_rat b \<noteq> ''NR'' \<or> nrChannelKhz channel \<noteq> None
             else list_ex (\<lambda>candidate. channelKhz candidate channel \<noteq> None) candidates)"

section \<open>Frequency texts\<close>

record frequencyInfo =
  fi_frequency :: "string option"
  fi_bandName :: "string option"

definition displayName :: "catalogBand \<Rightarrow> string option" where
  "displayName b =
    (case cb_rat b of
       CatUmts \<Rightarrow> Some (''Band '' @ cb_code b)
     | CatLte \<Rightarrow> Some (''b'' @ (case cb_number b of None \<Rightarrow> ''null'' | Some n \<Rightarrow> numberText n))
     | CatNr \<Rightarrow> Some (cb_code b)
     | CatGsm \<Rightarrow> None)"

definition formatMhz :: "number \<Rightarrow> string" where
  "formatMhz frequencyKhz =
    (let freq = frequencyKhz / 1000
     in (if isInteger freq then numberText freq @ ''.0''
         else rev (dropWhile (\<lambda>c. c = CHR ''0'') (rev (toFixed 2 freq)))) @ '' MHz'')"

definition labelOf :: "string \<Rightarrow> number \<Rightarrow> string option \<Rightarrow> bandLike" where
  "labelOf rat bandValue duplex = \<lparr>bl_rat = rat, bl_value = Some bandValue, bl_duplex = duplex,
     bl_variant = None, bl_code = None\<rparr>"

definition getBandName :: "string \<Rightarrow> number \<Rightarrow> string option \<Rightarrow> string option" where
  "getBandName rat bandValue duplex =
    (if bandValue = 0 then None
     else Option.bind (resolveCatalogBand (labelOf rat bandValue duplex)) displayName)"

definition calcExactFrequency ::
  "string \<Rightarrow> number \<Rightarrow> number option \<Rightarrow> string option \<Rightarrow> frequencyInfo option" where
  "calcExactFrequency rat bandValue arfcn duplex =
    (case arfcn of
       None \<Rightarrow> None
     | Some channel \<Rightarrow>
         (if bandValue = 0 \<or> rat \<noteq> ''UMTS'' \<and> rat \<noteq> ''LTE'' \<and> rat \<noteq> ''NR'' then None
          else let labelled = resolveCatalogBand (labelOf rat bandValue duplex)
               in if rat = ''NR''
                  then map_option (\<lambda>frequencyKhz. \<lparr>fi_frequency = Some (formatMhz frequencyKhz),
                         fi_bandName = Option.bind labelled displayName\<rparr>) (nrChannelKhz channel)
                  else let candidates = bandsForChannel rat channel;
                           labelledBand = List.find (\<lambda>candidate. Some (cb_code candidate) = map_option cb_code labelled)
                             candidates
                       in Option.bind (case labelledBand of Some b \<Rightarrow> Some b | None \<Rightarrow> (case candidates of [] \<Rightarrow> None | b # _ \<Rightarrow> Some b))
                            (\<lambda>b. map_option (\<lambda>frequencyKhz. \<lparr>fi_frequency = Some (formatMhz frequencyKhz),
                               fi_bandName = displayName b\<rparr>) (channelKhz b channel))))"

definition isARFCNValidForBand :: "string \<Rightarrow> number \<Rightarrow> number \<Rightarrow> string option \<Rightarrow> bool" where
  "isARFCNValidForBand rat bandFreqValue arfcn duplex =
    isChannelValidForBand (labelOf rat bandFreqValue duplex) arfcn"

section \<open>Laws of the channels\<close>

lemma blockHas_ranges: "(\<exists>(start, stop)\<in>set (blockRanges block). start \<le> c \<and> c \<le> stop) \<longleftrightarrow> blockHas block c"
  by (cases block) auto

lemma channelKhz_blocks:
  assumes "cb_rat b \<noteq> CatNr" "isInteger c"
  shows "channelKhz b c \<noteq> None \<longleftrightarrow> (\<exists>block\<in>set (cb_channels b). blockHas block c)"
  using assms find_None_iff [of "\<lambda>block. blockHas block c" "cb_channels b"] by (auto simp: channelKhz_def)

lemma raster_range:
  assumes "ra_referenceChannel e = of_int r" "0 < ra_stepKhz e"
  shows "(\<exists>(start, stop)\<in>set (rasterRange low high e). start \<le> of_int k \<and> of_int k \<le> stop) \<longleftrightarrow>
    ra_first e \<le> of_int k \<and> of_int k \<le> ra_last e \<and>
    low \<le> ra_referenceKhz e + ra_stepKhz e * (of_int k - ra_referenceChannel e) \<and>
    ra_referenceKhz e + ra_stepKhz e * (of_int k - ra_referenceChannel e) \<le> high"
proof -
  let ?x = "(low - ra_referenceKhz e) / ra_stepKhz e" and ?y = "(high - ra_referenceKhz e) / ra_stepKhz e"
  have low: "low \<le> ra_referenceKhz e + ra_stepKhz e * (of_int k - of_int r) \<longleftrightarrow> ?x \<le> of_int (k - r)"
    unfolding pos_divide_le_eq [OF assms(2)] by (simp add: algebra_simps)
  have high: "ra_referenceKhz e + ra_stepKhz e * (of_int k - of_int r) \<le> high \<longleftrightarrow> of_int (k - r) \<le> ?y"
    unfolding pos_le_divide_eq [OF assms(2)] by (simp add: algebra_simps)
  have "?x \<le> of_int (k - r) \<longleftrightarrow> of_int r + of_int \<lceil>?x\<rceil> \<le> (of_int k :: number)"
    by (metis add_le_imp_le_diff ceiling_le_iff diff_add_cancel le_diff_eq add.commute of_int_add of_int_le_iff)
  moreover have "of_int (k - r) \<le> ?y \<longleftrightarrow> (of_int k :: number) \<le> of_int r + of_int \<lfloor>?y\<rfloor>"
    by (metis le_floor_iff diff_le_eq add.commute of_int_add of_int_le_iff)
  ultimately show ?thesis
    unfolding assms(1) low high by (auto simp: rasterRange_def Let_def assms(1))
qed

lemma raster_entry:
  assumes "e \<in> set NR_RASTER"
  shows "\<exists>r. ra_referenceChannel e = of_int r" "0 < ra_stepKhz e"
    "List.find (\<lambda>e. ra_first e \<le> of_int k \<and> of_int k \<le> ra_last e) NR_RASTER = Some e
      \<longleftrightarrow> ra_first e \<le> of_int k \<and> of_int k \<le> ra_last e"
proof -
  show "\<exists>r. ra_referenceChannel e = of_int r"
    using assms by (auto simp: NR_RASTER_def intro: exI [of _ "0 :: int"] exI [of _ "600000 :: int"] exI [of _ "2016667 :: int"])
  show "0 < ra_stepKhz e" using assms by (auto simp: NR_RASTER_def)
  have bounds: "(of_int k :: number) \<le> 599999 \<longleftrightarrow> k \<le> 599999" "(600000 :: number) \<le> of_int k \<longleftrightarrow> 600000 \<le> k"
    "(of_int k :: number) \<le> 2016666 \<longleftrightarrow> k \<le> 2016666" "(2016667 :: number) \<le> of_int k \<longleftrightarrow> 2016667 \<le> k"
    by simp_all
  show "List.find (\<lambda>e. ra_first e \<le> of_int k \<and> of_int k \<le> ra_last e) NR_RASTER = Some e
      \<longleftrightarrow> ra_first e \<le> of_int k \<and> of_int k \<le> ra_last e"
    using assms by (auto simp: NR_RASTER_def bounds)
qed

text \<open>
  C32. The channel ranges of a band hold exactly the channels that have a frequency in it: for the
  listed channels of GSM, UMTS and LTE, and for the NR raster cut at the edges of the band.
\<close>
theorem channel_ranges_exact:
  "(\<exists>(start, stop)\<in>set (channelRanges b). start \<le> of_int k \<and> of_int k \<le> stop)
    \<longleftrightarrow> channelKhz b (of_int k) \<noteq> None"
proof (cases "cb_rat b = CatNr")
  case False
  then show ?thesis
    using channelKhz_blocks [OF False isInteger_of_int] blockHas_ranges by (auto simp: channelRanges_def)
next
  case True
  let ?in = "\<lambda>e. ra_first e \<le> of_int k \<and> (of_int k :: number) \<le> ra_last e"
  let ?freq = "\<lambda>e. ra_referenceKhz e + ra_stepKhz e * (of_int k - ra_referenceChannel e)"
  show ?thesis
  proof (cases "cb_downlinkKhz b")
    case None
    with True show ?thesis by (simp add: channelRanges_def channelKhz_def split: option.split)
  next
    case (Some range)
    obtain low high where range: "range = (low, high)" by (cases range)
    have "(\<exists>(start, stop)\<in>set (channelRanges b). start \<le> of_int k \<and> of_int k \<le> stop)
        \<longleftrightarrow> (\<exists>e\<in>set NR_RASTER. \<exists>(start, stop)\<in>set (rasterRange low high e). start \<le> of_int k \<and> of_int k \<le> stop)"
      by (simp add: channelRanges_def True Some range)
    also have "\<dots> \<longleftrightarrow> (\<exists>e\<in>set NR_RASTER. ?in e \<and> low \<le> ?freq e \<and> ?freq e \<le> high)"
      using raster_entry(1,2) raster_range by (metis (no_types, lifting))
    also have "\<dots> \<longleftrightarrow> (\<exists>e. List.find ?in NR_RASTER = Some e \<and> low \<le> ?freq e \<and> ?freq e \<le> high)"
      using raster_entry(3) find_Some_iff [of ?in NR_RASTER] by (metis (no_types, lifting) nth_mem)
    also have "\<dots> \<longleftrightarrow> channelKhz b (of_int k) \<noteq> None"
      by (auto simp: channelKhz_def nrChannelKhz_def True Some range split: option.split)
    finally show ?thesis .
  qed
qed

section \<open>Carriers\<close>

fun blockWithin :: "number \<Rightarrow> number \<Rightarrow> number \<Rightarrow> channelBlock \<Rightarrow> bool" where
  "blockWithin low high step (BlockList channels offset) \<longleftrightarrow>
     list_all (\<lambda>c. low \<le> offset + step * c \<and> offset + step * c \<le> high) channels"
| "blockWithin low high step (BlockRange start stop offset) \<longleftrightarrow>
     low \<le> offset + step * start \<and> offset + step * stop \<le> high"

definition carriersWithin :: "catalogBand \<Rightarrow> bool" where
  "carriersWithin b \<longleftrightarrow>
    (case cb_downlinkKhz b of
       None \<Rightarrow> False
     | Some (low, high) \<Rightarrow> list_all (blockWithin low high (CHANNEL_STEP_KHZ (cb_rat b))) (cb_channels b))"

lemma blockWithin_channel:
  assumes "blockWithin low high step block" "blockHas block c" "0 \<le> step"
  shows "low \<le> blockOffset block + step * c \<and> blockOffset block + step * c \<le> high"
proof (cases block)
  case (BlockRange start stop offset)
  with assms have "step * start \<le> step * c" "step * c \<le> step * stop" by (auto intro: mult_left_mono)
  with assms BlockRange show ?thesis by simp
qed (use assms in \<open>auto simp: list_all_iff\<close>)

lemma carriersWithin_channel:
  assumes "carriersWithin b" "cb_rat b \<noteq> CatNr" "channelKhz b c = Some f"
  shows "\<exists>low high. cb_downlinkKhz b = Some (low, high) \<and> low \<le> f \<and> f \<le> high"
proof -
  obtain low high where down: "cb_downlinkKhz b = Some (low, high)"
    and blocks: "list_all (blockWithin low high (CHANNEL_STEP_KHZ (cb_rat b))) (cb_channels b)"
    using assms(1) by (auto simp: carriersWithin_def split: option.splits)
  obtain block where block: "List.find (\<lambda>block. blockHas block c) (cb_channels b) = Some block"
    and f: "f = blockOffset block + CHANNEL_STEP_KHZ (cb_rat b) * c"
    using assms(2,3) by (auto simp: channelKhz_def split: if_splits)
  have "block \<in> set (cb_channels b)" "blockHas block c"
    using block by (auto simp: find_Some_iff)
  moreover have "0 \<le> CHANNEL_STEP_KHZ (cb_rat b)" by (cases "cb_rat b") simp_all
  ultimately show ?thesis using blockWithin_channel blocks down f by (auto simp: list_all_iff)
qed

lemma khz_integer: "mhz * 1000 = of_int m \<Longrightarrow> khz mhz = of_int m"
proof -
  have "\<lfloor>of_int m + 1 / 2 :: number\<rfloor> = m" by linarith
  then show "mhz * 1000 = of_int m \<Longrightarrow> khz mhz = of_int m" by (simp only: khz_def)
qed

lemma khz_of_int:
  "khz (of_int k) = of_int k * 1000" "khz (of_int k / 10) = of_int k * 100"
  "khz (of_int k / 5) = of_int k * 200" "khz (of_int k / 2) = of_int k * 500"
  using khz_integer [of "of_int k" "k * 1000"] khz_integer [of "of_int k / 10" "k * 100"]
    khz_integer [of "of_int k / 5" "k * 200"] khz_integer [of "of_int k / 2" "k * 500"] by simp_all

lemma khz_numeral [simp]:
  "khz (numeral n) = numeral n * 1000" "khz (- numeral n) = - numeral n * 1000" "khz 0 = 0"
  "khz (numeral n / 10) = numeral n * 100" "khz (- (numeral n / 10)) = - numeral n * 100"
  "khz (numeral n / 5) = numeral n * 200" "khz (numeral n / 2) = numeral n * 500"
  using khz_of_int [of "numeral n"] khz_of_int [of "- numeral n"] khz_of_int [of 0] by simp_all

lemma carriers_gsmBand:
  "carriersWithin (gsmBand code label up (low, high) blocks) \<longleftrightarrow>
    list_all (\<lambda>(start, stop, mhz, zero). khz low \<le> khz mhz + 200 * (start - zero) \<and> khz mhz + 200 * (stop - zero) \<le> khz high) blocks"
  by (auto simp: carriersWithin_def gsmBand_def khzRange_def list_all_iff algebra_simps)

lemma carriers_umtsBand:
  "carriersWithin (umtsBand code number label up (low, high) (offset, start, stop) additional) \<longleftrightarrow>
    khz low \<le> khz offset + 200 * start \<and> khz offset + 200 * stop \<le> khz high \<and>
    (case additional of None \<Rightarrow> True | Some (other, channels) \<Rightarrow>
      list_all (\<lambda>c. khz low \<le> khz other + 200 * c \<and> khz other + 200 * c \<le> khz high) channels)"
  by (simp add: carriersWithin_def umtsBand_def khzRange_def split: option.split)

lemma carriers_gsm: "list_all carriersWithin GSM_BANDS"
  by (simp add: GSM_BANDS_def carriers_gsmBand)

lemma carriers_umts: "list_all carriersWithin UMTS_BANDS"
  by (simp add: UMTS_BANDS_def carriers_umtsBand)

lemma rats_of_bands:
  "cb_rat (gsmBand code label up down blocks) = CatGsm"
  "cb_rat (umtsBand code number label uplink down general additional) = CatUmts"
  "cb_rat (lteBand number label down start lteUplink) = CatLte"
  "cb_rat (nrBand number label duplex uplink downlink) = CatNr" "cb_rat (nrTdd number label mhz) = CatNr"
  by (simp_all add: gsmBand_def umtsBand_def lteBand_def nrBand_def nrTdd_def khzRange_def)

lemma rats_of_tables:
  "list_all (\<lambda>b. cb_rat b = CatGsm) GSM_BANDS" "list_all (\<lambda>b. cb_rat b = CatUmts) UMTS_BANDS"
  "list_all (\<lambda>b. cb_rat b = CatLte) LTE_BANDS" "list_all (\<lambda>b. cb_rat b = CatNr) NR_BANDS"
  by (simp_all add: GSM_BANDS_def UMTS_BANDS_def LTE_BANDS_def NR_BANDS_def rats_of_bands)

lemma carriers_lte: "carriersWithin (lteBand n label down start uplink)"
  by (simp add: carriersWithin_def lteBand_def khzRange_def field_simps)

lemma carriers_lte_table: "list_all carriersWithin LTE_BANDS"
  by (simp add: LTE_BANDS_def carriers_lte)

text \<open>
  In the whole catalogue the frequency of a channel lies in the downlink of its band: the tables
  of channel numbers agree with the tables of frequencies.
\<close>
theorem carrier_in_downlink:
  assumes "b \<in> set BAND_CATALOG" "channelKhz b c = Some f"
  shows "\<exists>low high. cb_downlinkKhz b = Some (low, high) \<and> low \<le> f \<and> f \<le> high"
proof (cases "cb_rat b = CatNr")
  case True
  then show ?thesis using assms(2) by (auto simp: channelKhz_def split: if_splits option.splits)
next
  case False
  then have "carriersWithin b"
    using assms(1) carriers_gsm carriers_umts carriers_lte_table rats_of_tables(4)
    by (auto simp: BAND_CATALOG_def list_all_iff)
  then show ?thesis using False assms(2) by (rule carriersWithin_channel)
qed

theorem carrier_in_downlink_witness:
  "\<exists>low high. cb_downlinkKhz (lteBand 3 1800 (1805, 1880) 1200 (UplinkAt (1710, 1785))) = Some (low, high) \<and>
    low \<le> 1815000 \<and> 1815000 \<le> high"
proof (rule carrier_in_downlink)
  show "lteBand 3 1800 (1805, 1880) 1200 (UplinkAt (1710, 1785)) \<in> set BAND_CATALOG"
    by (simp add: BAND_CATALOG_def LTE_BANDS_def)
  show "channelKhz (lteBand 3 1800 (1805, 1880) 1200 (UplinkAt (1710, 1785))) 1300 = Some 1815000"
    by (simp add: channelKhz_def lteBand_def khzRange_def)
qed

section \<open>The band of an EARFCN\<close>

definition channelSpan :: "catalogBand \<Rightarrow> number \<times> number" where
  "channelSpan b = hd (channelRanges b)"

fun apart :: "(number \<times> number) list \<Rightarrow> bool" where
  "apart (p # q # ps) \<longleftrightarrow> fst p \<le> snd p \<and> snd p < fst q \<and> apart (q # ps)"
| "apart ps \<longleftrightarrow> True"

lemma apart_Cons: "apart (p # q # ps) \<Longrightarrow> snd p < fst q \<and> fst p \<le> snd p \<and> apart (q # ps)" by simp

lemma apart_later: "apart (p # ps) \<Longrightarrow> q \<in> set ps \<Longrightarrow> snd p < fst q"
proof (induction ps arbitrary: p)
  case (Cons r ps)
  note facts = apart_Cons [OF Cons.prems(1)]
  show ?case
  proof (cases "q = r")
    case False
    then have "snd r < fst q" and "ps \<noteq> []" using Cons.IH [of r] Cons.prems(2) facts by auto
    moreover have "fst r \<le> snd r" using facts \<open>ps \<noteq> []\<close> by (cases ps) auto
    ultimately show ?thesis using facts by linarith
  qed (use facts in simp)
qed simp

lemma apart_once:
  "apart (map g xs) \<Longrightarrow> length (filter (\<lambda>x. fst (g x) \<le> c \<and> c \<le> snd (g x)) xs) \<le> 1"
proof (induction xs)
  case (Cons x xs)
  have rest: "apart (map g xs)" using Cons.prems by (cases xs) auto
  show ?case
  proof (cases "fst (g x) \<le> c \<and> c \<le> snd (g x)")
    case True
    have "\<not> (fst (g y) \<le> c \<and> c \<le> snd (g y))" if "y \<in> set xs" for y
      using apart_later [of "g x" "map g xs" "g y"] Cons.prems True that by force
    then have "filter (\<lambda>x. fst (g x) \<le> c \<and> c \<le> snd (g x)) xs = []" by (simp add: filter_empty_conv)
    with True show ?thesis by simp
  qed (use Cons.IH [OF rest] in auto)
qed simp

lemma span_lteBand:
  "channelSpan (lteBand number label (low, high) start uplink) = (start, start + (khz high - khz low) / 100 - 1)"
  by (simp add: channelSpan_def channelRanges_def lteBand_def khzRange_def)

lemma lte_apart: "apart (map channelSpan LTE_BANDS)"
  by (simp add: LTE_BANDS_def span_lteBand)

lemma lte_channels:
  assumes "b \<in> set LTE_BANDS" "channelKhz b c \<noteq> None"
  shows "fst (channelSpan b) \<le> c \<and> c \<le> snd (channelSpan b)"
proof -
  obtain n label down start uplink where b: "b = lteBand n label down start uplink"
    using assms(1) by (auto simp: LTE_BANDS_def)
  show ?thesis using assms(2)
    by (auto simp: b channelKhz_def channelSpan_def channelRanges_def lteBand_def khzRange_def split: if_splits)
qed

lemma lte_bands_of_channel: "length (bandsForChannel ''LTE'' c) \<le> 1"
proof -
  have others: "filter (\<lambda>b. catalogRatName (cb_rat b) = ''LTE'' \<and> channelKhz b c \<noteq> None) bs = []"
    if "list_all (\<lambda>b. cb_rat b = r) bs" "r \<noteq> CatLte" for bs r
    using that by (cases r) (auto simp: filter_empty_conv list_all_iff)
  have "bandsForChannel ''LTE'' c = filter (\<lambda>b. catalogRatName (cb_rat b) = ''LTE'' \<and> channelKhz b c \<noteq> None) LTE_BANDS"
    using others [OF rats_of_tables(1)] others [OF rats_of_tables(2)] others [OF rats_of_tables(4)]
    by (simp add: bandsForChannel_def BAND_CATALOG_def)
  also have "\<dots> = filter (\<lambda>b. catalogRatName (cb_rat b) = ''LTE'' \<and> channelKhz b c \<noteq> None)
      (filter (\<lambda>b. fst (channelSpan b) \<le> c \<and> c \<le> snd (channelSpan b)) LTE_BANDS)"
    using lte_channels by (auto intro!: filter_cong)
  also have "length \<dots> \<le> 1"
    using apart_once [OF lte_apart, of c] le_trans length_filter_le by blast
  finally show ?thesis .
qed

text \<open>
  An EARFCN belongs to at most one LTE band of the catalogue, so its frequency and its band are
  found whatever nominal frequency the cell is labelled with.
\<close>
theorem earfcn_has_one_band:
  assumes "bandValue \<noteq> 0"
  shows "(case bandsForChannel ''LTE'' c of
       [] \<Rightarrow> calcExactFrequency ''LTE'' bandValue (Some c) duplex = None
     | b # others \<Rightarrow> others = [] \<and> calcExactFrequency ''LTE'' bandValue (Some c) duplex
         = map_option (\<lambda>f. \<lparr>fi_frequency = Some (formatMhz f), fi_bandName = displayName b\<rparr>) (channelKhz b c))"
proof (cases "bandsForChannel ''LTE'' c")
  case Nil
  then show ?thesis using assms by (simp add: calcExactFrequency_def Let_def)
next
  case (Cons b others)
  then have "others = []" using lte_bands_of_channel [of c] by (cases others) simp_all
  then show ?thesis using assms Cons by (simp add: calcExactFrequency_def Let_def)
qed

theorem earfcn_has_one_band_witness:
  "(case bandsForChannel ''LTE'' 1300 of
       [] \<Rightarrow> calcExactFrequency ''LTE'' 900 (Some 1300) None = None
     | b # others \<Rightarrow> others = [] \<and> calcExactFrequency ''LTE'' 900 (Some 1300) None
         = map_option (\<lambda>f. \<lparr>fi_frequency = Some (formatMhz f), fi_bandName = displayName b\<rparr>) (channelKhz b 1300))"
  using earfcn_has_one_band [of 900 1300 None] by simp

end
