(* ===== verification/Validate.thy ===== *)
theory Validate
  imports Bodies Bands
begin

text \<open>
  The checks of a draft before it is sent (model/validate.ts), with the host stations
  (hostStations.ts), the PCI rule (packages/shared/src/pciSharing.ts) and the unavailable codes
  (unavailableCodes.ts). The rows the client has loaded are maps of the context; so is the
  country's address check, a regular expression over Polish letters.
  A row is known by its key where the source compares row objects.
\<close>

section \<open>Operators and context\<close>

record editorOperator =
  eo_id :: int
  eo_countryCode :: string
  eo_primaryPlmn :: "string option"
  eo_links :: "(string \<times> int) list"
  eo_plmns :: "string list"

record bandRow =
  bw_labelMhz :: "number option"
  bw_duplex :: "string option"
  bw_variant :: "string option"
  bw_code :: "string option"

record validationContext =
  vc_countryCode :: "string option"
  vc_bandsById :: "int \<Rightarrow> bandRow option"
  vc_bandPlanIds :: "int list option"
  vc_countryFeatures :: "(siteSwitch \<Rightarrow> bool) option"
  vc_countryOperators :: "editorOperator list"
  vc_operatorsById :: "int \<Rightarrow> editorOperator option"
  vc_regionCountry :: "int \<Rightarrow> string option"
  vc_refusesAddress :: "string option \<Rightarrow> string \<Rightarrow> bool"

definition listSharedNetworkIds :: "editorOperator \<Rightarrow> int list" where
  "listSharedNetworkIds operator =
    List.map_filter (\<lambda>(kind, i). if kind = ''jvMember'' then Some i else None) (eo_links operator)"

definition toOperatorRef :: "editorOperator \<Rightarrow> (int \<Rightarrow> editorOperator option) \<Rightarrow> operatorRef" where
  "toOperatorRef operator operatorsById = \<lparr>op_id = eo_id operator, op_primaryPlmn = eo_primaryPlmn operator,
     op_sharedNetworkPlmns = List.map_filter (\<lambda>i. Option.bind (operatorsById i) eo_primaryPlmn)
       (listSharedNetworkIds operator)\<rparr>"

definition findDraftOperator :: "stationSnapshot \<Rightarrow> (int \<Rightarrow> editorOperator option) \<Rightarrow> editorOperator option" where
  "findDraftOperator draft operatorsById = Option.bind (st_operatorId (sn_station draft)) operatorsById"

definition findDraftOwnerPlmn :: "stationSnapshot \<Rightarrow> (int \<Rightarrow> editorOperator option) \<Rightarrow> string option" where
  "findDraftOwnerPlmn draft operatorsById = Option.bind (findDraftOperator draft operatorsById) eo_primaryPlmn"

definition listIdentifierKinds ::
  "editorOperator option \<Rightarrow> (int \<Rightarrow> editorOperator option) \<Rightarrow> identifierKind list" where
  "listIdentifierKinds operator operatorsById =
    (case operator of
       None \<Rightarrow> []
     | Some o' \<Rightarrow> cv_identifierKinds (conventionsFor (Some (eo_countryCode o'))) (toOperatorRef o' operatorsById))"

definition getOperatorGnbidLength :: "editorOperator option \<Rightarrow> (int \<Rightarrow> editorOperator option) \<Rightarrow> int" where
  "getOperatorGnbidLength operator operatorsById =
    (case operator of
       None \<Rightarrow> DEFAULT_GNBID_LENGTH
     | Some o' \<Rightarrow> cv_gnbidLength (conventionsFor (Some (eo_countryCode o'))) (toOperatorRef o' operatorsById))"

definition findDraftGnbidLength :: "stationSnapshot \<Rightarrow> (int \<Rightarrow> editorOperator option) \<Rightarrow> int" where
  "findDraftGnbidLength draft operatorsById =
    getOperatorGnbidLength (findDraftOperator draft operatorsById) operatorsById"

definition findDraftOwner :: "stationSnapshot \<Rightarrow> (int \<Rightarrow> editorOperator option) \<Rightarrow> draftOwner" where
  "findDraftOwner draft operatorsById =
    (let operator = findDraftOperator draft operatorsById
     in \<lparr>ow_plmn = Option.bind operator eo_primaryPlmn,
         ow_gnbidLength = getOperatorGnbidLength operator operatorsById\<rparr>)"

definition networkCodes :: "editorOperator list \<Rightarrow> string list" where
  "networkCodes operators = concat (map eo_plmns operators)"

section \<open>Host stations and shared codes\<close>

definition isOfOtherOperator :: "siteStation \<Rightarrow> int option \<Rightarrow> bool" where
  "isOfOtherOperator station operatorId \<longleftrightarrow> ss_operatorId station = None \<or> ss_operatorId station \<noteq> operatorId"

definition hostsOtherStations :: "hostSite \<Rightarrow> int option \<Rightarrow> bool" where
  "hostsOtherStations site operatorId \<longleftrightarrow>
    hs_stationId site \<noteq> None \<and>
    list_ex (\<lambda>station. ss_hostStationId station = hs_stationId site \<and> isOfOtherOperator station operatorId)
      (hs_stations site)"

definition listHostCandidates :: "editSession \<Rightarrow> hostSite option \<Rightarrow> siteStation list" where
  "listHostCandidates s site =
    (let operatorId = st_operatorId (sn_station (es_draft s))
     in case site of
          None \<Rightarrow> []
        | Some st \<Rightarrow>
            (if movesStationAlone s \<or> hostsOtherStations st operatorId then []
             else filter (\<lambda>station. ss_hostStationId station = None \<and> isOfOtherOperator station operatorId)
               (hs_stations st)))"

definition findSiteStation :: "hostSite option \<Rightarrow> int option \<Rightarrow> siteStation option" where
  "findSiteStation site stationId =
    (case (site, stationId) of
       (Some st, Some i) \<Rightarrow> List.find (\<lambda>station. ss_id station = i) (hs_stations st)
     | _ \<Rightarrow> None)"

record 's nrPciCell =
  np_mode :: "nrMode option"
  np_sector :: "'s option"

definition canShareNrPci :: "'s nrPciCell \<Rightarrow> 's nrPciCell \<Rightarrow> bool" where
  "canShareNrPci c other \<longleftrightarrow>
    (if (np_mode c = Some Sa) = (np_mode other = Some Sa) then False
     else np_sector c = None \<or> np_sector other = None \<or> np_sector c = np_sector other)"

definition getUnavailableCodePatch :: "cellDraft \<Rightarrow> editError list \<Rightarrow> cellPatch option" where
  "getUnavailableCodePatch c errors =
    (let code = (case ce_rat c of Umts \<Rightarrow> Some Psc | Gsm \<Rightarrow> Some Bsic | _ \<Rightarrow> None)
     in Option.bind code (\<lambda>f.
          if getCellNumber c f = None then None
          else if list_ex (\<lambda>e. er_messageKey e = ''stations:edit.errors.codeDisabled'' \<and>
                    ft_scope (er_target e) = ScCell \<and> ft_key (er_target e) = Some (ce_key c) \<and>
                    ft_field (er_target e) = Some (FNumber f)) errors
               then Some (toNumberPatch f None) else None))"

section \<open>Errors\<close>

record editLimits =
  el_siteId :: int
  el_identifier :: int
  el_networksIdDigits :: int
  el_backhaulModel :: int
  el_backhaulSpeed :: int
  el_city :: int
  el_structureNote :: int
  el_ownerName :: int
  el_submissionNote :: int
  el_photoUploads :: int
  el_photoPicks :: int
  el_photoBytes :: int
  el_latitude :: int
  el_longitude :: int

definition EDIT_LIMITS :: editLimits where
  "EDIT_LIMITS = \<lparr>el_siteId = 16, el_identifier = 50, el_networksIdDigits = 9, el_backhaulModel = 100,
     el_backhaulSpeed = 2147483647, el_city = 100, el_structureNote = 150, el_ownerName = 100,
     el_submissionNote = 2000, el_photoUploads = 10, el_photoPicks = 50, el_photoBytes = 20 * 1024 * 1024,
     el_latitude = 90, el_longitude = 180\<rparr>"

definition RESERVED_SITE_ID_PREFIX :: string where "RESERVED_SITE_ID_PREFIX = ''~''"
definition BYTES_PER_MEGABYTE :: int where "BYTES_PER_MEGABYTE = 1024 * 1024"

fun CATALOG_RATS :: "tech \<Rightarrow> string" where
  "CATALOG_RATS Gsm = ''GSM''"
| "CATALOG_RATS Umts = ''UMTS''"
| "CATALOG_RATS Lte = ''LTE''"
| "CATALOG_RATS Nr = ''NR''"

definition toError :: "fieldTarget \<Rightarrow> string \<Rightarrow> textValues option \<Rightarrow> bool \<Rightarrow> editError" where
  "toError target messageKey values isQuiet = \<lparr>er_target = target, er_messageKey = messageKey,
     er_values = values, er_isQuiet = (if isQuiet then Some True else None)\<rparr>"

definition maxValue :: "int \<Rightarrow> textValues option" where
  "maxValue n = Some [(''max'', TextNumber (of_int n))]"

definition stationTarget :: "editField \<Rightarrow> fieldTarget" where
  "stationTarget f = (targetOf ScStation)\<lparr>ft_field := Some f\<rparr>"

definition placeTarget :: "editField \<Rightarrow> fieldTarget" where
  "placeTarget f = (targetOf ScPlace)\<lparr>ft_field := Some f\<rparr>"

definition cellFieldTarget :: "cellDraft \<Rightarrow> editField \<Rightarrow> fieldTarget" where
  "cellFieldTarget c f = (cellTarget c)\<lparr>ft_field := Some f\<rparr>"

definition isOutOfRange :: "number \<Rightarrow> number \<Rightarrow> number \<Rightarrow> bool" where
  "isOutOfRange value low high \<longleftrightarrow> \<not> isInteger value \<or> value < low \<or> high < value"

text \<open>The error of a condition.\<close>

definition errorIf :: "bool \<Rightarrow> editError \<Rightarrow> editError list" where
  "errorIf condition e = (if condition then [e] else [])"

section \<open>Station and place\<close>

definition findMissingSiteIdKey :: "editSession \<Rightarrow> string option" where
  "findMissingSiteIdKey s =
    (if (case es_live s of None \<Rightarrow> False | Some live \<Rightarrow> normalizeText (st_siteId (sn_station live)) = []) then None
     else if findNodeName (es_draft s) = None then Some ''stations:edit.errors.siteIdRequiredWithoutNode'' else None)"

definition isNetworksIdText :: "string \<Rightarrow> bool" where
  "isNetworksIdText text \<longleftrightarrow> list_all isDigit text \<and> 1 \<le> length text \<and> length text \<le> 9"

definition validateStation :: "editSession \<Rightarrow> editError list" where
  "validateStation s =
    (let station = sn_station (es_draft s); isNewStation = (es_live s = None);
         siteId = normalizeText (st_siteId station);
         missingSiteIdKey = (if siteId = [] then findMissingSiteIdKey s else None);
         networksId = normalizeText (st_identifiers station NetworksId);
         backhaul = st_backhaul station
     in (case missingSiteIdKey of None \<Rightarrow> [] | Some key \<Rightarrow> [toError (stationTarget FSiteId) key None isNewStation]) @
        errorIf (take (length RESERVED_SITE_ID_PREFIX) siteId = RESERVED_SITE_ID_PREFIX)
          (toError (stationTarget FSiteId) ''stations:edit.errors.siteIdReserved''
            (Some [(''prefix'', TextString RESERVED_SITE_ID_PREFIX)]) False) @
        errorIf (el_siteId EDIT_LIMITS < int (length siteId))
          (toError (stationTarget FSiteId) ''stations:edit.errors.siteIdTooLong'' (maxValue (el_siteId EDIT_LIMITS)) False) @
        errorIf (st_operatorId station = None)
          (toError (stationTarget FOperatorId) ''stations:edit.errors.operatorRequired'' None isNewStation) @
        errorIf (networksId \<noteq> [] \<and> \<not> isNetworksIdText networksId)
          (toError (stationTarget (FIdentifier NetworksId)) ''stations:edit.errors.networksIdInvalid''
            (maxValue (el_networksIdDigits EDIT_LIMITS)) False) @
        concat (map (\<lambda>kind. errorIf (el_identifier EDIT_LIMITS < int (length (normalizeText (st_identifiers station kind))))
          (toError (stationTarget (FIdentifier kind)) ''stations:edit.errors.identifierTooLong''
            (maxValue (el_identifier EDIT_LIMITS)) False)) IDENTIFIER_KINDS) @
        errorIf (bh_medium backhaul = None \<and> bh_speedMbps backhaul \<noteq> None)
          (toError (stationTarget FBackhaulMedium) ''stations:edit.errors.backhaulMediumRequired'' None False) @
        errorIf (case bh_speedMbps backhaul of
            None \<Rightarrow> False | Some speed \<Rightarrow> isOutOfRange speed 1 (of_int (el_backhaulSpeed EDIT_LIMITS)))
          (toError (stationTarget FBackhaulSpeedMbps) ''stations:edit.errors.backhaulSpeedRange''
            (maxValue (el_backhaulSpeed EDIT_LIMITS)) False) @
        errorIf (bh_medium backhaul = Some Microwave \<and>
            el_backhaulModel EDIT_LIMITS < int (length (normalizeText (bh_model backhaul))))
          (toError (stationTarget FBackhaulModel) ''stations:edit.errors.backhaulModelTooLong''
            (maxValue (el_backhaulModel EDIT_LIMITS)) False))"

definition validateOperatorCountry :: "editSession \<Rightarrow> validationContext \<Rightarrow> editError list" where
  "validateOperatorCountry s vc =
    (let operatorCountry = map_option eo_countryCode (findDraftOperator (es_draft s) (vc_operatorsById vc));
         regionCountry = Option.bind (Option.bind (sn_place (es_draft s)) pl_regionId) (vc_regionCountry vc)
     in errorIf (operatorCountry \<noteq> None \<and> regionCountry \<noteq> None \<and> operatorCountry \<noteq> regionCountry)
          (toError (stationTarget FOperatorId) ''stations:edit.errors.operatorOtherCountry'' None False))"

definition validateHostStation :: "editSession \<Rightarrow> hostSite option \<Rightarrow> editError list" where
  "validateHostStation s site =
    (let station = sn_station (es_draft s); target = stationTarget FHostStationId;
         liveHost = Option.bind (es_live s) (\<lambda>live. st_hostStationId (sn_station live))
     in case site of
          None \<Rightarrow> []
        | Some st \<Rightarrow>
            (if st_hostStationId station = None \<or> st_hostStationId station = liveHost then []
             else case (if movesStationAlone s then None else findSiteStation site (st_hostStationId station)) of
                    None \<Rightarrow> [toError target ''stations:edit.errors.hostElsewhere'' None False]
                  | Some host \<Rightarrow>
                      (if \<not> isOfOtherOperator host (st_operatorId station)
                       then [toError target ''stations:edit.errors.hostSameOperator'' None False]
                       else if ss_hostStationId host \<noteq> None
                       then [toError target ''stations:edit.errors.hostIsHosted'' None False]
                       else if hostsOtherStations st (st_operatorId station)
                       then [toError target ''stations:edit.errors.hostingStation'' None False] else [])))"

definition validateCoordinates :: "placeDraft \<Rightarrow> editError list" where
  "validateCoordinates place =
    (let target = placeTarget FCoordinates
     in case (pl_latitude place, pl_longitude place) of
          (None, None) \<Rightarrow> [toError target ''stations:edit.errors.coordinatesRequired'' None True]
        | (Some latitude, Some longitude) \<Rightarrow>
            errorIf (of_int (el_latitude EDIT_LIMITS) < \<bar>latitude\<bar>)
              (toError target ''stations:edit.errors.latitudeRange'' None False) @
            errorIf (of_int (el_longitude EDIT_LIMITS) < \<bar>longitude\<bar>)
              (toError target ''stations:edit.errors.longitudeRange'' None False)
        | _ \<Rightarrow> [toError target ''stations:edit.errors.coordinatesIncomplete'' None False])"

definition validateOwner :: "editSession \<Rightarrow> placeDraft \<Rightarrow> editError list" where
  "validateOwner s place =
    (let target = placeTarget FStructureOwner
     in case sd_owner (pl_structure place) of
          OwnerProposed name \<Rightarrow>
            (if es_kind s = KindEditor
             then [toError target ''stations:edit.errors.ownerMustBeListed'' None False]
             else let len = int (length (normalizeText name))
                  in if 0 < len \<and> len \<le> el_ownerName EDIT_LIMITS then []
                     else [toError target ''stations:edit.errors.ownerNameLength'' (maxValue (el_ownerName EDIT_LIMITS)) False])
        | _ \<Rightarrow> [])"

definition validatePlace :: "editSession \<Rightarrow> validationContext \<Rightarrow> editError list" where
  "validatePlace s vc =
    (case sn_place (es_draft s) of
       None \<Rightarrow> errorIf (es_live s = None)
         (toError (placeTarget FCoordinates) ''stations:edit.errors.coordinatesRequired'' None True)
     | Some place \<Rightarrow>
         validateCoordinates place @ validateOwner s place @
         errorIf (el_city EDIT_LIMITS < int (length (normalizeText (pl_city place))))
           (toError (placeTarget FCity) ''stations:edit.errors.cityTooLong'' (maxValue (el_city EDIT_LIMITS)) False) @
         errorIf (vc_refusesAddress vc (vc_countryCode vc) (pl_address place))
           (toError (placeTarget FAddress) ''common:validation.addressOwnWordForbidden'' None False) @
         errorIf (el_structureNote EDIT_LIMITS < int (length (normalizeText (sd_note (pl_structure place)))))
           (toError (placeTarget FStructureNote) ''stations:edit.errors.structureNoteTooLong''
             (maxValue (el_structureNote EDIT_LIMITS)) False))"

section \<open>Sectors\<close>

definition degreeCount :: "sectorDraft list \<Rightarrow> number \<Rightarrow> nat" where
  "degreeCount sectors degrees = count_list (List.map_filter se_degrees sectors) degrees"

definition validateSector :: "sectorDraft list \<Rightarrow> sectorDraft \<Rightarrow> editError list" where
  "validateSector sectors x =
    (let target = (sectorTarget (se_key x))\<lparr>ft_field := Some FDegrees\<rparr>
     in case se_degrees x of
          None \<Rightarrow> [toError target ''stations:edit.errors.azimuthEmpty'' None True]
        | Some degrees \<Rightarrow>
            (if isOutOfRange degrees 0 OMNIDIRECTIONAL_DEGREES
             then [toError target ''stations:edit.errors.azimuthRange'' None False]
             else if 1 < degreeCount sectors degrees
             then [toError target ''stations:edit.errors.azimuthDuplicate'' (Some [(''degrees'', TextNumber degrees)]) False]
             else []))"

definition validateSectors :: "sectorDraft list \<Rightarrow> editError list" where
  "validateSectors sectors =
    concat (map (validateSector sectors) sectors) @
    errorIf (MAX_SECTORS < length sectors)
      (toError (targetOf ScSector) ''stations:edit.errors.tooManyAzimuths'' (maxValue (int MAX_SECTORS)) False)"

section \<open>Cells\<close>

definition requireField :: "cellDraft \<Rightarrow> cellNumberField \<Rightarrow> editError" where
  "requireField c f = toError (cellFieldTarget c (FNumber f)) ''stations:edit.errors.required''
     (Some [(''field'', TextString (CELL_NUMBER_LABELS f))]) (ce_id c = None)"

definition validateRequiredIds :: "editSession \<Rightarrow> cellDraft \<Rightarrow> editError list" where
  "validateRequiredIds s c =
    (let draft = es_draft s; isNewRow = (ce_id c = None); spec = RAT_FIELDS (ce_rat c); rat = ce_rat c
     in errorIf (ce_bandId c = None \<and> isNewRow)
          (toError (cellFieldTarget c FBandId) ''stations:edit.errors.bandRequired'' None True) @
        errorIf (rat = Nr \<and> ce_mode c = None)
          (toError (cellFieldTarget c FMode) ''stations:edit.errors.modeRequired'' None isNewRow) @
        errorIf (rat = Gsm \<and> getCellNumber c Cid = None) (requireField c Cid) @
        errorIf (rat = Gsm \<and> sn_areaCodes draft Gsm = PerCell \<and> getCellNumber c Lac = None) (requireField c Lac) @
        errorIf (rat \<in> set TAC_RATS \<and> carriesAreaCode c \<and> sn_areaCodes draft rat = PerCell \<and>
            getCellNumber c Tac = None) (requireField c Tac) @
        (case (rs_nodeField spec, rs_cellIdField spec) of
           (Some nodeField, Some cellIdField) \<Rightarrow>
             (let node = getCellNumber c nodeField
              in errorIf ((rat = Umts \<or> rat = Lte) \<and> node \<noteq> None \<and> node \<noteq> Some 0 \<and>
                   getCellNumber c cellIdField = None) (requireField c cellIdField))
         | _ \<Rightarrow> []))"

definition fieldLabel :: "string \<Rightarrow> textValues option" where
  "fieldLabel label = Some [(''field'', TextString label)]"

definition validateNumber :: "editSession \<Rightarrow> validationContext \<Rightarrow> cellDraft \<Rightarrow> int \<Rightarrow> numberFieldSpec \<Rightarrow> editError list" where
  "validateNumber s vc c defaultGnbidLength spec =
    (let f = nf_field spec; top = getCellNumberMax c spec defaultGnbidLength; target = cellFieldTarget c (FNumber f);
         label = CELL_NUMBER_LABELS f
     in case getCellNumber c f of
          None \<Rightarrow> []
        | Some value \<Rightarrow>
            (if f = getAreaCodeField (ce_rat c) \<and> isShared (sn_areaCodes (es_draft s) (ce_rat c)) then []
             else (if nf_isSaOnly spec \<and> ce_mode c \<noteq> Some Sa
                   then [toError target ''stations:edit.errors.nsaField'' (fieldLabel label) False]
                   else errorIf (isOutOfRange value 0 top) (toError target ''stations:edit.errors.range''
                     (Some [(''field'', TextString label), (''max'', TextNumber top)]) False)) @
                  (case nf_siteSwitch spec of
                     None \<Rightarrow> []
                   | Some switch \<Rightarrow> errorIf (\<not> (case vc_countryFeatures vc of None \<Rightarrow> False | Some on \<Rightarrow> on switch))
                       (toError target ''stations:edit.errors.codeDisabled'' (fieldLabel label) False))))"

definition validateNumbers :: "editSession \<Rightarrow> validationContext \<Rightarrow> cellDraft \<Rightarrow> editError list" where
  "validateNumbers s vc c =
    (let spec = RAT_FIELDS (ce_rat c);
         defaultGnbidLength = findDraftGnbidLength (es_draft s) (vc_operatorsById vc)
     in errorIf (ce_rat c = Nr \<and> ce_mode c = Some Sa \<and>
            (case ce_gnbidLength c of None \<Rightarrow> False
             | Some len \<Rightarrow> isOutOfRange (of_int len) (of_int GNBID_MIN_LENGTH) (of_int GNBID_MAX_LENGTH)))
          (toError (cellFieldTarget c FGnbidLength) ''stations:edit.errors.gnbidLengthRange''
            (Some [(''min'', TextNumber (of_int GNBID_MIN_LENGTH)), (''max'', TextNumber (of_int GNBID_MAX_LENGTH))]) False) @
        concat (map (validateNumber s vc c defaultGnbidLength) (rs_numbers spec)) @
        concat (map (\<lambda>flag. errorIf (ff_isSaOnly flag \<and> ce_mode c \<noteq> Some Sa \<and> getCellFlag c (ff_field flag))
          (toError (cellFieldTarget c (FFlag (ff_field flag))) ''stations:edit.errors.nsaField''
            (fieldLabel (CELL_FLAG_LABELS (ff_field flag))) False)) (rs_flags spec)))"

text \<open>\<open>toUpperCase\<close> of the letters of ASCII.\<close>

definition upperCase :: "string \<Rightarrow> string" where
  "upperCase = map (\<lambda>c. let n = of_char c :: nat in if 97 \<le> n \<and> n \<le> 122 then char_of (n - 32) else c)"

definition validateBand :: "validationContext \<Rightarrow> cellDraft \<Rightarrow> editError list" where
  "validateBand vc c =
    (case ce_bandId c of
       None \<Rightarrow> []
     | Some bandId \<Rightarrow>
         (let channelField = rs_channelField (RAT_FIELDS (ce_rat c));
              planError = errorIf (case vc_bandPlanIds vc of None \<Rightarrow> False | Some ids \<Rightarrow> bandId \<notin> set ids)
                (toError (cellFieldTarget c FBandId) ''stations:edit.errors.bandNotInPlan'' None False)
          in planError @
             (case (vc_bandsById vc bandId, channelField) of
                (Some row, Some f) \<Rightarrow>
                  (case (bw_labelMhz row, getCellNumber c f) of
                     (Some labelMhz, Some channel) \<Rightarrow>
                       errorIf (\<not> isChannelValidForBand \<lparr>bl_rat = CATALOG_RATS (ce_rat c), bl_value = Some labelMhz,
                           bl_duplex = map_option upperCase (bw_duplex row), bl_variant = bw_variant row,
                           bl_code = bw_code row\<rparr> channel)
                         (toError (cellFieldTarget c (FNumber f)) ''stations:edit.errors.channelBandMismatch''
                           (fieldLabel (CELL_NUMBER_LABELS f)) False)
                   | _ \<Rightarrow> [])
              | _ \<Rightarrow> [])))"

definition validateNetworks :: "validationContext \<Rightarrow> cellDraft \<Rightarrow> editError list" where
  "validateNetworks vc c =
    (let target = cellFieldTarget c FExtraPlmns; top = EXTRA_PLMN_LIMITS (ce_rat c)
     in if ce_extraPlmns c = [] then []
        else if top < length (ce_extraPlmns c)
        then [toError target ''stations:edit.errors.tooManyNetworks''
          (Some [(''rat'', TextString (ratName (ce_rat c))), (''max'', TextNumber (of_nat top))]) False]
        else if vc_countryCode vc = None then []
        else case List.find (\<lambda>code. code \<notin> set (networkCodes (vc_countryOperators vc))) (ce_extraPlmns c) of
               None \<Rightarrow> []
             | Some foreign \<Rightarrow> [toError target ''stations:edit.errors.networkOtherCountry''
                 (Some [(''code'', TextString foreign)]) False])"

section \<open>Duplicates\<close>

text \<open>The text keys of the source join numbers with colons; here they are tuples of the numbers.\<close>

definition getIdentityNode :: "editSession \<Rightarrow> cellDraft \<Rightarrow> number option" where
  "getIdentityNode s c =
    (if ce_rat c = Gsm then getAreaValue (es_draft s) c
     else Option.bind (rs_nodeField (RAT_FIELDS (ce_rat c))) (getCellNumber c))"

definition getIdentityKey :: "editSession \<Rightarrow> cellDraft \<Rightarrow> (number \<times> number) option" where
  "getIdentityKey s c =
    (case rs_cellIdField (RAT_FIELDS (ce_rat c)) of
       None \<Rightarrow> None
     | Some cellIdField \<Rightarrow>
         (if ce_rat c = Nr then None
          else case getCellNumber c cellIdField of
                 None \<Rightarrow> None
               | Some cellId \<Rightarrow>
                   (let node = (case getIdentityNode s c of None \<Rightarrow> 0 | Some n \<Rightarrow> n)
                    in if ce_rat c \<noteq> Gsm \<and> node = 0 \<and> cellId = 0 then None else Some (node, cellId))))"

definition getPciIdentity :: "cellDraft \<Rightarrow> (int \<times> number option \<times> number \<times> number option) option" where
  "getPciIdentity c =
    (case (ce_bandId c, getCellNumber c Pci) of
       (Some bandId, Some pci) \<Rightarrow>
         (case ce_rat c of
            Lte \<Rightarrow> Some (bandId, Some (case getCellNumber c Enbid of None \<Rightarrow> 0 | Some n \<Rightarrow> n), pci, getCellNumber c Earfcn)
          | Nr \<Rightarrow> Some (bandId, None, pci, getCellNumber c Arfcn)
          | _ \<Rightarrow> None)
     | _ \<Rightarrow> None)"

definition canSharePci :: "cellDraft \<Rightarrow> cellDraft \<Rightarrow> bool" where
  "canSharePci c other \<longleftrightarrow> ce_rat c = Nr \<and>
    canShareNrPci \<lparr>np_mode = ce_mode c, np_sector = ce_sectorKey c\<rparr>
      \<lparr>np_mode = ce_mode other, np_sector = ce_sectorKey other\<rparr>"

record cellGroup =
  cg_cells :: "cellDraft list"
  cg_hasWrittenCell :: bool

definition joinGroup ::
  "draftKey list \<Rightarrow> (cellDraft \<Rightarrow> 'k option) \<Rightarrow> cellDraft \<Rightarrow> ('k \<times> cellGroup) list \<Rightarrow> ('k \<times> cellGroup) list" where
  "joinGroup written getKey c groups =
    (case getKey c of
       None \<Rightarrow> groups
     | Some key \<Rightarrow>
         (let g = (case map_of groups key of None \<Rightarrow> \<lparr>cg_cells = [], cg_hasWrittenCell = False\<rparr> | Some g \<Rightarrow> g)
          in AList.update key \<lparr>cg_cells = cg_cells g @ [c],
               cg_hasWrittenCell = (cg_hasWrittenCell g \<or> ce_key c \<in> set written)\<rparr> groups))"

definition groupCells :: "cellDraft list \<Rightarrow> draftKey list \<Rightarrow> (cellDraft \<Rightarrow> 'k option) \<Rightarrow> cellGroup list" where
  "groupCells cells written getKey =
    filter (\<lambda>g. 1 < length (cg_cells g) \<and> cg_hasWrittenCell g)
      (map snd (fold (joinGroup written getKey) cells []))"

definition groupHas :: "cellDraft \<Rightarrow> cellGroup \<Rightarrow> bool" where
  "groupHas c g \<longleftrightarrow> ce_key c \<in> ce_key ` set (cg_cells g)"

definition getIdentityLabel :: "editSession \<Rightarrow> tech \<Rightarrow> string" where
  "getIdentityLabel s rat =
    (if rat = Lte then ''eNBID + CLID''
     else if rat = Umts then ''RNC + CID''
     else if isShared (sn_areaCodes (es_draft s) Gsm) then ''CID'' else ''LAC + CID'')"

definition validateDuplicate ::
  "editSession \<Rightarrow> tech \<Rightarrow> cellGroup list \<Rightarrow> cellGroup list \<Rightarrow> cellDraft \<Rightarrow> editError list" where
  "validateDuplicate s rat identityGroups pciGroups c =
    (case rs_cellIdField (RAT_FIELDS rat) of
       None \<Rightarrow> []
     | Some cellIdField \<Rightarrow> errorIf (list_ex (groupHas c) identityGroups)
         (toError (cellFieldTarget c (FNumber cellIdField)) ''stations:edit.errors.cellIdentityDuplicate''
           (Some [(''fields'', TextString (getIdentityLabel s rat))]) False)) @
    (case List.find (groupHas c) pciGroups of
       None \<Rightarrow> []
     | Some pciGroup \<Rightarrow>
         errorIf (list_ex (\<lambda>other. ce_key other \<noteq> ce_key c \<and> \<not> canSharePci c other) (cg_cells pciGroup))
           (toError (cellFieldTarget c (FNumber Pci)) ''stations:edit.errors.pciDuplicate''
             (Some [(''pci'', case getCellNumber c Pci of None \<Rightarrow> TextString [] | Some pci \<Rightarrow> TextNumber pci)]) False))"

definition validateDuplicates :: "editSession \<Rightarrow> tech \<Rightarrow> cellDraft list \<Rightarrow> draftKey list \<Rightarrow> editError list" where
  "validateDuplicates s rat cells written =
    (let identityGroups = groupCells cells written (getIdentityKey s); pciGroups = groupCells cells written getPciIdentity
     in concat (map (validateDuplicate s rat identityGroups pciGroups) cells))"

section \<open>The whole draft\<close>

definition validateAreaCode :: "editSession \<Rightarrow> tech \<Rightarrow> cellDraft list \<Rightarrow> draftKey list \<Rightarrow> editError list" where
  "validateAreaCode s rat cells written =
    (let carriers = filter carriesAreaCode cells; f = getAreaCodeField rat; top = getAreaCodeMax rat;
         target = (targetOf ScAreaCode)\<lparr>ft_rat := Some rat, ft_field := Some (FNumber f)\<rparr>;
         label = CELL_NUMBER_LABELS f
     in case sn_areaCodes (es_draft s) rat of
          PerCell \<Rightarrow> []
        | Shared areaValue \<Rightarrow>
            (if carriers = [] then []
             else case areaValue of
                    None \<Rightarrow>
                      (let isQuiet = list_all (\<lambda>c. ce_id c = None) carriers;
                           isRequired = (rat = Gsm \<or> list_ex (\<lambda>c. ce_key c \<in> set written) carriers)
                       in errorIf isRequired (toError target ''stations:edit.errors.required'' (fieldLabel label) isQuiet))
                  | Some value \<Rightarrow> errorIf (isOutOfRange value 0 top) (toError target ''stations:edit.errors.range''
                      (Some [(''field'', TextString label), (''max'', TextNumber top)]) False)))"

definition writtenCells :: "editSession \<Rightarrow> validationContext \<Rightarrow> tech \<Rightarrow> cellDraft list" where
  "writtenCells s vc rat =
    filter (\<lambda>c. getRowKind s c (findDraftGnbidLength (es_draft s) (vc_operatorsById vc)) \<noteq> RowSame)
      (filter (\<lambda>c. ce_rat c = rat \<and> \<not> ce_isDeleted c) (sn_cells (es_draft s)))"

definition validateCell :: "editSession \<Rightarrow> validationContext \<Rightarrow> cellDraft \<Rightarrow> editError list" where
  "validateCell s vc c =
    validateRequiredIds s c @ validateNumbers s vc c @ validateBand vc c @ validateNetworks vc c"

definition validateRat :: "editSession \<Rightarrow> validationContext \<Rightarrow> tech \<Rightarrow> editError list" where
  "validateRat s vc rat =
    (let cells = filter (\<lambda>c. ce_rat c = rat \<and> \<not> ce_isDeleted c) (sn_cells (es_draft s));
         written = map ce_key (writtenCells s vc rat)
     in validateAreaCode s rat cells written @
        concat (map (validateCell s vc) (writtenCells s vc rat)) @
        validateDuplicates s rat cells written)"

definition validateDraft :: "editSession \<Rightarrow> validationContext \<Rightarrow> hostSite option \<Rightarrow> editError list" where
  "validateDraft s vc site =
    (if es_action s = ActDelete then []
     else validateStation s @ validateOperatorCountry s vc @ validateHostStation s site @ validatePlace s vc @
          validateSectors (sn_sectors (es_draft s)) @ concat (map (validateRat s vc) RAT_ORDER) @
          errorIf (MAX_CELL_CHANGES < countCellEntries s)
            (toError ((targetOf ScGeneral)\<lparr>ft_field := Some FCells\<rparr>) ''stations:edit.errors.tooManyCellChanges''
              (maxValue (int MAX_CELL_CHANGES)) False))"

definition listShownErrors :: "editError list \<Rightarrow> bool \<Rightarrow> editError list" where
  "listShownErrors errors isSaveAttempted =
    (if isSaveAttempted then errors else filter (\<lambda>e. er_isQuiet e \<noteq> Some True) errors)"

section \<open>Photos, notes and the errors of a row\<close>

record submissionExtras =
  xi_note :: string
  xi_uploads :: "(string \<times> int) list"
  xi_storedUploadCount :: nat
  xi_selectIds :: "string list"
  xi_removeIds :: "string list"
  xi_mainPhotoId :: "string option"

definition photoTarget :: "editField \<Rightarrow> fieldTarget" where
  "photoTarget f = (targetOf ScPhotos)\<lparr>ft_field := Some f\<rparr>"

definition validateSubmissionExtras :: "editSession \<Rightarrow> submissionExtras \<Rightarrow> editError list" where
  "validateSubmissionExtras s extras =
    (let uploadCount = length (xi_uploads extras) + xi_storedUploadCount extras;
         hasCells = list_ex (\<lambda>c. \<not> ce_isDeleted c) (sn_cells (es_draft s));
         noteErrors = errorIf (el_submissionNote EDIT_LIMITS < int (length (normalizeText (xi_note extras))))
           (toError ((targetOf ScGeneral)\<lparr>ft_field := Some FNote\<rparr>) ''stations:edit.errors.noteTooLong''
             (maxValue (el_submissionNote EDIT_LIMITS)) False)
     in if es_action s = ActDelete then noteErrors
        else noteErrors @
          errorIf (es_action s = ActCreate \<and> \<not> hasCells \<and> uploadCount = 0)
            (toError (photoTarget FUploads) ''submissions:validation.pendingStationPhotoRequired'' None True) @
          errorIf (el_photoUploads EDIT_LIMITS < int uploadCount)
            (toError (photoTarget FUploads) ''stations:edit.errors.tooManyUploads''
              (maxValue (el_photoUploads EDIT_LIMITS)) False) @
          concat (map (\<lambda>(name, bytes). errorIf (el_photoBytes EDIT_LIMITS < bytes)
            (toError (photoTarget FUploads) ''submissions:photos.fileTooLarge''
              (Some [(''name'', TextString name),
                (''size'', TextString (intText (el_photoBytes EDIT_LIMITS div BYTES_PER_MEGABYTE) @ '' MB''))]) False))
            (xi_uploads extras)) @
          errorIf (el_photoPicks EDIT_LIMITS < int (length (xi_selectIds extras)) \<or>
              el_photoPicks EDIT_LIMITS < int (length (xi_removeIds extras)))
            (toError (photoTarget FPicks) ''stations:edit.errors.tooManyPicks'' (maxValue (el_photoPicks EDIT_LIMITS)) False) @
          errorIf (case xi_mainPhotoId extras of None \<Rightarrow> False | Some i \<Rightarrow> i \<notin> set (xi_selectIds extras))
            (toError (photoTarget FMainPhoto) ''stations:edit.errors.mainPhotoNotPicked'' None False))"

text \<open>Two records of values with the same keys and values, whatever their order.\<close>

definition hasSameValues :: "textValues option \<Rightarrow> textValues option \<Rightarrow> bool" where
  "hasSameValues left right \<longleftrightarrow>
    (case (left, right) of
       (Some l, Some r) \<Rightarrow> length l = length r \<and> list_all (\<lambda>(key, value). map_of r key = Some value) l
     | _ \<Rightarrow> left = right)"

definition isSameError :: "editError \<Rightarrow> editError \<Rightarrow> bool" where
  "isSameError left right \<longleftrightarrow>
    er_messageKey left = er_messageKey right \<and> er_isQuiet left = er_isQuiet right \<and>
    er_target left = er_target right \<and> hasSameValues (er_values left) (er_values right)"

definition isSameGroup :: "editError list \<Rightarrow> editError list \<Rightarrow> bool" where
  "isSameGroup g known \<longleftrightarrow> list_all2 isSameError g known"

definition joinErrors :: "targetScope \<Rightarrow> editError \<Rightarrow> (draftKey \<times> editError list) list \<Rightarrow> (draftKey \<times> editError list) list" where
  "joinErrors scope e groups =
    (case ft_key (er_target e) of
       None \<Rightarrow> groups
     | Some key \<Rightarrow>
         (if ft_scope (er_target e) \<noteq> scope then groups
          else AList.update key ((case map_of groups key of None \<Rightarrow> [] | Some g \<Rightarrow> g) @ [e]) groups))"

text \<open>
  The groups of the errors, and of the last call's groups (\<open>lastGroups\<close>) the ones that are the same:
  their lists are handed out again, so that a table row sees the same object. The result is also
  what the next call finds in \<open>lastGroups\<close>.
\<close>

definition groupErrorsByKey ::
  "(draftKey \<times> editError list) list \<Rightarrow> editError list \<Rightarrow> targetScope \<Rightarrow> (draftKey \<times> editError list) list" where
  "groupErrorsByKey known errors scope =
    map (\<lambda>(key, g). (key, case map_of known key of None \<Rightarrow> g
        | Some knownGroup \<Rightarrow> (if isSameGroup g knownGroup then knownGroup else g)))
      (fold (joinErrors scope) errors [])"

definition findFieldError :: "editError list \<Rightarrow> fieldTarget \<Rightarrow> editError option" where
  "findFieldError errors target =
    List.find (\<lambda>e. ft_scope (er_target e) = ft_scope target \<and> ft_key (er_target e) = ft_key target \<and>
        ft_field (er_target e) = ft_field target \<and>
        (ft_scope target \<noteq> ScAreaCode \<or> ft_rat (er_target e) = ft_rat target)) errors"

end
