(* ===== verification/EditorTheorems.thy ===== *)
theory EditorTheorems
  imports DraftInvariants
begin

text \<open>
  What the station editor's model (DraftReducer, Drafts, CellPatch, RatFields, Packs) promises: the
  properties of the reducer and of its operations, each with a run on a concrete session.
\<close>

section \<open>Sample sessions\<close>

text \<open>A live Polish station: two sectors, a stored NR cell and a stored LTE cell.\<close>

definition sampleSector :: sectorDraft where
  "sampleSector = \<lparr>se_key = ''s1'', se_id = Some 7, se_degrees = Some 120\<rparr>"

definition otherSector :: sectorDraft where
  "otherSector = \<lparr>se_key = ''s2'', se_id = Some 8, se_degrees = Some 240\<rparr>"

definition sampleNr :: cellDraft where
  "sampleNr = createCellDraft Nr (noInit\<lparr>ci_key := Some ''c1'', ci_id := Some 11,
     ci_sectorKey := Some ''s1'', ci_mode := Some Sa,
     ci_numbers := [Gnbid \<mapsto> Some 5, Clid \<mapsto> Some 3, Tac \<mapsto> Some 40, Pci \<mapsto> Some 9]\<rparr>) ''x''"

definition sampleLte :: cellDraft where
  "sampleLte = createCellDraft Lte (noInit\<lparr>ci_key := Some ''c2'', ci_id := Some 12,
     ci_numbers := [Enbid \<mapsto> Some 8, Clid \<mapsto> Some 1, Tac \<mapsto> Some 50]\<rparr>) ''x''"

definition sampleLive :: stationSnapshot where
  "sampleLive = EMPTY_SNAPSHOT\<lparr>sn_sectors := [sampleSector, otherSector], sn_cells := [sampleNr, sampleLte]\<rparr>"

definition sampleInput :: sessionInput where
  "sampleInput = \<lparr>in_kind = KindEditor, in_action = ActUpdate, in_countryCode = Some ''PL'',
     in_live = Some sampleLive, in_proposed = None, in_initialDraft = None\<rparr>"

definition sampleSession :: editSession where
  "sampleSession = createSession sampleInput"

lemmas sample_defs = sampleSector_def otherSector_def sampleNr_def sampleLte_def sampleLive_def sampleInput_def

lemma cellOk_samples: "cellOk sampleNr" "cellOk sampleLte"
  unfolding sampleNr_def sampleLte_def by (rule cellOk_createCellDraft; simp add: noInit_def)+

lemma sample_frame [simp]:
  "ce_key sampleNr = ''c1''" "ce_key sampleLte = ''c2''" "ce_rat sampleNr = Nr" "ce_rat sampleLte = Lte"
  "ce_sectorKey sampleNr = Some ''s1''" "ce_sectorKey sampleLte = None" "se_key sampleSector = ''s1''"
  "se_key otherSector = ''s2''"
  "ce_id sampleNr = Some 11" "ce_id sampleLte = Some 12"
  "\<not> ce_isDeleted sampleNr" "\<not> ce_isDeleted sampleLte"
  by (simp_all add: sampleNr_def sampleLte_def sampleSector_def otherSector_def noInit_def)

lemma snapshotOk_sampleLive: "snapshotOk sampleLive"
  by (simp add: sampleLive_def snapshotOk_def sectorsOk_def cellsOk_def cellOk_samples rat_constants
      EMPTY_SNAPSHOT_def createEmptyStation_def backhaulOk_def)

lemma sessionOk_sample: "sessionOk sampleSession"
  unfolding sampleSession_def
  by (rule sessionOk_createSession) (simp_all add: sampleInput_def snapshotOk_sampleLive)

lemma sample_sectors_differ: "otherSector \<noteq> sampleSector" "sampleSector \<noteq> otherSector"
  by (simp_all add: sampleSector_def otherSector_def)

lemma sample_rows:
  "sn_cells (es_draft sampleSession) = [sampleNr, sampleLte]"
  "sn_sectors (es_draft sampleSession) = [sampleSector, otherSector]"
  by (simp_all add: sampleSession_def createSession_def Let_def sampleInput_def sampleLive_def
      conventionsFor_def plConventions_def applyTacRule_def shareAgreeingTacs_def)

section \<open>The reducer keeps the session well formed\<close>

text \<open>
  C1. Whatever actions the editor dispatches, in whatever order, the session they lead to is well
  formed: sector and cell keys name one row each, no cell points at a sector that is gone, the
  sector limit holds, non-standalone NR cells show no standalone-only value, a country that keeps
  tracking area codes per cell has no shared one, the enabled technologies are in their order and
  cover the cells. What the reducer is handed from outside must be well formed itself, as \<open>actionOk\<close>
  states it: the snapshots the session is made of and those it is rebased onto, the rows that a tool
  applies, the sector and mode a patch names; new keys are new; and a row is reverted only while the
  rows of the draft have the technologies of the live rows with their keys. The snapshot of a
  proposal that deletes a cell and removes its sector is not well formed, and a session rebased onto
  it is outside this theorem.
\<close>

theorem reducer_run_well_formed:
  assumes "baseOk (in_live input)" "baseOk (in_proposed input)" "baseOk (in_initialDraft input)"
    and "runOk draftStep draftStepOk (createSession input) events"
  shows "sessionOk (runAll draftStep (createSession input) events)"
  using sessionOk_createSession [OF assms(1-3)] assms(4) by (rule editor.run_inv)

theorem reducer_run_well_formed_witness:
  "sessionOk (runAll draftStep (createSession sampleInput)
    [(False, ''k1'', AddSector (Some 240) None), (False, ''k2'', RemoveSector ''s1''),
     (False, ''k3'', SetHoistedTac False)])"
proof (rule reducer_run_well_formed)
  show "runOk draftStep draftStepOk (createSession sampleInput)
    [(False, ''k1'', AddSector (Some 240) None), (False, ''k2'', RemoveSector ''s1''),
     (False, ''k3'', SetHoistedTac False)]"
    by (simp add: draftStepOk_def hasSectorRow_def createSession_def Let_def sampleInput_def sampleLive_def)
qed (simp_all add: sampleInput_def snapshotOk_sampleLive)

section \<open>Area codes\<close>

text \<open>Counting in a \<open>Map\<close>: one entry per value, in the order of first occurrence.\<close>

lemma update_counts:
  "AList.update v (Suc (count_list xs v)) (map (\<lambda>w. (w, count_list xs w)) (uniq xs))
    = map (\<lambda>w. (w, count_list (xs @ [v]) w)) (uniq (xs @ [v]))"
proof -
  have update: "distinct ws \<Longrightarrow> AList.update v (Suc (g v)) (map (\<lambda>w. (w, g w)) ws) =
      (if v \<in> set ws then map (\<lambda>w. (w, if w = v then Suc (g w) else g w)) ws
       else map (\<lambda>w. (w, g w)) ws @ [(v, Suc (g v))])" for ws and g :: "'a \<Rightarrow> nat"
    by (induction ws) auto
  have snoc: "uniq (ys @ [v]) = (if v \<in> set ys then uniq ys else uniq ys @ [v])" for ys
    by (induction ys) auto
  show ?thesis
    by (auto simp: update snoc count_list_append)
qed

lemma counts_fold:
  "fold countValue xs [] = map (\<lambda>w. (w, count_list xs w)) (uniq xs)"
proof (induction xs rule: rev_induct)
  case (snoc v xs)
  have "map_of (map (\<lambda>w. (w, count_list xs w)) ws) v
      = (if v \<in> set ws then Some (count_list xs v) else None)" for ws
    by (induction ws) auto
  then have "(case map_of (map (\<lambda>w. (w, count_list xs w)) (uniq xs)) v of None \<Rightarrow> 0 | Some n \<Rightarrow> n)
      = count_list xs v"
    by (simp add: count_list_0_iff)
  note count = this
  have "fold countValue (xs @ [v]) [] = countValue v (map (\<lambda>w. (w, count_list xs w)) (uniq xs))"
    by (simp add: snoc)
  also have "\<dots> = map (\<lambda>w. (w, count_list (xs @ [v]) w)) (uniq (xs @ [v]))"
    unfolding countValue_def count by (rule update_counts)
  finally show ?case .
qed simp

lemma pickWinner_map:
  "pickWinner (map (\<lambda>v. (v, g v)) vs) (winner, n) =
    (case List.find (\<lambda>v. n < g v \<and> list_all (\<lambda>w. g w \<le> g v) vs) vs of
       None \<Rightarrow> (winner, n) | Some v \<Rightarrow> (Some v, g v))"
proof (induction vs arbitrary: winner n)
  case (Cons v vs)
  show ?case
  proof (cases "g v \<le> n")
    case True
    then have "List.find (\<lambda>x. n < g x \<and> list_all (\<lambda>w. g w \<le> g x) (v # vs)) vs
        = List.find (\<lambda>x. n < g x \<and> list_all (\<lambda>w. g w \<le> g x) vs) vs"
      by (intro find_cong) auto
    with True Cons.IH show ?thesis by simp
  next
    case False
    show ?thesis
    proof (cases "\<forall>w\<in>set vs. g w \<le> g v")
      case True
      then have "List.find (\<lambda>x. g v < g x \<and> list_all (\<lambda>w. g w \<le> g x) vs) vs = None"
        by (auto simp: find_None_iff)
      with False True Cons.IH show ?thesis by simp
    next
      case larger: False
      have "List.find (\<lambda>x. n < g x \<and> list_all (\<lambda>w. g w \<le> g x) (v # vs)) vs
          = List.find (\<lambda>x. g v < g x \<and> list_all (\<lambda>w. g w \<le> g x) vs) vs"
        using False larger by (intro find_cong refl) fastforce
      moreover have "List.find (\<lambda>x. g v < g x \<and> list_all (\<lambda>w. g w \<le> g x) vs) vs \<noteq> None"
      proof -
        have "vs \<noteq> []" using larger by auto
        then have "Max (g ` set vs) \<in> g ` set vs" by (intro Max_in) simp_all
        then obtain m where "m \<in> set vs" "g m = Max (g ` set vs)" by (metis imageE)
        then have m: "m \<in> set vs" "\<forall>w\<in>set vs. g w \<le> g m" by simp_all
        with larger show ?thesis by (force simp: find_None_iff)
      qed
      ultimately show ?thesis using False larger Cons.IH [of "Some v" "g v"] by auto
    qed
  qed
qed simp

lemma find_uniq: "List.find P (uniq xs) = List.find P xs"
proof (induction xs)
  case (Cons x xs)
  have "\<not> P x \<Longrightarrow> List.find P (filter (\<lambda>y. y \<noteq> x) ys) = List.find P ys" for ys
    by (induction ys) auto
  with Cons show ?case by simp
qed simp

text \<open>
  The area code the editor unifies a technology to is the most frequent one among the cells
  that carry an area code and are not deleted; of several equally frequent codes, the one that
  occurs first. No such cell with a code: none.
\<close>

theorem most_frequent_area_code:
  "findMostFrequentAreaCode cells r =
    (let values = areaCodeValues cells r
     in List.find (\<lambda>v. list_all (\<lambda>w. count_list values w \<le> count_list values v) values) values)"
proof -
  let ?vs = "areaCodeValues cells r"
  have "List.find (\<lambda>v. 0 < count_list ?vs v \<and> list_all (\<lambda>w. count_list ?vs w \<le> count_list ?vs v) (uniq ?vs))
      (uniq ?vs)
    = List.find (\<lambda>v. list_all (\<lambda>w. count_list ?vs w \<le> count_list ?vs v) ?vs) (uniq ?vs)"
    by (rule find_cong) (auto simp: count_list_0_iff simp flip: neq0_conv)
  then show ?thesis
    unfolding findMostFrequentAreaCode_def counts_fold pickWinner_map Let_def
    by (simp add: find_uniq split: option.split)
qed

lemma agreeing_values: "\<not> 1 < length (uniq vs) \<Longrightarrow> v \<in> set vs \<Longrightarrow> v = hd vs"
proof -
  assume short: "\<not> 1 < length (uniq vs)" and v: "v \<in> set vs"
  from v obtain a ws where vs: "vs = a # ws" by (cases vs) auto
  with short have "filter (\<lambda>y. y \<noteq> a) (uniq ws) = []" by simp
  then have "\<forall>y\<in>set ws. y = a" by (simp add: filter_empty_conv)
  with v vs show ?thesis by auto
qed

lemma deriveAreaCode_carrier:
  assumes "deriveAreaCode cells r = Shared v" "c \<in> set cells"
    "ce_rat c = r" "\<not> ce_isDeleted c" "carriesAreaCode c"
  shows "getCellNumber c (getAreaCodeField r) = v"
proof -
  let ?vs = "map (\<lambda>c. getCellNumber c (getAreaCodeField r)) (areaCarriers cells r)"
  have "getCellNumber c (getAreaCodeField r) \<in> set ?vs"
    using assms(2-5) by (auto simp: areaCarriers_def)
  then have "\<not> 1 < length (uniq ?vs) \<Longrightarrow> getCellNumber c (getAreaCodeField r) = hd ?vs" "?vs \<noteq> []"
    using agreeing_values [of ?vs] by auto
  moreover have "\<not> 1 < length (uniq ?vs)" "v = (case ?vs of [] \<Rightarrow> None | v # _ \<Rightarrow> v)"
    using assms(1) by (auto simp: deriveAreaCode_def Let_def split: if_splits)
  ultimately show ?thesis by (simp split: list.splits)
qed

lemma getAreaValue_shareAgreeingTacs:
  assumes "c \<in> set (sn_cells sn)" "\<not> ce_isDeleted c"
  shows "getAreaValue (shareAgreeingTacs sn) c = getAreaValue sn c"
proof (cases "carriesAreaCode c \<and> sn_areaCodes sn (ce_rat c) = PerCell")
  case True
  then show ?thesis
    using deriveAreaCode_carrier [OF _ assms(1) refl assms(2)]
    by (cases "deriveAreaCode (sn_cells sn) (ce_rat c)")
      (auto simp: getAreaValue_def shareAgreeingTacs_def Let_def)
next
  case False
  then show ?thesis
    by (cases "sn_areaCodes sn (ce_rat c)") (auto simp: getAreaValue_def shareAgreeingTacs_def Let_def)
qed

lemma getAreaValue_splitSharedTacs:
  "getAreaValue (splitSharedTacs sn)
     (if ce_rat c \<in> set TAC_RATS then copySharedAreaCode c (sn_areaCodes sn (ce_rat c)) else c)
    = getAreaValue sn c"
  by (cases "sn_areaCodes sn (ce_rat c)")
    (auto simp: getAreaValue_def areaCodes_splitSharedTacs copySharedAreaCode_def getCellNumber_def
      carriesAreaCode_def)

text \<open>
  C2. Moving a snapshot to a country's tracking area code rule, in either direction, keeps the area
  code every cell that is not deleted shows: splitting copies the shared code to the cells, sharing
  happens only where the cells agree.
\<close>

theorem tac_rule_keeps_area_values:
  "map (getAreaValue (applyTacRule sn h)) (filter (\<lambda>c. \<not> ce_isDeleted c) (sn_cells (applyTacRule sn h)))
    = map (getAreaValue sn) (filter (\<lambda>c. \<not> ce_isDeleted c) (sn_cells sn))"
proof (cases h)
  case True
  then have "sn_cells (applyTacRule sn h) = sn_cells sn"
    by (simp add: applyTacRule_def shareAgreeingTacs_def Let_def)
  with True show ?thesis by (simp add: applyTacRule_def getAreaValue_shareAgreeingTacs)
next
  case False
  have "getAreaValue (splitSharedTacs sn) (f c) = getAreaValue sn c"
    if "f = (\<lambda>c. if ce_rat c \<in> set TAC_RATS then copySharedAreaCode c (sn_areaCodes sn (ce_rat c)) else c)"
    for f c unfolding that by (rule getAreaValue_splitSharedTacs)
  moreover have "ce_isDeleted (if ce_rat c \<in> set TAC_RATS
      then copySharedAreaCode c (sn_areaCodes sn (ce_rat c)) else c) = ce_isDeleted c" for c by simp
  ultimately show ?thesis
    using False by (simp only: applyTacRule_def cells_splitSharedTacs filter_map comp_def map_map if_False)
qed

text \<open>
  Patching a cell: patching again with the same patch changes nothing, a non-standalone cell shows
  no standalone-only value and a cell of another technology has no mode, and each number shows what
  the patch says of it if the technology has that field, and its old value otherwise.
\<close>

theorem patch_cell:
  "patchCell (patchCell c p) p = patchCell c p \<and> nsaClean (patchCell c p) \<and>
   getCellNumber (patchCell c p) f =
     (if f \<in> saNumbers (ce_rat c) \<and> resolveMode c p = Some Nsa then None
      else case Option.bind (cp_numbers p) (\<lambda>q. if f \<in> ratNumbers (ce_rat c) then q f else None) of
             Some v \<Rightarrow> v | None \<Rightarrow> getCellNumber c f)"
proof -
  have patched: "getCellNumber (patchedCell c p) f =
     (if f \<in> saNumbers (ce_rat c) \<and> resolveMode c p = Some Nsa then None
      else case Option.bind (cp_numbers p) (\<lambda>q. if f \<in> ratNumbers (ce_rat c) then q f else None) of
             Some v \<Rightarrow> v | None \<Rightarrow> getCellNumber c f)"
    by (cases "cp_numbers p")
      (auto simp: getCellNumber_def numbers_patchedCell mergeNumbers_apply split: option.splits)
  show ?thesis
  proof (cases "f \<in> ratNumbers (ce_rat c)")
    case True
    then show ?thesis
      unfolding number_patchCell [OF True] patched by (simp add: patchCell_idem nsaClean_patchCell)
  next
    case False
    then have "f \<notin> saNumbers (ce_rat c)" using saNumbers_ratNumbers by blast
    then have "getCellNumber (patchCell c p) f = getCellNumber c f"
      using False patched by (cases rule: patchCell_cases [of c p]) (simp_all split: option.splits bind_splits)
    with False \<open>f \<notin> saNumbers (ce_rat c)\<close> show ?thesis
      by (cases "cp_numbers p") (simp_all add: patchCell_idem nsaClean_patchCell)
  qed
qed

lemma withCells_same_rats:
  assumes "ratsOk (es_enabledRats s) old" "ce_rat ` set cells \<subseteq> set (es_enabledRats s)"
  shows "withCells s cells = s\<lparr>es_draft := (es_draft s)\<lparr>sn_cells := cells\<rparr>\<rparr>"
proof -
  have "listEnabledRats (es_enabledRats s) cells = filter (\<lambda>r. r \<in> set (es_enabledRats s)) RAT_ORDER"
    unfolding listEnabledRats_def using assms(2) by (intro filter_cong refl) auto
  also have "\<dots> = es_enabledRats s" using assms(1) by (simp add: ratsOk_def)
  finally show ?thesis by (simp add: withCells_def withDraft_def Let_def)
qed

lemma findIndex_map: "findIndex P (map f xs) = findIndex (\<lambda>x. P (f x)) xs"
  by (induction xs) auto

text \<open>
  C3. Removing a stored cell and restoring it gives back exactly the session before.
\<close>

theorem remove_then_restore:
  assumes "sessionOk s" "findIndex (\<lambda>c. ce_key c = key) (sn_cells (es_draft s)) = Some i"
    and "ce_id (sn_cells (es_draft s) ! i) \<noteq> None" "\<not> ce_isDeleted (sn_cells (es_draft s) ! i)"
  shows "\<exists>s'. removeCell s key = Some s' \<and> restoreCell s' key = Some s"
proof -
  let ?cells = "sn_cells (es_draft s)"
  let ?gone = "(?cells ! i)\<lparr>ce_isDeleted := True\<rparr>"
  have i: "i < length ?cells" using findIndex_Some [OF assms(2)] by simp
  have rats: "ratsOk (es_enabledRats s) ?cells" using assms(1) by (simp add: sessionOk_def)
  have map_same: "map g (?cells[i := ?gone]) = map g ?cells" if "g ?gone = g (?cells ! i)" for g :: "cellDraft \<Rightarrow> 'b"
    using i that by (simp add: map_update list_update_same_conv)
  have "map ce_rat (?cells[i := ?gone]) = map ce_rat ?cells" by (rule map_same) simp
  then have "ce_rat ` set (?cells[i := ?gone]) = ce_rat ` set ?cells" by (metis set_map)
  then have removed: "removeCell s key
      = Some (s\<lparr>es_draft := (es_draft s)\<lparr>sn_cells := ?cells[i := ?gone]\<rparr>\<rparr>)"
    using assms rats withCells_same_rats [OF rats, of "?cells[i := ?gone]"]
    by (simp add: removeCell_def replaceCell_def Let_def ratsOk_def)
  have "findIndex (\<lambda>k. k = key) (map ce_key (?cells[i := ?gone])) = Some i"
    using map_same [of ce_key] assms(2) by (simp add: findIndex_map)
  then have found: "findIndex (\<lambda>c. ce_key c = key) (?cells[i := ?gone]) = Some i"
    by (simp only: findIndex_map)
  have same: "(?cells ! i)\<lparr>ce_isDeleted := False\<rparr> = ?cells ! i"
    by (rule cellDraft.equality) (simp_all add: assms(4))
  have "restoreCell (s\<lparr>es_draft := (es_draft s)\<lparr>sn_cells := ?cells[i := ?gone]\<rparr>\<rparr>) key = Some s"
    using found i assms(4) rats withCells_same_rats [of "s\<lparr>es_draft := (es_draft s)\<lparr>sn_cells := ?cells[i := ?gone]\<rparr>\<rparr>" ?cells ?cells]
    by (simp add: restoreCell_def replaceCell_def Let_def ratsOk_def same)
  with removed show ?thesis by blast
qed

theorem remove_then_restore_witness:
  "\<exists>s'. removeCell sampleSession ''c2'' = Some s' \<and> restoreCell s' ''c2'' = Some sampleSession"
proof (rule remove_then_restore [OF sessionOk_sample])
  show "findIndex (\<lambda>c. ce_key c = ''c2'') (sn_cells (es_draft sampleSession)) = Some 1"
    by (simp add: sample_rows)
qed (simp_all add: sample_rows)section \<open>Sectors\<close>

lemma detachCells_same:
  assumes "cellsOk keys cells" "keys \<subseteq> se_key ` set sectors"
  shows "detachCells cells sectors = cells"
  using assms by (auto simp: detachCells_def cellsOk_def isAttached_iff)

lemma keys_foundRows:
  "map key (concat (map (foundRow key rows) ks)) = filter (\<lambda>k. k \<in> key ` set rows) ks"
  by (induction ks) (auto simp: foundRow_def find_None_iff find_Some_iff split: option.split)

text \<open>
  Ordering the sectors by a list of keys puts the named sectors first, in the order of the keys
  (a key named twice or naming no sector is ignored), keeps the order of the rest, loses and adds no
  sector, and leaves every cell at its sector.
\<close>

theorem order_sectors:
  assumes "sessionOk s" "orderSectors s keys = Some s'"
  shows "map se_key (sn_sectors (es_draft s'))
      = filter (\<lambda>k. k \<in> set (map se_key (sn_sectors (es_draft s)))) (uniq keys)
        @ filter (\<lambda>k. k \<notin> set keys) (map se_key (sn_sectors (es_draft s)))
    \<and> mset (sn_sectors (es_draft s')) = mset (sn_sectors (es_draft s))
    \<and> sn_cells (es_draft s') = sn_cells (es_draft s)"
proof -
  let ?rows = "sn_sectors (es_draft s)"
  have s': "s' = withSectors s (orderedRows keys ?rows)"
    using assms(2) by (auto simp: orderSectors_eq Let_def split: if_splits)
  have perm: "mset (orderedRows keys ?rows) = mset ?rows"
    using sessionOk_sectors [OF assms(1)] by (intro mset_orderedRows) (simp add: sectorsOk_def)
  have "set (orderedRows keys ?rows) = set ?rows" using perm by (rule mset_eq_setD)
  then have "sn_cells (es_draft s') = sn_cells (es_draft s)"
    using detachCells_same [OF sessionOk_cells [OF assms(1)]] by (simp add: s')
  moreover have "map se_key (orderedRows keys ?rows)
      = filter (\<lambda>k. k \<in> set (map se_key ?rows)) (uniq keys) @ filter (\<lambda>k. k \<notin> set keys) (map se_key ?rows)"
    by (simp only: orderedRows_def map_append keys_foundRows set_map set_uniq filter_map comp_def)
  ultimately show ?thesis using perm by (simp add: s')
qed

theorem order_sectors_witness:
  "\<exists>s'. orderSectors sampleSession [''s2'', ''zz''] = Some s' \<and>
     map se_key (sn_sectors (es_draft s')) = [''s2'', ''s1'']"
proof -
  have "orderSectors sampleSession [''s2'', ''zz''] = Some (withSectors sampleSession [otherSector, sampleSector])"
    using sample_sectors_differ by (simp add: orderSectors_eq orderedRows_def foundRow_def Let_def sample_rows)
  note ordered = this
  have "map se_key (sn_sectors (es_draft (withSectors sampleSession [otherSector, sampleSector]))) = [''s2'', ''s1'']"
    unfolding order_sectors [OF sessionOk_sample ordered, THEN conjunct1] by (simp add: sample_rows)
  with ordered show ?thesis by (intro exI conjI)
qed

section \<open>Computed cell ids\<close>

lemma rat_split_unique:
  fixes n n' c c' k :: number
  assumes "n * k + c = n' * k + c'" "isInteger n" "isInteger n'" "0 \<le> c" "c < k" "0 \<le> c'" "c' < k"
  shows "n = n' \<and> c = c'"
proof -
  obtain i j where ij: "n = of_int i" "n' = of_int j" using assms(2,3) by (auto simp: isInteger_iff)
  have "(n - n') * k = c' - c" using assms(1) by (simp add: algebra_simps)
  moreover have "0 < k" using assms(4,5) by linarith
  moreover have "- k < c' - c" "c' - c < k" using assms(4-7) by linarith+
  ultimately have "- 1 < n - n'" "n - n' < 1"
    by (metis mult_less_cancel_right_pos mult_minus1 , metis mult_less_cancel_right_pos mult_1)
  then have "i = j" by (simp add: ij)
  then show ?thesis using assms(1) ij by simp
qed

definition cellIdFactor :: "cellDraft \<Rightarrow> int \<Rightarrow> number" where
  "cellIdFactor c defaultGnbidLength =
    (case ce_rat c of Umts \<Rightarrow> LONG_CID_RNC_FACTOR | Lte \<Rightarrow> ECI_ENBID_FACTOR
     | Nr \<Rightarrow> pow2 (NCI_BITS - (case ce_gnbidLength c of None \<Rightarrow> defaultGnbidLength | Some l \<Rightarrow> l))
     | Gsm \<Rightarrow> 1)"

lemma computeCellId_Some:
  assumes "computeCellId c L = Some x"
  obtains nf cf n i where "rs_nodeField (RAT_FIELDS (ce_rat c)) = Some nf"
    "rs_cellIdField (RAT_FIELDS (ce_rat c)) = Some cf"
    "getCellNumber c nf = Some n" "getCellNumber c cf = Some i" "x = n * cellIdFactor c L + i"
  using assms
  by (cases "ce_rat c") (auto simp: computeCellId_def cellIdFactor_def split: option.splits if_splits)

text \<open>What the editor's validation accepts: integers from 0 to the field's largest value.\<close>

definition validNumber :: "cellDraft \<Rightarrow> int \<Rightarrow> cellNumberField \<Rightarrow> bool" where
  "validNumber c L f =
    (case (getCellNumber c f, findNumberFieldSpec (ce_rat c) f) of
       (Some v, Some spec) \<Rightarrow> isInteger v \<and> 0 \<le> v \<and> v \<le> getCellNumberMax c spec L
     | _ \<Rightarrow> False)"

lemma valid_cellId:
  assumes "validNumber c L cf" "rs_cellIdField (RAT_FIELDS (ce_rat c)) = Some cf"
    "getCellNumber c cf = Some i"
  shows "0 \<le> i \<and> i < cellIdFactor c L \<or> ce_rat c = Gsm"
  using assms
  by (cases "ce_rat c")
    (auto simp: validNumber_def cellIdFactor_def findNumberFieldSpec_def getCellNumberMax_def field_specs
      rat_constants split: option.splits)

text \<open>
  The id the editor computes for a cell (long CID, ECI, NCI) names its node and its cell: two cells
  of one technology with the same gNBID length and valid numbers that have the same id have the same
  node and the same cell number.
\<close>

theorem cell_id_unique:
  assumes "computeCellId c L = Some x" "computeCellId c' L = Some x"
    and "ce_rat c' = ce_rat c" "ce_gnbidLength c' = ce_gnbidLength c"
    and "rs_nodeField (RAT_FIELDS (ce_rat c)) = Some nf" "rs_cellIdField (RAT_FIELDS (ce_rat c)) = Some cf"
    and "validNumber c L nf" "validNumber c' L nf" "validNumber c L cf" "validNumber c' L cf"
  shows "getCellNumber c nf = getCellNumber c' nf \<and> getCellNumber c cf = getCellNumber c' cf"
proof -
  obtain n i where c: "getCellNumber c nf = Some n" "getCellNumber c cf = Some i"
      "x = n * cellIdFactor c L + i"
    using assms(5,6) by (rule_tac computeCellId_Some [OF assms(1)]) auto
  obtain n' i' where c': "getCellNumber c' nf = Some n'" "getCellNumber c' cf = Some i'"
      "x = n' * cellIdFactor c' L + i'"
    using assms(3,5,6) by (rule_tac computeCellId_Some [OF assms(2)]) auto
  have "ce_rat c \<noteq> Gsm" using assms(5) by auto
  then have bounds: "0 \<le> i" "i < cellIdFactor c L" "0 \<le> i'" "i' < cellIdFactor c' L"
    using valid_cellId [OF assms(9,6) c(2)] valid_cellId [OF assms(10) _ c'(2)] assms(3,6) by auto
  have integers: "isInteger n" "isInteger n'"
    using assms(7,8) c(1) c'(1) by (simp_all add: validNumber_def split: option.splits)
  have "cellIdFactor c' L = cellIdFactor c L" by (simp only: cellIdFactor_def assms(3,4))
  then have "n = n' \<and> i = i'"
    using rat_split_unique [of n "cellIdFactor c L" i n' i'] integers bounds c(3) c'(3) by simp
  with c c' show ?thesis by simp
qed

theorem cell_id_unique_witness:
  "getCellNumber sampleLte Enbid = getCellNumber (sampleLte\<lparr>ce_key := ''c9''\<rparr>) Enbid \<and>
   getCellNumber sampleLte Clid = getCellNumber (sampleLte\<lparr>ce_key := ''c9''\<rparr>) Clid"
proof (rule cell_id_unique [where L = 24 and x = 2049])
  have numbers: "getCellNumber sampleLte Enbid = Some 8" "getCellNumber sampleLte Clid = Some 1"
    by (simp_all add: sampleLte_def number_createCellDraft noInit_def)
  have same: "getCellNumber (sampleLte\<lparr>ce_key := k\<rparr>) f = getCellNumber sampleLte f" for k f
    by (simp add: getCellNumber_def)
  show "computeCellId sampleLte 24 = Some 2049" "computeCellId (sampleLte\<lparr>ce_key := ''c9''\<rparr>) 24 = Some 2049"
    by (simp_all add: computeCellId_def same numbers isKnownNode_def rat_constants)
  show "validNumber sampleLte 24 Enbid" "validNumber (sampleLte\<lparr>ce_key := ''c9''\<rparr>) 24 Enbid"
    "validNumber sampleLte 24 Clid" "validNumber (sampleLte\<lparr>ce_key := ''c9''\<rparr>) 24 Clid"
    by (simp_all add: validNumber_def same numbers findNumberFieldSpec_def getCellNumberMax_def field_specs)
qed simp_all

section \<open>Equivalent eNBIDs\<close>

lemma firstDigitPlace_iff:
  assumes "0 < n" "0 < m"
  shows "firstDigitPlace m = firstDigitPlace n \<longleftrightarrow> firstDigitPlace n \<le> m \<and> m < 10 * firstDigitPlace n"
  using firstDigitPlace_bounds [OF assms(2)] firstDigitPlace_unique [OF _ _ assms(1)] by metis

lemma plEquivalentEnbids_iff:
  assumes "isNetworksMember op" "9 < n"
  shows "m \<in> set (plEquivalentEnbids op n) \<longleftrightarrow>
    9 < m \<and> firstDigitPlace m = firstDigitPlace n \<and> m mod firstDigitPlace n = n mod firstDigitPlace n"
proof -
  let ?p = "firstDigitPlace n"
  have "?p = 10 * firstDigitPlace (n div 10)" using assms(2) by (subst firstDigitPlace.simps) simp
  then have p: "10 \<le> ?p" using firstDigitPlace_pos [of "n div 10"] by linarith
  have "m \<in> set (plEquivalentEnbids op n) \<longleftrightarrow> (\<exists>d\<in>{1..9}. m = n mod ?p + d * ?p)"
  proof -
    have "{1..9} = set [1, 2, 3, 4, 5, 6, 7, 8, 9::nat]" by (simp add: atLeastAtMost_def) auto
    then show ?thesis using assms by (auto simp: plEquivalentEnbids_def)
  qed
  also have "\<dots> \<longleftrightarrow> ?p \<le> m \<and> m < 10 * ?p \<and> m mod ?p = n mod ?p"
  proof
    assume "\<exists>d\<in>{1..9}. m = n mod ?p + d * ?p"
    then obtain d where d: "1 \<le> d" "d \<le> 9" "m = n mod ?p + d * ?p" by auto
    have "n mod ?p < ?p" by simp
    moreover have "1 * ?p \<le> d * ?p" "d * ?p \<le> 9 * ?p" using d by (intro mult_le_mono1; simp)+
    ultimately have "?p \<le> m" "m < 10 * ?p" unfolding d(3) by linarith+
    then show "?p \<le> m \<and> m < 10 * ?p \<and> m mod ?p = n mod ?p" by (simp add: d(3))
  next
    assume m: "?p \<le> m \<and> m < 10 * ?p \<and> m mod ?p = n mod ?p"
    have "m = n mod ?p + m div ?p * ?p" using m by (metis add.commute div_mult_mod_eq)
    moreover have "1 \<le> m div ?p" using m by (simp add: div_greater_zero_iff Suc_le_eq)
    moreover have "m div ?p \<le> 9" using m by (simp add: less_mult_imp_div_less less_Suc_eq_le [symmetric])
    ultimately show "\<exists>d\<in>{1..9}. m = n mod ?p + d * ?p" by auto
  qed
  also have "\<dots> \<longleftrightarrow> 9 < m \<and> firstDigitPlace m = ?p \<and> m mod ?p = n mod ?p"
    using p firstDigitPlace_iff [of n m] assms(2) by (cases "m = 0") auto
  finally show ?thesis .
qed

text \<open>
  The eNBIDs an operator's network treats as one (those of a shared network differ in their leading
  digit) form classes: every eNBID is in its own, and another is in it exactly if it has the same.
\<close>

theorem equivalent_enbids:
  "n \<in> set (plEquivalentEnbids operator n) \<and>
   (m \<in> set (plEquivalentEnbids operator n)) = (set (plEquivalentEnbids operator m) = set (plEquivalentEnbids operator n))"
proof (cases "isNetworksMember operator \<and> 9 < n")
  case True
  note iff = plEquivalentEnbids_iff [OF conjunct1 [OF True]]
  have self: "n \<in> set (plEquivalentEnbids operator n)" using iff [of n n] True by simp
  show ?thesis
  proof (cases "9 < m")
    case big: True
    have selfm: "m \<in> set (plEquivalentEnbids operator m)" using iff [of m m] big by simp
    have "set (plEquivalentEnbids operator m) = set (plEquivalentEnbids operator n)"
      if "m \<in> set (plEquivalentEnbids operator n)"
    proof -
      have "firstDigitPlace m = firstDigitPlace n" "m mod firstDigitPlace n = n mod firstDigitPlace n"
        using that iff [of n m] True by simp_all
      then show ?thesis using iff [of n] iff [OF big] True by (simp add: set_eq_iff)
    qed
    then show ?thesis using self selfm by blast
  next
    case False
    then have "set (plEquivalentEnbids operator m) = {m}" "m \<notin> set (plEquivalentEnbids operator n)"
      using iff [of n m] True by (auto simp: plEquivalentEnbids_def)
    then show ?thesis using self by auto
  qed
next
  case False
  then have n: "set (plEquivalentEnbids operator n) = {n}" by (auto simp: plEquivalentEnbids_def)
  have m: "m \<in> set (plEquivalentEnbids operator m)"
  proof (cases "isNetworksMember operator \<and> 9 < m")
    case True then show ?thesis using plEquivalentEnbids_iff [of operator m m] by simp
  next
    case False then show ?thesis by (auto simp: plEquivalentEnbids_def)
  qed
  with n show ?thesis by auto
qed

section \<open>Server errors, host stations, operators\<close>

definition keepsErrors :: "editSession \<Rightarrow> editSession option \<Rightarrow> bool" where
  "keepsErrors s r \<longleftrightarrow> (case r of None \<Rightarrow> True | Some s' \<Rightarrow> es_serverErrors s' = es_serverErrors s)"

lemma keepsErrors_simps [simp]:
  "keepsErrors s None" "keepsErrors s (Some s') \<longleftrightarrow> es_serverErrors s' = es_serverErrors s"
  by (simp_all add: keepsErrors_def)

lemma errors_writes [simp]:
  "es_serverErrors (withDraft s d) = es_serverErrors s"
  "es_serverErrors (withStation s st) = es_serverErrors s"
  "es_serverErrors (withPlace s p) = es_serverErrors s"
  "es_serverErrors (withSectors s rows) = es_serverErrors s"
  by (simp_all add: withDraft_def withStation_def withPlace_def withSectors_def)

lemma errors_settle: "keepsErrors s r \<Longrightarrow> es_serverErrors (settle s r) = es_serverErrors s"
  by (cases r) simp_all

lemma keepsErrors_handBack [simp]: "es_serverErrors fresh = es_serverErrors s \<Longrightarrow> keepsErrors s (handBack same b c fresh)"
  by (simp add: handBack_def)

lemma errors_station [simp]:
  "keepsErrors s (patchStation s sp)" "keepsErrors s (dropOwnerPlmn s plmn)"
  "keepsErrors s (setHostStation s i)" "keepsErrors s (setIdentifier s k v)"
  "keepsErrors s (setBackhaul s bp)" "keepsErrors s (patchPlace s pp)" "keepsErrors s (pickPlace s pd)"
  "keepsErrors s (patchStructure s tp)"
  by (simp_all add: patchStation_def dropOwnerPlmn_def setHostStation_def setIdentifier_def setBackhaul_def
      patchPlace_def pickPlace_def patchStructure_def Let_def split: option.split)

lemma errors_sectors [simp]:
  "keepsErrors s (addSector s d nk fk)" "keepsErrors s (setSector s k d)" "keepsErrors s (removeSector s k)"
  "keepsErrors s (moveSector s k i)" "keepsErrors s (orderSectors s ks)" 
  by (simp_all add: addSector_def setSector_def removeSector_def moveSector_def orderSectors_eq Let_def
      split: option.split)

lemma errors_replaceCell [simp]: "keepsErrors s (replaceCell s k f)"
  by (simp add: replaceCell_def Let_def split: option.split)

lemma errors_cells [simp]:
  "keepsErrors s (duplicateCell s k b nk fk)" "keepsErrors s (removeCell s k)" "keepsErrors s (restoreCell s k)"
  "keepsErrors s (withAreaCode s r ac)" "keepsErrors s (shareAreaCode s r v)" "keepsErrors s (setHoistedTac s h)"
  "keepsErrors s (setEnabledRats s rs)" "keepsErrors s (setAction s a)"
  by (simp_all add: duplicateCell_def removeCell_def restoreCell_def withAreaCode_def shareAreaCode_def
      setHoistedTac_def setEnabledRats_def setAction_def Let_def split: option.split)

lemma errors_setOperator [simp]: "keepsErrors s (setOperator s i plmn kinds)"
  using errors_settle [OF errors_station(2)]
  by (simp add: setOperator_def Let_def)

lemma errors_setHostStationEditing [simp]: "keepsErrors s (setHostStationEditing s b)"
  using errors_settle [OF errors_station(3)]
  by (simp add: setHostStationEditing_def Let_def)

lemma errors_dropHost [simp]: "keepsErrors s r \<Longrightarrow> keepsErrors s (dropHostOfMovedStation s r)"
  using errors_station(3) [of "settle s r" None] errors_settle [of s r]
  by (cases "setHostStation (settle s r) None")
    (auto simp: dropHostOfMovedStation_def andThen_def)

lemma errors_reverts [simp]:
  "keepsErrors s (revertStationField same s sb field)" "keepsErrors s (revertPlaceField same s pb field)"
  "keepsErrors s (revertSector s rows key)" "keepsErrors s (revertCell same s cells key field)"
  by (simp_all add: revertStationField_def revertPlaceField_def revertPlaceValue_def revertSector_def
      revertCell_def Let_def split: option.split editField.split)

lemma errors_revertAreaCode [simp]: "keepsErrors s (revertAreaCode s base r)"
  using errors_settle [OF errors_cells(4)] by (simp add: revertAreaCode_def Let_def split: option.split)

lemma errors_revertToLive [simp]: "keepsErrors s (revertToLive same s target)"
  by (simp add: revertToLive_def Let_def split: targetScope.split)

lemma applyAction_errors:
  assumes "applyAction same k s a = Some s'"
  shows "es_serverErrors s' =
    (case a of Rebase _ _ \<Rightarrow> [] | Reset \<Rightarrow> [] | SetServerErrors errors \<Rightarrow> errors | _ \<Rightarrow> es_serverErrors s)"
proof -
  have "(\<exists>l p. a = Rebase l p) \<or> a = Reset \<or> (\<exists>e. a = SetServerErrors e) \<or>
      keepsErrors s (applyAction same k s a)"
    by (cases a) (simp_all add: Let_def)
  with assms have "(\<exists>l p. a = Rebase l p) \<or> a = Reset \<or> (\<exists>e. a = SetServerErrors e) \<or>
      es_serverErrors s' = es_serverErrors s" by simp
  then show ?thesis
    using assms by (cases a) (auto simp: rebase_def resetSession_def Let_def)
qed

definition isOutdatedBy :: "editSession \<Rightarrow> draftAction \<Rightarrow> editError \<Rightarrow> bool" where
  "isOutdatedBy s a e = (case getOutdatedErrors s a of None \<Rightarrow> False | Some isOutdated \<Rightarrow> isOutdated e)"

text \<open>
  Server errors through the reducer: an action that changes nothing keeps them, rebasing and
  resetting drop all, setting them sets them, and any other action drops exactly those its target
  makes outdated.
\<close>

theorem reducer_server_errors:
  "es_serverErrors (draftReducer same k s a) =
    (case applyAction same k s a of
       None \<Rightarrow> es_serverErrors s
     | Some _ \<Rightarrow>
         (case a of
            Rebase _ _ \<Rightarrow> []
          | Reset \<Rightarrow> []
          | SetServerErrors errors \<Rightarrow> errors
          | _ \<Rightarrow> filter (\<lambda>e. \<not> isOutdatedBy s a e) (es_serverErrors s)))"
proof (cases "applyAction same k s a")
  case None
  then show ?thesis by (simp add: draftReducer_def)
next
  case (Some s')
  have same_length: "length (filter P xs) = length xs \<Longrightarrow> filter P xs = xs" for P and xs :: "editError list"
    by (metis filter_True length_filter_less less_irrefl)
  have kept: "es_serverErrors (dropOutdated s a s') = filter (\<lambda>e. \<not> isOutdatedBy s a e) (es_serverErrors s)"
    if "es_serverErrors s' = es_serverErrors s"
    using that same_length
    by (auto simp: dropOutdated_def isOutdatedBy_def Let_def split: option.split) (metis same_length)
  show ?thesis
    using Some applyAction_errors [OF Some] kept
    by (cases a) (simp_all add: draftReducer_def dropOutdated_def)
qed

definition isPlaceAction :: "draftAction \<Rightarrow> bool" where
  "isPlaceAction a = (case a of SetPlace _ \<Rightarrow> True | PickPlace _ \<Rightarrow> True | SetMove _ \<Rightarrow> True
     | RevertToLive target \<Rightarrow> ft_scope target = ScPlace | _ \<Rightarrow> False)"

lemma setHostStation_frame:
  "setHostStation s i = Some t \<Longrightarrow> st_hostStationId (sn_station (es_draft t)) = i \<and>
     sn_place (es_draft t) = sn_place (es_draft s) \<and> es_live t = es_live s \<and>
     es_editsHostStations t = es_editsHostStations s"
  by (auto simp: setHostStation_def Let_def withStation_def withDraft_def split: if_splits)

lemma leavesHostLocation_cong:
  "sn_place (es_draft t) = sn_place (es_draft t') \<Longrightarrow> es_live t = es_live t' \<Longrightarrow>
   leavesHostLocation s t = leavesHostLocation s t'"
proof -
  assume "sn_place (es_draft t) = sn_place (es_draft t')" "es_live t = es_live t'"
  then have "movesStationAlone t = movesStationAlone t'" "findStationLocationId t = findStationLocationId t'"
    by (simp_all add: movesStationAlone_def hasMarkerMoved_def findStationLocationId_def split: option.split)
  with \<open>es_live t = es_live t'\<close> show ?thesis by (simp add: leavesHostLocation_def split: option.split)
qed

lemma dropHost_result:
  assumes "t = settle s (dropHostOfMovedStation s r)" "es_editsHostStations t" "leavesHostLocation s t"
  shows "st_hostStationId (sn_station (es_draft t)) = None"
proof (cases "\<not> es_editsHostStations (settle s r) \<or> \<not> leavesHostLocation s (settle s r)")
  case True
  then have "t = settle s r" using assms(1) by (simp add: dropHostOfMovedStation_def)
  with True assms show ?thesis by simp
next
  case False
  then have t: "t = settle (settle s r) (setHostStation (settle s r) None)"
    using assms(1) by (simp add: dropHostOfMovedStation_def)
  show ?thesis
  proof (cases "setHostStation (settle s r) None")
    case None
    then have "st_hostStationId (sn_station (es_draft (settle s r))) = None"
      by (simp add: setHostStation_def Let_def split: if_splits)
    with t None show ?thesis by simp
  next
    case (Some t')
    with t setHostStation_frame [OF Some] show ?thesis by simp
  qed
qed

lemma settle_applyAction:
  assumes "isPlaceAction a"
  shows "(\<exists>r. settle s (applyAction same k s a) = settle s (dropHostOfMovedStation s r))
    \<or> sn_place (es_draft s) = None \<and> applyAction same k s a = None"
  using assms by (cases a) (auto simp: isPlaceAction_def Let_def)

lemma draftReducer_frame:
  "es_draft (draftReducer same k s a) = es_draft (settle s (applyAction same k s a))"
  "es_live (draftReducer same k s a) = es_live (settle s (applyAction same k s a))"
  "es_editsHostStations (draftReducer same k s a) = es_editsHostStations (settle s (applyAction same k s a))"
  by (cases "applyAction same k s a";
      simp add: draftReducer_def dropOutdated_def Let_def split: option.split)+

text \<open>
  A station that an action on its place moves away from its host's location has no host station
  afterwards, when the editor manages host stations.
\<close>

theorem moved_station_has_no_host:
  assumes "isPlaceAction a" "t = draftReducer same k s a"
    and "es_editsHostStations t" "leavesHostLocation s t"
  shows "st_hostStationId (sn_station (es_draft t)) = None"
proof -
  let ?t = "settle s (applyAction same k s a)"
  have t: "es_draft t = es_draft ?t" "es_live t = es_live ?t" "es_editsHostStations t = es_editsHostStations ?t"
    by (simp_all add: assms(2) draftReducer_frame)
  have leaves: "leavesHostLocation s ?t" using assms(4) leavesHostLocation_cong [of t ?t s] t by simp
  consider (drop) r where "?t = settle s (dropHostOfMovedStation s r)"
    | (none) "sn_place (es_draft s) = None" "applyAction same k s a = None"
    using settle_applyAction [OF assms(1), of s same k] by metis
  then show ?thesis
  proof cases
    case drop
    then show ?thesis using dropHost_result [OF drop] assms(3) leaves t by simp
  next
    case none
    then have "\<not> leavesHostLocation s ?t"
      by (simp add: leavesHostLocation_def movesStationAlone_def hasMarkerMoved_def isMarkerMoved_def
          findStationLocationId_def split: option.split)
    with leaves show ?thesis by simp
  qed
qed

definition setHost :: "editSession \<Rightarrow> int \<Rightarrow> editSession" where
  "setHost s i = s\<lparr>es_editsHostStations := True,
     es_draft := (es_draft s)\<lparr>sn_station := (sn_station (es_draft s))\<lparr>st_hostStationId := Some i\<rparr>\<rparr>\<rparr>"

definition hostedForm :: editSession where
  "hostedForm = setHost (createSession \<lparr>in_kind = KindForm, in_action = ActCreate, in_countryCode = None,
     in_live = None, in_proposed = None, in_initialDraft = None\<rparr>) 3"

theorem moved_station_has_no_host_witness:
  "st_hostStationId (sn_station (es_draft hostedForm)) = Some 3 \<and>
   st_hostStationId (sn_station (es_draft (draftReducer False ''k'' hostedForm
     (PickPlace (createEmptyPlace\<lparr>pl_locationId := Some 5\<rparr>))))) = None"
proof -
  let ?a = "PickPlace (createEmptyPlace\<lparr>pl_locationId := Some 5\<rparr>)"
  let ?t = "draftReducer False ''k'' hostedForm ?a"
  have form: "st_hostStationId (sn_station (es_draft hostedForm)) = Some 3" "es_live hostedForm = None"
    "es_editsHostStations hostedForm" "sn_place (es_draft hostedForm) = None"
    by (simp_all add: hostedForm_def setHost_def createSession_def EMPTY_SNAPSHOT_def Let_def)
  have "es_editsHostStations ?t" "leavesHostLocation hostedForm ?t"
    using form
    by (simp_all add: draftReducer_frame dropHostOfMovedStation_def pickPlace_def withPlace_def withDraft_def
        leavesHostLocation_def findStationLocationId_def setHostStation_def withStation_def Let_def)
  then have "st_hostStationId (sn_station (es_draft ?t)) = None"
    by (intro moved_station_has_no_host [where a = ?a and same = False and k = "''k''" and s = hostedForm])
      (simp_all add: isPlaceAction_def)
  with form show ?thesis by simp
qed

lemma fold_clear_kinds:
  "fold (\<lambda>kind ids. if kind \<notin> set kinds then ids(kind := []) else ids) ks ids k
    = (if k \<in> set ks \<and> k \<notin> set kinds then [] else ids k)"
  by (induction ks arbitrary: ids) auto

lemma set_IDENTIFIER_KINDS: "k \<in> set IDENTIFIER_KINDS"
  by (cases k) (simp_all add: IDENTIFIER_KINDS_def)

lemma dropOwnerPlmn_result:
  "sn_station (es_draft (settle s (dropOwnerPlmn s plmn))) = sn_station (es_draft s) \<and>
   sn_cells (es_draft (settle s (dropOwnerPlmn s plmn))) =
     map (\<lambda>c. c\<lparr>ce_extraPlmns := filter (\<lambda>code. Some code \<noteq> plmn) (ce_extraPlmns c)\<rparr>) (sn_cells (es_draft s))"
proof (cases plmn)
  case None
  have "map (\<lambda>c. c\<lparr>ce_extraPlmns := ce_extraPlmns c\<rparr>) cells = cells" for cells
    by (rule map_idI) simp
  with None show ?thesis by (simp add: dropOwnerPlmn_def)
next
  case (Some p)
  have same: "c\<lparr>ce_extraPlmns := filter (\<lambda>code. code \<noteq> p) (ce_extraPlmns c)\<rparr> = c"
    if "p \<notin> set (ce_extraPlmns c)" for c
  proof -
    have "filter (\<lambda>code. code \<noteq> p) (ce_extraPlmns c) = ce_extraPlmns c"
      using that by (auto simp: filter_id_conv)
    then show ?thesis by simp
  qed
  show ?thesis
  proof (cases "\<exists>c\<in>set (sn_cells (es_draft s)). p \<in> set (ce_extraPlmns c)")
    case True
    with Some same show ?thesis by (auto simp: dropOwnerPlmn_def intro!: map_cong same [symmetric])
  next
    case False
    then have "map (\<lambda>c. c\<lparr>ce_extraPlmns := filter (\<lambda>code. code \<noteq> p) (ce_extraPlmns c)\<rparr>) (sn_cells (es_draft s))
        = sn_cells (es_draft s)"
      using same by (intro map_idI) auto
    with Some False show ?thesis by (auto simp: dropOwnerPlmn_def)
  qed
qed

text \<open>
  Choosing an operator writes it, clears exactly the identifiers the operator does not use, and, when
  the operator changes, takes its own network out of every cell's further networks.
\<close>

theorem set_operator:
  "let t = settle s (setOperator s operatorId ownerPlmn kinds);
       station = sn_station (es_draft s)
   in sn_station (es_draft t) = station\<lparr>st_operatorId := operatorId,
        st_identifiers := (\<lambda>k. if k \<in> set kinds then st_identifiers station k else [])\<rparr>
    \<and> sn_cells (es_draft t) = (if st_operatorId station = operatorId then sn_cells (es_draft s)
        else map (\<lambda>c. c\<lparr>ce_extraPlmns := filter (\<lambda>code. Some code \<noteq> ownerPlmn) (ce_extraPlmns c)\<rparr>)
               (sn_cells (es_draft s)))"
proof -
  let ?station = "sn_station (es_draft s)"
  let ?ids = "\<lambda>k. if k \<in> set kinds then st_identifiers ?station k else []"
  have ids: "fold (\<lambda>kind ids. if kind \<notin> set kinds then ids(kind := []) else ids) IDENTIFIER_KINDS
      (st_identifiers ?station) = ?ids"
    by (rule ext) (simp add: fold_clear_kinds set_IDENTIFIER_KINDS)
  have keeps: "list_all (\<lambda>k. ?ids k = st_identifiers ?station k) IDENTIFIER_KINDS
      \<longleftrightarrow> ?ids = st_identifiers ?station"
    using set_IDENTIFIER_KINDS by (auto simp: fun_eq_iff)
  let ?next = "withStation s (?station\<lparr>st_operatorId := operatorId, st_identifiers := ?ids\<rparr>)"
  have eq: "settle s (setOperator s operatorId ownerPlmn kinds) =
     (if st_operatorId ?station = operatorId \<and> ?ids = st_identifiers ?station then s
      else if st_operatorId ?station = operatorId then ?next
      else settle ?next (dropOwnerPlmn ?next ownerPlmn))"
    unfolding setOperator_def Let_def ids keeps by auto
  have next_frame: "sn_station (es_draft ?next) = ?station\<lparr>st_operatorId := operatorId, st_identifiers := ?ids\<rparr>"
    "sn_cells (es_draft ?next) = sn_cells (es_draft s)"
    by (simp_all add: withStation_def withDraft_def)
  have unchanged: "?station\<lparr>st_operatorId := operatorId, st_identifiers := ?ids\<rparr> = ?station"
    if "st_operatorId ?station = operatorId" "?ids = st_identifiers ?station"
    using that by (intro stationDraft.equality) simp_all
  show ?thesis
    unfolding Let_def eq using unchanged next_frame dropOwnerPlmn_result [of ?next ownerPlmn] by auto
qed

end
