(* ===== verification/ChangeTheorems.thy ===== *)
theory ChangeTheorems
  imports Changes EditorTheorems
begin

text \<open>
  What the change list and the row states promise: an untouched draft has no changes, the highlight
  of a field agrees with the list, the position rule of the sector entries, the counters, and when
  the cached state of a row may be used.
\<close>

section \<open>The cached state of a row\<close>

lemma changedAgainst_draft:
  assumes "getSectorDegrees draft (ce_sectorKey c) = getSectorDegrees draft' (ce_sectorKey c)"
    and "isShared (sn_areaCodes draft (ce_rat c)) = isShared (sn_areaCodes draft' (ce_rat c))"
  shows "listChangedCellFields c b draft base len = listChangedCellFields c b draft' base len"
proof -
  have "isSectorChanged c b draft base = isSectorChanged c b draft' base"
    using assms(1) by (simp add: isSectorChanged_def)
  moreover have "isAreaValueChanged c b draft base = isAreaValueChanged c b draft' base"
    using assms(2)
    by (cases "sn_areaCodes draft (ce_rat c)"; cases "sn_areaCodes draft' (ce_rat c)")
      (auto simp: isAreaValueChanged_def getAreaValue_def)
  then have "numberChanged c b draft base = numberChanged c b draft' base"
    by (simp add: numberChanged_def fun_eq_iff)
  ultimately show ?thesis by (simp add: listChangedCellFields_def Let_def)
qed

lemma buildCellRowState_depends:
  assumes "es_live s = es_live s'" "es_proposed s = es_proposed s'"
    and "getSectorDegrees (es_draft s) (ce_sectorKey c) = getSectorDegrees (es_draft s') (ce_sectorKey c)"
    and "isShared (sn_areaCodes (es_draft s) (ce_rat c)) = isShared (sn_areaCodes (es_draft s') (ce_rat c))"
    and "cx_gnbidLength context (st_operatorId (sn_station (es_draft s)))
      = cx_gnbidLength context (st_operatorId (sn_station (es_draft s')))"
  shows "buildCellRowState s context c = buildCellRowState s' context c"
proof -
  note same = changedAgainst_draft [OF assms(3,4)]
  have against: "changedAgainst c (es_draft s) len other = changedAgainst c (es_draft s') len other" for len other
    by (simp add: changedAgainst_def same split: option.split)
  have base: "liveBase s = liveBase s'" using assms(1) by (simp add: liveBase_def)
  have kind: "getRowKind s c len = getRowKind s' c len" for len
    by (simp add: getRowKind_def base same split: option.split)
  show ?thesis
    unfolding buildCellRowState_def Let_def assms(1,2,5) against kind by simp
qed

text \<open>
  C31. The cached state of a cell row is the state that would be built now, provided the session's
  operator still has the same default gNB ID length: the cache is tested for everything else the
  state depends on.
\<close>
theorem row_state_cache:
  assumes "known = snd (getCellRowState None tests0 s0 context0 c)"
    and "rt_live tests \<Longrightarrow> es_live s = es_live s0" "rt_proposed tests \<Longrightarrow> es_proposed s = es_proposed s0"
    and "rt_context tests \<Longrightarrow> context = context0"
    and "cx_gnbidLength context (st_operatorId (sn_station (es_draft s)))
      = cx_gnbidLength context (st_operatorId (sn_station (es_draft s0)))"
  shows "fst (getCellRowState (Some known) tests s context c) = buildCellRowState s context c"
proof (cases "isFreshRowState known tests (getSectorDegrees (es_draft s) (ce_sectorKey c))
    (isShared (sn_areaCodes (es_draft s) (ce_rat c)))")
  case True
  have known: "known = \<lparr>kr_sectorDegrees = getSectorDegrees (es_draft s0) (ce_sectorKey c),
      kr_isAreaShared = isShared (sn_areaCodes (es_draft s0) (ce_rat c)),
      kr_state = buildCellRowState s0 context0 c\<rparr>"
    using assms(1) by (simp add: getCellRowState_def Let_def)
  have "buildCellRowState s context c = buildCellRowState s0 context c"
    using True assms(2,3,5) by (intro buildCellRowState_depends) (auto simp: isFreshRowState_def known)
  moreover have "context = context0" using True assms(4) by (simp add: isFreshRowState_def)
  ultimately show ?thesis using True by (simp add: getCellRowState_def Let_def known)
next
  case False
  then show ?thesis by (simp add: getCellRowState_def Let_def)
qed

definition plainContext :: "(int option \<Rightarrow> int) \<Rightarrow> changeContext" where
  "plainContext lengths = \<lparr>cx_bandText = (\<lambda>_. ''b''), cx_operatorName = (\<lambda>_. None),
     cx_operatorShortName = (\<lambda>_. None), cx_stationCode = (\<lambda>_. None), cx_regionName = (\<lambda>_. None),
     cx_ownerName = (\<lambda>_. None), cx_ownerPlmn = (\<lambda>_. None), cx_gnbidLength = lengths,
     cx_networkName = (\<lambda>code. code), cx_distance = (\<lambda>_ _. 0)\<rparr>"

definition lengthContext :: changeContext where
  "lengthContext = plainContext (\<lambda>operator. if operator = Some 2 then 22 else 24)"

definition storedNrCell :: cellDraft where
  "storedNrCell = createCellDraft Nr (noInit\<lparr>ci_key := Some ''c1'', ci_id := Some 11, ci_mode := Some Sa,
     ci_gnbidLength := Some 24\<rparr>) ''x''"

definition draftNr :: cellDraft where
  "draftNr = storedNrCell\<lparr>ce_gnbidLength := None\<rparr>"

definition lengthSession :: editSession where
  "lengthSession = sampleSession\<lparr>
     es_live := Some (EMPTY_SNAPSHOT\<lparr>sn_cells := [storedNrCell]\<rparr>),
     es_draft := EMPTY_SNAPSHOT\<lparr>sn_station := createEmptyStation\<lparr>st_operatorId := Some 1\<rparr>, sn_cells := [draftNr]\<rparr>\<rparr>"

definition sameRefs :: refTests where
  "sameRefs = \<lparr>rt_live = True, rt_proposed = True, rt_context = True\<rparr>"

definition cachedNr :: cachedRowState where
  "cachedNr = snd (getCellRowState None sameRefs lengthSession lengthContext draftNr)"

definition otherOperator :: editSession where
  "otherOperator = draftReducer False ''k'' lengthSession (SetOperator (Some 2) None [])"

lemma lengthSession_kinds:
  "cr_kind (buildCellRowState lengthSession lengthContext draftNr) = RowSame"
  by code_simp

theorem row_state_cache_witness:
  "fst (getCellRowState (Some cachedNr) sameRefs lengthSession lengthContext draftNr)
    = buildCellRowState lengthSession lengthContext draftNr"
  by (rule row_state_cache [of cachedNr sameRefs lengthSession lengthContext draftNr])
    (simp_all add: cachedNr_def)

lemma otherOperator_frame:
  "es_live otherOperator = es_live lengthSession" "es_proposed otherOperator = es_proposed lengthSession"
  "sn_cells (es_draft otherOperator) = [draftNr]" "sn_sectors (es_draft otherOperator) = []"
  "sn_areaCodes (es_draft otherOperator) = sn_areaCodes EMPTY_SNAPSHOT"
  "st_operatorId (sn_station (es_draft otherOperator)) = Some 2"
  by (simp_all add: otherOperator_def draftReducer_def setOperator_def dropOwnerPlmn_def Let_def
      lengthSession_def dropOutdated_def withStation_def withDraft_def EMPTY_SNAPSHOT_def split: option.split)

lemma kind_buildCellRowState:
  "cr_kind (buildCellRowState s context c)
    = getRowKind s c (cx_gnbidLength context (st_operatorId (sn_station (es_draft s))))"
  by (simp add: buildCellRowState_def Let_def)

lemma otherOperator_kinds:
  "cr_kind (buildCellRowState otherOperator lengthContext draftNr) = RowChanged"
proof -
  have "FGnbidLength \<in> set (listChangedCellFields draftNr storedNrCell d b 22)" for d b
    by (simp add: listChangedCellFields_def Let_def draftNr_def storedNrCell_def createCellDraft_def noInit_def
        gnbidLengthOr_def)
  then have "listChangedCellFields draftNr storedNrCell d b 22 \<noteq> []" for d b
    by (metis list.distinct(1) list.set_cases)
  then show ?thesis
    by (simp add: kind_buildCellRowState getRowKind_def otherOperator_frame lengthContext_def plainContext_def
        liveBase_def lengthSession_def findCell_def)
      (simp add: draftNr_def storedNrCell_def createCellDraft_def noInit_def)
qed

lemma otherOperator_served:
  "cr_kind (fst (getCellRowState (Some cachedNr) sameRefs otherOperator lengthContext draftNr)) = RowSame"
proof -
  have cached: "cachedNr = \<lparr>kr_sectorDegrees = None, kr_isAreaShared = True,
      kr_state = buildCellRowState lengthSession lengthContext draftNr\<rparr>"
    by (simp add: cachedNr_def getCellRowState_def Let_def getSectorDegrees_def draftNr_def storedNrCell_def
        createCellDraft_def noInit_def lengthSession_def EMPTY_SNAPSHOT_def createSharedAreaCodes_def)
  have "ce_sectorKey draftNr = None" by (simp add: draftNr_def storedNrCell_def createCellDraft_def noInit_def)
  then have "isFreshRowState cachedNr sameRefs (getSectorDegrees (es_draft otherOperator) (ce_sectorKey draftNr))
      (isShared (sn_areaCodes (es_draft otherOperator) (ce_rat draftNr)))"
    by (simp add: isFreshRowState_def sameRefs_def cached getSectorDegrees_def otherOperator_frame
        EMPTY_SNAPSHOT_def createSharedAreaCodes_def)
  then have "fst (getCellRowState (Some cachedNr) sameRefs otherOperator lengthContext draftNr) = kr_state cachedNr"
    by (simp add: getCellRowState_def Let_def)
  then show ?thesis using lengthSession_kinds by (simp add: cached)
qed

text \<open>
  That proviso is needed: after a change of operator whose default gNB ID length is another one,
  the cache serves an NR row as unchanged although its gNB ID length now differs from the stored
  one. The live and proposed records, the context and the cell are the same objects throughout.
\<close>
theorem row_state_goes_stale:
  "es_live otherOperator = es_live lengthSession \<and> es_proposed otherOperator = es_proposed lengthSession \<and>
   sn_cells (es_draft otherOperator) = [draftNr] \<and>
   cr_kind (fst (getCellRowState (Some cachedNr) sameRefs otherOperator lengthContext draftNr)) = RowSame \<and>
   cr_kind (buildCellRowState otherOperator lengthContext draftNr) = RowChanged"
  by (intro conjI otherOperator_frame otherOperator_served otherOperator_kinds)

section \<open>Sector entries\<close>

lemma length_map_filter: "length (List.map_filter f xs) = length (filter (\<lambda>x. f x \<noteq> None) xs)"
  by (induction xs) (auto simp: map_filter_simps split: option.split)

lemma sector_entry_columns:
  "let rows = listedRows sectors;
       ids = sort (List.map_filter se_id rows); added = filter (\<lambda>x. se_id x = None) rows
   in map en_id (listSectorEntries sectors) = map Some ids @ replicate (length added) None \<and>
      map en_wireKey (listSectorEntries sectors) = replicate (length ids) [] @ map getSectorWireKey added \<and>
      map en_rowKey (listSectorEntries sectors) = map se_key rows \<and>
      map en_degrees (listSectorEntries sectors) = map se_degrees rows"
proof -
  define rows where "rows = listedRows sectors"
  define ids where "ids = sort (List.map_filter se_id rows)"
  define added where "added = filter (\<lambda>x. se_id x = None) rows"
  have count: "length ids + length added = length rows"
    using sum_length_filter_compl [of "\<lambda>x. se_id x \<noteq> None" rows]
    by (simp add: ids_def added_def length_map_filter)
  have entries: "listSectorEntries sectors = map (\<lambda>i. toSectorEntry ids added i (rows ! i)) [0..<length rows]"
    by (simp add: listSectorEntries_def rows_def ids_def added_def Let_def)
  have "map en_id (listSectorEntries sectors) = map Some ids @ replicate (length added) None"
    using count by (intro nth_equalityI) (auto simp: entries toSectorEntry_def Let_def nth_append)
  moreover have "map en_wireKey (listSectorEntries sectors) = replicate (length ids) [] @ map getSectorWireKey added"
    using count by (intro nth_equalityI) (auto simp: entries toSectorEntry_def Let_def nth_append)
  moreover have "map en_rowKey (listSectorEntries sectors) = map se_key rows"
    by (intro nth_equalityI) (auto simp: entries toSectorEntry_def Let_def)
  moreover have "map en_degrees (listSectorEntries sectors) = map se_degrees rows"
    by (intro nth_equalityI) (auto simp: entries toSectorEntry_def Let_def)
  ultimately show ?thesis by (simp add: rows_def ids_def added_def Let_def)
qed

text \<open>
  The rows the API sees: the stored ids, in ascending order, belong to the first rows, and each
  row after them stands for the new rows in turn, under the key of the new row.
\<close>
theorem sector_entries:
  "let rows = listedRows sectors;
       ids = sort (List.map_filter se_id rows); added = filter (\<lambda>x. se_id x = None) rows
   in map en_id (listSectorEntries sectors) = map Some ids @ replicate (length added) None \<and>
      map en_wireKey (listSectorEntries sectors) = replicate (length ids) [] @ map getSectorWireKey added \<and>
      map en_rowKey (listSectorEntries sectors) = map se_key rows \<and>
      map en_degrees (listSectorEntries sectors) = map se_degrees rows"
  by (rule sector_entry_columns)

section \<open>Counters\<close>

definition kindsOf :: "editSession \<Rightarrow> int \<Rightarrow> tech \<Rightarrow> cellDraft list \<Rightarrow> rowKind list" where
  "kindsOf s len r cells = map (\<lambda>c. getRowKind s c len) (filter (\<lambda>c. ce_rat c = r) cells)"

definition tally :: "rowKind list \<Rightarrow> ratCounters \<Rightarrow> ratCounters" where
  "tally kinds start = fold countKind kinds start"

lemma tally_eq:
  "tally kinds start = start\<lparr>
     rc_total := rc_total start + length (filter (\<lambda>k. k \<noteq> RowDeleted) kinds),
     rc_added := rc_added start + count_list kinds RowNew,
     rc_changed := rc_changed start + count_list kinds RowChanged,
     rc_deleted := rc_deleted start + count_list kinds RowDeleted\<rparr>"
  unfolding tally_def by (induction kinds arbitrary: start) (simp_all add: countKind_def)

lemma countCells_fold:
  "fold (\<lambda>c counters. counters(ce_rat c := countKind (getRowKind s c len) (counters (ce_rat c)))) cells counters r
    = tally (kindsOf s len r cells) (counters r)"
  by (induction cells arbitrary: counters) (simp_all add: kindsOf_def tally_def)

lemma split_by_rat:
  "length (filter (\<lambda>c. ce_rat c = Nr \<and> P c) cells) + length (filter (\<lambda>c. ce_rat c = Lte \<and> P c) cells)
    + length (filter (\<lambda>c. ce_rat c = Umts \<and> P c) cells) + length (filter (\<lambda>c. ce_rat c = Gsm \<and> P c) cells)
    = length (filter P cells)"
proof (induction cells)
  case (Cons c cells)
  then show ?case by (cases "ce_rat c") auto
qed simp

text \<open>
  The counters of a technology count its rows by kind, and every row of the draft is counted
  once: among the rows that stay or among the deleted ones.
\<close>
theorem cell_counters:
  "(let kinds = kindsOf s len r (sn_cells (es_draft s)); counter = countCells s len r
    in rc_added counter = count_list kinds RowNew \<and> rc_changed counter = count_list kinds RowChanged \<and>
       rc_deleted counter = count_list kinds RowDeleted \<and>
       rc_total counter = rc_added counter + rc_changed counter + count_list kinds RowSame) \<and>
   countDraftCells (countCells s len) + length (filter ce_isDeleted (sn_cells (es_draft s)))
     = length (sn_cells (es_draft s))"
proof -
  let ?cells = "sn_cells (es_draft s)"
  have counter: "countCells s len r = tally (kindsOf s len r ?cells)
      \<lparr>rc_total = 0, rc_added = 0, rc_changed = 0, rc_deleted = 0\<rparr>" for r
    by (simp add: countCells_def countCells_fold)
  have split: "length (filter (\<lambda>k. k \<noteq> RowDeleted) kinds)
      = count_list kinds RowNew + count_list kinds RowChanged + count_list kinds RowSame" for kinds
  proof (induction kinds)
    case (Cons k kinds)
    then show ?case by (cases k) simp_all
  qed simp
  have deleted: "getRowKind s c len = RowDeleted \<longleftrightarrow> ce_isDeleted c" for c
    by (simp add: getRowKind_def split: option.split)
  have total: "rc_total (countCells s len r) = length (filter (\<lambda>c. ce_rat c = r \<and> \<not> ce_isDeleted c) ?cells)" for r
    by (simp add: counter tally_eq kindsOf_def filter_map comp_def deleted)
  have "countDraftCells (countCells s len)
      = length (filter (\<lambda>c. ce_rat c = Nr \<and> \<not> ce_isDeleted c) ?cells)
        + length (filter (\<lambda>c. ce_rat c = Lte \<and> \<not> ce_isDeleted c) ?cells)
        + length (filter (\<lambda>c. ce_rat c = Umts \<and> \<not> ce_isDeleted c) ?cells)
        + length (filter (\<lambda>c. ce_rat c = Gsm \<and> \<not> ce_isDeleted c) ?cells)"
    by (simp add: countDraftCells_def RAT_ORDER_def total)
  also have "\<dots> = length (filter (\<lambda>c. \<not> ce_isDeleted c) ?cells)" by (rule split_by_rat)
  finally have "countDraftCells (countCells s len) = length (filter (\<lambda>c. \<not> ce_isDeleted c) ?cells)" .
  then have "countDraftCells (countCells s len) + length (filter ce_isDeleted ?cells) = length ?cells"
    using sum_length_filter_compl [of ce_isDeleted ?cells] by simp
  then show ?thesis by (simp add: counter tally_eq split Let_def)
qed

section \<open>An untouched draft\<close>

definition storedSectors :: "sectorDraft list \<Rightarrow> bool" where
  "storedSectors sectors \<longleftrightarrow>
    distinct (map se_key sectors) \<and> distinct (map se_id sectors) \<and> (\<forall>x\<in>set sectors. se_id x \<noteq> None)"

lemma findCell_in:
  assumes "distinct (map ce_key (sn_cells sn))" "c \<in> set (sn_cells sn)"
  shows "findCell sn (ce_key c) = Some c"
proof -
  have "List.find (\<lambda>x. ce_key x = ce_key c) (rev cells) = Some c"
    if "distinct (map ce_key cells)" "c \<in> set cells" for cells
    using that by (induction cells rule: rev_induct) (force simp: find_Some_iff)+
  with assms show ?thesis by (simp add: findCell_def)
qed

lemma find_by_key:
  assumes "distinct (map f xs)" "x \<in> set xs"
  shows "List.find (\<lambda>y. f y = f x) xs = Some x"
  using assms by (induction xs) force+

lemma distinct_map_filter_ids:
  "distinct (map f xs) \<Longrightarrow> \<forall>x\<in>set xs. f x \<noteq> None \<Longrightarrow> distinct (List.map_filter f xs)"
  by (induction xs) (force simp: map_filter_simps map_filter_def split: option.split)+

lemma stored_entries:
  assumes "storedSectors sectors"
  defines "entries \<equiv> listSectorEntries sectors"
  shows "distinct (map en_id entries)" "\<forall>e\<in>set entries. en_id e \<noteq> None"
    "distinct (map en_rowKey entries)" "map en_rowKey entries = map se_key sectors"
proof -
  have rows: "listedRows sectors = sectors"
    "filter (\<lambda>x. se_id x = None) sectors = []"
    using assms(1) by (auto simp: storedSectors_def listedRows_def filter_id_conv filter_empty_conv)
  note facts = sector_entry_columns [of sectors, unfolded Let_def rows, folded entries_def]
  have "distinct (List.map_filter se_id sectors)"
    using assms(1) by (simp add: storedSectors_def distinct_map_filter_ids)
  then show "distinct (map en_id entries)" using facts by (simp add: distinct_map)
  show "\<forall>e\<in>set entries. en_id e \<noteq> None"
  proof
    fix e assume "e \<in> set entries"
    then have "en_id e \<in> set (map en_id entries)" by simp
    then show "en_id e \<noteq> None" using facts by auto
  qed
  show "map en_rowKey entries = map se_key sectors" using facts by simp
  then show "distinct (map en_rowKey entries)" using assms(1) by (simp add: storedSectors_def)
qed

lemma same_sectors:
  assumes "storedSectors (sn_sectors sn)" "sn_sectors draft = sn_sectors sn"
  shows "listSectorChanges draft sn = []"
proof -
  let ?entries = "listSectorEntries (sn_sectors sn)"
  note entries = stored_entries [OF assms(1)]
  have found: "findEntry ?entries e = Some e" if "e \<in> set ?entries" for e
  proof -
    have "findEntry ?entries e = List.find (\<lambda>x. en_id x = en_id e) ?entries"
      unfolding findEntry_def using that entries(2)
      by (intro find_cong refl) (auto simp: isSameEntry_def)
    then show ?thesis using find_by_key [OF entries(1) that] by simp
  qed
  have "sectorChangeItems ?entries ?entries x = []" if "x \<in> set (sn_sectors sn)" for x
  proof -
    have "se_key x \<in> set (map en_rowKey ?entries)" using that entries(4) by simp
    then obtain e where e: "e \<in> set ?entries" "en_rowKey e = se_key x" by auto
    then have "List.find (\<lambda>candidate. en_rowKey candidate = se_key x) ?entries = Some e"
      using find_by_key [OF entries(3) e(1)] by simp
    then show ?thesis using found [OF e(1)] by (simp add: sectorChangeItems_def Let_def)
  qed
  moreover have "removedSectorItems ?entries e = []" if "e \<in> set ?entries" for e
    using found [OF that] by (simp add: removedSectorItems_def)
  ultimately show ?thesis by (simp add: listSectorChanges_def Let_def assms(2))
qed

lemma same_cell_fields: "listChangedCellFields c c sn sn len = []"
  by (simp add: listChangedCellFields_def Let_def isSectorChanged_def numberChanged_def isAreaValueChanged_def
      isSameCodes_def filter_empty_conv)

lemma same_area_code: "\<not> isAreaCodeChanged r sn sn"
  by (simp add: isAreaCodeChanged_def split: areaCode.split)

lemma same_place: "placeChangeItems p sn sn context = (\<lambda>_. [])"
proof -
  have "\<not> differsInPlace spec sn sn" for spec by (simp add: differsInPlace_def split: option.split)
  then show ?thesis by (simp add: placeChangeItems_def fun_eq_iff)
qed

lemma same_snapshot:
  assumes "storedSectors (sn_sectors sn)" "distinct (map ce_key (sn_cells sn))"
  shows "buildChanges sn sn context = []"
proof -
  have "listCellChanges c sn sn context = []" if "c \<in> set (sn_cells sn)" for c
    using findCell_in [OF assms(2) that] by (simp add: listCellChanges_def same_cell_fields)
  then have "listRatChanges r sn sn context = []" for r
    using findCell_in [OF assms(2)]
    by (auto simp: listRatChanges_def Let_def listAreaCodeChanges_def same_area_code filter_empty_conv)
  moreover have "listStationChanges sn sn context = []"
    by (simp add: listStationChanges_def stationChangeItems_def)
  moreover have "listPlaceChanges sn sn context = []"
    by (cases "sn_place sn") (simp_all add: listPlaceChanges_def same_place)
  ultimately show ?thesis by (simp add: buildChanges_def same_sectors [OF assms(1) refl])
qed

text \<open>
  A draft that is the live record, and agrees with the proposal where there is one, lists no
  change and no correction, and every row counts as unchanged or deleted.
\<close>
theorem untouched_draft_has_no_changes:
  assumes "es_live s = Some (es_draft s)" "es_proposed s = None \<or> es_proposed s = Some (es_draft s)"
    and "storedSectors (sn_sectors (es_draft s))" "distinct (map ce_key (sn_cells (es_draft s)))"
  shows "listChanges s context = ([], []) \<and>
    (\<forall>c\<in>set (sn_cells (es_draft s)). getRowKind s c len = (if ce_isDeleted c then RowDeleted else RowSame))"
proof -
  have none: "buildChanges (es_draft s) (es_draft s) context = []" by (rule same_snapshot [OF assms(3,4)])
  then have "listChanges s context = ([], [])"
    using assms(1,2) by (auto simp: listChanges_def Let_def markCorrections_def)
  moreover have "getRowKind s c len = (if ce_isDeleted c then RowDeleted else RowSame)"
    if "c \<in> set (sn_cells (es_draft s))" for c
    using findCell_in [OF assms(4) that] assms(1)
    by (simp add: getRowKind_def liveBase_def same_cell_fields)
  ultimately show ?thesis by blast
qed

definition untouchedSession :: editSession where
  "untouchedSession = lengthSession\<lparr>es_live := Some (es_draft lengthSession), es_proposed := None\<rparr>"

theorem untouched_draft_has_no_changes_witness:
  "listChanges untouchedSession lengthContext = ([], [])"
proof -
  have "storedSectors (sn_sectors (es_draft untouchedSession))"
    "distinct (map ce_key (sn_cells (es_draft untouchedSession)))"
    by (simp_all add: untouchedSession_def lengthSession_def EMPTY_SNAPSHOT_def storedSectors_def)
  moreover have "es_live untouchedSession = Some (es_draft untouchedSession)"
    "es_proposed untouchedSession = None"
    by (simp_all add: untouchedSession_def lengthSession_def sampleSession_def)
  ultimately show ?thesis using untouched_draft_has_no_changes [of untouchedSession] by blast
qed

section \<open>The highlight of a field and the list\<close>

lemma targets_markCorrections: "it_target ` set (markCorrections items corrections) = it_target ` set items"
proof -
  have "map it_target (markCorrections items corrections) = map it_target items"
    by (simp add: markCorrections_def Let_def)
  then show ?thesis by (metis set_map)
qed

lemma station_targets:
  "it_target ` set (listStationChanges draft base context)
    = (\<lambda>spec. (targetOf ScStation)\<lparr>ft_field := Some (sp_field spec)\<rparr>) `
        {spec \<in> set STATION_SPECS. sp_read spec draft \<noteq> sp_read spec base}"
proof -
  have "it_target ` set (stationChangeItems draft base context spec)
      = (if sp_read spec draft = sp_read spec base then {}
         else {(targetOf ScStation)\<lparr>ft_field := Some (sp_field spec)\<rparr>})" for spec
    by (simp add: stationChangeItems_def Let_def pairItem_def plainItem_def)
  then show ?thesis by (simp add: listStationChanges_def image_UN) blast
qed

lemma place_targets:
  "it_target ` set (listPlaceChanges draft base context)
    = (\<lambda>spec. (targetOf ScPlace)\<lparr>ft_field := Some (sp_field spec)\<rparr>) `
        {spec \<in> set PLACE_SPECS. differsInPlace spec draft base}"
proof (cases "sn_place draft")
  case None
  then show ?thesis by (simp add: listPlaceChanges_def differsInPlace_def)
next
  case (Some place)
  have "it_target ` set (placeChangeItems place draft base context spec)
      = (if differsInPlace spec draft base then {(targetOf ScPlace)\<lparr>ft_field := Some (sp_field spec)\<rparr>}
         else {})" for spec
    by (simp add: placeChangeItems_def Let_def pairItem_def plainItem_def split: option.split)
  then show ?thesis by (simp add: listPlaceChanges_def Some image_UN) blast
qed

lemma sector_targets: "t \<in> it_target ` set (listSectorChanges draft base) \<Longrightarrow> ft_scope t = ScSector"
proof -
  have "item \<in> set (sectorChangeItems es bs x) \<Longrightarrow> ft_scope (it_target item) = ScSector" for item es bs x
    by (simp add: sectorChangeItems_def Let_def pairItem_def plainItem_def sectorTarget_def targetOf_def
        split: option.splits if_splits)
  moreover have "item \<in> set (removedSectorItems es b) \<Longrightarrow> ft_scope (it_target item) = ScSector" for item es b
    by (simp add: removedSectorItems_def plainItem_def sectorTarget_def targetOf_def split: if_splits)
  ultimately show "t \<in> it_target ` set (listSectorChanges draft base) \<Longrightarrow> ft_scope t = ScSector"
    by (auto simp: listSectorChanges_def Let_def)
qed

lemma areaCode_targets:
  "it_target ` set (listAreaCodeChanges r draft base)
    = (if isAreaCodeChanged r draft base
       then {(targetOf ScAreaCode)\<lparr>ft_rat := Some r, ft_field := Some (FNumber (getAreaCodeField r))\<rparr>} else {})"
  by (simp add: listAreaCodeChanges_def Let_def pairItem_def)

lemma toCellFieldItem_target:
  "it_target (toCellFieldItem c b f draft base context) = (cellTarget c)\<lparr>ft_field := Some f\<rparr>"
  by (simp add: toCellFieldItem_def Let_def pairItem_def plainItem_def split: editField.split)

text \<open>The target of a field of a cell, and the targets of the list at the fields of cells.\<close>

definition fieldOfCell :: "cellDraft \<Rightarrow> editField \<Rightarrow> fieldTarget" where
  "fieldOfCell c f = (cellTarget c)\<lparr>ft_field := Some f\<rparr>"

lemma cell_field_targets:
  "fieldOfCell x f \<in> it_target ` set (listCellChanges c draft base context) \<longleftrightarrow>
    (\<exists>b. findCell base (ce_key c) = Some b \<and> ce_key x = ce_key c \<and> ce_rat x = ce_rat c \<and> \<not> ce_isDeleted c \<and>
      f \<in> set (listChangedCellFields c b draft base (cx_gnbidLength context (st_operatorId (sn_station draft)))))"
proof -
  have row: "fieldOfCell x f \<noteq> it_target (toCellRowItem c sn context kind key)" for sn kind key
    by (simp add: fieldOfCell_def toCellRowItem_def plainItem_def cellTarget_def targetOf_def)
  have "fieldOfCell x f = it_target (toCellFieldItem c b g draft base context) \<longleftrightarrow>
      g = f \<and> ce_key x = ce_key c \<and> ce_rat x = ce_rat c" for b g
    by (auto simp: fieldOfCell_def toCellFieldItem_target cellTarget_def targetOf_def)
  then show ?thesis
    using row by (auto simp: listCellChanges_def image_iff split: option.split)
qed

lemma rat_targets:
  "t \<in> it_target ` set (listRatChanges r draft base context) \<Longrightarrow> ft_scope t = ScAreaCode \<or> ft_scope t = ScCell"
proof -
  have row: "ft_scope (it_target (toCellRowItem c sn context kind key)) = ScCell" for c sn kind key
    by (simp add: toCellRowItem_def plainItem_def cellTarget_def targetOf_def)
  have fld: "ft_scope (it_target (toCellFieldItem c b g draft base context)) = ScCell" for c b g
    by (simp add: toCellFieldItem_target cellTarget_def targetOf_def)
  have area: "item \<in> set (listAreaCodeChanges r draft base) \<Longrightarrow> ft_scope (it_target item) = ScAreaCode" for item
    by (simp add: listAreaCodeChanges_def Let_def pairItem_def targetOf_def split: if_splits)
  show "t \<in> it_target ` set (listRatChanges r draft base context) \<Longrightarrow> ft_scope t = ScAreaCode \<or> ft_scope t = ScCell"
    by (auto simp: listRatChanges_def Let_def listCellChanges_def row fld area split: option.splits if_splits)
qed

lemma find_spec:
  "distinct (map sp_field specs) \<Longrightarrow>
    List.find (\<lambda>spec. sp_field spec = f) specs = Some spec \<longleftrightarrow> spec \<in> set specs \<and> sp_field spec = f"
proof (induction specs)
  case (Cons x specs)
  then show ?case by (cases "sp_field x = f") (auto simp: image_iff)
qed simp

lemma spec_fields_distinct:
  "distinct (map sp_field STATION_SPECS)" "distinct (map sp_field PLACE_SPECS)"
  by (simp_all add: STATION_SPECS_def PLACE_SPECS_def identifierSpec_def)

lemma spec_state_changed:
  assumes "es_live s = Some live"
  shows "fs_isChanged (getSpecState s context spec differs) \<longleftrightarrow> differs (es_draft s) live"
  by (simp add: getSpecState_def assms Let_def UNCHANGED_FIELD_def)

lemma spec_state_agrees:
  assumes "es_live s = Some live" "distinct (map sp_field specs)"
  shows "fs_isChanged (orUnchanged (map_option (\<lambda>spec. getSpecState s context spec (differs spec))
      (List.find (\<lambda>spec. sp_field spec = f) specs)))
    \<longleftrightarrow> (\<exists>spec\<in>set specs. sp_field spec = f \<and> differs spec (es_draft s) live)"
proof (cases "List.find (\<lambda>spec. sp_field spec = f) specs")
  case None
  then have "spec \<in> set specs \<Longrightarrow> sp_field spec \<noteq> f" for spec by (simp add: find_None_iff)
  then show ?thesis by (auto simp: None orUnchanged_def UNCHANGED_FIELD_def)
next
  case (Some spec)
  then have "spec' \<in> set specs \<and> sp_field spec' = f \<longleftrightarrow> spec' = spec" for spec'
    using find_spec [OF assms(2), of f] Some by (metis option.inject)
  then have "(\<exists>spec\<in>set specs. sp_field spec = f \<and> differs spec (es_draft s) live) \<longleftrightarrow> differs spec (es_draft s) live"
    by metis
  then show ?thesis by (simp add: Some orUnchanged_def spec_state_changed [OF assms(1)])
qed

lemma area_state_changed:
  assumes "es_live s = Some live"
  shows "fs_isChanged (getAreaCodeState s r) \<longleftrightarrow> isAreaCodeChanged r (es_draft s) live"
  by (simp add: getAreaCodeState_def assms Let_def UNCHANGED_FIELD_def)

lemma cell_state_changed:
  assumes "es_live s = Some live"
  shows "fs_isChanged (orUnchanged (cr_fields (buildCellRowState s context c) f)) \<longleftrightarrow>
    (\<exists>b. findCell live (ce_key c) = Some b \<and> f \<in> set (listChangedCellFields c b (es_draft s) live
      (cx_gnbidLength context (st_operatorId (sn_station (es_draft s))))))"
  using assms
  by (cases "findCell live (ce_key c)")
    (auto simp: buildCellRowState_def Let_def changedAgainst_def cellIn_def buildCellField_def orUnchanged_def
      UNCHANGED_FIELD_def)

lemma rat_area_targets:
  assumes "ft_scope t = ScAreaCode"
  shows "t \<in> it_target ` set (listRatChanges r draft base context) \<longleftrightarrow>
    t \<in> it_target ` set (listAreaCodeChanges r draft base)"
proof -
  have row: "ft_scope (it_target (toCellRowItem c sn context kind key)) = ScCell" for c sn kind key
    by (simp add: toCellRowItem_def plainItem_def cellTarget_def targetOf_def)
  have "ft_scope (it_target (toCellFieldItem c b g draft base context)) = ScCell" for c b g
    by (simp add: toCellFieldItem_target cellTarget_def targetOf_def)
  then have "item \<in> set (listCellChanges c draft base context) \<Longrightarrow> ft_scope (it_target item) = ScCell" for item c
    by (auto simp: listCellChanges_def row split: option.splits if_splits)
  then show ?thesis using assms row by (fastforce simp: listRatChanges_def Let_def)
qed

lemma rat_cell_targets:
  "fieldOfCell x f \<in> it_target ` set (listRatChanges r draft base context) \<longleftrightarrow>
    (\<exists>c\<in>set (sn_cells draft). ce_rat c = r \<and> fieldOfCell x f \<in> it_target ` set (listCellChanges c draft base context))"
proof -
  have row: "it_target (toCellRowItem c sn context kind key) \<noteq> fieldOfCell x f" for c sn kind key
    by (simp add: fieldOfCell_def toCellRowItem_def plainItem_def cellTarget_def targetOf_def)
  have "fieldOfCell x f \<notin> it_target ` set (listAreaCodeChanges r draft base)"
    by (simp add: areaCode_targets fieldOfCell_def cellTarget_def targetOf_def)
  moreover have "fieldOfCell x f \<notin> it_target ` set (map (\<lambda>c. toCellRowItem c base context kind key) cells)" for kind key cells
    using row by fastforce
  ultimately show ?thesis by (simp add: listRatChanges_def Let_def image_Un image_UN) blast
qed

lemma listed_rat_targets:
  assumes "ft_scope t = ScAreaCode \<or> ft_scope t = ScCell"
  shows "t \<in> it_target ` set (buildChanges draft base context) \<longleftrightarrow>
    (\<exists>r. t \<in> it_target ` set (listRatChanges r draft base context))"
proof -
  have "r \<in> set RAT_ORDER" for r by (cases r) (simp_all add: RAT_ORDER_def)
  moreover have "t \<notin> it_target ` set (listStationChanges draft base context)"
    "t \<notin> it_target ` set (listPlaceChanges draft base context)"
    using assms unfolding station_targets place_targets by (auto simp: targetOf_def)
  moreover have "t \<notin> it_target ` set (listSectorChanges draft base)"
    using assms sector_targets [of t draft base] by auto
  ultimately show ?thesis by (auto simp: buildChanges_def image_Un image_UN)
qed

lemma listed_spec_targets:
  assumes "ft_scope t = ScStation \<or> ft_scope t = ScPlace"
  shows "t \<in> it_target ` set (buildChanges draft base context) \<longleftrightarrow>
    t \<in> it_target ` set (listStationChanges draft base context) \<union> it_target ` set (listPlaceChanges draft base context)"
proof -
  have "t \<notin> it_target ` set (listSectorChanges draft base)"
    using assms sector_targets [of t draft base] by auto
  moreover have "t \<notin> it_target ` set (listRatChanges r draft base context)" for r
    using assms rat_targets by fastforce
  ultimately show ?thesis by (simp add: buildChanges_def image_Un image_UN)
qed

lemma listed_station_field:
  "(targetOf ScStation)\<lparr>ft_field := Some f\<rparr> \<in> it_target ` set (buildChanges draft base context) \<longleftrightarrow>
    (\<exists>spec\<in>set STATION_SPECS. sp_field spec = f \<and> stationDiffers spec draft base)"
proof -
  have "ft_scope ((targetOf ScStation)\<lparr>ft_field := Some f\<rparr>) = ScStation \<or>
      ft_scope ((targetOf ScStation)\<lparr>ft_field := Some f\<rparr>) = ScPlace" by (simp add: targetOf_def)
  from listed_spec_targets [OF this, of draft base] show ?thesis
    unfolding station_targets place_targets stationDiffers_def by (simp only:) (auto simp: targetOf_def)
qed

lemma listed_place_field:
  "(targetOf ScPlace)\<lparr>ft_field := Some f\<rparr> \<in> it_target ` set (buildChanges draft base context) \<longleftrightarrow>
    (\<exists>spec\<in>set PLACE_SPECS. sp_field spec = f \<and> differsInPlace spec draft base)"
proof -
  have "ft_scope ((targetOf ScPlace)\<lparr>ft_field := Some f\<rparr>) = ScStation \<or>
      ft_scope ((targetOf ScPlace)\<lparr>ft_field := Some f\<rparr>) = ScPlace" by (simp add: targetOf_def)
  from listed_spec_targets [OF this, of draft base] show ?thesis
    unfolding station_targets place_targets by (simp only:) (auto simp: targetOf_def)
qed

text \<open>The field targets the editor asks for: a field of the station, of the place, an area code, a cell.\<close>

inductive shownField :: "stationSnapshot \<Rightarrow> fieldTarget \<Rightarrow> bool" for draft :: stationSnapshot where
  "shownField draft ((targetOf ScStation)\<lparr>ft_field := Some f\<rparr>)"
| "shownField draft ((targetOf ScPlace)\<lparr>ft_field := Some f\<rparr>)"
| "shownField draft ((targetOf ScAreaCode)\<lparr>ft_rat := Some r, ft_field := Some (FNumber (getAreaCodeField r))\<rparr>)"
| "c \<in> set (sn_cells draft) \<Longrightarrow> \<not> ce_isDeleted c \<Longrightarrow> shownField draft (fieldOfCell c f)"

code_pred shownField .

text \<open>
  C30. For a station that is stored and not about to be deleted: a field is highlighted as changed
  exactly when the list of changes has an item for it. The fields meant are those of \<open>shownField\<close>:
  the fields of the station and of the place, the shared area codes, and the fields of the cell rows
  that are not deleted; row keys are distinct. Outside it the two differ by design: a new station has
  no live record, so nothing of it is highlighted while everything is listed, and a deleted row, a
  new or removed sector and the deletion of a station are listed as a whole, with no field of theirs.
\<close>
theorem field_state_agrees:
  assumes "es_live s = Some live" "es_action s \<noteq> ActDelete"
    and "distinct (map ce_key (sn_cells (es_draft s)))" "shownField (es_draft s) target"
  shows "fs_isChanged (getFieldState s context target) \<longleftrightarrow>
    target \<in> it_target ` set (fst (listChanges s context))"
proof -
  let ?items = "buildChanges (es_draft s) live context"
  have listed: "it_target ` set (fst (listChanges s context)) = it_target ` set ?items"
    using assms(1,2) by (simp add: listChanges_def Let_def targets_markCorrections)
  have "fs_isChanged (getFieldState s context target) \<longleftrightarrow> target \<in> it_target ` set ?items"
    using assms(4)
  proof cases
    case (1 f)
    have "fs_isChanged (getFieldState s context target)
        \<longleftrightarrow> (\<exists>spec\<in>set STATION_SPECS. sp_field spec = f \<and> stationDiffers spec (es_draft s) live)"
      using spec_state_agrees [OF assms(1) spec_fields_distinct(1)]
      by (simp add: 1 getFieldState_def targetOf_def)
    then show ?thesis unfolding 1 listed_station_field by simp
  next
    case (2 f)
    have "fs_isChanged (getFieldState s context target)
        \<longleftrightarrow> (\<exists>spec\<in>set PLACE_SPECS. sp_field spec = f \<and> differsInPlace spec (es_draft s) live)"
      using spec_state_agrees [OF assms(1) spec_fields_distinct(2)]
      by (simp add: 2 getFieldState_def targetOf_def)
    then show ?thesis unfolding 2 listed_place_field by simp
  next
    case (3 r)
    have area: "ft_scope target = ScAreaCode" by (simp add: 3 targetOf_def)
    have "target \<in> it_target ` set ?items \<longleftrightarrow> isAreaCodeChanged r (es_draft s) live"
      unfolding listed_rat_targets [OF disjI1, OF area] rat_area_targets [OF area] areaCode_targets
      by (auto simp: 3 targetOf_def)
    then show ?thesis
      by (simp add: 3 getFieldState_def orUnchanged_def area_state_changed [OF assms(1)] targetOf_def)
  next
    case (4 c f)
    have cell: "ft_scope (fieldOfCell c f) = ScCell" by (simp add: fieldOfCell_def cellTarget_def targetOf_def)
    have self: "x = c" if "x \<in> set (sn_cells (es_draft s))" "ce_key x = ce_key c" for x
      using that 4 findCell_in [OF assms(3)] by (metis option.inject)
    have "fieldOfCell c f \<in> it_target ` set ?items \<longleftrightarrow>
        fieldOfCell c f \<in> it_target ` set (listCellChanges c (es_draft s) live context)"
      unfolding listed_rat_targets [OF disjI2, OF cell] rat_cell_targets
      using self 4(2) by (auto simp only: cell_field_targets)
    then have "target \<in> it_target ` set ?items \<longleftrightarrow>
        fs_isChanged (orUnchanged (cr_fields (buildCellRowState s context c) f))"
      unfolding cell_state_changed [OF assms(1)] 4(1) by (simp only: cell_field_targets 4(3)) simp
    moreover have "getFieldState s context target = orUnchanged (cr_fields (buildCellRowState s context c) f)"
      using findCell_in [OF assms(3) 4(2)]
      by (simp add: 4(1) getFieldState_def fieldOfCell_def cellTarget_def targetOf_def)
    ultimately show ?thesis by simp
  qed
  then show ?thesis by (simp only: listed)
qed

theorem field_state_agrees_witness:
  "(targetOf ScStation)\<lparr>ft_field := Some FOperatorId\<rparr>
    \<in> it_target ` set (fst (listChanges lengthSession lengthContext))"
proof -
  let ?target = "(targetOf ScStation)\<lparr>ft_field := Some FOperatorId\<rparr>"
  have live: "es_live lengthSession = Some (EMPTY_SNAPSHOT\<lparr>sn_cells := [storedNrCell]\<rparr>)"
    by (simp add: lengthSession_def)
  have "List.find (\<lambda>spec. sp_field spec = FOperatorId) STATION_SPECS = Some (STATION_SPECS ! 1)"
    by (simp add: STATION_SPECS_def)
  then have "fs_isChanged (getFieldState lengthSession lengthContext ?target)"
    by (simp add: getFieldState_def targetOf_def orUnchanged_def spec_state_changed [OF live] stationDiffers_def)
      (simp add: STATION_SPECS_def lengthSession_def EMPTY_SNAPSHOT_def createEmptyStation_def orNull_def)
  moreover have "shownField (es_draft lengthSession) ?target" by (rule shownField.intros)
  moreover have "es_action lengthSession \<noteq> ActDelete"
    by (simp add: lengthSession_def sampleSession_def createSession_def sampleInput_def Let_def)
  ultimately show ?thesis
    using field_state_agrees [OF live, of ?target] by (simp add: lengthSession_def)
qed

end
