(* ===== verification/SaveTheorems.thy ===== *)
theory SaveTheorems
  imports Validate ChangeTheorems
begin

text \<open>
  What the checks and the bodies promise together: a body that is read back over the live record
  gives the draft, an untouched draft sends nothing, and a draft without errors loses no new cell
  and has no duplicate among the rows it writes.
\<close>

section \<open>The station part read back\<close>

lemma whenever_simps [simp]: "whenever True v = Some v" "whenever False v = None"
  by (simp_all add: whenever_def)

lemma orValue_toNullableText: "orValue (toNullableText text) [] = normalizeText text"
  by (simp add: toNullableText_def Let_def)

text \<open>A record as the server stores it: texts trimmed, a backhaul only with a medium.\<close>

definition storedStation :: "stationDraft \<Rightarrow> bool" where
  "storedStation station \<longleftrightarrow>
    normalizeText (st_siteId station) = st_siteId station \<and> normalizeText (st_notes station) = st_notes station \<and>
    (\<forall>kind. normalizeText (st_identifiers station kind) = st_identifiers station kind) \<and>
    getBackhaulModel station = bh_model (st_backhaul station) \<and>
    (bh_medium (st_backhaul station) = None \<longrightarrow> st_backhaul station = EMPTY_BACKHAUL)"

definition storedBackhaul :: "stationDraft \<Rightarrow> backhaulDraft" where
  "storedBackhaul station =
    (if bh_medium (st_backhaul station) = None then EMPTY_BACKHAUL
     else (st_backhaul station)\<lparr>bh_model := getBackhaulModel station\<rparr>)"

definition readBack :: "stationDraft \<Rightarrow> stationDraft \<Rightarrow> stationDraft" where
  "readBack base station = station\<lparr>st_siteId := normalizeText (st_siteId station),
     st_notes := normalizeText (st_notes station),
     st_identifiers := (\<lambda>kind. normalizeText (st_identifiers station kind)),
     st_backhaul := storedBackhaul station, st_status := st_status base, st_isConfirmed := st_isConfirmed base\<rparr>"

lemma layBackhaul_part:
  assumes "storedStation base"
  shows "layBackhaul (st_backhaul base) (buildBackhaulPart station base) = storedBackhaul station"
proof (cases "bh_medium (st_backhaul station)")
  case None
  then show ?thesis using assms
    by (simp add: buildBackhaulPart_def layBackhaul_def storedBackhaul_def storedStation_def)
next
  case (Some medium)
  have model: "getBackhaulModel base = bh_model (st_backhaul base)" using assms by (simp add: storedStation_def)
  have trimmed: "normalizeText (getBackhaulModel station) = getBackhaulModel station"
    by (simp add: getBackhaulModel_def) (simp add: normalizeText_def)
  show ?thesis
    by (rule backhaulDraft.equality)
      (simp_all add: Some buildBackhaulPart_def layBackhaul_def storedBackhaul_def Let_def hasKeys_def
        noBackhaulChange_def model orValue_toNullableText trimmed whenever_def)
qed

lemma layIdentifiers_written:
  "layIdentifiers base (whenever (parts \<noteq> []) parts)
    = fold (\<lambda>(kind, value) identifiers. identifiers(kind := orValue value [])) parts base"
  by (cases parts) (simp_all add: layIdentifiers_def)

lemma layIdentifiers_parts:
  assumes "distinct kinds"
  shows "fold (\<lambda>(kind, value) identifiers. identifiers(kind := orValue value []))
      (concat (map (identifierPart station base) kinds)) identifiers
    = (\<lambda>kind. if kind \<in> set kinds \<and> normalizeText (st_identifiers station kind) \<noteq> normalizeText (st_identifiers base kind)
         then normalizeText (st_identifiers station kind) else identifiers kind)"
  using assms
proof (induction kinds arbitrary: identifiers)
  case (Cons kind kinds)
  then show ?case
    by (auto simp: identifierPart_def Let_def orValue_toNullableText fun_eq_iff)
qed simp

text \<open>
  C35. What a submission says of a station, laid over the record it was made from, is the station of
  the draft: its texts trimmed, a backhaul only with a medium, a model only for a microwave link.
  The status and the confirmation are not part of a submission, and a draft without an operator cannot take
  the operator of its base away.
\<close>
theorem station_part_round_trip:
  assumes "storedStation base" "st_operatorId station = None \<longrightarrow> st_operatorId base = None"
  shows "layStation base (Some (stationChange.truncate (buildStationPart station base False))) = readBack base station"
proof -
  have "distinct IDENTIFIER_KINDS" "set IDENTIFIER_KINDS = UNIV"
    using identifierKind.exhaust by (auto simp: IDENTIFIER_KINDS_def)
  note kinds = this
  let ?parts = "concat (map (identifierPart station base) IDENTIFIER_KINDS)"
  have written: "sc_identifiers (buildStationPart station base False) = whenever (?parts \<noteq> []) ?parts"
    by (simp add: buildStationPart_def Let_def)
  have "layIdentifiers (st_identifiers base) (sc_identifiers (buildStationPart station base False))
      = (\<lambda>kind. normalizeText (st_identifiers station kind))"
    unfolding written layIdentifiers_written layIdentifiers_parts [OF kinds(1)]
    using assms(1) kinds(2) by (auto simp: storedStation_def fun_eq_iff)
  moreover have "layBackhaul (st_backhaul base) (sc_backhaul (buildStationPart station base False)) = storedBackhaul station"
    using layBackhaul_part [OF assms(1)] by (simp add: buildStationPart_def Let_def)
  ultimately show ?thesis using assms
    by (intro stationDraft.equality)
      (auto simp: layStation_def stationChange.truncate_def readBack_def buildStationPart_def Let_def whenever_def
        orValue_toNullableText storedStation_def)
qed

definition sampleBase :: stationDraft where
  "sampleBase = createEmptyStation\<lparr>st_siteId := ''4501'', st_operatorId := Some 1\<rparr>"

definition sampleEdit :: stationDraft where
  "sampleEdit = sampleBase\<lparr>st_siteId := '' 4502 '', st_notes := ''roof'',
     st_backhaul := \<lparr>bh_medium = Some Microwave, bh_speedMbps = Some 1000, bh_model = ''MINI ''\<rparr>\<rparr>"

lemma storedStation_sample: "storedStation sampleBase"
  by (simp add: storedStation_def sampleBase_def createEmptyStation_def createEmptyIdentifiers_def EMPTY_BACKHAUL_def
      getBackhaulModel_def normalizeText_def isWhiteSpace_def)

theorem station_part_round_trip_witness:
  "layStation sampleBase (Some (stationChange.truncate (buildStationPart sampleEdit sampleBase False)))
    = readBack sampleBase sampleEdit"
  by (rule station_part_round_trip [OF storedStation_sample]) (simp add: sampleEdit_def sampleBase_def)

section \<open>Groups of cells\<close>

definition groupOf :: "cellDraft list \<Rightarrow> draftKey list \<Rightarrow> (cellDraft \<Rightarrow> 'k option) \<Rightarrow> 'k \<Rightarrow> cellGroup option" where
  "groupOf cells written getKey key =
    (let members = filter (\<lambda>c. getKey c = Some key) cells
     in if members = [] then None
        else Some \<lparr>cg_cells = members, cg_hasWrittenCell = list_ex (\<lambda>c. ce_key c \<in> set written) members\<rparr>)"

lemma map_of_joinGroup:
  "map_of (joinGroup written getKey c groups) key =
    (if getKey c = Some key
     then Some (case map_of groups key of
         None \<Rightarrow> \<lparr>cg_cells = [c], cg_hasWrittenCell = (ce_key c \<in> set written)\<rparr>
       | Some g \<Rightarrow> \<lparr>cg_cells = cg_cells g @ [c], cg_hasWrittenCell = (cg_hasWrittenCell g \<or> ce_key c \<in> set written)\<rparr>)
     else map_of groups key)"
  by (cases "getKey c") (simp_all add: joinGroup_def Let_def update_conv' split: option.split)

lemma joined_groups:
  "map_of (fold (joinGroup written getKey) cells []) key = groupOf cells written getKey key"
proof (induction cells rule: rev_induct)
  case Nil
  then show ?case by (simp add: groupOf_def)
next
  case (snoc c cells)
  let ?members = "filter (\<lambda>c. getKey c = Some key) cells"
  show ?case
  proof (cases "?members = []")
    case True
    then show ?thesis by (simp add: map_of_joinGroup snoc.IH) (simp add: groupOf_def Let_def)
  next
    case False
    then have "groupOf cells written getKey key
        = Some \<lparr>cg_cells = ?members, cg_hasWrittenCell = list_ex (\<lambda>c. ce_key c \<in> set written) ?members\<rparr>"
      unfolding groupOf_def Let_def by (rule if_not_P)
    with False show ?thesis
      by (simp add: map_of_joinGroup snoc.IH del: filter_empty_conv) (auto simp: groupOf_def Let_def list_ex_iff)
  qed
qed

lemma groupCells_group:
  assumes "c \<in> set cells" "d \<in> set cells" "ce_key c \<noteq> ce_key d" "getKey c = Some key" "getKey d = Some key"
    and "ce_key c \<in> set written \<or> ce_key d \<in> set written"
  shows "\<exists>g\<in>set (groupCells cells written getKey). groupHas c g \<and> groupHas d g"
proof -
  let ?members = "filter (\<lambda>c. getKey c = Some key) cells"
  define g where "g = \<lparr>cg_cells = ?members, cg_hasWrittenCell = list_ex (\<lambda>c. ce_key c \<in> set written) ?members\<rparr>"
  have members: "c \<in> set ?members" "d \<in> set ?members" using assms by auto
  then have "?members \<noteq> []" by (metis list.set(1) empty_iff)
  then have "map_of (fold (joinGroup written getKey) cells []) key = Some g"
    unfolding joined_groups groupOf_def Let_def g_def by (rule if_not_P)
  then have "g \<in> set (map snd (fold (joinGroup written getKey) cells []))"
    by (force dest: map_of_SomeD)
  moreover have "1 < length ?members"
  proof (rule ccontr)
    assume "\<not> 1 < length ?members"
    then obtain x where "?members = [x]" using \<open>?members \<noteq> []\<close> by (cases ?members) auto
    then show False using members assms(3) by auto
  qed
  moreover have "list_ex (\<lambda>c. ce_key c \<in> set written) ?members"
    using members assms(6) by (auto simp: list_ex_iff)
  ultimately have "g \<in> set (groupCells cells written getKey)" by (simp add: groupCells_def g_def)
  moreover have "groupHas c g" "groupHas d g" using members by (auto simp: groupHas_def g_def)
  ultimately show ?thesis by blast
qed

section \<open>A draft without errors\<close>

lemma errorIf_empty [simp]: "errorIf condition e = [] \<longleftrightarrow> \<not> condition"
  by (simp add: errorIf_def)

lemma valid_rat:
  assumes "validateDraft s vc site = []" "es_action s \<noteq> ActDelete"
  shows "validateRat s vc r = []" "countCellEntries s \<le> MAX_CELL_CHANGES"
  using assms by (auto simp: validateDraft_def)

lemma identityKey_field:
  "getIdentityKey s c = Some key \<Longrightarrow> \<exists>f. rs_cellIdField (RAT_FIELDS (ce_rat c)) = Some f"
  by (auto simp: getIdentityKey_def split: option.splits)

lemma written_key:
  assumes "c \<in> set (sn_cells (es_draft s))" "\<not> ce_isDeleted c"
    and "getRowKind s c (findDraftGnbidLength (es_draft s) (vc_operatorsById vc)) \<noteq> RowSame"
  shows "c \<in> set (writtenCells s vc (ce_rat c))"
  using assms by (simp add: writtenCells_def)

text \<open>
  C34. In a draft without errors no row that is written shares its identity (the node with the
  CLID or CID) with another row of the technology: two rows that do are both as the live record
  has them.
\<close>
theorem valid_draft_has_no_duplicates:
  assumes "validateDraft s vc site = []" "es_action s \<noteq> ActDelete"
    and "c \<in> set (sn_cells (es_draft s))" "d \<in> set (sn_cells (es_draft s))"
    and "\<not> ce_isDeleted c" "\<not> ce_isDeleted d" "ce_rat c = ce_rat d" "ce_key c \<noteq> ce_key d"
    and "getIdentityKey s c = Some key" "getIdentityKey s d = Some key"
  shows "getRowKind s c (findDraftGnbidLength (es_draft s) (vc_operatorsById vc)) = RowSame \<and>
    getRowKind s d (findDraftGnbidLength (es_draft s) (vc_operatorsById vc)) = RowSame"
proof (rule ccontr)
  let ?r = "ce_rat d" and ?written = "map ce_key (writtenCells s vc (ce_rat d))"
  let ?cells = "filter (\<lambda>c. ce_rat c = ?r \<and> \<not> ce_isDeleted c) (sn_cells (es_draft s))"
  assume "\<not> ?thesis"
  then have "c \<in> set (writtenCells s vc ?r) \<or> d \<in> set (writtenCells s vc ?r)"
    using written_key [OF assms(3,5)] written_key [OF assms(4,6)] assms(7) by metis
  then have "ce_key c \<in> set ?written \<or> ce_key d \<in> set ?written" by auto
  moreover have cells: "c \<in> set ?cells" "d \<in> set ?cells" using assms by auto
  ultimately obtain g where g: "g \<in> set (groupCells ?cells ?written (getIdentityKey s))" "groupHas c g"
    using groupCells_group [OF cells assms(8,9,10)] by blast
  obtain f where "rs_cellIdField (RAT_FIELDS ?r) = Some f" using identityKey_field [OF assms(10)] by blast
  then have "validateDuplicate s ?r (groupCells ?cells ?written (getIdentityKey s))
      (groupCells ?cells ?written getPciIdentity) c \<noteq> []"
    using g by (auto simp: validateDuplicate_def list_ex_iff)
  then have "validateDuplicates s ?r ?cells ?written \<noteq> []"
    using cells by (auto simp: validateDuplicates_def Let_def)
  then show False using valid_rat(1) [OF assms(1,2), of ?r] by (simp add: validateRat_def Let_def)
qed

lemma new_cell_is_written:
  assumes "c \<in> set (sn_cells (es_draft s))" "\<not> ce_isDeleted c" "findCell (liveBase s) (ce_key c) = None"
  shows "c \<in> set (writtenCells s vc (ce_rat c))"
  using assms by (simp add: writtenCells_def getRowKind_def)

text \<open>
  C33. A draft without errors loses no new cell on its way to the API: whatever base and options the
  body is built with, each new row has its entry, and there are no more entries than the API takes.
\<close>
theorem valid_draft_sends_new_cells:
  assumes "validateDraft s vc site = []" "es_action s \<noteq> ActDelete"
    and "c \<in> set (sn_cells (es_draft s))" "\<not> ce_isDeleted c" "ce_id c = None"
    and "findCell (liveBase s) (ce_key c) = None"
  shows "ce_key c \<in> set (pt_cellKeys (buildParts (es_draft s) base options)) \<and>
    countCellEntries s \<le> MAX_CELL_CHANGES"
proof -
  let ?cells = "filter (\<lambda>x. ce_rat x = ce_rat c \<and> \<not> ce_isDeleted x) (sn_cells (es_draft s))"
  let ?written = "map ce_key (writtenCells s vc (ce_rat c))"
  note valid = valid_rat [OF assms(1,2)]
  have written: "c \<in> set (writtenCells s vc (ce_rat c))" by (rule new_cell_is_written [OF assms(3,4,6)])
  have cell: "validateCell s vc c = []" "validateAreaCode s (ce_rat c) ?cells ?written = []"
    using valid(1) [of "ce_rat c"] written by (auto simp: validateRat_def Let_def)
  then have required: "validateRequiredIds s c = []" by (simp add: validateCell_def)
  then obtain bandId where band: "ce_bandId c = Some bandId"
    using assms(5) by (auto simp: validateRequiredIds_def Let_def)
  have "getAreaValue (es_draft s) c \<noteq> None \<and> getCellNumber c Cid \<noteq> None" if gsm: "ce_rat c = Gsm"
  proof -
    have "c \<in> set (filter carriesAreaCode ?cells)" using assms(3,4) gsm by (simp add: carriesAreaCode_def)
    then have "filter carriesAreaCode ?cells \<noteq> []" by (metis list.set(1) empty_iff)
    moreover have "\<not> (ce_rat c = Gsm \<and> sn_areaCodes (es_draft s) Gsm = PerCell \<and> getCellNumber c Lac = None)"
      "getCellNumber c Cid \<noteq> None"
      using required gsm by (auto simp: validateRequiredIds_def Let_def)
    ultimately show ?thesis
      using cell(2) gsm
      by (auto simp: getAreaValue_def carriesAreaCode_def getAreaCodeField_def validateAreaCode_def Let_def
          split: areaCode.splits option.splits)
  qed
  then have "buildNewCell c (es_draft s) plan options \<noteq> None" for plan
    by (cases "ce_rat c") (auto simp: buildNewCell_def band Let_def buildNewGsmCell_def split: option.split)
  then obtain created where "buildNewCell c (es_draft s) (planSectors (es_draft s) base) options = Some created"
    by blast
  then have "buildCellEntry c (es_draft s) base (planSectors (es_draft s) base) options = Some (CellCreate created)"
    using assms(4,5) by (simp add: buildCellEntry_def)
  then have "ce_key c \<in> set (pt_cellKeys (buildParts (es_draft s) base options))"
    using assms(3) by (force simp: buildParts_def Let_def map_filter_def image_iff)
  then show ?thesis using valid(2) by blast
qed

section \<open>A draft that is in order\<close>

definition lteRow :: "string \<Rightarrow> int option \<Rightarrow> number \<Rightarrow> cellDraft" where
  "lteRow key i clid = createCellDraft Lte (noInit\<lparr>ci_key := Some key, ci_id := i, ci_bandId := Some 3,
     ci_numbers := [Tac \<mapsto> Some 7, Enbid \<mapsto> Some 100, Clid \<mapsto> Some clid]\<rparr>) ''x''"

definition twinLive :: stationSnapshot where
  "twinLive = EMPTY_SNAPSHOT\<lparr>sn_station := sampleBase, sn_cells := [lteRow ''c1'' (Some 1) 5, lteRow ''c2'' (Some 2) 5],
     sn_areaCodes := (\<lambda>_. PerCell)\<rparr>"

definition twinSession :: editSession where
  "twinSession = \<lparr>es_kind = KindEditor, es_action = ActUpdate, es_countryCode = None, es_hoistedTac = False,
     es_editsHostStations = True, es_live = Some twinLive, es_proposed = None, es_initial = twinLive,
     es_draft = twinLive\<lparr>sn_cells := sn_cells twinLive @ [lteRow ''n1'' None 6]\<rparr>, es_enabledRats = [Lte],
     es_serverErrors = [], es_isSaveAttempted = False\<rparr>"

definition plainValidation :: validationContext where
  "plainValidation = \<lparr>vc_countryCode = None, vc_bandsById = (\<lambda>_. None), vc_bandPlanIds = None,
     vc_countryFeatures = None, vc_countryOperators = [], vc_operatorsById = (\<lambda>_. None),
     vc_regionCountry = (\<lambda>_. None), vc_refusesAddress = (\<lambda>_ _. False)\<rparr>"

lemma twinSession_valid: "validateDraft twinSession plainValidation None = []"
  by code_simp

lemma twinSession_cells:
  "sn_cells (es_draft twinSession) = [lteRow ''c1'' (Some 1) 5, lteRow ''c2'' (Some 2) 5, lteRow ''n1'' None 6]"
  by (simp add: twinSession_def twinLive_def)

lemma twin_rows:
  "ce_rat (lteRow key i clid) = Lte" "ce_key (lteRow key i clid) = key" "ce_id (lteRow key i clid) = i"
  "\<not> ce_isDeleted (lteRow key i clid)"
  by (simp_all add: lteRow_def noInit_def)

theorem valid_draft_has_no_duplicates_witness:
  "getIdentityKey twinSession (lteRow ''c1'' (Some 1) 5) = Some (100, 5) \<and>
   getRowKind twinSession (lteRow ''c1'' (Some 1) 5) (findDraftGnbidLength (es_draft twinSession) (vc_operatorsById plainValidation)) = RowSame \<and>
   getRowKind twinSession (lteRow ''c2'' (Some 2) 5) (findDraftGnbidLength (es_draft twinSession) (vc_operatorsById plainValidation)) = RowSame"
proof -
  have keys: "getIdentityKey twinSession (lteRow ''c1'' (Some 1) 5) = Some (100, 5)"
    "getIdentityKey twinSession (lteRow ''c2'' (Some 2) 5) = Some (100, 5)"
    by code_simp+
  have "es_action twinSession \<noteq> ActDelete" by (simp add: twinSession_def)
  then show ?thesis
    using valid_draft_has_no_duplicates [OF twinSession_valid, of "lteRow ''c1'' (Some 1) 5" "lteRow ''c2'' (Some 2) 5" "(100, 5)"] keys
    by (simp add: twinSession_cells twin_rows)
qed

theorem valid_draft_sends_new_cells_witness:
  "''n1'' \<in> set (pt_cellKeys (buildParts (es_draft twinSession) twinLive DIRECT_OPTIONS))"
proof -
  have "findCell (liveBase twinSession) ''n1'' = None"
    by (simp add: findCell_def liveBase_def twinSession_def twinLive_def twin_rows)
  moreover have "es_action twinSession \<noteq> ActDelete" by (simp add: twinSession_def)
  ultimately show ?thesis
    using valid_draft_sends_new_cells [OF twinSession_valid, of "lteRow ''n1'' None 6" twinLive DIRECT_OPTIONS]
    by (simp add: twinSession_cells twin_rows)
qed

section \<open>An untouched draft\<close>

lemma same_station: "buildStationPart station station isDirect = noStationPart"
proof -
  have "concat (map (identifierPart station station) kinds) = []" for kinds
    by (simp add: identifierPart_def)
  moreover have "buildBackhaulPart station station = None"
    by (simp add: buildBackhaulPart_def Let_def hasKeys_def noBackhaulChange_def whenever_def)
  ultimately show ?thesis by (simp add: buildStationPart_def noStationPart_def Let_def whenever_def)
qed

lemma same_location:
  assumes "po_storedPlace options = None"
  shows "buildLocationPart place place options = map_option (\<lambda>_. noLocationPart) place"
proof (cases place)
  case (Some p)
  have "\<not> isMarkerMoved place place"
    by (simp add: isMarkerMoved_def isMarkerAt_def split: option.split)
  moreover have "buildStructurePart p (Some p) False options = None"
    using assms by (simp add: buildStructurePart_def Let_def hasKeys_def isSameOwnerChoice_def)
  ultimately show ?thesis
    using Some by (simp add: buildLocationPart_def noLocationPart_def Let_def whenever_def)
qed (simp add: buildLocationPart_def)

text \<open>Sectors as the API serves them: each with an id, in ascending order.\<close>

definition servedSectors :: "sectorDraft list \<Rightarrow> bool" where
  "servedSectors sectors \<longleftrightarrow>
    distinct (map se_key sectors) \<and> (\<exists>ids. map se_id sectors = map Some ids \<and> sorted_wrt (<) ids)"

definition servedEntry :: "sectorDraft \<Rightarrow> sectorEntry" where
  "servedEntry x = \<lparr>en_rowKey = se_key x, en_id = se_id x, en_wireKey = [], en_degrees = se_degrees x\<rparr>"

lemma served_ids:
  "map se_id sectors = map Some ids \<Longrightarrow> listedRows sectors = sectors \<and> List.map_filter se_id sectors = ids \<and>
    filter (\<lambda>x. se_id x = None) sectors = []"
proof (induction sectors arbitrary: ids)
  case (Cons x sectors)
  then show ?case by (cases ids) (auto simp: listedRows_def map_filter_simps)
qed (simp add: listedRows_def map_filter_simps)

lemma served_entries:
  assumes "servedSectors sectors"
  shows "listSectorEntries sectors = map servedEntry sectors"
proof -
  obtain ids where ids: "map se_id sectors = map Some ids" "sorted_wrt (<) ids"
    using assms by (auto simp: servedSectors_def)
  note rows = served_ids [OF ids(1)]
  have "sort ids = ids" using ids(2) by (simp add: sorted_sort_id strict_sorted_imp_sorted)
  moreover have "length ids = length sectors" using ids(1) by (metis length_map)
  moreover have "se_id (sectors ! i) = Some (ids ! i)" if "i < length sectors" for i
    using ids(1) that \<open>length ids = length sectors\<close> by (metis nth_map)
  ultimately show ?thesis
    by (intro nth_equalityI) (auto simp: listSectorEntries_def rows Let_def toSectorEntry_def servedEntry_def)
qed

lemma served_id:
  assumes "servedSectors sectors" "x \<in> set sectors"
  shows "\<exists>i. se_id x = Some i"
proof -
  obtain ids where "map se_id sectors = map Some ids" using assms(1) by (auto simp: servedSectors_def)
  moreover have "se_id x \<in> set (map se_id sectors)" using assms(2) by simp
  ultimately show ?thesis by (metis ex_map_conv)
qed

definition servedTargets :: "sectorDraft list \<Rightarrow> (draftKey \<Rightarrow> wireTarget option) \<Rightarrow> draftKey \<Rightarrow> wireTarget option" where
  "servedTargets sectors targets = fold (\<lambda>x targets. targets(se_key x \<mapsto> TargetId (the (se_id x)))) sectors targets"

lemma servedTargets_other: "key \<notin> set (map se_key sectors) \<Longrightarrow> servedTargets sectors targets key = targets key"
  by (induction sectors arbitrary: targets) (simp_all add: servedTargets_def)

lemma servedTargets_row:
  "distinct (map se_key sectors) \<Longrightarrow> x \<in> set sectors \<Longrightarrow>
    servedTargets sectors targets (se_key x) = Some (TargetId (the (se_id x)))"
proof (induction sectors arbitrary: targets)
  case (Cons y sectors)
  then show ?case
    using servedTargets_other [of "se_key y" sectors] by (cases "x = y") (auto simp: servedTargets_def)
qed simp

lemma plan_served:
  assumes "\<forall>x\<in>set rows. \<exists>i. se_id x = Some i \<and> degrees i = Some (se_degrees x)"
  shows "fold (planEntry degrees) (map servedEntry rows) plan
    = plan\<lparr>pn_targets := servedTargets rows (pn_targets plan)\<rparr>"
  using assms
proof (induction rows arbitrary: plan)
  case (Cons x rows)
  obtain i where i: "se_id x = Some i" "degrees i = Some (se_degrees x)" using Cons.prems by auto
  have "planEntry degrees (servedEntry x) plan = aimAt (se_key x) (TargetId i) plan"
    using i by (cases "se_degrees x") (simp_all add: planEntry_def servedEntry_def Let_def)
  then show ?case using Cons i by (simp add: servedTargets_def aimAt_def)
qed (simp add: servedTargets_def)

lemma served_degrees:
  assumes "servedSectors sectors" "x \<in> set sectors" "se_id x = Some i"
  shows "map_of (rev (List.map_filter (\<lambda>x. map_option (\<lambda>i. (i, se_degrees x)) (se_id x)) sectors)) i = Some (se_degrees x)"
proof -
  let ?pairs = "List.map_filter (\<lambda>x. map_option (\<lambda>i. (i, se_degrees x)) (se_id x)) sectors"
  obtain ids where ids: "map se_id sectors = map Some ids" "sorted_wrt (<) ids"
    using assms(1) by (auto simp: servedSectors_def)
  have "map fst ?pairs = ids" using ids(1)
  proof (induction sectors arbitrary: ids)
    case (Cons x sectors)
    then show ?case by (cases ids) (auto simp: map_filter_simps)
  qed (simp add: map_filter_simps)
  then have "distinct (map fst (rev ?pairs))" using ids(2) by (simp add: strict_sorted_iff flip: rev_map)
  moreover have "(i, se_degrees x) \<in> set (rev ?pairs)"
    using assms(2,3) by (force simp: map_filter_def)
  ultimately show ?thesis by (rule map_of_is_SomeI)
qed

lemma same_plan:
  assumes "servedSectors (sn_sectors sn)"
  shows "planSectors sn sn = \<lparr>pn_entries = [], pn_keys = [], pn_targets = servedTargets (sn_sectors sn) Map.empty\<rparr>"
proof -
  let ?degrees = "map_of (rev (List.map_filter (\<lambda>x. map_option (\<lambda>i. (i, se_degrees x)) (se_id x)) (sn_sectors sn)))"
  have known: "\<exists>i. se_id x = Some i \<and> ?degrees i = Some (se_degrees x)" if "x \<in> set (sn_sectors sn)" for x
    using served_id [OF assms that] served_degrees [OF assms that] by blast
  have "i \<in> set (List.map_filter en_id (map servedEntry (sn_sectors sn)))" if "x \<in> set (sn_sectors sn)" "se_id x = Some i" for x i
    using that by (force simp: map_filter_def servedEntry_def)
  then have kept: "fold (\<lambda>x plan. case se_id x of None \<Rightarrow> plan
      | Some i \<Rightarrow> (if i \<in> set (List.map_filter en_id (map servedEntry (sn_sectors sn))) then plan
          else addToPlan (se_key x) (SectorDelete i) plan)) rows plan = plan" if "set rows \<subseteq> set (sn_sectors sn)" for rows plan
    using that by (induction rows arbitrary: plan) (auto split: option.split)
  show ?thesis
    unfolding planSectors_def Let_def served_entries [OF assms]
    using known by (simp add: plan_served kept)
qed

lemma same_cell_sector:
  assumes "servedSectors (sn_sectors sn)"
  shows "writeSectorChange c c sn (planSectors sn sn) ref = ref"
proof (cases "List.find (\<lambda>x. Some (se_key x) = ce_sectorKey c) (sn_sectors sn)")
  case None
  then have "se_key x \<noteq> key" if "x \<in> set (sn_sectors sn)" "ce_sectorKey c = Some key" for x key
    using that by (auto simp: find_None_iff)
  then have "targetFor (planSectors sn sn) c = None"
    using servedTargets_other [of _ "sn_sectors sn" Map.empty]
    by (cases "ce_sectorKey c") (force simp: targetFor_def same_plan [OF assms])+
  then show ?thesis by (simp add: writeSectorChange_def None)
next
  case (Some x)
  then have x: "x \<in> set (sn_sectors sn)" "ce_sectorKey c = Some (se_key x)"
    by (auto simp: find_Some_iff)
  obtain i where "se_id x = Some i" using served_id [OF assms x(1)] by blast
  moreover have "targetFor (planSectors sn sn) c = Some (TargetId (the (se_id x)))"
    using servedTargets_row [OF _ x(1)] assms
    by (simp add: targetFor_def x(2) same_plan [OF assms] servedSectors_def)
  ultimately show ?thesis by (simp add: writeSectorChange_def Some)
qed

lemma same_cell_update:
  assumes "servedSectors (sn_sectors sn)"
  shows "buildCellUpdateFields c c sn sn (planSectors sn sn) options = noCellUpdate"
proof -
  have "numberUpdate c c sn sn f = []" for f by (simp add: numberUpdate_def Let_def)
  then show ?thesis
    by (simp add: buildCellUpdateFields_def Let_def same_cell_sector [OF assms] noCellUpdate_def whenever_def isSameCodes_def)
qed

text \<open>
  C36. A draft that is the live record sends nothing: no field of the station or the place, no sector
  and no cell, so a direct edit has no body.
\<close>
theorem untouched_draft_sends_nothing:
  assumes "es_live s = Some (es_draft s)" "servedSectors (sn_sectors (es_draft s))"
    and "distinct (map ce_key (sn_cells (es_draft s)))"
    and "\<forall>c\<in>set (sn_cells (es_draft s)). ce_id c \<noteq> None \<and> \<not> ce_isDeleted c"
  shows "bb_body (buildStationUpdate s owner) = None \<and> countCellEntries s = 0"
proof -
  let ?sn = "es_draft s"
  have "buildCellEntry c ?sn ?sn (planSectors ?sn ?sn) options = None" if "c \<in> set (sn_cells ?sn)" for c options
    using that assms(4) findCell_in [OF assms(3) that]
    by (auto simp: buildCellEntry_def same_cell_update [OF assms(2)] hasKeys_def split: option.split)
  then have "List.map_filter (\<lambda>c. map_option (\<lambda>entry. (entry, ce_key c))
      (buildCellEntry c ?sn ?sn (planSectors ?sn ?sn) options)) (sn_cells ?sn) = []" for options
    by (simp add: map_filter_def filter_empty_conv)
  then have "buildParts ?sn ?sn options = \<lparr>pt_station = noStationPart,
      pt_location = map_option (\<lambda>_. noLocationPart) (sn_place ?sn), pt_sectors = [], pt_sectorKeys = [],
      pt_cells = [], pt_cellKeys = []\<rparr>" if "po_storedPlace options = None" for options
    using that by (simp add: buildParts_def Let_def same_station same_location same_plan [OF assms(2)])
  then show ?thesis
    by (cases "sn_place ?sn")
      (simp_all add: buildStationUpdate_def countCellEntries_def liveBase_def assms(1) DIRECT_OPTIONS_def Let_def
        hasKeys_def noStationUpdate_def filledLocation_def filledList_def)
qed

definition servedSession :: editSession where
  "servedSession = twinSession\<lparr>es_draft := twinLive\<rparr>"

theorem untouched_draft_sends_nothing_witness:
  "bb_body (buildStationUpdate servedSession NO_OWNER) = None \<and> countCellEntries servedSession = 0"
  by (rule untouched_draft_sends_nothing)
    (simp_all add: servedSession_def twinSession_def twinLive_def EMPTY_SNAPSHOT_def servedSectors_def twin_rows)

end
