(* ===== verification/Access.thy ===== *)
theory Access
  imports Prelude
begin

text \<open>
  Who may edit what on the server: the grants of editors (features/access/access.ts, staff.ts,
  filters.ts, scope.ts), their administration (roleGrants.ts, grantManagement.ts and the routes
  under /role-grants), and the list of grants. The tables the queries read are lists of rows in
  an explicit state; a deleted grant takes its regions with it, as the foreign key says. A
  transaction is a function of the state: it gives the new state, or an error and then no state.
  The permission check of the auth library is a parameter. Ids are 128-bit numbers, times are
  numbers, and both come from outside (\<open>newId\<close>, \<open>now\<close>).
\<close>

section \<open>Tables\<close>

type_synonym uuid = int

datatype grantRole = GrantEditor | GrantMaintainer

record userRow =
  us_id :: uuid
  us_role :: string

record roleGrantRow =
  rg_id :: uuid
  rg_userId :: uuid
  rg_role :: grantRole
  rg_countryCode :: string
  rg_isCountryWide :: bool
  rg_grantedById :: "uuid option"
  rg_createdAt :: int
  rg_updatedAt :: int

record accessDb =
  db_users :: "userRow list"
  db_grants :: "roleGrantRow list"
  db_grantRegions :: "(uuid \<times> int) list"
  db_countries :: "string list"
  db_regions :: "(int \<times> string) list"

datatype accessError =
    NotFound
  | BadRequest string
  | Conflict string
  | InsufficientPermissions "string option"
  | Unauthorized
  | FailedToCreate

datatype auditMetadata = StaleGrant | RoleChangedTo string | RoleChanged string string
datatype auditOp = AuditCreate | AuditUpdate | AuditDelete

record roleGrantWithRegions =
  gw_row :: roleGrantRow
  gw_regionIds :: "int list"

record auditEntry =
  au_op :: auditOp
  au_recordId :: uuid
  au_old :: "roleGrantWithRegions option"
  au_new :: "roleGrantWithRegions option"
  au_metadata :: "auditMetadata option"

definition LEGACY_COUNTRY_CODE :: string where "LEGACY_COUNTRY_CODE = ''PL''"
definition STAFF_ROLES :: "string list" where "STAFF_ROLES = [''admin'', ''editor'']"

definition findUser :: "accessDb \<Rightarrow> uuid \<Rightarrow> userRow option" where
  "findUser db userId = List.find (\<lambda>u. us_id u = userId) (db_users db)"

definition setUserRole :: "uuid \<Rightarrow> string \<Rightarrow> accessDb \<Rightarrow> accessDb" where
  "setUserRole userId role db =
    db\<lparr>db_users := map (\<lambda>u. if us_id u = userId then u\<lparr>us_role := role\<rparr> else u) (db_users db)\<rparr>"

definition grantsOf :: "accessDb \<Rightarrow> uuid \<Rightarrow> roleGrantRow list" where
  "grantsOf db userId = filter (\<lambda>g. rg_userId g = userId) (db_grants db)"

section \<open>Access of an actor\<close>

record editorGrant =
  eg_countryCode :: string
  eg_isCountryWide :: bool
  eg_isMaintainer :: bool
  eg_regionIds :: "int list"

record actorAccess =
  ac_userId :: uuid
  ac_role :: string
  ac_grants :: "editorGrant list"

record scopeTarget =
  tg_countryCode :: "string option"
  tg_regionId :: "int option"

record grantRow =
  gr_countryCode :: string
  gr_grantRole :: grantRole
  gr_isCountryWide :: bool
  gr_regionId :: "int option"

definition mergeGrantRow :: "grantRow \<Rightarrow> editorGrant \<Rightarrow> editorGrant" where
  "mergeGrantRow row grant = grant\<lparr>
     eg_isCountryWide := (eg_isCountryWide grant \<or> gr_isCountryWide row),
     eg_isMaintainer := (eg_isMaintainer grant \<or> gr_grantRole row = GrantMaintainer),
     eg_regionIds := eg_regionIds grant @ (case gr_regionId row of None \<Rightarrow> [] | Some r \<Rightarrow> [r])\<rparr>"

fun addGrantRow :: "editorGrant list \<Rightarrow> grantRow \<Rightarrow> editorGrant list" where
  "addGrantRow [] row = [mergeGrantRow row \<lparr>eg_countryCode = gr_countryCode row, eg_isCountryWide = False,
     eg_isMaintainer = False, eg_regionIds = []\<rparr>]"
| "addGrantRow (grant # grants) row =
     (if eg_countryCode grant = gr_countryCode row then mergeGrantRow row grant # grants
      else grant # addGrantRow grants row)"

text \<open>The rows of the left join of a grant with its regions.\<close>

definition joinRegions :: "accessDb \<Rightarrow> roleGrantRow \<Rightarrow> grantRow list" where
  "joinRegions db g =
    (let row = (\<lambda>r. \<lparr>gr_countryCode = rg_countryCode g, gr_grantRole = rg_role g,
           gr_isCountryWide = rg_isCountryWide g, gr_regionId = r\<rparr>);
         regions = map snd (filter (\<lambda>(i, _). i = rg_id g) (db_grantRegions db))
     in if regions = [] then [row None] else map (\<lambda>r. row (Some r)) regions)"

definition editorGrantsOf :: "accessDb \<Rightarrow> uuid \<Rightarrow> editorGrant list" where
  "editorGrantsOf db userId =
    fold (\<lambda>row grants. addGrantRow grants row) (concat (map (joinRegions db) (grantsOf db userId))) []"

definition loadActorAccess :: "accessDb \<Rightarrow> uuid \<Rightarrow> actorAccess option" where
  "loadActorAccess db userId =
    map_option (\<lambda>u. \<lparr>ac_userId = userId, ac_role = us_role u,
        ac_grants = (if us_role u \<noteq> ''editor'' then [] else editorGrantsOf db userId)\<rparr>)
      (findUser db userId)"

text \<open>The staff: one joined row per user and region, or per user without a grant.\<close>

definition staffRows :: "accessDb \<Rightarrow> (userRow \<times> grantRow option) list" where
  "staffRows db =
    concat (map (\<lambda>u.
      let rows = concat (map (joinRegions db) (grantsOf db (us_id u)))
      in if rows = [] then [(u, None)] else map (\<lambda>row. (u, Some row)) rows)
      (filter (\<lambda>u. us_role u \<in> set STAFF_ROLES) (db_users db)))"

definition addStaffRow :: "userRow \<times> grantRow option \<Rightarrow> (uuid \<times> actorAccess) list \<Rightarrow> (uuid \<times> actorAccess) list" where
  "addStaffRow row staff =
    (let (u, grant) = row;
         access = (case map_of staff (us_id u) of
           Some access \<Rightarrow> access | None \<Rightarrow> \<lparr>ac_userId = us_id u, ac_role = us_role u, ac_grants = []\<rparr>);
         granted = (case grant of
           None \<Rightarrow> access
         | Some g \<Rightarrow> (if ac_role access \<noteq> ''editor'' then access
             else access\<lparr>ac_grants := addGrantRow (ac_grants access) g\<rparr>))
     in AList.update (us_id u) granted staff)"

definition loadStaffAccess :: "accessDb \<Rightarrow> actorAccess list" where
  "loadStaffAccess db = map snd (fold addStaffRow (staffRows db) [])"

definition findCountryGrant :: "actorAccess \<Rightarrow> string \<Rightarrow> editorGrant option" where
  "findCountryGrant access countryCode = List.find (\<lambda>g. eg_countryCode g = countryCode) (ac_grants access)"

definition coversTarget :: "actorAccess \<Rightarrow> scopeTarget \<Rightarrow> bool" where
  "coversTarget access target \<longleftrightarrow>
    (if ac_role access = ''admin'' then True
     else case Option.bind (tg_countryCode target) (findCountryGrant access) of
            None \<Rightarrow> False
          | Some grant \<Rightarrow> eg_isCountryWide grant \<or>
              (case tg_regionId target of None \<Rightarrow> False | Some r \<Rightarrow> r \<in> set (eg_regionIds grant)))"

definition canSeeCountry :: "actorAccess option \<Rightarrow> string \<Rightarrow> bool" where
  "canSeeCountry access countryCode \<longleftrightarrow>
    (case access of
       None \<Rightarrow> False
     | Some a \<Rightarrow> ac_role a = ''admin'' \<or> list_ex (\<lambda>g. eg_countryCode g = countryCode) (ac_grants a))"

section \<open>Requests\<close>

record authRequest =
  rq_sessionUserId :: "uuid option"
  rq_tokenReferenceId :: "uuid option"
  rq_oauthScopes :: "string list option"

type_synonym permissionObject = "(string \<times> string list) list"

definition actorIdFromRequest :: "authRequest \<Rightarrow> uuid option" where
  "actorIdFromRequest req = (case rq_sessionUserId req of Some i \<Rightarrow> Some i | None \<Rightarrow> rq_tokenReferenceId req)"

definition accessFromRequest :: "accessDb \<Rightarrow> authRequest \<Rightarrow> actorAccess option" where
  "accessFromRequest db req = Option.bind (actorIdFromRequest req) (loadActorAccess db)"

text \<open>The targets of a request are what its queries find (\<open>resolveScopeTargets\<close>).\<close>

definition requestCovers :: "actorAccess option \<Rightarrow> scopeTarget list \<Rightarrow> bool" where
  "requestCovers access targets \<longleftrightarrow>
    (case access of
       None \<Rightarrow> False
     | Some a \<Rightarrow>
         (if ac_role a = ''admin'' then True
          else if ac_grants a = [] then False
          else targets \<noteq> [] \<and> list_all (coversTarget a) targets))"

definition requestOverlaps :: "actorAccess option \<Rightarrow> scopeTarget list \<Rightarrow> bool" where
  "requestOverlaps access targets \<longleftrightarrow>
    (case access of
       None \<Rightarrow> False
     | Some a \<Rightarrow>
         (if ac_role a = ''admin'' then True
          else if ac_grants a = [] then False else list_ex (coversTarget a) targets))"

definition OUT_OF_SCOPE_MESSAGE :: string where
  "OUT_OF_SCOPE_MESSAGE = ''Your editor access does not cover this region''"

definition isOutsideLegacyCountry :: "string option \<Rightarrow> bool" where
  "isOutsideLegacyCountry countryCode \<longleftrightarrow> countryCode \<noteq> None \<and> countryCode \<noteq> Some LEGACY_COUNTRY_CODE"

text \<open>\<open>None\<close> where the request may go on.\<close>

definition assertRouteScope :: "actorAccess option \<Rightarrow> bool \<Rightarrow> scopeTarget list \<Rightarrow> accessError option" where
  "assertRouteScope access isLegacy targets =
    (case access of
       None \<Rightarrow> Some (InsufficientPermissions None)
     | Some a \<Rightarrow>
         (if ac_role a = ''admin'' \<and> \<not> isLegacy then None
          else if isLegacy \<and> list_ex (\<lambda>t. isOutsideLegacyCountry (tg_countryCode t)) targets then Some NotFound
          else if ac_role a = ''admin'' then None
          else if ac_grants a \<noteq> [] \<and> targets \<noteq> [] \<and> list_all (coversTarget a) targets then None
          else Some (InsufficientPermissions (Some OUT_OF_SCOPE_MESSAGE))))"

definition SCOPED_PERMISSIONS :: "string list" where
  "SCOPED_PERMISSIONS = [''create:stations'', ''update:stations'', ''delete:stations'', ''create:cells'',
     ''update:cells'', ''delete:cells'', ''create:locations'', ''update:locations'', ''delete:locations'',
     ''moderate:submissions'', ''moderate:observations'']"

definition requiresScope :: "string list option \<Rightarrow> bool" where
  "requiresScope permissions \<longleftrightarrow>
    (case permissions of None \<Rightarrow> False | Some ps \<Rightarrow> list_ex (\<lambda>p. p \<in> set SCOPED_PERMISSIONS) ps)"

text \<open>The predicate of a row's country and region that the list queries are filtered with.\<close>

definition grantsCover :: "editorGrant list \<Rightarrow> string option \<Rightarrow> int option \<Rightarrow> bool" where
  "grantsCover grants countryCode regionId \<longleftrightarrow>
    list_ex (\<lambda>g. if eg_isCountryWide g then countryCode = Some (eg_countryCode g)
        else case regionId of None \<Rightarrow> False | Some r \<Rightarrow> r \<in> set (eg_regionIds g)) grants"

text \<open>Whether a row is listed as editable: every row for an administrator.\<close>

definition resolveEditableRows :: "actorAccess option \<Rightarrow> string option \<Rightarrow> int option \<Rightarrow> bool" where
  "resolveEditableRows access countryCode regionId \<longleftrightarrow>
    (case access of
       None \<Rightarrow> grantsCover [] countryCode regionId
     | Some a \<Rightarrow> ac_role a = ''admin'' \<or> grantsCover (ac_grants a) countryCode regionId)"

section \<open>Staff and maintainers\<close>

record countryReach =
  cr_isEverywhere :: bool
  cr_countryCodes :: "string list"

definition sessionOrTokenAccessFromRequest :: "accessDb \<Rightarrow> authRequest \<Rightarrow> actorAccess option" where
  "sessionOrTokenAccessFromRequest db req =
    (if rq_sessionUserId req = None then None else accessFromRequest db req)"

definition assertTokenScope :: "authRequest \<Rightarrow> string \<Rightarrow> accessError option" where
  "assertTokenScope req scope =
    (case rq_oauthScopes req of
       None \<Rightarrow> None
     | Some scopes \<Rightarrow> (if scope \<in> set scopes then None else Some (InsufficientPermissions None)))"

definition tokenAllows :: "authRequest \<Rightarrow> permissionObject \<Rightarrow> bool" where
  "tokenAllows req permissions \<longleftrightarrow>
    (case rq_oauthScopes req of
       None \<Rightarrow> True
     | Some granted \<Rightarrow>
         list_all (\<lambda>scope. scope \<in> set granted)
           (concat (map (\<lambda>(resource, actions). map (\<lambda>action. action @ '':'' @ resource) actions) permissions)))"

definition hasStaffPermission :: "(uuid \<Rightarrow> permissionObject \<Rightarrow> bool) \<Rightarrow> authRequest \<Rightarrow> permissionObject \<Rightarrow> bool" where
  "hasStaffPermission verifyPermissions req permissions \<longleftrightarrow>
    (case rq_sessionUserId req of
       None \<Rightarrow> False
     | Some userId \<Rightarrow> tokenAllows req permissions \<and> verifyPermissions userId permissions)"

definition getCountryReach ::
  "(uuid \<Rightarrow> permissionObject \<Rightarrow> bool) \<Rightarrow> accessDb \<Rightarrow> authRequest \<Rightarrow> permissionObject \<Rightarrow> countryReach" where
  "getCountryReach verifyPermissions db req permissions =
    (if hasStaffPermission verifyPermissions req permissions then \<lparr>cr_isEverywhere = True, cr_countryCodes = []\<rparr>
     else if \<not> tokenAllows req permissions then \<lparr>cr_isEverywhere = False, cr_countryCodes = []\<rparr>
     else \<lparr>cr_isEverywhere = False, cr_countryCodes =
       (case sessionOrTokenAccessFromRequest db req of
          None \<Rightarrow> [] | Some access \<Rightarrow> map eg_countryCode (filter eg_isMaintainer (ac_grants access)))\<rparr>)"

section \<open>Grants\<close>

record roleGrantInput =
  gi_userId :: uuid
  gi_role :: grantRole
  gi_countryCode :: string
  gi_regionIds :: "int list option"
  gi_grantedById :: "uuid option"

record roleSync =
  sy_userId :: uuid
  sy_previousRole :: "string option"
  sy_earlierGrantIds :: "uuid list"
  sy_grantedById :: "uuid option"

definition grantSnapshot :: "roleGrantWithRegions \<Rightarrow> roleGrantWithRegions" where
  "grantSnapshot grant = grant\<lparr>gw_regionIds := sort (gw_regionIds grant)\<rparr>"

text \<open>The grant as it is served: \<open>regionIds\<close> is \<open>null\<close> for the whole country.\<close>

definition toRoleGrant :: "roleGrantWithRegions \<Rightarrow> roleGrantRow \<times> int list option" where
  "toRoleGrant grant =
    (gw_row grant, if rg_isCountryWide (gw_row grant) then None else Some (sort (gw_regionIds grant)))"

definition findRoleGrant :: "accessDb \<Rightarrow> uuid \<Rightarrow> accessError + roleGrantRow" where
  "findRoleGrant db grantId =
    (case List.find (\<lambda>g. rg_id g = grantId) (db_grants db) of None \<Rightarrow> Inl NotFound | Some g \<Rightarrow> Inr g)"

definition loadRegionIds :: "accessDb \<Rightarrow> uuid \<Rightarrow> int list" where
  "loadRegionIds db grantId = map snd (filter (\<lambda>(i, _). i = grantId) (db_grantRegions db))"

definition regionsInCountry :: "accessDb \<Rightarrow> int list option \<Rightarrow> string \<Rightarrow> bool" where
  "regionsInCountry db regionIds countryCode \<longleftrightarrow>
    (case regionIds of
       None \<Rightarrow> True
     | Some ids \<Rightarrow> length (filter (\<lambda>(r, country). r \<in> set ids \<and> country = countryCode) (db_regions db)) = length ids)"

definition REGIONS_MESSAGE :: string where
  "REGIONS_MESSAGE = ''Every region must belong to the grant's country''"

definition replaceRegions :: "uuid \<Rightarrow> int list \<Rightarrow> accessDb \<Rightarrow> accessDb" where
  "replaceRegions grantId regionIds db = db\<lparr>db_grantRegions :=
     filter (\<lambda>(i, _). i \<noteq> grantId) (db_grantRegions db) @ map (\<lambda>r. (grantId, r)) regionIds\<rparr>"

text \<open>The rows and, by the foreign key, their regions.\<close>

definition deleteGrantRows :: "uuid list \<Rightarrow> accessDb \<Rightarrow> accessDb" where
  "deleteGrantRows grantIds db = db\<lparr>
     db_grants := filter (\<lambda>g. rg_id g \<notin> set grantIds) (db_grants db),
     db_grantRegions := filter (\<lambda>(i, _). i \<notin> set grantIds) (db_grantRegions db)\<rparr>"

definition removeGrants :: "roleGrantRow list \<Rightarrow> auditMetadata \<Rightarrow> accessDb \<Rightarrow> accessDb \<times> auditEntry list" where
  "removeGrants rows metadata db =
    (deleteGrantRows (map rg_id rows) db,
     map (\<lambda>row. \<lparr>au_op = AuditDelete, au_recordId = rg_id row,
       au_old = Some (grantSnapshot \<lparr>gw_row = row, gw_regionIds = loadRegionIds db (rg_id row)\<rparr>),
       au_new = None, au_metadata = Some metadata\<rparr>) rows)"

text \<open>An insert fails where the check of the table on maintainer grants does.\<close>

definition insertGrant :: "roleGrantRow \<Rightarrow> accessDb \<Rightarrow> accessError + accessDb" where
  "insertGrant row db =
    (if rg_role row = GrantMaintainer \<and> \<not> rg_isCountryWide row then Inl FailedToCreate
     else Inr (db\<lparr>db_grants := db_grants db @ [row]\<rparr>))"

record grantCreation =
  gc_db :: accessDb
  gc_audit :: "auditEntry list"
  gc_grant :: roleGrantWithRegions
  gc_roleChanged :: bool

definition createRoleGrant :: "accessDb \<Rightarrow> roleGrantInput \<Rightarrow> uuid \<Rightarrow> int \<Rightarrow> accessError + grantCreation" where
  "createRoleGrant db input newId now =
    (case findUser db (gi_userId input) of
       None \<Rightarrow> Inl (BadRequest ''User not found'')
     | Some user \<Rightarrow>
         (if us_role user = ''admin'' then Inl (Conflict ''Administrators already have access everywhere'')
          else if gi_countryCode input \<notin> set (db_countries db) then Inl (BadRequest ''Country not found'')
          else let promoted = (us_role user \<noteq> ''editor'');
                   (db1, removed) = (if promoted then removeGrants (grantsOf db (gi_userId input)) StaleGrant db else (db, []))
               in if list_ex (\<lambda>g. rg_userId g = gi_userId input \<and> rg_role g = gi_role input \<and>
                       rg_countryCode g = gi_countryCode input) (db_grants db1)
                  then Inl (Conflict ''This user already has this grant for this country'')
                  else if \<not> regionsInCountry db1 (gi_regionIds input) (gi_countryCode input)
                  then Inl (BadRequest REGIONS_MESSAGE)
                  else let row = \<lparr>rg_id = newId, rg_userId = gi_userId input, rg_role = gi_role input,
                             rg_countryCode = gi_countryCode input, rg_isCountryWide = (gi_regionIds input = None),
                             rg_grantedById = gi_grantedById input, rg_createdAt = now, rg_updatedAt = now\<rparr>;
                           grant = \<lparr>gw_row = row, gw_regionIds = (case gi_regionIds input of None \<Rightarrow> [] | Some ids \<Rightarrow> ids)\<rparr>
                       in case insertGrant row db1 of
                            Inl e \<Rightarrow> Inl e
                          | Inr db2 \<Rightarrow>
                              (let db3 = replaceRegions newId (gw_regionIds grant) db2;
                                   db4 = (if promoted then setUserRole (gi_userId input) ''editor'' db3 else db3)
                               in Inr \<lparr>gc_db = db4,
                                    gc_audit = removed @ [\<lparr>au_op = AuditCreate, au_recordId = newId, au_old = None,
                                      au_new = Some (grantSnapshot grant),
                                      au_metadata = (if promoted then Some (RoleChanged (us_role user) ''editor'') else None)\<rparr>],
                                    gc_grant = grant, gc_roleChanged = promoted\<rparr>)))"

definition updateRoleGrantRegions ::
  "accessDb \<Rightarrow> uuid \<Rightarrow> int list option \<Rightarrow> int \<Rightarrow> accessError + accessDb \<times> auditEntry list \<times> roleGrantWithRegions" where
  "updateRoleGrantRegions db grantId regionIds now =
    (case findRoleGrant db grantId of
       Inl e \<Rightarrow> Inl e
     | Inr row \<Rightarrow>
         (if rg_role row = GrantMaintainer \<and> regionIds \<noteq> None
          then Inl (BadRequest ''A maintainer grant covers the whole country'')
          else if \<not> regionsInCountry db regionIds (rg_countryCode row) then Inl (BadRequest REGIONS_MESSAGE)
          else let change = (\<lambda>g. g\<lparr>rg_isCountryWide := (regionIds = None), rg_updatedAt := now\<rparr>);
                   previous = \<lparr>gw_row = row, gw_regionIds = loadRegionIds db grantId\<rparr>;
                   grant = \<lparr>gw_row = change row, gw_regionIds = (case regionIds of None \<Rightarrow> [] | Some ids \<Rightarrow> ids)\<rparr>;
                   db1 = db\<lparr>db_grants := map (\<lambda>g. if rg_id g = grantId then change g else g) (db_grants db)\<rparr>
               in Inr (replaceRegions grantId (gw_regionIds grant) db1,
                    [\<lparr>au_op = AuditUpdate, au_recordId = grantId, au_old = Some (grantSnapshot previous),
                      au_new = Some (grantSnapshot grant), au_metadata = None\<rparr>], grant)))"

definition syncGrantsWithRole ::
  "accessDb \<Rightarrow> roleSync \<Rightarrow> uuid \<Rightarrow> int \<Rightarrow> accessError + accessDb \<times> auditEntry list" where
  "syncGrantsWithRole db sync newId now =
    (case findUser db (sy_userId sync) of
       None \<Rightarrow> Inr (db, [])
     | Some user \<Rightarrow>
         (let rows = grantsOf db (sy_userId sync);
              isPromotion = (sy_previousRole sync \<noteq> None \<and> sy_previousRole sync \<noteq> Some ''editor'');
              stale = filter (\<lambda>row. rg_id row \<in> set (sy_earlierGrantIds sync)) rows
          in if us_role user \<noteq> ''editor'' then Inr (removeGrants rows (RoleChangedTo (us_role user)) db)
             else if rows \<noteq> [] \<and> \<not> isPromotion then Inr (db, [])
             else let (db1, removed) = removeGrants stale StaleGrant db
                  in if length stale < length rows then Inr (db1, removed)
                     else if LEGACY_COUNTRY_CODE \<notin> set (db_countries db1) then Inr (db1, removed)
                     else case createRoleGrant db1 \<lparr>gi_userId = sy_userId sync, gi_role = GrantEditor,
                              gi_countryCode = LEGACY_COUNTRY_CODE, gi_regionIds = None,
                              gi_grantedById = sy_grantedById sync\<rparr> newId now of
                            Inl e \<Rightarrow> Inl e
                          | Inr created \<Rightarrow> Inr (gc_db created, removed @ gc_audit created)))"

definition deleteRoleGrant :: "accessDb \<Rightarrow> uuid \<Rightarrow> accessError + accessDb \<times> auditEntry list \<times> uuid \<times> bool" where
  "deleteRoleGrant db grantId =
    (case findRoleGrant db grantId of
       Inl e \<Rightarrow> Inl e
     | Inr row \<Rightarrow>
         (let user = findUser db (rg_userId row); db1 = deleteGrantRows [grantId] db;
              demoted = (grantsOf db1 (rg_userId row) = [] \<and> map_option us_role user = Some ''editor'');
              db2 = (if demoted then setUserRole (rg_userId row) ''user'' db1 else db1)
          in Inr (db2,
               [\<lparr>au_op = AuditDelete, au_recordId = grantId,
                 au_old = Some (grantSnapshot \<lparr>gw_row = row, gw_regionIds = loadRegionIds db grantId\<rparr>), au_new = None,
                 au_metadata = (if demoted then Some (RoleChanged ''editor'' ''user'') else None)\<rparr>],
               rg_userId row, demoted)))"

text \<open>
  What follows a role written by the user administration: \<open>before\<close> is the user as it was remembered
  before the write, with the ids of its grants. An error is logged and the grants stay.
\<close>

definition syncRoleGrants ::
  "accessDb \<Rightarrow> uuid \<Rightarrow> (userRow \<times> uuid list) option \<Rightarrow> uuid option \<Rightarrow> uuid \<Rightarrow> int \<Rightarrow> accessDb" where
  "syncRoleGrants db userId before actorId newId now =
    (case findUser db userId of
       None \<Rightarrow> db
     | Some user \<Rightarrow>
         (case syncGrantsWithRole db
             \<lparr>sy_userId = us_id user, sy_previousRole = map_option (\<lambda>(u, _). us_role u) before,
              sy_earlierGrantIds = (case before of None \<Rightarrow> [] | Some (_, grantIds) \<Rightarrow> grantIds),
              sy_grantedById = actorId\<rparr> newId now of
            Inl _ \<Rightarrow> db | Inr (db', _) \<Rightarrow> db'))"

definition rememberUser :: "accessDb \<Rightarrow> uuid \<Rightarrow> (userRow \<times> uuid list) option" where
  "rememberUser db userId = map_option (\<lambda>u. (u, map rg_id (grantsOf db userId))) (findUser db userId)"

definition writeRole :: "accessDb \<Rightarrow> uuid \<Rightarrow> string \<Rightarrow> uuid option \<Rightarrow> uuid \<Rightarrow> int \<Rightarrow> accessDb" where
  "writeRole db userId role actorId newId now =
    syncRoleGrants (setUserRole userId role db) userId (rememberUser db userId) actorId newId now"

section \<open>Who may manage a grant\<close>

definition MAINTAINER_GRANT_MESSAGE :: string where
  "MAINTAINER_GRANT_MESSAGE = ''Only an administrator can appoint or remove a maintainer''"

definition OTHER_COUNTRY_MESSAGE :: string where
  "OTHER_COUNTRY_MESSAGE = ''Only a maintainer of this country or an administrator can manage its editors''"

definition assertReachCoversGrant :: "countryReach \<Rightarrow> string \<Rightarrow> grantRole \<Rightarrow> accessError option" where
  "assertReachCoversGrant reach countryCode role =
    (if cr_isEverywhere reach then None
     else if role = GrantMaintainer then Some (InsufficientPermissions (Some MAINTAINER_GRANT_MESSAGE))
     else if countryCode \<notin> set (cr_countryCodes reach) then Some (InsufficientPermissions (Some OTHER_COUNTRY_MESSAGE))
     else None)"

definition assertManagesGrant ::
  "(uuid \<Rightarrow> permissionObject \<Rightarrow> bool) \<Rightarrow> accessDb \<Rightarrow> authRequest \<Rightarrow> string \<Rightarrow> string \<Rightarrow> grantRole \<Rightarrow> accessError option" where
  "assertManagesGrant verifyPermissions db req action countryCode role =
    assertReachCoversGrant (getCountryReach verifyPermissions db req [(''role_grants'', [action])]) countryCode role"

definition assertManagesStoredGrant ::
  "(uuid \<Rightarrow> permissionObject \<Rightarrow> bool) \<Rightarrow> accessDb \<Rightarrow> authRequest \<Rightarrow> string \<Rightarrow> uuid \<Rightarrow> accessError option" where
  "assertManagesStoredGrant verifyPermissions db req action grantId =
    (let reach = getCountryReach verifyPermissions db req [(''role_grants'', [action])]
     in if \<not> cr_isEverywhere reach \<and> cr_countryCodes reach = [] then Some (InsufficientPermissions None)
        else case findRoleGrant db grantId of
               Inl e \<Rightarrow> Some e
             | Inr row \<Rightarrow> assertReachCoversGrant reach (rg_countryCode row) (rg_role row))"

section \<open>The routes under /role-grants\<close>

text \<open>The bodies as their schemas let them through.\<close>

definition updateBodyOk :: "int list option \<Rightarrow> bool" where
  "updateBodyOk regionIds \<longleftrightarrow>
    (case regionIds of None \<Rightarrow> True | Some ids \<Rightarrow> ids \<noteq> [] \<and> length ids \<le> 500 \<and> distinct ids)"

definition createBodyOk :: "roleGrantInput \<Rightarrow> bool" where
  "createBodyOk input \<longleftrightarrow>
    updateBodyOk (gi_regionIds input) \<and> (gi_role input \<noteq> GrantMaintainer \<or> gi_regionIds input = None)"

definition createGrant ::
  "(uuid \<Rightarrow> permissionObject \<Rightarrow> bool) \<Rightarrow> accessDb \<Rightarrow> authRequest \<Rightarrow> roleGrantInput \<Rightarrow> uuid \<Rightarrow> int
    \<Rightarrow> accessError + grantCreation" where
  "createGrant verifyPermissions db req input newId now =
    (case assertManagesGrant verifyPermissions db req ''create'' (gi_countryCode input) (gi_role input) of
       Some e \<Rightarrow> Inl e
     | None \<Rightarrow> createRoleGrant db (input\<lparr>gi_grantedById := actorIdFromRequest req\<rparr>) newId now)"

definition updateGrant ::
  "(uuid \<Rightarrow> permissionObject \<Rightarrow> bool) \<Rightarrow> accessDb \<Rightarrow> authRequest \<Rightarrow> uuid \<Rightarrow> int list option \<Rightarrow> int
    \<Rightarrow> accessError + accessDb \<times> auditEntry list \<times> roleGrantWithRegions" where
  "updateGrant verifyPermissions db req grantId regionIds now =
    (case assertManagesStoredGrant verifyPermissions db req ''update'' grantId of
       Some e \<Rightarrow> Inl e | None \<Rightarrow> updateRoleGrantRegions db grantId regionIds now)"

definition deleteGrant ::
  "(uuid \<Rightarrow> permissionObject \<Rightarrow> bool) \<Rightarrow> accessDb \<Rightarrow> authRequest \<Rightarrow> uuid
    \<Rightarrow> accessError + accessDb \<times> auditEntry list \<times> uuid \<times> bool" where
  "deleteGrant verifyPermissions db req grantId =
    (case assertManagesStoredGrant verifyPermissions db req ''delete'' grantId of
       Some e \<Rightarrow> Inl e | None \<Rightarrow> deleteRoleGrant db grantId)"

section \<open>The list of grants\<close>

record grantQuery =
  gq_userIds :: "uuid list option"
  gq_countryCodes :: "string list option"
  gq_limit :: nat
  gq_cursor :: "uuid option"

definition visibleGrants :: "countryReach \<Rightarrow> uuid \<Rightarrow> roleGrantRow \<Rightarrow> bool" where
  "visibleGrants reach userId g \<longleftrightarrow>
    (if cr_isEverywhere reach then True
     else rg_userId g = userId \<or> cr_countryCodes reach \<noteq> [] \<and> rg_countryCode g \<in> set (cr_countryCodes reach))"

definition matchesQuery :: "countryReach \<Rightarrow> uuid \<Rightarrow> grantQuery \<Rightarrow> roleGrantRow \<Rightarrow> bool" where
  "matchesQuery reach userId query g \<longleftrightarrow>
    visibleGrants reach userId g \<and>
    (case gq_userIds query of None \<Rightarrow> True | Some ids \<Rightarrow> rg_userId g \<in> set ids) \<and>
    (case gq_countryCodes query of None \<Rightarrow> True | Some codes \<Rightarrow> rg_countryCode g \<in> set codes)"

definition grantPage :: "accessDb \<Rightarrow> countryReach \<Rightarrow> uuid \<Rightarrow> grantQuery \<Rightarrow> roleGrantRow list \<times> uuid option" where
  "grantPage db reach userId query =
    (let rows = take (gq_limit query + 1) (sort_key rg_id
           (filter (\<lambda>g. matchesQuery reach userId query g \<and>
             (case gq_cursor query of None \<Rightarrow> True | Some after \<Rightarrow> after < rg_id g)) (db_grants db)));
         page = take (gq_limit query) rows
     in (page, if gq_limit query < length rows \<and> page \<noteq> [] then Some (rg_id (last page)) else None))"

definition getRoleGrants ::
  "(uuid \<Rightarrow> permissionObject \<Rightarrow> bool) \<Rightarrow> accessDb \<Rightarrow> authRequest \<Rightarrow> grantQuery
    \<Rightarrow> accessError + (roleGrantRow \<times> int list option) list \<times> uuid option" where
  "getRoleGrants verifyPermissions db req query =
    (case assertTokenScope req ''profile'' of
       Some e \<Rightarrow> Inl e
     | None \<Rightarrow>
         (case accessFromRequest db req of
            None \<Rightarrow> Inl Unauthorized
          | Some access \<Rightarrow>
              (let reach = getCountryReach verifyPermissions db req [(''role_grants'', [''update''])];
                   (page, nextCursor) = grantPage db reach (ac_userId access) query
               in Inr (map (\<lambda>row. toRoleGrant \<lparr>gw_row = row, gw_regionIds = loadRegionIds db (rg_id row)\<rparr>) page,
                    nextCursor))))"

end
