(* ===== verification/AccessTheorems.thy ===== *)
theory AccessTheorems
  imports Access
begin

text \<open>
  What holds of the grants: the tables stay consistent under every operation, no maintainer can
  appoint a maintainer or reach beyond their countries, the filter of the lists and the guard of
  the routes agree with the tables, and the pages of the list hold every grant once.
\<close>

section \<open>Access as the tables say it\<close>

definition wideIn :: "editorGrant list \<Rightarrow> string \<Rightarrow> bool" where
  "wideIn grants c \<longleftrightarrow> (\<exists>g\<in>set grants. eg_countryCode g = c \<and> eg_isCountryWide g)"

definition maintainerIn :: "editorGrant list \<Rightarrow> string \<Rightarrow> bool" where
  "maintainerIn grants c \<longleftrightarrow> (\<exists>g\<in>set grants. eg_countryCode g = c \<and> eg_isMaintainer g)"

definition regionIn :: "editorGrant list \<Rightarrow> string \<Rightarrow> int \<Rightarrow> bool" where
  "regionIn grants c r \<longleftrightarrow> (\<exists>g\<in>set grants. eg_countryCode g = c \<and> r \<in> set (eg_regionIds g))"

lemma addGrantRow_reads:
  "wideIn (addGrantRow grants row) c \<longleftrightarrow> wideIn grants c \<or> gr_countryCode row = c \<and> gr_isCountryWide row"
  "maintainerIn (addGrantRow grants row) c \<longleftrightarrow>
    maintainerIn grants c \<or> gr_countryCode row = c \<and> gr_grantRole row = GrantMaintainer"
  "regionIn (addGrantRow grants row) c r \<longleftrightarrow> regionIn grants c r \<or> gr_countryCode row = c \<and> gr_regionId row = Some r"
  by (induction grants)
    (auto simp: wideIn_def maintainerIn_def regionIn_def mergeGrantRow_def split: option.splits)

lemma addGrantRow_countries:
  "set (map eg_countryCode (addGrantRow grants row)) = insert (gr_countryCode row) (set (map eg_countryCode grants))"
  "distinct (map eg_countryCode grants) \<Longrightarrow> distinct (map eg_countryCode (addGrantRow grants row))"
proof -
  show countries: "set (map eg_countryCode (addGrantRow grants row))
      = insert (gr_countryCode row) (set (map eg_countryCode grants))" for grants
    by (induction grants) (auto simp: mergeGrantRow_def)
  show "distinct (map eg_countryCode grants) \<Longrightarrow> distinct (map eg_countryCode (addGrantRow grants row))"
  proof (induction grants)
    case (Cons g grants)
    then show ?case using countries [of grants] by (auto simp: mergeGrantRow_def)
  qed (simp add: mergeGrantRow_def)
qed

lemma foldGrantRows:
  fixes rows grants
  defines "merged \<equiv> fold (\<lambda>row grants. addGrantRow grants row) rows grants"
  shows "wideIn merged c \<longleftrightarrow> wideIn grants c \<or> (\<exists>row\<in>set rows. gr_countryCode row = c \<and> gr_isCountryWide row)"
    "maintainerIn merged c \<longleftrightarrow>
      maintainerIn grants c \<or> (\<exists>row\<in>set rows. gr_countryCode row = c \<and> gr_grantRole row = GrantMaintainer)"
    "regionIn merged c r \<longleftrightarrow>
      regionIn grants c r \<or> (\<exists>row\<in>set rows. gr_countryCode row = c \<and> gr_regionId row = Some r)"
    "distinct (map eg_countryCode grants) \<Longrightarrow> distinct (map eg_countryCode merged)"
  unfolding merged_def
  by (induction rows arbitrary: grants) (auto simp: addGrantRow_reads addGrantRow_countries(2))

lemma joinRegions_reads:
  "(\<exists>row\<in>set (joinRegions db g). gr_countryCode row = c \<and> gr_isCountryWide row)
    \<longleftrightarrow> rg_countryCode g = c \<and> rg_isCountryWide g"
  "(\<exists>row\<in>set (joinRegions db g). gr_countryCode row = c \<and> gr_grantRole row = GrantMaintainer)
    \<longleftrightarrow> rg_countryCode g = c \<and> rg_role g = GrantMaintainer"
  "(\<exists>row\<in>set (joinRegions db g). gr_countryCode row = c \<and> gr_regionId row = Some r)
    \<longleftrightarrow> rg_countryCode g = c \<and> (rg_id g, r) \<in> set (db_grantRegions db)"
  by (force simp: joinRegions_def Let_def filter_empty_conv)+

lemma editorGrantsOf_reads:
  "wideIn (editorGrantsOf db u) c \<longleftrightarrow> (\<exists>g\<in>set (grantsOf db u). rg_countryCode g = c \<and> rg_isCountryWide g)"
  "maintainerIn (editorGrantsOf db u) c \<longleftrightarrow> (\<exists>g\<in>set (grantsOf db u). rg_countryCode g = c \<and> rg_role g = GrantMaintainer)"
  "regionIn (editorGrantsOf db u) c r \<longleftrightarrow>
    (\<exists>g\<in>set (grantsOf db u). rg_countryCode g = c \<and> (rg_id g, r) \<in> set (db_grantRegions db))"
  "distinct (map eg_countryCode (editorGrantsOf db u))"
proof -
  have none: "\<not> wideIn [] c" "\<not> maintainerIn [] c" "\<not> regionIn [] c r"
    by (simp_all add: wideIn_def maintainerIn_def regionIn_def)
  note rows = foldGrantRows [where rows = "concat (map (joinRegions db) (grantsOf db u))" and grants = "[]",
      folded editorGrantsOf_def]
  show "wideIn (editorGrantsOf db u) c \<longleftrightarrow> (\<exists>g\<in>set (grantsOf db u). rg_countryCode g = c \<and> rg_isCountryWide g)"
    unfolding rows(1) using none(1) joinRegions_reads(1) [of db _ c] by auto
  show "maintainerIn (editorGrantsOf db u) c \<longleftrightarrow> (\<exists>g\<in>set (grantsOf db u). rg_countryCode g = c \<and> rg_role g = GrantMaintainer)"
    unfolding rows(2) using none(2) joinRegions_reads(2) [of db _ c] by auto
  show "regionIn (editorGrantsOf db u) c r \<longleftrightarrow>
      (\<exists>g\<in>set (grantsOf db u). rg_countryCode g = c \<and> (rg_id g, r) \<in> set (db_grantRegions db))"
    unfolding rows(3) using none(3) joinRegions_reads(3) [of db _ c r] by auto
  show "distinct (map eg_countryCode (editorGrantsOf db u))" using rows(4) by simp
qed

lemma findCountryGrant_Some:
  assumes "findCountryGrant a c = Some g"
  shows "g \<in> set (ac_grants a)" "eg_countryCode g = c"
proof -
  from assms obtain i where "i < length (ac_grants a)" "eg_countryCode (ac_grants a ! i) = c" "g = ac_grants a ! i"
    unfolding findCountryGrant_def find_Some_iff by blast
  then show "g \<in> set (ac_grants a)" "eg_countryCode g = c" by simp_all
qed

lemma findCountryGrant_reads:
  assumes "distinct (map eg_countryCode (ac_grants a))" "findCountryGrant a c = Some g"
  shows "wideIn (ac_grants a) c \<longleftrightarrow> eg_isCountryWide g"
    "regionIn (ac_grants a) c r \<longleftrightarrow> r \<in> set (eg_regionIds g)"
    "maintainerIn (ac_grants a) c \<longleftrightarrow> eg_isMaintainer g"
proof -
  note g = findCountryGrant_Some [OF assms(2)]
  have one: "g' \<in> set (ac_grants a) \<and> eg_countryCode g' = c \<longleftrightarrow> g' = g" for g'
  proof
    assume "g' \<in> set (ac_grants a) \<and> eg_countryCode g' = c"
    then show "g' = g" using g inj_onD [of eg_countryCode "set (ac_grants a)" g' g] assms(1)
      by (simp add: distinct_map)
  qed (use g in simp)
  have read: "(\<exists>g'\<in>set (ac_grants a). eg_countryCode g' = c \<and> P g') \<longleftrightarrow> P g" for P
    using one by metis
  show "wideIn (ac_grants a) c \<longleftrightarrow> eg_isCountryWide g"
    "regionIn (ac_grants a) c r \<longleftrightarrow> r \<in> set (eg_regionIds g)"
    "maintainerIn (ac_grants a) c \<longleftrightarrow> eg_isMaintainer g"
    unfolding wideIn_def regionIn_def maintainerIn_def by (rule read)+
qed

lemma findCountryGrant_None:
  assumes "findCountryGrant a c = None"
  shows "\<not> wideIn (ac_grants a) c" "\<not> regionIn (ac_grants a) c r"
  using assms unfolding findCountryGrant_def find_None_iff wideIn_def regionIn_def by blast+

lemma covers_reads:
  assumes "distinct (map eg_countryCode (ac_grants a))" "ac_role a \<noteq> ''admin''" "tg_countryCode t = Some c"
  shows "coversTarget a t \<longleftrightarrow>
    wideIn (ac_grants a) c \<or> (\<exists>r. tg_regionId t = Some r \<and> regionIn (ac_grants a) c r)"
proof (cases "findCountryGrant a c")
  case None
  then show ?thesis using assms(2,3) findCountryGrant_None [OF None] by (simp add: coversTarget_def)
next
  case (Some g)
  note reads = findCountryGrant_reads [OF assms(1) Some]
  show ?thesis using assms(2,3) Some reads
    by (cases "tg_regionId t") (simp_all add: coversTarget_def)
qed

section \<open>Consistent tables\<close>

text \<open>
  What the keys, foreign keys and checks of the tables say (\<open>tablesOk\<close>), and what the code adds to
  them: a user is an editor exactly when they hold a grant (\<open>rolesOk\<close>).
\<close>

definition grantKey :: "roleGrantRow \<Rightarrow> uuid \<times> grantRole \<times> string" where
  "grantKey g = (rg_userId g, rg_role g, rg_countryCode g)"

definition grantOk :: "accessDb \<Rightarrow> roleGrantRow \<Rightarrow> bool" where
  "grantOk db g \<longleftrightarrow>
    rg_userId g \<in> us_id ` set (db_users db) \<and> rg_countryCode g \<in> set (db_countries db) \<and>
    (rg_role g = GrantMaintainer \<longrightarrow> rg_isCountryWide g) \<and>
    (rg_isCountryWide g \<longleftrightarrow> rg_id g \<notin> fst ` set (db_grantRegions db))"

definition grantRegionOk :: "accessDb \<Rightarrow> uuid \<times> int \<Rightarrow> bool" where
  "grantRegionOk db p \<longleftrightarrow> (\<exists>g\<in>set (db_grants db). rg_id g = fst p \<and> (snd p, rg_countryCode g) \<in> set (db_regions db))"

definition tablesOk :: "accessDb \<Rightarrow> bool" where
  "tablesOk db \<longleftrightarrow>
    distinct (map us_id (db_users db)) \<and> distinct (map fst (db_regions db)) \<and>
    LEGACY_COUNTRY_CODE \<in> set (db_countries db) \<and>
    distinct (map rg_id (db_grants db)) \<and> distinct (map grantKey (db_grants db)) \<and>
    distinct (db_grantRegions db) \<and>
    list_all (grantOk db) (db_grants db) \<and> list_all (grantRegionOk db) (db_grantRegions db)"

definition rolesOk :: "accessDb \<Rightarrow> bool" where
  "rolesOk db \<longleftrightarrow> list_all (\<lambda>u. us_role u = ''editor'' \<longleftrightarrow> grantsOf db (us_id u) \<noteq> []) (db_users db)"

definition accessOk :: "accessDb \<Rightarrow> bool" where
  "accessOk db \<longleftrightarrow> tablesOk db \<and> rolesOk db"

lemma tablesOkD:
  assumes "tablesOk db"
  shows "distinct (map us_id (db_users db))" "distinct (map fst (db_regions db))"
    "LEGACY_COUNTRY_CODE \<in> set (db_countries db)" "distinct (map rg_id (db_grants db))"
    "distinct (map grantKey (db_grants db))" "distinct (db_grantRegions db)"
    "\<And>g. g \<in> set (db_grants db) \<Longrightarrow> grantOk db g" "\<And>p. p \<in> set (db_grantRegions db) \<Longrightarrow> grantRegionOk db p"
  using assms by (simp_all add: tablesOk_def list_all_iff)

subsection \<open>Reading the tables\<close>

lemma findUser_Some: "findUser db i = Some u \<Longrightarrow> u \<in> set (db_users db) \<and> us_id u = i"
  unfolding findUser_def find_Some_iff by force

lemma findUser_None: "findUser db i = None \<longleftrightarrow> i \<notin> us_id ` set (db_users db)"
  unfolding findUser_def find_None_iff by auto

lemma findRoleGrant_Inr: "findRoleGrant db i = Inr g \<Longrightarrow> g \<in> set (db_grants db) \<and> rg_id g = i"
  unfolding findRoleGrant_def by (auto split: option.splits simp: find_Some_iff)

lemma grant_by_id:
  assumes "tablesOk db" "g \<in> set (db_grants db)" "h \<in> set (db_grants db)" "rg_id g = rg_id h"
  shows "g = h"
  using assms(2-4) inj_onD [of rg_id "set (db_grants db)" g h] tablesOkD(4) [OF assms(1)]
  by (simp add: distinct_map)

lemma user_by_id:
  assumes "tablesOk db" "u \<in> set (db_users db)" "v \<in> set (db_users db)" "us_id u = us_id v"
  shows "u = v"
  using assms(2-4) inj_onD [of us_id "set (db_users db)" u v] tablesOkD(1) [OF assms(1)]
  by (simp add: distinct_map)

lemma in_grantsOf: "g \<in> set (grantsOf db u) \<longleftrightarrow> g \<in> set (db_grants db) \<and> rg_userId g = u"
  by (auto simp: grantsOf_def)

lemma grantsOf_Nil: "grantsOf db u = [] \<longleftrightarrow> (\<forall>g\<in>set (db_grants db). rg_userId g \<noteq> u)"
  by (simp add: grantsOf_def filter_empty_conv)

lemma regionsInCountry_spec:
  assumes "regionsInCountry db (Some ids) c" "distinct ids" "distinct (map fst (db_regions db))" "r \<in> set ids"
  shows "(r, c) \<in> set (db_regions db)"
proof -
  let ?rows = "filter (\<lambda>(r, country). r \<in> set ids \<and> country = c) (db_regions db)"
  have "distinct (map fst ?rows)" using assms(3) by (simp add: distinct_map_filter)
  then have "card (set (map fst ?rows)) = length ids"
    using assms(1) distinct_card [of "map fst ?rows"] by (simp add: regionsInCountry_def)
  moreover have "card (set ids) = length ids" using assms(2) by (rule distinct_card)
  moreover have "set (map fst ?rows) \<subseteq> set ids" by auto
  ultimately have "set (map fst ?rows) = set ids" by (simp add: card_subset_eq)
  then have "r \<in> set (map fst ?rows)" using assms(4) by simp
  then show ?thesis by auto
qed

subsection \<open>The tables under each write\<close>

lemma tables_deleteGrantRows [intro]:
  assumes "tablesOk db"
  shows "tablesOk (deleteGrantRows ids db)"
proof -
  note ok = tablesOkD [OF assms]
  have grants: "grantOk (deleteGrantRows ids db) g" if "g \<in> set (db_grants db)" "rg_id g \<notin> set ids" for g
    using ok(7) [OF that(1)] that(2) by (force simp: grantOk_def deleteGrantRows_def)
  have regions: "grantRegionOk (deleteGrantRows ids db) p" if "p \<in> set (db_grantRegions db)" "fst p \<notin> set ids" for p
    using ok(8) [OF that(1)] that(2) by (auto simp: grantRegionOk_def deleteGrantRows_def)
  show ?thesis
    using ok(1-6) grants regions unfolding tablesOk_def list_all_iff
    by (auto simp: deleteGrantRows_def distinct_map_filter)
qed

lemma map_setUserRole [simp]:
  "map us_id (db_users (setUserRole i role db)) = map us_id (db_users db)"
  by (simp add: setUserRole_def)

lemma setUserRole_tables [simp]:
  "db_grants (setUserRole i role db) = db_grants db" "db_grantRegions (setUserRole i role db) = db_grantRegions db"
  "db_countries (setUserRole i role db) = db_countries db" "db_regions (setUserRole i role db) = db_regions db"
  "grantsOf (setUserRole i role db) u = grantsOf db u"
  by (simp_all add: setUserRole_def grantsOf_def)

lemma tables_setUserRole [simp]: "tablesOk (setUserRole i role db) \<longleftrightarrow> tablesOk db"
proof -
  have ids: "us_id ` set (db_users (setUserRole i role db)) = us_id ` set (db_users db)"
    using map_setUserRole by (metis list.set_map)
  show ?thesis
    unfolding tablesOk_def list_all_iff grantOk_def grantRegionOk_def by (simp add: ids)
qed

lemma tables_insert:
  assumes "tablesOk db" "rg_id row \<notin> rg_id ` set (db_grants db)" "grantKey row \<notin> grantKey ` set (db_grants db)"
    "rg_userId row \<in> us_id ` set (db_users db)" "rg_countryCode row \<in> set (db_countries db)"
    "rg_role row = GrantMaintainer \<longrightarrow> rg_isCountryWide row" "updateBodyOk regionIds"
    "rg_isCountryWide row \<longleftrightarrow> regionIds = None" "regionsInCountry db regionIds (rg_countryCode row)"
  shows "tablesOk (replaceRegions (rg_id row) (case regionIds of None \<Rightarrow> [] | Some ids \<Rightarrow> ids)
    (db\<lparr>db_grants := db_grants db @ [row]\<rparr>))" (is "tablesOk ?db")
proof -
  note ok = tablesOkD [OF assms(1)]
  let ?ids = "case regionIds of None \<Rightarrow> [] | Some ids \<Rightarrow> ids"
  have fresh: "p \<in> set (db_grantRegions db) \<Longrightarrow> fst p \<noteq> rg_id row" for p
    using ok(8) [of p] assms(2) unfolding grantRegionOk_def by (metis image_eqI)
  then have kept: "filter (\<lambda>(i, _). i \<noteq> rg_id row) (db_grantRegions db) = db_grantRegions db"
    by (force simp: filter_id_conv)
  have db: "db_grants ?db = db_grants db @ [row]" "db_users ?db = db_users db" "db_countries ?db = db_countries db"
    "db_regions ?db = db_regions db" "db_grantRegions ?db = db_grantRegions db @ map (\<lambda>r. (rg_id row, r)) ?ids"
    by (simp_all add: replaceRegions_def kept)
  have ids: "distinct ?ids" "?ids = [] \<longleftrightarrow> regionIds = None"
    using assms(7) by (auto simp: updateBodyOk_def split: option.splits)
  have inCountry: "r \<in> set ?ids \<Longrightarrow> (r, rg_countryCode row) \<in> set (db_regions db)" for r
    using assms(9) ids(1) ok(2) regionsInCountry_spec by (cases regionIds) auto
  have "distinct (db_grantRegions ?db)"
    using ok(6) ids(1) fresh by (force simp: db distinct_map inj_on_def)
  moreover have "grantOk ?db g" if "g \<in> set (db_grants db)" for g
  proof -
    have "rg_id g \<noteq> rg_id row" using that assms(2) by (metis image_eqI)
    then show ?thesis using ok(7) [OF that] by (auto simp: grantOk_def db)
  qed
  moreover have "grantOk ?db row"
  proof -
    have "rg_id row \<notin> fst ` set (db_grantRegions db)" using fresh by (metis imageE)
    then have "rg_id row \<notin> fst ` set (db_grantRegions ?db) \<longleftrightarrow> ?ids = []"
      unfolding db by (cases ?ids) simp_all
    then show ?thesis using assms(4,5,6,8) ids(2) by (simp add: grantOk_def db)
  qed
  moreover have "grantRegionOk ?db p" if "p \<in> set (db_grantRegions ?db)" for p
  proof -
    from that consider "p \<in> set (db_grantRegions db)" | r where "r \<in> set ?ids" "p = (rg_id row, r)"
      by (auto simp: db)
    then show ?thesis using ok(8) [of p] inCountry by cases (auto simp: grantRegionOk_def db)
  qed
  ultimately show ?thesis
    using ok(1-5) assms(2,3) unfolding tablesOk_def list_all_iff by (auto simp: db)
qed

lemma tables_update:
  fixes now :: int
  assumes "tablesOk db" "findRoleGrant db i = Inr row" "rg_role row = GrantMaintainer \<longrightarrow> regionIds = None"
    "updateBodyOk regionIds" "regionsInCountry db regionIds (rg_countryCode row)"
  defines "change \<equiv> \<lambda>g. g\<lparr>rg_isCountryWide := (regionIds = None), rg_updatedAt := now\<rparr>"
  shows "tablesOk (replaceRegions i (case regionIds of None \<Rightarrow> [] | Some ids \<Rightarrow> ids)
    (db\<lparr>db_grants := map (\<lambda>g. if rg_id g = i then change g else g) (db_grants db)\<rparr>))" (is "tablesOk ?db")
proof -
  note ok = tablesOkD [OF assms(1)]
  note row = findRoleGrant_Inr [OF assms(2)]
  let ?ids = "case regionIds of None \<Rightarrow> [] | Some ids \<Rightarrow> ids"
  let ?upd = "\<lambda>g. if rg_id g = i then change g else g"
  have db: "db_grants ?db = map ?upd (db_grants db)" "db_users ?db = db_users db" "db_countries ?db = db_countries db"
    "db_regions ?db = db_regions db"
    "db_grantRegions ?db = filter (\<lambda>(j, _). j \<noteq> i) (db_grantRegions db) @ map (\<lambda>r. (i, r)) ?ids"
    by (simp_all add: replaceRegions_def)
  have keeps: "rg_id (?upd g) = rg_id g" "grantKey (?upd g) = grantKey g" "rg_countryCode (?upd g) = rg_countryCode g"
    "rg_userId (?upd g) = rg_userId g" "rg_role (?upd g) = rg_role g" for g
    by (simp_all add: change_def grantKey_def)
  have maps: "map rg_id (db_grants ?db) = map rg_id (db_grants db)"
    "map grantKey (db_grants ?db) = map grantKey (db_grants db)"
    unfolding db map_map o_def keeps by simp_all
  have ids: "distinct ?ids" "?ids = [] \<longleftrightarrow> regionIds = None"
    using assms(4) by (auto simp: updateBodyOk_def split: option.splits)
  have inCountry: "r \<in> set ?ids \<Longrightarrow> (r, rg_countryCode row) \<in> set (db_regions db)" for r
    using assms(5) ids(1) ok(2) regionsInCountry_spec by (cases regionIds) auto
  have "distinct (db_grantRegions ?db)"
    using ok(6) ids(1) by (auto simp: db distinct_map inj_on_def)
  moreover have "grantOk ?db (?upd g)" if "g \<in> set (db_grants db)" for g
  proof (cases "rg_id g = i")
    case True
    then have "g = row" using grant_by_id [OF assms(1) that] row by simp
    moreover have "i \<notin> fst ` set (db_grantRegions ?db) \<longleftrightarrow> ?ids = []"
      unfolding db by (cases ?ids) auto
    ultimately show ?thesis
      using ok(7) [OF that] True assms(3) ids(2) by (simp add: grantOk_def db change_def)
  next
    case False
    then have "rg_id g \<in> fst ` set (db_grantRegions ?db) \<longleftrightarrow> rg_id g \<in> fst ` set (db_grantRegions db)"
      by (force simp: db)
    then show ?thesis using ok(7) [OF that] False unfolding grantOk_def by (auto simp only: db if_False)
  qed
  moreover have "grantRegionOk ?db p" if "p \<in> set (db_grantRegions ?db)" for p
  proof -
    have lift: "grantRegionOk ?db p"
      if "g \<in> set (db_grants db)" "rg_id g = fst p" "(snd p, rg_countryCode g) \<in> set (db_regions db)" for g
      unfolding grantRegionOk_def using that keeps [of g]
      by (intro bexI [of _ "?upd g"]) (simp_all add: db)
    from that consider "p \<in> set (db_grantRegions db)" | r where "r \<in> set ?ids" "p = (i, r)"
      by (auto simp: db)
    then show ?thesis
    proof cases
      case 1
      then show ?thesis using ok(8) lift unfolding grantRegionOk_def [of db] by blast
    next
      case 2
      then show ?thesis using lift [of row] row inCountry by simp
    qed
  qed
  ultimately show ?thesis
    using ok(1-3) maps ok(4,5) unfolding tablesOk_def list_all_iff
    by (simp only: db maps ball_simps set_map image_iff) blast
qed

subsection \<open>What each operation does to consistent tables\<close>

lemma deleteGrantRows_Nil: "deleteGrantRows [] db = db"
  by (simp add: deleteGrantRows_def)

lemma setUserRole_same:
  assumes "tablesOk db" "findUser db i = Some u"
  shows "setUserRole i (us_role u) db = db"
proof -
  have "v\<lparr>us_role := us_role u\<rparr> = v" if "v \<in> set (db_users db)" "us_id v = i" for v
  proof -
    have "v = u" using user_by_id [OF assms(1) that(1)] findUser_Some [OF assms(2)] that(2) by blast
    then show ?thesis by simp
  qed
  then have "map (\<lambda>v. if us_id v = i then v\<lparr>us_role := us_role u\<rparr> else v) (db_users db) = db_users db"
    by (intro map_idI) auto
  then show ?thesis by (simp add: setUserRole_def)
qed

lemma rolesOkD:
  assumes "accessOk db" "findUser db i = Some u"
  shows "us_role u = ''editor'' \<longleftrightarrow> grantsOf db i \<noteq> []"
  using assms findUser_Some [OF assms(2)] by (auto simp: accessOk_def rolesOk_def list_all_iff)

definition newGrantRow :: "roleGrantInput \<Rightarrow> uuid \<Rightarrow> int \<Rightarrow> roleGrantRow" where
  "newGrantRow input newId now = \<lparr>rg_id = newId, rg_userId = gi_userId input, rg_role = gi_role input,
     rg_countryCode = gi_countryCode input, rg_isCountryWide = (gi_regionIds input = None),
     rg_grantedById = gi_grantedById input, rg_createdAt = now, rg_updatedAt = now\<rparr>"

lemma newGrantRow_sel [simp]:
  "rg_id (newGrantRow input newId now) = newId" "rg_userId (newGrantRow input newId now) = gi_userId input"
  "rg_role (newGrantRow input newId now) = gi_role input"
  "rg_countryCode (newGrantRow input newId now) = gi_countryCode input"
  "rg_isCountryWide (newGrantRow input newId now) \<longleftrightarrow> gi_regionIds input = None"
  "grantKey (newGrantRow input newId now) = (gi_userId input, gi_role input, gi_countryCode input)"
  by (simp_all add: newGrantRow_def grantKey_def)

definition regionsOf :: "int list option \<Rightarrow> int list" where
  "regionsOf regionIds = (case regionIds of None \<Rightarrow> [] | Some ids \<Rightarrow> ids)"

definition withGrant :: "accessDb \<Rightarrow> roleGrantInput \<Rightarrow> uuid \<Rightarrow> int \<Rightarrow> accessDb" where
  "withGrant db input newId now = replaceRegions newId (regionsOf (gi_regionIds input))
     (db\<lparr>db_grants := db_grants db @ [newGrantRow input newId now]\<rparr>)"

lemma withGrant_setUserRole:
  "setUserRole i role (withGrant db input newId now) = withGrant (setUserRole i role db) input newId now"
  by (simp add: setUserRole_def withGrant_def replaceRegions_def)

lemma createRoleGrant_cases:
  assumes "accessOk db" "createRoleGrant db input newId now = Inr c"
  obtains user where "findUser db (gi_userId input) = Some user" "us_role user \<noteq> ''admin''"
    "gi_countryCode input \<in> set (db_countries db)"
    "(gi_userId input, gi_role input, gi_countryCode input) \<notin> grantKey ` set (db_grants db)"
    "regionsInCountry db (gi_regionIds input) (gi_countryCode input)"
    "gi_role input = GrantMaintainer \<longrightarrow> gi_regionIds input = None"
    "gc_db c = setUserRole (gi_userId input) ''editor'' (withGrant db input newId now)"
proof -
  have tables: "tablesOk db" using assms(1) by (simp add: accessOk_def)
  from assms(2) obtain user where user: "findUser db (gi_userId input) = Some user"
    by (cases "findUser db (gi_userId input)") (auto simp: createRoleGrant_def)
  let ?promoted = "us_role user \<noteq> ''editor''"
  have none: "grantsOf db (gi_userId input) = []" if ?promoted
    using rolesOkD [OF assms(1) user] that by simp
  have removed: "(if ?promoted then removeGrants (grantsOf db (gi_userId input)) StaleGrant db else (db, [])) = (db, [])"
    using none by (simp add: removeGrants_def deleteGrantRows_Nil)
  define taken where "taken \<longleftrightarrow> (\<exists>g\<in>set (db_grants db).
      rg_userId g = gi_userId input \<and> rg_role g = gi_role input \<and> rg_countryCode g = gi_countryCode input)"
  note create = assms(2)[unfolded createRoleGrant_def, simplified user option.case removed Let_def prod.case list_ex_iff,
      folded newGrantRow_def taken_def]
  have notAdmin: "us_role user \<noteq> ''admin''" using create by auto
  have country: "gi_countryCode input \<in> set (db_countries db)" using create notAdmin by (auto split: if_splits)
  have key: "\<not> taken"
    using create notAdmin country by (auto split: if_splits)
  have regions: "regionsInCountry db (gi_regionIds input) (gi_countryCode input)"
    using create notAdmin country key by (auto split: if_splits)
  have "insertGrant (newGrantRow input newId now) db \<noteq> Inl FailedToCreate"
    using create notAdmin country key regions by auto
  then have wide: "\<not> (gi_role input = GrantMaintainer \<and> gi_regionIds input \<noteq> None)"
    by (cases "gi_regionIds input") (auto simp: insertGrant_def)
  then have inserted: "insertGrant (newGrantRow input newId now) db
      = Inr (db\<lparr>db_grants := db_grants db @ [newGrantRow input newId now]\<rparr>)"
    by (cases "gi_regionIds input") (auto simp: insertGrant_def)
  have db: "gc_db c = (if ?promoted then setUserRole (gi_userId input) ''editor'' (withGrant db input newId now)
      else withGrant db input newId now)"
    using create notAdmin country key regions inserted by (auto simp: withGrant_def regionsOf_def)
  have same: "setUserRole (gi_userId input) ''editor'' (withGrant db input newId now) = withGrant db input newId now"
    if "us_role user = ''editor''"
  proof -
    have "setUserRole (gi_userId input) ''editor'' db = db" using setUserRole_same [OF tables user] that by simp
    then show ?thesis by (simp add: withGrant_setUserRole)
  qed
  show ?thesis
    by (rule that [OF user notAdmin country _ regions]) (use key wide db same in \<open>auto simp: taken_def grantKey_def\<close>)
qed

lemma grantsOf_withGrant:
  "grantsOf (withGrant db input newId now) u =
    grantsOf db u @ (if u = gi_userId input then [newGrantRow input newId now] else [])"
  by (simp add: withGrant_def replaceRegions_def grantsOf_def)

lemma withGrant_tables [simp]:
  "db_users (withGrant db input newId now) = db_users db"
  "db_grants (withGrant db input newId now) = db_grants db @ [newGrantRow input newId now]"
  by (simp_all add: withGrant_def replaceRegions_def)

lemma in_setUserRole:
  "v \<in> set (db_users (setUserRole i role db)) \<longleftrightarrow>
    (\<exists>u\<in>set (db_users db). v = (if us_id u = i then u\<lparr>us_role := role\<rparr> else u))"
  by (simp add: setUserRole_def image_iff del: if_image_distrib)

lemma accessOk_withGrant:
  assumes "accessOk db" "updateBodyOk (gi_regionIds input)" "newId \<notin> rg_id ` set (db_grants db)"
    "gi_userId input \<in> us_id ` set (db_users db)" "gi_countryCode input \<in> set (db_countries db)"
    "(gi_userId input, gi_role input, gi_countryCode input) \<notin> grantKey ` set (db_grants db)"
    "regionsInCountry db (gi_regionIds input) (gi_countryCode input)"
    "gi_role input = GrantMaintainer \<longrightarrow> gi_regionIds input = None"
  shows "accessOk (setUserRole (gi_userId input) ''editor'' (withGrant db input newId now))" (is "accessOk ?db")
proof -
  have tables: "tablesOk db" using assms(1) by (simp add: accessOk_def)
  have "tablesOk (withGrant db input newId now)"
    using tables_insert [OF tables, of "newGrantRow input newId now" "gi_regionIds input"] assms(2-8)
    by (simp add: withGrant_def regionsOf_def)
  moreover have "rolesOk ?db"
    unfolding rolesOk_def list_all_iff
  proof
    fix v
    assume "v \<in> set (db_users ?db)"
    then obtain u where u: "u \<in> set (db_users db)"
      "v = (if us_id u = gi_userId input then u\<lparr>us_role := ''editor''\<rparr> else u)"
      unfolding in_setUserRole by auto
    have "us_role u = ''editor'' \<longleftrightarrow> grantsOf db (us_id u) \<noteq> []"
      using assms(1) u(1) by (auto simp: accessOk_def rolesOk_def list_all_iff)
    then show "us_role v = ''editor'' \<longleftrightarrow> grantsOf ?db (us_id v) \<noteq> []"
      by (simp add: u(2) grantsOf_withGrant)
  qed
  ultimately show ?thesis by (simp add: accessOk_def)
qed

lemma accessOk_create:
  assumes "accessOk db" "createRoleGrant db input newId now = Inr c" "updateBodyOk (gi_regionIds input)"
    "newId \<notin> rg_id ` set (db_grants db)"
  shows "accessOk (gc_db c)"
proof (rule createRoleGrant_cases [OF assms(1,2)])
  fix user
  assume user: "findUser db (gi_userId input) = Some user"
    "gi_countryCode input \<in> set (db_countries db)"
    "(gi_userId input, gi_role input, gi_countryCode input) \<notin> grantKey ` set (db_grants db)"
    "regionsInCountry db (gi_regionIds input) (gi_countryCode input)"
    "gi_role input = GrantMaintainer \<longrightarrow> gi_regionIds input = None"
    "gc_db c = setUserRole (gi_userId input) ''editor'' (withGrant db input newId now)"
  have "gi_userId input \<in> us_id ` set (db_users db)" using user(1) findUser_Some by force
  then show ?thesis using accessOk_withGrant [OF assms(1,3,4)] user(2-6) by simp
qed

lemma grantsOf_replaceRegions [simp]: "grantsOf (replaceRegions i ids db) u = grantsOf db u"
  by (simp add: grantsOf_def replaceRegions_def)

lemma grantsOf_deleteGrantRows: "grantsOf (deleteGrantRows ids db) u = filter (\<lambda>g. rg_id g \<notin> set ids) (grantsOf db u)"
  by (simp add: grantsOf_def deleteGrantRows_def conj_commute)

lemma updateRoleGrantRegions_cases:
  assumes "updateRoleGrantRegions db i regionIds now = Inr (db', audit, grant)"
  obtains row where "findRoleGrant db i = Inr row" "rg_role row = GrantMaintainer \<longrightarrow> regionIds = None"
    "regionsInCountry db regionIds (rg_countryCode row)"
    "db' = replaceRegions i (regionsOf regionIds) (db\<lparr>db_grants :=
       map (\<lambda>g. if rg_id g = i then g\<lparr>rg_isCountryWide := (regionIds = None), rg_updatedAt := now\<rparr> else g) (db_grants db)\<rparr>)"
proof -
  from assms obtain row where row: "findRoleGrant db i = Inr row"
    by (cases "findRoleGrant db i") (auto simp: updateRoleGrantRegions_def)
  show ?thesis
    by (rule that [OF row]) (use assms row in \<open>simp_all add: updateRoleGrantRegions_def Let_def regionsOf_def split: if_splits\<close>)
qed

lemma accessOk_update:
  assumes "accessOk db" "updateRoleGrantRegions db i regionIds now = Inr (db', audit, grant)" "updateBodyOk regionIds"
  shows "accessOk db'"
proof -
  have tables: "tablesOk db" using assms(1) by (simp add: accessOk_def)
  obtain row where row: "findRoleGrant db i = Inr row" "rg_role row = GrantMaintainer \<longrightarrow> regionIds = None"
    "regionsInCountry db regionIds (rg_countryCode row)"
    and db': "db' = replaceRegions i (regionsOf regionIds) (db\<lparr>db_grants :=
       map (\<lambda>g. if rg_id g = i then g\<lparr>rg_isCountryWide := (regionIds = None), rg_updatedAt := now\<rparr> else g) (db_grants db)\<rparr>)"
    by (rule updateRoleGrantRegions_cases [OF assms(2)])
  have "tablesOk db'"
    using tables_update [OF tables row(1,2) assms(3) row(3), of now] by (simp add: db' regionsOf_def)
  moreover have "grantsOf db' u = [] \<longleftrightarrow> grantsOf db u = []" for u
    unfolding db' grantsOf_Nil by (simp add: replaceRegions_def del: if_image_distrib)
  moreover have "db_users db' = db_users db" by (simp add: db' replaceRegions_def)
  ultimately show ?thesis using assms(1) by (simp add: accessOk_def rolesOk_def)
qed

lemma deleteRoleGrant_cases:
  assumes "deleteRoleGrant db i = Inr (db', audit, userId, demoted)"
  obtains row where "findRoleGrant db i = Inr row" "userId = rg_userId row"
    "demoted \<longleftrightarrow> grantsOf (deleteGrantRows [i] db) userId = [] \<and> map_option us_role (findUser db userId) = Some ''editor''"
    "db' = (if demoted then setUserRole userId ''user'' (deleteGrantRows [i] db) else deleteGrantRows [i] db)"
proof -
  from assms obtain row where row: "findRoleGrant db i = Inr row"
    by (cases "findRoleGrant db i") (auto simp: deleteRoleGrant_def)
  show ?thesis
    by (rule that [OF row]) (use assms row in \<open>auto simp: deleteRoleGrant_def Let_def\<close>)
qed

lemma accessOk_delete:
  assumes "accessOk db" "deleteRoleGrant db i = Inr (db', audit, userId, demoted)"
  shows "accessOk db'"
proof -
  have tables: "tablesOk db" using assms(1) by (simp add: accessOk_def)
  let ?db = "deleteGrantRows [i] db"
  obtain row where row: "findRoleGrant db i = Inr row" "userId = rg_userId row"
    "demoted \<longleftrightarrow> grantsOf ?db userId = [] \<and> map_option us_role (findUser db userId) = Some ''editor''"
    and db': "db' = (if demoted then setUserRole userId ''user'' ?db else ?db)"
    by (rule deleteRoleGrant_cases [OF assms(2)])
  have g: "row \<in> set (db_grants db)" "rg_id row = i" using findRoleGrant_Inr [OF row(1)] by auto
  have others: "grantsOf ?db u = grantsOf db u" if "u \<noteq> userId" for u
  proof -
    have "rg_id h \<noteq> i" if "h \<in> set (grantsOf db u)" for h
    proof
      assume "rg_id h = i"
      then have "h = row" using grant_by_id [OF tables _ g(1)] that g(2) by (simp add: in_grantsOf)
      then show False using that \<open>u \<noteq> userId\<close> row(2) by (simp add: in_grantsOf)
    qed
    then show ?thesis by (simp add: grantsOf_deleteGrantRows)
  qed
  have users: "db_users ?db = db_users db" by (simp add: deleteGrantRows_def)
  have roles: "us_role u = ''editor'' \<longleftrightarrow> grantsOf db (us_id u) \<noteq> []" if "u \<in> set (db_users db)" for u
    using assms(1) that by (auto simp: accessOk_def rolesOk_def list_all_iff)
  have held: "grantsOf db userId \<noteq> []" using g(1) row(2) unfolding grantsOf_Nil by blast
  have "userId \<in> us_id ` set (db_users db)" using tablesOkD(7) [OF tables g(1)] row(2) by (simp add: grantOk_def)
  then obtain u where "findUser db userId = Some u" using findUser_None by (cases "findUser db userId") blast+
  then have editor: "map_option us_role (findUser db userId) = Some ''editor''"
    using rolesOkD [OF assms(1)] held by simp
  have "us_role v = ''editor'' \<longleftrightarrow> grantsOf db' (us_id v) \<noteq> []" if "v \<in> set (db_users db')" for v
  proof (cases demoted)
    case True
    from that True obtain u where u: "u \<in> set (db_users db)"
      "v = (if us_id u = userId then u\<lparr>us_role := ''user''\<rparr> else u)"
      unfolding db' by (auto simp: in_setUserRole users)
    then show ?thesis using roles [OF u(1)] others True row(3) by (auto simp: db')
  next
    case False
    then have "grantsOf ?db userId \<noteq> []" using row(3) editor by simp
    then show ?thesis using that False roles [of v] others held
      by (cases "us_id v = userId") (simp_all add: db' users)
  qed
  then show ?thesis using tables_deleteGrantRows [OF tables, of "[i]"]
    unfolding accessOk_def rolesOk_def list_all_iff by (simp add: db')
qed

text \<open>A role written by the administration and the grants that follow it.\<close>

lemma findUser_setUserRole:
  "findUser (setUserRole i role db) i = map_option (us_role_update (\<lambda>_. role)) (findUser db i)"
proof -
  have "List.find (\<lambda>u. us_id u = i) (map (\<lambda>u. if us_id u = i then u\<lparr>us_role := role\<rparr> else u) us)
      = map_option (us_role_update (\<lambda>_. role)) (List.find (\<lambda>u. us_id u = i) us)" for us
    by (induction us) auto
  then show ?thesis by (simp add: findUser_def setUserRole_def)
qed

lemma accessOk_removed:
  assumes "accessOk db" "role \<noteq> ''editor''"
  shows "accessOk (deleteGrantRows (map rg_id (grantsOf db i)) (setUserRole i role db))" (is "accessOk ?db")
proof -
  have tables: "tablesOk db" using assms(1) by (simp add: accessOk_def)
  have grants: "grantsOf ?db u = (if u = i then [] else grantsOf db u)" for u
  proof -
    have "h \<in> set (grantsOf db u) \<Longrightarrow> rg_id h \<in> rg_id ` set (grantsOf db i) \<longleftrightarrow> u = i" for h
      using grant_by_id [OF tables] by (force simp: in_grantsOf)
    then show ?thesis by (auto simp: grantsOf_deleteGrantRows filter_empty_conv filter_id_conv)
  qed
  have "us_role v = ''editor'' \<longleftrightarrow> grantsOf ?db (us_id v) \<noteq> []" if "v \<in> set (db_users ?db)" for v
  proof -
    from that obtain u where u: "u \<in> set (db_users db)" "v = (if us_id u = i then u\<lparr>us_role := role\<rparr> else u)"
      unfolding deleteGrantRows_def by (auto simp: in_setUserRole)
    have "us_role u = ''editor'' \<longleftrightarrow> grantsOf db (us_id u) \<noteq> []"
      using assms(1) u(1) by (auto simp: accessOk_def rolesOk_def list_all_iff)
    then show ?thesis using assms(2) by (simp add: u(2) grants)
  qed
  then show ?thesis using tables_deleteGrantRows [of "setUserRole i role db"] tables
    unfolding accessOk_def rolesOk_def list_all_iff by simp
qed

lemma accessOk_writeRole:
  assumes "accessOk db" "newId \<notin> rg_id ` set (db_grants db)"
  shows "accessOk (writeRole db i role actorId newId now)"
proof (cases "findUser db i")
  case None
  then have "map (\<lambda>u. if us_id u = i then u\<lparr>us_role := role\<rparr> else u) (db_users db) = db_users db"
    by (intro map_idI) (auto simp: findUser_None)
  then have "setUserRole i role db = db" by (simp add: setUserRole_def)
  then show ?thesis using assms None by (simp add: writeRole_def syncRoleGrants_def)
next
  case (Some u)
  have tables: "tablesOk db" using assms(1) by (simp add: accessOk_def)
  have i: "us_id u = i" "i \<in> us_id ` set (db_users db)" using findUser_Some [OF Some] by auto
  note written = writeRole_def syncRoleGrants_def findUser_setUserRole rememberUser_def Some i(1) syncGrantsWithRole_def Let_def
  consider "role \<noteq> ''editor''" | "role = ''editor''" "us_role u = ''editor''" | "role = ''editor''" "us_role u \<noteq> ''editor''"
    by blast
  then show ?thesis
  proof cases
    case 1
    then have "writeRole db i role actorId newId now = deleteGrantRows (map rg_id (grantsOf db i)) (setUserRole i role db)"
      by (simp add: written removeGrants_def)
    then show ?thesis using accessOk_removed [OF assms(1) 1] by simp
  next
    case 2
    then have "grantsOf db i \<noteq> []" using rolesOkD [OF assms(1) Some] by simp
    then have "writeRole db i role actorId newId now = setUserRole i role db" using 2 by (simp add: written)
    then show ?thesis using 2 setUserRole_same [OF tables Some] assms(1) by simp
  next
    case 3
    then have none: "grantsOf db i = []" using rolesOkD [OF assms(1) Some] by simp
    let ?input = "\<lparr>gi_userId = i, gi_role = GrantEditor, gi_countryCode = LEGACY_COUNTRY_CODE, gi_regionIds = None,
      gi_grantedById = actorId\<rparr>"
    have legacy: "LEGACY_COUNTRY_CODE \<in> set (db_countries db)" using tablesOkD(3) [OF tables] .
    have key: "\<forall>g\<in>set (db_grants db). rg_userId g \<noteq> i" using none by (simp add: grantsOf_Nil)
    have "writeRole db i role actorId newId now = withGrant (setUserRole i role db) ?input newId now"
      using 3 none legacy key
      by (auto simp: written removeGrants_def deleteGrantRows_Nil createRoleGrant_def insertGrant_def
          regionsInCountry_def withGrant_def regionsOf_def newGrantRow_def)
    also have "\<dots> = setUserRole i role (withGrant db ?input newId now)" by (simp add: withGrant_setUserRole)
    also have "accessOk \<dots>"
    proof -
      have "(i, GrantEditor, LEGACY_COUNTRY_CODE) \<notin> grantKey ` set (db_grants db)"
        using key by (auto simp: grantKey_def)
      then show ?thesis
        using 3(1) accessOk_withGrant [OF assms(1) _ assms(2), of ?input now] i(2) legacy
        by (simp add: updateBodyOk_def regionsInCountry_def)
    qed
    finally show ?thesis .
  qed
qed

section \<open>Requests as steps\<close>

datatype accessEvent =
    CreateGrant authRequest roleGrantInput uuid int
  | UpdateGrant authRequest uuid "int list option" int
  | DeleteGrant authRequest uuid
  | WriteRole uuid string "uuid option" uuid int

fun accessStep :: "(uuid \<Rightarrow> permissionObject \<Rightarrow> bool) \<Rightarrow> accessDb \<Rightarrow> accessEvent \<Rightarrow> accessDb" where
  "accessStep verifyPermissions db (CreateGrant req input newId now) =
     (if \<not> createBodyOk input then db
      else case createGrant verifyPermissions db req input newId now of Inl _ \<Rightarrow> db | Inr created \<Rightarrow> gc_db created)"
| "accessStep verifyPermissions db (UpdateGrant req grantId regionIds now) =
     (if \<not> updateBodyOk regionIds then db
      else case updateGrant verifyPermissions db req grantId regionIds now of Inl _ \<Rightarrow> db | Inr (db', _) \<Rightarrow> db')"
| "accessStep verifyPermissions db (DeleteGrant req grantId) =
     (case deleteGrant verifyPermissions db req grantId of Inl _ \<Rightarrow> db | Inr (db', _) \<Rightarrow> db')"
| "accessStep verifyPermissions db (WriteRole userId role actorId newId now) = writeRole db userId role actorId newId now"

text \<open>A new id is fresh.\<close>

fun freshEvent :: "accessDb \<Rightarrow> accessEvent \<Rightarrow> bool" where
  "freshEvent db (CreateGrant req input newId now) \<longleftrightarrow> newId \<notin> set (map rg_id (db_grants db))"
| "freshEvent db (WriteRole userId role actorId newId now) \<longleftrightarrow> newId \<notin> set (map rg_id (db_grants db))"
| "freshEvent db _ \<longleftrightarrow> True"

lemma accessOk_step:
  assumes "accessOk db" "freshEvent db e"
  shows "accessOk (accessStep verifyPermissions db e)"
proof (cases e)
  case (CreateGrant req input newId now)
  then show ?thesis
    using assms accessOk_create [OF assms(1), of "input\<lparr>gi_grantedById := actorIdFromRequest req\<rparr>" newId now]
    by (auto simp: createGrant_def createBodyOk_def split: option.split sum.split)
next
  case (UpdateGrant req grantId regionIds now)
  then show ?thesis
    using assms(1) accessOk_update [OF assms(1), of grantId regionIds now]
    by (auto simp: updateGrant_def split: option.split sum.split)
next
  case (DeleteGrant req grantId)
  then show ?thesis
    using assms(1) accessOk_delete [OF assms(1), of grantId]
    by (auto simp: deleteGrant_def split: option.split sum.split)
next
  case (WriteRole userId role actorId newId now)
  then show ?thesis using assms accessOk_writeRole [OF assms(1)] by simp
qed

interpretation accessMachine: invariant_machine "accessStep verifyPermissions" freshEvent accessOk
  for verifyPermissions
  by unfold_locales (rule accessOk_step)

text \<open>
  C37. Whatever requests are made and roles written, the grants stay consistent: ids and (user, role,
  country) are unique, a maintainer's grant covers the whole country, a grant has regions exactly
  when it does not cover the whole country, those lie in its country, and a user is an editor exactly
  when they hold a grant.
\<close>
theorem grants_well_formed:
  assumes "accessOk db" "runOk (accessStep verifyPermissions) freshEvent db events"
  shows "accessOk (runAll (accessStep verifyPermissions) db events)"
  by (rule accessMachine.run_inv [OF assms])

definition exampleDb :: accessDb where
  "exampleDb = \<lparr>db_users = [\<lparr>us_id = 1, us_role = ''admin''\<rparr>, \<lparr>us_id = 2, us_role = ''editor''\<rparr>, \<lparr>us_id = 3, us_role = ''user''\<rparr>],
     db_grants = [\<lparr>rg_id = 10, rg_userId = 2, rg_role = GrantMaintainer, rg_countryCode = ''CZ'', rg_isCountryWide = True,
       rg_grantedById = Some 1, rg_createdAt = 0, rg_updatedAt = 0\<rparr>],
     db_grantRegions = [], db_countries = [''PL'', ''CZ''], db_regions = [(1, ''CZ''), (2, ''CZ''), (3, ''PL'')]\<rparr>"

definition exampleReq :: authRequest where
  "exampleReq = \<lparr>rq_sessionUserId = Some 2, rq_tokenReferenceId = None, rq_oauthScopes = None\<rparr>"

definition exampleInput :: roleGrantInput where
  "exampleInput = \<lparr>gi_userId = 3, gi_role = GrantEditor, gi_countryCode = ''CZ'', gi_regionIds = Some [2, 1], gi_grantedById = None\<rparr>"

lemma accessOk_exampleDb: "accessOk exampleDb"
  by code_simp

theorem grants_well_formed_witness:
  "accessOk (runAll (accessStep (\<lambda>_ _. False)) exampleDb
     [CreateGrant exampleReq exampleInput 11 5, UpdateGrant exampleReq 11 None 6, WriteRole 2 ''user'' None 12 7, DeleteGrant exampleReq 11])"
  by (rule grants_well_formed [OF accessOk_exampleDb]) code_simp

section \<open>What a request without staff rights can change\<close>

definition maintains :: "accessDb \<Rightarrow> uuid \<Rightarrow> string \<Rightarrow> bool" where
  "maintains db u c \<longleftrightarrow> (\<exists>g\<in>set (grantsOf db u). rg_role g = GrantMaintainer \<and> rg_countryCode g = c)"

definition manageable :: "accessDb \<Rightarrow> authRequest \<Rightarrow> roleGrantRow \<Rightarrow> bool" where
  "manageable db req g \<longleftrightarrow> rg_role g = GrantEditor \<and>
    (\<exists>u. rq_sessionUserId req = Some u \<and> maintains db u (rg_countryCode g))"

definition admins :: "accessDb \<Rightarrow> userRow list" where
  "admins db = filter (\<lambda>u. us_role u = ''admin'') (db_users db)"

fun requestOf :: "accessEvent \<Rightarrow> (authRequest \<times> string) option" where
  "requestOf (CreateGrant req input newId now) = Some (req, ''create'')"
| "requestOf (UpdateGrant req grantId regionIds now) = Some (req, ''update'')"
| "requestOf (DeleteGrant req grantId) = Some (req, ''delete'')"
| "requestOf (WriteRole userId role actorId newId now) = None"

text \<open>The changes a step makes to the grants and their regions are all of manageable grants.\<close>

definition changesManageable :: "accessDb \<Rightarrow> authRequest \<Rightarrow> accessDb \<Rightarrow> bool" where
  "changesManageable db req db' \<longleftrightarrow>
    admins db' = admins db \<and>
    list_all (\<lambda>g. g \<in> set (db_grants db') \<or> manageable db req g) (db_grants db) \<and>
    list_all (\<lambda>g. g \<in> set (db_grants db) \<or> manageable db req g) (db_grants db') \<and>
    list_all (\<lambda>p. p \<in> set (db_grantRegions db') \<or> (\<exists>g\<in>set (db_grants db). rg_id g = fst p \<and> manageable db req g))
      (db_grantRegions db) \<and>
    list_all (\<lambda>p. p \<in> set (db_grantRegions db) \<or> (\<exists>g\<in>set (db_grants db'). rg_id g = fst p \<and> manageable db req g))
      (db_grantRegions db')"

lemma changesManageable_refl: "changesManageable db req db"
  by (simp add: changesManageable_def list_all_iff)

lemma changesManageable_maintains:
  assumes "changesManageable db req db'"
  shows "maintains db' u c \<longleftrightarrow> maintains db u c"
proof -
  have "g \<in> set (db_grants db') \<longleftrightarrow> g \<in> set (db_grants db)" if "rg_role g = GrantMaintainer" for g
    using assms that by (auto simp: changesManageable_def list_all_iff manageable_def)
  then show ?thesis by (auto simp: maintains_def in_grantsOf)
qed

lemma reach_maintains:
  assumes "\<not> hasStaffPermission verifyPermissions req permissions"
  shows "\<not> cr_isEverywhere (getCountryReach verifyPermissions db req permissions)"
    "c \<in> set (cr_countryCodes (getCountryReach verifyPermissions db req permissions)) \<Longrightarrow>
      \<exists>u. rq_sessionUserId req = Some u \<and> maintains db u c"
proof -
  show "\<not> cr_isEverywhere (getCountryReach verifyPermissions db req permissions)"
    using assms by (simp add: getCountryReach_def)
  assume c: "c \<in> set (cr_countryCodes (getCountryReach verifyPermissions db req permissions))"
  then obtain u where u: "rq_sessionUserId req = Some u" and "maintainerIn (editorGrantsOf db u) c"
    using assms
    by (auto simp: getCountryReach_def sessionOrTokenAccessFromRequest_def accessFromRequest_def actorIdFromRequest_def
        loadActorAccess_def maintainerIn_def map_option_case split: if_splits option.splits)
  then show "\<exists>u. rq_sessionUserId req = Some u \<and> maintains db u c"
    unfolding editorGrantsOf_reads maintains_def by blast
qed

lemma reachCovers_manageable:
  assumes "\<not> hasStaffPermission verifyPermissions req permissions"
    "assertReachCoversGrant (getCountryReach verifyPermissions db req permissions) (rg_countryCode g) (rg_role g) = None"
  shows "manageable db req g"
  using assms reach_maintains [OF assms(1), where db = db]
  by (cases "rg_role g") (auto simp: assertReachCoversGrant_def manageable_def split: if_splits)

lemma admins_setUserRole:
  assumes "\<And>u. u \<in> set (db_users db) \<Longrightarrow> us_id u = i \<Longrightarrow> us_role u \<noteq> ''admin''" "role \<noteq> ''admin''"
  shows "admins (setUserRole i role db) = admins db"
proof -
  have "filter (\<lambda>u. us_role u = ''admin'') (map (\<lambda>u. if us_id u = i then u\<lparr>us_role := role\<rparr> else u) us)
      = filter (\<lambda>u. us_role u = ''admin'') us"
    if "\<And>u. u \<in> set us \<Longrightarrow> us_id u = i \<Longrightarrow> us_role u \<noteq> ''admin''" for us
    using that assms(2) by (induction us) auto
  from this [OF assms(1)] show ?thesis by (simp add: admins_def setUserRole_def)
qed

lemma storedGuard_manageable:
  assumes "\<not> hasStaffPermission verifyPermissions req [(''role_grants'', [action])]"
    "assertManagesStoredGrant verifyPermissions db req action i = None"
  obtains row where "findRoleGrant db i = Inr row" "manageable db req row"
proof -
  from assms(2) obtain row where row: "findRoleGrant db i = Inr row"
    "assertReachCoversGrant (getCountryReach verifyPermissions db req [(''role_grants'', [action])])
       (rg_countryCode row) (rg_role row) = None"
    by (auto simp: assertManagesStoredGrant_def Let_def split: if_splits sum.splits)
  show ?thesis by (rule that [OF row(1) reachCovers_manageable [OF assms(1) row(2)]])
qed

lemma changes_create:
  assumes "accessOk db" "\<not> hasStaffPermission verifyPermissions req [(''role_grants'', [''create''])]"
    "createGrant verifyPermissions db req input newId now = Inr c" "newId \<notin> rg_id ` set (db_grants db)"
  shows "changesManageable db req (gc_db c)"
proof -
  have tables: "tablesOk db" using assms(1) by (simp add: accessOk_def)
  let ?input = "input\<lparr>gi_grantedById := actorIdFromRequest req\<rparr>"
  let ?row = "newGrantRow ?input newId now"
  have guard: "assertManagesGrant verifyPermissions db req ''create'' (gi_countryCode input) (gi_role input) = None"
    and created: "createRoleGrant db ?input newId now = Inr c"
    using assms(3) by (auto simp: createGrant_def split: option.splits)
  have row: "manageable db req ?row"
    by (rule reachCovers_manageable [OF assms(2)]) (use guard in \<open>simp add: assertManagesGrant_def\<close>)
  obtain user where user: "findUser db (gi_userId input) = Some user" "us_role user \<noteq> ''admin''"
    and db': "gc_db c = setUserRole (gi_userId input) ''editor'' (withGrant db ?input newId now)"
    by (rule createRoleGrant_cases [OF assms(1) created]) simp
  have "us_role u \<noteq> ''admin''" if "u \<in> set (db_users db)" "us_id u = gi_userId input" for u
    using user_by_id [OF tables that(1)] findUser_Some [OF user(1)] that user(2) by metis
  then have "admins (gc_db c) = admins db"
    unfolding db' by (subst admins_setUserRole) (auto simp: admins_def)
  moreover have "i \<noteq> newId" if "(i, r) \<in> set (db_grantRegions db)" for i r
    using tablesOkD(8) [OF tables that] assms(4) by (auto simp: grantRegionOk_def)
  moreover have "db_grantRegions (gc_db c) = filter (\<lambda>(i, _). i \<noteq> newId) (db_grantRegions db)
      @ map (\<lambda>r. (newId, r)) (regionsOf (gi_regionIds input))"
    by (simp add: db' withGrant_def replaceRegions_def)
  ultimately show ?thesis
    using row by (auto simp: changesManageable_def list_all_iff db')
qed

lemma changes_update:
  assumes "accessOk db" "\<not> hasStaffPermission verifyPermissions req [(''role_grants'', [''update''])]"
    "updateGrant verifyPermissions db req i regionIds now = Inr (db', audit, grant)"
  shows "changesManageable db req db'"
proof -
  have tables: "tablesOk db" using assms(1) by (simp add: accessOk_def)
  have guard: "assertManagesStoredGrant verifyPermissions db req ''update'' i = None"
    and updated: "updateRoleGrantRegions db i regionIds now = Inr (db', audit, grant)"
    using assms(3) by (auto simp: updateGrant_def split: option.splits)
  let ?change = "\<lambda>g. g\<lparr>rg_isCountryWide := (regionIds = None), rg_updatedAt := now\<rparr>"
  obtain row where row: "findRoleGrant db i = Inr row" "manageable db req row"
    by (rule storedGuard_manageable [OF assms(2) guard])
  have g: "row \<in> set (db_grants db)" "rg_id row = i" using findRoleGrant_Inr [OF row(1)] by auto
  have db': "db' = replaceRegions i (regionsOf regionIds)
      (db\<lparr>db_grants := map (\<lambda>g. if rg_id g = i then ?change g else g) (db_grants db)\<rparr>)"
    by (rule updateRoleGrantRegions_cases [OF updated])
  have same: "h = row" if "h \<in> set (db_grants db)" "rg_id h = i" for h
    using grant_by_id [OF tables that(1) g(1)] that(2) g(2) by simp
  have change: "manageable db req (?change row)" using row(2) by (simp add: manageable_def)
  have mapped: "h \<in> set (db_grants db') \<longleftrightarrow> (h \<in> set (db_grants db) \<and> rg_id h \<noteq> i) \<or> h = ?change row" for h
  proof -
    have "h \<in> set (db_grants db') \<longleftrightarrow> (\<exists>k\<in>set (db_grants db). h = (if rg_id k = i then ?change k else k))"
      by (simp add: db' replaceRegions_def image_iff del: if_image_distrib)
    then show ?thesis using same g by metis
  qed
  have regions: "db_grantRegions db' = filter (\<lambda>(j, _). j \<noteq> i) (db_grantRegions db) @ map (\<lambda>r. (i, r)) (regionsOf regionIds)"
    by (simp add: db' replaceRegions_def)
  have "admins db' = admins db" by (simp add: db' admins_def replaceRegions_def)
  moreover have "h \<in> set (db_grants db') \<or> manageable db req h" if "h \<in> set (db_grants db)" for h
    using same [OF that] row(2) mapped that by blast
  moreover have "h \<in> set (db_grants db) \<or> manageable db req h" if "h \<in> set (db_grants db')" for h
    using mapped that change by blast
  moreover have "rg_id (?change row) = i" using g(2) by simp
  ultimately show ?thesis
    using g row(2) change mapped [of "?change row"] unfolding changesManageable_def list_all_iff regions by auto
qed

lemma changes_delete:
  assumes "accessOk db" "\<not> hasStaffPermission verifyPermissions req [(''role_grants'', [''delete''])]"
    "deleteGrant verifyPermissions db req i = Inr (db', audit, userId, demoted)"
  shows "changesManageable db req db'"
proof -
  have tables: "tablesOk db" using assms(1) by (simp add: accessOk_def)
  have guard: "assertManagesStoredGrant verifyPermissions db req ''delete'' i = None"
    and deleted: "deleteRoleGrant db i = Inr (db', audit, userId, demoted)"
    using assms(3) by (auto simp: deleteGrant_def split: option.splits)
  obtain row where row: "findRoleGrant db i = Inr row" "manageable db req row"
    by (rule storedGuard_manageable [OF assms(2) guard])
  have g: "row \<in> set (db_grants db)" "rg_id row = i" using findRoleGrant_Inr [OF row(1)] by auto
  have same: "h = row" if "h \<in> set (db_grants db)" "rg_id h = i" for h
    using grant_by_id [OF tables that(1) g(1)] that(2) g(2) by simp
  have wasEditor: "demoted \<Longrightarrow> map_option us_role (findUser db userId) = Some ''editor''"
    and db': "db' = (if demoted then setUserRole userId ''user'' (deleteGrantRows [i] db) else deleteGrantRows [i] db)"
    by (rule deleteRoleGrant_cases [OF deleted]; simp)+
  have rows: "db_grants db' = filter (\<lambda>h. rg_id h \<noteq> i) (db_grants db)"
    "db_grantRegions db' = filter (\<lambda>(j, _). j \<noteq> i) (db_grantRegions db)"
    by (simp_all add: db' deleteGrantRows_def)
  have "us_role u \<noteq> ''admin''" if user: "demoted" "u \<in> set (db_users db)" "us_id u = userId" for u
  proof -
    obtain v where v: "findUser db userId = Some v" "us_role v = ''editor''"
      using wasEditor [OF user(1)] by (cases "findUser db userId") auto
    then have "u = v" using user_by_id [OF tables user(2)] findUser_Some [OF v(1)] user(3) by blast
    then show ?thesis using v(2) by simp
  qed
  then have "demoted \<Longrightarrow> admins (setUserRole userId ''user'' (deleteGrantRows [i] db)) = admins (deleteGrantRows [i] db)"
    by (intro admins_setUserRole) (simp_all add: deleteGrantRows_def)
  then have "admins db' = admins db"
    unfolding db' by (cases demoted) (simp_all add: admins_def deleteGrantRows_def)
  moreover have "rg_id h \<noteq> i \<or> manageable db req h" if "h \<in> set (db_grants db)" for h
    using same [OF that] row(2) by blast
  moreover have "fst p \<noteq> i \<or> (\<exists>h\<in>set (db_grants db). rg_id h = fst p \<and> manageable db req h)" for p :: "uuid \<times> int"
    using g row(2) by blast
  ultimately show ?thesis
    unfolding changesManageable_def list_all_iff rows set_filter by (simp add: case_prod_beta)
qed

lemma changes_step:
  assumes "accessOk db" "freshEvent db e" "requestOf e = Some (req, action)"
    "\<not> hasStaffPermission verifyPermissions req [(''role_grants'', [action])]"
  shows "changesManageable db req (accessStep verifyPermissions db e)"
  using assms changesManageable_refl
  by (cases e) (auto split: sum.split intro: changes_create changes_update changes_delete)

text \<open>
  C38. A request of an actor without staff rights over grants cannot escalate: administrators stay the
  same, every grant it adds, alters or removes, and every region of one, is an editor's grant in a
  country the actor maintains, and so who maintains which country stays the same.
\<close>
theorem no_escalation:
  assumes "accessOk db" "freshEvent db e" "requestOf e = Some (req, action)"
    "\<not> hasStaffPermission verifyPermissions req [(''role_grants'', [action])]"
  shows "changesManageable db req (accessStep verifyPermissions db e) \<and>
    (\<forall>u c. maintains (accessStep verifyPermissions db e) u c = maintains db u c)"
  using changes_step [OF assms] changesManageable_maintains [OF changes_step [OF assms]] by blast

theorem no_escalation_witness:
  "changesManageable exampleDb exampleReq
     (accessStep (\<lambda>_ _. False) exampleDb (CreateGrant exampleReq exampleInput 11 5))"
proof -
  have "freshEvent exampleDb (CreateGrant exampleReq exampleInput 11 5)" by code_simp
  moreover have "\<not> hasStaffPermission (\<lambda>_ _. False) exampleReq [(''role_grants'', [''create''])]" by code_simp
  ultimately show ?thesis using no_escalation [OF accessOk_exampleDb _ requestOf.simps(1)] by blast
qed

section \<open>The guard of a row and the filter of the lists\<close>

text \<open>What the tables say of the access of a user to a row of country \<open>c\<close> and perhaps region \<open>r\<close>.\<close>

definition mayEdit :: "accessDb \<Rightarrow> uuid \<Rightarrow> string \<Rightarrow> int option \<Rightarrow> bool" where
  "mayEdit db u c r \<longleftrightarrow>
    (\<exists>user\<in>set (db_users db). us_id user = u \<and>
      (us_role user = ''admin'' \<or>
       us_role user = ''editor'' \<and>
       (\<exists>g\<in>set (grantsOf db u). rg_countryCode g = c \<and>
          (rg_isCountryWide g \<or> (\<exists>region. r = Some region \<and> (rg_id g, region) \<in> set (db_grantRegions db))))))"

lemma grantsCover_reads:
  "grantsCover grants (Some c) r \<longleftrightarrow>
    (\<exists>g\<in>set grants. if eg_isCountryWide g then eg_countryCode g = c else \<exists>region. r = Some region \<and> region \<in> set (eg_regionIds g))"
  by (auto simp: grantsCover_def list_ex_iff split: option.splits)

lemma mayEdit_reads:
  assumes "tablesOk db" "findUser db u = Some user" "us_role user = ''editor''"
  shows "mayEdit db u c r \<longleftrightarrow>
    wideIn (editorGrantsOf db u) c \<or> (\<exists>region. r = Some region \<and> regionIn (editorGrantsOf db u) c region)"
proof -
  have "v \<in> set (db_users db) \<and> us_id v = u \<longleftrightarrow> v = user" for v
    using user_by_id [OF assms(1), of v user] findUser_Some [OF assms(2)] by auto
  then have only: "(\<exists>v\<in>set (db_users db). us_id v = u \<and> P v) \<longleftrightarrow> P user" for P by metis
  have "mayEdit db u c r \<longleftrightarrow> (\<exists>g\<in>set (grantsOf db u). rg_countryCode g = c \<and>
      (rg_isCountryWide g \<or> (\<exists>region. r = Some region \<and> (rg_id g, region) \<in> set (db_grantRegions db))))"
    unfolding mayEdit_def only using assms(3) by simp
  then show ?thesis unfolding editorGrantsOf_reads by blast
qed

text \<open>
  A region of a grant lies in the grant's country, so the filter may ask for the region alone.
\<close>

lemma grantsCover_consistent:
  assumes "tablesOk db" "\<And>region. r = Some region \<Longrightarrow> (region, c) \<in> set (db_regions db)"
  shows "grantsCover (editorGrantsOf db u) (Some c) r \<longleftrightarrow>
    wideIn (editorGrantsOf db u) c \<or> (\<exists>region. r = Some region \<and> regionIn (editorGrantsOf db u) c region)"
proof -
  have country: "eg_countryCode g = c"
    if "g \<in> set (editorGrantsOf db u)" "r = Some region" "region \<in> set (eg_regionIds g)" for g region
  proof -
    have "regionIn (editorGrantsOf db u) (eg_countryCode g) region" using that by (auto simp: regionIn_def)
    then obtain h where h: "h \<in> set (grantsOf db u)" "rg_countryCode h = eg_countryCode g"
      "(rg_id h, region) \<in> set (db_grantRegions db)"
      unfolding editorGrantsOf_reads by blast
    obtain k where k: "k \<in> set (db_grants db)" "rg_id k = rg_id h" "(region, rg_countryCode k) \<in> set (db_regions db)"
      using tablesOkD(8) [OF assms(1) h(3)] by (auto simp: grantRegionOk_def)
    have "k = h" using grant_by_id [OF assms(1) k(1) _ k(2)] h(1) by (simp add: in_grantsOf)
    then have "(region, eg_countryCode g) \<in> set (db_regions db)" using k(3) h(2) by simp
    then show ?thesis using assms(2) [OF that(2)] tablesOkD(2) [OF assms(1)] by (metis eq_key_imp_eq_value)
  qed
  show ?thesis
  proof (cases r)
    case None
    then show ?thesis unfolding grantsCover_reads wideIn_def by (auto split: if_splits)
  next
    case (Some region)
    then show ?thesis unfolding grantsCover_reads wideIn_def regionIn_def using country [OF _ Some]
      by (simp add: if_bool_eq_disj) blast
  qed
qed

text \<open>
  C39. For a row whose region lies in its country, the three ways to ask for the access of a user agree:
  the guard that the routes put before a write (\<open>coversTarget\<close>), the filter that marks the rows of a
  list as editable, and what the tables of users and grants say.
\<close>
theorem guard_agrees_with_filter:
  assumes "tablesOk db" "loadActorAccess db u = Some access"
    "\<And>region. r = Some region \<Longrightarrow> (region, c) \<in> set (db_regions db)"
  shows "coversTarget access \<lparr>tg_countryCode = Some c, tg_regionId = r\<rparr> = mayEdit db u c r \<and>
    resolveEditableRows (Some access) (Some c) r = mayEdit db u c r"
proof -
  from assms(2) obtain user where user: "findUser db u = Some user"
    and access: "access = \<lparr>ac_userId = u, ac_role = us_role user,
      ac_grants = (if us_role user \<noteq> ''editor'' then [] else editorGrantsOf db u)\<rparr>"
    by (auto simp: loadActorAccess_def)
  have found: "user \<in> set (db_users db)" "us_id user = u" using findUser_Some [OF user] by auto
  have only: "v = user" if "v \<in> set (db_users db)" "us_id v = u" for v
    using user_by_id [OF assms(1) that(1) found(1)] found(2) that(2) by simp
  consider "us_role user = ''admin''" | "us_role user = ''editor''" | "us_role user \<noteq> ''admin''" "us_role user \<noteq> ''editor''"
    by blast
  then show ?thesis
  proof cases
    case 1
    then have "mayEdit db u c r" using found by (auto simp: mayEdit_def)
    then show ?thesis using 1 by (simp add: access coversTarget_def resolveEditableRows_def)
  next
    case 2
    then have "coversTarget access \<lparr>tg_countryCode = Some c, tg_regionId = r\<rparr> \<longleftrightarrow>
        wideIn (editorGrantsOf db u) c \<or> (\<exists>region. r = Some region \<and> regionIn (editorGrantsOf db u) c region)"
      using covers_reads [of access "\<lparr>tg_countryCode = Some c, tg_regionId = r\<rparr>" c] editorGrantsOf_reads(4) [of db u]
      by (simp add: access)
    moreover have "resolveEditableRows (Some access) (Some c) r \<longleftrightarrow> grantsCover (editorGrantsOf db u) (Some c) r"
      using 2 by (simp add: resolveEditableRows_def access)
    ultimately show ?thesis
      using grantsCover_consistent [OF assms(1,3), where u = u] mayEdit_reads [OF assms(1) user 2] by simp
  next
    case 3
    then have "\<not> mayEdit db u c r" using only unfolding mayEdit_def by blast
    then show ?thesis using 3 by (simp add: access coversTarget_def resolveEditableRows_def findCountryGrant_def grantsCover_def)
  qed
qed

theorem guard_agrees_with_filter_witness:
  "coversTarget \<lparr>ac_userId = 2, ac_role = ''editor'', ac_grants = [\<lparr>eg_countryCode = ''CZ'', eg_isCountryWide = True,
       eg_isMaintainer = True, eg_regionIds = []\<rparr>]\<rparr> \<lparr>tg_countryCode = Some ''CZ'', tg_regionId = Some 1\<rparr>
    = mayEdit exampleDb 2 ''CZ'' (Some 1)"
proof -
  have "loadActorAccess exampleDb 2 = Some \<lparr>ac_userId = 2, ac_role = ''editor'', ac_grants = [\<lparr>eg_countryCode = ''CZ'',
      eg_isCountryWide = True, eg_isMaintainer = True, eg_regionIds = []\<rparr>]\<rparr>"
    by code_simp
  moreover have "tablesOk exampleDb" using accessOk_exampleDb by (simp add: accessOk_def)
  moreover have "(1, ''CZ'') \<in> set (db_regions exampleDb)" by code_simp
  ultimately show ?thesis using guard_agrees_with_filter [of exampleDb 2 _ "Some 1" "''CZ''"] by simp
qed

section \<open>Reading the whole list\<close>

lemma filter_after_key:
  assumes "sorted_wrt (\<lambda>x y. (key :: _ \<Rightarrow> 'a::linorder) x < key y) xs" "n < length xs"
  shows "filter (\<lambda>x. key (xs ! n) < key x) xs = drop (Suc n) xs"
  using assms
proof (induction xs arbitrary: n)
  case (Cons x xs)
  show ?case
  proof (cases n)
    case 0
    then show ?thesis using Cons.prems by (auto simp: filter_id_conv)
  next
    case (Suc m)
    then have "key x < key (xs ! m)" using Cons.prems by simp
    then have "\<not> key (xs ! m) < key x" by simp
    then show ?thesis using Cons Suc by simp
  qed
qed simp

lemma sort_key_strict:
  assumes "distinct (map key xs)"
  shows "sorted_wrt (\<lambda>x y. (key x :: 'a::linorder) < key y) (sort_key key xs)"
proof -
  have "distinct (map key (sort_key key xs))"
    using assms by (simp add: distinct_map)
  then have "sorted_wrt (<) (map key (sort_key key xs))"
    by (simp add: strict_sorted_iff)
  then show ?thesis by (simp add: sorted_wrt_map)
qed

text \<open>A page that names a cursor ends with it, and the rows after it are fewer.\<close>

definition afterCursor :: "uuid option \<Rightarrow> roleGrantRow \<Rightarrow> bool" where
  "afterCursor cursor g \<longleftrightarrow> (case cursor of None \<Rightarrow> True | Some after \<Rightarrow> after < rg_id g)"

definition rowsAfter :: "accessDb \<Rightarrow> countryReach \<Rightarrow> uuid \<Rightarrow> grantQuery \<Rightarrow> roleGrantRow list" where
  "rowsAfter db reach userId query = sort_key rg_id
     (filter (\<lambda>g. matchesQuery reach userId query g \<and> afterCursor (gq_cursor query) g) (db_grants db))"

lemma grantPage_rows:
  "grantPage db reach userId query =
    (take (gq_limit query) (rowsAfter db reach userId query),
     if gq_limit query < length (rowsAfter db reach userId query) \<and> 0 < gq_limit query
     then Some (rg_id (rowsAfter db reach userId query ! (gq_limit query - 1))) else None)"
proof -
  let ?rows = "rowsAfter db reach userId query" and ?n = "gq_limit query"
  have "grantPage db reach userId query = (let rows = take (?n + 1) ?rows; page = take ?n rows
      in (page, if ?n < length rows \<and> page \<noteq> [] then Some (rg_id (last page)) else None))"
    unfolding grantPage_def rowsAfter_def afterCursor_def ..
  moreover have "last (take ?n ?rows) = ?rows ! (?n - 1)" if "?n < length ?rows" "0 < ?n"
    using that by (subst last_conv_nth) (auto simp: min_def)
  ultimately show ?thesis by (auto simp: Let_def min_def)
qed

lemma matchesQuery_cursor [simp]: "matchesQuery reach userId (query\<lparr>gq_cursor := c\<rparr>) = matchesQuery reach userId query"
  by (simp add: matchesQuery_def fun_eq_iff)

lemma grantPage_fewer:
  assumes "grantPage db reach userId query = (page, Some c)"
  shows "length (rowsAfter db reach userId (query\<lparr>gq_cursor := Some c\<rparr>)) < length (rowsAfter db reach userId query)"
proof -
  let ?rows = "rowsAfter db reach userId query"
  from assms have n: "0 < gq_limit query" "gq_limit query < length ?rows" and c: "c = rg_id (?rows ! (gq_limit query - 1))"
    by (auto simp: grantPage_rows split: if_splits)
  have g: "?rows ! (gq_limit query - 1) \<in> set ?rows" using n by simp
  then have after: "afterCursor (gq_cursor query) (?rows ! (gq_limit query - 1))" by (simp add: rowsAfter_def)
  let ?old = "filter (\<lambda>g. matchesQuery reach userId query g \<and> afterCursor (gq_cursor query) g) (db_grants db)"
  have "filter (\<lambda>g. matchesQuery reach userId query g \<and> afterCursor (Some c) g) (db_grants db)
      = filter (\<lambda>g. c < rg_id g) ?old"
    using after by (auto simp: c afterCursor_def intro!: filter_cong split: option.splits)
  moreover have "length (filter (\<lambda>g. c < rg_id g) ?old) < length ?old"
    by (rule length_filter_less [of "?rows ! (gq_limit query - 1)"]) (use g in \<open>simp_all add: rowsAfter_def c\<close>)
  ultimately show ?thesis by (simp add: rowsAfter_def)
qed

text \<open>A client that follows the cursors.\<close>

function readPages :: "accessDb \<Rightarrow> countryReach \<Rightarrow> uuid \<Rightarrow> grantQuery \<Rightarrow> roleGrantRow list" where
  "readPages db reach userId query =
    (case grantPage db reach userId query of
       (page, None) \<Rightarrow> page
     | (page, Some c) \<Rightarrow> page @ readPages db reach userId (query\<lparr>gq_cursor := Some c\<rparr>))"
  by pat_completeness auto
termination
  by (relation "measure (\<lambda>(db, reach, userId, query). length (rowsAfter db reach userId query))")
    (auto intro: grantPage_fewer [OF sym])

declare readPages.simps [simp del]

lemma readPages_rows:
  assumes "distinct (map rg_id (db_grants db))" "0 < gq_limit query"
  shows "readPages db reach userId query = rowsAfter db reach userId query"
  using assms
proof (induction db reach userId query rule: readPages.induct)
  case (1 db reach userId query)
  let ?rows = "rowsAfter db reach userId query" and ?n = "gq_limit query"
  show ?case
  proof (cases "?n < length ?rows")
    case False
    then show ?thesis by (simp add: readPages.simps [of _ _ _ query] grantPage_rows)
  next
    case True
    let ?c = "rg_id (?rows ! (?n - 1))"
    have page: "grantPage db reach userId query = (take ?n ?rows, Some ?c)"
      using True 1(3) by (simp add: grantPage_rows)
    let ?old = "filter (\<lambda>g. matchesQuery reach userId query g \<and> afterCursor (gq_cursor query) g) (db_grants db)"
    have "distinct (map rg_id ?old)" using 1(2) by (simp add: distinct_map_filter)
    then have strict: "sorted_wrt (\<lambda>x y. rg_id x < rg_id y) ?rows" unfolding rowsAfter_def by (rule sort_key_strict)
    have g: "?rows ! (?n - 1) \<in> set ?rows" using True by simp
    then have after: "afterCursor (gq_cursor query) (?rows ! (?n - 1))" by (simp add: rowsAfter_def)
    have "rowsAfter db reach userId (query\<lparr>gq_cursor := Some ?c\<rparr>) = filter (\<lambda>g. ?c < rg_id g) ?rows"
    proof -
      have "filter (\<lambda>g. matchesQuery reach userId query g \<and> afterCursor (Some ?c) g) (db_grants db)
          = filter (\<lambda>g. ?c < rg_id g) ?old"
        using after by (auto simp: afterCursor_def intro!: filter_cong split: option.splits)
      then show ?thesis by (simp add: rowsAfter_def filter_sort)
    qed
    also have "\<dots> = drop ?n ?rows"
      using filter_after_key [OF strict, of "?n - 1"] True 1(3) by simp
    finally have rest: "rowsAfter db reach userId (query\<lparr>gq_cursor := Some ?c\<rparr>) = drop ?n ?rows" .
    have "readPages db reach userId (query\<lparr>gq_cursor := Some ?c\<rparr>) = drop ?n ?rows"
      using 1(1) [OF page [symmetric] refl] 1(2,3) rest by simp
    then show ?thesis by (simp add: readPages.simps [of _ _ _ query] page)
  qed
qed

text \<open>
  C40. A client that follows \<open>nextCursor\<close> from the first page gets every grant it may see and asked for
  exactly once, by id, and is done: a page after which there is nothing names no cursor.
\<close>
theorem pages_hold_every_grant_once:
  assumes "distinct (map rg_id (db_grants db))" "0 < gq_limit query" "gq_cursor query = None"
  shows "readPages db reach userId query = sort_key rg_id (filter (matchesQuery reach userId query) (db_grants db)) \<and>
    distinct (readPages db reach userId query)"
proof -
  have "readPages db reach userId query = sort_key rg_id (filter (matchesQuery reach userId query) (db_grants db))"
    unfolding readPages_rows [OF assms(1,2)] by (simp add: rowsAfter_def assms(3) afterCursor_def)
  then show ?thesis using assms(1) by (simp add: distinct_map)
qed

theorem pages_hold_every_grant_once_witness:
  "readPages exampleDb \<lparr>cr_isEverywhere = True, cr_countryCodes = []\<rparr> 1
     \<lparr>gq_userIds = None, gq_countryCodes = None, gq_limit = 1, gq_cursor = None\<rparr> = db_grants exampleDb"
proof -
  have "distinct (map rg_id (db_grants exampleDb))" by code_simp
  moreover have "sort_key rg_id (filter (matchesQuery \<lparr>cr_isEverywhere = True, cr_countryCodes = []\<rparr> 1
      \<lparr>gq_userIds = None, gq_countryCodes = None, gq_limit = 1, gq_cursor = None\<rparr>) (db_grants exampleDb)) = db_grants exampleDb"
    by (simp add: exampleDb_def matchesQuery_def visibleGrants_def)
  ultimately show ?thesis using pages_hold_every_grant_once by simp
qed

end
