(* ===== verification/CellTools.thy ===== *)
theory CellTools
  imports DraftInvariants
begin

text \<open>
  The tools that edit a technology's cells at once: the missing cells of an operator's LTE sector
  series (features/cells/lib/remainingLteCells.ts), and the four tools of model/cellTools.ts.
  \<open>Map\<close>s that are iterated are association lists in insertion order. Creating a cell draws a new
  key: \<open>createCell\<close> is given how many cells were created before it.
\<close>

section \<open>LTE sector series\<close>

definition LTE_MAX_CLID :: int where "LTE_MAX_CLID = 255"
definition DEFAULT_LTE_SECTOR_COUNT :: nat where "DEFAULT_LTE_SECTOR_COUNT = 3"
definition MAX_SAFE_INTEGER :: int where "MAX_SAFE_INTEGER = 9007199254740991"

lemmas lte_constants = LTE_MAX_CLID_def DEFAULT_LTE_SECTOR_COUNT_def MAX_SAFE_INTEGER_def

record lteIdentity =
  li_clid :: int
  li_ecid :: int
  li_enbid :: int

record lteSequence =
  sq_enbid :: int
  sq_startClid :: int
  sq_sectorCount :: nat
  sq_matchedSectorCount :: nat

definition getECID :: "int \<Rightarrow> int \<Rightarrow> int" where
  "getECID enbid clid = enbid * 256 + clid"

text \<open>The details of a cell are its \<open>clid\<close> and its \<open>enbid\<close>, where they are numbers.\<close>

definition getLTEIdentity :: "number option \<times> number option \<Rightarrow> lteIdentity option" where
  "getLTEIdentity details =
    (case details of
       (Some clid, Some enbid) \<Rightarrow>
         (if \<not> isInteger clid \<or> clid < 0 \<or> of_int LTE_MAX_CLID < clid then None
          else if \<not> isInteger enbid \<or> enbid \<le> 0 then None
          else let ecid = getECID \<lfloor>enbid\<rfloor> \<lfloor>clid\<rfloor>
               in if MAX_SAFE_INTEGER < ecid then None
                  else Some \<lparr>li_clid = \<lfloor>clid\<rfloor>, li_ecid = ecid, li_enbid = \<lfloor>enbid\<rfloor>\<rparr>)
     | _ \<Rightarrow> None)"

definition getSectorRule :: "string option \<Rightarrow> operatorRef option \<Rightarrow> lteSectorRuleSpec option" where
  "getSectorRule countryCode operator =
    (case operator of None \<Rightarrow> None | Some op \<Rightarrow> cv_lteSectorRule (conventionsFor countryCode) op)"

definition getSectorIndex :: "lteIdentity \<Rightarrow> lteSequence \<Rightarrow> lteSectorRuleSpec \<Rightarrow> nat option" where
  "getSectorIndex identity sequence rule =
    (if li_enbid identity \<noteq> sq_enbid sequence then None
     else let clidOffset = li_clid identity - sq_startClid sequence; step = int (lr_clidStep rule)
          in if clidOffset < 0 \<or> clidOffset mod step \<noteq> 0 then None
             else let sectorIndex = nat (clidOffset div step)
                  in if sectorIndex < sq_sectorCount sequence then Some sectorIndex else None)"

definition candidatesOf ::
  "lteSectorRuleSpec \<Rightarrow> nat \<Rightarrow> lteIdentity \<Rightarrow> (int \<times> int) list" where
  "candidatesOf rule sectorCount identity =
    concat (map (\<lambda>sectorIndex.
        let startClid = li_clid identity - int sectorIndex * int (lr_clidStep rule);
            lastClid = startClid + (int sectorCount - 1) * int (lr_clidStep rule)
        in if startClid < 0 \<or> LTE_MAX_CLID < lastClid then []
           else if \<not> lr_isSequenceStart rule (getECID (li_enbid identity) startClid) then []
           else [(li_enbid identity, startClid)])
      [0..<sectorCount])"

definition candidateSequences ::
  "lteIdentity list \<Rightarrow> lteSectorRuleSpec \<Rightarrow> nat \<Rightarrow> (int \<times> int) list" where
  "candidateSequences identities rule sectorCount =
    uniq (concat (map (candidatesOf rule sectorCount) identities))"

definition matchSequence ::
  "lteIdentity list \<Rightarrow> lteSectorRuleSpec \<Rightarrow> nat \<Rightarrow> int \<times> int \<Rightarrow> lteSequence" where
  "matchSequence identities rule sectorCount candidate =
    (let sequence = \<lparr>sq_enbid = fst candidate, sq_startClid = snd candidate,
           sq_sectorCount = sectorCount, sq_matchedSectorCount = 0\<rparr>;
         matchedClids = uniq (map li_clid
           (filter (\<lambda>identity. getSectorIndex identity sequence rule \<noteq> None) identities))
     in sequence\<lparr>sq_matchedSectorCount := length matchedClids\<rparr>)"

fun bestSequence :: "lteSequence list \<Rightarrow> lteSequence option \<Rightarrow> bool \<Rightarrow> lteSequence option" where
  "bestSequence [] best hasTie = (if hasTie then None else best)"
| "bestSequence (sequence # sequences) best hasTie =
     (case best of
        None \<Rightarrow> bestSequence sequences (Some sequence) False
      | Some b \<Rightarrow>
          (if sq_matchedSectorCount b < sq_matchedSectorCount sequence
           then bestSequence sequences (Some sequence) False
           else if sq_matchedSectorCount sequence = sq_matchedSectorCount b
           then bestSequence sequences best True
           else bestSequence sequences best hasTie))"

definition resolveSectorSequence ::
  "lteIdentity list \<Rightarrow> lteSectorRuleSpec \<Rightarrow> nat \<Rightarrow> lteSequence option" where
  "resolveSectorSequence identities rule sectorCount =
    bestSequence (map (matchSequence identities rule sectorCount)
      (candidateSequences identities rule sectorCount)) None False"

definition getTargetSectorCount :: "lteSectorRuleSpec \<Rightarrow> lteIdentity list list \<Rightarrow> nat" where
  "getTargetSectorCount rule identityGroups =
    (if \<not> lr_supportsFourthSector rule then DEFAULT_LTE_SECTOR_COUNT
     else if list_ex (\<lambda>identities.
         map_option sq_matchedSectorCount (resolveSectorSequence identities rule 4) = Some 4) identityGroups
     then 4 else DEFAULT_LTE_SECTOR_COUNT)"

type_synonym 'a lteSeed = "'a \<times> lteIdentity"

fun addSeed :: "int \<Rightarrow> 'a lteSeed \<Rightarrow> (int \<times> 'a lteSeed list) list \<Rightarrow> (int \<times> 'a lteSeed list) list" where
  "addSeed bandId seed [] = [(bandId, [seed])]"
| "addSeed bandId seed ((b, seeds) # groups) =
     (if b = bandId then (b, seeds @ [seed]) # groups else (b, seeds) # addSeed bandId seed groups)"

fun collectSeeds ::
  "('a \<Rightarrow> int option) \<Rightarrow> ('a \<Rightarrow> number option \<times> number option) \<Rightarrow> 'a list
    \<Rightarrow> int list \<Rightarrow> (int \<times> 'a lteSeed list) list \<Rightarrow> int list \<times> (int \<times> 'a lteSeed list) list" where
  "collectSeeds getBandId getDetails [] used groups = (used, groups)"
| "collectSeeds getBandId getDetails (c # cs) used groups =
     (case getLTEIdentity (getDetails c) of
        None \<Rightarrow> collectSeeds getBandId getDetails cs used groups
      | Some identity \<Rightarrow>
          collectSeeds getBandId getDetails cs (li_ecid identity # used)
            (case getBandId c of None \<Rightarrow> groups | Some bandId \<Rightarrow> addSeed bandId (c, identity) groups))"

text \<open>The inner loop: the sectors of one sequence, until \<open>createCell\<close> returns null.\<close>

fun addSectors ::
  "(nat \<Rightarrow> 'a \<Rightarrow> int \<Rightarrow> 'a option) \<Rightarrow> lteSectorRuleSpec \<Rightarrow> lteSequence \<Rightarrow> 'a \<Rightarrow> nat list
    \<Rightarrow> 'a list \<Rightarrow> int list \<Rightarrow> 'a list \<times> int list" where
  "addSectors createCell rule sequence source [] additions used = (additions, used)"
| "addSectors createCell rule sequence source (sectorIndex # rest) additions used =
     (let clid = sq_startClid sequence + int sectorIndex * int (lr_clidStep rule);
          ecid = getECID (sq_enbid sequence) clid
      in if ecid \<in> set used then addSectors createCell rule sequence source rest additions used
         else case createCell (length additions) source clid of
                None \<Rightarrow> (additions, used)
              | Some added \<Rightarrow>
                  addSectors createCell rule sequence source rest (additions @ [added]) (ecid # used))"

fun extendGroups ::
  "(nat \<Rightarrow> 'a \<Rightarrow> int \<Rightarrow> 'a option) \<Rightarrow> lteSectorRuleSpec \<Rightarrow> nat \<Rightarrow> 'a lteSeed list list
    \<Rightarrow> 'a list \<Rightarrow> int list \<Rightarrow> 'a list" where
  "extendGroups createCell rule sectorCount [] additions used = additions"
| "extendGroups createCell rule sectorCount (seeds # groups) additions used =
     (case resolveSectorSequence (map snd seeds) rule sectorCount of
        None \<Rightarrow> extendGroups createCell rule sectorCount groups additions used
      | Some sequence \<Rightarrow>
          (if \<not> lr_supportsFourthSector rule
              \<and> list_ex (\<lambda>seed. getSectorIndex (snd seed) sequence rule = None) seeds
           then extendGroups createCell rule sectorCount groups additions used
           else case List.find (\<lambda>seed. getSectorIndex (snd seed) sequence rule \<noteq> None) seeds of
                  None \<Rightarrow> extendGroups createCell rule sectorCount groups additions used
                | Some source \<Rightarrow>
                    (let (additions', used') =
                       addSectors createCell rule sequence (fst source) [0..<sectorCount] additions used
                     in extendGroups createCell rule sectorCount groups additions' used')))"

definition buildRemainingLTECells ::
  "string option \<Rightarrow> operatorRef option \<Rightarrow> ('a \<Rightarrow> int option) \<Rightarrow> ('a \<Rightarrow> number option \<times> number option)
    \<Rightarrow> (nat \<Rightarrow> 'a \<Rightarrow> int \<Rightarrow> 'a option) \<Rightarrow> 'a list \<Rightarrow> 'a list" where
  "buildRemainingLTECells countryCode operator getBandId getDetails createCell cells =
    (case getSectorRule countryCode operator of
       None \<Rightarrow> []
     | Some rule \<Rightarrow>
         (let (used, seedsByBand) = collectSeeds getBandId getDetails cells [] [];
              identityGroups = map (\<lambda>(_, seeds). map snd seeds) seedsByBand;
              sectorCount = getTargetSectorCount rule identityGroups
          in extendGroups createCell rule sectorCount (map snd seedsByBand) [] used))"

definition supportsRemainingLTECells :: "string option \<Rightarrow> operatorRef option \<Rightarrow> bool" where
  "supportsRemainingLTECells countryCode operator \<longleftrightarrow> getSectorRule countryCode operator \<noteq> None"

section \<open>Default channels\<close>

datatype duplexMode = Fdd | Tdd | Sdl

record band =
  bd_rat :: tech
  bd_labelMhz :: "nat option"
  bd_duplex :: "duplexMode option"

definition getBandDuplexMark :: "band option \<Rightarrow> duplexMode option" where
  "getBandDuplexMark b =
    (case b of None \<Rightarrow> None | Some x \<Rightarrow> (if bd_rat x = Gsm then None else bd_duplex x))"

type_synonym lteChannels = "(nat \<times> number option \<times> number option) list"

text \<open>Rows of a network: the band's MHz, its FDD channel, its TDD channel.\<close>

definition fddBand :: "nat \<Rightarrow> number \<Rightarrow> nat \<times> number option \<times> number option" where
  "fddBand mhz channel = (mhz, Some channel, None)"

definition plDefaultEarfcn :: "(string \<times> lteChannels) list" where
  "plDefaultEarfcn = [
     (PLUS_PLMN, [fddBand 900 3526, fddBand 1800 1355, fddBand 2100 350, (2600, Some 2850, Some 37900)]),
     (TMOBILE_PLMN, [fddBand 800 6375, fddBand 900 3686, fddBand 1800 1575, fddBand 2100 225, fddBand 2600 3175]),
     (ORANGE_PLMN, [fddBand 700 9310, fddBand 800 6200, fddBand 900 3764, fddBand 1800 1725, fddBand 2100 75,
        fddBand 2600 3025]),
     (PLAY_PLMN, [fddBand 700 9460, fddBand 800 6275, fddBand 900 3476, fddBand 1800 1875, fddBand 2100 525,
        fddBand 2600 3350])]"

definition O2_PLMN :: string where "O2_PLMN = ''23410''"
definition VODAFONE_PLMN :: string where "VODAFONE_PLMN = ''23415''"
definition THREE_PLMN :: string where "THREE_PLMN = ''23420''"
definition EE_PLMN :: string where "EE_PLMN = ''23430''"

definition gbDefaultEarfcn :: "(string \<times> lteChannels) list" where
  "gbDefaultEarfcn = [
     (O2_PLMN, [fddBand 700 9260, fddBand 800 6400, fddBand 900 3725, fddBand 1800 1226, fddBand 2100 347,
        (2300, None, Some 39250), (2600, None, Some 38100)]),
     (VODAFONE_PLMN, [fddBand 700 9360, fddBand 800 6300, fddBand 900 3501, fddBand 1500 10220,
        fddBand 1800 1363, fddBand 2100 223, (2600, Some 2850, Some 37900)]),
     (THREE_PLMN, [fddBand 700 9360, fddBand 800 6175, fddBand 1800 1363, fddBand 2100 76]),
     (EE_PLMN, [fddBand 700 9460, fddBand 800 6225, fddBand 1800 1617, fddBand 2100 497, fddBand 2600 3350])]"

definition defaultLteEarfcn :: "string \<Rightarrow> nat \<Rightarrow> bool \<Rightarrow> number option" where
  "defaultLteEarfcn plmn bandMhz isTdd =
    (case map_of (plDefaultEarfcn @ gbDefaultEarfcn) plmn of
       None \<Rightarrow> None
     | Some channels \<Rightarrow>
         (case map_of channels bandMhz of
            None \<Rightarrow> None
          | Some (fdd, tdd) \<Rightarrow> (if isTdd then tdd else fdd)))"
section \<open>The tools\<close>

datatype cellToolId = FillChannels | AddMissingCells | AssignSectorsByPci | ConfirmCells
datatype confirmScope = ConfirmAll | ConfirmNew

record cellToolOffer =
  of_countryCode :: "string option"
  of_operator :: "operatorRef option"
  of_hasConfirmTool :: bool

fun RAT_TOOLS :: "tech \<Rightarrow> cellToolId list" where
  "RAT_TOOLS Nr = [AssignSectorsByPci, ConfirmCells]"
| "RAT_TOOLS Lte = [FillChannels, AddMissingCells, AssignSectorsByPci, ConfirmCells]"
| "RAT_TOOLS Umts = [ConfirmCells]"
| "RAT_TOOLS Gsm = [ConfirmCells]"

definition isOffered :: "cellToolId \<Rightarrow> cellToolOffer \<Rightarrow> bool" where
  "isOffered tool offer =
    (case tool of
       FillChannels \<Rightarrow> (case of_operator offer of None \<Rightarrow> False | Some op \<Rightarrow> op_primaryPlmn op \<noteq> None)
     | AddMissingCells \<Rightarrow> supportsRemainingLTECells (of_countryCode offer) (of_operator offer)
     | ConfirmCells \<Rightarrow> of_hasConfirmTool offer
     | AssignSectorsByPci \<Rightarrow> True)"

definition listCellTools :: "tech \<Rightarrow> cellToolOffer \<Rightarrow> cellToolId list" where
  "listCellTools r offer = filter (\<lambda>tool. isOffered tool offer) (RAT_TOOLS r)"

definition isKeptLteCell :: "cellDraft \<Rightarrow> bool" where
  "isKeptLteCell c \<longleftrightarrow> ce_rat c = Lte \<and> \<not> ce_isDeleted c"

definition isKeptNrCell :: "cellDraft \<Rightarrow> bool" where
  "isKeptNrCell c \<longleftrightarrow> ce_rat c = Nr \<and> \<not> ce_isDeleted c"

definition hasEmptyChannel :: "cellDraft \<Rightarrow> bool" where
  "hasEmptyChannel c \<longleftrightarrow> getCellNumber c Earfcn = None \<or> getCellNumber c Earfcn = Some 0"

text \<open>\<open>keepUnchanged\<close> hands back the old list when no row changed: the same list by value.\<close>

definition fillLteChannel :: "(int \<Rightarrow> band option) \<Rightarrow> string \<Rightarrow> cellDraft \<Rightarrow> cellDraft" where
  "fillLteChannel bandsById plmn c =
    (if \<not> isKeptLteCell c \<or> \<not> hasEmptyChannel c then c
     else case Option.bind (ce_bandId c) bandsById of
            None \<Rightarrow> c
          | Some b \<Rightarrow>
              (case (bd_labelMhz b, getBandDuplexMark (Some b)) of
                 (Some mhz, Some duplex) \<Rightarrow>
                   (case defaultLteEarfcn plmn mhz (duplex = Tdd) of
                      None \<Rightarrow> c
                    | Some channel \<Rightarrow> patchCell c (toNumberPatch Earfcn (Some channel)))
               | _ \<Rightarrow> c))"

definition fillLteChannels ::
  "cellDraft list \<Rightarrow> (int \<Rightarrow> band option) \<Rightarrow> string option \<Rightarrow> cellDraft list" where
  "fillLteChannels cells bandsById plmn =
    (case plmn of None \<Rightarrow> cells | Some code \<Rightarrow> map (fillLteChannel bandsById code) cells)"

definition createSeriesCell :: "cellDraft \<Rightarrow> int \<Rightarrow> string option \<Rightarrow> draftKey \<Rightarrow> cellDraft" where
  "createSeriesCell source clid countryCode freshKey =
    (let tac = (if cv_hoistedTac (conventionsFor countryCode) then getCellNumber source Tac else None)
     in createCellDraft Lte (noInit\<lparr>
          ci_bandId := ce_bandId source,
          ci_cellType := Some (Some (case ce_cellType source of None \<Rightarrow> DEFAULT_CELL_TYPE | Some t \<Rightarrow> t)),
          ci_notes := Some (ce_notes source),
          ci_isConfirmed := Some (ce_isConfirmed source),
          ci_numbers := (ce_numbers source)(Clid \<mapsto> Some (of_int clid), Pci \<mapsto> None, Tac \<mapsto> tac),
          ci_flags := ce_flags source,
          ci_extraPlmns := Some (ce_extraPlmns source)\<rparr>) freshKey)"

definition seriesDetails :: "cellDraft \<Rightarrow> number option \<times> number option" where
  "seriesDetails c = (getCellNumber c Clid, getCellNumber c Enbid)"

definition missingLteCells ::
  "(nat \<Rightarrow> draftKey) \<Rightarrow> cellDraft list \<Rightarrow> string option \<Rightarrow> operatorRef option \<Rightarrow> cellDraft list" where
  "missingLteCells freshKeys cells countryCode operator =
    buildRemainingLTECells countryCode operator ce_bandId seriesDetails
      (\<lambda>n source clid. Some (createSeriesCell source clid countryCode (freshKeys n)))
      (filter isKeptLteCell cells)"

definition afterLastLte :: "cellDraft list \<Rightarrow> nat" where
  "afterLastLte cells =
    (case findIndex (\<lambda>c. ce_rat c = Lte) (rev cells) of None \<Rightarrow> 0 | Some fromEnd \<Rightarrow> length cells - fromEnd)"

definition addMissingLteCells ::
  "(nat \<Rightarrow> draftKey) \<Rightarrow> cellDraft list \<Rightarrow> string option \<Rightarrow> operatorRef option \<Rightarrow> cellDraft list" where
  "addMissingLteCells freshKeys cells countryCode operator =
    spliceAt (afterLastLte cells) (missingLteCells freshKeys cells countryCode operator) cells"

text \<open>The text key of a PCI, on its band or alone: texts of different numbers differ.\<close>

type_synonym pciKey = "int option \<times> number"

definition getPciOnBandKey :: "cellDraft \<Rightarrow> pciKey option" where
  "getPciOnBandKey c =
    (case (getCellNumber c Pci, ce_bandId c) of (Some pci, Some b) \<Rightarrow> Some (Some b, pci) | _ \<Rightarrow> None)"

definition getPciKey :: "cellDraft \<Rightarrow> pciKey option" where
  "getPciKey c = map_option (\<lambda>pci. (None, pci)) (getCellNumber c Pci)"

record sectorSource =
  so_isSource :: "cellDraft \<Rightarrow> bool"
  so_getKey :: "cellDraft \<Rightarrow> pciKey option"

fun SECTOR_SOURCES :: "tech \<Rightarrow> sectorSource list" where
  "SECTOR_SOURCES Nr = [
     \<lparr>so_isSource = isKeptNrCell, so_getKey = getPciOnBandKey\<rparr>,
     \<lparr>so_isSource = isKeptNrCell, so_getKey = getPciKey\<rparr>,
     \<lparr>so_isSource = isKeptLteCell, so_getKey = getPciKey\<rparr>]"
| "SECTOR_SOURCES Lte = [
     \<lparr>so_isSource = isKeptLteCell, so_getKey = getPciOnBandKey\<rparr>,
     \<lparr>so_isSource = isKeptLteCell, so_getKey = getPciKey\<rparr>]"
| "SECTOR_SOURCES Umts = []"
| "SECTOR_SOURCES Gsm = []"

fun sectorsByKey ::
  "sectorSource \<Rightarrow> cellDraft list \<Rightarrow> (pciKey \<times> draftKey option) list \<Rightarrow> (pciKey \<times> draftKey option) list" where
  "sectorsByKey source [] known = known"
| "sectorsByKey source (c # cs) known =
     (case (so_getKey source c, ce_sectorKey c) of
        (Some key, Some sectorKey) \<Rightarrow>
          (if \<not> so_isSource source c then sectorsByKey source cs known
           else sectorsByKey source cs
             (case map_of known key of
                None \<Rightarrow> AList.update key (Some sectorKey) known
              | Some k \<Rightarrow> (if k \<noteq> Some sectorKey then AList.update key None known else known)))
      | _ \<Rightarrow> sectorsByKey source cs known)"

definition fillSectorsFrom ::
  "(cellDraft \<Rightarrow> bool) \<Rightarrow> cellDraft list \<Rightarrow> sectorSource \<Rightarrow> cellDraft list" where
  "fillSectorsFrom isTarget cells source =
    (let known = sectorsByKey source cells []
     in if known = [] then cells
        else map (\<lambda>c.
          if \<not> isTarget c \<or> ce_sectorKey c \<noteq> None then c
          else case Option.bind (so_getKey source c) (map_of known) of
                 Some (Some sectorKey) \<Rightarrow> patchCell c (noPatch\<lparr>cp_sectorKey := Some (Some sectorKey)\<rparr>)
               | _ \<Rightarrow> c) cells)"

definition assignSectorsByPci :: "cellDraft list \<Rightarrow> tech \<Rightarrow> cellDraft list" where
  "assignSectorsByPci cells r =
    fold (\<lambda>source cs. fillSectorsFrom (\<lambda>c. ce_rat c = r \<and> \<not> ce_isDeleted c) cs source) (SECTOR_SOURCES r) cells"

definition confirmCells :: "cellDraft list \<Rightarrow> tech \<Rightarrow> confirmScope \<Rightarrow> cellDraft list" where
  "confirmCells cells r scope =
    map (\<lambda>c. if ce_rat c = r \<and> \<not> ce_isDeleted c \<and> (scope = ConfirmAll \<or> ce_id c = None)
             then patchCell c (noPatch\<lparr>cp_isConfirmed := Some True\<rparr>) else c) cells"

record cellToolInput =
  ti_cells :: "cellDraft list"
  ti_rat :: tech
  ti_bandsById :: "int \<Rightarrow> band option"
  ti_countryCode :: "string option"
  ti_operator :: "operatorRef option"
  ti_confirmScope :: confirmScope

definition runCellTool :: "(nat \<Rightarrow> draftKey) \<Rightarrow> cellToolId \<Rightarrow> cellToolInput \<Rightarrow> cellDraft list" where
  "runCellTool freshKeys tool input =
    (case tool of
       FillChannels \<Rightarrow> fillLteChannels (ti_cells input) (ti_bandsById input)
                          (Option.bind (ti_operator input) op_primaryPlmn)
     | AddMissingCells \<Rightarrow> addMissingLteCells freshKeys (ti_cells input) (ti_countryCode input) (ti_operator input)
     | AssignSectorsByPci \<Rightarrow> assignSectorsByPci (ti_cells input) (ti_rat input)
     | ConfirmCells \<Rightarrow> confirmCells (ti_cells input) (ti_rat input) (ti_confirmScope input))"

section \<open>Sector series\<close>

text \<open>
  What a sector rule promises: steps forward. A sequence then names different cells, and
  \<open>getSectorIndex\<close> finds back the sector a clid of the sequence stands for.
\<close>

locale sector_rule =
  fixes rule :: lteSectorRuleSpec
  assumes step_pos: "0 < lr_clidStep rule"
begin

lemma clid_inj: "start + int i * int (lr_clidStep rule) = start + int j * int (lr_clidStep rule) \<longleftrightarrow> i = j"
  using step_pos by simp

lemma index_of_sector:
  assumes "i < sq_sectorCount sequence"
  shows "getSectorIndex \<lparr>li_clid = sq_startClid sequence + int i * int (lr_clidStep rule), li_ecid = e,
    li_enbid = sq_enbid sequence\<rparr> sequence rule = Some i"
proof -
  have "0 \<le> int i * int (lr_clidStep rule)" by (intro mult_nonneg_nonneg) simp_all
  then show ?thesis using assms step_pos by (simp add: getSectorIndex_def Let_def not_less)
qed

lemma sector_of_index:
  assumes "getSectorIndex identity sequence rule = Some i"
  shows "li_enbid identity = sq_enbid sequence" "i < sq_sectorCount sequence"
    "li_clid identity = sq_startClid sequence + int i * int (lr_clidStep rule)"
proof -
  let ?step = "int (lr_clidStep rule)" and ?offset = "li_clid identity - sq_startClid sequence"
  have facts: "li_enbid identity = sq_enbid sequence" "0 \<le> ?offset" "?offset mod ?step = 0"
    "i = nat (?offset div ?step)" "i < sq_sectorCount sequence"
    using assms by (auto simp: getSectorIndex_def Let_def split: if_splits)
  then show "li_enbid identity = sq_enbid sequence" "i < sq_sectorCount sequence" by simp_all
  have "?offset = ?offset div ?step * ?step"
    using facts(3) div_mult_mod_eq [of ?offset ?step] by simp
  moreover have "int i = ?offset div ?step"
    using facts(2,4) step_pos by (simp add: pos_imp_zdiv_nonneg_iff)
  ultimately show "li_clid identity = sq_startClid sequence + int i * ?step" by simp
qed

end

interpretation play: sector_rule PLAY_SECTOR_RULE
  by unfold_locales (simp add: PLAY_SECTOR_RULE_def)

interpretation plus_rule: sector_rule PLUS_SECTOR_RULE
  by unfold_locales (simp add: PLUS_SECTOR_RULE_def)

interpretation networks: sector_rule NETWORKS_SECTOR_RULE
  by unfold_locales (simp add: NETWORKS_SECTOR_RULE_def)

text \<open>The sequence chosen has strictly more matched sectors than every other candidate.\<close>

definition strictBest :: "lteSequence list \<Rightarrow> lteSequence \<Rightarrow> bool" where
  "strictBest sequences b \<longleftrightarrow>
    (\<exists>before after. sequences = before @ b # after \<and>
      (\<forall>x\<in>set before \<union> set after. sq_matchedSectorCount x < sq_matchedSectorCount b))"

lemma strictBest_Cons:
  "strictBest (s # sequences) b \<longleftrightarrow>
    (b = s \<and> (\<forall>x\<in>set sequences. sq_matchedSectorCount x < sq_matchedSectorCount s)) \<or>
    (strictBest sequences b \<and> sq_matchedSectorCount s < sq_matchedSectorCount b)"
  (is "?l \<longleftrightarrow> ?r")
proof
  assume ?l
  then obtain before after where split: "s # sequences = before @ b # after"
    "\<forall>x\<in>set before \<union> set after. sq_matchedSectorCount x < sq_matchedSectorCount b"
    by (auto simp: strictBest_def)
  then show ?r by (cases before) (auto simp: strictBest_def)
next
  assume ?r
  then show ?l
  proof (elim disjE conjE)
    assume "b = s" "\<forall>x\<in>set sequences. sq_matchedSectorCount x < sq_matchedSectorCount s"
    then show ?l unfolding strictBest_def by (intro exI [of _ "[]"] exI [of _ sequences]) simp
  next
    assume "strictBest sequences b" and less: "sq_matchedSectorCount s < sq_matchedSectorCount b"
    then obtain before after where "sequences = before @ b # after"
      "\<forall>x\<in>set before \<union> set after. sq_matchedSectorCount x < sq_matchedSectorCount b"
      by (auto simp: strictBest_def)
    with less show ?l unfolding strictBest_def
      by (intro exI [of _ "s # before"] exI [of _ after]) simp
  qed
qed

lemma strictBest_in: "strictBest sequences b \<Longrightarrow> b \<in> set sequences"
  by (auto simp: strictBest_def)

lemma strictBest_Nil [simp]: "\<not> strictBest [] b"
  by (simp add: strictBest_def)

lemma strictBest_map:
  "distinct xs \<Longrightarrow> strictBest (map f xs) b \<longleftrightarrow>
    (\<exists>x\<in>set xs. b = f x \<and>
      (\<forall>y\<in>set xs. y \<noteq> x \<longrightarrow> sq_matchedSectorCount (f y) < sq_matchedSectorCount b))"
proof (induction xs)
  case (Cons a xs)
  let ?beats = "\<lambda>x. \<forall>y\<in>set xs. y \<noteq> x \<longrightarrow> sq_matchedSectorCount (f y) < sq_matchedSectorCount b"
  have head: "?beats a \<longleftrightarrow> (\<forall>y\<in>set xs. sq_matchedSectorCount (f y) < sq_matchedSectorCount b)"
    using Cons.prems by auto
  have tail: "(\<forall>y\<in>set (a # xs). y \<noteq> x \<longrightarrow> sq_matchedSectorCount (f y) < sq_matchedSectorCount b) \<longleftrightarrow>
      ?beats x \<and> sq_matchedSectorCount (f a) < sq_matchedSectorCount b" if "x \<in> set xs" for x
    using that Cons.prems by auto
  have "strictBest (map f (a # xs)) b \<longleftrightarrow> (b = f a \<and> ?beats a) \<or>
      (\<exists>x\<in>set xs. b = f x \<and> ?beats x \<and> sq_matchedSectorCount (f a) < sq_matchedSectorCount b)"
    using Cons unfolding head by (auto simp: strictBest_Cons)
  also have "\<dots> \<longleftrightarrow> (b = f a \<and> ?beats a) \<or> (\<exists>x\<in>set xs. b = f x \<and>
      (\<forall>y\<in>set (a # xs). y \<noteq> x \<longrightarrow> sq_matchedSectorCount (f y) < sq_matchedSectorCount b))"
    by (intro arg_cong2 [of _ _ _ _ "(\<or>)"] bex_cong refl) (simp only: tail)
  finally show ?case by simp
qed simp

lemma bestSequence_from:
  "bestSequence sequences (Some b) hasTie = Some x \<longleftrightarrow>
    (x = b \<and> \<not> hasTie \<and> (\<forall>y\<in>set sequences. sq_matchedSectorCount y < sq_matchedSectorCount b)) \<or>
    (strictBest sequences x \<and> sq_matchedSectorCount b < sq_matchedSectorCount x)"
proof (induction sequences arbitrary: b hasTie)
  case (Cons s sequences)
  consider (more) "sq_matchedSectorCount b < sq_matchedSectorCount s"
    | (same) "sq_matchedSectorCount s = sq_matchedSectorCount b"
    | (less) "sq_matchedSectorCount s < sq_matchedSectorCount b" by linarith
  then show ?case
    by cases (auto simp: Cons.IH strictBest_Cons dest: strictBest_in)
qed (auto simp: strictBest_def)

lemma bestSequence_strict: "bestSequence sequences None False = Some b \<longleftrightarrow> strictBest sequences b"
  by (cases sequences) (auto simp: bestSequence_from strictBest_Cons)

lemma matchSequence_simps [simp]:
  "sq_enbid (matchSequence identities rule n candidate) = fst candidate"
  "sq_startClid (matchSequence identities rule n candidate) = snd candidate"
  "sq_sectorCount (matchSequence identities rule n candidate) = n"
  by (simp_all add: matchSequence_def Let_def)

lemma resolveSectorSequence_bounds:
  assumes "resolveSectorSequence identities rule n = Some sequence"
  shows "0 \<le> sq_startClid sequence" "sq_sectorCount sequence = n"
    "sq_startClid sequence + (int n - 1) * int (lr_clidStep rule) \<le> LTE_MAX_CLID"
    "lr_isSequenceStart rule (getECID (sq_enbid sequence) (sq_startClid sequence))"
proof -
  from assms obtain candidate where candidate: "candidate \<in> set (candidateSequences identities rule n)"
    and sequence: "sequence = matchSequence identities rule n candidate"
    by (auto simp: resolveSectorSequence_def bestSequence_strict dest!: strictBest_in)
  from candidate show "0 \<le> sq_startClid sequence" "sq_sectorCount sequence = n"
    "sq_startClid sequence + (int n - 1) * int (lr_clidStep rule) \<le> LTE_MAX_CLID"
    "lr_isSequenceStart rule (getECID (sq_enbid sequence) (sq_startClid sequence))"
    by (auto simp: sequence candidateSequences_def candidatesOf_def Let_def split: if_splits)
qed

section \<open>The cells added\<close>

text \<open>The identity \<open>buildRemainingLTECells\<close> reads back from a cell, as the ECID it stands for.\<close>

lemma getLTEIdentity_Some:
  assumes "getLTEIdentity (a, b) = Some i"
  shows "a = Some (of_int (li_clid i))" "b = Some (of_int (li_enbid i))" "0 \<le> li_clid i"
    "li_clid i \<le> LTE_MAX_CLID" "0 < li_enbid i" "li_ecid i = getECID (li_enbid i) (li_clid i)"
    "li_ecid i \<le> MAX_SAFE_INTEGER"
proof -
  from assms obtain x y where xy: "a = Some x" "b = Some y" "isInteger x" "isInteger y" "0 \<le> x"
      "x \<le> of_int LTE_MAX_CLID" "0 < y" "getECID \<lfloor>y\<rfloor> \<lfloor>x\<rfloor> \<le> MAX_SAFE_INTEGER"
      "i = \<lparr>li_clid = \<lfloor>x\<rfloor>, li_ecid = getECID \<lfloor>y\<rfloor> \<lfloor>x\<rfloor>, li_enbid = \<lfloor>y\<rfloor>\<rparr>"
    by (auto simp: getLTEIdentity_def Let_def not_less not_le split: option.splits if_splits)
  obtain m n where mn: "x = of_int m" "y = of_int n" using xy(3,4) by (auto simp: isInteger_iff)
  show "a = Some (of_int (li_clid i))" "b = Some (of_int (li_enbid i))" "0 \<le> li_clid i"
    "li_clid i \<le> LTE_MAX_CLID" "0 < li_enbid i" "li_ecid i = getECID (li_enbid i) (li_clid i)"
    "li_ecid i \<le> MAX_SAFE_INTEGER"
    using xy by (simp_all add: mn)
qed

lemma getLTEIdentity_same_site:
  assumes "getLTEIdentity (a, b) = Some i" "0 \<le> clid" "clid \<le> LTE_MAX_CLID"
  shows "getLTEIdentity (Some (of_int clid), b)
    = Some \<lparr>li_clid = clid, li_ecid = getECID (li_enbid i) clid, li_enbid = li_enbid i\<rparr>"
proof -
  note facts = getLTEIdentity_Some [OF assms(1)]
  have "li_enbid i * 256 \<le> MAX_SAFE_INTEGER" using facts(3,6,7) by (simp add: getECID_def)
  then have "li_enbid i \<le> 35184372088831" unfolding MAX_SAFE_INTEGER_def by linarith
  then have "getECID (li_enbid i) clid \<le> MAX_SAFE_INTEGER"
    using assms(3) by (simp add: getECID_def lte_constants)
  with facts assms(2,3) show ?thesis
    by (simp add: getLTEIdentity_def Let_def isInteger_iff LTE_MAX_CLID_def not_less)
qed

text \<open>What \<open>buildRemainingLTECells\<close> needs of its caller: a created cell has the clid asked for and
  the site of its source.\<close>

locale series_cells =
  fixes getDetails :: "'a \<Rightarrow> number option \<times> number option"
    and createCell :: "nat \<Rightarrow> 'a \<Rightarrow> int \<Rightarrow> 'a option"
  assumes details_created:
    "createCell n source clid = Some c \<Longrightarrow> getDetails c = (Some (of_int clid), snd (getDetails source))"
begin

definition ecidOf :: "'a \<Rightarrow> int option" where
  "ecidOf c = map_option li_ecid (getLTEIdentity (getDetails c))"

definition addedOk :: "'a set \<Rightarrow> int set \<Rightarrow> 'a list \<Rightarrow> int list \<Rightarrow> bool" where
  "addedOk sources taken additions used \<longleftrightarrow>
    distinct (map ecidOf additions) \<and> taken \<subseteq> set used \<and>
    (\<forall>c\<in>set additions. \<exists>e. ecidOf c = Some e \<and> e \<in> set used \<and> e \<notin> taken) \<and>
    (\<forall>n<length additions. \<exists>source clid. source \<in> sources \<and> createCell n source clid = Some (additions ! n))"

lemma addSectors_ok:
  assumes "addSectors createCell rule sequence source is additions used = (additions', used')"
    and "addedOk sources taken additions used"
    and "source \<in> sources" "getLTEIdentity (getDetails source) = Some identity"
    and "li_enbid identity = sq_enbid sequence"
    and "\<forall>i\<in>set is. 0 \<le> sq_startClid sequence + int i * int (lr_clidStep rule) \<and>
      sq_startClid sequence + int i * int (lr_clidStep rule) \<le> LTE_MAX_CLID"
  shows "addedOk sources taken additions' used'"
  using assms
proof (induction "is" arbitrary: additions used)
  case (Cons i "is")
  let ?clid = "sq_startClid sequence + int i * int (lr_clidStep rule)"
  let ?ecid = "getECID (sq_enbid sequence) ?clid"
  show ?case
  proof (cases "?ecid \<in> set used")
    case True
    then have "addSectors createCell rule sequence source is additions used = (additions', used')"
      using Cons.prems(1) by (simp add: Let_def)
    then show ?thesis using Cons.prems(2-6) by (intro Cons.IH) auto
  next
    case False
    show ?thesis
    proof (cases "createCell (length additions) source ?clid")
      case None
      with False Cons.prems(1,2) show ?thesis by (simp add: Let_def)
    next
      case (Some c)
      have "getLTEIdentity (fst (getDetails source), snd (getDetails source)) = Some identity"
        using Cons.prems(4) by simp
      from getLTEIdentity_same_site [OF this, of ?clid] details_created [OF Some] Cons.prems(5,6)
      have ecid: "ecidOf c = Some ?ecid" by (simp add: ecidOf_def)
      have "addedOk sources taken (additions @ [c]) (?ecid # used)"
        using Cons.prems(2,3) False Some ecid unfolding addedOk_def
        by (fastforce simp: less_Suc_eq nth_append)
      moreover have "addSectors createCell rule sequence source is (additions @ [c]) (?ecid # used)
          = (additions', used')"
        using Cons.prems(1) False Some by (simp add: Let_def)
      ultimately show ?thesis using Cons.prems(3-6) by (intro Cons.IH) auto
    qed
  qed
qed simp

definition seedOk :: "'a set \<Rightarrow> 'a lteSeed \<Rightarrow> bool" where
  "seedOk sources seed \<longleftrightarrow> fst seed \<in> sources \<and> getLTEIdentity (getDetails (fst seed)) = Some (snd seed)"

lemma extendGroups_ok:
  assumes "addedOk sources taken additions used"
    and "\<forall>seeds\<in>set groups. \<forall>s\<in>set seeds. seedOk sources s"
    and "sector_rule rule"
  shows "\<exists>used'. addedOk sources taken (extendGroups createCell rule sectorCount groups additions used) used'"
  using assms
proof (induction groups arbitrary: additions used)
  case (Cons seeds groups)
  show ?case
  proof (cases "\<exists>sequence source. resolveSectorSequence (map snd seeds) rule sectorCount = Some sequence \<and>
      List.find (\<lambda>seed. getSectorIndex (snd seed) sequence rule \<noteq> None) seeds = Some source")
    case True
    then obtain sequence source where sequence: "resolveSectorSequence (map snd seeds) rule sectorCount = Some sequence"
      and source: "List.find (\<lambda>seed. getSectorIndex (snd seed) sequence rule \<noteq> None) seeds = Some source" by blast
    from source have seed: "source \<in> set seeds" "getSectorIndex (snd source) sequence rule \<noteq> None"
      by (auto simp: find_Some_iff)
    then obtain i where "getSectorIndex (snd source) sequence rule = Some i" by blast
    then have site: "li_enbid (snd source) = sq_enbid sequence"
      by (rule sector_rule.sector_of_index(1) [OF Cons.prems(3)])
    note bounds = resolveSectorSequence_bounds [OF sequence]
    have inside: "\<forall>i\<in>set [0..<sectorCount]. 0 \<le> sq_startClid sequence + int i * int (lr_clidStep rule) \<and>
        sq_startClid sequence + int i * int (lr_clidStep rule) \<le> LTE_MAX_CLID"
    proof
      fix i assume "i \<in> set [0..<sectorCount]"
      then have "int i * int (lr_clidStep rule) \<le> (int sectorCount - 1) * int (lr_clidStep rule)"
        by (intro mult_right_mono) auto
      with bounds(1,3) show "0 \<le> sq_startClid sequence + int i * int (lr_clidStep rule) \<and>
          sq_startClid sequence + int i * int (lr_clidStep rule) \<le> LTE_MAX_CLID" by simp
    qed
    obtain additions' used' where added:
      "addSectors createCell rule sequence (fst source) [0..<sectorCount] additions used = (additions', used')"
      by (metis surj_pair)
    have "addedOk sources taken additions' used'"
      using Cons.prems(1,2) seed(1) site inside
      by (intro addSectors_ok [OF added]) (auto simp: seedOk_def)
    with Cons sequence source added show ?thesis by auto
  qed (use Cons in \<open>auto split: option.splits\<close>)
qed auto

lemma seedsOk_addSeed:
  "(\<forall>seeds\<in>snd ` set groups. \<forall>s\<in>set seeds. seedOk sources s) \<Longrightarrow> seedOk sources seed \<Longrightarrow>
   (\<forall>seeds\<in>snd ` set (addSeed b seed groups). \<forall>s\<in>set seeds. seedOk sources s)"
  by (induction b seed groups rule: addSeed.induct) auto

lemma collectSeeds_ok:
  assumes "collectSeeds getBandId getDetails cs used groups = (used', groups')"
    and "\<forall>seeds\<in>snd ` set groups. \<forall>s\<in>set seeds. seedOk sources s"
    and "set cs \<subseteq> sources"
  shows "(\<forall>seeds\<in>snd ` set groups'. \<forall>s\<in>set seeds. seedOk sources s) \<and>
    set used \<subseteq> set used' \<and> (\<forall>c\<in>set cs. \<forall>e. ecidOf c = Some e \<longrightarrow> e \<in> set used')"
  using assms
proof (induction cs arbitrary: used groups)
  case (Cons c cs)
  show ?case
  proof (cases "getLTEIdentity (getDetails c)")
    case None
    with Cons show ?thesis by (auto simp: ecidOf_def)
  next
    case (Some identity)
    let ?groups = "case getBandId c of None \<Rightarrow> groups | Some bandId \<Rightarrow> addSeed bandId (c, identity) groups"
    have "seedOk sources (c, identity)" using Some Cons.prems(3) by (simp add: seedOk_def)
    then have groups: "\<forall>seeds\<in>snd ` set ?groups. \<forall>s\<in>set seeds. seedOk sources s"
      using Cons.prems(2) seedsOk_addSeed [OF Cons.prems(2)] by (simp only: split: option.split) blast
    have "collectSeeds getBandId getDetails cs (li_ecid identity # used) ?groups = (used', groups')"
      using Cons.prems(1) Some by simp
    from Cons.IH [OF this groups] Cons.prems(3) Some show ?thesis by (auto simp: ecidOf_def)
  qed
qed auto

text \<open>Every cell added is made from one of the cells, its ECID is free and no two ECIDs agree.\<close>

lemma buildRemainingLTECells_ok:
  assumes rules: "\<And>rule. getSectorRule countryCode operator = Some rule \<Longrightarrow> sector_rule rule"
    and built: "buildRemainingLTECells countryCode operator getBandId getDetails createCell cells = additions"
  shows "distinct (map ecidOf additions)"
    and "\<forall>c\<in>set additions. \<exists>e. ecidOf c = Some e \<and> (\<forall>old\<in>set cells. ecidOf old \<noteq> Some e)"
    and "\<forall>n<length additions. \<exists>source clid. source \<in> set cells \<and> createCell n source clid = Some (additions ! n)"
proof -
  have "distinct (map ecidOf additions) \<and>
    (\<forall>c\<in>set additions. \<exists>e. ecidOf c = Some e \<and> (\<forall>old\<in>set cells. ecidOf old \<noteq> Some e)) \<and>
    (\<forall>n<length additions. \<exists>source clid. source \<in> set cells \<and> createCell n source clid = Some (additions ! n))"
  proof (cases "getSectorRule countryCode operator")
    case None
    with built show ?thesis by (auto simp: buildRemainingLTECells_def)
  next
    case (Some rule)
    obtain used groups where collected: "collectSeeds getBandId getDetails cells [] [] = (used, groups)"
      by (metis surj_pair)
    from collectSeeds_ok [OF this, of "set cells"]
    have seeds: "\<forall>seeds\<in>set (map snd groups). \<forall>s\<in>set seeds. seedOk (set cells) s"
      and taken: "\<forall>c\<in>set cells. \<forall>e. ecidOf c = Some e \<longrightarrow> e \<in> set used" by simp_all
    have "addedOk (set cells) (set used) [] used" by (simp add: addedOk_def)
    from extendGroups_ok [OF this seeds rules [OF Some]] obtain used' where
      "addedOk (set cells) (set used) additions used'"
      using built Some collected by (auto simp: buildRemainingLTECells_def Let_def)
    with taken show ?thesis unfolding addedOk_def by metis
  qed
  then show "distinct (map ecidOf additions)"
    and "\<forall>c\<in>set additions. \<exists>e. ecidOf c = Some e \<and> (\<forall>old\<in>set cells. ecidOf old \<noteq> Some e)"
    and "\<forall>n<length additions. \<exists>source clid. source \<in> set cells \<and> createCell n source clid = Some (additions ! n)" by blast+
qed

end

lemma getSectorRule_rules: "getSectorRule countryCode operator = Some rule \<Longrightarrow> sector_rule rule"
  using play.sector_rule_axioms plus_rule.sector_rule_axioms networks.sector_rule_axioms
  by (auto simp: getSectorRule_def conventionsFor_def plConventions_def gbConventions_def
      defaultConventions_def plLteSectorRule_def split: option.splits if_splits)

lemma seriesDetails_createSeriesCell:
  "seriesDetails (createSeriesCell source clid countryCode k) = (Some (of_int clid), getCellNumber source Enbid)"
  by (simp add: seriesDetails_def createSeriesCell_def number_createCellDraft Let_def)
    (simp add: getCellNumber_def)

interpretation draftSeries: series_cells seriesDetails
    "\<lambda>n source clid. Some (createSeriesCell source clid countryCode (freshKeys n))" for countryCode freshKeys
  by unfold_locales (auto simp: seriesDetails_createSeriesCell, simp add: seriesDetails_def)

definition cellEcid :: "cellDraft \<Rightarrow> int option" where
  "cellEcid c = map_option li_ecid (getLTEIdentity (seriesDetails c))"

lemma cellEcid_eq: "draftSeries.ecidOf = cellEcid"
  by (simp add: fun_eq_iff cellEcid_def draftSeries.ecidOf_def)

lemma missingLteCells_ok:
  fixes freshKeys cells countryCode operator
  defines "added \<equiv> missingLteCells freshKeys cells countryCode operator"
  shows "distinct (map cellEcid added)"
    and "c \<in> set added \<Longrightarrow> \<exists>e. cellEcid c = Some e \<and> (\<forall>old\<in>set cells. isKeptLteCell old \<longrightarrow> cellEcid old \<noteq> Some e)"
    and "n < length added \<Longrightarrow> \<exists>source clid. source \<in> set cells \<and> isKeptLteCell source \<and>
      added ! n = createSeriesCell source clid countryCode (freshKeys n)"
proof -
  have built: "buildRemainingLTECells countryCode operator ce_bandId seriesDetails
      (\<lambda>n source clid. Some (createSeriesCell source clid countryCode (freshKeys n)))
      (filter isKeptLteCell cells) = added"
    by (simp add: added_def missingLteCells_def)
  note ok = draftSeries.buildRemainingLTECells_ok [OF getSectorRule_rules [of countryCode operator] built,
      unfolded cellEcid_eq, simplified]
  show "distinct (map cellEcid added)" by (rule ok(1))
  show "\<exists>e. cellEcid c = Some e \<and> (\<forall>old\<in>set cells. isKeptLteCell old \<longrightarrow> cellEcid old \<noteq> Some e)"
    if "c \<in> set added" using ok(2) that by auto
  show "\<exists>source clid. source \<in> set cells \<and> isKeptLteCell source \<and>
      added ! n = createSeriesCell source clid countryCode (freshKeys n)"
    if "n < length added" using ok(3) that by (metis (no_types))
qed

section \<open>The tools keep a draft well-formed\<close>

lemma key_patchCell [simp]: "ce_key (patchCell c p) = ce_key c"
  by (simp add: patchCell_def Let_def)

lemma draftCellsOk_map:
  assumes "draftCellsOk s cells" "\<And>c. c \<in> set cells \<Longrightarrow> cellFits s c \<Longrightarrow> ce_key (f c) = ce_key c \<and> cellFits s (f c)"
  shows "draftCellsOk s (map f cells)"
proof -
  have "map ce_key (map f cells) = map ce_key cells"
    using assms by (auto simp: draftCellsOk_iff)
  with assms show ?thesis unfolding draftCellsOk_iff by (metis (no_types) in_set_conv_nth length_map nth_map nth_mem)
qed

lemma fillLteChannels_ok:
  "draftCellsOk s cells \<Longrightarrow> draftCellsOk s (fillLteChannels cells bandsById plmn)"
  by (cases plmn)
    (auto simp: fillLteChannels_def fillLteChannel_def patchFits_def toNumberPatch_def noPatch_def
      intro!: draftCellsOk_map patchCell_fits split: option.split)

lemma confirmCells_ok: "draftCellsOk s cells \<Longrightarrow> draftCellsOk s (confirmCells cells r scope)"
  by (auto simp: confirmCells_def patchFits_def noPatch_def intro!: draftCellsOk_map patchCell_fits)

text \<open>A key leads to a sector exactly where the sources that have a sector agree on it.\<close>

definition sourceSays :: "sectorSource \<Rightarrow> cellDraft \<Rightarrow> pciKey \<Rightarrow> draftKey \<Rightarrow> bool" where
  "sourceSays source c key k \<longleftrightarrow> so_isSource source c \<and> so_getKey source c = Some key \<and> ce_sectorKey c = Some k"

lemma sourceSays_unique: "sourceSays source c key k \<Longrightarrow> sourceSays source c key k' \<Longrightarrow> k' = k"
  by (simp add: sourceSays_def)

lemma sectorsByKey_skip:
  "\<nexists>key k. sourceSays source c key k \<Longrightarrow> sectorsByKey source (c # cs) known = sectorsByKey source cs known"
  by (auto simp: sourceSays_def split: option.split)

lemma sectorsByKey_says:
  assumes "sourceSays source c key k"
  shows "sectorsByKey source (c # cs) known = sectorsByKey source cs
    (case map_of known key of
       None \<Rightarrow> AList.update key (Some k) known
     | Some known_k \<Rightarrow> (if known_k \<noteq> Some k then AList.update key None known else known))"
  using assms by (simp add: sourceSays_def split: option.split)

lemma map_of_learn:
  "map_of (case map_of known key' of
       None \<Rightarrow> AList.update key' (Some k') known
     | Some known_k \<Rightarrow> (if known_k \<noteq> Some k' then AList.update key' None known else known)) key =
    (if key = key' \<and> map_of known key' = None then Some (Some k')
     else if key = key' \<and> map_of known key' \<noteq> Some (Some k') then Some None
     else map_of known key)"
  by (cases "map_of known key'") (auto simp: update_conv')

lemma sectorsByKey_iff:
  "map_of (sectorsByKey source cs known) key = Some (Some k) \<longleftrightarrow>
    (\<forall>c\<in>set cs. \<forall>k'. sourceSays source c key k' \<longrightarrow> k' = k) \<and>
    (map_of known key = Some (Some k) \<or>
     map_of known key = None \<and> (\<exists>c\<in>set cs. sourceSays source c key k))"
proof (induction cs arbitrary: known)
  case (Cons c cs)
  show ?case
  proof (cases "\<exists>key' k'. sourceSays source c key' k'")
    case True
    then obtain key' k' where says: "sourceSays source c key' k'" by blast
    then have only: "sourceSays source c key'' k'' \<longleftrightarrow> key'' = key' \<and> k'' = k'" for key'' k''
      by (auto simp: sourceSays_def)
    show ?thesis
      unfolding sectorsByKey_says [OF says] Cons.IH map_of_learn
      by (cases "key = key'"; cases "map_of known key"; cases "k = k'") (simp_all add: only)
  next
    case False
    then have "\<not> sourceSays source c key k'" for k' by blast
    then show ?thesis unfolding sectorsByKey_skip [OF False] Cons.IH by simp
  qed
qed simp

definition foundSector :: "sectorSource \<Rightarrow> cellDraft list \<Rightarrow> cellDraft \<Rightarrow> draftKey option" where
  "foundSector source cells c =
    (case Option.bind (so_getKey source c) (map_of (sectorsByKey source cells [])) of
       Some (Some k) \<Rightarrow> Some k | _ \<Rightarrow> None)"

lemma foundSector_iff:
  "foundSector source cells c = Some k \<longleftrightarrow>
    (\<exists>key. so_getKey source c = Some key \<and> (\<exists>other\<in>set cells. sourceSays source other key k) \<and>
      (\<forall>other\<in>set cells. \<forall>k'. sourceSays source other key k' \<longrightarrow> k' = k))"
proof -
  have "foundSector source cells c = Some k \<longleftrightarrow>
    Option.bind (so_getKey source c) (map_of (sectorsByKey source cells [])) = Some (Some k)"
    by (simp add: foundSector_def split: option.split)
  also have "\<dots> \<longleftrightarrow> (\<exists>key. so_getKey source c = Some key \<and>
      map_of (sectorsByKey source cells []) key = Some (Some k))"
    by (rule bind_eq_Some_conv)
  finally show ?thesis unfolding sectorsByKey_iff by auto
qed

lemma fillSectorsFrom_eq:
  "fillSectorsFrom isTarget cells source = map (\<lambda>c.
     case foundSector source cells c of
       None \<Rightarrow> c
     | Some k \<Rightarrow> (if isTarget c \<and> ce_sectorKey c = None
                  then patchCell c (noPatch\<lparr>cp_sectorKey := Some (Some k)\<rparr>) else c)) cells"
proof (cases "sectorsByKey source cells [] = []")
  case True
  then have "foundSector source cells c = None" for c
    by (cases "so_getKey source c") (simp_all add: foundSector_def)
  with True show ?thesis by (simp add: fillSectorsFrom_def)
next
  case False
  have step: "(if \<not> isTarget c \<or> ce_sectorKey c \<noteq> None then c
      else case Option.bind (so_getKey source c) (map_of (sectorsByKey source cells [])) of
             Some (Some k) \<Rightarrow> patchCell c (noPatch\<lparr>cp_sectorKey := Some (Some k)\<rparr>) | _ \<Rightarrow> c) =
    (case foundSector source cells c of None \<Rightarrow> c
     | Some k \<Rightarrow> (if isTarget c \<and> ce_sectorKey c = None
                  then patchCell c (noPatch\<lparr>cp_sectorKey := Some (Some k)\<rparr>) else c))" for c
    unfolding foundSector_def
    by (cases "Option.bind (so_getKey source c) (map_of (sectorsByKey source cells []))")
      (simp_all split: option.split)
  from False show ?thesis unfolding fillSectorsFrom_def Let_def step by simp
qed

lemma fillSectorsFrom_ok:
  assumes "draftCellsOk s cells" shows "draftCellsOk s (fillSectorsFrom isTarget cells source)"
  unfolding fillSectorsFrom_eq
proof (rule draftCellsOk_map [OF assms], goal_cases)
  case (1 c)
  show ?case
  proof (cases "foundSector source cells c")
    case (Some k)
    then obtain other where other: "other \<in> set cells" "ce_sectorKey other = Some k"
      by (auto simp: foundSector_iff sourceSays_def)
    have "cellFits s other" using assms other(1) by (simp add: draftCellsOk_iff)
    with other(2) have "hasSectorRow (sn_sectors (es_draft s)) k"
      by (simp add: cellFits_def isAttached_def)
    then have "patchFits s (noPatch\<lparr>cp_sectorKey := Some (Some k)\<rparr>) c"
      by (simp add: patchFits_def noPatch_def)
    with Some 1 show ?thesis by (simp add: patchCell_fits)
  qed (use 1 in simp)
qed

lemma assignSectorsByPci_ok: "draftCellsOk s cells \<Longrightarrow> draftCellsOk s (assignSectorsByPci cells r)"
proof -
  have "draftCellsOk s cells \<Longrightarrow> draftCellsOk s (fold (\<lambda>source cs. fillSectorsFrom isTarget cs source) sources cells)"
    for sources and isTarget :: "cellDraft \<Rightarrow> bool"
    by (induction sources arbitrary: cells) (simp_all add: fillSectorsFrom_ok)
  then show "draftCellsOk s cells \<Longrightarrow> ?thesis" by (simp add: assignSectorsByPci_def)
qed

lemma createSeriesCell_fits:
  "cellFits s (createSeriesCell source clid countryCode k) \<and> ce_key (createSeriesCell source clid countryCode k) = k"
proof -
  have "cellOk (createSeriesCell source clid countryCode k)"
    unfolding createSeriesCell_def Let_def by (rule cellOk_createCellDraft) simp
  then show ?thesis
    by (simp add: cellFits_def isAttached_def createSeriesCell_def createCellDraft_def Let_def noInit_def)
qed

lemma addMissingLteCells_ok:
  assumes "draftCellsOk s cells" "inj freshKeys" "range freshKeys \<inter> ce_key ` set cells = {}"
  shows "draftCellsOk s (addMissingLteCells freshKeys cells countryCode operator)"
proof -
  let ?added = "missingLteCells freshKeys cells countryCode operator"
  have made: "\<exists>source clid. ?added ! n = createSeriesCell source clid countryCode (freshKeys n)"
    if "n < length ?added" for n
    using missingLteCells_ok(3) [OF that] by blast
  have keys: "map ce_key ?added = map freshKeys [0..<length ?added]"
    by (rule nth_equalityI) (use made createSeriesCell_fits in fastforce)+
  have "distinct (map ce_key ?added)"
    unfolding keys using assms(2) by (simp add: distinct_map inj_on_def)
  moreover have "set (map ce_key ?added) \<inter> ce_key ` set cells = {}"
    unfolding keys using assms(3) by auto
  moreover have "cellFits s c" if "c \<in> set ?added" for c
    using that made createSeriesCell_fits by (metis in_set_conv_nth)
  ultimately show ?thesis
    using assms(1) by (auto simp: addMissingLteCells_def draftCellsOk_iff map_spliceAt distinct_spliceAt)
qed

section \<open>Properties\<close>

text \<open>
  C22. The missing cells of an operator's LTE series are new: no two of them share an ECID, none has
  the ECID of a kept LTE cell, and each is made, with its own new key, from a kept LTE cell.
\<close>
theorem missing_lte_cells:
  "let added = missingLteCells freshKeys cells countryCode operator in
    distinct (map cellEcid added) \<and>
    (\<forall>c\<in>set added. \<exists>e. cellEcid c = Some e \<and>
      (\<forall>old\<in>set cells. isKeptLteCell old \<longrightarrow> cellEcid old \<noteq> Some e)) \<and>
    (\<forall>n<length added. \<exists>source clid. source \<in> set cells \<and> isKeptLteCell source \<and>
      added ! n = createSeriesCell source clid countryCode (freshKeys n))"
  unfolding Let_def by (intro conjI ballI allI impI missingLteCells_ok)

definition seriesOperator :: operatorRef where
  "seriesOperator = \<lparr>op_id = 1, op_primaryPlmn = Some PLUS_PLMN, op_sharedNetworkPlmns = []\<rparr>"

definition seriesCell :: cellDraft where
  "seriesCell = createCellDraft Lte (noInit\<lparr>ci_key := Some ''c1'', ci_bandId := Some 3,
     ci_numbers := [Enbid \<mapsto> Some 1000, Clid \<mapsto> Some 1]\<rparr>) ''x''"

definition seriesKeys :: "nat \<Rightarrow> draftKey" where
  "seriesKeys n = replicate (Suc n) CHR ''n''"

lemma seriesCell_added:
  "map cellEcid (missingLteCells seriesKeys [seriesCell] (Some ''PL'') (Some seriesOperator))
    = [Some 256000, Some 256002]"
  by code_simp

theorem missing_lte_cells_witness:
  "map cellEcid (missingLteCells seriesKeys [seriesCell] (Some ''PL'') (Some seriesOperator))
    = [Some 256000, Some 256002] \<and>
   distinct (map cellEcid (missingLteCells seriesKeys [seriesCell] (Some ''PL'') (Some seriesOperator)))"
  using missing_lte_cells [of seriesKeys "[seriesCell]" "Some ''PL''" "Some seriesOperator"] seriesCell_added
  by (simp add: Let_def)

text \<open>
  C23. Every cell tool gives the reducer a list it may apply: run on the cells of a well-formed
  draft, with new keys for the cells it adds, it leaves the keys distinct, every cell well-formed and
  every sector it names in the draft.
\<close>
theorem cell_tools_keep_draft:
  assumes "sessionOk s" "ti_cells input = sn_cells (es_draft s)"
    and "inj freshKeys" "range freshKeys \<inter> ce_key ` set (ti_cells input) = {}"
  shows "actionOk k s (ApplyCells (runCellTool freshKeys tool input))"
  using assms sessionOk_cells [OF assms(1)]
  by (cases tool)
    (simp_all add: runCellTool_def fillLteChannels_ok assignSectorsByPci_ok confirmCells_ok addMissingLteCells_ok)

definition toolSession :: editSession where
  "toolSession = createSession \<lparr>in_kind = KindEditor, in_action = ActUpdate, in_countryCode = Some ''PL'',
     in_live = Some (EMPTY_SNAPSHOT\<lparr>sn_cells := [seriesCell]\<rparr>), in_proposed = None, in_initialDraft = None\<rparr>"

definition toolInput :: cellToolInput where
  "toolInput = \<lparr>ti_cells = sn_cells (es_draft toolSession), ti_rat = Lte, ti_bandsById = Map.empty,
     ti_countryCode = Some ''PL'', ti_operator = Some seriesOperator, ti_confirmScope = ConfirmAll\<rparr>"

lemma seriesCell_fits:
  "cellOk seriesCell" "ce_sectorKey seriesCell = None" "ce_key seriesCell = ''c1''"
proof -
  show "cellOk seriesCell" unfolding seriesCell_def by (rule cellOk_createCellDraft) simp
  show "ce_sectorKey seriesCell = None" "ce_key seriesCell = ''c1''"
    by (simp_all add: seriesCell_def createCellDraft_def noInit_def)
qed

lemma toolSession_ok: "sessionOk toolSession"
  unfolding toolSession_def
  by (rule sessionOk_createSession)
    (simp_all add: snapshotOk_def sectorsOk_def cellsOk_def seriesCell_fits rat_constants
      EMPTY_SNAPSHOT_def createEmptyStation_def backhaulOk_def)

lemma toolSession_cells: "sn_cells (es_draft toolSession) = [seriesCell]"
proof -
  have "sn_cells (shareAgreeingTacs snapshot) = sn_cells snapshot" for snapshot
    by (simp add: shareAgreeingTacs_def Let_def)
  then show ?thesis
    by (simp add: toolSession_def createSession_def Let_def applyTacRule_def conventionsFor_def plConventions_def)
qed

theorem cell_tools_keep_draft_witness:
  "actionOk ''x'' toolSession (ApplyCells (runCellTool seriesKeys AddMissingCells toolInput))"
proof (rule cell_tools_keep_draft)
  show "inj seriesKeys" by (rule injI) (simp add: seriesKeys_def list_eq_iff_nth_eq)
  have "seriesKeys n \<noteq> ''c1''" for n by (simp add: seriesKeys_def)
  then show "range seriesKeys \<inter> ce_key ` set (ti_cells toolInput) = {}"
    by (simp add: toolInput_def toolSession_cells seriesCell_fits image_iff)
      (metis)
qed (simp_all add: toolSession_ok toolInput_def)

text \<open>The sector a cell's key leads to: some source names it, and no source with that key another.\<close>

definition sectorAgreed :: "sectorSource \<Rightarrow> cellDraft list \<Rightarrow> cellDraft \<Rightarrow> draftKey \<Rightarrow> bool" where
  "sectorAgreed source cells c k \<longleftrightarrow>
    (\<exists>key. so_getKey source c = Some key \<and> (\<exists>other\<in>set cells. sourceSays source other key k) \<and>
      (\<forall>other\<in>set cells. \<forall>k'. sourceSays source other key k' \<longrightarrow> k' = k))"

text \<open>
  One pass of the PCI tool gives a cell a sector exactly where it is a target without one and the
  sources that share its key and have a sector all have the same: that sector. Every other cell stays.
\<close>
theorem pci_sector_is_unambiguous:
  assumes "i < length cells"
  shows "if isTarget (cells ! i) \<and> ce_sectorKey (cells ! i) = None \<and> (\<exists>k. sectorAgreed source cells (cells ! i) k)
    then \<exists>k. sectorAgreed source cells (cells ! i) k \<and>
      fillSectorsFrom isTarget cells source ! i = patchCell (cells ! i) (noPatch\<lparr>cp_sectorKey := Some (Some k)\<rparr>)
    else fillSectorsFrom isTarget cells source ! i = cells ! i"
  using assms foundSector_iff [of source cells "cells ! i"]
  unfolding fillSectorsFrom_eq sectorAgreed_def [symmetric]
  by (cases "foundSector source cells (cells ! i)") auto

definition pciCell :: "draftKey \<Rightarrow> draftKey option \<Rightarrow> cellDraft" where
  "pciCell key sectorKey = createCellDraft Lte (noInit\<lparr>ci_key := Some key, ci_bandId := Some 3,
     ci_sectorKey := sectorKey, ci_numbers := [Pci \<mapsto> Some 77]\<rparr>) ''x''"

theorem pci_sector_is_unambiguous_witness:
  "map ce_sectorKey (assignSectorsByPci [pciCell ''a'' (Some ''s1''), pciCell ''b'' None] Lte)
     = [Some ''s1'', Some ''s1''] \<and>
   (\<exists>k. fillSectorsFrom isKeptLteCell [pciCell ''a'' (Some ''s1''), pciCell ''b'' None]
       \<lparr>so_isSource = isKeptLteCell, so_getKey = getPciKey\<rparr> ! 1
     = patchCell (pciCell ''b'' None) (noPatch\<lparr>cp_sectorKey := Some (Some k)\<rparr>))"
proof (rule conjI)
  show "map ce_sectorKey (assignSectorsByPci [pciCell ''a'' (Some ''s1''), pciCell ''b'' None] Lte)
     = [Some ''s1'', Some ''s1'']" by code_simp
  let ?cells = "[pciCell ''a'' (Some ''s1''), pciCell ''b'' None]"
  let ?source = "\<lparr>so_isSource = isKeptLteCell, so_getKey = getPciKey\<rparr>"
  have "foundSector ?source ?cells (pciCell ''b'' None) = Some ''s1''" by code_simp
  then have "sectorAgreed ?source ?cells (?cells ! 1) ''s1''" by (simp add: foundSector_iff sectorAgreed_def)
  moreover have "isKeptLteCell (?cells ! 1) \<and> ce_sectorKey (?cells ! 1) = None"
    by (simp add: isKeptLteCell_def pciCell_def createCellDraft_def noInit_def)
  ultimately show "\<exists>k. fillSectorsFrom isKeptLteCell ?cells ?source ! 1
     = patchCell (pciCell ''b'' None) (noPatch\<lparr>cp_sectorKey := Some (Some k)\<rparr>)"
    using pci_sector_is_unambiguous [of 1 ?cells isKeptLteCell ?source] by (auto split: if_splits)
qed

text \<open>
  The sequence an LTE band follows is the one candidate that explains more of its sectors than
  every other candidate does; on a tie there is none.
\<close>
theorem sector_sequence_is_the_best:
  "resolveSectorSequence identities rule n = Some b \<longleftrightarrow>
    (\<exists>candidate \<in> set (candidateSequences identities rule n).
      b = matchSequence identities rule n candidate \<and>
      (\<forall>other \<in> set (candidateSequences identities rule n). other \<noteq> candidate \<longrightarrow>
        sq_matchedSectorCount (matchSequence identities rule n other) < sq_matchedSectorCount b))"
  unfolding resolveSectorSequence_def bestSequence_strict
  by (rule strictBest_map) (simp add: candidateSequences_def)

definition seriesIdentity :: lteIdentity where
  "seriesIdentity = \<lparr>li_clid = 1, li_ecid = 256001, li_enbid = 1000\<rparr>"

lemma seriesIdentity_resolved:
  "resolveSectorSequence [seriesIdentity] PLUS_SECTOR_RULE 3
    = Some \<lparr>sq_enbid = 1000, sq_startClid = 0, sq_sectorCount = 3, sq_matchedSectorCount = 1\<rparr>"
  by code_simp

theorem sector_sequence_is_the_best_witness:
  "\<exists>candidate \<in> set (candidateSequences [seriesIdentity] PLUS_SECTOR_RULE 3).
     \<lparr>sq_enbid = 1000, sq_startClid = 0, sq_sectorCount = 3, sq_matchedSectorCount = 1\<rparr>
       = matchSequence [seriesIdentity] PLUS_SECTOR_RULE 3 candidate"
  using sector_sequence_is_the_best [THEN iffD1, OF seriesIdentity_resolved] by blast

end
