(* ===== verification/TtlCache.thy ===== *)
theory TtlCache
  imports Prelude
begin

text \<open>
  The server's bounded cache (apps/server/src/lib/boundedTTLCache.ts): a \<open>Map\<close> in insertion order
  (an association list with distinct keys, the oldest entry first) and the sum of the sizes of its
  entries. The size function of the constructor and the clock are parameters of the operations.
\<close>

section \<open>The cache\<close>

definition isSafeInteger :: "number \<Rightarrow> bool" where
  "isSafeInteger x \<longleftrightarrow> isInteger x \<and> \<bar>x\<bar> \<le> 9007199254740991"

record 'v ttlEntry =
  te_value :: 'v
  te_expiresAt :: number
  te_size :: number

record ('k, 'v) ttlCache =
  tc_entries :: "('k \<times> 'v ttlEntry) list"
  tc_totalSize :: number
  tc_maxEntries :: number
  tc_maxSize :: number

text \<open>The constructor: \<open>None\<close> is the \<open>RangeError\<close> of either limit.\<close>

definition newCache :: "number \<Rightarrow> number \<Rightarrow> ('k, 'v) ttlCache option" where
  "newCache maxEntries maxSize =
    (if \<not> isSafeInteger maxEntries \<or> maxEntries < 1 then None
     else if \<not> isSafeInteger maxSize \<or> maxSize < 1 then None
     else Some \<lparr>tc_entries = [], tc_totalSize = 0, tc_maxEntries = maxEntries, tc_maxSize = maxSize\<rparr>)"

definition removeEntry :: "'k \<Rightarrow> 'v ttlEntry \<Rightarrow> ('k, 'v) ttlCache \<Rightarrow> ('k, 'v) ttlCache" where
  "removeEntry key entry cache =
    (if key \<notin> fst ` set (tc_entries cache) then cache
     else cache\<lparr>tc_entries := AList.delete key (tc_entries cache),
                tc_totalSize := tc_totalSize cache - te_size entry\<rparr>)"

text \<open>A hit is the value and the remaining time to live.\<close>

definition cacheGet :: "'k \<Rightarrow> number \<Rightarrow> ('k, 'v) ttlCache \<Rightarrow> ('v \<times> number) option \<times> ('k, 'v) ttlCache" where
  "cacheGet key now cache =
    (case map_of (tc_entries cache) key of
       None \<Rightarrow> (None, cache)
     | Some entry \<Rightarrow>
         (let remainingTtlMs = te_expiresAt entry - now
          in if remainingTtlMs \<le> 0 then (None, removeEntry key entry cache)
             else (Some (te_value entry, remainingTtlMs),
                   cache\<lparr>tc_entries := AList.delete key (tc_entries cache) @ [(key, entry)]\<rparr>)))"

definition isFull :: "number \<Rightarrow> ('k, 'v) ttlCache \<Rightarrow> bool" where
  "isFull need cache \<longleftrightarrow>
    tc_maxEntries cache \<le> of_nat (length (tc_entries cache)) \<or> tc_maxSize cache < tc_totalSize cache + need"

function evict :: "number \<Rightarrow> ('k, 'v) ttlCache \<Rightarrow> ('k, 'v) ttlCache" where
  "evict need cache =
    (if isFull need cache
     then (case tc_entries cache of
             [] \<Rightarrow> cache
           | (key, entry) # _ \<Rightarrow> evict need (removeEntry key entry cache))
     else cache)"
  by pat_completeness auto
termination
  by (relation "measure (\<lambda>(_, cache). length (tc_entries cache))")
    (auto simp: removeEntry_def less_Suc_eq_le length_delete_le)

definition cacheSet ::
  "('v \<Rightarrow> number) \<Rightarrow> 'k \<Rightarrow> 'v \<Rightarrow> number \<Rightarrow> number \<Rightarrow> ('k, 'v) ttlCache \<Rightarrow> ('k, 'v) ttlCache" where
  "cacheSet getSize key v ttlMs now cache =
    (if ttlMs \<le> 0 then cache
     else let need = getSize v
       in if \<not> isSafeInteger need \<or> need < 0 \<or> tc_maxSize cache < need then cache
          else let removed = (case map_of (tc_entries cache) key of
                                None \<Rightarrow> cache | Some existing \<Rightarrow> removeEntry key existing cache);
                   evicted = evict need removed
               in evicted\<lparr>
                    tc_entries := AList.update key
                      \<lparr>te_value = v, te_expiresAt = now + ttlMs, te_size = need\<rparr> (tc_entries evicted),
                    tc_totalSize := tc_totalSize evicted + need\<rparr>)"

section \<open>Invariant\<close>

definition sizesOf :: "('k \<times> 'v ttlEntry) list \<Rightarrow> number" where
  "sizesOf entries = sum_list (map (\<lambda>e. te_size (snd e)) entries)"

definition countedOk :: "('k, 'v) ttlCache \<Rightarrow> bool" where
  "countedOk cache \<longleftrightarrow> distinct (map fst (tc_entries cache)) \<and>
    tc_totalSize cache = sizesOf (tc_entries cache) \<and> (\<forall>e\<in>set (tc_entries cache). 0 \<le> te_size (snd e)) \<and>
    1 \<le> tc_maxEntries cache \<and> isInteger (tc_maxEntries cache)"

definition cacheOk :: "('k, 'v) ttlCache \<Rightarrow> bool" where
  "cacheOk cache \<longleftrightarrow> countedOk cache \<and> of_nat (length (tc_entries cache)) \<le> tc_maxEntries cache \<and>
    tc_totalSize cache \<le> tc_maxSize cache"

lemma sizesOf_simps [simp]:
  "sizesOf [] = 0" "sizesOf (e # es) = te_size (snd e) + sizesOf es" "sizesOf (xs @ ys) = sizesOf xs + sizesOf ys"
  by (simp_all add: sizesOf_def)

lemma sizesOf_nonneg: "\<forall>e\<in>set es. 0 \<le> te_size (snd e) \<Longrightarrow> 0 \<le> sizesOf es"
  unfolding sizesOf_def by (rule sum_list_nonneg) auto

lemma sizesOf_delete:
  "distinct (map fst es) \<Longrightarrow> map_of es k = Some e \<Longrightarrow> sizesOf (AList.delete k es) = sizesOf es - te_size e"
proof (induction es)
  case (Cons x es)
  have "AList.delete k es = es" if "k \<notin> fst ` set es" using that by (rule delete_id)
  with Cons show ?case by (auto simp: AList.delete_eq dest: map_of_SomeD split: if_splits)
qed simp

lemma delete_head: "distinct (map fst (e # es)) \<Longrightarrow> AList.delete (fst e) (e # es) = es"
  by (simp add: delete_id)

lemma removeEntry_frame [simp]:
  "tc_maxEntries (removeEntry k e cache) = tc_maxEntries cache"
  "tc_maxSize (removeEntry k e cache) = tc_maxSize cache"
  by (simp_all add: removeEntry_def)

lemma removeEntry_entries [simp]:
  "tc_entries (removeEntry k e cache) = AList.delete k (tc_entries cache)"
  by (simp add: removeEntry_def delete_id)

lemma countedOk_removeEntry:
  assumes "countedOk cache" "map_of (tc_entries cache) k = Some e"
  shows "countedOk (removeEntry k e cache)"
proof -
  have "k \<in> fst ` set (tc_entries cache)" using assms(2) by (force dest: map_of_SomeD)
  then have "tc_totalSize (removeEntry k e cache) = tc_totalSize cache - te_size e"
    by (simp add: removeEntry_def)
  moreover have "set (AList.delete k (tc_entries cache)) \<subseteq> set (tc_entries cache)"
    by (auto simp: AList.delete_eq)
  ultimately show ?thesis
    using assms by (auto simp: countedOk_def sizesOf_delete distinct_delete subset_iff)
qed

section \<open>Eviction\<close>

text \<open>The cache after its \<open>n\<close> oldest entries are gone.\<close>

definition dropOldest :: "nat \<Rightarrow> ('k, 'v) ttlCache \<Rightarrow> ('k, 'v) ttlCache" where
  "dropOldest n cache = cache\<lparr>tc_entries := drop n (tc_entries cache),
     tc_totalSize := sizesOf (drop n (tc_entries cache))\<rparr>"

lemma dropOldest_0: "countedOk cache \<Longrightarrow> dropOldest 0 cache = cache"
  by (simp add: dropOldest_def countedOk_def)

lemma removeEntry_head:
  assumes "countedOk cache" "tc_entries cache = (k, e) # es"
  shows "removeEntry k e cache = dropOldest 1 cache"
  using assms by (simp add: removeEntry_def dropOldest_def countedOk_def delete_id)

lemma dropOldest_Suc:
  assumes "countedOk cache" "tc_entries cache = (k, e) # es"
  shows "dropOldest n (removeEntry k e cache) = dropOldest (Suc n) cache"
  unfolding removeEntry_head [OF assms] by (simp add: dropOldest_def)

declare evict.simps [simp del]

lemma evict_spec:
  assumes "countedOk cache"
  shows "\<exists>n. evict need cache = dropOldest n cache \<and> (\<forall>m<n. isFull need (dropOldest m cache)) \<and>
    (isFull need (dropOldest n cache) \<longrightarrow> tc_entries (dropOldest n cache) = [])"
  using assms
proof (induction need cache rule: evict.induct)
  case (1 need cache)
  show ?case
  proof (cases "isFull need cache \<and> tc_entries cache \<noteq> []")
    case False
    then have "evict need cache = cache"
      by (cases "tc_entries cache") (auto simp: evict.simps)
    with False show ?thesis by (intro exI [of _ 0]) (simp add: dropOldest_0 [OF 1(2)])
  next
    case True
    then obtain k e es where entries: "tc_entries cache = (k, e) # es"
      by (cases "tc_entries cache") auto
    have found: "map_of (tc_entries cache) k = Some e" using entries by simp
    from 1(1) [OF _ entries refl countedOk_removeEntry [OF 1(2) found]] True
    obtain n where n: "evict need (removeEntry k e cache) = dropOldest (Suc n) cache"
      "\<forall>m<n. isFull need (dropOldest (Suc m) cache)"
      "isFull need (dropOldest (Suc n) cache) \<longrightarrow> tc_entries (dropOldest (Suc n) cache) = []"
      unfolding dropOldest_Suc [OF 1(2) entries] by blast
    have "evict need cache = dropOldest (Suc n) cache"
      using True n(1) by (simp add: evict.simps [of need cache] entries)
    moreover have "\<forall>m<Suc n. isFull need (dropOldest m cache)"
      using n(2) True by (auto simp: less_Suc_eq_0_disj dropOldest_0 [OF 1(2)])
    ultimately show ?thesis using n(3) by blast
  qed
qed

lemma countedOk_dropOldest:
  assumes "countedOk cache" shows "countedOk (dropOldest n cache)"
proof -
  have "distinct (map fst (drop n (tc_entries cache)))"
    using assms unfolding drop_map [symmetric] by (intro distinct_drop) (simp add: countedOk_def)
  moreover have "set (drop n (tc_entries cache)) \<subseteq> set (tc_entries cache)" by (rule set_drop_subset)
  ultimately show ?thesis using assms by (auto simp: countedOk_def dropOldest_def)
qed

lemma delete_dropped: "k \<notin> fst ` set (drop n (AList.delete k es))"
  by (auto simp: AList.delete_eq dest: in_set_dropD)

text \<open>Only what has to go goes, oldest first, and then the new entry fits.\<close>

lemma evict_fits:
  assumes "countedOk cache" "need \<le> tc_maxSize cache"
  obtains n where "evict need cache = dropOldest n cache" "\<forall>m<n. isFull need (dropOldest m cache)"
    "\<not> isFull need (dropOldest n cache)" "countedOk (evict need cache)"
proof -
  obtain n where n: "evict need cache = dropOldest n cache" "\<forall>m<n. isFull need (dropOldest m cache)"
    "isFull need (dropOldest n cache) \<longrightarrow> tc_entries (dropOldest n cache) = []"
    using evict_spec [OF assms(1), of need] by blast
  have ok: "countedOk (dropOldest n cache)" by (rule countedOk_dropOldest [OF assms(1)])
  have positive: "0 < tc_maxEntries cache"
    using assms(1) unfolding countedOk_def by (meson order_less_le_trans zero_less_one)
  have "\<not> isFull need (dropOldest n cache)"
  proof
    assume full: "isFull need (dropOldest n cache)"
    with n(3) have none: "drop n (tc_entries cache) = []"
      unfolding dropOldest_def by simp
    have "dropOldest n cache = cache\<lparr>tc_entries := [], tc_totalSize := 0\<rparr>"
      unfolding dropOldest_def none by simp
    with full have "tc_maxEntries cache \<le> 0 \<or> tc_maxSize cache < need" by (simp add: isFull_def)
    with positive assms(2) show False by (metis linorder_not_less)
  qed
  show ?thesis by (rule that [OF n(1,2) \<open>\<not> isFull need (dropOldest n cache)\<close>]) (simp add: n(1) ok)
qed

section \<open>The operations keep the bounds\<close>

lemma cacheOk_newCache: "newCache maxEntries maxSize = Some cache \<Longrightarrow> cacheOk cache"
  by (auto simp: newCache_def cacheOk_def countedOk_def isSafeInteger_def not_less split: if_splits)

lemma length_delete_present:
  "distinct (map fst es) \<Longrightarrow> map_of es k = Some e \<Longrightarrow> Suc (length (AList.delete k es)) = length es"
  by (induction es) (force simp: delete_id)+

lemma totalSize_removeEntry:
  assumes "map_of (tc_entries cache) k = Some e"
  shows "tc_totalSize (removeEntry k e cache) = tc_totalSize cache - te_size e"
proof -
  have "k \<in> fst ` set (tc_entries cache)" using assms by (force dest: map_of_SomeD)
  then show ?thesis by (simp add: removeEntry_def)
qed

lemma cacheOk_removeEntry:
  assumes "cacheOk cache" "map_of (tc_entries cache) k = Some e"
  shows "cacheOk (removeEntry k e cache)"
proof -
  have ok: "countedOk cache" using assms(1) by (simp add: cacheOk_def)
  have "(k, e) \<in> set (tc_entries cache)" using assms(2) by (rule map_of_SomeD)
  with ok have size: "0 \<le> te_size e" by (force simp: countedOk_def)
  have "length (AList.delete k (tc_entries cache)) \<le> length (tc_entries cache)" by (rule length_delete_le)
  then have count: "(of_nat (length (AList.delete k (tc_entries cache))) :: number) \<le> tc_maxEntries cache"
    using assms(1) unfolding cacheOk_def by (meson of_nat_mono order_trans)
  show ?thesis
    unfolding cacheOk_def
    using countedOk_removeEntry [OF ok assms(2)] totalSize_removeEntry [OF assms(2)] size count assms(1)
    by (simp add: cacheOk_def)
qed

lemma cacheGet_expired:
  "map_of (tc_entries cache) key = Some e \<Longrightarrow> te_expiresAt e \<le> now \<Longrightarrow>
    cacheGet key now cache = (None, removeEntry key e cache)"
  by (simp add: cacheGet_def Let_def)

lemma cacheGet_hit:
  "map_of (tc_entries cache) key = Some e \<Longrightarrow> now < te_expiresAt e \<Longrightarrow>
    cacheGet key now cache = (Some (te_value e, te_expiresAt e - now),
      cache\<lparr>tc_entries := AList.delete key (tc_entries cache) @ [(key, e)]\<rparr>)"
  by (simp add: cacheGet_def Let_def)

lemma cacheGet_miss: "map_of (tc_entries cache) key = None \<Longrightarrow> cacheGet key now cache = (None, cache)"
  by (simp add: cacheGet_def)

text \<open>Moving an entry to the end.\<close>

lemma countedOk_touch:
  assumes "countedOk cache" "map_of (tc_entries cache) key = Some e"
  shows "countedOk (cache\<lparr>tc_entries := AList.delete key (tc_entries cache) @ [(key, e)]\<rparr>)"
proof -
  have "(key, e) \<in> set (tc_entries cache)" using assms(2) by (rule map_of_SomeD)
  moreover have "set (AList.delete key (tc_entries cache)) \<subseteq> set (tc_entries cache)"
    by (auto simp: AList.delete_eq)
  ultimately show ?thesis
    using assms sizesOf_delete [of "tc_entries cache" key e]
    by (auto simp: countedOk_def distinct_delete subset_iff delete_notin_dom)
qed

lemma cacheOk_get:
  assumes "cacheOk cache" shows "cacheOk (snd (cacheGet key now cache))"
proof (cases "map_of (tc_entries cache) key")
  case (Some e)
  have ok: "countedOk cache" using assms by (simp add: cacheOk_def)
  show ?thesis
  proof (cases "now < te_expiresAt e")
    case True
    let ?touched = "AList.delete key (tc_entries cache) @ [(key, e)]"
    have "length ?touched = length (tc_entries cache)"
      using length_delete_present [OF _ Some] ok by (simp add: countedOk_def)
    with assms countedOk_touch [OF ok Some] show ?thesis
      unfolding cacheGet_hit [OF Some True] cacheOk_def by simp
  next
    case False
    then show ?thesis
      using cacheOk_removeEntry [OF assms Some] by (simp add: cacheGet_expired [OF Some])
  qed
qed (simp add: cacheGet_miss assms)

text \<open>What an accepted \<open>set\<close> does: it drops the old entry of the key and the \<open>n\<close> oldest others, no
  more than it has to, and adds the new entry at the end.\<close>

definition accepts :: "('v \<Rightarrow> number) \<Rightarrow> 'v \<Rightarrow> number \<Rightarrow> ('k, 'v) ttlCache \<Rightarrow> bool" where
  "accepts getSize v ttlMs cache \<longleftrightarrow>
    0 < ttlMs \<and> isSafeInteger (getSize v) \<and> 0 \<le> getSize v \<and> getSize v \<le> tc_maxSize cache"

definition without :: "'k \<Rightarrow> ('k, 'v) ttlCache \<Rightarrow> ('k, 'v) ttlCache" where
  "without key cache =
    (case map_of (tc_entries cache) key of None \<Rightarrow> cache | Some e \<Rightarrow> removeEntry key e cache)"

lemma without_entries: "tc_entries (without key cache) = AList.delete key (tc_entries cache)"
  by (auto simp: without_def delete_id map_of_eq_None_iff split: option.split)

lemma without_ok:
  "countedOk cache \<Longrightarrow> countedOk (without key cache)"
  "tc_maxEntries (without key cache) = tc_maxEntries cache" "tc_maxSize (without key cache) = tc_maxSize cache"
  by (auto simp: without_def countedOk_removeEntry split: option.split)

lemma update_absent: "k \<notin> fst ` set es \<Longrightarrow> AList.update k v es = es @ [(k, v)]"
  by (induction es) auto

lemma cacheSet_rejected: "\<not> accepts getSize v ttlMs cache \<Longrightarrow> cacheSet getSize key v ttlMs now cache = cache"
  by (auto simp: cacheSet_def accepts_def Let_def)

lemma cacheSet_accepted:
  assumes "countedOk cache" "accepts getSize v ttlMs cache"
  obtains n where
    "\<forall>m<n. isFull (getSize v) (dropOldest m (without key cache))"
    "\<not> isFull (getSize v) (dropOldest n (without key cache))"
    "cacheSet getSize key v ttlMs now cache = cache\<lparr>
       tc_entries := drop n (AList.delete key (tc_entries cache)) @
         [(key, \<lparr>te_value = v, te_expiresAt = now + ttlMs, te_size = getSize v\<rparr>)],
       tc_totalSize := sizesOf (drop n (AList.delete key (tc_entries cache))) + getSize v\<rparr>"
proof -
  let ?removed = "without key cache" and ?need = "getSize v"
  let ?entry = "\<lparr>te_value = v, te_expiresAt = now + ttlMs, te_size = ?need\<rparr>"
  have "?need \<le> tc_maxSize ?removed" using assms(2) by (simp add: accepts_def without_ok)
  from evict_fits [OF without_ok(1) [OF assms(1)] this] obtain n where
    n: "evict ?need ?removed = dropOldest n ?removed" "\<forall>m<n. isFull ?need (dropOldest m ?removed)"
      "\<not> isFull ?need (dropOldest n ?removed)" .
  have "key \<notin> fst ` set (drop n (AList.delete key (tc_entries cache)))"
    by (rule delete_dropped)
  then have "AList.update key ?entry (tc_entries (dropOldest n ?removed))
      = drop n (AList.delete key (tc_entries cache)) @ [(key, ?entry)]"
    by (simp add: dropOldest_def without_entries update_absent)
  then have "cacheSet getSize key v ttlMs now cache = (dropOldest n ?removed)\<lparr>
      tc_entries := drop n (AList.delete key (tc_entries cache)) @ [(key, ?entry)],
      tc_totalSize := tc_totalSize (dropOldest n ?removed) + ?need\<rparr>"
    using assms(2) n(1) by (simp add: cacheSet_def accepts_def Let_def without_def not_less)
  moreover have "\<dots> = cache\<lparr>tc_entries := drop n (AList.delete key (tc_entries cache)) @ [(key, ?entry)],
      tc_totalSize := sizesOf (drop n (AList.delete key (tc_entries cache))) + ?need\<rparr>"
    by (rule ttlCache.equality) (simp_all add: dropOldest_def without_entries without_ok)
  ultimately show ?thesis using n(2,3) that by simp
qed

lemma room_for_one: "isInteger m \<Longrightarrow> of_nat n < m \<Longrightarrow> 1 + of_nat n \<le> m"
proof -
  assume "isInteger m" "of_nat n < m"
  then obtain k where k: "m = of_int k" by (auto simp: isInteger_iff)
  with \<open>of_nat n < m\<close> have "int n < k" by (metis of_int_less_iff of_int_of_nat_eq)
  then have "of_int (1 + int n) \<le> m" unfolding k of_int_le_iff by simp
  then show ?thesis by simp
qed

lemma cacheOk_set:
  assumes "cacheOk cache" shows "cacheOk (cacheSet getSize key v ttlMs now cache)"
proof (cases "accepts getSize v ttlMs cache")
  case True
  have ok: "countedOk cache" using assms by (simp add: cacheOk_def)
  from cacheSet_accepted [OF ok True] obtain n where
    fits: "\<not> isFull (getSize v) (dropOldest n (without key cache))" and
    set: "cacheSet getSize key v ttlMs now cache = cache\<lparr>
       tc_entries := drop n (AList.delete key (tc_entries cache)) @
         [(key, \<lparr>te_value = v, te_expiresAt = now + ttlMs, te_size = getSize v\<rparr>)],
       tc_totalSize := sizesOf (drop n (AList.delete key (tc_entries cache))) + getSize v\<rparr>" .
  have "countedOk (dropOldest n (without key cache))"
    by (rule countedOk_dropOldest [OF without_ok(1) [OF ok]])
  moreover have "key \<notin> fst ` set (drop n (AList.delete key (tc_entries cache)))"
    by (rule delete_dropped)
  moreover have "0 \<le> getSize v" using True by (simp add: accepts_def)
  ultimately show ?thesis
    using fits unfolding set cacheOk_def countedOk_def isFull_def
    by (auto simp: dropOldest_def without_entries without_ok not_le intro: room_for_one)
qed (simp add: cacheSet_rejected assms)

section \<open>Runs of the cache\<close>

datatype ('k, 'v) cacheEvent = Get 'k number | Set 'k 'v number number

fun cacheStep :: "('v \<Rightarrow> number) \<Rightarrow> ('k, 'v) ttlCache \<Rightarrow> ('k, 'v) cacheEvent \<Rightarrow> ('k, 'v) ttlCache" where
  "cacheStep getSize cache (Get key now) = snd (cacheGet key now cache)"
| "cacheStep getSize cache (Set key v ttlMs now) = cacheSet getSize key v ttlMs now cache"

text \<open>The abstract cache never forgets: it holds the last accepted \<open>set\<close> of each key.\<close>

fun applySet ::
  "('v \<Rightarrow> number) \<Rightarrow> number \<Rightarrow> ('k, 'v) cacheEvent \<Rightarrow> ('k \<Rightarrow> ('v \<times> number) option) \<Rightarrow> 'k \<Rightarrow> ('v \<times> number) option" where
  "applySet getSize maxSize (Get _ _) held = held"
| "applySet getSize maxSize (Set key v ttlMs now) held =
     (if 0 < ttlMs \<and> isSafeInteger (getSize v) \<and> 0 \<le> getSize v \<and> getSize v \<le> maxSize
      then held(key \<mapsto> (v, now + ttlMs)) else held)"

definition lastSet ::
  "('v \<Rightarrow> number) \<Rightarrow> number \<Rightarrow> ('k, 'v) cacheEvent list \<Rightarrow> 'k \<Rightarrow> ('v \<times> number) option" where
  "lastSet getSize maxSize events = fold (applySet getSize maxSize) events Map.empty"

definition heldBy :: "('k, 'v) ttlCache \<Rightarrow> 'k \<Rightarrow> ('v \<times> number) option" where
  "heldBy cache key = map_option (\<lambda>e. (te_value e, te_expiresAt e)) (map_of (tc_entries cache) key)"

lemma cacheOk_step: "cacheOk cache \<Longrightarrow> cacheOk (cacheStep getSize cache e)"
  by (cases e) (simp_all add: cacheOk_get cacheOk_set)

interpretation cacheMachine: invariant_machine "cacheStep getSize" "\<lambda>_ _. True" cacheOk for getSize
  by unfold_locales (rule cacheOk_step)

text \<open>A concrete cache holds a part of the abstract one.\<close>

lemma heldBy_removeEntry: "heldBy (removeEntry k e cache) = (heldBy cache)(k := None)"
  by (simp add: heldBy_def fun_eq_iff delete_conv')

lemma map_of_snoc: "map_of (es @ [(key, e)]) k = (case map_of es k of None \<Rightarrow> [key \<mapsto> e] k | Some x \<Rightarrow> Some x)"
  by (induction es) auto

lemma heldBy_get:
  assumes "countedOk cache"
  shows "heldBy (snd (cacheGet key now cache)) \<subseteq>\<^sub>m heldBy cache"
proof (cases "map_of (tc_entries cache) key")
  case (Some e)
  show ?thesis
  proof (cases "now < te_expiresAt e")
    case True
    have "map_of (AList.delete key (tc_entries cache) @ [(key, e)]) k = map_of (tc_entries cache) k" for k
      unfolding map_of_snoc using Some by (cases "k = key") (auto simp: delete_conv' split: option.split)
    then have "heldBy (cache\<lparr>tc_entries := AList.delete key (tc_entries cache) @ [(key, e)]\<rparr>) = heldBy cache"
      by (intro ext) (simp add: heldBy_def del: map_of_append)
    then show ?thesis by (simp add: cacheGet_hit [OF Some True])
  next
    case False
    then show ?thesis
      by (simp add: cacheGet_expired [OF Some] heldBy_removeEntry map_le_def)
  qed
qed (simp add: cacheGet_miss)

lemma map_of_dropped: "distinct (map fst es) \<Longrightarrow> map_of (drop n es) \<subseteq>\<^sub>m map_of es"
unfolding map_le_def
proof
  fix k assume distinct: "distinct (map fst es)" and "k \<in> dom (map_of (drop n es))"
  then obtain v where v: "map_of (drop n es) k = Some v" by auto
  then have "(k, v) \<in> set es" by (auto dest: map_of_SomeD in_set_dropD)
  with distinct v show "map_of (drop n es) k = map_of es k" by simp
qed

lemma heldBy_part: "(\<And>k x. f k = Some x \<Longrightarrow> g k = Some x) \<Longrightarrow> f \<subseteq>\<^sub>m g"
  by (force simp: map_le_def dom_def)

lemma heldBy_set:
  assumes "countedOk cache" "accepts getSize v ttlMs cache"
  shows "heldBy (cacheSet getSize key v ttlMs now cache) \<subseteq>\<^sub>m (heldBy cache)(key \<mapsto> (v, now + ttlMs))"
    "heldBy (cacheSet getSize key v ttlMs now cache) key = Some (v, now + ttlMs)"
proof -
  obtain n where set: "cacheSet getSize key v ttlMs now cache = cache\<lparr>
       tc_entries := drop n (AList.delete key (tc_entries cache)) @
         [(key, \<lparr>te_value = v, te_expiresAt = now + ttlMs, te_size = getSize v\<rparr>)],
       tc_totalSize := sizesOf (drop n (AList.delete key (tc_entries cache))) + getSize v\<rparr>"
    using cacheSet_accepted [OF assms] by metis
  have part: "map_of (drop n (AList.delete key (tc_entries cache))) \<subseteq>\<^sub>m map_of (AList.delete key (tc_entries cache))"
    by (rule map_of_dropped) (use assms(1) in \<open>simp add: countedOk_def distinct_delete\<close>)
  have gone: "map_of (drop n (AList.delete key (tc_entries cache))) key = None"
    using delete_dropped [of key n] by (simp add: map_of_eq_None_iff)
  show "heldBy (cacheSet getSize key v ttlMs now cache) key = Some (v, now + ttlMs)"
    by (simp add: set heldBy_def map_add_def gone)
  show "heldBy (cacheSet getSize key v ttlMs now cache) \<subseteq>\<^sub>m (heldBy cache)(key \<mapsto> (v, now + ttlMs))"
  proof (rule heldBy_part)
    fix k x assume held: "heldBy (cacheSet getSize key v ttlMs now cache) k = Some x"
    show "((heldBy cache)(key \<mapsto> (v, now + ttlMs))) k = Some x"
    proof (cases "k = key")
      case True
      with held show ?thesis by (simp add: set heldBy_def map_add_def gone)
    next
      case False
      with held obtain e where e: "map_of (drop n (AList.delete key (tc_entries cache))) k = Some e"
        "x = (te_value e, te_expiresAt e)"
        by (auto simp: set heldBy_def map_of_snoc simp del: map_of_append split: option.splits)
      from part e(1) False have "map_of (tc_entries cache) k = Some e"
        by (force simp: map_le_def dom_def)
      with False e(2) show ?thesis by (simp add: heldBy_def)
    qed
  qed
qed

lemma maxSize_step:
  assumes "countedOk cache" shows "tc_maxSize (cacheStep getSize cache e) = tc_maxSize cache"
proof (cases e)
  case (Get key now)
  then show ?thesis by (auto simp: cacheGet_def Let_def split: option.split)
next
  case (Set key v ttlMs now)
  show ?thesis
  proof (cases "accepts getSize v ttlMs cache")
    case True
    from cacheSet_accepted [OF assms True] obtain n where
      "cacheSet getSize key v ttlMs now cache = cache\<lparr>
         tc_entries := drop n (AList.delete key (tc_entries cache)) @
           [(key, \<lparr>te_value = v, te_expiresAt = now + ttlMs, te_size = getSize v\<rparr>)],
         tc_totalSize := sizesOf (drop n (AList.delete key (tc_entries cache))) + getSize v\<rparr>" by metis
    with Set show ?thesis by simp
  qed (simp add: Set cacheSet_rejected)
qed

lemma heldBy_step:
  assumes "countedOk cache" "heldBy cache \<subseteq>\<^sub>m held"
  shows "heldBy (cacheStep getSize cache e) \<subseteq>\<^sub>m
    (case e of Get _ _ \<Rightarrow> held
     | Set key v ttlMs now \<Rightarrow> (if accepts getSize v ttlMs cache then held(key \<mapsto> (v, now + ttlMs)) else held))"
proof (cases e)
  case (Get key now)
  with heldBy_get [OF assms(1)] assms(2) show ?thesis by (auto intro: map_le_trans)
next
  case (Set key v ttlMs now)
  show ?thesis
  proof (cases "accepts getSize v ttlMs cache")
    case True
    have "(heldBy cache)(key \<mapsto> (v, now + ttlMs)) \<subseteq>\<^sub>m held(key \<mapsto> (v, now + ttlMs))"
      using assms(2) by (rule map_le_upd)
    with heldBy_set(1) [OF assms(1) True] True Set show ?thesis by (auto intro: map_le_trans)
  qed (use assms(2) Set in \<open>simp add: cacheSet_rejected\<close>)
qed

lemma accepts_eq: "tc_maxSize cache = maxSize \<Longrightarrow>
  accepts getSize v ttlMs cache \<longleftrightarrow>
    0 < ttlMs \<and> isSafeInteger (getSize v) \<and> 0 \<le> getSize v \<and> getSize v \<le> maxSize"
  by (auto simp: accepts_def)

lemma heldBy_run:
  assumes "cacheOk cache" "heldBy cache \<subseteq>\<^sub>m held"
  shows "heldBy (runAll (cacheStep getSize) cache events)
    \<subseteq>\<^sub>m fold (applySet getSize (tc_maxSize cache)) events held"
  using assms
proof (induction events arbitrary: cache held)
  case (Cons e events)
  have ok: "countedOk cache" using Cons.prems(1) by (simp add: cacheOk_def)
  have "heldBy (cacheStep getSize cache e) \<subseteq>\<^sub>m applySet getSize (tc_maxSize cache) e held"
    using heldBy_step [OF ok Cons.prems(2), of getSize e]
    by (cases e) (simp_all add: accepts_eq [OF refl])
  from Cons.IH [OF cacheOk_step [OF Cons.prems(1)] this]
  show ?case by (simp add: maxSize_step [OF ok])
qed simp

section \<open>Properties\<close>

text \<open>
  C24. However the cache is used, its keys stay distinct, it never holds more entries than its limit,
  and its size counter is the sum of the sizes of its entries and never exceeds its limit.
\<close>
theorem cache_bounded:
  fixes cache getSize events
  assumes "newCache maxEntries maxSize = Some cache"
  defines "used \<equiv> runAll (cacheStep getSize) cache events"
  shows "distinct (map fst (tc_entries used)) \<and> of_nat (length (tc_entries used)) \<le> tc_maxEntries used \<and>
    tc_totalSize used = sum_list (map (\<lambda>e. te_size (snd e)) (tc_entries used)) \<and>
    tc_totalSize used \<le> tc_maxSize used"
proof -
  have "runOk (cacheStep getSize) (\<lambda>_ _. True) cache events" by (induction events arbitrary: cache) auto
  then have "cacheOk used"
    unfolding used_def by (rule cacheMachine.run_inv [OF cacheOk_newCache [OF assms(1)]])
  then show ?thesis by (simp add: cacheOk_def countedOk_def sizesOf_def)
qed

definition sampleEvents :: "(string, string) cacheEvent list" where
  "sampleEvents = [Set ''a'' ''xx'' 10 0, Set ''b'' ''yyy'' 10 1, Get ''a'' 2, Set ''c'' ''zz'' 10 3]"

definition textSize :: "string \<Rightarrow> number" where
  "textSize text = of_nat (length text)"

definition sampleCache :: "(string, string) ttlCache" where
  "sampleCache = \<lparr>tc_entries = [], tc_totalSize = 0, tc_maxEntries = 2, tc_maxSize = 5\<rparr>"

lemma newCache_sample: "newCache 2 5 = Some sampleCache"
  by (simp add: newCache_def sampleCache_def isSafeInteger_def)

text \<open>The entry of \<open>b\<close> was the one used longest ago.\<close>

lemma sampleCache_run:
  "map fst (tc_entries (runAll (cacheStep textSize) sampleCache sampleEvents)) = [''a'', ''c'']"
  by code_simp

theorem cache_bounded_witness:
  "tc_totalSize (runAll (cacheStep textSize) sampleCache sampleEvents)
    \<le> tc_maxSize (runAll (cacheStep textSize) sampleCache sampleEvents)"
  using cache_bounded [OF newCache_sample, of textSize sampleEvents] by blast

text \<open>
  C25. A hit is the value of the last \<open>set\<close> of its key that the cache accepted, it is not expired, and
  the time to live it reports is what is left of the one that \<open>set\<close> gave.
\<close>
theorem cache_hit_is_last_set:
  assumes "newCache maxEntries maxSize = Some cache"
    and "fst (cacheGet key now (runAll (cacheStep getSize) cache events)) = Some (v, remaining)"
  shows "0 < remaining \<and> lastSet getSize maxSize events key = Some (v, now + remaining)"
proof -
  let ?used = "runAll (cacheStep getSize) cache events"
  have "heldBy cache \<subseteq>\<^sub>m Map.empty" "tc_maxSize cache = maxSize"
    using assms(1) by (auto simp: newCache_def heldBy_def map_le_def split: if_splits)
  with heldBy_run [OF cacheOk_newCache [OF assms(1)], of Map.empty getSize events]
  have held: "heldBy ?used \<subseteq>\<^sub>m lastSet getSize maxSize events" by (simp add: lastSet_def)
  obtain e where e: "map_of (tc_entries ?used) key = Some e" "v = te_value e"
    "remaining = te_expiresAt e - now" "0 < remaining"
    using assms(2) by (auto simp: cacheGet_def Let_def split: option.splits if_splits)
  then have "heldBy ?used key = Some (v, now + remaining)" by (simp add: heldBy_def)
  with held have "lastSet getSize maxSize events key = Some (v, now + remaining)"
    by (force simp: map_le_def dom_def)
  with e(4) show ?thesis by simp
qed

theorem cache_hit_is_last_set_witness:
  "lastSet textSize 5 sampleEvents ''a'' = Some (''xx'', 4 + 6)"
proof -
  have "fst (cacheGet ''a'' 4 (runAll (cacheStep textSize) sampleCache sampleEvents)) = Some (''xx'', 6)"
    by code_simp
  from cache_hit_is_last_set [OF newCache_sample this] show ?thesis by blast
qed

text \<open>
  An accepted \<open>set\<close> makes room by dropping the entries used longest ago and only as many as it
  has to; until its time to live is over, the next \<open>get\<close> of the key returns the value.
\<close>
theorem cache_set:
  assumes "cacheOk cache" "accepts getSize v ttlMs cache"
  shows "(\<exists>n. map fst (tc_entries (cacheSet getSize key v ttlMs now cache))
        = drop n (removeAll key (map fst (tc_entries cache))) @ [key] \<and>
      (\<forall>m<n. isFull (getSize v) (dropOldest m (without key cache)))) \<and>
    (\<forall>later. later < now + ttlMs \<longrightarrow>
      fst (cacheGet key later (cacheSet getSize key v ttlMs now cache)) = Some (v, now + ttlMs - later))"
proof -
  have ok: "countedOk cache" using assms(1) by (simp add: cacheOk_def)
  obtain n where n: "\<forall>m<n. isFull (getSize v) (dropOldest m (without key cache))"
    "cacheSet getSize key v ttlMs now cache = cache\<lparr>
       tc_entries := drop n (AList.delete key (tc_entries cache)) @
         [(key, \<lparr>te_value = v, te_expiresAt = now + ttlMs, te_size = getSize v\<rparr>)],
       tc_totalSize := sizesOf (drop n (AList.delete key (tc_entries cache))) + getSize v\<rparr>"
    by (rule cacheSet_accepted [OF ok assms(2), of key now]) blast
  have "map fst (tc_entries (cacheSet getSize key v ttlMs now cache))
      = drop n (removeAll key (map fst (tc_entries cache))) @ [key]"
    by (simp add: n(2) drop_map [symmetric] delete_keys)
  moreover have "fst (cacheGet key later (cacheSet getSize key v ttlMs now cache)) = Some (v, now + ttlMs - later)"
    if "later < now + ttlMs" for later
    using heldBy_set(2) [OF ok assms(2), of key now] that
    by (auto simp: heldBy_def cacheGet_def Let_def)
  ultimately show ?thesis using n(1) by blast
qed

theorem cache_set_witness:
  "fst (cacheGet ''a'' 3 (cacheSet textSize ''a'' ''xx'' 10 0 sampleCache)) = Some (''xx'', 7)"
proof -
  have "cacheOk sampleCache" by (rule cacheOk_newCache [OF newCache_sample])
  moreover have "accepts textSize ''xx'' 10 sampleCache"
    by (simp add: accepts_def textSize_def isSafeInteger_def sampleCache_def)
  ultimately show ?thesis using cache_set [of sampleCache textSize "''xx''" 10 "''a''" 0] by simp
qed

end
