(* ===== verification/Async.thy ===== *)
theory Async
  imports Prelude "HOL-Library.Multiset"
begin

text \<open>
  The server's concurrency helpers (apps/server/src/lib/async): the bounded semaphore, the runner of
  limited concurrency and the single flight. The event loop is a step relation: one step for each
  stretch of code between two awaits, in any order the loop may choose.
\<close>

section \<open>The bounded semaphore\<close>

record 'a semaphore =
  sm_active :: int
  sm_waiters :: "'a list"

datatype acquired = AcquireAborted | AcquireGranted | AcquireQueueFull | AcquireWaiting

definition acquire :: "int \<Rightarrow> int \<Rightarrow> bool \<Rightarrow> 'a \<Rightarrow> 'a semaphore \<Rightarrow> acquired \<times> 'a semaphore" where
  "acquire limit maxWaiters aborted k s =
    (if aborted then (AcquireAborted, s)
     else if sm_active s < limit then (AcquireGranted, s\<lparr>sm_active := sm_active s + 1\<rparr>)
     else if maxWaiters \<le> int (length (sm_waiters s)) then (AcquireQueueFull, s)
     else (AcquireWaiting, s\<lparr>sm_waiters := sm_waiters s @ [k]\<rparr>))"

text \<open>The abort listener of a waiter, and \<open>release\<close>: the next waiter takes the permit over.\<close>

definition abortWaiter :: "'a \<Rightarrow> 'a semaphore \<Rightarrow> 'a semaphore" where
  "abortWaiter k s = s\<lparr>sm_waiters := remove1 k (sm_waiters s)\<rparr>"

definition release :: "'a semaphore \<Rightarrow> 'a option \<times> 'a semaphore" where
  "release s =
    (case sm_waiters s of
       next # waiters \<Rightarrow> (Some next, s\<lparr>sm_waiters := waiters\<rparr>)
     | [] \<Rightarrow> (None, s\<lparr>sm_active := sm_active s - 1\<rparr>))"

text \<open>A call of \<open>run\<close>: where it is, and whether its signal was aborted.\<close>

datatype runResult = RunReturned | RunTaskFailed | RunAborted | RunQueueFull
datatype runPhase = NotStarted | Waiting | Granted | Running | Settled runResult

record 'a semRuns =
  sr_sem :: "'a semaphore"
  sr_phase :: "'a \<Rightarrow> runPhase"
  sr_aborted :: "'a \<Rightarrow> bool"

fun acquirePhase :: "acquired \<Rightarrow> runPhase" where
  "acquirePhase AcquireAborted = Settled RunAborted"
| "acquirePhase AcquireGranted = Granted"
| "acquirePhase AcquireQueueFull = Settled RunQueueFull"
| "acquirePhase AcquireWaiting = Waiting"

definition startRun :: "int \<Rightarrow> int \<Rightarrow> 'a \<Rightarrow> 'a semRuns \<Rightarrow> 'a semRuns" where
  "startRun limit maxWaiters k r =
    (let (result, sem) = acquire limit maxWaiters (sr_aborted r k) k (sr_sem r)
     in r\<lparr>sr_sem := sem, sr_phase := (sr_phase r)(k := acquirePhase result)\<rparr>)"

definition abortRun :: "'a \<Rightarrow> 'a semRuns \<Rightarrow> 'a semRuns" where
  "abortRun k r =
    (let marked = r\<lparr>sr_aborted := (sr_aborted r)(k := True)\<rparr>
     in if k \<in> set (sm_waiters (sr_sem r))
        then marked\<lparr>sr_sem := abortWaiter k (sr_sem r), sr_phase := (sr_phase r)(k := Settled RunAborted)\<rparr>
        else marked)"

text \<open>The \<open>finally\<close> block of a run that settles with a result.\<close>

definition settleRun :: "'a \<Rightarrow> runResult \<Rightarrow> 'a semRuns \<Rightarrow> 'a semRuns" where
  "settleRun k result r =
    (let (next, sem) = release (sr_sem r); phase = (sr_phase r)(k := Settled result)
     in r\<lparr>sr_sem := sem,
          sr_phase := (case next of None \<Rightarrow> phase | Some w \<Rightarrow> phase(w := Granted))\<rparr>)"

definition beginTask :: "'a \<Rightarrow> 'a semRuns \<Rightarrow> 'a semRuns" where
  "beginTask k r =
    (if sr_aborted r k then settleRun k RunAborted r else r\<lparr>sr_phase := (sr_phase r)(k := Running)\<rparr>)"

definition endTask :: "'a \<Rightarrow> bool \<Rightarrow> 'a semRuns \<Rightarrow> 'a semRuns" where
  "endTask k failed r =
    settleRun k (if failed then RunTaskFailed else if sr_aborted r k then RunAborted else RunReturned) r"

inductive semStep :: "int \<Rightarrow> int \<Rightarrow> 'a semRuns \<Rightarrow> 'a semRuns \<Rightarrow> bool" for limit maxWaiters where
  start: "sr_phase r k = NotStarted \<Longrightarrow> semStep limit maxWaiters r (startRun limit maxWaiters k r)"
| abort: "\<not> sr_aborted r k \<Longrightarrow> semStep limit maxWaiters r (abortRun k r)"
| begin_task: "sr_phase r k = Granted \<Longrightarrow> semStep limit maxWaiters r (beginTask k r)"
| end_task: "sr_phase r k = Running \<Longrightarrow> semStep limit maxWaiters r (endTask k failed r)"

inductive_cases semStepE: "semStep limit maxWaiters r r'"

definition initialRuns :: "'a semRuns" where
  "initialRuns = \<lparr>sr_sem = \<lparr>sm_active = 0, sm_waiters = []\<rparr>, sr_phase = (\<lambda>_. NotStarted), sr_aborted = (\<lambda>_. False)\<rparr>"

section \<open>The semaphore's invariant\<close>

definition holdersOf :: "('a \<Rightarrow> runPhase) \<Rightarrow> 'a set" where
  "holdersOf phase = {k. phase k = Granted \<or> phase k = Running}"

definition waitingOf :: "('a \<Rightarrow> runPhase) \<Rightarrow> 'a set" where
  "waitingOf phase = {k. phase k = Waiting}"

definition semOk :: "int \<Rightarrow> int \<Rightarrow> 'a semRuns \<Rightarrow> bool" where
  "semOk limit maxWaiters r \<longleftrightarrow>
    finite (holdersOf (sr_phase r)) \<and> sm_active (sr_sem r) = int (card (holdersOf (sr_phase r))) \<and>
    sm_active (sr_sem r) \<le> limit \<and>
    distinct (sm_waiters (sr_sem r)) \<and> set (sm_waiters (sr_sem r)) = waitingOf (sr_phase r) \<and>
    (sm_waiters (sr_sem r) \<noteq> [] \<longrightarrow> sm_active (sr_sem r) = limit \<and>
      int (length (sm_waiters (sr_sem r))) \<le> maxWaiters) \<and>
    (\<forall>k\<in>waitingOf (sr_phase r). \<not> sr_aborted r k)"

lemma semOk_initial: "0 \<le> limit \<Longrightarrow> semOk limit maxWaiters initialRuns"
  by (simp add: semOk_def initialRuns_def holdersOf_def waitingOf_def)

lemma holdersOf_upd: "holdersOf (phase(k := p)) =
  (if p = Granted \<or> p = Running then insert k (holdersOf phase) else holdersOf phase - {k})"
  by (auto simp: holdersOf_def)

lemma waitingOf_upd: "waitingOf (phase(k := p)) =
  (if p = Waiting then insert k (waitingOf phase) else waitingOf phase - {k})"
  by (auto simp: waitingOf_def)

lemma in_phases:
  "k \<in> holdersOf phase \<longleftrightarrow> phase k = Granted \<or> phase k = Running" "k \<in> waitingOf phase \<longleftrightarrow> phase k = Waiting"
  by (simp_all add: holdersOf_def waitingOf_def)

lemma semOk_start:
  assumes "semOk limit maxWaiters r" "sr_phase r k = NotStarted"
  shows "semOk limit maxWaiters (startRun limit maxWaiters k r)"
proof -
  have fresh: "k \<notin> holdersOf (sr_phase r)" "k \<notin> waitingOf (sr_phase r)"
    using assms(2) by (simp_all add: in_phases)
  note simps = startRun_def acquire_def Let_def semOk_def holdersOf_upd waitingOf_upd
  consider "sr_aborted r k" | "\<not> sr_aborted r k" "sm_active (sr_sem r) < limit"
    | "\<not> sr_aborted r k" "\<not> sm_active (sr_sem r) < limit" "maxWaiters \<le> int (length (sm_waiters (sr_sem r)))"
    | "\<not> sr_aborted r k" "\<not> sm_active (sr_sem r) < limit" "int (length (sm_waiters (sr_sem r))) < maxWaiters"
    by linarith
  then show ?thesis
    by cases (use assms(1) fresh in \<open>auto simp: simps\<close>)
qed

lemma semOk_abort:
  assumes "semOk limit maxWaiters r"
  shows "semOk limit maxWaiters (abortRun k r)"
proof (cases "k \<in> set (sm_waiters (sr_sem r))")
  case True
  then have "k \<notin> holdersOf (sr_phase r)" using assms by (auto simp: semOk_def in_phases)
  moreover have "remove1 k (sm_waiters (sr_sem r)) \<noteq> [] \<Longrightarrow> sm_waiters (sr_sem r) \<noteq> []" by auto
  moreover have "length (remove1 k (sm_waiters (sr_sem r))) \<le> length (sm_waiters (sr_sem r))"
    by (simp add: length_remove1)
  ultimately show ?thesis
    using assms True
    by (auto simp: abortRun_def abortWaiter_def Let_def semOk_def holdersOf_upd waitingOf_upd)
next
  case False
  then show ?thesis using assms by (auto simp: abortRun_def Let_def semOk_def in_phases)
qed

lemma semOk_settle:
  assumes "semOk limit maxWaiters r" "k \<in> holdersOf (sr_phase r)"
  shows "semOk limit maxWaiters (settleRun k result r)"
proof -
  note ok = assms(1) [unfolded semOk_def]
  have k: "k \<notin> waitingOf (sr_phase r)" using assms(2) by (auto simp: in_phases)
  show ?thesis
  proof (cases "sm_waiters (sr_sem r)")
    case Nil
    let ?phase = "(sr_phase r)(k := Settled result)"
    have settled: "settleRun k result r = r\<lparr>sr_sem := (sr_sem r)\<lparr>sm_active := sm_active (sr_sem r) - 1\<rparr>, sr_phase := ?phase\<rparr>"
      by (simp add: settleRun_def release_def Nil Let_def)
    have holders: "holdersOf ?phase = holdersOf (sr_phase r) - {k}" by (simp add: holdersOf_upd)
    have waiting: "waitingOf ?phase = waitingOf (sr_phase r)" using k by (simp add: waitingOf_upd)
    have "Suc (card (holdersOf (sr_phase r) - {k})) = card (holdersOf (sr_phase r))"
      using ok assms(2) by (intro card_Suc_Diff1) blast+
    moreover have "finite (holdersOf (sr_phase r) - {k})" using ok by blast
    ultimately show ?thesis
      using ok Nil unfolding settled semOk_def by (simp add: holders waiting)
  next
    case (Cons w ws)
    have w: "w \<in> waitingOf (sr_phase r)" using ok Cons by auto
    moreover have "w \<notin> holdersOf (sr_phase r)" "w \<noteq> k" using w k by (auto simp: in_phases)
    ultimately have w: "w \<in> waitingOf (sr_phase r)" "w \<notin> holdersOf (sr_phase r)" "w \<noteq> k" by simp_all
    define phase where "phase = (sr_phase r)(k := Settled result, w := Granted)"
    have settled: "settleRun k result r = r\<lparr>sr_sem := (sr_sem r)\<lparr>sm_waiters := ws\<rparr>, sr_phase := phase\<rparr>"
      by (simp add: settleRun_def release_def Cons Let_def phase_def)
    have holders: "holdersOf phase = insert w (holdersOf (sr_phase r) - {k})"
      using w(3) by (auto simp: phase_def holdersOf_def)
    have "card (holdersOf phase) = card (holdersOf (sr_phase r))"
      using ok assms(2) w(2) card_Suc_Diff1 [of "holdersOf (sr_phase r)" k] by (simp add: holders)
    moreover have "set ws = waitingOf phase"
      using ok Cons k w by (auto simp: phase_def waitingOf_upd)
    moreover have "finite (holdersOf phase)" using ok by (simp add: holders)
    moreover have "distinct ws" "int (length ws) \<le> maxWaiters" "sm_active (sr_sem r) = limit"
      using ok Cons by simp_all
    moreover have "waitingOf phase \<subseteq> waitingOf (sr_phase r)" by (auto simp: phase_def waitingOf_def)
    ultimately show ?thesis using ok unfolding settled semOk_def by auto
  qed
qed

lemma semOk_step: "semStep limit maxWaiters r r' \<Longrightarrow> semOk limit maxWaiters r \<Longrightarrow> semOk limit maxWaiters r'"
proof (induction rule: semStep.induct)
  case (begin_task r k)
  have holder: "k \<in> holdersOf (sr_phase r)" using begin_task.hyps by (simp add: in_phases)
  show ?case
  proof (cases "sr_aborted r k")
    case False
    have "holdersOf ((sr_phase r)(k := Running)) = holdersOf (sr_phase r)"
      "waitingOf ((sr_phase r)(k := Running)) = waitingOf (sr_phase r)"
      using begin_task.hyps by (auto simp: holdersOf_def waitingOf_def)
    with begin_task.prems have "semOk limit maxWaiters (r\<lparr>sr_phase := (sr_phase r)(k := Running)\<rparr>)"
      unfolding semOk_def by auto
    with False show ?thesis by (simp add: beginTask_def)
  qed (simp add: beginTask_def semOk_settle begin_task.prems holder)
qed (simp_all add: semOk_start semOk_abort endTask_def semOk_settle in_phases)

lemma semOk_reachable:
  assumes "(semStep limit maxWaiters)\<^sup>*\<^sup>* initialRuns r" "0 \<le> limit"
  shows "semOk limit maxWaiters r"
  using assms(1) by (induction rule: rtranclp_induct) (auto intro: semOk_step semOk_initial [OF assms(2)])

section \<open>Single flight\<close>

text \<open>
  A promise is a number. \<open>sfCall\<close> is the part of \<open>run\<close> before its \<open>await\<close>: it joins the promise in
  flight or starts a task. Once that promise settles, the run that started it cleans up.
\<close>

record 'k flights =
  sf_requests :: "'k \<Rightarrow> nat option"
  sf_next :: nat
  sf_keyOf :: "nat \<Rightarrow> 'k option"
  sf_settled :: "nat set"

definition sfCall :: "'k \<Rightarrow> 'k flights \<Rightarrow> nat \<times> 'k flights" where
  "sfCall key s =
    (case sf_requests s key of
       Some inFlight \<Rightarrow> (inFlight, s)
     | None \<Rightarrow> (sf_next s, s\<lparr>sf_requests := (sf_requests s)(key \<mapsto> sf_next s), sf_next := Suc (sf_next s),
                         sf_keyOf := (sf_keyOf s)(sf_next s \<mapsto> key)\<rparr>))"

definition sfCleanUp :: "'k \<Rightarrow> nat \<Rightarrow> 'k flights \<Rightarrow> 'k flights" where
  "sfCleanUp key pending s =
    (if sf_requests s key = Some pending then s\<lparr>sf_requests := (sf_requests s)(key := None)\<rparr> else s)"

inductive sfStep :: "'k flights \<Rightarrow> 'k flights \<Rightarrow> bool" where
  call: "sfStep s (snd (sfCall key s))"
| settle: "sf_keyOf s p = Some key \<Longrightarrow> p \<notin> sf_settled s \<Longrightarrow> sfStep s (s\<lparr>sf_settled := insert p (sf_settled s)\<rparr>)"
| clean: "sf_keyOf s p = Some key \<Longrightarrow> p \<in> sf_settled s \<Longrightarrow> sfStep s (sfCleanUp key p s)"

definition noFlights :: "'k flights" where
  "noFlights = \<lparr>sf_requests = Map.empty, sf_next = 0, sf_keyOf = Map.empty, sf_settled = {}\<rparr>"

definition flightsOk :: "'k flights \<Rightarrow> bool" where
  "flightsOk s \<longleftrightarrow>
    (\<forall>key p. sf_requests s key = Some p \<longrightarrow> sf_keyOf s p = Some key) \<and>
    (\<forall>key p. sf_keyOf s p = Some key \<and> p \<notin> sf_settled s \<longrightarrow> sf_requests s key = Some p) \<and>
    (\<forall>p. sf_next s \<le> p \<longrightarrow> sf_keyOf s p = None \<and> p \<notin> sf_settled s)"

lemma flightsOk_requests: "flightsOk s \<Longrightarrow> sf_requests s key = Some p \<Longrightarrow> sf_keyOf s p = Some key"
  unfolding flightsOk_def by blast

lemma flightsOk_pending: "flightsOk s \<Longrightarrow> sf_keyOf s p = Some key \<Longrightarrow> p \<notin> sf_settled s \<Longrightarrow> sf_requests s key = Some p"
  unfolding flightsOk_def by blast

lemma flightsOk_new: "flightsOk s \<Longrightarrow> sf_next s \<le> p \<Longrightarrow> sf_keyOf s p = None \<and> p \<notin> sf_settled s"
  unfolding flightsOk_def by blast

lemmas flights_ok = flightsOk_requests flightsOk_pending flightsOk_new

lemma flightsOkI:
  assumes "\<And>key p. sf_requests s key = Some p \<Longrightarrow> sf_keyOf s p = Some key"
    "\<And>key p. sf_keyOf s p = Some key \<Longrightarrow> p \<notin> sf_settled s \<Longrightarrow> sf_requests s key = Some p"
    "\<And>p. sf_next s \<le> p \<Longrightarrow> sf_keyOf s p = None \<and> p \<notin> sf_settled s"
  shows "flightsOk s"
  unfolding flightsOk_def using assms by blast

lemma flightsOk_call:
  assumes "flightsOk s" shows "flightsOk (snd (sfCall key s))"
proof (cases "sf_requests s key")
  case None
  let ?p = "sf_next s"
  have new: "sf_keyOf s ?p = None" using flightsOk_new [OF assms, of ?p] by simp
  have apart: "p \<noteq> ?p" if "sf_keyOf s p = Some k" for p k using new that by auto
  have started: "snd (sfCall key s) = s\<lparr>sf_requests := (sf_requests s)(key \<mapsto> ?p), sf_next := Suc ?p,
      sf_keyOf := (sf_keyOf s)(?p \<mapsto> key)\<rparr>" by (simp add: sfCall_def None)
  show ?thesis unfolding started
  proof (rule flightsOkI, goal_cases)
    case (1 k p)
    then show ?case using flightsOk_requests [OF assms] apart by (auto split: if_splits)
  next
    case (2 k p)
    then show ?case using flightsOk_pending [OF assms] None by (auto split: if_splits)
  next
    case (3 p)
    then show ?case using flightsOk_new [OF assms, of p] by simp
  qed
qed (simp add: sfCall_def assms)

lemma flightsOk_step: "sfStep s s' \<Longrightarrow> flightsOk s \<Longrightarrow> flightsOk s'"
proof (induction rule: sfStep.induct)
  case (call s key)
  then show ?case by (simp add: flightsOk_call)
next
  case (settle s p key)
  have old: "\<not> sf_next s \<le> p" using flightsOk_new [OF settle.prems, of p] settle.hyps(1) by auto
  show ?case
  proof (rule flightsOkI, goal_cases)
    case (1 k q)
    then show ?case using flightsOk_requests [OF settle.prems] by simp
  next
    case (2 k q)
    then show ?case using flightsOk_pending [OF settle.prems] by simp
  next
    case (3 q)
    then show ?case using flightsOk_new [OF settle.prems, of q] old by auto
  qed
next
  case (clean s p key)
  show ?case
  proof (cases "sf_requests s key = Some p")
    case True
    then have cleaned: "sfCleanUp key p s = s\<lparr>sf_requests := (sf_requests s)(key := None)\<rparr>"
      by (simp add: sfCleanUp_def)
    show ?thesis unfolding cleaned
    proof (rule flightsOkI, goal_cases)
      case (1 k q)
      then show ?case using flightsOk_requests [OF clean.prems] by (auto split: if_splits)
    next
      case (2 k q)
      then have "sf_requests s k = Some q" using flightsOk_pending [OF clean.prems] by simp
      moreover have "k \<noteq> key" using calculation True 2 clean.hyps(2) by auto
      ultimately show ?case by simp
    next
      case (3 q)
      then show ?case using flightsOk_new [OF clean.prems, of q] by simp
    qed
  qed (simp add: sfCleanUp_def clean.prems)
qed

lemma flightsOk_reachable: "sfStep\<^sup>*\<^sup>* noFlights s \<Longrightarrow> flightsOk s"
proof (induction rule: rtranclp_induct)
  case base
  then show ?case by (simp add: noFlights_def flightsOk_def)
next
  case (step s s')
  then show ?case by (blast intro: flightsOk_step)
qed

section \<open>Limited concurrency\<close>

definition QUERY_CONCURRENCY :: nat where "QUERY_CONCURRENCY = 4"

text \<open>A worker is one call of \<open>runNext\<close> with its tail: about to take a task, awaiting one, or settled.\<close>

datatype worker = Ready | Busy nat | Done | Failed nat

record limitedRun =
  lr_tasks :: nat
  lr_nextIndex :: nat
  lr_workers :: "worker list"
  lr_finished :: "nat list"

definition startLimited :: "nat \<Rightarrow> limitedRun" where
  "startLimited n = \<lparr>lr_tasks = n, lr_nextIndex = 0,
     lr_workers = replicate (min QUERY_CONCURRENCY n) Ready, lr_finished = []\<rparr>"

definition takeTask :: "nat \<Rightarrow> limitedRun \<Rightarrow> limitedRun" where
  "takeTask w r = r\<lparr>lr_nextIndex := Suc (lr_nextIndex r),
     lr_workers := (lr_workers r)[w := (if lr_nextIndex r < lr_tasks r then Busy (lr_nextIndex r) else Done)]\<rparr>"

definition finishTask :: "nat \<Rightarrow> nat \<Rightarrow> limitedRun \<Rightarrow> limitedRun" where
  "finishTask w i r = r\<lparr>lr_workers := (lr_workers r)[w := Ready], lr_finished := lr_finished r @ [i]\<rparr>"

definition failTask :: "nat \<Rightarrow> nat \<Rightarrow> limitedRun \<Rightarrow> limitedRun" where
  "failTask w i r = r\<lparr>lr_workers := (lr_workers r)[w := Failed i]\<rparr>"

inductive limitedStep :: "limitedRun \<Rightarrow> limitedRun \<Rightarrow> bool" where
  take_task: "w < length (lr_workers r) \<Longrightarrow> lr_workers r ! w = Ready \<Longrightarrow> limitedStep r (takeTask w r)"
| finish_task: "w < length (lr_workers r) \<Longrightarrow> lr_workers r ! w = Busy i \<Longrightarrow> limitedStep r (finishTask w i r)"
| fail_task: "w < length (lr_workers r) \<Longrightarrow> lr_workers r ! w = Busy i \<Longrightarrow> limitedStep r (failTask w i r)"

fun taskOf :: "worker \<Rightarrow> nat multiset" where
  "taskOf (Busy i) = {#i#}"
| "taskOf (Failed i) = {#i#}"
| "taskOf _ = {#}"

definition tasksOf :: "worker list \<Rightarrow> nat multiset" where
  "tasksOf workers = sum_list (map taskOf workers)"

lemma tasksOf_update:
  assumes "w < length workers"
  shows "tasksOf (workers[w := x]) + taskOf (workers ! w) = tasksOf workers + taskOf x"
proof -
  have "workers = take w workers @ workers ! w # drop (Suc w) workers"
    by (rule id_take_nth_drop [OF assms])
  then have "tasksOf workers = tasksOf (take w workers) + taskOf (workers ! w) + tasksOf (drop (Suc w) workers)"
    by (metis (no_types) tasksOf_def add.assoc list.simps(9) map_append sum_list.Cons sum_list_append)
  moreover have "tasksOf (workers[w := x]) = tasksOf (take w workers) + taskOf x + tasksOf (drop (Suc w) workers)"
    by (simp add: tasksOf_def upd_conv_take_nth_drop [OF assms])
  ultimately show ?thesis by simp
qed

definition limitedOk :: "nat \<Rightarrow> limitedRun \<Rightarrow> bool" where
  "limitedOk n r \<longleftrightarrow> lr_tasks r = n \<and> length (lr_workers r) = min QUERY_CONCURRENCY n \<and>
    mset (lr_finished r) + tasksOf (lr_workers r) = mset [0..<min (lr_nextIndex r) n] \<and>
    (Done \<in> set (lr_workers r) \<longrightarrow> n \<le> lr_nextIndex r)"

lemma tasksOf_ready: "tasksOf (replicate k Ready) = {#}"
  by (induction k) (simp_all add: tasksOf_def)

lemma limitedOk_start: "limitedOk n (startLimited n)"
  by (simp add: limitedOk_def startLimited_def tasksOf_ready)

lemma limitedOk_step: "limitedStep r r' \<Longrightarrow> limitedOk n r \<Longrightarrow> limitedOk n r'"
proof (induction rule: limitedStep.induct)
  case (take_task w r)
  let ?x = "if lr_nextIndex r < lr_tasks r then Busy (lr_nextIndex r) else Done"
  have "tasksOf ((lr_workers r)[w := ?x]) = tasksOf (lr_workers r) + taskOf ?x"
    using tasksOf_update [OF take_task.hyps(1), of ?x] take_task.hyps(2) by simp
  moreover have "Done \<in> set ((lr_workers r)[w := ?x]) \<Longrightarrow> n \<le> Suc (lr_nextIndex r)"
    using take_task.prems set_update_subset_insert [of "lr_workers r" w ?x]
    by (auto simp: limitedOk_def split: if_splits)
  ultimately show ?case
    using take_task.prems
    by (auto simp: limitedOk_def takeTask_def min_def not_less le_Suc_eq not_less_eq_eq
        atLeast0_lessThan_Suc add.assoc [symmetric])
next
  case (finish_task w r i)
  have "tasksOf (lr_workers r) = add_mset i (tasksOf ((lr_workers r)[w := Ready]))"
    using tasksOf_update [OF finish_task.hyps(1), of Ready] finish_task.hyps(2) by simp
  moreover have "Done \<in> set ((lr_workers r)[w := Ready]) \<Longrightarrow> Done \<in> set (lr_workers r)"
    using set_update_subset_insert [of "lr_workers r" w Ready] by auto
  ultimately show ?case
    using finish_task.prems by (auto simp: limitedOk_def finishTask_def)
next
  case (fail_task w r i)
  have "tasksOf ((lr_workers r)[w := Failed i]) = tasksOf (lr_workers r)"
    using tasksOf_update [OF fail_task.hyps(1), of "Failed i"] fail_task.hyps(2) by simp
  moreover have "Done \<in> set ((lr_workers r)[w := Failed i]) \<Longrightarrow> Done \<in> set (lr_workers r)"
    using set_update_subset_insert [of "lr_workers r" w "Failed i"] by auto
  ultimately show ?case using fail_task.prems by (auto simp: limitedOk_def failTask_def)
qed

lemma limitedOk_reachable: "limitedStep\<^sup>*\<^sup>* (startLimited n) r \<Longrightarrow> limitedOk n r"
  by (induction rule: rtranclp_induct) (auto intro: limitedOk_step limitedOk_start)

section \<open>Properties\<close>

text \<open>
  C26. However calls, aborts and tasks interleave, no more tasks run at once than the semaphore's
  limit, its counter is the number of permits held, nobody waits while a permit is free, and at most
  \<open>maxWaiters\<close> wait.
\<close>
theorem semaphore_bounded:
  assumes "(semStep limit maxWaiters)\<^sup>*\<^sup>* initialRuns r" "0 \<le> limit"
  shows "int (card {k. sr_phase r k = Running}) \<le> limit \<and>
    sm_active (sr_sem r) = int (card {k. sr_phase r k = Granted \<or> sr_phase r k = Running}) \<and>
    (sm_active (sr_sem r) < limit \<longrightarrow> (\<forall>k. sr_phase r k \<noteq> Waiting)) \<and>
    int (card {k. sr_phase r k = Waiting}) \<le> max 0 maxWaiters"
proof -
  note ok = semOk_reachable [OF assms, unfolded semOk_def]
  have "card {k. sr_phase r k = Running} \<le> card (holdersOf (sr_phase r))"
    using ok by (intro card_mono) (auto simp: holdersOf_def)
  moreover have "card {k. sr_phase r k = Waiting} = length (sm_waiters (sr_sem r))"
    using ok by (metis distinct_card waitingOf_def)
  moreover have "int (length (sm_waiters (sr_sem r))) \<le> max 0 maxWaiters"
    using ok by (cases "sm_waiters (sr_sem r)") auto
  moreover have "\<forall>k. sr_phase r k \<noteq> Waiting" if "sm_active (sr_sem r) < limit"
  proof -
    have "sm_waiters (sr_sem r) = []" using ok that by auto
    then show ?thesis using ok by (auto simp: waitingOf_def)
  qed
  moreover have "sm_active (sr_sem r) = int (card {k. sr_phase r k = Granted \<or> sr_phase r k = Running})"
    "sm_active (sr_sem r) \<le> limit"
    using ok by (simp_all add: holdersOf_def)
  ultimately show ?thesis by (simp add: holdersOf_def)
qed

definition twoRuns :: "nat semRuns" where
  "twoRuns = startRun 1 5 2 (startRun 1 5 1 initialRuns)"

lemma twoRuns_reachable: "(semStep 1 5)\<^sup>*\<^sup>* initialRuns twoRuns"
proof -
  have "semStep 1 5 initialRuns (startRun 1 5 (1::nat) initialRuns)"
    by (rule semStep.start) (simp add: initialRuns_def)
  moreover have "semStep 1 5 (startRun 1 5 1 initialRuns) twoRuns" unfolding twoRuns_def
    by (rule semStep.start) (simp add: startRun_def initialRuns_def acquire_def)
  ultimately show ?thesis by (meson rtranclp.rtrancl_refl rtranclp.rtrancl_into_rtrancl)
qed

theorem semaphore_bounded_witness: "int (card {k. sr_phase twoRuns k = Waiting}) \<le> max 0 5"
  using semaphore_bounded [OF twoRuns_reachable] by simp

lemma semStep_keeps_order:
  assumes "semOk limit maxWaiters r" "semStep limit maxWaiters r r'"
  shows "\<exists>late. sm_waiters (sr_sem r') = filter (\<lambda>w. sr_phase r' w = Waiting) (sm_waiters (sr_sem r)) @ late \<and>
    (\<forall>w\<in>set late. sr_phase r w = NotStarted)"
proof -
  note ok = assms(1)[unfolded semOk_def waitingOf_def]
  have kept: "filter (\<lambda>w. sr_phase r w = Waiting) (sm_waiters (sr_sem r)) = sm_waiters (sr_sem r)"
    using ok by (auto intro!: filter_True)
  have settled: "sm_waiters (sr_sem (settleRun k result r)) =
      filter (\<lambda>w. sr_phase (settleRun k result r) w = Waiting) (sm_waiters (sr_sem r))"
    if "sr_phase r k \<noteq> Waiting" for k result
    using ok that
    by (cases "sm_waiters (sr_sem r)")
      (auto simp: settleRun_def release_def intro!: filter_True [symmetric])
  show ?thesis using assms(2)
  proof cases
    case (start k)
    have "k \<notin> set (sm_waiters (sr_sem r))" using ok start by auto
    then have same: "filter (\<lambda>w. ((sr_phase r)(k := p)) w = Waiting) (sm_waiters (sr_sem r)) =
        sm_waiters (sr_sem r)" for p
      using ok by (auto intro!: filter_True)
    show ?thesis using start same
      by (simp add: startRun_def acquire_def del: fun_upd_apply)
  next
    case (abort k)
    have "filter (\<lambda>w. ((sr_phase r)(k := Settled RunAborted)) w = Waiting) (sm_waiters (sr_sem r)) =
        remove1 k (sm_waiters (sr_sem r))"
      using ok by (auto simp: distinct_remove1_removeAll removeAll_filter_not_eq intro!: filter_cong)
    then show ?thesis using abort kept
      by (simp add: abortRun_def abortWaiter_def Let_def del: fun_upd_apply)
  next
    case (begin_task k)
    then show ?thesis using settled [of k] kept ok
      by (auto simp: beginTask_def intro!: filter_True [symmetric])
  next
    case (end_task k failed)
    then show ?thesis using settled [of k] by (simp add: endTask_def)
  qed
qed

text \<open>
  C27. The queue is first come, first served. While a run waits, some run holds a permit, and
  whichever of those settles first hands its permit to the head of the queue; the others keep their
  places. A step never reorders the queue: those who still wait keep their order, and a run that
  begins to wait goes behind all of them.
\<close>
theorem semaphore_hands_over:
  assumes "(semStep limit maxWaiters)\<^sup>*\<^sup>* initialRuns r" "0 < limit" "sr_phase r k = Waiting"
  shows "(\<exists>first others. sm_waiters (sr_sem r) = first # others \<and>
      (\<exists>holder. sr_phase r holder = Granted \<or> sr_phase r holder = Running) \<and>
      (\<forall>holder result. sr_phase r holder = Granted \<or> sr_phase r holder = Running \<longrightarrow>
        sr_phase (settleRun holder result r) first = Granted \<and>
        sm_waiters (sr_sem (settleRun holder result r)) = others)) \<and>
    k \<in> set (sm_waiters (sr_sem r)) \<and>
    (\<forall>r'. semStep limit maxWaiters r r' \<longrightarrow>
      (\<exists>late. sm_waiters (sr_sem r') =
          filter (\<lambda>w. sr_phase r' w = Waiting) (sm_waiters (sr_sem r)) @ late \<and>
        (\<forall>w\<in>set late. sr_phase r w = NotStarted)))"
proof -
  note reached = semOk_reachable [OF assms(1) less_imp_le [OF assms(2)]]
  note ok = reached [unfolded semOk_def]
  have k: "k \<in> set (sm_waiters (sr_sem r))" using ok assms(3) by (simp add: waitingOf_def)
  then obtain first others where waiters: "sm_waiters (sr_sem r) = first # others"
    by (cases "sm_waiters (sr_sem r)") auto
  have "card (holdersOf (sr_phase r)) \<noteq> 0" using ok waiters assms(2) by auto
  then have "\<exists>holder. holder \<in> holdersOf (sr_phase r)" by (metis card.empty equals0I)
  then have "\<exists>holder. sr_phase r holder = Granted \<or> sr_phase r holder = Running" by (simp add: holdersOf_def)
  moreover have "sr_phase (settleRun holder result r) first = Granted \<and>
      sm_waiters (sr_sem (settleRun holder result r)) = others" for holder result
    by (simp add: settleRun_def release_def waiters Let_def)
  ultimately show ?thesis using waiters k semStep_keeps_order [OF reached] by blast
qed

theorem semaphore_hands_over_witness:
  "sr_phase twoRuns 2 = Waiting \<and>
   (\<exists>first others. sm_waiters (sr_sem twoRuns) = first # others \<and>
     sr_phase (settleRun 1 RunReturned twoRuns) first = Granted)"
proof -
  have phases: "sr_phase twoRuns 2 = Waiting" "sr_phase twoRuns 1 = Granted"
    by (simp_all add: twoRuns_def startRun_def initialRuns_def acquire_def)
  from semaphore_hands_over [OF twoRuns_reachable _ phases(1)] phases show ?thesis by force
qed

text \<open>
  C28. A key never has two tasks in flight, and a call made while its task is in flight joins it.
\<close>
theorem single_flight:
  assumes "sfStep\<^sup>*\<^sup>* noFlights s"
    and "sf_keyOf s p = Some key" "p \<notin> sf_settled s"
  shows "fst (sfCall key s) = p \<and> snd (sfCall key s) = s \<and>
    (\<forall>q. sf_keyOf s q = Some key \<and> q \<notin> sf_settled s \<longrightarrow> q = p)"
proof -
  note ok = flightsOk_reachable [OF assms(1)]
  have "sf_requests s key = Some p" by (rule flightsOk_pending [OF ok assms(2,3)])
  then show ?thesis using flightsOk_pending [OF ok] by (auto simp: sfCall_def)
qed

theorem single_flight_witness:
  "fst (sfCall ''k'' (snd (sfCall ''k'' noFlights))) = 0"
proof -
  have "sfStep\<^sup>*\<^sup>* noFlights (snd (sfCall ''k'' noFlights))" by (simp add: r_into_rtranclp sfStep.call)
  from single_flight [OF this, of 0 "''k''"] show ?thesis by (simp add: sfCall_def noFlights_def)
qed

text \<open>
  C29. The limited runner never awaits more than four tasks, starts no task twice, and where every
  worker returns, each task has finished exactly once.
\<close>
theorem limited_run:
  assumes "limitedStep\<^sup>*\<^sup>* (startLimited n) r"
  shows "length (filter (\<lambda>w. \<exists>i. w = Busy i) (lr_workers r)) \<le> 4 \<and>
    (\<forall>i. count (mset (lr_finished r) + tasksOf (lr_workers r)) i \<le> 1) \<and>
    (set (lr_workers r) \<subseteq> {Done} \<longrightarrow> mset (lr_finished r) = mset [0..<n])"
proof -
  note ok = limitedOk_reachable [OF assms, unfolded limitedOk_def QUERY_CONCURRENCY_def]
  have "length (filter (\<lambda>w. \<exists>i. w = Busy i) (lr_workers r)) \<le> length (lr_workers r)" by (rule length_filter_le)
  then have "length (filter (\<lambda>w. \<exists>i. w = Busy i) (lr_workers r)) \<le> 4" using ok by simp
  moreover have "count (mset (lr_finished r) + tasksOf (lr_workers r)) i \<le> 1" for i
  proof -
    have "mset (lr_finished r) + tasksOf (lr_workers r) = mset [0..<min (lr_nextIndex r) n]" using ok by blast
    then show ?thesis by (metis count_mset_0_iff distinct_count_atmost_1 distinct_upt le_numeral_extra(4) zero_le order.refl zero_less_one_class.zero_le_one)
  qed
  moreover have "mset (lr_finished r) = mset [0..<n]" if "set (lr_workers r) \<subseteq> {Done}"
  proof -
    have "\<forall>w\<in>set (lr_workers r). taskOf w = {#}" using that by auto
    then have "tasksOf (lr_workers r) = {#}" by (simp add: tasksOf_def sum_list_0 map_idI cong: map_cong)
    moreover have "n \<le> lr_nextIndex r \<or> n = 0"
    proof (cases "lr_workers r")
      case Nil
      then show ?thesis using ok by (auto simp: min_def split: if_splits)
    next
      case (Cons w ws)
      then show ?thesis using ok that by auto
    qed
    ultimately show ?thesis using ok by (auto simp: min_def split: if_splits)
  qed
  ultimately show ?thesis by blast
qed

definition oneTaskRun :: limitedRun where
  "oneTaskRun = takeTask 0 (finishTask 0 0 (takeTask 0 (startLimited 1)))"

theorem limited_run_witness:
  "set (lr_workers oneTaskRun) \<subseteq> {Done} \<and> mset (lr_finished oneTaskRun) = mset [0..<1]"
proof -
  have "limitedStep (startLimited 1) (takeTask 0 (startLimited 1))"
    by (rule take_task) (simp_all add: startLimited_def QUERY_CONCURRENCY_def)
  moreover have "limitedStep (takeTask 0 (startLimited 1)) (finishTask 0 0 (takeTask 0 (startLimited 1)))"
    by (rule finish_task) (simp_all add: takeTask_def startLimited_def QUERY_CONCURRENCY_def)
  moreover have "limitedStep (finishTask 0 0 (takeTask 0 (startLimited 1))) oneTaskRun"
    unfolding oneTaskRun_def
    by (rule take_task) (simp_all add: finishTask_def takeTask_def startLimited_def QUERY_CONCURRENCY_def)
  ultimately have "limitedStep\<^sup>*\<^sup>* (startLimited 1) oneTaskRun"
    by (meson converse_rtranclp_into_rtranclp r_into_rtranclp)
  moreover have "set (lr_workers oneTaskRun) \<subseteq> {Done}"
    by (simp add: oneTaskRun_def finishTask_def takeTask_def startLimited_def QUERY_CONCURRENCY_def)
  ultimately show ?thesis using limited_run [of 1 oneTaskRun] by blast
qed

end
