(* ===== verification/NsgBytes.thy ===== *)
theory NsgBytes
  imports Prelude "HOL-Library.Word" "HOL-Library.Monad_Syntax"
begin

text \<open>
  Reading binary data as JavaScript's \<open>DataView\<close> does: a view is a list of bytes, a read gives the
  number at an offset, or throws a \<open>RangeError\<close> where it leaves the view. A function that may throw
  gives an option, \<open>None\<close> for the exception; one that may also return \<open>null\<close> gives an option of an
  option. Numbers read are integers, at most 64 bits wide.
\<close>

type_synonym bytes = "8 word list"

section \<open>Little-endian numbers\<close>

fun leValue :: "bytes \<Rightarrow> int" where
  "leValue [] = 0"
| "leValue (b # bs) = uint b + 256 * leValue bs"

lemma leValue_bounds: "0 \<le> leValue bs" "leValue bs < 256 ^ length bs"
proof -
  have "0 \<le> leValue bs \<and> leValue bs < 256 ^ length bs"
  proof (induction bs)
    case (Cons b bs)
    moreover have "0 \<le> uint b" "uint b < 256" using unsigned_less [of b] by simp_all
    ultimately show ?case by (auto simp: algebra_simps)
  qed simp
  then show "0 \<le> leValue bs" "leValue bs < 256 ^ length bs" by simp_all
qed

lemma leValue_zero: "leValue bs = 0 \<longleftrightarrow> (\<forall>b\<in>set bs. b = 0)"
proof (induction bs)
  case (Cons b bs)
  have "uint b = 0 \<longleftrightarrow> b = 0" by (simp add: uint_0_iff)
  moreover have "0 \<le> uint b" "0 \<le> leValue bs" by (simp_all add: leValue_bounds)
  ultimately have "uint b + 256 * leValue bs = 0 \<longleftrightarrow> b = 0 \<and> leValue bs = 0" by linarith
  with Cons show ?case by simp
qed simp

section \<open>Reads\<close>

definition inRange :: "int \<Rightarrow> int \<Rightarrow> bytes \<Rightarrow> bool" where
  "inRange offset width view \<longleftrightarrow> 0 \<le> offset \<and> offset + width \<le> int (length view)"

definition getUint :: "nat \<Rightarrow> bytes \<Rightarrow> int \<Rightarrow> int option" where
  "getUint width view offset =
    (if inRange offset (int width) view then Some (leValue (take width (drop (nat offset) view))) else None)"

definition getUint8 :: "bytes \<Rightarrow> int \<Rightarrow> int option" where "getUint8 = getUint 1"
definition getUint16 :: "bytes \<Rightarrow> int \<Rightarrow> int option" where "getUint16 = getUint 2"
definition getUint32 :: "bytes \<Rightarrow> int \<Rightarrow> int option" where "getUint32 = getUint 4"
definition getBigUint64 :: "bytes \<Rightarrow> int \<Rightarrow> int option" where "getBigUint64 = getUint 8"

definition getInt32 :: "bytes \<Rightarrow> int \<Rightarrow> int option" where
  "getInt32 view offset = map_option (\<lambda>n. sint (word_of_int n :: 32 word)) (getUint32 view offset)"

lemmas reads = getUint8_def getUint16_def getUint32_def getBigUint64_def

lemma getUint_range: "getUint width view offset \<noteq> None \<longleftrightarrow> inRange offset (int width) view"
  by (simp add: getUint_def)

lemma getUint_bounds:
  assumes "getUint width view offset = Some n"
  shows "0 \<le> n" "n < 256 ^ width"
proof -
  from assms have "inRange offset (int width) view" and n: "n = leValue (take width (drop (nat offset) view))"
    by (auto simp: getUint_def split: if_splits)
  then have "length (take width (drop (nat offset) view)) = width" by (auto simp: inRange_def)
  then show "0 \<le> n" "n < 256 ^ width"
    using leValue_bounds [of "take width (drop (nat offset) view)"] n by simp_all
qed

lemma getUint8_bounds: "getUint8 view offset = Some n \<Longrightarrow> 0 \<le> n \<and> n < 256"
  using getUint_bounds [of 1 view offset n] by (simp add: reads)

lemma getUint16_bounds: "getUint16 view offset = Some n \<Longrightarrow> 0 \<le> n \<and> n < 65536"
  using getUint_bounds [of 2 view offset n] by (simp add: reads)

lemma getUint32_bounds: "getUint32 view offset = Some n \<Longrightarrow> 0 \<le> n \<and> n < 4294967296"
  using getUint_bounds [of 4 view offset n] by (simp add: reads)

lemma getBigUint64_bounds: "getBigUint64 view offset = Some n \<Longrightarrow> 0 \<le> n \<and> n < 18446744073709551616"
  using getUint_bounds [of 8 view offset n] by (simp add: reads)

lemma getUint_take:
  assumes "inRange offset (int width) (take n view)"
  shows "getUint width (take n view) offset = getUint width view offset"
proof -
  have "nat offset + width \<le> n" "inRange offset (int width) view" using assms by (auto simp: inRange_def)
  then show ?thesis using assms by (simp add: getUint_def take_drop min_def)
qed

section \<open>Computations that do not throw\<close>

named_theorems returns

lemma returns_Some [returns]: "Some x \<noteq> None" by simp

lemma returns_bind [returns]:
  assumes "m \<noteq> None" "\<And>x. m = Some x \<Longrightarrow> f x \<noteq> None"
  shows "m \<bind> f \<noteq> None"
  using assms by (cases m) auto

lemma returns_if [returns]: "(P \<Longrightarrow> a \<noteq> None) \<Longrightarrow> (\<not> P \<Longrightarrow> b \<noteq> None) \<Longrightarrow> (if P then a else b) \<noteq> None"
  by simp

lemma returns_getUint8 [returns]: "inRange offset 1 view \<Longrightarrow> getUint8 view offset \<noteq> None"
  using getUint_range [of 1 view offset] by (simp add: reads)

lemma returns_getUint16 [returns]: "inRange offset 2 view \<Longrightarrow> getUint16 view offset \<noteq> None"
  using getUint_range [of 2 view offset] by (simp add: reads)

lemma returns_getUint32 [returns]: "inRange offset 4 view \<Longrightarrow> getUint32 view offset \<noteq> None"
  using getUint_range [of 4 view offset] by (simp add: reads)

lemma returns_getBigUint64 [returns]: "inRange offset 8 view \<Longrightarrow> getBigUint64 view offset \<noteq> None"
  using getUint_range [of 8 view offset] by (simp add: reads)

lemma returns_getInt32 [returns]: "inRange offset 4 view \<Longrightarrow> getInt32 view offset \<noteq> None"
  using returns_getUint32 by (simp add: getInt32_def)

section \<open>\<open>binary.ts\<close>\<close>

definition hasByteRange :: "int \<Rightarrow> int \<Rightarrow> int \<Rightarrow> bool" where
  "hasByteRange offset width limit \<longleftrightarrow> 0 \<le> offset \<and> 0 \<le> width \<and> offset \<le> limit - width"

text \<open>The low bits of a number, \<open>x & mask\<close> for a mask of ones.\<close>

definition lowBits :: "nat \<Rightarrow> int \<Rightarrow> int" where
  "lowBits n x = take_bit n x"

lemma lowBits_bounds: "0 \<le> lowBits n x" "lowBits n x < 2 ^ n"
  by (simp_all add: lowBits_def)

end
