(* ===== verification/NsgTypes.thy ===== *)
theory NsgTypes
  imports NsgBytes TextParts
begin

text \<open>
  The data of the parser of NSG recordings (apps/client/src/lib/nsg-parser/model.ts): JSON values,
  events, cells, signaling messages. Times are microseconds since the start of a recording. Where
  the source guards a number with \<open>Number.isFinite\<close> the guard always holds here: JSON and the
  decoders only make finite numbers.
\<close>

section \<open>JSON\<close>

datatype json =
    JNull
  | JBool bool
  | JNum number
  | JStr string
  | JArr "json list"
  | JObj "(string \<times> json) list"

type_synonym jsonObject = "(string \<times> json) list"

text \<open>\<open>data.key\<close>; \<open>None\<close> is \<open>undefined\<close>. A spread and an assignment keep the place of a known key.\<close>

definition field :: "jsonObject \<Rightarrow> string \<Rightarrow> json option" where "field = map_of"

fun setField :: "string \<Rightarrow> json \<Rightarrow> jsonObject \<Rightarrow> jsonObject" where
  "setField key value [] = [(key, value)]"
| "setField key value ((k, v) # obj) = (if k = key then (k, value) # obj else (k, v) # setField key value obj)"

definition assignFields :: "jsonObject \<Rightarrow> jsonObject \<Rightarrow> jsonObject" where
  "assignFields obj additions = fold (\<lambda>(k, v). setField k v) additions obj"

definition deleteField :: "string \<Rightarrow> jsonObject \<Rightarrow> jsonObject" where
  "deleteField key obj = filter (\<lambda>(k, _). k \<noteq> key) obj"

lemma field_setField: "field (setField key value obj) k = (if k = key then Some value else field obj k)"
  unfolding field_def by (induction key "value" obj rule: setField.induct) auto

lemma field_deleteField: "field (deleteField key obj) k = (if k = key then None else field obj k)"
  by (induction obj) (auto simp: field_def deleteField_def)

definition jInt :: "int \<Rightarrow> json" where "jInt n = JNum (of_int n)"
definition jIntOr :: "int option \<Rightarrow> json" where "jIntOr v = (case v of None \<Rightarrow> JNull | Some n \<Rightarrow> jInt n)"
definition jStrOr :: "string option \<Rightarrow> json" where "jStrOr v = (case v of None \<Rightarrow> JNull | Some t \<Rightarrow> JStr t)"
definition jNumOr :: "number option \<Rightarrow> json" where "jNumOr v = (case v of None \<Rightarrow> JNull | Some x \<Rightarrow> JNum x)"
definition jBoolOr :: "bool option \<Rightarrow> json" where "jBoolOr v = (case v of None \<Rightarrow> JNull | Some b \<Rightarrow> JBool b)"

section \<open>Points in time\<close>

record timelinePoint =
  tp_elapsedUs :: int
  tp_recordOffset :: int

record nsgTimestamp = timelinePoint +
  ts_timestampUs :: int
  ts_timestampMs :: int

section \<open>Signaling messages\<close>

datatype signalingDirection = DirUL | DirDL | DirUnknown
datatype signalingRat = SigLte | SigNr
datatype signalingLayer = LayerRrc | LayerNas

record signalingMessage =
  sm_packetLength :: int
  sm_logCode :: int
  sm_version :: string
  sm_rat :: signalingRat
  sm_layer :: signalingLayer
  sm_direction :: signalingDirection
  sm_channel :: "string option"
  sm_pduType :: "string option"
  sm_pduId :: "int option"
  sm_pci :: "int option"
  sm_channelNumber :: "int option"
  sm_rbid :: "int option"
  sm_payloadBytes :: int
  sm_payload :: bytes
  sm_metadata :: jsonObject

section \<open>Events and cells\<close>

record nsgEvent = nsgTimestamp +
  ev_id :: int
  ev_name :: string
  ev_marker :: "int option"
  ev_streamIndex :: int
  ev_data :: jsonObject

datatype measurementRole = NrPrimary | NrNeighbor | LteSecondary
datatype cellSource = AndroidTelephony | QualcommDiag
datatype nsgNrMode = SaMode | NsaMode
datatype nrIdentitySource = Reported | DerivedReportedLength | DerivedOperatorLength | DerivedDefault24

record nrIdentity =
  ni_gnbid :: "int option"
  ni_gnbidLength :: "int option"
  ni_clid :: "int option"
  ni_source :: "nrIdentitySource option"

record radioFields =
  rf_lac :: "number option"
  rf_rnc :: "number option"
  rf_cid :: "number option"
  rf_tac :: "number option"
  rf_nci :: "number option"
  rf_eci :: "number option"
  rf_pci :: "number option"
  rf_earfcn :: "number option"
  rf_arfcn :: "number option"
  rf_uarfcn :: "number option"
  rf_psc :: "number option"
  rf_bsic :: "number option"
  rf_dbm :: "number option"
  rf_rssi :: "number option"
  rf_rsrp :: "number option"
  rf_rsrq :: "number option"
  rf_sinr :: "number option"
  rf_ecno :: "number option"
  rf_ta :: "number option"
  rf_ber :: "number option"
  rf_bands :: "number list option"

record nsgCell = nsgTimestamp +
  nc_eventIndex :: int
  nc_cellIndex :: int
  nc_rat :: string
  nc_registered :: "bool option"
  nc_measurementRole :: "measurementRole option"
  nc_nrMode :: "nsgNrMode option"
  nc_sources :: "cellSource list"
  nc_subId :: "number option"
  nc_slotId :: "number option"
  nc_isDefaultSubscription :: "bool option"
  nc_mcc :: "string option"
  nc_mnc :: "string option"
  nc_operatorName :: "string option"
  nc_radio :: radioFields
  nc_identity :: nrIdentity
  nc_raw :: jsonObject

end
