(* ===== verification/NsgJson.thy ===== *)
theory NsgJson
  imports NsgTypes
begin

text \<open>
  The text of a recording: \<open>TextDecoder("utf-8", fatal)\<close> and \<open>JSON.parse\<close>. A text is kept as its UTF-8
  bytes, one character a byte, so that decoding checks the bytes and drops a byte order mark. A
  number is the rational its literal denotes; an object keeps a repeated key in its first place with its
  last value.
\<close>

section \<open>UTF-8\<close>

definition charCode :: "char \<Rightarrow> nat" where "charCode c = of_char c"
definition byteChar :: "8 word \<Rightarrow> char" where "byteChar b = char_of (unat b)"

definition isContinuation :: "char \<Rightarrow> bool" where
  "isContinuation c \<longleftrightarrow> 0x80 \<le> charCode c \<and> charCode c \<le> 0xBF"

text \<open>Whether \<open>second\<close> may follow the first byte of a sequence of three or four.\<close>

definition secondOk :: "nat \<Rightarrow> nat \<Rightarrow> bool" where
  "secondOk first second \<longleftrightarrow>
    (if first = 0xE0 then 0xA0 else if first = 0xF0 then 0x90 else 0x80) \<le> second \<and>
    second \<le> (if first = 0xED then 0x9F else if first = 0xF4 then 0x8F else 0xBF)"

fun validUtf8 :: "string \<Rightarrow> bool" where
  "validUtf8 [] = True"
| "validUtf8 (a # rest) =
     (let first = charCode a
      in if first < 0x80 then validUtf8 rest
         else if first < 0xC2 then False
         else if first < 0xE0 then
           (case rest of b # rest' \<Rightarrow> isContinuation b \<and> validUtf8 rest' | [] \<Rightarrow> False)
         else if first < 0xF0 then
           (case rest of b # c # rest' \<Rightarrow> secondOk first (charCode b) \<and> isContinuation c \<and> validUtf8 rest' | _ \<Rightarrow> False)
         else if first < 0xF5 then
           (case rest of b # c # d # rest' \<Rightarrow>
              secondOk first (charCode b) \<and> isContinuation c \<and> isContinuation d \<and> validUtf8 rest'
            | _ \<Rightarrow> False)
         else False)"

definition decodeUtf8 :: "bytes \<Rightarrow> string option" where
  "decodeUtf8 bs =
    (let chars = map byteChar bs
     in if validUtf8 chars
        then Some (if take 3 bs = [0xEF, 0xBB, 0xBF] then drop 3 chars else chars)
        else None)"

section \<open>Tokens\<close>

definition isSpace :: "char \<Rightarrow> bool" where
  "isSpace c \<longleftrightarrow> charCode c \<in> {32, 9, 10, 13}"

definition skipSpace :: "string \<Rightarrow> string" where
  "skipSpace = dropWhile isSpace"

definition hexValue :: "char \<Rightarrow> nat option" where
  "hexValue c =
    (if isDigit c then Some (digitValue c)
     else if 97 \<le> charCode c \<and> charCode c \<le> 102 then Some (charCode c - 87)
     else if 65 \<le> charCode c \<and> charCode c \<le> 70 then Some (charCode c - 55)
     else None)"

fun hexDigits4 :: "string \<Rightarrow> (nat \<times> string) option" where
  "hexDigits4 (a # b # c # d # rest) =
     (case (hexValue a, hexValue b, hexValue c, hexValue d) of
        (Some w, Some x, Some y, Some z) \<Rightarrow> Some (4096 * w + 256 * x + 16 * y + z, rest)
      | _ \<Rightarrow> None)"
| "hexDigits4 _ = None"

text \<open>The UTF-8 bytes of a code point; a lone surrogate takes three.\<close>

definition encodeUtf8 :: "nat \<Rightarrow> string" where
  "encodeUtf8 n =
    map char_of
      (if n < 0x80 then [n]
       else if n < 0x800 then [0xC0 + n div 64, 0x80 + n mod 64]
       else if n < 0x10000 then [0xE0 + n div 4096, 0x80 + n div 64 mod 64, 0x80 + n mod 64]
       else [0xF0 + n div 262144, 0x80 + n div 4096 mod 64, 0x80 + n div 64 mod 64, 0x80 + n mod 64])"

definition simpleEscape :: "char \<Rightarrow> string option" where
  "simpleEscape c =
    map_of [(CHR 0x22, [CHR 0x22]), (CHR 0x5C, [CHR 0x5C]), (CHR ''/'', ''/''), (CHR ''b'', [CHR 8]), (CHR ''f'', [CHR 12]),
      (CHR ''n'', [CHR 10]), (CHR ''r'', [CHR 13]), (CHR ''t'', [CHR 9])] c"

text \<open>The characters an escape \<open>\u\<close> stands for: a pair of surrogates is one code point.\<close>

definition unicodeEscape :: "string \<Rightarrow> (string \<times> string) option" where
  "unicodeEscape text =
    (case hexDigits4 text of
       None \<Rightarrow> None
     | Some (high, rest) \<Rightarrow>
         (if 0xD800 \<le> high \<and> high < 0xDC00 \<and> take 2 rest = [CHR 0x5C, CHR ''u'']
          then (case hexDigits4 (drop 2 rest) of
              Some (low, rest') \<Rightarrow>
                (if 0xDC00 \<le> low \<and> low < 0xE000
                 then Some (encodeUtf8 (0x10000 + 1024 * (high - 0xD800) + (low - 0xDC00)), rest')
                 else Some (encodeUtf8 high, rest))
            | None \<Rightarrow> None)
          else Some (encodeUtf8 high, rest)))"

text \<open>The rest of a text after its opening quote.\<close>

function parseString :: "string \<Rightarrow> (string \<times> string) option" where
  "parseString [] = None"
| "parseString (c # rest) =
     (if c = CHR 0x22 then Some ([], rest)
      else if charCode c < 32 then None
      else if c \<noteq> CHR 0x5C then map_option (\<lambda>(value, rest'). (c # value, rest')) (parseString rest)
      else (case rest of
          [] \<Rightarrow> None
        | e # after \<Rightarrow>
            (case (if e = CHR ''u'' then unicodeEscape after else map_option (\<lambda>v. (v, after)) (simpleEscape e)) of
               None \<Rightarrow> None
             | Some (v, rest') \<Rightarrow>
                 (if length rest < length rest' then None
                  else map_option (\<lambda>(value, stop). (v @ value, stop)) (parseString rest')))))"
  by pat_completeness auto
termination by (relation "measure length") auto

definition digitsOf :: "string \<Rightarrow> string \<times> string" where
  "digitsOf text = (takeWhile isDigit text, dropWhile isDigit text)"

definition integerPart :: "string \<Rightarrow> (number \<times> string) option" where
  "integerPart text =
    (let (ds, rest) = digitsOf text
     in if ds = [] \<or> 1 < length ds \<and> hd ds = CHR ''0'' then None else Some (of_nat (digitsValue ds), rest))"

definition fractionPart :: "string \<Rightarrow> (number \<times> string) option" where
  "fractionPart text =
    (case text of
       c # after \<Rightarrow>
         (if c \<noteq> CHR ''.'' then Some (0, text)
          else let (ds, rest) = digitsOf after
               in if ds = [] then None else Some (of_nat (digitsValue ds) / 10 ^ length ds, rest))
     | [] \<Rightarrow> Some (0, []))"

definition exponentPart :: "string \<Rightarrow> (number \<times> string) option" where
  "exponentPart text =
    (case text of
       c # after \<Rightarrow>
         (if c \<noteq> CHR ''e'' \<and> c \<noteq> CHR ''E'' then Some (1, text)
          else let (sign, digits) = (case after of
                   s # tail \<Rightarrow> (if s = CHR ''+'' then (False, tail) else if s = CHR ''-'' then (True, tail) else (False, after))
                 | [] \<Rightarrow> (False, []));
               (ds, rest) = digitsOf digits
               in if ds = [] then None
                  else Some (if sign then 1 / 10 ^ digitsValue ds else 10 ^ digitsValue ds, rest))
     | [] \<Rightarrow> Some (1, []))"

definition parseNumber :: "string \<Rightarrow> (number \<times> string) option" where
  "parseNumber text =
    (let (negative, unsigned) = (case text of c # rest \<Rightarrow> (if c = CHR ''-'' then (True, rest) else (False, text)) | [] \<Rightarrow> (False, []))
     in do {
       (whole, rest) \<leftarrow> integerPart unsigned;
       (fraction, rest') \<leftarrow> fractionPart rest;
       (scale, stop) \<leftarrow> exponentPart rest';
       Some ((if negative then - 1 else 1) * (whole + fraction) * scale, stop)
     })"

definition parseWord :: "string \<Rightarrow> json \<Rightarrow> string \<Rightarrow> (json \<times> string) option" where
  "parseWord name value text =
    (if take (length name) text = name then Some (value, drop (length name) text) else None)"

section \<open>Values\<close>

text \<open>
  Every element and member consumes a character; a remainder that is no shorter than its input does not
  occur.
\<close>

lemma skipSpace_length: "skipSpace text = c # rest \<Longrightarrow> length rest < length text"
  using length_dropWhile_le [of isSpace "text"] by (simp add: skipSpace_def)

function (sequential) parseValue :: "string \<Rightarrow> (json \<times> string) option"
  and parseElements :: "string \<Rightarrow> (json list \<times> string) option"
  and parseMembers :: "jsonObject \<Rightarrow> string \<Rightarrow> (jsonObject \<times> string) option" where
  "parseValue text =
     (case skipSpace text of
        [] \<Rightarrow> None
      | c # rest \<Rightarrow>
          (if c = CHR ''{'' then
             (case skipSpace rest of
                d # after \<Rightarrow>
                  (if d = CHR ''}'' then Some (JObj [], after)
                   else map_option (\<lambda>(members, stop). (JObj members, stop)) (parseMembers [] rest))
              | [] \<Rightarrow> None)
           else if c = CHR ''['' then
             (case skipSpace rest of
                d # after \<Rightarrow>
                  (if d = CHR '']'' then Some (JArr [], after)
                   else map_option (\<lambda>(items, stop). (JArr items, stop)) (parseElements rest))
              | [] \<Rightarrow> None)
           else if c = CHR 0x22 then map_option (\<lambda>(value, stop). (JStr value, stop)) (parseString rest)
           else if c = CHR ''t'' then parseWord ''true'' (JBool True) (c # rest)
           else if c = CHR ''f'' then parseWord ''false'' (JBool False) (c # rest)
           else if c = CHR ''n'' then parseWord ''null'' JNull (c # rest)
           else map_option (\<lambda>(value, stop). (JNum value, stop)) (parseNumber (c # rest))))"
| "parseElements text =
     (case parseValue text of
        None \<Rightarrow> None
      | Some (item, rest) \<Rightarrow>
          (case skipSpace rest of
             [] \<Rightarrow> None
           | c # after \<Rightarrow>
               (if c = CHR '']'' then Some ([item], after)
                else if c \<noteq> CHR '','' \<or> length text \<le> length after then None
                else map_option (\<lambda>(items, stop). (item # items, stop)) (parseElements after))))"
| "parseMembers members text =
     (case skipSpace text of
        [] \<Rightarrow> None
      | q # quoted \<Rightarrow>
          (if q \<noteq> CHR 0x22 then None
           else (case parseString quoted of
               None \<Rightarrow> None
             | Some (key, rest) \<Rightarrow>
                 (case skipSpace rest of
                    [] \<Rightarrow> None
                  | colon # after \<Rightarrow>
                      (if colon \<noteq> CHR '':'' \<or> length text \<le> length after then None
                       else (case parseValue after of
                           None \<Rightarrow> None
                         | Some (value, rest') \<Rightarrow>
                             (case skipSpace rest' of
                                [] \<Rightarrow> None
                              | c # tail \<Rightarrow>
                                  (if c = CHR ''}'' then Some (setField key value members, tail)
                                   else if c \<noteq> CHR '','' \<or> length text \<le> length tail then None
                                   else parseMembers (setField key value members) tail))))))))"
  by pat_completeness auto

termination
  by (relation "measures [\<lambda>x. case x of Inl t \<Rightarrow> length t | Inr (Inl t) \<Rightarrow> length t | Inr (Inr (ms, t)) \<Rightarrow> length t,
      \<lambda>x. case x of Inl t \<Rightarrow> 0 | Inr _ \<Rightarrow> 1]") (auto dest: skipSpace_length)

definition parseJson :: "string \<Rightarrow> json option" where
  "parseJson text =
    (case parseValue text of
       Some (value, rest) \<Rightarrow> (if skipSpace rest = [] then Some value else None)
     | None \<Rightarrow> None)"

end
