(* ===== verification/NsgEvents.thy ===== *)
theory NsgEvents
  imports NsgJson
begin

text \<open>
  The Android events of a recording: operatorState.ts (which operator serves a slot, from the events of
  the phone), nrIdentity.ts (the gNB and cell of an NR cell identity) and eventProcessor.ts (the cells and
  locations of an event).
\<close>

section \<open>Values of an event\<close>

definition MAX_SAFE :: int where "MAX_SAFE = 9007199254740991"

definition isSafeInt :: "number \<Rightarrow> bool" where
  "isSafeInt x \<longleftrightarrow> isInteger x \<and> \<bar>x\<bar> \<le> of_int MAX_SAFE"

definition numeric :: "json option \<Rightarrow> number option" where
  "numeric v = (case v of Some (JNum x) \<Rightarrow> Some x | _ \<Rightarrow> None)"

definition textual :: "json option \<Rightarrow> string option" where
  "textual v = (case v of Some (JStr t) \<Rightarrow> Some t | Some (JNum x) \<Rightarrow> Some (numberText x) | _ \<Rightarrow> None)"

definition boolean :: "json option \<Rightarrow> bool option" where
  "boolean v = (case v of Some (JBool b) \<Rightarrow> Some b | _ \<Rightarrow> None)"

text \<open>\<open>left ?? right\<close>.\<close>

definition orElse :: "'a option \<Rightarrow> 'a option \<Rightarrow> 'a option" where
  "orElse left right = (case left of None \<Rightarrow> right | Some x \<Rightarrow> Some x)"

section \<open>operatorState.ts\<close>

datatype operatorSource = FromServiceState | FromCell

record resolvedOperator =
  ro_plmn :: string
  ro_mcc :: string
  ro_mnc :: string
  ro_name :: "string option"
  ro_source :: operatorSource

type_synonym operatorMap = "(string \<times> resolvedOperator) list"

record eventVersion =
  vr_elapsedUs :: int
  vr_eventIndex :: int

record operatorSnapshot = eventVersion +
  os_slotId :: number
  os_subId :: "number option"
  os_operators :: operatorMap

record operatorContext = eventVersion +
  oc_slotId :: "number option"
  oc_subId :: "number option"
  oc_rat :: string

definition NETWORK_RATS :: "(number \<times> string) list" where
  "NETWORK_RATS =
    [(1, ''GSM''), (2, ''GSM''), (3, ''UMTS''), (8, ''UMTS''), (9, ''UMTS''), (10, ''UMTS''), (13, ''LTE''), (15, ''UMTS''),
     (16, ''GSM''), (19, ''LTE''), (20, ''NR'')]"

definition identifierOf :: "json option \<Rightarrow> number option" where
  "identifierOf v = (case v of Some (JNum x) \<Rightarrow> (if isSafeInt x \<and> 0 \<le> x then Some x else None) | _ \<Rightarrow> None)"

definition compareVersion :: "'a eventVersion_scheme \<Rightarrow> 'b eventVersion_scheme \<Rightarrow> int" where
  "compareVersion left right =
    (if vr_elapsedUs left - vr_elapsedUs right \<noteq> 0 then vr_elapsedUs left - vr_elapsedUs right
     else vr_eventIndex left - vr_eventIndex right)"

definition cellOperator :: "json option \<Rightarrow> json option \<Rightarrow> json option \<Rightarrow> resolvedOperator option" where
  "cellOperator mcc mnc name =
    (case (mcc, mnc) of
       (Some (JStr c), Some (JStr n)) \<Rightarrow>
         (if length c \<noteq> 3 \<or> \<not> list_all isDigit c \<or> length n < 1 \<or> 3 < length n \<or> \<not> list_all isDigit n \<or> c = ''000'' then None
          else Some \<lparr>ro_plmn = c @ padLeft 2 n, ro_mcc = c, ro_mnc = padLeft 2 n,
            ro_name = (case name of Some (JStr t) \<Rightarrow> Some t | _ \<Rightarrow> None), ro_source = FromCell\<rparr>)
     | _ \<Rightarrow> None)"

definition numericOperator :: "json option \<Rightarrow> resolvedOperator option" where
  "numericOperator v =
    (case v of
       Some (JStr t) \<Rightarrow>
         (if (length t = 5 \<or> length t = 6) \<and> list_all isDigit t
          then cellOperator (Some (JStr (take 3 t))) (Some (JStr (drop 3 t))) None else None)
     | _ \<Rightarrow> None)"

definition resolveCellOperator :: "string option \<Rightarrow> string option \<Rightarrow> string option \<Rightarrow> resolvedOperator option" where
  "resolveCellOperator mcc mnc operatorName =
    cellOperator (map_option JStr mcc) (map_option JStr mnc) (map_option JStr operatorName)"

text \<open>One network of a service state; \<open>ambiguous\<close> are the networks whose entries disagree.\<close>

definition addOperator :: "jsonObject \<Rightarrow> resolvedOperator option \<Rightarrow> string \<Rightarrow> resolvedOperator option
    \<Rightarrow> operatorMap \<times> string list \<Rightarrow> operatorMap \<times> string list" where
  "addOperator data rootOperator rat found = (\<lambda>(operators, ambiguous).
    (case found of
       None \<Rightarrow> (AList.delete rat operators, rat # ambiguous)
     | Some operator \<Rightarrow>
         (let clash = (case map_of operators rat of Some previous \<Rightarrow> ro_plmn previous \<noteq> ro_plmn operator | None \<Rightarrow> False);
              name = (case (rootOperator, field data ''operator-long'') of
                  (Some r, Some (JStr long)) \<Rightarrow> (if ro_plmn r = ro_plmn operator then Some long else None)
                | _ \<Rightarrow> None)
          in if clash then (AList.delete rat operators, rat # ambiguous)
             else (AList.update rat (operator\<lparr>ro_name := name, ro_source := FromServiceState\<rparr>) operators, ambiguous))))"

definition addNetwork :: "jsonObject \<Rightarrow> resolvedOperator option \<Rightarrow> json \<Rightarrow> operatorMap \<times> string list \<Rightarrow> operatorMap \<times> string list" where
  "addNetwork data rootOperator network state =
    (case network of
       JObj n \<Rightarrow>
         (case (field n ''registered'', field n ''rat'') of
            (Some (JBool True), Some (JNum code)) \<Rightarrow>
              (case map_of NETWORK_RATS code of
                 None \<Rightarrow> state
               | Some rat \<Rightarrow>
                   (if rat \<in> set (snd state) then state
                    else addOperator data rootOperator rat (orElse (numericOperator (field n ''registeredPLMN'')) rootOperator) state))
          | _ \<Rightarrow> state)
     | _ \<Rightarrow> state)"

definition operatorsFromService :: "jsonObject \<Rightarrow> operatorMap" where
  "operatorsFromService data =
    (case field data ''networks'' of
       Some (JArr networks) \<Rightarrow> fst (fold (addNetwork data (numericOperator (field data ''operator''))) networks ([], []))
     | _ \<Rightarrow> [])"

definition operatorForContext :: "operatorSnapshot option \<Rightarrow> operatorContext \<Rightarrow> resolvedOperator option" where
  "operatorForContext snapshot ctx =
    (case snapshot of
       None \<Rightarrow> None
     | Some state \<Rightarrow>
         (if os_subId state \<noteq> oc_subId ctx \<or> 0 < compareVersion state ctx then None
          else map_of (os_operators state) (if oc_rat ctx = ''WCDMA'' then ''UMTS'' else oc_rat ctx)))"

text \<open>
  The state of the slots. The callback \<open>onChange\<close> is called with the entries of \<open>st_changes\<close>, in order.
  A context key \<open>slot:subscription\<close> is the pair.
\<close>

record operatorState =
  st_slots :: "(number \<times> operatorSnapshot) list"
  st_subscriptionHomes :: "((number \<times> number) \<times> string option) list option"
  st_subscriptionVersion :: "eventVersion option"
  st_unattributedServiceVersion :: "eventVersion option"
  st_changes :: "operatorSnapshot list"

definition newOperatorState :: operatorState where
  "newOperatorState = \<lparr>st_slots = [], st_subscriptionHomes = None, st_subscriptionVersion = None,
     st_unattributedServiceVersion = None, st_changes = []\<rparr>"

definition versionOf :: "nsgEvent \<Rightarrow> eventVersion" where
  "versionOf event = \<lparr>vr_elapsedUs = tp_elapsedUs event, vr_eventIndex = ev_id event\<rparr>"

definition snapshot :: "eventVersion \<Rightarrow> number \<Rightarrow> number option \<Rightarrow> operatorMap \<Rightarrow> operatorSnapshot" where
  "snapshot version slotId subId operators =
    eventVersion.extend version \<lparr>os_slotId = slotId, os_subId = subId, os_operators = operators\<rparr>"

definition setSlot :: "number \<Rightarrow> number option \<Rightarrow> nsgEvent \<Rightarrow> operatorMap \<Rightarrow> operatorState \<Rightarrow> operatorState" where
  "setSlot slotId subId event operators s =
    (let version = versionOf event;
         previous = map_of (st_slots s) slotId;
         stale = (case previous of Some p \<Rightarrow> 0 < compareVersion p version | None \<Rightarrow> False);
         left = (case previous of
             Some p \<Rightarrow> (if os_subId p \<noteq> None \<and> os_subId p \<noteq> subId then [snapshot version slotId (os_subId p) []] else [])
           | None \<Rightarrow> []);
         state = snapshot version slotId subId operators
     in if stale then s
        else s\<lparr>st_slots := AList.update slotId state (st_slots s),
          st_changes := st_changes s @ left @ (if subId \<noteq> None then [state] else [])\<rparr>)"

text \<open>A later event has already been seen.\<close>

definition isSuperseded :: "eventVersion option \<Rightarrow> eventVersion \<Rightarrow> bool" where
  "isSuperseded known version = (case known of Some v \<Rightarrow> 0 < compareVersion v version | None \<Rightarrow> False)"

definition addSubscription :: "json \<Rightarrow> ((number \<times> number) \<times> string option) list \<Rightarrow> ((number \<times> number) \<times> string option) list" where
  "addSubscription subscription homes =
    (case subscription of
       JObj sub \<Rightarrow>
         (case (identifierOf (field sub ''simSlotIndex''), identifierOf (field sub ''subscriptionId'')) of
            (Some slotId, Some subId) \<Rightarrow>
              AList.update (slotId, subId) (map_option ro_plmn (cellOperator (field sub ''mcc'') (field sub ''mnc'') None)) homes
          | _ \<Rightarrow> homes)
     | _ \<Rightarrow> homes)"

definition subscriptionHomes :: "jsonObject \<Rightarrow> ((number \<times> number) \<times> string option) list" where
  "subscriptionHomes data =
    (case field data ''subscriptions'' of Some (JArr subscriptions) \<Rightarrow> fold addSubscription subscriptions [] | _ \<Rightarrow> [])"

text \<open>Whether a slot lost its subscription, or its home network changed.\<close>

definition subscriptionMoved :: "((number \<times> number) \<times> string option) list option \<Rightarrow> ((number \<times> number) \<times> string option) list
    \<Rightarrow> operatorSnapshot \<Rightarrow> bool" where
  "subscriptionMoved homes upcoming state =
    (case os_subId state of
       None \<Rightarrow> False
     | Some subId \<Rightarrow>
         (case map_of upcoming (os_slotId state, subId) of
            None \<Rightarrow> True
          | Some nextHome \<Rightarrow>
              (case Option.bind homes (\<lambda>h. map_of h (os_slotId state, subId)) of
                 Some (Some previousHome) \<Rightarrow> (case nextHome of Some h \<Rightarrow> h \<noteq> previousHome | None \<Rightarrow> False)
               | _ \<Rightarrow> False)))"

text \<open>\<open>for (const state of slots.values()) if (P(state)) setSlot(state.slotId, null, event)\<close>.\<close>

definition clearSlots :: "(operatorSnapshot \<Rightarrow> bool) \<Rightarrow> nsgEvent \<Rightarrow> operatorState \<Rightarrow> operatorState" where
  "clearSlots P event s =
    fold (\<lambda>(_, state) s. if P state then setSlot (os_slotId state) None event [] s else s) (st_slots s) s"

definition processSubscriptions :: "nsgEvent \<Rightarrow> operatorState \<Rightarrow> operatorState" where
  "processSubscriptions event s =
    (if isSuperseded (st_subscriptionVersion s) (versionOf event) then s
     else let upcoming = subscriptionHomes (ev_data event);
              moved = subscriptionMoved (st_subscriptionHomes s) upcoming
          in (clearSlots moved event (s\<lparr>st_subscriptionVersion := Some (versionOf event)\<rparr>))
               \<lparr>st_subscriptionHomes := Some upcoming\<rparr>)"

definition otherSlotOf :: "number \<Rightarrow> number \<Rightarrow> operatorSnapshot \<Rightarrow> bool" where
  "otherSlotOf slotId subId state \<longleftrightarrow> os_slotId state \<noteq> slotId \<and> os_subId state = Some subId"

definition processServiceState :: "nsgEvent \<Rightarrow> operatorState \<Rightarrow> operatorState" where
  "processServiceState event s =
    (let version = versionOf event; data = ev_data event
     in if isSuperseded (st_subscriptionVersion s) version \<or> isSuperseded (st_unattributedServiceVersion s) version then s
        else (case (identifierOf (field data ''slotId''), identifierOf (field data ''subId'')) of
            (Some slotId, None) \<Rightarrow> setSlot slotId None event [] s
          | (None, subId) \<Rightarrow>
              clearSlots (\<lambda>state. subId = None \<or> os_subId state = subId) event (s\<lparr>st_unattributedServiceVersion := Some version\<rparr>)
          | (Some slotId, Some subId) \<Rightarrow>
              (if list_ex (\<lambda>(_, state). otherSlotOf slotId subId state \<and> 0 < compareVersion state version) (st_slots s) then s
               else setSlot slotId (Some subId) event (operatorsFromService data)
                 (clearSlots (otherSlotOf slotId subId) event s))))"

definition processOperators :: "nsgEvent \<Rightarrow> operatorState \<Rightarrow> operatorState" where
  "processOperators event s =
    (if ev_name event = ''subscriptionsChanged'' then processSubscriptions event s
     else if ev_name event = ''serviceState'' then processServiceState event s
     else s)"

definition contextSlots :: "operatorContext \<Rightarrow> (number \<times> number) option" where
  "contextSlots ctx =
    (case (identifierOf (map_option JNum (oc_slotId ctx)), identifierOf (map_option JNum (oc_subId ctx))) of
       (Some slotId, Some subId) \<Rightarrow> Some (slotId, subId)
     | _ \<Rightarrow> None)"

definition streamingOperator :: "operatorState \<Rightarrow> operatorContext \<Rightarrow> resolvedOperator option" where
  "streamingOperator s ctx =
    (case contextSlots ctx of
       None \<Rightarrow> None
     | Some (slotId, _) \<Rightarrow> operatorForContext (map_of (st_slots s) slotId) ctx)"

subsection \<open>The history of the operators\<close>

definition isOperatorEvent :: "nsgEvent \<Rightarrow> bool" where
  "isOperatorEvent event \<longleftrightarrow> ev_name event = ''serviceState'' \<or> ev_name event = ''subscriptionsChanged''"

definition orderedOperatorEvents :: "nsgEvent list \<Rightarrow> nsgEvent list" where
  "orderedOperatorEvents events =
    sortBy (\<lambda>left right. orNext (of_int (tp_elapsedUs left) - of_int (tp_elapsedUs right)) (of_int (ev_id left) - of_int (ev_id right)))
      (filter isOperatorEvent events)"

definition addToHistory :: "operatorSnapshot \<Rightarrow> ((number \<times> number) \<times> operatorSnapshot list) list
    \<Rightarrow> ((number \<times> number) \<times> operatorSnapshot list) list" where
  "addToHistory state histories =
    (case os_subId state of
       None \<Rightarrow> histories
     | Some subId \<Rightarrow>
         (let key = (os_slotId state, subId);
              history = (case map_of histories key of Some h \<Rightarrow> h | None \<Rightarrow> [])
          in AList.update key (history @ [state]) histories))"

definition operatorHistory :: "nsgEvent list \<Rightarrow> ((number \<times> number) \<times> operatorSnapshot list) list" where
  "operatorHistory events =
    fold addToHistory (st_changes (fold processOperators (orderedOperatorEvents events) newOperatorState)) []"

text \<open>The loop of the binary search: the first of \<open>low..high\<close> where the test fails.\<close>

function searchLoop :: "(nat \<Rightarrow> bool) \<Rightarrow> nat \<Rightarrow> nat \<Rightarrow> nat" where
  "searchLoop earlier low high =
    (if high \<le> low then low
     else let middle = (low + high) div 2
          in if earlier middle then searchLoop earlier (middle + 1) high else searchLoop earlier low middle)"
  by pat_completeness auto
termination by (relation "measure (\<lambda>(_, low, high). high - low)") auto

declare searchLoop.simps [simp del]

definition historyOperator :: "((number \<times> number) \<times> operatorSnapshot list) list \<Rightarrow> operatorContext \<Rightarrow> resolvedOperator option" where
  "historyOperator histories ctx =
    (case Option.bind (contextSlots ctx) (map_of histories) of
       None \<Rightarrow> None
     | Some history \<Rightarrow>
         (let low = searchLoop (\<lambda>i. compareVersion (history ! i) ctx \<le> 0) 0 (length history)
          in operatorForContext (if low = 0 then None else Some (history ! (low - 1))) ctx))"

section \<open>nrIdentity.ts\<close>

definition NR_NCI_BITS :: int where "NR_NCI_BITS = 36"
definition NSG_DEFAULT_GNBID_LENGTH :: int where "NSG_DEFAULT_GNBID_LENGTH = 24"
definition MIN_GNBID_LENGTH :: int where "MIN_GNBID_LENGTH = 22"
definition MAX_GNBID_LENGTH :: int where "MAX_GNBID_LENGTH = 32"
definition MAX_GNBID :: int where "MAX_GNBID = 0xFFFFFFFF"
definition MAX_CLID :: int where "MAX_CLID = 0x3FFF"
definition MAX_NCI :: int where "MAX_NCI = 0x0FFFFFFFFF"

definition integerInRange :: "json option \<Rightarrow> int \<Rightarrow> int option" where
  "integerInRange v maximum =
    (case v of Some (JNum x) \<Rightarrow> (if isSafeInt x \<and> 0 \<le> x \<and> x \<le> of_int maximum then Some \<lfloor>x\<rfloor> else None) | _ \<Rightarrow> None)"

definition validGnbidLength :: "json option \<Rightarrow> int option" where
  "validGnbidLength candidate =
    (case integerInRange candidate MAX_GNBID_LENGTH of
       Some len \<Rightarrow> (if MIN_GNBID_LENGTH \<le> len then Some len else None)
     | None \<Rightarrow> None)"

definition reportedGnbidLength :: "jsonObject \<Rightarrow> int option" where
  "reportedGnbidLength raw =
    fold (\<lambda>name found. orElse found (validGnbidLength (field raw name)))
      [''gnbidLength'', ''gnbIdLength'', ''gnbid_length'', ''gnbid-length'', ''gnb-id-length''] None"

definition nullIdentity :: nrIdentity where
  "nullIdentity = \<lparr>ni_gnbid = None, ni_gnbidLength = None, ni_clid = None, ni_source = None\<rparr>"

definition fitsReportedLength :: "int \<Rightarrow> int \<Rightarrow> int \<Rightarrow> bool" where
  "fitsReportedLength gnbid clid len \<longleftrightarrow> gnbid < 2 ^ nat len \<and> clid < 2 ^ nat (NR_NCI_BITS - len)"

definition derivedSource :: "int option \<Rightarrow> int option \<Rightarrow> nrIdentitySource" where
  "derivedSource reportedLength operatorLength =
    (if reportedLength \<noteq> None then DerivedReportedLength
     else if operatorLength = None then DerivedDefault24 else DerivedOperatorLength)"

text \<open>\<open>2 ** n\<close>, a fraction where \<open>n\<close> is negative.\<close>

definition powerOfTwo :: "int \<Rightarrow> number" where
  "powerOfTwo n = (if 0 \<le> n then 2 ^ nat n else 1 / 2 ^ nat (- n))"

definition resolveNrIdentity :: "jsonObject \<Rightarrow> number option \<Rightarrow> int option \<Rightarrow> nrIdentity" where
  "resolveNrIdentity raw nci operatorLength =
    (let reportedLength = reportedGnbidLength raw
     in case (integerInRange (field raw ''gnbid'') MAX_GNBID, integerInRange (field raw ''clid'') MAX_CLID) of
        (Some gnbid, Some clid) \<Rightarrow>
          \<lparr>ni_gnbid = Some gnbid,
           ni_gnbidLength = (case reportedLength of Some len \<Rightarrow> (if fitsReportedLength gnbid clid len then Some len else None) | None \<Rightarrow> None),
           ni_clid = Some clid, ni_source = Some Reported\<rparr>
      | _ \<Rightarrow>
          (case nci of
             None \<Rightarrow> nullIdentity
           | Some n \<Rightarrow>
               (if \<not> isSafeInt n \<or> n \<le> 0 \<or> of_int MAX_NCI < n then nullIdentity
                else let gnbidLength = (case orElse reportedLength operatorLength of Some len \<Rightarrow> len | None \<Rightarrow> NSG_DEFAULT_GNBID_LENGTH);
                         clidRadix = powerOfTwo (NR_NCI_BITS - gnbidLength);
                         gnbid = \<lfloor>n / clidRadix\<rfloor>
                     in \<lparr>ni_gnbid = Some gnbid, ni_gnbidLength = Some gnbidLength,
                         ni_clid = Some \<lfloor>n - clidRadix * of_int gnbid\<rfloor>,
                         ni_source = Some (derivedSource reportedLength operatorLength)\<rparr>)))"

section \<open>eventProcessor.ts\<close>

definition MAX_UMTS_CI :: int where "MAX_UMTS_CI = 0x0FFFFFFF"
definition UMTS_CID_RADIX :: int where "UMTS_CID_RADIX = 0x10000"
definition MAX_NR_NCI :: int where "MAX_NR_NCI = 0x0FFFFFFFFF"

text \<open>\<open>toUpperCase\<close> on the letters of ASCII, which the names of the technologies are made of.\<close>

definition toUpper :: "string \<Rightarrow> string" where
  "toUpper = map (\<lambda>c. if 97 \<le> charCode c \<and> charCode c \<le> 122 then char_of (charCode c - 32) else c)"

definition normalizeRat :: "json option \<Rightarrow> string" where
  "normalizeRat v =
    (let rat = toUpper (case textual v of Some t \<Rightarrow> t | None \<Rightarrow> ''unknown'')
     in if rat = ''NR5G'' then ''NR'' else rat)"

definition androidNci :: "json option \<Rightarrow> number option" where
  "androidNci v =
    (case v of Some (JNum x) \<Rightarrow> (if isSafeInt x \<and> 0 \<le> x \<and> x \<le> of_int MAX_NR_NCI then Some x else None) | _ \<Rightarrow> None)"

definition isBand :: "json \<Rightarrow> bool" where
  "isBand v \<longleftrightarrow> (case v of JNum x \<Rightarrow> isSafeInt x \<and> 0 < x | _ \<Rightarrow> False)"

definition bandsOf :: "json option \<Rightarrow> number list option" where
  "bandsOf v =
    (case v of
       Some (JArr items) \<Rightarrow>
         (if list_all isBand items then Some (map (\<lambda>item. case item of JNum x \<Rightarrow> x | _ \<Rightarrow> 0) items) else None)
     | _ \<Rightarrow> None)"

text \<open>The technologies of the cells a schedule lists as registered.\<close>

definition registeredRat :: "json \<Rightarrow> string option" where
  "registeredRat cell =
    (case cell of JObj raw \<Rightarrow> (if boolean (field raw ''registered'') = Some True then Some (normalizeRat (field raw ''type'')) else None)
     | _ \<Rightarrow> None)"

definition scheduleNrMode :: "json list \<Rightarrow> nsgNrMode option" where
  "scheduleNrMode cells =
    (let rats = List.map_filter registeredRat cells
     in if ''NR'' \<in> set rats \<and> list_all (\<lambda>rat. rat = ''NR'') rats then Some SaMode else None)"

definition umtsIdentity :: "jsonObject \<Rightarrow> string \<Rightarrow> number option \<times> number option" where
  "umtsIdentity raw rat =
    (let rnc = numeric (field raw ''rnc''); cid = numeric (field raw ''cid'')
     in case numeric (field raw ''ci'') of
        None \<Rightarrow> (rnc, cid)
      | Some ci \<Rightarrow>
          (if (rat \<noteq> ''UMTS'' \<and> rat \<noteq> ''WCDMA'') \<or> \<not> isInteger ci \<or> ci < 0 \<or> of_int MAX_UMTS_CI < ci then (rnc, cid)
           else (orElse rnc (Some (of_int (\<lfloor>ci\<rfloor> div UMTS_CID_RADIX))), orElse cid (Some (of_int (\<lfloor>ci\<rfloor> mod UMTS_CID_RADIX))))))"

definition radioFieldsOf :: "jsonObject \<Rightarrow> string \<Rightarrow> radioFields" where
  "radioFieldsOf raw rat =
    (let nr = (rat = ''NR'');
         number = (\<lambda>name. numeric (field raw name));
         onNr = (\<lambda>v. if nr then v else None)
     in \<lparr>rf_lac = number ''lac'', rf_rnc = fst (umtsIdentity raw rat), rf_cid = snd (umtsIdentity raw rat),
         rf_tac = number ''tac'', rf_nci = (if nr then androidNci (field raw ''nci'') else None), rf_eci = number ''eci'',
         rf_pci = number ''pci'', rf_earfcn = number ''earfcn'', rf_arfcn = number ''arfcn'', rf_uarfcn = number ''uarfcn'',
         rf_psc = number ''psc'', rf_bsic = number ''bsic'', rf_dbm = number ''dbm'', rf_rssi = number ''rssi'',
         rf_rsrp = orElse (number ''rsrp'') (onNr (number ''ss-rsrp'')),
         rf_rsrq = orElse (number ''rsrq'') (onNr (number ''ss-rsrq'')),
         rf_sinr = orElse (number ''sinr'') (onNr (orElse (number ''ss-sinr'') (number ''csi-sinr''))),
         rf_ecno = number ''ecno'', rf_ta = number ''ta'', rf_ber = number ''ber'',
         rf_bands = (if nr then bandsOf (field raw ''bands'') else None)\<rparr>)"

record lteAnchor =
  la_cell :: nsgCell
  la_derivedCellIndexOffset :: int

record defaultDataSubscriptionChange =
  ds_elapsedUs :: int
  ds_subId :: number

record nsgLocation =
  lo_eventIndex :: int
  lo_elapsedUs :: int
  lo_timestampUs :: int
  lo_timestampMs :: int
  lo_latitude :: number
  lo_longitude :: number
  lo_accuracy :: "number option"
  lo_altitude :: "number option"
  lo_speed :: "number option"
  lo_provider :: "string option"
  lo_fixTimestampMs :: "number option"

datatype parseMode = CompleteMode | StreamingMode

text \<open>The length of the gNB id that a network uses, where the caller knows it.\<close>

type_synonym gnbidLengths = "(string \<Rightarrow> string \<Rightarrow> int option) option"

definition operatorGnbidLength :: "gnbidLengths \<Rightarrow> string option \<Rightarrow> string option \<Rightarrow> int option" where
  "operatorGnbidLength gnbidLength mcc mnc =
    (case (gnbidLength, mcc, mnc) of (Some f, Some c, Some n) \<Rightarrow> f c n | _ \<Rightarrow> None)"

definition contextOf :: "nsgCell \<Rightarrow> operatorContext" where
  "contextOf cell = \<lparr>vr_elapsedUs = tp_elapsedUs cell, vr_eventIndex = nc_eventIndex cell, oc_slotId = nc_slotId cell,
     oc_subId = nc_subId cell, oc_rat = nc_rat cell\<rparr>"

definition baseCell :: "nsgEvent \<Rightarrow> nsgNrMode option \<Rightarrow> int \<Rightarrow> jsonObject \<Rightarrow> nsgCell" where
  "baseCell event nrMode cellIndex raw =
    (let rat = normalizeRat (field raw ''type'')
     in \<lparr>tp_elapsedUs = tp_elapsedUs event, tp_recordOffset = tp_recordOffset event, ts_timestampUs = ts_timestampUs event,
         ts_timestampMs = ts_timestampMs event, nc_eventIndex = ev_id event, nc_cellIndex = cellIndex, nc_rat = rat,
         nc_registered = boolean (field raw ''registered''), nc_measurementRole = None,
         nc_nrMode = (if rat = ''NR'' then nrMode else None), nc_sources = [AndroidTelephony],
         nc_subId = numeric (field (ev_data event) ''subId''), nc_slotId = numeric (field (ev_data event) ''slotId''),
         nc_isDefaultSubscription = boolean (field (ev_data event) ''default''),
         nc_mcc = textual (field raw ''mcc''), nc_mnc = textual (field raw ''mnc''), nc_operatorName = None,
         nc_radio = radioFieldsOf raw rat, nc_identity = nullIdentity, nc_raw = raw\<rparr>)"

text \<open>A registered cell takes the operator of its slot; the raw object of the event is changed with it.\<close>

definition applyOperator :: "resolvedOperator option \<Rightarrow> nsgCell \<Rightarrow> nsgCell" where
  "applyOperator operator cell =
    (case operator of
       None \<Rightarrow> cell
     | Some o' \<Rightarrow>
         (let serving = (nc_registered cell = Some True);
              reported = resolveCellOperator (nc_mcc cell) (nc_mnc cell) (nc_operatorName cell);
              named = (if serving \<or> map_option ro_plmn reported = Some (ro_plmn o') then cell\<lparr>nc_operatorName := ro_name o'\<rparr> else cell)
          in if serving
             then named\<lparr>nc_mcc := Some (ro_mcc o'), nc_mnc := Some (ro_mnc o'),
               nc_raw := setField ''mnc'' (JStr (ro_mnc o')) (setField ''mcc'' (JStr (ro_mcc o')) (nc_raw cell))\<rparr>
             else named))"

definition applyIdentity :: "gnbidLengths \<Rightarrow> nsgCell \<Rightarrow> nsgCell" where
  "applyIdentity gnbidLength cell =
    (if nc_rat cell = ''NR''
     then cell\<lparr>nc_identity := resolveNrIdentity (nc_raw cell) (rf_nci (nc_radio cell))
            (operatorGnbidLength gnbidLength (nc_mcc cell) (nc_mnc cell))\<rparr>
     else cell)"

definition projectCell :: "gnbidLengths \<Rightarrow> operatorState \<Rightarrow> nsgEvent \<Rightarrow> nsgNrMode option \<Rightarrow> int \<Rightarrow> jsonObject \<Rightarrow> nsgCell" where
  "projectCell gnbidLength operators event nrMode cellIndex raw =
    (let cell = baseCell event nrMode cellIndex raw
     in applyIdentity gnbidLength (applyOperator (streamingOperator operators (contextOf cell)) cell))"

definition CELL_OBJECT_MESSAGE :: string where "CELL_OBJECT_MESSAGE = ''Expected an NSG cell object''"
definition CELLS_ARRAY_MESSAGE :: string where "CELLS_ARRAY_MESSAGE = ''Expected a cells array in an NSG measurement event''"

fun projectEach :: "(int \<Rightarrow> jsonObject \<Rightarrow> nsgCell) \<Rightarrow> int \<Rightarrow> json list \<Rightarrow> string + nsgCell list" where
  "projectEach project cellIndex [] = Inr []"
| "projectEach project cellIndex (item # items) =
     (case item of
        JObj raw \<Rightarrow>
          (case projectEach project (cellIndex + 1) items of
             Inl message \<Rightarrow> Inl message
           | Inr cells \<Rightarrow> Inr (project cellIndex raw # cells))
      | _ \<Rightarrow> Inl CELL_OBJECT_MESSAGE)"

definition isLteAnchor :: "nsgCell \<Rightarrow> bool" where
  "isLteAnchor cell \<longleftrightarrow> nc_rat cell = ''LTE'' \<and> nc_registered cell = Some True"

text \<open>
  What an event gives its sink. The cells share their raw objects with the event, so that the event
  itself is changed where the operator of a cell is known.
\<close>

record eventOutcome =
  eo_event :: nsgEvent
  eo_cells :: "nsgCell list"
  eo_anchor :: "lteAnchor option"
  eo_subscription :: "defaultDataSubscriptionChange option"
  eo_location :: "nsgLocation option"

definition projectCells :: "gnbidLengths \<Rightarrow> operatorState \<Rightarrow> parseMode \<Rightarrow> nsgEvent \<Rightarrow> string + eventOutcome" where
  "projectCells gnbidLength operators mode event =
    (case field (ev_data event) ''cells'' of
       Some (JArr items) \<Rightarrow>
         (case projectEach (projectCell gnbidLength operators event (scheduleNrMode items)) 0 items of
            Inl message \<Rightarrow> Inl message
          | Inr cells \<Rightarrow>
              Inr \<lparr>eo_event = event\<lparr>ev_data := setField ''cells'' (JArr (map (JObj \<circ> nc_raw) cells)) (ev_data event)\<rparr>,
                eo_cells = cells,
                eo_anchor = (case List.find isLteAnchor cells of
                    Some cell \<Rightarrow> (if mode = CompleteMode
                      then Some \<lparr>la_cell = cell, la_derivedCellIndexOffset = int (length items)\<rparr> else None)
                  | None \<Rightarrow> None),
                eo_subscription = None, eo_location = None\<rparr>)
     | _ \<Rightarrow> Inl CELLS_ARRAY_MESSAGE)"

definition defaultDataSubscription :: "nsgEvent \<Rightarrow> parseMode \<Rightarrow> defaultDataSubscriptionChange option" where
  "defaultDataSubscription event mode =
    (if mode \<noteq> CompleteMode \<or> ev_name event \<noteq> ''subscriptionsChanged'' then None
     else map_option (\<lambda>subId. \<lparr>ds_elapsedUs = tp_elapsedUs event, ds_subId = subId\<rparr>)
       (identifierOf (field (ev_data event) ''defaultDataSubscriptionId'')))"

definition isValidLatLng :: "number \<Rightarrow> number \<Rightarrow> bool" where
  "isValidLatLng latitude longitude \<longleftrightarrow> \<bar>latitude\<bar> \<le> 90 \<and> \<bar>longitude\<bar> \<le> 180"

definition eventLocation :: "nsgEvent \<Rightarrow> nsgLocation option" where
  "eventLocation event =
    (let number = (\<lambda>name. numeric (field (ev_data event) name))
     in case (number ''latitude'', number ''longitude'') of
        (Some latitude, Some longitude) \<Rightarrow>
          (if \<not> isValidLatLng latitude longitude then None
           else Some \<lparr>lo_eventIndex = ev_id event, lo_elapsedUs = tp_elapsedUs event, lo_timestampUs = ts_timestampUs event,
             lo_timestampMs = ts_timestampMs event, lo_latitude = latitude, lo_longitude = longitude,
             lo_accuracy = number ''accuracy'', lo_altitude = number ''altitude'', lo_speed = number ''speed'',
             lo_provider = textual (field (ev_data event) ''provider''),
             lo_fixTimestampMs = map_option (\<lambda>seconds. seconds * 1000) (number ''time'')\<rparr>)
      | _ \<Rightarrow> None)"

definition processEvent :: "gnbidLengths \<Rightarrow> parseMode \<Rightarrow> nsgEvent \<Rightarrow> operatorState \<Rightarrow> string + (operatorState \<times> eventOutcome)" where
  "processEvent gnbidLength mode event operators =
    (let operators' = processOperators event operators;
         subscription = defaultDataSubscription event mode;
         projected = (if ev_name event = ''ScheduleCellInfo'' then projectCells gnbidLength operators' mode event
           else Inr \<lparr>eo_event = event, eo_cells = [], eo_anchor = None, eo_subscription = None, eo_location = None\<rparr>);
         location = (if ev_name event = ''change'' \<and> mode = CompleteMode then eventLocation event else None)
     in case projected of
        Inl message \<Rightarrow> Inl message
      | Inr outcome \<Rightarrow> Inr (operators', outcome\<lparr>eo_subscription := subscription, eo_location := location\<rparr>))"

definition EVENT_TEXT_MESSAGE :: string where "EVENT_TEXT_MESSAGE = ''Invalid UTF-8 or JSON in a decoded NSG event''"
definition EVENT_OBJECT_MESSAGE :: string where "EVENT_OBJECT_MESSAGE = ''Expected an NSG JSON event object''"

definition parsePayload :: "bytes \<Rightarrow> string + jsonObject" where
  "parsePayload payload =
    (case Option.bind (decodeUtf8 payload) parseJson of
       None \<Rightarrow> Inl EVENT_TEXT_MESSAGE
     | Some (JObj data) \<Rightarrow> Inr data
     | Some _ \<Rightarrow> Inl EVENT_OBJECT_MESSAGE)"

end
