(* ===== verification/NsgRecords.thy ===== *)
theory NsgRecords
  imports NsgTypes JsValues
begin

text \<open>
  The Qualcomm records of an NSG recording (lib/nsg-parser/internal/qualcomm): the header of a DIAG
  packet, and the decoders of the measurements, configurations and serving cells. A decoder takes
  the bytes of a payload; the outer option is the exception of a read out of range, the inner one
  the \<open>null\<close> of a payload that is not what it claims.
\<close>

section \<open>diag.ts\<close>

record diagPrefix =
  dp_packetLength :: int
  dp_logCode :: int

record diagHeader = diagPrefix +
  dh_view :: bytes

definition QUALCOMM_DIAG_PREFIX_BYTES :: int where "QUALCOMM_DIAG_PREFIX_BYTES = 4"
definition QUALCOMM_DIAG_HEADER_BYTES :: int where "QUALCOMM_DIAG_HEADER_BYTES = 12"

definition readDiagPrefix :: "bytes \<Rightarrow> diagPrefix option option" where
  "readDiagPrefix payload =
    (if int (length payload) < QUALCOMM_DIAG_PREFIX_BYTES then Some None
     else do {
       packetLength \<leftarrow> getUint16 payload 0;
       logCode \<leftarrow> getUint16 payload 2;
       Some (Some \<lparr>dp_packetLength = packetLength, dp_logCode = logCode\<rparr>)
     })"

definition readDiagHeader :: "bytes \<Rightarrow> int \<Rightarrow> diagPrefix option \<Rightarrow> diagHeader option option" where
  "readDiagHeader payload maximumBytes parsedPrefix =
    (if int (length payload) < QUALCOMM_DIAG_HEADER_BYTES then Some None
     else do {
       encodedPrefix \<leftarrow> readDiagPrefix payload;
       Some (case encodedPrefix of
         None \<Rightarrow> None
       | Some encoded \<Rightarrow>
           (if parsedPrefix \<noteq> None \<and> parsedPrefix \<noteq> Some encoded then None
            else let prefix = (case parsedPrefix of Some p \<Rightarrow> p | None \<Rightarrow> encoded)
                 in if dp_packetLength prefix < QUALCOMM_DIAG_HEADER_BYTES \<or>
                      int (length payload) < dp_packetLength prefix \<or> maximumBytes < dp_packetLength prefix
                    then None
                    else Some \<lparr>dp_packetLength = dp_packetLength prefix, dp_logCode = dp_logCode prefix,
                      dh_view = take (nat (dp_packetLength prefix)) payload\<rparr>))
     })"

text \<open>\<open>parsedHeader ?? readDiagHeader(payload, maximum)\<close>.\<close>

definition headerOr :: "diagHeader option \<Rightarrow> bytes \<Rightarrow> int \<Rightarrow> diagHeader option option" where
  "headerOr parsedHeader payload maximumBytes =
    (case parsedHeader of Some h \<Rightarrow> Some (Some h) | None \<Rightarrow> readDiagHeader payload maximumBytes None)"

section \<open>lteServingCell.ts\<close>

definition QUALCOMM_LTE_SERVING_CELL_INFO_LOG_CODE :: int where "QUALCOMM_LTE_SERVING_CELL_INFO_LOG_CODE = 0xB0C2"
definition MAX_QUALCOMM_LTE_SERVING_CELL_INFO_BYTES :: int where "MAX_QUALCOMM_LTE_SERVING_CELL_INFO_BYTES = 64"
definition LTE_SERVING_CELL_INFO_BYTES :: int where "LTE_SERVING_CELL_INFO_BYTES = 41"
definition LTE_SERVING_CELL_INFO_VERSION :: int where "LTE_SERVING_CELL_INFO_VERSION = 3"

record lteServingCellInfo =
  lsc_version :: int
  lsc_pci :: int
  lsc_earfcn :: int
  lsc_ulEarfcn :: int
  lsc_cellIdentity :: int
  lsc_tac :: int
  lsc_band :: int
  lsc_mcc :: string
  lsc_mnc :: string

definition decodeQualcommLteServingCellInfo :: "bytes \<Rightarrow> diagHeader option \<Rightarrow> lteServingCellInfo option option" where
  "decodeQualcommLteServingCellInfo payload parsedHeader = do {
     header \<leftarrow> headerOr parsedHeader payload MAX_QUALCOMM_LTE_SERVING_CELL_INFO_BYTES;
     (case header of
        None \<Rightarrow> Some None
      | Some h \<Rightarrow>
          (if dp_logCode h \<noteq> QUALCOMM_LTE_SERVING_CELL_INFO_LOG_CODE \<or>
              dp_packetLength h < LTE_SERVING_CELL_INFO_BYTES \<or>
              MAX_QUALCOMM_LTE_SERVING_CELL_INFO_BYTES < dp_packetLength h \<or>
              int (length (dh_view h)) < LTE_SERVING_CELL_INFO_BYTES
           then Some None
           else do {
             version \<leftarrow> getUint8 (dh_view h) 12;
             (if version \<noteq> LTE_SERVING_CELL_INFO_VERSION then Some None
              else do {
                mncDigitCount \<leftarrow> getUint8 (dh_view h) 37;
                (if mncDigitCount \<noteq> 2 \<and> mncDigitCount \<noteq> 3 then Some None
                 else do {
                   mccValue \<leftarrow> getUint16 (dh_view h) 35;
                   (if 1000 \<le> mccValue then Some None
                    else do {
                      mncValue \<leftarrow> getUint16 (dh_view h) 38;
                      (if 10 ^ nat mncDigitCount \<le> mncValue then Some None
                       else do {
                         pci \<leftarrow> getUint16 (dh_view h) 13;
                         earfcn \<leftarrow> getUint32 (dh_view h) 15;
                         ulEarfcn \<leftarrow> getUint32 (dh_view h) 19;
                         cellIdentity \<leftarrow> getUint32 (dh_view h) 25;
                         tac \<leftarrow> getUint16 (dh_view h) 29;
                         band \<leftarrow> getUint32 (dh_view h) 31;
                         Some (Some \<lparr>lsc_version = version, lsc_pci = pci, lsc_earfcn = earfcn, lsc_ulEarfcn = ulEarfcn,
                           lsc_cellIdentity = cellIdentity, lsc_tac = tac, lsc_band = band,
                           lsc_mcc = padLeft 3 (intText mccValue), lsc_mnc = padLeft (nat mncDigitCount) (intText mncValue)\<rparr>)
                       })
                    })
                 })
              })
           }))
   }"

section \<open>nrServingCell.ts\<close>

definition QUALCOMM_NR_SERVING_CELL_INFO_LOG_CODE :: int where "QUALCOMM_NR_SERVING_CELL_INFO_LOG_CODE = 0xB823"
definition QUALCOMM_NR_SERVING_CELL_INFO_BYTES :: int where "QUALCOMM_NR_SERVING_CELL_INFO_BYTES = 50"
definition MAX_QUALCOMM_NR_SERVING_CELL_INFO_BYTES :: int where
  "MAX_QUALCOMM_NR_SERVING_CELL_INFO_BYTES = QUALCOMM_NR_SERVING_CELL_INFO_BYTES"
definition SUPPORTED_SERVING_VERSION :: int where "SUPPORTED_SERVING_VERSION = 4"

record nrServingCellInfo =
  nsc_packetLength :: int
  nsc_version :: int
  nsc_physicalCellId :: int
  nsc_downlinkFrequency :: int
  nsc_uplinkFrequency :: int
  nsc_downlinkBandwidth :: int
  nsc_uplinkBandwidth :: int
  nsc_cellIdentity :: int
  nsc_mcc :: int
  nsc_mncDigitCount :: int
  nsc_mnc :: int
  nsc_allowedAccess :: int
  nsc_tac :: int
  nsc_band :: int

definition readNrServingCell :: "diagHeader \<Rightarrow> nrServingCellInfo option option" where
  "readNrServingCell h = do {
     physicalCellId \<leftarrow> getUint16 (dh_view h) 16;
     downlinkFrequency \<leftarrow> getUint32 (dh_view h) 18;
     uplinkFrequency \<leftarrow> getUint32 (dh_view h) 22;
     downlinkBandwidth \<leftarrow> getUint16 (dh_view h) 26;
     uplinkBandwidth \<leftarrow> getUint16 (dh_view h) 28;
     cellIdentity \<leftarrow> getBigUint64 (dh_view h) 30;
     mcc \<leftarrow> getUint16 (dh_view h) 38;
     mncDigitCount \<leftarrow> getUint8 (dh_view h) 40;
     mnc \<leftarrow> getUint8 (dh_view h) 41;
     allowedAccess \<leftarrow> getUint8 (dh_view h) 42;
     tac \<leftarrow> getUint32 (dh_view h) 44;
     band \<leftarrow> getUint16 (dh_view h) 48;
     Some (Some \<lparr>nsc_packetLength = dp_packetLength h, nsc_version = SUPPORTED_SERVING_VERSION, nsc_physicalCellId = physicalCellId,
       nsc_downlinkFrequency = downlinkFrequency, nsc_uplinkFrequency = uplinkFrequency,
       nsc_downlinkBandwidth = downlinkBandwidth, nsc_uplinkBandwidth = uplinkBandwidth, nsc_cellIdentity = cellIdentity,
       nsc_mcc = mcc, nsc_mncDigitCount = mncDigitCount, nsc_mnc = mnc, nsc_allowedAccess = allowedAccess, nsc_tac = tac,
       nsc_band = band\<rparr>)
   }"

definition decodeQualcommNrServingCellInfo :: "bytes \<Rightarrow> diagHeader option \<Rightarrow> nrServingCellInfo option option" where
  "decodeQualcommNrServingCellInfo payload parsedHeader = do {
     header \<leftarrow> headerOr parsedHeader payload MAX_QUALCOMM_NR_SERVING_CELL_INFO_BYTES;
     (case header of
        None \<Rightarrow> Some None
      | Some h \<Rightarrow>
          (if dp_logCode h \<noteq> QUALCOMM_NR_SERVING_CELL_INFO_LOG_CODE \<or>
              dp_packetLength h \<noteq> QUALCOMM_NR_SERVING_CELL_INFO_BYTES
           then Some None
           else do {
             version \<leftarrow> getUint32 (dh_view h) 12;
             (if version \<noteq> SUPPORTED_SERVING_VERSION then Some None else readNrServingCell h)
           }))
   }"

section \<open>nrConfiguration.ts\<close>

definition QUALCOMM_NR_CONFIGURATION_INFO_LOG_CODE :: int where "QUALCOMM_NR_CONFIGURATION_INFO_LOG_CODE = 0xB825"
definition MAX_QUALCOMM_NR_CONFIGURATION_INFO_BYTES :: int where "MAX_QUALCOMM_NR_CONFIGURATION_INFO_BYTES = 0xFFFF"
definition SUPPORTED_CONFIGURATION_VERSION :: int where "SUPPORTED_CONFIGURATION_VERSION = 8"
definition FIXED_PACKET_BYTES :: int where "FIXED_PACKET_BYTES = 73"
definition CONTIGUOUS_CARRIER_GROUP_BYTES :: int where "CONTIGUOUS_CARRIER_GROUP_BYTES = 4"
definition ACTIVE_CARRIER_BYTES :: int where "ACTIVE_CARRIER_BYTES = 18"
definition ACTIVE_RADIO_BEARER_BYTES :: int where "ACTIVE_RADIO_BEARER_BYTES = 18"

record nrCarrierGroup =
  cg_band :: int
  cg_downlinkBandwidthClass :: int
  cg_uplinkBandwidthClass :: int

record nrActiveCarrier =
  nac_ccId :: int
  nac_cellId :: int
  nac_downlinkArfcn :: int
  nac_uplinkArfcn :: int
  nac_band :: int
  nac_bandType :: int
  nac_downlinkBandwidth :: int
  nac_uplinkBandwidth :: int
  nac_downlinkMaxMimo :: int
  nac_uplinkMaxMimo :: int

record nrConfigurationInfo =
  ncf_packetLength :: int
  ncf_version :: int
  ncf_state :: int
  ncf_configurationActive :: bool
  ncf_connectivityMode :: int
  ncf_activeSrbCount :: int
  ncf_activeDrbCount :: int
  ncf_mnMcgDrbIds :: int
  ncf_contiguousCarrierGroups :: "nrCarrierGroup list"
  ncf_activeCarriers :: "nrActiveCarrier list"
  ncf_activeRadioBearerCount :: int

definition isConnectedQualcommNrStandalone :: "nrConfigurationInfo \<Rightarrow> bool" where
  "isConnectedQualcommNrStandalone c \<longleftrightarrow> ncf_state c = 7 \<and> ncf_configurationActive c \<and> ncf_connectivityMode c = 2"

text \<open>
  A loop that reads \<open>n\<close> items of one width, each checked to lie in the packet.
\<close>

fun readItems :: "(bytes \<Rightarrow> int \<Rightarrow> 'a option) \<Rightarrow> int \<Rightarrow> int \<Rightarrow> bytes \<Rightarrow> nat \<Rightarrow> int \<Rightarrow> 'a list option option" where
  "readItems readItem width packetLength view 0 offset = Some (Some [])"
| "readItems readItem width packetLength view (Suc n) offset =
     (if \<not> hasByteRange offset width packetLength then Some None
      else do {
        item \<leftarrow> readItem view offset;
        items \<leftarrow> readItems readItem width packetLength view n (offset + width);
        Some (map_option (Cons item) items)
      })"

definition readCarrierGroup :: "bytes \<Rightarrow> int \<Rightarrow> nrCarrierGroup option" where
  "readCarrierGroup view offset = do {
     band \<leftarrow> getUint16 view offset;
     downlink \<leftarrow> getUint8 view (offset + 2);
     uplink \<leftarrow> getUint8 view (offset + 3);
     Some \<lparr>cg_band = band, cg_downlinkBandwidthClass = lowBits 1 downlink, cg_uplinkBandwidthClass = lowBits 1 uplink\<rparr>
   }"

definition readActiveCarrier :: "bytes \<Rightarrow> int \<Rightarrow> nrActiveCarrier option" where
  "readActiveCarrier view offset = do {
     ccId \<leftarrow> getUint8 view offset;
     cellId \<leftarrow> getUint16 view (offset + 1);
     downlinkArfcn \<leftarrow> getUint32 view (offset + 3);
     uplinkArfcn \<leftarrow> getUint32 view (offset + 7);
     band \<leftarrow> getUint16 view (offset + 11);
     bandType \<leftarrow> getUint8 view (offset + 13);
     downlinkBandwidth \<leftarrow> getUint8 view (offset + 14);
     uplinkBandwidth \<leftarrow> getUint8 view (offset + 15);
     downlinkMaxMimo \<leftarrow> getUint8 view (offset + 16);
     uplinkMaxMimo \<leftarrow> getUint8 view (offset + 17);
     Some \<lparr>nac_ccId = ccId, nac_cellId = cellId, nac_downlinkArfcn = downlinkArfcn, nac_uplinkArfcn = uplinkArfcn,
       nac_band = band, nac_bandType = lowBits 1 bandType, nac_downlinkBandwidth = lowBits 4 downlinkBandwidth,
       nac_uplinkBandwidth = lowBits 4 uplinkBandwidth, nac_downlinkMaxMimo = downlinkMaxMimo,
       nac_uplinkMaxMimo = uplinkMaxMimo\<rparr>
   }"

definition readNrConfiguration ::
  "diagHeader \<Rightarrow> nrCarrierGroup list \<Rightarrow> nrActiveCarrier list \<Rightarrow> int \<Rightarrow> nrConfigurationInfo option" where
  "readNrConfiguration h groups carriers activeRadioBearerCount = do {
     state \<leftarrow> getUint8 (dh_view h) 16;
     active \<leftarrow> getUint8 (dh_view h) 17;
     connectivityMode \<leftarrow> getUint8 (dh_view h) 18;
     activeSrbCount \<leftarrow> getUint8 (dh_view h) 19;
     activeDrbCount \<leftarrow> getUint8 (dh_view h) 20;
     mnMcgDrbIds \<leftarrow> getUint8 (dh_view h) 21;
     Some \<lparr>ncf_packetLength = dp_packetLength h, ncf_version = SUPPORTED_CONFIGURATION_VERSION,
       ncf_state = lowBits 3 state, ncf_configurationActive = (lowBits 1 active = 1),
       ncf_connectivityMode = lowBits 2 connectivityMode, ncf_activeSrbCount = activeSrbCount,
       ncf_activeDrbCount = activeDrbCount, ncf_mnMcgDrbIds = mnMcgDrbIds, ncf_contiguousCarrierGroups = groups,
       ncf_activeCarriers = carriers, ncf_activeRadioBearerCount = activeRadioBearerCount\<rparr>
   }"

definition decodeNrConfigurationBody :: "diagHeader \<Rightarrow> nrConfigurationInfo option option" where
  "decodeNrConfigurationBody h = do {
     groupCount \<leftarrow> getUint8 (dh_view h) 70;
     carrierCount \<leftarrow> getUint8 (dh_view h) 71;
     bearerCount \<leftarrow> getUint8 (dh_view h) 72;
     (let groupsBytes = groupCount * CONTIGUOUS_CARRIER_GROUP_BYTES;
          carriersBytes = carrierCount * ACTIVE_CARRIER_BYTES;
          bearersBytes = bearerCount * ACTIVE_RADIO_BEARER_BYTES
      in if dp_packetLength h \<noteq> FIXED_PACKET_BYTES + groupsBytes + carriersBytes + bearersBytes then Some None
         else do {
           groups \<leftarrow> readItems readCarrierGroup CONTIGUOUS_CARRIER_GROUP_BYTES (dp_packetLength h) (dh_view h)
             (nat groupCount) FIXED_PACKET_BYTES;
           (case groups of
              None \<Rightarrow> Some None
            | Some gs \<Rightarrow> do {
                carriers \<leftarrow> readItems readActiveCarrier ACTIVE_CARRIER_BYTES (dp_packetLength h) (dh_view h)
                  (nat carrierCount) (FIXED_PACKET_BYTES + groupsBytes);
                (case carriers of
                   None \<Rightarrow> Some None
                 | Some cs \<Rightarrow>
                     (if \<not> hasByteRange (FIXED_PACKET_BYTES + groupsBytes + carriersBytes) bearersBytes (dp_packetLength h)
                      then Some None
                      else map_option Some (readNrConfiguration h gs cs bearerCount)))
              })
         })
   }"

definition decodeQualcommNrConfigurationInfo :: "bytes \<Rightarrow> diagHeader option \<Rightarrow> nrConfigurationInfo option option" where
  "decodeQualcommNrConfigurationInfo payload parsedHeader = do {
     header \<leftarrow> headerOr parsedHeader payload MAX_QUALCOMM_NR_CONFIGURATION_INFO_BYTES;
     (case header of
        None \<Rightarrow> Some None
      | Some h \<Rightarrow>
          (if dp_logCode h \<noteq> QUALCOMM_NR_CONFIGURATION_INFO_LOG_CODE \<or> dp_packetLength h < FIXED_PACKET_BYTES then Some None
           else do {
             version \<leftarrow> getUint32 (dh_view h) 12;
             (if version \<noteq> SUPPORTED_CONFIGURATION_VERSION then Some None else decodeNrConfigurationBody h)
           }))
   }"

section \<open>nrMeasurement.ts\<close>

definition QUALCOMM_NR_MEASUREMENT_LOG_CODE :: int where "QUALCOMM_NR_MEASUREMENT_LOG_CODE = 0xB97F"
definition MAX_QUALCOMM_NR_MEASUREMENT_BYTES :: int where "MAX_QUALCOMM_NR_MEASUREMENT_BYTES = 0xFFFF"
definition VERSION_HEADER_BYTES :: int where "VERSION_HEADER_BYTES = 16"
definition CELL_BYTES :: int where "CELL_BYTES = 16"

datatype servingIdentity = ServingByIndex | ServingByPci

record carrierLayout =
  cl_carrierBytes :: int
  cl_ccIdOffset :: "int option"
  cl_cellCountOffset :: int
  cl_servingIndexOffset :: int
  cl_servingSsbOffset :: int

record nrLayout = carrierLayout +
  nl_measurementHeaderBytes :: int
  nl_layerCountOffset :: int
  nl_beamBytes :: int
  nl_beamCountBytes :: int
  nl_servingIdentity :: servingIdentity

definition LEGACY_CARRIER_LAYOUT :: carrierLayout where
  "LEGACY_CARRIER_LAYOUT = \<lparr>cl_carrierBytes = 32, cl_ccIdOffset = None, cl_cellCountOffset = 4, cl_servingIndexOffset = 5,
     cl_servingSsbOffset = 8\<rparr>"

definition MODERN_CARRIER_LAYOUT :: carrierLayout where
  "MODERN_CARRIER_LAYOUT = \<lparr>cl_carrierBytes = 32, cl_ccIdOffset = Some 4, cl_cellCountOffset = 5, cl_servingIndexOffset = 8,
     cl_servingSsbOffset = 9\<rparr>"

definition nrLayoutOf :: "carrierLayout \<Rightarrow> int \<Rightarrow> int \<Rightarrow> int \<Rightarrow> int \<Rightarrow> servingIdentity \<Rightarrow> nrLayout" where
  "nrLayoutOf carrier headerBytes layerCountOffset beamBytes beamCountBytes identity =
    carrierLayout.extend carrier \<lparr>nl_measurementHeaderBytes = headerBytes, nl_layerCountOffset = layerCountOffset,
      nl_beamBytes = beamBytes, nl_beamCountBytes = beamCountBytes, nl_servingIdentity = identity\<rparr>"

text \<open>The keys of the source are texts \<open>major.minor\<close>.\<close>

definition QUALCOMM_NR_LAYOUTS :: "((int \<times> int) \<times> nrLayout) list" where
  "QUALCOMM_NR_LAYOUTS =
    [((2, 6), nrLayoutOf LEGACY_CARRIER_LAYOUT 20 16 44 1 ServingByIndex),
     ((2, 7), nrLayoutOf LEGACY_CARRIER_LAYOUT 28 16 44 1 ServingByIndex),
     ((2, 9), nrLayoutOf MODERN_CARRIER_LAYOUT 32 20 44 1 ServingByIndex),
     ((2, 10), nrLayoutOf MODERN_CARRIER_LAYOUT 32 20 84 4 ServingByIndex),
     ((3, 0), nrLayoutOf (MODERN_CARRIER_LAYOUT\<lparr>cl_carrierBytes := 40\<rparr>) 32 20 84 4 ServingByPci)]"

record nrMeasurementCell =
  mc_carrierIndex :: int
  mc_cellIndex :: int
  mc_arfcn :: int
  mc_ccId :: "int option"
  mc_pci :: int
  mc_sfn :: int
  mc_beamCount :: int
  mc_rsrp :: number
  mc_rsrq :: number
  mc_serving :: bool
  mc_servingPci :: int
  mc_servingSsb :: int

record nrMeasurement =
  nm_packetLength :: int
  nm_versionMajor :: int
  nm_versionMinor :: int
  nm_layerCount :: int
  nm_cells :: "nrMeasurementCell list"

definition layoutForVersion :: "int \<Rightarrow> int \<Rightarrow> nrLayout option" where
  "layoutForVersion versionMajor versionMinor = map_of QUALCOMM_NR_LAYOUTS (versionMajor, versionMinor)"

text \<open>The only index that fits, as the loop with its early return finds it.\<close>

fun uniqueIndex :: "('a \<Rightarrow> bool) \<Rightarrow> 'a list \<Rightarrow> nat \<Rightarrow> nat option \<Rightarrow> nat option" where
  "uniqueIndex fits [] i found = found"
| "uniqueIndex fits (x # xs) i found =
     (if \<not> fits x then uniqueIndex fits xs (Suc i) found
      else if found \<noteq> None then None
      else uniqueIndex fits xs (Suc i) (Some i))"

definition servingCellIndex :: "nrLayout \<Rightarrow> nrMeasurementCell list \<Rightarrow> int \<Rightarrow> int \<Rightarrow> nat option" where
  "servingCellIndex layout cells servingIndex servingPci =
    (if nl_servingIdentity layout = ServingByIndex
     then (if servingIndex < int (length cells) then Some (nat servingIndex) else None)
     else if servingPci = 0xFFFF then None
     else uniqueIndex (\<lambda>c. mc_pci c = servingPci) cells 0 None)"

text \<open>The carrier a cell belongs to, as its header gives it.\<close>

record nrCarrierHeader =
  ch_carrierIndex :: int
  ch_arfcn :: int
  ch_ccId :: "int option"
  ch_servingPci :: int
  ch_servingSsb :: int

definition readMeasurementCell :: "nrLayout \<Rightarrow> nrCarrierHeader \<Rightarrow> int \<Rightarrow> int \<Rightarrow> bytes \<Rightarrow> int
    \<Rightarrow> (nrMeasurementCell \<times> int) option option" where
  "readMeasurementCell layout carrier cellIndex packetLength view offset =
    (if \<not> hasByteRange offset CELL_BYTES packetLength then Some None
     else do {
       pci \<leftarrow> getUint16 view offset;
       sfn \<leftarrow> getUint16 view (offset + 2);
       beamCount \<leftarrow> (if nl_beamCountBytes layout = 1 then getUint8 view (offset + 4) else getUint32 view (offset + 4));
       (if (packetLength - offset - CELL_BYTES) div nl_beamBytes layout < beamCount then Some None
        else let cellLength = CELL_BYTES + beamCount * nl_beamBytes layout
             in if \<not> hasByteRange offset cellLength packetLength then Some None
                else do {
                  rsrp \<leftarrow> getInt32 view (offset + 8);
                  rsrq \<leftarrow> getInt32 view (offset + 12);
                  Some (Some (\<lparr>mc_carrierIndex = ch_carrierIndex carrier, mc_cellIndex = cellIndex, mc_arfcn = ch_arfcn carrier,
                      mc_ccId = ch_ccId carrier, mc_pci = pci, mc_sfn = sfn, mc_beamCount = beamCount,
                      mc_rsrp = of_int rsrp / 128, mc_rsrq = of_int rsrq / 128, mc_serving = False,
                      mc_servingPci = ch_servingPci carrier, mc_servingSsb = ch_servingSsb carrier\<rparr>,
                    offset + cellLength))
                })
     })"

fun readMeasurementCells :: "nrLayout \<Rightarrow> nrCarrierHeader \<Rightarrow> int \<Rightarrow> bytes \<Rightarrow> nat \<Rightarrow> int \<Rightarrow> int
    \<Rightarrow> (nrMeasurementCell list \<times> int) option option" where
  "readMeasurementCells layout carrier packetLength view 0 cellIndex offset = Some (Some ([], offset))"
| "readMeasurementCells layout carrier packetLength view (Suc n) cellIndex offset = do {
     cell \<leftarrow> readMeasurementCell layout carrier cellIndex packetLength view offset;
     (case cell of
        None \<Rightarrow> Some None
      | Some (c, next) \<Rightarrow> do {
          rest \<leftarrow> readMeasurementCells layout carrier packetLength view n (cellIndex + 1) next;
          Some (map_option (\<lambda>(cs, end'). (c # cs, end')) rest)
        })
   }"

definition markServing :: "nrLayout \<Rightarrow> int \<Rightarrow> int \<Rightarrow> nrMeasurementCell list \<Rightarrow> nrMeasurementCell list" where
  "markServing layout servingIndex servingPci cells =
    (case servingCellIndex layout cells servingIndex servingPci of
       None \<Rightarrow> cells
     | Some i \<Rightarrow> cells[i := (cells ! i)\<lparr>mc_serving := True\<rparr>])"

definition readCarrier :: "nrLayout \<Rightarrow> int \<Rightarrow> bytes \<Rightarrow> int \<Rightarrow> int \<Rightarrow> (nrMeasurementCell list \<times> int) option option" where
  "readCarrier layout packetLength view carrierIndex offset =
    (if \<not> hasByteRange offset (cl_carrierBytes layout) packetLength then Some None
     else do {
       arfcn \<leftarrow> getUint32 view offset;
       ccId \<leftarrow> (case cl_ccIdOffset layout of None \<Rightarrow> Some None | Some o' \<Rightarrow> map_option Some (getUint8 view (offset + o')));
       cellCount \<leftarrow> getUint8 view (offset + cl_cellCountOffset layout);
       servingPci \<leftarrow> getUint16 view (offset + 6);
       servingIndex \<leftarrow> getUint8 view (offset + cl_servingIndexOffset layout);
       servingSsb \<leftarrow> getUint8 view (offset + cl_servingSsbOffset layout);
       cells \<leftarrow> readMeasurementCells layout
         \<lparr>ch_carrierIndex = carrierIndex, ch_arfcn = arfcn, ch_ccId = ccId, ch_servingPci = servingPci, ch_servingSsb = servingSsb\<rparr>
         packetLength view (nat cellCount) 0 (offset + cl_carrierBytes layout);
       Some (map_option (\<lambda>(cs, next). (markServing layout servingIndex servingPci cs, next)) cells)
     })"

fun readCarriers :: "nrLayout \<Rightarrow> int \<Rightarrow> bytes \<Rightarrow> nat \<Rightarrow> int \<Rightarrow> int \<Rightarrow> (nrMeasurementCell list \<times> int) option option" where
  "readCarriers layout packetLength view 0 carrierIndex offset = Some (Some ([], offset))"
| "readCarriers layout packetLength view (Suc n) carrierIndex offset = do {
     carrier \<leftarrow> readCarrier layout packetLength view carrierIndex offset;
     (case carrier of
        None \<Rightarrow> Some None
      | Some (cs, next) \<Rightarrow> do {
          rest \<leftarrow> readCarriers layout packetLength view n (carrierIndex + 1) next;
          Some (map_option (\<lambda>(more, end'). (cs @ more, end')) rest)
        })
   }"

text \<open>
  The bytes after the last carrier must be zero. An array read past its end is \<open>undefined\<close>, not zero.
\<close>

definition zeroFrom :: "int \<Rightarrow> int \<Rightarrow> bytes \<Rightarrow> bool" where
  "zeroFrom offset packetLength payload \<longleftrightarrow>
    packetLength \<le> offset \<or>
    packetLength \<le> int (length payload) \<and> list_all (\<lambda>b. b = 0) (take (nat (packetLength - offset)) (drop (nat offset) payload))"

definition decodeQualcommNrMeasurement :: "bytes \<Rightarrow> diagHeader option \<Rightarrow> nrMeasurement option option" where
  "decodeQualcommNrMeasurement payload parsedHeader = do {
     header \<leftarrow> headerOr parsedHeader payload MAX_QUALCOMM_NR_MEASUREMENT_BYTES;
     (case header of
        None \<Rightarrow> Some None
      | Some h \<Rightarrow>
          (if dp_packetLength h < VERSION_HEADER_BYTES \<or> dp_logCode h \<noteq> QUALCOMM_NR_MEASUREMENT_LOG_CODE then Some None
           else do {
             versionMinor \<leftarrow> getUint16 (dh_view h) 12;
             versionMajor \<leftarrow> getUint16 (dh_view h) 14;
             (case layoutForVersion versionMajor versionMinor of
                None \<Rightarrow> Some None
              | Some layout \<Rightarrow>
                  (if dp_packetLength h < nl_measurementHeaderBytes layout then Some None
                   else do {
                     layerCount \<leftarrow> getUint8 (dh_view h) (nl_layerCountOffset layout);
                     carriers \<leftarrow> readCarriers layout (dp_packetLength h) (dh_view h) (nat layerCount) 0
                       (nl_measurementHeaderBytes layout);
                     Some (case carriers of
                       None \<Rightarrow> None
                     | Some (cells, offset) \<Rightarrow>
                         (if zeroFrom offset (dp_packetLength h) payload
                          then Some \<lparr>nm_packetLength = dp_packetLength h, nm_versionMajor = versionMajor,
                            nm_versionMinor = versionMinor, nm_layerCount = layerCount, nm_cells = cells\<rparr>
                          else None))
                   }))
           }))
   }"

end
