(* ===== verification/NsgSignaling.thy ===== *)
theory NsgSignaling
  imports NsgRecords
begin

text \<open>
  The signaling messages of a recording (internal/qualcomm/signaling): the layouts of each packet
  version, the tables of the message kinds, and the decoders of LTE RRC, NR RRC and LTE NAS.
\<close>

section \<open>rrcProfile.ts\<close>

record rrcLayout =
  rl_messageOffset :: int
  rl_messageLengthOffset :: int
  rl_segmentIdOffset :: "int option"

record rrcPdu =
  pd_direction :: signalingDirection
  pd_channel :: "string option"
  pd_pduType :: "string option"

type_synonym rrcPduMap = "(int \<times> rrcPdu) list"

definition pdu :: "signalingDirection \<Rightarrow> string option \<Rightarrow> string option \<Rightarrow> rrcPdu" where
  "pdu direction channel pduType = \<lparr>pd_direction = direction, pd_channel = channel, pd_pduType = pduType\<rparr>"

definition UNKNOWN_RRC_PDU :: rrcPdu where "UNKNOWN_RRC_PDU = pdu DirUnknown None None"

definition nullableIdentity :: "int \<Rightarrow> int \<Rightarrow> int option" where
  "nullableIdentity v unavailable = (if v = unavailable then None else Some v)"

definition hasValidRrcEnvelope :: "int \<Rightarrow> bytes \<Rightarrow> 'a rrcLayout_scheme option \<Rightarrow> bool option" where
  "hasValidRrcEnvelope packetLength view layout =
    (case layout of
       None \<Rightarrow> Some False
     | Some l \<Rightarrow>
         (if packetLength < rl_messageOffset l \<or> int (length view) < rl_messageOffset l then Some False
          else do {
            messageLength \<leftarrow> getUint16 view (rl_messageLengthOffset l);
            Some (rl_messageOffset l + messageLength = packetLength)
          }))"

definition subarray :: "bytes \<Rightarrow> int \<Rightarrow> int \<Rightarrow> bytes" where
  "subarray payload start stop = take (nat (stop - start)) (drop (nat start) payload)"

text \<open>A field of the metadata that only some layouts have.\<close>

definition optionalField :: "string \<Rightarrow> (int \<Rightarrow> int option) \<Rightarrow> int option \<Rightarrow> jsonObject option" where
  "optionalField key read offset =
    (case offset of None \<Rightarrow> Some [] | Some o' \<Rightarrow> map_option (\<lambda>v. [(key, jInt v)]) (read o'))"

section \<open>lteRrc.ts\<close>

definition QUALCOMM_LTE_RRC_OTA_LOG_CODE :: int where "QUALCOMM_LTE_RRC_OTA_LOG_CODE = 0xB0C0"

record lteRrcLayout = rrcLayout +
  ll_rbidOffset :: int
  ll_pciOffset :: int
  ll_channelNumberOffset :: int
  ll_channelNumberBytes :: int
  ll_sfnSubframeOffset :: int
  ll_pduIdOffset :: int
  ll_sibMaskOffset :: "int option"
  ll_nrRrcReleaseMajorOffset :: "int option"
  ll_nrRrcReleaseMinorOffset :: "int option"

definition LTE_RRC_LEGACY_PDUS :: rrcPduMap where
  "LTE_RRC_LEGACY_PDUS =
    [(1, pdu DirDL (Some ''BCCH-BCH'') None),
     (2, pdu DirDL (Some ''BCCH-DL-SCH'') None),
     (3, pdu DirDL (Some ''MCCH'') None),
     (4, pdu DirDL (Some ''PCCH'') None),
     (5, pdu DirDL (Some ''DL-CCCH'') None),
     (6, pdu DirDL (Some ''DL-DCCH'') None),
     (7, pdu DirUL (Some ''UL-CCCH'') None),
     (8, pdu DirUL (Some ''UL-DCCH'') None)]"

definition LTE_RRC_V9_PDUS :: rrcPduMap where
  "LTE_RRC_V9_PDUS =
    [(8, pdu DirDL (Some ''BCCH-BCH'') None),
     (9, pdu DirDL (Some ''BCCH-DL-SCH'') None),
     (10, pdu DirDL (Some ''MCCH'') None),
     (11, pdu DirDL (Some ''PCCH'') None),
     (12, pdu DirDL (Some ''DL-CCCH'') None),
     (13, pdu DirDL (Some ''DL-DCCH'') None),
     (14, pdu DirUL (Some ''UL-CCCH'') None),
     (15, pdu DirUL (Some ''UL-DCCH'') None)]"

definition LTE_RRC_V14_PDUS :: rrcPduMap where
  "LTE_RRC_V14_PDUS =
    [(1, pdu DirDL (Some ''BCCH-BCH'') None),
     (2, pdu DirDL (Some ''BCCH-DL-SCH'') None),
     (4, pdu DirDL (Some ''MCCH'') None),
     (5, pdu DirDL (Some ''PCCH'') None),
     (6, pdu DirDL (Some ''DL-CCCH'') None),
     (7, pdu DirDL (Some ''DL-DCCH'') None),
     (8, pdu DirUL (Some ''UL-CCCH'') None),
     (9, pdu DirUL (Some ''UL-DCCH'') None)]"

definition LTE_RRC_MODERN_PDUS :: rrcPduMap where
  "LTE_RRC_MODERN_PDUS =
    [(1, pdu DirDL (Some ''BCCH-BCH'') None),
     (3, pdu DirDL (Some ''BCCH-DL-SCH'') None),
     (6, pdu DirDL (Some ''MCCH'') None),
     (7, pdu DirDL (Some ''PCCH'') None),
     (8, pdu DirDL (Some ''DL-CCCH'') None),
     (9, pdu DirDL (Some ''DL-DCCH'') None),
     (10, pdu DirUL (Some ''UL-CCCH'') None),
     (11, pdu DirUL (Some ''UL-DCCH'') None),
     (45, pdu DirDL (Some ''BCCH-BCH-NB'') None),
     (46, pdu DirDL (Some ''BCCH-DL-SCH-NB'') None),
     (47, pdu DirDL (Some ''PCCH-NB'') None),
     (48, pdu DirDL (Some ''DL-CCCH-NB'') None),
     (49, pdu DirDL (Some ''DL-DCCH-NB'') None),
     (50, pdu DirUL (Some ''UL-CCCH-NB'') None),
     (52, pdu DirUL (Some ''UL-DCCH-NB'') None)]"

definition LTE_RRC_MODERN_ALTERNATE_PDUS :: rrcPduMap where
  "LTE_RRC_MODERN_ALTERNATE_PDUS =
    [(54, pdu DirDL (Some ''BCCH-BCH-NB'') None),
     (55, pdu DirDL (Some ''BCCH-DL-SCH-NB'') None),
     (56, pdu DirDL (Some ''PCCH-NB'') None),
     (57, pdu DirDL (Some ''DL-CCCH-NB'') None),
     (58, pdu DirDL (Some ''DL-DCCH-NB'') None),
     (59, pdu DirUL (Some ''UL-CCCH-NB'') None),
     (61, pdu DirUL (Some ''UL-DCCH-NB'') None)] @ LTE_RRC_V14_PDUS"

definition LTE_RRC_LAYOUT_V2 :: lteRrcLayout where
  "LTE_RRC_LAYOUT_V2 = \<lparr>rl_messageOffset = 25, rl_messageLengthOffset = 23, rl_segmentIdOffset = None, ll_rbidOffset = 15, ll_pciOffset = 16, ll_channelNumberOffset = 18, ll_channelNumberBytes = 2, ll_sfnSubframeOffset = 20, ll_pduIdOffset = 22, ll_sibMaskOffset = None, ll_nrRrcReleaseMajorOffset = None, ll_nrRrcReleaseMinorOffset = None\<rparr>"

definition LTE_RRC_LAYOUT_V6 :: lteRrcLayout where
  "LTE_RRC_LAYOUT_V6 = LTE_RRC_LAYOUT_V2\<lparr>rl_messageOffset := 29, rl_messageLengthOffset := 27, ll_sibMaskOffset := Some 23\<rparr>"

definition LTE_RRC_LAYOUT_V8 :: lteRrcLayout where
  "LTE_RRC_LAYOUT_V8 = LTE_RRC_LAYOUT_V6\<lparr>rl_messageOffset := 31, rl_messageLengthOffset := 29, ll_channelNumberBytes := 4, ll_sfnSubframeOffset := 22, ll_pduIdOffset := 24, ll_sibMaskOffset := Some 25\<rparr>"

definition LTE_RRC_LAYOUT_V25 :: lteRrcLayout where
  "LTE_RRC_LAYOUT_V25 = LTE_RRC_LAYOUT_V8\<lparr>rl_messageOffset := 33, rl_messageLengthOffset := 31, ll_rbidOffset := 17, ll_pciOffset := 18, ll_channelNumberOffset := 20, ll_sfnSubframeOffset := 24, ll_pduIdOffset := 26, ll_sibMaskOffset := Some 27, ll_nrRrcReleaseMajorOffset := Some 15, ll_nrRrcReleaseMinorOffset := Some 16\<rparr>"

definition LTE_RRC_LAYOUT_V30 :: lteRrcLayout where
  "LTE_RRC_LAYOUT_V30 = LTE_RRC_LAYOUT_V25\<lparr>rl_messageOffset := 36, rl_segmentIdOffset := Some 35\<rparr>"

definition LTE_RRC_PROFILES :: "(int \<times> lteRrcLayout \<times> rrcPduMap) list" where
  "LTE_RRC_PROFILES =
    [(2, LTE_RRC_LAYOUT_V2, LTE_RRC_LEGACY_PDUS),
     (3, LTE_RRC_LAYOUT_V2, LTE_RRC_LEGACY_PDUS),
     (4, LTE_RRC_LAYOUT_V2, LTE_RRC_LEGACY_PDUS),
     (6, LTE_RRC_LAYOUT_V6, LTE_RRC_LEGACY_PDUS),
     (7, LTE_RRC_LAYOUT_V6, LTE_RRC_LEGACY_PDUS),
     (8, LTE_RRC_LAYOUT_V8, LTE_RRC_LEGACY_PDUS),
     (9, LTE_RRC_LAYOUT_V8, LTE_RRC_V9_PDUS),
     (12, LTE_RRC_LAYOUT_V8, LTE_RRC_V9_PDUS),
     (13, LTE_RRC_LAYOUT_V8, LTE_RRC_LEGACY_PDUS),
     (14, LTE_RRC_LAYOUT_V8, LTE_RRC_V14_PDUS),
     (15, LTE_RRC_LAYOUT_V8, LTE_RRC_V14_PDUS),
     (16, LTE_RRC_LAYOUT_V8, LTE_RRC_V14_PDUS),
     (19, LTE_RRC_LAYOUT_V8, LTE_RRC_MODERN_PDUS),
     (20, LTE_RRC_LAYOUT_V8, LTE_RRC_MODERN_ALTERNATE_PDUS),
     (22, LTE_RRC_LAYOUT_V8, LTE_RRC_LEGACY_PDUS),
     (24, LTE_RRC_LAYOUT_V8, LTE_RRC_MODERN_ALTERNATE_PDUS),
     (25, LTE_RRC_LAYOUT_V25, LTE_RRC_MODERN_ALTERNATE_PDUS),
     (26, LTE_RRC_LAYOUT_V25, LTE_RRC_MODERN_PDUS),
     (27, LTE_RRC_LAYOUT_V25, LTE_RRC_MODERN_PDUS),
     (29, LTE_RRC_LAYOUT_V25, LTE_RRC_MODERN_PDUS),
     (30, LTE_RRC_LAYOUT_V30, LTE_RRC_MODERN_PDUS),
     (31, LTE_RRC_LAYOUT_V30, LTE_RRC_MODERN_PDUS)]"

definition lteRrcProfile :: "bytes \<Rightarrow> (int \<times> lteRrcLayout \<times> rrcPduMap) option option" where
  "lteRrcProfile view =
    (if int (length view) < 13 then Some None
     else do {
       version \<leftarrow> getUint8 view 12;
       Some (map_option (Pair version) (map_of LTE_RRC_PROFILES version))
     })"

definition isValidQualcommLteRrcEnvelope :: "int \<Rightarrow> bytes \<Rightarrow> bool option" where
  "isValidQualcommLteRrcEnvelope packetLength view = do {
     profile \<leftarrow> lteRrcProfile view;
     hasValidRrcEnvelope packetLength view (map_option (\<lambda>(_, layout, _). layout) profile)
   }"

definition readLteRrc :: "bytes \<Rightarrow> int \<Rightarrow> bytes \<Rightarrow> int \<Rightarrow> lteRrcLayout \<Rightarrow> rrcPduMap \<Rightarrow> signalingMessage option" where
  "readLteRrc payload packetLength view version layout pduMap = do {
     payloadBytes \<leftarrow> getUint16 view (rl_messageLengthOffset layout);
     pduId \<leftarrow> getUint8 view (ll_pduIdOffset layout);
     sfnSubframe \<leftarrow> getUint16 view (ll_sfnSubframeOffset layout);
     releaseMajor \<leftarrow> getUint8 view 13;
     releaseMinor \<leftarrow> getUint8 view 14;
     nrMajor \<leftarrow> optionalField ''nrRrcReleaseMajor'' (getUint8 view) (ll_nrRrcReleaseMajorOffset layout);
     nrMinor \<leftarrow> optionalField ''nrRrcReleaseMinor'' (getUint8 view) (ll_nrRrcReleaseMinorOffset layout);
     sibMask \<leftarrow> optionalField ''sibMask'' (getUint32 view) (ll_sibMaskOffset layout);
     segmentId \<leftarrow> optionalField ''segmentId'' (getUint8 view) (rl_segmentIdOffset layout);
     channelNumber \<leftarrow> (if ll_channelNumberBytes layout = 2
        then map_option (\<lambda>v. nullableIdentity v 0xFFFF) (getUint16 view (ll_channelNumberOffset layout))
        else map_option (\<lambda>v. nullableIdentity v 0xFFFFFFFF) (getUint32 view (ll_channelNumberOffset layout)));
     pci \<leftarrow> getUint16 view (ll_pciOffset layout);
     rbid \<leftarrow> getUint8 view (ll_rbidOffset layout);
     (let kind = (case map_of pduMap pduId of Some p \<Rightarrow> p | None \<Rightarrow> UNKNOWN_RRC_PDU)
      in Some \<lparr>sm_packetLength = packetLength, sm_logCode = QUALCOMM_LTE_RRC_OTA_LOG_CODE, sm_version = intText version,
        sm_rat = SigLte, sm_layer = LayerRrc, sm_direction = pd_direction kind, sm_channel = pd_channel kind,
        sm_pduType = pd_pduType kind, sm_pduId = Some pduId, sm_pci = nullableIdentity pci 0xFFFF,
        sm_channelNumber = channelNumber, sm_rbid = Some rbid, sm_payloadBytes = payloadBytes,
        sm_payload = subarray payload (rl_messageOffset layout) packetLength,
        sm_metadata = [(''packetVersion'', jInt version), (''rrcReleaseMajor'', jInt releaseMajor),
          (''rrcReleaseMinor'', jInt releaseMinor), (''sfn'', jInt (drop_bit 4 sfnSubframe)),
          (''subframe'', jInt (lowBits 4 sfnSubframe))] @ nrMajor @ nrMinor @ sibMask @ segmentId\<rparr>)
   }"

definition decodeQualcommLteRrc :: "bytes \<Rightarrow> int \<Rightarrow> bytes \<Rightarrow> signalingMessage option option" where
  "decodeQualcommLteRrc payload packetLength view = do {
     profile \<leftarrow> lteRrcProfile view;
     valid \<leftarrow> hasValidRrcEnvelope packetLength view (map_option (\<lambda>(_, layout, _). layout) profile);
     (case profile of
        None \<Rightarrow> Some None
      | Some (version, layout, pduMap) \<Rightarrow>
          (if \<not> valid then Some None else map_option Some (readLteRrc payload packetLength view version layout pduMap)))
   }"

section \<open>nrRrc.ts\<close>

definition QUALCOMM_NR_RRC_OTA_LOG_CODE :: int where "QUALCOMM_NR_RRC_OTA_LOG_CODE = 0xB821"

definition hexDigit :: "nat \<Rightarrow> char" where
  "hexDigit d = (if d < 10 then digitChar d else char_of (87 + d))"

definition bytesToHex :: "bytes \<Rightarrow> string" where
  "bytesToHex bs = concat (map (\<lambda>b. [hexDigit (unat b div 16), hexDigit (unat b mod 16)]) bs)"

record nrRrcLayout = rrcLayout +
  nr_packetVersionBytes :: int
  nr_channelNumberOffset :: int
  nr_sfnSubframeOffset :: int
  nr_sfnSubframeBytes :: int
  nr_pduIdOffset :: int
  nr_sibMaskOffset :: int
  nr_sibMaskBytes :: int
  nr_nrCellGlobalIdentityOffset :: "int option"

definition NR_RRC_V7_PDUS :: rrcPduMap where
  "NR_RRC_V7_PDUS =
    [(1, pdu DirDL (Some ''BCCH-BCH'') None),
     (8, pdu DirUL (Some ''UL-DCCH'') None),
     (9, pdu DirDL None (Some ''RRCReconfiguration'')),
     (10, pdu DirUL None (Some ''RRCReconfigurationComplete'')),
     (24, pdu DirUnknown None (Some ''nr-RadioBearerConfig''))]"

definition NR_RRC_V8_PDUS :: rrcPduMap where
  "NR_RRC_V8_PDUS =
    [(1, pdu DirDL (Some ''BCCH-BCH'') None),
     (8, pdu DirUL (Some ''UL-DCCH'') None),
     (9, pdu DirDL None (Some ''RRCReconfiguration'')),
     (10, pdu DirUL None (Some ''RRCReconfigurationComplete'')),
     (26, pdu DirUnknown None (Some ''nr-RadioBearerConfig''))]"

definition NR_RRC_LEGACY_PDUS :: rrcPduMap where
  "NR_RRC_LEGACY_PDUS =
    [(1, pdu DirDL (Some ''BCCH-BCH'') None),
     (2, pdu DirDL (Some ''BCCH-DL-SCH'') None),
     (3, pdu DirDL (Some ''DL-CCCH'') None),
     (4, pdu DirDL (Some ''DL-DCCH'') None),
     (5, pdu DirDL (Some ''PCCH'') None),
     (6, pdu DirUL (Some ''UL-CCCH'') None),
     (7, pdu DirUL (Some ''UL-CCCH1'') None),
     (8, pdu DirUL (Some ''UL-DCCH'') None),
     (9, pdu DirDL None (Some ''RRCReconfiguration'')),
     (10, pdu DirUL None (Some ''RRCReconfigurationComplete''))]"

definition NR_RRC_V9_PDUS :: rrcPduMap where
  "NR_RRC_V9_PDUS =
    [(25, pdu DirUnknown None (Some ''nr-RadioBearerConfig'')),
     (28, pdu DirUnknown None (Some ''UE-MRDC-Capability'')),
     (29, pdu DirUnknown None (Some ''UE-NR-Capability''))] @ NR_RRC_LEGACY_PDUS"

definition NR_RRC_V14_PDUS :: rrcPduMap where
  "NR_RRC_V14_PDUS =
    [(28, pdu DirUnknown None (Some ''nr-RadioBearerConfig'')),
     (31, pdu DirUnknown None (Some ''UE-MRDC-Capability'')),
     (32, pdu DirUnknown None (Some ''UE-NR-Capability'')),
     (33, pdu DirUnknown None (Some ''UE-NR-Capability''))] @ NR_RRC_LEGACY_PDUS"

definition NR_RRC_V17_PDUS :: rrcPduMap where
  "NR_RRC_V17_PDUS =
    [(29, pdu DirUnknown None (Some ''nr-RadioBearerConfig''))] @ NR_RRC_LEGACY_PDUS"

definition NR_RRC_MODERN_BASE_PDUS :: rrcPduMap where
  "NR_RRC_MODERN_BASE_PDUS =
    [(1, pdu DirDL (Some ''BCCH-BCH'') None),
     (2, pdu DirDL (Some ''BCCH-DL-SCH'') None),
     (3, pdu DirDL (Some ''DL-CCCH'') None),
     (4, pdu DirDL (Some ''DL-DCCH'') None),
     (5, pdu DirDL (Some ''MCCH'') None),
     (6, pdu DirDL (Some ''PCCH'') None),
     (7, pdu DirUL (Some ''UL-CCCH'') None),
     (8, pdu DirUL (Some ''UL-CCCH1'') None),
     (9, pdu DirUL (Some ''UL-DCCH'') None)]"

definition NR_RRC_V20_PDUS :: rrcPduMap where
  "NR_RRC_V20_PDUS =
    [(10, pdu DirDL None (Some ''RRCReconfiguration'')),
     (11, pdu DirUL None (Some ''RRCReconfigurationComplete'')),
     (36, pdu DirUnknown None (Some ''nr-RadioBearerConfig''))] @ NR_RRC_MODERN_BASE_PDUS"

definition NR_RRC_V26_PDUS :: rrcPduMap where
  "NR_RRC_V26_PDUS =
    [(11, pdu DirDL None (Some ''RRCReconfiguration'')),
     (12, pdu DirUL None (Some ''RRCReconfigurationComplete'')),
     (36, pdu DirUnknown None (Some ''nr-RadioBearerConfig''))] @ NR_RRC_MODERN_BASE_PDUS"

definition NR_RRC_V28_PDUS :: rrcPduMap where
  "NR_RRC_V28_PDUS =
    [(10, pdu DirUL (Some ''UL-DCCH'') None)] @ NR_RRC_V26_PDUS"

definition NR_RRC_LAYOUT_V7 :: nrRrcLayout where
  "NR_RRC_LAYOUT_V7 = \<lparr>rl_messageOffset = 36, rl_messageLengthOffset = 34, rl_segmentIdOffset = None, nr_packetVersionBytes = 1, nr_channelNumberOffset = 21, nr_sfnSubframeOffset = 25, nr_sfnSubframeBytes = 4, nr_pduIdOffset = 29, nr_sibMaskOffset = 30, nr_sibMaskBytes = 1, nr_nrCellGlobalIdentityOffset = None\<rparr>"

definition NR_RRC_LAYOUT_V9 :: nrRrcLayout where
  "NR_RRC_LAYOUT_V9 = NR_RRC_LAYOUT_V7\<lparr>nr_packetVersionBytes := 4, nr_sibMaskBytes := 4\<rparr>"

definition NR_RRC_LAYOUT_V12 :: nrRrcLayout where
  "NR_RRC_LAYOUT_V12 = NR_RRC_LAYOUT_V9\<lparr>rl_messageOffset := 35, rl_messageLengthOffset := 33, nr_sfnSubframeBytes := 3, nr_pduIdOffset := 28, nr_sibMaskOffset := 29\<rparr>"

definition NR_RRC_LAYOUT_V17 :: nrRrcLayout where
  "NR_RRC_LAYOUT_V17 = NR_RRC_LAYOUT_V12\<lparr>rl_messageOffset := 43, rl_messageLengthOffset := 41, nr_channelNumberOffset := 29, nr_sfnSubframeOffset := 33, nr_pduIdOffset := 36, nr_sibMaskOffset := 37, nr_nrCellGlobalIdentityOffset := Some 21\<rparr>"

definition NR_RRC_LAYOUT_V19 :: nrRrcLayout where
  "NR_RRC_LAYOUT_V19 = NR_RRC_LAYOUT_V17\<lparr>rl_messageOffset := 44\<rparr>"

definition NR_RRC_LAYOUT_V23 :: nrRrcLayout where
  "NR_RRC_LAYOUT_V23 = NR_RRC_LAYOUT_V17\<lparr>rl_messageOffset := 47, rl_segmentIdOffset := Some 46\<rparr>"

definition NR_RRC_PROFILES :: "(int \<times> nrRrcLayout \<times> rrcPduMap) list" where
  "NR_RRC_PROFILES =
    [(7, NR_RRC_LAYOUT_V7, NR_RRC_V7_PDUS),
     (8, NR_RRC_LAYOUT_V7, NR_RRC_V8_PDUS),
     (9, NR_RRC_LAYOUT_V9, NR_RRC_V9_PDUS),
     (12, NR_RRC_LAYOUT_V12, NR_RRC_V9_PDUS),
     (14, NR_RRC_LAYOUT_V12, NR_RRC_V14_PDUS),
     (17, NR_RRC_LAYOUT_V17, NR_RRC_V17_PDUS),
     (19, NR_RRC_LAYOUT_V19, NR_RRC_V17_PDUS),
     (20, NR_RRC_LAYOUT_V19, NR_RRC_V20_PDUS),
     (23, NR_RRC_LAYOUT_V23, NR_RRC_V20_PDUS),
     (24, NR_RRC_LAYOUT_V23, NR_RRC_V20_PDUS),
     (25, NR_RRC_LAYOUT_V19, NR_RRC_V17_PDUS),
     (26, NR_RRC_LAYOUT_V23, NR_RRC_V26_PDUS),
     (28, NR_RRC_LAYOUT_V23, NR_RRC_V28_PDUS)]"

definition nrRrcProfile :: "bytes \<Rightarrow> (int \<times> nrRrcLayout \<times> rrcPduMap) option option" where
  "nrRrcProfile view =
    (if int (length view) < 16 then Some None
     else do {
       firstVersionByte \<leftarrow> getUint8 view 12;
       version \<leftarrow> (if firstVersionByte = 7 \<or> firstVersionByte = 8 then Some firstVersionByte else getUint32 view 12);
       Some (map_option (Pair version) (map_of NR_RRC_PROFILES version))
     })"

definition isValidQualcommNrRrcEnvelope :: "int \<Rightarrow> bytes \<Rightarrow> bool option" where
  "isValidQualcommNrRrcEnvelope packetLength view = do {
     profile \<leftarrow> nrRrcProfile view;
     hasValidRrcEnvelope packetLength view (map_option (\<lambda>(_, layout, _). layout) profile)
   }"

definition globalIdentityField :: "bytes \<Rightarrow> nrRrcLayout \<Rightarrow> jsonObject option" where
  "globalIdentityField view layout =
    (case nr_nrCellGlobalIdentityOffset layout of
       None \<Rightarrow> Some []
     | Some o' \<Rightarrow> map_option (\<lambda>v. if v \<le> 0x0FFFFFFFFFFFFFFF then [(''nrCellGlobalIdentity'', JStr (intText v))] else [])
         (getBigUint64 view o'))"

definition readNrRrc :: "bytes \<Rightarrow> int \<Rightarrow> bytes \<Rightarrow> int \<Rightarrow> nrRrcLayout \<Rightarrow> rrcPduMap \<Rightarrow> signalingMessage option" where
  "readNrRrc payload packetLength view version layout pduMap = do {
     payloadBytes \<leftarrow> getUint16 view (rl_messageLengthOffset layout);
     pduId \<leftarrow> getUint8 view (nr_pduIdOffset layout);
     releaseMajor \<leftarrow> getUint8 view 16;
     releaseMinor \<leftarrow> getUint8 view 17;
     sibMask \<leftarrow> (if nr_sibMaskBytes layout = 1 then getUint8 view (nr_sibMaskOffset layout)
        else getUint32 view (nr_sibMaskOffset layout));
     globalIdentity \<leftarrow> globalIdentityField view layout;
     segmentId \<leftarrow> optionalField ''segmentId'' (getUint8 view) (rl_segmentIdOffset layout);
     pci \<leftarrow> getUint16 view 19;
     channelNumber \<leftarrow> getUint32 view (nr_channelNumberOffset layout);
     rbid \<leftarrow> getUint8 view 18;
     (let kind = (case map_of pduMap pduId of Some p \<Rightarrow> p | None \<Rightarrow> UNKNOWN_RRC_PDU);
          sfn = bytesToHex (subarray payload (nr_sfnSubframeOffset layout) (nr_sfnSubframeOffset layout + nr_sfnSubframeBytes layout));
          reserved = (if nr_packetVersionBytes layout = 1
            then [(''packetVersionReserved'', JStr (bytesToHex (subarray payload 13 16)))] else [])
      in Some \<lparr>sm_packetLength = packetLength, sm_logCode = QUALCOMM_NR_RRC_OTA_LOG_CODE, sm_version = intText version,
        sm_rat = SigNr, sm_layer = LayerRrc, sm_direction = pd_direction kind, sm_channel = pd_channel kind,
        sm_pduType = pd_pduType kind, sm_pduId = Some pduId, sm_pci = nullableIdentity pci 0xFFFF,
        sm_channelNumber = nullableIdentity channelNumber 0xFFFFFFFF, sm_rbid = Some rbid, sm_payloadBytes = payloadBytes,
        sm_payload = subarray payload (rl_messageOffset layout) packetLength,
        sm_metadata = [(''packetVersion'', jInt version), (''rrcReleaseMajor'', jInt releaseMajor),
          (''rrcReleaseMinor'', jInt releaseMinor), (''sfnSubframe'', JStr sfn), (''sibMask'', jInt sibMask)]
          @ reserved @ globalIdentity @ segmentId\<rparr>)
   }"

definition decodeQualcommNrRrc :: "bytes \<Rightarrow> int \<Rightarrow> bytes \<Rightarrow> signalingMessage option option" where
  "decodeQualcommNrRrc payload packetLength view = do {
     profile \<leftarrow> nrRrcProfile view;
     valid \<leftarrow> hasValidRrcEnvelope packetLength view (map_option (\<lambda>(_, layout, _). layout) profile);
     (case profile of
        None \<Rightarrow> Some None
      | Some (version, layout, pduMap) \<Rightarrow>
          (if \<not> valid then Some None else map_option Some (readNrRrc payload packetLength view version layout pduMap)))
   }"

section \<open>lteNas.ts\<close>

definition QUALCOMM_LTE_NAS_PLAIN_INCOMING_LOG_CODE :: int where "QUALCOMM_LTE_NAS_PLAIN_INCOMING_LOG_CODE = 0xB0EC"
definition QUALCOMM_LTE_NAS_PLAIN_OUTGOING_LOG_CODE :: int where "QUALCOMM_LTE_NAS_PLAIN_OUTGOING_LOG_CODE = 0xB0ED"
definition LTE_NAS_VERSION :: int where "LTE_NAS_VERSION = 1"
definition LTE_NAS_MESSAGE_OFFSET :: int where "LTE_NAS_MESSAGE_OFFSET = 16"

definition isValidQualcommLteNasEnvelope :: "int \<Rightarrow> bytes \<Rightarrow> bool option" where
  "isValidQualcommLteNasEnvelope packetLength view =
    (if packetLength < LTE_NAS_MESSAGE_OFFSET \<or> int (length view) < LTE_NAS_MESSAGE_OFFSET then Some False
     else map_option (\<lambda>v. v = LTE_NAS_VERSION) (getUint8 view 12))"

definition highNibble :: "8 word \<Rightarrow> int" where "highNibble b = drop_bit 4 (uint b)"
definition lowNibble :: "8 word \<Rightarrow> int" where "lowNibble b = lowBits 4 (uint b)"

fun nasPduType :: "bytes \<Rightarrow> string option" where
  "nasPduType [] = None"
| "nasPduType (first # message) =
     (if highNibble first = 12 \<and> lowNibble first = 7 then Some ''Service Request''
      else if highNibble first \<noteq> 0 \<or> lowNibble first \<noteq> 7 \<or> message = [] then None
      else if hd message = 0x48 then Some ''Tracking Area Update Request''
      else if hd message = 0x49 then Some ''Tracking Area Update Accept''
      else None)"

definition decodeQualcommLteNas :: "bytes \<Rightarrow> int \<Rightarrow> bytes \<Rightarrow> int \<Rightarrow> signalingMessage option option" where
  "decodeQualcommLteNas payload packetLength view logCode = do {
     valid \<leftarrow> isValidQualcommLteNasEnvelope packetLength view;
     (if \<not> valid then Some None
      else do {
        major \<leftarrow> getUint8 view 13;
        minor \<leftarrow> getUint8 view 14;
        revision \<leftarrow> getUint8 view 15;
        (let message = subarray payload LTE_NAS_MESSAGE_OFFSET packetLength;
             security = (if message = [] then 0 else highNibble (hd message));
             discriminator = (if message = [] then 0 else lowNibble (hd message));
             messageType = (if security = 0 \<and> 1 < length message then [(''messageType'', jInt (uint (message ! 1)))] else [])
         in Some (Some \<lparr>sm_packetLength = packetLength, sm_logCode = logCode,
           sm_version = intText LTE_NAS_VERSION @ '' ('' @ intText major @ ''.'' @ intText minor @ ''.'' @ intText revision @ '')'',
           sm_rat = SigLte, sm_layer = LayerNas,
           sm_direction = (if logCode = QUALCOMM_LTE_NAS_PLAIN_INCOMING_LOG_CODE then DirDL else DirUL),
           sm_channel = (if discriminator = 7 then Some ''EMM'' else None), sm_pduType = nasPduType message,
           sm_pduId = None, sm_pci = None, sm_channelNumber = None, sm_rbid = None,
           sm_payloadBytes = int (length message), sm_payload = message,
           sm_metadata = [(''packetVersion'', jInt LTE_NAS_VERSION), (''protocolVersionMajor'', jInt major),
             (''protocolVersionMinor'', jInt minor), (''protocolVersionRevision'', jInt revision),
             (''securityHeaderType'', jInt security), (''protocolDiscriminator'', jInt discriminator)] @ messageType\<rparr>))
      })
   }"

section \<open>decoder.ts\<close>

definition MAX_QUALCOMM_SIGNALING_BYTES :: int where "MAX_QUALCOMM_SIGNALING_BYTES = 0xFFFF"
definition QUALCOMM_SIGNALING_ENVELOPE_BYTES :: int where "QUALCOMM_SIGNALING_ENVELOPE_BYTES = 47"

definition isNasLogCode :: "int \<Rightarrow> bool" where
  "isNasLogCode logCode \<longleftrightarrow>
    logCode = QUALCOMM_LTE_NAS_PLAIN_INCOMING_LOG_CODE \<or> logCode = QUALCOMM_LTE_NAS_PLAIN_OUTGOING_LOG_CODE"

definition isValidQualcommSignalingEnvelope :: "bytes \<Rightarrow> diagPrefix \<Rightarrow> bool option" where
  "isValidQualcommSignalingEnvelope payloadPrefix prefix =
    (if dp_packetLength prefix < 12 \<or> MAX_QUALCOMM_SIGNALING_BYTES < dp_packetLength prefix then Some False
     else if dp_logCode prefix = QUALCOMM_LTE_RRC_OTA_LOG_CODE
       then isValidQualcommLteRrcEnvelope (dp_packetLength prefix) payloadPrefix
     else if dp_logCode prefix = QUALCOMM_NR_RRC_OTA_LOG_CODE
       then isValidQualcommNrRrcEnvelope (dp_packetLength prefix) payloadPrefix
     else if isNasLogCode (dp_logCode prefix)
       then isValidQualcommLteNasEnvelope (dp_packetLength prefix) payloadPrefix
     else Some False)"

definition isQualcommSignalingLogCode :: "int \<Rightarrow> bool" where
  "isQualcommSignalingLogCode logCode \<longleftrightarrow>
    logCode = QUALCOMM_LTE_RRC_OTA_LOG_CODE \<or> isNasLogCode logCode \<or> logCode = QUALCOMM_NR_RRC_OTA_LOG_CODE"

definition decodeQualcommSignaling :: "bytes \<Rightarrow> diagHeader option \<Rightarrow> signalingMessage option option" where
  "decodeQualcommSignaling payload parsedHeader = do {
     packet \<leftarrow> headerOr parsedHeader payload MAX_QUALCOMM_SIGNALING_BYTES;
     (case packet of
        None \<Rightarrow> Some None
      | Some h \<Rightarrow>
          (if dp_logCode h = QUALCOMM_LTE_RRC_OTA_LOG_CODE then decodeQualcommLteRrc payload (dp_packetLength h) (dh_view h)
           else if dp_logCode h = QUALCOMM_NR_RRC_OTA_LOG_CODE then decodeQualcommNrRrc payload (dp_packetLength h) (dh_view h)
           else if isNasLogCode (dp_logCode h)
             then decodeQualcommLteNas payload (dp_packetLength h) (dh_view h) (dp_logCode h)
           else Some None))
   }"

section \<open>record.ts\<close>

datatype recordKind = NrMeasurementKind | NrConfigurationKind | NrServingCellKind | LteServingCellKind | SignalingKind

record recordPolicy =
  rp_kind :: recordKind
  rp_maximumBytes :: int
  rp_validationPrefixBytes :: "int option"

datatype recordValue =
    NrMeasurementRecord nrMeasurement
  | NrConfigurationRecord nrConfigurationInfo
  | NrServingCellRecord nrServingCellInfo
  | LteServingCellRecord lteServingCellInfo
  | SignalingRecord signalingMessage

record decodedRecord =
  dr_packetLength :: int
  dr_value :: recordValue

definition policyOf :: "recordKind \<Rightarrow> recordPolicy" where
  "policyOf kind =
    (case kind of
       NrMeasurementKind \<Rightarrow> \<lparr>rp_kind = kind, rp_maximumBytes = MAX_QUALCOMM_NR_MEASUREMENT_BYTES, rp_validationPrefixBytes = None\<rparr>
     | NrConfigurationKind \<Rightarrow> \<lparr>rp_kind = kind, rp_maximumBytes = MAX_QUALCOMM_NR_CONFIGURATION_INFO_BYTES, rp_validationPrefixBytes = None\<rparr>
     | NrServingCellKind \<Rightarrow> \<lparr>rp_kind = kind, rp_maximumBytes = MAX_QUALCOMM_NR_SERVING_CELL_INFO_BYTES, rp_validationPrefixBytes = None\<rparr>
     | LteServingCellKind \<Rightarrow> \<lparr>rp_kind = kind, rp_maximumBytes = MAX_QUALCOMM_LTE_SERVING_CELL_INFO_BYTES, rp_validationPrefixBytes = None\<rparr>
     | SignalingKind \<Rightarrow> \<lparr>rp_kind = kind, rp_maximumBytes = MAX_QUALCOMM_SIGNALING_BYTES,
         rp_validationPrefixBytes = Some QUALCOMM_SIGNALING_ENVELOPE_BYTES\<rparr>)"

definition decodeRecordKind :: "recordKind \<Rightarrow> bytes \<Rightarrow> diagHeader \<Rightarrow> decodedRecord option option" where
  "decodeRecordKind kind payload header =
    map_option (map_option (\<lambda>v. \<lparr>dr_packetLength = dp_packetLength header, dr_value = v\<rparr>))
      (case kind of
         NrMeasurementKind \<Rightarrow> map_option (map_option NrMeasurementRecord) (decodeQualcommNrMeasurement payload (Some header))
       | NrConfigurationKind \<Rightarrow> map_option (map_option NrConfigurationRecord) (decodeQualcommNrConfigurationInfo payload (Some header))
       | NrServingCellKind \<Rightarrow> map_option (map_option NrServingCellRecord) (decodeQualcommNrServingCellInfo payload (Some header))
       | LteServingCellKind \<Rightarrow> map_option (map_option LteServingCellRecord) (decodeQualcommLteServingCellInfo payload (Some header))
       | SignalingKind \<Rightarrow> map_option (map_option SignalingRecord) (decodeQualcommSignaling payload (Some header)))"

definition QUALCOMM_RECORD_DESCRIPTORS :: "(int \<times> recordKind) list" where
  "QUALCOMM_RECORD_DESCRIPTORS =
    [(QUALCOMM_NR_MEASUREMENT_LOG_CODE, NrMeasurementKind),
     (QUALCOMM_NR_CONFIGURATION_INFO_LOG_CODE, NrConfigurationKind),
     (QUALCOMM_NR_SERVING_CELL_INFO_LOG_CODE, NrServingCellKind),
     (QUALCOMM_LTE_SERVING_CELL_INFO_LOG_CODE, LteServingCellKind),
     (QUALCOMM_LTE_RRC_OTA_LOG_CODE, SignalingKind),
     (QUALCOMM_LTE_NAS_PLAIN_INCOMING_LOG_CODE, SignalingKind),
     (QUALCOMM_LTE_NAS_PLAIN_OUTGOING_LOG_CODE, SignalingKind),
     (QUALCOMM_NR_RRC_OTA_LOG_CODE, SignalingKind)]"

definition descriptorForLogCode :: "int \<Rightarrow> recordKind option" where
  "descriptorForLogCode logCode = map_of QUALCOMM_RECORD_DESCRIPTORS logCode"

definition descriptorForPacket :: "diagPrefix \<Rightarrow> int \<Rightarrow> recordKind option" where
  "descriptorForPacket prefix payloadLength =
    (case descriptorForLogCode (dp_logCode prefix) of
       None \<Rightarrow> None
     | Some kind \<Rightarrow>
         (if dp_packetLength prefix < QUALCOMM_DIAG_HEADER_BYTES \<or> payloadLength < dp_packetLength prefix \<or>
             rp_maximumBytes (policyOf kind) < dp_packetLength prefix
          then None else Some kind))"

definition classifyQualcommRecord :: "diagPrefix \<Rightarrow> int \<Rightarrow> recordPolicy option" where
  "classifyQualcommRecord prefix payloadLength = map_option policyOf (descriptorForPacket prefix payloadLength)"

definition decodeQualcommRecord :: "bytes \<Rightarrow> diagPrefix option \<Rightarrow> decodedRecord option option" where
  "decodeQualcommRecord payload parsedPrefix = do {
     prefix \<leftarrow> (case parsedPrefix of Some p \<Rightarrow> Some (Some p) | None \<Rightarrow> readDiagPrefix payload);
     (case prefix of
        None \<Rightarrow> Some None
      | Some p \<Rightarrow>
          (case descriptorForPacket p (int (length payload)) of
             None \<Rightarrow> Some None
           | Some kind \<Rightarrow> do {
               header \<leftarrow> readDiagHeader payload (rp_maximumBytes (policyOf kind)) (Some p);
               (case header of None \<Rightarrow> Some None | Some h \<Rightarrow> decodeRecordKind kind payload h)
             }))
   }"

end
