(* ===== verification/NsgAssociation.thy ===== *)
theory NsgAssociation
  imports NsgEvents NsgSignaling
begin

text \<open>
  Non-standalone NR (internal/nonStandalone): which subscription a Qualcomm stream belongs to
  (streamMapping.ts), and the NR measurements that are attached to the LTE cell serving at that moment
  (association.ts).
\<close>

section \<open>Records with their time\<close>

text \<open>
  \<open>tm_ref\<close> and \<open>tv_ref\<close> are the place of a record in the array it was pushed to; they stand for
  the identity of the object.
\<close>

record timedNrMeasurement = nsgTimestamp +
  tm_ref :: nat
  tm_streamIndex :: int
  tm_measurement :: nrMeasurement

record timedNrServingCellInfo = nsgTimestamp +
  tv_ref :: nat
  tv_streamIndex :: int
  tv_info :: nrServingCellInfo

record timedNrConfigurationInfo = nsgTimestamp +
  tc_streamIndex :: int
  tc_configuration :: nrConfigurationInfo

record timedLteServingCellInfo =
  tl_streamIndex :: int
  tl_elapsedUs :: int
  tl_cellIdentity :: int
  tl_earfcn :: int

text \<open>\<open>map.get(key)?.push(value) ?? map.set(key, [value])\<close>.\<close>

definition pushAt :: "'k \<Rightarrow> 'v \<Rightarrow> ('k \<times> 'v list) list \<Rightarrow> ('k \<times> 'v list) list" where
  "pushAt key v m = AList.update key ((case map_of m key of Some vs \<Rightarrow> vs | None \<Rightarrow> []) @ [v]) m"

definition mapValues :: "('v \<Rightarrow> 'w) \<Rightarrow> ('k \<times> 'v) list \<Rightarrow> ('k \<times> 'w) list" where
  "mapValues f = map (\<lambda>(k, v). (k, f v))"

lemma map_of_mapValues: "map_of (mapValues f m) k = map_option f (map_of m k)"
  by (induction m) (auto simp: mapValues_def)

section \<open>streamMapping.ts\<close>

definition STREAM_VOTE_WINDOW_US :: int where "STREAM_VOTE_WINDOW_US = 15000000"

type_synonym subscriptionKey = "number option \<times> number option"

record lteSubscriptionGroup =
  lg_subId :: "number option"
  lg_anchors :: "lteAnchor list"
  lg_anchorsByIdentity :: "(number \<times> lteAnchor list) list"

text \<open>The key is a text; a missing part is written as a question mark.\<close>

definition subscriptionKeyOf :: "nsgCell \<Rightarrow> subscriptionKey option" where
  "subscriptionKeyOf cell =
    (if nc_slotId cell = None \<and> nc_subId cell = None then None else Some (nc_slotId cell, nc_subId cell))"

definition lowerBound :: "('a \<Rightarrow> int) \<Rightarrow> 'a list \<Rightarrow> int \<Rightarrow> nat" where
  "lowerBound elapsed items elapsedUs = searchLoop (\<lambda>i. elapsed (items ! i) < elapsedUs) 0 (length items)"

definition upperBound :: "('a \<Rightarrow> int) \<Rightarrow> 'a list \<Rightarrow> int \<Rightarrow> nat" where
  "upperBound elapsed items elapsedUs = searchLoop (\<lambda>i. elapsed (items ! i) \<le> elapsedUs) 0 (length items)"

definition nearestBy :: "('a \<Rightarrow> int) \<Rightarrow> 'a list \<Rightarrow> int \<Rightarrow> 'a option" where
  "nearestBy elapsed items elapsedUs =
    (let index = lowerBound elapsed items elapsedUs
     in if items = [] then None
        else if index = 0 then Some (items ! 0)
        else if index = length items then Some (items ! (length items - 1))
        else if elapsedUs - elapsed (items ! (index - 1)) \<le> elapsed (items ! index) - elapsedUs
        then Some (items ! (index - 1)) else Some (items ! index))"

type_synonym lteVote = "int \<times> lteSubscriptionGroup"

definition nearestVote :: "lteVote list \<Rightarrow> int \<Rightarrow> lteVote option" where
  "nearestVote = nearestBy fst"

definition groupAnchors :: "lteAnchor list \<Rightarrow> (subscriptionKey \<times> lteAnchor list) list" where
  "groupAnchors anchors =
    fold (\<lambda>anchor grouped. case subscriptionKeyOf (la_cell anchor) of None \<Rightarrow> grouped | Some key \<Rightarrow> pushAt key anchor grouped)
      anchors []"

definition createLteGroup :: "lteAnchor list \<Rightarrow> lteSubscriptionGroup" where
  "createLteGroup anchors =
    (let sorted = sortBy (\<lambda>left right. orNext (of_int (tp_elapsedUs (la_cell left)) - of_int (tp_elapsedUs (la_cell right)))
                    (of_int (nc_eventIndex (la_cell left)) - of_int (nc_eventIndex (la_cell right)))) anchors
     in \<lparr>lg_subId = nc_subId (la_cell (hd sorted)), lg_anchors = sorted,
         lg_anchorsByIdentity = fold (\<lambda>anchor m. case rf_eci (nc_radio (la_cell anchor)) of
           None \<Rightarrow> m | Some eci \<Rightarrow> pushAt eci anchor m) sorted []\<rparr>)"

definition createLteGroups :: "lteAnchor list \<Rightarrow> lteSubscriptionGroup list" where
  "createLteGroups anchors = map (\<lambda>(_, grp). createLteGroup grp) (groupAnchors anchors)"

definition hasMatchingAnchor :: "lteSubscriptionGroup \<Rightarrow> timedLteServingCellInfo \<Rightarrow> bool" where
  "hasMatchingAnchor grp info =
    (case map_of (lg_anchorsByIdentity grp) (of_int (tl_cellIdentity info)) of
       None \<Rightarrow> False
     | Some anchors \<Rightarrow>
         (let elapsed = (\<lambda>a. tp_elapsedUs (la_cell a));
              start = lowerBound elapsed anchors (tl_elapsedUs info - STREAM_VOTE_WINDOW_US);
              window = takeWhile (\<lambda>a. elapsed a \<le> tl_elapsedUs info + STREAM_VOTE_WINDOW_US) (drop start anchors)
          in list_ex (\<lambda>a. case rf_earfcn (nc_radio (la_cell a)) of None \<Rightarrow> True | Some e \<Rightarrow> e = of_int (tl_earfcn info)) window))"

text \<open>The only element that matches.\<close>

definition onlyOne :: "'a list \<Rightarrow> 'a option" where
  "onlyOne xs = (case xs of [x] \<Rightarrow> Some x | _ \<Rightarrow> None)"

definition collectLteVotes :: "lteSubscriptionGroup list \<Rightarrow> timedLteServingCellInfo list \<Rightarrow> (int \<times> lteVote list) list" where
  "collectLteVotes groups infos =
    mapValues (sortBy (\<lambda>left right. of_int (fst left) - of_int (fst right)))
      (fold (\<lambda>info votes. case onlyOne (filter (\<lambda>grp. hasMatchingAnchor grp info) groups) of
         None \<Rightarrow> votes
       | Some grp \<Rightarrow> pushAt (tl_streamIndex info) (tl_elapsedUs info, grp) votes) infos [])"

definition defaultDataSubscriptionAt :: "defaultDataSubscriptionChange list \<Rightarrow> int \<Rightarrow> number option" where
  "defaultDataSubscriptionAt changes elapsedUs =
    (let index = upperBound ds_elapsedUs changes elapsedUs
     in if index = 0 then None else Some (ds_subId (changes ! (index - 1))))"

definition resolveLteAnchors :: "bool \<Rightarrow> lteAnchor list \<Rightarrow> timedLteServingCellInfo list \<Rightarrow> defaultDataSubscriptionChange list
    \<Rightarrow> int \<Rightarrow> int \<Rightarrow> lteAnchor list option" where
  "resolveLteAnchors allowFallbacks anchors infos defaultDataSubscriptions streamIndex elapsedUs =
    (let groups = createLteGroups anchors;
         votes = (case map_of (collectLteVotes groups infos) streamIndex of Some vs \<Rightarrow> vs | None \<Rightarrow> []);
         ordered = sortBy (\<lambda>left right. of_int (ds_elapsedUs left) - of_int (ds_elapsedUs right)) defaultDataSubscriptions;
         fallback = (case groups of [grp] \<Rightarrow> Some (lg_anchors grp) | _ \<Rightarrow> None)
     in if votes \<noteq> [] then map_option (\<lambda>vote. lg_anchors (snd vote)) (nearestVote votes elapsedUs)
        else if \<not> allowFallbacks then None
        else (case defaultDataSubscriptionAt ordered elapsedUs of
            None \<Rightarrow> fallback
          | Some subId \<Rightarrow>
              (case onlyOne (filter (\<lambda>grp. lg_subId grp = Some subId) groups) of
                 Some grp \<Rightarrow> Some (lg_anchors grp)
               | None \<Rightarrow> fallback)))"

section \<open>association.ts\<close>

definition ASSOCIATION_MAX_AGE_US :: int where "ASSOCIATION_MAX_AGE_US = 1000000"

definition nearestLteAnchor :: "lteAnchor list \<Rightarrow> int \<Rightarrow> lteAnchor option" where
  "nearestLteAnchor = nearestBy (\<lambda>anchor. tp_elapsedUs (la_cell anchor))"

definition logCodeText :: "int \<Rightarrow> string" where
  "logCodeText logCode =
    ''0x'' @ toUpper (concat (map (\<lambda>k. [hexDigit (nat (logCode div 16 ^ k mod 16))]) [3, 2, 1, 0]))"

definition versionText :: "nrMeasurement \<Rightarrow> string" where
  "versionText m = intText (nm_versionMajor m) @ ''.'' @ intText (nm_versionMinor m)"

definition derivedRaw :: "lteAnchor \<Rightarrow> timedNrMeasurement \<Rightarrow> nrMeasurementCell \<Rightarrow> jsonObject" where
  "derivedRaw anchor observation decoded =
    [(''type'', JStr ''nr''),
     (''registered'', if mc_serving decoded then JNull else JBool False),
     (''source'', JStr ''qualcomm-diag''),
     (''measurementRole'', JStr (if mc_serving decoded then ''nr-primary'' else ''neighbor'')),
     (''diagLogCode'', JStr (logCodeText QUALCOMM_NR_MEASUREMENT_LOG_CODE)),
     (''diagVersion'', JStr (versionText (tm_measurement observation))),
     (''diagRecordOffset'', jInt (tp_recordOffset observation)),
     (''diagStreamIndex'', jInt (tm_streamIndex observation)),
     (''diagElapsedUs'', jInt (tp_elapsedUs observation)),
     (''diagTimestampUs'', JStr (intText (ts_timestampUs observation))),
     (''carrierIndex'', jInt (mc_carrierIndex decoded)),
     (''carrierCellIndex'', jInt (mc_cellIndex decoded)),
     (''ccId'', jIntOr (mc_ccId decoded)),
     (''pci'', jInt (mc_pci decoded)),
     (''arfcn'', jInt (mc_arfcn decoded)),
     (''sfn'', jInt (mc_sfn decoded)),
     (''beamCount'', jInt (mc_beamCount decoded)),
     (''rsrp'', JNum (mc_rsrp decoded)),
     (''rsrq'', JNum (mc_rsrq decoded)),
     (''mcc'', jStrOr (nc_mcc (la_cell anchor))),
     (''mnc'', jStrOr (nc_mnc (la_cell anchor)))]"

definition noRadioFields :: radioFields where
  "noRadioFields = \<lparr>rf_lac = None, rf_rnc = None, rf_cid = None, rf_tac = None, rf_nci = None, rf_eci = None, rf_pci = None,
     rf_earfcn = None, rf_arfcn = None, rf_uarfcn = None, rf_psc = None, rf_bsic = None, rf_dbm = None, rf_rssi = None,
     rf_rsrp = None, rf_rsrq = None, rf_sinr = None, rf_ecno = None, rf_ta = None, rf_ber = None, rf_bands = None\<rparr>"

definition derivedCell :: "lteAnchor \<Rightarrow> timedNrMeasurement \<Rightarrow> nat \<Rightarrow> nrMeasurementCell \<Rightarrow> nsgCell" where
  "derivedCell anchor observation cellIndex decoded =
    (let cell = la_cell anchor
     in \<lparr>tp_elapsedUs = tp_elapsedUs cell, tp_recordOffset = tp_recordOffset cell, ts_timestampUs = ts_timestampUs cell,
         ts_timestampMs = ts_timestampMs cell, nc_eventIndex = nc_eventIndex cell,
         nc_cellIndex = la_derivedCellIndexOffset anchor + int cellIndex, nc_rat = ''NR'',
         nc_registered = (if mc_serving decoded then None else Some False),
         nc_measurementRole = Some (if mc_serving decoded then NrPrimary else NrNeighbor), nc_nrMode = Some NsaMode,
         nc_sources = [QualcommDiag, AndroidTelephony], nc_subId = nc_subId cell, nc_slotId = nc_slotId cell,
         nc_isDefaultSubscription = nc_isDefaultSubscription cell, nc_mcc = nc_mcc cell, nc_mnc = nc_mnc cell,
         nc_operatorName = nc_operatorName cell,
         nc_radio = noRadioFields\<lparr>rf_pci := Some (of_int (mc_pci decoded)), rf_arfcn := Some (of_int (mc_arfcn decoded)),
           rf_rsrp := Some (mc_rsrp decoded), rf_rsrq := Some (mc_rsrq decoded)\<rparr>,
         nc_identity = nullIdentity, nc_raw = derivedRaw anchor observation decoded\<rparr>)"

definition createDerivedCells :: "lteAnchor \<Rightarrow> timedNrMeasurement \<Rightarrow> nsgCell list" where
  "createDerivedCells anchor observation =
    (let decoded = enumerate 0 (nm_cells (tm_measurement observation));
         make = map (\<lambda>(i, c). derivedCell anchor observation i c)
     in make (filter (\<lambda>(_, c). \<not> mc_serving c) decoded) @ make (filter (\<lambda>(_, c). mc_serving c) decoded))"

record nrAssociation =
  na_anchor :: nsgCell
  na_derivedCells :: "nsgCell list"

text \<open>The observation an event has so far, with its distance, is replaced by a nearer one.\<close>

definition keepNearer :: "(int \<Rightarrow> int \<Rightarrow> lteAnchor list option) \<Rightarrow> timedNrMeasurement
    \<Rightarrow> (int \<times> timedNrMeasurement \<times> int) list \<Rightarrow> (int \<times> timedNrMeasurement \<times> int) list" where
  "keepNearer resolve observation byEvent =
    (case Option.bind (resolve (tm_streamIndex observation) (tp_elapsedUs observation))
        (\<lambda>anchors. nearestLteAnchor anchors (tp_elapsedUs observation)) of
       None \<Rightarrow> byEvent
     | Some anchor \<Rightarrow>
         (let distanceUs = \<bar>tp_elapsedUs (la_cell anchor) - tp_elapsedUs observation\<bar>;
              event = nc_eventIndex (la_cell anchor);
              nearer = (case map_of byEvent event of
                  None \<Rightarrow> True
                | Some (current, currentDistance) \<Rightarrow>
                    distanceUs < currentDistance \<or>
                    (distanceUs = currentDistance \<and> tp_elapsedUs observation < tp_elapsedUs current))
          in if ASSOCIATION_MAX_AGE_US < distanceUs \<or> \<not> nearer then byEvent
             else AList.update event (observation, distanceUs) byEvent))"

definition associateNonStandalone :: "lteAnchor list \<Rightarrow> timedNrMeasurement list \<Rightarrow> timedLteServingCellInfo list
    \<Rightarrow> defaultDataSubscriptionChange list \<Rightarrow> nrAssociation list" where
  "associateNonStandalone anchors observations servingCellInfos defaultDataSubscriptions =
    (if anchors = [] \<or> observations = [] then []
     else let byEvent = fold (keepNearer (resolveLteAnchors True anchors servingCellInfos defaultDataSubscriptions)) observations []
          in List.map_filter (\<lambda>anchor. map_option
               (\<lambda>(observation, _). \<lparr>na_anchor = la_cell anchor, na_derivedCells = createDerivedCells anchor observation\<rparr>)
               (map_of byEvent (nc_eventIndex (la_cell anchor)))) anchors)"

fun mergeCells :: "(int \<Rightarrow> nsgCell list option) \<Rightarrow> nsgCell list \<Rightarrow> nsgCell list" where
  "mergeCells derived [] = []"
| "mergeCells derived (cell # cells) =
     cell # (if cells \<noteq> [] \<and> nc_eventIndex (hd cells) = nc_eventIndex cell then []
       else (case derived (nc_eventIndex cell) of Some cs \<Rightarrow> cs | None \<Rightarrow> [])) @ mergeCells derived cells"

definition mergeNonStandalone :: "nsgCell list \<Rightarrow> nrAssociation list \<Rightarrow> nsgCell list" where
  "mergeNonStandalone cells associations =
    (if associations = [] then cells
     else mergeCells (map_of (rev (map (\<lambda>a. (nc_eventIndex (na_anchor a), na_derivedCells a)) associations))) cells)"

end
