(* ===== verification/NsgTimeline.thy ===== *)
theory NsgTimeline
  imports NsgAssociation
begin

text \<open>
  Standalone NR, first half of internal/standalone/association.ts: when a stream was connected to NR alone
  (the timelines of its configurations), which Android events report NR cells, and which of them belong to a stream.
\<close>

section \<open>Timelines of the configurations\<close>

definition MAX_NR_ARFCN :: int where "MAX_NR_ARFCN = 3279165"
definition MAX_NR_PCI :: int where "MAX_NR_PCI = 1007"
definition MAX_NR_TAC :: int where "MAX_NR_TAC = 0xFFFFFF"

definition compareTimeline :: "'a timelinePoint_scheme \<Rightarrow> 'b timelinePoint_scheme \<Rightarrow> int" where
  "compareTimeline left right =
    (if tp_elapsedUs left - tp_elapsedUs right \<noteq> 0 then tp_elapsedUs left - tp_elapsedUs right
     else tp_recordOffset left - tp_recordOffset right)"

definition sortTimeline :: "'a timelinePoint_scheme list \<Rightarrow> 'a timelinePoint_scheme list" where
  "sortTimeline = sortBy (\<lambda>left right. of_int (compareTimeline left right))"

text \<open>A configuration and the epoch of standalone NR it belongs to; \<open>None\<close> where it is not standalone.\<close>

type_synonym indexedState = "timedNrConfigurationInfo \<times> nat option"
type_synonym timelines = "(int \<times> indexedState list) list"

record standaloneState =
  ss_configuration :: timedNrConfigurationInfo
  ss_epoch :: nat

definition isPositiveNrStandalone :: "timedNrConfigurationInfo \<Rightarrow> bool" where
  "isPositiveNrStandalone c \<longleftrightarrow> ncf_version (tc_configuration c) = 8 \<and> isConnectedQualcommNrStandalone (tc_configuration c)"

fun indexStates :: "nat \<Rightarrow> bool \<Rightarrow> timedNrConfigurationInfo list \<Rightarrow> indexedState list" where
  "indexStates epoch wasNrStandalone [] = []"
| "indexStates epoch wasNrStandalone (configuration # records) =
     (let isNrStandalone = isPositiveNrStandalone configuration;
          current = (if isNrStandalone \<and> \<not> wasNrStandalone then epoch + 1 else epoch)
      in (configuration, if isNrStandalone then Some current else None) # indexStates current isNrStandalone records)"

definition buildConfigurationTimeline :: "timedNrConfigurationInfo list \<Rightarrow> timelines" where
  "buildConfigurationTimeline configurations =
    mapValues (\<lambda>records. indexStates 0 False (sortTimeline records))
      (fold (\<lambda>c. pushAt (tc_streamIndex c) c) configurations [])"

definition indexedStateAt :: "timelines \<Rightarrow> int \<Rightarrow> 'a timelinePoint_scheme \<Rightarrow> indexedState option" where
  "indexedStateAt timelines streamIndex point =
    (case map_of timelines streamIndex of
       None \<Rightarrow> None
     | Some timeline \<Rightarrow>
         (let low = searchLoop (\<lambda>i. compareTimeline (fst (timeline ! i)) point \<le> 0) 0 (length timeline)
          in if low = 0 then None else Some (timeline ! (low - 1))))"

definition stateOf :: "indexedState \<Rightarrow> standaloneState option" where
  "stateOf state = map_option (\<lambda>epoch. \<lparr>ss_configuration = fst state, ss_epoch = epoch\<rparr>) (snd state)"

definition nrStandaloneStateAt :: "timelines \<Rightarrow> int \<Rightarrow> 'a timelinePoint_scheme \<Rightarrow> standaloneState option" where
  "nrStandaloneStateAt timelines streamIndex point = Option.bind (indexedStateAt timelines streamIndex point) stateOf"

definition futureNrStandaloneStateAt :: "timelines \<Rightarrow> int \<Rightarrow> 'a timelinePoint_scheme \<Rightarrow> standaloneState option" where
  "futureNrStandaloneStateAt timelines streamIndex point =
    (case map_of timelines streamIndex of
       Some (state # _) \<Rightarrow>
         (if indexedStateAt timelines streamIndex point \<noteq> None \<or>
             ASSOCIATION_MAX_AGE_US < tp_elapsedUs (fst state) - tp_elapsedUs point then None
          else stateOf state)
     | _ \<Rightarrow> None)"

text \<open>The text \<open>stream:epoch\<close>.\<close>

type_synonym stateKey = "int \<times> nat"

definition keyOfState :: "standaloneState \<Rightarrow> stateKey" where
  "keyOfState state = (tc_streamIndex (ss_configuration state), ss_epoch state)"

definition nearestRecord :: "'a timelinePoint_scheme list \<Rightarrow> 'b timelinePoint_scheme \<Rightarrow> 'a timelinePoint_scheme option" where
  "nearestRecord records point =
    (let low = searchLoop (\<lambda>i. compareTimeline (records ! i) point < 0) 0 (length records)
     in if records = [] then None
        else if low = 0 then Some (records ! low)
        else if low = length records then Some (records ! (low - 1))
        else let earlier = records ! (low - 1); later = records ! low;
                 beforeDistance = \<bar>tp_elapsedUs earlier - tp_elapsedUs point\<bar>;
                 afterDistance = \<bar>tp_elapsedUs later - tp_elapsedUs point\<bar>
             in if beforeDistance \<noteq> afterDistance then (if beforeDistance < afterDistance then Some earlier else Some later)
                else if \<bar>tp_recordOffset earlier - tp_recordOffset point\<bar> \<le> \<bar>tp_recordOffset later - tp_recordOffset point\<bar>
                then Some earlier else Some later)"

section \<open>Valid values\<close>

definition matchableNci :: "int \<Rightarrow> int option" where
  "matchableNci v = (if 0 < v \<and> v \<le> MAX_NR_NCI then Some v else None)"

definition canonicalNci :: "int \<Rightarrow> int option" where
  "canonicalNci v = (if 0 \<le> v \<and> v \<le> MAX_NR_NCI then Some v else None)"

definition validCellNci :: "number option \<Rightarrow> number option" where
  "validCellNci v =
    (case v of Some x \<Rightarrow> (if isSafeInt x \<and> 0 < x \<and> x \<le> of_int MAX_NR_NCI then Some x else None) | None \<Rightarrow> None)"

definition validPci :: "number \<Rightarrow> number option" where
  "validPci v = (if isInteger v \<and> 0 \<le> v \<and> v \<le> of_int MAX_NR_PCI then Some v else None)"

definition validArfcn :: "number \<Rightarrow> number option" where
  "validArfcn v = (if isInteger v \<and> 0 < v \<and> v \<le> of_int MAX_NR_ARFCN then Some v else None)"

definition validTac :: "number \<Rightarrow> number option" where
  "validTac v = (if isInteger v \<and> 0 \<le> v \<and> v \<le> of_int MAX_NR_TAC then Some v else None)"

definition validBand :: "number \<Rightarrow> number option" where
  "validBand v = (if isInteger v \<and> 0 < v \<and> v \<le> 0xFFFF then Some v else None)"

text \<open>A frequency and a physical cell, both valid.\<close>

type_synonym nrPair = "number \<times> number"

definition pairOf :: "number option \<Rightarrow> number option \<Rightarrow> nrPair option" where
  "pairOf arfcn pci =
    (case (Option.bind arfcn validArfcn, Option.bind pci validPci) of
       (Some a, Some p) \<Rightarrow> Some (a, p)
     | _ \<Rightarrow> None)"

definition cellPair :: "nsgCell \<Rightarrow> nrPair option" where
  "cellPair cell = pairOf (rf_arfcn (nc_radio cell)) (rf_pci (nc_radio cell))"

definition measurementPair :: "nrMeasurementCell \<Rightarrow> nrPair option" where
  "measurementPair cell = pairOf (Some (of_int (mc_arfcn cell))) (Some (of_int (mc_pci cell)))"

definition samePair :: "nrPair option \<Rightarrow> nrPair option \<Rightarrow> bool" where
  "samePair left right \<longleftrightarrow> left \<noteq> None \<and> left = right"

definition carrierArfcn :: "nrActiveCarrier \<Rightarrow> number option" where
  "carrierArfcn carrier = validArfcn (of_int (nac_downlinkArfcn carrier))"

text \<open>A decoded cell with its place in the measurement, which stands for the identity of the object.\<close>

type_synonym placedCell = "nat \<times> nrMeasurementCell"

definition placedCells :: "timedNrMeasurement \<Rightarrow> placedCell list" where
  "placedCells observation = enumerate 0 (nm_cells (tm_measurement observation))"

definition servingMeasurementCandidate :: "placedCell list \<Rightarrow> number \<Rightarrow> placedCell option" where
  "servingMeasurementCandidate cells physicalCellId =
    (let candidates = filter (\<lambda>(_, c). validPci (of_int (mc_pci c)) = Some physicalCellId) cells;
         explicitServing = list_ex (\<lambda>(_, c). mc_serving c) cells
     in onlyOne (if explicitServing then filter (\<lambda>(_, c). mc_serving c) candidates else candidates))"

section \<open>Android events with NR cells\<close>

record androidNrContext = timelinePoint +
  ac_event :: nsgEvent
  ac_cellPositions :: "nat list"

record standaloneEventContext = androidNrContext +
  ec_state :: standaloneState

definition contextId :: "'a androidNrContext_scheme \<Rightarrow> int" where
  "contextId ctx = ev_id (ac_event ctx)"

definition firstCell :: "nsgCell list \<Rightarrow> 'a androidNrContext_scheme \<Rightarrow> nsgCell" where
  "firstCell cells ctx = cells ! hd (ac_cellPositions ctx)"

definition isSameEnvelope :: "nsgCell \<Rightarrow> nsgEvent \<Rightarrow> bool" where
  "isSameEnvelope cell event \<longleftrightarrow>
    nc_eventIndex cell = ev_id event \<and> tp_recordOffset cell = tp_recordOffset event \<and> tp_elapsedUs cell = tp_elapsedUs event \<and>
    ts_timestampUs cell = ts_timestampUs event \<and> ts_timestampMs cell = ts_timestampMs event"

definition positionsByEvent :: "nsgCell list \<Rightarrow> (int \<times> nat list) list" where
  "positionsByEvent cells =
    fold (\<lambda>(position, cell) m. if nc_rat cell = ''NR'' then pushAt (nc_eventIndex cell) position m else m) (enumerate 0 cells) []"

definition createAndroidNrContext :: "nsgCell list \<Rightarrow> (int \<Rightarrow> nsgEvent option) \<Rightarrow> int \<times> nat list \<Rightarrow> androidNrContext option" where
  "createAndroidNrContext cells eventsById = (\<lambda>(eventIndex, positions).
    (case eventsById eventIndex of
       None \<Rightarrow> None
     | Some event \<Rightarrow>
         (let first = cells ! hd positions;
              sameSubscription = (\<lambda>cell. nc_subId cell = nc_subId first \<and> nc_slotId cell = nc_slotId first \<and>
                nc_isDefaultSubscription cell = nc_isDefaultSubscription first)
          in if ev_name event \<noteq> ''ScheduleCellInfo'' \<or>
               \<not> list_all (\<lambda>p. isSameEnvelope (cells ! p) event \<and> sameSubscription (cells ! p)) positions
             then None
             else Some \<lparr>tp_elapsedUs = tp_elapsedUs event, tp_recordOffset = tp_recordOffset event, ac_event = event,
               ac_cellPositions = positions\<rparr>)))"

definition createAndroidNrContexts :: "nsgCell list \<Rightarrow> nsgEvent list \<Rightarrow> androidNrContext list" where
  "createAndroidNrContexts cells events =
    List.map_filter (createAndroidNrContext cells (map_of (rev (map (\<lambda>e. (ev_id e, e)) events)))) (positionsByEvent cells)"

type_synonym saSubscriptionGroup = "subscriptionKey \<times> androidNrContext list"

definition createSubscriptionGroups :: "androidNrContext list \<Rightarrow> nsgCell list \<Rightarrow> saSubscriptionGroup list" where
  "createSubscriptionGroups contexts cells =
    mapValues sortTimeline
      (fold (\<lambda>ctx m. case subscriptionKeyOf (firstCell cells ctx) of None \<Rightarrow> m | Some key \<Rightarrow> pushAt key ctx m) contexts [])"

text \<open>The only position whose cell matches.\<close>

definition uniquePosition :: "nat list \<Rightarrow> nsgCell list \<Rightarrow> (nsgCell \<Rightarrow> bool) \<Rightarrow> nat option" where
  "uniquePosition positions cells matches = onlyOne (filter (\<lambda>p. matches (cells ! p)) positions)"

definition uniqueAvailablePairPosition :: "nat list \<Rightarrow> nsgCell list \<Rightarrow> nrPair \<Rightarrow> nat list \<Rightarrow> nat option" where
  "uniqueAvailablePairPosition positions cells target occupied =
    onlyOne (filter (\<lambda>p. p \<notin> set occupied \<and> samePair (cellPair (cells ! p)) (Some target)) positions)"

definition isStandaloneContext :: "nsgCell list \<Rightarrow> 'a androidNrContext_scheme \<Rightarrow> bool" where
  "isStandaloneContext cells ctx \<longleftrightarrow> list_ex (\<lambda>p. nc_nrMode (cells ! p) = Some SaMode) (ac_cellPositions ctx)"

definition hasExactSchedulePair :: "'a androidNrContext_scheme \<Rightarrow> nsgCell list \<Rightarrow> timedNrMeasurement \<Rightarrow> bool" where
  "hasExactSchedulePair ctx cells observation \<longleftrightarrow>
    list_ex (\<lambda>decoded. measurementPair decoded \<noteq> None \<and>
        uniquePosition (ac_cellPositions ctx) cells (\<lambda>cell. samePair (cellPair cell) (measurementPair decoded)) \<noteq> None)
      (nm_cells (tm_measurement observation))"

definition uniqueScheduleContext :: "'a androidNrContext_scheme list \<Rightarrow> nsgCell list \<Rightarrow> 'b timelinePoint_scheme
    \<Rightarrow> 'a androidNrContext_scheme option" where
  "uniqueScheduleContext candidates cells point =
    (let keys = map (\<lambda>ctx. subscriptionKeyOf (firstCell cells ctx)) candidates
     in if candidates = [] then None
        else if None \<in> set keys then onlyOne candidates
        else if length (uniq keys) \<noteq> 1 then None
        else nearestRecord candidates point)"

definition scheduleContextForMeasurement :: "'a androidNrContext_scheme list \<Rightarrow> nsgCell list \<Rightarrow> timedNrMeasurement
    \<Rightarrow> 'a androidNrContext_scheme option" where
  "scheduleContextForMeasurement contexts cells observation =
    uniqueScheduleContext
      (filter (\<lambda>ctx. \<bar>tp_elapsedUs ctx - tp_elapsedUs observation\<bar> \<le> ASSOCIATION_MAX_AGE_US \<and> isStandaloneContext cells ctx \<and>
          hasExactSchedulePair ctx cells observation) contexts)
      cells observation"

definition scheduleContextForServingCell :: "'a androidNrContext_scheme list \<Rightarrow> nsgCell list \<Rightarrow> timedNrServingCellInfo
    \<Rightarrow> timedNrConfigurationInfo option \<Rightarrow> 'a androidNrContext_scheme option" where
  "scheduleContextForServingCell contexts cells servingCell limit =
    (case matchableNci (nsc_cellIdentity (tv_info servingCell)) of
       None \<Rightarrow> None
     | Some nci \<Rightarrow>
         uniqueScheduleContext
           (filter (\<lambda>ctx. \<bar>tp_elapsedUs ctx - tp_elapsedUs servingCell\<bar> \<le> ASSOCIATION_MAX_AGE_US \<and>
               (case limit of None \<Rightarrow> True | Some b \<Rightarrow> compareTimeline ctx b < 0) \<and> isStandaloneContext cells ctx \<and>
               uniquePosition (ac_cellPositions ctx) cells (\<lambda>cell. validCellNci (rf_nci (nc_radio cell)) = Some (of_int nci)) \<noteq> None)
             contexts)
           cells servingCell)"

section \<open>The contexts of a stream\<close>

record streamVote = timelinePoint +
  sv_group :: saSubscriptionGroup

definition groupMatchesServing :: "nsgCell list \<Rightarrow> timedNrServingCellInfo \<Rightarrow> bool \<Rightarrow> int \<Rightarrow> saSubscriptionGroup \<Rightarrow> bool" where
  "groupMatchesServing cells servingCell established nci grp \<longleftrightarrow>
    list_ex (\<lambda>ctx.
        \<bar>tp_elapsedUs ctx - tp_elapsedUs servingCell\<bar> \<le> (if established then STREAM_VOTE_WINDOW_US else ASSOCIATION_MAX_AGE_US) \<and>
        (established \<or> isStandaloneContext cells ctx) \<and>
        list_ex (\<lambda>p. validCellNci (rf_nci (nc_radio (cells ! p))) = Some (of_int nci)) (ac_cellPositions ctx))
      (snd grp)"

definition streamVoteFor :: "saSubscriptionGroup list \<Rightarrow> nsgCell list \<Rightarrow> timelines \<Rightarrow> timedNrServingCellInfo \<Rightarrow> streamVote option" where
  "streamVoteFor groups cells timelines servingCell =
    (let existing = nrStandaloneStateAt timelines (tv_streamIndex servingCell) servingCell;
         state = orElse existing (futureNrStandaloneStateAt timelines (tv_streamIndex servingCell) servingCell)
     in if nsc_version (tv_info servingCell) \<noteq> 4 \<or> state = None then None
        else (case matchableNci (nsc_cellIdentity (tv_info servingCell)) of
            None \<Rightarrow> None
          | Some nci \<Rightarrow>
              map_option (\<lambda>grp. \<lparr>tp_elapsedUs = tp_elapsedUs servingCell, tp_recordOffset = tp_recordOffset servingCell, sv_group = grp\<rparr>)
                (onlyOne (filter (groupMatchesServing cells servingCell (existing \<noteq> None) nci) groups))))"

definition collectStreamVotes :: "saSubscriptionGroup list \<Rightarrow> nsgCell list \<Rightarrow> timelines \<Rightarrow> timedNrServingCellInfo list
    \<Rightarrow> (int \<times> streamVote list) list" where
  "collectStreamVotes groups cells timelines servingCellInfos =
    mapValues sortTimeline
      (fold (\<lambda>servingCell m. case streamVoteFor groups cells timelines servingCell of
          None \<Rightarrow> m | Some vote \<Rightarrow> pushAt (tv_streamIndex servingCell) vote m) servingCellInfos [])"

text \<open>What the fusion is given, and what it derives from it first.\<close>

record fusionInput =
  fi_cells :: "nsgCell list"
  fi_events :: "nsgEvent list"
  fi_configurations :: "timedNrConfigurationInfo list"
  fi_servingCellInfos :: "timedNrServingCellInfo list"
  fi_measurements :: "timedNrMeasurement list"
  fi_lteAnchors :: "lteAnchor list"
  fi_lteServingCellInfos :: "timedLteServingCellInfo list"
  fi_defaultDataSubscriptions :: "defaultDataSubscriptionChange list"

definition fusionTimelines :: "fusionInput \<Rightarrow> timelines" where
  "fusionTimelines input = buildConfigurationTimeline (fi_configurations input)"

definition androidContexts :: "fusionInput \<Rightarrow> androidNrContext list" where
  "androidContexts input = createAndroidNrContexts (fi_cells input) (fi_events input)"

definition subscriptionGroups :: "fusionInput \<Rightarrow> saSubscriptionGroup list" where
  "subscriptionGroups input = createSubscriptionGroups (androidContexts input) (fi_cells input)"

definition fusionVotes :: "fusionInput \<Rightarrow> (int \<times> streamVote list) list" where
  "fusionVotes input =
    collectStreamVotes (subscriptionGroups input) (fi_cells input) (fusionTimelines input) (fi_servingCellInfos input)"

definition fusionLteAnchors :: "bool \<Rightarrow> fusionInput \<Rightarrow> int \<Rightarrow> int \<Rightarrow> lteAnchor list option" where
  "fusionLteAnchors allowFallbacks input =
    resolveLteAnchors allowFallbacks (fi_lteAnchors input) (fi_lteServingCellInfos input) (fi_defaultDataSubscriptions input)"

definition groupForAnchors :: "saSubscriptionGroup list \<Rightarrow> lteAnchor list option \<Rightarrow> androidNrContext list option" where
  "groupForAnchors groups anchors =
    (case anchors of
       None \<Rightarrow> None
     | Some as \<Rightarrow> Option.bind (onlyOne (uniq (List.map_filter (\<lambda>a. subscriptionKeyOf (la_cell a)) as))) (map_of groups))"

definition resolveEvidenceContexts :: "fusionInput \<Rightarrow> int \<Rightarrow> 'a timelinePoint_scheme \<Rightarrow> androidNrContext list option" where
  "resolveEvidenceContexts input streamIndex point =
    (case map_of (fusionVotes input) streamIndex of
       Some (vote # votes) \<Rightarrow> map_option (\<lambda>v. snd (sv_group v)) (nearestRecord (vote # votes) point)
     | _ \<Rightarrow> groupForAnchors (subscriptionGroups input) (fusionLteAnchors False input streamIndex (tp_elapsedUs point)))"

definition resolveContexts :: "fusionInput \<Rightarrow> int \<Rightarrow> 'a timelinePoint_scheme \<Rightarrow> androidNrContext list option" where
  "resolveContexts input streamIndex point =
    orElse (resolveEvidenceContexts input streamIndex point)
      (orElse (groupForAnchors (subscriptionGroups input) (fusionLteAnchors True input streamIndex (tp_elapsedUs point)))
        (map_option snd (onlyOne (subscriptionGroups input))))"

definition withState :: "androidNrContext \<Rightarrow> standaloneState \<Rightarrow> standaloneEventContext" where
  "withState ctx state = androidNrContext.extend ctx \<lparr>ec_state = state\<rparr>"

definition establishedContext :: "fusionInput \<Rightarrow> androidNrContext \<Rightarrow> standaloneEventContext option" where
  "establishedContext input ctx =
    (let belongs = (\<lambda>streamIndex. case resolveContexts input streamIndex ctx of
             Some contexts \<Rightarrow> list_ex (\<lambda>c. contextId c = contextId ctx) contexts
           | None \<Rightarrow> False);
         states = List.map_filter (\<lambda>(streamIndex, _).
             (case nrStandaloneStateAt (fusionTimelines input) streamIndex ctx of
                None \<Rightarrow> None
              | Some state \<Rightarrow> (if belongs streamIndex then Some state else None)))
           (fusionTimelines input)
     in map_option (withState ctx) (onlyOne states))"

definition createEstablishedContexts :: "fusionInput \<Rightarrow> standaloneEventContext list" where
  "createEstablishedContexts input = List.map_filter (establishedContext input) (androidContexts input)"

text \<open>Contexts of a configuration still to come, and the events where two of them disagree.\<close>

definition addFutureContext :: "fusionInput \<Rightarrow> timedNrServingCellInfo
    \<Rightarrow> (int \<times> standaloneEventContext) list \<times> int list \<Rightarrow> (int \<times> standaloneEventContext) list \<times> int list" where
  "addFutureContext input servingCell = (\<lambda>(resolved, ambiguous).
    (case futureNrStandaloneStateAt (fusionTimelines input) (tv_streamIndex servingCell) servingCell of
       None \<Rightarrow> (resolved, ambiguous)
     | Some state \<Rightarrow>
         (case scheduleContextForServingCell (androidContexts input) (fi_cells input) servingCell (Some (ss_configuration state)) of
            None \<Rightarrow> (resolved, ambiguous)
          | Some ctx \<Rightarrow>
              (if nsc_version (tv_info servingCell) \<noteq> 4 \<or>
                  ASSOCIATION_MAX_AGE_US < tp_elapsedUs (ss_configuration state) - tp_elapsedUs ctx \<or>
                  contextId ctx \<in> set ambiguous
               then (resolved, ambiguous)
               else (case map_of resolved (contextId ctx) of
                   None \<Rightarrow> (AList.update (contextId ctx) (withState ctx state) resolved, ambiguous)
                 | Some existing \<Rightarrow>
                     (if keyOfState (ec_state existing) = (tv_streamIndex servingCell, ss_epoch state) then (resolved, ambiguous)
                      else (AList.delete (contextId ctx) resolved, contextId ctx # ambiguous)))))))"

definition createFutureContexts :: "fusionInput \<Rightarrow> standaloneEventContext list" where
  "createFutureContexts input = map snd (fst (fold (addFutureContext input) (fi_servingCellInfos input) ([], [])))"

definition standaloneContexts :: "fusionInput \<Rightarrow> standaloneEventContext list" where
  "standaloneContexts input =
    (let established = createEstablishedContexts input
     in established @ filter (\<lambda>ctx. contextId ctx \<notin> set (map contextId established)) (createFutureContexts input))"

definition groupContexts :: "standaloneEventContext list \<Rightarrow> (stateKey \<times> standaloneEventContext list) list" where
  "groupContexts contexts =
    mapValues (sortBy (\<lambda>left right. of_int (compareTimeline (ac_event left) (ac_event right))))
      (fold (\<lambda>ctx. pushAt (keyOfState (ec_state ctx)) ctx) contexts [])"

end
