(* ===== verification/NsgFusion.thy ===== *)
theory NsgFusion
  imports NsgTimeline
begin

text \<open>
  Standalone NR, second half of internal/standalone/association.ts: the cells of the Android events are
  joined with the Qualcomm records of the same moment, and what no event reports becomes an event of its own.
\<close>

section \<open>Where a value comes from\<close>

record measurementContribution =
  mb_observation :: timedNrMeasurement
  mb_index :: nat
  mb_cell :: nrMeasurementCell

text \<open>The object of a measurement cell, by its place.\<close>

type_synonym measurementRef = "nat \<times> nat"

definition refOf :: "timedNrMeasurement \<Rightarrow> placedCell \<Rightarrow> measurementRef" where
  "refOf observation placed = (tm_ref observation, fst placed)"

definition contribution :: "timedNrMeasurement \<Rightarrow> placedCell \<Rightarrow> measurementContribution" where
  "contribution observation placed = \<lparr>mb_observation = observation, mb_index = fst placed, mb_cell = snd placed\<rparr>"

record cellContributions =
  ct_carrier :: "nrActiveCarrier option"
  ct_measurement :: "measurementContribution option"
  ct_servingCell :: "timedNrServingCellInfo option"

definition noContributions :: cellContributions where
  "noContributions = \<lparr>ct_carrier = None, ct_measurement = None, ct_servingCell = None\<rparr>"

definition configurationProvenance :: "timedNrConfigurationInfo \<Rightarrow> jsonObject" where
  "configurationProvenance r =
    [(''diagConfigurationLogCode'', JStr (logCodeText QUALCOMM_NR_CONFIGURATION_INFO_LOG_CODE)),
     (''diagConfigurationVersion'', jInt (ncf_version (tc_configuration r))),
     (''diagConfigurationRecordOffset'', jInt (tp_recordOffset r)),
     (''diagConfigurationStreamIndex'', jInt (tc_streamIndex r)),
     (''diagConfigurationElapsedUs'', jInt (tp_elapsedUs r)),
     (''diagConfigurationTimestampUs'', JStr (intText (ts_timestampUs r))),
     (''diagConfigurationTimestampMs'', jInt (ts_timestampMs r)),
     (''diagConfigurationState'', jInt (ncf_state (tc_configuration r))),
     (''diagConfigurationActive'', JBool (ncf_configurationActive (tc_configuration r))),
     (''diagConfigurationConnectivityMode'', jInt (ncf_connectivityMode (tc_configuration r)))]"

definition servingProvenance :: "timedNrServingCellInfo \<Rightarrow> jsonObject" where
  "servingProvenance r =
    (let info = tv_info r
     in [(''diagServingCellLogCode'', JStr (logCodeText QUALCOMM_NR_SERVING_CELL_INFO_LOG_CODE)),
         (''diagServingCellVersion'', jInt (nsc_version info)),
         (''diagServingCellRecordOffset'', jInt (tp_recordOffset r)),
         (''diagServingCellStreamIndex'', jInt (tv_streamIndex r)),
         (''diagServingCellElapsedUs'', jInt (tp_elapsedUs r)),
         (''diagServingCellTimestampUs'', JStr (intText (ts_timestampUs r))),
         (''diagServingCellTimestampMs'', jInt (ts_timestampMs r)),
         (''diagServingCellIdentity'', JStr (intText (nsc_cellIdentity info))),
         (''diagServingCellPci'', jInt (nsc_physicalCellId info)),
         (''diagServingCellDownlinkFrequency'', jInt (nsc_downlinkFrequency info)),
         (''diagServingCellUplinkFrequency'', jInt (nsc_uplinkFrequency info)),
         (''diagServingCellDownlinkBandwidth'', jInt (nsc_downlinkBandwidth info)),
         (''diagServingCellUplinkBandwidth'', jInt (nsc_uplinkBandwidth info)),
         (''diagServingCellMcc'', jInt (nsc_mcc info)),
         (''diagServingCellMncDigitCount'', jInt (nsc_mncDigitCount info)),
         (''diagServingCellMnc'', jInt (nsc_mnc info)),
         (''diagServingCellAllowedAccess'', jInt (nsc_allowedAccess info)),
         (''diagServingCellTac'', jInt (nsc_tac info)),
         (''diagServingCellBand'', jInt (nsc_band info))])"

definition measurementProvenance :: "measurementContribution \<Rightarrow> jsonObject" where
  "measurementProvenance b =
    (let observation = mb_observation b; cell = mb_cell b
     in [(''diagMeasurementLogCode'', JStr (logCodeText QUALCOMM_NR_MEASUREMENT_LOG_CODE)),
         (''diagMeasurementVersion'', JStr (versionText (tm_measurement observation))),
         (''diagMeasurementRecordOffset'', jInt (tp_recordOffset observation)),
         (''diagMeasurementStreamIndex'', jInt (tm_streamIndex observation)),
         (''diagMeasurementElapsedUs'', jInt (tp_elapsedUs observation)),
         (''diagMeasurementTimestampUs'', JStr (intText (ts_timestampUs observation))),
         (''diagMeasurementTimestampMs'', jInt (ts_timestampMs observation)),
         (''diagMeasurementCarrierIndex'', jInt (mc_carrierIndex cell)),
         (''diagMeasurementCellIndex'', jInt (mc_cellIndex cell)),
         (''diagMeasurementCcId'', jIntOr (mc_ccId cell)),
         (''diagMeasurementServing'', JBool (mc_serving cell)),
         (''diagMeasurementPci'', jInt (mc_pci cell)),
         (''diagMeasurementArfcn'', jInt (mc_arfcn cell)),
         (''diagMeasurementSfn'', jInt (mc_sfn cell)),
         (''diagMeasurementBeamCount'', jInt (mc_beamCount cell)),
         (''diagMeasurementRsrp'', JNum (mc_rsrp cell)),
         (''diagMeasurementRsrq'', JNum (mc_rsrq cell))])"

definition carrierProvenance :: "nrActiveCarrier \<Rightarrow> jsonObject" where
  "carrierProvenance carrier =
    [(''diagConfigurationCarrierCcId'', jInt (nac_ccId carrier)),
     (''diagConfigurationCarrierCellId'', jInt (nac_cellId carrier)),
     (''diagConfigurationCarrierDownlinkArfcn'', jInt (nac_downlinkArfcn carrier)),
     (''diagConfigurationCarrierUplinkArfcn'', jInt (nac_uplinkArfcn carrier)),
     (''diagConfigurationCarrierBand'', jInt (nac_band carrier)),
     (''diagConfigurationCarrierBandType'', jInt (nac_bandType carrier)),
     (''diagConfigurationCarrierDownlinkBandwidth'', jInt (nac_downlinkBandwidth carrier)),
     (''diagConfigurationCarrierUplinkBandwidth'', jInt (nac_uplinkBandwidth carrier)),
     (''diagConfigurationCarrierDownlinkMaxMimo'', jInt (nac_downlinkMaxMimo carrier)),
     (''diagConfigurationCarrierUplinkMaxMimo'', jInt (nac_uplinkMaxMimo carrier))]"

section \<open>Cells\<close>

text \<open>The radio values of a measurement, where they are valid.\<close>

definition measuredFields :: "nrMeasurementCell \<Rightarrow> radioFields \<Rightarrow> radioFields" where
  "measuredFields decoded radio = radio\<lparr>
     rf_pci := orElse (validPci (of_int (mc_pci decoded))) (rf_pci radio),
     rf_arfcn := orElse (validArfcn (of_int (mc_arfcn decoded))) (rf_arfcn radio),
     rf_rsrp := Some (mc_rsrp decoded),
     rf_rsrq := Some (mc_rsrq decoded)\<rparr>"

definition carrierFields :: "nrActiveCarrier \<Rightarrow> radioFields \<Rightarrow> radioFields" where
  "carrierFields carrier radio = radio\<lparr>
     rf_arfcn := orElse (carrierArfcn carrier) (rf_arfcn radio),
     rf_bands := (case validBand (of_int (nac_band carrier)) of None \<Rightarrow> rf_bands radio | Some b \<Rightarrow> Some [b])\<rparr>"

definition servingFields :: "timedNrServingCellInfo \<Rightarrow> radioFields \<Rightarrow> radioFields" where
  "servingFields r radio =
    (let info = tv_info r
     in radio\<lparr>
       rf_nci := orElse (map_option of_int (canonicalNci (nsc_cellIdentity info))) (rf_nci radio),
       rf_tac := orElse (validTac (of_int (nsc_tac info))) (rf_tac radio),
       rf_pci := orElse (validPci (of_int (nsc_physicalCellId info))) (rf_pci radio),
       rf_bands := (case validBand (of_int (nsc_band info)) of None \<Rightarrow> rf_bands radio | Some b \<Rightarrow> Some [b])\<rparr>)"

text \<open>A cell that turns out to be standalone NR, with new values and a new raw object.\<close>

definition asStandalone :: "nsgCell \<Rightarrow> radioFields \<Rightarrow> jsonObject \<Rightarrow> nsgCell" where
  "asStandalone cell radio raw = cell\<lparr>nc_measurementRole := None, nc_nrMode := Some SaMode,
     nc_sources := [QualcommDiag, AndroidTelephony], nc_radio := radio, nc_raw := raw,
     nc_identity := resolveNrIdentity raw (rf_nci radio) None\<rparr>"

definition fuseScheduleCell :: "nsgCell \<Rightarrow> measurementContribution \<Rightarrow> nsgCell" where
  "fuseScheduleCell cell b =
    asStandalone cell (measuredFields (mb_cell b) (nc_radio cell))
      (deleteField ''measurementRole'' (assignFields (nc_raw cell) (measurementProvenance b @ [(''nrMode'', JStr ''SA'')])))"

definition optionally :: "('a \<Rightarrow> 'b \<Rightarrow> 'b) \<Rightarrow> 'a option \<Rightarrow> 'b \<Rightarrow> 'b" where
  "optionally f x y = (case x of None \<Rightarrow> y | Some a \<Rightarrow> f a y)"

definition fuseCell :: "nsgCell \<Rightarrow> standaloneState \<Rightarrow> cellContributions \<Rightarrow> nsgCell" where
  "fuseCell cell state contributions =
    (let raw = deleteField ''measurementRole''
           (assignFields (nc_raw cell) (configurationProvenance (ss_configuration state) @ [(''nrMode'', JStr ''SA'')]));
         provenance = optionally (\<lambda>c r. assignFields r (carrierProvenance c)) (ct_carrier contributions) raw;
         provenance = optionally (\<lambda>s r. assignFields r (servingProvenance s)) (ct_servingCell contributions) provenance;
         provenance = optionally (\<lambda>m r. assignFields r (measurementProvenance m)) (ct_measurement contributions) provenance;
         radio = optionally carrierFields (ct_carrier contributions) (nc_radio cell);
         radio = optionally servingFields (ct_servingCell contributions) radio;
         radio = optionally (\<lambda>m. measuredFields (mb_cell m)) (ct_measurement contributions) radio
     in asStandalone cell radio provenance)"

text \<open>A cell that only the measurement knows; it takes its subscription from a cell of the event.\<close>

definition neighborRadio :: "nrMeasurementCell \<Rightarrow> number list option \<Rightarrow> radioFields" where
  "neighborRadio decoded bands = noRadioFields\<lparr>rf_pci := validPci (of_int (mc_pci decoded)),
     rf_arfcn := validArfcn (of_int (mc_arfcn decoded)), rf_rsrp := Some (mc_rsrp decoded),
     rf_rsrq := Some (mc_rsrq decoded), rf_bands := bands\<rparr>"

definition neighborCell :: "nsgCell \<Rightarrow> nsgEvent \<Rightarrow> int \<Rightarrow> nrMeasurementCell \<Rightarrow> number list option \<Rightarrow> jsonObject \<Rightarrow> nsgCell" where
  "neighborCell envelope event cellIndex decoded bands raw =
    \<lparr>tp_elapsedUs = tp_elapsedUs event, tp_recordOffset = tp_recordOffset event, ts_timestampUs = ts_timestampUs event,
     ts_timestampMs = ts_timestampMs event, nc_eventIndex = ev_id event, nc_cellIndex = cellIndex, nc_rat = ''NR'',
     nc_registered = Some False, nc_measurementRole = None, nc_nrMode = Some SaMode,
     nc_sources = [QualcommDiag, AndroidTelephony], nc_subId = nc_subId envelope, nc_slotId = nc_slotId envelope,
     nc_isDefaultSubscription = nc_isDefaultSubscription envelope, nc_mcc = nc_mcc envelope, nc_mnc = nc_mnc envelope,
     nc_operatorName = nc_operatorName envelope, nc_radio = neighborRadio decoded bands,
     nc_identity = resolveNrIdentity raw None None, nc_raw = raw\<rparr>"

definition neighborRaw :: jsonObject where
  "neighborRaw = [(''type'', JStr ''nr''), (''registered'', JBool False), (''source'', JStr ''qualcomm-diag''), (''nrMode'', JStr ''SA'')]"

definition createScheduleNeighbor :: "nsgCell \<Rightarrow> nsgEvent \<Rightarrow> int \<Rightarrow> measurementContribution \<Rightarrow> nsgCell" where
  "createScheduleNeighbor envelope event cellIndex b =
    neighborCell envelope event cellIndex (mb_cell b) None (neighborRaw @ measurementProvenance b)"

definition createDerivedNeighbor :: "nsgCell \<Rightarrow> nsgEvent \<Rightarrow> int \<Rightarrow> standaloneState \<Rightarrow> measurementContribution
    \<Rightarrow> nrActiveCarrier option \<Rightarrow> nsgCell" where
  "createDerivedNeighbor envelope event cellIndex state b carrier =
    (let raw = neighborRaw @ configurationProvenance (ss_configuration state) @ measurementProvenance b
     in neighborCell envelope event cellIndex (mb_cell b)
          (Option.bind carrier (\<lambda>c. map_option (\<lambda>band. [band]) (validBand (of_int (nac_band c)))))
          (optionally (\<lambda>c r. assignFields r (carrierProvenance c)) carrier raw))"

subsection \<open>Cells of their own\<close>

text \<open>The nearest anchor of a list in any order; the first of equally near ones.\<close>

definition nearestOfAnchors :: "lteAnchor list \<Rightarrow> int \<Rightarrow> lteAnchor option" where
  "nearestOfAnchors anchors elapsedUs =
    (let distance = (\<lambda>a. \<bar>tp_elapsedUs (la_cell a) - elapsedUs\<bar>)
     in case anchors of
        [] \<Rightarrow> None
      | first # others \<Rightarrow> Some (fold (\<lambda>candidate nearest. if distance candidate < distance nearest then candidate else nearest) others first))"

definition standaloneEnvelope :: "fusionInput \<Rightarrow> int \<Rightarrow> 'a timelinePoint_scheme \<Rightarrow> nsgCell option" where
  "standaloneEnvelope input streamIndex point =
    (let near = (\<lambda>elapsedUs. \<bar>elapsedUs - tp_elapsedUs point\<bar> \<le> ASSOCIATION_MAX_AGE_US);
         fromAnchors = (case Option.bind (fusionLteAnchors False input streamIndex (tp_elapsedUs point))
               (\<lambda>anchors. nearestOfAnchors anchors (tp_elapsedUs point)) of
             Some anchor \<Rightarrow> (if near (tp_elapsedUs (la_cell anchor)) then Some (la_cell anchor) else None)
           | None \<Rightarrow> None)
     in case Option.bind (resolveEvidenceContexts input streamIndex point) (\<lambda>contexts. nearestRecord contexts point) of
        Some ctx \<Rightarrow> (if near (tp_elapsedUs ctx) then Some (firstCell (fi_cells input) ctx) else fromAnchors)
      | None \<Rightarrow> fromAnchors)"

definition standaloneCarrier :: "standaloneState \<Rightarrow> measurementContribution option \<Rightarrow> nrActiveCarrier option" where
  "standaloneCarrier state measurement =
    (let carriers = ncf_activeCarriers (tc_configuration (ss_configuration state))
     in case measurement of
        None \<Rightarrow> onlyOne carriers
      | Some m \<Rightarrow>
          (case validArfcn (of_int (mc_arfcn (mb_cell m))) of
             None \<Rightarrow> None
           | Some arfcn \<Rightarrow> onlyOne (filter (\<lambda>c. carrierArfcn c = Some arfcn) carriers)))"

record standaloneDefinition =
  sd_servingCell :: "timedNrServingCellInfo option"
  sd_measurement :: "measurementContribution option"

record standaloneGroup =
  sg_envelope :: "nsgCell option"
  sg_point :: nsgTimestamp
  sg_state :: standaloneState
  sg_streamIndex :: int
  sg_cells :: "standaloneDefinition list"

definition createSyntheticEvent :: "int \<Rightarrow> standaloneGroup \<Rightarrow> nsgEvent" where
  "createSyntheticEvent eventId grp =
    (let point = sg_point grp; envelope = sg_envelope grp
     in \<lparr>tp_elapsedUs = tp_elapsedUs point, tp_recordOffset = tp_recordOffset point, ts_timestampUs = ts_timestampUs point,
         ts_timestampMs = ts_timestampMs point, ev_id = eventId, ev_name = ''QualcommNrStandalone'', ev_marker = None,
         ev_streamIndex = sg_streamIndex grp,
         ev_data = [(''event'', JStr ''QualcommNrStandalone''), (''source'', JStr ''qualcomm-diag''), (''nrMode'', JStr ''SA''),
           (''subId'', jNumOr (Option.bind envelope nc_subId)), (''slotId'', jNumOr (Option.bind envelope nc_slotId)),
           (''default'', jBoolOr (Option.bind envelope nc_isDefaultSubscription))]\<rparr>)"

definition standaloneRadio :: "timedNrServingCellInfo option \<Rightarrow> nrMeasurementCell option \<Rightarrow> nrActiveCarrier option \<Rightarrow> radioFields" where
  "standaloneRadio servingCell decoded carrier =
    (let info = map_option tv_info servingCell;
         band = (case (info, carrier) of
             (Some i, _) \<Rightarrow> validBand (of_int (nsc_band i))
           | (None, Some c) \<Rightarrow> validBand (of_int (nac_band c))
           | _ \<Rightarrow> None)
     in noRadioFields\<lparr>
       rf_tac := Option.bind info (\<lambda>i. validTac (of_int (nsc_tac i))),
       rf_nci := Option.bind info (\<lambda>i. map_option of_int (canonicalNci (nsc_cellIdentity i))),
       rf_pci := (case (info, decoded) of
           (Some i, _) \<Rightarrow> validPci (of_int (nsc_physicalCellId i))
         | (None, Some d) \<Rightarrow> validPci (of_int (mc_pci d))
         | _ \<Rightarrow> None),
       rf_arfcn := (case (decoded, carrier) of
           (Some d, _) \<Rightarrow> validArfcn (of_int (mc_arfcn d))
         | (None, Some c) \<Rightarrow> carrierArfcn c
         | _ \<Rightarrow> None),
       rf_rsrp := map_option mc_rsrp decoded, rf_rsrq := map_option mc_rsrq decoded,
       rf_bands := map_option (\<lambda>b. [b]) band\<rparr>)"

definition standalonePoint :: "standaloneState \<Rightarrow> timedNrServingCellInfo option \<Rightarrow> measurementContribution option \<Rightarrow> nsgTimestamp" where
  "standalonePoint state servingCell measurement =
    (case (servingCell, measurement) of
       (Some s, _) \<Rightarrow> nsgTimestamp.truncate s
     | (None, Some m) \<Rightarrow> nsgTimestamp.truncate (mb_observation m)
     | _ \<Rightarrow> nsgTimestamp.truncate (ss_configuration state))"

definition standaloneRaw :: "nsgCell option \<Rightarrow> standaloneState \<Rightarrow> bool \<Rightarrow> nrActiveCarrier option \<Rightarrow> timedNrServingCellInfo option
    \<Rightarrow> measurementContribution option \<Rightarrow> jsonObject" where
  "standaloneRaw envelope state registered carrier servingCell measurement =
    (let raw = [(''type'', JStr ''nr''), (''registered'', JBool registered), (''source'', JStr ''qualcomm-diag''), (''nrMode'', JStr ''SA'')]
           @ configurationProvenance (ss_configuration state);
         raw = optionally (\<lambda>e. setField ''androidContextEventIndex'' (jInt (nc_eventIndex e))) envelope raw;
         raw = optionally (\<lambda>c r. assignFields r (carrierProvenance c)) carrier raw;
         raw = optionally (\<lambda>s r. assignFields r (servingProvenance s)) servingCell raw
     in optionally (\<lambda>m r. assignFields r (measurementProvenance m)) measurement raw)"

definition createStandaloneCell :: "nsgCell option \<Rightarrow> int \<Rightarrow> int \<Rightarrow> standaloneState \<Rightarrow> timedNrServingCellInfo option
    \<Rightarrow> measurementContribution option \<Rightarrow> nsgCell" where
  "createStandaloneCell envelope eventIndex cellIndex state servingCell measurement =
    (let point = standalonePoint state servingCell measurement;
         carrier = standaloneCarrier state measurement;
         decoded = map_option mb_cell measurement;
         registered = (servingCell \<noteq> None \<or> (case decoded of Some d \<Rightarrow> mc_serving d | None \<Rightarrow> False));
         raw = standaloneRaw envelope state registered carrier servingCell measurement;
         radio = standaloneRadio servingCell decoded carrier
     in \<lparr>tp_elapsedUs = tp_elapsedUs point, tp_recordOffset = tp_recordOffset point, ts_timestampUs = ts_timestampUs point,
         ts_timestampMs = ts_timestampMs point, nc_eventIndex = eventIndex, nc_cellIndex = cellIndex, nc_rat = ''NR'',
         nc_registered = Some registered, nc_measurementRole = None, nc_nrMode = Some SaMode,
         nc_sources = (if envelope \<noteq> None then [QualcommDiag, AndroidTelephony] else [QualcommDiag]),
         nc_subId = Option.bind envelope nc_subId, nc_slotId = Option.bind envelope nc_slotId,
         nc_isDefaultSubscription = Option.bind envelope nc_isDefaultSubscription,
         nc_mcc = Option.bind envelope nc_mcc, nc_mnc = Option.bind envelope nc_mnc,
         nc_operatorName = Option.bind envelope nc_operatorName, nc_radio = radio,
         nc_identity = resolveNrIdentity raw (rf_nci radio) None, nc_raw = raw\<rparr>)"

section \<open>The measurement of an event\<close>

text \<open>
  Each measurement goes to the event nearest to it, to the state of its stream, or is left for the
  non-standalone association.
\<close>

record measurementPlan =
  mp_byEvent :: "(int \<times> timedNrMeasurement) list"
  mp_schedule :: "(int \<times> androidNrContext \<times> timedNrMeasurement) list"
  mp_byState :: "(stateKey \<times> timedNrMeasurement list) list"
  mp_remaining :: "timedNrMeasurement list"

definition noPlan :: measurementPlan where
  "noPlan = \<lparr>mp_byEvent = [], mp_schedule = [], mp_byState = [], mp_remaining = []\<rparr>"

definition isNearer :: "int \<Rightarrow> timedNrMeasurement \<Rightarrow> timedNrMeasurement option \<Rightarrow> bool" where
  "isNearer elapsedUs observation current =
    (case current of
       None \<Rightarrow> True
     | Some c \<Rightarrow> \<bar>elapsedUs - tp_elapsedUs observation\<bar> < \<bar>elapsedUs - tp_elapsedUs c\<bar>)"

definition planForEvent :: "nsgEvent \<Rightarrow> timedNrMeasurement \<Rightarrow> measurementPlan \<Rightarrow> measurementPlan" where
  "planForEvent event observation plan =
    (if isNearer (tp_elapsedUs event) observation (map_of (mp_byEvent plan) (ev_id event))
     then plan\<lparr>mp_byEvent := AList.update (ev_id event) observation (mp_byEvent plan)\<rparr> else plan)"

definition planForState :: "stateKey \<Rightarrow> timedNrMeasurement \<Rightarrow> measurementPlan \<Rightarrow> measurementPlan" where
  "planForState key observation plan = plan\<lparr>mp_byState := pushAt key observation (mp_byState plan)\<rparr>"

definition leaveMeasurement :: "timedNrMeasurement \<Rightarrow> measurementPlan \<Rightarrow> measurementPlan" where
  "leaveMeasurement observation plan = plan\<lparr>mp_remaining := mp_remaining plan @ [observation]\<rparr>"

text \<open>A measurement before the first configuration of its stream.\<close>

definition planUnconfigured :: "fusionInput \<Rightarrow> standaloneEventContext list \<Rightarrow> timedNrMeasurement \<Rightarrow> measurementPlan \<Rightarrow> measurementPlan" where
  "planUnconfigured input contexts observation plan =
    (case scheduleContextForMeasurement (androidContexts input) (fi_cells input) observation of
       None \<Rightarrow> leaveMeasurement observation plan
     | Some ctx \<Rightarrow>
         (let future = futureNrStandaloneStateAt (fusionTimelines input) (tm_streamIndex observation) observation;
              futureKey = map_option (\<lambda>state. (tm_streamIndex observation, ss_epoch state)) future;
              joins = (case Option.bind futureKey (map_of (groupContexts contexts)) of
                  Some candidates \<Rightarrow> list_ex (\<lambda>c. contextId c = contextId ctx) candidates
                | None \<Rightarrow> False)
          in if joins then planForEvent (ac_event ctx) observation (planForState (the futureKey) observation plan)
             else if contextId ctx \<in> set (map contextId contexts) then leaveMeasurement observation plan
             else if isNearer (tp_elapsedUs ctx) observation (map_option snd (map_of (mp_schedule plan) (contextId ctx)))
             then plan\<lparr>mp_schedule := AList.update (contextId ctx) (ctx, observation) (mp_schedule plan)\<rparr>
             else plan))"

definition planConfigured :: "standaloneEventContext list \<Rightarrow> standaloneState \<Rightarrow> timedNrMeasurement \<Rightarrow> measurementPlan \<Rightarrow> measurementPlan" where
  "planConfigured contexts state observation plan =
    (let key = (tm_streamIndex observation, ss_epoch state);
         planned = planForState key observation plan
     in case Option.bind (map_of (groupContexts contexts) key) (\<lambda>candidates. nearestRecord candidates observation) of
        None \<Rightarrow> planned
      | Some ctx \<Rightarrow>
          (if ASSOCIATION_MAX_AGE_US < \<bar>tp_elapsedUs (ac_event ctx) - tp_elapsedUs observation\<bar> then planned
           else planForEvent (ac_event ctx) observation planned))"

definition planMeasurement :: "fusionInput \<Rightarrow> standaloneEventContext list \<Rightarrow> timedNrMeasurement \<Rightarrow> measurementPlan \<Rightarrow> measurementPlan" where
  "planMeasurement input contexts observation plan =
    (case indexedStateAt (fusionTimelines input) (tm_streamIndex observation) observation of
       None \<Rightarrow> planUnconfigured input contexts observation plan
     | Some indexed \<Rightarrow>
         (case stateOf indexed of
            None \<Rightarrow> leaveMeasurement observation plan
          | Some state \<Rightarrow> planConfigured contexts state observation plan))"

definition planMeasurements :: "fusionInput \<Rightarrow> standaloneEventContext list \<Rightarrow> measurementPlan" where
  "planMeasurements input contexts = fold (planMeasurement input contexts) (fi_measurements input) noPlan"

section \<open>The serving cells of a state\<close>

definition stateForServing :: "fusionInput \<Rightarrow> standaloneEventContext list \<Rightarrow> timedNrServingCellInfo \<Rightarrow> standaloneState option" where
  "stateForServing input contexts servingCell =
    (let streamIndex = tv_streamIndex servingCell;
         future = futureNrStandaloneStateAt (fusionTimelines input) streamIndex servingCell;
         futureContexts = Option.bind future (\<lambda>state. map_of (groupContexts contexts) (streamIndex, ss_epoch state));
         chosen = Option.bind futureContexts (\<lambda>cs. scheduleContextForServingCell cs (fi_cells input) servingCell None)
     in if nsc_version (tv_info servingCell) \<noteq> 4 then None
        else orElse (nrStandaloneStateAt (fusionTimelines input) streamIndex servingCell)
          (if chosen \<noteq> None then future else None))"

definition servingByState :: "fusionInput \<Rightarrow> standaloneEventContext list \<Rightarrow> (stateKey \<times> timedNrServingCellInfo list) list" where
  "servingByState input contexts =
    mapValues sortTimeline
      (fold (\<lambda>servingCell m. case stateForServing input contexts servingCell of
          None \<Rightarrow> m | Some state \<Rightarrow> pushAt (tv_streamIndex servingCell, ss_epoch state) servingCell m)
        (fi_servingCellInfos input) [])"

section \<open>Joining\<close>

text \<open>
  What has been made so far: the cells that replace a position, the cells added to an event, and the
  serving records and measurement cells that are used up.
\<close>

record fusionState =
  fs_replacements :: "(nat \<times> nsgCell) list"
  fs_derived :: "(int \<times> nsgCell list) list"
  fs_usedServing :: "nat list"
  fs_usedMeasurements :: "measurementRef list"

definition noFusion :: fusionState where
  "noFusion = \<lparr>fs_replacements = [], fs_derived = [], fs_usedServing = [], fs_usedMeasurements = []\<rparr>"

definition nextCellIndexOf :: "nsgCell list \<Rightarrow> int \<Rightarrow> int" where
  "nextCellIndexOf cells eventIndex =
    fold max (map nc_cellIndex (filter (\<lambda>c. nc_eventIndex c = eventIndex) cells)) (- 1) + 1"

text \<open>The decoded cells in the order they choose their partner: serving cells first.\<close>

definition servingFirst :: "timedNrMeasurement \<Rightarrow> placedCell list" where
  "servingFirst observation =
    (let cells = placedCells observation
     in filter (\<lambda>(_, c). mc_serving c) cells @ filter (\<lambda>(_, c). \<not> mc_serving c) cells)"

text \<open>The neighbors a measurement adds: those no cell of the event matches, one for each pair.\<close>

definition isUnreported :: "nsgCell list \<Rightarrow> 'a androidNrContext_scheme \<Rightarrow> nat list \<Rightarrow> placedCell \<Rightarrow> bool" where
  "isUnreported cells ctx matched placed \<longleftrightarrow>
    \<not> mc_serving (snd placed) \<and> fst placed \<notin> set matched \<and> measurementPair (snd placed) \<noteq> None \<and>
    \<not> list_ex (\<lambda>p. samePair (cellPair (cells ! p)) (measurementPair (snd placed))) (ac_cellPositions ctx)"

fun uniquePairs :: "nrPair option list \<Rightarrow> placedCell list \<Rightarrow> placedCell list" where
  "uniquePairs seen [] = []"
| "uniquePairs seen (placed # others) =
     (if measurementPair (snd placed) \<in> set seen then uniquePairs seen others
      else placed # uniquePairs (measurementPair (snd placed) # seen) others)"

definition unreportedCells :: "nsgCell list \<Rightarrow> 'a androidNrContext_scheme \<Rightarrow> nat list \<Rightarrow> timedNrMeasurement \<Rightarrow> placedCell list" where
  "unreportedCells cells ctx matched observation =
    uniquePairs [] (filter (isUnreported cells ctx matched) (placedCells observation))"

subsection \<open>Events without a configuration\<close>

record scheduleMatch =
  sm_replacements :: "(nat \<times> nsgCell) list"
  sm_occupied :: "nat list"
  sm_matched :: "nat list"

definition matchSchedule :: "nsgCell list \<Rightarrow> androidNrContext \<Rightarrow> timedNrMeasurement \<Rightarrow> placedCell \<Rightarrow> scheduleMatch \<Rightarrow> scheduleMatch" where
  "matchSchedule cells ctx observation placed m =
    (case Option.bind (measurementPair (snd placed))
        (\<lambda>target. uniqueAvailablePairPosition (ac_cellPositions ctx) cells target (sm_occupied m)) of
       None \<Rightarrow> m
     | Some p \<Rightarrow>
         m\<lparr>sm_replacements := AList.update p (fuseScheduleCell (cells ! p) (contribution observation placed)) (sm_replacements m),
           sm_occupied := p # sm_occupied m, sm_matched := fst placed # sm_matched m\<rparr>)"

definition fuseSchedule :: "nsgCell list \<Rightarrow> androidNrContext \<times> timedNrMeasurement \<Rightarrow> fusionState \<Rightarrow> fusionState" where
  "fuseSchedule cells entry s =
    (let ctx = fst entry; observation = snd entry;
         m = fold (matchSchedule cells ctx observation) (servingFirst observation)
           \<lparr>sm_replacements = fs_replacements s, sm_occupied = [], sm_matched = []\<rparr>;
         start = nextCellIndexOf cells (contextId ctx);
         derived = map (\<lambda>(k, placed). createScheduleNeighbor (firstCell cells ctx) (ac_event ctx) (start + int k) (contribution observation placed))
           (enumerate 0 (unreportedCells cells ctx (sm_matched m) observation))
     in s\<lparr>fs_replacements := sm_replacements m,
          fs_derived := (if derived = [] then fs_derived s else AList.update (contextId ctx) derived (fs_derived s))\<rparr>)"

subsection \<open>Events with a configuration\<close>

definition servingPosition :: "standaloneEventContext \<Rightarrow> nsgCell list \<Rightarrow> timedNrServingCellInfo option \<Rightarrow> timedNrMeasurement option \<Rightarrow> nat option" where
  "servingPosition ctx cells servingCell measurement =
    (case servingCell of
       None \<Rightarrow> None
     | Some serving \<Rightarrow>
         (let byNci = Option.bind (matchableNci (nsc_cellIdentity (tv_info serving)))
                (\<lambda>nci. uniquePosition (ac_cellPositions ctx) cells (\<lambda>cell. validCellNci (rf_nci (nc_radio cell)) = Some (of_int nci)));
              byPair = (case (validPci (of_int (nsc_physicalCellId (tv_info serving))), measurement) of
                  (Some pci, Some m) \<Rightarrow>
                    Option.bind (Option.bind (servingMeasurementCandidate (placedCells m) pci) (\<lambda>c. measurementPair (snd c)))
                      (\<lambda>target. uniquePosition (ac_cellPositions ctx) cells (\<lambda>cell. samePair (cellPair cell) (Some target)))
                | _ \<Rightarrow> None)
          in orElse byNci byPair))"

text \<open>What is known of one event before its cells are joined.\<close>

record eventEvidence =
  ee_observation :: "timedNrMeasurement option"
  ee_servingCell :: "timedNrServingCellInfo option"
  ee_servingMatch :: "nat option"
  ee_servingMeasurement :: "placedCell option"

definition eventEvidence :: "fusionInput \<Rightarrow> standaloneEventContext list \<Rightarrow> measurementPlan \<Rightarrow> standaloneEventContext \<Rightarrow> eventEvidence" where
  "eventEvidence input contexts plan ctx =
    (let observation = map_of (mp_byEvent plan) (contextId ctx);
         nearest = Option.bind (map_of (servingByState input contexts) (keyOfState (ec_state ctx)))
           (\<lambda>records. nearestRecord records (ac_event ctx));
         servingCell = (case nearest of
             Some r \<Rightarrow> (if \<bar>tp_elapsedUs r - tp_elapsedUs (ac_event ctx)\<bar> \<le> ASSOCIATION_MAX_AGE_US then Some r else None)
           | None \<Rightarrow> None);
         servingPci = Option.bind servingCell (\<lambda>r. validPci (of_int (nsc_physicalCellId (tv_info r))))
     in \<lparr>ee_observation = observation, ee_servingCell = servingCell,
         ee_servingMatch = servingPosition ctx (fi_cells input) servingCell observation,
         ee_servingMeasurement = (case (observation, servingPci) of
             (Some o', Some pci) \<Rightarrow> servingMeasurementCandidate (placedCells o') pci
           | _ \<Rightarrow> None)\<rparr>)"

type_synonym contributions = "(nat \<times> cellContributions) list"

definition changeAt :: "nat \<Rightarrow> (cellContributions \<Rightarrow> cellContributions) \<Rightarrow> contributions \<Rightarrow> contributions" where
  "changeAt position f m = map (\<lambda>(p, c). if p = position then (p, f c) else (p, c)) m"

definition startContributions :: "standaloneEventContext \<Rightarrow> eventEvidence \<Rightarrow> contributions" where
  "startContributions ctx ev =
    (let empty = map (\<lambda>p. (p, noContributions)) (ac_cellPositions ctx)
     in case ee_servingMatch ev of
        None \<Rightarrow> empty
      | Some p \<Rightarrow> changeAt p (\<lambda>c. c\<lparr>ct_servingCell := ee_servingCell ev\<rparr>) empty)"

definition addCarrier :: "nsgCell list \<Rightarrow> standaloneEventContext \<Rightarrow> eventEvidence \<Rightarrow> nrActiveCarrier \<Rightarrow> contributions \<Rightarrow> contributions" where
  "addCarrier cells ctx ev carrier m =
    (case carrierArfcn carrier of
       None \<Rightarrow> m
     | Some arfcn \<Rightarrow>
         (let reported = uniquePosition (ac_cellPositions ctx) cells (\<lambda>cell. rf_arfcn (nc_radio cell) = Some arfcn);
              measured = (case ee_observation ev of
                  None \<Rightarrow> False
                | Some o' \<Rightarrow> list_ex (\<lambda>placed. of_int (mc_arfcn (snd placed)) = arfcn \<and>
                    (mc_serving (snd placed) \<or> Some (fst placed) = map_option fst (ee_servingMeasurement ev))) (placedCells o'));
              target = (if reported = None \<and> measured then ee_servingMatch ev else reported)
          in case target of
             None \<Rightarrow> m
           | Some p \<Rightarrow> changeAt p (\<lambda>c. if ct_carrier c = None then c\<lparr>ct_carrier := Some carrier\<rparr> else c) m))"

record measurementMatch =
  mm_contributions :: contributions
  mm_occupied :: "nat list"
  mm_matched :: "nat list"

definition matchMeasurement :: "nsgCell list \<Rightarrow> standaloneEventContext \<Rightarrow> eventEvidence \<Rightarrow> timedNrMeasurement \<Rightarrow> placedCell
    \<Rightarrow> measurementMatch \<Rightarrow> measurementMatch" where
  "matchMeasurement cells ctx ev observation placed m =
    (case measurementPair (snd placed) of
       None \<Rightarrow> m
     | Some decodedPair \<Rightarrow>
         (let isServing = (Some (fst placed) = map_option fst (ee_servingMeasurement ev));
              target = orElse (if isServing then ee_servingMatch ev else None)
                (uniqueAvailablePairPosition (ac_cellPositions ctx) cells decodedPair (mm_occupied m))
          in case target of
             None \<Rightarrow> m
           | Some p \<Rightarrow>
               (if p \<in> set (mm_occupied m) then m
                else m\<lparr>mm_contributions := changeAt p (\<lambda>c. c\<lparr>ct_measurement := Some (contribution observation placed)\<rparr>) (mm_contributions m),
                  mm_occupied := p # mm_occupied m, mm_matched := fst placed # mm_matched m\<rparr>)))"

text \<open>The serving cell keeps its position for itself when the measurement has serving cells but not this one.\<close>

definition startOccupied :: "eventEvidence \<Rightarrow> nat list" where
  "startOccupied ev =
    (case (ee_servingMatch ev, ee_servingCell ev, ee_observation ev) of
       (Some p, Some _, Some o') \<Rightarrow>
         (if list_ex mc_serving (nm_cells (tm_measurement o')) \<and> ee_servingMeasurement ev = None then [p] else [])
     | _ \<Rightarrow> [])"

definition matchEvent :: "nsgCell list \<Rightarrow> standaloneEventContext \<Rightarrow> eventEvidence \<Rightarrow> measurementMatch" where
  "matchEvent cells ctx ev =
    (let carriers = ncf_activeCarriers (tc_configuration (ss_configuration (ec_state ctx)));
         m = \<lparr>mm_contributions = fold (addCarrier cells ctx ev) carriers (startContributions ctx ev),
              mm_occupied = startOccupied ev, mm_matched = []\<rparr>
     in case ee_observation ev of
        None \<Rightarrow> m
      | Some observation \<Rightarrow> fold (matchMeasurement cells ctx ev observation) (servingFirst observation) m)"

definition fuseContext :: "fusionInput \<Rightarrow> standaloneEventContext list \<Rightarrow> measurementPlan \<Rightarrow> standaloneEventContext \<Rightarrow> fusionState \<Rightarrow> fusionState" where
  "fuseContext input contexts plan ctx s =
    (let cells = fi_cells input;
         ev = eventEvidence input contexts plan ctx;
         m = matchEvent cells ctx ev;
         carriers = ncf_activeCarriers (tc_configuration (ss_configuration (ec_state ctx)));
         replacements = fold (\<lambda>(p, c). AList.update p (fuseCell (cells ! p) (ec_state ctx) c)) (mm_contributions m) (fs_replacements s);
         served = (case (ee_servingMatch ev, ee_servingCell ev) of (Some _, Some r) \<Rightarrow> [tv_ref r] | _ \<Rightarrow> []);
         start = nextCellIndexOf cells (contextId ctx)
     in case ee_observation ev of
        None \<Rightarrow> s\<lparr>fs_replacements := replacements, fs_usedServing := served @ fs_usedServing s\<rparr>
      | Some observation \<Rightarrow>
          (let unreported = unreportedCells cells ctx (mm_matched m) observation;
               carrierFor = (\<lambda>placed. onlyOne (filter (\<lambda>c. carrierArfcn c = map_option fst (measurementPair (snd placed))) carriers));
               derived = map (\<lambda>(k, placed). createDerivedNeighbor (firstCell cells ctx) (ac_event ctx) (start + int k) (ec_state ctx)
                   (contribution observation placed) (carrierFor placed)) (enumerate 0 unreported);
               used = map (Pair (tm_ref observation)) (mm_matched m) @ map (refOf observation) unreported
           in s\<lparr>fs_replacements := replacements,
                fs_derived := (if derived = [] then fs_derived s else AList.update (contextId ctx) derived (fs_derived s)),
                fs_usedServing := served @ fs_usedServing s,
                fs_usedMeasurements := used @ fs_usedMeasurements s\<rparr>))"

section \<open>What no event reports\<close>

definition isBetterMatch :: "timedNrServingCellInfo \<Rightarrow> timedNrMeasurement \<Rightarrow> measurementContribution option \<Rightarrow> bool" where
  "isBetterMatch servingCell observation matched =
    (let distance = (\<lambda>r. \<bar>tp_elapsedUs r - tp_elapsedUs servingCell\<bar>)
     in case matched of
        None \<Rightarrow> True
      | Some m \<Rightarrow>
          distance observation < distance (mb_observation m) \<or>
          (distance observation = distance (mb_observation m) \<and> tp_recordOffset observation < tp_recordOffset (mb_observation m)))"

definition matchServing :: "timedNrServingCellInfo \<Rightarrow> number \<Rightarrow> measurementRef list \<Rightarrow> timedNrMeasurement
    \<Rightarrow> measurementContribution option \<Rightarrow> measurementContribution option" where
  "matchServing servingCell pci used observation matched =
    (if ASSOCIATION_MAX_AGE_US < \<bar>tp_elapsedUs observation - tp_elapsedUs servingCell\<bar> then matched
     else (case servingMeasurementCandidate (placedCells observation) pci of
         None \<Rightarrow> matched
       | Some candidate \<Rightarrow>
           (if refOf observation candidate \<notin> set used \<and> isBetterMatch servingCell observation matched
            then Some (contribution observation candidate) else matched)))"

definition matchingMeasurementForServing :: "timedNrMeasurement list \<Rightarrow> timedNrServingCellInfo \<Rightarrow> measurementRef list \<Rightarrow> measurementContribution option" where
  "matchingMeasurementForServing observations servingCell used =
    (case validPci (of_int (nsc_physicalCellId (tv_info servingCell))) of
       None \<Rightarrow> None
     | Some pci \<Rightarrow> fold (matchServing servingCell pci used) observations None)"

definition contributionRef :: "measurementContribution \<Rightarrow> measurementRef" where
  "contributionRef m = (tm_ref (mb_observation m), mb_index m)"

definition addServingGroup :: "fusionInput \<Rightarrow> measurementPlan \<Rightarrow> nat list \<Rightarrow> timedNrServingCellInfo
    \<Rightarrow> standaloneGroup list \<times> measurementRef list \<Rightarrow> standaloneGroup list \<times> measurementRef list" where
  "addServingGroup input plan usedServing servingCell = (\<lambda>(groups, used).
    (case nrStandaloneStateAt (fusionTimelines input) (tv_streamIndex servingCell) servingCell of
       None \<Rightarrow> (groups, used)
     | Some state \<Rightarrow>
         (let info = tv_info servingCell;
              observations = (case map_of (mp_byState plan) (tv_streamIndex servingCell, ss_epoch state) of Some os \<Rightarrow> os | None \<Rightarrow> []);
              measurement = matchingMeasurementForServing observations servingCell used
          in if tv_ref servingCell \<in> set usedServing \<or> nsc_version info \<noteq> 4 \<or>
               (matchableNci (nsc_cellIdentity info) = None \<and> validPci (of_int (nsc_physicalCellId info)) = None)
             then (groups, used)
             else (groups @ [\<lparr>sg_envelope = standaloneEnvelope input (tv_streamIndex servingCell) servingCell,
                     sg_point = nsgTimestamp.truncate servingCell, sg_state = state, sg_streamIndex = tv_streamIndex servingCell,
                     sg_cells = [\<lparr>sd_servingCell = Some servingCell, sd_measurement = measurement\<rparr>]\<rparr>],
                   (case measurement of None \<Rightarrow> used | Some m \<Rightarrow> contributionRef m # used)))))"

definition measurementGroup :: "fusionInput \<Rightarrow> measurementRef list \<Rightarrow> timedNrMeasurement \<Rightarrow> standaloneGroup option" where
  "measurementGroup input used observation =
    (case nrStandaloneStateAt (fusionTimelines input) (tm_streamIndex observation) observation of
       None \<Rightarrow> None
     | Some state \<Rightarrow>
         (let fresh = filter (\<lambda>placed. refOf observation placed \<notin> set used \<and> measurementPair (snd placed) \<noteq> None) (placedCells observation);
              definitions = map (\<lambda>placed. \<lparr>sd_servingCell = None, sd_measurement = Some (contribution observation placed)\<rparr>)
                (uniquePairs [] fresh)
          in if definitions = [] then None
             else Some \<lparr>sg_envelope = standaloneEnvelope input (tm_streamIndex observation) observation,
               sg_point = nsgTimestamp.truncate observation, sg_state = state, sg_streamIndex = tm_streamIndex observation,
               sg_cells = definitions\<rparr>))"

definition standaloneGroups :: "fusionInput \<Rightarrow> measurementPlan \<Rightarrow> fusionState \<Rightarrow> standaloneGroup list" where
  "standaloneGroups input plan s =
    (let (servingGroups, used) = fold (addServingGroup input plan (fs_usedServing s)) (fi_servingCellInfos input) ([], fs_usedMeasurements s);
         observations = concat (map snd (mp_byState plan))
     in sortBy (\<lambda>left right. of_int (compareTimeline (sg_point left) (sg_point right)))
          (servingGroups @ List.map_filter (measurementGroup input used) observations))"

definition standaloneGroupCells :: "int \<Rightarrow> standaloneGroup \<Rightarrow> nsgCell list" where
  "standaloneGroupCells eventIndex grp =
    map (\<lambda>(cellIndex, d). createStandaloneCell (sg_envelope grp) eventIndex (int cellIndex) (sg_state grp) (sd_servingCell d) (sd_measurement d))
      (enumerate 0 (sg_cells grp))"

section \<open>The result\<close>

record fusionResult =
  fr_cells :: "nsgCell list"
  fr_syntheticEvents :: "nsgEvent list"
  fr_remainingMeasurements :: "timedNrMeasurement list"

definition fuseAll :: "fusionInput \<Rightarrow> standaloneEventContext list \<Rightarrow> measurementPlan \<Rightarrow> fusionState" where
  "fuseAll input contexts plan =
    fold (fuseContext input contexts plan) contexts
      (fold (fuseSchedule (fi_cells input)) (map snd (mp_schedule plan)) noFusion)"

text \<open>Each cell, or what replaces it; after the last cell of an event come the cells added to it.\<close>

fun placeCells :: "fusionState \<Rightarrow> nat \<Rightarrow> nsgCell list \<Rightarrow> nsgCell list" where
  "placeCells s position [] = []"
| "placeCells s position (cell # cells) =
     (case map_of (fs_replacements s) position of Some c \<Rightarrow> c | None \<Rightarrow> cell) #
     (if list_ex (\<lambda>c. nc_eventIndex c = nc_eventIndex cell) cells then []
      else (case map_of (fs_derived s) (nc_eventIndex cell) of Some cs \<Rightarrow> cs | None \<Rightarrow> [])) @
     placeCells s (Suc position) cells"

definition fuseStandaloneCells :: "fusionInput \<Rightarrow> fusionResult" where
  "fuseStandaloneCells input =
    (let contexts = standaloneContexts input;
         plan = planMeasurements input contexts;
         s = fuseAll input contexts plan;
         groups = enumerate 0 (standaloneGroups input plan s);
         eventIndex = (\<lambda>k. int (length (fi_events input)) + int k);
         fused = placeCells s 0 (fi_cells input) @ concat (map (\<lambda>(k, grp). standaloneGroupCells (eventIndex k) grp) groups)
     in \<lparr>fr_cells = sortBy (\<lambda>left right. orNext (of_int (tp_recordOffset left) - of_int (tp_recordOffset right))
              (of_int (nc_cellIndex left) - of_int (nc_cellIndex right))) fused,
         fr_syntheticEvents = map (\<lambda>(k, grp). createSyntheticEvent (eventIndex k) grp) groups,
         fr_remainingMeasurements = mp_remaining plan\<rparr>)"

end
