(* ===== verification/NsgRecorder.thy ===== *)
theory NsgRecorder
  imports NsgFusion
begin

text \<open>
  The recording as it grows (internal/recordingBuilder.ts): the counters, events, cells, signaling messages
  and Qualcomm records, and the log that is made of them at the end. A failure is the text of the error.
\<close>

section \<open>Options and results\<close>

text \<open>\<open>decodedSize\<close> may be missing (\<open>None\<close>) or \<open>null\<close> (\<open>Some None\<close>).\<close>

record nsgSource =
  so_name :: string
  so_size :: number
  so_decodedSize :: "number option option"

record parseOptions =
  po_mode :: parseMode
  po_allowIncompleteFinalRecord :: bool
  po_onCell :: bool
  po_onEvent :: bool
  po_gnbidLength :: gnbidLengths

text \<open>The calls of the callbacks, where they are given.\<close>

datatype callback = CellCallback nsgCell | EventCallback nsgEvent

record signalingRecord = nsgTimestamp +
  sr_id :: int
  sr_streamIndex :: int
  sr_message :: signalingMessage

type_synonym 'k counts = "('k \<times> int) list"

record nsgLog =
  lg_sourceName :: string
  lg_sourceBytes :: number
  lg_headerXml :: string
  lg_startTimestampUs :: int
  lg_startTimestampMs :: int
  lg_endTimestampMs :: int
  lg_durationSeconds :: number
  lg_recordCount :: int
  lg_recordTypeCounts :: "int counts"
  lg_eventTypeCounts :: "string counts"
  lg_timeRegressions :: int
  lg_recognizedPayloadBytes :: int
  lg_servingCellCount :: int
  lg_signalingRecordCount :: int
  lg_signalingTruncated :: bool
  lg_inputTruncated :: bool
  lg_events :: "nsgEvent list"
  lg_cells :: "nsgCell list"
  lg_signaling :: "signalingRecord list"
  lg_locations :: "nsgLocation list"

section \<open>The state of the recording\<close>

definition MAX_RETAINED_SIGNALING_RECORDS :: int where "MAX_RETAINED_SIGNALING_RECORDS = 10000"
definition MAX_RETAINED_SIGNALING_PAYLOAD_BYTES :: int where "MAX_RETAINED_SIGNALING_PAYLOAD_BYTES = 16 * 1024 * 1024"

record recordContext =
  rx_recordOffset :: int
  rx_streamIndex :: int
  rx_elapsedUs :: int

record payloadCapture =
  pc_byteLength :: int
  pc_validationPrefix :: "diagPrefix option"

record recorder =
  rb_source :: nsgSource
  rb_options :: parseOptions
  rb_headerXml :: string
  rb_epochUs :: "int option"
  rb_maximumElapsedUs :: int
  rb_previousElapsedUs :: "int option"
  rb_recordCount :: int
  rb_eventCount :: int
  rb_cellCount :: int
  rb_timeRegressions :: int
  rb_recognizedPayloadBytes :: int
  rb_servingCellCount :: int
  rb_signalingRecordCount :: int
  rb_signalingPayloadBytes :: int
  rb_signalingTruncated :: bool
  rb_inputTruncated :: bool
  rb_finished :: bool
  rb_result :: "nsgLog option"
  rb_recordTypeCounts :: "int counts"
  rb_eventTypeCounts :: "string counts"
  rb_events :: "nsgEvent list"
  rb_cells :: "nsgCell list"
  rb_signaling :: "signalingRecord list"
  rb_locations :: "nsgLocation list"
  rb_lteAnchors :: "lteAnchor list"
  rb_lteServingCellInfos :: "timedLteServingCellInfo list"
  rb_defaultDataSubscriptions :: "defaultDataSubscriptionChange list"
  rb_nrMeasurements :: "timedNrMeasurement list"
  rb_nrConfigurations :: "timedNrConfigurationInfo list"
  rb_nrServingCellInfos :: "timedNrServingCellInfo list"
  rb_operators :: operatorState
  rb_callbacks :: "callback list"

definition newRecorder :: "nsgSource \<Rightarrow> parseOptions \<Rightarrow> recorder" where
  "newRecorder source options = \<lparr>rb_source = source, rb_options = options, rb_headerXml = [], rb_epochUs = None,
     rb_maximumElapsedUs = 0, rb_previousElapsedUs = None, rb_recordCount = 0, rb_eventCount = 0, rb_cellCount = 0,
     rb_timeRegressions = 0, rb_recognizedPayloadBytes = 0, rb_servingCellCount = 0, rb_signalingRecordCount = 0,
     rb_signalingPayloadBytes = 0, rb_signalingTruncated = False, rb_inputTruncated = False, rb_finished = False,
     rb_result = None, rb_recordTypeCounts = [], rb_eventTypeCounts = [], rb_events = [], rb_cells = [], rb_signaling = [],
     rb_locations = [], rb_lteAnchors = [], rb_lteServingCellInfos = [], rb_defaultDataSubscriptions = [],
     rb_nrMeasurements = [], rb_nrConfigurations = [], rb_nrServingCellInfos = [], rb_operators = newOperatorState,
     rb_callbacks = []\<rparr>"

definition modeOf :: "recorder \<Rightarrow> parseMode" where
  "modeOf r = po_mode (rb_options r)"

definition incrementCount :: "'k \<Rightarrow> 'k counts \<Rightarrow> 'k counts" where
  "incrementCount key counts = AList.update key ((case map_of counts key of Some n \<Rightarrow> n | None \<Rightarrow> 0) + 1) counts"

definition setHeaderXml :: "string \<Rightarrow> recorder \<Rightarrow> recorder" where
  "setHeaderXml headerXml r = r\<lparr>rb_headerXml := headerXml\<rparr>"

definition observeRecord :: "int \<Rightarrow> int \<Rightarrow> recorder \<Rightarrow> recorder" where
  "observeRecord elapsedUs recordType r = r\<lparr>
     rb_recordCount := rb_recordCount r + 1,
     rb_recordTypeCounts := incrementCount recordType (rb_recordTypeCounts r),
     rb_maximumElapsedUs := max (rb_maximumElapsedUs r) elapsedUs,
     rb_timeRegressions := rb_timeRegressions r +
       (case rb_previousElapsedUs r of Some previous \<Rightarrow> (if elapsedUs < previous then 1 else 0) | None \<Rightarrow> 0),
     rb_previousElapsedUs := Some elapsedUs\<rparr>"

definition markInputTruncated :: "recorder \<Rightarrow> recorder" where
  "markInputTruncated r = r\<lparr>rb_inputTruncated := True\<rparr>"

definition TIME_ANCHOR_MESSAGE :: string where "TIME_ANCHOR_MESSAGE = ''Unsupported NSG time anchor''"
definition ANCHOR_RANGE_MESSAGE :: string where "ANCHOR_RANGE_MESSAGE = ''NSG time anchor is outside the supported date range''"
definition EARLY_EVENT_MESSAGE :: string where "EARLY_EVENT_MESSAGE = ''Decoded NSG event precedes the time anchor''"
definition EVENT_RANGE_MESSAGE :: string where "EVENT_RANGE_MESSAGE = ''NSG event timestamp is outside the supported date range''"
definition NO_ANCHOR_MESSAGE :: string where "NO_ANCHOR_MESSAGE = ''No supported NSG time anchor found''"
definition RANGE_ERROR_MESSAGE :: string where "RANGE_ERROR_MESSAGE = ''RangeError''"

definition validateTimeAnchor :: "int \<Rightarrow> int \<Rightarrow> recorder \<Rightarrow> string option" where
  "validateTimeAnchor elapsedUs payloadLength r =
    (if rb_epochUs r \<noteq> None \<or> elapsedUs \<noteq> 0 \<or> payloadLength \<noteq> 8 then Some TIME_ANCHOR_MESSAGE else None)"

text \<open>\<open>new Date(ms)\<close> is valid up to a hundred million days from 1970.\<close>

definition isDate :: "int \<Rightarrow> bool" where
  "isDate ms \<longleftrightarrow> \<bar>ms\<bar> \<le> 8640000000000000"

definition setTimeAnchor :: "bytes \<Rightarrow> recorder \<Rightarrow> string + recorder" where
  "setTimeAnchor payload r =
    (case getBigUint64 payload 0 of
       None \<Rightarrow> Inl RANGE_ERROR_MESSAGE
     | Some epochUs \<Rightarrow>
         (if isDate (epochUs div 1000) then Inr (r\<lparr>rb_epochUs := Some epochUs\<rparr>) else Inl ANCHOR_RANGE_MESSAGE))"

definition selectQualcommPayloadCapture :: "recordPolicy option \<Rightarrow> diagPrefix \<Rightarrow> recorder \<Rightarrow> payloadCapture option" where
  "selectQualcommPayloadCapture policy prefix r =
    (case policy of
       None \<Rightarrow> None
     | Some p \<Rightarrow>
         (if modeOf r = StreamingMode then None
          else if rp_kind p = SignalingKind \<and>
            (rb_signalingTruncated r \<or> MAX_RETAINED_SIGNALING_RECORDS \<le> int (length (rb_signaling r)) \<or>
             MAX_RETAINED_SIGNALING_PAYLOAD_BYTES < rb_signalingPayloadBytes r + dp_packetLength prefix)
          then Some \<lparr>pc_byteLength = (case rp_validationPrefixBytes p of Some n \<Rightarrow> min (dp_packetLength prefix) n
                 | None \<Rightarrow> dp_packetLength prefix),
               pc_validationPrefix = Some prefix\<rparr>
          else Some \<lparr>pc_byteLength = dp_packetLength prefix, pc_validationPrefix = None\<rparr>))"

definition timestampAt :: "int \<Rightarrow> recordContext \<Rightarrow> recorder \<Rightarrow> string + nsgTimestamp" where
  "timestampAt elapsedUs ctx r =
    (case rb_epochUs r of
       None \<Rightarrow> Inl EARLY_EVENT_MESSAGE
     | Some epochUs \<Rightarrow>
         (let timestampUs = epochUs + elapsedUs; timestampMs = timestampUs div 1000
          in if isDate timestampMs
             then Inr \<lparr>tp_elapsedUs = elapsedUs, tp_recordOffset = rx_recordOffset ctx, ts_timestampUs = timestampUs,
               ts_timestampMs = timestampMs\<rparr>
             else Inl EVENT_RANGE_MESSAGE))"

section \<open>Qualcomm records\<close>

definition countTruncatedSignaling :: "bytes \<Rightarrow> diagPrefix \<Rightarrow> recorder \<Rightarrow> string + recorder" where
  "countTruncatedSignaling payloadPrefix prefix r =
    (case isValidQualcommSignalingEnvelope payloadPrefix prefix of
       None \<Rightarrow> Inl RANGE_ERROR_MESSAGE
     | Some valid \<Rightarrow>
         Inr (if valid then r\<lparr>rb_signalingRecordCount := rb_signalingRecordCount r + 1,
                rb_recognizedPayloadBytes := rb_recognizedPayloadBytes r + dp_packetLength prefix,
                rb_signalingTruncated := True\<rparr>
              else r))"

definition recognize :: "int \<Rightarrow> recorder \<Rightarrow> recorder" where
  "recognize packetLength r = r\<lparr>rb_recognizedPayloadBytes := rb_recognizedPayloadBytes r + packetLength\<rparr>"

definition keepNrMeasurement :: "nrMeasurement \<Rightarrow> recordContext \<Rightarrow> nsgTimestamp \<Rightarrow> recorder \<Rightarrow> recorder" where
  "keepNrMeasurement measurement ctx time r = r\<lparr>rb_nrMeasurements := rb_nrMeasurements r @
     [nsgTimestamp.extend time \<lparr>tm_ref = length (rb_nrMeasurements r), tm_streamIndex = rx_streamIndex ctx, tm_measurement = measurement\<rparr>]\<rparr>"

definition keepNrConfiguration :: "nrConfigurationInfo \<Rightarrow> recordContext \<Rightarrow> nsgTimestamp \<Rightarrow> recorder \<Rightarrow> recorder" where
  "keepNrConfiguration configuration ctx time r = r\<lparr>rb_nrConfigurations := rb_nrConfigurations r @
     [nsgTimestamp.extend time \<lparr>tc_streamIndex = rx_streamIndex ctx, tc_configuration = configuration\<rparr>]\<rparr>"

definition keepNrServingCell :: "nrServingCellInfo \<Rightarrow> recordContext \<Rightarrow> nsgTimestamp \<Rightarrow> recorder \<Rightarrow> recorder" where
  "keepNrServingCell info ctx time r = r\<lparr>rb_nrServingCellInfos := rb_nrServingCellInfos r @
     [nsgTimestamp.extend time \<lparr>tv_ref = length (rb_nrServingCellInfos r), tv_streamIndex = rx_streamIndex ctx, tv_info = info\<rparr>]\<rparr>"

definition keepLteServingCell :: "lteServingCellInfo \<Rightarrow> recordContext \<Rightarrow> recorder \<Rightarrow> recorder" where
  "keepLteServingCell info ctx r = r\<lparr>rb_lteServingCellInfos := rb_lteServingCellInfos r @
     [\<lparr>tl_streamIndex = rx_streamIndex ctx, tl_elapsedUs = rx_elapsedUs ctx, tl_cellIdentity = lsc_cellIdentity info,
       tl_earfcn = lsc_earfcn info\<rparr>]\<rparr>"

definition keepSignaling :: "signalingMessage \<Rightarrow> recordContext \<Rightarrow> nsgTimestamp \<Rightarrow> recorder \<Rightarrow> recorder" where
  "keepSignaling decoded ctx time r = r\<lparr>
     rb_signalingRecordCount := rb_signalingRecordCount r + 1,
     rb_signalingPayloadBytes := rb_signalingPayloadBytes r + sm_packetLength decoded,
     rb_signaling := rb_signaling r @
       [nsgTimestamp.extend time \<lparr>sr_id = rb_signalingRecordCount r, sr_streamIndex = rx_streamIndex ctx, sr_message = decoded\<rparr>]\<rparr>"

definition keepRecord :: "decodedRecord \<Rightarrow> recordContext \<Rightarrow> recorder \<Rightarrow> string + recorder" where
  "keepRecord decoded ctx r =
    (let recognized = recognize (dr_packetLength decoded) r;
         timed = (\<lambda>keep. case timestampAt (rx_elapsedUs ctx) ctx r of Inl message \<Rightarrow> Inl message | Inr time \<Rightarrow> Inr (keep time recognized))
     in if modeOf r = StreamingMode then Inr r
        else (case dr_value decoded of
            NrMeasurementRecord m \<Rightarrow> timed (keepNrMeasurement m ctx)
          | NrConfigurationRecord c \<Rightarrow> timed (keepNrConfiguration c ctx)
          | NrServingCellRecord i \<Rightarrow> timed (keepNrServingCell i ctx)
          | LteServingCellRecord i \<Rightarrow> Inr (keepLteServingCell i ctx recognized)
          | SignalingRecord m \<Rightarrow> timed (keepSignaling m ctx)))"

definition recordQualcommPayload :: "bytes \<Rightarrow> recordContext \<Rightarrow> diagPrefix option \<Rightarrow> recorder \<Rightarrow> string + recorder" where
  "recordQualcommPayload payload ctx validationPrefix r =
    (case validationPrefix of
       Some prefix \<Rightarrow> countTruncatedSignaling payload prefix r
     | None \<Rightarrow>
         (case decodeQualcommRecord payload None of
            None \<Rightarrow> Inl RANGE_ERROR_MESSAGE
          | Some None \<Rightarrow> Inr r
          | Some (Some decoded) \<Rightarrow> keepRecord decoded ctx r))"

section \<open>Android events\<close>

definition callCell :: "nsgCell \<Rightarrow> recorder \<Rightarrow> recorder" where
  "callCell cell r = (if po_onCell (rb_options r) then r\<lparr>rb_callbacks := rb_callbacks r @ [CellCallback cell]\<rparr> else r)"

definition callEvent :: "nsgEvent \<Rightarrow> recorder \<Rightarrow> recorder" where
  "callEvent event r = (if po_onEvent (rb_options r) then r\<lparr>rb_callbacks := rb_callbacks r @ [EventCallback event]\<rparr> else r)"

definition emitCell :: "nsgCell \<Rightarrow> recorder \<Rightarrow> recorder" where
  "emitCell cell r =
    (let counted = r\<lparr>rb_cellCount := rb_cellCount r + 1,
           rb_cells := (if modeOf r = CompleteMode then rb_cells r @ [cell] else rb_cells r),
           rb_servingCellCount := rb_servingCellCount r + (if nc_registered cell = Some True then 1 else 0)\<rparr>
     in if modeOf r = StreamingMode then callCell cell counted else counted)"

definition optionList :: "'a option \<Rightarrow> 'a list" where
  "optionList x = (case x of None \<Rightarrow> [] | Some a \<Rightarrow> [a])"

definition keepOutcome :: "eventOutcome \<Rightarrow> recorder \<Rightarrow> recorder" where
  "keepOutcome outcome r =
    (let emitted = fold emitCell (eo_cells outcome) r
     in callEvent (eo_event outcome) (emitted\<lparr>
          rb_events := (if modeOf r = CompleteMode then rb_events r @ [eo_event outcome] else rb_events r),
          rb_lteAnchors := rb_lteAnchors r @ optionList (eo_anchor outcome),
          rb_defaultDataSubscriptions := rb_defaultDataSubscriptions r @ optionList (eo_subscription outcome),
          rb_locations := rb_locations r @ optionList (eo_location outcome)\<rparr>))"

definition eventName :: "jsonObject \<Rightarrow> string" where
  "eventName data = (case field data ''event'' of Some (JStr name) \<Rightarrow> name | _ \<Rightarrow> ''<missing>'')"

definition recordEvent :: "bytes \<Rightarrow> int \<Rightarrow> recordContext \<Rightarrow> recorder \<Rightarrow> string + recorder" where
  "recordEvent payload marker ctx r =
    (case parsePayload payload of
       Inl message \<Rightarrow> Inl message
     | Inr data \<Rightarrow>
         (case timestampAt (rx_elapsedUs ctx) ctx r of
            Inl message \<Rightarrow> Inl message
          | Inr time \<Rightarrow>
              (let event = nsgTimestamp.extend time \<lparr>ev_id = rb_eventCount r, ev_name = eventName data, ev_marker = Some marker,
                     ev_streamIndex = rx_streamIndex ctx, ev_data = data\<rparr>;
                   counted = r\<lparr>rb_eventCount := rb_eventCount r + 1,
                     rb_recognizedPayloadBytes := rb_recognizedPayloadBytes r + int (length payload),
                     rb_eventTypeCounts := incrementCount (ev_name event) (rb_eventTypeCounts r)\<rparr>
               in case processEvent (po_gnbidLength (rb_options r)) (modeOf r) event (rb_operators r) of
                  Inl message \<Rightarrow> Inl message
                | Inr (operators, outcome) \<Rightarrow> Inr (keepOutcome outcome (counted\<lparr>rb_operators := operators\<rparr>)))))"

section \<open>Progress\<close>

record nsgProgress =
  pg_bytesRead :: number
  pg_totalBytes :: number
  pg_percent :: number
  pg_recordCount :: int
  pg_eventCount :: int
  pg_cellCount :: int

definition progressOf :: "number option \<Rightarrow> int \<Rightarrow> recorder \<Rightarrow> nsgProgress" where
  "progressOf inputBytesRead offset r =
    (let size = so_size (rb_source r);
         pendingLimit = min (max 0 (size - 1)) (of_int \<lfloor>size * 99 / 100\<rfloor>);
         bytesRead = (if rb_finished r then size
           else min (case inputBytesRead of Some n \<Rightarrow> n | None \<Rightarrow> of_int offset) pendingLimit)
     in \<lparr>pg_bytesRead = bytesRead, pg_totalBytes = size, pg_percent = (if size = 0 then 0 else bytesRead / size * 100),
         pg_recordCount = rb_recordCount r, pg_eventCount = rb_eventCount r, pg_cellCount = rb_cellCount r\<rparr>)"

section \<open>The end of the recording\<close>

definition fusionInputOf :: "recorder \<Rightarrow> fusionInput" where
  "fusionInputOf r = \<lparr>fi_cells = rb_cells r, fi_events = rb_events r, fi_configurations = rb_nrConfigurations r,
     fi_servingCellInfos = rb_nrServingCellInfos r, fi_measurements = rb_nrMeasurements r, fi_lteAnchors = rb_lteAnchors r,
     fi_lteServingCellInfos = rb_lteServingCellInfos r, fi_defaultDataSubscriptions = rb_defaultDataSubscriptions r\<rparr>"

definition shouldFuseNrStandalone :: "recorder \<Rightarrow> bool" where
  "shouldFuseNrStandalone r \<longleftrightarrow>
    list_ex (\<lambda>c. isConnectedQualcommNrStandalone (tc_configuration c)) (rb_nrConfigurations r) \<or>
    (rb_nrMeasurements r \<noteq> [] \<and> list_ex (\<lambda>c. nc_rat c = ''NR'' \<and> nc_nrMode c = Some SaMode) (rb_cells r))"

definition addSyntheticEvent :: "nsgEvent \<Rightarrow> recorder \<Rightarrow> recorder" where
  "addSyntheticEvent event r =
    callEvent event (r\<lparr>rb_events := rb_events r @ [event], rb_eventCount := rb_eventCount r + 1,
      rb_eventTypeCounts := incrementCount (ev_name event) (rb_eventTypeCounts r)\<rparr>)"

text \<open>
  The LTE cell that NR measurements are attached to is changed in place: in the list of the cells and, since
  they share the raw object, in the data of its event.
\<close>

definition SECONDARY_ROLE :: json where "SECONDARY_ROLE = JStr ''lte-secondary''"

definition isAnchorOf :: "nsgCell list \<Rightarrow> nsgCell \<Rightarrow> bool" where
  "isAnchorOf anchors cell \<longleftrightarrow>
    nc_rat cell = ''LTE'' \<and> list_ex (\<lambda>a. nc_eventIndex a = nc_eventIndex cell \<and> nc_cellIndex a = nc_cellIndex cell) anchors"

definition markAnchorCell :: "nsgCell list \<Rightarrow> nsgCell \<Rightarrow> nsgCell" where
  "markAnchorCell anchors cell =
    (if isAnchorOf anchors cell
     then cell\<lparr>nc_measurementRole := Some LteSecondary, nc_raw := setField ''measurementRole'' SECONDARY_ROLE (nc_raw cell)\<rparr>
     else cell)"

definition markRawCell :: "nsgCell list \<Rightarrow> int \<Rightarrow> nat \<times> json \<Rightarrow> json" where
  "markRawCell anchors eventIndex = (\<lambda>(k, item).
    (case item of
       JObj raw \<Rightarrow>
         (if list_ex (\<lambda>a. nc_eventIndex a = eventIndex \<and> nc_cellIndex a = int k) anchors
          then JObj (setField ''measurementRole'' SECONDARY_ROLE raw) else item)
     | _ \<Rightarrow> item))"

definition markAnchorEvent :: "nsgCell list \<Rightarrow> nsgEvent \<Rightarrow> nsgEvent" where
  "markAnchorEvent anchors event =
    (case field (ev_data event) ''cells'' of
       Some (JArr items) \<Rightarrow>
         (if list_ex (\<lambda>a. nc_eventIndex a = ev_id event) anchors
          then event\<lparr>ev_data := setField ''cells'' (JArr (map (markRawCell anchors (ev_id event)) (enumerate 0 items))) (ev_data event)\<rparr>
          else event)
     | _ \<Rightarrow> event)"

definition associateCells :: "recorder \<Rightarrow> fusionResult \<Rightarrow> recorder" where
  "associateCells r fused =
    (let serving = filter (\<lambda>o'. list_ex mc_serving (nm_cells (tm_measurement o'))) (fr_remainingMeasurements fused);
         associations = associateNonStandalone (rb_lteAnchors r) serving (rb_lteServingCellInfos r) (rb_defaultDataSubscriptions r);
         anchors = map na_anchor associations;
         cells = mergeNonStandalone (map (markAnchorCell anchors) (fr_cells fused)) associations
     in r\<lparr>rb_cells := cells, rb_events := map (markAnchorEvent anchors) (rb_events r),
          rb_cellCount := int (length cells),
          rb_servingCellCount := int (length (filter (\<lambda>c. nc_registered c = Some True) cells)),
          rb_lteAnchors := [], rb_lteServingCellInfos := [], rb_defaultDataSubscriptions := [], rb_nrMeasurements := [],
          rb_nrConfigurations := [], rb_nrServingCellInfos := []\<rparr>)"

definition emitAssociatedNrCells :: "recorder \<Rightarrow> recorder" where
  "emitAssociatedNrCells r =
    (let fused = (if shouldFuseNrStandalone r then fuseStandaloneCells (fusionInputOf r)
           else \<lparr>fr_cells = rb_cells r, fr_syntheticEvents = [], fr_remainingMeasurements = rb_nrMeasurements r\<rparr>)
     in if modeOf r = StreamingMode then r
        else associateCells (fold addSyntheticEvent (fr_syntheticEvents fused) r) fused)"

definition logOf :: "recorder \<Rightarrow> int \<Rightarrow> int \<Rightarrow> nsgLog" where
  "logOf r epochUs endMs = \<lparr>lg_sourceName = so_name (rb_source r), lg_sourceBytes = so_size (rb_source r),
     lg_headerXml = rb_headerXml r, lg_startTimestampUs = epochUs, lg_startTimestampMs = epochUs div 1000,
     lg_endTimestampMs = endMs, lg_durationSeconds = of_int (rb_maximumElapsedUs r) / 1000000,
     lg_recordCount = rb_recordCount r, lg_recordTypeCounts = rb_recordTypeCounts r,
     lg_eventTypeCounts = rb_eventTypeCounts r, lg_timeRegressions = rb_timeRegressions r,
     lg_recognizedPayloadBytes = rb_recognizedPayloadBytes r, lg_servingCellCount = rb_servingCellCount r,
     lg_signalingRecordCount = rb_signalingRecordCount r, lg_signalingTruncated = rb_signalingTruncated r,
     lg_inputTruncated = rb_inputTruncated r, lg_events = rb_events r, lg_cells = rb_cells r,
     lg_signaling = rb_signaling r, lg_locations = rb_locations r\<rparr>"

definition noContext :: recordContext where
  "noContext = \<lparr>rx_recordOffset = 0, rx_streamIndex = 0, rx_elapsedUs = 0\<rparr>"

definition emitRetainedCellCallbacks :: "recorder \<Rightarrow> recorder" where
  "emitRetainedCellCallbacks r = (if modeOf r = StreamingMode then r else fold callCell (rb_cells r) r)"

definition finishRecording :: "recorder \<Rightarrow> string + (nsgLog \<times> recorder)" where
  "finishRecording r =
    (case rb_result r of
       Some known \<Rightarrow> Inr (known, r)
     | None \<Rightarrow>
         (case rb_epochUs r of
            None \<Rightarrow> Inl NO_ANCHOR_MESSAGE
          | Some epochUs \<Rightarrow>
              (let associated = emitAssociatedNrCells r
               in case timestampAt (rb_maximumElapsedUs r) noContext r of
                  Inl message \<Rightarrow> Inl message
                | Inr stop \<Rightarrow>
                    (let result = logOf associated epochUs (ts_timestampMs stop)
                     in Inr (result, emitRetainedCellCallbacks (associated\<lparr>rb_finished := True, rb_result := Some result\<rparr>))))))"

end
