(* ===== verification/NsgStream.thy ===== *)
theory NsgStream
  imports NsgRecorder
begin

text \<open>
  The decoder of a recording that arrives in chunks (internal/streamDecoder.ts): a state machine over the
  bytes, which cuts them into records. An error is its text and the offset it is raised at. The loop over a
  chunk gives \<open>None\<close> where it would not end.
\<close>

section \<open>The state\<close>

type_synonym failure = "string \<times> int"

definition NSG_MAGIC :: bytes where "NSG_MAGIC = [0x21, 0x4E, 0x53, 0x47]"
definition GZIP_MAGIC :: bytes where "GZIP_MAGIC = [0x1F, 0x8B]"
definition MAX_HEADER_BYTES :: int where "MAX_HEADER_BYTES = 1024 * 1024"
definition MAX_JSON_BYTES :: int where "MAX_JSON_BYTES = 16 * 1024 * 1024"

datatype phase = PhMagic | PhXmlLength | PhXml | PhHeader | PhPrefix | PhQualcommPrefix | PhPayload | PhTruncatedTail

text \<open>A buffer: its size and the bytes written so far; the others are zero.\<close>

record buffer =
  bf_size :: int
  bf_bytes :: bytes

record decoderState =
  dc_phase :: phase
  dc_offset :: int
  dc_varintValue :: int
  dc_varintFactor :: int
  dc_varintBytes :: int
  dc_frame :: "int list"
  dc_frameOffset :: int
  dc_remaining :: int
  dc_payload :: "buffer option"
  dc_qualcommPrefix :: bytes
  dc_signalingValidationPrefix :: "diagPrefix option"
  dc_marker :: "int option"
  dc_expectedDecodedSize :: "int option"
  dc_allowIncompleteFinalRecord :: bool
  dc_recording :: recorder

definition newBuffer :: "int \<Rightarrow> buffer" where
  "newBuffer size' = \<lparr>bf_size = size', bf_bytes = []\<rparr>"

definition bufferBytes :: "buffer \<Rightarrow> bytes" where
  "bufferBytes b = bf_bytes b @ replicate (nat (bf_size b) - length (bf_bytes b)) 0"

definition writeBuffer :: "bytes \<Rightarrow> buffer \<Rightarrow> buffer" where
  "writeBuffer bs b = b\<lparr>bf_bytes := bf_bytes b @ take (nat (bf_size b) - length (bf_bytes b)) bs\<rparr>"

section \<open>The constructor\<close>

definition SIZE_MESSAGE :: string where "SIZE_MESSAGE = ''Invalid NSG file size.''"
definition DECODED_SIZE_MESSAGE :: string where "DECODED_SIZE_MESSAGE = ''Invalid decoded NSG file size.''"

definition isSize :: "number \<Rightarrow> bool" where
  "isSize n \<longleftrightarrow> isSafeInt n \<and> 0 \<le> n"

definition expectedDecodedSize :: "nsgSource \<Rightarrow> number option" where
  "expectedDecodedSize source = (case so_decodedSize source of None \<Rightarrow> Some (so_size source) | Some d \<Rightarrow> d)"

definition newDecoder :: "nsgSource \<Rightarrow> parseOptions \<Rightarrow> string + decoderState" where
  "newDecoder source options =
    (let expected = expectedDecodedSize source
     in if \<not> isSize (so_size source) then Inl SIZE_MESSAGE
        else if (case expected of Some n \<Rightarrow> \<not> isSize n | None \<Rightarrow> False) then Inl DECODED_SIZE_MESSAGE
        else Inr \<lparr>dc_phase = PhMagic, dc_offset = 0, dc_varintValue = 0, dc_varintFactor = 1, dc_varintBytes = 0, dc_frame = [],
          dc_frameOffset = 0, dc_remaining = 0, dc_payload = None, dc_qualcommPrefix = [], dc_signalingValidationPrefix = None,
          dc_marker = None, dc_expectedDecodedSize = map_option floor expected,
          dc_allowIncompleteFinalRecord = po_allowIncompleteFinalRecord options, dc_recording = newRecorder source options\<rparr>)"

definition fail :: "string \<Rightarrow> decoderState \<Rightarrow> failure + 'a" where
  "fail message s = Inl (message, dc_offset s)"

text \<open>The recording raises its errors through the decoder, which adds its offset.\<close>

definition recorded :: "decoderState \<Rightarrow> string + recorder \<Rightarrow> failure + decoderState" where
  "recorded s result = (case result of Inl message \<Rightarrow> fail message s | Inr r \<Rightarrow> Inr (s\<lparr>dc_recording := r\<rparr>))"

definition bindResult :: "failure + 'a \<Rightarrow> ('a \<Rightarrow> failure + 'b) \<Rightarrow> failure + 'b" where
  "bindResult result f = (case result of Inl e \<Rightarrow> Inl e | Inr x \<Rightarrow> f x)"

definition exceeds :: "int \<Rightarrow> decoderState \<Rightarrow> bool" where
  "exceeds n s \<longleftrightarrow> (case dc_expectedDecodedSize s of Some expected \<Rightarrow> expected - dc_offset s < n | None \<Rightarrow> False)"

section \<open>Records\<close>

definition contextOfRecord :: "decoderState \<Rightarrow> recordContext" where
  "contextOfRecord s = \<lparr>rx_recordOffset = dc_frameOffset s, rx_streamIndex = dc_frame s ! 1, rx_elapsedUs = dc_frame s ! 2\<rparr>"

definition storePayload :: "decoderState \<Rightarrow> failure + decoderState" where
  "storePayload s =
    (let recordType = dc_frame s ! 3; r = dc_recording s
     in case dc_payload s of
        None \<Rightarrow> (if recordType = 0 then fail RANGE_ERROR_MESSAGE s else Inr s)
      | Some b \<Rightarrow>
          (if recordType = 0 then recorded s (setTimeAnchor (bufferBytes b) r)
           else if recordType = 16
             then recorded s (recordQualcommPayload (bufferBytes b) (contextOfRecord s) (dc_signalingValidationPrefix s) r)
           else (case dc_marker s of
               None \<Rightarrow> Inr s
             | Some marker \<Rightarrow> recorded s (recordEvent (bufferBytes b) marker (contextOfRecord s) r))))"

definition completePayload :: "decoderState \<Rightarrow> failure + decoderState" where
  "completePayload s =
    bindResult (storePayload (s\<lparr>dc_recording := observeRecord (dc_frame s ! 2) (dc_frame s ! 3) (dc_recording s)\<rparr>))
      (\<lambda>s. Inr (s\<lparr>dc_payload := None, dc_frame := [], dc_phase := PhHeader, dc_frameOffset := dc_offset s\<rparr>))"

definition TRUNCATED_PAYLOAD_MESSAGE :: string where "TRUNCATED_PAYLOAD_MESSAGE = ''Truncated NSG record payload''"

text \<open>The phase a payload of a record begins with, and its buffer.\<close>

definition openPayload :: "int \<Rightarrow> int \<Rightarrow> decoderState \<Rightarrow> decoderState" where
  "openPayload recordType len s =
    (let opened = s\<lparr>dc_remaining := len, dc_payload := None, dc_signalingValidationPrefix := None, dc_marker := None,
           dc_phase := PhPayload\<rparr>
     in if recordType = 0 then opened\<lparr>dc_payload := Some (newBuffer 8)\<rparr>
        else if recordType = 53 \<and> 0 < len then opened\<lparr>dc_phase := PhPrefix\<rparr>
        else if recordType = 16 \<and> QUALCOMM_DIAG_PREFIX_BYTES \<le> len then opened\<lparr>dc_qualcommPrefix := [], dc_phase := PhQualcommPrefix\<rparr>
        else opened)"

definition beginPayload :: "decoderState \<Rightarrow> failure + decoderState" where
  "beginPayload s =
    (let elapsedUs = dc_frame s ! 2; recordType = dc_frame s ! 3; len = dc_frame s ! 5;
         invalid = (if recordType = 0 then validateTimeAnchor elapsedUs len (dc_recording s) else None)
     in case invalid of
        Some message \<Rightarrow> fail message s
      | None \<Rightarrow>
          (if exceeds len s
           then (if \<not> dc_allowIncompleteFinalRecord s then fail TRUNCATED_PAYLOAD_MESSAGE s
             else Inr (s\<lparr>dc_remaining := the (dc_expectedDecodedSize s) - dc_offset s, dc_phase := PhTruncatedTail,
               dc_recording := markInputTruncated (dc_recording s), dc_frame := []\<rparr>))
           else if len = 0 then completePayload (openPayload recordType len s)
           else Inr (openPayload recordType len s)))"

section \<open>One byte\<close>

definition MAGIC_MESSAGE :: string where
  "MAGIC_MESSAGE = ''Expected an NSG !NSG log; CLF, DLF and QMDL are not supported here''"
definition UNSAFE_INTEGER_MESSAGE :: string where "UNSAFE_INTEGER_MESSAGE = ''Unsupported NSG integer larger than the safe integer range''"
definition UNTERMINATED_MESSAGE :: string where "UNTERMINATED_MESSAGE = ''Unterminated NSG ULEB128 integer''"
definition XML_LENGTH_MESSAGE :: string where "XML_LENGTH_MESSAGE = ''Invalid or unsupported NSG XML header length''"
definition JSON_SIZE_MESSAGE :: string where "JSON_SIZE_MESSAGE = ''A decoded NSG event exceeds the 16 MiB limit''"
definition DIAG_PREFIX_MESSAGE :: string where "DIAG_PREFIX_MESSAGE = ''Invalid Qualcomm DIAG prefix''"
definition XML_TEXT_MESSAGE :: string where "XML_TEXT_MESSAGE = ''Invalid UTF-8 in the NSG XML header''"

definition advance :: "int \<Rightarrow> decoderState \<Rightarrow> decoderState" where
  "advance n s = s\<lparr>dc_offset := dc_offset s + n\<rparr>"

definition consume :: "int \<Rightarrow> decoderState \<Rightarrow> decoderState" where
  "consume n s = s\<lparr>dc_offset := dc_offset s + n, dc_remaining := dc_remaining s - n\<rparr>"

definition readMagic :: "8 word \<Rightarrow> decoderState \<Rightarrow> failure + decoderState" where
  "readMagic byte s =
    (let matches = (byte = NSG_MAGIC ! nat (dc_offset s)); next = advance 1 s
     in if \<not> matches then fail MAGIC_MESSAGE next
        else Inr (if dc_offset next = int (length NSG_MAGIC) then next\<lparr>dc_phase := PhXmlLength\<rparr> else next))"

definition endVarint :: "int \<Rightarrow> decoderState \<Rightarrow> failure + decoderState" where
  "endVarint v s =
    (if dc_phase s = PhXmlLength
     then (if v = 0 \<or> MAX_HEADER_BYTES < v \<or> exceeds v s then fail XML_LENGTH_MESSAGE s
       else Inr (s\<lparr>dc_payload := Some (newBuffer v), dc_remaining := v, dc_phase := PhXml\<rparr>))
     else (let framed = s\<lparr>dc_frame := dc_frame s @ [v]\<rparr>
       in if length (dc_frame framed) = 6 then beginPayload framed else Inr framed))"

definition readVarint :: "8 word \<Rightarrow> decoderState \<Rightarrow> failure + decoderState" where
  "readVarint byte s =
    (let read = (advance 1 s)\<lparr>dc_varintBytes := dc_varintBytes s + 1,
           dc_varintValue := dc_varintValue s + lowBits 7 (uint byte) * dc_varintFactor s\<rparr>
     in if MAX_SAFE < dc_varintValue read \<or> 10 < dc_varintBytes read then fail UNSAFE_INTEGER_MESSAGE read
        else if 0x80 \<le> uint byte
        then (if dc_varintBytes read = 10 then fail UNTERMINATED_MESSAGE read
          else Inr (read\<lparr>dc_varintFactor := dc_varintFactor s * 128\<rparr>))
        else endVarint (dc_varintValue read) (read\<lparr>dc_varintValue := 0, dc_varintFactor := 1, dc_varintBytes := 0\<rparr>))"

definition readMarker :: "8 word \<Rightarrow> decoderState \<Rightarrow> failure + decoderState" where
  "readMarker byte s =
    (let marked = (consume 1 s)\<lparr>dc_marker := Some (uint byte)\<rparr>;
         isEvent = (0x40 \<le> uint byte \<and> uint byte \<le> 0x44);
         opened = (if isEvent then marked\<lparr>dc_payload := Some (newBuffer (dc_remaining marked))\<rparr> else marked);
         next = opened\<lparr>dc_phase := PhPayload\<rparr>
     in if isEvent \<and> MAX_JSON_BYTES < dc_remaining marked then fail JSON_SIZE_MESSAGE marked
        else if dc_remaining next = 0 then completePayload next
        else Inr next)"

definition endQualcommPrefix :: "decoderState \<Rightarrow> failure + decoderState" where
  "endQualcommPrefix s =
    (let payloadLength = dc_remaining s + QUALCOMM_DIAG_PREFIX_BYTES
     in case readDiagPrefix (dc_qualcommPrefix s) of
        Some (Some prefix) \<Rightarrow>
          (let opened = (case selectQualcommPayloadCapture (classifyQualcommRecord prefix payloadLength) prefix (dc_recording s) of
                 None \<Rightarrow> s
               | Some capture \<Rightarrow> s\<lparr>dc_payload := Some (writeBuffer (dc_qualcommPrefix s) (newBuffer (pc_byteLength capture))),
                   dc_signalingValidationPrefix := pc_validationPrefix capture\<rparr>);
               next = opened\<lparr>dc_phase := PhPayload\<rparr>
           in if dc_remaining next = 0 then completePayload next else Inr next)
      | _ \<Rightarrow> fail DIAG_PREFIX_MESSAGE s)"

definition endXml :: "decoderState \<Rightarrow> failure + decoderState" where
  "endXml s =
    (case decodeUtf8 (case dc_payload s of Some b \<Rightarrow> bufferBytes b | None \<Rightarrow> []) of
       None \<Rightarrow> fail XML_TEXT_MESSAGE s
     | Some header \<Rightarrow> Inr (s\<lparr>dc_recording := setHeaderXml header (dc_recording s), dc_payload := None, dc_phase := PhHeader,
         dc_frameOffset := dc_offset s\<rparr>))"

definition endPayload :: "decoderState \<Rightarrow> failure + decoderState" where
  "endPayload s = (if 0 < dc_remaining s then Inr s else if dc_phase s = PhXml then endXml s else completePayload s)"

section \<open>A chunk\<close>

text \<open>
  One round of the loop: the bytes it takes off the chunk, and what comes of them. Payloads are copied in bulk.
\<close>

definition roundLength :: "bytes \<Rightarrow> decoderState \<Rightarrow> int" where
  "roundLength chunk s =
    (case dc_phase s of
       PhQualcommPrefix \<Rightarrow>
         min (min (dc_remaining s) (QUALCOMM_DIAG_PREFIX_BYTES - int (length (dc_qualcommPrefix s)))) (int (length chunk))
     | PhTruncatedTail \<Rightarrow> min (dc_remaining s) (int (length chunk))
     | PhXml \<Rightarrow> min (dc_remaining s) (int (length chunk))
     | PhPayload \<Rightarrow> min (dc_remaining s) (int (length chunk))
     | _ \<Rightarrow> 1)"

definition pushRound :: "bytes \<Rightarrow> decoderState \<Rightarrow> failure + decoderState" where
  "pushRound bytes' s =
    (let n = int (length bytes')
     in case dc_phase s of
        PhMagic \<Rightarrow> readMagic (hd bytes') s
      | PhXmlLength \<Rightarrow> readVarint (hd bytes') s
      | PhHeader \<Rightarrow> readVarint (hd bytes') s
      | PhPrefix \<Rightarrow> readMarker (hd bytes') s
      | PhQualcommPrefix \<Rightarrow>
          (let next = consume n (s\<lparr>dc_qualcommPrefix := dc_qualcommPrefix s @ bytes'\<rparr>)
           in if int (length (dc_qualcommPrefix next)) < QUALCOMM_DIAG_PREFIX_BYTES then Inr next else endQualcommPrefix next)
      | PhTruncatedTail \<Rightarrow> Inr (consume n s)
      | _ \<Rightarrow> endPayload (consume n (s\<lparr>dc_payload := map_option (writeBuffer bytes') (dc_payload s)\<rparr>)))"

partial_function (option) pushLoop :: "bytes \<Rightarrow> decoderState \<Rightarrow> (failure + decoderState) option" where
  "pushLoop chunk s =
    (if chunk = [] then Some (Inr s)
     else (case pushRound (take (nat (roundLength chunk s)) chunk) s of
         Inl e \<Rightarrow> Some (Inl e)
       | Inr next \<Rightarrow> pushLoop (drop (nat (roundLength chunk s)) chunk) next))"

definition FINISHED_MESSAGE :: string where "FINISHED_MESSAGE = ''Cannot append to a finished NSG log''"
definition OVERFLOW_MESSAGE :: string where "OVERFLOW_MESSAGE = ''NSG stream exceeds the declared file size''"

definition push :: "bytes \<Rightarrow> decoderState \<Rightarrow> (failure + decoderState) option" where
  "push chunk s =
    (if rb_finished (dc_recording s) then Some (fail FINISHED_MESSAGE s)
     else if exceeds (int (length chunk)) s then Some (fail OVERFLOW_MESSAGE s)
     else pushLoop chunk s)"

section \<open>The end\<close>

definition hasIncompleteFinalRecord :: "decoderState \<Rightarrow> bool" where
  "hasIncompleteFinalRecord s \<longleftrightarrow>
    (if dc_expectedDecodedSize s \<noteq> None \<and> dc_expectedDecodedSize s \<noteq> Some (dc_offset s) then False
     else if dc_phase s = PhHeader then dc_frame s \<noteq> [] \<or> 0 < dc_varintBytes s
     else dc_expectedDecodedSize s = None \<and> length (dc_frame s) = 6 \<and> dc_phase s \<in> {PhPrefix, PhQualcommPrefix, PhPayload})"

definition discardIncompleteFinalRecord :: "decoderState \<Rightarrow> decoderState" where
  "discardIncompleteFinalRecord s = s\<lparr>dc_recording := markInputTruncated (dc_recording s), dc_payload := None, dc_frame := [],
     dc_varintValue := 0, dc_varintFactor := 1, dc_varintBytes := 0, dc_remaining := 0, dc_phase := PhHeader\<rparr>"

definition TRUNCATED_LOG_MESSAGE :: string where "TRUNCATED_LOG_MESSAGE = ''Truncated NSG log''"

definition finish :: "decoderState \<Rightarrow> failure + (nsgLog \<times> decoderState)" where
  "finish s =
    (let kept = (if dc_allowIncompleteFinalRecord s \<and> hasIncompleteFinalRecord s then discardIncompleteFinalRecord s else s);
         current = (if rb_finished (dc_recording s) then s else kept);
         incomplete = ((dc_expectedDecodedSize kept \<noteq> None \<and> dc_expectedDecodedSize kept \<noteq> Some (dc_offset kept)) \<or>
           (dc_phase kept \<noteq> PhHeader \<and> dc_phase kept \<noteq> PhTruncatedTail) \<or> dc_frame kept \<noteq> [] \<or> dc_varintBytes kept \<noteq> 0)
     in if \<not> rb_finished (dc_recording s) \<and> incomplete then fail TRUNCATED_LOG_MESSAGE kept
        else (case finishRecording (dc_recording current) of
            Inl message \<Rightarrow> fail message current
          | Inr (result, r) \<Rightarrow> Inr (result, current\<lparr>dc_recording := r\<rparr>)))"

definition decoderProgress :: "number option \<Rightarrow> decoderState \<Rightarrow> nsgProgress" where
  "decoderProgress inputBytesRead s = progressOf inputBytesRead (dc_offset s) (dc_recording s)"

section \<open>fileHeader.ts\<close>

definition hasMagic :: "bytes \<Rightarrow> bytes \<Rightarrow> bool" where
  "hasMagic header magic \<longleftrightarrow> take (length magic) header = magic"

definition isGzipHeader :: "bytes \<Rightarrow> bool" where
  "isGzipHeader header \<longleftrightarrow> hasMagic header GZIP_MAGIC"

definition isNsgFileHeader :: "bytes \<Rightarrow> bool" where
  "isNsgFileHeader header \<longleftrightarrow> hasMagic header NSG_MAGIC \<or> isGzipHeader header"

end
