(* ===== verification/NsgRecordTheorems.thy ===== *)
theory NsgRecordTheorems
  imports NsgSignaling
begin

text \<open>
  What the record decoders promise: no payload makes them throw, the bytes after a packet do not
  matter, the cells of a measurement fit into its packet, and the quick check of a signaling envelope
  agrees with the decoder.
\<close>

section \<open>No read leaves the packet\<close>

lemma returns_map [returns]: "m \<noteq> None \<Longrightarrow> map_option f m \<noteq> None"
  by simp

lemma returns_case [returns]:
  "(m = None \<Longrightarrow> a \<noteq> None) \<Longrightarrow> (\<And>x. m = Some x \<Longrightarrow> f x \<noteq> None) \<Longrightarrow> (case m of None \<Rightarrow> a | Some x \<Rightarrow> f x) \<noteq> None"
  by (cases m) auto

lemma returns_case_prod [returns]: "(\<And>x y. p = (x, y) \<Longrightarrow> f x y \<noteq> None) \<Longrightarrow> (case p of (x, y) \<Rightarrow> f x y) \<noteq> None"
  by (cases p) auto

lemma returns_let [returns]: "(\<And>x. x = v \<Longrightarrow> f x \<noteq> None) \<Longrightarrow> (let x = v in f x) \<noteq> None"
  by simp

text \<open>A header whose view is the packet.\<close>

definition headerOk :: "diagHeader \<Rightarrow> bool" where
  "headerOk h \<longleftrightarrow> int (length (dh_view h)) = dp_packetLength h"

lemma readDiagPrefix_returns [returns]: "readDiagPrefix payload \<noteq> None"
  unfolding readDiagPrefix_def QUALCOMM_DIAG_PREFIX_BYTES_def
  by (intro returns) (simp_all add: inRange_def)

lemma readDiagPrefix_nonneg: "readDiagPrefix payload = Some (Some p) \<Longrightarrow> 0 \<le> dp_packetLength p"
  by (auto simp: readDiagPrefix_def bind_eq_Some_conv split: if_splits dest!: getUint16_bounds)

lemma readDiagHeader_returns [returns]: "readDiagHeader payload maximumBytes parsedPrefix \<noteq> None"
  unfolding readDiagHeader_def by (intro returns)

lemma readDiagHeader_ok:
  assumes "readDiagHeader payload maximumBytes parsedPrefix = Some (Some h)"
  shows "headerOk h" "QUALCOMM_DIAG_HEADER_BYTES \<le> dp_packetLength h" "dp_packetLength h \<le> maximumBytes"
    "dp_packetLength h \<le> int (length payload)" "dh_view h = take (nat (dp_packetLength h)) payload"
    "\<And>p. parsedPrefix = Some p \<Longrightarrow> dp_packetLength h = dp_packetLength p \<and> dp_logCode h = dp_logCode p"
proof -
  obtain encoded where encoded: "readDiagPrefix payload = Some (Some encoded)"
  proof (cases "readDiagPrefix payload")
    case (Some prefix)
    then show ?thesis using assms that by (cases prefix) (simp_all add: readDiagHeader_def split: if_splits)
  qed (use assms in \<open>simp add: readDiagHeader_def split: if_splits\<close>)
  let ?p = "case parsedPrefix of Some p \<Rightarrow> p | None \<Rightarrow> encoded"
  have "h = \<lparr>dp_packetLength = dp_packetLength ?p, dp_logCode = dp_logCode ?p, dh_view = take (nat (dp_packetLength ?p)) payload\<rparr>"
    "QUALCOMM_DIAG_HEADER_BYTES \<le> dp_packetLength ?p" "dp_packetLength ?p \<le> maximumBytes"
    "dp_packetLength ?p \<le> int (length payload)"
    using assms by (auto simp: readDiagHeader_def encoded Let_def split: if_splits)
  then show "headerOk h" "QUALCOMM_DIAG_HEADER_BYTES \<le> dp_packetLength h" "dp_packetLength h \<le> maximumBytes"
    "dp_packetLength h \<le> int (length payload)" "dh_view h = take (nat (dp_packetLength h)) payload"
    "\<And>p. parsedPrefix = Some p \<Longrightarrow> dp_packetLength h = dp_packetLength p \<and> dp_logCode h = dp_logCode p"
    by (simp_all add: headerOk_def QUALCOMM_DIAG_HEADER_BYTES_def)
qed

lemma headerOr_returns [returns]: "headerOr parsedHeader payload maximumBytes \<noteq> None"
  unfolding headerOr_def by (intro returns)

lemma headerOr_ok: "headerOr parsedHeader payload maximumBytes = Some (Some h) \<Longrightarrow>
    (\<And>h. parsedHeader = Some h \<Longrightarrow> headerOk h) \<Longrightarrow> headerOk h"
  using readDiagHeader_ok(1) by (auto simp: headerOr_def split: option.splits)

subsection \<open>Serving cells and configurations\<close>

lemma lteServingCell_returns:
  "decodeQualcommLteServingCellInfo payload (Some h) \<noteq> None"
  unfolding decodeQualcommLteServingCellInfo_def LTE_SERVING_CELL_INFO_BYTES_def headerOr_def
  by (intro returns) (auto simp: inRange_def)

lemma nrServingCell_returns:
  assumes "headerOk h"
  shows "decodeQualcommNrServingCellInfo payload (Some h) \<noteq> None"
  unfolding decodeQualcommNrServingCellInfo_def readNrServingCell_def headerOr_def QUALCOMM_NR_SERVING_CELL_INFO_BYTES_def
  by (intro returns) (use assms in \<open>auto simp: inRange_def headerOk_def\<close>)

lemma readItems_returns:
  assumes "\<And>offset. inRange offset width view \<Longrightarrow> readItem view offset \<noteq> None" "int (length view) = packetLength"
  shows "readItems readItem width packetLength view n offset \<noteq> None"
proof (induction n arbitrary: offset)
  case (Suc n)
  have "inRange offset width view" if "hasByteRange offset width packetLength"
    using that assms(2) by (auto simp: hasByteRange_def inRange_def)
  then show ?case unfolding readItems.simps by (intro returns) (use assms(1) Suc in auto)
qed simp

lemma readCarrierGroup_returns: "inRange offset CONTIGUOUS_CARRIER_GROUP_BYTES view \<Longrightarrow> readCarrierGroup view offset \<noteq> None"
  unfolding readCarrierGroup_def CONTIGUOUS_CARRIER_GROUP_BYTES_def by (intro returns) (auto simp: inRange_def)

lemma readActiveCarrier_returns: "inRange offset ACTIVE_CARRIER_BYTES view \<Longrightarrow> readActiveCarrier view offset \<noteq> None"
  unfolding readActiveCarrier_def ACTIVE_CARRIER_BYTES_def by (intro returns) (auto simp: inRange_def)

lemma nrConfiguration_returns:
  assumes "headerOk h"
  shows "decodeQualcommNrConfigurationInfo payload (Some h) \<noteq> None"
  unfolding decodeQualcommNrConfigurationInfo_def headerOr_def decodeNrConfigurationBody_def readNrConfiguration_def
    FIXED_PACKET_BYTES_def
  by (intro returns readItems_returns readCarrierGroup_returns readActiveCarrier_returns)
    (use assms in \<open>auto simp: inRange_def headerOk_def\<close>)

subsection \<open>Measurements\<close>

definition layoutOk :: "nrLayout \<Rightarrow> bool" where
  "layoutOk l \<longleftrightarrow> 32 \<le> cl_carrierBytes l \<and> (\<forall>o'\<in>set_option (cl_ccIdOffset l). 0 \<le> o' \<and> o' < cl_carrierBytes l) \<and>
    0 \<le> cl_cellCountOffset l \<and> cl_cellCountOffset l < cl_carrierBytes l \<and>
    0 \<le> cl_servingIndexOffset l \<and> cl_servingIndexOffset l < cl_carrierBytes l \<and>
    0 \<le> cl_servingSsbOffset l \<and> cl_servingSsbOffset l < cl_carrierBytes l \<and>
    0 \<le> nl_layerCountOffset l \<and> nl_layerCountOffset l < nl_measurementHeaderBytes l \<and> 0 < nl_beamBytes l"

lemma layouts_ok: "layoutForVersion major minor = Some l \<Longrightarrow> layoutOk l"
proof -
  have "list_all (\<lambda>(_, l). layoutOk l) QUALCOMM_NR_LAYOUTS" by code_simp
  then show "layoutForVersion major minor = Some l \<Longrightarrow> layoutOk l"
    unfolding layoutForVersion_def by (auto dest!: map_of_SomeD)
qed

lemma readMeasurementCell_returns:
  assumes "int (length view) = packetLength"
  shows "readMeasurementCell layout carrier cellIndex packetLength view offset \<noteq> None"
  unfolding readMeasurementCell_def CELL_BYTES_def
  by (intro returns) (use assms in \<open>auto simp: inRange_def hasByteRange_def\<close>)

lemma readMeasurementCells_returns:
  assumes "int (length view) = packetLength"
  shows "readMeasurementCells layout carrier packetLength view n cellIndex offset \<noteq> None"
proof (induction n arbitrary: cellIndex offset)
  case (Suc n)
  then show ?case unfolding readMeasurementCells.simps
    by (intro returns readMeasurementCell_returns assms) auto
qed simp

lemma readCarrier_returns:
  assumes "int (length view) = packetLength" "layoutOk layout"
  shows "readCarrier layout packetLength view carrierIndex offset \<noteq> None"
  unfolding readCarrier_def
  by (intro returns readMeasurementCells_returns assms(1))
    (use assms in \<open>auto simp: inRange_def hasByteRange_def layoutOk_def\<close>)

lemma readCarriers_returns:
  assumes "int (length view) = packetLength" "layoutOk layout"
  shows "readCarriers layout packetLength view n carrierIndex offset \<noteq> None"
proof (induction n arbitrary: carrierIndex offset)
  case (Suc n)
  then show ?case unfolding readCarriers.simps by (intro returns readCarrier_returns assms) auto
qed simp

lemma nrMeasurement_returns:
  assumes "headerOk h"
  shows "decodeQualcommNrMeasurement payload (Some h) \<noteq> None"
  unfolding decodeQualcommNrMeasurement_def headerOr_def VERSION_HEADER_BYTES_def
  by (intro returns readCarriers_returns)
    (use assms in \<open>auto simp: inRange_def headerOk_def layoutOk_def dest!: layouts_ok\<close>)

subsection \<open>Signaling\<close>

lemma envelope_returns [returns]:
  assumes "\<And>l. layout = Some l \<Longrightarrow> 0 \<le> rl_messageLengthOffset l \<and> rl_messageLengthOffset l + 2 \<le> rl_messageOffset l"
  shows "hasValidRrcEnvelope packetLength view layout \<noteq> None"
  unfolding hasValidRrcEnvelope_def by (intro returns) (use assms in \<open>auto simp: inRange_def\<close>)

lemma envelope_valid:
  assumes "hasValidRrcEnvelope packetLength view (Some l) = Some True"
  shows "rl_messageOffset l \<le> packetLength" "rl_messageOffset l \<le> int (length view)"
  using assms by (auto simp: hasValidRrcEnvelope_def split: if_splits)

definition offsetOk :: "int \<Rightarrow> int \<Rightarrow> int \<Rightarrow> bool" where
  "offsetOk limit width offset \<longleftrightarrow> 0 \<le> offset \<and> offset + width \<le> limit"

definition offsetOptionOk :: "int \<Rightarrow> int \<Rightarrow> int option \<Rightarrow> bool" where
  "offsetOptionOk limit width offset \<longleftrightarrow> (case offset of None \<Rightarrow> True | Some o' \<Rightarrow> offsetOk limit width o')"

text \<open>Every field of a layout lies before the message, and the message begins within the checked prefix.\<close>

definition lteLayoutOk :: "lteRrcLayout \<Rightarrow> bool" where
  "lteLayoutOk l \<longleftrightarrow>
    (let limit = rl_messageOffset l
     in 15 \<le> limit \<and> limit \<le> QUALCOMM_SIGNALING_ENVELOPE_BYTES \<and> offsetOk limit 2 (rl_messageLengthOffset l) \<and>
        offsetOk limit 1 (ll_pduIdOffset l) \<and> offsetOk limit 2 (ll_sfnSubframeOffset l) \<and>
        offsetOk limit (if ll_channelNumberBytes l = 2 then 2 else 4) (ll_channelNumberOffset l) \<and>
        offsetOk limit 2 (ll_pciOffset l) \<and> offsetOk limit 1 (ll_rbidOffset l) \<and>
        offsetOptionOk limit 1 (ll_nrRrcReleaseMajorOffset l) \<and> offsetOptionOk limit 1 (ll_nrRrcReleaseMinorOffset l) \<and>
        offsetOptionOk limit 4 (ll_sibMaskOffset l) \<and> offsetOptionOk limit 1 (rl_segmentIdOffset l))"

definition nrLayoutOk :: "nrRrcLayout \<Rightarrow> bool" where
  "nrLayoutOk l \<longleftrightarrow>
    (let limit = rl_messageOffset l
     in 21 \<le> limit \<and> limit \<le> QUALCOMM_SIGNALING_ENVELOPE_BYTES \<and> offsetOk limit 2 (rl_messageLengthOffset l) \<and>
        offsetOk limit 1 (nr_pduIdOffset l) \<and> offsetOk limit 4 (nr_channelNumberOffset l) \<and>
        offsetOk limit (if nr_sibMaskBytes l = 1 then 1 else 4) (nr_sibMaskOffset l) \<and>
        offsetOptionOk limit 8 (nr_nrCellGlobalIdentityOffset l) \<and> offsetOptionOk limit 1 (rl_segmentIdOffset l))"

lemma ltePrefix_ok: "lteRrcProfile view = Some (Some (version, l, pdus)) \<Longrightarrow> lteLayoutOk l"
proof -
  have "list_all (\<lambda>(_, l, _). lteLayoutOk l) LTE_RRC_PROFILES" by code_simp
  then show "lteRrcProfile view = Some (Some (version, l, pdus)) \<Longrightarrow> lteLayoutOk l"
    by (fastforce simp: lteRrcProfile_def bind_eq_Some_conv split: if_splits dest!: map_of_SomeD)
qed

lemma nrPrefix_ok: "nrRrcProfile view = Some (Some (version, l, pdus)) \<Longrightarrow> nrLayoutOk l"
proof -
  have "list_all (\<lambda>(_, l, _). nrLayoutOk l) NR_RRC_PROFILES" by code_simp
  then show "nrRrcProfile view = Some (Some (version, l, pdus)) \<Longrightarrow> nrLayoutOk l"
    by (fastforce simp: nrRrcProfile_def bind_eq_Some_conv split: if_splits dest!: map_of_SomeD)
qed

lemma lteRrcProfile_returns [returns]: "lteRrcProfile view \<noteq> None"
  unfolding lteRrcProfile_def by (intro returns) (auto simp: inRange_def)

lemma nrRrcProfile_returns [returns]: "nrRrcProfile view \<noteq> None"
  unfolding nrRrcProfile_def by (intro returns) (auto simp: inRange_def)

lemma optionalField_returns [returns]:
  "(\<And>o'. offset = Some o' \<Longrightarrow> read o' \<noteq> None) \<Longrightarrow> optionalField key read offset \<noteq> None"
  unfolding optionalField_def by (intro returns)

lemma readLteRrc_returns:
  assumes "lteLayoutOk l" "rl_messageOffset l \<le> int (length view)"
  shows "readLteRrc payload packetLength view version l pdus \<noteq> None"
  unfolding readLteRrc_def
  by (intro returns)
    (use assms in \<open>auto simp: lteLayoutOk_def Let_def inRange_def offsetOk_def offsetOptionOk_def split: if_splits\<close>)

lemma readNrRrc_returns:
  assumes "nrLayoutOk l" "rl_messageOffset l \<le> int (length view)"
  shows "readNrRrc payload packetLength view version l pdus \<noteq> None"
  unfolding readNrRrc_def globalIdentityField_def
  by (intro returns)
    (use assms in \<open>auto simp: nrLayoutOk_def Let_def inRange_def offsetOk_def offsetOptionOk_def split: if_splits\<close>)

lemma lteRrc_returns: "decodeQualcommLteRrc payload packetLength view \<noteq> None"
  unfolding decodeQualcommLteRrc_def
  by (intro returns readLteRrc_returns)
    (auto dest!: ltePrefix_ok envelope_valid simp: lteLayoutOk_def Let_def offsetOk_def)

lemma nrRrc_returns: "decodeQualcommNrRrc payload packetLength view \<noteq> None"
  unfolding decodeQualcommNrRrc_def
  by (intro returns readNrRrc_returns)
    (auto dest!: nrPrefix_ok envelope_valid simp: nrLayoutOk_def Let_def offsetOk_def)

lemma nasEnvelope_returns [returns]: "isValidQualcommLteNasEnvelope packetLength view \<noteq> None"
  unfolding isValidQualcommLteNasEnvelope_def LTE_NAS_MESSAGE_OFFSET_def by (intro returns) (auto simp: inRange_def)

lemma nasEnvelope_valid: "isValidQualcommLteNasEnvelope packetLength view = Some True \<Longrightarrow> 16 \<le> length view"
  by (auto simp: isValidQualcommLteNasEnvelope_def LTE_NAS_MESSAGE_OFFSET_def split: if_splits)

lemma lteNas_returns: "decodeQualcommLteNas payload packetLength view logCode \<noteq> None"
  unfolding decodeQualcommLteNas_def
  by (intro returns) (auto simp: inRange_def dest!: nasEnvelope_valid)

lemma signaling_returns: "decodeQualcommSignaling payload (Some h) \<noteq> None"
  unfolding decodeQualcommSignaling_def headerOr_def
  by (intro returns lteRrc_returns nrRrc_returns lteNas_returns)

lemma decodeRecordKind_returns:
  assumes "headerOk h"
  shows "decodeRecordKind kind payload h \<noteq> None"
  using assms
  by (cases kind) (simp_all add: decodeRecordKind_def lteServingCell_returns [simplified] nrServingCell_returns [simplified]
      nrConfiguration_returns [simplified] nrMeasurement_returns [simplified] signaling_returns [simplified])

text \<open>
  C5. No payload of a recording makes the decoder of Qualcomm records throw: every read of a field lies
  within the packet, whatever the bytes say of lengths, counts and offsets.
\<close>
theorem record_decoder_never_throws: "decodeQualcommRecord payload parsedPrefix \<noteq> None"
  unfolding decodeQualcommRecord_def
  by (intro returns decodeRecordKind_returns) (auto dest: readDiagHeader_ok(1))

section \<open>The bytes that matter\<close>

lemma getUint_prefix:
  assumes "0 \<le> offset" "offset + int width \<le> int n"
  shows "getUint width (take n view) offset = getUint width view offset"
proof (cases "inRange offset (int width) (take n view)")
  case False
  then have "\<not> inRange offset (int width) view" using assms by (auto simp: inRange_def)
  with False show ?thesis by (simp add: getUint_def)
qed (rule getUint_take)

lemma reads_prefix:
  "0 \<le> offset \<Longrightarrow> offset + 1 \<le> int n \<Longrightarrow> getUint8 (take n view) offset = getUint8 view offset"
  "0 \<le> offset \<Longrightarrow> offset + 2 \<le> int n \<Longrightarrow> getUint16 (take n view) offset = getUint16 view offset"
  "0 \<le> offset \<Longrightarrow> offset + 4 \<le> int n \<Longrightarrow> getUint32 (take n view) offset = getUint32 view offset"
  by (simp_all add: reads getUint_prefix)

subsection \<open>The envelope of a signaling message\<close>

lemma lteRrcProfile_prefix: "13 \<le> n \<Longrightarrow> lteRrcProfile (take n view) = lteRrcProfile view"
  by (auto simp: lteRrcProfile_def reads_prefix)

lemma nrRrcProfile_prefix: "16 \<le> n \<Longrightarrow> nrRrcProfile (take n view) = nrRrcProfile view"
  by (auto simp: nrRrcProfile_def reads_prefix cong: if_cong)

lemma hasValidRrcEnvelope_prefix:
  assumes "rl_messageOffset l \<le> int n" "offsetOk (rl_messageOffset l) 2 (rl_messageLengthOffset l)"
  shows "hasValidRrcEnvelope packetLength (take n view) (Some l) = hasValidRrcEnvelope packetLength view (Some l)"
  using assms by (auto simp: hasValidRrcEnvelope_def offsetOk_def reads_prefix)

lemma lteEnvelope_prefix: "isValidQualcommLteRrcEnvelope packetLength (take 47 view) = isValidQualcommLteRrcEnvelope packetLength view"
proof (cases "lteRrcProfile view")
  case (Some profile)
  then show ?thesis
  proof (cases profile)
    case (Some p)
    obtain version l pdus where p: "p = (version, l, pdus)" by (cases p) auto
    then have "lteLayoutOk l" using \<open>lteRrcProfile view = Some profile\<close> Some ltePrefix_ok by simp
    then have "rl_messageOffset l \<le> 47" "offsetOk (rl_messageOffset l) 2 (rl_messageLengthOffset l)"
      by (auto simp: lteLayoutOk_def Let_def QUALCOMM_SIGNALING_ENVELOPE_BYTES_def)
    then show ?thesis
      using \<open>lteRrcProfile view = Some profile\<close> Some p
      by (simp add: isValidQualcommLteRrcEnvelope_def lteRrcProfile_prefix hasValidRrcEnvelope_prefix)
  qed (simp add: isValidQualcommLteRrcEnvelope_def lteRrcProfile_prefix hasValidRrcEnvelope_def)
qed (simp add: isValidQualcommLteRrcEnvelope_def lteRrcProfile_prefix)

lemma nrEnvelope_prefix: "isValidQualcommNrRrcEnvelope packetLength (take 47 view) = isValidQualcommNrRrcEnvelope packetLength view"
proof (cases "nrRrcProfile view")
  case (Some profile)
  then show ?thesis
  proof (cases profile)
    case (Some p)
    obtain version l pdus where p: "p = (version, l, pdus)" by (cases p) auto
    then have "nrLayoutOk l" using \<open>nrRrcProfile view = Some profile\<close> Some nrPrefix_ok by simp
    then have "rl_messageOffset l \<le> 47" "offsetOk (rl_messageOffset l) 2 (rl_messageLengthOffset l)"
      by (auto simp: nrLayoutOk_def Let_def QUALCOMM_SIGNALING_ENVELOPE_BYTES_def)
    then show ?thesis
      using \<open>nrRrcProfile view = Some profile\<close> Some p
      by (simp add: isValidQualcommNrRrcEnvelope_def nrRrcProfile_prefix hasValidRrcEnvelope_prefix)
  qed (simp add: isValidQualcommNrRrcEnvelope_def nrRrcProfile_prefix hasValidRrcEnvelope_def)
qed (simp add: isValidQualcommNrRrcEnvelope_def nrRrcProfile_prefix)

lemma nasEnvelope_prefix: "isValidQualcommLteNasEnvelope packetLength (take 47 view) = isValidQualcommLteNasEnvelope packetLength view"
  by (auto simp: isValidQualcommLteNasEnvelope_def LTE_NAS_MESSAGE_OFFSET_def reads_prefix)

lemma lteEnvelope_decodes:
  assumes "isValidQualcommLteRrcEnvelope packetLength view = Some b"
  shows "(\<exists>m. decodeQualcommLteRrc payload packetLength view = Some (Some m)) \<longleftrightarrow> b"
proof (cases "lteRrcProfile view")
  case (Some profile)
  note found = this
  then show ?thesis
  proof (cases profile)
    case (Some p)
    obtain version l pdus where p: "p = (version, l, pdus)" by (cases p) auto
    have valid: "hasValidRrcEnvelope packetLength view (Some l) = Some b"
      using assms found Some p by (simp add: isValidQualcommLteRrcEnvelope_def)
    show ?thesis
    proof (cases b)
      case True
      have "lteLayoutOk l" using found Some p ltePrefix_ok by simp
      then obtain m where "readLteRrc payload packetLength view version l pdus = Some m"
        using readLteRrc_returns [of l view payload packetLength version pdus] envelope_valid(2) [of packetLength view l] valid True
        by auto
      then show ?thesis using found Some p valid True by (simp add: decodeQualcommLteRrc_def)
    qed (use found Some p valid in \<open>simp add: decodeQualcommLteRrc_def\<close>)
  qed (use assms in \<open>simp add: isValidQualcommLteRrcEnvelope_def decodeQualcommLteRrc_def hasValidRrcEnvelope_def\<close>)
qed (use assms in \<open>simp add: isValidQualcommLteRrcEnvelope_def\<close>)

lemma nrEnvelope_decodes:
  assumes "isValidQualcommNrRrcEnvelope packetLength view = Some b"
  shows "(\<exists>m. decodeQualcommNrRrc payload packetLength view = Some (Some m)) \<longleftrightarrow> b"
proof (cases "nrRrcProfile view")
  case (Some profile)
  note found = this
  then show ?thesis
  proof (cases profile)
    case (Some p)
    obtain version l pdus where p: "p = (version, l, pdus)" by (cases p) auto
    have valid: "hasValidRrcEnvelope packetLength view (Some l) = Some b"
      using assms found Some p by (simp add: isValidQualcommNrRrcEnvelope_def)
    show ?thesis
    proof (cases b)
      case True
      have "nrLayoutOk l" using found Some p nrPrefix_ok by simp
      then obtain m where "readNrRrc payload packetLength view version l pdus = Some m"
        using readNrRrc_returns [of l view payload packetLength version pdus] envelope_valid(2) [of packetLength view l] valid True
        by auto
      then show ?thesis using found Some p valid True by (simp add: decodeQualcommNrRrc_def)
    qed (use found Some p valid in \<open>simp add: decodeQualcommNrRrc_def\<close>)
  qed (use assms in \<open>simp add: isValidQualcommNrRrcEnvelope_def decodeQualcommNrRrc_def hasValidRrcEnvelope_def\<close>)
qed (use assms in \<open>simp add: isValidQualcommNrRrcEnvelope_def\<close>)

lemma nasEnvelope_decodes:
  assumes "isValidQualcommLteNasEnvelope packetLength view = Some b"
  shows "(\<exists>m. decodeQualcommLteNas payload packetLength view logCode = Some (Some m)) \<longleftrightarrow> b"
proof (cases b)
  case True
  then have "16 \<le> length view" using assms nasEnvelope_valid by simp
  then obtain major minor revision where "getUint8 view 13 = Some major" "getUint8 view 14 = Some minor" "getUint8 view 15 = Some revision"
    by (auto simp: reads getUint_def inRange_def)
  then show ?thesis using assms True by (simp add: decodeQualcommLteNas_def Let_def)
qed (use assms in \<open>simp add: decodeQualcommLteNas_def\<close>)

lemma signalingEnvelope_decodes:
  assumes "headerOk h" "12 \<le> dp_packetLength h" "dp_packetLength h \<le> MAX_QUALCOMM_SIGNALING_BYTES"
    "prefix = \<lparr>dp_packetLength = dp_packetLength h, dp_logCode = dp_logCode h\<rparr>"
    "isQualcommSignalingLogCode (dp_logCode h)"
  shows "\<exists>b. isValidQualcommSignalingEnvelope (take 47 (dh_view h)) prefix = Some b \<and>
    (b \<longleftrightarrow> (\<exists>m. decodeQualcommSignaling payload (Some h) = Some (Some m)))"
proof -
  let ?v = "dh_view h" and ?n = "dp_packetLength h"
  have lte: "isValidQualcommLteRrcEnvelope ?n ?v \<noteq> None"
    unfolding isValidQualcommLteRrcEnvelope_def
    by (intro returns) (auto dest!: ltePrefix_ok simp: lteLayoutOk_def Let_def offsetOk_def)
  have nr: "isValidQualcommNrRrcEnvelope ?n ?v \<noteq> None"
    unfolding isValidQualcommNrRrcEnvelope_def
    by (intro returns) (auto dest!: nrPrefix_ok simp: nrLayoutOk_def Let_def offsetOk_def)
  have valid: "isValidQualcommSignalingEnvelope (take 47 ?v) prefix =
      (if dp_logCode h = QUALCOMM_LTE_RRC_OTA_LOG_CODE then isValidQualcommLteRrcEnvelope ?n ?v
       else if dp_logCode h = QUALCOMM_NR_RRC_OTA_LOG_CODE then isValidQualcommNrRrcEnvelope ?n ?v
       else isValidQualcommLteNasEnvelope ?n ?v)"
    using assms(2-5) by (auto simp: isValidQualcommSignalingEnvelope_def lteEnvelope_prefix nrEnvelope_prefix nasEnvelope_prefix
        isQualcommSignalingLogCode_def)
  consider "dp_logCode h = QUALCOMM_LTE_RRC_OTA_LOG_CODE"
    | "dp_logCode h \<noteq> QUALCOMM_LTE_RRC_OTA_LOG_CODE" "dp_logCode h = QUALCOMM_NR_RRC_OTA_LOG_CODE"
    | "dp_logCode h \<noteq> QUALCOMM_LTE_RRC_OTA_LOG_CODE" "dp_logCode h \<noteq> QUALCOMM_NR_RRC_OTA_LOG_CODE" "isNasLogCode (dp_logCode h)"
    using assms(5) unfolding isQualcommSignalingLogCode_def by blast
  then show ?thesis
  proof cases
    case 1
    with lte valid show ?thesis
      using lteEnvelope_decodes by (auto simp: decodeQualcommSignaling_def headerOr_def)
  next
    case 2
    with nr valid show ?thesis
      using nrEnvelope_decodes by (auto simp: decodeQualcommSignaling_def headerOr_def)
  next
    case 3
    with nasEnvelope_returns [of ?n ?v] valid show ?thesis
      using nasEnvelope_decodes by (auto simp: decodeQualcommSignaling_def headerOr_def)
  qed
qed

lemma descriptor_known:
  assumes "descriptorForPacket p n = Some kind"
  shows "QUALCOMM_DIAG_HEADER_BYTES \<le> dp_packetLength p" "dp_packetLength p \<le> n"
    "dp_packetLength p \<le> rp_maximumBytes (policyOf kind)" "descriptorForLogCode (dp_logCode p) = Some kind"
  using assms by (auto simp: descriptorForPacket_def split: option.splits if_splits)

lemma descriptor_signaling:
  "descriptorForLogCode logCode = Some SignalingKind \<longleftrightarrow> isQualcommSignalingLogCode logCode"
  by (simp add: descriptorForLogCode_def QUALCOMM_RECORD_DESCRIPTORS_def isQualcommSignalingLogCode_def isNasLogCode_def
      QUALCOMM_NR_MEASUREMENT_LOG_CODE_def QUALCOMM_NR_CONFIGURATION_INFO_LOG_CODE_def
      QUALCOMM_NR_SERVING_CELL_INFO_LOG_CODE_def QUALCOMM_LTE_SERVING_CELL_INFO_LOG_CODE_def
      QUALCOMM_LTE_RRC_OTA_LOG_CODE_def QUALCOMM_LTE_NAS_PLAIN_INCOMING_LOG_CODE_def
      QUALCOMM_LTE_NAS_PLAIN_OUTGOING_LOG_CODE_def QUALCOMM_NR_RRC_OTA_LOG_CODE_def)

text \<open>What a record whose prefix names a known kind is decoded from.\<close>

lemma decode_known:
  assumes "readDiagPrefix payload = Some (Some p)" "descriptorForPacket p (int (length payload)) = Some kind"
  shows "decodeQualcommRecord payload None =
    decodeRecordKind kind payload \<lparr>dp_packetLength = dp_packetLength p, dp_logCode = dp_logCode p,
      dh_view = take (nat (dp_packetLength p)) payload\<rparr>"
  using assms descriptor_known [OF assms(2)]
  by (simp add: decodeQualcommRecord_def readDiagHeader_def Let_def QUALCOMM_DIAG_HEADER_BYTES_def)

text \<open>
  Once the recorder has stopped keeping signaling messages it looks at their first 47 bytes only;
  that quick check accepts exactly the messages the full decoder would have decoded.
\<close>
theorem envelope_agrees_with_decoder:
  assumes "readDiagPrefix payload = Some (Some prefix)"
    "descriptorForPacket prefix (int (length payload)) = Some SignalingKind"
  shows "\<exists>b. isValidQualcommSignalingEnvelope
      (take (nat (min (dp_packetLength prefix) QUALCOMM_SIGNALING_ENVELOPE_BYTES)) payload) prefix = Some b \<and>
    (b \<longleftrightarrow> (\<exists>r. decodeQualcommRecord payload None = Some (Some r)))"
proof -
  let ?n = "dp_packetLength prefix"
  let ?h = "\<lparr>dp_packetLength = ?n, dp_logCode = dp_logCode prefix, dh_view = take (nat ?n) payload\<rparr>"
  note known = descriptor_known [OF assms(2)]
  have small: "take (nat (min ?n QUALCOMM_SIGNALING_ENVELOPE_BYTES)) payload = take 47 (dh_view ?h)"
  proof -
    have "nat (min ?n 47) = min 47 (nat ?n)" by linarith
    then show ?thesis by (simp add: QUALCOMM_SIGNALING_ENVELOPE_BYTES_def)
  qed
  have "\<exists>b. isValidQualcommSignalingEnvelope (take 47 (dh_view ?h)) prefix = Some b \<and>
      (b \<longleftrightarrow> (\<exists>m. decodeQualcommSignaling payload (Some ?h) = Some (Some m)))"
    using known descriptor_signaling [of "dp_logCode prefix"]
    by (intro signalingEnvelope_decodes)
      (auto simp: headerOk_def QUALCOMM_DIAG_HEADER_BYTES_def policyOf_def)
  then show ?thesis
    unfolding decode_known [OF assms] small decodeRecordKind_def by fastforce
qed

subsection \<open>The cells of a measurement\<close>

lemma readMeasurementCell_step:
  assumes "readMeasurementCell layout carrier cellIndex packetLength view offset = Some (Some (c, next))" "layoutOk layout"
  shows "offset + CELL_BYTES \<le> next" "next \<le> packetLength" "mc_carrierIndex c = ch_carrierIndex carrier" "\<not> mc_serving c"
proof -
  obtain beamCount where count: "0 \<le> beamCount"
      and next': "next = offset + (CELL_BYTES + beamCount * nl_beamBytes layout)"
      and fits: "hasByteRange offset (CELL_BYTES + beamCount * nl_beamBytes layout) packetLength"
      and c: "mc_carrierIndex c = ch_carrierIndex carrier" "\<not> mc_serving c"
    using assms(1)
    by (auto simp: readMeasurementCell_def Let_def bind_eq_Some_conv split: if_splits
        dest: getUint8_bounds getUint32_bounds)
  have "0 \<le> beamCount * nl_beamBytes layout" using count assms(2) by (simp add: layoutOk_def)
  with next' show "offset + CELL_BYTES \<le> next" by simp
  show "next \<le> packetLength" using next' fits by (simp add: hasByteRange_def)
  show "mc_carrierIndex c = ch_carrierIndex carrier" "\<not> mc_serving c" using c by simp_all
qed

lemma readMeasurementCells_step:
  assumes "readMeasurementCells layout carrier packetLength view n cellIndex offset = Some (Some (cs, next))"
    "layoutOk layout" "offset \<le> packetLength"
  shows "offset + CELL_BYTES * int n \<le> next \<and> next \<le> packetLength \<and> length cs = n \<and>
    (\<forall>c\<in>set cs. mc_carrierIndex c = ch_carrierIndex carrier \<and> \<not> mc_serving c)"
  using assms(1,3)
proof (induction n arbitrary: cellIndex offset cs)
  case (Suc n)
  from Suc.prems(1) obtain c mid rest where step:
    "readMeasurementCell layout carrier cellIndex packetLength view offset = Some (Some (c, mid))"
    "readMeasurementCells layout carrier packetLength view n (cellIndex + 1) mid = Some (Some (rest, next))" "cs = c # rest"
    by (auto simp: bind_eq_Some_conv split: option.splits)
  note cell = readMeasurementCell_step [OF step(1) assms(2)]
  have "CELL_BYTES * int (Suc n) = CELL_BYTES + CELL_BYTES * int n" by (simp add: algebra_simps)
  with Suc.IH [OF step(2) cell(2)] cell step(3) show ?case by auto
qed simp

lemma markServing_marks:
  assumes "\<forall>c\<in>set cs. \<not> mc_serving c"
  shows "length (filter mc_serving (markServing layout i p cs)) \<le> 1" "length (markServing layout i p cs) = length cs"
    "map mc_carrierIndex (markServing layout i p cs) = map mc_carrierIndex cs"
proof -
  have none: "filter mc_serving cs = []" using assms by (simp add: filter_empty_conv)
  have one: "length (filter mc_serving (cs[k := (cs ! k)\<lparr>mc_serving := True\<rparr>])) \<le> 1" for k
  proof (cases "k < length cs")
    case True
    then have "filter mc_serving (take k cs) = []" "filter mc_serving (drop (Suc k) cs) = []"
      using assms by (auto simp: filter_empty_conv dest: in_set_takeD in_set_dropD)
    then show ?thesis using True by (simp add: upd_conv_take_nth_drop)
  qed (simp add: none list_update_beyond)
  show "length (filter mc_serving (markServing layout i p cs)) \<le> 1"
    using one none by (auto simp: markServing_def split: option.splits)
  show "length (markServing layout i p cs) = length cs"
    by (simp add: markServing_def split: option.splits)
  show "map mc_carrierIndex (markServing layout i p cs) = map mc_carrierIndex cs"
    by (auto simp: markServing_def map_update split: option.splits) (metis list_update_id map_update)
qed

definition servingOf :: "int \<Rightarrow> nrMeasurementCell list \<Rightarrow> nrMeasurementCell list" where
  "servingOf carrierIndex cells = filter (\<lambda>c. mc_serving c \<and> mc_carrierIndex c = carrierIndex) cells"

lemma readCarrier_step:
  assumes "readCarrier layout packetLength view carrierIndex offset = Some (Some (cs, next))" "layoutOk layout"
  shows "offset + cl_carrierBytes layout + CELL_BYTES * int (length cs) \<le> next" "next \<le> packetLength"
    "\<forall>c\<in>set cs. mc_carrierIndex c = carrierIndex" "length (filter mc_serving cs) \<le> 1"
proof -
  obtain carrier n base servingIndex servingPci where
    range': "hasByteRange offset (cl_carrierBytes layout) packetLength" and
    carrier: "ch_carrierIndex carrier = carrierIndex" and
    read: "readMeasurementCells layout carrier packetLength view n 0 (offset + cl_carrierBytes layout) = Some (Some (base, next))" and
    cs: "cs = markServing layout servingIndex servingPci base"
    using assms(1)
    by (auto simp: readCarrier_def bind_eq_Some_conv split: if_splits) (metis nrCarrierHeader.select_convs(1))+
  have "offset + cl_carrierBytes layout \<le> packetLength" using range' by (simp add: hasByteRange_def)
  note step = readMeasurementCells_step [OF read assms(2) this]
  note mark = markServing_marks [of base layout servingIndex servingPci]
  show "offset + cl_carrierBytes layout + CELL_BYTES * int (length cs) \<le> next" "next \<le> packetLength"
    "length (filter mc_serving cs) \<le> 1"
    using step mark cs by auto
  have "map mc_carrierIndex cs = map mc_carrierIndex base" using mark step cs by simp
  then have "mc_carrierIndex ` set cs = mc_carrierIndex ` set base" by (metis list.set_map)
  then show "\<forall>c\<in>set cs. mc_carrierIndex c = carrierIndex" using step carrier by (auto simp: image_iff set_eq_iff)
qed

lemma readCarriers_step:
  assumes "readCarriers layout packetLength view n carrierIndex offset = Some (Some (cs, next))" "layoutOk layout"
    "offset \<le> packetLength"
  shows "offset + cl_carrierBytes layout * int n + CELL_BYTES * int (length cs) \<le> next \<and> next \<le> packetLength \<and>
    (\<forall>c\<in>set cs. carrierIndex \<le> mc_carrierIndex c \<and> mc_carrierIndex c < carrierIndex + int n) \<and>
    (\<forall>i. length (servingOf i cs) \<le> 1)"
  using assms(1,3)
proof (induction n arbitrary: carrierIndex offset cs)
  case (Suc n)
  from Suc.prems(1) obtain base mid rest where step:
    "readCarrier layout packetLength view carrierIndex offset = Some (Some (base, mid))"
    "readCarriers layout packetLength view n (carrierIndex + 1) mid = Some (Some (rest, next))" "cs = base @ rest"
    by (auto simp: bind_eq_Some_conv split: option.splits)
  note carrier = readCarrier_step [OF step(1) assms(2)]
  note rest = Suc.IH [OF step(2) carrier(2)]
  have "length (servingOf i cs) \<le> 1" for i
  proof (cases "i = carrierIndex")
    case True
    then have "servingOf i rest = []" using rest by (auto simp: servingOf_def filter_empty_conv)
    moreover have "servingOf i base = filter mc_serving base"
      using carrier(3) True by (auto simp: servingOf_def intro: filter_cong)
    ultimately show ?thesis using carrier(4) step(3) by (simp add: servingOf_def)
  next
    case False
    then have "servingOf i base = []" using carrier(3) by (auto simp: servingOf_def filter_empty_conv)
    then show ?thesis using rest step(3) by (simp add: servingOf_def)
  qed
  moreover have "offset + cl_carrierBytes layout * int (Suc n) + CELL_BYTES * int (length cs) =
      (offset + cl_carrierBytes layout + CELL_BYTES * int (length base)) + cl_carrierBytes layout * int n + CELL_BYTES * int (length rest)"
    using step(3) by (simp add: algebra_simps)
  moreover have "\<forall>c\<in>set cs. carrierIndex \<le> mc_carrierIndex c \<and> mc_carrierIndex c < carrierIndex + int (Suc n)"
    using carrier(3) rest step(3) by force
  ultimately show ?case using rest carrier(1) by (intro conjI allI) (simp_all only: | linarith)+
qed (simp add: servingOf_def)

lemma nrMeasurement_parts:
  assumes "decodeQualcommNrMeasurement payload (Some h) = Some (Some m)"
  shows "\<exists>layout next. layoutOk layout \<and>
    nl_measurementHeaderBytes layout \<le> dp_packetLength h \<and> 0 \<le> nm_layerCount m \<and>
    readCarriers layout (dp_packetLength h) (dh_view h) (nat (nm_layerCount m)) 0 (nl_measurementHeaderBytes layout) =
      Some (Some (nm_cells m, next)) \<and>
    nm_packetLength m = dp_packetLength h"
proof -
  from assms obtain minor major where version:
    "getUint16 (dh_view h) 12 = Some minor" "getUint16 (dh_view h) 14 = Some major"
    by (auto simp: decodeQualcommNrMeasurement_def headerOr_def bind_eq_Some_conv split: if_split_asm)
  show ?thesis
  proof (cases "layoutForVersion major minor")
    case (Some layout)
    with assms version obtain layerCount carriers where read:
      "nl_measurementHeaderBytes layout \<le> dp_packetLength h" "getUint8 (dh_view h) (nl_layerCountOffset layout) = Some layerCount"
      "readCarriers layout (dp_packetLength h) (dh_view h) (nat layerCount) 0 (nl_measurementHeaderBytes layout) = Some carriers"
      by (auto simp: decodeQualcommNrMeasurement_def headerOr_def bind_eq_Some_conv split: if_split_asm)
    with assms version Some have "carriers \<noteq> None" "0 \<le> layerCount"
      by (cases carriers; auto simp: decodeQualcommNrMeasurement_def headerOr_def dest: getUint8_bounds split: if_split_asm)+
    moreover from this obtain cells stop where "carriers = Some (cells, stop)" by auto
    moreover from this have "m = \<lparr>nm_packetLength = dp_packetLength h, nm_versionMajor = major, nm_versionMinor = minor,
        nm_layerCount = layerCount, nm_cells = cells\<rparr>"
      using assms version Some read by (simp add: decodeQualcommNrMeasurement_def headerOr_def split: if_split_asm)
    ultimately show ?thesis using read layouts_ok [OF Some] by auto
  qed (use assms version in \<open>simp add: decodeQualcommNrMeasurement_def headerOr_def split: if_split_asm\<close>)
qed

text \<open>
  C11. A decoded measurement fits into its packet: the headers of its carriers and 16 bytes for each of its
  cells lie within the length the packet states, every cell belongs to one of the carriers counted, and no
  carrier has more than one serving cell.
\<close>
theorem measurement_fits_packet:
  assumes "decodeQualcommNrMeasurement payload (Some header) = Some (Some m)"
  shows "CELL_BYTES * int (length (nm_cells m)) + 32 * nm_layerCount m \<le> nm_packetLength m \<and>
    list_all (\<lambda>c. 0 \<le> mc_carrierIndex c \<and> mc_carrierIndex c < nm_layerCount m) (nm_cells m) \<and>
    length (servingOf carrierIndex (nm_cells m)) \<le> 1"
proof -
  obtain layout stop where layout: "layoutOk layout" "nl_measurementHeaderBytes layout \<le> dp_packetLength header"
    "0 \<le> nm_layerCount m" "nm_packetLength m = dp_packetLength header" and
    read: "readCarriers layout (dp_packetLength header) (dh_view header) (nat (nm_layerCount m)) 0
      (nl_measurementHeaderBytes layout) = Some (Some (nm_cells m, stop))"
    using nrMeasurement_parts [OF assms] by auto
  note step = readCarriers_step [OF read layout(1,2)]
  have "32 * nm_layerCount m \<le> cl_carrierBytes layout * nm_layerCount m" "0 \<le> nl_measurementHeaderBytes layout"
    using layout by (auto simp: layoutOk_def intro!: mult_right_mono)
  then show ?thesis using step layout by (auto simp: list_all_iff)
qed

text \<open>A packet of one carrier with one cell.\<close>

definition examplePacket :: bytes where
  "examplePacket = [68, 0, 0x7F, 0xB9] @ replicate 8 0 @ [6, 0, 2, 0, 1, 0, 0, 0] @
     [0x10, 0x27, 0, 0, 1, 0, 42, 0, 3] @ replicate 23 0 @ [42, 0, 5, 0, 0, 0, 0, 0, 0, 0xB0, 0xFF, 0xFF, 0, 0xF4, 0xFF, 0xFF]"

definition exampleHeader :: diagHeader where
  "exampleHeader = \<lparr>dp_packetLength = 68, dp_logCode = 0xB97F, dh_view = examplePacket\<rparr>"

definition exampleMeasurement :: nrMeasurement where
  "exampleMeasurement = \<lparr>nm_packetLength = 68, nm_versionMajor = 2, nm_versionMinor = 6, nm_layerCount = 1,
     nm_cells = [\<lparr>mc_carrierIndex = 0, mc_cellIndex = 0, mc_arfcn = 10000, mc_ccId = None, mc_pci = 42, mc_sfn = 5,
       mc_beamCount = 0, mc_rsrp = - 160, mc_rsrq = - 24, mc_serving = True, mc_servingPci = 42, mc_servingSsb = 3\<rparr>]\<rparr>"

lemma example_decodes: "decodeQualcommNrMeasurement examplePacket (Some exampleHeader) = Some (Some exampleMeasurement)"
  by code_simp

lemma measurement_fits_packet_witness:
  "CELL_BYTES * int (length (nm_cells exampleMeasurement)) + 32 * nm_layerCount exampleMeasurement \<le> nm_packetLength exampleMeasurement \<and>
   length (servingOf 0 (nm_cells exampleMeasurement)) \<le> 1"
  using measurement_fits_packet [OF example_decodes, of 0] by simp

section \<open>What the capture keeps\<close>

lemma subarray_take: "0 \<le> start \<Longrightarrow> stop \<le> int n \<Longrightarrow> subarray (take n payload) start stop = subarray payload start stop"
  by (auto simp: subarray_def drop_take min_def)

lemma zeroFrom_take:
  "0 \<le> offset \<Longrightarrow> packetLength \<le> int (length payload) \<Longrightarrow>
    zeroFrom offset packetLength (take (nat packetLength) payload) = zeroFrom offset packetLength payload"
  by (auto simp: zeroFrom_def drop_take nat_diff_distrib' min_def)

lemma lteRrc_take:
  assumes "packetLength \<le> int n" "0 \<le> packetLength"
  shows "decodeQualcommLteRrc (take n payload) packetLength view = decodeQualcommLteRrc payload packetLength view"
proof -
  have "readLteRrc (take n payload) packetLength view version l pdus = readLteRrc payload packetLength view version l pdus"
    if "lteRrcProfile view = Some (Some (version, l, pdus))" for version l pdus
    using ltePrefix_ok [OF that] assms subarray_take [of "rl_messageOffset l" packetLength n payload]
    by (simp add: readLteRrc_def lteLayoutOk_def Let_def)
  then show ?thesis
    unfolding decodeQualcommLteRrc_def
    by (intro bind_option_cong refl) (auto split: option.splits)
qed

lemma nrRrc_take:
  assumes "packetLength \<le> int n"
  shows "decodeQualcommNrRrc (take n payload) packetLength view = decodeQualcommNrRrc payload packetLength view"
proof -
  have "readNrRrc (take n payload) packetLength view version l pdus = readNrRrc payload packetLength view version l pdus"
    if "nrRrcProfile view = Some (Some (version, l, pdus))" "hasValidRrcEnvelope packetLength view (Some l) = Some True"
    for version l pdus
  proof -
    have sfn: "list_all (\<lambda>(_, l, _). 0 \<le> nr_sfnSubframeOffset l \<and>
        nr_sfnSubframeOffset l + nr_sfnSubframeBytes l \<le> rl_messageOffset l) NR_RRC_PROFILES" by code_simp
    have "0 \<le> nr_sfnSubframeOffset l \<and> nr_sfnSubframeOffset l + nr_sfnSubframeBytes l \<le> rl_messageOffset l"
      using that(1) sfn by (fastforce simp: nrRrcProfile_def bind_eq_Some_conv split: if_splits dest!: map_of_SomeD)
    then show ?thesis
      using nrPrefix_ok [OF that(1)] envelope_valid(1) [OF that(2)] assms
      by (simp add: readNrRrc_def nrLayoutOk_def Let_def subarray_take)
  qed
  then show ?thesis
    unfolding decodeQualcommNrRrc_def
    by (intro bind_option_cong refl) (auto split: option.splits)
qed

lemma lteNas_take:
  "packetLength \<le> int n \<Longrightarrow> decodeQualcommLteNas (take n payload) packetLength view logCode = decodeQualcommLteNas payload packetLength view logCode"
  unfolding decodeQualcommLteNas_def
  by (intro bind_option_cong refl if_cong) (simp_all add: LTE_NAS_MESSAGE_OFFSET_def subarray_take)

lemma nrMeasurement_take:
  assumes "headerOk h" "dp_packetLength h \<le> int (length payload)"
  shows "decodeQualcommNrMeasurement (take (nat (dp_packetLength h)) payload) (Some h) = decodeQualcommNrMeasurement payload (Some h)"
proof -
  have "zeroFrom stop (dp_packetLength h) (take (nat (dp_packetLength h)) payload) = zeroFrom stop (dp_packetLength h) payload"
    if "layoutForVersion major minor = Some layout" "\<not> dp_packetLength h < nl_measurementHeaderBytes layout"
      "readCarriers layout (dp_packetLength h) (dh_view h) n 0 (nl_measurementHeaderBytes layout) = Some (Some (cs, stop))"
    for major minor layout n cs stop
  proof -
    have layout: "layoutOk layout" using layouts_ok [OF that(1)] .
    have "nl_measurementHeaderBytes layout + cl_carrierBytes layout * int n + CELL_BYTES * int (length cs) \<le> stop"
      using readCarriers_step [OF that(3) layout] that(2) by simp
    moreover have "0 \<le> nl_measurementHeaderBytes layout" "0 \<le> cl_carrierBytes layout * int n"
      using layout by (auto simp: layoutOk_def)
    moreover have "0 \<le> CELL_BYTES * int (length cs)" by (simp add: CELL_BYTES_def)
    ultimately have "0 \<le> stop" by linarith
    then show ?thesis using assms(2) by (rule zeroFrom_take)
  qed
  then show ?thesis
    unfolding decodeQualcommNrMeasurement_def headerOr_def
    by (auto split: option.splits intro!: bind_option_cong)
qed

lemma decodeRecordKind_take:
  assumes "headerOk h" "0 \<le> dp_packetLength h" "dp_packetLength h \<le> int (length payload)"
  shows "decodeRecordKind kind (take (nat (dp_packetLength h)) payload) h = decodeRecordKind kind payload h"
proof (cases kind)
  case SignalingKind
  then show ?thesis using assms
    by (simp add: decodeRecordKind_def decodeQualcommSignaling_def headerOr_def lteRrc_take nrRrc_take lteNas_take)
qed (use nrMeasurement_take [OF assms(1,3)] in \<open>simp_all add: decodeRecordKind_def decodeQualcommNrConfigurationInfo_def
      decodeQualcommNrServingCellInfo_def decodeQualcommLteServingCellInfo_def headerOr_def\<close>)

text \<open>
  A container may hold more bytes than the prefix of its record states; the decoder makes of the stated bytes what
  it would make of the whole payload.
\<close>
lemma decode_stated_bytes:
  assumes "readDiagPrefix payload = Some (Some prefix)"
    "descriptorForPacket prefix (int (length payload)) = Some kind"
  shows "decodeQualcommRecord (take (nat (dp_packetLength prefix)) payload) None = decodeQualcommRecord payload None"
proof -
  let ?n = "dp_packetLength prefix"
  let ?payload = "take (nat ?n) payload"
  let ?h = "\<lparr>dp_packetLength = ?n, dp_logCode = dp_logCode prefix, dh_view = ?payload\<rparr>"
  note known = descriptor_known [OF assms(2)]
  have len: "int (length ?payload) = ?n" using known by (simp add: QUALCOMM_DIAG_HEADER_BYTES_def min_def) linarith
  have prefix': "readDiagPrefix ?payload = readDiagPrefix payload"
    using known by (simp add: readDiagPrefix_def QUALCOMM_DIAG_PREFIX_BYTES_def QUALCOMM_DIAG_HEADER_BYTES_def reads_prefix)
  have "descriptorForPacket prefix (int (length ?payload)) = Some kind"
    using assms(2) known unfolding len by (simp add: descriptorForPacket_def)
  then have "decodeQualcommRecord ?payload None = decodeRecordKind kind ?payload ?h"
    using decode_known [of ?payload prefix kind] assms(1) prefix' by simp
  also have "\<dots> = decodeRecordKind kind payload ?h"
    using decodeRecordKind_take [of ?h payload kind] known len
    by (simp add: headerOk_def QUALCOMM_DIAG_HEADER_BYTES_def)
  finally show ?thesis using decode_known [OF assms] by simp
qed

definition examplePrefix :: diagPrefix where "examplePrefix = \<lparr>dp_packetLength = 68, dp_logCode = 0xB97F\<rparr>"

text \<open>A signaling message: the plain outgoing service request of LTE.\<close>

definition exampleNas :: bytes where
  "exampleNas = [18, 0, 0xED, 0xB0] @ replicate 8 0 @ [1, 9, 5, 0, 0xC7, 0]"

lemma envelope_agrees_with_decoder_witness:
  "\<exists>b. isValidQualcommSignalingEnvelope (take 18 exampleNas) \<lparr>dp_packetLength = 18, dp_logCode = 0xB0ED\<rparr> = Some b \<and>
    (b \<longleftrightarrow> (\<exists>r. decodeQualcommRecord exampleNas None = Some (Some r)))"
proof -
  let ?prefix = "\<lparr>dp_packetLength = 18, dp_logCode = 0xB0ED\<rparr> :: diagPrefix"
  have "readDiagPrefix exampleNas = Some (Some ?prefix)"
    "descriptorForPacket ?prefix (int (length exampleNas)) = Some SignalingKind" by code_simp+
  from envelope_agrees_with_decoder [OF this] show ?thesis by (simp add: QUALCOMM_SIGNALING_ENVELOPE_BYTES_def)
qed

end
