(* ===== verification/NsgStreamTheorems.thy ===== *)
theory NsgStreamTheorems
  imports NsgStream NsgRecordTheorems
begin

text \<open>
  What the decoder of a stream promises: its loop over a chunk ends, and how a recording is cut into chunks
  makes no difference.
\<close>

section \<open>Results of a step\<close>

text \<open>A property of the state a step ends in, where it does not fail.\<close>

definition yields :: "(decoderState \<Rightarrow> bool) \<Rightarrow> failure + decoderState \<Rightarrow> bool" where
  "yields P result \<longleftrightarrow> (case result of Inl _ \<Rightarrow> True | Inr s \<Rightarrow> P s)"

lemma yields_simps [simp]: "yields P (Inl e)" "yields P (Inr s) \<longleftrightarrow> P s" "yields P (fail message s)"
  by (simp_all add: yields_def fail_def)

lemma yields_if: "(c \<Longrightarrow> yields P a) \<Longrightarrow> (\<not> c \<Longrightarrow> yields P b) \<Longrightarrow> yields P (if c then a else b)"
  by simp

lemma yields_bind: "yields Q result \<Longrightarrow> (\<And>s. Q s \<Longrightarrow> yields P (f s)) \<Longrightarrow> yields P (bindResult result f)"
  by (cases result) (simp_all add: bindResult_def)

lemma bindResult_simps [simp]: "bindResult (Inl e) f = Inl e" "bindResult (Inr x) f = f x"
  by (simp_all add: bindResult_def)

lemma bindResult_assoc: "bindResult (bindResult r f) g = bindResult r (\<lambda>x. bindResult (f x) g)"
  by (cases r) simp_all

section \<open>The recording is not finished by its records\<close>

lemma not_finished_steps:
  "setTimeAnchor payload r = Inr r' \<Longrightarrow> rb_finished r' = rb_finished r"
  "recordQualcommPayload payload ctx prefix r = Inr r' \<Longrightarrow> rb_finished r' = rb_finished r"
  "recordEvent payload marker ctx r = Inr r' \<Longrightarrow> rb_finished r' = rb_finished r"
proof -
  show "setTimeAnchor payload r = Inr r' \<Longrightarrow> rb_finished r' = rb_finished r"
    by (auto simp: setTimeAnchor_def split: option.splits if_splits)
  have keep: "keepRecord decoded ctx r = Inr r' \<Longrightarrow> rb_finished r' = rb_finished r" for decoded
    by (auto simp: keepRecord_def Let_def keepNrMeasurement_def keepNrConfiguration_def keepNrServingCell_def
        keepLteServingCell_def keepSignaling_def recognize_def split: if_splits sum.splits recordValue.splits)
  have truncated: "countTruncatedSignaling payload p r = Inr r' \<Longrightarrow> rb_finished r' = rb_finished r" for p
    by (auto simp: countTruncatedSignaling_def split: option.splits if_splits)
  show "recordQualcommPayload payload ctx prefix r = Inr r' \<Longrightarrow> rb_finished r' = rb_finished r"
    by (auto simp: recordQualcommPayload_def keep truncated split: option.splits)
  have emit: "rb_finished (fold emitCell cells r) = rb_finished r" for cells r
    by (induction cells arbitrary: r) (simp_all add: emitCell_def callCell_def Let_def)
  show "recordEvent payload marker ctx r = Inr r' \<Longrightarrow> rb_finished r' = rb_finished r"
    by (auto simp: recordEvent_def keepOutcome_def callEvent_def Let_def emit split: sum.splits prod.splits if_splits)
qed

section \<open>The invariant of the decoder\<close>

text \<open>In each phase that copies bytes there are bytes to come, and numbers read are not negative.\<close>

definition phaseOk :: "decoderState \<Rightarrow> bool" where
  "phaseOk s \<longleftrightarrow>
    (case dc_phase s of
       PhXml \<Rightarrow> 0 < dc_remaining s
     | PhPayload \<Rightarrow> 0 < dc_remaining s
     | PhPrefix \<Rightarrow> 0 < dc_remaining s
     | PhQualcommPrefix \<Rightarrow> length (dc_qualcommPrefix s) < 4 \<and> 4 \<le> dc_remaining s + int (length (dc_qualcommPrefix s))
     | PhTruncatedTail \<Rightarrow> (case dc_expectedDecodedSize s of Some e \<Rightarrow> dc_remaining s = e - dc_offset s | None \<Rightarrow> False)
     | _ \<Rightarrow> True)"

definition streamOk :: "decoderState \<Rightarrow> bool" where
  "streamOk s \<longleftrightarrow> phaseOk s \<and> \<not> rb_finished (dc_recording s) \<and>
    0 \<le> dc_varintValue s \<and> 0 \<le> dc_varintFactor s \<and> (\<forall>v\<in>set (dc_frame s). 0 \<le> v)"

text \<open>A state after \<open>n\<close> bytes more.\<close>

definition movedBy :: "int \<Rightarrow> decoderState \<Rightarrow> decoderState \<Rightarrow> bool" where
  "movedBy n s s' \<longleftrightarrow> streamOk s' \<and> dc_offset s' = dc_offset s + n \<and> dc_expectedDecodedSize s' = dc_expectedDecodedSize s"

definition calm :: "decoderState \<Rightarrow> bool" where
  "calm s \<longleftrightarrow> \<not> rb_finished (dc_recording s) \<and> 0 \<le> dc_varintValue s \<and> 0 \<le> dc_varintFactor s \<and> (\<forall>v\<in>set (dc_frame s). 0 \<le> v)"

lemma streamOk_calm: "streamOk s \<longleftrightarrow> phaseOk s \<and> calm s"
  by (simp add: streamOk_def calm_def)

text \<open>What completing a payload leaves alone.\<close>

definition keepsCalm :: "decoderState \<Rightarrow> decoderState \<Rightarrow> bool" where
  "keepsCalm s s' \<longleftrightarrow> (calm s \<longrightarrow> calm s') \<and> dc_offset s' = dc_offset s \<and> dc_expectedDecodedSize s' = dc_expectedDecodedSize s"

lemma keepsCalm_refl [simp]: "keepsCalm s s"
  by (simp add: keepsCalm_def)

lemma recorded_keeps:
  assumes "\<And>r. result = Inr r \<Longrightarrow> rb_finished r = rb_finished (dc_recording s)"
  shows "yields (keepsCalm s) (recorded s result)"
  using assms by (cases result) (simp_all add: recorded_def keepsCalm_def calm_def)

lemma storePayload_keeps: "yields (keepsCalm s) (storePayload s)"
proof (cases "dc_payload s")
  case None
  then show ?thesis by (simp add: storePayload_def Let_def)
next
  case (Some b)
  have anchor: "yields (keepsCalm s) (recorded s (setTimeAnchor (bufferBytes b) (dc_recording s)))"
    by (rule recorded_keeps) (rule not_finished_steps)
  have qualcomm: "yields (keepsCalm s)
      (recorded s (recordQualcommPayload (bufferBytes b) (contextOfRecord s) (dc_signalingValidationPrefix s) (dc_recording s)))"
    by (rule recorded_keeps) (rule not_finished_steps)
  have event: "yields (keepsCalm s) (recorded s (recordEvent (bufferBytes b) marker (contextOfRecord s) (dc_recording s)))" for marker
    by (rule recorded_keeps) (rule not_finished_steps)
  show ?thesis
    using Some anchor qualcomm event by (simp add: storePayload_def Let_def split: option.split)
qed

lemma calm_after_record [simp]: "calm (s\<lparr>dc_recording := observeRecord elapsedUs recordType (dc_recording s)\<rparr>) \<longleftrightarrow> calm s"
  by (simp add: calm_def observeRecord_def)

lemma completePayload_moves:
  assumes "calm s" "dc_offset s = dc_offset s0 + n" "dc_expectedDecodedSize s = dc_expectedDecodedSize s0"
  shows "yields (movedBy n s0) (completePayload s)"
  unfolding completePayload_def
proof (rule yields_bind [OF storePayload_keeps], goal_cases)
  case (1 s')
  then have "calm s'" "dc_offset s' = dc_offset s0 + n" "dc_expectedDecodedSize s' = dc_expectedDecodedSize s0"
    using assms by (simp_all add: keepsCalm_def)
  then show ?case by (simp add: movedBy_def streamOk_calm phaseOk_def calm_def)
qed

lemma openPayload_calm [simp]: "calm (openPayload recordType len s) \<longleftrightarrow> calm s"
  "dc_offset (openPayload recordType len s) = dc_offset s"
  "dc_expectedDecodedSize (openPayload recordType len s) = dc_expectedDecodedSize s"
  by (simp_all add: openPayload_def Let_def calm_def)

lemma openPayload_phase: "0 < len \<Longrightarrow> phaseOk (openPayload recordType len s)"
  by (simp add: openPayload_def Let_def phaseOk_def QUALCOMM_DIAG_PREFIX_BYTES_def)

lemma beginPayload_moves:
  assumes "calm s" "length (dc_frame s) = 6" "dc_offset s = dc_offset s0 + n" "dc_expectedDecodedSize s = dc_expectedDecodedSize s0"
  shows "yields (movedBy n s0) (beginPayload s)"
proof -
  have len: "0 \<le> dc_frame s ! 5" using assms(1,2) by (simp add: calm_def)
  have tail: "yields (movedBy n s0) (Inr (s\<lparr>dc_remaining := the (dc_expectedDecodedSize s) - dc_offset s, dc_phase := PhTruncatedTail,
      dc_recording := markInputTruncated (dc_recording s), dc_frame := []\<rparr>))" if "exceeds (dc_frame s ! 5) s"
    using that assms by (auto simp: movedBy_def streamOk_calm phaseOk_def calm_def exceeds_def markInputTruncated_def split: option.splits)
  have opened: "yields (movedBy n s0) (Inr (openPayload (dc_frame s ! 3) (dc_frame s ! 5) s))" if "dc_frame s ! 5 \<noteq> 0"
    using that len assms openPayload_phase by (simp add: movedBy_def streamOk_calm)
  have complete: "yields (movedBy n s0) (completePayload (openPayload (dc_frame s ! 3) (dc_frame s ! 5) s))"
    using assms by (intro completePayload_moves) simp_all
  show ?thesis
    using tail opened complete by (auto simp: beginPayload_def Let_def split: option.splits)
qed

lemma byte_bounds: "0 \<le> uint (b :: 8 word)" "uint b < 256"
  using unsigned_less [of b] by simp_all

lemma endVarint_moves:
  assumes "calm s" "0 \<le> v" "dc_offset s = dc_offset s0 + n" "dc_expectedDecodedSize s = dc_expectedDecodedSize s0"
    "dc_phase s = PhXmlLength \<or> dc_phase s = PhHeader"
  shows "yields (movedBy n s0) (endVarint v s)"
proof -
  have frame: "calm (s\<lparr>dc_frame := dc_frame s @ [v]\<rparr>)" using assms(1,2) by (auto simp: calm_def)
  have started: "yields (movedBy n s0) (beginPayload (s\<lparr>dc_frame := dc_frame s @ [v]\<rparr>))" if "length (dc_frame s) = 5"
    by (rule beginPayload_moves) (use assms frame that in auto)
  show ?thesis
    using started frame assms
    by (auto simp: endVarint_def Let_def movedBy_def streamOk_calm phaseOk_def calm_def)
qed

lemma readVarint_moves:
  assumes "streamOk s" "dc_phase s = PhXmlLength \<or> dc_phase s = PhHeader"
  shows "yields (movedBy 1 s) (readVarint byte s)"
proof -
  let ?v = "dc_varintValue s + lowBits 7 (uint byte) * dc_varintFactor s"
  have v: "0 \<le> ?v" using assms(1) lowBits_bounds(1) by (simp add: streamOk_def)
  have ended: "yields (movedBy 1 s) (endVarint ?v (s\<lparr>dc_offset := dc_offset s + 1, dc_varintValue := 0, dc_varintFactor := 1, dc_varintBytes := 0\<rparr>))"
    by (rule endVarint_moves) (use assms v in \<open>auto simp: streamOk_def calm_def advance_def\<close>)
  show ?thesis
    using ended v assms
    by (auto simp: readVarint_def Let_def advance_def movedBy_def streamOk_calm phaseOk_def calm_def)
qed

lemma readMarker_moves:
  assumes "streamOk s" "dc_phase s = PhPrefix"
  shows "yields (movedBy 1 s) (readMarker byte s)"
  unfolding readMarker_def Let_def
  by (intro yields_if completePayload_moves)
    (use assms in \<open>auto simp: streamOk_calm calm_def phaseOk_def consume_def movedBy_def\<close>)

lemma endQualcommPrefix_moves:
  assumes "calm s" "0 \<le> dc_remaining s" "dc_offset s = dc_offset s0 + n" "dc_expectedDecodedSize s = dc_expectedDecodedSize s0"
  shows "yields (movedBy n s0) (endQualcommPrefix s)"
proof -
  have "yields (movedBy n s0) (if dc_remaining t = 0 then completePayload t else Inr t)"
    if "calm t" "dc_remaining t = dc_remaining s" "dc_offset t = dc_offset s" "dc_phase t = PhPayload"
      "dc_expectedDecodedSize t = dc_expectedDecodedSize s" for t
    by (intro yields_if completePayload_moves) (use assms that in \<open>auto simp: movedBy_def streamOk_calm phaseOk_def\<close>)
  then show ?thesis
    using assms(1) by (auto simp: endQualcommPrefix_def Let_def calm_def split: option.splits)
qed

lemma endPayload_moves:
  assumes "calm s" "dc_phase s = PhXml \<or> dc_phase s = PhPayload" "dc_offset s = dc_offset s0 + n"
    "dc_expectedDecodedSize s = dc_expectedDecodedSize s0"
  shows "yields (movedBy n s0) (endPayload s)"
proof -
  have "yields (movedBy n s0) (endXml s)"
    using assms by (auto simp: endXml_def movedBy_def streamOk_calm phaseOk_def calm_def setHeaderXml_def split: option.splits)
  moreover have "yields (movedBy n s0) (completePayload s)" by (rule completePayload_moves [OF assms(1,3,4)])
  ultimately show ?thesis
    using assms by (auto simp: endPayload_def movedBy_def streamOk_calm phaseOk_def)
qed

lemma pushRound_moves:
  assumes "streamOk s" "bs \<noteq> []" "int (length bs) \<le> roundLength bs s"
  shows "yields (movedBy (int (length bs)) s) (pushRound bs s)"
proof (cases "dc_phase s")
  case PhMagic
  then have "length bs = 1" using assms(2,3) by (cases bs) (auto simp: roundLength_def)
  then show ?thesis
    using PhMagic assms(1)
    by (auto simp: pushRound_def Let_def readMagic_def advance_def movedBy_def streamOk_calm phaseOk_def calm_def)
next
  case PhXmlLength
  then have "length bs = 1" using assms(2,3) by (cases bs) (auto simp: roundLength_def)
  then show ?thesis using PhXmlLength readVarint_moves [OF assms(1)] by (simp add: pushRound_def Let_def)
next
  case PhHeader
  then have "length bs = 1" using assms(2,3) by (cases bs) (auto simp: roundLength_def)
  then show ?thesis using PhHeader readVarint_moves [OF assms(1)] by (simp add: pushRound_def Let_def)
next
  case PhPrefix
  then have "length bs = 1" using assms(2,3) by (cases bs) (auto simp: roundLength_def)
  then show ?thesis using PhPrefix readMarker_moves [OF assms(1)] by (simp add: pushRound_def Let_def)
next
  case PhQualcommPrefix
  let ?s = "consume (int (length bs)) (s\<lparr>dc_qualcommPrefix := dc_qualcommPrefix s @ bs\<rparr>)"
  have facts: "calm s" "length (dc_qualcommPrefix s) < 4" "4 \<le> dc_remaining s + int (length (dc_qualcommPrefix s))"
    using assms(1) PhQualcommPrefix by (simp_all add: streamOk_calm phaseOk_def)
  have n: "int (length bs) \<le> dc_remaining s" "int (length bs) \<le> 4 - int (length (dc_qualcommPrefix s))"
    using assms(3) PhQualcommPrefix by (simp_all add: roundLength_def QUALCOMM_DIAG_PREFIX_BYTES_def)
  have "yields (movedBy (int (length bs)) s) (endQualcommPrefix ?s)"
    by (rule endQualcommPrefix_moves) (use facts n in \<open>auto simp: calm_def consume_def\<close>)
  moreover have "movedBy (int (length bs)) s ?s" if "int (length (dc_qualcommPrefix ?s)) < QUALCOMM_DIAG_PREFIX_BYTES"
    using that facts n PhQualcommPrefix
    by (auto simp: movedBy_def streamOk_calm phaseOk_def calm_def consume_def QUALCOMM_DIAG_PREFIX_BYTES_def)
  ultimately show ?thesis using PhQualcommPrefix by (simp add: pushRound_def Let_def)
next
  case PhTruncatedTail
  then show ?thesis using assms(1)
    by (auto simp: pushRound_def Let_def movedBy_def streamOk_calm phaseOk_def calm_def consume_def split: option.splits)
next
  case PhXml
  have "yields (movedBy (int (length bs)) s)
      (endPayload (consume (int (length bs)) (s\<lparr>dc_payload := map_option (writeBuffer bs) (dc_payload s)\<rparr>)))"
    by (rule endPayload_moves) (use assms(1) PhXml in \<open>auto simp: streamOk_calm calm_def consume_def\<close>)
  then show ?thesis using PhXml by (simp add: pushRound_def Let_def)
next
  case PhPayload
  have "yields (movedBy (int (length bs)) s)
      (endPayload (consume (int (length bs)) (s\<lparr>dc_payload := map_option (writeBuffer bs) (dc_payload s)\<rparr>)))"
    by (rule endPayload_moves) (use assms(1) PhPayload in \<open>auto simp: streamOk_calm calm_def consume_def\<close>)
  then show ?thesis using PhPayload by (simp add: pushRound_def Let_def)
qed

section \<open>One byte at a time\<close>

primrec bytewise :: "bytes \<Rightarrow> decoderState \<Rightarrow> failure + decoderState" where
  "bytewise [] s = Inr s"
| "bytewise (b # bs) s = bindResult (pushRound [b] s) (bytewise bs)"

lemma bytewise_append: "bytewise (as @ bs) s = bindResult (bytewise as s) (bytewise bs)"
proof (induction as arbitrary: s)
  case (Cons a as)
  then show ?case by (cases "pushRound [a] s") simp_all
qed simp

lemma writeBuffer_append: "writeBuffer ys (writeBuffer xs b) = writeBuffer (xs @ ys) b"
proof -
  have "n - (l + min (length xs) (n - l)) = n - l - length xs" for n l :: nat by simp
  then show ?thesis by (simp add: writeBuffer_def)
qed

text \<open>Copying bytes into the buffer, in one go or in two.\<close>

definition copied :: "bytes \<Rightarrow> decoderState \<Rightarrow> decoderState" where
  "copied bs s = consume (int (length bs)) (s\<lparr>dc_payload := map_option (writeBuffer bs) (dc_payload s)\<rparr>)"

lemma copied_append: "copied bs (copied as s) = copied (as @ bs) s"
  by (cases "dc_payload s") (simp_all add: copied_def consume_def writeBuffer_append algebra_simps)

lemma copied_simps [simp]:
  "dc_phase (copied bs s) = dc_phase s" "dc_remaining (copied bs s) = dc_remaining s - int (length bs)"
  by (simp_all add: copied_def consume_def)

lemma pushRound_copies:
  "dc_phase s = PhXml \<or> dc_phase s = PhPayload \<Longrightarrow> pushRound bs s = endPayload (copied bs s)"
  by (auto simp: pushRound_def copied_def Let_def)

text \<open>A copy of several bytes begins with its first one, and goes on in the same phase.\<close>

lemma round_begins:
  assumes "int (length (b # bs)) \<le> roundLength (b # bs) s" "bs \<noteq> []"
  shows "\<exists>s'. pushRound [b] s = Inr s' \<and> pushRound (b # bs) s = pushRound bs s' \<and> int (length bs) \<le> roundLength bs s'"
proof -
  have pos: "0 < int (length bs)" using assms(2) by (cases bs) simp_all
  have copying: ?thesis if "dc_phase s = PhXml \<or> dc_phase s = PhPayload"
  proof -
    have "1 + int (length bs) \<le> dc_remaining s" using that assms(1) by (auto simp: roundLength_def)
    then have one: "pushRound [b] s = Inr (copied [b] s)" and rest: "int (length bs) \<le> roundLength bs (copied [b] s)"
      using that pos by (auto simp: pushRound_copies endPayload_def roundLength_def simp del: length_greater_0_conv of_nat_0_less_iff)
    have "pushRound (b # bs) s = pushRound bs (copied [b] s)"
      using that copied_append [of bs "[b]" s] by (simp add: pushRound_copies)
    then show ?thesis using one rest by blast
  qed
  show ?thesis
  proof (cases "dc_phase s")
    case PhQualcommPrefix
    then have "length (dc_qualcommPrefix s) < 3"
      using assms(1) pos by (auto simp: roundLength_def QUALCOMM_DIAG_PREFIX_BYTES_def simp del: length_greater_0_conv)
    then show ?thesis
      using PhQualcommPrefix assms(1) pos
      by (simp add: roundLength_def pushRound_def Let_def consume_def QUALCOMM_DIAG_PREFIX_BYTES_def algebra_simps)
  next
    case PhTruncatedTail
    then show ?thesis
      using assms(1) pos by (simp add: roundLength_def pushRound_def Let_def consume_def algebra_simps)
  qed (use copying assms pos in \<open>simp_all add: roundLength_def\<close>)
qed

lemma round_is_bytewise:
  "bs \<noteq> [] \<Longrightarrow> int (length bs) \<le> roundLength bs s \<Longrightarrow> pushRound bs s = bytewise bs s"
proof (induction bs arbitrary: s)
  case (Cons b bs)
  show ?case
  proof (cases "bs = []")
    case True
    have "bindResult r Inr = r" for r :: "failure + decoderState" by (cases r) simp_all
    then show ?thesis using True by (simp add: bindResult_def split: sum.split)
  next
    case False
    then obtain s' where "pushRound [b] s = Inr s'" "pushRound (b # bs) s = pushRound bs s'" "int (length bs) \<le> roundLength bs s'"
      using round_begins [OF Cons.prems(2)] by blast
    then show ?thesis using Cons.IH False by simp
  qed
qed simp

section \<open>The loop over a chunk ends\<close>

lemma roundLength_bounds:
  assumes "streamOk s" "chunk \<noteq> []" "\<not> exceeds (int (length chunk)) s"
  shows "1 \<le> roundLength chunk s" "roundLength chunk s \<le> int (length chunk)"
proof -
  have len: "1 \<le> int (length chunk)" using assms(2) by (cases chunk) simp_all
  show "1 \<le> roundLength chunk s"
    using assms(1,3) len
    by (auto simp: roundLength_def streamOk_def phaseOk_def exceeds_def QUALCOMM_DIAG_PREFIX_BYTES_def split: phase.splits option.splits)
  show "roundLength chunk s \<le> int (length chunk)"
    using len by (auto simp: roundLength_def split: phase.splits)
qed

lemma roundLength_take:
  "0 \<le> roundLength chunk s \<Longrightarrow> nat (roundLength chunk s) \<le> length chunk \<Longrightarrow>
    roundLength (take (nat (roundLength chunk s)) chunk) s = roundLength chunk s"
  by (cases "dc_phase s") (simp_all add: roundLength_def min_def)

lemma moved_ok: "movedBy n s s' \<Longrightarrow> streamOk s'"
  by (simp add: movedBy_def)

lemma moved_exceeds: "movedBy n s s' \<Longrightarrow> exceeds m s' \<longleftrightarrow> exceeds (n + m) s"
  by (auto simp: movedBy_def exceeds_def split: option.splits)

lemma pushLoop_is_bytewise:
  "streamOk s \<Longrightarrow> \<not> exceeds (int (length chunk)) s \<Longrightarrow> pushLoop chunk s = Some (bytewise chunk s)"
proof (induction "length chunk" arbitrary: chunk s rule: less_induct)
  case less
  show ?case
  proof (cases "chunk = []")
    case True
    then show ?thesis by (subst pushLoop.simps) simp
  next
    case False
    let ?n = "nat (roundLength chunk s)"
    have n: "0 < ?n" "?n \<le> length chunk" using roundLength_bounds [OF less.prems(1) False less.prems(2)] by linarith+
    have taken: "take ?n chunk \<noteq> []" "length (take ?n chunk) = ?n" using n False by simp_all
    have round': "roundLength (take ?n chunk) s = roundLength chunk s"
      by (rule roundLength_take) (use n in linarith)+
    have fits: "int (length (take ?n chunk)) \<le> roundLength (take ?n chunk) s" using round' taken(2) n(1) by linarith
    have moved: "yields (movedBy (int ?n) s) (pushRound (take ?n chunk) s)"
      using pushRound_moves [OF less.prems(1) taken(1) fits] taken(2) by simp
    have split': "bytewise chunk s = bindResult (pushRound (take ?n chunk) s) (bytewise (drop ?n chunk))"
      using bytewise_append [of "take ?n chunk" "drop ?n chunk" s] round_is_bytewise [OF taken(1) fits] by simp
    show ?thesis
    proof (cases "pushRound (take ?n chunk) s")
      case (Inl e)
      then show ?thesis using False split' by (subst pushLoop.simps) simp
    next
      case (Inr next')
      then have "streamOk next'" "\<not> exceeds (int (length (drop ?n chunk))) next'"
          using moved Inr less.prems(2) n(2) moved_ok moved_exceeds [of "int ?n" s next' "int (length (drop ?n chunk))"]
        by (simp_all add: of_nat_diff)
      then have "pushLoop (drop ?n chunk) next' = Some (bytewise (drop ?n chunk) next')"
        using less.hyps n by simp
      then show ?thesis using False split' Inr by (subst pushLoop.simps) simp
    qed
  qed
qed

section \<open>Chunks\<close>

text \<open>A list of chunks, pushed one after another until one fails.\<close>

primrec pushAll :: "bytes list \<Rightarrow> decoderState \<Rightarrow> (failure + decoderState) option" where
  "pushAll [] s = Some (Inr s)"
| "pushAll (chunk # chunks) s = (case push chunk s of
     None \<Rightarrow> None
   | Some (Inl e) \<Rightarrow> Some (Inl e)
   | Some (Inr next) \<Rightarrow> pushAll chunks next)"

lemma bytewise_moves:
  "streamOk s \<Longrightarrow> \<not> exceeds (int (length bs)) s \<Longrightarrow> yields (movedBy (int (length bs)) s) (bytewise bs s)"
proof (induction bs arbitrary: s)
  case Nil
  then show ?case by (simp add: movedBy_def)
next
  case (Cons b bs)
  have one: "1 \<le> roundLength [b] s"
    by (rule roundLength_bounds) (use Cons.prems in \<open>auto simp: exceeds_def split: option.splits\<close>)
  have "yields (movedBy 1 s) (pushRound [b] s)"
    using pushRound_moves [OF Cons.prems(1), of "[b]"] one by simp
  then show ?case
    unfolding bytewise.simps
  proof (rule yields_bind, goal_cases)
    case (1 s')
    then have "streamOk s'" "\<not> exceeds (int (length bs)) s'"
      using Cons.prems(2) moved_ok moved_exceeds by (simp_all add: moved_exceeds [OF 1])
    then have "yields (movedBy (int (length bs)) s') (bytewise bs s')" by (rule Cons.IH)
    then show ?case
      using 1 by (auto simp: movedBy_def yields_def split: sum.splits)
  qed
qed

lemma pushAll_is_bytewise:
  "streamOk s \<Longrightarrow> \<not> exceeds (int (length (concat chunks))) s \<Longrightarrow> pushAll chunks s = Some (bytewise (concat chunks) s)"
proof (induction chunks arbitrary: s)
  case (Cons chunk chunks)
  have fits: "\<not> exceeds (int (length chunk)) s"
    using Cons.prems(2) by (auto simp: exceeds_def split: option.splits)
  have pushed: "push chunk s = Some (bytewise chunk s)"
    using Cons.prems(1) fits pushLoop_is_bytewise by (simp add: push_def streamOk_def)
  show ?case
  proof (cases "bytewise chunk s")
    case (Inr next')
    then have "streamOk next'" "\<not> exceeds (int (length (concat chunks))) next'"
      using bytewise_moves [OF Cons.prems(1) fits] Cons.prems(2) moved_ok
        moved_exceeds [of "int (length chunk)" s next' "int (length (concat chunks))"] by simp_all
    then show ?thesis using pushed Inr Cons.IH by (simp add: bytewise_append)
  qed (use pushed in \<open>simp add: bytewise_append\<close>)
qed simp

lemma newDecoder_ok: "newDecoder source options = Inr s \<Longrightarrow> streamOk s"
  by (auto simp: newDecoder_def Let_def streamOk_def phaseOk_def newRecorder_def split: if_splits)

text \<open>
  C4. How a recording is cut into chunks makes no difference: two lists of chunks with the same bytes, no
  more than the size declared for the file, leave a new decoder in the same state or fail at the same offset with the
  same message, and the loop over the bytes of a chunk always ends.
\<close>

theorem chunks_do_not_matter:
  assumes "newDecoder source options = Inr s" "concat chunks = concat chunks'" "\<not> exceeds (int (length (concat chunks))) s"
  shows "pushAll chunks s = pushAll chunks' s \<and> pushAll chunks s \<noteq> None"
  using pushAll_is_bytewise [OF newDecoder_ok [OF assms(1)], of chunks]
    pushAll_is_bytewise [OF newDecoder_ok [OF assms(1)], of chunks'] assms(2,3) by simp

section \<open>An example\<close>

definition exampleSource :: nsgSource where
  "exampleSource = \<lparr>so_name = ''a.nsg'', so_size = 8, so_decodedSize = None\<rparr>"

definition exampleOptions :: parseOptions where
  "exampleOptions = \<lparr>po_mode = CompleteMode, po_allowIncompleteFinalRecord = False, po_onCell = False, po_onEvent = False, po_gnbidLength = None\<rparr>"

definition exampleDecoder :: decoderState where
  "exampleDecoder = (case newDecoder exampleSource exampleOptions of Inr s \<Rightarrow> s)"

lemma chunks_do_not_matter_witness:
  "pushAll [[0x21, 0x4E], [0x53, 0x47, 1, 0x3C], [5]] exampleDecoder = pushAll [[0x21], [], [0x4E, 0x53, 0x47, 1, 0x3C, 5]] exampleDecoder \<and>
   pushAll [[0x21, 0x4E], [0x53, 0x47, 1, 0x3C], [5]] exampleDecoder \<noteq> None"
proof -
  have started: "newDecoder exampleSource exampleOptions = Inr exampleDecoder"
    by (simp add: exampleDecoder_def newDecoder_def Let_def exampleSource_def expectedDecodedSize_def isSize_def isSafeInt_def MAX_SAFE_def)
  have fits: "\<not> exceeds (int (length (concat [[0x21, 0x4E], [0x53, 0x47, 1, 0x3C], [5 :: 8 word]]))) exampleDecoder"
    by code_simp
  show ?thesis by (rule chunks_do_not_matter [OF started _ fits]) simp
qed

end
