(* ===== verification/NsgEventTheorems.thy ===== *)
theory NsgEventTheorems
  imports NsgEvents
begin

text \<open>
  What the Android events of a recording are read as: the history of the operators answers as the
  streaming state did at that point, and the identity of an NR cell splits into its gNB and cell without loss.
\<close>

section \<open>Binary search\<close>

lemma searchLoop_spec:
  assumes "low \<le> high" "\<And>i j. i \<le> j \<Longrightarrow> j < high \<Longrightarrow> earlier j \<Longrightarrow> earlier i"
  shows "low \<le> searchLoop earlier low high \<and> searchLoop earlier low high \<le> high \<and>
    (\<forall>i. low \<le> i \<and> i < searchLoop earlier low high \<longrightarrow> earlier i) \<and>
    (\<forall>i. searchLoop earlier low high \<le> i \<and> i < high \<longrightarrow> \<not> earlier i)"
  using assms
proof (induction earlier low high rule: searchLoop.induct)
  case (1 earlier low high)
  show ?case
  proof (cases "high \<le> low")
    case False
    define middle where "middle = (low + high) div 2"
    have bounds: "low \<le> middle" "middle < high" using False by (auto simp: middle_def)
    show ?thesis
    proof (cases "earlier middle")
      case True
      have eq: "searchLoop earlier low high = searchLoop earlier (middle + 1) high"
        using False True by (subst searchLoop.simps) (simp add: middle_def Let_def)
      have IH: "middle + 1 \<le> searchLoop earlier (middle + 1) high \<and> searchLoop earlier (middle + 1) high \<le> high \<and>
          (\<forall>i. middle + 1 \<le> i \<and> i < searchLoop earlier (middle + 1) high \<longrightarrow> earlier i) \<and>
          (\<forall>i. searchLoop earlier (middle + 1) high \<le> i \<and> i < high \<longrightarrow> \<not> earlier i)"
        using "1.IH"(1) [OF False middle_def True] "1.prems"(2) bounds by simp
      have "earlier i" if "low \<le> i" "i < searchLoop earlier low high" for i
      proof (cases "i \<le> middle")
        case True
        then show ?thesis using "1.prems"(2) [of i middle] bounds \<open>earlier middle\<close> by simp
      qed (use that IH eq in simp)
      then show ?thesis using IH bounds eq by auto
    next
      case no: False
      have eq: "searchLoop earlier low high = searchLoop earlier low middle"
        using False no by (subst searchLoop.simps) (simp add: middle_def Let_def)
      have IH: "low \<le> searchLoop earlier low middle \<and> searchLoop earlier low middle \<le> middle \<and>
          (\<forall>i. low \<le> i \<and> i < searchLoop earlier low middle \<longrightarrow> earlier i) \<and>
          (\<forall>i. searchLoop earlier low middle \<le> i \<and> i < middle \<longrightarrow> \<not> earlier i)"
        using "1.IH"(2) [OF False middle_def no] "1.prems"(2) bounds by simp
      have "\<not> earlier i" if "searchLoop earlier low high \<le> i" "i < high" for i
      proof (cases "i < middle")
        case False
        then show ?thesis using "1.prems"(2) [of middle i] that no by auto
      qed (use that IH eq in simp)
      then show ?thesis using IH bounds eq by auto
    qed
  qed (use "1.prems" in \<open>auto simp: searchLoop.simps [of _ low]\<close>)
qed

lemma searchLoop_split:
  assumes "\<forall>x\<in>set xs. P x" "\<forall>y\<in>set ys. \<not> P y"
  shows "searchLoop (\<lambda>i. P ((xs @ ys) ! i)) 0 (length (xs @ ys)) = length xs"
proof -
  define earlier where "earlier = (\<lambda>i. P ((xs @ ys) ! i))"
  define r where "r = searchLoop earlier 0 (length (xs @ ys))"
  have at: "earlier i \<longleftrightarrow> i < length xs" if "i < length (xs @ ys)" for i
    using that assms by (auto simp: nth_append earlier_def)
  have "r \<le> length (xs @ ys) \<and> (\<forall>i. 0 \<le> i \<and> i < r \<longrightarrow> earlier i) \<and> (\<forall>i. r \<le> i \<and> i < length (xs @ ys) \<longrightarrow> \<not> earlier i)"
    using searchLoop_spec [of 0 "length (xs @ ys)" earlier] at unfolding r_def by simp
  then have r: "r \<le> length (xs @ ys)" "\<And>i. i < r \<Longrightarrow> earlier i" "\<And>i. r \<le> i \<Longrightarrow> i < length (xs @ ys) \<Longrightarrow> \<not> earlier i" by auto
  have "\<not> r < length xs" using at [of r] r(3) [of r] by auto
  moreover have "\<not> length xs < r" using at [of "length xs"] r(1) r(2) [of "length xs"] by linarith
  ultimately show ?thesis by (simp add: r_def earlier_def)
qed

section \<open>The operators of the slots\<close>

definition changesFor :: "number \<Rightarrow> number \<Rightarrow> operatorSnapshot list \<Rightarrow> operatorSnapshot list" where
  "changesFor slotId subId = filter (\<lambda>c. os_slotId c = slotId \<and> os_subId c = Some subId)"

lemma changesFor_simps [simp]:
  "changesFor slotId subId [] = []"
  "changesFor slotId subId (xs @ ys) = changesFor slotId subId xs @ changesFor slotId subId ys"
  by (simp_all add: changesFor_def)

text \<open>
  The changes reported so far end, for each slot and subscription, with what the slot holds; where the slot
  holds another subscription they end with no operators at all.
\<close>

definition lastAgrees :: "number \<Rightarrow> number \<Rightarrow> operatorSnapshot option \<Rightarrow> operatorSnapshot list \<Rightarrow> bool" where
  "lastAgrees slotId subId held changes \<longleftrightarrow>
    (case held of
       Some p \<Rightarrow>
         os_slotId p = slotId \<and>
         (if os_subId p = Some subId then changes \<noteq> [] \<and> last changes = p
          else changes = [] \<or> os_operators (last changes) = [])
     | None \<Rightarrow> changes = [])"

definition changesOk :: "operatorState \<Rightarrow> bool" where
  "changesOk s \<longleftrightarrow> 
    (\<forall>slotId subId. lastAgrees slotId subId (map_of (st_slots s) slotId) (changesFor slotId subId (st_changes s)))"

text \<open>A step for an event keeps this, and reports changes of the version of the event only.\<close>

definition reports :: "nsgEvent \<Rightarrow> operatorState \<Rightarrow> operatorState \<Rightarrow> bool" where
  "reports event s s' \<longleftrightarrow>
    (changesOk s \<longrightarrow> changesOk s') \<and>
    (\<exists>cs. st_changes s' = st_changes s @ cs \<and> (\<forall>c\<in>set cs. eventVersion.truncate c = versionOf event))"

lemma reports_refl [simp]: "reports event s s"
  by (simp add: reports_def)

lemma reports_trans: "reports event s s' \<Longrightarrow> reports event s' s'' \<Longrightarrow> reports event s s''"
  unfolding reports_def by (metis (no_types, lifting) Un_iff append_assoc set_append)

lemma reports_other_fields:
  "st_slots s' = st_slots s \<Longrightarrow> st_changes s' = st_changes s \<Longrightarrow> reports event s s'"
  by (simp add: reports_def changesOk_def)

lemma snapshot_simps [simp]:
  "os_slotId (snapshot version slotId subId operators) = slotId"
  "os_subId (snapshot version slotId subId operators) = subId"
  "os_operators (snapshot version slotId subId operators) = operators"
  "eventVersion.truncate (snapshot version slotId subId operators) = version"
  by (simp_all add: snapshot_def eventVersion.defs)

lemma setSlot_reports: "reports event s (setSlot slotId subId event operators s)"
proof -
  define version where "version = versionOf event"
  define state where "state = snapshot version slotId subId operators"
  define previous where "previous = map_of (st_slots s) slotId"
  define left where "left = (case previous of
      Some p \<Rightarrow> (if os_subId p \<noteq> None \<and> os_subId p \<noteq> subId then [snapshot version slotId (os_subId p) []] else [])
    | None \<Rightarrow> [])"
  define s' where "s' = s\<lparr>st_slots := AList.update slotId state (st_slots s),
      st_changes := st_changes s @ left @ (if subId \<noteq> None then [state] else [])\<rparr>"
  have "lastAgrees k u (map_of (st_slots s') k) (changesFor k u (st_changes s'))" if ok: "changesOk s" for k u
  proof -
    have at: "lastAgrees k u (map_of (st_slots s) k) (changesFor k u (st_changes s))" using ok by (simp add: changesOk_def)
    have slots: "map_of (st_slots s') k = (if k = slotId then Some state else map_of (st_slots s) k)"
      by (simp add: s'_def update_conv)
    show ?thesis
    proof (cases "k = slotId")
      case False
      then have "changesFor k u (st_changes s') = changesFor k u (st_changes s)"
        by (auto simp: s'_def left_def state_def changesFor_def split: option.splits)
      with False at slots show ?thesis by simp
    next
      case True
      have old: "changesFor k u left = (case previous of
          Some p \<Rightarrow> (if os_subId p = Some u \<and> subId \<noteq> Some u then [snapshot version slotId (Some u) []] else [])
        | None \<Rightarrow> [])"
        using True by (auto simp: left_def changesFor_def split: option.splits)
      have new: "changesFor k u (if subId \<noteq> None then [state] else []) = (if subId = Some u then [state] else [])"
        using True by (auto simp: state_def changesFor_def)
      show ?thesis
        using at True slots old new
        by (cases previous) (auto simp: lastAgrees_def s'_def state_def previous_def split: if_splits)
    qed
  qed
  moreover have "\<forall>c\<in>set (left @ (if subId \<noteq> None then [state] else [])). eventVersion.truncate c = version"
    by (auto simp: left_def state_def split: option.splits)
  ultimately have "reports event s s'"
    by (auto simp: reports_def changesOk_def s'_def version_def)
  then show ?thesis
    unfolding s'_def state_def left_def previous_def version_def by (simp add: setSlot_def Let_def)
qed

lemma clearSlots_reports: "reports event s (clearSlots P event s)"
proof -
  have "reports event s (fold (\<lambda>(_, state) s. if P state then setSlot (os_slotId state) None event [] s else s) slots s)" for slots
  proof (induction slots arbitrary: s)
    case (Cons entry slots)
    obtain k state where entry: "entry = (k, state)" by (cases entry) auto
    have "reports event s (if P state then setSlot (os_slotId state) None event [] s else s)"
      by (simp add: setSlot_reports)
    from reports_trans [OF this Cons.IH] show ?case by (simp add: entry)
  qed simp
  then show ?thesis by (simp add: clearSlots_def)
qed

lemma processSubscriptions_reports: "reports event s (processSubscriptions event s)"
proof -
  let ?s = "s\<lparr>st_subscriptionVersion := Some (versionOf event)\<rparr>"
  let ?moved = "subscriptionMoved (st_subscriptionHomes s) (subscriptionHomes (ev_data event))"
  have "reports event s ?s" by (rule reports_other_fields) simp_all
  moreover have "reports event ?s (clearSlots ?moved event ?s)" by (rule clearSlots_reports)
  moreover have "reports event (clearSlots ?moved event ?s) ((clearSlots ?moved event ?s)\<lparr>st_subscriptionHomes := homes\<rparr>)" for homes
    by (rule reports_other_fields) simp_all
  ultimately show ?thesis by (auto simp: processSubscriptions_def Let_def intro: reports_trans)
qed

lemma processServiceState_reports: "reports event s (processServiceState event s)"
proof -
  let ?s = "s\<lparr>st_unattributedServiceVersion := Some (versionOf event)\<rparr>"
  have "reports event s ?s" by (rule reports_other_fields) simp_all
  then have "reports event s (clearSlots P event ?s)" for P using clearSlots_reports reports_trans by blast
  moreover have "reports event s (setSlot slotId subId event operators (clearSlots P event s))" for slotId subId operators P
    using clearSlots_reports setSlot_reports reports_trans by blast
  ultimately show ?thesis
    by (auto simp: processServiceState_def Let_def setSlot_reports split: option.splits)
qed

lemma processOperators_reports: "reports event s (processOperators event s)"
  by (simp add: processOperators_def processSubscriptions_reports processServiceState_reports)

lemma changesOk_new: "changesOk newOperatorState"
  by (simp add: changesOk_def lastAgrees_def newOperatorState_def)

lemma changesOk_fold: "changesOk s \<Longrightarrow> changesOk (fold processOperators events s)"
  by (induction events arbitrary: s) (use processOperators_reports in \<open>auto simp: reports_def\<close>)

lemma changes_fold:
  "\<exists>cs. st_changes (fold processOperators events s) = st_changes s @ cs \<and>
    (\<forall>c\<in>set cs. \<exists>e\<in>set events. eventVersion.truncate c = versionOf e)"
proof (induction events arbitrary: s)
  case (Cons event events)
  obtain cs where "st_changes (processOperators event s) = st_changes s @ cs" "\<forall>c\<in>set cs. eventVersion.truncate c = versionOf event"
    using processOperators_reports [of event s] by (auto simp: reports_def)
  moreover obtain ds where "st_changes (fold processOperators events (processOperators event s)) = st_changes (processOperators event s) @ ds"
    "\<forall>c\<in>set ds. \<exists>e\<in>set events. eventVersion.truncate c = versionOf e"
    using Cons.IH by blast
  ultimately show ?case by (intro exI [of _ "cs @ ds"]) auto
qed simp

section \<open>The history\<close>

lemma map_of_history:
  "map_of (fold addToHistory cs histories) (slotId, subId) =
    (let old = map_of histories (slotId, subId); added = changesFor slotId subId cs
     in if added = [] then old else Some ((case old of Some h \<Rightarrow> h | None \<Rightarrow> []) @ added))"
proof (induction cs arbitrary: histories)
  case (Cons c cs)
  show ?case
  proof (cases "os_subId c")
    case (Some u)
    then show ?thesis
      using Cons.IH [of "addToHistory c histories"]
      by (cases "os_slotId c = slotId \<and> u = subId")
        (auto simp: addToHistory_def changesFor_def Let_def update_conv split: option.splits)
  qed (use Cons.IH in \<open>simp add: addToHistory_def changesFor_def\<close>)
qed simp

lemma compareVersion_truncate:
  "eventVersion.truncate c = v \<Longrightarrow> compareVersion c ctx = compareVersion v ctx"
  by (auto simp: compareVersion_def eventVersion.defs)

lemma ordered_events_sorted:
  "sorted_wrt (\<lambda>l r. compareVersion (versionOf l) (versionOf r) \<le> 0) (orderedOperatorEvents events)"
proof -
  have order: "comparator (\<lambda>l r :: nsgEvent. orNext (of_int (tp_elapsedUs l) - of_int (tp_elapsedUs r)) (of_int (ev_id l) - of_int (ev_id r)))"
    by (intro comparator_orNext comparator_by)
  show ?thesis
    using comparator.sorted_sortBy [OF order, of "filter isOperatorEvent events"] unfolding orderedOperatorEvents_def
    by (rule sorted_wrt_mono_rel [rotated]) (auto simp: orNext_def compareVersion_def versionOf_def split: if_splits)
qed

lemma compareVersion_trans:
  "compareVersion a b \<le> 0 \<Longrightarrow> compareVersion b c \<le> 0 \<Longrightarrow> compareVersion a c \<le> 0"
  by (auto simp: compareVersion_def split: if_splits)

lemma sorted_prefix:
  assumes "sorted_wrt (\<lambda>l r. compareVersion (versionOf l) (versionOf r) \<le> 0) events"
  shows "\<exists>later. events = filter (\<lambda>e. compareVersion (versionOf e) ctx \<le> 0) events @ later \<and>
    (\<forall>e\<in>set later. 0 < compareVersion (versionOf e) ctx)"
  using assms
proof (induction events)
  case (Cons e events)
  show ?case
  proof (cases "compareVersion (versionOf e) ctx \<le> 0")
    case True
    then show ?thesis using Cons by auto
  next
    case False
    have "0 < compareVersion (versionOf x) ctx" if "x \<in> set (e # events)" for x
    proof (rule ccontr)
      assume "\<not> 0 < compareVersion (versionOf x) ctx"
      then show False
        using that Cons.prems compareVersion_trans [of "versionOf e" "versionOf x" ctx] False by auto
    qed
    then show ?thesis by (intro exI [of _ "e # events"]) (force simp: filter_empty_conv not_le)
  qed
qed simp

text \<open>
  The history of the operators, searched for the moment of a cell, names the operator a running state has after
  those of the events, put in order of time, that are not later than the cell.
\<close>
lemma ordered_history_agrees:
  "historyOperator (operatorHistory events) ctx =
   streamingOperator
     (fold processOperators (filter (\<lambda>e. compareVersion (versionOf e) ctx \<le> 0) (orderedOperatorEvents events)) newOperatorState) ctx"
proof (cases "contextSlots ctx")
  case (Some slots)
  obtain slotId subId where slots: "slots = (slotId, subId)" by (cases slots) auto
  then have sub: "oc_subId ctx = Some subId"
    using Some by (auto simp: contextSlots_def identifierOf_def split: option.splits if_splits)
  define earlier where "earlier = filter (\<lambda>e. compareVersion (versionOf e) ctx \<le> 0) (orderedOperatorEvents events)"
  define s where "s = fold processOperators earlier newOperatorState"
  obtain later where later: "orderedOperatorEvents events = earlier @ later" "\<forall>e\<in>set later. 0 < compareVersion (versionOf e) ctx"
    using sorted_prefix [OF ordered_events_sorted] unfolding earlier_def by blast
  obtain cs where cs: "st_changes (fold processOperators later s) = st_changes s @ cs"
    "\<forall>c\<in>set cs. \<exists>e\<in>set later. eventVersion.truncate c = versionOf e"
    using changes_fold by blast
  define old where "old = changesFor slotId subId (st_changes s)"
  define new where "new = changesFor slotId subId cs"
  have new: "\<forall>c\<in>set new. \<not> compareVersion c ctx \<le> 0"
  proof
    fix c assume "c \<in> set new"
    then obtain e where "e \<in> set later" "eventVersion.truncate c = versionOf e"
      using cs(2) by (auto simp: new_def changesFor_def)
    then show "\<not> compareVersion c ctx \<le> 0" using later(2) compareVersion_truncate [of c "versionOf e" ctx] by auto
  qed
  have old: "\<forall>c\<in>set old. compareVersion c ctx \<le> 0"
  proof
    fix c assume "c \<in> set old"
    then obtain e where "e \<in> set earlier" "eventVersion.truncate c = versionOf e"
      using changes_fold [of earlier newOperatorState] by (auto simp: s_def old_def changesFor_def newOperatorState_def)
    then show "compareVersion c ctx \<le> 0"
      using compareVersion_truncate [of c "versionOf e" ctx] by (auto simp: earlier_def)
  qed
  have history: "map_of (operatorHistory events) (slotId, subId) = (if old @ new = [] then None else Some (old @ new))"
    by (simp add: operatorHistory_def later(1) cs(1) map_of_history old_def new_def Let_def flip: s_def)
  have found: "historyOperator (operatorHistory events) ctx = operatorForContext (if old = [] then None else Some (last old)) ctx"
    using searchLoop_split [of old "\<lambda>c. compareVersion c ctx \<le> 0" new] old new
    by (auto simp: historyOperator_def Some slots history operatorForContext_def nth_append last_conv_nth)
  have "changesOk s" unfolding s_def by (intro changesOk_fold changesOk_new)
  then have "lastAgrees slotId subId (map_of (st_slots s) slotId) old" by (simp add: changesOk_def old_def)
  then have "operatorForContext (if old = [] then None else Some (last old)) ctx = operatorForContext (map_of (st_slots s) slotId) ctx"
    using sub by (cases "map_of (st_slots s) slotId") (auto simp: lastAgrees_def operatorForContext_def split: if_splits)
  then show ?thesis
    using found by (simp add: streamingOperator_def Some slots s_def earlier_def)
qed (simp add: historyOperator_def streamingOperator_def)

section \<open>NR cell identities\<close>

definition operatorLengthOk :: "int option \<Rightarrow> bool" where
  "operatorLengthOk operatorLength \<longleftrightarrow>
    (case operatorLength of None \<Rightarrow> True | Some len \<Rightarrow> MIN_GNBID_LENGTH \<le> len \<and> len \<le> MAX_GNBID_LENGTH)"

lemma reportedGnbidLength_bounds:
  "reportedGnbidLength raw = Some len \<Longrightarrow> MIN_GNBID_LENGTH \<le> len \<and> len \<le> MAX_GNBID_LENGTH"
proof -
  have valid: "validGnbidLength v = Some len \<Longrightarrow> MIN_GNBID_LENGTH \<le> len \<and> len \<le> MAX_GNBID_LENGTH" for v len
    by (auto simp: validGnbidLength_def integerInRange_def floor_le_iff split: option.splits json.splits if_splits)
  have "fold (\<lambda>name found. orElse found (validGnbidLength (field raw name))) names found = Some len \<Longrightarrow>
      (\<And>l. found = Some l \<Longrightarrow> MIN_GNBID_LENGTH \<le> l \<and> l \<le> MAX_GNBID_LENGTH) \<Longrightarrow> MIN_GNBID_LENGTH \<le> len \<and> len \<le> MAX_GNBID_LENGTH"
    for names found
  proof (induction names arbitrary: found)
    case (Cons name names)
    show ?case
      by (rule Cons.IH [of "orElse found (validGnbidLength (field raw name))"])
        (use Cons.prems valid in \<open>auto simp: orElse_def split: option.splits\<close>)
  qed simp
  then show "reportedGnbidLength raw = Some len \<Longrightarrow> MIN_GNBID_LENGTH \<le> len \<and> len \<le> MAX_GNBID_LENGTH"
    unfolding reportedGnbidLength_def by blast
qed

text \<open>
  C9. The gNB id and the cell id taken out of an NR cell identity give it back: the identity is
  \<open>gnbid * 2 ^ (36 - length) + clid\<close>, the gNB id fits its length and the cell id the bits that are left.
\<close>
theorem nr_identity_round_trip:
  assumes "operatorLengthOk operatorLength" "0 < nci" "nci \<le> MAX_NCI"
    "resolveNrIdentity raw (Some (of_int nci)) operatorLength = i" "ni_source i \<noteq> Some Reported"
  shows "\<exists>gnbid len clid. ni_gnbid i = Some gnbid \<and> ni_gnbidLength i = Some len \<and> ni_clid i = Some clid \<and>
    MIN_GNBID_LENGTH \<le> len \<and> len \<le> MAX_GNBID_LENGTH \<and>
    nci = gnbid * 2 ^ nat (NR_NCI_BITS - len) + clid \<and>
    0 \<le> gnbid \<and> gnbid < 2 ^ nat len \<and> 0 \<le> clid \<and> clid < 2 ^ nat (NR_NCI_BITS - len)"
proof -
  define len where "len = (case orElse (reportedGnbidLength raw) operatorLength of Some len \<Rightarrow> len | None \<Rightarrow> NSG_DEFAULT_GNBID_LENGTH)"
  have len: "MIN_GNBID_LENGTH \<le> len" "len \<le> MAX_GNBID_LENGTH"
    using reportedGnbidLength_bounds [of raw] assms(1)
    by (auto simp: len_def orElse_def operatorLengthOk_def NSG_DEFAULT_GNBID_LENGTH_def MIN_GNBID_LENGTH_def MAX_GNBID_LENGTH_def
        split: option.splits)
  define k where "k = nat (NR_NCI_BITS - len)"
  have k: "len \<ge> 0" "k + nat len = 36" "powerOfTwo (NR_NCI_BITS - len) = 2 ^ k"
    using len by (auto simp: k_def NR_NCI_BITS_def MIN_GNBID_LENGTH_def MAX_GNBID_LENGTH_def powerOfTwo_def)
  have floor: "\<lfloor>(of_int nci :: rat) / 2 ^ k\<rfloor> = nci div 2 ^ k"
    using floor_divide_of_int_eq [of nci "2 ^ k", where ?'a = rat] by simp
  have remainder': "(of_int nci :: rat) - 2 ^ k * of_int (nci div 2 ^ k) = of_int (nci mod 2 ^ k)"
  proof -
    have "(of_int nci :: rat) = of_int (2 ^ k * (nci div 2 ^ k) + nci mod 2 ^ k)" by simp
    then show ?thesis unfolding of_int_add of_int_mult of_int_power of_int_numeral by linarith
  qed
  have "isSafeInt (of_int nci)" using assms(2,3) by (simp add: isSafeInt_def MAX_SAFE_def MAX_NCI_def)
  then have "i = \<lparr>ni_gnbid = Some (nci div 2 ^ k), ni_gnbidLength = Some len, ni_clid = Some (nci mod 2 ^ k),
      ni_source = Some (derivedSource (reportedGnbidLength raw) operatorLength)\<rparr>"
    using assms k floor remainder'
    by (auto simp: resolveNrIdentity_def Let_def simp flip: len_def split: option.splits)
  moreover have "nci div 2 ^ k < 2 ^ nat len"
  proof -
    have "nci < 2 ^ (k + nat len)" using assms(3) k(2) by (simp add: MAX_NCI_def)
    then have "2 ^ k * (nci div 2 ^ k) + nci mod 2 ^ k < 2 ^ k * 2 ^ nat len" by (simp add: power_add)
    moreover have "0 \<le> nci mod 2 ^ k" by simp
    ultimately have "2 ^ k * (nci div 2 ^ k) < 2 ^ k * 2 ^ nat len" by linarith
    then show ?thesis by (rule mult_left_less_imp_less) simp
  qed
  ultimately show ?thesis
    using assms(2) len unfolding k_def by (auto simp: pos_imp_zdiv_nonneg_iff intro!: div_mult_mod_eq [symmetric])
qed

lemma nr_identity_round_trip_witness:
  "\<exists>gnbid len clid. ni_gnbid (resolveNrIdentity [] (Some (of_int 20000000000)) None) = Some gnbid \<and>
    20000000000 = gnbid * 2 ^ nat (NR_NCI_BITS - len) + clid"
proof -
  have "operatorLengthOk None" "ni_source (resolveNrIdentity [] (Some (of_int 20000000000)) None) \<noteq> Some Reported"
    by code_simp+
  from nr_identity_round_trip [OF this(1) _ _ refl this(2)] show ?thesis by (auto simp: MAX_NCI_def)
qed

end
