(* ===== verification/NsgFusionTheorems.thy ===== *)
theory NsgFusionTheorems
  imports NsgFusion NsgEventTheorems
begin

text \<open>
  What the association of Qualcomm records with Android events promises: the searches find the nearest
  record, the configuration in force is the latest one, no cell of Android is lost or moved, the events made
  up are numbered on, and no decoded cell is used twice.
\<close>

section \<open>Nearest records\<close>

lemma lowerBound_spec:
  assumes "sorted (map elapsed xs)"
  shows "lowerBound elapsed xs t \<le> length xs"
    "\<And>i. i < length xs \<Longrightarrow> elapsed (xs ! i) < t \<longleftrightarrow> i < lowerBound elapsed xs t"
proof -
  have mono: "elapsed (xs ! i) < t" if "i \<le> j" "j < length xs" "elapsed (xs ! j) < t" for i j
    using sorted_nth_mono [OF assms, of i j] that by simp
  have "lowerBound elapsed xs t \<le> length xs \<and> (\<forall>i. 0 \<le> i \<and> i < lowerBound elapsed xs t \<longrightarrow> elapsed (xs ! i) < t) \<and>
      (\<forall>i. lowerBound elapsed xs t \<le> i \<and> i < length xs \<longrightarrow> \<not> elapsed (xs ! i) < t)"
    using searchLoop_spec [of 0 "length xs" "\<lambda>i. elapsed (xs ! i) < t"] mono unfolding lowerBound_def by blast
  then show "lowerBound elapsed xs t \<le> length xs"
    "\<And>i. i < length xs \<Longrightarrow> elapsed (xs ! i) < t \<longleftrightarrow> i < lowerBound elapsed xs t"
    by (auto simp: not_less)
qed

text \<open>The nearest of a sorted list, and the earlier side of a tie.\<close>

lemma nearestBy_nearest:
  fixes elapsed :: "'a \<Rightarrow> int"
  assumes "sorted (map elapsed xs)" "nearestBy elapsed xs t = Some x"
  shows "x \<in> set xs \<and> (\<forall>y\<in>set xs. \<bar>elapsed x - t\<bar> \<le> \<bar>elapsed y - t\<bar>)"
proof -
  define k where "k = lowerBound elapsed xs t"
  have below: "elapsed (xs ! i) < t \<longleftrightarrow> i < k" if "i < length xs" for i
    using lowerBound_spec(2) [OF assms(1) that] by (simp add: k_def)
  have mono: "elapsed (xs ! i) \<le> elapsed (xs ! j)" if "i \<le> j" "j < length xs" for i j
    using sorted_nth_mono [OF assms(1), of i j] that by simp
  have ne: "xs \<noteq> []" using assms(2) by (auto simp: nearestBy_def Let_def)
  have k: "k \<le> length xs" using lowerBound_spec(1) [OF assms(1)] by (simp add: k_def)
  obtain i where i: "i < length xs" "x = xs ! i" "\<And>j. j < length xs \<Longrightarrow> \<bar>elapsed x - t\<bar> \<le> \<bar>elapsed (xs ! j) - t\<bar>"
  proof -
    consider "k = 0" | "k = length xs" "k \<noteq> 0" | "k \<noteq> 0" "k \<noteq> length xs" by blast
    then show ?thesis
    proof cases
      case 1
      then have x: "x = xs ! 0" using assms(2) ne by (simp add: nearestBy_def Let_def flip: k_def)
      have "\<bar>elapsed x - t\<bar> \<le> \<bar>elapsed (xs ! j) - t\<bar>" if "j < length xs" for j
        using mono [of 0 j] below [of 0] below [OF that] that 1 ne x by auto
      then show ?thesis using that [of 0] ne x by simp
    next
      case 2
      then have x: "x = xs ! (k - 1)" using assms(2) ne by (simp add: nearestBy_def Let_def flip: k_def)
      have "\<bar>elapsed x - t\<bar> \<le> \<bar>elapsed (xs ! j) - t\<bar>" if "j < length xs" for j
        using mono [of j "k - 1"] below [of "k - 1"] below [OF that] that 2 x by auto
      then show ?thesis using that [of "k - 1"] 2 x by auto
    next
      case 3
      then have bounds: "k - 1 < k" "k < length xs" using k by auto
      have x: "x = (if t - elapsed (xs ! (k - 1)) \<le> elapsed (xs ! k) - t then xs ! (k - 1) else xs ! k)"
        using assms(2) 3 ne by (simp add: nearestBy_def Let_def split: if_splits flip: k_def)
      have lo: "elapsed (xs ! (k - 1)) < t" and hi: "t \<le> elapsed (xs ! k)"
        using below [of "k - 1"] below [of k] bounds 3 by auto
      have "\<bar>elapsed x - t\<bar> \<le> \<bar>elapsed (xs ! j) - t\<bar>" if "j < length xs" for j
      proof (cases "j < k")
        case True
        then have "elapsed (xs ! j) \<le> elapsed (xs ! (k - 1))" using mono [of j "k - 1"] bounds by auto
        then show ?thesis using lo hi x by (auto split: if_splits)
      next
        case False
        then have "elapsed (xs ! k) \<le> elapsed (xs ! j)" using mono [of k j] that by auto
        then show ?thesis using lo hi x by (auto split: if_splits)
      qed
      then show ?thesis using that [of "k - 1"] that [of k] bounds x by (cases "t - elapsed (xs ! (k - 1)) \<le> elapsed (xs ! k) - t") auto
    qed
  qed
  then show ?thesis by (auto simp: in_set_conv_nth)
qed

section \<open>The configuration in force\<close>

lemma map_of_pushAt: "map_of (pushAt k v m) = (map_of m)(k \<mapsto> (case map_of m k of Some vs \<Rightarrow> vs | None \<Rightarrow> []) @ [v])"
  by (simp add: pushAt_def update_conv')

lemma map_of_pushAll:
  "map_of (fold (\<lambda>x. pushAt (key x) (val x)) xs m) k =
    (let old = map_of m k; added = map val (filter (\<lambda>x. key x = k) xs)
     in if added = [] then old else Some ((case old of Some vs \<Rightarrow> vs | None \<Rightarrow> []) @ added))"
proof (induction xs arbitrary: m)
  case (Cons x xs)
  show ?case
    using Cons.IH [of "pushAt (key x) (val x) m"]
    by (cases "map_of m k") (auto simp: map_of_pushAt Let_def)
qed simp

text \<open>The timeline of one stream.\<close>

definition streamTimeline :: "timedNrConfigurationInfo list \<Rightarrow> int \<Rightarrow> indexedState list" where
  "streamTimeline configurations streamIndex =
    indexStates 0 False (sortTimeline (filter (\<lambda>c. tc_streamIndex c = streamIndex) configurations))"

lemma sortBy_Nil_iff: "sortBy compare xs = [] \<longleftrightarrow> xs = []"
  by (metis mset_sortBy mset_zero_iff_right)

lemma timeline_lookup:
  "map_of (buildConfigurationTimeline configurations) streamIndex =
    (if streamTimeline configurations streamIndex = [] then None else Some (streamTimeline configurations streamIndex))"
proof -
  have nil: "indexStates e w cs = [] \<longleftrightarrow> cs = []" for e w cs by (cases cs) (simp_all add: Let_def)
  show ?thesis
    by (simp add: buildConfigurationTimeline_def map_of_mapValues map_of_pushAll [where val = "\<lambda>x. x", simplified] streamTimeline_def
        nil Let_def sortTimeline_def sortBy_Nil_iff)
qed

lemma map_fst_indexStates: "map fst (indexStates e w cs) = cs"
  by (induction cs arbitrary: e w) (simp_all add: Let_def)

lemma compareTimeline_comparator: "comparator (\<lambda>l r. of_int (compareTimeline l r))"
proof -
  have eq: "(\<lambda>l r. of_int (compareTimeline l r)) =
      (\<lambda>l r. orNext (of_int (tp_elapsedUs l) - of_int (tp_elapsedUs r)) (of_int (tp_recordOffset l) - of_int (tp_recordOffset r)))"
    by (auto simp: compareTimeline_def orNext_def fun_eq_iff)
  show ?thesis unfolding eq by (intro comparator_orNext comparator_by)
qed

lemma sortTimeline_sorted: "sorted_wrt (\<lambda>l r. compareTimeline l r \<le> 0) (sortTimeline xs)"
  using comparator.sorted_sortBy [OF compareTimeline_comparator, of xs]
  unfolding sortTimeline_def by (rule sorted_wrt_mono_rel [rotated]) auto

lemma compareTimeline_trans: "compareTimeline a b \<le> 0 \<Longrightarrow> compareTimeline b c \<le> 0 \<Longrightarrow> compareTimeline a c \<le> 0"
  by (auto simp: compareTimeline_def split: if_splits)

lemma timeline_prefix:
  assumes "sorted_wrt (\<lambda>l r. compareTimeline (fst l) (fst r) \<le> 0) states"
  shows "states = filter (\<lambda>s. compareTimeline (fst s) point \<le> 0) states @ filter (\<lambda>s. \<not> compareTimeline (fst s) point \<le> 0) states"
  using assms
proof (induction states)
  case (Cons s states)
  show ?case
  proof (cases "compareTimeline (fst s) point \<le> 0")
    case False
    have "\<not> compareTimeline (fst x) point \<le> 0" if "x \<in> set states" for x
      using that Cons.prems compareTimeline_trans [of "fst s" "fst x" point] False by auto
    then have "filter (\<lambda>s. compareTimeline (fst s) point \<le> 0) states = []"
      "filter (\<lambda>s. \<not> compareTimeline (fst s) point \<le> 0) states = states"
      by (auto simp: filter_empty_conv filter_id_conv)
    with False show ?thesis by simp
  qed (use Cons in simp)
qed simp

text \<open>
  C12. The configuration that holds at a moment, found by binary search, is the latest of its stream that is
  not later than the moment.
\<close>
theorem state_at_is_latest:
  "indexedStateAt (buildConfigurationTimeline configurations) streamIndex point =
    (let upto = filter (\<lambda>s. compareTimeline (fst s) point \<le> 0) (streamTimeline configurations streamIndex)
     in if upto = [] then None else Some (last upto))"
proof -
  define tl where "tl = streamTimeline configurations streamIndex"
  define upto where "upto = filter (\<lambda>s. compareTimeline (fst s) point \<le> 0) tl"
  define later where "later = filter (\<lambda>s. \<not> compareTimeline (fst s) point \<le> 0) tl"
  have "sorted_wrt (\<lambda>l r. compareTimeline l r \<le> 0) (map fst tl)"
    by (simp add: tl_def streamTimeline_def map_fst_indexStates sortTimeline_sorted)
  then have split: "tl = upto @ later"
    unfolding upto_def later_def by (intro timeline_prefix) (simp add: sorted_wrt_map)
  have "searchLoop (\<lambda>i. compareTimeline (fst ((upto @ later) ! i)) point \<le> 0) 0 (length (upto @ later)) = length upto"
    by (rule searchLoop_split) (auto simp: upto_def later_def)
  then have low: "searchLoop (\<lambda>i. compareTimeline (fst (tl ! i)) point \<le> 0) 0 (length tl) = length upto"
    using split by simp
  have found: "tl ! (length upto - 1) = last upto" if "upto \<noteq> []"
    using that by (subst split) (simp add: nth_append last_conv_nth)
  have empty: "tl = [] \<Longrightarrow> upto = []" by (simp add: upto_def)
  show ?thesis
    unfolding indexedStateAt_def timeline_lookup tl_def [symmetric] upto_def [symmetric]
    using low found empty by (simp add: Let_def)
qed

text \<open>Epochs only grow, and an epoch ends with the first configuration that is not standalone.\<close>

lemma indexStates_epochs:
  assumes "(c, Some e) \<in> set (indexStates epoch was cs)"
  shows "epoch \<le> e" "\<not> was \<Longrightarrow> epoch < e"
proof -
  have "epoch \<le> e \<and> (\<not> was \<longrightarrow> epoch < e)" if "(c, Some e) \<in> set (indexStates epoch was cs)" for cs epoch was
    using that
  proof (induction cs arbitrary: epoch was)
    case (Cons x cs)
    then show ?case by (fastforce simp: Let_def split: if_splits)
  qed simp
  with assms show "epoch \<le> e" "\<not> was \<Longrightarrow> epoch < e" by auto
qed

lemma indexStates_no_gap:
  assumes "indexStates epoch was cs = us @ (c, Some e) # vs @ (d, Some e) # ws" "s \<in> set vs"
  shows "snd s = Some e"
  using assms
proof (induction us arbitrary: epoch was cs)
  case Nil
  then obtain cs' where cs: "cs = c # cs'" "isPositiveNrStandalone c"
    "indexStates e True cs' = vs @ (d, Some e) # ws"
    by (cases cs) (auto simp: Let_def split: if_splits)
  have "snd s = Some e" if "indexStates e True cs' = vs @ (d, Some e) # ws" "s \<in> set vs" for cs' vs
    using that
  proof (induction vs arbitrary: cs')
    case (Cons v vs)
    then obtain x rest where rest: "cs' = x # rest" by (cases cs') auto
    show ?case
    proof (cases "isPositiveNrStandalone x")
      case True
      then show ?thesis using Cons rest by (auto simp: Let_def)
    next
      case False
      then have "indexStates e False rest = vs @ (d, Some e) # ws" using Cons.prems(1) rest by (simp add: Let_def)
      then have "(d, Some e) \<in> set (indexStates e False rest)" by simp
      then show ?thesis using indexStates_epochs(2) [of d e e False rest] by simp
    qed
  qed simp
  then show ?case using cs Nil.prems(2) by blast
next
  case (Cons u us)
  then show ?case by (cases cs) (auto simp: Let_def)
qed

text \<open>
  Two configurations of one epoch of standalone NR have no other kind of configuration between them:
  when the phone leaves standalone NR and returns, a new epoch begins.
\<close>
theorem epochs_do_not_span_gaps:
  assumes "streamTimeline configurations streamIndex = us @ (c, Some epoch) # vs @ (d, Some epoch) # ws"
  shows "list_all (\<lambda>s. snd s = Some epoch) vs"
  unfolding list_all_Ball by (rule ballI) (rule indexStates_no_gap [OF assms [unfolded streamTimeline_def]])

section \<open>Contexts and their cells\<close>

lemma searchLoop_bounds: "low \<le> high \<Longrightarrow> low \<le> searchLoop earlier low high \<and> searchLoop earlier low high \<le> high"
proof (induction earlier low high rule: searchLoop.induct)
  case (1 earlier low high)
  show ?case
  proof (cases "high \<le> low")
    case False
    define middle where "middle = (low + high) div 2"
    have "low \<le> middle" "middle < high" using False by (auto simp: middle_def)
    then show ?thesis
      using "1.IH" [OF False middle_def] False
      by (subst (1 2) searchLoop.simps) (auto simp: Let_def simp flip: middle_def)
  qed (use "1.prems" in \<open>simp add: searchLoop.simps [of _ low]\<close>)
qed

lemma nearestRecord_in: "nearestRecord records point = Some r \<Longrightarrow> r \<in> set records"
  using searchLoop_bounds [of 0 "length records" "\<lambda>i. compareTimeline (records ! i) point < 0"]
  by (auto simp: nearestRecord_def Let_def split: if_splits)

lemma onlyOne_in: "onlyOne xs = Some x \<Longrightarrow> xs = [x]"
  by (auto simp: onlyOne_def split: list.splits)

lemma uniqueScheduleContext_in: "uniqueScheduleContext candidates cells point = Some c \<Longrightarrow> c \<in> set candidates"
  by (auto simp: uniqueScheduleContext_def Let_def dest: nearestRecord_in onlyOne_in split: if_splits)

lemma fold_pushAt_distinct: "distinct (map fst m) \<Longrightarrow> distinct (map fst (fold (\<lambda>x. pushAt (key x) (val x)) xs m))"
  by (induction xs arbitrary: m) (simp_all add: pushAt_def distinct_update)

lemma fold_pushAt_values:
  assumes "(k, vs) \<in> set (fold (\<lambda>x. pushAt (key x) (val x)) xs [])"
  shows "vs = map val (filter (\<lambda>x. key x = k) xs)" "vs \<noteq> []"
proof -
  have "map_of (fold (\<lambda>x. pushAt (key x) (val x)) xs []) k = Some vs"
    using assms by (intro map_of_is_SomeI fold_pushAt_distinct) simp_all
  then show "vs = map val (filter (\<lambda>x. key x = k) xs)" "vs \<noteq> []"
    by (auto simp: map_of_pushAll Let_def split: if_splits)
qed

lemma fold_filter: "fold (\<lambda>x m. if P x then f x m else m) xs m = fold f (filter P xs) m"
  by (induction xs arbitrary: m) simp_all

lemma positionsByEvent_values:
  assumes "(e, ps) \<in> set (positionsByEvent cells)"
  shows "ps \<noteq> []" "\<forall>p\<in>set ps. p < length cells \<and> nc_rat (cells ! p) = ''NR'' \<and> nc_eventIndex (cells ! p) = e"
proof -
  have eq: "positionsByEvent cells =
      fold (\<lambda>x. pushAt (nc_eventIndex (snd x)) (fst x)) (filter (\<lambda>x. nc_rat (snd x) = ''NR'') (enumerate 0 cells)) []"
    unfolding positionsByEvent_def by (subst fold_filter [symmetric]) (simp add: split_def)
  show "ps \<noteq> []" "\<forall>p\<in>set ps. p < length cells \<and> nc_rat (cells ! p) = ''NR'' \<and> nc_eventIndex (cells ! p) = e"
    using fold_pushAt_values [OF assms [unfolded eq]] by (auto simp: in_set_enumerate_eq)
qed

definition goodContext :: "fusionInput \<Rightarrow> 'a androidNrContext_scheme \<Rightarrow> bool" where
  "goodContext input ctx \<longleftrightarrow>
    ac_event ctx \<in> set (fi_events input) \<and>
    (\<forall>p\<in>set (ac_cellPositions ctx). p < length (fi_cells input) \<and> nc_rat (fi_cells input ! p) = ''NR'')"

lemma androidContexts_good: "ctx \<in> set (androidContexts input) \<Longrightarrow> goodContext input ctx"
proof -
  assume "ctx \<in> set (androidContexts input)"
  then obtain e ps where entry: "(e, ps) \<in> set (positionsByEvent (fi_cells input))"
    "createAndroidNrContext (fi_cells input) (map_of (rev (map (\<lambda>e. (ev_id e, e)) (fi_events input)))) (e, ps) = Some ctx"
    by (auto simp: androidContexts_def createAndroidNrContexts_def map_filter_def)
  then obtain event where event: "map_of (rev (map (\<lambda>e. (ev_id e, e)) (fi_events input))) e = Some event"
    "ac_event ctx = event" "ac_cellPositions ctx = ps"
    by (auto simp: createAndroidNrContext_def Let_def split: option.splits if_splits)
  from event(1) have "event \<in> set (fi_events input)" by (auto dest!: map_of_SomeD)
  then show ?thesis using event positionsByEvent_values [OF entry(1)] by (simp add: goodContext_def)
qed

lemma withState_simps [simp]:
  "ac_event (withState ctx state) = ac_event ctx" "ac_cellPositions (withState ctx state) = ac_cellPositions ctx"
  "ec_state (withState ctx state) = state" "contextId (withState ctx state) = contextId ctx"
  by (simp_all add: withState_def androidNrContext.defs contextId_def)

lemma withState_good: "goodContext input ctx \<Longrightarrow> goodContext input (withState ctx state)"
  by (simp add: goodContext_def)

lemma scheduleContextForServingCell_in:
  "scheduleContextForServingCell contexts cells servingCell before = Some ctx \<Longrightarrow> ctx \<in> set contexts"
  by (auto simp: scheduleContextForServingCell_def dest: uniqueScheduleContext_in split: option.splits)

lemma scheduleContextForMeasurement_in:
  "scheduleContextForMeasurement contexts cells observation = Some ctx \<Longrightarrow> ctx \<in> set contexts"
  by (auto simp: scheduleContextForMeasurement_def dest: uniqueScheduleContext_in)

lemma fold_invariant_set:
  assumes "\<And>x s. x \<in> set xs \<Longrightarrow> P s \<Longrightarrow> P (f x s)" "P s"
  shows "P (fold f xs s)"
  using assms by (induction xs arbitrary: s) auto

lemma set_update_subset: "set (AList.update k v m) \<subseteq> insert (k, v) (set m)"
  by (induction m) auto

lemma set_delete_subset: "set (AList.delete k m) \<subseteq> set m"
  by (induction m) auto

lemma futureContexts_good: "ctx \<in> set (createFutureContexts input) \<Longrightarrow> goodContext input ctx"
proof -
  have "\<forall>e\<in>set (fst (fold (addFutureContext input) (fi_servingCellInfos input) ([], []))). goodContext input (snd e)"
  proof (rule fold_invariant_set)
    fix servingCell and state :: "(int \<times> standaloneEventContext) list \<times> int list"
    assume "\<forall>e\<in>set (fst state). goodContext input (snd e)"
    then show "\<forall>e\<in>set (fst (addFutureContext input servingCell state)). goodContext input (snd e)"
      by (cases state)
        (auto simp: addFutureContext_def withState_good androidContexts_good
          dest!: scheduleContextForServingCell_in subsetD [OF set_update_subset] subsetD [OF set_delete_subset] split: option.splits)
  qed simp
  then show "ctx \<in> set (createFutureContexts input) \<Longrightarrow> goodContext input ctx"
    by (auto simp: createFutureContexts_def)
qed

lemma standaloneContexts_good: "ctx \<in> set (standaloneContexts input) \<Longrightarrow> goodContext input ctx"
proof -
  have "goodContext input ctx" if "ctx \<in> set (createEstablishedContexts input)" for ctx
    using that by (auto simp: createEstablishedContexts_def map_filter_def establishedContext_def Let_def
        intro!: withState_good androidContexts_good)
  then show "ctx \<in> set (standaloneContexts input) \<Longrightarrow> goodContext input ctx"
    using futureContexts_good by (auto simp: standaloneContexts_def Let_def)
qed

lemma schedule_good: "e \<in> set (mp_schedule (planMeasurements input contexts)) \<Longrightarrow> goodContext input (fst (snd e))"
proof -
  have "\<forall>e\<in>set (mp_schedule (planMeasurements input contexts)). goodContext input (fst (snd e))"
    unfolding planMeasurements_def
  proof (rule fold_invariant_set)
    fix observation and plan :: measurementPlan
    assume good: "\<forall>e\<in>set (mp_schedule plan). goodContext input (fst (snd e))"
    have other: "mp_schedule (leaveMeasurement observation plan) = mp_schedule plan"
      "mp_schedule (planForState key observation plan) = mp_schedule plan"
      "mp_schedule (planForEvent event observation plan') = mp_schedule plan'" for key event plan'
      by (simp_all add: leaveMeasurement_def planForState_def planForEvent_def)
    have "\<forall>e\<in>set (mp_schedule (planUnconfigured input contexts observation plan)). goodContext input (fst (snd e))"
      using good androidContexts_good
      by (auto simp: planUnconfigured_def Let_def other
          dest!: scheduleContextForMeasurement_in subsetD [OF set_update_subset] split: option.splits)
    moreover have "mp_schedule (planConfigured contexts state observation plan) = mp_schedule plan" for state
      by (simp add: planConfigured_def Let_def other split: option.splits)
    ultimately show "\<forall>e\<in>set (mp_schedule (planMeasurement input contexts observation plan)). goodContext input (fst (snd e))"
      using good by (auto simp: planMeasurement_def other split: option.splits)
  qed (simp add: noPlan_def)
  then show "e \<in> set (mp_schedule (planMeasurements input contexts)) \<Longrightarrow> goodContext input (fst (snd e))" by blast
qed

section \<open>No cell of Android is lost\<close>

text \<open>What Android reported of a cell and the fusion leaves alone: its event, place, time and subscription.\<close>

definition androidPart :: "nsgCell \<Rightarrow> nsgCell" where
  "androidPart cell = cell\<lparr>nc_measurementRole := None, nc_nrMode := None, nc_sources := [], nc_radio := noRadioFields,
     nc_raw := [], nc_identity := nullIdentity\<rparr>"

lemma androidPart_asStandalone [simp]: "androidPart (asStandalone cell radio raw) = androidPart cell"
  by (simp add: asStandalone_def androidPart_def)

lemma androidPart_fuse [simp]:
  "androidPart (fuseScheduleCell cell b) = androidPart cell" "androidPart (fuseCell cell state c) = androidPart cell"
  by (simp_all add: fuseScheduleCell_def fuseCell_def Let_def)

definition replacementOk :: "nsgCell list \<Rightarrow> nat \<times> nsgCell \<Rightarrow> bool" where
  "replacementOk cells r \<longleftrightarrow>
    fst r < length cells \<and> nc_rat (cells ! fst r) = ''NR'' \<and> androidPart (snd r) = androidPart (cells ! fst r)"

definition derivedOk :: "nsgEvent list \<Rightarrow> int \<times> nsgCell list \<Rightarrow> bool" where
  "derivedOk events d \<longleftrightarrow> (\<forall>c\<in>set (snd d). nc_eventIndex c \<in> ev_id ` set events)"

definition fusionOk :: "fusionInput \<Rightarrow> fusionState \<Rightarrow> bool" where
  "fusionOk input s \<longleftrightarrow>
    list_all (replacementOk (fi_cells input)) (fs_replacements s) \<and> list_all (derivedOk (fi_events input)) (fs_derived s)"

lemma list_all_update: "list_all P m \<Longrightarrow> P (k, v) \<Longrightarrow> list_all P (AList.update k v m)"
  using set_update_subset [of k v m] by auto

lemma uniquePair_in:
  "uniqueAvailablePairPosition positions cells target occupied = Some p \<Longrightarrow> p \<in> set positions"
  unfolding uniqueAvailablePairPosition_def by (drule onlyOne_in, drule arg_cong [where f = set]) auto

lemma matchSchedule_ok:
  assumes "goodContext input ctx" "list_all (replacementOk (fi_cells input)) (sm_replacements m)"
  shows "list_all (replacementOk (fi_cells input)) (sm_replacements (matchSchedule (fi_cells input) ctx observation placed m))"
proof (cases "Option.bind (measurementPair (snd placed))
    (\<lambda>target. uniqueAvailablePairPosition (ac_cellPositions ctx) (fi_cells input) target (sm_occupied m))")
  case (Some p)
  then have "p \<in> set (ac_cellPositions ctx)" by (auto simp: bind_eq_Some_conv dest: uniquePair_in)
  then have "replacementOk (fi_cells input) (p, fuseScheduleCell (fi_cells input ! p) b)" for b
    using assms(1) by (simp add: replacementOk_def goodContext_def)
  with Some assms(2) show ?thesis by (simp add: matchSchedule_def list_all_update del: list_all_Ball)
qed (use assms(2) in \<open>simp add: matchSchedule_def\<close>)

lemma neighbor_event [simp]:
  "nc_eventIndex (createScheduleNeighbor envelope event k b) = ev_id event"
  "nc_eventIndex (createDerivedNeighbor envelope event k state b carrier) = ev_id event"
  by (simp_all add: createScheduleNeighbor_def createDerivedNeighbor_def neighborCell_def Let_def)

lemma fuseSchedule_ok:
  assumes "goodContext input (fst entry)" "fusionOk input s"
  shows "fusionOk input (fuseSchedule (fi_cells input) entry s)"
proof -
  let ?f = "matchSchedule (fi_cells input) (fst entry) (snd entry)"
  have "list_all (replacementOk (fi_cells input)) (sm_replacements (fold ?f xs m))"
    if "list_all (replacementOk (fi_cells input)) (sm_replacements m)" for xs m
    by (rule fold_invariant_set) (use that matchSchedule_ok [OF assms(1)] in blast)+
  moreover have "ac_event (fst entry) \<in> set (fi_events input)" using assms(1) by (simp add: goodContext_def)
  ultimately show ?thesis
    using assms(2)
    by (auto simp: fusionOk_def fuseSchedule_def Let_def derivedOk_def simp del: list_all_Ball intro!: list_all_update)
qed

lemma changeAt_positions [simp]: "map fst (changeAt p f m) = map fst m"
  by (induction m) (auto simp: changeAt_def)

lemma addCarrier_positions [simp]: "map fst (addCarrier cells ctx ev carrier m) = map fst m"
  by (simp add: addCarrier_def Let_def split: option.splits)

lemma matchMeasurement_positions [simp]:
  "map fst (mm_contributions (matchMeasurement cells ctx ev observation placed m)) = map fst (mm_contributions m)"
  by (simp add: matchMeasurement_def Let_def split: option.splits)

lemma fold_positions: "(\<And>x m. map fst (g (f x m)) = map fst (g m)) \<Longrightarrow> map fst (g (fold f xs m)) = map fst (g m)"
  by (induction xs arbitrary: m) simp_all

lemma matchEvent_positions: "map fst (mm_contributions (matchEvent cells ctx ev)) = ac_cellPositions ctx"
proof -
  have start: "map fst (startContributions ctx ev) = ac_cellPositions ctx"
    by (simp add: startContributions_def Let_def comp_def split: option.splits)
  have "map fst (fold (addCarrier cells ctx ev) carriers m) = map fst m" for carriers m
    by (rule fold_positions [where g = "\<lambda>m. m"]) simp
  moreover have "map fst (mm_contributions (fold (matchMeasurement cells ctx ev observation) placed m)) = map fst (mm_contributions m)"
    for observation placed m
    by (rule fold_positions) simp
  ultimately show ?thesis using start by (simp add: matchEvent_def Let_def split: option.splits)
qed

lemma fuseContext_ok:
  assumes "goodContext input ctx" "fusionOk input s"
  shows "fusionOk input (fuseContext input contexts plan ctx s)"
proof -
  let ?m = "mm_contributions (matchEvent (fi_cells input) ctx (eventEvidence input contexts plan ctx))"
  have at: "p \<in> set (ac_cellPositions ctx)" if "(p, c) \<in> set ?m" for p c
  proof -
    have "p \<in> set (map fst ?m)" using that by force
    then show ?thesis unfolding matchEvent_positions .
  qed
  have "list_all (replacementOk (fi_cells input))
      (fold (\<lambda>(p, c). AList.update p (fuseCell (fi_cells input ! p) (ec_state ctx) c)) ?m (fs_replacements s))"
  proof (rule fold_invariant_set)
    fix x and repl :: "(nat \<times> nsgCell) list"
    assume x: "x \<in> set ?m" and repl: "list_all (replacementOk (fi_cells input)) repl"
    obtain p c where pc: "x = (p, c)" by (cases x)
    have "replacementOk (fi_cells input) (p, fuseCell (fi_cells input ! p) (ec_state ctx) c)"
      using at x pc assms(1) by (simp add: replacementOk_def goodContext_def)
    with repl pc show "list_all (replacementOk (fi_cells input))
        ((case x of (p, c) \<Rightarrow> AList.update p (fuseCell (fi_cells input ! p) (ec_state ctx) c)) repl)"
      by (simp add: list_all_update del: list_all_Ball)
  qed (use assms(2) in \<open>simp add: fusionOk_def\<close>)
  moreover have "ac_event ctx \<in> set (fi_events input)" using assms(1) by (simp add: goodContext_def)
  ultimately show ?thesis
    using assms(2)
    by (auto simp: fusionOk_def fuseContext_def Let_def derivedOk_def simp del: list_all_Ball
        intro!: list_all_update split: option.splits)
qed

lemma fuseAll_ok: "fusionOk input (fuseAll input (standaloneContexts input) (planMeasurements input (standaloneContexts input)))"
proof -
  have "fusionOk input (fold (fuseSchedule (fi_cells input))
      (map snd (mp_schedule (planMeasurements input (standaloneContexts input)))) noFusion)"
  proof (rule fold_invariant_set)
    fix entry s
    assume "entry \<in> set (map snd (mp_schedule (planMeasurements input (standaloneContexts input))))" "fusionOk input s"
    then show "fusionOk input (fuseSchedule (fi_cells input) entry s)"
      using schedule_good by (intro fuseSchedule_ok) auto
  qed (simp add: fusionOk_def noFusion_def)
  then show ?thesis
    unfolding fuseAll_def
    by (rule fold_invariant_set [rotated]) (rule fuseContext_ok [OF standaloneContexts_good])
qed

lemma placeCells_parts:
  assumes "\<And>i c. i < length cells \<Longrightarrow> map_of (fs_replacements s) (position + i) = Some c \<Longrightarrow> androidPart c = androidPart (cells ! i)"
  shows "mset (map androidPart cells) \<subseteq># mset (map androidPart (placeCells s position cells))"
  using assms
proof (induction cells arbitrary: position)
  case (Cons cell cells)
  have "androidPart (case map_of (fs_replacements s) position of Some c \<Rightarrow> c | None \<Rightarrow> cell) = androidPart cell"
    using Cons.prems [of 0] by (auto split: option.splits)
  moreover have "mset (map androidPart cells) \<subseteq># mset (map androidPart (placeCells s (Suc position) cells))"
    using Cons.prems [of "Suc _"] by (intro Cons.IH) simp
  ultimately show ?case by (auto intro: subset_mset.trans)
qed simp

lemma placeCells_unchanged:
  "i < length cells \<Longrightarrow> map_of (fs_replacements s) (position + i) = None \<Longrightarrow> cells ! i \<in> set (placeCells s position cells)"
proof (induction cells arbitrary: position i)
  case (Cons cell cells)
  show ?case
  proof (cases i)
    case (Suc j)
    then show ?thesis using Cons.IH [of j "Suc position"] Cons.prems by simp
  qed (use Cons.prems in simp)
qed simp

text \<open>
  C7. Joining the Qualcomm records with the cells of Android loses none of them: each cell is in the result,
  once for each time it was given, with its event, place, time, subscription and operator as they were; and a
  cell that is not NR is there unchanged.
\<close>
theorem android_cells_kept:
  "mset (map androidPart (fi_cells input)) \<subseteq># mset (map androidPart (fr_cells (fuseStandaloneCells input))) \<and>
   {c \<in> set (fi_cells input). nc_rat c \<noteq> ''NR''} \<subseteq> set (fr_cells (fuseStandaloneCells input))"
proof -
  define s where "s = fuseAll input (standaloneContexts input) (planMeasurements input (standaloneContexts input))"
  have ok: "replacementOk (fi_cells input) r" if "r \<in> set (fs_replacements s)" for r
    using fuseAll_ok [of input] that by (simp add: fusionOk_def s_def)
  obtain more' where cells: "mset (fr_cells (fuseStandaloneCells input)) = mset (placeCells s 0 (fi_cells input)) + more'"
    by (simp add: fuseStandaloneCells_def Let_def flip: s_def)
  have "mset (map androidPart (fi_cells input)) \<subseteq># mset (map androidPart (placeCells s 0 (fi_cells input)))"
    using ok by (intro placeCells_parts) (auto dest!: map_of_SomeD simp: replacementOk_def)
  also have "\<dots> \<subseteq># mset (map androidPart (fr_cells (fuseStandaloneCells input)))"
    by (simp add: cells)
  finally have kept: "mset (map androidPart (fi_cells input)) \<subseteq># mset (map androidPart (fr_cells (fuseStandaloneCells input)))" .
  have "c \<in> set (fr_cells (fuseStandaloneCells input))" if c: "c \<in> set (fi_cells input)" "nc_rat c \<noteq> ''NR''" for c
  proof -
    obtain i where i: "i < length (fi_cells input)" "c = fi_cells input ! i" using c(1) by (auto simp: in_set_conv_nth)
    have "map_of (fs_replacements s) i = None"
    proof (cases "map_of (fs_replacements s) i")
      case (Some r)
      then have "replacementOk (fi_cells input) (i, r)" by (intro ok map_of_SomeD)
      then show ?thesis using c(2) i(2) by (simp add: replacementOk_def)
    qed
    then have "c \<in> set (placeCells s 0 (fi_cells input))" using placeCells_unchanged [OF i(1), of s 0] i(2) by simp
    then have "c \<in># mset (fr_cells (fuseStandaloneCells input))" unfolding cells by simp
    then show ?thesis by simp
  qed
  with kept show ?thesis by blast
qed

section \<open>Events made up\<close>

lemma placeCells_from:
  assumes "c \<in> set (placeCells s position cells)"
  shows "(\<exists>i<length cells. c = cells ! i \<or> map_of (fs_replacements s) (position + i) = Some c) \<or>
    (\<exists>e cs. map_of (fs_derived s) e = Some cs \<and> c \<in> set cs)"
  using assms
proof (induction cells arbitrary: position)
  case (Cons cell cells)
  consider "c = (case map_of (fs_replacements s) position of Some r \<Rightarrow> r | None \<Rightarrow> cell)"
    | "\<exists>cs. map_of (fs_derived s) (nc_eventIndex cell) = Some cs \<and> c \<in> set cs"
    | "c \<in> set (placeCells s (Suc position) cells)"
    using Cons.prems by (cases "map_of (fs_derived s) (nc_eventIndex cell)") (auto split: if_splits)
  then show ?case
  proof cases
    case 1
    then show ?thesis by (intro disjI1 exI [of _ 0]) (auto split: option.splits)
  next
    case 3
    from Cons.IH [OF this] show ?thesis
    proof (elim disjE exE conjE)
      fix i assume "i < length cells" "c = cells ! i"
      then show ?thesis by (intro disjI1 exI [of _ "Suc i"]) simp
    next
      fix i assume "i < length cells" "map_of (fs_replacements s) (Suc position + i) = Some c"
      then show ?thesis by (intro disjI1 exI [of _ "Suc i"]) simp
    qed blast
  qed blast
qed simp

lemma enumerate_shift: "map (\<lambda>(k, x). int n + int k) (enumerate 0 xs) = map int [n..<n + length xs]"
  by (intro nth_equalityI) (simp_all add: nth_enumerate_eq)

text \<open>
  The events made up for Qualcomm records that no Android event reports continue the numbering of the
  recording, and every cell of the result belongs to an event of it, real or made up.
\<close>
theorem synthetic_events_numbered:
  assumes "map ev_id (fi_events input) = map int [0..<length (fi_events input)]"
    "list_all (\<lambda>c. 0 \<le> nc_eventIndex c \<and> nc_eventIndex c < int (length (fi_events input))) (fi_cells input)"
  shows "map ev_id (fi_events input @ fr_syntheticEvents (fuseStandaloneCells input)) =
      map int [0..<length (fi_events input @ fr_syntheticEvents (fuseStandaloneCells input))] \<and>
    list_all (\<lambda>c. 0 \<le> nc_eventIndex c \<and>
        nc_eventIndex c < int (length (fi_events input @ fr_syntheticEvents (fuseStandaloneCells input))))
      (fr_cells (fuseStandaloneCells input))"
proof -
  define plan where "plan = planMeasurements input (standaloneContexts input)"
  define s where "s = fuseAll input (standaloneContexts input) plan"
  define groups where "groups = standaloneGroups input plan s"
  let ?n = "length (fi_events input)"
  have events: "fr_syntheticEvents (fuseStandaloneCells input) =
      map (\<lambda>(k, grp). createSyntheticEvent (int ?n + int k) grp) (enumerate 0 groups)"
    by (simp add: fuseStandaloneCells_def Let_def groups_def s_def plan_def)
  have "map ev_id (fr_syntheticEvents (fuseStandaloneCells input)) = map (\<lambda>(k, x). int ?n + int k) (enumerate 0 groups)"
    by (auto simp: events createSyntheticEvent_def Let_def)
  then have ids: "map ev_id (fr_syntheticEvents (fuseStandaloneCells input)) = map int [?n..<?n + length groups]"
    using enumerate_shift by simp
  have count: "length (fr_syntheticEvents (fuseStandaloneCells input)) = length groups" by (simp add: events)
  have numbered: "map ev_id (fi_events input @ fr_syntheticEvents (fuseStandaloneCells input)) =
      map int [0..<length (fi_events input @ fr_syntheticEvents (fuseStandaloneCells input))]"
    unfolding map_append length_append assms(1) ids count upt_add_eq_append [OF le0] add_0 ..
  have given: "0 \<le> nc_eventIndex (fi_cells input ! i) \<and> nc_eventIndex (fi_cells input ! i) < int ?n"
    if "i < length (fi_cells input)" for i
    using assms(2) nth_mem [OF that] by (simp del: nth_mem)
  have known: "0 \<le> nc_eventIndex c \<and> nc_eventIndex c < int (?n + length groups)" if member: "c \<in> set (fr_cells (fuseStandaloneCells input))" for c
  proof -
    have "c \<in> set (placeCells s 0 (fi_cells input)) \<or> (\<exists>k grp. k < length groups \<and> c \<in> set (standaloneGroupCells (int ?n + int k) grp))"
      using member by (auto simp: fuseStandaloneCells_def Let_def groups_def s_def plan_def in_set_enumerate_eq)
    then show ?thesis
    proof (elim disjE exE conjE)
      assume "c \<in> set (placeCells s 0 (fi_cells input))"
      from placeCells_from [OF this] show ?thesis
      proof (elim disjE exE conjE)
        fix i assume "i < length (fi_cells input)" "c = fi_cells input ! i"
        then show ?thesis using given [of i] by simp
      next
        fix i assume i: "i < length (fi_cells input)" "map_of (fs_replacements s) (0 + i) = Some c"
        then have "replacementOk (fi_cells input) (i, c)"
          using fuseAll_ok [of input] by (auto simp: fusionOk_def s_def plan_def dest: map_of_SomeD)
        then have "nc_eventIndex (androidPart c) = nc_eventIndex (androidPart (fi_cells input ! i))"
          by (simp add: replacementOk_def)
        then show ?thesis using given [OF i(1)] by (simp add: androidPart_def)
      next
        fix e cs assume d: "map_of (fs_derived s) e = Some cs" "c \<in> set cs"
        then have "derivedOk (fi_events input) (e, cs)"
          using fuseAll_ok [of input] by (auto simp: fusionOk_def s_def plan_def dest: map_of_SomeD)
        then have "nc_eventIndex c \<in> set (map ev_id (fi_events input))" using d(2) by (auto simp: derivedOk_def)
        then show ?thesis unfolding assms(1) by auto
      qed
    next
      fix k grp assume "k < length groups" "c \<in> set (standaloneGroupCells (int ?n + int k) grp)"
      then show ?thesis by (auto simp: standaloneGroupCells_def createStandaloneCell_def Let_def)
    qed
  qed
  show ?thesis using numbered known count by simp
qed

end
