(* ===== verification/NsgUsage.thy ===== *)
theory NsgUsage
  imports NsgFusionTheorems
begin

text \<open>
  How the fusion uses up the decoded cells of the measurements: each measurement is planned once, each event is
  handled once, and the marks of what an event or a group has used never collide. NsgResult carries this over to
  the cells of the result.
\<close>

section \<open>Each measurement is planned once\<close>

lemma image_update: "(g \<circ> snd) ` set (AList.update k v m) \<subseteq> insert (g v) ((g \<circ> snd) ` set m)"
  using image_mono [OF set_update_subset [of k v m], of "g \<circ> snd"] by simp

lemma distinct_update_fresh:
  "g v \<notin> (g \<circ> snd) ` set m \<Longrightarrow> distinct (map (g \<circ> snd) m) \<Longrightarrow> distinct (map (g \<circ> snd) (AList.update k v m))"
proof (induction m)
  case (Cons x m)
  show ?case
  proof (cases "fst x = k")
    case False
    then have upd: "AList.update k v (x # m) = x # AList.update k v m" by (cases x) simp
    have "g (snd x) \<notin> (g \<circ> snd) ` set (AList.update k v m)"
      using Cons.prems image_update [of g k v m] by auto
    then show ?thesis unfolding upd using Cons by simp
  qed (use Cons.prems in \<open>cases x; auto\<close>)
qed simp

lemma mset_pushAt: "mset (concat (map snd (pushAt k v m))) = add_mset v (mset (concat (map snd m)))"
  by (induction m) (auto simp: pushAt_def)

text \<open>The measurements planned so far, among those in \<open>seen\<close>.\<close>

definition planOk :: "nat set \<Rightarrow> measurementPlan \<Rightarrow> bool" where
  "planOk seen plan \<longleftrightarrow>
    distinct (map (tm_ref \<circ> snd) (mp_byEvent plan)) \<and> (tm_ref \<circ> snd) ` set (mp_byEvent plan) \<subseteq> seen \<and>
    distinct (map tm_ref (concat (map snd (mp_byState plan)))) \<and> tm_ref ` set (concat (map snd (mp_byState plan))) \<subseteq> seen"

definition planEventsOk :: "nat set \<Rightarrow> measurementPlan \<Rightarrow> bool" where
  "planEventsOk seen plan \<longleftrightarrow>
    distinct (map (tm_ref \<circ> snd) (mp_byEvent plan)) \<and> (tm_ref \<circ> snd) ` set (mp_byEvent plan) \<subseteq> seen"

definition planStatesOk :: "nat set \<Rightarrow> measurementPlan \<Rightarrow> bool" where
  "planStatesOk seen plan \<longleftrightarrow>
    distinct (map tm_ref (concat (map snd (mp_byState plan)))) \<and> tm_ref ` set (concat (map snd (mp_byState plan))) \<subseteq> seen"

lemma planOk_split: "planOk seen plan \<longleftrightarrow> planEventsOk seen plan \<and> planStatesOk seen plan"
  by (auto simp: planOk_def planEventsOk_def planStatesOk_def)

lemma planOk_mono: "planEventsOk seen plan \<Longrightarrow> planEventsOk (insert r seen) plan" "planStatesOk seen plan \<Longrightarrow> planStatesOk (insert r seen) plan"
  by (auto simp: planEventsOk_def planStatesOk_def)

lemma planForEvent_ok:
  assumes "tm_ref o' \<notin> seen" "planEventsOk seen plan"
  shows "planEventsOk (insert (tm_ref o') seen) (planForEvent event o' plan)"
proof -
  have fresh: "tm_ref o' \<notin> (tm_ref \<circ> snd) ` set (mp_byEvent plan)" using assms by (auto simp: planEventsOk_def)
  have "(tm_ref \<circ> snd) ` set (AList.update k o' (mp_byEvent plan)) \<subseteq> insert (tm_ref o') seen" for k
    using image_update [of tm_ref k o' "mp_byEvent plan"] assms(2) unfolding planEventsOk_def by blast
  then show ?thesis
    using distinct_update_fresh [OF fresh] planOk_mono(1) [OF assms(2)] assms(2)
    by (simp add: planForEvent_def planEventsOk_def del: image_comp)
qed

lemma planForEvent_states [simp]: "planStatesOk seen (planForEvent event o' plan) \<longleftrightarrow> planStatesOk seen plan"
  by (simp add: planForEvent_def planStatesOk_def)

lemma planForState_events [simp]: "planEventsOk seen (planForState key o' plan) \<longleftrightarrow> planEventsOk seen plan"
  by (simp add: planForState_def planEventsOk_def)

lemma planForState_ok:
  assumes "tm_ref o' \<notin> seen" "planStatesOk seen plan"
  shows "planStatesOk (insert (tm_ref o') seen) (planForState key o' plan)"
proof -
  let ?new = "concat (map snd (pushAt key o' (mp_byState plan)))" and ?old = "concat (map snd (mp_byState plan))"
  have perm: "mset ?new = mset (o' # ?old)" by (simp only: mset_pushAt mset.simps)
  then have "mset (map tm_ref ?new) = mset (map tm_ref (o' # ?old))" by (simp only: mset_map)
  then have "distinct (map tm_ref ?new) \<longleftrightarrow> distinct (map tm_ref (o' # ?old))" by (rule mset_eq_imp_distinct_iff)
  moreover have "set ?new = insert o' (set ?old)" using mset_eq_setD [OF perm] by simp
  ultimately show ?thesis using assms unfolding planStatesOk_def planForState_def by auto
qed

lemma planLeft [simp]:
  "planEventsOk seen (leaveMeasurement o' plan) \<longleftrightarrow> planEventsOk seen plan"
  "planStatesOk seen (leaveMeasurement o' plan) \<longleftrightarrow> planStatesOk seen plan"
  "planEventsOk seen (plan\<lparr>mp_schedule := x\<rparr>) \<longleftrightarrow> planEventsOk seen plan"
  "planStatesOk seen (plan\<lparr>mp_schedule := x\<rparr>) \<longleftrightarrow> planStatesOk seen plan"
  by (simp_all add: leaveMeasurement_def planEventsOk_def planStatesOk_def)

lemma planMeasurement_ok:
  assumes "tm_ref o' \<notin> seen" "planOk seen plan"
  shows "planOk (insert (tm_ref o') seen) (planMeasurement input contexts o' plan)"
proof -
  have ok: "planEventsOk seen plan" "planStatesOk seen plan" using assms(2) by (simp_all add: planOk_split)
  note steps = planForEvent_ok [OF assms(1)] planForState_ok [OF assms(1) ok(2)] planOk_mono(1) [OF ok(1)] planOk_mono(2) [OF ok(2)] ok
  have "planOk (insert (tm_ref o') seen) (planUnconfigured input contexts o' plan)"
    unfolding planOk_split planUnconfigured_def Let_def by (auto simp: steps split: option.splits)
  moreover have "planOk (insert (tm_ref o') seen) (planConfigured contexts state o' plan)" for state
    unfolding planOk_split planConfigured_def Let_def by (auto simp: steps split: option.splits)
  ultimately show ?thesis
    using steps by (auto simp: planMeasurement_def planOk_split split: option.splits)
qed

lemma planMeasurements_ok:
  assumes "distinct (map tm_ref (fi_measurements input))"
  shows "planOk (tm_ref ` set (fi_measurements input)) (planMeasurements input contexts)"
proof -
  have "planOk (seen \<union> tm_ref ` set xs) (fold (planMeasurement input contexts) xs plan)"
    if "distinct (map tm_ref xs)" "tm_ref ` set xs \<inter> seen = {}" "planOk seen plan" for xs seen plan
    using that
  proof (induction xs arbitrary: seen plan)
    case (Cons x xs)
    have "planOk (insert (tm_ref x) seen) (planMeasurement input contexts x plan)"
      using Cons.prems by (intro planMeasurement_ok) auto
    then have "planOk (insert (tm_ref x) seen \<union> tm_ref ` set xs)
        (fold (planMeasurement input contexts) xs (planMeasurement input contexts x plan))"
      using Cons.prems by (intro Cons.IH) auto
    then show ?case by simp
  qed simp
  from this [of "fi_measurements input" "{}" noPlan] assms show ?thesis
    by (simp add: planMeasurements_def planOk_def noPlan_def)
qed

text \<open>Two events do not share a measurement.\<close>

lemma byEvent_inj:
  assumes "distinct (map (g \<circ> snd) m)" "map_of m a = Some x" "map_of m b = Some y" "g x = g y"
  shows "a = b"
proof -
  have "(a, x) \<in> set m" "(b, y) \<in> set m" using assms by (auto dest: map_of_SomeD)
  then have "(a, x) = (b, y)" using inj_onD [of "g \<circ> snd" "set m" "(a, x)" "(b, y)"] assms(1,4) by (simp add: distinct_map)
  then show ?thesis by simp
qed

section \<open>Each event is handled once\<close>

lemma distinct_map_filter:
  assumes "\<And>x y. f x = Some y \<Longrightarrow> h y = g x" "distinct (map g xs)"
  shows "distinct (map h (List.map_filter f xs))" "set (map h (List.map_filter f xs)) \<subseteq> g ` set xs"
proof -
  have "distinct (map h (List.map_filter f xs)) \<and> set (map h (List.map_filter f xs)) \<subseteq> g ` set xs"
    using assms(2)
  proof (induction xs)
    case (Cons x xs)
    show ?case
    proof (cases "f x")
      case (Some y)
      then have "h y = g x" by (rule assms(1))
      with Some Cons show ?thesis by (auto simp: List.map_filter_simps)
    qed (use Cons in \<open>auto simp: List.map_filter_simps\<close>)
  qed (simp add: List.map_filter_simps)
  then show "distinct (map h (List.map_filter f xs))" "set (map h (List.map_filter f xs)) \<subseteq> g ` set xs" by simp_all
qed

lemma androidContexts_distinct: "distinct (map contextId (androidContexts input))"
proof -
  have keys: "distinct (map fst (positionsByEvent (fi_cells input)))"
  proof -
    have "distinct (map fst (fold (\<lambda>(position, cell) m. if nc_rat cell = ''NR'' then pushAt (nc_eventIndex cell) position m else m) xs m))"
      if "distinct (map fst m)" for xs :: "(nat \<times> nsgCell) list" and m
      using that by (induction xs arbitrary: m) (auto simp: pushAt_def distinct_update)
    then show ?thesis by (simp add: positionsByEvent_def)
  qed
  have "contextId ctx = fst e"
    if "createAndroidNrContext cells (map_of (rev (map (\<lambda>e. (ev_id e, e)) events))) e = Some ctx" for cells events e ctx
    using that by (cases e)
      (auto simp: createAndroidNrContext_def Let_def contextId_def dest!: map_of_SomeD split: option.splits if_splits)
  then show ?thesis
    unfolding androidContexts_def createAndroidNrContexts_def by (rule distinct_map_filter(1) [OF _ keys])
qed

lemma futureContexts_keys:
  "list_all (\<lambda>e. contextId (snd e) = fst e) (fst (fold (addFutureContext input) infos ([], []))) \<and>
   distinct (map fst (fst (fold (addFutureContext input) infos ([], []))))"
proof -
  let ?P = "\<lambda>state. list_all (\<lambda>e. contextId (snd e) = fst e) (fst state) \<and> distinct (map fst (fst state))"
  have "?P (addFutureContext input servingCell state)" if "?P state" for servingCell state
    using that
    by (cases state)
      (auto simp: addFutureContext_def distinct_update distinct_delete
        dest!: subsetD [OF set_update_subset] subsetD [OF set_delete_subset] split: option.splits)
  then have "?P (fold (addFutureContext input) infos ([], []))"
    by (intro fold_invariant_set [where P = ?P]) auto
  then show ?thesis .
qed

lemma standaloneContexts_distinct: "distinct (map contextId (standaloneContexts input))"
proof -
  have established: "distinct (map contextId (createEstablishedContexts input))"
    unfolding createEstablishedContexts_def
    by (rule distinct_map_filter(1) [OF _ androidContexts_distinct]) (auto simp: establishedContext_def Let_def)
  let ?future = "fst (fold (addFutureContext input) (fi_servingCellInfos input) ([], []))"
  have "map contextId (createFutureContexts input) = map fst ?future"
    using futureContexts_keys [of input "fi_servingCellInfos input"] by (simp add: createFutureContexts_def comp_def)
  then have "distinct (map contextId (createFutureContexts input))"
    using futureContexts_keys [of input "fi_servingCellInfos input"] by simp
  then show ?thesis
    using established by (simp add: standaloneContexts_def Let_def distinct_filter_map disjoint_iff) blast
qed

section \<open>Each decoded cell is used once in an event\<close>

lemma uniquePairs_sub:
  "distinct (map fst placed) \<Longrightarrow> distinct (map fst (uniquePairs seen placed))"
  "set (uniquePairs seen placed) \<subseteq> set placed"
proof -
  have sub: "set (uniquePairs seen placed) \<subseteq> set placed" for seen placed
    by (induction seen placed rule: uniquePairs.induct) auto
  show "set (uniquePairs seen placed) \<subseteq> set placed" by (rule sub)
  show "distinct (map fst placed) \<Longrightarrow> distinct (map fst (uniquePairs seen placed))"
  proof (induction seen placed rule: uniquePairs.induct)
    case (2 seen placed others)
    have "fst ` set (uniquePairs seen' others) \<subseteq> fst ` set others" for seen' by (rule image_mono) (rule sub)
    with 2 show ?case by (auto dest: subsetD)
  qed simp
qed

lemma placedCells_distinct: "distinct (map fst (placedCells observation))"
  by (simp add: placedCells_def)

lemma servingFirst_distinct: "distinct (map fst (servingFirst observation))"
proof -
  have "mset (servingFirst observation) = mset (placedCells observation)"
    by (simp add: servingFirst_def Let_def split_def)
  then have "mset (map fst (servingFirst observation)) = mset (map fst (placedCells observation))" by (simp only: mset_map)
  then show ?thesis using mset_eq_imp_distinct_iff placedCells_distinct by blast
qed

lemma matchMeasurement_matched:
  "mm_matched (matchMeasurement cells ctx ev observation placed m) = mm_matched m \<or>
   mm_matched (matchMeasurement cells ctx ev observation placed m) = fst placed # mm_matched m"
  by (auto simp: matchMeasurement_def Let_def split: option.splits)

lemma matched_distinct: "distinct (mm_matched (matchEvent cells ctx ev))"
proof -
  have "distinct (mm_matched (fold (matchMeasurement cells ctx ev observation) xs m))"
    if "distinct (map fst xs)" "fst ` set xs \<inter> set (mm_matched m) = {}" "distinct (mm_matched m)" for observation xs m
    using that
  proof (induction xs arbitrary: m)
    case (Cons x xs)
    let ?m = "matchMeasurement cells ctx ev observation x m"
    have "mm_matched ?m = mm_matched m \<or> mm_matched ?m = fst x # mm_matched m" by (rule matchMeasurement_matched)
    then have "fst ` set xs \<inter> set (mm_matched ?m) = {}" "distinct (mm_matched ?m)"
      using Cons.prems by (elim disjE; simp)+
    then show ?case using Cons by simp
  qed simp
  then show ?thesis
    using servingFirst_distinct by (simp add: matchEvent_def Let_def split: option.splits)
qed

lemma unreported_distinct:
  "distinct (matched @ map fst (unreportedCells cells ctx matched observation)) \<longleftrightarrow> distinct matched"
proof -
  let ?xs = "filter (isUnreported cells ctx matched) (placedCells observation)"
  have "distinct (map fst ?xs)" by (rule distinct_filter_map [OF placedCells_distinct])
  then have "distinct (map fst (unreportedCells cells ctx matched observation))"
    by (simp add: unreportedCells_def uniquePairs_sub(1))
  moreover have "fst placed \<notin> set matched" if "placed \<in> set (unreportedCells cells ctx matched observation)" for placed
  proof -
    have "placed \<in> set ?xs" using that uniquePairs_sub(2) unfolding unreportedCells_def by blast
    then show ?thesis by (simp add: isUnreported_def)
  qed
  ultimately show ?thesis by auto
qed

text \<open>The cells an event uses up.\<close>

definition usedByContext :: "fusionInput \<Rightarrow> standaloneEventContext list \<Rightarrow> measurementPlan \<Rightarrow> standaloneEventContext \<Rightarrow> measurementRef list" where
  "usedByContext input contexts plan ctx =
    (case map_of (mp_byEvent plan) (contextId ctx) of
       None \<Rightarrow> []
     | Some observation \<Rightarrow>
         (let matched = mm_matched (matchEvent (fi_cells input) ctx (eventEvidence input contexts plan ctx))
          in map (Pair (tm_ref observation)) (matched @ map fst (unreportedCells (fi_cells input) ctx matched observation))))"

lemma fuseContext_used:
  "fs_usedMeasurements (fuseContext input contexts plan ctx s) = usedByContext input contexts plan ctx @ fs_usedMeasurements s"
proof -
  have "ee_observation (eventEvidence input contexts plan ctx) = map_of (mp_byEvent plan) (contextId ctx)"
    by (simp add: eventEvidence_def Let_def)
  then show ?thesis
    by (auto simp: fuseContext_def usedByContext_def Let_def refOf_def split: option.splits)
qed

lemma fuseSchedule_used [simp]: "fs_usedMeasurements (fuseSchedule cells entry s) = fs_usedMeasurements s"
  by (simp add: fuseSchedule_def Let_def)

lemma usedByContext_distinct: "distinct (usedByContext input contexts plan ctx)"
proof (cases "map_of (mp_byEvent plan) (contextId ctx)")
  case (Some observation)
  let ?matched = "mm_matched (matchEvent (fi_cells input) ctx (eventEvidence input contexts plan ctx))"
  have "distinct (?matched @ map fst (unreportedCells (fi_cells input) ctx ?matched observation))"
    unfolding unreported_distinct by (rule matched_distinct)
  then show ?thesis
    unfolding usedByContext_def Some option.case Let_def by (rule distinct_map [THEN iffD2, OF conjI]) (simp add: inj_on_def)
qed (simp add: usedByContext_def)

lemma usedByContext_refs:
  "r \<in> set (usedByContext input contexts plan ctx) \<Longrightarrow>
    \<exists>observation. map_of (mp_byEvent plan) (contextId ctx) = Some observation \<and> fst r = tm_ref observation"
  by (cases "map_of (mp_byEvent plan) (contextId ctx)") (auto simp: usedByContext_def Let_def)

lemma fuseAll_used:
  "fs_usedMeasurements (fuseAll input contexts plan) = concat (map (usedByContext input contexts plan) (rev contexts))"
proof -
  have "fs_usedMeasurements (fold (fuseSchedule cells) es s) = fs_usedMeasurements s" for cells es s
    by (induction es arbitrary: s) simp_all
  moreover have "fs_usedMeasurements (fold (fuseContext input all plan) cs s) =
      concat (map (usedByContext input all plan) (rev cs)) @ fs_usedMeasurements s" for all cs s
    by (induction cs arbitrary: s) (simp_all add: fuseContext_used)
  ultimately show ?thesis by (simp add: fuseAll_def noFusion_def)
qed

lemma distinct_concat_map:
  assumes "distinct xs" "\<And>x. x \<in> set xs \<Longrightarrow> distinct (f x)"
    "\<And>x y r. x \<in> set xs \<Longrightarrow> y \<in> set xs \<Longrightarrow> r \<in> set (f x) \<Longrightarrow> r \<in> set (f y) \<Longrightarrow> x = y"
  shows "distinct (concat (map f xs))"
  using assms
proof (induction xs)
  case (Cons a xs)
  have "r \<notin> set (f x)" if "r \<in> set (f a)" "x \<in> set xs" for r x
    using Cons.prems(3) [of a x r] that Cons.prems(1) by auto
  moreover have "distinct (concat (map f xs))"
  proof (rule Cons.IH)
    show "distinct xs" using Cons.prems(1) by simp
    show "distinct (f x)" if "x \<in> set xs" for x using Cons.prems(2) that by simp
    show "x = y" if "x \<in> set xs" "y \<in> set xs" "r \<in> set (f x)" "r \<in> set (f y)" for x y r
      using Cons.prems(3) [of x y r] that by simp
  qed
  ultimately show ?case using Cons.prems(1,2) by auto
qed simp

lemma fuseAll_used_distinct:
  assumes "distinct (map contextId contexts)" "distinct (map (tm_ref \<circ> snd) (mp_byEvent plan))"
  shows "distinct (fs_usedMeasurements (fuseAll input contexts plan))"
  unfolding fuseAll_used
proof (rule distinct_concat_map)
  show "distinct (rev contexts)" using assms(1) by (simp add: distinct_map)
  fix x y r
  assume "x \<in> set (rev contexts)" "y \<in> set (rev contexts)" "r \<in> set (usedByContext input contexts plan x)"
    "r \<in> set (usedByContext input contexts plan y)"
  moreover from this obtain o1 o2 where "map_of (mp_byEvent plan) (contextId x) = Some o1" "map_of (mp_byEvent plan) (contextId y) = Some o2"
    "tm_ref o1 = tm_ref o2" using usedByContext_refs by metis
  then have "contextId x = contextId y" by (rule byEvent_inj [OF assms(2)])
  ultimately show "x = y" using assms(1) by (simp add: distinct_map inj_on_def)
qed (rule usedByContext_distinct)

section \<open>And once outside the events\<close>

text \<open>The decoded cells a group of standalone cells is made of.\<close>

definition groupRefs :: "standaloneGroup \<Rightarrow> measurementRef list" where
  "groupRefs grp = List.map_filter (\<lambda>d. map_option contributionRef (sd_measurement d)) (sg_cells grp)"

lemma contributionRef_contribution [simp]: "contributionRef (contribution observation placed) = refOf observation placed"
  by (simp add: contributionRef_def contribution_def refOf_def)

lemma matchServing_fresh:
  assumes "\<And>m. matched = Some m \<Longrightarrow> contributionRef m \<notin> set used" "matchServing servingCell pci used observation matched = Some m"
  shows "contributionRef m \<notin> set used"
  using assms by (auto simp: matchServing_def split: if_splits option.splits)

lemma matchingMeasurement_fresh:
  assumes "matchingMeasurementForServing observations servingCell used = Some m"
  shows "contributionRef m \<notin> set used"
proof -
  have "\<forall>m. fold (matchServing servingCell pci used) observations None = Some m \<longrightarrow> contributionRef m \<notin> set used" for pci
    by (rule fold_invariant_set) (use matchServing_fresh in \<open>blast | simp\<close>)+
  then show ?thesis using assms by (auto simp: matchingMeasurementForServing_def split: option.splits)
qed

lemma groupRefs_single [simp]:
  "groupRefs \<lparr>sg_envelope = e, sg_point = p, sg_state = state, sg_streamIndex = i,
     sg_cells = [\<lparr>sd_servingCell = c, sd_measurement = m\<rparr>]\<rparr> = (case m of None \<Rightarrow> [] | Some b \<Rightarrow> [contributionRef b])"
  by (simp add: groupRefs_def List.map_filter_simps split: option.splits)

lemma servingGroups_used:
  "distinct (snd st) \<Longrightarrow> mset (snd st) = mset (old @ concat (map groupRefs (fst st))) \<Longrightarrow>
    distinct (snd (fold (addServingGroup input plan us) infos st)) \<and>
    mset (snd (fold (addServingGroup input plan us) infos st)) =
      mset (old @ concat (map groupRefs (fst (fold (addServingGroup input plan us) infos st))))"
proof (induction infos arbitrary: st)
  case (Cons info infos)
  obtain groups used where st: "st = (groups, used)" by (cases st)
  have "distinct (snd (addServingGroup input plan us info st)) \<and>
      mset (snd (addServingGroup input plan us info st)) = mset (old @ concat (map groupRefs (fst (addServingGroup input plan us info st))))"
    using Cons.prems matchingMeasurement_fresh [of _ info used]
    by (auto simp: addServingGroup_def st Let_def split: option.split)
  then show ?case using Cons.IH by simp
qed simp

lemma measurementGroup_refs:
  assumes "measurementGroup input used observation = Some grp"
  shows "distinct (groupRefs grp)" "\<forall>r\<in>set (groupRefs grp). fst r = tm_ref observation \<and> r \<notin> set used"
proof -
  let ?fresh = "filter (\<lambda>placed. refOf observation placed \<notin> set used \<and> measurementPair (snd placed) \<noteq> None) (placedCells observation)"
  have "groupRefs grp = map (refOf observation) (uniquePairs [] ?fresh)"
    using assms by (auto simp: measurementGroup_def groupRefs_def Let_def map_filter_def comp_def split: option.splits if_splits)
  moreover have "distinct (map fst (uniquePairs [] ?fresh))"
    by (intro uniquePairs_sub(1) distinct_filter_map placedCells_distinct)
  then have "distinct (map (refOf observation) (uniquePairs [] ?fresh))"
    by (auto simp: distinct_map inj_on_def refOf_def)
  moreover have "set (uniquePairs [] ?fresh) \<subseteq> set ?fresh" by (rule uniquePairs_sub(2))
  ultimately show "distinct (groupRefs grp)" "\<forall>r\<in>set (groupRefs grp). fst r = tm_ref observation \<and> r \<notin> set used"
    by (auto simp: refOf_def)
qed

lemma measurementGroups_refs:
  assumes "distinct (map tm_ref observations)"
  shows "distinct (concat (map groupRefs (List.map_filter (measurementGroup input used) observations))) \<and>
    (\<forall>r\<in>set (concat (map groupRefs (List.map_filter (measurementGroup input used) observations))).
      fst r \<in> tm_ref ` set observations \<and> r \<notin> set used)"
  using assms
proof (induction observations)
  case (Cons o' observations)
  show ?case
  proof (cases "measurementGroup input used o'")
    case (Some grp)
    note refs = measurementGroup_refs [OF Some]
    have "set (groupRefs grp) \<inter> set (concat (map groupRefs (List.map_filter (measurementGroup input used) observations))) = {}"
      using refs(2) Cons by fastforce
    then show ?thesis using Some Cons refs by (auto simp: List.map_filter_simps)
  qed (use Cons in \<open>auto simp: List.map_filter_simps\<close>)
qed (simp add: List.map_filter_simps)

text \<open>
  The cells marked as used up by the events and those put into events of their own are, taken together, all
  different.
\<close>
lemma usage_marks_distinct:
  assumes "distinct (map tm_ref (fi_measurements input))"
    "plan = planMeasurements input (standaloneContexts input)" "s = fuseAll input (standaloneContexts input) plan"
  shows "distinct (fs_usedMeasurements s @ concat (map groupRefs (standaloneGroups input plan s)))"
proof -
  have plan: "planOk (tm_ref ` set (fi_measurements input)) plan" using planMeasurements_ok [OF assms(1)] assms(2) by simp
  have used: "distinct (fs_usedMeasurements s)"
    using fuseAll_used_distinct [OF standaloneContexts_distinct] plan assms(3) by (simp add: planOk_def)
  define st where "st = fold (addServingGroup input plan (fs_usedServing s)) (fi_servingCellInfos input) ([], fs_usedMeasurements s)"
  define later where "later = List.map_filter (measurementGroup input (snd st)) (concat (map snd (mp_byState plan)))"
  have serving: "distinct (snd st)" "mset (snd st) = mset (fs_usedMeasurements s @ concat (map groupRefs (fst st)))"
    using servingGroups_used [of "([], fs_usedMeasurements s)" "fs_usedMeasurements s" input plan "fs_usedServing s" "fi_servingCellInfos input"]
      used by (simp_all add: st_def)
  have rest: "distinct (concat (map groupRefs later))" "set (snd st) \<inter> set (concat (map groupRefs later)) = {}"
    using measurementGroups_refs [of "concat (map snd (mp_byState plan))" input "snd st"] plan by (auto simp: planOk_def later_def)
  have sorted: "standaloneGroups input plan s = sortBy (\<lambda>left right. of_int (compareTimeline (sg_point left) (sg_point right))) (fst st @ later)"
    by (simp add: standaloneGroups_def Let_def later_def split_def flip: st_def)
  have "mset (concat (map groupRefs (standaloneGroups input plan s))) = mset (concat (map groupRefs (fst st @ later)))"
  proof -
    have "mset (concat (map f xs)) = (\<Sum>x\<in>#mset xs. mset (f x))" for f :: "standaloneGroup \<Rightarrow> measurementRef list" and xs
      by (induction xs) simp_all
    then show ?thesis unfolding sorted by simp
  qed
  then have "mset (fs_usedMeasurements s @ concat (map groupRefs (standaloneGroups input plan s))) =
      mset (snd st @ concat (map groupRefs later))"
    using serving(2) by simp
  moreover have "distinct (snd st @ concat (map groupRefs later))" using serving(1) rest by auto
  ultimately show ?thesis using mset_eq_imp_distinct_iff by blast
qed

section \<open>An example\<close>

text \<open>
  A recording with one Android event and its NR cell, a stream that is connected to standalone NR, leaves it
  and returns, the serving cell of the phone and two measurements: one at the event, one long after it.
\<close>

definition saConfiguration :: "int \<Rightarrow> int \<Rightarrow> timedNrConfigurationInfo" where
  "saConfiguration elapsedUs mode =
    \<lparr>tp_elapsedUs = elapsedUs, tp_recordOffset = elapsedUs, ts_timestampUs = elapsedUs, ts_timestampMs = 0, tc_streamIndex = 1,
      tc_configuration = \<lparr>ncf_packetLength = 64, ncf_version = 8, ncf_state = 7, ncf_configurationActive = True,
        ncf_connectivityMode = mode, ncf_activeSrbCount = 2, ncf_activeDrbCount = 1, ncf_mnMcgDrbIds = 1,
        ncf_contiguousCarrierGroups = [], ncf_activeCarriers = [], ncf_activeRadioBearerCount = 3\<rparr>\<rparr>"

definition saMeasurement :: "nat \<Rightarrow> int \<Rightarrow> int list \<Rightarrow> timedNrMeasurement" where
  "saMeasurement ref elapsedUs pcis =
    \<lparr>tp_elapsedUs = elapsedUs, tp_recordOffset = elapsedUs, ts_timestampUs = elapsedUs, ts_timestampMs = 0, tm_ref = ref,
      tm_streamIndex = 1, tm_measurement = \<lparr>nm_packetLength = 100, nm_versionMajor = 2, nm_versionMinor = 6, nm_layerCount = 1,
        nm_cells = map (\<lambda>pci. \<lparr>mc_carrierIndex = 0, mc_cellIndex = 0, mc_arfcn = 630000, mc_ccId = None, mc_pci = pci, mc_sfn = 5,
          mc_beamCount = 0, mc_rsrp = - 90, mc_rsrq = - 11, mc_serving = pci = 7, mc_servingPci = 7, mc_servingSsb = 0\<rparr>) pcis\<rparr>\<rparr>"

definition saServing :: "int \<Rightarrow> timedNrServingCellInfo" where
  "saServing elapsedUs =
    \<lparr>tp_elapsedUs = elapsedUs, tp_recordOffset = elapsedUs + 1, ts_timestampUs = elapsedUs, ts_timestampMs = 0, tv_ref = 0,
      tv_streamIndex = 1, tv_info = \<lparr>nsc_packetLength = 48, nsc_version = 4, nsc_physicalCellId = 7, nsc_downlinkFrequency = 630000,
        nsc_uplinkFrequency = 630000, nsc_downlinkBandwidth = 100, nsc_uplinkBandwidth = 100, nsc_cellIdentity = 4097,
        nsc_mcc = 260, nsc_mncDigitCount = 2, nsc_mnc = 1, nsc_allowedAccess = 1, nsc_tac = 5, nsc_band = 78\<rparr>\<rparr>"

definition saEvent :: nsgEvent where
  "saEvent = \<lparr>tp_elapsedUs = 100, tp_recordOffset = 100, ts_timestampUs = 100, ts_timestampMs = 0, ev_id = 0,
     ev_name = ''ScheduleCellInfo'', ev_marker = Some 64, ev_streamIndex = 0, ev_data = []\<rparr>"

definition saCell :: nsgCell where
  "saCell = \<lparr>tp_elapsedUs = 100, tp_recordOffset = 100, ts_timestampUs = 100, ts_timestampMs = 0, nc_eventIndex = 0,
     nc_cellIndex = 0, nc_rat = ''NR'', nc_registered = Some True, nc_measurementRole = None, nc_nrMode = Some SaMode,
     nc_sources = [AndroidTelephony], nc_subId = Some 1, nc_slotId = Some 0, nc_isDefaultSubscription = Some True,
     nc_mcc = Some ''260'', nc_mnc = Some ''01'', nc_operatorName = None,
     nc_radio = noRadioFields\<lparr>rf_arfcn := Some 630000, rf_pci := Some 7, rf_nci := Some 4097\<rparr>,
     nc_identity = \<lparr>ni_gnbid = None, ni_gnbidLength = None, ni_clid = None, ni_source = None\<rparr>, nc_raw = []\<rparr>"

definition saInput :: fusionInput where
  "saInput = \<lparr>fi_cells = [saCell], fi_events = [saEvent],
     fi_configurations = [saConfiguration 0 2, saConfiguration 10 2, saConfiguration 30000000 1, saConfiguration 60000000 2],
     fi_servingCellInfos = [saServing 90], fi_measurements = [saMeasurement 0 110 [7, 8], saMeasurement 1 70000000 [9]],
     fi_lteAnchors = [], fi_lteServingCellInfos = [], fi_defaultDataSubscriptions = []\<rparr>"

lemma sa_timeline: "streamTimeline (fi_configurations saInput) 1 =
    [] @ (saConfiguration 0 2, Some 1) # [] @ (saConfiguration 10 2, Some 1) # [(saConfiguration 30000000 1, None), (saConfiguration 60000000 2, Some 2)]"
  by code_simp

lemma epochs_do_not_span_gaps_witness:
  "streamTimeline (fi_configurations saInput) 1 = [(saConfiguration 0 2, Some 1), (saConfiguration 10 2, Some 1),
      (saConfiguration 30000000 1, None), (saConfiguration 60000000 2, Some 2)] \<and>
    list_all (\<lambda>s. snd s = Some 1) ([] :: indexedState list)"
  using epochs_do_not_span_gaps [OF sa_timeline] sa_timeline by simp

lemma synthetic_events_numbered_witness:
  "map ev_id (fi_events saInput @ fr_syntheticEvents (fuseStandaloneCells saInput)) =
      map int [0..<length (fi_events saInput @ fr_syntheticEvents (fuseStandaloneCells saInput))] \<and>
    list_all (\<lambda>c. 0 \<le> nc_eventIndex c \<and>
        nc_eventIndex c < int (length (fi_events saInput @ fr_syntheticEvents (fuseStandaloneCells saInput))))
      (fr_cells (fuseStandaloneCells saInput))"
  by (rule synthetic_events_numbered) (simp_all add: saInput_def saEvent_def saCell_def)


end
