(* ===== verification/NsgResult.thy ===== *)
theory NsgResult
  imports NsgUsage NsgRecordTheorems
begin

text \<open>
  The decoded cells of the measurements and the cells of the result. A cell of the result names the measured cell
  it was made from in its raw object; no two cells of the result name the same one, whether it was joined with a
  cell of Android, added to an event as a neighbor or put into an event of its own.
\<close>

section \<open>The measured cell a cell names\<close>

text \<open>The record, the carrier and the place of the measured cell, as \<open>measurementProvenance\<close> writes them.\<close>

type_synonym measuredCell = "json \<times> json \<times> json"

definition measuredCell :: "nsgCell \<Rightarrow> measuredCell option" where
  "measuredCell cell =
    (case (field (nc_raw cell) ''diagMeasurementRecordOffset'', field (nc_raw cell) ''diagMeasurementCarrierIndex'',
        field (nc_raw cell) ''diagMeasurementCellIndex'') of
       (Some offset, Some carrier, Some place) \<Rightarrow> Some (offset, carrier, place)
     | _ \<Rightarrow> None)"

definition measuredBy :: "measurementContribution \<Rightarrow> measuredCell" where
  "measuredBy b = (jInt (tp_recordOffset (mb_observation b)), jInt (mc_carrierIndex (mb_cell b)), jInt (mc_cellIndex (mb_cell b)))"

lemma field_assignFields:
  "field (assignFields obj additions) k = (case map_of (rev additions) k of Some v \<Rightarrow> Some v | None \<Rightarrow> field obj k)"
proof (induction additions arbitrary: obj)
  case (Cons a additions)
  obtain key v where a: "a = (key, v)" by (cases a)
  have "field (assignFields obj (a # additions)) k = field (assignFields (setField key v obj) additions) k"
    by (simp add: assignFields_def a)
  then show ?case unfolding Cons.IH
    by (simp add: field_setField a map_add_def split: option.split)
qed (simp add: assignFields_def)

lemma measured_fields:
  "field (assignFields obj (measurementProvenance b)) ''diagMeasurementRecordOffset'' = Some (jInt (tp_recordOffset (mb_observation b)))"
  "field (assignFields obj (measurementProvenance b)) ''diagMeasurementCarrierIndex'' = Some (jInt (mc_carrierIndex (mb_cell b)))"
  "field (assignFields obj (measurementProvenance b)) ''diagMeasurementCellIndex'' = Some (jInt (mc_cellIndex (mb_cell b)))"
  by (simp_all add: field_assignFields measurementProvenance_def Let_def)

text \<open>The other parts of a raw object leave these three fields alone: their keys start in another way.\<close>

definition isMeasurementKey :: "string \<Rightarrow> bool" where
  "isMeasurementKey k \<longleftrightarrow> take 5 k = ''diagM''"

lemma measuredCell_cong:
  "(\<And>k. isMeasurementKey k \<Longrightarrow> field (nc_raw c) k = field (nc_raw d) k) \<Longrightarrow> measuredCell c = measuredCell d"
  by (simp add: measuredCell_def isMeasurementKey_def)

lemma field_assign_other:
  assumes "isMeasurementKey k" "list_all (\<lambda>e. \<not> isMeasurementKey (fst e)) additions"
  shows "field (assignFields obj additions) k = field obj k"
proof -
  have "map_of (rev additions) k = None"
    using assms by (auto simp: map_of_eq_None_iff list_all_iff)
  then show ?thesis by (simp add: field_assignFields)
qed

lemma other_keys:
  "list_all (\<lambda>e. \<not> isMeasurementKey (fst e)) (configurationProvenance configuration)"
  "list_all (\<lambda>e. \<not> isMeasurementKey (fst e)) (carrierProvenance carrier)"
  "list_all (\<lambda>e. \<not> isMeasurementKey (fst e)) (servingProvenance servingCell)"
  by (simp_all add: isMeasurementKey_def configurationProvenance_def carrierProvenance_def servingProvenance_def Let_def)

lemma field_other [simp]:
  assumes "isMeasurementKey k"
  shows "field (assignFields obj (configurationProvenance configuration @ [(''nrMode'', mode)])) k = field obj k"
    "field (assignFields obj (carrierProvenance carrier)) k = field obj k"
    "field (assignFields obj (servingProvenance servingCell)) k = field obj k"
    "field (deleteField ''measurementRole'' obj) k = field obj k"
    "field (setField ''androidContextEventIndex'' v obj) k = field obj k"
proof -
  have differs: "k \<noteq> ''measurementRole''" "k \<noteq> ''androidContextEventIndex''" "\<not> isMeasurementKey ''nrMode''"
    using assms by (auto simp: isMeasurementKey_def)
  show "field (assignFields obj (configurationProvenance configuration @ [(''nrMode'', mode)])) k = field obj k"
    by (rule field_assign_other [OF assms]) (use differs other_keys in \<open>simp del: list_all_Ball\<close>)
qed (use assms field_assign_other [OF assms other_keys(2)] field_assign_other [OF assms other_keys(3)] in
    \<open>auto simp: field_deleteField field_setField isMeasurementKey_def\<close>)

section \<open>The measured cell of each cell the fusion makes\<close>

lemma measured_keys [simp]:
  "isMeasurementKey ''diagMeasurementRecordOffset''" "isMeasurementKey ''diagMeasurementCarrierIndex''"
  "isMeasurementKey ''diagMeasurementCellIndex''"
  by (simp_all add: isMeasurementKey_def)

lemma measuredCell_fields: "measuredCell cell =
    (case (field (nc_raw cell) ''diagMeasurementRecordOffset'', field (nc_raw cell) ''diagMeasurementCarrierIndex'',
        field (nc_raw cell) ''diagMeasurementCellIndex'') of
       (Some offset, Some carrier, Some place) \<Rightarrow> Some (offset, carrier, place) | _ \<Rightarrow> None)"
  by (rule measuredCell_def)

lemma measuredCell_fuseScheduleCell [simp]: "measuredCell (fuseScheduleCell cell b) = Some (measuredBy b)"
proof -
  have raw: "nc_raw (fuseScheduleCell cell b) = deleteField ''measurementRole''
      (setField ''nrMode'' (JStr ''SA'') (assignFields (nc_raw cell) (measurementProvenance b)))"
    by (simp add: fuseScheduleCell_def asStandalone_def assignFields_def)
  show ?thesis
    unfolding measuredCell_def raw by (simp add: field_setField measured_fields measuredBy_def)
qed

lemma nc_raw_fuseCell: "nc_raw (fuseCell cell state c) =
    optionally (\<lambda>m r. assignFields r (measurementProvenance m)) (ct_measurement c)
      (optionally (\<lambda>s r. assignFields r (servingProvenance s)) (ct_servingCell c)
        (optionally (\<lambda>c r. assignFields r (carrierProvenance c)) (ct_carrier c)
          (deleteField ''measurementRole''
            (assignFields (nc_raw cell) (configurationProvenance (ss_configuration state) @ [(''nrMode'', JStr ''SA'')])))))"
  by (simp add: fuseCell_def asStandalone_def Let_def)

lemma field_optionally [simp]:
  "isMeasurementKey k \<Longrightarrow> field (optionally (\<lambda>s r. assignFields r (servingProvenance s)) o1 raw) k = field raw k"
  "isMeasurementKey k \<Longrightarrow> field (optionally (\<lambda>c r. assignFields r (carrierProvenance c)) o2 raw) k = field raw k"
  "isMeasurementKey k \<Longrightarrow> field (optionally (\<lambda>e. setField ''androidContextEventIndex'' (g e)) o3 raw) k = field raw k"
  by (simp_all add: optionally_def split: option.split)

lemma measuredCell_fuseCell:
  "measuredCell (fuseCell cell state c) = (case ct_measurement c of Some b \<Rightarrow> Some (measuredBy b) | None \<Rightarrow> measuredCell cell)"
proof (cases "ct_measurement c")
  case None
  show ?thesis
    by (simp add: None, rule measuredCell_cong) (simp add: nc_raw_fuseCell None optionally_def [of _ None])
next
  case (Some b)
  then show ?thesis
    unfolding measuredCell_def nc_raw_fuseCell by (simp add: optionally_def [of _ "Some b"] measured_fields measuredBy_def)
qed

lemma measuredCell_neighbors [simp]:
  "measuredCell (createScheduleNeighbor envelope event k b) = Some (measuredBy b)"
  "measuredCell (createDerivedNeighbor envelope event k state b carrier) = Some (measuredBy b)"
proof -
  have found: "field (xs @ measurementProvenance b) key = field (measurementProvenance b) key"
    if "isMeasurementKey key" "list_all (\<lambda>e. \<not> isMeasurementKey (fst e)) xs" for xs key
  proof -
    have "map_of xs key = None" using that by (auto simp: map_of_eq_None_iff list_all_iff)
    then show ?thesis by (simp add: field_def map_add_def split: option.split)
  qed
  have own: "field (measurementProvenance b) ''diagMeasurementRecordOffset'' = Some (jInt (tp_recordOffset (mb_observation b)))"
    "field (measurementProvenance b) ''diagMeasurementCarrierIndex'' = Some (jInt (mc_carrierIndex (mb_cell b)))"
    "field (measurementProvenance b) ''diagMeasurementCellIndex'' = Some (jInt (mc_cellIndex (mb_cell b)))"
    by (simp_all add: field_def measurementProvenance_def Let_def)
  have keys: "list_all (\<lambda>e. \<not> isMeasurementKey (fst e)) neighborRaw"
    "list_all (\<lambda>e. \<not> isMeasurementKey (fst e)) (neighborRaw @ configurationProvenance (ss_configuration state))"
    using other_keys(1) [of "ss_configuration state"]
    by (simp_all add: neighborRaw_def isMeasurementKey_def del: list_all_Ball)
  show "measuredCell (createScheduleNeighbor envelope event k b) = Some (measuredBy b)"
    unfolding measuredCell_def
    by (simp add: createScheduleNeighbor_def neighborCell_def found keys(1) own measuredBy_def del: list_all_Ball)
  have raw: "nc_raw (createDerivedNeighbor envelope event k state b carrier) =
      optionally (\<lambda>c r. assignFields r (carrierProvenance c)) carrier
        ((neighborRaw @ configurationProvenance (ss_configuration state)) @ measurementProvenance b)"
    by (simp add: createDerivedNeighbor_def neighborCell_def Let_def)
  show "measuredCell (createDerivedNeighbor envelope event k state b carrier) = Some (measuredBy b)"
    unfolding measuredCell_def raw
    by (simp add: found [OF _ keys(2)] own measuredBy_def del: list_all_Ball append_assoc)
qed

lemma measuredCell_createStandaloneCell [simp]:
  "measuredCell (createStandaloneCell envelope eventIndex cellIndex state servingCell measurement) = map_option measuredBy measurement"
proof -
  have start: "field ([(''type'', JStr ''nr''), (''registered'', JBool registered), (''source'', JStr ''qualcomm-diag''),
      (''nrMode'', JStr ''SA'')] @ configurationProvenance (ss_configuration state)) k = None"
    (is "field ?start k = None") if "isMeasurementKey k" for k registered
  proof -
    have "list_all (\<lambda>e. \<not> isMeasurementKey (fst e)) ?start"
      using other_keys(1) [of "ss_configuration state"] by (simp add: isMeasurementKey_def del: list_all_Ball)
    then show ?thesis using that by (auto simp: field_def map_of_eq_None_iff list_all_iff)
  qed
  show ?thesis
  proof (cases measurement)
    case None
    then show ?thesis
      unfolding measuredCell_def
      by (simp add: createStandaloneCell_def standaloneRaw_def Let_def optionally_def [of _ None] start del: append_Cons append_Nil)
  next
    case (Some b)
    then show ?thesis
      unfolding measuredCell_def
      by (simp add: createStandaloneCell_def standaloneRaw_def Let_def optionally_def [of _ "Some b"] measured_fields measuredBy_def)
  qed
qed

section \<open>Measured cells with a name of their own\<close>

text \<open>
  The records of a recording have offsets of their own, their objects too (\<open>tm_ref\<close>), and the decoder numbers
  the cells of a measurement by their carrier and their place in it.
\<close>

definition distinctMeasurements :: "timedNrMeasurement list \<Rightarrow> bool" where
  "distinctMeasurements measurements \<longleftrightarrow>
    distinct (map tm_ref measurements) \<and> distinct (map tp_recordOffset measurements) \<and>
    (\<forall>o'\<in>set measurements. distinct (map (\<lambda>c. (mc_carrierIndex c, mc_cellIndex c)) (nm_cells (tm_measurement o'))))"

lemma measuredBy_inj:
  assumes "distinctMeasurements measurements" "o1 \<in> set measurements" "o2 \<in> set measurements"
    "c1 \<in> set (placedCells o1)" "c2 \<in> set (placedCells o2)"
    "measuredBy (contribution o1 c1) = measuredBy (contribution o2 c2)"
  shows "refOf o1 c1 = refOf o2 c2"
proof -
  have same: "tp_recordOffset o1 = tp_recordOffset o2" "mc_carrierIndex (snd c1) = mc_carrierIndex (snd c2)"
    "mc_cellIndex (snd c1) = mc_cellIndex (snd c2)"
    using assms(6) by (simp_all add: measuredBy_def contribution_def jInt_def)
  have "inj_on tp_recordOffset (set measurements)"
    using assms(1) by (simp add: distinctMeasurements_def distinct_map)
  then have o2: "o2 = o1" using same(1) assms(2,3) by (simp add: inj_onD)
  let ?cells = "nm_cells (tm_measurement o1)"
  have places: "fst c1 < length ?cells" "snd c1 = ?cells ! fst c1" "fst c2 < length ?cells" "snd c2 = ?cells ! fst c2"
    using assms(4,5) by (auto simp: o2 placedCells_def in_set_enumerate_eq)
  have "distinct (map (\<lambda>c. (mc_carrierIndex c, mc_cellIndex c)) ?cells)"
    using assms(1,2) by (simp add: distinctMeasurements_def)
  then have "fst c1 = fst c2"
    using nth_eq_iff_index_eq [of "map (\<lambda>c. (mc_carrierIndex c, mc_cellIndex c)) ?cells" "fst c1" "fst c2"] places same by simp
  then show ?thesis by (simp add: refOf_def o2)
qed

text \<open>The names of the measured cells with these references.\<close>

definition namesOf :: "timedNrMeasurement list \<Rightarrow> measurementRef set \<Rightarrow> measuredCell set" where
  "namesOf measurements refs =
    {measuredBy (contribution o' placed) | o' placed. o' \<in> set measurements \<and> placed \<in> set (placedCells o') \<and> refOf o' placed \<in> refs}"

lemma namesOf_fresh:
  assumes "distinctMeasurements measurements" "o' \<in> set measurements" "placed \<in> set (placedCells o')" "refOf o' placed \<notin> refs"
  shows "measuredBy (contribution o' placed) \<notin> namesOf measurements refs"
  using measuredBy_inj [OF assms(1,2) _ assms(3)] assms(4) by (auto simp: namesOf_def)

lemma namesOf_in:
  "o' \<in> set measurements \<Longrightarrow> placed \<in> set (placedCells o') \<Longrightarrow> refOf o' placed \<in> refs \<Longrightarrow>
    measuredBy (contribution o' placed) \<in> namesOf measurements refs"
  unfolding namesOf_def by blast

lemma namesOf_mono: "refs \<subseteq> refs' \<Longrightarrow> namesOf measurements refs \<subseteq> namesOf measurements refs'"
  by (auto simp: namesOf_def)

section \<open>The places of the result\<close>

text \<open>A place is a cell of Android that is replaced, or a cell added to an event.\<close>

type_synonym place = "nat + int \<times> nat"

fun measuredAt :: "fusionState \<Rightarrow> place \<Rightarrow> measuredCell option" where
  "measuredAt s (Inl position) = Option.bind (map_of (fs_replacements s) position) measuredCell"
| "measuredAt s (Inr (eventId, k)) =
     (case map_of (fs_derived s) eventId of
        Some cells \<Rightarrow> (if k < length cells then measuredCell (cells ! k) else None)
      | None \<Rightarrow> None)"

definition usedOnce :: "('p \<Rightarrow> 'm option) \<Rightarrow> bool" where
  "usedOnce f \<longleftrightarrow> (\<forall>a b m. f a = Some m \<longrightarrow> f b = Some m \<longrightarrow> a = b)"

text \<open>
  What the fusion of one event changes: a list of places, each with the measured cell it is given; the places not in
  it keep what they had or lose it.
\<close>

lemma usedOnce_step:
  assumes "usedOnce f" "\<And>a m. f a = Some m \<Longrightarrow> m \<in> namesOf ms refs"
    and "distinctMeasurements ms" "o' \<in> set ms"
    and "distinct (map (fst \<circ> snd) given)" "\<And>a placed. (a, placed) \<in> set given \<Longrightarrow> placed \<in> set (placedCells o')"
    and "\<And>a placed. (a, placed) \<in> set given \<Longrightarrow> refOf o' placed \<notin> refs"
    and "\<And>a. g a = f a \<or> g a = None \<or> (\<exists>placed. (a, placed) \<in> set given \<and> g a = Some (measuredBy (contribution o' placed)))"
  shows "usedOnce g \<and> (\<forall>a m. g a = Some m \<longrightarrow> m \<in> namesOf ms (refs \<union> refOf o' ` snd ` set given))"
proof (intro conjI allI impI)
  have fresh: "measuredBy (contribution o' placed) \<notin> namesOf ms refs" if "(a, placed) \<in> set given" for a placed
    by (rule namesOf_fresh [OF assms(3,4) assms(6,7)]) (use that in blast)+
  have same: "a = b" if "(a, p) \<in> set given" "(b, q) \<in> set given" "measuredBy (contribution o' p) = measuredBy (contribution o' q)" for a b p q
  proof -
    have "refOf o' p = refOf o' q" by (rule measuredBy_inj [OF assms(3,4,4) assms(6) assms(6)]) (use that in blast)+
    then have "(fst \<circ> snd) (a, p) = (fst \<circ> snd) (b, q)" by (simp add: refOf_def)
    moreover have "inj_on (fst \<circ> snd) (set given)" using assms(5) unfolding distinct_map by (rule conjunct2)
    ultimately have "(a, p) = (b, q)" using that(1,2) by (metis inj_onD)
    then show ?thesis by simp
  qed
  have origin: "(g a = f a \<and> m \<in> namesOf ms refs) \<or> (\<exists>placed. (a, placed) \<in> set given \<and> m = measuredBy (contribution o' placed))"
    if "g a = Some m" for a m
    using assms(8) [of a] assms(2) [of a m] that by auto
  show "usedOnce g"
    unfolding usedOnce_def
  proof (intro allI impI)
    fix a b m assume ab: "g a = Some m" "g b = Some m"
    show "a = b" using origin [OF ab(1)] origin [OF ab(2)]
    proof (elim disjE exE conjE)
      assume "g a = f a" "g b = f b"
      then show "a = b" using assms(1) ab unfolding usedOnce_def by (metis (no_types))
    qed (use fresh same in \<open>auto\<close>)
  qed
  fix a m assume "g a = Some m"
  from origin [OF this] show "m \<in> namesOf ms (refs \<union> refOf o' ` snd ` set given)"
  proof (elim disjE exE conjE)
    assume "m \<in> namesOf ms refs"
    then show ?thesis using namesOf_mono [of refs "refs \<union> refOf o' ` snd ` set given" ms] by blast
  next
    fix placed assume placed: "(a, placed) \<in> set given" "m = measuredBy (contribution o' placed)"
    have "refOf o' placed \<in> refs \<union> refOf o' ` snd ` set given" using placed(1) by force
    then show ?thesis unfolding placed(2) using assms(6) [OF placed(1)] by (intro namesOf_in assms(4))
  qed
qed

section \<open>What an event is given\<close>

text \<open>The measured cells given to positions, the last one of a position first.\<close>

definition givenTo :: "(nat \<times> placedCell) list \<Rightarrow> nat list \<Rightarrow> placedCell list \<Rightarrow> bool" where
  "givenTo given matched placed \<longleftrightarrow> map (fst \<circ> snd) given = matched \<and> snd ` set given \<subseteq> set placed"

subsection \<open>Without a configuration\<close>

lemma matchSchedule_given:
  assumes "\<forall>p. map_of (sm_replacements m) p = (case map_of given p of
      Some c \<Rightarrow> Some (fuseScheduleCell (cells ! p) (contribution observation c)) | None \<Rightarrow> map_of old p)"
    "givenTo given (sm_matched m) cs" "placed \<in> set cs"
  shows "\<exists>given'. givenTo given' (sm_matched (matchSchedule cells ctx observation placed m)) cs \<and>
    (\<forall>p. map_of (sm_replacements (matchSchedule cells ctx observation placed m)) p = (case map_of given' p of
      Some c \<Rightarrow> Some (fuseScheduleCell (cells ! p) (contribution observation c)) | None \<Rightarrow> map_of old p))"
proof (cases "Option.bind (measurementPair (snd placed))
    (\<lambda>target. uniqueAvailablePairPosition (ac_cellPositions ctx) cells target (sm_occupied m))")
  case None
  then show ?thesis using assms by (intro exI [of _ given]) (simp add: matchSchedule_def)
next
  case (Some p)
  then show ?thesis using assms
    by (intro exI [of _ "(p, placed) # given"]) (auto simp: matchSchedule_def update_conv' givenTo_def)
qed

lemma matchSchedule_matched:
  "sm_matched (matchSchedule cells ctx observation placed m) = sm_matched m \<or>
   sm_matched (matchSchedule cells ctx observation placed m) = fst placed # sm_matched m"
  by (simp add: matchSchedule_def split: option.split)

lemma fold_matched_distinct:
  assumes "\<And>x m. get (f x m) = get m \<or> get (f x m) = fst x # get m"
    "distinct (map fst xs)" "fst ` set xs \<inter> set (get m) = {}" "distinct (get m)"
  shows "distinct (get (fold f xs m))"
  using assms(2-)
proof (induction xs arbitrary: m)
  case (Cons x xs)
  have "get (f x m) = get m \<or> get (f x m) = fst x # get m" by (rule assms(1))
  then have "fst ` set xs \<inter> set (get (f x m)) = {}" "distinct (get (f x m))"
    using Cons.prems by (elim disjE; simp)+
  then show ?case using Cons by simp
qed simp

lemma servingFirst_cells: "set (servingFirst observation) = set (placedCells observation)"
  by (auto simp: servingFirst_def Let_def)

lemma schedule_given:
  fixes cells ctx observation repl
  defines "m \<equiv> fold (matchSchedule cells ctx observation) (servingFirst observation)
      \<lparr>sm_replacements = repl, sm_occupied = [], sm_matched = []\<rparr>"
  shows "\<exists>given. givenTo given (sm_matched m) (placedCells observation) \<and>
    (\<forall>p. map_of (sm_replacements m) p = (case map_of given p of
      Some c \<Rightarrow> Some (fuseScheduleCell (cells ! p) (contribution observation c)) | None \<Rightarrow> map_of repl p))"
    and "distinct (sm_matched m)"
proof -
  let ?P = "\<lambda>m :: scheduleMatch. \<exists>given. givenTo given (sm_matched m) (placedCells observation) \<and>
    (\<forall>p. map_of (sm_replacements m) p = (case map_of given p of
      Some c \<Rightarrow> Some (fuseScheduleCell (cells ! p) (contribution observation c)) | None \<Rightarrow> map_of repl p))"
  show "?P m" unfolding m_def
  proof (rule fold_invariant_set)
    fix placed m assume "placed \<in> set (servingFirst observation)" "?P m"
    then show "?P (matchSchedule cells ctx observation placed m)"
      using matchSchedule_given unfolding servingFirst_cells by blast
  qed (rule exI [of _ "[]"], simp add: givenTo_def)
  show "distinct (sm_matched m)" unfolding m_def
    by (rule fold_matched_distinct [OF matchSchedule_matched servingFirst_distinct]) simp_all
qed

subsection \<open>With a configuration\<close>

definition bareContributions :: "contributions \<Rightarrow> bool" where
  "bareContributions m \<longleftrightarrow> (\<forall>c\<in>set m. ct_measurement (snd c) = None)"

lemma changeAt_bare:
  "bareContributions m \<Longrightarrow> (\<And>c. ct_measurement (f c) = ct_measurement c) \<Longrightarrow> bareContributions (changeAt p f m)"
  by (auto simp: bareContributions_def changeAt_def)

lemma start_bare: "bareContributions (startContributions ctx ev)"
proof -
  have "bareContributions (map (\<lambda>p. (p, noContributions)) (ac_cellPositions ctx))"
    by (auto simp: bareContributions_def noContributions_def)
  then show ?thesis by (auto simp: startContributions_def Let_def intro!: changeAt_bare split: option.split)
qed

lemma addCarrier_bare: "bareContributions m \<Longrightarrow> bareContributions (addCarrier cells ctx ev carrier m)"
  by (auto simp: addCarrier_def Let_def intro!: changeAt_bare split: option.split)

lemma carriers_bare: "bareContributions (fold (addCarrier cells ctx ev) carriers (startContributions ctx ev))"
  by (rule fold_invariant_set) (simp_all add: addCarrier_bare start_bare)

definition contributed :: "(nat \<times> placedCell) list \<Rightarrow> timedNrMeasurement \<Rightarrow> contributions \<Rightarrow> bool" where
  "contributed given observation m \<longleftrightarrow>
    (\<forall>(p, c)\<in>set m. ct_measurement c = map_option (contribution observation) (map_of given p))"

lemma matchMeasurement_given:
  assumes "contributed given observation (mm_contributions m)" "givenTo given (mm_matched m) cs" "placed \<in> set cs"
  shows "\<exists>given'. givenTo given' (mm_matched (matchMeasurement cells ctx ev observation placed m)) cs \<and>
    contributed given' observation (mm_contributions (matchMeasurement cells ctx ev observation placed m))"
proof -
  have "contributed ((p, placed) # given) observation
      (changeAt p (\<lambda>c. c\<lparr>ct_measurement := Some (contribution observation placed)\<rparr>) (mm_contributions m))" for p
    using assms(1) by (force simp: contributed_def changeAt_def split: if_splits)
  moreover have "givenTo ((p, placed) # given) (fst placed # mm_matched m) cs" for p
    using assms(2,3) by (simp add: givenTo_def)
  ultimately show ?thesis
    using assms(1,2) by (auto simp: matchMeasurement_def Let_def split: option.split)
qed

lemma event_given:
  assumes "ee_observation ev = Some observation"
  shows "\<exists>given. givenTo given (mm_matched (matchEvent cells ctx ev)) (placedCells observation) \<and>
    contributed given observation (mm_contributions (matchEvent cells ctx ev))"
proof -
  let ?P = "\<lambda>m :: measurementMatch. \<exists>given. givenTo given (mm_matched m) (placedCells observation) \<and> contributed given observation (mm_contributions m)"
  have "?P (fold (matchMeasurement cells ctx ev observation) (servingFirst observation) m)"
    if "bareContributions (mm_contributions m)" "mm_matched m = []" for m
  proof (rule fold_invariant_set)
    fix placed m assume "placed \<in> set (servingFirst observation)" "?P m"
    then show "?P (matchMeasurement cells ctx ev observation placed m)"
      using matchMeasurement_given unfolding servingFirst_cells by blast
  next
    show "?P m" using that
      by (intro exI [of _ "[]"]) (auto simp: givenTo_def contributed_def bareContributions_def)
  qed
  then show ?thesis
    by (simp add: matchEvent_def Let_def assms carriers_bare)
qed

lemma event_bare: "ee_observation ev = None \<Longrightarrow> bareContributions (mm_contributions (matchEvent cells ctx ev))"
  by (simp add: matchEvent_def Let_def carriers_bare)

section \<open>Each event keeps the names apart\<close>

definition allGiven :: "int \<Rightarrow> (nat \<times> placedCell) list \<Rightarrow> placedCell list \<Rightarrow> (place \<times> placedCell) list" where
  "allGiven eventId given added =
    map (\<lambda>(p, c). (Inl p, c)) given @ map (\<lambda>(k, c). (Inr (eventId, k), c)) (enumerate 0 added)"

lemma allGiven_places: "map (fst \<circ> snd) (allGiven eventId given added) = map (fst \<circ> snd) given @ map fst added"
proof -
  have "map (\<lambda>x. fst (snd x)) (enumerate 0 added) = map fst (map snd (enumerate 0 added))"
    by (simp only: map_map comp_def)
  then show ?thesis by (simp add: allGiven_def case_prod_unfold comp_def)
qed

lemma allGiven_cells: "snd ` set (allGiven eventId given added) = snd ` set given \<union> set added"
proof -
  have "snd ` set (enumerate 0 added) = set added" by (metis list.set_map map_snd_enumerate)
  then show ?thesis by (simp add: allGiven_def image_Un image_image case_prod_unfold)
qed

lemma allGiven_in:
  "(p, c) \<in> set given \<Longrightarrow> (Inl p, c) \<in> set (allGiven eventId given added)"
  "k < length added \<Longrightarrow> (Inr (eventId, k), added ! k) \<in> set (allGiven eventId given added)"
  by (force simp: allGiven_def in_set_enumerate_eq)+

lemma unreported_placed: "set (unreportedCells cells ctx matched observation) \<subseteq> set (placedCells observation)"
  unfolding unreportedCells_def using uniquePairs_sub(2) by force

lemma event_step:
  assumes "distinctMeasurements ms" "o' \<in> set ms" "usedOnce (measuredAt s)"
    "\<And>a m. measuredAt s a = Some m \<Longrightarrow> m \<in> namesOf ms refs" "tm_ref o' \<notin> fst ` refs"
    and "givenTo given matched (placedCells o')" "distinct matched" "added = unreportedCells cells ctx matched o'"
    and "\<And>p. measuredAt s' (Inl p) = measuredAt s (Inl p) \<or> measuredAt s' (Inl p) = None \<or>
      (\<exists>c. (p, c) \<in> set given \<and> measuredAt s' (Inl p) = Some (measuredBy (contribution o' c)))"
    and "fs_derived s' = (if derived = [] then fs_derived s else AList.update eventId derived (fs_derived s))"
    and "map measuredCell derived = map (\<lambda>c. Some (measuredBy (contribution o' c))) added"
  shows "usedOnce (measuredAt s') \<and>
    (\<forall>a m. measuredAt s' a = Some m \<longrightarrow> m \<in> namesOf ms (refs \<union> Pair (tm_ref o') ` set (matched @ map fst added)))"
proof -
  let ?given = "allGiven eventId given added"
  have matched: "map (fst \<circ> snd) given = matched" "snd ` set given \<subseteq> set (placedCells o')"
    using assms(6) by (simp_all add: givenTo_def)
  have placed: "c \<in> set (placedCells o')" if "(a, c) \<in> set ?given" for a c
  proof -
    have "c \<in> snd ` set given \<union> set added" using that unfolding allGiven_cells [of eventId, symmetric] by force
    then show ?thesis using matched(2) unreported_placed [of cells ctx matched o'] assms(8) by blast
  qed
  have refs: "refOf o' ` snd ` set ?given = Pair (tm_ref o') ` set (matched @ map fst added)"
  proof -
    have "refOf o' ` snd ` set ?given = Pair (tm_ref o') ` set (map (fst \<circ> snd) ?given)"
      by (simp add: image_image refOf_def)
    then show ?thesis by (simp add: allGiven_places matched(1))
  qed
  have "distinct (map (fst \<circ> snd) ?given)"
    unfolding allGiven_places matched(1) assms(8) unreported_distinct by (rule assms(7))
  moreover have "refOf o' c \<notin> refs" for c using assms(5) by (force simp: refOf_def)
  moreover have "measuredAt s' a = measuredAt s a \<or> measuredAt s' a = None \<or>
      (\<exists>c. (a, c) \<in> set ?given \<and> measuredAt s' a = Some (measuredBy (contribution o' c)))" for a
  proof (cases a)
    case (Inl p)
    then show ?thesis using assms(9) [of p] allGiven_in(1) [of p _ given eventId added] by auto
  next
    case (Inr place)
    obtain e k where place: "place = (e, k)" by (cases place)
    show ?thesis
    proof (cases "derived = [] \<or> e \<noteq> eventId")
      case True
      then have "measuredAt s' a = measuredAt s a" by (auto simp: Inr place assms(10) update_conv')
      then show ?thesis ..
    next
      case False
      have len: "length derived = length added" using arg_cong [OF assms(11), of length] by simp
      have "measuredCell (derived ! k) = Some (measuredBy (contribution o' (added ! k)))" if "k < length derived"
        using arg_cong [OF assms(11), of "\<lambda>xs. xs ! k"] that len by simp
      then have "measuredAt s' a = (if k < length added then Some (measuredBy (contribution o' (added ! k))) else None)"
        using False len by (auto simp: Inr place assms(10) update_conv')
      then show ?thesis
        using allGiven_in(2) [of k added eventId given] False by (cases "k < length added") (auto simp only: Inr place simp_thms if_True if_False)
    qed
  qed
  ultimately show ?thesis
    unfolding refs [symmetric]
    by (intro usedOnce_step [OF assms(3) _ assms(1,2), of refs]) (use assms(4) placed in blast)+
qed

lemma map_enumerate: "map (\<lambda>(k, x). f k x) (enumerate n xs) = map (\<lambda>k. f (n + k) (xs ! k)) [0..<length xs]"
  by (rule nth_equalityI) (simp_all add: nth_enumerate_eq)

lemma measured_derived:
  "(\<And>k c. measuredCell (f k c) = Some (measuredBy (contribution o' c))) \<Longrightarrow>
    map measuredCell (map (\<lambda>(k, c). f k c) (enumerate 0 added)) = map (\<lambda>c. Some (measuredBy (contribution o' c))) added"
  by (rule nth_equalityI) (simp_all add: nth_enumerate_eq)

lemma fuseSchedule_once:
  assumes "distinctMeasurements ms" "o' \<in> set ms" "usedOnce (measuredAt s)"
    "\<And>a m. measuredAt s a = Some m \<Longrightarrow> m \<in> namesOf ms refs" "tm_ref o' \<notin> fst ` refs"
  shows "usedOnce (measuredAt (fuseSchedule cells (ctx, o') s)) \<and>
    (\<forall>a m. measuredAt (fuseSchedule cells (ctx, o') s) a = Some m \<longrightarrow>
      m \<in> namesOf ms (refs \<union> {r. fst r = tm_ref o'}))"
proof -
  define m where "m = fold (matchSchedule cells ctx o') (servingFirst o')
      \<lparr>sm_replacements = fs_replacements s, sm_occupied = [], sm_matched = []\<rparr>"
  obtain given where given: "givenTo given (sm_matched m) (placedCells o')"
    "\<And>p. map_of (sm_replacements m) p = (case map_of given p of
      Some c \<Rightarrow> Some (fuseScheduleCell (cells ! p) (contribution o' c)) | None \<Rightarrow> map_of (fs_replacements s) p)"
    using schedule_given(1) [of cells ctx o' "fs_replacements s"] unfolding m_def by blast
  let ?added = "unreportedCells cells ctx (sm_matched m) o'"
  let ?derived = "map (\<lambda>(k, placed). createScheduleNeighbor (firstCell cells ctx) (ac_event ctx)
      (nextCellIndexOf cells (contextId ctx) + int k) (contribution o' placed)) (enumerate 0 ?added)"
  have result: "fuseSchedule cells (ctx, o') s = s\<lparr>fs_replacements := sm_replacements m,
      fs_derived := (if ?derived = [] then fs_derived s else AList.update (contextId ctx) ?derived (fs_derived s))\<rparr>"
    by (simp add: fuseSchedule_def Let_def flip: m_def)
  have "usedOnce (measuredAt (fuseSchedule cells (ctx, o') s)) \<and>
    (\<forall>a n. measuredAt (fuseSchedule cells (ctx, o') s) a = Some n \<longrightarrow>
      n \<in> namesOf ms (refs \<union> Pair (tm_ref o') ` set (sm_matched m @ map fst ?added)))"
  proof (rule event_step [OF assms given(1)])
    show "distinct (sm_matched m)" unfolding m_def by (rule schedule_given(2))
    show "measuredAt (fuseSchedule cells (ctx, o') s) (Inl p) = measuredAt s (Inl p) \<or>
      measuredAt (fuseSchedule cells (ctx, o') s) (Inl p) = None \<or>
      (\<exists>c. (p, c) \<in> set given \<and> measuredAt (fuseSchedule cells (ctx, o') s) (Inl p) = Some (measuredBy (contribution o' c)))" for p
      by (cases "map_of given p") (auto simp: result given(2) dest: map_of_SomeD)
    show "map measuredCell ?derived = map (\<lambda>c. Some (measuredBy (contribution o' c))) ?added"
      by (rule measured_derived) simp
  qed (simp_all add: result)
  moreover have "refs \<union> Pair (tm_ref o') ` set (sm_matched m @ map fst ?added) \<subseteq> refs \<union> {r. fst r = tm_ref o'}"
    by auto
  ultimately show ?thesis using namesOf_mono by blast
qed

lemma map_of_fold_update:
  "map_of (fold (\<lambda>(p, c). AList.update p (F p c)) xs m) p =
    (case map_of (rev xs) p of Some c \<Rightarrow> Some (F p c) | None \<Rightarrow> map_of m p)"
  by (induction xs arbitrary: m) (auto simp: update_conv' map_add_def split: option.split)

lemma usedOnce_less:
  assumes "usedOnce f" "\<And>a. g a = f a \<or> g a = None"
  shows "usedOnce g"
  unfolding usedOnce_def
proof (intro allI impI)
  fix a b m assume "g a = Some m" "g b = Some m"
  then have "f a = Some m" "f b = Some m" using assms(2) by (metis option.distinct(1))+
  then show "a = b" using assms(1) unfolding usedOnce_def by blast
qed

lemma fuseContext_places:
  fixes input contexts plan ctx s
  defines "s' \<equiv> fuseContext input contexts plan ctx s"
    and "m \<equiv> mm_contributions (matchEvent (fi_cells input) ctx (eventEvidence input contexts plan ctx))"
  assumes "goodContext input ctx" "\<forall>c\<in>set (fi_cells input). measuredCell c = None"
  shows "measuredAt s' (Inl p) = measuredAt s (Inl p) \<or> measuredAt s' (Inl p) = None \<or>
    (\<exists>c b. (p, c) \<in> set m \<and> ct_measurement c = Some b \<and> measuredAt s' (Inl p) = Some (measuredBy b))"
proof -
  have replaced: "map_of (fs_replacements s') p = (case map_of (rev m) p of
      Some c \<Rightarrow> Some (fuseCell (fi_cells input ! p) (ec_state ctx) c) | None \<Rightarrow> map_of (fs_replacements s) p)"
    by (simp add: s'_def fuseContext_def Let_def m_def map_of_fold_update split: option.split)
  show ?thesis
  proof (cases "map_of (rev m) p")
    case (Some c)
    then have c: "(p, c) \<in> set m" by (auto dest: map_of_SomeD)
    then have "p \<in> set (map fst m)" by force
    then have "p < length (fi_cells input)"
      using assms(3) unfolding m_def matchEvent_positions by (simp add: goodContext_def)
    then have "measuredCell (fi_cells input ! p) = None" using assms(4) by simp
    then show ?thesis using c Some replaced by (cases "ct_measurement c") (auto simp: measuredCell_fuseCell)
  qed (simp add: replaced)
qed

lemma fuseContext_once:
  assumes "distinctMeasurements ms" "goodContext input ctx" "\<forall>c\<in>set (fi_cells input). measuredCell c = None"
    and "\<And>o'. map_of (mp_byEvent plan) (contextId ctx) = Some o' \<Longrightarrow> o' \<in> set ms \<and> tm_ref o' \<notin> fst ` refs"
    and "usedOnce (measuredAt s)" "\<And>a m. measuredAt s a = Some m \<Longrightarrow> m \<in> namesOf ms refs"
  shows "usedOnce (measuredAt (fuseContext input contexts plan ctx s)) \<and>
    (\<forall>a m. measuredAt (fuseContext input contexts plan ctx s) a = Some m \<longrightarrow>
      m \<in> namesOf ms (refs \<union> set (usedByContext input contexts plan ctx)))"
proof -
  let ?s = "fuseContext input contexts plan ctx s" and ?ev = "eventEvidence input contexts plan ctx"
  define m where "m = matchEvent (fi_cells input) ctx ?ev"
  have seen: "ee_observation ?ev = map_of (mp_byEvent plan) (contextId ctx)"
    by (simp add: eventEvidence_def Let_def)
  note places = fuseContext_places [OF assms(2,3), of contexts plan s, folded m_def]
  show ?thesis
  proof (cases "map_of (mp_byEvent plan) (contextId ctx)")
    case None
    have "bareContributions (mm_contributions m)" unfolding m_def using None seen by (intro event_bare) simp
    then have "measuredAt ?s (Inl p) = measuredAt s (Inl p) \<or> measuredAt ?s (Inl p) = None" for p
      using places [of p] by (force simp: bareContributions_def)
    moreover have "measuredAt ?s (Inr place) = measuredAt s (Inr place)" for place
      by (cases place) (simp add: fuseContext_def Let_def seen None)
    ultimately have less: "measuredAt ?s a = measuredAt s a \<or> measuredAt ?s a = None" for a by (cases a) simp_all
    have "m \<in> namesOf ms refs" if "measuredAt ?s a = Some m" for a m
      using less [of a] assms(6) [of a m] that by simp
    moreover have "usedByContext input contexts plan ctx = []" by (simp add: usedByContext_def None)
    ultimately show ?thesis using usedOnce_less [OF assms(5) less] by simp
  next
    case (Some o')
    have o': "o' \<in> set ms" "tm_ref o' \<notin> fst ` refs" using assms(4) [OF Some] by simp_all
    obtain given where given: "givenTo given (mm_matched m) (placedCells o')" "contributed given o' (mm_contributions m)"
      using event_given [of ?ev o' "fi_cells input" ctx] Some seen unfolding m_def by auto
    let ?added = "unreportedCells (fi_cells input) ctx (mm_matched m) o'"
    let ?carriers = "ncf_activeCarriers (tc_configuration (ss_configuration (ec_state ctx)))"
    let ?derived = "map (\<lambda>(k, placed). createDerivedNeighbor (firstCell (fi_cells input) ctx) (ac_event ctx)
        (nextCellIndexOf (fi_cells input) (contextId ctx) + int k) (ec_state ctx) (contribution o' placed)
        (onlyOne (filter (\<lambda>c. carrierArfcn c = map_option fst (measurementPair (snd placed))) ?carriers))) (enumerate 0 ?added)"
    have "usedOnce (measuredAt ?s) \<and>
      (\<forall>a n. measuredAt ?s a = Some n \<longrightarrow> n \<in> namesOf ms (refs \<union> Pair (tm_ref o') ` set (mm_matched m @ map fst ?added)))"
    proof (rule event_step [OF assms(1) o'(1) assms(5,6) o'(2) given(1)])
      show "distinct (mm_matched m)" unfolding m_def by (rule matched_distinct)
      show "measuredAt ?s (Inl p) = measuredAt s (Inl p) \<or> measuredAt ?s (Inl p) = None \<or>
        (\<exists>c. (p, c) \<in> set given \<and> measuredAt ?s (Inl p) = Some (measuredBy (contribution o' c)))" for p
      proof -
        have "\<exists>placed. (p, placed) \<in> set given \<and> b = contribution o' placed"
          if "(p, c) \<in> set (mm_contributions m)" "ct_measurement c = Some b" for c b
          using given(2) that by (force simp: contributed_def dest: map_of_SomeD)
        then show ?thesis using places [of p] by metis
      qed
      show "map measuredCell ?derived = map (\<lambda>c. Some (measuredBy (contribution o' c))) ?added"
        by (rule measured_derived) simp
      show "fs_derived ?s = (if ?derived = [] then fs_derived s else AList.update (contextId ctx) ?derived (fs_derived s))"
        by (simp add: fuseContext_def Let_def seen Some flip: m_def)
      show "?added = unreportedCells (fi_cells input) ctx (mm_matched m) o'" ..
    qed
    moreover have "Pair (tm_ref o') ` set (mm_matched m @ map fst ?added) = set (usedByContext input contexts plan ctx)"
      by (simp add: usedByContext_def Some Let_def m_def image_Un image_image)
    ultimately show ?thesis by simp
  qed
qed

section \<open>Where a measurement is planned\<close>

text \<open>The measurements planned for events, for states, for events without a configuration, and those that are left.\<close>

definition eventObservations :: "measurementPlan \<Rightarrow> timedNrMeasurement set" where
  "eventObservations plan = snd ` set (mp_byEvent plan)"

definition stateObservations :: "measurementPlan \<Rightarrow> timedNrMeasurement set" where
  "stateObservations plan = set (concat (map snd (mp_byState plan)))"

definition scheduleObservations :: "measurementPlan \<Rightarrow> timedNrMeasurement list" where
  "scheduleObservations plan = map (snd \<circ> snd) (mp_schedule plan)"

definition planned :: "measurementPlan \<Rightarrow> timedNrMeasurement set" where
  "planned plan = eventObservations plan \<union> stateObservations plan"

definition planApart :: "timedNrMeasurement set \<Rightarrow> measurementPlan \<Rightarrow> bool" where
  "planApart seen plan \<longleftrightarrow>
    distinct (scheduleObservations plan) \<and>
    planned plan \<subseteq> seen \<and> set (scheduleObservations plan) \<subseteq> seen \<and> set (mp_remaining plan) \<subseteq> seen \<and>
    planned plan \<inter> set (scheduleObservations plan) = {} \<and>
    set (mp_remaining plan) \<inter> (planned plan \<union> set (scheduleObservations plan)) = {}"

lemma planned_event:
  "planned (planForEvent event o' plan) \<subseteq> insert o' (planned plan)"
  "scheduleObservations (planForEvent event o' plan) = scheduleObservations plan"
  "mp_remaining (planForEvent event o' plan) = mp_remaining plan"
  using set_update_subset [of "ev_id event" o' "mp_byEvent plan"]
  by (auto simp: planForEvent_def planned_def eventObservations_def stateObservations_def scheduleObservations_def)

lemma planned_state:
  "planned (planForState key o' plan) = insert o' (planned plan)"
  "scheduleObservations (planForState key o' plan) = scheduleObservations plan"
  "mp_remaining (planForState key o' plan) = mp_remaining plan"
proof -
  have "mset (concat (map snd (pushAt key o' (mp_byState plan)))) = mset (o' # concat (map snd (mp_byState plan)))"
    by (simp only: mset_pushAt mset.simps)
  then have "set (concat (map snd (pushAt key o' (mp_byState plan)))) = insert o' (set (concat (map snd (mp_byState plan))))"
    by (metis mset_eq_setD list.simps(15))
  then show "planned (planForState key o' plan) = insert o' (planned plan)"
    by (simp add: planForState_def planned_def eventObservations_def stateObservations_def)
qed (simp_all add: planForState_def scheduleObservations_def)

lemma planned_left:
  "planned (leaveMeasurement o' plan) = planned plan"
  "scheduleObservations (leaveMeasurement o' plan) = scheduleObservations plan"
  "mp_remaining (leaveMeasurement o' plan) = mp_remaining plan @ [o']"
  by (simp_all add: leaveMeasurement_def planned_def eventObservations_def stateObservations_def scheduleObservations_def)

lemma planned_schedule:
  "planned (plan\<lparr>mp_schedule := x\<rparr>) = planned plan" "mp_remaining (plan\<lparr>mp_schedule := x\<rparr>) = mp_remaining plan"
  by (simp_all add: planned_def eventObservations_def stateObservations_def)

lemma schedule_update:
  assumes "o' \<notin> set (scheduleObservations plan)" "distinct (scheduleObservations plan)"
  shows "distinct (scheduleObservations (plan\<lparr>mp_schedule := AList.update k (ctx, o') (mp_schedule plan)\<rparr>))"
    "set (scheduleObservations (plan\<lparr>mp_schedule := AList.update k (ctx, o') (mp_schedule plan)\<rparr>)) \<subseteq>
      insert o' (set (scheduleObservations plan))"
  using distinct_update_fresh [of snd "(ctx, o')" "mp_schedule plan" k] image_update [of snd k "(ctx, o')" "mp_schedule plan"] assms
  by (auto simp: scheduleObservations_def)

lemma planApart_joined:
  assumes "o' \<notin> seen" "planApart seen plan" "planned plan' \<subseteq> insert o' (planned plan)"
    "scheduleObservations plan' = scheduleObservations plan" "mp_remaining plan' = mp_remaining plan"
  shows "planApart (insert o' seen) plan'"
  using assms unfolding planApart_def by (simp only: assms(4,5)) blast

lemma planApart_left:
  assumes "o' \<notin> seen" "planApart seen plan"
  shows "planApart (insert o' seen) (leaveMeasurement o' plan)"
  using assms unfolding planApart_def planned_left by auto

lemma planApart_scheduled:
  assumes "o' \<notin> seen" "planApart seen plan"
  shows "planApart (insert o' seen) (plan\<lparr>mp_schedule := AList.update k (ctx, o') (mp_schedule plan)\<rparr>)"
proof -
  have "o' \<notin> set (scheduleObservations plan)" using assms by (auto simp: planApart_def)
  then show ?thesis
    using schedule_update [of o' plan k ctx] assms unfolding planApart_def planned_schedule by blast
qed

lemma planApart_step:
  assumes "o' \<notin> seen" "planApart seen plan"
  shows "planApart (insert o' seen) (planMeasurement input contexts o' plan)"
proof -
  have event: "planApart (insert o' seen) (planForEvent event o' plan)"
    "planApart (insert o' seen) (planForState key o' plan)"
    "planApart (insert o' seen) (planForEvent event o' (planForState key o' plan))" for event key
    by (rule planApart_joined [OF assms];
        use planned_event [of event o' plan] planned_state [of key o' plan] planned_event [of event o' "planForState key o' plan"] in auto)+
  have same: "planApart (insert o' seen) plan" by (rule planApart_joined [OF assms]) auto
  note steps = event same planApart_left [OF assms] planApart_scheduled [OF assms]
  have "planApart (insert o' seen) (planUnconfigured input contexts o' plan)"
    by (auto simp: planUnconfigured_def Let_def steps split: option.split)
  moreover have "planApart (insert o' seen) (planConfigured contexts state o' plan)" for state
    by (auto simp: planConfigured_def Let_def steps split: option.split)
  ultimately show ?thesis by (auto simp: planMeasurement_def steps split: option.split)
qed

lemma planApart_all:
  assumes "distinct (fi_measurements input)"
  shows "planApart (set (fi_measurements input)) (planMeasurements input contexts)"
proof -
  have "planApart (seen \<union> set xs) (fold (planMeasurement input contexts) xs plan)"
    if "distinct xs" "set xs \<inter> seen = {}" "planApart seen plan" for xs seen plan
    using that
  proof (induction xs arbitrary: seen plan)
    case (Cons x xs)
    have "planApart (insert x seen) (planMeasurement input contexts x plan)"
      using Cons.prems by (intro planApart_step) auto
    then show ?case using Cons.IH [of "insert x seen"] Cons.prems by simp
  qed simp
  from this [of "fi_measurements input" "{}" noPlan] assms show ?thesis
    by (simp add: planMeasurements_def planApart_def noPlan_def planned_def eventObservations_def stateObservations_def
        scheduleObservations_def)
qed

section \<open>All events\<close>

lemma schedules_once:
  assumes "distinctMeasurements ms" "snd ` set entries \<subseteq> set ms" "distinct (map (tm_ref \<circ> snd) entries)"
    "T \<inter> (tm_ref \<circ> snd) ` set entries = {}"
    and "usedOnce (measuredAt s)" "\<And>a m. measuredAt s a = Some m \<Longrightarrow> m \<in> namesOf ms {r. fst r \<in> T}"
  shows "usedOnce (measuredAt (fold (fuseSchedule cells) entries s)) \<and>
    (\<forall>a m. measuredAt (fold (fuseSchedule cells) entries s) a = Some m \<longrightarrow>
      m \<in> namesOf ms {r. fst r \<in> T \<union> (tm_ref \<circ> snd) ` set entries})"
  using assms(2-)
proof (induction entries arbitrary: s T)
  case (Cons entry entries)
  obtain ctx o' where entry: "entry = (ctx, o')" by (cases entry)
  have o': "o' \<in> set ms" "tm_ref o' \<notin> fst ` {r :: measurementRef. fst r \<in> T}"
    using Cons.prems(1,3) by (auto simp: entry)
  have more: "{r :: measurementRef. fst r \<in> T} \<union> {r. fst r = tm_ref o'} = {r. fst r \<in> insert (tm_ref o') T}" by auto
  have "usedOnce (measuredAt (fuseSchedule cells (ctx, o') s)) \<and>
      (\<forall>a m. measuredAt (fuseSchedule cells (ctx, o') s) a = Some m \<longrightarrow>
        m \<in> namesOf ms ({r. fst r \<in> T} \<union> {r. fst r = tm_ref o'}))"
    by (rule fuseSchedule_once [OF assms(1) o'(1) Cons.prems(4) _ o'(2)]) (rule Cons.prems(5))
  then have step: "usedOnce (measuredAt (fuseSchedule cells entry s)) \<and>
      (\<forall>a m. measuredAt (fuseSchedule cells entry s) a = Some m \<longrightarrow> m \<in> namesOf ms {r. fst r \<in> insert (tm_ref o') T})"
    unfolding entry more .
  have "insert (tm_ref o') T \<inter> (tm_ref \<circ> snd) ` set entries = {}"
    using Cons.prems(2,3) by (auto simp: entry)
  then have "usedOnce (measuredAt (fold (fuseSchedule cells) entries (fuseSchedule cells entry s))) \<and>
    (\<forall>a m. measuredAt (fold (fuseSchedule cells) entries (fuseSchedule cells entry s)) a = Some m \<longrightarrow>
      m \<in> namesOf ms {r. fst r \<in> insert (tm_ref o') T \<union> (tm_ref \<circ> snd) ` set entries})"
    using Cons.prems(1,2) step by (intro Cons.IH) auto
  moreover have refs: "insert (tm_ref o') T \<union> (tm_ref \<circ> snd) ` set entries = T \<union> (tm_ref \<circ> snd) ` set (entry # entries)"
    by (auto simp: entry)
  ultimately show ?case unfolding fold_simps refs by blast
qed simp

lemma contexts_once:
  assumes "distinctMeasurements ms" "\<forall>c\<in>set (fi_cells input). measuredCell c = None"
    "distinct (map (tm_ref \<circ> snd) (mp_byEvent plan))" "eventObservations plan \<subseteq> set ms"
    and "\<forall>ctx\<in>set cs. goodContext input ctx" "distinct (map contextId cs)"
    "\<forall>ctx\<in>set cs. \<forall>o'. map_of (mp_byEvent plan) (contextId ctx) = Some o' \<longrightarrow> tm_ref o' \<notin> fst ` refs"
    "usedOnce (measuredAt s)" "\<And>a m. measuredAt s a = Some m \<Longrightarrow> m \<in> namesOf ms refs"
  shows "usedOnce (measuredAt (fold (fuseContext input contexts plan) cs s)) \<and>
    (\<forall>a m. measuredAt (fold (fuseContext input contexts plan) cs s) a = Some m \<longrightarrow>
      m \<in> namesOf ms (refs \<union> set (concat (map (usedByContext input contexts plan) cs))))"
  using assms(5-)
proof (induction cs arbitrary: s refs)
  case (Cons ctx cs)
  let ?used = "set (usedByContext input contexts plan ctx)"
  have observation: "o' \<in> set ms \<and> tm_ref o' \<notin> fst ` refs" if "map_of (mp_byEvent plan) (contextId ctx) = Some o'" for o'
  proof -
    have "o' \<in> eventObservations plan" using map_of_SomeD [OF that] by (force simp: eventObservations_def)
    then show ?thesis using assms(4) Cons.prems(3) that by auto
  qed
  have step: "usedOnce (measuredAt (fuseContext input contexts plan ctx s)) \<and>
    (\<forall>a m. measuredAt (fuseContext input contexts plan ctx s) a = Some m \<longrightarrow> m \<in> namesOf ms (refs \<union> ?used))"
    by (rule fuseContext_once [OF assms(1) _ assms(2) observation Cons.prems(4,5)]) (use Cons.prems(1) in simp_all)
  have "tm_ref o' \<notin> fst ` (refs \<union> ?used)"
    if later: "c \<in> set cs" "map_of (mp_byEvent plan) (contextId c) = Some o'" for c o'
  proof
    assume "tm_ref o' \<in> fst ` (refs \<union> ?used)"
    then obtain r where "r \<in> ?used" "fst r = tm_ref o'" using Cons.prems(3) later by force
    then obtain o1 where "map_of (mp_byEvent plan) (contextId ctx) = Some o1" "tm_ref o1 = tm_ref o'"
      using usedByContext_refs by metis
    then have "contextId ctx = contextId c" using byEvent_inj [OF assms(3)] later(2) by metis
    then show False using Cons.prems(2) later(1) by force
  qed
  then show ?case
    using Cons.IH [of "refs \<union> ?used" "fuseContext input contexts plan ctx s"] step Cons.prems(1,2)
    by (simp add: Un_assoc)
qed simp

section \<open>The result\<close>

fun placesOf :: "fusionState \<Rightarrow> nat \<Rightarrow> nsgCell list \<Rightarrow> place list" where
  "placesOf s position [] = []"
| "placesOf s position (cell # cells) =
     Inl position #
     (if list_ex (\<lambda>c. nc_eventIndex c = nc_eventIndex cell) cells then []
      else map (\<lambda>k. Inr (nc_eventIndex cell, k))
        [0..<length (case map_of (fs_derived s) (nc_eventIndex cell) of Some cs \<Rightarrow> cs | None \<Rightarrow> [])]) @
     placesOf s (Suc position) cells"

lemma placeCells_places:
  "\<forall>c\<in>set cells. measuredCell c = None \<Longrightarrow>
    map measuredCell (placeCells s position cells) = map (measuredAt s) (placesOf s position cells)"
proof (induction cells arbitrary: position)
  case (Cons cell cells)
  have "map measuredCell cs = map (\<lambda>k. measuredAt s (Inr (e, k))) [0..<length cs]"
    if "map_of (fs_derived s) e = Some cs" for e cs
    by (rule nth_equalityI) (simp_all add: that)
  then show ?case using Cons by (auto simp: comp_def split: option.split)
qed simp

lemma placesOf_in:
  "Inl p \<in> set (placesOf s position cells) \<Longrightarrow> position \<le> p"
  "Inr (e, k) \<in> set (placesOf s position cells) \<Longrightarrow> e \<in> nc_eventIndex ` set cells"
  by (induction cells arbitrary: position) (fastforce split: if_splits)+

lemma placesOf_distinct: "distinct (placesOf s position cells)"
proof (induction cells arbitrary: position)
  case (Cons cell cells)
  have "Inl position \<notin> set (placesOf s (Suc position) cells)" using placesOf_in(1) by fastforce
  moreover have "Inr (nc_eventIndex cell, k) \<notin> set (placesOf s (Suc position) cells)"
    if "\<not> list_ex (\<lambda>c. nc_eventIndex c = nc_eventIndex cell) cells" for k
    using placesOf_in(2) that by (fastforce simp: list_ex_iff)
  ultimately show ?case using Cons by (auto simp: distinct_map inj_on_def)
qed simp

definition namesIn :: "'m option list \<Rightarrow> 'm list" where
  "namesIn ms = map the (filter (\<lambda>m. m \<noteq> None) ms)"

lemma namesIn_append: "namesIn (xs @ ys) = namesIn xs @ namesIn ys"
  by (simp add: namesIn_def)

lemma set_namesIn: "set (namesIn ms) = {m. Some m \<in> set ms}"
  by (force simp: namesIn_def)

lemma namesIn_usedOnce: "usedOnce f \<Longrightarrow> distinct xs \<Longrightarrow> distinct (namesIn (map f xs))"
proof (induction xs)
  case (Cons x xs)
  have "the (f x) \<notin> set (namesIn (map f xs))" if "f x \<noteq> None"
    using Cons.prems that unfolding usedOnce_def set_namesIn by fastforce
  then show ?case using Cons by (auto simp: namesIn_def)
qed (simp add: namesIn_def)

lemma measuredAt_noFusion: "measuredAt noFusion a = None"
proof (cases a)
  case (Inr place)
  then show ?thesis by (cases place) (simp add: noFusion_def)
qed (simp add: noFusion_def)

lemma fuseAll_once:
  fixes input
  defines "plan \<equiv> planMeasurements input (standaloneContexts input)"
  defines "s \<equiv> fuseAll input (standaloneContexts input) plan"
  assumes "distinctMeasurements (fi_measurements input)" "\<forall>c\<in>set (fi_cells input). measuredCell c = None"
  shows "usedOnce (measuredAt s)"
    "\<And>a m. measuredAt s a = Some m \<Longrightarrow> m \<in> namesOf (fi_measurements input)
      ({r. fst r \<in> tm_ref ` set (scheduleObservations plan)} \<union> set (fs_usedMeasurements s))"
proof -
  let ?ms = "fi_measurements input" and ?contexts = "standaloneContexts input"
  let ?entries = "map snd (mp_schedule plan)"
  define scheduled where "scheduled = fold (fuseSchedule (fi_cells input)) ?entries noFusion"
  have distinct: "distinct ?ms" "distinct (map tm_ref ?ms)"
    using assms(3) by (simp_all add: distinctMeasurements_def distinct_map)
  have apart: "planApart (set ?ms) plan" unfolding plan_def by (rule planApart_all [OF distinct(1)])
  have ref_inj: "o1 = o2" if "o1 \<in> set ?ms" "o2 \<in> set ?ms" "tm_ref o1 = tm_ref o2" for o1 o2
    using inj_onD [of tm_ref "set ?ms" o1 o2] that distinct(2) by (simp add: distinct_map)
  have entries: "map snd ?entries = scheduleObservations plan" by (simp add: scheduleObservations_def)
  have "set (map snd ?entries) \<subseteq> set ?ms" unfolding entries using apart by (simp add: planApart_def)
  moreover have "distinct (map tm_ref (map snd ?entries))"
    unfolding entries using apart ref_inj by (auto simp: planApart_def distinct_map inj_on_def)
  moreover have "usedOnce (measuredAt noFusion)" "measuredAt noFusion a = None" for a
    by (simp_all add: usedOnce_def measuredAt_noFusion)
  ultimately have sched: "usedOnce (measuredAt scheduled) \<and>
    (\<forall>a m. measuredAt scheduled a = Some m \<longrightarrow> m \<in> namesOf ?ms {r. fst r \<in> {} \<union> (tm_ref \<circ> snd) ` set ?entries})"
    unfolding scheduled_def by (intro schedules_once [OF assms(3)]) (auto simp: comp_assoc)
  let ?refs = "{r :: measurementRef. fst r \<in> tm_ref ` set (scheduleObservations plan)}"
  have refs: "{r :: measurementRef. fst r \<in> {} \<union> (tm_ref \<circ> snd) ` set ?entries} = ?refs"
    unfolding entries [symmetric] by (simp add: image_image comp_def)
  have events: "eventObservations plan \<subseteq> set ?ms" using apart by (auto simp: planApart_def planned_def)
  have "tm_ref o' \<notin> fst ` ?refs" if "map_of (mp_byEvent plan) k = Some o'" for o' k
  proof
    have o': "o' \<in> eventObservations plan" using map_of_SomeD [OF that] by (force simp: eventObservations_def)
    assume "tm_ref o' \<in> fst ` ?refs"
    then obtain o1 where "o1 \<in> set (scheduleObservations plan)" "tm_ref o1 = tm_ref o'" by auto
    moreover from this have "o1 = o'" using apart events o' by (intro ref_inj) (auto simp: planApart_def)
    ultimately show False using apart o' by (auto simp: planApart_def planned_def)
  qed
  moreover have "distinct (map (tm_ref \<circ> snd) (mp_byEvent plan))"
    using planMeasurements_ok [OF distinct(2), of ?contexts] by (simp add: planOk_def plan_def)
  ultimately have all: "usedOnce (measuredAt (fold (fuseContext input ?contexts plan) ?contexts scheduled)) \<and>
    (\<forall>a m. measuredAt (fold (fuseContext input ?contexts plan) ?contexts scheduled) a = Some m \<longrightarrow>
      m \<in> namesOf ?ms (?refs \<union> set (concat (map (usedByContext input ?contexts plan) ?contexts))))"
    using sched events standaloneContexts_good standaloneContexts_distinct [of input] unfolding refs
    by (intro contexts_once [OF assms(3,4)]) blast+
  have s: "s = fold (fuseContext input ?contexts plan) ?contexts scheduled"
    by (simp add: s_def fuseAll_def scheduled_def)
  have used: "set (fs_usedMeasurements s) = set (concat (map (usedByContext input ?contexts plan) ?contexts))"
    unfolding s_def fuseAll_used by simp
  show "usedOnce (measuredAt s)" using all unfolding s by (rule conjunct1)
  show "m \<in> namesOf ?ms (?refs \<union> set (fs_usedMeasurements s))" if "measuredAt s a = Some m" for a m
    using all [folded s] that unfolding used by blast
qed

section \<open>Events of their own\<close>

definition contributionsOf :: "standaloneGroup list \<Rightarrow> measurementContribution list" where
  "contributionsOf groups = namesIn (map sd_measurement (concat (map sg_cells groups)))"

lemma contributionsOf_simps:
  "contributionsOf [] = []" "contributionsOf (xs @ ys) = contributionsOf xs @ contributionsOf ys"
  by (simp_all add: contributionsOf_def namesIn_append) (simp add: namesIn_def)

lemma groupRefs_contributions: "concat (map groupRefs groups) = map contributionRef (contributionsOf groups)"
proof -
  have refs: "List.map_filter (\<lambda>d. map_option contributionRef (sd_measurement d)) ds =
      map contributionRef (namesIn (map sd_measurement ds))" for ds
    by (induction ds) (auto simp: List.map_filter_simps namesIn_def)
  show ?thesis
    by (induction groups) (simp_all add: contributionsOf_def groupRefs_def namesIn_append refs namesIn_def [of "[]"])
qed

text \<open>A group is made of measured cells of the measurements planned for states.\<close>

definition fromMeasurements :: "timedNrMeasurement set \<Rightarrow> measurementContribution \<Rightarrow> bool" where
  "fromMeasurements observations b \<longleftrightarrow>
    (\<exists>o'\<in>observations. \<exists>placed\<in>set (placedCells o'). b = contribution o' placed)"

lemma fromMeasurements_mono: "fromMeasurements A b \<Longrightarrow> A \<subseteq> B \<Longrightarrow> fromMeasurements B b"
  unfolding fromMeasurements_def by blast

lemma servingMeasurementCandidate_in:
  "servingMeasurementCandidate cells pci = Some placed \<Longrightarrow> placed \<in> set cells"
  unfolding servingMeasurementCandidate_def Let_def
  by (auto dest!: onlyOne_in arg_cong [where f = set] split: option.splits if_splits)

lemma matching_from:
  assumes "matchingMeasurementForServing observations servingCell used = Some b"
  shows "fromMeasurements (set observations) b"
proof -
  have "\<forall>b. fold (matchServing servingCell pci used) observations None = Some b \<longrightarrow> fromMeasurements (set observations) b" for pci
  proof (rule fold_invariant_set)
    fix o' and matched :: "measurementContribution option"
    assume "o' \<in> set observations" "\<forall>b. matched = Some b \<longrightarrow> fromMeasurements (set observations) b"
    then show "\<forall>b. matchServing servingCell pci used o' matched = Some b \<longrightarrow> fromMeasurements (set observations) b"
      by (auto simp: matchServing_def fromMeasurements_def dest: servingMeasurementCandidate_in split: option.split)
  qed simp
  then show ?thesis using assms by (auto simp: matchingMeasurementForServing_def split: option.splits)
qed

lemma stateObservations_in:
  "map_of (mp_byState plan) key = Some observations \<Longrightarrow> set observations \<subseteq> stateObservations plan"
  unfolding stateObservations_def by (force dest: map_of_SomeD)

lemma addServingGroup_from:
  assumes "\<forall>b\<in>set (contributionsOf (fst st)). fromMeasurements (stateObservations plan) b"
  shows "\<forall>b\<in>set (contributionsOf (fst (addServingGroup input plan us info st))). fromMeasurements (stateObservations plan) b"
proof -
  obtain groups used where st: "st = (groups, used)" by (cases st)
  have group: "\<forall>b\<in>set (contributionsOf [\<lparr>sg_envelope = e, sg_point = p, sg_state = state, sg_streamIndex = i,
      sg_cells = [\<lparr>sd_servingCell = c, sd_measurement = matchingMeasurementForServing observations info used\<rparr>]\<rparr>]).
      fromMeasurements (stateObservations plan) b"
    if "set observations \<subseteq> stateObservations plan" for e p state i c observations
    using matching_from [of observations info used] fromMeasurements_mono [OF _ that]
    by (auto simp: contributionsOf_def namesIn_def)
  show ?thesis
  proof (cases "nrStandaloneStateAt (fusionTimelines input) (tv_streamIndex info) info")
    case None
    then show ?thesis using assms by (simp add: addServingGroup_def st)
  next
    case (Some state)
    let ?key = "(tv_streamIndex info, ss_epoch state)"
    let ?observations = "case map_of (mp_byState plan) ?key of Some os \<Rightarrow> os | None \<Rightarrow> []"
    let ?group = "\<lparr>sg_envelope = standaloneEnvelope input (tv_streamIndex info) info, sg_point = nsgTimestamp.truncate info,
      sg_state = state, sg_streamIndex = tv_streamIndex info,
      sg_cells = [\<lparr>sd_servingCell = Some info, sd_measurement = matchingMeasurementForServing ?observations info used\<rparr>]\<rparr>"
    have "set ?observations \<subseteq> stateObservations plan"
      by (cases "map_of (mp_byState plan) ?key") (simp_all add: stateObservations_in)
    from group [OF this] have "\<forall>b\<in>set (contributionsOf [?group]). fromMeasurements (stateObservations plan) b" .
    moreover have "fst (addServingGroup input plan us info st) \<in> {groups, groups @ [?group]}"
      by (simp add: addServingGroup_def st Let_def Some)
    moreover have "\<forall>b\<in>set (contributionsOf groups). fromMeasurements (stateObservations plan) b" using assms by (simp add: st)
    ultimately show ?thesis by (auto simp: contributionsOf_simps simp del: fst_conv)
  qed
qed

lemma in_map_filter: "y \<in> set (List.map_filter f xs) \<longleftrightarrow> (\<exists>x\<in>set xs. f x = Some y)"
  by (induction xs) (auto simp: List.map_filter_simps split: option.split)

lemma measurementGroup_from:
  assumes "measurementGroup input used o' = Some grp"
  shows "\<forall>b\<in>set (contributionsOf [grp]). fromMeasurements {o'} b"
proof -
  let ?fresh = "filter (\<lambda>placed. refOf o' placed \<notin> set used \<and> measurementPair (snd placed) \<noteq> None) (placedCells o')"
  have "map sd_measurement (sg_cells grp) = map (\<lambda>placed. Some (contribution o' placed)) (uniquePairs [] ?fresh)"
    using assms by (auto simp: measurementGroup_def Let_def comp_def split: option.splits if_splits)
  then have "contributionsOf [grp] = map (contribution o') (uniquePairs [] ?fresh)"
    by (simp add: contributionsOf_def namesIn_def comp_def)
  moreover have "set (uniquePairs [] ?fresh) \<subseteq> set (placedCells o')" using uniquePairs_sub(2) by fastforce
  ultimately show ?thesis by (auto simp: fromMeasurements_def)
qed

lemma standaloneGroups_from:
  assumes "b \<in> set (contributionsOf (standaloneGroups input plan s))"
  shows "fromMeasurements (stateObservations plan) b"
proof -
  define st where "st = fold (addServingGroup input plan (fs_usedServing s)) (fi_servingCellInfos input) ([], fs_usedMeasurements s)"
  define later where "later = List.map_filter (measurementGroup input (snd st)) (concat (map snd (mp_byState plan)))"
  have sorted: "standaloneGroups input plan s = sortBy (\<lambda>left right. of_int (compareTimeline (sg_point left) (sg_point right))) (fst st @ later)"
    by (simp add: standaloneGroups_def Let_def later_def split_def flip: st_def)
  have of_set: "set (contributionsOf groups) = (\<Union>grp\<in>set groups. set (contributionsOf [grp]))" for groups
    by (auto simp: contributionsOf_def set_namesIn)
  have "\<forall>b\<in>set (contributionsOf (fst st)). fromMeasurements (stateObservations plan) b"
    unfolding st_def
    by (rule fold_invariant_set) (simp_all add: addServingGroup_from contributionsOf_simps)
  moreover have "\<forall>grp\<in>set later. \<forall>b\<in>set (contributionsOf [grp]). fromMeasurements (stateObservations plan) b"
  proof (intro ballI)
    fix grp b assume b: "grp \<in> set later" "b \<in> set (contributionsOf [grp])"
    then have "\<exists>o'\<in>set (concat (map snd (mp_byState plan))). measurementGroup input (snd st) o' = Some grp"
      unfolding later_def in_map_filter by blast
    then obtain o' where o': "o' \<in> stateObservations plan" "measurementGroup input (snd st) o' = Some grp"
      unfolding stateObservations_def by blast
    then show "fromMeasurements (stateObservations plan) b"
      using measurementGroup_from [OF o'(2)] b(2) fromMeasurements_mono [of "{o'}" b] by simp
  qed
  ultimately show ?thesis
    using assms unfolding sorted of_set [of "sortBy _ _"] of_set [of "fst st"] set_sortBy set_append by blast
qed

lemma groupCells_measured:
  "map measuredCell (concat (map (\<lambda>(k, grp). standaloneGroupCells (g k) grp) (enumerate n groups))) =
    map (map_option measuredBy) (map sd_measurement (concat (map sg_cells groups)))"
proof -
  have "map measuredCell (standaloneGroupCells e grp) = map (map_option measuredBy) (map sd_measurement (sg_cells grp))" for e grp
    by (rule nth_equalityI) (simp_all add: standaloneGroupCells_def nth_enumerate_eq)
  then show ?thesis
    by (induction groups arbitrary: n) simp_all
qed

lemma namesIn_map_option: "namesIn (map (map_option f) ms) = map f (namesIn ms)"
  by (induction ms) (auto simp: namesIn_def)

lemma mset_namesIn: "mset ms = mset ms' \<Longrightarrow> mset (namesIn ms) = mset (namesIn ms')"
  by (simp add: namesIn_def mset_map mset_filter)

section \<open>The names in the result\<close>

lemma result_names:
  fixes input
  defines "plan \<equiv> planMeasurements input (standaloneContexts input)"
  defines "s \<equiv> fuseAll input (standaloneContexts input) plan"
  assumes "\<forall>c\<in>set (fi_cells input). measuredCell c = None"
  shows "mset (namesIn (map measuredCell (fr_cells (fuseStandaloneCells input)))) =
    mset (namesIn (map (measuredAt s) (placesOf s 0 (fi_cells input))) @
      map measuredBy (contributionsOf (standaloneGroups input plan s)))"
proof -
  let ?groups = "standaloneGroups input plan s"
  let ?own = "concat (map (\<lambda>(k, grp). standaloneGroupCells (int (length (fi_events input)) + int k) grp) (enumerate 0 ?groups))"
  have "mset (fr_cells (fuseStandaloneCells input)) = mset (placeCells s 0 (fi_cells input) @ ?own)"
    by (simp add: fuseStandaloneCells_def Let_def s_def plan_def)
  then have "mset (map measuredCell (fr_cells (fuseStandaloneCells input))) =
      mset (map measuredCell (placeCells s 0 (fi_cells input)) @ map measuredCell ?own)"
    by (simp only: mset_map map_append [symmetric])
  from mset_namesIn [OF this] show ?thesis
    by (simp only: placeCells_places [OF assms(3)] groupCells_measured namesIn_append namesIn_map_option contributionsOf_def)
qed

lemma used_by_events:
  "r \<in> set (fs_usedMeasurements (fuseAll input contexts plan)) \<Longrightarrow> \<exists>o'\<in>eventObservations plan. fst r = tm_ref o'"
proof -
  assume "r \<in> set (fs_usedMeasurements (fuseAll input contexts plan))"
  then obtain ctx where "r \<in> set (usedByContext input contexts plan ctx)" unfolding fuseAll_used by auto
  then obtain o' where "map_of (mp_byEvent plan) (contextId ctx) = Some o'" "fst r = tm_ref o'" using usedByContext_refs by metis
  then show ?thesis by (force simp: eventObservations_def dest: map_of_SomeD)
qed

lemma ref_inj:
  "distinctMeasurements ms \<Longrightarrow> o1 \<in> set ms \<Longrightarrow> o2 \<in> set ms \<Longrightarrow> tm_ref o1 = tm_ref o2 \<Longrightarrow> o1 = o2"
  by (auto simp: distinctMeasurements_def distinct_map inj_on_def)

lemma plan_apart:
  "distinctMeasurements (fi_measurements input) \<Longrightarrow> planApart (set (fi_measurements input)) (planMeasurements input contexts)"
  by (rule planApart_all) (simp add: distinctMeasurements_def distinct_map)

lemma group_contributions:
  fixes input
  defines "plan \<equiv> planMeasurements input (standaloneContexts input)"
  defines "s \<equiv> fuseAll input (standaloneContexts input) plan"
  assumes "distinctMeasurements (fi_measurements input)" "b \<in> set (contributionsOf (standaloneGroups input plan s))"
  shows "\<exists>o' placed. o' \<in> stateObservations plan \<and> o' \<in> set (fi_measurements input) \<and> placed \<in> set (placedCells o') \<and>
    b = contribution o' placed"
proof -
  have "stateObservations plan \<subseteq> set (fi_measurements input)"
    using plan_apart [OF assms(3), of "standaloneContexts input"] by (auto simp: planApart_def planned_def plan_def)
  then show ?thesis using standaloneGroups_from [OF assms(4)] unfolding fromMeasurements_def by blast
qed

lemma names_distinct:
  fixes input
  defines "plan \<equiv> planMeasurements input (standaloneContexts input)"
  defines "s \<equiv> fuseAll input (standaloneContexts input) plan"
  assumes "distinctMeasurements (fi_measurements input)" "\<forall>c\<in>set (fi_cells input). measuredCell c = None"
  shows "distinct (namesIn (map (measuredAt s) (placesOf s 0 (fi_cells input))) @
      map measuredBy (contributionsOf (standaloneGroups input plan s)))"
proof -
  let ?ms = "fi_measurements input"
  let ?bs = "contributionsOf (standaloneGroups input plan s)"
  let ?scheduled = "{r :: measurementRef. fst r \<in> tm_ref ` set (scheduleObservations plan)}"
  note once = fuseAll_once [OF assms(3,4), folded plan_def, folded s_def]
  note origin = group_contributions [OF assms(3), folded plan_def, folded s_def]
  have apart: "planApart (set ?ms) plan" unfolding plan_def by (rule plan_apart [OF assms(3)])
  have marks: "distinct (fs_usedMeasurements s @ map contributionRef ?bs)"
    using usage_marks_distinct [OF _ plan_def [THEN meta_eq_to_obj_eq] s_def [THEN meta_eq_to_obj_eq]] assms(3)
    unfolding groupRefs_contributions by (simp add: distinctMeasurements_def)
  have "distinct (map measuredBy ?bs)"
    unfolding distinct_map
  proof (intro conjI inj_onI)
    show "distinct ?bs" using marks by (simp add: distinct_map)
    fix b c assume bc: "b \<in> set ?bs" "c \<in> set ?bs" "measuredBy b = measuredBy c"
    obtain o1 p1 where b: "o1 \<in> set ?ms" "p1 \<in> set (placedCells o1)" "b = contribution o1 p1"
      using origin [OF bc(1)] by blast
    obtain o2 p2 where c: "o2 \<in> set ?ms" "p2 \<in> set (placedCells o2)" "c = contribution o2 p2"
      using origin [OF bc(2)] by blast
    have "contributionRef b = contributionRef c"
      using measuredBy_inj [OF assms(3) b(1) c(1) b(2) c(2)] bc(3) by (simp add: b(3) c(3))
    then show "b = c" using marks bc(1,2) by (auto simp: distinct_map inj_on_def)
  qed
  moreover have "measuredBy b \<notin> set (namesIn (map (measuredAt s) places))" if b: "b \<in> set ?bs" for b places
  proof
    assume "measuredBy b \<in> set (namesIn (map (measuredAt s) places))"
    then obtain a where "measuredAt s a = Some (measuredBy b)" by (auto simp: set_namesIn)
    then have named: "measuredBy b \<in> namesOf ?ms (?scheduled \<union> set (fs_usedMeasurements s))" by (rule once(2))
    obtain o' placed where o': "o' \<in> stateObservations plan" "o' \<in> set ?ms" "placed \<in> set (placedCells o')" "b = contribution o' placed"
      using origin [OF b] by blast
    have "contributionRef b \<notin> set (fs_usedMeasurements s)" using marks b by auto
    moreover have "contributionRef b \<notin> ?scheduled"
    proof
      assume "contributionRef b \<in> ?scheduled"
      then obtain o1 where o1: "o1 \<in> set (scheduleObservations plan)" "tm_ref o1 = tm_ref o'"
        by (auto simp: o'(4) refOf_def)
      moreover from this have "o1 = o'" using apart o'(2) by (intro ref_inj [OF assms(3)]) (auto simp: planApart_def)
      ultimately show False using apart o'(1) by (auto simp: planApart_def planned_def)
    qed
    ultimately have "measuredBy b \<notin> namesOf ?ms (?scheduled \<union> set (fs_usedMeasurements s))"
      unfolding o'(4) by (intro namesOf_fresh [OF assms(3) o'(2,3)]) simp
    then show False using named by contradiction
  qed
  ultimately show ?thesis using namesIn_usedOnce [OF once(1) placesOf_distinct] by auto
qed

lemma remaining_unnamed:
  fixes input
  defines "plan \<equiv> planMeasurements input (standaloneContexts input)"
  defines "s \<equiv> fuseAll input (standaloneContexts input) plan"
  assumes "distinctMeasurements (fi_measurements input)" "\<forall>c\<in>set (fi_cells input). measuredCell c = None"
    and "o' \<in> set (mp_remaining plan)" "placed \<in> set (placedCells o')"
  shows "measuredBy (contribution o' placed) \<notin> set (namesIn (map (measuredAt s) (placesOf s 0 (fi_cells input))) @
      map measuredBy (contributionsOf (standaloneGroups input plan s)))"
proof
  let ?ms = "fi_measurements input" and ?m = "measuredBy (contribution o' placed)"
  let ?scheduled = "{r :: measurementRef. fst r \<in> tm_ref ` set (scheduleObservations plan)}"
  note once = fuseAll_once [OF assms(3,4), folded plan_def, folded s_def]
  note origin = group_contributions [OF assms(3), folded plan_def, folded s_def]
  have apart: "planApart (set ?ms) plan" unfolding plan_def by (rule plan_apart [OF assms(3)])
  have o': "o' \<in> set ?ms" using apart assms(5) by (auto simp: planApart_def)
  have other: "tm_ref o' \<noteq> tm_ref o1" if "o1 \<in> planned plan \<union> set (scheduleObservations plan)" for o1
  proof
    assume "tm_ref o' = tm_ref o1"
    moreover have "o1 \<in> set ?ms" using apart that by (auto simp: planApart_def)
    ultimately have "o' = o1" using ref_inj [OF assms(3) o'] by blast
    then show False using apart assms(5) that by (auto simp: planApart_def)
  qed
  assume "?m \<in> set (namesIn (map (measuredAt s) (placesOf s 0 (fi_cells input))) @
      map measuredBy (contributionsOf (standaloneGroups input plan s)))"
  then consider a where "measuredAt s a = Some ?m"
    | b where "b \<in> set (contributionsOf (standaloneGroups input plan s))" "measuredBy b = ?m"
    by (auto simp: set_namesIn)
  then show False
  proof cases
    case 1
    then have named: "?m \<in> namesOf ?ms (?scheduled \<union> set (fs_usedMeasurements s))" by (rule once(2))
    have "refOf o' placed \<notin> ?scheduled \<union> set (fs_usedMeasurements s)"
    proof
      assume "refOf o' placed \<in> ?scheduled \<union> set (fs_usedMeasurements s)"
      then have "\<exists>o1\<in>planned plan \<union> set (scheduleObservations plan). tm_ref o' = tm_ref o1"
      proof
        assume "refOf o' placed \<in> set (fs_usedMeasurements s)"
        from used_by_events [OF this [unfolded s_def]] show ?thesis by (auto simp: refOf_def planned_def)
      qed (auto simp: refOf_def)
      then show False using other by blast
    qed
    from namesOf_fresh [OF assms(3) o' assms(6) this] show False using named by contradiction
  next
    case 2
    obtain o1 p1 where o1: "o1 \<in> stateObservations plan" "o1 \<in> set ?ms" "p1 \<in> set (placedCells o1)" "b = contribution o1 p1"
      using origin [OF 2(1)] by blast
    have "refOf o' placed = refOf o1 p1"
      using measuredBy_inj [OF assms(3) o' o1(2) assms(6) o1(3)] 2(2) o1(4) by simp
    then show False using other [of o1] o1(1) by (simp add: refOf_def planned_def)
  qed
qed

text \<open>
  C6. No two cells of the result of the standalone fusion are made from the same measured cell: neither a cell
  of Android it was joined with, with or without a configuration, nor a neighbor added to an event, nor a cell of
  an event of its own. And no cell of the result is made from a measurement that is handed on to the
  non-standalone association. Measured cells are told apart by what the cells of the result say of them, which
  cells that come from Android do not; the measurements have record offsets and numberings of their own.
\<close>
theorem measured_cells_used_once:
  assumes "distinctMeasurements (fi_measurements input)" "\<forall>c\<in>set (fi_cells input). measuredCell c = None"
  shows "distinct (namesIn (map measuredCell (fr_cells (fuseStandaloneCells input)))) \<and>
    (\<forall>o'\<in>set (fr_remainingMeasurements (fuseStandaloneCells input)). \<forall>placed\<in>set (placedCells o').
      Some (measuredBy (contribution o' placed)) \<notin> measuredCell ` set (fr_cells (fuseStandaloneCells input)))"
proof -
  let ?ms = "fi_measurements input"
  define plan where "plan = planMeasurements input (standaloneContexts input)"
  define s where "s = fuseAll input (standaloneContexts input) plan"
  define groups where "groups = standaloneGroups input plan s"
  define names where "names = namesIn (map (measuredAt s) (placesOf s 0 (fi_cells input))) @ map measuredBy (contributionsOf groups)"
  have perm: "mset (namesIn (map measuredCell (fr_cells (fuseStandaloneCells input)))) = mset names"
    unfolding names_def groups_def s_def plan_def by (rule result_names [OF assms(2)])
  have "distinct names"
    unfolding names_def groups_def s_def plan_def by (rule names_distinct [OF assms])
  then have "distinct (namesIn (map measuredCell (fr_cells (fuseStandaloneCells input))))"
    using perm mset_eq_imp_distinct_iff by blast
  moreover have "Some (measuredBy (contribution o' placed)) \<notin> measuredCell ` set (fr_cells (fuseStandaloneCells input))"
    if o': "o' \<in> set (fr_remainingMeasurements (fuseStandaloneCells input))" "placed \<in> set (placedCells o')" for o' placed
  proof
    assume "Some (measuredBy (contribution o' placed)) \<in> measuredCell ` set (fr_cells (fuseStandaloneCells input))"
    then have "measuredBy (contribution o' placed) \<in> set names"
      unfolding mset_eq_setD [OF perm, symmetric] set_namesIn by simp
    moreover have "o' \<in> set (mp_remaining plan)" using o'(1) by (simp add: fuseStandaloneCells_def Let_def plan_def)
    ultimately show False
      using remaining_unnamed [OF assms, folded plan_def, folded s_def, folded groups_def, folded names_def] o'(2) by blast
  qed
  ultimately show ?thesis by blast
qed

section \<open>The decoder numbers the cells\<close>

lemma readMeasurementCells_numbered:
  "readMeasurementCells layout carrier packetLength view n cellIndex offset = Some (Some (cs, next)) \<Longrightarrow>
    map mc_cellIndex cs = map (\<lambda>k. cellIndex + int k) [0..<n]"
proof (induction n arbitrary: cellIndex offset cs)
  case (Suc n)
  from Suc.prems obtain c mid rest where step:
    "readMeasurementCell layout carrier cellIndex packetLength view offset = Some (Some (c, mid))"
    "readMeasurementCells layout carrier packetLength view n (cellIndex + 1) mid = Some (Some (rest, next))" "cs = c # rest"
    by (auto simp: bind_eq_Some_conv split: option.splits)
  have "mc_cellIndex c = cellIndex"
    using step(1) by (auto simp: readMeasurementCell_def Let_def bind_eq_Some_conv split: if_splits)
  moreover have "map (\<lambda>k. cellIndex + int k) [0..<Suc n] = cellIndex # map (\<lambda>k. cellIndex + 1 + int k) [0..<n]"
    by (rule nth_equalityI) (auto simp: nth_Cons simp del: upt_Suc split: nat.split)
  ultimately show ?case using Suc.IH [OF step(2)] step(3) by simp
qed simp

lemma markServing_index: "map mc_cellIndex (markServing layout i p cs) = map mc_cellIndex cs"
  by (auto simp: markServing_def map_update split: option.splits) (metis list_update_id map_update)

lemma readCarrier_numbered:
  assumes "readCarrier layout packetLength view carrierIndex offset = Some (Some (cs, next))"
  shows "distinct (map mc_cellIndex cs)"
proof -
  obtain carrier n base servingIndex servingPci where
    read: "readMeasurementCells layout carrier packetLength view n 0 (offset + cl_carrierBytes layout) = Some (Some (base, next))" and
    cs: "cs = markServing layout servingIndex servingPci base"
    using assms by (auto simp: readCarrier_def bind_eq_Some_conv split: if_splits)
  show ?thesis
    unfolding cs markServing_index readMeasurementCells_numbered [OF read] by (simp add: distinct_map inj_on_def)
qed

lemma readCarriers_numbered:
  assumes "layoutOk layout" "offset \<le> packetLength"
    "readCarriers layout packetLength view n carrierIndex offset = Some (Some (cs, next))"
  shows "distinct (map (\<lambda>c. (mc_carrierIndex c, mc_cellIndex c)) cs)"
  using assms(2,3)
proof (induction n arbitrary: carrierIndex offset cs)
  case (Suc n)
  from Suc.prems(2) obtain base mid rest where step:
    "readCarrier layout packetLength view carrierIndex offset = Some (Some (base, mid))"
    "readCarriers layout packetLength view n (carrierIndex + 1) mid = Some (Some (rest, next))" "cs = base @ rest"
    by (auto simp: bind_eq_Some_conv split: option.splits)
  note carrier = readCarrier_step [OF step(1) assms(1)]
  have "distinct (map (\<lambda>c. (mc_carrierIndex c, mc_cellIndex c)) base)"
    using readCarrier_numbered [OF step(1)] by (auto simp: distinct_map inj_on_def)
  moreover have "(mc_carrierIndex c, mc_cellIndex c) \<noteq> (mc_carrierIndex d, mc_cellIndex d)"
    if "c \<in> set base" "d \<in> set rest" for c d
    using carrier(3) readCarriers_step [OF step(2) assms(1) carrier(2)] that by fastforce
  ultimately show ?case using Suc.IH [OF carrier(2) step(2)] step(3) by fastforce
qed simp

text \<open>The numbering \<open>distinctMeasurements\<close> asks for is the one the decoder gives.\<close>

lemma decoded_cells_numbered:
  assumes "decodeQualcommNrMeasurement payload (Some h) = Some (Some m)"
  shows "distinct (map (\<lambda>c. (mc_carrierIndex c, mc_cellIndex c)) (nm_cells m))"
  using nrMeasurement_parts [OF assms] readCarriers_numbered by metis

section \<open>An example\<close>

text \<open>The recording of NsgUsage, its measured cells numbered: one is joined, one added, one gets its own event.\<close>

definition numberedMeasurement :: "nat \<Rightarrow> int \<Rightarrow> int list \<Rightarrow> timedNrMeasurement" where
  "numberedMeasurement ref elapsedUs pcis = (let o' = saMeasurement ref elapsedUs pcis; m = tm_measurement o' in
     o'\<lparr>tm_measurement := m\<lparr>nm_cells := map (\<lambda>(k, c). c\<lparr>mc_cellIndex := int k\<rparr>) (enumerate 0 (nm_cells m))\<rparr>\<rparr>)"

definition numberedInput :: fusionInput where
  "numberedInput = saInput\<lparr>fi_measurements := [numberedMeasurement 0 110 [7, 8], numberedMeasurement 1 70000000 [9]]\<rparr>"

lemma numberedInput_ok:
  "distinctMeasurements (fi_measurements numberedInput)" "\<forall>c\<in>set (fi_cells numberedInput). measuredCell c = None"
  by (simp_all add: distinctMeasurements_def numberedInput_def numberedMeasurement_def saMeasurement_def Let_def
      saInput_def saCell_def measuredCell_def field_def)

theorem measured_cells_used_once_witness:
  "distinct (namesIn (map measuredCell (fr_cells (fuseStandaloneCells numberedInput))))"
  using measured_cells_used_once [OF numberedInput_ok] by (rule conjunct1)

end
