(* ===== verification/NsgRecorderTheorems.thy ===== *)
theory NsgRecorderTheorems
  imports NsgRecorder NsgRecordTheorems NsgEventTheorems
begin

text \<open>
  What the recorder keeps: the bytes it captures of a Qualcomm payload are enough, and the operator it gives a cell
  while it reads is the one the history of the operators gives afterwards.
\<close>

section \<open>Captured payloads\<close>

text \<open>
  What the recorder would make of a whole payload. A signaling message beyond the limits of what is retained is only
  counted, and the log is marked as truncated.
\<close>

definition countOnly :: "decodedRecord \<Rightarrow> recorder \<Rightarrow> recorder" where
  "countOnly decoded r = r\<lparr>rb_signalingRecordCount := rb_signalingRecordCount r + 1,
     rb_recognizedPayloadBytes := rb_recognizedPayloadBytes r + dr_packetLength decoded, rb_signalingTruncated := True\<rparr>"

definition recordWhole :: "bytes \<Rightarrow> recordContext \<Rightarrow> bool \<Rightarrow> recorder \<Rightarrow> string + recorder" where
  "recordWhole payload ctx isRetained r =
    (case decodeQualcommRecord payload None of
       None \<Rightarrow> Inl RANGE_ERROR_MESSAGE
     | Some None \<Rightarrow> Inr r
     | Some (Some decoded) \<Rightarrow> (if isRetained then keepRecord decoded ctx r else Inr (countOnly decoded r)))"

definition isRetentionFull :: "diagPrefix \<Rightarrow> recorder \<Rightarrow> bool" where
  "isRetentionFull prefix r \<longleftrightarrow>
    rb_signalingTruncated r \<or> 10000 \<le> length (rb_signaling r) \<or>
    16777216 < rb_signalingPayloadBytes r + dp_packetLength prefix"

lemma policy_kind [simp]: "rp_kind (policyOf kind) = kind"
  by (cases kind) (simp_all add: policyOf_def)

lemma policy_validation: "rp_validationPrefixBytes (policyOf SignalingKind) = Some QUALCOMM_SIGNALING_ENVELOPE_BYTES"
  by (simp add: policyOf_def)

lemma decodeRecordKind_length:
  "decodeRecordKind kind payload h = Some (Some d) \<Longrightarrow> dr_packetLength d = dp_packetLength h"
  by (auto simp: decodeRecordKind_def map_option_case split: option.splits)

lemma decoded_or_null: "\<exists>decoded. decodeQualcommRecord payload parsedPrefix = Some decoded"
proof -
  have "decodeQualcommRecord payload parsedPrefix \<noteq> None"
    unfolding decodeQualcommRecord_def
    by (intro returns decodeRecordKind_returns) (auto dest: readDiagHeader_ok(1))
  then show ?thesis by blast
qed

text \<open>
  C10. The bytes the recorder captures of a Qualcomm payload are enough. Where it captures nothing, the whole
  payload would leave the recording as it is. Where it captures the packet, the recording ends up as with the
  whole payload, errors included. A signaling message beyond the limits of what is retained is captured up to its
  envelope only; it is not decoded then, but counted exactly when the decoder would have decoded it.
\<close>
theorem capture_suffices:
  assumes "readDiagPrefix payload = Some (Some prefix)"
  shows "case selectQualcommPayloadCapture (classifyQualcommRecord prefix (int (length payload))) prefix r of
      None \<Rightarrow> recordWhole payload ctx True r = Inr r
    | Some capture \<Rightarrow>
        recordQualcommPayload (take (nat (pc_byteLength capture)) payload) ctx (pc_validationPrefix capture) r =
          recordWhole payload ctx (pc_validationPrefix capture = None) r \<and>
        (pc_validationPrefix capture \<noteq> None \<longleftrightarrow>
          descriptorForPacket prefix (int (length payload)) = Some SignalingKind \<and> isRetentionFull prefix r)"
proof (cases "descriptorForPacket prefix (int (length payload))")
  case None
  then have "decodeQualcommRecord payload None = Some None"
    using assms by (simp add: decodeQualcommRecord_def)
  then show ?thesis
    using None by (simp add: classifyQualcommRecord_def selectQualcommPayloadCapture_def recordWhole_def)
next
  case (Some kind)
  note policy = classifyQualcommRecord_def Some selectQualcommPayloadCapture_def
  obtain decoded where decoded: "decodeQualcommRecord payload None = Some decoded"
    using decoded_or_null [of payload] by blast
  show ?thesis
  proof (cases "modeOf r = StreamingMode")
    case True
    then show ?thesis
      using decoded by (simp add: policy recordWhole_def keepRecord_def Let_def split: option.split)
  next
    case False
    show ?thesis
    proof (cases "kind = SignalingKind \<and> isRetentionFull prefix r")
      case True
      then have sig: "descriptorForPacket prefix (int (length payload)) = Some SignalingKind" using Some by simp
      obtain b where b: "isValidQualcommSignalingEnvelope
          (take (nat (min (dp_packetLength prefix) QUALCOMM_SIGNALING_ENVELOPE_BYTES)) payload) prefix = Some b"
          "b \<longleftrightarrow> (\<exists>d. decodeQualcommRecord payload None = Some (Some d))"
        using envelope_agrees_with_decoder [OF assms sig] by blast
      have len: "dr_packetLength d = dp_packetLength prefix" if "decoded = Some d" for d
        using decodeRecordKind_length decoded that unfolding decode_known [OF assms sig] by fastforce
      show ?thesis
        using True False b decoded len policy_validation
        by (auto simp: policy isRetentionFull_def MAX_RETAINED_SIGNALING_RECORDS_def
            MAX_RETAINED_SIGNALING_PAYLOAD_BYTES_def recordQualcommPayload_def countTruncatedSignaling_def
            recordWhole_def countOnly_def split: option.splits)
    next
      case other: False
      then show ?thesis
        using False decode_stated_bytes [OF assms Some]
        by (auto simp: policy isRetentionFull_def MAX_RETAINED_SIGNALING_RECORDS_def
            MAX_RETAINED_SIGNALING_PAYLOAD_BYTES_def recordQualcommPayload_def recordWhole_def
            split: option.splits)
    qed
  qed
qed


definition exampleContext :: recordContext where
  "exampleContext = \<lparr>rx_recordOffset = 200, rx_streamIndex = 1, rx_elapsedUs = 5\<rparr>"

definition truncatedRecorder :: recorder where
  "truncatedRecorder = (newRecorder \<lparr>so_name = ''drive.nsg'', so_size = 400, so_decodedSize = None\<rparr>
     \<lparr>po_mode = CompleteMode, po_allowIncompleteFinalRecord = True, po_onCell = False, po_onEvent = False,
       po_gnbidLength = None\<rparr>)\<lparr>rb_signalingTruncated := True\<rparr>"

theorem capture_suffices_witness:
  "recordQualcommPayload (take 18 (exampleNas @ [7, 7])) exampleContext (Some \<lparr>dp_packetLength = 18, dp_logCode = 0xB0ED\<rparr>)
    truncatedRecorder = recordWhole (exampleNas @ [7, 7]) exampleContext False truncatedRecorder"
proof -
  let ?prefix = "\<lparr>dp_packetLength = 18, dp_logCode = 0xB0ED\<rparr> :: diagPrefix"
  have "readDiagPrefix (exampleNas @ [7, 7]) = Some (Some ?prefix)"
    "classifyQualcommRecord ?prefix (int (length (exampleNas @ [7, 7]))) = Some (policyOf SignalingKind)" by code_simp+
  moreover have "selectQualcommPayloadCapture (Some (policyOf SignalingKind)) ?prefix truncatedRecorder =
      Some \<lparr>pc_byteLength = 18, pc_validationPrefix = Some ?prefix\<rparr>"
    by (simp add: selectQualcommPayloadCapture_def truncatedRecorder_def newRecorder_def modeOf_def policy_validation
        QUALCOMM_SIGNALING_ENVELOPE_BYTES_def)
  ultimately show ?thesis
    using capture_suffices [of "exampleNas @ [7, 7]" ?prefix exampleContext truncatedRecorder] by simp
qed

section \<open>Operators while reading and afterwards\<close>

lemma sortBy_sorted: "sorted_wrt (\<lambda>x y. compare x y \<le> 0) xs \<Longrightarrow> sortBy compare xs = xs"
proof (induction xs)
  case (Cons x xs)
  then show ?case by (cases xs) auto
qed simp

text \<open>The events of a recording are numbered as they are read; in order of time means that none goes back.\<close>

definition inTimeOrder :: "nsgEvent list \<Rightarrow> bool" where
  "inTimeOrder events \<longleftrightarrow> sorted_wrt (\<lambda>l r. tp_elapsedUs l \<le> tp_elapsedUs r \<and> ev_id l < ev_id r) events"

lemma orderedOperatorEvents_inTimeOrder:
  assumes "inTimeOrder events" shows "orderedOperatorEvents events = filter isOperatorEvent events"
  unfolding orderedOperatorEvents_def
proof (rule sortBy_sorted)
  show "sorted_wrt (\<lambda>l r :: nsgEvent. orNext (of_int (tp_elapsedUs l) - of_int (tp_elapsedUs r))
      (of_int (ev_id l) - of_int (ev_id r)) \<le> 0) (filter isOperatorEvent events)"
    using sorted_wrt_filter [OF assms [unfolded inTimeOrder_def]]
    by (rule sorted_wrt_mono_rel [rotated]) (auto simp: orNext_def)
qed

lemma fold_operator_events: "fold processOperators (filter isOperatorEvent events) s = fold processOperators events s"
  by (induction events arbitrary: s) (auto simp: processOperators_def isOperatorEvent_def)

text \<open>
  C8. In a recording whose time never goes back, the operator a cell gets while the recording is read is the one the
  history of its operators gives afterwards: the running state after the events up to and with the one that reports
  the cell, against the binary search in the history of all events.
\<close>
theorem operator_history_agrees:
  assumes "inTimeOrder (before @ event # after)" "eventVersion.truncate ctx = versionOf event"
  shows "historyOperator (operatorHistory (before @ event # after)) ctx =
    streamingOperator (processOperators event (fold processOperators before newOperatorState)) ctx"
proof -
  have version: "vr_elapsedUs ctx = tp_elapsedUs event" "vr_eventIndex ctx = ev_id event"
    using assms(2) by (simp_all add: eventVersion.defs versionOf_def)
  have "\<forall>e\<in>set before. compareVersion (versionOf e) ctx \<le> 0" "\<forall>e\<in>set after. \<not> compareVersion (versionOf e) ctx \<le> 0"
    using assms(1) by (auto simp: inTimeOrder_def sorted_wrt_append compareVersion_def version versionOf_def)
  moreover have "compareVersion (versionOf event) ctx \<le> 0" by (simp add: compareVersion_def version versionOf_def)
  ultimately have "filter (\<lambda>e. compareVersion (versionOf e) ctx \<le> 0) (filter isOperatorEvent (before @ event # after)) =
      filter isOperatorEvent (before @ [event])"
    by (auto simp: filter_empty_conv intro!: filter_cong)
  then have "historyOperator (operatorHistory (before @ event # after)) ctx =
      streamingOperator (fold processOperators (filter isOperatorEvent (before @ [event])) newOperatorState) ctx"
    by (simp only: ordered_history_agrees orderedOperatorEvents_inTimeOrder [OF assms(1)])
  then show ?thesis by (simp add: fold_operator_events del: filter_append)
qed

text \<open>
  The order is needed: a list of subscriptions at 100 microseconds, followed by a service state of 50 that arrives
  late. The running state ignores the late event, the history sorts it in.
\<close>

definition operatorEvent :: "int \<Rightarrow> int \<Rightarrow> string \<Rightarrow> jsonObject \<Rightarrow> nsgEvent" where
  "operatorEvent eventId elapsedUs name data = \<lparr>tp_elapsedUs = elapsedUs, tp_recordOffset = eventId, ts_timestampUs = elapsedUs,
     ts_timestampMs = 0, ev_id = eventId, ev_name = name, ev_marker = None, ev_streamIndex = 0, ev_data = data\<rparr>"

definition subscriptionData :: jsonObject where
  "subscriptionData = [(''subscriptions'', JArr [JObj [(''simSlotIndex'', JNum 0), (''subscriptionId'', JNum 1),
     (''mcc'', JStr ''260''), (''mnc'', JStr ''02'')]])]"

definition serviceData :: jsonObject where
  "serviceData = [(''slotId'', JNum 0), (''subId'', JNum 1), (''networks'', JArr [JObj [(''registered'', JBool True),
     (''rat'', JNum 13), (''registeredPLMN'', JStr ''26002'')]])]"

definition lteContext :: "int \<Rightarrow> int \<Rightarrow> operatorContext" where
  "lteContext elapsedUs eventId = \<lparr>vr_elapsedUs = elapsedUs, vr_eventIndex = eventId, oc_slotId = Some 0, oc_subId = Some 1,
     oc_rat = ''LTE''\<rparr>"

lemma service_state_operator:
  "map_option ro_plmn (streamingOperator (processOperators (operatorEvent 2 150 ''ScheduleCellInfo'' [])
      (fold processOperators [operatorEvent 0 50 ''serviceState'' serviceData, operatorEvent 1 100 ''subscriptionsChanged'' subscriptionData]
        newOperatorState)) (lteContext 150 2)) = Some ''26002''"
  by code_simp

theorem operator_history_agrees_witness:
  "map_option ro_plmn (historyOperator (operatorHistory ([operatorEvent 0 50 ''serviceState'' serviceData,
      operatorEvent 1 100 ''subscriptionsChanged'' subscriptionData] @ operatorEvent 2 150 ''ScheduleCellInfo'' [] #
      [operatorEvent 3 200 ''serviceState'' []])) (lteContext 150 2)) = Some ''26002''"
proof -
  have "inTimeOrder ([operatorEvent 0 50 ''serviceState'' serviceData,
      operatorEvent 1 100 ''subscriptionsChanged'' subscriptionData] @ operatorEvent 2 150 ''ScheduleCellInfo'' [] #
      [operatorEvent 3 200 ''serviceState'' []])"
    by (simp add: inTimeOrder_def operatorEvent_def)
  moreover have "eventVersion.truncate (lteContext 150 2) = versionOf (operatorEvent 2 150 ''ScheduleCellInfo'' [])"
    by (simp add: lteContext_def operatorEvent_def versionOf_def eventVersion.defs)
  ultimately show ?thesis using service_state_operator by (simp only: operator_history_agrees)
qed

lemma history_differs_out_of_order:
  "map_option ro_plmn (streamingOperator (fold processOperators [operatorEvent 0 100 ''subscriptionsChanged'' subscriptionData,
      operatorEvent 1 50 ''serviceState'' serviceData] newOperatorState) (lteContext 150 2)) = None \<and>
   map_option ro_plmn (historyOperator (operatorHistory [operatorEvent 0 100 ''subscriptionsChanged'' subscriptionData,
      operatorEvent 1 50 ''serviceState'' serviceData]) (lteContext 150 2)) = Some ''26002''"
  by code_simp

end
