(* ===== verification/Analyzer.thy ===== *)
theory Analyzer
  imports Packs
begin

text \<open>
  The analyzer of the server (features/analyzer/match.ts, officialSites.ts, and the parts of packages/shared
  contract/cellMatch.ts and operatorUtils.ts it rests on): observed cells are matched with the stored ones.
  A query is a filter of the joined rows of the tables. The lookups run side by side in the source; what they
  keep does not depend on the order, so the model takes them one after another.
\<close>

section \<open>Collections\<close>

text \<open>\<open>chunks\<close> of lib/collections.ts; no list is cut into chunks of size 0.\<close>

function chunks :: "'a list \<Rightarrow> nat \<Rightarrow> 'a list list" where
  "chunks items size' =
    (if items = [] \<or> size' = 0 then [] else take size' items # chunks (drop size' items) size')"
  by pat_completeness auto
termination by (relation "measure (length \<circ> fst)") (auto simp: neq_Nil_conv)

declare chunks.simps [simp del]

section \<open>Observed cells\<close>

record observedGsm =
  og_lac :: int
  og_cid :: int
  og_bsic :: "int option"

record observedUmts =
  ou_lac :: int
  ou_cid :: int
  ou_rnc :: "int option"
  ou_psc :: "int option"
  ou_uarfcn :: "int option"

record observedLte =
  ol_enbid :: nat
  ol_clid :: int
  ol_tac :: "int option"
  ol_pci :: "int option"
  ol_earfcn :: "int option"

record observedNr =
  on_nci :: "int option"
  on_gnbid :: "int option"
  on_clid :: "int option"
  on_tac :: "int option"
  on_pci :: "int option"
  on_arfcn :: "int option"

datatype observedRadio = ObservedGsm observedGsm | ObservedUmts observedUmts | ObservedLte observedLte | ObservedNr observedNr

record observedCell =
  ob_plmn :: string
  ob_radio :: observedRadio

text \<open>The same code with the MNC in two digits and in three.\<close>

definition plmnCandidates :: "string \<Rightarrow> string list" where
  "plmnCandidates plmn =
    (let mcc = take 3 plmn; mnc = drop 3 plmn
     in if length mnc = 2 then [plmn, mcc @ ''0'' @ mnc]
        else if take 1 mnc = ''0'' then [plmn, mcc @ drop 1 mnc] else [plmn])"

record nrSplit =
  nx_gnbid :: int
  nx_clid :: int
  nx_gnbidLength :: int

definition splitNci :: "int \<Rightarrow> int \<Rightarrow> nrSplit option" where
  "splitNci nci gnbidLength =
    (let cellsPerGnb = 2 ^ nat (NCI_BITS - gnbidLength); gnbid = nci div cellsPerGnb
     in if gnbid = 0 then None else Some \<lparr>nx_gnbid = gnbid, nx_clid = nci mod cellsPerGnb, nx_gnbidLength = gnbidLength\<rparr>)"

section \<open>Stored cells\<close>

record storedGsm =
  sg_lac :: int
  sg_cid :: int
  sg_bsic :: "int option"

record storedUmts =
  su_lac :: "int option"
  su_rnc :: int
  su_cid :: int
  su_psc :: "int option"
  su_arfcn :: "int option"

record storedLte =
  sl_tac :: "int option"
  sl_enbid :: nat
  sl_clid :: int
  sl_pci :: "int option"
  sl_earfcn :: "int option"

record storedNr =
  sn_nrtac :: "int option"
  sn_gnbid :: "int option"
  sn_gnbidLength :: "int option"
  sn_clid :: "int option"
  sn_nci :: "int option"
  sn_pci :: "int option"
  sn_arfcn :: "int option"

datatype networkMatch = OwnNetwork | ExtraCode | PartnerNetwork | MissingCode
datatype siteStatus = SitePublished | SiteInactive | SitePending

record countryFeatures =
  cf_psc :: bool
  cf_bsic :: bool

text \<open>
  A row of a query: the cell, its station with the country its placement gives it and the features of that
  country, the codes it broadcasts besides its owner's, and how the query reached it.
\<close>

record storedCell =
  sc_id :: int
  sc_stationId :: int
  sc_operatorId :: "int option"
  sc_status :: siteStatus
  sc_countryCode :: "string option"
  sc_features :: countryFeatures
  sc_extraCodes :: "string list"
  sc_gsm :: "storedGsm option"
  sc_umts :: "storedUmts option"
  sc_lte :: "storedLte option"
  sc_nr :: "storedNr option"
  sc_through :: "networkMatch option"

record plmnRow =
  pr_code :: string
  pr_operatorId :: int
  pr_countryCode :: string
  pr_hasAnalyzer :: bool

text \<open>The tables; a link of kind \<open>jv_member\<close> is a pair of an operator and the venture it belongs to.\<close>

record analyzerDb =
  ad_cells :: "storedCell list"
  ad_plmnCodes :: "(string \<times> int) list"
  ad_operatorCountry :: "int \<Rightarrow> string option"
  ad_hasAnalyzer :: "string \<Rightarrow> bool"
  ad_ventureLinks :: "(int \<times> int) list"
  ad_operatorRefs :: "int \<Rightarrow> operatorRef option"

record network =
  nw_operatorId :: int
  nw_partnerIds :: "int list"
  nw_operator :: operatorRef
  nw_countryCode :: string
  nw_code :: string
  nw_hasGuestCells :: bool
  nw_isMatchable :: bool

record matchScope =
  ms_hiddenCountryCodes :: "string list"
  ms_skipsInactive :: bool
  ms_followsAnalyzerSwitch :: bool

definition SYSTEM_SCOPE :: matchScope where
  "SYSTEM_SCOPE = \<lparr>ms_hiddenCountryCodes = [], ms_skipsInactive = False, ms_followsAnalyzerSwitch = False\<rparr>"

definition PAIRS_PER_QUERY :: nat where "PAIRS_PER_QUERY = 200"
definition VALUES_PER_QUERY :: nat where "VALUES_PER_QUERY = 1000"

definition NETWORK_MATCH_RANKS :: "networkMatch \<Rightarrow> nat" where
  "NETWORK_MATCH_RANKS m = (case m of OwnNetwork \<Rightarrow> 0 | ExtraCode \<Rightarrow> 1 | PartnerNetwork \<Rightarrow> 2 | MissingCode \<Rightarrow> 3)"

section \<open>Identities\<close>

text \<open>The key \<open>operator:value:...\<close>; \<open>None\<close> is an absent value, which the source writes as the empty text.\<close>

type_synonym identityKey = "int \<times> int option list"

definition identityKey :: "int \<Rightarrow> int list \<Rightarrow> identityKey" where
  "identityKey operatorId values = (operatorId, map Some values)"

definition equivalentEnbids :: "network \<Rightarrow> nat \<Rightarrow> nat list" where
  "equivalentEnbids net enbid = cv_equivalentEnbids (conventionsFor (Some (nw_countryCode net))) (nw_operator net) enbid"

definition canonicalEnbid :: "network \<Rightarrow> nat \<Rightarrow> nat" where
  "canonicalEnbid net enbid = Min (set (equivalentEnbids net enbid))"

definition knownRnc :: "int option \<Rightarrow> int option" where
  "knownRnc rnc = (if rnc = Some 0 then None else rnc)"

definition operatorGnbidLengthOf :: "network \<Rightarrow> int" where
  "operatorGnbidLengthOf net = cv_gnbidLength (conventionsFor (Some (nw_countryCode net))) (nw_operator net)"

definition nrCellIdentity :: "network \<Rightarrow> observedNr \<Rightarrow> nrSplit option" where
  "nrCellIdentity net cell =
    (case on_nci cell of
       Some nci \<Rightarrow> splitNci nci (operatorGnbidLengthOf net)
     | None \<Rightarrow>
         (case (on_gnbid cell, on_clid cell) of
            (Some gnbid, Some clid) \<Rightarrow>
              (if gnbid = 0 then None else Some \<lparr>nx_gnbid = gnbid, nx_clid = clid, nx_gnbidLength = operatorGnbidLengthOf net\<rparr>)
          | _ \<Rightarrow> None))"

definition lengthOr24 :: "storedNr \<Rightarrow> int" where
  "lengthOr24 nr = (case sn_gnbidLength nr of Some len \<Rightarrow> len | None \<Rightarrow> DEFAULT_GNBID_LENGTH)"

definition storedNrIdentity :: "storedCell \<Rightarrow> nrSplit option" where
  "storedNrIdentity row =
    (case sc_nr row of
       None \<Rightarrow> None
     | Some nr \<Rightarrow>
         (case (sn_gnbid nr, sn_clid nr) of
            (Some gnbid, Some clid) \<Rightarrow>
              (if gnbid = 0 then None else Some \<lparr>nx_gnbid = gnbid, nx_clid = clid, nx_gnbidLength = lengthOr24 nr\<rparr>)
          | _ \<Rightarrow> None))"

section \<open>Lookups\<close>

text \<open>The identifiers to look up, by operator; adding one again leaves it in its place.\<close>

type_synonym 'v identifiers = "(int \<times> 'v list) list"

definition addIdentifier :: "int \<Rightarrow> 'v \<Rightarrow> 'v identifiers \<Rightarrow> 'v identifiers" where
  "addIdentifier operatorId identifier ids =
    (let known = (case map_of ids operatorId of Some vs \<Rightarrow> vs | None \<Rightarrow> [])
     in AList.update operatorId (if identifier \<in> set known then known else known @ [identifier]) ids)"

definition lookupTasks :: "'v identifiers \<Rightarrow> nat \<Rightarrow> (int \<times> 'v list) list" where
  "lookupTasks ids size' = concat (map (\<lambda>(operatorId, vs). map (Pair operatorId) (chunks vs size')) ids)"

definition networkMatchOf :: "storedCell \<Rightarrow> int \<Rightarrow> networkMatch" where
  "networkMatchOf row operatorId =
    (if sc_operatorId row = Some operatorId then OwnNetwork
     else (case sc_through row of Some t \<Rightarrow> t | None \<Rightarrow> PartnerNetwork))"

definition isBetter :: "storedCell \<Rightarrow> storedCell \<Rightarrow> int \<Rightarrow> bool" where
  "isBetter row kept operatorId =
    (let rank = int (NETWORK_MATCH_RANKS (networkMatchOf row operatorId)) - int (NETWORK_MATCH_RANKS (networkMatchOf kept operatorId))
     in if rank = 0 then sc_id row < sc_id kept else rank < 0)"

type_synonym index = "identityKey \<rightharpoonup> storedCell"

definition keep :: "int \<Rightarrow> identityKey \<Rightarrow> storedCell \<Rightarrow> index \<Rightarrow> index" where
  "keep operatorId key row found =
    (case found key of
       None \<Rightarrow> found(key \<mapsto> row)
     | Some kept \<Rightarrow> (if isBetter row kept operatorId then found(key \<mapsto> row) else found))"

text \<open>One task: the rows of its query, each kept under the key it has.\<close>

definition keepRows :: "(storedCell \<Rightarrow> identityKey option) \<Rightarrow> int \<Rightarrow> storedCell list \<Rightarrow> index \<Rightarrow> index" where
  "keepRows keyOf operatorId rows found =
    fold (\<lambda>row found. case keyOf row of None \<Rightarrow> found | Some key \<Rightarrow> keep operatorId key row found) rows found"

definition runLookups :: "(int \<times> 'v list) list \<Rightarrow> (int \<Rightarrow> 'v list \<Rightarrow> storedCell list) \<Rightarrow> (int \<Rightarrow> storedCell \<Rightarrow> identityKey option) \<Rightarrow> index" where
  "runLookups tasks load keyOf = fold (\<lambda>(own, chunk). keepRows (keyOf own) own (load own chunk)) tasks Map.empty"

definition inScope :: "matchScope \<Rightarrow> storedCell \<Rightarrow> bool" where
  "inScope scope row \<longleftrightarrow>
    (ms_skipsInactive scope \<longrightarrow> sc_status row = SitePublished \<or> sc_status row = SitePending) \<and>
    (case sc_countryCode row of None \<Rightarrow> True | Some code \<Rightarrow> code \<notin> set (ms_hiddenCountryCodes scope))"

definition loadOperatorCells :: "analyzerDb \<Rightarrow> matchScope \<Rightarrow> (storedCell \<Rightarrow> bool) \<Rightarrow> int list \<Rightarrow> storedCell list" where
  "loadOperatorCells db scope has operatorIds =
    map (\<lambda>row. row\<lparr>sc_through := None\<rparr>)
      (filter (\<lambda>row. has row \<and> (case sc_operatorId row of Some i \<Rightarrow> i \<in> set operatorIds | None \<Rightarrow> False) \<and> inScope scope row)
        (ad_cells db))"

text \<open>A cell that broadcasts several of the codes comes once for each.\<close>

definition loadGuestCells :: "analyzerDb \<Rightarrow> matchScope \<Rightarrow> (storedCell \<Rightarrow> bool) \<Rightarrow> string list \<Rightarrow> storedCell list" where
  "loadGuestCells db scope has codes =
    concat (map (\<lambda>row. replicate (length (filter (\<lambda>c. c \<in> set codes) (sc_extraCodes row))) (row\<lparr>sc_through := Some ExtraCode\<rparr>))
      (filter (\<lambda>row. has row \<and> inScope scope row) (ad_cells db)))"

definition loadCountryCells :: "analyzerDb \<Rightarrow> matchScope \<Rightarrow> (storedCell \<Rightarrow> bool) \<Rightarrow> string \<Rightarrow> storedCell list" where
  "loadCountryCells db scope has countryCode =
    map (\<lambda>row. row\<lparr>sc_through := Some MissingCode\<rparr>)
      (filter (\<lambda>row. has row \<and> sc_countryCode row = Some countryCode \<and> inScope scope row) (ad_cells db))"

section \<open>Networks\<close>

definition loadPartners :: "analyzerDb \<Rightarrow> int list \<Rightarrow> int \<Rightarrow> int list" where
  "loadPartners db operatorIds operatorId =
    (let ventures = map snd (filter (\<lambda>(member, _). member \<in> set operatorIds) (ad_ventureLinks db));
         members = filter (\<lambda>(_, venture). venture \<in> set ventures) (ad_ventureLinks db);
         ventureIds = map snd (filter (\<lambda>(member, _). member = operatorId) members)
     in uniq (map fst (filter (\<lambda>(member, venture). member \<noteq> operatorId \<and> venture \<in> set ventureIds) members)))"

definition isBroadcast :: "analyzerDb \<Rightarrow> string \<Rightarrow> bool" where
  "isBroadcast db code \<longleftrightarrow> list_ex (\<lambda>row. code \<in> set (sc_extraCodes row)) (ad_cells db)"

text \<open>The codes joined with their operator and its country.\<close>

definition plmnRows :: "analyzerDb \<Rightarrow> plmnRow list" where
  "plmnRows db =
    List.map_filter (\<lambda>(code, operatorId).
      map_option (\<lambda>country. \<lparr>pr_code = code, pr_operatorId = operatorId, pr_countryCode = country, pr_hasAnalyzer = ad_hasAnalyzer db country\<rparr>)
        (ad_operatorCountry db operatorId)) (ad_plmnCodes db)"

definition visiblePlmns :: "analyzerDb \<Rightarrow> matchScope \<Rightarrow> string list \<Rightarrow> plmnRow list" where
  "visiblePlmns db scope plmnCodes =
    filter (\<lambda>row. pr_code row \<in> set (concat (map plmnCandidates plmnCodes)) \<and> pr_countryCode row \<notin> set (ms_hiddenCountryCodes scope))
      (plmnRows db)"

text \<open>The row of a code; codes are unique in the table.\<close>

definition plmnRowOf :: "plmnRow list \<Rightarrow> string \<Rightarrow> plmnRow option" where
  "plmnRowOf visible plmn =
    (case List.map_filter (\<lambda>code. List.find (\<lambda>row. pr_code row = code) visible) (plmnCandidates plmn) of
       [] \<Rightarrow> None
     | row # _ \<Rightarrow> Some row)"

definition networkOf :: "analyzerDb \<Rightarrow> matchScope \<Rightarrow> plmnRow list \<Rightarrow> string \<Rightarrow> network option" where
  "networkOf db scope visible plmn =
    (case plmnRowOf visible plmn of
       None \<Rightarrow> None
     | Some row \<Rightarrow>
         (case ad_operatorRefs db (pr_operatorId row) of
            None \<Rightarrow> None
          | Some operator \<Rightarrow>
              Some \<lparr>nw_operatorId = pr_operatorId row,
                nw_partnerIds = loadPartners db (uniq (map pr_operatorId visible)) (pr_operatorId row),
                nw_operator = operator, nw_countryCode = pr_countryCode row, nw_code = pr_code row,
                nw_hasGuestCells = isBroadcast db (pr_code row),
                nw_isMatchable = (\<not> ms_followsAnalyzerSwitch scope \<or> pr_hasAnalyzer row)\<rparr>))"

type_synonym networks = "(string \<times> network) list"

definition resolveNetworks :: "analyzerDb \<Rightarrow> matchScope \<Rightarrow> string list \<Rightarrow> networks" where
  "resolveNetworks db scope plmnCodes =
    List.map_filter (\<lambda>plmn. map_option (Pair plmn) (networkOf db scope (visiblePlmns db scope plmnCodes) plmn)) plmnCodes"

definition networkById :: "networks \<Rightarrow> int \<Rightarrow> network option" where
  "networkById networks operatorId = List.find (\<lambda>net. nw_operatorId net = operatorId) (rev (map snd networks))"

definition sharedBy :: "networks \<Rightarrow> int \<Rightarrow> int list" where
  "sharedBy networks operatorId =
    operatorId # (case networkById networks operatorId of Some net \<Rightarrow> nw_partnerIds net | None \<Rightarrow> [])"

definition codesOf :: "networks \<Rightarrow> int \<Rightarrow> string list" where
  "codesOf networks operatorId =
    uniq (map nw_code (filter (\<lambda>net. nw_operatorId net = operatorId \<and> nw_hasGuestCells net) (map snd networks)))"

definition loadCandidates :: "analyzerDb \<Rightarrow> matchScope \<Rightarrow> networks \<Rightarrow> (storedCell \<Rightarrow> bool) \<Rightarrow> int \<Rightarrow> int list \<Rightarrow> storedCell list" where
  "loadCandidates db scope networks has operatorId operatorIds =
    loadOperatorCells db scope has operatorIds @ loadGuestCells db scope has (codesOf networks operatorId)"

section \<open>The lookups of a batch\<close>

text \<open>The index of a batch: for each kind of lookup the best row under each key.\<close>

record storedCellIndex =
  sx_gsm :: index
  sx_umtsByRnc :: index
  sx_umtsByLac :: index
  sx_lte :: index
  sx_lteStations :: index
  sx_nr :: index
  sx_nrByNci :: index
  sx_nrStations :: index
  sx_umtsMissing :: index
  sx_lteMissing :: index
  sx_nrMissing :: index

type_synonym channelIdentifiers = "int \<times> int \<times> int \<times> int"

text \<open>The identifiers of the cells whose network is known, in the order of the batch.\<close>

definition collectIdentifiers :: "networks \<Rightarrow> (network \<Rightarrow> observedRadio \<Rightarrow> 'v list) \<Rightarrow> observedCell list \<Rightarrow> 'v identifiers" where
  "collectIdentifiers networks identifiersOf observed =
    fold (\<lambda>cell ids. case map_of networks (ob_plmn cell) of
        None \<Rightarrow> ids
      | Some net \<Rightarrow> fold (addIdentifier (nw_operatorId net)) (identifiersOf net (ob_radio cell)) ids) observed []"

definition gsmPairOf :: "network \<Rightarrow> observedRadio \<Rightarrow> (int \<times> int) list" where
  "gsmPairOf net radio = (case radio of ObservedGsm c \<Rightarrow> [(og_lac c, og_cid c)] | _ \<Rightarrow> [])"

definition umtsRncPairOf :: "network \<Rightarrow> observedRadio \<Rightarrow> (int \<times> int) list" where
  "umtsRncPairOf net radio =
    (case radio of
       ObservedUmts c \<Rightarrow> (case knownRnc (ou_rnc c) of Some rnc \<Rightarrow> [(rnc, ou_cid c)] | None \<Rightarrow> [])
     | _ \<Rightarrow> [])"

definition ltePairOf :: "network \<Rightarrow> observedRadio \<Rightarrow> (int \<times> int) list" where
  "ltePairOf net radio =
    (case radio of ObservedLte c \<Rightarrow> (if 0 < ol_enbid c then [(int (ol_enbid c), ol_clid c)] else []) | _ \<Rightarrow> [])"

definition gnbidOf :: "network \<Rightarrow> observedRadio \<Rightarrow> int list" where
  "gnbidOf net radio =
    (case radio of
       ObservedNr c \<Rightarrow> (case nrCellIdentity net c of Some identity \<Rightarrow> [nx_gnbid identity] | None \<Rightarrow> [])
     | _ \<Rightarrow> [])"

definition nciOf :: "network \<Rightarrow> observedRadio \<Rightarrow> int list" where
  "nciOf net radio = (case radio of ObservedNr c \<Rightarrow> (case on_nci c of Some nci \<Rightarrow> [nci] | None \<Rightarrow> []) | _ \<Rightarrow> [])"

definition umtsLacPairOf :: "index \<Rightarrow> network \<Rightarrow> observedRadio \<Rightarrow> (int \<times> int) list" where
  "umtsLacPairOf byRnc net radio =
    (case radio of
       ObservedUmts c \<Rightarrow>
         (let isFound = (case knownRnc (ou_rnc c) of
              Some rnc \<Rightarrow> byRnc (identityKey (nw_operatorId net) [rnc, ou_cid c]) \<noteq> None | None \<Rightarrow> False)
          in if isFound then [] else [(ou_lac c, ou_cid c)])
     | _ \<Rightarrow> [])"

definition enbidsOf :: "index \<Rightarrow> network \<Rightarrow> observedRadio \<Rightarrow> nat list" where
  "enbidsOf lte net radio =
    (case radio of
       ObservedLte c \<Rightarrow>
         (if 0 < ol_enbid c \<and> lte (identityKey (nw_operatorId net) [int (ol_enbid c), ol_clid c]) = None
          then equivalentEnbids net (ol_enbid c) else [])
     | _ \<Rightarrow> [])"

text \<open>The rows that carry an identifier, and the key a row is kept under; absent values compare as false in a query.\<close>

definition hasGsmPair :: "(int \<times> int) list \<Rightarrow> storedCell \<Rightarrow> bool" where
  "hasGsmPair chunk row = (case sc_gsm row of Some c \<Rightarrow> (sg_lac c, sg_cid c) \<in> set chunk | None \<Rightarrow> False)"

definition hasUmtsRncPair :: "(int \<times> int) list \<Rightarrow> storedCell \<Rightarrow> bool" where
  "hasUmtsRncPair chunk row = (case sc_umts row of Some c \<Rightarrow> (su_rnc c, su_cid c) \<in> set chunk | None \<Rightarrow> False)"

definition hasUmtsLacPair :: "(int \<times> int) list \<Rightarrow> storedCell \<Rightarrow> bool" where
  "hasUmtsLacPair chunk row =
    (case sc_umts row of
       Some c \<Rightarrow> (case su_lac c of Some lac \<Rightarrow> (lac, su_cid c) \<in> set chunk | None \<Rightarrow> False) | None \<Rightarrow> False)"

definition hasLtePair :: "(int \<times> int) list \<Rightarrow> storedCell \<Rightarrow> bool" where
  "hasLtePair chunk row = (case sc_lte row of Some c \<Rightarrow> (int (sl_enbid c), sl_clid c) \<in> set chunk | None \<Rightarrow> False)"

definition hasEnbid :: "nat list \<Rightarrow> storedCell \<Rightarrow> bool" where
  "hasEnbid chunk row = (case sc_lte row of Some c \<Rightarrow> sl_enbid c \<in> set chunk | None \<Rightarrow> False)"

definition hasGnbid :: "int list \<Rightarrow> storedCell \<Rightarrow> bool" where
  "hasGnbid chunk row =
    (case sc_nr row of Some c \<Rightarrow> (case sn_gnbid c of Some gnbid \<Rightarrow> gnbid \<in> set chunk | None \<Rightarrow> False) | None \<Rightarrow> False)"

definition hasNci :: "int list \<Rightarrow> storedCell \<Rightarrow> bool" where
  "hasNci chunk row =
    (case sc_nr row of Some c \<Rightarrow> (case sn_nci c of Some nci \<Rightarrow> nci \<in> set chunk | None \<Rightarrow> False) | None \<Rightarrow> False)"

definition gsmKey :: "int \<Rightarrow> storedCell \<Rightarrow> identityKey option" where
  "gsmKey own row = map_option (\<lambda>c. identityKey own [sg_lac c, sg_cid c]) (sc_gsm row)"

definition umtsRncKey :: "int \<Rightarrow> storedCell \<Rightarrow> identityKey option" where
  "umtsRncKey own row = map_option (\<lambda>c. identityKey own [su_rnc c, su_cid c]) (sc_umts row)"

definition umtsLacKey :: "int \<Rightarrow> storedCell \<Rightarrow> identityKey option" where
  "umtsLacKey own row =
    Option.bind (sc_umts row) (\<lambda>c. map_option (\<lambda>lac. identityKey own [lac, su_cid c]) (su_lac c))"

definition lteKey :: "int \<Rightarrow> storedCell \<Rightarrow> identityKey option" where
  "lteKey own row = map_option (\<lambda>c. identityKey own [int (sl_enbid c), sl_clid c]) (sc_lte row)"

definition lteStationKey :: "networks \<Rightarrow> int \<Rightarrow> storedCell \<Rightarrow> identityKey option" where
  "lteStationKey networks own row =
    Option.bind (networkById networks own)
      (\<lambda>net. map_option (\<lambda>c. identityKey own [int (canonicalEnbid net (sl_enbid c))]) (sc_lte row))"

definition nrStationKey :: "int \<Rightarrow> storedCell \<Rightarrow> identityKey option" where
  "nrStationKey own row = Option.bind (sc_nr row) (\<lambda>c. map_option (\<lambda>gnbid. identityKey own [gnbid]) (sn_gnbid c))"

definition nrKey :: "int \<Rightarrow> storedCell \<Rightarrow> identityKey option" where
  "nrKey own row =
    Option.bind (sc_nr row) (\<lambda>c. Option.bind (sn_gnbid c) (\<lambda>gnbid. map_option (\<lambda>clid. identityKey own [gnbid, clid]) (sn_clid c)))"

definition nciKey :: "int \<Rightarrow> storedCell \<Rightarrow> identityKey option" where
  "nciKey own row =
    (if storedNrIdentity row = None then None
     else Option.bind (sc_nr row) (\<lambda>c. map_option (\<lambda>nci. identityKey own [nci]) (sn_nci c)))"

text \<open>A cell whose network code is missing: its identifiers with its channel.\<close>

definition hasUmtsChannel :: "channelIdentifiers list \<Rightarrow> storedCell \<Rightarrow> bool" where
  "hasUmtsChannel chunk row =
    (case sc_umts row of
       Some c \<Rightarrow> (case (su_psc c, su_arfcn c) of
           (Some psc, Some arfcn) \<Rightarrow> (su_rnc c, su_cid c, psc, arfcn) \<in> set chunk | _ \<Rightarrow> False)
     | None \<Rightarrow> False)"

definition hasLteChannel :: "channelIdentifiers list \<Rightarrow> storedCell \<Rightarrow> bool" where
  "hasLteChannel chunk row =
    (case sc_lte row of
       Some c \<Rightarrow> (case (sl_pci c, sl_earfcn c) of
           (Some pci, Some earfcn) \<Rightarrow> (int (sl_enbid c), sl_clid c, pci, earfcn) \<in> set chunk | _ \<Rightarrow> False)
     | None \<Rightarrow> False)"

definition hasNrChannel :: "channelIdentifiers list \<Rightarrow> storedCell \<Rightarrow> bool" where
  "hasNrChannel chunk row =
    (case sc_nr row of
       Some c \<Rightarrow> (case (sn_gnbid c, sn_clid c, sn_pci c, sn_arfcn c) of
           (Some gnbid, Some clid, Some pci, Some arfcn) \<Rightarrow> (gnbid, clid, pci, arfcn) \<in> set chunk | _ \<Rightarrow> False)
     | None \<Rightarrow> False)"

definition umtsMissingKey :: "int \<Rightarrow> storedCell \<Rightarrow> identityKey option" where
  "umtsMissingKey own row = map_option (\<lambda>c. (own, [Some (su_rnc c), Some (su_cid c), su_psc c, su_arfcn c])) (sc_umts row)"

definition lteMissingKey :: "int \<Rightarrow> storedCell \<Rightarrow> identityKey option" where
  "lteMissingKey own row =
    map_option (\<lambda>c. (own, [Some (int (sl_enbid c)), Some (sl_clid c), sl_pci c, sl_earfcn c])) (sc_lte row)"

definition nrMissingKey :: "int \<Rightarrow> storedCell \<Rightarrow> identityKey option" where
  "nrMissingKey own row = map_option (\<lambda>c. (own, [sn_gnbid c, sn_clid c, sn_pci c, sn_arfcn c])) (sc_nr row)"

end
