(* ===== verification/AnalyzerMatch.thy ===== *)
theory AnalyzerMatch
  imports Analyzer
begin

text \<open>
  The second half of features/analyzer/match.ts: the two rounds of lookups of a batch, the cells that miss
  their network code, the resolution of one observed cell against the index, and the answers of the module.
\<close>

section \<open>The stored cells of a batch\<close>

text \<open>One kind of lookup: the rows of \<open>load\<close> that carry an identifier of the chunk, under their keys.\<close>

definition lookupIndex ::
  "'v identifiers \<Rightarrow> nat \<Rightarrow> (int \<Rightarrow> (storedCell \<Rightarrow> bool) \<Rightarrow> storedCell list) \<Rightarrow> ('v list \<Rightarrow> storedCell \<Rightarrow> bool) \<Rightarrow>
   (int \<Rightarrow> storedCell \<Rightarrow> identityKey option) \<Rightarrow> index" where
  "lookupIndex ids size' load has keyOf = runLookups (lookupTasks ids size') (\<lambda>own chunk. load own (has chunk)) keyOf"

definition loadOwn :: "analyzerDb \<Rightarrow> matchScope \<Rightarrow> int \<Rightarrow> (storedCell \<Rightarrow> bool) \<Rightarrow> storedCell list" where
  "loadOwn db scope own has = loadOperatorCells db scope has [own]"

definition loadOwnAndGuests :: "analyzerDb \<Rightarrow> matchScope \<Rightarrow> networks \<Rightarrow> int \<Rightarrow> (storedCell \<Rightarrow> bool) \<Rightarrow> storedCell list" where
  "loadOwnAndGuests db scope networks own has = loadCandidates db scope networks has own [own]"

definition loadShared :: "analyzerDb \<Rightarrow> matchScope \<Rightarrow> networks \<Rightarrow> int \<Rightarrow> (storedCell \<Rightarrow> bool) \<Rightarrow> storedCell list" where
  "loadShared db scope networks own has = loadCandidates db scope networks has own (sharedBy networks own)"

definition loadMissing :: "analyzerDb \<Rightarrow> matchScope \<Rightarrow> networks \<Rightarrow> int \<Rightarrow> (storedCell \<Rightarrow> bool) \<Rightarrow> storedCell list" where
  "loadMissing db scope networks own has =
    (case networkById networks own of None \<Rightarrow> [] | Some net \<Rightarrow> loadCountryCells db scope has (nw_countryCode net))"

definition umtsChannelsOf :: "index \<Rightarrow> index \<Rightarrow> network \<Rightarrow> observedRadio \<Rightarrow> channelIdentifiers list" where
  "umtsChannelsOf byRnc byLac net radio =
    (case radio of
       ObservedUmts c \<Rightarrow>
         (case (knownRnc (ou_rnc c), ou_psc c, ou_uarfcn c) of
            (Some rnc, Some psc, Some uarfcn) \<Rightarrow>
              (if hasCellNetworks (nw_countryCode net) \<and>
                  \<not> (byRnc (identityKey (nw_operatorId net) [rnc, ou_cid c]) \<noteq> None \<or>
                     byLac (identityKey (nw_operatorId net) [ou_lac c, ou_cid c]) \<noteq> None)
               then [(rnc, ou_cid c, psc, uarfcn)] else [])
          | _ \<Rightarrow> [])
     | _ \<Rightarrow> [])"

definition lteChannelsOf :: "index \<Rightarrow> index \<Rightarrow> network \<Rightarrow> observedRadio \<Rightarrow> channelIdentifiers list" where
  "lteChannelsOf lte lteStations net radio =
    (case radio of
       ObservedLte c \<Rightarrow>
         (case (ol_pci c, ol_earfcn c) of
            (Some pci, Some earfcn) \<Rightarrow>
              (if hasCellNetworks (nw_countryCode net) \<and> 0 < ol_enbid c \<and>
                  \<not> (lte (identityKey (nw_operatorId net) [int (ol_enbid c), ol_clid c]) \<noteq> None \<or>
                     lteStations (identityKey (nw_operatorId net) [int (canonicalEnbid net (ol_enbid c))]) \<noteq> None)
               then [(int (ol_enbid c), ol_clid c, pci, earfcn)] else [])
          | _ \<Rightarrow> [])
     | _ \<Rightarrow> [])"

definition nrChannelsOf :: "index \<Rightarrow> index \<Rightarrow> index \<Rightarrow> network \<Rightarrow> observedRadio \<Rightarrow> channelIdentifiers list" where
  "nrChannelsOf nrByNci nr nrStations net radio =
    (case radio of
       ObservedNr c \<Rightarrow>
         (case (nrCellIdentity net c, on_pci c, on_arfcn c) of
            (Some identity, Some pci, Some arfcn) \<Rightarrow>
              (let own = nw_operatorId net;
                   isFound =
                     (case on_nci c of Some nci \<Rightarrow> nrByNci (identityKey own [nci]) \<noteq> None | None \<Rightarrow> False) \<or>
                     nr (identityKey own [nx_gnbid identity, nx_clid identity]) \<noteq> None \<or>
                     nrStations (identityKey own [nx_gnbid identity]) \<noteq> None
               in if hasCellNetworks (nw_countryCode net) \<and> \<not> isFound
                  then [(nx_gnbid identity, nx_clid identity, pci, arfcn)] else [])
          | _ \<Rightarrow> [])
     | _ \<Rightarrow> [])"

definition findStoredCells :: "analyzerDb \<Rightarrow> matchScope \<Rightarrow> networks \<Rightarrow> observedCell list \<Rightarrow> storedCellIndex" where
  "findStoredCells db scope networks observed =
    (let gsm = lookupIndex (collectIdentifiers networks gsmPairOf observed) PAIRS_PER_QUERY (loadOwn db scope) hasGsmPair gsmKey;
         byRnc = lookupIndex (collectIdentifiers networks umtsRncPairOf observed) PAIRS_PER_QUERY
           (loadOwnAndGuests db scope networks) hasUmtsRncPair umtsRncKey;
         lte = lookupIndex (collectIdentifiers networks ltePairOf observed) PAIRS_PER_QUERY
           (loadShared db scope networks) hasLtePair lteKey;
         gnbids = collectIdentifiers networks gnbidOf observed;
         nrStations = lookupIndex gnbids VALUES_PER_QUERY (loadShared db scope networks) hasGnbid nrStationKey;
         nr = lookupIndex gnbids VALUES_PER_QUERY (loadShared db scope networks) hasGnbid nrKey;
         nrByNci = lookupIndex (collectIdentifiers networks nciOf observed) VALUES_PER_QUERY
           (loadShared db scope networks) hasNci nciKey;
         byLac = lookupIndex (collectIdentifiers networks (umtsLacPairOf byRnc) observed) PAIRS_PER_QUERY
           (loadOwnAndGuests db scope networks) hasUmtsLacPair umtsLacKey;
         lteStations = lookupIndex (collectIdentifiers networks (enbidsOf lte) observed) VALUES_PER_QUERY
           (loadShared db scope networks) hasEnbid (lteStationKey networks)
     in \<lparr>sx_gsm = gsm, sx_umtsByRnc = byRnc, sx_umtsByLac = byLac, sx_lte = lte, sx_lteStations = lteStations,
         sx_nr = nr, sx_nrByNci = nrByNci, sx_nrStations = nrStations,
         sx_umtsMissing = lookupIndex (collectIdentifiers networks (umtsChannelsOf byRnc byLac) observed) PAIRS_PER_QUERY
           (loadMissing db scope networks) hasUmtsChannel umtsMissingKey,
         sx_lteMissing = lookupIndex (collectIdentifiers networks (lteChannelsOf lte lteStations) observed) PAIRS_PER_QUERY
           (loadMissing db scope networks) hasLteChannel lteMissingKey,
         sx_nrMissing = lookupIndex (collectIdentifiers networks (nrChannelsOf nrByNci nr nrStations) observed) PAIRS_PER_QUERY
           (loadMissing db scope networks) hasNrChannel nrMissingKey\<rparr>)"

section \<open>The answer for one cell\<close>

datatype differenceField =
  LacDiffers | RncDiffers | UarfcnDiffers | TacDiffers | PciDiffers | EarfcnDiffers | PscDiffers | BsicDiffers
  | GnbidDiffers | ClidDiffers | GnbidLengthDiffers | ArfcnDiffers

datatype cellDifference = NumberDifference differenceField int "int option" | NetworkDifference string

datatype cellMatch = MatchedCell | MatchedByLac | MatchedStation | MatchedNone

datatype matchReason = CellUnknown | OperatorUnknown | NoIdentifiers | AnalyzerDisabled

record cellMatchResult =
  mr_operatorId :: "int option"
  mr_match :: cellMatch
  mr_reason :: "matchReason option"
  mr_stationId :: "int option"
  mr_cellId :: "int option"
  mr_isShared :: bool
  mr_networkMatch :: "networkMatch option"
  mr_differences :: "cellDifference list"
  mr_nrIdentity :: "nrSplit option"

type_synonym observedCellMatch = "cellMatchResult \<times> storedCell option"

definition SHARED_AREA_FIELDS :: "differenceField set" where
  "SHARED_AREA_FIELDS = {TacDiffers, LacDiffers}"

definition isSharedArea :: "cellDifference \<Rightarrow> bool" where
  "isSharedArea d = (case d of NumberDifference field _ _ \<Rightarrow> field \<in> SHARED_AREA_FIELDS | NetworkDifference _ \<Rightarrow> False)"

definition unmatched :: "int option \<Rightarrow> matchReason \<Rightarrow> nrSplit option \<Rightarrow> observedCellMatch" where
  "unmatched operatorId reason identity =
    (\<lparr>mr_operatorId = operatorId, mr_match = MatchedNone, mr_reason = Some reason, mr_stationId = None, mr_cellId = None,
      mr_isShared = False, mr_networkMatch = None, mr_differences = [], mr_nrIdentity = identity\<rparr>, None)"

definition matchedAs :: "cellMatch \<Rightarrow> network \<Rightarrow> storedCell \<Rightarrow> cellDifference list \<Rightarrow> nrSplit option \<Rightarrow> observedCellMatch" where
  "matchedAs how net row differences identity =
    (let through = networkMatchOf row (nw_operatorId net) in
     (\<lparr>mr_operatorId = Some (nw_operatorId net), mr_match = how, mr_reason = None, mr_stationId = Some (sc_stationId row),
       mr_cellId = (if how = MatchedStation then None else Some (sc_id row)), mr_isShared = (through = PartnerNetwork),
       mr_networkMatch = Some through,
       mr_differences = (if through = ExtraCode then filter (\<lambda>d. \<not> isSharedArea d) differences else differences),
       mr_nrIdentity = identity\<rparr>, Some row))"

definition matchedMissingCode :: "network \<Rightarrow> storedCell \<Rightarrow> nrSplit option \<Rightarrow> observedCellMatch" where
  "matchedMissingCode net row identity = matchedAs MatchedCell net row [NetworkDifference (nw_code net)] identity"

definition isSwitchedOff :: "differenceField \<Rightarrow> countryFeatures \<Rightarrow> bool" where
  "isSwitchedOff field features \<longleftrightarrow> field = PscDiffers \<and> \<not> cf_psc features \<or> field = BsicDiffers \<and> \<not> cf_bsic features"

fun findDifferences :: "(differenceField \<times> int option \<times> int option) list \<Rightarrow> countryFeatures \<Rightarrow> cellDifference list" where
  "findDifferences [] features = []"
| "findDifferences ((field, seen, stored) # rest) features =
    (case seen of
       None \<Rightarrow> []
     | Some value \<Rightarrow> (if seen = stored \<or> isSwitchedOff field features then [] else [NumberDifference field value stored])) @
    findDifferences rest features"

definition resolveGsm :: "network \<Rightarrow> storedCellIndex \<Rightarrow> observedGsm \<Rightarrow> observedCellMatch" where
  "resolveGsm net found c =
    (let own = nw_operatorId net in
     case sx_gsm found (identityKey own [og_lac c, og_cid c]) of
       None \<Rightarrow> unmatched (Some own) CellUnknown None
     | Some row \<Rightarrow>
         (case sc_gsm row of
            None \<Rightarrow> unmatched (Some own) CellUnknown None
          | Some stored \<Rightarrow>
              matchedAs MatchedCell net row (findDifferences [(BsicDiffers, og_bsic c, sg_bsic stored)] (sc_features row)) None))"

definition umtsOf :: "storedCell option \<Rightarrow> (storedCell \<times> storedUmts) option" where
  "umtsOf found = Option.bind found (\<lambda>row. map_option (Pair row) (sc_umts row))"

definition lteOf :: "storedCell option \<Rightarrow> (storedCell \<times> storedLte) option" where
  "lteOf found = Option.bind found (\<lambda>row. map_option (Pair row) (sc_lte row))"

definition nrOf :: "storedCell option \<Rightarrow> (storedCell \<times> storedNr) option" where
  "nrOf found = Option.bind found (\<lambda>row. map_option (Pair row) (sc_nr row))"

definition resolveUmts :: "network \<Rightarrow> storedCellIndex \<Rightarrow> observedUmts \<Rightarrow> observedCellMatch" where
  "resolveUmts net found c =
    (let own = nw_operatorId net; rnc = knownRnc (ou_rnc c) in
     case umtsOf (Option.bind rnc (\<lambda>r. sx_umtsByRnc found (identityKey own [r, ou_cid c]))) of
       Some (row, stored) \<Rightarrow>
         matchedAs MatchedCell net row
           (findDifferences [(LacDiffers, Some (ou_lac c), su_lac stored), (PscDiffers, ou_psc c, su_psc stored),
              (UarfcnDiffers, ou_uarfcn c, su_arfcn stored)] (sc_features row)) None
     | None \<Rightarrow>
         (case umtsOf (sx_umtsByLac found (identityKey own [ou_lac c, ou_cid c])) of
            Some (row, stored) \<Rightarrow>
              matchedAs MatchedByLac net row
                (findDifferences [(RncDiffers, rnc, knownRnc (Some (su_rnc stored))), (PscDiffers, ou_psc c, su_psc stored),
                   (UarfcnDiffers, ou_uarfcn c, su_arfcn stored)] (sc_features row)) None
          | None \<Rightarrow>
              (case sx_umtsMissing found (own, [rnc, Some (ou_cid c), ou_psc c, ou_uarfcn c]) of
                 Some row \<Rightarrow> matchedMissingCode net row None
               | None \<Rightarrow> unmatched (Some own) CellUnknown None)))"

definition resolveLte :: "network \<Rightarrow> storedCellIndex \<Rightarrow> observedLte \<Rightarrow> observedCellMatch" where
  "resolveLte net found c =
    (let own = nw_operatorId net in
     if ol_enbid c = 0 then unmatched (Some own) NoIdentifiers None
     else
       (case lteOf (sx_lte found (identityKey own [int (ol_enbid c), ol_clid c])) of
          Some (row, stored) \<Rightarrow>
            matchedAs MatchedCell net row
              (findDifferences [(TacDiffers, ol_tac c, sl_tac stored), (PciDiffers, ol_pci c, sl_pci stored),
                 (EarfcnDiffers, ol_earfcn c, sl_earfcn stored)] (sc_features row)) None
        | None \<Rightarrow>
            (case sx_lteStations found (identityKey own [int (canonicalEnbid net (ol_enbid c))]) of
               Some row \<Rightarrow> matchedAs MatchedStation net row [] None
             | None \<Rightarrow>
                 (case sx_lteMissing found (own, [Some (int (ol_enbid c)), Some (ol_clid c), ol_pci c, ol_earfcn c]) of
                    Some row \<Rightarrow> matchedMissingCode net row None
                  | None \<Rightarrow> unmatched (Some own) CellUnknown None))))"

definition resolveNr :: "network \<Rightarrow> storedCellIndex \<Rightarrow> observedNr \<Rightarrow> observedCellMatch" where
  "resolveNr net found c =
    (let own = nw_operatorId net;
         split = nrCellIdentity net c;
         byNci = Option.bind (on_nci c) (\<lambda>nci. sx_nrByNci found (identityKey own [nci]));
         exact = (case byNci of
             Some row \<Rightarrow> Some row
           | None \<Rightarrow> Option.bind split (\<lambda>s. sx_nr found (identityKey own [nx_gnbid s, nx_clid s])));
         hasKnownGnbidLength = operatorGnbidLengthOf net \<noteq> DEFAULT_GNBID_LENGTH;
         identity = (case exact of Some row \<Rightarrow> (if hasKnownGnbidLength then split else storedNrIdentity row) | None \<Rightarrow> split)
     in case identity of
          None \<Rightarrow> unmatched (Some own) NoIdentifiers None
        | Some s \<Rightarrow>
            (case nrOf exact of
               Some (row, stored) \<Rightarrow>
                 matchedAs MatchedCell net row
                   (findDifferences [(GnbidDiffers, Some (nx_gnbid s), sn_gnbid stored), (ClidDiffers, Some (nx_clid s), sn_clid stored),
                      (GnbidLengthDiffers, Some (nx_gnbidLength s), Some (lengthOr24 stored)), (TacDiffers, on_tac c, sn_nrtac stored),
                      (PciDiffers, on_pci c, sn_pci stored), (ArfcnDiffers, on_arfcn c, sn_arfcn stored)] (sc_features row)) (Some s)
             | None \<Rightarrow>
                 (case sx_nrStations found (identityKey own [nx_gnbid s]) of
                    Some row \<Rightarrow> matchedAs MatchedStation net row [] (Some s)
                  | None \<Rightarrow>
                      (case sx_nrMissing found (own, [Some (nx_gnbid s), Some (nx_clid s), on_pci c, on_arfcn c]) of
                         Some row \<Rightarrow> matchedMissingCode net row (Some s)
                       | None \<Rightarrow> unmatched (Some own) CellUnknown (Some s)))))"

definition resolveCell :: "network option \<Rightarrow> storedCellIndex \<Rightarrow> observedRadio \<Rightarrow> observedCellMatch" where
  "resolveCell network found radio =
    (case network of
       None \<Rightarrow> unmatched None OperatorUnknown None
     | Some net \<Rightarrow>
         (if \<not> nw_isMatchable net then unmatched None AnalyzerDisabled None
          else (case radio of
              ObservedGsm c \<Rightarrow> resolveGsm net found c
            | ObservedUmts c \<Rightarrow> resolveUmts net found c
            | ObservedLte c \<Rightarrow> resolveLte net found c
            | ObservedNr c \<Rightarrow> resolveNr net found c)))"

section \<open>A batch\<close>

definition matchInScope :: "analyzerDb \<Rightarrow> matchScope \<Rightarrow> observedCell list \<Rightarrow> networks \<times> observedCellMatch list" where
  "matchInScope db scope observed =
    (let networks = resolveNetworks db scope (uniq (map ob_plmn observed));
         found = findStoredCells db scope (filter (\<lambda>(_, net). nw_isMatchable net) networks) observed
     in (networks, map (\<lambda>cell. resolveCell (map_of networks (ob_plmn cell)) found (ob_radio cell)) observed))"

text \<open>The scope of a reader: countries hidden from them are left out, inactive sites too, and the country's switch counts.\<close>

definition readerScope :: "string list \<Rightarrow> matchScope" where
  "readerScope hidden = \<lparr>ms_hiddenCountryCodes = hidden, ms_skipsInactive = True, ms_followsAnalyzerSwitch = True\<rparr>"

definition matchCells :: "analyzerDb \<Rightarrow> string list \<Rightarrow> observedCell list \<Rightarrow> cellMatchResult list" where
  "matchCells db hidden observed = map fst (snd (matchInScope db (readerScope hidden) observed))"

definition countryCodeByMcc :: "string \<Rightarrow> string option" where
  "countryCodeByMcc mcc = (if mcc = ''260'' then Some ''PL'' else if mcc \<in> {''234'', ''235''} then Some ''GB'' else None)"

definition knownGnbidLength :: "string \<Rightarrow> string \<Rightarrow> int option" where
  "knownGnbidLength mcc mnc =
    (let operator = \<lparr>op_id = 0, op_primaryPlmn = Some (mcc @ replicate (2 - length mnc) (CHR ''0'') @ mnc), op_sharedNetworkPlmns = []\<rparr>;
         len = cv_gnbidLength (conventionsFor (countryCodeByMcc mcc)) operator
     in if len = DEFAULT_GNBID_LENGTH then None else Some len)"

definition findGnbidLengths :: "analyzerDb \<Rightarrow> string list \<Rightarrow> (string \<times> int) list" where
  "findGnbidLengths db plmnCodes =
    (let networks = resolveNetworks db SYSTEM_SCOPE plmnCodes in
     map (\<lambda>plmn. (plmn,
       case map_of networks plmn of
         Some net \<Rightarrow> operatorGnbidLengthOf net
       | None \<Rightarrow> (case knownGnbidLength (take 3 plmn) (drop 3 plmn) of Some len \<Rightarrow> len | None \<Rightarrow> DEFAULT_GNBID_LENGTH))) plmnCodes)"

definition findNetworkOperators :: "analyzerDb \<Rightarrow> string list \<Rightarrow> (string \<times> int list) list" where
  "findNetworkOperators db plmnCodes =
    map (\<lambda>(plmn, net). (plmn, nw_operatorId net # nw_partnerIds net)) (resolveNetworks db SYSTEM_SCOPE plmnCodes)"

section \<open>Official sites\<close>

text \<open>
  officialSites.ts. The finder of a source and the query for the sites a reader may see are data: a source has
  the country it covers and, when it can search by cell, a function from cells to site ids.
\<close>

record unmatchedCell =
  uc_countryCode :: string
  uc_operator :: operatorRef
  uc_operatorIds :: "int list"
  uc_enbid :: nat

record officialSource =
  os_countryCode :: string
  os_find :: "(unmatchedCell list \<Rightarrow> int list list) option"

definition OFFICIAL_SITES_PER_CELL :: nat where "OFFICIAL_SITES_PER_CELL = 5"

definition unmatchedCellOf :: "network \<Rightarrow> nat \<Rightarrow> unmatchedCell" where
  "unmatchedCellOf net enbid = \<lparr>uc_countryCode = nw_countryCode net, uc_operator = nw_operator net,
     uc_operatorIds = nw_operatorId net # nw_partnerIds net, uc_enbid = enbid\<rparr>"

definition inCountry :: "string \<Rightarrow> unmatchedCell option list \<Rightarrow> (unmatchedCell \<times> nat) list" where
  "inCountry countryCode cells =
    List.map_filter (\<lambda>(position, cell).
      case cell of Some c \<Rightarrow> if uc_countryCode c = countryCode then Some (c, position) else None | None \<Rightarrow> None) (enumerate 0 cells)"

definition findSourceSites :: "officialSource \<Rightarrow> unmatchedCell option list \<Rightarrow> int list list" where
  "findSourceSites source cells =
    (let siteIds = map (\<lambda>_. []) cells; found = inCountry (os_countryCode source) cells in
     case os_find source of
       None \<Rightarrow> siteIds
     | Some find' \<Rightarrow>
         (if found = [] then siteIds
          else (let matched = find' (map fst found)
                in fold (\<lambda>(index, _, position) ids. ids[position := (if index < length matched then matched ! index else [])])
                     (enumerate 0 found) siteIds)))"

definition findCandidateSiteIds :: "officialSource list \<Rightarrow> unmatchedCell option list \<Rightarrow> int list list" where
  "findCandidateSiteIds sources cells =
    (let bySource = map (\<lambda>source. findSourceSites source cells) sources in
     map (\<lambda>position. uniq (concat (map (\<lambda>siteIds. if position < length siteIds then siteIds ! position else []) bySource)))
       [0..<length cells])"

record 'site officialSiteMatches =
  om_siteIds :: "int list list"
  om_sites :: "(int \<times> 'site) list"

definition findOfficialSites ::
  "officialSource list \<Rightarrow> (int list \<Rightarrow> (int \<times> 'site) list) \<Rightarrow> unmatchedCell option list \<Rightarrow> 'site officialSiteMatches" where
  "findOfficialSites sources loadPublicSites cells =
    (let candidates = findCandidateSiteIds sources cells;
         publicSites = loadPublicSites (uniq (concat candidates));
         siteIds = map (\<lambda>ids. take OFFICIAL_SITES_PER_CELL (filter (\<lambda>i. i \<in> fst ` set publicSites) ids)) candidates
     in \<lparr>om_siteIds = siteIds, om_sites = filter (\<lambda>(i, _). i \<in> set (concat siteIds)) publicSites\<rparr>)"

definition unknownCells :: "networks \<Rightarrow> observedCell list \<Rightarrow> cellMatchResult list \<Rightarrow> unmatchedCell option list" where
  "unknownCells networks observed results =
    map (\<lambda>(index, cell).
      case (map_of networks (ob_plmn cell), ob_radio cell) of
        (Some net, ObservedLte c) \<Rightarrow>
          (if index < length results \<and> mr_reason (results ! index) = Some CellUnknown then Some (unmatchedCellOf net (ol_enbid c)) else None)
      | _ \<Rightarrow> None) (enumerate 0 observed)"

definition matchCellsAsSystem :: "officialSource list \<Rightarrow> analyzerDb \<Rightarrow> observedCell list \<Rightarrow> (cellMatchResult \<times> int list) list" where
  "matchCellsAsSystem sources db observed =
    (let (networks, matches) = matchInScope db SYSTEM_SCOPE observed;
         lookups = map (\<lambda>cell. case (map_of networks (ob_plmn cell), ob_radio cell) of
             (Some net, ObservedLte c) \<Rightarrow> Some (unmatchedCellOf net (ol_enbid c)) | _ \<Rightarrow> None) observed;
         siteIds = findCandidateSiteIds sources lookups
     in map (\<lambda>(index, result, _). (result, if index < length siteIds then siteIds ! index else [])) (enumerate 0 matches))"

end
