(* ===== verification/AnalyzerTheorems.thy ===== *)
theory AnalyzerTheorems
  imports AnalyzerMatch EditorTheorems "HOL-Library.Product_Lexorder"
begin

text \<open>
  The lookups of the analyzer: the contract every kind of lookup keeps (what stands under a key is the best of
  the rows that have it), its eleven interpretations, and that an observed cell is matched in a batch the way
  it is matched alone.
\<close>

section \<open>The best row under a key\<close>

definition rankOf :: "int \<Rightarrow> storedCell \<Rightarrow> nat \<times> int" where
  "rankOf own row = (NETWORK_MATCH_RANKS (networkMatchOf row own), sc_id row)"

lemma isBetter_rank: "isBetter row kept own \<longleftrightarrow> rankOf own row < rankOf own kept"
  by (auto simp: isBetter_def rankOf_def Let_def less_prod_def)

text \<open>What a lookup promises: nothing where no row has the key, and otherwise a row no other one is better than.\<close>

definition isBestRow :: "int \<Rightarrow> storedCell set \<Rightarrow> storedCell option \<Rightarrow> bool" where
  "isBestRow own rows best = (case best of None \<Rightarrow> rows = {} | Some r \<Rightarrow> r \<in> rows \<and> (\<forall>r'\<in>rows. \<not> isBetter r' r own))"

text \<open>The row as the answer shows it: without the way a query reached it, which only counts through the network match.\<close>

definition seenBy :: "int \<Rightarrow> storedCell \<Rightarrow> networkMatch \<times> storedCell" where
  "seenBy own row = (networkMatchOf row own, row\<lparr>sc_through := None\<rparr>)"

definition idsIdentify :: "storedCell set \<Rightarrow> bool" where
  "idsIdentify rows \<longleftrightarrow> (\<forall>a\<in>rows. \<forall>b\<in>rows. sc_id a = sc_id b \<longrightarrow> a\<lparr>sc_through := None\<rparr> = b\<lparr>sc_through := None\<rparr>)"

lemma NETWORK_MATCH_RANKS_inj: "NETWORK_MATCH_RANKS a = NETWORK_MATCH_RANKS b \<Longrightarrow> a = b"
  by (cases a; cases b) (simp_all add: NETWORK_MATCH_RANKS_def)

lemma isBestRow_unique:
  assumes "isBestRow own rows x" "isBestRow own rows y" "idsIdentify rows"
  shows "map_option (seenBy own) x = map_option (seenBy own) y"
proof (cases x)
  case None
  with assms show ?thesis by (cases y) (auto simp: isBestRow_def)
next
  case (Some a)
  with assms obtain b where b: "y = Some b" by (cases y) (auto simp: isBestRow_def)
  have mem: "a \<in> rows" "b \<in> rows" and le: "\<not> isBetter b a own" "\<not> isBetter a b own"
    using assms(1,2) by (simp_all add: isBestRow_def Some b)
  then have "rankOf own a = rankOf own b"
    unfolding isBetter_rank by (meson linorder_less_linear)
  then have "NETWORK_MATCH_RANKS (networkMatchOf a own) = NETWORK_MATCH_RANKS (networkMatchOf b own)" "sc_id a = sc_id b"
    by (simp_all add: rankOf_def)
  note same = NETWORK_MATCH_RANKS_inj [OF this(1)] this(2)
  have "a\<lparr>sc_through := None\<rparr> = b\<lparr>sc_through := None\<rparr>"
    using assms(3) mem same(2) unfolding idsIdentify_def by blast
  with same(1) show ?thesis by (simp add: Some b seenBy_def)
qed

lemma keep_other [simp]: "key \<noteq> k \<Longrightarrow> keep own k row found key = found key"
  by (simp add: keep_def split: option.split)

lemma keep_same: "keep own k row found k = Some (case found k of None \<Rightarrow> row | Some kept \<Rightarrow> if isBetter row kept own then row else kept)"
  by (simp add: keep_def split: option.split)

lemma isBestRow_keep:
  assumes "isBestRow (fst k) rows (found k)"
  shows "isBestRow (fst k) (insert row rows) (keep (fst k) k row found k)"
proof (cases "found k")
  case None
  with assms show ?thesis by (simp add: isBestRow_def keep_same isBetter_rank)
next
  case (Some kept)
  with assms show ?thesis
    by (auto simp: isBestRow_def keep_same isBetter_rank)
qed

text \<open>A row with the key \<open>k\<close> that the rows of one task bring.\<close>

lemma isBestRow_keepRows:
  assumes "\<And>row k'. keyOf row = Some k' \<Longrightarrow> fst k' = own" "isBestRow (fst k) old (found k)"
  shows "isBestRow (fst k) (old \<union> {row \<in> set rows. keyOf row = Some k}) (keepRows keyOf own rows found k)"
  using assms(2)
proof (induction rows arbitrary: found old)
  case Nil
  then show ?case by (simp add: keepRows_def)
next
  case (Cons row rows)
  let ?next = "case keyOf row of None \<Rightarrow> found | Some key \<Rightarrow> keep own key row found"
  have "isBestRow (fst k) (old \<union> {r. r = row \<and> keyOf row = Some k}) (?next k)"
  proof (cases "keyOf row = Some k")
    case True
    then have "own = fst k" using assms(1) by metis
    with True show ?thesis using isBestRow_keep [where k=k and rows=old and found=found and row=row] Cons.prems by simp
  next
    case False
    then show ?thesis using Cons.prems by (cases "keyOf row") simp_all
  qed
  from Cons.IH [where found="?next", OF this]
  have "isBestRow (fst k) (old \<union> {r. r = row \<and> keyOf row = Some k} \<union> {r \<in> set rows. keyOf r = Some k})
      (keepRows keyOf own (row # rows) found k)"
    by (simp add: keepRows_def)
  moreover have "old \<union> {r. r = row \<and> keyOf row = Some k} \<union> {r \<in> set rows. keyOf r = Some k} =
      old \<union> {r \<in> set (row # rows). keyOf r = Some k}" by auto
  ultimately show ?case by simp
qed

lemma isBestRow_runLookups:
  assumes "\<And>own row k'. keyOf own row = Some k' \<Longrightarrow> fst k' = own"
  shows "isBestRow (fst k) {row. \<exists>chunk. (fst k, chunk) \<in> set tasks \<and> row \<in> set (load (fst k) chunk) \<and> keyOf (fst k) row = Some k}
    (runLookups tasks load keyOf k)"
proof -
  let ?rows = "\<lambda>tasks. {row. \<exists>chunk. (fst k, chunk) \<in> set tasks \<and> row \<in> set (load (fst k) chunk) \<and> keyOf (fst k) row = Some k}"
  have "isBestRow (fst k) (old \<union> ?rows tasks)
      (fold (\<lambda>(own, chunk). keepRows (keyOf own) own (load own chunk)) tasks found k)"
    if "isBestRow (fst k) old (found k)" for old found
    using that
  proof (induction tasks arbitrary: old found)
    case Nil
    then show ?case by simp
  next
    case (Cons task tasks)
    obtain own chunk where task: "task = (own, chunk)" by (cases task)
    let ?next = "keepRows (keyOf own) own (load own chunk) found"
    let ?new = "{row \<in> set (load own chunk). keyOf own row = Some k}"
    have "isBestRow (fst k) (old \<union> ?new) (?next k)"
      by (rule isBestRow_keepRows [where found=found and k=k, OF assms Cons.prems])
    from Cons.IH [where found="?next", OF this]
    have "isBestRow (fst k) (old \<union> ?new \<union> ?rows tasks)
        (fold (\<lambda>(own, chunk). keepRows (keyOf own) own (load own chunk)) (task # tasks) found k)"
      by (simp add: task)
    moreover have "old \<union> ?new \<union> ?rows tasks = old \<union> ?rows (task # tasks)"
      using assms [of own _ k] by (auto simp: task)
    ultimately show ?case by simp
  qed
  from this [where found=Map.empty and old="{}"] show ?thesis by (simp add: runLookups_def isBestRow_def)
qed

lemma set_chunks: "0 < size' \<Longrightarrow> \<Union> (set ` set (chunks items size')) = set items"
proof (induction items size' rule: chunks.induct)
  case (1 items size')
  show ?case
  proof (cases "items = []")
    case True
    then show ?thesis by (subst chunks.simps) simp
  next
    case False
    with 1 have "\<Union> (set ` set (chunks (drop size' items) size')) = set (drop size' items)" by simp
    then show ?thesis using False "1.prems"
      by (subst chunks.simps) (simp add: set_append [symmetric] del: set_append)
  qed
qed

section \<open>The identifiers of a batch\<close>

definition identifiersOf :: "'v identifiers \<Rightarrow> int \<Rightarrow> 'v set" where
  "identifiersOf ids own = (case map_of ids own of None \<Rightarrow> {} | Some vs \<Rightarrow> set vs)"

lemma identifiersOf_addIdentifier [simp]:
  "identifiersOf (addIdentifier own v ids) own' = (if own' = own then insert v (identifiersOf ids own) else identifiersOf ids own')"
  by (auto simp: identifiersOf_def addIdentifier_def Let_def update_conv' split: option.split)

lemma distinct_addIdentifier [simp]: "distinct (map fst ids) \<Longrightarrow> distinct (map fst (addIdentifier own v ids))"
  by (simp add: addIdentifier_def Let_def distinct_update)

lemma identifiersOf_addIdentifiers:
  "identifiersOf (fold (addIdentifier own) vs ids) own' = (if own' = own then set vs else {}) \<union> identifiersOf ids own'"
  by (induction vs arbitrary: ids) auto

lemma distinct_addIdentifiers: "distinct (map fst ids) \<Longrightarrow> distinct (map fst (fold (addIdentifier own) vs ids))"
  by (induction vs arbitrary: ids) auto

lemma identifiersOf_collect:
  "identifiersOf (collectIdentifiers networks f observed) own =
    {v. \<exists>cell\<in>set observed. \<exists>net. map_of networks (ob_plmn cell) = Some net \<and> nw_operatorId net = own \<and> v \<in> set (f net (ob_radio cell))}"
proof -
  have "identifiersOf (fold (\<lambda>cell ids. case map_of networks (ob_plmn cell) of
        None \<Rightarrow> ids
      | Some net \<Rightarrow> fold (addIdentifier (nw_operatorId net)) (f net (ob_radio cell)) ids) observed ids) own =
    identifiersOf ids own \<union>
    {v. \<exists>cell\<in>set observed. \<exists>net. map_of networks (ob_plmn cell) = Some net \<and> nw_operatorId net = own \<and> v \<in> set (f net (ob_radio cell))}" for ids
    by (induction observed arbitrary: ids) (auto simp: identifiersOf_addIdentifiers split: option.split)
  from this [of "[]"] show ?thesis by (simp add: collectIdentifiers_def) (simp add: identifiersOf_def)
qed

lemma distinct_collect: "distinct (map fst (collectIdentifiers networks f observed))"
proof -
  have "distinct (map fst (fold (\<lambda>cell ids. case map_of networks (ob_plmn cell) of
        None \<Rightarrow> ids
      | Some net \<Rightarrow> fold (addIdentifier (nw_operatorId net)) (f net (ob_radio cell)) ids) observed ids))"
    if "distinct (map fst ids)" for ids
    using that by (induction observed arbitrary: ids) (simp_all add: distinct_addIdentifiers split: option.split)
  then show ?thesis by (simp add: collectIdentifiers_def)
qed

section \<open>The contract of a lookup\<close>

text \<open>
  Every kind of lookup loads, for an operator, those of its rows that carry one of the identifiers of the
  chunk, and keeps them under keys of that operator.
\<close>

locale batch_lookup =
  fixes load :: "int \<Rightarrow> (storedCell \<Rightarrow> bool) \<Rightarrow> storedCell list"
    and has :: "'v list \<Rightarrow> storedCell \<Rightarrow> bool"
    and keyOf :: "int \<Rightarrow> storedCell \<Rightarrow> identityKey option"
  assumes loads: "set (load own (has chunk)) = {row \<in> set (load own (\<lambda>_. True)). has chunk row}"
    and has_each: "has chunk row \<longleftrightarrow> (\<exists>v\<in>set chunk. has [v] row)"
    and key_owner: "keyOf own row = Some k \<Longrightarrow> fst k = own"
begin

lemma lookup_best:
  assumes "distinct (map fst ids)" "0 < size'"
  shows "isBestRow (fst k)
    {row \<in> set (load (fst k) (\<lambda>_. True)). keyOf (fst k) row = Some k \<and> (\<exists>v\<in>identifiersOf ids (fst k). has [v] row)}
    (lookupIndex ids size' load has keyOf k)"
proof -
  let ?own = "fst k"
  have tasks: "(?own, chunk) \<in> set (lookupTasks ids size') \<longleftrightarrow> (\<exists>vs. map_of ids ?own = Some vs \<and> chunk \<in> set (chunks vs size'))" for chunk
    using assms(1) by (force simp: lookupTasks_def)
  have carried: "(\<exists>chunk. (?own, chunk) \<in> set (lookupTasks ids size') \<and> has chunk row) \<longleftrightarrow>
      (\<exists>v\<in>identifiersOf ids ?own. has [v] row)" for row
  proof (cases "map_of ids ?own")
    case None
    then show ?thesis by (simp add: tasks identifiersOf_def)
  next
    case (Some vs)
    have "(\<exists>chunk\<in>set (chunks vs size'). has chunk row) \<longleftrightarrow> (\<exists>chunk\<in>set (chunks vs size'). \<exists>v\<in>set chunk. has [v] row)"
      by (rule bex_cong [OF refl]) (rule has_each)
    also have "\<dots> \<longleftrightarrow> (\<exists>v\<in>\<Union> (set ` set (chunks vs size')). has [v] row)" by blast
    also have "\<dots> \<longleftrightarrow> (\<exists>v\<in>set vs. has [v] row)" by (simp only: set_chunks [OF assms(2)])
    finally show ?thesis using Some by (simp add: tasks identifiersOf_def Bex_def)
  qed
  have "{row. \<exists>chunk. (?own, chunk) \<in> set (lookupTasks ids size') \<and> row \<in> set (load ?own (has chunk)) \<and> keyOf ?own row = Some k} =
      {row \<in> set (load ?own (\<lambda>_. True)). keyOf ?own row = Some k \<and> (\<exists>v\<in>identifiersOf ids ?own. has [v] row)}"
    using carried by (auto simp: loads)
  with isBestRow_runLookups [where keyOf=keyOf and k=k and tasks="lookupTasks ids size'" and load="\<lambda>own chunk. load own (has chunk)"]
  show ?thesis using key_owner by (simp add: lookupIndex_def)
qed

lemma lookup_key:
  assumes "distinct (map fst ids)" "0 < size'" "lookupIndex ids size' load has keyOf k = Some row"
  shows "keyOf (fst k) row = Some k"
  using lookup_best [OF assms(1,2), of k] assms(3) by (simp add: isBestRow_def)

text \<open>Two lookups that load the same rows for an operator show the same under a key whose rows both ask for, or neither.\<close>

lemma lookup_agree:
  assumes "batch_lookup load' has keyOf'" "load' (fst k) = load (fst k)" "keyOf' (fst k) = keyOf (fst k)"
    and "distinct (map fst ids)" "distinct (map fst ids')" "0 < size'"
    and "idsIdentify (set (load (fst k) (\<lambda>_. True)))"
    and "\<And>row. keyOf (fst k) row = Some k \<Longrightarrow>
      (\<exists>v\<in>identifiersOf ids (fst k). has [v] row) \<longleftrightarrow> (\<exists>v\<in>identifiersOf ids' (fst k). has [v] row)"
  shows "map_option (seenBy (fst k)) (lookupIndex ids size' load has keyOf k) =
    map_option (seenBy (fst k)) (lookupIndex ids' size' load' has keyOf' k)"
proof -
  let ?rows = "\<lambda>ids. {row \<in> set (load (fst k) (\<lambda>_. True)). keyOf (fst k) row = Some k \<and> (\<exists>v\<in>identifiersOf ids (fst k). has [v] row)}"
  have "isBestRow (fst k) (?rows ids) (lookupIndex ids' size' load' has keyOf' k)"
    using batch_lookup.lookup_best [OF assms(1,5,6), of k] assms(2,3,8) by (simp cong: conj_cong)
  moreover have "idsIdentify (?rows ids)" using assms(7) by (simp add: idsIdentify_def)
  ultimately show ?thesis using isBestRow_unique lookup_best [OF assms(4,6)] by blast
qed

end

section \<open>The rows an operator's lookups search\<close>

definition ignoresThrough :: "(storedCell \<Rightarrow> bool) \<Rightarrow> bool" where
  "ignoresThrough P \<longleftrightarrow> (\<forall>row t. P (row\<lparr>sc_through := t\<rparr>) = P row)"

lemma set_loadOperatorCells:
  "ignoresThrough P \<Longrightarrow> set (loadOperatorCells db scope P ops) = {row \<in> set (loadOperatorCells db scope (\<lambda>_. True) ops). P row}"
  by (auto simp: loadOperatorCells_def ignoresThrough_def)

lemma set_loadGuestCells:
  "ignoresThrough P \<Longrightarrow> set (loadGuestCells db scope P codes) = {row \<in> set (loadGuestCells db scope (\<lambda>_. True) codes). P row}"
  by (auto simp: loadGuestCells_def ignoresThrough_def)

lemma set_loadCountryCells:
  "ignoresThrough P \<Longrightarrow> set (loadCountryCells db scope P country) = {row \<in> set (loadCountryCells db scope (\<lambda>_. True) country). P row}"
  by (auto simp: loadCountryCells_def ignoresThrough_def)

lemma set_loadCandidates:
  "ignoresThrough P \<Longrightarrow>
    set (loadCandidates db scope networks P own ops) = {row \<in> set (loadCandidates db scope networks (\<lambda>_. True) own ops). P row}"
  by (auto simp: loadCandidates_def set_loadOperatorCells [of P] set_loadGuestCells [of P])

lemma set_loadMissing:
  "ignoresThrough P \<Longrightarrow> set (loadMissing db scope networks own P) = {row \<in> set (loadMissing db scope networks own (\<lambda>_. True)). P row}"
  by (auto simp: loadMissing_def set_loadCountryCells [of P] split: option.split)

lemmas set_loads = loadOwn_def loadOwnAndGuests_def loadShared_def set_loadOperatorCells set_loadCandidates set_loadMissing

lemmas has_defs = hasGsmPair_def hasUmtsRncPair_def hasUmtsLacPair_def hasLtePair_def hasEnbid_def hasGnbid_def hasNci_def
  hasUmtsChannel_def hasLteChannel_def hasNrChannel_def

lemmas key_defs = gsmKey_def umtsRncKey_def umtsLacKey_def lteKey_def lteStationKey_def nrStationKey_def nrKey_def nciKey_def
  umtsMissingKey_def lteMissingKey_def nrMissingKey_def identityKey_def

lemma has_ignoreThrough [simp]:
  "ignoresThrough (hasGsmPair gs)" "ignoresThrough (hasUmtsRncPair gs)" "ignoresThrough (hasUmtsLacPair gs)"
  "ignoresThrough (hasLtePair gs)" "ignoresThrough (hasEnbid es)" "ignoresThrough (hasGnbid vs)" "ignoresThrough (hasNci vs)"
  "ignoresThrough (hasUmtsChannel cs)" "ignoresThrough (hasLteChannel cs)" "ignoresThrough (hasNrChannel cs)"
  by (simp_all add: ignoresThrough_def has_defs)

section \<open>The eleven lookups keep the contract\<close>

interpretation gsmLookup: batch_lookup "loadOwn db scope" hasGsmPair gsmKey for db scope
  by unfold_locales (auto simp: set_loads has_defs key_defs split: option.splits)

interpretation umtsRncLookup: batch_lookup "loadOwnAndGuests db scope networks" hasUmtsRncPair umtsRncKey for db scope networks
  by unfold_locales (auto simp: set_loads has_defs key_defs split: option.splits)

interpretation umtsLacLookup: batch_lookup "loadOwnAndGuests db scope networks" hasUmtsLacPair umtsLacKey for db scope networks
  by unfold_locales (auto simp: set_loads has_defs key_defs split: option.splits bind_splits)

interpretation lteLookup: batch_lookup "loadShared db scope networks" hasLtePair lteKey for db scope networks
  by unfold_locales (auto simp: set_loads has_defs key_defs split: option.splits)

interpretation lteStationLookup: batch_lookup "loadShared db scope networks" hasEnbid "lteStationKey networks" for db scope networks
  by unfold_locales (auto simp: set_loads has_defs key_defs split: option.splits bind_splits)

interpretation nrStationLookup: batch_lookup "loadShared db scope networks" hasGnbid nrStationKey for db scope networks
  by unfold_locales (auto simp: set_loads has_defs key_defs split: option.splits bind_splits)

interpretation nrLookup: batch_lookup "loadShared db scope networks" hasGnbid nrKey for db scope networks
  by unfold_locales (auto simp: set_loads has_defs key_defs split: option.splits bind_splits)

interpretation nciLookup: batch_lookup "loadShared db scope networks" hasNci nciKey for db scope networks
  by unfold_locales (auto simp: set_loads has_defs key_defs split: option.splits bind_splits if_splits)

interpretation umtsMissingLookup: batch_lookup "loadMissing db scope networks" hasUmtsChannel umtsMissingKey for db scope networks
  by unfold_locales (auto simp: set_loads has_defs key_defs split: option.splits)

interpretation lteMissingLookup: batch_lookup "loadMissing db scope networks" hasLteChannel lteMissingKey for db scope networks
  by unfold_locales (auto simp: set_loads has_defs key_defs split: option.splits)

interpretation nrMissingLookup: batch_lookup "loadMissing db scope networks" hasNrChannel nrMissingKey for db scope networks
  by unfold_locales (auto simp: set_loads has_defs key_defs split: option.splits)

section \<open>Networks do not depend on the batch, their guest codes aside\<close>

lemma find_filter: "List.find P (filter Q xs) = List.find (\<lambda>x. Q x \<and> P x) xs"
  by (induction xs) auto

lemma find_the_only:
  assumes "y \<in> set xs" "P y" and only: "\<And>x. x \<in> set xs \<Longrightarrow> P x \<Longrightarrow> x = y"
  shows "List.find P xs = Some y"
proof (cases "List.find P xs")
  case None
  with assms(1,2) show ?thesis by (auto simp: find_None_iff)
next
  case (Some x)
  then have "x \<in> set xs" "P x" by (auto simp: find_Some_iff)
  with Some only show ?thesis by simp
qed

lemma map_of_map_filter:
  "map_of (List.map_filter (\<lambda>x. map_option (Pair x) (g x)) xs) p = (if p \<in> set xs then g p else None)"
  by (induction xs) (auto simp: map_filter_simps split: option.split)

lemma set_map_filter_Pair:
  "set (List.map_filter (\<lambda>x. map_option (Pair x) (g x)) xs) = {(x, y). x \<in> set xs \<and> g x = Some y}"
  by (induction xs) (auto simp: map_filter_simps split: option.splits)

lemma filter_map_filter_Pair:
  "filter (\<lambda>(_, y). P y) (List.map_filter (\<lambda>x. map_option (Pair x) (g x)) xs) =
    List.map_filter (\<lambda>x. map_option (Pair x) (Option.bind (g x) (\<lambda>y. if P y then Some y else None))) xs"
  by (induction xs) (auto simp: map_filter_simps split: option.split)

lemma uniq_singleton:
  assumes "set xs = {c}"
  shows "uniq xs = [c]"
proof (cases xs)
  case Nil
  with assms show ?thesis by simp
next
  case (Cons x ys)
  with assms have "x = c" "\<forall>y\<in>set ys. y = c" by auto
  then show ?thesis by (simp add: Cons filter_empty_conv)
qed

lemma map_filter_cong: "(\<And>x. x \<in> set xs \<Longrightarrow> f x = g x) \<Longrightarrow> List.map_filter f xs = List.map_filter g xs"
  by (induction xs) (simp_all add: map_filter_simps split: option.split)

lemma loadPartners_of_member:
  assumes "operatorId \<in> set operatorIds"
  shows "loadPartners db operatorIds operatorId =
    uniq (map fst (filter (\<lambda>(member, venture). member \<noteq> operatorId \<and> (operatorId, venture) \<in> set (ad_ventureLinks db)) (ad_ventureLinks db)))"
proof -
  have "filter (\<lambda>(member, venture). member \<noteq> operatorId \<and>
            venture \<in> snd ` {link \<in> set (ad_ventureLinks db).
              snd link \<in> snd ` {link \<in> set (ad_ventureLinks db). fst link \<in> set operatorIds} \<and> fst link = operatorId} \<and>
            venture \<in> snd ` {link \<in> set (ad_ventureLinks db). fst link \<in> set operatorIds}) (ad_ventureLinks db) =
      filter (\<lambda>(member, venture). member \<noteq> operatorId \<and> (operatorId, venture) \<in> set (ad_ventureLinks db)) (ad_ventureLinks db)"
    using assms by (intro filter_cong [OF refl]) force
  then show ?thesis
    by (simp add: loadPartners_def Let_def case_prod_unfold conj_ac)
qed

lemma find_visible:
  assumes "plmn \<in> set codes" "code \<in> set (plmnCandidates plmn)"
  shows "List.find (\<lambda>row. pr_code row = code) (visiblePlmns db scope codes) =
    List.find (\<lambda>row. pr_countryCode row \<notin> set (ms_hiddenCountryCodes scope) \<and> pr_code row = code) (plmnRows db)"
  unfolding visiblePlmns_def find_filter using assms by (intro find_cong [OF refl]) auto

lemma plmnRowOf_alone:
  assumes "plmn \<in> set codes"
  shows "plmnRowOf (visiblePlmns db scope codes) plmn = plmnRowOf (visiblePlmns db scope [plmn]) plmn"
proof -
  have "List.map_filter (\<lambda>code. List.find (\<lambda>row. pr_code row = code) (visiblePlmns db scope codes)) (plmnCandidates plmn) =
      List.map_filter (\<lambda>code. List.find (\<lambda>row. pr_code row = code) (visiblePlmns db scope [plmn])) (plmnCandidates plmn)"
    by (rule map_filter_cong) (simp add: find_visible [OF assms] find_visible [of plmn "[plmn]"])
  then show ?thesis by (simp add: plmnRowOf_def)
qed

lemma plmnRowOf_visible:
  assumes "plmnRowOf visible plmn = Some row"
  shows "row \<in> set visible"
proof -
  have "row \<in> set (List.map_filter (\<lambda>code. List.find (\<lambda>row. pr_code row = code) visible) (plmnCandidates plmn))"
    using assms by (auto simp: plmnRowOf_def split: list.splits)
  then obtain code where "List.find (\<lambda>row. pr_code row = code) visible = Some row" by (auto simp: List.map_filter_def)
  then show ?thesis by (auto simp: find_Some_iff)
qed

text \<open>What a network is, from the row of its code.\<close>

definition rowNetwork :: "analyzerDb \<Rightarrow> matchScope \<Rightarrow> plmnRow \<Rightarrow> network option" where
  "rowNetwork db scope row =
    map_option (\<lambda>operator. \<lparr>nw_operatorId = pr_operatorId row,
        nw_partnerIds = uniq (map fst (filter (\<lambda>(member, venture). member \<noteq> pr_operatorId row \<and>
          (pr_operatorId row, venture) \<in> set (ad_ventureLinks db)) (ad_ventureLinks db))),
        nw_operator = operator, nw_countryCode = pr_countryCode row, nw_code = pr_code row,
        nw_hasGuestCells = isBroadcast db (pr_code row),
        nw_isMatchable = (\<not> ms_followsAnalyzerSwitch scope \<or> pr_hasAnalyzer row)\<rparr>)
      (ad_operatorRefs db (pr_operatorId row))"

definition aloneNetwork :: "analyzerDb \<Rightarrow> matchScope \<Rightarrow> string \<Rightarrow> network option" where
  "aloneNetwork db scope plmn = Option.bind (plmnRowOf (visiblePlmns db scope [plmn]) plmn) (rowNetwork db scope)"

lemma networkOf_row: "networkOf db scope visible plmn = Option.bind (plmnRowOf visible plmn) (rowNetwork db scope)"
proof (cases "plmnRowOf visible plmn")
  case None
  then show ?thesis by (simp add: networkOf_def)
next
  case (Some row)
  have "pr_operatorId row \<in> set (uniq (map pr_operatorId visible))"
    using plmnRowOf_visible [OF Some] by simp
  note partners = loadPartners_of_member [OF this, of db]
  show ?thesis
    by (cases "ad_operatorRefs db (pr_operatorId row)") (simp_all add: networkOf_def rowNetwork_def Some partners)
qed

lemma networkOf_alone:
  "plmn \<in> set codes \<Longrightarrow> networkOf db scope (visiblePlmns db scope codes) plmn = aloneNetwork db scope plmn"
  using plmnRowOf_alone [of plmn codes db scope] by (simp add: networkOf_row aloneNetwork_def)

lemma aloneNetwork_row:
  assumes "aloneNetwork db scope plmn = Some n"
  obtains row where "row \<in> set (plmnRows db)" "rowNetwork db scope row = Some n"
proof -
  from assms obtain row where row: "plmnRowOf (visiblePlmns db scope [plmn]) plmn = Some row" "rowNetwork db scope row = Some n"
    by (auto simp: aloneNetwork_def bind_eq_Some_conv)
  from plmnRowOf_visible [OF row(1)] have "row \<in> set (plmnRows db)" by (simp add: visiblePlmns_def)
  with row(2) show ?thesis using that by blast
qed

text \<open>Two codes of one operator give one network when they are the same code.\<close>

lemma aloneNetwork_same:
  assumes "aloneNetwork db scope p = Some m" "aloneNetwork db scope q = Some n"
    and "nw_operatorId m = nw_operatorId n" "nw_code m = nw_code n"
  shows "m = n"
proof -
  obtain r where r: "r \<in> set (plmnRows db)" "rowNetwork db scope r = Some m" using aloneNetwork_row [OF assms(1)] .
  obtain s where s: "s \<in> set (plmnRows db)" "rowNetwork db scope s = Some n" using aloneNetwork_row [OF assms(2)] .
  have "pr_operatorId r = pr_operatorId s" "pr_code r = pr_code s"
    using assms(3,4) r(2) s(2) by (auto simp: rowNetwork_def)
  moreover from this r(1) s(1) have "pr_countryCode r = pr_countryCode s" "pr_hasAnalyzer r = pr_hasAnalyzer s"
    by (auto simp: plmnRows_def List.map_filter_def)
  ultimately have "r = s" by simp
  with r(2) s(2) show ?thesis by simp
qed

lemma map_of_resolveNetworks:
  "map_of (resolveNetworks db scope codes) plmn = (if plmn \<in> set codes then aloneNetwork db scope plmn else None)"
  by (simp add: resolveNetworks_def map_of_map_filter networkOf_alone)

section \<open>The networks that are looked up\<close>

definition matchableNetworks :: "analyzerDb \<Rightarrow> matchScope \<Rightarrow> observedCell list \<Rightarrow> networks" where
  "matchableNetworks db scope observed =
    filter (\<lambda>(_, net). nw_isMatchable net) (resolveNetworks db scope (uniq (map ob_plmn observed)))"

lemma matchable_alone:
  "matchableNetworks db scope observed =
    List.map_filter (\<lambda>plmn. map_option (Pair plmn)
      (Option.bind (networkOf db scope (visiblePlmns db scope (uniq (map ob_plmn observed))) plmn) (\<lambda>n. if nw_isMatchable n then Some n else None)))
      (uniq (map ob_plmn observed))"
  by (simp add: matchableNetworks_def resolveNetworks_def filter_map_filter_Pair)

lemma map_of_matchable:
  "map_of (matchableNetworks db scope observed) plmn =
    (if plmn \<in> ob_plmn ` set observed
     then Option.bind (aloneNetwork db scope plmn) (\<lambda>n. if nw_isMatchable n then Some n else None) else None)"
  by (simp add: matchable_alone map_of_map_filter networkOf_alone)

lemma set_matchable:
  "(plmn, n) \<in> set (matchableNetworks db scope observed) \<longleftrightarrow>
    plmn \<in> ob_plmn ` set observed \<and> aloneNetwork db scope plmn = Some n \<and> nw_isMatchable n"
  by (auto simp: matchable_alone set_map_filter_Pair networkOf_alone bind_eq_Some_conv split: if_splits)

text \<open>Each operator of the batch is observed under one code.\<close>

definition oneCodePerOperator :: "networks \<Rightarrow> bool" where
  "oneCodePerOperator networks \<longleftrightarrow>
    list_all (\<lambda>(_, m). list_all (\<lambda>(_, n). nw_operatorId m = nw_operatorId n \<longrightarrow> nw_code m = nw_code n) networks) networks"

lemma oneCode_same:
  assumes "oneCodePerOperator (matchableNetworks db scope observed)"
    and "m \<in> snd ` set (matchableNetworks db scope observed)" "n \<in> snd ` set (matchableNetworks db scope observed)"
    and "nw_operatorId m = nw_operatorId n"
  shows "m = n"
proof -
  from assms(2,3) obtain p q where mem: "(p, m) \<in> set (matchableNetworks db scope observed)" "(q, n) \<in> set (matchableNetworks db scope observed)"
    by auto
  with assms(1,4) have "nw_code m = nw_code n" by (fastforce simp: oneCodePerOperator_def list_all_iff)
  with mem assms(4) show ?thesis by (auto simp: set_matchable intro: aloneNetwork_same)
qed

lemma matchable_by_operator:
  assumes "oneCodePerOperator (matchableNetworks db scope observed)" "n \<in> snd ` set (matchableNetworks db scope observed)"
  shows "networkById (matchableNetworks db scope observed) (nw_operatorId n) = Some n"
    and "codesOf (matchableNetworks db scope observed) (nw_operatorId n) = (if nw_hasGuestCells n then [nw_code n] else [])"
proof -
  have same: "m = n" if "(p, m) \<in> set (matchableNetworks db scope observed)" "nw_operatorId m = nw_operatorId n" for p m
    using oneCode_same [OF assms(1) _ assms(2)] that by force
  show "networkById (matchableNetworks db scope observed) (nw_operatorId n) = Some n"
    unfolding networkById_def using assms(2) by (intro find_the_only) (auto dest: same)
  have "set (map nw_code (filter (\<lambda>net. nw_operatorId net = nw_operatorId n \<and> nw_hasGuestCells net)
      (map snd (matchableNetworks db scope observed)))) = (if nw_hasGuestCells n then {nw_code n} else {})"
    using assms(2) by (auto dest: same simp: image_iff)
  then show "codesOf (matchableNetworks db scope observed) (nw_operatorId n) = (if nw_hasGuestCells n then [nw_code n] else [])"
    unfolding codesOf_def by (cases "nw_hasGuestCells n") (auto intro: uniq_singleton)
qed

section \<open>One cell of a batch\<close>

text \<open>
  A cell of the batch whose network is known and matchable, in tables whose cell ids are unique, when no other
  cell of the batch is observed under another code of the same operator.
\<close>

definition observedIn :: "analyzerDb \<Rightarrow> matchScope \<Rightarrow> observedCell list \<Rightarrow> observedCell \<Rightarrow> network \<Rightarrow> bool" where
  "observedIn db scope observed cell n \<longleftrightarrow>
    distinct (map sc_id (ad_cells db)) \<and> oneCodePerOperator (matchableNetworks db scope observed) \<and>
    cell \<in> set observed \<and> map_of (matchableNetworks db scope observed) (ob_plmn cell) = Some n"

lemma observedIn_network: "observedIn db scope observed cell n \<Longrightarrow> n \<in> snd ` set (matchableNetworks db scope observed)"
  by (force simp: observedIn_def dest: map_of_SomeD)

lemma observedIn_same:
  assumes "observedIn db scope observed cell n" "map_of (matchableNetworks db scope observed) plmn = Some m"
    and "nw_operatorId m = nw_operatorId n"
  shows "m = n"
proof (rule oneCode_same [OF _ _ observedIn_network [OF assms(1)] assms(3)])
  show "oneCodePerOperator (matchableNetworks db scope observed)" using assms(1) by (simp add: observedIn_def)
  show "m \<in> snd ` set (matchableNetworks db scope observed)" using map_of_SomeD [OF assms(2)] by force
qed

lemma observedIn_alone:
  assumes "observedIn db scope observed cell n"
  shows "observedIn db scope [cell] cell n"
proof -
  have net: "aloneNetwork db scope (ob_plmn cell) = Some n" "nw_isMatchable n"
    using assms by (auto simp: observedIn_def map_of_matchable bind_eq_Some_conv split: if_splits)
  then have "oneCodePerOperator (matchableNetworks db scope [cell])"
    by (auto simp: oneCodePerOperator_def list_all_iff set_matchable)
  with assms net show ?thesis by (simp add: observedIn_def map_of_matchable)
qed

lemma observedIn_loads:
  assumes "observedIn db scope observed cell n"
  shows "loadOwnAndGuests db scope (matchableNetworks db scope observed) (nw_operatorId n) =
      loadOwnAndGuests db scope (matchableNetworks db scope [cell]) (nw_operatorId n)"
    and "loadShared db scope (matchableNetworks db scope observed) (nw_operatorId n) =
      loadShared db scope (matchableNetworks db scope [cell]) (nw_operatorId n)"
    and "loadMissing db scope (matchableNetworks db scope observed) (nw_operatorId n) =
      loadMissing db scope (matchableNetworks db scope [cell]) (nw_operatorId n)"
    and "lteStationKey (matchableNetworks db scope observed) (nw_operatorId n) =
      lteStationKey (matchableNetworks db scope [cell]) (nw_operatorId n)"
proof -
  note batch = matchable_by_operator [OF _ observedIn_network [OF assms]]
  note alone = matchable_by_operator [OF _ observedIn_network [OF observedIn_alone [OF assms]]]
  have one: "oneCodePerOperator (matchableNetworks db scope observed)" "oneCodePerOperator (matchableNetworks db scope [cell])"
    using assms observedIn_alone [OF assms] by (simp_all add: observedIn_def)
  note same = batch [OF one(1)] alone [OF one(2)]
  show "loadOwnAndGuests db scope (matchableNetworks db scope observed) (nw_operatorId n) =
      loadOwnAndGuests db scope (matchableNetworks db scope [cell]) (nw_operatorId n)"
    by (rule ext) (simp add: loadOwnAndGuests_def loadCandidates_def same)
  show "loadShared db scope (matchableNetworks db scope observed) (nw_operatorId n) =
      loadShared db scope (matchableNetworks db scope [cell]) (nw_operatorId n)"
    by (rule ext) (simp add: loadShared_def sharedBy_def loadCandidates_def same)
  show "loadMissing db scope (matchableNetworks db scope observed) (nw_operatorId n) =
      loadMissing db scope (matchableNetworks db scope [cell]) (nw_operatorId n)"
    by (rule ext) (simp add: loadMissing_def same)
  show "lteStationKey (matchableNetworks db scope observed) (nw_operatorId n) =
      lteStationKey (matchableNetworks db scope [cell]) (nw_operatorId n)"
    by (rule ext) (simp add: lteStationKey_def same)
qed

text \<open>Every row a query brings is a cell of the tables, so its id identifies it.\<close>

lemma idsIdentify_rows:
  assumes "distinct (map sc_id (ad_cells db))" "\<And>row. row \<in> rows \<Longrightarrow> \<exists>r\<in>set (ad_cells db). \<exists>t. row = r\<lparr>sc_through := t\<rparr>"
  shows "idsIdentify rows"
  unfolding idsIdentify_def
proof (intro ballI impI)
  fix a b
  assume "a \<in> rows" "b \<in> rows" and id: "sc_id a = sc_id b"
  then obtain r s t u where rows: "r \<in> set (ad_cells db)" "a = r\<lparr>sc_through := t\<rparr>" "s \<in> set (ad_cells db)" "b = s\<lparr>sc_through := u\<rparr>"
    using assms(2) by meson
  with id have "sc_id r = sc_id s" by simp
  with rows assms(1) have "r = s" by (auto simp: distinct_map dest: inj_onD)
  then show "a\<lparr>sc_through := None\<rparr> = b\<lparr>sc_through := None\<rparr>" by (simp add: rows)
qed

lemma idsIdentify_loads:
  assumes "distinct (map sc_id (ad_cells db))"
  shows "idsIdentify (set (loadOwn db scope own P))" "idsIdentify (set (loadOwnAndGuests db scope networks own P))"
    "idsIdentify (set (loadShared db scope networks own P))" "idsIdentify (set (loadMissing db scope networks own P))"
  by (rule idsIdentify_rows [OF assms];
      force simp: loadOwn_def loadOwnAndGuests_def loadShared_def loadMissing_def loadCandidates_def loadOperatorCells_def
        loadGuestCells_def loadCountryCells_def split: option.splits)+

section \<open>The index of the batch and the index of the cell alone\<close>

lemma found_simps:
  fixes db scope networks observed
  defines "found \<equiv> findStoredCells db scope networks observed"
  shows "sx_gsm found = lookupIndex (collectIdentifiers networks gsmPairOf observed) PAIRS_PER_QUERY (loadOwn db scope) hasGsmPair gsmKey"
    and "sx_umtsByRnc found = lookupIndex (collectIdentifiers networks umtsRncPairOf observed) PAIRS_PER_QUERY
      (loadOwnAndGuests db scope networks) hasUmtsRncPair umtsRncKey"
    and "sx_lte found = lookupIndex (collectIdentifiers networks ltePairOf observed) PAIRS_PER_QUERY
      (loadShared db scope networks) hasLtePair lteKey"
    and "sx_nrStations found = lookupIndex (collectIdentifiers networks gnbidOf observed) VALUES_PER_QUERY
      (loadShared db scope networks) hasGnbid nrStationKey"
    and "sx_nr found = lookupIndex (collectIdentifiers networks gnbidOf observed) VALUES_PER_QUERY
      (loadShared db scope networks) hasGnbid nrKey"
    and "sx_nrByNci found = lookupIndex (collectIdentifiers networks nciOf observed) VALUES_PER_QUERY
      (loadShared db scope networks) hasNci nciKey"
    and "sx_umtsByLac found = lookupIndex (collectIdentifiers networks (umtsLacPairOf (sx_umtsByRnc found)) observed) PAIRS_PER_QUERY
      (loadOwnAndGuests db scope networks) hasUmtsLacPair umtsLacKey"
    and "sx_lteStations found = lookupIndex (collectIdentifiers networks (enbidsOf (sx_lte found)) observed) VALUES_PER_QUERY
      (loadShared db scope networks) hasEnbid (lteStationKey networks)"
    and "sx_umtsMissing found = lookupIndex (collectIdentifiers networks (umtsChannelsOf (sx_umtsByRnc found) (sx_umtsByLac found)) observed)
      PAIRS_PER_QUERY (loadMissing db scope networks) hasUmtsChannel umtsMissingKey"
    and "sx_lteMissing found = lookupIndex (collectIdentifiers networks (lteChannelsOf (sx_lte found) (sx_lteStations found)) observed)
      PAIRS_PER_QUERY (loadMissing db scope networks) hasLteChannel lteMissingKey"
    and "sx_nrMissing found = lookupIndex
      (collectIdentifiers networks (nrChannelsOf (sx_nrByNci found) (sx_nr found) (sx_nrStations found)) observed)
      PAIRS_PER_QUERY (loadMissing db scope networks) hasNrChannel nrMissingKey"
  by (simp_all add: found_def findStoredCells_def Let_def)

lemma queries_positive [simp]: "0 < PAIRS_PER_QUERY" "0 < VALUES_PER_QUERY"
  by (simp_all add: PAIRS_PER_QUERY_def VALUES_PER_QUERY_def)

abbreviation batchIndex :: "analyzerDb \<Rightarrow> matchScope \<Rightarrow> observedCell list \<Rightarrow> storedCellIndex" where
  "batchIndex db scope observed \<equiv> findStoredCells db scope (matchableNetworks db scope observed) observed"

text \<open>What the cell asks for is asked for in the batch and alone.\<close>

lemma asked_for:
  assumes "observedIn db scope observed cell n" "v \<in> set (f n (ob_radio cell))"
  shows "v \<in> identifiersOf (collectIdentifiers (matchableNetworks db scope observed) f observed) (nw_operatorId n)"
  using assms by (auto simp: identifiersOf_collect observedIn_def)

lemma asked_for_by:
  assumes "observedIn db scope observed cell n"
    and "v \<in> identifiersOf (collectIdentifiers (matchableNetworks db scope observed) f observed) (nw_operatorId n)"
  obtains cell' where "cell' \<in> set observed" "v \<in> set (f n (ob_radio cell'))"
  using assms(2) observedIn_same [OF assms(1)] by (auto simp: identifiersOf_collect)

definition showsSame :: "int \<Rightarrow> storedCell option \<Rightarrow> storedCell option \<Rightarrow> bool" where
  "showsSame own x y \<longleftrightarrow> map_option (seenBy own) x = map_option (seenBy own) y"

lemma agree_asked:
  assumes obs: "observedIn db scope observed cell n"
    and lookups: "batch_lookup load has keyOf" "batch_lookup load' has keyOf'"
    and same: "load' (nw_operatorId n) = load (nw_operatorId n)" "keyOf' (nw_operatorId n) = keyOf (nw_operatorId n)"
    and ids: "idsIdentify (set (load (nw_operatorId n) (\<lambda>_. True)))"
    and size: "0 < size'"
    and asked: "\<And>row. keyOf (nw_operatorId n) row = Some (nw_operatorId n, vs) \<Longrightarrow>
      \<exists>v. has [v] row \<and> v \<in> set (f n (ob_radio cell)) \<and> v \<in> set (f' n (ob_radio cell))"
  shows "showsSame (nw_operatorId n)
    (lookupIndex (collectIdentifiers (matchableNetworks db scope observed) f observed) size' load has keyOf (nw_operatorId n, vs))
    (lookupIndex (collectIdentifiers (matchableNetworks db scope [cell]) f' [cell]) size' load' has keyOf' (nw_operatorId n, vs))"
proof -
  let ?own = "nw_operatorId n"
  let ?ids = "collectIdentifiers (matchableNetworks db scope observed) f observed"
  let ?ids' = "collectIdentifiers (matchableNetworks db scope [cell]) f' [cell]"
  have "(\<exists>v\<in>identifiersOf ?ids ?own. has [v] row) \<longleftrightarrow> (\<exists>v\<in>identifiersOf ?ids' ?own. has [v] row)"
    if "keyOf ?own row = Some (?own, vs)" for row
    using asked [OF that] asked_for [where f=f, OF obs] asked_for [where f=f', OF observedIn_alone [OF obs]] by blast
  then show ?thesis
    unfolding showsSame_def
    using batch_lookup.lookup_agree [OF lookups(1) lookups(2), of "(?own, vs)" ?ids ?ids' size'] same ids size
    by (simp add: distinct_collect)
qed

text \<open>Where no row that has the key carries an identifier anyone asks for, nothing is found.\<close>

lemma nothing_found:
  assumes "batch_lookup load has keyOf" "0 < size'"
    and "\<And>row v. \<lbrakk>keyOf own row = Some (own, vs); v \<in> identifiersOf (collectIdentifiers networks f observed) own\<rbrakk> \<Longrightarrow> \<not> has [v] row"
  shows "lookupIndex (collectIdentifiers networks f observed) size' load has keyOf (own, vs) = None"
proof -
  have empty: "{row \<in> set (load own (\<lambda>_. True)). keyOf own row = Some (own, vs) \<and>
      (\<exists>v\<in>identifiersOf (collectIdentifiers networks f observed) own. has [v] row)} = {}"
    using assms(3) by blast
  have "isBestRow own {} (lookupIndex (collectIdentifiers networks f observed) size' load has keyOf (own, vs))"
    using batch_lookup.lookup_best [OF assms(1) distinct_collect assms(2), of "(own, vs)" networks f observed] empty by simp
  then show ?thesis by (simp add: isBestRow_def split: option.splits)
qed

lemma observedIn_ids:
  assumes "observedIn db scope observed cell n"
  shows "idsIdentify (set (loadOwn db scope own P))" "idsIdentify (set (loadOwnAndGuests db scope networks own P))"
    "idsIdentify (set (loadShared db scope networks own P))" "idsIdentify (set (loadMissing db scope networks own P))"
  using assms by (simp_all add: observedIn_def idsIdentify_loads)

lemma agree_gsm:
  assumes "observedIn db scope observed cell n" "ob_radio cell = ObservedGsm c"
  shows "showsSame (nw_operatorId n) (sx_gsm (batchIndex db scope observed) (identityKey (nw_operatorId n) [og_lac c, og_cid c]))
    (sx_gsm (batchIndex db scope [cell]) (identityKey (nw_operatorId n) [og_lac c, og_cid c]))"
  unfolding found_simps identityKey_def
  by (rule agree_asked [OF assms(1) gsmLookup.batch_lookup_axioms gsmLookup.batch_lookup_axioms refl refl observedIn_ids(1) [OF assms(1)]])
    (auto simp: assms(2) gsmPairOf_def key_defs has_defs)

lemma agree_umtsByRnc:
  assumes "observedIn db scope observed cell n" "ob_radio cell = ObservedUmts c" "knownRnc (ou_rnc c) = Some rnc"
  shows "showsSame (nw_operatorId n) (sx_umtsByRnc (batchIndex db scope observed) (identityKey (nw_operatorId n) [rnc, ou_cid c]))
    (sx_umtsByRnc (batchIndex db scope [cell]) (identityKey (nw_operatorId n) [rnc, ou_cid c]))"
  unfolding found_simps identityKey_def
  by (rule agree_asked [OF assms(1) umtsRncLookup.batch_lookup_axioms umtsRncLookup.batch_lookup_axioms
      observedIn_loads(1) [OF assms(1), symmetric] refl observedIn_ids(2) [OF assms(1)]])
    (auto simp: assms(2,3) umtsRncPairOf_def key_defs has_defs)

lemma agree_lte:
  assumes "observedIn db scope observed cell n" "ob_radio cell = ObservedLte c" "0 < ol_enbid c"
  shows "showsSame (nw_operatorId n) (sx_lte (batchIndex db scope observed) (identityKey (nw_operatorId n) [int (ol_enbid c), ol_clid c]))
    (sx_lte (batchIndex db scope [cell]) (identityKey (nw_operatorId n) [int (ol_enbid c), ol_clid c]))"
  unfolding found_simps identityKey_def
  by (rule agree_asked [OF assms(1) lteLookup.batch_lookup_axioms lteLookup.batch_lookup_axioms
      observedIn_loads(2) [OF assms(1), symmetric] refl observedIn_ids(3) [OF assms(1)]])
    (auto simp: assms(2,3) ltePairOf_def key_defs has_defs)

lemma agree_nr:
  assumes "observedIn db scope observed cell n" "ob_radio cell = ObservedNr c" "nrCellIdentity n c = Some s"
  shows "showsSame (nw_operatorId n) (sx_nr (batchIndex db scope observed) (identityKey (nw_operatorId n) [nx_gnbid s, nx_clid s]))
      (sx_nr (batchIndex db scope [cell]) (identityKey (nw_operatorId n) [nx_gnbid s, nx_clid s]))"
    and "showsSame (nw_operatorId n) (sx_nrStations (batchIndex db scope observed) (identityKey (nw_operatorId n) [nx_gnbid s]))
      (sx_nrStations (batchIndex db scope [cell]) (identityKey (nw_operatorId n) [nx_gnbid s]))"
  unfolding found_simps identityKey_def
  by (rule agree_asked [OF assms(1) nrLookup.batch_lookup_axioms nrLookup.batch_lookup_axioms
        observedIn_loads(2) [OF assms(1), symmetric] refl observedIn_ids(3) [OF assms(1)]],
      auto simp: assms(2,3) gnbidOf_def key_defs has_defs bind_eq_Some_conv)
    (rule agree_asked [OF assms(1) nrStationLookup.batch_lookup_axioms nrStationLookup.batch_lookup_axioms
        observedIn_loads(2) [OF assms(1), symmetric] refl observedIn_ids(3) [OF assms(1)]],
      auto simp: assms(2,3) gnbidOf_def key_defs has_defs bind_eq_Some_conv)

lemma agree_nci:
  assumes "observedIn db scope observed cell n" "ob_radio cell = ObservedNr c" "on_nci c = Some nci"
  shows "showsSame (nw_operatorId n) (sx_nrByNci (batchIndex db scope observed) (identityKey (nw_operatorId n) [nci]))
    (sx_nrByNci (batchIndex db scope [cell]) (identityKey (nw_operatorId n) [nci]))"
  unfolding found_simps identityKey_def
  by (rule agree_asked [OF assms(1) nciLookup.batch_lookup_axioms nciLookup.batch_lookup_axioms
      observedIn_loads(2) [OF assms(1), symmetric] refl observedIn_ids(3) [OF assms(1)]])
    (auto simp: assms(2,3) nciOf_def key_defs has_defs bind_eq_Some_conv split: if_splits)

lemma showsSame_None: "showsSame own x y \<Longrightarrow> x = None \<longleftrightarrow> y = None"
  by (auto simp: showsSame_def)

lemma agree_umtsByLac:
  assumes "observedIn db scope observed cell n" "ob_radio cell = ObservedUmts c"
    and "\<And>rnc. knownRnc (ou_rnc c) = Some rnc \<Longrightarrow>
      sx_umtsByRnc (batchIndex db scope observed) (identityKey (nw_operatorId n) [rnc, ou_cid c]) = None"
  shows "showsSame (nw_operatorId n) (sx_umtsByLac (batchIndex db scope observed) (identityKey (nw_operatorId n) [ou_lac c, ou_cid c]))
    (sx_umtsByLac (batchIndex db scope [cell]) (identityKey (nw_operatorId n) [ou_lac c, ou_cid c]))"
proof -
  have alone: "sx_umtsByRnc (batchIndex db scope [cell]) (identityKey (nw_operatorId n) [rnc, ou_cid c]) = None"
    if "knownRnc (ou_rnc c) = Some rnc" for rnc
    using showsSame_None [OF agree_umtsByRnc [OF assms(1,2) that]] assms(3) [OF that] by simp
  have asked: "umtsLacPairOf (sx_umtsByRnc (batchIndex db scope observed)) n (ob_radio cell) = [(ou_lac c, ou_cid c)]"
    "umtsLacPairOf (sx_umtsByRnc (batchIndex db scope [cell])) n (ob_radio cell) = [(ou_lac c, ou_cid c)]"
    using assms(3) alone by (auto simp: umtsLacPairOf_def assms(2) split: option.splits)
  show ?thesis
    unfolding found_simps(7) unfolding identityKey_def
    by (rule agree_asked [OF assms(1) umtsLacLookup.batch_lookup_axioms umtsLacLookup.batch_lookup_axioms
        observedIn_loads(1) [OF assms(1), symmetric] refl observedIn_ids(2) [OF assms(1)]])
      (auto simp: asked key_defs has_defs bind_eq_Some_conv)
qed

text \<open>eNBIDs with one canonical form are equivalent.\<close>

lemma equivalentEnbids_cases:
  "equivalentEnbids n = plEquivalentEnbids (nw_operator n) \<or> equivalentEnbids n = (\<lambda>enbid. [enbid])"
  by (auto simp: equivalentEnbids_def conventionsFor_def plConventions_def gbConventions_def defaultConventions_def fun_eq_iff)

lemma canonicalEnbid_equivalent:
  assumes "canonicalEnbid n a = canonicalEnbid n b"
  shows "a \<in> set (equivalentEnbids n b)"
  using equivalentEnbids_cases [of n]
proof
  assume pl: "equivalentEnbids n = plEquivalentEnbids (nw_operator n)"
  have self: "e \<in> set (equivalentEnbids n e)" for e
    using equivalent_enbids [of e "nw_operator n"] by (simp add: pl)
  have canonical: "set (equivalentEnbids n (canonicalEnbid n e)) = set (equivalentEnbids n e)" for e
  proof -
    have "canonicalEnbid n e \<in> set (equivalentEnbids n e)"
      unfolding canonicalEnbid_def using self [of e] by (intro Min_in) auto
    then show ?thesis using equivalent_enbids [of e "nw_operator n"] by (simp add: pl)
  qed
  from canonical [of a] canonical [of b] assms self [of a] show ?thesis by simp
next
  assume "equivalentEnbids n = (\<lambda>enbid. [enbid])"
  with assms show ?thesis by (simp add: canonicalEnbid_def)
qed

lemma agree_lteStations:
  assumes "observedIn db scope observed cell n" "ob_radio cell = ObservedLte c" "0 < ol_enbid c"
    and "sx_lte (batchIndex db scope observed) (identityKey (nw_operatorId n) [int (ol_enbid c), ol_clid c]) = None"
  shows "showsSame (nw_operatorId n)
    (sx_lteStations (batchIndex db scope observed) (identityKey (nw_operatorId n) [int (canonicalEnbid n (ol_enbid c))]))
    (sx_lteStations (batchIndex db scope [cell]) (identityKey (nw_operatorId n) [int (canonicalEnbid n (ol_enbid c))]))"
proof -
  have "sx_lte (batchIndex db scope [cell]) (identityKey (nw_operatorId n) [int (ol_enbid c), ol_clid c]) = None"
    using showsSame_None [OF agree_lte [OF assms(1,2,3)]] assms(4) by simp
  then have asked: "enbidsOf (sx_lte (batchIndex db scope observed)) n (ob_radio cell) = equivalentEnbids n (ol_enbid c)"
    "enbidsOf (sx_lte (batchIndex db scope [cell])) n (ob_radio cell) = equivalentEnbids n (ol_enbid c)"
    using assms(3,4) by (simp_all add: enbidsOf_def assms(2))
  have net: "networkById (matchableNetworks db scope observed) (nw_operatorId n) = Some n"
    using matchable_by_operator(1) [OF _ observedIn_network [OF assms(1)]] assms(1) by (simp add: observedIn_def)
  show ?thesis
    unfolding found_simps(8) unfolding identityKey_def list.map
    by (rule agree_asked [OF assms(1) lteStationLookup.batch_lookup_axioms lteStationLookup.batch_lookup_axioms
        observedIn_loads(2) [OF assms(1), symmetric] observedIn_loads(4) [OF assms(1), symmetric] observedIn_ids(3) [OF assms(1)]])
      (auto simp: asked lteStationKey_def identityKey_def has_defs net intro: canonicalEnbid_equivalent)
qed

section \<open>Cells whose network code is missing\<close>

lemma nothing_missing:
  assumes "observedIn db scope observed cell n" "batch_lookup load has keyOf"
    and none: "\<not> hasCellNetworks (nw_countryCode n) \<or> (\<forall>row v. keyOf (nw_operatorId n) row = Some (nw_operatorId n, vs) \<longrightarrow> \<not> has [v] row)"
    and switch: "\<And>radio. \<not> hasCellNetworks (nw_countryCode n) \<Longrightarrow> f n radio = []"
  shows "lookupIndex (collectIdentifiers (matchableNetworks db scope observed) f observed) PAIRS_PER_QUERY load has keyOf
    (nw_operatorId n, vs) = None"
  by (rule nothing_found [OF assms(2) queries_positive(1)])
    (use none switch in \<open>auto elim!: asked_for_by [OF assms(1)]\<close>)

lemma switch_channels [simp]:
  "\<not> hasCellNetworks (nw_countryCode n) \<Longrightarrow> umtsChannelsOf byRnc byLac n radio = []"
  "\<not> hasCellNetworks (nw_countryCode n) \<Longrightarrow> lteChannelsOf lte stations n radio = []"
  "\<not> hasCellNetworks (nw_countryCode n) \<Longrightarrow> nrChannelsOf nci nr nrStations n radio = []"
  by (auto simp: umtsChannelsOf_def lteChannelsOf_def nrChannelsOf_def Let_def split: observedRadio.split option.split)

lemma agree_umtsMissing:
  assumes "observedIn db scope observed cell n" "ob_radio cell = ObservedUmts c"
    and rnc: "\<And>rnc. knownRnc (ou_rnc c) = Some rnc \<Longrightarrow>
      sx_umtsByRnc (batchIndex db scope observed) (identityKey (nw_operatorId n) [rnc, ou_cid c]) = None"
    and lac: "sx_umtsByLac (batchIndex db scope observed) (identityKey (nw_operatorId n) [ou_lac c, ou_cid c]) = None"
  shows "showsSame (nw_operatorId n)
    (sx_umtsMissing (batchIndex db scope observed) (nw_operatorId n, [knownRnc (ou_rnc c), Some (ou_cid c), ou_psc c, ou_uarfcn c]))
    (sx_umtsMissing (batchIndex db scope [cell]) (nw_operatorId n, [knownRnc (ou_rnc c), Some (ou_cid c), ou_psc c, ou_uarfcn c]))"
proof (cases "hasCellNetworks (nw_countryCode n) \<and> knownRnc (ou_rnc c) \<noteq> None \<and> ou_psc c \<noteq> None \<and> ou_uarfcn c \<noteq> None")
  case True
  then obtain r psc uarfcn where some: "knownRnc (ou_rnc c) = Some r" "ou_psc c = Some psc" "ou_uarfcn c = Some uarfcn" by blast
  have alone: "sx_umtsByRnc (batchIndex db scope [cell]) (identityKey (nw_operatorId n) [r, ou_cid c]) = None"
    using showsSame_None [OF agree_umtsByRnc [OF assms(1,2) some(1)]] rnc [OF some(1)] by simp
  have "sx_umtsByLac (batchIndex db scope [cell]) (identityKey (nw_operatorId n) [ou_lac c, ou_cid c]) = None"
    using showsSame_None [OF agree_umtsByLac [OF assms(1,2) rnc]] lac by simp
  with alone rnc lac True some have asked:
    "umtsChannelsOf (sx_umtsByRnc (batchIndex db scope observed)) (sx_umtsByLac (batchIndex db scope observed)) n (ob_radio cell) =
      [(r, ou_cid c, psc, uarfcn)]"
    "umtsChannelsOf (sx_umtsByRnc (batchIndex db scope [cell])) (sx_umtsByLac (batchIndex db scope [cell])) n (ob_radio cell) =
      [(r, ou_cid c, psc, uarfcn)]"
    by (simp_all add: umtsChannelsOf_def assms(2))
  show ?thesis
    unfolding found_simps(9)
    by (rule agree_asked [OF assms(1) umtsMissingLookup.batch_lookup_axioms umtsMissingLookup.batch_lookup_axioms
        observedIn_loads(3) [OF assms(1), symmetric] refl observedIn_ids(4) [OF assms(1)]])
      (auto simp: asked some umtsMissingKey_def hasUmtsChannel_def)
next
  case False
  then have none: "\<not> hasCellNetworks (nw_countryCode n) \<or> (\<forall>row v. umtsMissingKey (nw_operatorId n) row =
      Some (nw_operatorId n, [knownRnc (ou_rnc c), Some (ou_cid c), ou_psc c, ou_uarfcn c]) \<longrightarrow> \<not> hasUmtsChannel [v] row)"
    by (auto simp: umtsMissingKey_def hasUmtsChannel_def split: option.splits)
  show ?thesis
    unfolding found_simps(9)
    by (simp add: showsSame_def nothing_missing [OF assms(1) umtsMissingLookup.batch_lookup_axioms none]
        nothing_missing [OF observedIn_alone [OF assms(1)] umtsMissingLookup.batch_lookup_axioms none])
qed

lemma agree_lteMissing:
  assumes "observedIn db scope observed cell n" "ob_radio cell = ObservedLte c" "0 < ol_enbid c"
    and lte: "sx_lte (batchIndex db scope observed) (identityKey (nw_operatorId n) [int (ol_enbid c), ol_clid c]) = None"
    and station: "sx_lteStations (batchIndex db scope observed) (identityKey (nw_operatorId n) [int (canonicalEnbid n (ol_enbid c))]) = None"
  shows "showsSame (nw_operatorId n)
    (sx_lteMissing (batchIndex db scope observed) (nw_operatorId n, [Some (int (ol_enbid c)), Some (ol_clid c), ol_pci c, ol_earfcn c]))
    (sx_lteMissing (batchIndex db scope [cell]) (nw_operatorId n, [Some (int (ol_enbid c)), Some (ol_clid c), ol_pci c, ol_earfcn c]))"
proof (cases "hasCellNetworks (nw_countryCode n) \<and> ol_pci c \<noteq> None \<and> ol_earfcn c \<noteq> None")
  case True
  then obtain pci earfcn where some: "ol_pci c = Some pci" "ol_earfcn c = Some earfcn" by blast
  have alone: "sx_lte (batchIndex db scope [cell]) (identityKey (nw_operatorId n) [int (ol_enbid c), ol_clid c]) = None"
    using showsSame_None [OF agree_lte [OF assms(1-3)]] lte by simp
  have "sx_lteStations (batchIndex db scope [cell]) (identityKey (nw_operatorId n) [int (canonicalEnbid n (ol_enbid c))]) = None"
    using showsSame_None [OF agree_lteStations [OF assms(1-4)]] station by simp
  with alone lte station True some assms(3) have asked:
    "lteChannelsOf (sx_lte (batchIndex db scope observed)) (sx_lteStations (batchIndex db scope observed)) n (ob_radio cell) =
      [(int (ol_enbid c), ol_clid c, pci, earfcn)]"
    "lteChannelsOf (sx_lte (batchIndex db scope [cell])) (sx_lteStations (batchIndex db scope [cell])) n (ob_radio cell) =
      [(int (ol_enbid c), ol_clid c, pci, earfcn)]"
    by (simp_all add: lteChannelsOf_def assms(2))
  show ?thesis
    unfolding found_simps(10)
    by (rule agree_asked [OF assms(1) lteMissingLookup.batch_lookup_axioms lteMissingLookup.batch_lookup_axioms
        observedIn_loads(3) [OF assms(1), symmetric] refl observedIn_ids(4) [OF assms(1)]])
      (auto simp: asked some lteMissingKey_def hasLteChannel_def)
next
  case False
  then have none: "\<not> hasCellNetworks (nw_countryCode n) \<or> (\<forall>row v. lteMissingKey (nw_operatorId n) row =
      Some (nw_operatorId n, [Some (int (ol_enbid c)), Some (ol_clid c), ol_pci c, ol_earfcn c]) \<longrightarrow> \<not> hasLteChannel [v] row)"
    by (auto simp: lteMissingKey_def hasLteChannel_def split: option.splits)
  show ?thesis
    unfolding found_simps(10)
    by (simp add: showsSame_def nothing_missing [OF assms(1) lteMissingLookup.batch_lookup_axioms none]
        nothing_missing [OF observedIn_alone [OF assms(1)] lteMissingLookup.batch_lookup_axioms none])
qed

lemma agree_nrMissing:
  assumes "observedIn db scope observed cell n" "ob_radio cell = ObservedNr c" "nrCellIdentity n c = Some s"
    and nci: "\<And>nci. on_nci c = Some nci \<Longrightarrow> sx_nrByNci (batchIndex db scope observed) (identityKey (nw_operatorId n) [nci]) = None"
    and nr: "sx_nr (batchIndex db scope observed) (identityKey (nw_operatorId n) [nx_gnbid s, nx_clid s]) = None"
    and station: "sx_nrStations (batchIndex db scope observed) (identityKey (nw_operatorId n) [nx_gnbid s]) = None"
  shows "showsSame (nw_operatorId n)
    (sx_nrMissing (batchIndex db scope observed) (nw_operatorId n, [Some (nx_gnbid s), Some (nx_clid s), on_pci c, on_arfcn c]))
    (sx_nrMissing (batchIndex db scope [cell]) (nw_operatorId n, [Some (nx_gnbid s), Some (nx_clid s), on_pci c, on_arfcn c]))"
proof (cases "hasCellNetworks (nw_countryCode n) \<and> on_pci c \<noteq> None \<and> on_arfcn c \<noteq> None")
  case True
  then obtain pci arfcn where some: "on_pci c = Some pci" "on_arfcn c = Some arfcn" by blast
  have alone: "sx_nrByNci (batchIndex db scope [cell]) (identityKey (nw_operatorId n) [v]) = None" if "on_nci c = Some v" for v
    using showsSame_None [OF agree_nci [OF assms(1,2) that]] nci [OF that] by simp
  have "sx_nr (batchIndex db scope [cell]) (identityKey (nw_operatorId n) [nx_gnbid s, nx_clid s]) = None"
    "sx_nrStations (batchIndex db scope [cell]) (identityKey (nw_operatorId n) [nx_gnbid s]) = None"
    using showsSame_None [OF agree_nr(1) [OF assms(1-3)]] showsSame_None [OF agree_nr(2) [OF assms(1-3)]] nr station by simp_all
  with alone nci nr station True some have asked:
    "nrChannelsOf (sx_nrByNci (batchIndex db scope observed)) (sx_nr (batchIndex db scope observed))
      (sx_nrStations (batchIndex db scope observed)) n (ob_radio cell) = [(nx_gnbid s, nx_clid s, pci, arfcn)]"
    "nrChannelsOf (sx_nrByNci (batchIndex db scope [cell])) (sx_nr (batchIndex db scope [cell]))
      (sx_nrStations (batchIndex db scope [cell])) n (ob_radio cell) = [(nx_gnbid s, nx_clid s, pci, arfcn)]"
    by (auto simp: nrChannelsOf_def assms(2,3) split: option.split)
  show ?thesis
    unfolding found_simps(11)
    by (rule agree_asked [OF assms(1) nrMissingLookup.batch_lookup_axioms nrMissingLookup.batch_lookup_axioms
        observedIn_loads(3) [OF assms(1), symmetric] refl observedIn_ids(4) [OF assms(1)]])
      (auto simp: asked some nrMissingKey_def hasNrChannel_def)
next
  case False
  then have none: "\<not> hasCellNetworks (nw_countryCode n) \<or> (\<forall>row v. nrMissingKey (nw_operatorId n) row =
      Some (nw_operatorId n, [Some (nx_gnbid s), Some (nx_clid s), on_pci c, on_arfcn c]) \<longrightarrow> \<not> hasNrChannel [v] row)"
    by (auto simp: nrMissingKey_def hasNrChannel_def split: option.splits)
  show ?thesis
    unfolding found_simps(11)
    by (simp add: showsSame_def nothing_missing [OF assms(1) nrMissingLookup.batch_lookup_axioms none]
        nothing_missing [OF observedIn_alone [OF assms(1)] nrMissingLookup.batch_lookup_axioms none])
qed

section \<open>The answer for the cell\<close>

declare findDifferences.simps [simp del]

lemma seenByD:
  assumes "seenBy own a = seenBy own b"
  shows "networkMatchOf a own = networkMatchOf b own" "sc_id a = sc_id b" "sc_stationId a = sc_stationId b"
    "sc_features a = sc_features b" "sc_gsm a = sc_gsm b" "sc_umts a = sc_umts b" "sc_lte a = sc_lte b" "sc_nr a = sc_nr b"
proof -
  have eq: "a\<lparr>sc_through := None\<rparr> = b\<lparr>sc_through := None\<rparr>" using assms by (simp add: seenBy_def)
  show "networkMatchOf a own = networkMatchOf b own" using assms by (simp add: seenBy_def)
  show "sc_id a = sc_id b" "sc_stationId a = sc_stationId b" "sc_features a = sc_features b" "sc_gsm a = sc_gsm b"
    "sc_umts a = sc_umts b" "sc_lte a = sc_lte b" "sc_nr a = sc_nr b"
    using arg_cong [OF eq, of sc_id] arg_cong [OF eq, of sc_stationId] arg_cong [OF eq, of sc_features] arg_cong [OF eq, of sc_gsm]
      arg_cong [OF eq, of sc_umts] arg_cong [OF eq, of sc_lte] arg_cong [OF eq, of sc_nr] by simp_all
qed

lemma showsSame_cases [consumes 1, case_names neither both]:
  assumes "showsSame own x y"
  obtains "x = None" "y = None" | a b where "x = Some a" "y = Some b" "seenBy own a = seenBy own b"
  using assms by (cases x; cases y) (auto simp: showsSame_def)

lemma fst_matchedAs:
  "seenBy (nw_operatorId n) a = seenBy (nw_operatorId n) b \<Longrightarrow> fst (matchedAs how n a d i) = fst (matchedAs how n b d i)"
  by (simp add: matchedAs_def Let_def seenByD [of "nw_operatorId n" a b])

lemma index_rows:
  "sx_umtsByRnc (batchIndex db scope observed) k = Some row \<Longrightarrow> sc_umts row \<noteq> None"
  "sx_umtsByLac (batchIndex db scope observed) k = Some row \<Longrightarrow> sc_umts row \<noteq> None"
  "sx_lte (batchIndex db scope observed) k = Some row \<Longrightarrow> sc_lte row \<noteq> None"
  "sx_nr (batchIndex db scope observed) k = Some row \<Longrightarrow> sc_nr row \<noteq> None"
  "sx_nrByNci (batchIndex db scope observed) k = Some row \<Longrightarrow> sc_nr row \<noteq> None"
proof -
  assume "sx_umtsByRnc (batchIndex db scope observed) k = Some row"
  from umtsRncLookup.lookup_key [OF distinct_collect queries_positive(1) this [unfolded found_simps]]
  show "sc_umts row \<noteq> None" by (auto simp: key_defs)
next
  assume "sx_umtsByLac (batchIndex db scope observed) k = Some row"
  from umtsLacLookup.lookup_key [OF distinct_collect queries_positive(1) this [unfolded found_simps(7)]]
  show "sc_umts row \<noteq> None" by (auto simp: key_defs bind_eq_Some_conv)
next
  assume "sx_lte (batchIndex db scope observed) k = Some row"
  from lteLookup.lookup_key [OF distinct_collect queries_positive(1) this [unfolded found_simps]]
  show "sc_lte row \<noteq> None" by (auto simp: key_defs)
next
  assume "sx_nr (batchIndex db scope observed) k = Some row"
  from nrLookup.lookup_key [OF distinct_collect queries_positive(2) this [unfolded found_simps]]
  show "sc_nr row \<noteq> None" by (auto simp: key_defs bind_eq_Some_conv)
next
  assume "sx_nrByNci (batchIndex db scope observed) k = Some row"
  from nciLookup.lookup_key [OF distinct_collect queries_positive(2) this [unfolded found_simps]]
  show "sc_nr row \<noteq> None" by (auto simp: key_defs bind_eq_Some_conv split: if_splits)
qed

lemma umtsOf_seen:
  "\<lbrakk>seenBy own a = seenBy own b; sc_umts a \<noteq> None\<rbrakk> \<Longrightarrow> \<exists>u. umtsOf (Some a) = Some (a, u) \<and> umtsOf (Some b) = Some (b, u)"
  by (auto simp: umtsOf_def dest: seenByD(6))

lemma lteOf_seen:
  "\<lbrakk>seenBy own a = seenBy own b; sc_lte a \<noteq> None\<rbrakk> \<Longrightarrow> \<exists>u. lteOf (Some a) = Some (a, u) \<and> lteOf (Some b) = Some (b, u)"
  by (auto simp: lteOf_def dest: seenByD(7))

lemma nrOf_seen:
  "\<lbrakk>seenBy own a = seenBy own b; sc_nr a \<noteq> None\<rbrakk> \<Longrightarrow> \<exists>u. nrOf (Some a) = Some (a, u) \<and> nrOf (Some b) = Some (b, u)"
  by (auto simp: nrOf_def dest: seenByD(8))

lemma nothingOf [simp]: "umtsOf None = None" "lteOf None = None" "nrOf None = None"
  by (simp_all add: umtsOf_def lteOf_def nrOf_def)

lemma resolveGsm_alone:
  assumes "observedIn db scope observed cell n" "ob_radio cell = ObservedGsm c"
  shows "fst (resolveGsm n (batchIndex db scope observed) c) = fst (resolveGsm n (batchIndex db scope [cell]) c)"
  using agree_gsm [OF assms]
proof (cases rule: showsSame_cases)
  case neither
  then show ?thesis by (simp add: resolveGsm_def)
next
  case (both a b)
  note seen = seenByD [OF both(3)]
  show ?thesis
    by (simp add: resolveGsm_def both(1,2) seen fst_matchedAs [OF both(3)] split: option.split)
qed

lemma resolveUmts_alone:
  assumes "observedIn db scope observed cell n" "ob_radio cell = ObservedUmts c"
  shows "fst (resolveUmts n (batchIndex db scope observed) c) = fst (resolveUmts n (batchIndex db scope [cell]) c)"
proof -
  let ?own = "nw_operatorId n" and ?batch = "batchIndex db scope observed" and ?alone = "batchIndex db scope [cell]"
  let ?byRnc = "\<lambda>found. Option.bind (knownRnc (ou_rnc c)) (\<lambda>r. sx_umtsByRnc found (identityKey ?own [r, ou_cid c]))"
  have "showsSame ?own (?byRnc ?batch) (?byRnc ?alone)"
    using agree_umtsByRnc [OF assms] by (cases "knownRnc (ou_rnc c)") (simp_all add: showsSame_def)
  then show ?thesis
  proof (cases rule: showsSame_cases)
    case (both a b)
    then obtain r where "sx_umtsByRnc ?batch (identityKey ?own [r, ou_cid c]) = Some a" by (auto simp: bind_eq_Some_conv)
    then have "sc_umts a \<noteq> None" by (rule index_rows(1))
    then obtain u where "umtsOf (Some a) = Some (a, u)" "umtsOf (Some b) = Some (b, u)" using umtsOf_seen [OF both(3)] by blast
    then show ?thesis
      using seenByD(4) [OF both(3)] fst_matchedAs [OF both(3)] by (simp add: resolveUmts_def Let_def both(1,2))
  next
    case neither
    then have rnc: "sx_umtsByRnc ?batch (identityKey ?own [r, ou_cid c]) = None" if "knownRnc (ou_rnc c) = Some r" for r
      using that by simp
    have "showsSame ?own (sx_umtsByLac ?batch (identityKey ?own [ou_lac c, ou_cid c])) (sx_umtsByLac ?alone (identityKey ?own [ou_lac c, ou_cid c]))"
      using agree_umtsByLac [OF assms] rnc by blast
    then show ?thesis
    proof (cases rule: showsSame_cases)
      case (both a b)
      have "sc_umts a \<noteq> None" using both(1) by (rule index_rows(2))
      then obtain u where "umtsOf (Some a) = Some (a, u)" "umtsOf (Some b) = Some (b, u)" using umtsOf_seen [OF both(3)] by blast
      then show ?thesis
        using seenByD(4) [OF both(3)] fst_matchedAs [OF both(3)] neither by (simp add: resolveUmts_def Let_def both(1,2))
    next
      case lac: neither
      have "showsSame ?own (sx_umtsMissing ?batch (?own, [knownRnc (ou_rnc c), Some (ou_cid c), ou_psc c, ou_uarfcn c]))
          (sx_umtsMissing ?alone (?own, [knownRnc (ou_rnc c), Some (ou_cid c), ou_psc c, ou_uarfcn c]))"
        using agree_umtsMissing [OF assms] rnc lac(1) by blast
      then show ?thesis
      proof (cases rule: showsSame_cases)
        case missing: neither
        then show ?thesis using neither lac by (simp add: resolveUmts_def Let_def)
      next
        case (both a b)
        then show ?thesis using neither lac fst_matchedAs [OF both(3)]
          by (simp add: resolveUmts_def Let_def matchedMissingCode_def)
      qed
    qed
  qed
qed

lemma resolveLte_alone:
  assumes "observedIn db scope observed cell n" "ob_radio cell = ObservedLte c"
  shows "fst (resolveLte n (batchIndex db scope observed) c) = fst (resolveLte n (batchIndex db scope [cell]) c)"
proof (cases "ol_enbid c = 0")
  case True
  then show ?thesis by (simp add: resolveLte_def)
next
  case False
  then have pos: "0 < ol_enbid c" by simp
  from agree_lte [OF assms pos] show ?thesis
  proof (cases rule: showsSame_cases)
    case (both a b)
    have "sc_lte a \<noteq> None" using both(1) by (rule index_rows(3))
    then obtain u where "lteOf (Some a) = Some (a, u)" "lteOf (Some b) = Some (b, u)" using lteOf_seen [OF both(3)] by blast
    then show ?thesis
      using seenByD(4) [OF both(3)] fst_matchedAs [OF both(3)] by (simp add: resolveLte_def Let_def both(1,2))
  next
    case lte: neither
    from agree_lteStations [OF assms pos lte(1)] show ?thesis
    proof (cases rule: showsSame_cases)
      case (both a b)
      then show ?thesis using lte fst_matchedAs [OF both(3)] by (simp add: resolveLte_def Let_def)
    next
      case station: neither
      from agree_lteMissing [OF assms pos lte(1) station(1)] show ?thesis
      proof (cases rule: showsSame_cases)
        case neither
        then show ?thesis using lte station by (simp add: resolveLte_def Let_def)
      next
        case (both a b)
        then show ?thesis using lte station fst_matchedAs [OF both(3)] by (simp add: resolveLte_def Let_def matchedMissingCode_def)
      qed
    qed
  qed
qed

text \<open>The NR row: by the NCI first, by the split identity otherwise.\<close>

definition exactNr :: "network \<Rightarrow> storedCellIndex \<Rightarrow> observedNr \<Rightarrow> storedCell option" where
  "exactNr net found c =
    (case Option.bind (on_nci c) (\<lambda>nci. sx_nrByNci found (identityKey (nw_operatorId net) [nci])) of
       Some row \<Rightarrow> Some row
     | None \<Rightarrow> Option.bind (nrCellIdentity net c) (\<lambda>s. sx_nr found (identityKey (nw_operatorId net) [nx_gnbid s, nx_clid s])))"

lemma agree_exactNr:
  assumes "observedIn db scope observed cell n" "ob_radio cell = ObservedNr c"
  shows "showsSame (nw_operatorId n) (exactNr n (batchIndex db scope observed) c) (exactNr n (batchIndex db scope [cell]) c)"
proof -
  have "showsSame (nw_operatorId n)
      (Option.bind (on_nci c) (\<lambda>nci. sx_nrByNci (batchIndex db scope observed) (identityKey (nw_operatorId n) [nci])))
      (Option.bind (on_nci c) (\<lambda>nci. sx_nrByNci (batchIndex db scope [cell]) (identityKey (nw_operatorId n) [nci])))"
    using agree_nci [OF assms] by (cases "on_nci c") (simp_all add: showsSame_def)
  moreover have "showsSame (nw_operatorId n)
      (Option.bind (nrCellIdentity n c) (\<lambda>s. sx_nr (batchIndex db scope observed) (identityKey (nw_operatorId n) [nx_gnbid s, nx_clid s])))
      (Option.bind (nrCellIdentity n c) (\<lambda>s. sx_nr (batchIndex db scope [cell]) (identityKey (nw_operatorId n) [nx_gnbid s, nx_clid s])))"
    using agree_nr(1) [OF assms] by (cases "nrCellIdentity n c") (simp_all add: showsSame_def)
  ultimately show ?thesis by (auto simp: exactNr_def showsSame_def split: option.split)
qed

lemma exactNr_row: "exactNr n (batchIndex db scope observed) c = Some row \<Longrightarrow> sc_nr row \<noteq> None"
  by (auto simp: exactNr_def bind_eq_Some_conv split: option.splits dest: index_rows(4,5) simp del: not_None_eq)

lemma resolveNr_alone:
  assumes "observedIn db scope observed cell n" "ob_radio cell = ObservedNr c"
  shows "fst (resolveNr n (batchIndex db scope observed) c) = fst (resolveNr n (batchIndex db scope [cell]) c)"
  using agree_exactNr [OF assms]
proof (cases rule: showsSame_cases)
  case (both a b)
  have "sc_nr a \<noteq> None" using both(1) by (rule exactNr_row)
  then obtain u where u: "nrOf (Some a) = Some (a, u)" "nrOf (Some b) = Some (b, u)" using nrOf_seen [OF both(3)] by blast
  have "storedNrIdentity a = storedNrIdentity b" using seenByD(8) [OF both(3)] by (simp add: storedNrIdentity_def)
  then show ?thesis
    using u both(1,2) seenByD(4) [OF both(3)] fst_matchedAs [OF both(3)]
    unfolding resolveNr_def Let_def exactNr_def [symmetric] by (simp split: option.split)
next
  case exact: neither
  show ?thesis
  proof (cases "nrCellIdentity n c")
    case None
    then show ?thesis unfolding resolveNr_def Let_def exactNr_def [symmetric] by (simp add: exact)
  next
    case (Some s)
    have nci: "sx_nrByNci (batchIndex db scope observed) (identityKey (nw_operatorId n) [v]) = None" if "on_nci c = Some v" for v
      using exact(1) that by (simp add: exactNr_def split: option.splits)
    have nr: "sx_nr (batchIndex db scope observed) (identityKey (nw_operatorId n) [nx_gnbid s, nx_clid s]) = None"
      using exact(1) Some by (auto simp: exactNr_def split: option.splits)
    from agree_nr(2) [OF assms Some] show ?thesis
    proof (cases rule: showsSame_cases)
      case (both a b)
      then show ?thesis using exact Some fst_matchedAs [OF both(3)] unfolding resolveNr_def Let_def exactNr_def [symmetric] by simp
    next
      case station: neither
      have "showsSame (nw_operatorId n)
          (sx_nrMissing (batchIndex db scope observed) (nw_operatorId n, [Some (nx_gnbid s), Some (nx_clid s), on_pci c, on_arfcn c]))
          (sx_nrMissing (batchIndex db scope [cell]) (nw_operatorId n, [Some (nx_gnbid s), Some (nx_clid s), on_pci c, on_arfcn c]))"
        using agree_nrMissing [OF assms Some] nci nr station(1) by blast
      then show ?thesis
      proof (cases rule: showsSame_cases)
        case neither
        then show ?thesis using exact Some station unfolding resolveNr_def Let_def exactNr_def [symmetric] by simp
      next
        case (both a b)
        then show ?thesis using exact Some station fst_matchedAs [OF both(3)]
          unfolding resolveNr_def Let_def exactNr_def [symmetric] by (simp add: matchedMissingCode_def)
      qed
    qed
  qed
qed

lemma resolveCell_alone:
  assumes "distinct (map sc_id (ad_cells db))" "oneCodePerOperator (matchableNetworks db scope observed)" "cell \<in> set observed"
  shows "fst (resolveCell (aloneNetwork db scope (ob_plmn cell)) (batchIndex db scope observed) (ob_radio cell)) =
    fst (resolveCell (aloneNetwork db scope (ob_plmn cell)) (batchIndex db scope [cell]) (ob_radio cell))"
proof (cases "aloneNetwork db scope (ob_plmn cell)")
  case None
  then show ?thesis by (simp add: resolveCell_def)
next
  case (Some n)
  show ?thesis
  proof (cases "nw_isMatchable n")
    case True
    then have obs: "observedIn db scope observed cell n"
      using assms Some by (simp add: observedIn_def map_of_matchable)
    show ?thesis
      using resolveGsm_alone [OF obs] resolveUmts_alone [OF obs] resolveLte_alone [OF obs] resolveNr_alone [OF obs] Some True
      by (cases "ob_radio cell") (simp_all add: resolveCell_def)
  next
    case False
    then show ?thesis by (simp add: resolveCell_def Some)
  qed
qed

lemma matchInScope_batch:
  "snd (matchInScope db scope observed) =
    map (\<lambda>cell. resolveCell (aloneNetwork db scope (ob_plmn cell)) (batchIndex db scope observed) (ob_radio cell)) observed"
  by (simp add: matchInScope_def Let_def matchableNetworks_def map_of_resolveNetworks)

text \<open>
  C20. The answer for a cell of a batch is the answer for that cell alone, whatever else is in the batch and in
  whatever order, when cell ids are unique and no operator is observed under two of its codes.
\<close>

theorem batch_matches_alone:
  assumes "distinct (map sc_id (ad_cells db))"
    and "oneCodePerOperator (matchableNetworks db (readerScope hidden) observed)"
  shows "matchCells db hidden observed = concat (map (\<lambda>cell. matchCells db hidden [cell]) observed)"
proof -
  have "fst (resolveCell (aloneNetwork db (readerScope hidden) (ob_plmn cell)) (batchIndex db (readerScope hidden) observed) (ob_radio cell)) =
      fst (resolveCell (aloneNetwork db (readerScope hidden) (ob_plmn cell)) (batchIndex db (readerScope hidden) [cell]) (ob_radio cell))"
    if "cell \<in> set observed" for cell
    using resolveCell_alone [OF assms that] .
  then have "matchCells db hidden observed =
      map (\<lambda>cell. fst (resolveCell (aloneNetwork db (readerScope hidden) (ob_plmn cell)) (batchIndex db (readerScope hidden) [cell]) (ob_radio cell)))
        observed"
    by (simp add: matchCells_def matchInScope_batch)
  also have "\<dots> = concat (map (\<lambda>cell. matchCells db hidden [cell]) observed)"
    by (simp add: matchCells_def matchInScope_batch)
  finally show ?thesis .
qed

section \<open>An example\<close>

text \<open>
  An operator with two codes, and a cell of another operator that broadcasts the second one.
\<close>

definition exampleGuest :: storedCell where
  "exampleGuest = \<lparr>sc_id = 7, sc_stationId = 70, sc_operatorId = Some 2, sc_status = SitePublished, sc_countryCode = Some ''DE'',
     sc_features = \<lparr>cf_psc = True, cf_bsic = True\<rparr>, sc_extraCodes = [''26206''], sc_gsm = None, sc_umts = None,
     sc_lte = Some \<lparr>sl_tac = Some 5, sl_enbid = 100, sl_clid = 1, sl_pci = Some 9, sl_earfcn = None\<rparr>, sc_nr = None, sc_through = None\<rparr>"

definition exampleTables :: analyzerDb where
  "exampleTables = \<lparr>ad_cells = [exampleGuest, exampleGuest\<lparr>sc_id := 8, sc_operatorId := Some 1, sc_extraCodes := [],
       sc_lte := Some \<lparr>sl_tac = None, sl_enbid = 200, sl_clid = 2, sl_pci = None, sl_earfcn = None\<rparr>\<rparr>],
     ad_plmnCodes = [(''26201'', 1), (''26206'', 1), (''26203'', 2)],
     ad_operatorCountry = (\<lambda>i. if i = 1 \<or> i = 2 then Some ''DE'' else None),
     ad_hasAnalyzer = (\<lambda>_. True), ad_ventureLinks = [],
     ad_operatorRefs = (\<lambda>i. Some \<lparr>op_id = i, op_primaryPlmn = None, op_sharedNetworkPlmns = []\<rparr>)\<rparr>"

definition seenLte :: "string \<Rightarrow> nat \<Rightarrow> int \<Rightarrow> observedCell" where
  "seenLte plmn enbid clid = \<lparr>ob_plmn = plmn, ob_radio = ObservedLte \<lparr>ol_enbid = enbid, ol_clid = clid, ol_tac = Some 5,
     ol_pci = Some 9, ol_earfcn = None\<rparr>\<rparr>"

lemma exampleTables_ids: "distinct (map sc_id (ad_cells exampleTables))"
  by (simp add: exampleTables_def exampleGuest_def)

lemma exampleTables_oneCode:
  "oneCodePerOperator (matchableNetworks exampleTables (readerScope []) [seenLte ''26201'' 200 2, seenLte ''26203'' 100 1])"
  by code_simp

lemma exampleTables_alone:
  "map (\<lambda>r. (mr_cellId r, mr_match r)) (concat (map (\<lambda>cell. matchCells exampleTables [] [cell]) [seenLte ''26201'' 200 2, seenLte ''26203'' 100 1])) =
    [(Some 8, MatchedCell), (Some 7, MatchedCell)]"
  by code_simp

theorem batch_matches_alone_witness:
  "map (\<lambda>r. (mr_cellId r, mr_match r)) (matchCells exampleTables [] [seenLte ''26201'' 200 2, seenLte ''26203'' 100 1]) =
    [(Some 8, MatchedCell), (Some 7, MatchedCell)]"
  unfolding batch_matches_alone [OF exampleTables_ids exampleTables_oneCode] by (rule exampleTables_alone)

text \<open>
  Without that condition the answer depends on the rest of the batch: the guest cell is unknown under the
  operator's first code, and found under it once another cell of the batch names the second code.
\<close>

theorem guest_match_depends_on_batch:
  "map mr_match (matchCells exampleTables [] [seenLte ''26201'' 100 1]) = [MatchedNone] \<and>
   map mr_match (matchCells exampleTables [] [seenLte ''26201'' 100 1, seenLte ''26206'' 1 1]) = [MatchedCell, MatchedNone]"
  by code_simp

section \<open>Official sites\<close>

text \<open>
  What a source finds for a cell lands at that cell's place, and only cells of its country are asked for.
\<close>

lemma inCountry_positions: "map snd (inCountry code cells) =
    filter (\<lambda>p. \<exists>c. cells ! p = Some c \<and> uc_countryCode c = code) [0..<length cells]"
proof -
  have "map snd (List.map_filter (\<lambda>(position, cell).
        case cell of Some c \<Rightarrow> if uc_countryCode c = code then Some (c, position) else None | None \<Rightarrow> None) (enumerate n cells)) =
      filter (\<lambda>p. \<exists>c. cells ! (p - n) = Some c \<and> uc_countryCode c = code) [n..<n + length cells]" for n
  proof (induction cells arbitrary: n)
    case Nil
    then show ?case by (simp add: map_filter_simps)
  next
    case (Cons cell cells)
    have "filter (\<lambda>p. \<exists>c. (cell # cells) ! (p - n) = Some c \<and> uc_countryCode c = code) [Suc n..<Suc (n + length cells)] =
        filter (\<lambda>p. \<exists>c. cells ! (p - Suc n) = Some c \<and> uc_countryCode c = code) [Suc n..<Suc (n + length cells)]"
      by (rule filter_cong) (auto simp: nth_Cons' diff_Suc split: nat.split)
    then show ?case using Cons.IH [of "Suc n"]
      by (auto simp: map_filter_simps upt_conv_Cons simp del: upt_Suc split: option.split)
  qed
  from this [of 0] show ?thesis by (simp add: inCountry_def)
qed

lemma distinct_inCountry: "distinct (map snd (inCountry code cells))"
  by (simp add: inCountry_positions)

lemma length_findSourceSites [simp]: "length (findSourceSites source cells) = length cells"
proof -
  have "length (fold (\<lambda>(index, _, position) ids. ids[position := g index]) xs ids) = length ids" for xs :: "(nat \<times> unmatchedCell \<times> nat) list" and g :: "nat \<Rightarrow> int list" and ids
    by (induction xs arbitrary: ids) (auto split: prod.split)
  then show ?thesis by (simp add: findSourceSites_def Let_def split: option.split)
qed

text \<open>
  C0. A cell gets at most five official sites, all of them public and found by a source for that cell's place,
  and the sites the answer lists are the public ones that some cell got.
\<close>

theorem official_sites_answer:
  assumes "i < length cells"
  shows "length (om_siteIds (findOfficialSites sources load cells)) = length cells \<and>
    length (om_siteIds (findOfficialSites sources load cells) ! i) \<le> 5 \<and>
    set (om_siteIds (findOfficialSites sources load cells) ! i) \<subseteq>
      fst ` set (om_sites (findOfficialSites sources load cells)) \<inter> \<Union> ((\<lambda>source. set (findSourceSites source cells ! i)) ` set sources) \<and>
    fst ` set (om_sites (findOfficialSites sources load cells)) = \<Union> (set ` set (om_siteIds (findOfficialSites sources load cells)))"
proof -
  let ?candidates = "findCandidateSiteIds sources cells"
  let ?public = "load (uniq (concat ?candidates))"
  let ?ids = "map (\<lambda>ids. take OFFICIAL_SITES_PER_CELL (filter (\<lambda>i. i \<in> fst ` set ?public) ids)) ?candidates"
  have len: "length ?candidates = length cells" by (simp add: findCandidateSiteIds_def)
  have candidate: "set (?candidates ! i) = \<Union> ((\<lambda>source. set (findSourceSites source cells ! i)) ` set sources)"
    using assms by (simp add: findCandidateSiteIds_def Let_def)
  have siteIds: "om_siteIds (findOfficialSites sources load cells) = ?ids"
    by (simp add: findOfficialSites_def Let_def)
  have public: "set ids \<subseteq> fst ` set ?public" if "ids \<in> set ?ids" for ids
    using that by (auto dest!: in_set_takeD)
  have sites: "fst ` set (om_sites (findOfficialSites sources load cells)) = \<Union> (set ` set ?ids)"
  proof
    show "fst ` set (om_sites (findOfficialSites sources load cells)) \<subseteq> \<Union> (set ` set ?ids)"
      by (auto simp: findOfficialSites_def Let_def)
    show "\<Union> (set ` set ?ids) \<subseteq> fst ` set (om_sites (findOfficialSites sources load cells))"
      using public by (force simp: findOfficialSites_def Let_def)
  qed
  have nth: "?ids ! i = take OFFICIAL_SITES_PER_CELL (filter (\<lambda>i. i \<in> fst ` set ?public) (?candidates ! i))"
    using assms len by simp
  have mem: "?ids ! i \<in> set ?ids" by (rule nth_mem) (simp add: len assms)
  have "set (?ids ! i) \<subseteq> set (?candidates ! i)" unfolding nth by (auto dest!: in_set_takeD)
  moreover have "length (?ids ! i) \<le> 5" unfolding nth by (simp add: OFFICIAL_SITES_PER_CELL_def)
  moreover have "set (?ids ! i) \<subseteq> \<Union> (set ` set ?ids)" using mem by blast
  ultimately show ?thesis unfolding siteIds sites using len candidate by (simp del: set_map)
qed

definition exampleSource :: officialSource where
  "exampleSource = \<lparr>os_countryCode = ''DE'', os_find = Some (map (\<lambda>_. [1, 2, 3, 4, 5, 6, 7]))\<rparr>"

definition exampleCells :: "unmatchedCell option list" where
  "exampleCells = [None, Some \<lparr>uc_countryCode = ''DE'', uc_operator = \<lparr>op_id = 1, op_primaryPlmn = None, op_sharedNetworkPlmns = []\<rparr>,
     uc_operatorIds = [1], uc_enbid = 100\<rparr>]"

lemma exampleCells_sites:
  "om_siteIds (findOfficialSites [exampleSource] (map (\<lambda>i. (i, ()))) exampleCells) ! 1 = [1, 2, 3, 4, 5]"
  by code_simp

theorem official_sites_answer_witness:
  "length [1::int, 2, 3, 4, 5] \<le> 5 \<and>
   set [1, 2, 3, 4, 5] \<subseteq> fst ` set (om_sites (findOfficialSites [exampleSource] (map (\<lambda>i. (i, ()))) exampleCells))"
proof -
  have "1 < length exampleCells" by (simp add: exampleCells_def)
  from official_sites_answer [OF this, of "[exampleSource]" "map (\<lambda>i. (i, ()))"] show ?thesis
    unfolding exampleCells_sites by blast
qed

end
