(* ===== verification/Duplicates.thy ===== *)
theory Duplicates
  imports Validate
begin

text \<open>
  Which cells may not be stored twice (apps/server/src/features/cells: identityDuplicateSpecs.ts,
  pciDuplicateSpecs.ts, networkWrites.ts, duplicateCheck.ts, and the checks over one request in
  features/submissions/helpers.ts). A query is a filter of the joined rows of the tables; a thrown
  \<open>ErrorResponse\<close> is \<open>Inl\<close> with its message.
\<close>

section \<open>Details of a cell\<close>

text \<open>The properties of a details object that hold a number or \<open>null\<close>; an absent one is \<open>undefined\<close>.\<close>

type_synonym details = "string \<rightharpoonup> int option"

definition numberOf :: "details \<Rightarrow> string \<Rightarrow> int option" where
  "numberOf details field = Option.bind (details field) id"

record identityFieldSpec =
  if_field :: string
  if_fallback :: "int option"

record cellIdentitySpec =
  ci_rat :: string
  ci_label :: string
  ci_fields :: "identityFieldSpec list"
  ci_requiredFields :: "string list"
  ci_duplicateLabel :: string
  ci_isUnknownWhenZero :: bool
  ci_identityDetails :: "(details \<Rightarrow> details) option"

definition requiredField :: "string \<Rightarrow> identityFieldSpec" where
  "requiredField field = \<lparr>if_field = field, if_fallback = None\<rparr>"

definition zeroField :: "string \<Rightarrow> identityFieldSpec" where
  "zeroField field = \<lparr>if_field = field, if_fallback = Some 0\<rparr>"

text \<open>An absent length is the default one; \<open>null\<close> is not a number.\<close>

definition nciOfDetails :: "details \<Rightarrow> int option" where
  "nciOfDetails details =
    (let len = (case details ''gnbid_length'' of None \<Rightarrow> Some DEFAULT_GNBID_LENGTH | Some l \<Rightarrow> l) in
     case (numberOf details ''gnbid'', numberOf details ''clid'', len) of
       (Some gnbid, Some clid, Some l) \<Rightarrow> (if gnbid = 0 then None else Some (gnbid * 2 ^ nat (36 - l) + clid))
     | _ \<Rightarrow> None)"

definition CELL_IDENTITY_DUPLICATE_SPECS :: "cellIdentitySpec list" where
  "CELL_IDENTITY_DUPLICATE_SPECS =
    [\<lparr>ci_rat = ''GSM'', ci_label = ''GSM'', ci_fields = [zeroField ''lac'', requiredField ''cid''], ci_requiredFields = [''cid''],
       ci_duplicateLabel = ''LAC+CID'', ci_isUnknownWhenZero = False, ci_identityDetails = None\<rparr>,
     \<lparr>ci_rat = ''UMTS'', ci_label = ''UMTS'', ci_fields = [zeroField ''rnc'', requiredField ''cid''], ci_requiredFields = [''cid''],
       ci_duplicateLabel = ''RNC+CID'', ci_isUnknownWhenZero = True, ci_identityDetails = None\<rparr>,
     \<lparr>ci_rat = ''LTE'', ci_label = ''LTE'', ci_fields = [requiredField ''enbid'', requiredField ''clid''],
       ci_requiredFields = [''enbid'', ''clid''], ci_duplicateLabel = ''eNBID+CLID'', ci_isUnknownWhenZero = True, ci_identityDetails = None\<rparr>,
     \<lparr>ci_rat = ''NR'', ci_label = ''NR'', ci_fields = [requiredField ''nci''], ci_requiredFields = [''nci''],
       ci_duplicateLabel = ''NCI'', ci_isUnknownWhenZero = True,
       ci_identityDetails = Some (\<lambda>details. [''nci'' \<mapsto> nciOfDetails details])\<rparr>]"

definition getCellIdentityDuplicateSpec :: "string option \<Rightarrow> cellIdentitySpec option" where
  "getCellIdentityDuplicateSpec rat =
    (case rat of None \<Rightarrow> None
     | Some r \<Rightarrow> if r = '''' then None else List.find (\<lambda>spec. ci_rat spec = r) CELL_IDENTITY_DUPLICATE_SPECS)"

definition toIdentityDetails :: "cellIdentitySpec \<Rightarrow> details \<Rightarrow> details" where
  "toIdentityDetails spec details = (case ci_identityDetails spec of Some f \<Rightarrow> f details | None \<Rightarrow> details)"

definition isUnknownCellIdentity :: "cellIdentitySpec \<Rightarrow> details \<Rightarrow> bool" where
  "isUnknownCellIdentity spec details \<longleftrightarrow>
    ci_isUnknownWhenZero spec \<and> list_all (\<lambda>f. details (if_field f) = Some (Some 0)) (ci_fields spec)"

record cellIdentityKey =
  ik_rat :: string
  ik_key :: string
  ik_message :: string

definition joinTexts :: "string \<Rightarrow> string list \<Rightarrow> string" where
  "joinTexts separator texts = (case texts of [] \<Rightarrow> [] | x # xs \<Rightarrow> x @ concat (map (\<lambda>y. separator @ y) xs))"

definition valueText :: "int option \<Rightarrow> string" where
  "valueText v = (case v of Some i \<Rightarrow> intText i | None \<Rightarrow> '''')"

definition identityValue :: "details \<Rightarrow> identityFieldSpec \<Rightarrow> int option" where
  "identityValue details f = (case numberOf details (if_field f) of Some v \<Rightarrow> Some v | None \<Rightarrow> if_fallback f)"

definition getCellIdentityDuplicateKey :: "string option \<Rightarrow> details option \<Rightarrow> cellIdentityKey option" where
  "getCellIdentityDuplicateKey rat details =
    (case (getCellIdentityDuplicateSpec rat, details) of
       (Some spec, Some d) \<Rightarrow>
         (let d' = toIdentityDetails spec d; texts = map (\<lambda>f. valueText (identityValue d' f)) (ci_fields spec) in
          if isUnknownCellIdentity spec d' \<or>
             \<not> list_all (\<lambda>field. list_ex (\<lambda>f. if_field f = field \<and> identityValue d' f \<noteq> None) (ci_fields spec)) (ci_requiredFields spec)
          then None
          else Some \<lparr>ik_rat = ci_rat spec, ik_key = joinTexts '':'' texts,
            ik_message = ''Duplicate '' @ ci_duplicateLabel spec @ '' ('' @ joinTexts ''+'' texts @ '') found in '' @ ci_label spec @ '' cells''\<rparr>)
     | _ \<Rightarrow> None)"

section \<open>Networks of a cell\<close>

record networkOwner =
  no_operatorId :: "int option"
  no_mainCode :: "string option"
  no_countryCode :: "string option"

type_synonym knownPlmns = "string \<rightharpoonup> string"

fun EXTRA_CODE_LIMITS :: "string \<Rightarrow> nat" where
  "EXTRA_CODE_LIMITS rat =
    (if rat = ''UMTS'' then 5 else if rat = ''LTE'' then 5 else if rat = ''NR'' then 11 else 0)"

definition allowsCellNetworks :: "string option \<Rightarrow> bool" where
  "allowsCellNetworks countryCode = (case countryCode of None \<Rightarrow> True | Some code \<Rightarrow> hasCellNetworks code)"

definition extraCodeLimit :: "string \<Rightarrow> string option \<Rightarrow> nat" where
  "extraCodeLimit rat countryCode = (if allowsCellNetworks countryCode then EXTRA_CODE_LIMITS rat else 0)"

text \<open>The known codes with the country of their operator.\<close>

fun assertCodesKnown :: "string list \<Rightarrow> networkOwner \<Rightarrow> knownPlmns \<Rightarrow> string + unit" where
  "assertCodesKnown [] owner known = Inr ()"
| "assertCodesKnown (code # codes) owner known =
    (case known code of
       None \<Rightarrow> Inl (''Network code '' @ code @ '' does not exist'')
     | Some country \<Rightarrow>
         (if no_countryCode owner \<noteq> None \<and> no_countryCode owner \<noteq> Some country
          then Inl (''Network code '' @ code @ '' belongs to another country'')
          else assertCodesKnown codes owner known))"

fun compareTexts :: "string \<Rightarrow> string \<Rightarrow> number" where
  "compareTexts [] [] = 0"
| "compareTexts [] (_ # _) = -1"
| "compareTexts (_ # _) [] = 1"
| "compareTexts (a # as) (b # bs) =
    (if a = b then compareTexts as bs else if (of_char a :: nat) < of_char b then -1 else 1)"

definition withoutOwnerCode :: "string list \<Rightarrow> networkOwner \<Rightarrow> string list" where
  "withoutOwnerCode codes owner = sortBy compareTexts (filter (\<lambda>code. Some code \<noteq> no_mainCode owner) codes)"

definition cappedExtraCodes :: "string option \<Rightarrow> string list \<Rightarrow> networkOwner \<Rightarrow> string + string list" where
  "cappedExtraCodes rat codes owner =
    (let extras = withoutOwnerCode codes owner; limit = (case rat of Some r \<Rightarrow> EXTRA_CODE_LIMITS r | None \<Rightarrow> 0) in
     if limit = 0 \<and> extras \<noteq> [] then Inl ''This cell cannot broadcast other networks''
     else if length extras > limit
     then Inl (''A '' @ (case rat of Some r \<Rightarrow> r | None \<Rightarrow> ''null'') @ '' cell can broadcast at most '' @ natText limit @
       '' networks besides the owner's'')
     else Inr extras)"

definition extraCodesFromSent :: "string option \<Rightarrow> string list \<Rightarrow> networkOwner \<Rightarrow> knownPlmns \<Rightarrow> string + string list" where
  "extraCodesFromSent rat codes owner known =
    (case assertCodesKnown codes owner known of
       Inl e \<Rightarrow> Inl e
     | Inr _ \<Rightarrow>
         (if (case no_mainCode owner of Some main \<Rightarrow> main \<notin> set codes | None \<Rightarrow> False)
          then Inl (''A cell's networks must include the station owner's main code '' @ (case no_mainCode owner of Some main \<Rightarrow> main | None \<Rightarrow> ''''))
          else
            (case cappedExtraCodes rat codes owner of
               Inl e \<Rightarrow> Inl e
             | Inr extras \<Rightarrow>
                 (if extras \<noteq> [] \<and> \<not> allowsCellNetworks (no_countryCode owner)
                  then Inl ''Cells in this country cannot broadcast other networks'' else Inr extras))))"

definition extraCodesFromStored :: "string option \<Rightarrow> string list \<Rightarrow> networkOwner \<Rightarrow> knownPlmns \<Rightarrow> string + string list" where
  "extraCodesFromStored rat codes owner known =
    (case assertCodesKnown codes owner known of Inl e \<Rightarrow> Inl e | Inr _ \<Rightarrow> cappedExtraCodes rat codes owner)"

definition cellNetworkKeys :: "networkOwner \<Rightarrow> string list \<Rightarrow> string list" where
  "cellNetworkKeys owner extras =
    (case no_mainCode owner of
       Some code \<Rightarrow> code
     | None \<Rightarrow> ''operator:'' @ (case no_operatorId owner of Some i \<Rightarrow> intText i | None \<Rightarrow> ''null'')) # extras"

section \<open>Stored cells\<close>

text \<open>A cell joined with its details, its station and the codes it broadcasts besides its owner's.\<close>

record cellRow =
  cr_id :: int
  cr_stationId :: int
  cr_rat :: string
  cr_bandId :: int
  cr_sectorId :: "int option"
  cr_details :: details
  cr_type :: "nrMode option"
  cr_isPublished :: bool
  cr_operatorId :: "int option"
  cr_extraCodes :: "string list"

text \<open>The primary code of each operator; codes are unique.\<close>

type_synonym mainCodes = "int \<rightharpoonup> string"

definition loadNetworkOwner :: "mainCodes \<Rightarrow> int option \<Rightarrow> string option \<Rightarrow> networkOwner" where
  "loadNetworkOwner mains operatorId countryCode =
    \<lparr>no_operatorId = operatorId, no_mainCode = Option.bind operatorId mains, no_countryCode = countryCode\<rparr>"

definition sharesNetwork :: "mainCodes \<Rightarrow> networkOwner \<Rightarrow> string list \<Rightarrow> cellRow \<Rightarrow> bool" where
  "sharesNetwork mains owner extraCodes row \<longleftrightarrow>
    (let codes = uniq ((case no_mainCode owner of None \<Rightarrow> [] | Some main \<Rightarrow> [main]) @ extraCodes);
         ownedWithoutCode = (no_mainCode owner = None \<and> no_operatorId owner \<noteq> None \<and> cr_operatorId row = no_operatorId owner);
         ownedByCode = (case Option.bind (cr_operatorId row) mains of Some main \<Rightarrow> main \<in> set codes | None \<Rightarrow> False);
         broadcastByCode = list_ex (\<lambda>code. code \<in> set codes) (cr_extraCodes row)
     in if codes = [] then ownedWithoutCode else ownedWithoutCode \<or> ownedByCode \<or> broadcastByCode)"

record identitySource =
  ds_rat :: "string option"
  ds_details :: "details option"
  ds_excludeCellId :: "int option"
  ds_extraCodes :: "string list"

record identityEntry =
  ie_values :: "int list"
  ie_excludeCellId :: "int option"
  ie_networks :: "cellRow \<Rightarrow> bool"

text \<open>A value missing from the details drops the source, whatever its fallback.\<close>

definition identityEntryOf :: "mainCodes \<Rightarrow> networkOwner \<Rightarrow> string \<Rightarrow> identitySource \<Rightarrow> identityEntry option" where
  "identityEntryOf mains owner rat source =
    (case (getCellIdentityDuplicateSpec (ds_rat source), ds_details source) of
       (Some spec, Some details) \<Rightarrow>
         (let d = toIdentityDetails spec details; values = map (\<lambda>f. numberOf d (if_field f)) (ci_fields spec) in
          if ci_rat spec \<noteq> rat \<or> isUnknownCellIdentity spec d \<or> None \<in> set values then None
          else Some \<lparr>ie_values = map the values, ie_excludeCellId = ds_excludeCellId source,
            ie_networks = sharesNetwork mains owner (ds_extraCodes source)\<rparr>)
     | _ \<Rightarrow> None)"

text \<open>The generated column \<open>nci\<close>, and the columns the checks compare.\<close>

definition nciColumn :: "details \<Rightarrow> int option" where
  "nciColumn details =
    (case (numberOf details ''gnbid'', numberOf details ''gnbid_length'', numberOf details ''clid'') of
       (Some gnbid, Some len, Some clid) \<Rightarrow> Some (gnbid * 2 ^ nat (36 - len) + clid)
     | _ \<Rightarrow> None)"

definition identityColumns :: "cellRow \<Rightarrow> int option list" where
  "identityColumns row =
    (if cr_rat row = ''GSM'' then map (numberOf (cr_details row)) [''lac'', ''cid'']
     else if cr_rat row = ''UMTS'' then map (numberOf (cr_details row)) [''rnc'', ''cid'']
     else if cr_rat row = ''LTE'' then map (numberOf (cr_details row)) [''enbid'', ''clid'']
     else if cr_rat row = ''NR'' then [nciColumn (cr_details row)] else [])"

definition matchesEntry :: "identityEntry \<Rightarrow> cellRow \<Rightarrow> bool" where
  "matchesEntry entry row \<longleftrightarrow>
    identityColumns row = map Some (ie_values entry) \<and> ie_excludeCellId entry \<noteq> Some (cr_id row) \<and> ie_networks entry row"

definition identityMessage :: "string \<Rightarrow> int option list \<Rightarrow> string" where
  "identityMessage rat values =
    (let v = (\<lambda>i. if i < length values then valueText (values ! i) else '''') in
     if rat = ''GSM'' then ''A GSM cell with LAC '' @ v 0 @ '' and CID '' @ v 1
     else if rat = ''UMTS'' then ''A UMTS cell with RNC '' @ v 0 @ '' and CID '' @ v 1
     else if rat = ''LTE'' then ''An LTE cell with eNBID '' @ v 0 @ '' and CLID '' @ v 1
     else ''An NR cell with NCI '' @ v 0) @ '' already exists on one of the cell's networks''"

definition checkEntries :: "cellRow list \<Rightarrow> int list \<Rightarrow> string \<Rightarrow> identityEntry list \<Rightarrow> string + unit" where
  "checkEntries rows siblingExcludeIds rat entries =
    (case List.find (\<lambda>row. cr_rat row = rat \<and> cr_isPublished row \<and> cr_id row \<notin> set siblingExcludeIds \<and>
        list_ex (\<lambda>entry. matchesEntry entry row) entries) rows of
       None \<Rightarrow> Inr ()
     | Some row \<Rightarrow> Inl (identityMessage rat (identityColumns row)))"

definition IDENTITY_RATS :: "string list" where
  "IDENTITY_RATS = [''GSM'', ''UMTS'', ''LTE'', ''NR'']"

text \<open>The four checks run side by side; the error of the first that fails is the one that is thrown.\<close>

definition firstError :: "(string + unit) list \<Rightarrow> string + unit" where
  "firstError results = (case List.find (\<lambda>r. r \<noteq> Inr ()) results of Some e \<Rightarrow> e | None \<Rightarrow> Inr ())"

definition checkOwnerCellDuplicates ::
  "cellRow list \<Rightarrow> mainCodes \<Rightarrow> identitySource list \<Rightarrow> networkOwner \<Rightarrow> int list \<Rightarrow> string + unit" where
  "checkOwnerCellDuplicates rows mains sources owner siblingExcludeIds =
    firstError (map (\<lambda>rat. checkEntries rows siblingExcludeIds rat (List.map_filter (identityEntryOf mains owner rat) sources)) IDENTITY_RATS)"

definition checkCellDuplicatesBatch ::
  "cellRow list \<Rightarrow> mainCodes \<Rightarrow> identitySource list \<Rightarrow> int \<Rightarrow> int list \<Rightarrow> string + unit" where
  "checkCellDuplicatesBatch rows mains sources operatorId siblingExcludeIds =
    checkOwnerCellDuplicates rows mains sources (loadNetworkOwner mains (Some operatorId) None) siblingExcludeIds"

definition checkCellDuplicate :: "cellRow list \<Rightarrow> mainCodes \<Rightarrow> identitySource \<Rightarrow> int \<Rightarrow> int list \<Rightarrow> string + unit" where
  "checkCellDuplicate rows mains source operatorId siblingExcludeIds =
    checkCellDuplicatesBatch rows mains [source] operatorId siblingExcludeIds"

section \<open>Stored cells checked again under locks\<close>

text \<open>The text whose hash is locked, \<open>None\<close> for a cell without an identity.\<close>

definition lockText :: "string option \<Rightarrow> details option \<Rightarrow> string option" where
  "lockText rat details = map_option (\<lambda>identity. ik_rat identity @ '':'' @ ik_key identity) (getCellIdentityDuplicateKey rat details)"

text \<open>The hashes one statement locks, ascending.\<close>

definition lockHashes :: "(string \<Rightarrow> int) \<Rightarrow> identitySource list \<Rightarrow> int list" where
  "lockHashes hashtext sources =
    sorted_list_of_set (hashtext ` set (List.map_filter (\<lambda>source. lockText (ds_rat source) (ds_details source)) sources))"

definition isInScope :: "int list \<Rightarrow> int option \<Rightarrow> cellRow \<Rightarrow> bool" where
  "isInScope cellIds stationId row \<longleftrightarrow> cr_id row \<in> set cellIds \<or> stationId = Some (cr_stationId row)"

definition sourceOfRow :: "cellRow \<Rightarrow> identitySource" where
  "sourceOfRow row = \<lparr>ds_rat = Some (cr_rat row), ds_details = Some (cr_details row), ds_excludeCellId = Some (cr_id row),
     ds_extraCodes = cr_extraCodes row\<rparr>"

text \<open>The published cells of an operator among the stored ones in the scope.\<close>

definition checkedRows :: "int list \<Rightarrow> int option \<Rightarrow> cellRow list \<Rightarrow> cellRow list" where
  "checkedRows cellIds stationId rows =
    filter (\<lambda>row. isInScope cellIds stationId row \<and> cr_isPublished row \<and> cr_operatorId row \<noteq> None) rows"

definition checkStoredRows :: "cellRow list \<Rightarrow> mainCodes \<Rightarrow> cellRow list \<Rightarrow> string + unit" where
  "checkStoredRows rows mains checked =
    firstError (map (\<lambda>operatorId.
      checkOwnerCellDuplicates rows mains (map sourceOfRow (filter (\<lambda>row. cr_operatorId row = operatorId) checked))
        (loadNetworkOwner mains operatorId None) []) (uniq (map cr_operatorId checked)))"

section \<open>PCI duplicates\<close>

record pciSource =
  pc_rat :: "string option"
  pc_bandId :: "int option"
  pc_details :: "details option"
  pc_type :: "nrMode option"
  pc_sectorId :: "int option"
  pc_excludeCellId :: "int option"

record pciKey =
  pk_rat :: string
  pk_pci :: int
  pk_key :: string

definition channelField :: "string \<Rightarrow> string option" where
  "channelField rat = (if rat = ''LTE'' then Some ''earfcn'' else if rat = ''NR'' then Some ''arfcn'' else None)"

definition getPciDuplicateKey :: "pciSource \<Rightarrow> pciKey option" where
  "getPciDuplicateKey source =
    (case pc_rat source of
       None \<Rightarrow> None
     | Some rat \<Rightarrow>
         (case (channelField rat, pc_bandId source, pc_details source) of
            (Some channelName, Some bandId, Some details) \<Rightarrow>
              (case numberOf details ''pci'' of
                 None \<Rightarrow> None
               | Some pci \<Rightarrow>
                   (let enbid = numberOf details ''enbid'' in
                    if rat = ''LTE'' \<and> enbid = None then None
                    else Some \<lparr>pk_rat = rat, pk_pci = pci,
                      pk_key = intText bandId @ '':'' @ (if rat = ''LTE'' then valueText enbid @ '':'' else []) @
                        intText pci @ '':'' @ valueText (numberOf details channelName)\<rparr>))
          | _ \<Rightarrow> None))"

definition toNrPciCell :: "pciSource \<Rightarrow> int nrPciCell" where
  "toNrPciCell source = \<lparr>np_mode = (if pc_details source = None then None else pc_type source), np_sector = pc_sectorId source\<rparr>"

definition sharesPci :: "pciSource \<Rightarrow> pciSource \<Rightarrow> bool" where
  "sharesPci cell other \<longleftrightarrow> pc_rat cell = Some ''NR'' \<and> canShareNrPci (toNrPciCell cell) (toNrPciCell other)"

record pciEntry =
  pe_bandId :: int
  pe_enbid :: "int option"
  pe_type :: "nrMode option"
  pe_sectorId :: "int option"
  pe_pci :: int
  pe_channel :: "int option"
  pe_excludeCellId :: "int option"

definition pciEntryOf :: "string \<Rightarrow> pciSource \<Rightarrow> pciEntry option" where
  "pciEntryOf rat source =
    (case (getPciDuplicateKey source, pc_details source, pc_bandId source) of
       (Some key, Some details, Some bandId) \<Rightarrow>
         (if pk_rat key \<noteq> rat then None
          else Some \<lparr>pe_bandId = bandId, pe_enbid = (if rat = ''LTE'' then numberOf details ''enbid'' else None),
            pe_type = (if rat = ''NR'' then pc_type source else None), pe_sectorId = (if rat = ''NR'' then pc_sectorId source else None),
            pe_pci = pk_pci key, pe_channel = Option.bind (channelField rat) (numberOf details), pe_excludeCellId = pc_excludeCellId source\<rparr>)
     | _ \<Rightarrow> None)"

text \<open>A sector compares as different only when the stored cell has one.\<close>

definition matchesPciEntry :: "string \<Rightarrow> pciEntry \<Rightarrow> cellRow \<Rightarrow> bool" where
  "matchesPciEntry rat entry row \<longleftrightarrow>
    cr_bandId row = pe_bandId entry \<and> numberOf (cr_details row) ''pci'' = Some (pe_pci entry) \<and>
    (rat = ''LTE'' \<and> pe_enbid entry \<noteq> None \<longrightarrow> numberOf (cr_details row) ''enbid'' = pe_enbid entry) \<and>
    (rat = ''NR'' \<and> pe_type entry \<noteq> None \<longrightarrow>
      cr_type row = pe_type entry \<or> (pe_sectorId entry \<noteq> None \<and> cr_sectorId row \<noteq> None \<and> cr_sectorId row \<noteq> pe_sectorId entry)) \<and>
    (pe_channel entry \<noteq> None \<longrightarrow>
      (case Option.bind (channelField rat) (numberOf (cr_details row)) of None \<Rightarrow> True | Some c \<Rightarrow> Some c = pe_channel entry)) \<and>
    pe_excludeCellId entry \<noteq> Some (cr_id row)"

definition checkPciDuplicatesForSpec :: "cellRow list \<Rightarrow> string \<Rightarrow> int \<Rightarrow> pciEntry list \<Rightarrow> int list \<Rightarrow> string + unit" where
  "checkPciDuplicatesForSpec rows rat stationId entries siblingExcludeIds =
    (case List.find (\<lambda>row. cr_rat row = rat \<and> cr_stationId row = stationId \<and> cr_id row \<notin> set siblingExcludeIds \<and>
        list_ex (\<lambda>entry. matchesPciEntry rat entry row) entries) rows of
       None \<Rightarrow> Inr ()
     | Some row \<Rightarrow> Inl (''An '' @ rat @ '' cell with PCI '' @ valueText (numberOf (cr_details row) ''pci'') @
         '' already exists for this station using the '' @ (if rat = ''LTE'' then ''same band and eNBID'' else ''same band'')))"

definition checkPciDuplicates :: "cellRow list \<Rightarrow> int \<Rightarrow> pciSource list \<Rightarrow> int list \<Rightarrow> string + unit" where
  "checkPciDuplicates rows stationId sources siblingExcludeIds =
    firstError (map (\<lambda>rat. checkPciDuplicatesForSpec rows rat stationId (List.map_filter (pciEntryOf rat) sources) siblingExcludeIds)
      [''LTE'', ''NR''])"

definition checkPciDuplicate :: "cellRow list \<Rightarrow> int \<Rightarrow> pciSource \<Rightarrow> int list \<Rightarrow> string + unit" where
  "checkPciDuplicate rows stationId source siblingExcludeIds = checkPciDuplicates rows stationId [source] siblingExcludeIds"

section \<open>The cells of one request\<close>

record requestCell =
  rq_rat :: "string option"
  rq_isDelete :: bool
  rq_bandId :: "int option"
  rq_details :: "details option"
  rq_type :: "nrMode option"
  rq_sectorId :: "int option"
  rq_targetSectorId :: "int option"

definition STATION_OWNER_NETWORK :: string where "STATION_OWNER_NETWORK = ''owner''"

definition requestKeys :: "string list list \<Rightarrow> nat \<Rightarrow> cellIdentityKey \<Rightarrow> string list" where
  "requestKeys cellNetworks index key =
    map (\<lambda>network. network @ '':'' @ ik_rat key @ '':'' @ ik_key key)
      (if index < length cellNetworks then cellNetworks ! index else [STATION_OWNER_NETWORK])"

fun validateIdentities :: "string list list \<Rightarrow> string set \<Rightarrow> nat \<Rightarrow> requestCell list \<Rightarrow> string + unit" where
  "validateIdentities cellNetworks seen index [] = Inr ()"
| "validateIdentities cellNetworks seen index (cell # cells) =
    (case (if rq_isDelete cell then None else getCellIdentityDuplicateKey (rq_rat cell) (rq_details cell)) of
       None \<Rightarrow> validateIdentities cellNetworks seen (Suc index) cells
     | Some key \<Rightarrow>
         (let keys = requestKeys cellNetworks index key in
          if list_ex (\<lambda>k. k \<in> seen) keys then Inl (ik_message key)
          else validateIdentities cellNetworks (seen \<union> set keys) (Suc index) cells))"

fun validatePciSources :: "(string \<times> pciSource) list \<Rightarrow> pciSource list \<Rightarrow> string + unit" where
  "validatePciSources seen [] = Inr ()"
| "validatePciSources seen (source # sources) =
    (case getPciDuplicateKey source of
       None \<Rightarrow> validatePciSources seen sources
     | Some key \<Rightarrow>
         (let k = pk_rat key @ '':'' @ pk_key key in
          if list_ex (\<lambda>(k', other). k' = k \<and> \<not> sharesPci source other) seen
          then Inl (''Duplicate PCI '' @ intText (pk_pci key) @ '' found on the same band in '' @ pk_rat key @ '' cells'')
          else validatePciSources (seen @ [(k, source)]) sources))"

definition validatePciDuplicates :: "pciSource list \<Rightarrow> string + unit" where
  "validatePciDuplicates sources = validatePciSources [] sources"

definition pciSourceOf :: "requestCell \<Rightarrow> pciSource" where
  "pciSourceOf cell = \<lparr>pc_rat = rq_rat cell, pc_bandId = rq_bandId cell, pc_details = rq_details cell, pc_type = rq_type cell,
     pc_sectorId = (case rq_targetSectorId cell of Some i \<Rightarrow> Some i | None \<Rightarrow> rq_sectorId cell), pc_excludeCellId = None\<rparr>"

definition validateCellDuplicates :: "requestCell list \<Rightarrow> string list list \<Rightarrow> string + unit" where
  "validateCellDuplicates cells cellNetworks =
    (case validateIdentities cellNetworks {} 0 cells of
       Inl e \<Rightarrow> Inl e
     | Inr _ \<Rightarrow> validatePciDuplicates (map pciSourceOf (filter (\<lambda>cell. \<not> rq_isDelete cell) cells)))"

text \<open>The hashes that are locked, and what the check then says.\<close>

definition lockAndCheckStoredCells ::
  "(string \<Rightarrow> int) \<Rightarrow> cellRow list \<Rightarrow> mainCodes \<Rightarrow> int list \<Rightarrow> int option \<Rightarrow> int list \<times> (string + unit)" where
  "lockAndCheckStoredCells hashtext rows mains cellIds stationId =
    (let checked = checkedRows cellIds stationId rows in
     (lockHashes hashtext (map sourceOfRow checked), checkStoredRows rows mains checked))"

end
