(* ===== verification/LockedWrites.thy ===== *)
theory LockedWrites
  imports Duplicates
begin

text \<open>
  Transactions that write cells while others do: lockCellIdentities and lockAndCheckStoredCells of
  features/cells/duplicateCheck.ts as their callers use them (the routes under /cells and /stations,
  submissions/actions.ts, and, several times in one transaction, analyzer/apply.ts and audit/revert).
  A transaction writes rows, and in a batch it loads the stored cells of a scope, takes the lock of each of their
  identities in ascending order of the hashes and checks them against the rows it sees; it may write and run
  further batches, and it commits when each row it has written since was in the scope of a batch. The steps of
  all transactions interleave in any order. The database is modelled the way the code relies on it:
  \<^item> a statement of a transaction that is read committed (the default) sees what is committed at that moment, one of a
    transaction that is repeatable read (audit/revert/index.ts) what was committed at its start; both see their own rows;
  \<^item> a row written by one transaction cannot be written by another before that one ends, and a transaction that is
    repeatable read fails when it writes a row that changed since its start;
  \<^item> the locks of a transaction are held until it ends, and it may take one it already has.

  The operator and the status of a station and the codes of the operators do not change meanwhile, and the rows
  of one batch are checked one after another, where the code has one query for those of one operator and technology.
\<close>

text \<open>The hashes still to be locked and the rows still to be checked of a batch.\<close>

datatype txPhase = TxWriting | TxSaving "int list" "cellRow list"

text \<open>The snapshot a repeatable-read transaction reads, with the length of the log of changes at that moment.\<close>

record cellTx =
  wt_snapshot :: "(cellRow list \<times> nat) option"
  wt_written :: "(int \<times> cellRow option) list"
  wt_unchecked :: "int list"
  wt_held :: "int list"
  wt_phase :: txPhase

text \<open>The committed rows, the ids of the rows that were changed, in the order of the commits, and the open transactions.\<close>

record lockState =
  lk_committed :: "cellRow list"
  lk_changes :: "int list"
  lk_txs :: "(nat \<times> cellTx) list"

datatype txAction =
    BeginTx bool
  | WriteRow int "cellRow option"
  | LoadStored "int list" "int option"
  | TakeLock
  | CheckRow
  | CommitTx
  | RollBack

definition newTx :: "bool \<Rightarrow> lockState \<Rightarrow> cellTx" where
  "newTx isRepeatable s = \<lparr>wt_snapshot = (if isRepeatable then Some (lk_committed s, length (lk_changes s)) else None),
     wt_written = [], wt_unchecked = [], wt_held = [], wt_phase = TxWriting\<rparr>"

definition isWriting :: "cellTx \<Rightarrow> bool" where
  "isWriting tx = (case wt_phase tx of TxWriting \<Rightarrow> True | TxSaving _ _ \<Rightarrow> False)"

text \<open>What a statement of a transaction sees.\<close>

definition viewOf :: "cellRow list \<Rightarrow> (int \<times> cellRow option) list \<Rightarrow> cellRow list" where
  "viewOf committed written = filter (\<lambda>row. map_of written (cr_id row) = None) committed @ List.map_filter snd written"

definition seenBy :: "cellRow list \<Rightarrow> cellTx \<Rightarrow> cellRow list" where
  "seenBy committed tx = viewOf (case wt_snapshot tx of None \<Rightarrow> committed | Some (rows, _) \<Rightarrow> rows) (wt_written tx)"

text \<open>A row of the tables has every column of its technology, and the operator and the status of its station.\<close>

definition isStoredRow :: "(int \<Rightarrow> bool \<times> int option) \<Rightarrow> cellRow \<Rightarrow> bool" where
  "isStoredRow stations row \<longleftrightarrow>
    (cr_rat row = ''NR'' \<longrightarrow> cr_details row ''gnbid_length'' \<noteq> None) \<and>
    cr_isPublished row = fst (stations (cr_stationId row)) \<and> cr_operatorId row = snd (stations (cr_stationId row))"

definition otherTxs :: "lockState \<Rightarrow> nat \<Rightarrow> (nat \<times> cellTx) list" where
  "otherTxs s t = filter (\<lambda>(t', _). t' \<noteq> t) (lk_txs s)"

definition endTx :: "nat \<Rightarrow> lockState \<Rightarrow> lockState" where
  "endTx t s = s\<lparr>lk_txs := otherTxs s t\<rparr>"

definition setTx :: "nat \<Rightarrow> cellTx \<Rightarrow> lockState \<Rightarrow> lockState" where
  "setTx t tx s = s\<lparr>lk_txs := (t, tx) # otherTxs s t\<rparr>"

definition canWrite :: "(int \<Rightarrow> bool \<times> int option) \<Rightarrow> lockState \<Rightarrow> nat \<Rightarrow> int \<Rightarrow> cellRow option \<Rightarrow> bool" where
  "canWrite stations s t i change \<longleftrightarrow>
    list_all (\<lambda>(_, other). i \<notin> fst ` set (wt_written other)) (otherTxs s t) \<and>
    (case change of Some row \<Rightarrow> cr_id row = i \<and> isStoredRow stations row | None \<Rightarrow> True)"

definition failsToSerialize :: "lockState \<Rightarrow> cellTx \<Rightarrow> int \<Rightarrow> bool" where
  "failsToSerialize s tx i = (case wt_snapshot tx of None \<Rightarrow> False | Some (_, since) \<Rightarrow> i \<in> set (drop since (lk_changes s)))"

definition writeTx :: "int \<Rightarrow> cellRow option \<Rightarrow> cellTx \<Rightarrow> cellTx" where
  "writeTx i change tx = tx\<lparr>wt_written := AList.update i change (wt_written tx), wt_unchecked := i # wt_unchecked tx\<rparr>"

definition isFree :: "lockState \<Rightarrow> nat \<Rightarrow> int \<Rightarrow> bool" where
  "isFree s t h \<longleftrightarrow> list_all (\<lambda>(_, other). h \<notin> set (wt_held other)) (otherTxs s t)"

text \<open>A batch that has nothing to lock and nothing to check is over.\<close>

definition batchPhase :: "int list \<Rightarrow> cellRow list \<Rightarrow> txPhase" where
  "batchPhase hashes rows = (case (hashes, rows) of ([], []) \<Rightarrow> TxWriting | _ \<Rightarrow> TxSaving hashes rows)"

text \<open>The stored rows of a scope are loaded, and those of published stations of operators locked and checked.\<close>

definition loadStored :: "(string \<Rightarrow> int) \<Rightarrow> cellRow list \<Rightarrow> int list \<Rightarrow> int option \<Rightarrow> cellTx \<Rightarrow> cellTx" where
  "loadStored hashtext committed cellIds stationId tx =
    (let seen = seenBy committed tx; checked = checkedRows cellIds stationId seen;
         loaded = map cr_id (filter (isInScope cellIds stationId) seen)
     in tx\<lparr>wt_unchecked := filter (\<lambda>i. i \<notin> set loaded) (wt_unchecked tx),
           wt_phase := batchPhase (lockHashes hashtext (map sourceOfRow checked)) checked\<rparr>)"

definition canCommit :: "cellTx \<Rightarrow> bool" where
  "canCommit tx \<longleftrightarrow> isWriting tx \<and> list_all (\<lambda>(i, change). case change of None \<Rightarrow> True | Some _ \<Rightarrow> i \<notin> set (wt_unchecked tx)) (wt_written tx)"

definition commitTx :: "nat \<Rightarrow> cellTx \<Rightarrow> lockState \<Rightarrow> lockState" where
  "commitTx t tx s = (endTx t s)\<lparr>lk_committed := viewOf (lk_committed s) (wt_written tx),
     lk_changes := lk_changes s @ map fst (wt_written tx)\<rparr>"

text \<open>One step of a transaction; an action that is not possible now leaves everything as it is.\<close>

fun actTx :: "(string \<Rightarrow> int) \<Rightarrow> mainCodes \<Rightarrow> (int \<Rightarrow> bool \<times> int option) \<Rightarrow> lockState \<Rightarrow> nat \<Rightarrow> cellTx \<Rightarrow> txAction \<Rightarrow> lockState" where
  "actTx hashtext mains stations s t tx (BeginTx _) = s"
| "actTx hashtext mains stations s t tx (WriteRow i change) =
    (if isWriting tx \<and> canWrite stations s t i change
     then if failsToSerialize s tx i then endTx t s else setTx t (writeTx i change tx) s
     else s)"
| "actTx hashtext mains stations s t tx (LoadStored cellIds stationId) =
    (if isWriting tx then setTx t (loadStored hashtext (lk_committed s) cellIds stationId tx) s else s)"
| "actTx hashtext mains stations s t tx TakeLock =
    (case wt_phase tx of
       TxSaving (h # hs) rows \<Rightarrow>
         (if isFree s t h then setTx t (tx\<lparr>wt_held := h # wt_held tx, wt_phase := batchPhase hs rows\<rparr>) s else s)
     | _ \<Rightarrow> s)"
| "actTx hashtext mains stations s t tx CheckRow =
    (case wt_phase tx of
       TxSaving [] (row # rows) \<Rightarrow>
         (case checkStoredRows (seenBy (lk_committed s) tx) mains [row] of
            Inl _ \<Rightarrow> endTx t s
          | Inr _ \<Rightarrow> setTx t (tx\<lparr>wt_phase := batchPhase [] rows\<rparr>) s)
     | _ \<Rightarrow> s)"
| "actTx hashtext mains stations s t tx CommitTx = (if canCommit tx then commitTx t tx s else s)"
| "actTx hashtext mains stations s t tx RollBack = endTx t s"

definition txStep :: "(string \<Rightarrow> int) \<Rightarrow> mainCodes \<Rightarrow> (int \<Rightarrow> bool \<times> int option) \<Rightarrow> lockState \<Rightarrow> nat \<times> txAction \<Rightarrow> lockState" where
  "txStep hashtext mains stations s step' =
    (let (t, action) = step' in
     case map_of (lk_txs s) t of
       None \<Rightarrow> (case action of BeginTx isRepeatable \<Rightarrow> setTx t (newTx isRepeatable s) s | _ \<Rightarrow> s)
     | Some tx \<Rightarrow> actTx hashtext mains stations s t tx action)"

definition idle :: "cellRow list \<Rightarrow> lockState" where
  "idle rows = \<lparr>lk_committed = rows, lk_changes = [], lk_txs = []\<rparr>"

section \<open>What may not be stored\<close>

definition ownerOfRow :: "mainCodes \<Rightarrow> cellRow \<Rightarrow> networkOwner" where
  "ownerOfRow mains row = loadNetworkOwner mains (cr_operatorId row) None"

definition storedIdentity :: "mainCodes \<Rightarrow> cellRow \<Rightarrow> int list option" where
  "storedIdentity mains row = map_option ie_values (identityEntryOf mains (ownerOfRow mains row) (cr_rat row) (sourceOfRow row))"

text \<open>Two published cells of operators with one identity on a network they share.\<close>

definition cellsClash :: "mainCodes \<Rightarrow> cellRow \<Rightarrow> cellRow \<Rightarrow> bool" where
  "cellsClash mains a b \<longleftrightarrow>
    cr_id a \<noteq> cr_id b \<and> cr_isPublished a \<and> cr_isPublished b \<and> cr_operatorId a \<noteq> None \<and> cr_operatorId b \<noteq> None \<and>
    cr_rat a = cr_rat b \<and> storedIdentity mains a \<noteq> None \<and> storedIdentity mains a = storedIdentity mains b \<and>
    sharesNetwork mains (ownerOfRow mains a) (cr_extraCodes a) b"

definition withoutClash :: "mainCodes \<Rightarrow> cellRow list \<Rightarrow> bool" where
  "withoutClash mains rows \<longleftrightarrow> list_all (\<lambda>a. list_all (\<lambda>b. \<not> cellsClash mains a b) rows) rows"

end
