(* ===== verification/DuplicateTheorems.thy ===== *)
theory DuplicateTheorems
  imports LockedWrites
begin

text \<open>
  Identities of cells: what the checks compare, what is locked, and that no interleaving of read-committed
  transactions that write cells stores two published cells with one identity on a network they share; what
  happens under repeatable read, and when a transaction takes its locks in several batches.
\<close>

section \<open>Identities\<close>

lemma ownerOfRow_simps [simp]:
  "no_operatorId (ownerOfRow mains row) = cr_operatorId row"
  "no_mainCode (ownerOfRow mains row) = Option.bind (cr_operatorId row) mains"
  by (simp_all add: ownerOfRow_def loadNetworkOwner_def)

lemma spec_cases:
  assumes "getCellIdentityDuplicateSpec (Some rat) = Some spec"
  obtains "rat = ''GSM''" "spec = CELL_IDENTITY_DUPLICATE_SPECS ! 0"
  | "rat = ''UMTS''" "spec = CELL_IDENTITY_DUPLICATE_SPECS ! 1"
  | "rat = ''LTE''" "spec = CELL_IDENTITY_DUPLICATE_SPECS ! 2"
  | "rat = ''NR''" "spec = CELL_IDENTITY_DUPLICATE_SPECS ! 3"
  using assms
  by (auto simp: getCellIdentityDuplicateSpec_def CELL_IDENTITY_DUPLICATE_SPECS_def split: if_splits)

lemma spec_rat: "getCellIdentityDuplicateSpec (Some rat) = Some spec \<Longrightarrow> ci_rat spec = rat \<and> rat \<in> set IDENTITY_RATS"
  by (erule spec_cases) (auto simp: CELL_IDENTITY_DUPLICATE_SPECS_def IDENTITY_RATS_def)

lemmas identity_defs = CELL_IDENTITY_DUPLICATE_SPECS_def toIdentityDetails_def requiredField_def zeroField_def identityValue_def

lemma map_Some_the: "None \<notin> set xs \<Longrightarrow> map Some (map the xs) = xs"
  by (induction xs) auto

lemma storedIdentity_spec:
  assumes "storedIdentity mains row = Some vs"
  obtains spec where "getCellIdentityDuplicateSpec (Some (cr_rat row)) = Some spec"
    "\<not> isUnknownCellIdentity spec (toIdentityDetails spec (cr_details row))"
    "map (\<lambda>f. numberOf (toIdentityDetails spec (cr_details row)) (if_field f)) (ci_fields spec) = map Some vs"
proof -
  from assms obtain e where e: "identityEntryOf mains (ownerOfRow mains row) (cr_rat row) (sourceOfRow row) = Some e" "ie_values e = vs"
    by (auto simp: storedIdentity_def)
  then obtain spec where spec: "getCellIdentityDuplicateSpec (Some (cr_rat row)) = Some spec"
    by (auto simp: identityEntryOf_def sourceOfRow_def split: option.splits)
  let ?vals = "map (\<lambda>f. numberOf (toIdentityDetails spec (cr_details row)) (if_field f)) (ci_fields spec)"
  have some: "None \<notin> set ?vals" "vs = map the ?vals" "\<not> isUnknownCellIdentity spec (toIdentityDetails spec (cr_details row))"
    using e spec by (auto simp: identityEntryOf_def sourceOfRow_def Let_def split: if_splits)
  have "map Some vs = ?vals"
    unfolding some(2) using some(1) by (rule map_Some_the)
  with spec some(3) that show ?thesis by metis
qed

text \<open>The columns a check compares hold the identity, and the lock of a cell is a function of it.\<close>

lemma storedIdentity_columns:
  assumes "storedIdentity mains row = Some vs" "isStoredRow stations row"
  shows "identityColumns row = map Some vs"
proof -
  obtain spec where spec: "getCellIdentityDuplicateSpec (Some (cr_rat row)) = Some spec"
    and vals: "map (\<lambda>f. numberOf (toIdentityDetails spec (cr_details row)) (if_field f)) (ci_fields spec) = map Some vs"
    using storedIdentity_spec [OF assms(1)] .
  from spec show ?thesis
  proof (cases rule: spec_cases)
    case 4
    have "numberOf [''nci'' \<mapsto> nciOfDetails (cr_details row)] ''nci'' = nciOfDetails (cr_details row)"
      by (simp add: numberOf_def)
    with vals 4 have nci: "[nciOfDetails (cr_details row)] = map Some vs" by (simp add: identity_defs)
    then obtain v where v: "nciOfDetails (cr_details row) = Some v" "vs = [v]" by (cases vs) auto
    from assms(2) 4 obtain len where len: "cr_details row ''gnbid_length'' = Some len" by (auto simp: isStoredRow_def)
    have "nciColumn (cr_details row) = Some v"
      using v(1) len by (auto simp: nciOfDetails_def nciColumn_def numberOf_def Let_def split: option.splits if_splits)
    with 4 v show ?thesis by (simp add: identityColumns_def)
  qed (use vals in \<open>simp_all add: identity_defs identityColumns_def\<close>)
qed

lemma storedIdentity_lock:
  assumes "storedIdentity mains row = Some vs"
  shows "lockText (Some (cr_rat row)) (Some (cr_details row)) = Some (cr_rat row @ '':'' @ joinTexts '':'' (map intText vs))"
proof -
  obtain spec where spec: "getCellIdentityDuplicateSpec (Some (cr_rat row)) = Some spec"
    and known: "\<not> isUnknownCellIdentity spec (toIdentityDetails spec (cr_details row))"
    and vals: "map (\<lambda>f. numberOf (toIdentityDetails spec (cr_details row)) (if_field f)) (ci_fields spec) = map Some vs"
    using storedIdentity_spec [OF assms] .
  let ?d = "toIdentityDetails spec (cr_details row)"
  have "identityValue ?d f = numberOf ?d (if_field f)" if "f \<in> set (ci_fields spec)" for f
  proof -
    from that have "numberOf ?d (if_field f) \<in> set (map (\<lambda>f. numberOf ?d (if_field f)) (ci_fields spec))" by simp
    then show ?thesis unfolding vals by (auto simp: identityValue_def)
  qed
  then have "map (identityValue ?d) (ci_fields spec) = map (\<lambda>f. numberOf ?d (if_field f)) (ci_fields spec)"
    by (intro map_cong [OF refl])
  with vals have "map (identityValue ?d) (ci_fields spec) = map Some vs" by simp
  then have texts: "map (\<lambda>f. valueText (identityValue ?d f)) (ci_fields spec) = map intText vs"
    by (metis (no_types, lifting) map_map comp_apply map_eq_conv option.simps(5) valueText_def)
  have "list_all (\<lambda>field. list_ex (\<lambda>f. if_field f = field \<and> identityValue ?d f \<noteq> None) (ci_fields spec)) (ci_requiredFields spec)"
    using spec vals by (cases rule: spec_cases) (auto simp: identity_defs map_eq_Cons_conv split: option.splits)
  with spec known texts spec_rat [OF spec] show ?thesis
    by (simp add: lockText_def getCellIdentityDuplicateKey_def Let_def)
qed

section \<open>Clashes\<close>

lemma cellsClash_lock:
  assumes "cellsClash mains a b"
  shows "lockText (Some (cr_rat a)) (Some (cr_details a)) = lockText (Some (cr_rat b)) (Some (cr_details b))"
    "lockText (Some (cr_rat a)) (Some (cr_details a)) \<noteq> None"
proof -
  from assms obtain vs where "storedIdentity mains a = Some vs" "storedIdentity mains b = Some vs" "cr_rat a = cr_rat b"
    by (auto simp: cellsClash_def)
  note locks = storedIdentity_lock [OF this(1)] storedIdentity_lock [OF this(2)] this(3)
  then show "lockText (Some (cr_rat a)) (Some (cr_details a)) = lockText (Some (cr_rat b)) (Some (cr_details b))"
    "lockText (Some (cr_rat a)) (Some (cr_details a)) \<noteq> None" by simp_all
qed

lemma uniq_Nil [simp]: "uniq xs = [] \<longleftrightarrow> xs = []"
  by (cases xs) simp_all

lemma cellsClash_sym:
  assumes "cellsClash mains a b"
  shows "cellsClash mains b a"
proof -
  have "sharesNetwork mains (ownerOfRow mains b) (cr_extraCodes b) a"
    using assms unfolding cellsClash_def sharesNetwork_def Let_def list_ex_iff
    by (cases "Option.bind (cr_operatorId a) mains"; cases "Option.bind (cr_operatorId b) mains")
      (auto split: if_splits)
  with assms show ?thesis by (auto simp: cellsClash_def)
qed

text \<open>A check that passes finds no clash among the rows it sees.\<close>

lemma firstError_ok:
  assumes "firstError rs = Inr ()"
  shows "\<forall>r\<in>set rs. r = Inr ()"
proof (cases "List.find (\<lambda>r. r \<noteq> Inr ()) rs")
  case None
  then show ?thesis by (auto simp: find_None_iff)
next
  case (Some e)
  then have "e \<noteq> Inr ()" by (auto simp: find_Some_iff)
  with Some assms show ?thesis by (simp add: firstError_def)
qed

lemma checkStoredRows_ok:
  assumes "checkStoredRows view mains [a] = Inr ()" "b \<in> set view" "isStoredRow stations b"
  shows "\<not> cellsClash mains a b"
proof
  assume clash: "cellsClash mains a b"
  then obtain e where e: "identityEntryOf mains (ownerOfRow mains a) (cr_rat a) (sourceOfRow a) = Some e"
    by (auto simp: cellsClash_def storedIdentity_def)
  with clash have stored: "storedIdentity mains b = Some (ie_values e)" by (simp add: cellsClash_def storedIdentity_def)
  from e obtain spec where "getCellIdentityDuplicateSpec (Some (cr_rat a)) = Some spec"
    by (auto simp: identityEntryOf_def sourceOfRow_def split: option.splits)
  then have rat: "cr_rat a \<in> set IDENTITY_RATS" using spec_rat by blast
  have "checkOwnerCellDuplicates view mains [sourceOfRow a] (ownerOfRow mains a) [] = Inr ()"
    using assms(1) by (auto simp: checkStoredRows_def ownerOfRow_def dest!: firstError_ok)
  from firstError_ok [OF this [unfolded checkOwnerCellDuplicates_def]] rat
  have "checkEntries view [] (cr_rat a) (List.map_filter (identityEntryOf mains (ownerOfRow mains a) (cr_rat a)) [sourceOfRow a]) = Inr ()"
    by simp
  then have "checkEntries view [] (cr_rat a) [e] = Inr ()" using e by (simp add: map_filter_simps)
  moreover have "matchesEntry e b"
  proof -
    have "ie_excludeCellId e = Some (cr_id a)" "ie_networks e = sharesNetwork mains (ownerOfRow mains a) (cr_extraCodes a)"
      using e by (auto simp: identityEntryOf_def sourceOfRow_def Let_def split: option.splits if_splits)
    with clash storedIdentity_columns [OF stored assms(3)] show ?thesis
      by (simp add: matchesEntry_def cellsClash_def)
  qed
  ultimately show False using clash assms(2) by (auto simp: checkEntries_def find_None_iff cellsClash_def split: option.splits)
qed

section \<open>The invariant of the interleaved transactions\<close>

lemma isWriting_iff [simp]: "isWriting tx \<longleftrightarrow> wt_phase tx = TxWriting"
  by (simp add: isWriting_def split: txPhase.split)

definition newRows :: "cellTx \<Rightarrow> cellRow list" where
  "newRows tx = List.map_filter snd (wt_written tx)"

definition isChecked :: "cellRow \<Rightarrow> bool" where
  "isChecked row \<longleftrightarrow> cr_isPublished row \<and> cr_operatorId row \<noteq> None"

definition hashOf :: "(string \<Rightarrow> int) \<Rightarrow> cellRow \<Rightarrow> int option" where
  "hashOf hashtext row = map_option hashtext (lockText (Some (cr_rat row)) (Some (cr_details row)))"

definition hashesOf :: "cellTx \<Rightarrow> int list" where
  "hashesOf tx = (case wt_phase tx of TxWriting \<Rightarrow> [] | TxSaving hs _ \<Rightarrow> hs)"

definition rowsOf :: "cellTx \<Rightarrow> cellRow list" where
  "rowsOf tx = (case wt_phase tx of TxWriting \<Rightarrow> [] | TxSaving _ rows \<Rightarrow> rows)"

lemma batchPhase_if: "batchPhase hs rows = (if hs = [] \<and> rows = [] then TxWriting else TxSaving hs rows)"
  by (simp add: batchPhase_def split: list.split)

lemma batchPhase_parts [simp]:
  "hashesOf (tx\<lparr>wt_phase := batchPhase hs rows\<rparr>) = hs" "rowsOf (tx\<lparr>wt_phase := batchPhase hs rows\<rparr>) = rows"
  by (simp_all add: hashesOf_def rowsOf_def batchPhase_if)

text \<open>The rows of a transaction that a batch has loaded since they were written, and those it will still look at.\<close>

definition isLoaded :: "cellTx \<Rightarrow> cellRow \<Rightarrow> bool" where
  "isLoaded tx row \<longleftrightarrow> row \<in> set (newRows tx) \<and> isChecked row \<and> cr_id row \<notin> set (wt_unchecked tx)"

definition isPending :: "cellTx \<Rightarrow> cellRow \<Rightarrow> bool" where
  "isPending tx row \<longleftrightarrow> row \<in> set (newRows tx) \<and> cr_id row \<in> set (wt_unchecked tx) \<or> row \<in> set (rowsOf tx)"

text \<open>
  A transaction that is read committed has or waits for the lock of each row it has loaded, and a row that it has
  checked clashes with nothing it sees, but perhaps with a row it has yet to check.
\<close>

definition batchOk :: "(string \<Rightarrow> int) \<Rightarrow> mainCodes \<Rightarrow> cellRow list \<Rightarrow> cellTx \<Rightarrow> bool" where
  "batchOk hashtext mains committed tx \<longleftrightarrow>
    (\<forall>a h. isLoaded tx a \<and> hashOf hashtext a = Some h \<longrightarrow> h \<in> set (wt_held tx) \<or> a \<in> set (rowsOf tx) \<and> h \<in> set (hashesOf tx)) \<and>
    (\<forall>a b. isLoaded tx a \<and> a \<notin> set (rowsOf tx) \<and> b \<in> set (viewOf committed (wt_written tx)) \<longrightarrow> \<not> cellsClash mains a b \<or> isPending tx b)"

definition writtenOk :: "(int \<Rightarrow> bool \<times> int option) \<Rightarrow> cellTx \<Rightarrow> bool" where
  "writtenOk stations tx \<longleftrightarrow>
    distinct (map fst (wt_written tx)) \<and>
    (\<forall>(i, change)\<in>set (wt_written tx). \<forall>row. change = Some row \<longrightarrow> cr_id row = i \<and> isStoredRow stations row)"

definition txOk :: "(string \<Rightarrow> int) \<Rightarrow> mainCodes \<Rightarrow> (int \<Rightarrow> bool \<times> int option) \<Rightarrow> cellRow list \<Rightarrow> cellTx \<Rightarrow> bool" where
  "txOk hashtext mains stations committed tx \<longleftrightarrow>
    wt_snapshot tx = None \<and> writtenOk stations tx \<and> batchOk hashtext mains committed tx"

definition apart :: "cellTx \<Rightarrow> cellTx \<Rightarrow> bool" where
  "apart tx other \<longleftrightarrow> fst ` set (wt_written tx) \<inter> fst ` set (wt_written other) = {} \<and> set (wt_held tx) \<inter> set (wt_held other) = {}"

definition tablesOk :: "mainCodes \<Rightarrow> (int \<Rightarrow> bool \<times> int option) \<Rightarrow> cellRow list \<Rightarrow> bool" where
  "tablesOk mains stations rows \<longleftrightarrow> distinct (map cr_id rows) \<and> (\<forall>row\<in>set rows. isStoredRow stations row) \<and> withoutClash mains rows"

definition locksOk :: "(string \<Rightarrow> int) \<Rightarrow> mainCodes \<Rightarrow> (int \<Rightarrow> bool \<times> int option) \<Rightarrow> lockState \<Rightarrow> bool" where
  "locksOk hashtext mains stations s \<longleftrightarrow>
    distinct (map fst (lk_txs s)) \<and> tablesOk mains stations (lk_committed s) \<and>
    (\<forall>(t, tx)\<in>set (lk_txs s). txOk hashtext mains stations (lk_committed s) tx) \<and>
    (\<forall>(t, tx)\<in>set (lk_txs s). \<forall>(t', tx')\<in>set (lk_txs s). t \<noteq> t' \<longrightarrow> apart tx tx')"

lemma apart_sym: "apart tx other \<longleftrightarrow> apart other tx"
  by (auto simp: apart_def)

lemma set_otherTxs: "set (otherTxs s t) = {(t', tx) \<in> set (lk_txs s). t' \<noteq> t}"
  by (auto simp: otherTxs_def)

lemma distinct_otherTxs: "distinct (map fst (lk_txs s)) \<Longrightarrow> distinct (map fst (otherTxs s t))"
  by (simp add: otherTxs_def distinct_map_filter)

lemma locksOk_endTx: "locksOk hashtext mains stations s \<Longrightarrow> locksOk hashtext mains stations (endTx t s)"
  unfolding locksOk_def endTx_def by (auto simp: set_otherTxs distinct_otherTxs)

lemma locksOk_setTx:
  assumes "locksOk hashtext mains stations s" "txOk hashtext mains stations (lk_committed s) tx"
    and "\<And>t' other. (t', other) \<in> set (otherTxs s t) \<Longrightarrow> apart tx other"
  shows "locksOk hashtext mains stations (setTx t tx s)"
proof -
  have "distinct (map fst ((t, tx) # otherTxs s t))"
    using assms(1) distinct_otherTxs [of s t] by (auto simp: locksOk_def set_otherTxs)
  moreover have "apart x y" if "(i, x) \<in> set ((t, tx) # otherTxs s t)" "(j, y) \<in> set ((t, tx) # otherTxs s t)" "i \<noteq> j" for i j x y
    using that assms(1,3) apart_sym by (fastforce simp: locksOk_def set_otherTxs)
  ultimately show ?thesis using assms(1,2)
    unfolding locksOk_def setTx_def by (fastforce simp: set_otherTxs)
qed

lemma locksOk_other:
  assumes "locksOk hashtext mains stations s" "map_of (lk_txs s) t = Some tx" "(t', other) \<in> set (otherTxs s t)"
  shows "apart tx other"
  using assms map_of_SomeD [OF assms(2)] by (auto simp: locksOk_def set_otherTxs)

lemma locksOk_tx:
  assumes "locksOk hashtext mains stations s" "map_of (lk_txs s) t = Some tx"
  shows "txOk hashtext mains stations (lk_committed s) tx"
  using assms map_of_SomeD [OF assms(2)] by (auto simp: locksOk_def)

lemma set_newRows: "row \<in> set (newRows tx) \<longleftrightarrow> (\<exists>i. (i, Some row) \<in> set (wt_written tx))"
  by (force simp: newRows_def List.map_filter_def)

lemma set_viewOf:
  "set (viewOf committed (wt_written tx)) = {row \<in> set committed. cr_id row \<notin> fst ` set (wt_written tx)} \<union> set (newRows tx)"
  by (auto simp: viewOf_def newRows_def map_of_eq_None_iff)

lemma newRows_id: "\<lbrakk>writtenOk stations tx; row \<in> set (newRows tx)\<rbrakk> \<Longrightarrow> cr_id row \<in> fst ` set (wt_written tx) \<and> isStoredRow stations row"
  by (force simp: writtenOk_def set_newRows)

lemma set_update_insert: "set (AList.update k v al) \<subseteq> insert (k, v) (set al)"
  by (induction al) auto

lemma seenBy_committed [simp]: "wt_snapshot tx = None \<Longrightarrow> seenBy committed tx = viewOf committed (wt_written tx)"
  by (simp add: seenBy_def)

lemma newRows_unique:
  assumes "writtenOk stations tx" "a \<in> set (newRows tx)" "b \<in> set (viewOf committed (wt_written tx))" "cr_id a = cr_id b"
  shows "a = b"
proof -
  have a: "(cr_id a, Some a) \<in> set (wt_written tx)" using assms(1,2) by (force simp: set_newRows writtenOk_def)
  then have "cr_id b \<in> fst ` set (wt_written tx)" using assms(4) by force
  then have "b \<in> set (newRows tx)" using assms(3) by (auto simp: set_viewOf)
  then have "(cr_id b, Some b) \<in> set (wt_written tx)" using assms(1) by (force simp: set_newRows writtenOk_def)
  with a assms(1,4) show ?thesis by (auto simp: writtenOk_def dest: eq_key_imp_eq_value)
qed

lemma locksOk_write:
  assumes "locksOk hashtext mains stations s" "map_of (lk_txs s) t = Some tx" "wt_phase tx = TxWriting" "canWrite stations s t i change"
  shows "locksOk hashtext mains stations (setTx t (writeTx i change tx) s)"
proof (rule locksOk_setTx [OF assms(1)])
  have tx: "wt_snapshot tx = None" "writtenOk stations tx" "batchOk hashtext mains (lk_committed s) tx"
    using locksOk_tx [OF assms(1,2)] by (simp_all add: txOk_def)
  let ?tx = "writeTx i change tx"
  have old: "entry = (i, change) \<or> fst entry \<noteq> i \<and> entry \<in> set (wt_written tx)" if "entry \<in> set (wt_written ?tx)" for entry
  proof -
    have dist: "distinct (map fst (wt_written tx))" using tx(2) by (simp add: writtenOk_def)
    then have dist': "distinct (map fst (AList.update i change (wt_written tx)))" by (simp add: distinct_update)
    have "map_of (wt_written ?tx) (fst entry) = Some (snd entry)" using that dist' by (simp add: writeTx_def)
    then show ?thesis using dist by (auto simp: writeTx_def update_conv' split: if_splits dest: map_of_SomeD)
  qed
  have written: "writtenOk stations ?tx"
    unfolding writtenOk_def
  proof (intro conjI ballI)
    show "distinct (map fst (wt_written ?tx))" using tx(2) by (simp add: writtenOk_def writeTx_def distinct_update)
    fix entry assume "entry \<in> set (wt_written ?tx)"
    then show "case entry of (i, change) \<Rightarrow> \<forall>row. change = Some row \<longrightarrow> cr_id row = i \<and> isStoredRow stations row"
      using old tx(2) assms(4) by (fastforce simp: writtenOk_def canWrite_def)
  qed
  have rows: "row \<in> set (newRows tx) \<or> cr_id row = i" if "row \<in> set (newRows ?tx)" for row
    using that old assms(4) by (fastforce simp: set_newRows canWrite_def)
  have view: "b \<in> set (viewOf (lk_committed s) (wt_written tx)) \<or> b \<in> set (newRows ?tx) \<and> cr_id b = i"
    if "b \<in> set (viewOf (lk_committed s) (wt_written ?tx))" for b
    using that rows unfolding set_viewOf by (auto simp: writeTx_def dom_update)
  have loaded: "isLoaded tx a" if "isLoaded ?tx a" for a
    using that rows [of a] by (auto simp: isLoaded_def writeTx_def)
  have phase: "rowsOf ?tx = rowsOf tx" "hashesOf ?tx = hashesOf tx" "wt_held ?tx = wt_held tx" "wt_snapshot ?tx = wt_snapshot tx"
    by (simp_all add: writeTx_def rowsOf_def hashesOf_def)
  have pending: "isPending ?tx b" if "isPending tx b" "b \<in> set (viewOf (lk_committed s) (wt_written ?tx))" for b
  proof -
    have "b \<in> set (newRows ?tx)" if "b \<in> set (newRows tx)"
    proof -
      have "cr_id b \<in> fst ` set (wt_written tx)" using that tx(2) by (simp add: newRows_id)
      then have "cr_id b \<in> fst ` set (wt_written ?tx)" by (simp add: writeTx_def dom_update)
      then show ?thesis using \<open>b \<in> set (viewOf (lk_committed s) (wt_written ?tx))\<close> by (auto simp: set_viewOf)
    qed
    then show ?thesis using that(1) phase(1) by (auto simp: isPending_def writeTx_def)
  qed
  have "batchOk hashtext mains (lk_committed s) ?tx"
    unfolding batchOk_def phase
  proof (intro conjI allI impI)
    fix a h assume "isLoaded ?tx a \<and> hashOf hashtext a = Some h"
    then show "h \<in> set (wt_held tx) \<or> a \<in> set (rowsOf tx) \<and> h \<in> set (hashesOf tx)"
      using loaded tx(3) by (simp add: batchOk_def)
  next
    fix a b assume ab: "isLoaded ?tx a \<and> a \<notin> set (rowsOf tx) \<and> b \<in> set (viewOf (lk_committed s) (wt_written ?tx))"
    show "\<not> cellsClash mains a b \<or> isPending ?tx b"
    proof (cases "b \<in> set (viewOf (lk_committed s) (wt_written tx))")
      case True
      then have "\<not> cellsClash mains a b \<or> isPending tx b" using ab loaded [of a] tx(3) unfolding batchOk_def by blast
      then show ?thesis using pending ab by blast
    next
      case False
      then show ?thesis using view ab by (auto simp: isPending_def writeTx_def)
    qed
  qed
  with tx(1) written phase(4) show "txOk hashtext mains stations (lk_committed s) ?tx" by (simp add: txOk_def)
next
  fix t' other
  assume other: "(t', other) \<in> set (otherTxs s t)"
  then have "i \<notin> fst ` set (wt_written other)" using assms(4) by (auto simp: canWrite_def list_all_iff)
  with locksOk_other [OF assms(1,2) other] show "apart (writeTx i change tx) other"
    by (auto simp: apart_def writeTx_def dom_update)
qed

lemma set_lockHashes:
  "set (lockHashes hashtext (map sourceOfRow rows)) = {h. \<exists>row\<in>set rows. hashOf hashtext row = Some h}"
  by (force simp: lockHashes_def List.map_filter_def hashOf_def sourceOfRow_def)

lemma locksOk_load:
  assumes "locksOk hashtext mains stations s" "map_of (lk_txs s) t = Some tx" "wt_phase tx = TxWriting"
  shows "locksOk hashtext mains stations (setTx t (loadStored hashtext (lk_committed s) cellIds stationId tx) s)"
proof (rule locksOk_setTx [OF assms(1)])
  have tx: "wt_snapshot tx = None" "writtenOk stations tx" "batchOk hashtext mains (lk_committed s) tx"
    using locksOk_tx [OF assms(1,2)] by (simp_all add: txOk_def)
  let ?tx = "loadStored hashtext (lk_committed s) cellIds stationId tx"
  let ?seen = "viewOf (lk_committed s) (wt_written tx)"
  let ?checked = "checkedRows cellIds stationId ?seen"
  have parts: "hashesOf ?tx = lockHashes hashtext (map sourceOfRow ?checked)" "rowsOf ?tx = ?checked" "wt_held ?tx = wt_held tx"
    "wt_written ?tx = wt_written tx" "wt_snapshot ?tx = None" "newRows ?tx = newRows tx"
    using tx(1) by (simp_all add: loadStored_def Let_def newRows_def)
  have before: "rowsOf tx = []" "hashesOf tx = []" using assms(3) by (simp_all add: rowsOf_def hashesOf_def)
  have seen: "row \<in> set ?seen" if "row \<in> set (newRows tx)" for row using that by (simp add: set_viewOf)
  have still: "cr_id row \<in> set (wt_unchecked ?tx) \<longleftrightarrow> cr_id row \<in> set (wt_unchecked tx) \<and> \<not> isInScope cellIds stationId row"
    if "row \<in> set (newRows tx)" for row
    using newRows_unique [OF tx(2) that] seen [OF that] tx(1) by (fastforce simp: loadStored_def Let_def)
  have checked: "row \<in> set ?checked" if "row \<in> set (newRows tx)" "isInScope cellIds stationId row" "isChecked row" for row
    using that seen by (simp add: checkedRows_def isChecked_def)
  have "batchOk hashtext mains (lk_committed s) ?tx"
    unfolding batchOk_def parts
  proof (intro conjI allI impI)
    fix a h assume a: "isLoaded ?tx a \<and> hashOf hashtext a = Some h"
    then have new: "a \<in> set (newRows tx)" "isChecked a" by (simp_all add: isLoaded_def parts)
    show "h \<in> set (wt_held tx) \<or> a \<in> set ?checked \<and> h \<in> set (lockHashes hashtext (map sourceOfRow ?checked))"
    proof (cases "isInScope cellIds stationId a")
      case True
      with checked [OF new(1) _ new(2)] a show ?thesis unfolding set_lockHashes by blast
    next
      case False
      then have "isLoaded tx a" using a still [OF new(1)] by (simp add: isLoaded_def parts)
      then show ?thesis using a tx(3) before by (auto simp: batchOk_def)
    qed
  next
    fix a b assume ab: "isLoaded ?tx a \<and> a \<notin> set ?checked \<and> b \<in> set ?seen"
    then have new: "a \<in> set (newRows tx)" "isChecked a" by (simp_all add: isLoaded_def parts)
    then have "isLoaded tx a" using ab still [OF new(1)] checked [OF new(1) _ new(2)] by (auto simp: isLoaded_def parts)
    then have "\<not> cellsClash mains a b \<or> isPending tx b" using ab tx(3) before by (simp add: batchOk_def)
    moreover have "isPending ?tx b" if "isPending tx b" "cellsClash mains a b"
    proof -
      have b: "b \<in> set (newRows tx)" "cr_id b \<in> set (wt_unchecked tx)" using that(1) before by (simp_all add: isPending_def)
      have "isChecked b" using that(2) by (simp add: cellsClash_def isChecked_def)
      then show ?thesis using b still [OF b(1)] checked [OF b(1)] by (auto simp: isPending_def parts)
    qed
    ultimately show "\<not> cellsClash mains a b \<or> isPending ?tx b" by blast
  qed
  with tx(2) parts(4,5) show "txOk hashtext mains stations (lk_committed s) ?tx"
    by (simp add: txOk_def writtenOk_def)
next
  fix t' other
  assume "(t', other) \<in> set (otherTxs s t)"
  from locksOk_other [OF assms(1,2) this] show "apart (loadStored hashtext (lk_committed s) cellIds stationId tx) other"
    by (simp add: apart_def loadStored_def Let_def)
qed

lemma batch_step:
  assumes "batchOk hashtext mains committed tx" "set (hashesOf tx) \<subseteq> insert h (set hs)"
    and "rowsOf tx = rows" "held = h # wt_held tx"
  shows "batchOk hashtext mains committed (tx\<lparr>wt_held := held, wt_phase := batchPhase hs rows\<rparr>)"
proof -
  let ?tx = "tx\<lparr>wt_held := held, wt_phase := batchPhase hs rows\<rparr>"
  have "isLoaded ?tx = isLoaded tx" "isPending ?tx = isPending tx" "hashesOf ?tx = hs" "rowsOf ?tx = rowsOf tx"
    using assms(3) by (auto simp: isLoaded_def isPending_def newRows_def fun_eq_iff hashesOf_def rowsOf_def batchPhase_if)
  with assms show ?thesis unfolding batchOk_def by fastforce
qed

lemma locksOk_take:
  assumes "locksOk hashtext mains stations s" "map_of (lk_txs s) t = Some tx" "wt_phase tx = TxSaving (h # hs) rows" "isFree s t h"
  shows "locksOk hashtext mains stations (setTx t (tx\<lparr>wt_held := h # wt_held tx, wt_phase := batchPhase hs rows\<rparr>) s)"
proof (rule locksOk_setTx [OF assms(1)])
  have tx: "txOk hashtext mains stations (lk_committed s) tx" by (rule locksOk_tx [OF assms(1,2)])
  then have "batchOk hashtext mains (lk_committed s) (tx\<lparr>wt_held := h # wt_held tx, wt_phase := batchPhase hs rows\<rparr>)"
    using assms(3) by (intro batch_step) (auto simp: txOk_def hashesOf_def rowsOf_def)
  with tx show "txOk hashtext mains stations (lk_committed s) (tx\<lparr>wt_held := h # wt_held tx, wt_phase := batchPhase hs rows\<rparr>)"
    by (simp add: txOk_def writtenOk_def)
next
  fix t' other
  assume other: "(t', other) \<in> set (otherTxs s t)"
  then have "h \<notin> set (wt_held other)" using assms(4) by (auto simp: isFree_def list_all_iff)
  with locksOk_other [OF assms(1,2) other]
  show "apart (tx\<lparr>wt_held := h # wt_held tx, wt_phase := batchPhase hs rows\<rparr>) other" by (auto simp: apart_def)
qed

lemma locksOk_check:
  assumes "locksOk hashtext mains stations s" "map_of (lk_txs s) t = Some tx" "wt_phase tx = TxSaving [] (row # rows)"
    and "checkStoredRows (seenBy (lk_committed s) tx) mains [row] = Inr ()"
  shows "locksOk hashtext mains stations (setTx t (tx\<lparr>wt_phase := batchPhase [] rows\<rparr>) s)"
proof (rule locksOk_setTx [OF assms(1)])
  have tx: "wt_snapshot tx = None" "writtenOk stations tx" "batchOk hashtext mains (lk_committed s) tx"
    using locksOk_tx [OF assms(1,2)] by (simp_all add: txOk_def)
  let ?tx = "tx\<lparr>wt_phase := batchPhase [] rows\<rparr>" and ?seen = "viewOf (lk_committed s) (wt_written tx)"
  have before: "rowsOf tx = row # rows" "hashesOf tx = []" using assms(3) by (simp_all add: rowsOf_def hashesOf_def)
  have stored: "isStoredRow stations b" if "b \<in> set ?seen" for b
    using that newRows_id [OF tx(2)] assms(1) by (auto simp: set_viewOf locksOk_def tablesOk_def)
  have clear: "\<not> cellsClash mains row b" if "b \<in> set ?seen" for b
    by (rule checkStoredRows_ok [OF assms(4) _ stored [OF that]]) (simp add: that tx(1))
  have loaded: "isLoaded ?tx = isLoaded tx" by (simp add: isLoaded_def newRows_def fun_eq_iff)
  have "batchOk hashtext mains (lk_committed s) ?tx"
    unfolding batchOk_def loaded batchPhase_parts
  proof (intro conjI allI impI)
    fix a h assume "isLoaded tx a \<and> hashOf hashtext a = Some h"
    then show "h \<in> set (wt_held ?tx) \<or> a \<in> set rows \<and> h \<in> set []" using tx(3) before by (auto simp: batchOk_def)
  next
    fix a b assume ab: "isLoaded tx a \<and> a \<notin> set rows \<and> b \<in> set (viewOf (lk_committed s) (wt_written ?tx))"
    then have b: "b \<in> set ?seen" and a: "a \<in> set ?seen" by (auto simp: isLoaded_def set_viewOf)
    show "\<not> cellsClash mains a b \<or> isPending ?tx b"
    proof (cases "a = row \<or> b = row")
      case True
      then show ?thesis using clear a b cellsClash_sym by blast
    next
      case False
      then have "\<not> cellsClash mains a b \<or> isPending tx b" using ab b tx(3) before by (auto simp: batchOk_def)
      then show ?thesis using False before by (auto simp: isPending_def newRows_def)
    qed
  qed
  with tx show "txOk hashtext mains stations (lk_committed s) ?tx" by (simp add: txOk_def writtenOk_def)
next
  fix t' other
  assume "(t', other) \<in> set (otherTxs s t)"
  from locksOk_other [OF assms(1,2) this] show "apart (tx\<lparr>wt_phase := batchPhase [] rows\<rparr>) other" by (simp add: apart_def)
qed

text \<open>
  At its commit a transaction has checked each row it wrote and holds its lock, so no row that another one has
  checked clashes with what becomes visible.
\<close>

lemma committed_rows:
  assumes "txOk hashtext mains stations committed tx" "canCommit tx" "a \<in> set (newRows tx)" "isChecked a"
  shows "isLoaded tx a" "rowsOf tx = []" "hashesOf tx = []"
    "b \<in> set (viewOf committed (wt_written tx)) \<Longrightarrow> \<not> cellsClash mains a b" "hashOf hashtext a = Some h \<Longrightarrow> h \<in> set (wt_held tx)"
proof -
  show phase: "rowsOf tx = []" "hashesOf tx = []" using assms(2) by (simp_all add: canCommit_def rowsOf_def hashesOf_def)
  have done': "row \<in> set (newRows tx) \<Longrightarrow> cr_id row \<notin> set (wt_unchecked tx)" for row
    using assms(1,2) by (fastforce simp: canCommit_def list_all_iff set_newRows txOk_def writtenOk_def)
  then show loaded: "isLoaded tx a" using assms(3,4) by (simp add: isLoaded_def)
  show "\<not> cellsClash mains a b" if "b \<in> set (viewOf committed (wt_written tx))"
  proof -
    have "\<not> cellsClash mains a b \<or> isPending tx b" using assms(1) loaded phase that by (simp add: txOk_def batchOk_def)
    moreover have "\<not> isPending tx b" using phase done' by (auto simp: isPending_def)
    ultimately show ?thesis by simp
  qed
  show "h \<in> set (wt_held tx)" if "hashOf hashtext a = Some h"
    using assms(1) loaded phase that by (auto simp: txOk_def batchOk_def)
qed

lemma tablesOk_commit:
  assumes "locksOk hashtext mains stations s" "map_of (lk_txs s) t = Some tx" "canCommit tx"
  shows "tablesOk mains stations (viewOf (lk_committed s) (wt_written tx))"
proof -
  let ?view = "viewOf (lk_committed s) (wt_written tx)"
  note ok = locksOk_tx [OF assms(1,2)]
  then have tx: "writtenOk stations tx" by (simp add: txOk_def)
  have old: "distinct (map cr_id (lk_committed s))" "\<And>row. row \<in> set (lk_committed s) \<Longrightarrow> isStoredRow stations row"
    "\<And>a b. \<lbrakk>a \<in> set (lk_committed s); b \<in> set (lk_committed s)\<rbrakk> \<Longrightarrow> \<not> cellsClash mains a b"
    using assms(1) by (auto simp: locksOk_def tablesOk_def withoutClash_def list_all_iff)
  have new: "\<not> cellsClash mains a b" if "a \<in> set (newRows tx)" "b \<in> set ?view" for a b
    using committed_rows(4) [OF ok assms(3) that(1) _ that(2)] by (auto simp: isChecked_def cellsClash_def)
  have clash: "\<not> cellsClash mains a b" if "a \<in> set ?view" "b \<in> set ?view" for a b
  proof (cases "a \<in> set (newRows tx) \<or> b \<in> set (newRows tx)")
    case True
    with new that cellsClash_sym show ?thesis by blast
  next
    case False
    with that old(3) show ?thesis by (auto simp: set_viewOf)
  qed
  have keys: "map cr_id (List.map_filter snd written) = map fst (filter (\<lambda>(_, change). change \<noteq> None) written)"
    if "\<forall>(i, change)\<in>set written. \<forall>row. change = Some row \<longrightarrow> cr_id row = i \<and> isStoredRow stations row" for written
    using that by (induction written) (auto simp: map_filter_simps split: option.split)
  have "distinct (map cr_id (newRows tx))"
    using tx unfolding newRows_def writtenOk_def by (simp add: keys distinct_map_filter)
  moreover have "cr_id ` set (newRows tx) \<subseteq> fst ` set (wt_written tx)" using newRows_id [OF tx] by blast
  ultimately have "distinct (map cr_id ?view)"
    using old(1) unfolding viewOf_def newRows_def [symmetric]
    by (auto simp: distinct_map_filter map_of_eq_None_iff)
  with clash old(2) newRows_id [OF tx] show ?thesis
    by (auto simp: tablesOk_def withoutClash_def list_all_iff set_viewOf)
qed

lemma locksOk_commit:
  assumes "locksOk hashtext mains stations s" "map_of (lk_txs s) t = Some tx" "canCommit tx"
  shows "locksOk hashtext mains stations (commitTx t tx s)"
proof -
  note ok = locksOk_tx [OF assms(1,2)]
  have ended: "locksOk hashtext mains stations (endTx t s)" by (rule locksOk_endTx [OF assms(1)])
  have "txOk hashtext mains stations (viewOf (lk_committed s) (wt_written tx)) other" if other: "(t', other) \<in> set (otherTxs s t)" for t' other
  proof -
    have otherOk: "txOk hashtext mains stations (lk_committed s) other"
      using assms(1) other by (auto simp: locksOk_def set_otherTxs)
    have apart: "apart tx other" by (rule locksOk_other [OF assms(1,2) other])
    have "\<not> cellsClash mains a b" if "isLoaded other a" "a \<notin> set (rowsOf other)" "b \<in> set (newRows tx)" for a b
    proof
      assume clash: "cellsClash mains a b"
      then obtain h where h: "hashOf hashtext a = Some h" "hashOf hashtext b = Some h"
        using cellsClash_lock [OF clash] by (auto simp: hashOf_def)
      have "isChecked b" using clash by (simp add: isChecked_def cellsClash_def)
      then have "h \<in> set (wt_held tx)" using committed_rows(5) [OF ok assms(3) that(3)] h(2) by blast
      moreover have "h \<in> set (wt_held other)" using otherOk that(1,2) h(1) by (auto simp: txOk_def batchOk_def)
      ultimately show False using apart by (auto simp: apart_def)
    qed
    then have "batchOk hashtext mains (viewOf (lk_committed s) (wt_written tx)) other"
      using otherOk by (fastforce simp: txOk_def batchOk_def set_viewOf)
    with otherOk show ?thesis by (simp add: txOk_def)
  qed
  with ended tablesOk_commit [OF assms] show ?thesis by (auto simp: locksOk_def endTx_def commitTx_def)
qed

text \<open>The condition on a step: no transaction begins repeatable read.\<close>

definition isReadCommitted :: "nat \<times> txAction \<Rightarrow> bool" where
  "isReadCommitted step' = (case snd step' of BeginTx isRepeatable \<Rightarrow> \<not> isRepeatable | _ \<Rightarrow> True)"

lemma locksOk_step:
  assumes "locksOk hashtext mains stations s" "isReadCommitted step'"
  shows "locksOk hashtext mains stations (txStep hashtext mains stations s step')"
proof -
  obtain t action where step': "step' = (t, action)" by (cases step')
  show ?thesis
  proof (cases "map_of (lk_txs s) t")
    case None
    have "txOk hashtext mains stations (lk_committed s) (newTx False s)"
      by (simp add: txOk_def writtenOk_def batchOk_def newTx_def isLoaded_def newRows_def)
    then have "locksOk hashtext mains stations (setTx t (newTx False s) s)"
      by (rule locksOk_setTx [OF assms(1)]) (simp add: apart_def newTx_def)
    with None assms show ?thesis by (auto simp: txStep_def step' isReadCommitted_def split: txAction.split)
  next
    case (Some tx)
    have noSnapshot: "wt_snapshot tx = None" using locksOk_tx [OF assms(1) Some] by (simp add: txOk_def)
    have "locksOk hashtext mains stations (actTx hashtext mains stations s t tx action)"
    proof (cases action)
      case (WriteRow i change)
      with assms locksOk_write [OF assms(1) Some] noSnapshot show ?thesis by (simp add: failsToSerialize_def)
    next
      case LoadStored
      with assms locksOk_load [OF assms(1) Some] show ?thesis by simp
    next
      case TakeLock
      with assms locksOk_take [OF assms(1) Some] show ?thesis by (simp split: txPhase.split list.split)
    next
      case CheckRow
      with assms locksOk_check [OF assms(1) Some] locksOk_endTx [OF assms(1)] show ?thesis
        by (auto split: txPhase.split list.split sum.split)
    next
      case CommitTx
      with assms locksOk_commit [OF assms(1) Some] show ?thesis by simp
    qed (use assms locksOk_endTx [OF assms(1)] in simp_all)
    with Some show ?thesis by (simp add: txStep_def step')
  qed
qed

interpretation cellTransactions: invariant_machine "txStep hashtext mains stations" "\<lambda>_. isReadCommitted" "locksOk hashtext mains stations"
  for hashtext mains stations
  by unfold_locales (rule locksOk_step)

lemma locksOk_idle: "tablesOk mains stations rows \<Longrightarrow> locksOk hashtext mains stations (idle rows)"
  by (simp add: locksOk_def idle_def)

lemma runOk_events: "runOk step (\<lambda>_. P) s es \<longleftrightarrow> (\<forall>e\<in>set es. P e)"
  by (induction es arbitrary: s) simp_all

text \<open>
  C13. However the transactions that write cells interleave, in however many batches each of them checks what it
  wrote, whatever the hash function makes collide, and whichever are refused or rolled back: as long as every
  transaction is read committed, what is committed never has two published cells of operators with one
  identity on a network they share, if it had none at first.
\<close>

theorem no_published_duplicates:
  assumes "tablesOk mains stations rows" "\<forall>step'\<in>set actions. isReadCommitted step'"
  shows "withoutClash mains (lk_committed (runAll (txStep hashtext mains stations) (idle rows) actions))"
  using cellTransactions.run_inv [OF locksOk_idle [OF assms(1)], of hashtext actions] assms(2)
  by (simp add: runOk_events locksOk_def tablesOk_def)

section \<open>Checking rows together and one by one\<close>

lemma firstError_iff: "firstError rs = Inr () \<longleftrightarrow> (\<forall>r\<in>set rs. r = Inr ())"
proof
  assume "\<forall>r\<in>set rs. r = Inr ()"
  then have "List.find (\<lambda>r. r \<noteq> Inr ()) rs = None" by (simp add: find_None_iff)
  then show "firstError rs = Inr ()" by (simp add: firstError_def)
qed (rule firstError_ok)

lemma checkEntries_ok_iff:
  "checkEntries rows siblingExcludeIds rat entries = Inr () \<longleftrightarrow>
    (\<forall>row\<in>set rows. \<not> (cr_rat row = rat \<and> cr_isPublished row \<and> cr_id row \<notin> set siblingExcludeIds \<and>
      list_ex (\<lambda>entry. matchesEntry entry row) entries))" (is "?L \<longleftrightarrow> ?R")
proof -
  have "?L \<longleftrightarrow> List.find (\<lambda>row. cr_rat row = rat \<and> cr_isPublished row \<and> cr_id row \<notin> set siblingExcludeIds \<and>
      list_ex (\<lambda>entry. matchesEntry entry row) entries) rows = None"
    by (simp add: checkEntries_def split: option.splits)
  then show ?thesis unfolding find_None_iff by blast
qed

lemma checkEntries_iff:
  "checkEntries rows siblingExcludeIds rat entries = Inr () \<longleftrightarrow>
    (\<forall>entry\<in>set entries. checkEntries rows siblingExcludeIds rat [entry] = Inr ())"
  unfolding checkEntries_ok_iff by (auto simp: list_ex_iff)

lemma checkOwner_iff:
  "checkOwnerCellDuplicates rows mains sources owner siblingExcludeIds = Inr () \<longleftrightarrow>
    (\<forall>source\<in>set sources. checkOwnerCellDuplicates rows mains [source] owner siblingExcludeIds = Inr ())"
proof -
  have one: "checkEntries rows siblingExcludeIds rat (List.map_filter (identityEntryOf mains owner rat) sources) = Inr () \<longleftrightarrow>
      (\<forall>source\<in>set sources. checkEntries rows siblingExcludeIds rat (List.map_filter (identityEntryOf mains owner rat) [source]) = Inr ())" for rat
    by (induction sources)
      (simp_all add: checkEntries_ok_iff List.map_filter_simps split: option.splits, blast)
  show ?thesis unfolding checkOwnerCellDuplicates_def firstError_iff set_map ball_simps(9) one by blast
qed

text \<open>
  Checking the stored rows together, as the code does, refuses exactly when checking them one after another does.
\<close>

theorem stored_rows_one_by_one:
  "checkStoredRows rows mains checked = Inr () \<longleftrightarrow> (\<forall>row\<in>set checked. checkStoredRows rows mains [row] = Inr ())"
proof -
  have one: "checkStoredRows rows mains [row] = Inr () \<longleftrightarrow>
      checkOwnerCellDuplicates rows mains [sourceOfRow row] (loadNetworkOwner mains (cr_operatorId row) None) [] = Inr ()" for row
    by (simp add: checkStoredRows_def firstError_iff)
  have "checkStoredRows rows mains checked = Inr () \<longleftrightarrow>
      (\<forall>operatorId\<in>cr_operatorId ` set checked. \<forall>source\<in>sourceOfRow ` {row \<in> set checked. cr_operatorId row = operatorId}.
        checkOwnerCellDuplicates rows mains [source] (loadNetworkOwner mains operatorId None) [] = Inr ())"
    unfolding checkStoredRows_def firstError_iff set_map ball_simps(9) checkOwner_iff [of rows mains "map f xs" for f xs]
    by (simp add: set_uniq)
  also have "\<dots> \<longleftrightarrow> (\<forall>row\<in>set checked. checkStoredRows rows mains [row] = Inr ())"
    unfolding one by auto
  finally show ?thesis .
qed

section \<open>No deadlock among the locks of one batch\<close>

text \<open>The hash a transaction waits for.\<close>

definition awaited :: "cellTx \<Rightarrow> int option" where
  "awaited tx = (case hashesOf tx of [] \<Rightarrow> None | h # _ \<Rightarrow> Some h)"

text \<open>A transaction starts a batch only while it holds no lock: it locks in one batch.\<close>

definition locksOnce :: "lockState \<Rightarrow> nat \<times> txAction \<Rightarrow> bool" where
  "locksOnce s step' =
    (case (snd step', map_of (lk_txs s) (fst step')) of (LoadStored _ _, Some tx) \<Rightarrow> wt_held tx = [] | _ \<Rightarrow> True)"

definition isAscending :: "cellTx \<Rightarrow> bool" where
  "isAscending tx \<longleftrightarrow> sorted_wrt (<) (rev (wt_held tx) @ hashesOf tx)"

definition allAscending :: "lockState \<Rightarrow> bool" where
  "allAscending s \<longleftrightarrow> (\<forall>(t, tx)\<in>set (lk_txs s). isAscending tx)"

lemma sorted_lockHashes: "sorted_wrt (<) (lockHashes hashtext sources)"
  by (simp add: lockHashes_def)

lemma allAscending_set: "allAscending s \<Longrightarrow> isAscending tx \<Longrightarrow> allAscending (setTx t tx s)"
  by (auto simp: allAscending_def setTx_def set_otherTxs)

lemma allAscending_end: "allAscending s \<Longrightarrow> allAscending (endTx t s)"
  by (auto simp: allAscending_def endTx_def set_otherTxs)

lemma isAscending_tx: "allAscending s \<Longrightarrow> map_of (lk_txs s) t = Some tx \<Longrightarrow> isAscending tx"
  by (auto simp: allAscending_def dest: map_of_SomeD)

lemma allAscending_step:
  assumes "allAscending s" "locksOnce s step'"
  shows "allAscending (txStep hashtext mains stations s step')"
proof -
  obtain t action where step': "step' = (t, action)" by (cases step')
  show ?thesis
  proof (cases "map_of (lk_txs s) t")
    case None
    have "isAscending (newTx isRepeatable s)" for isRepeatable by (simp add: isAscending_def newTx_def hashesOf_def)
    with None assms(1) show ?thesis by (auto simp: txStep_def step' allAscending_set split: txAction.split)
  next
    case (Some tx)
    note tx = isAscending_tx [OF assms(1) Some]
    have afterWrite: "isAscending (writeTx i change tx)" for i change
      using tx by (simp add: isAscending_def writeTx_def hashesOf_def)
    have "allAscending (actTx hashtext mains stations s t tx action)"
    proof (cases action)
      case (LoadStored cellIds stationId)
      have "isAscending (loadStored hashtext (lk_committed s) cellIds stationId tx)"
        using assms(2) Some LoadStored
        by (simp add: locksOnce_def step' isAscending_def loadStored_def Let_def sorted_lockHashes)
      with LoadStored assms(1) show ?thesis by (simp add: allAscending_set)
    next
      case TakeLock
      have "isAscending (tx\<lparr>wt_held := h # wt_held tx, wt_phase := batchPhase hs rows\<rparr>)" if "wt_phase tx = TxSaving (h # hs) rows" for h hs rows
      proof -
        have "hashesOf tx = h # hs" using that by (simp add: hashesOf_def)
        with tx show ?thesis by (simp add: isAscending_def)
      qed
      with TakeLock assms(1) show ?thesis by (auto simp: allAscending_set split: txPhase.split list.split)
    next
      case CheckRow
      have "isAscending (tx\<lparr>wt_phase := batchPhase [] rows\<rparr>)" if "wt_phase tx = TxSaving [] (row # rows)" for row rows
        using tx that by (simp add: isAscending_def hashesOf_def batchPhase_if)
      with CheckRow assms(1) show ?thesis by (auto simp: allAscending_set allAscending_end split: txPhase.split list.split sum.split)
    next
      case CommitTx
      with assms(1) allAscending_end [OF assms(1), of t] show ?thesis by (simp add: commitTx_def allAscending_def)
    qed (use assms(1) afterWrite in \<open>simp_all add: allAscending_set allAscending_end\<close>)
    with Some show ?thesis by (simp add: txStep_def step')
  qed
qed

interpretation orderedLocks: invariant_machine "txStep hashtext mains stations" locksOnce allAscending
  for hashtext mains stations
  by unfold_locales (rule allAscending_step)

text \<open>
  C14. While a transaction waits for a lock, one that waits can take its lock or one that holds locks waits for none,
  as long as every transaction takes its locks in one batch: the hashes of a batch are locked in ascending
  order, so waiting never goes round in a circle.
\<close>

theorem locks_never_deadlock:
  assumes "runOk (txStep hashtext mains stations) locksOnce (idle rows) actions"
    and "s = runAll (txStep hashtext mains stations) (idle rows) actions"
    and "list_ex (\<lambda>(_, tx). awaited tx \<noteq> None) (lk_txs s)"
  shows "list_ex (\<lambda>(t, tx). case awaited tx of None \<Rightarrow> wt_held tx \<noteq> [] | Some h \<Rightarrow> isFree s t h) (lk_txs s)"
proof (rule ccontr)
  assume stuck: "\<not> list_ex (\<lambda>(t, tx). case awaited tx of None \<Rightarrow> wt_held tx \<noteq> [] | Some h \<Rightarrow> isFree s t h) (lk_txs s)"
  have "allAscending (idle rows)" by (simp add: allAscending_def idle_def)
  then have ok: "allAscending s" unfolding assms(2) by (rule orderedLocks.run_inv [OF _ assms(1)])
  have blocked: "\<not> isFree s t h" if "(t, tx) \<in> set (lk_txs s)" "awaited tx = Some h" for t tx h
    using stuck that by (fastforce simp: list_ex_iff)
  let ?waiting = "{h. \<exists>(t, tx)\<in>set (lk_txs s). awaited tx = Some h}"
  have "?waiting \<subseteq> (\<lambda>(t, tx). the (awaited tx)) ` set (lk_txs s)" by force
  then have finite: "finite ?waiting" by (rule finite_subset) simp
  have "?waiting \<noteq> {}" using assms(3) by (auto simp: list_ex_iff)
  with finite have "Max ?waiting \<in> ?waiting" by (rule Max_in)
  then obtain t tx where tx: "(t, tx) \<in> set (lk_txs s)" "awaited tx = Some (Max ?waiting)" by blast
  obtain t' other where other: "(t', other) \<in> set (lk_txs s)" "Max ?waiting \<in> set (wt_held other)"
    using blocked [OF tx] by (auto simp: isFree_def list_all_iff set_otherTxs)
  then have "wt_held other \<noteq> []" by auto
  with stuck other(1) obtain h where h: "awaited other = Some h" by (fastforce simp: list_ex_iff split: option.splits)
  then obtain hs where "hashesOf other = h # hs" by (auto simp: awaited_def split: list.splits)
  then have "Max ?waiting < h" using ok other by (auto simp: allAscending_def isAscending_def sorted_wrt_append)
  moreover have "h \<le> Max ?waiting" using finite h other(1) by (intro Max_ge) auto
  ultimately show False by simp
qed

section \<open>Why the conditions are needed\<close>

lemma setTx_simps [simp]:
  "map_of (lk_txs (setTx t tx s)) t = Some tx" "setTx t tx' (setTx t tx s) = setTx t tx' s"
  "otherTxs (setTx t tx s) t = otherTxs s t" "lk_committed (setTx t tx s) = lk_committed s" "lk_changes (setTx t tx s) = lk_changes s"
  by (simp_all add: setTx_def otherTxs_def case_prod_unfold)

lemma check_alone:
  assumes "\<And>b. b \<in> set view \<Longrightarrow> cr_id b = cr_id a"
  shows "checkStoredRows view mains [a] = Inr ()"
proof -
  have "ie_excludeCellId e = Some (cr_id a)"
    if "e \<in> set (List.map_filter (identityEntryOf mains owner rat) [sourceOfRow a])" for e owner rat
    using that by (auto simp: List.map_filter_simps identityEntryOf_def sourceOfRow_def Let_def split: option.splits if_splits)
  then have "checkEntries view [] rat (List.map_filter (identityEntryOf mains owner rat) [sourceOfRow a]) = Inr ()" for owner rat
    using assms by (fastforce simp: checkEntries_ok_iff matchesEntry_def)
  then show ?thesis by (simp add: checkStoredRows_def checkOwnerCellDuplicates_def firstError_iff)
qed

text \<open>A transaction that sees no other row writes one, locks it and checks it.\<close>

definition saveRow :: "nat \<Rightarrow> cellRow \<Rightarrow> (nat \<times> txAction) list" where
  "saveRow t row = map (Pair t) [WriteRow (cr_id row) (Some row), LoadStored [cr_id row] None, TakeLock, CheckRow]"

definition savedTx :: "cellTx \<Rightarrow> cellRow \<Rightarrow> int \<Rightarrow> cellTx" where
  "savedTx tx row h = tx\<lparr>wt_written := [(cr_id row, Some row)], wt_held := [h], wt_phase := TxWriting\<rparr>"

lemma saveRow_alone:
  assumes "map_of (lk_txs s) t = Some tx" "wt_phase tx = TxWriting" "wt_written tx = []" "wt_unchecked tx = []" "wt_held tx = []"
    and "(case wt_snapshot tx of None \<Rightarrow> lk_committed s | Some (rows, _) \<Rightarrow> rows) = []" "canWrite stations s t (cr_id row) (Some row)"
    and "\<not> failsToSerialize s tx (cr_id row)" "isChecked row" "hashOf hashtext row = Some h" "isFree s t h"
  shows "runAll (txStep hashtext mains stations) s (saveRow t row) = setTx t (savedTx tx row h) s"
proof -
  let ?step = "txStep hashtext mains stations"
  let ?tx1 = "tx\<lparr>wt_written := [(cr_id row, Some row)], wt_unchecked := [cr_id row]\<rparr>"
  let ?tx2 = "tx\<lparr>wt_written := [(cr_id row, Some row)], wt_phase := TxSaving [h] [row]\<rparr>"
  let ?tx3 = "tx\<lparr>wt_written := [(cr_id row, Some row)], wt_held := [h], wt_phase := TxSaving [] [row]\<rparr>"
  have seen: "seenBy (lk_committed s) (tx\<lparr>wt_written := [(cr_id row, Some row)]\<rparr>) = [row]"
    using assms(6) by (simp add: seenBy_def viewOf_def List.map_filter_simps)
  have hashes: "lockHashes hashtext [sourceOfRow row] = [h]"
    using assms(10) by (auto simp: lockHashes_def List.map_filter_simps sourceOfRow_def hashOf_def)
  have "?step s (t, WriteRow (cr_id row) (Some row)) = setTx t ?tx1 s"
    using assms by (simp add: txStep_def writeTx_def)
  moreover have "?step (setTx t ?tx1 s) (t, LoadStored [cr_id row] None) = setTx t ?tx2 s"
  proof -
    have "seenBy (lk_committed s) ?tx1 = [row]" using seen by (simp add: seenBy_def)
    then have "loadStored hashtext (lk_committed s) [cr_id row] None ?tx1 = ?tx2"
      using hashes assms(4,9) by (simp add: loadStored_def Let_def checkedRows_def isInScope_def isChecked_def batchPhase_if)
    then show ?thesis using assms(2) by (simp add: txStep_def)
  qed
  moreover have "?step (setTx t ?tx2 s) (t, TakeLock) = setTx t ?tx3 s"
    using assms(5,11) by (simp add: txStep_def isFree_def batchPhase_if)
  moreover have "?step (setTx t ?tx3 s) (t, CheckRow) = setTx t (savedTx tx row h) s"
  proof -
    have "seenBy (lk_committed s) ?tx3 = [row]" using seen by (simp add: seenBy_def)
    then have "checkStoredRows (seenBy (lk_committed s) ?tx3) mains [row] = Inr ()"
      using check_alone [of "[row]" row mains] by simp
    then show ?thesis using assms(2) by (simp add: txStep_def batchPhase_if savedTx_def)
  qed
  ultimately show ?thesis by (simp add: saveRow_def)
qed


text \<open>Two transactions write and check two rows with one identity, one of them repeatable read.\<close>

definition snapshotRace :: "cellRow \<Rightarrow> cellRow \<Rightarrow> (nat \<times> txAction) list" where
  "snapshotRace a b = [(2, BeginTx True), (1, BeginTx False)] @ saveRow 1 a @ [(1, CommitTx)] @ saveRow 2 b @ [(2, CommitTx)]"

text \<open>
  C15. Under repeatable read the lock does not help: of any two published rows that clash, a transaction that is
  repeatable read stores the second although it has taken its lock and checked it after the first was committed.
\<close>

theorem repeatable_read_stores_duplicates:
  assumes "cellsClash mains a b" "isStoredRow stations a" "isStoredRow stations b"
  shows "lk_committed (runAll (txStep hashtext mains stations) (idle []) (snapshotRace a b)) = [a, b]"
proof -
  let ?step = "txStep hashtext mains stations"
  from assms(1) obtain h where h: "hashOf hashtext a = Some h" "hashOf hashtext b = Some h"
    using cellsClash_lock [OF assms(1)] by (auto simp: hashOf_def)
  have checked: "isChecked a" "isChecked b" "cr_id a \<noteq> cr_id b" using assms(1) by (simp_all add: cellsClash_def isChecked_def)
  let ?tx1 = "newTx False (idle [])" and ?tx2 = "newTx True (idle [])"
  let ?s0 = "\<lparr>lk_committed = [], lk_changes = [], lk_txs = [(1, ?tx1), (2, ?tx2)]\<rparr> :: lockState"
  have begin': "runAll ?step (idle []) [(2, BeginTx True), (1, BeginTx False)] = ?s0"
    by (simp add: txStep_def idle_def setTx_def otherTxs_def newTx_def)
  have first: "runAll ?step ?s0 (saveRow 1 a) = setTx 1 (savedTx ?tx1 a h) ?s0"
    by (rule saveRow_alone) (simp_all add: newTx_def canWrite_def otherTxs_def assms(2) failsToSerialize_def checked h isFree_def)
  let ?s1 = "\<lparr>lk_committed = [a], lk_changes = [cr_id a], lk_txs = [(2, ?tx2)]\<rparr> :: lockState"
  have commit: "?step (setTx 1 (savedTx ?tx1 a h) ?s0) (1, CommitTx) = ?s1"
    by (simp add: txStep_def canCommit_def savedTx_def newTx_def commitTx_def endTx_def viewOf_def List.map_filter_simps)
      (simp add: setTx_def otherTxs_def)
  have second: "runAll ?step ?s1 (saveRow 2 b) = setTx 2 (savedTx ?tx2 b h) ?s1"
    using checked(3) [symmetric]
    by (intro saveRow_alone) (simp_all add: newTx_def canWrite_def otherTxs_def assms(3) failsToSerialize_def checked h isFree_def idle_def)
  have "lk_committed (?step (setTx 2 (savedTx ?tx2 b h) ?s1) (2, CommitTx)) = [a, b]"
    using checked(3)
    by (simp add: txStep_def canCommit_def savedTx_def newTx_def commitTx_def endTx_def viewOf_def List.map_filter_simps idle_def)
  then show ?thesis unfolding snapshotRace_def runAll_append begin' first unfolding runAll.simps commit unfolding second .
qed

text \<open>Each of two transactions saves a row and asks in a second batch for the lock the other one has.\<close>

definition secondBatch :: "nat \<Rightarrow> cellRow \<Rightarrow> (nat \<times> txAction) list" where
  "secondBatch t row = [(t, WriteRow (cr_id row) (Some row)), (t, LoadStored [cr_id row] None)]"

definition crossedBatches :: "cellRow \<Rightarrow> cellRow \<Rightarrow> cellRow \<Rightarrow> cellRow \<Rightarrow> (nat \<times> txAction) list" where
  "crossedBatches a b b' a' = [(2, BeginTx False), (1, BeginTx False)] @ saveRow 1 a @ saveRow 2 b @ secondBatch 1 b' @ secondBatch 2 a'"

text \<open>
  Without the condition transactions may block each other for ever: whatever the two identities, as long as
  their hashes differ.
\<close>

theorem batches_may_deadlock:
  assumes "list_all (\<lambda>row. isStoredRow stations row \<and> isChecked row) [a, b, b', a']" "distinct [cr_id a, cr_id b, cr_id b', cr_id a']"
    and "hashOf hashtext a = Some h" "hashOf hashtext a' = Some h" "hashOf hashtext b = Some k" "hashOf hashtext b' = Some k" "h \<noteq> k"
    and "s = runAll (txStep hashtext mains stations) (idle []) (crossedBatches a b b' a')"
  shows "\<exists>tx1 tx2. lk_txs s = [(2, tx2), (1, tx1)] \<and> awaited tx1 = Some k \<and> k \<in> set (wt_held tx2) \<and>
    awaited tx2 = Some h \<and> h \<in> set (wt_held tx1)"
proof -
  let ?step = "txStep hashtext mains stations"
  let ?tx = "newTx False (idle [])"
  let ?s0 = "\<lparr>lk_committed = [], lk_changes = [], lk_txs = [(1, ?tx), (2, ?tx)]\<rparr> :: lockState"
  have begin': "runAll ?step (idle []) [(2, BeginTx False), (1, BeginTx False)] = ?s0"
    by (simp add: txStep_def idle_def setTx_def otherTxs_def newTx_def)
  have first: "runAll ?step ?s0 (saveRow 1 a) = setTx 1 (savedTx ?tx a h) ?s0"
    by (rule saveRow_alone) (use assms in \<open>simp_all add: newTx_def canWrite_def otherTxs_def failsToSerialize_def isFree_def\<close>)
  let ?s1 = "setTx 1 (savedTx ?tx a h) ?s0"
  have second: "runAll ?step ?s1 (saveRow 2 b) = setTx 2 (savedTx ?tx b k) ?s1"
    by (rule saveRow_alone)
      (use assms in \<open>simp_all add: newTx_def canWrite_def setTx_def otherTxs_def failsToSerialize_def isFree_def savedTx_def\<close>)
  have waiting: "runAll ?step s' (secondBatch t row) = setTx t (tx\<lparr>wt_written := wt_written tx @ [(cr_id row, Some row)], wt_phase := TxSaving [g] [row]\<rparr>) s'"
    if "map_of (lk_txs s') t = Some tx" "tx = savedTx ?tx old g'" "lk_committed s' = []" "canWrite stations s' t (cr_id row) (Some row)"
      "isChecked row" "hashOf hashtext row = Some g" "cr_id old \<noteq> cr_id row" for s' t row tx old g g'
  proof -
    have "lockHashes hashtext [sourceOfRow row] = [g]"
      using that(6) by (auto simp: lockHashes_def List.map_filter_simps sourceOfRow_def hashOf_def)
    then show ?thesis using that
      by (simp add: secondBatch_def txStep_def savedTx_def newTx_def writeTx_def failsToSerialize_def loadStored_def Let_def seenBy_def viewOf_def
        List.map_filter_simps checkedRows_def isInScope_def isChecked_def batchPhase_if)
        (auto simp: image_iff)
  qed
  let ?s2 = "setTx 2 (savedTx ?tx b k) ?s1"
  have third: "runAll ?step ?s2 (secondBatch 1 b') =
      setTx 1 ((savedTx ?tx a h)\<lparr>wt_written := [(cr_id a, Some a), (cr_id b', Some b')], wt_phase := TxSaving [k] [b']\<rparr>) ?s2"
    using assms waiting [of ?s2 1 "savedTx ?tx a h" a h b' k]
    by (simp add: setTx_def otherTxs_def canWrite_def savedTx_def newTx_def)
  let ?s3 = "setTx 1 ((savedTx ?tx a h)\<lparr>wt_written := [(cr_id a, Some a), (cr_id b', Some b')], wt_phase := TxSaving [k] [b']\<rparr>) ?s2"
  have fourth: "runAll ?step ?s3 (secondBatch 2 a') =
      setTx 2 ((savedTx ?tx b k)\<lparr>wt_written := [(cr_id b, Some b), (cr_id a', Some a')], wt_phase := TxSaving [h] [a']\<rparr>) ?s3"
    using assms waiting [of ?s3 2 "savedTx ?tx b k" b k a' h]
    by (simp add: setTx_def otherTxs_def canWrite_def savedTx_def newTx_def)
  have "s = setTx 2 ((savedTx ?tx b k)\<lparr>wt_written := [(cr_id b, Some b), (cr_id a', Some a')], wt_phase := TxSaving [h] [a']\<rparr>) ?s3"
    unfolding assms(8) crossedBatches_def runAll_append begin' first second third fourth ..
  then show ?thesis by (simp add: setTx_def otherTxs_def awaited_def hashesOf_def savedTx_def)
qed

section \<open>An example\<close>

definition exampleStations :: "int \<Rightarrow> bool \<times> int option" where
  "exampleStations stationId = (True, Some stationId)"

definition exampleMains :: mainCodes where
  "exampleMains = [1 \<mapsto> ''26001'', 2 \<mapsto> ''26002'']"

text \<open>An LTE cell of the operator of its station, which broadcasts other networks too.\<close>

definition exampleLte :: "int \<Rightarrow> int \<Rightarrow> int \<Rightarrow> string list \<Rightarrow> cellRow" where
  "exampleLte i stationId clid extraCodes = \<lparr>cr_id = i, cr_stationId = stationId, cr_rat = ''LTE'', cr_bandId = 1, cr_sectorId = None,
     cr_details = [''enbid'' \<mapsto> Some 100, ''clid'' \<mapsto> Some clid], cr_type = None, cr_isPublished = True, cr_operatorId = Some stationId,
     cr_extraCodes = extraCodes\<rparr>"

definition exampleHash :: "string \<Rightarrow> int" where
  "exampleHash t = int (length t)"

text \<open>Two transactions write one identity on two stations that share a network, step by step in turn.\<close>

definition exampleRace :: "(nat \<times> txAction) list" where
  "exampleRace = [(1, BeginTx False), (2, BeginTx False), (1, WriteRow 11 (Some (exampleLte 11 1 7 []))),
     (2, WriteRow 12 (Some (exampleLte 12 2 7 [''26001'']))), (1, LoadStored [11] None), (2, LoadStored [12] None), (1, TakeLock)]"

definition exampleEnd :: "(nat \<times> txAction) list" where
  "exampleEnd = [(2, TakeLock), (1, CheckRow), (2, CheckRow), (1, CommitTx), (2, TakeLock), (2, CheckRow), (2, CommitTx)]"

lemma example_tablesOk: "tablesOk exampleMains exampleStations [exampleLte 10 1 6 []]"
  by code_simp

lemma example_result:
  "map cr_id (lk_committed (runAll (txStep exampleHash exampleMains exampleStations) (idle [exampleLte 10 1 6 []]) (exampleRace @ exampleEnd))) =
    [10, 11]"
  by code_simp

lemma example_readCommitted: "\<forall>step'\<in>set (exampleRace @ exampleEnd). isReadCommitted step'"
  by (simp add: exampleRace_def exampleEnd_def isReadCommitted_def)

theorem no_published_duplicates_witness:
  "withoutClash exampleMains (lk_committed (runAll (txStep exampleHash exampleMains exampleStations) (idle [exampleLte 10 1 6 []])
     (exampleRace @ exampleEnd))) \<and>
   map cr_id (lk_committed (runAll (txStep exampleHash exampleMains exampleStations) (idle [exampleLte 10 1 6 []]) (exampleRace @ exampleEnd))) =
    [10, 11]"
  using no_published_duplicates [OF example_tablesOk example_readCommitted] example_result by blast

lemma example_waits:
  "runOk (txStep exampleHash exampleMains exampleStations) locksOnce (idle [exampleLte 10 1 6 []]) exampleRace \<and>
   list_ex (\<lambda>(_, tx). awaited tx \<noteq> None)
    (lk_txs (runAll (txStep exampleHash exampleMains exampleStations) (idle [exampleLte 10 1 6 []]) exampleRace))"
  by code_simp

theorem locks_never_deadlock_witness:
  "list_ex (\<lambda>(t, tx). case awaited tx of None \<Rightarrow> wt_held tx \<noteq> []
       | Some h \<Rightarrow> isFree (runAll (txStep exampleHash exampleMains exampleStations) (idle [exampleLte 10 1 6 []]) exampleRace) t h)
    (lk_txs (runAll (txStep exampleHash exampleMains exampleStations) (idle [exampleLte 10 1 6 []]) exampleRace))"
  by (rule locks_never_deadlock [OF conjunct1 [OF example_waits] refl conjunct2 [OF example_waits]])

lemma example_clash: "cellsClash exampleMains (exampleLte 11 1 7 []) (exampleLte 12 2 7 [''26001''])"
  "isStoredRow exampleStations (exampleLte 11 1 7 [])" "isStoredRow exampleStations (exampleLte 12 2 7 [''26001''])"
  by code_simp+

theorem repeatable_read_stores_duplicates_witness:
  "map cr_id (lk_committed (runAll (txStep exampleHash exampleMains exampleStations) (idle [])
     (snapshotRace (exampleLte 11 1 7 []) (exampleLte 12 2 7 [''26001''])))) = [11, 12]"
  using repeatable_read_stores_duplicates [OF example_clash, of exampleHash] by (simp add: exampleLte_def)

theorem batches_may_deadlock_witness:
  "\<exists>tx1 tx2. lk_txs (runAll (txStep exampleHash exampleMains exampleStations) (idle [])
      (crossedBatches (exampleLte 11 1 7 []) (exampleLte 12 1 10 []) (exampleLte 13 1 10 []) (exampleLte 14 1 7 []))) = [(2, tx2), (1, tx1)] \<and>
    awaited tx1 = Some 10 \<and> 10 \<in> set (wt_held tx2) \<and> awaited tx2 = Some 9 \<and> 9 \<in> set (wt_held tx1)"
  by (rule batches_may_deadlock [OF _ _ _ _ _ _ _ refl]) code_simp+

section \<open>The cells of one request\<close>

text \<open>The keys a cell of a request takes.\<close>

definition keysAt :: "string list list \<Rightarrow> requestCell list \<Rightarrow> nat \<Rightarrow> string set" where
  "keysAt cellNetworks cells i =
    (case (if rq_isDelete (cells ! i) then None else getCellIdentityDuplicateKey (rq_rat (cells ! i)) (rq_details (cells ! i))) of
       None \<Rightarrow> {} | Some key \<Rightarrow> set (requestKeys cellNetworks i key))"

lemma pairs_Suc:
  "(\<forall>i j. i < j \<and> j < Suc n \<longrightarrow> Q i j) \<longleftrightarrow> (\<forall>j<n. Q 0 (Suc j)) \<and> (\<forall>i j. i < j \<and> j < n \<longrightarrow> Q (Suc i) (Suc j))"
proof (intro iffI conjI allI impI)
  fix i j
  assume all: "(\<forall>j<n. Q 0 (Suc j)) \<and> (\<forall>i j. i < j \<and> j < n \<longrightarrow> Q (Suc i) (Suc j))" and lt: "i < j \<and> j < Suc n"
  then obtain j' where j: "j = Suc j'" "j' < n" by (cases j) auto
  show "Q i j" using all lt j by (cases i) auto
qed auto

lemma validateIdentities_iff:
  "validateIdentities cellNetworks seen n cells = Inr () \<longleftrightarrow>
    (\<forall>i<length cells. keysAt cellNetworks (replicate n undefined @ cells) (n + i) \<inter> seen = {}) \<and>
    (\<forall>i j. i < j \<and> j < length cells \<longrightarrow>
      keysAt cellNetworks (replicate n undefined @ cells) (n + i) \<inter> keysAt cellNetworks (replicate n undefined @ cells) (n + j) = {})"
proof (induction cells arbitrary: seen n)
  case Nil
  then show ?case by simp
next
  case (Cons cell cells)
  let ?k = "\<lambda>i. keysAt cellNetworks (replicate n undefined @ cell # cells) (n + i)"
  have shift: "keysAt cellNetworks (replicate (Suc n) undefined @ cells) (Suc n + i) = ?k (Suc i)" for i
    by (simp add: keysAt_def nth_append)
  have rest: "validateIdentities cellNetworks seen' (Suc n) cells = Inr () \<longleftrightarrow>
      (\<forall>i<length cells. ?k (Suc i) \<inter> seen' = {}) \<and> (\<forall>i j. i < j \<and> j < length cells \<longrightarrow> ?k (Suc i) \<inter> ?k (Suc j) = {})" for seen'
    unfolding Cons.IH shift ..
  have "validateIdentities cellNetworks seen n (cell # cells) = Inr () \<longleftrightarrow>
      ?k 0 \<inter> seen = {} \<and> validateIdentities cellNetworks (seen \<union> ?k 0) (Suc n) cells = Inr ()"
    by (auto simp: keysAt_def nth_append Let_def list_ex_iff split: option.split)
  also have "\<dots> \<longleftrightarrow> ?k 0 \<inter> seen = {} \<and> (\<forall>i<length cells. ?k (Suc i) \<inter> (seen \<union> ?k 0) = {}) \<and>
      (\<forall>i j. i < j \<and> j < length cells \<longrightarrow> ?k (Suc i) \<inter> ?k (Suc j) = {})"
    unfolding rest ..
  also have "\<dots> \<longleftrightarrow> (\<forall>i<length (cell # cells). ?k i \<inter> seen = {}) \<and> (\<forall>i j. i < j \<and> j < length (cell # cells) \<longrightarrow> ?k i \<inter> ?k j = {})"
    unfolding list.size(4) add_Suc_right add_0_right All_less_Suc2 pairs_Suc by blast
  finally show ?case .
qed

text \<open>
  C16. The cells of one request pass exactly when no two of them that are not deleted take one key, that is have
  one identity on a network both are on.
\<close>

theorem request_identities_exact:
  "validateIdentities cellNetworks {} 0 cells = Inr () \<longleftrightarrow>
    (\<forall>i j. i < j \<and> j < length cells \<longrightarrow> keysAt cellNetworks cells i \<inter> keysAt cellNetworks cells j = {})"
  using validateIdentities_iff [of cellNetworks "{}" 0 cells] by simp

section \<open>Network codes of a cell\<close>

lemma assertCodesKnown_ok:
  "assertCodesKnown codes owner known = Inr () \<longleftrightarrow>
    (\<forall>code\<in>set codes. \<exists>country. known code = Some country \<and> (no_countryCode owner = None \<or> no_countryCode owner = Some country))"
  by (induction codes) (auto split: option.split)

text \<open>
  What is accepted as the other networks of a cell: the codes that were sent but the owner's, each of a known
  network of the country, and no more of them than the technology and the country allow.
\<close>

theorem extra_codes_accepted:
  assumes "extraCodesFromSent (Some rat) codes owner known = Inr extras"
  shows "mset extras = mset (filter (\<lambda>code. Some code \<noteq> no_mainCode owner) codes) \<and>
    length extras \<le> extraCodeLimit rat (no_countryCode owner) \<and>
    (\<forall>code\<in>set codes. \<exists>country. known code = Some country \<and> (no_countryCode owner = None \<or> no_countryCode owner = Some country))"
proof -
  from assms have known: "assertCodesKnown codes owner known = Inr ()"
    and capped: "cappedExtraCodes (Some rat) codes owner = Inr extras"
    and allowed: "extras = [] \<or> allowsCellNetworks (no_countryCode owner)"
    by (auto simp: extraCodesFromSent_def split: sum.splits if_splits)
  from capped have "extras = withoutOwnerCode codes owner" "length extras \<le> EXTRA_CODE_LIMITS rat"
    by (auto simp: cappedExtraCodes_def Let_def simp del: EXTRA_CODE_LIMITS.simps split: if_splits)
  with known allowed show ?thesis
    by (auto simp: withoutOwnerCode_def extraCodeLimit_def assertCodesKnown_ok simp del: EXTRA_CODE_LIMITS.simps)
qed

section \<open>Two checks of PCIs\<close>

text \<open>An LTE cell on one band and eNBID with one PCI, with a channel or without.\<close>

definition examplePci :: "int \<Rightarrow> int option \<Rightarrow> requestCell" where
  "examplePci clid earfcn = \<lparr>rq_rat = Some ''LTE'', rq_isDelete = False, rq_bandId = Some 1,
     rq_details = Some [''enbid'' \<mapsto> Some 100, ''clid'' \<mapsto> Some clid, ''pci'' \<mapsto> Some 9, ''earfcn'' \<mapsto> earfcn],
     rq_type = None, rq_sectorId = None, rq_targetSectorId = None\<rparr>"

definition examplePciRow :: cellRow where
  "examplePciRow = (exampleLte 10 1 7 [])\<lparr>cr_details := [''enbid'' \<mapsto> Some 100, ''clid'' \<mapsto> Some 7, ''pci'' \<mapsto> Some 9, ''earfcn'' \<mapsto> None]\<rparr>"

text \<open>
  The check of one request and the check against the stored cells disagree on a cell without a channel: two cells
  pass together that are refused when one of them is stored first.
\<close>

theorem pci_checks_disagree:
  "validateCellDuplicates [examplePci 7 None, examplePci 8 (Some 1300)] [] = Inr () \<and>
   checkPciDuplicate [examplePciRow] 1 (pciSourceOf (examplePci 8 (Some 1300))) [] =
     Inl ''An LTE cell with PCI 9 already exists for this station using the same band and eNBID''"
  by code_simp

theorem request_identities_exact_witness:
  "validateIdentities [[''26001''], [''26002'']] {} 0 [examplePci 7 None, examplePci 7 None] = Inr () \<and>
   keysAt [[''26001''], [''26002'']] [examplePci 7 None, examplePci 7 None] 0 \<inter>
     keysAt [[''26001''], [''26002'']] [examplePci 7 None, examplePci 7 None] 1 = {}"
proof -
  have pass: "validateIdentities [[''26001''], [''26002'']] {} 0 [examplePci 7 None, examplePci 7 None] = Inr ()" by code_simp
  moreover note request_identities_exact [THEN iffD1, OF pass, rule_format, of 0 1]
  ultimately show ?thesis by simp
qed


end
