(* ===== verification/Dialogs.thy ===== *)
theory Dialogs
  imports JsValues
begin

text \<open>
  The floating dialogs over the map (apps/client/src/features/floating-dialogs): geometry.ts, what types.ts
  computes, and the state of hooks/useFloatingDialogStackState.ts, which holds the open dialogs with the order
  they are stacked in. The size of the window is a parameter. Objects that are only passed on or compared by
  reference are numbers; the toast that tells of a dialog that is not opened is the result \<open>False\<close>.
\<close>

section \<open>Geometry\<close>

record dialogSize =
  fs_width :: number
  fs_height :: number

record dialogRect =
  fr_x :: number
  fr_y :: number
  fr_width :: number
  fr_height :: number

datatype interactionMode = Drag | ResizeCorner | ResizeHorizontal
datatype fitAnchor = AnchorCenter | AnchorBottom

definition DESKTOP_MIN_SIZE :: dialogSize where
  "DESKTOP_MIN_SIZE = \<lparr>fs_width = 610, fs_height = 540\<rparr>"

definition DEFAULT_DIALOG_SIZE :: dialogSize where
  "DEFAULT_DIALOG_SIZE = \<lparr>fs_width = 920, fs_height = 600\<rparr>"

definition DIALOG_OFFSET :: number where "DIALOG_OFFSET = 32"
definition DIALOG_MARGIN :: number where "DIALOG_MARGIN = 16"
definition RECT_SYNC_THRESHOLD :: number where "RECT_SYNC_THRESHOLD = 1"

text \<open>\<open>Math.round\<close> rounds a half up.\<close>

definition roundHalfUp :: "number \<Rightarrow> number" where
  "roundHalfUp x = of_int \<lfloor>x + 1 / 2\<rfloor>"

definition snapCoordinate :: "number \<Rightarrow> number \<Rightarrow> number \<Rightarrow> number" where
  "snapCoordinate value lo hi =
    (let minPixel = of_int \<lceil>lo\<rceil>; maxPixel = of_int \<lfloor>hi\<rfloor>
     in min (max (roundHalfUp value) minPixel) (max minPixel maxPixel))"

definition clampFloatingDialogRect :: "dialogSize \<Rightarrow> dialogRect \<Rightarrow> dialogSize \<Rightarrow> dialogRect" where
  "clampFloatingDialogRect bounds rect minSize =
    (let maxAvailableWidth = max 0 (fs_width bounds - DIALOG_MARGIN * 2);
         maxAvailableHeight = max 0 (fs_height bounds - DIALOG_MARGIN * 2);
         minWidth = min (fs_width minSize) maxAvailableWidth;
         minHeight = min (fs_height minSize) maxAvailableHeight;
         width = min (max (fr_width rect) minWidth) maxAvailableWidth;
         height = min (max (fr_height rect) minHeight) maxAvailableHeight;
         maxX = max DIALOG_MARGIN (fs_width bounds - width - DIALOG_MARGIN);
         maxY = max DIALOG_MARGIN (fs_height bounds - height - DIALOG_MARGIN)
     in \<lparr>fr_x = snapCoordinate (min (max (fr_x rect) DIALOG_MARGIN) maxX) DIALOG_MARGIN maxX,
         fr_y = snapCoordinate (min (max (fr_y rect) DIALOG_MARGIN) maxY) DIALOG_MARGIN maxY,
         fr_width = width, fr_height = height\<rparr>)"

definition createInitialFloatingDialogRect :: "dialogSize \<Rightarrow> nat \<Rightarrow> dialogSize \<Rightarrow> dialogRect" where
  "createInitialFloatingDialogRect bounds index initialSize =
    (let width = min (fs_width initialSize) (fs_width bounds - DIALOG_MARGIN * 2);
         height = min (fs_height initialSize) (fs_height bounds - DIALOG_MARGIN * 2)
     in clampFloatingDialogRect bounds
          \<lparr>fr_x = (fs_width bounds - width) / 2 + of_nat index * DIALOG_OFFSET,
           fr_y = (fs_height bounds - height) / 2 + of_nat index * DIALOG_OFFSET,
           fr_width = width, fr_height = height\<rparr> DESKTOP_MIN_SIZE)"

definition getFloatingDialogPosition :: "dialogRect \<Rightarrow> dialogRect" where
  "getFloatingDialogPosition rect = \<lparr>fr_x = roundHalfUp (fr_x rect), fr_y = roundHalfUp (fr_y rect),
     fr_width = roundHalfUp (fr_width rect), fr_height = roundHalfUp (fr_height rect)\<rparr>"

definition getFittedFloatingDialogY :: "dialogRect \<Rightarrow> number \<Rightarrow> fitAnchor \<Rightarrow> number" where
  "getFittedFloatingDialogY rect fittedHeight anchor =
    (let heightChange = fr_height rect - fittedHeight
     in case anchor of AnchorBottom \<Rightarrow> fr_y rect + heightChange | AnchorCenter \<Rightarrow> fr_y rect + heightChange / 2)"

fun getFloatingDialogCursor :: "interactionMode \<Rightarrow> string" where
  "getFloatingDialogCursor Drag = ''grabbing''"
| "getFloatingDialogCursor ResizeHorizontal = ''ew-resize''"
| "getFloatingDialogCursor ResizeCorner = ''nwse-resize''"

fun getFloatingDialogInteractionRect ::
  "dialogSize \<Rightarrow> interactionMode \<Rightarrow> dialogRect \<Rightarrow> number \<Rightarrow> number \<Rightarrow> dialogSize \<Rightarrow> dialogRect" where
  "getFloatingDialogInteractionRect bounds Drag rect deltaX deltaY minSize =
    clampFloatingDialogRect bounds (rect\<lparr>fr_x := fr_x rect + deltaX, fr_y := fr_y rect + deltaY\<rparr>) minSize"
| "getFloatingDialogInteractionRect bounds ResizeHorizontal rect deltaX deltaY minSize =
    clampFloatingDialogRect bounds (rect\<lparr>fr_width := fr_width rect + deltaX\<rparr>) minSize"
| "getFloatingDialogInteractionRect bounds ResizeCorner rect deltaX deltaY minSize =
    clampFloatingDialogRect bounds (rect\<lparr>fr_width := fr_width rect + deltaX, fr_height := fr_height rect + deltaY\<rparr>) minSize"

definition shouldSyncFloatingDialogRect :: "dialogRect \<Rightarrow> dialogRect \<Rightarrow> bool" where
  "shouldSyncFloatingDialogRect current next' \<longleftrightarrow>
    fr_x current \<noteq> fr_x next' \<or> fr_y current \<noteq> fr_y next' \<or>
    RECT_SYNC_THRESHOLD \<le> \<bar>fr_width current - fr_width next'\<bar> \<or> RECT_SYNC_THRESHOLD \<le> \<bar>fr_height current - fr_height next'\<bar>"

definition areFloatingDialogRectsEqual :: "dialogRect \<Rightarrow> dialogRect \<Rightarrow> bool" where
  "areFloatingDialogRectsEqual current next' \<longleftrightarrow>
    fr_x current = fr_x next' \<and> fr_y current = fr_y next' \<and> fr_width current = fr_width next' \<and> fr_height current = fr_height next'"

section \<open>Dialogs\<close>

text \<open>An optional property: absent, or present with a value that may be \<open>undefined\<close> or \<open>null\<close>.\<close>

type_synonym 'a optionalProp = "'a option option"

text \<open>\<open>{ ...old, ...new }\<close> on one property.\<close>

definition over :: "'a optionalProp \<Rightarrow> 'a optionalProp \<Rightarrow> 'a optionalProp" where
  "over new old = (case new of None \<Rightarrow> old | Some v \<Rightarrow> Some v)"

datatype stationSource = SourceInternal | SourceOfficial

datatype stationTarget = StationTarget (tg_id: int) (tg_source: stationSource) (tg_locationId: "int optionalProp")
  (tg_officialSite: "nat optionalProp") (tg_switchedFrom: "stationTarget optionalProp")

record dialogLink =
  dl_object :: nat
  dl_groupId :: string

record reportPayload =
  rp_site :: nat
  rp_siteId :: string
  rp_report :: nat
  rp_reportUrl :: string
  rp_operatorName :: string
  rp_operatorMnc :: "int optionalProp"
  rp_place :: "nat optionalProp"

record historyPayload =
  hp_stationId :: int
  hp_stationCode :: string
  hp_operatorName :: string
  hp_operatorBrandId :: "int option"

record terrainPayload =
  tp_placement :: dialogRect
  tp_placementObject :: nat
  tp_isCollapsed :: bool
  tp_renderPanel :: nat
  tp_onRequestClose :: nat

datatype dialogRequest =
    StationDialog stationTarget
  | LinkDialog dialogLink
  | ReportDialog int reportPayload
  | HistoryDialog historyPayload
  | TerrainDialog terrainPayload

record dialogItem =
  di_request :: dialogRequest
  di_key :: string
  di_frameId :: int
  di_rect :: dialogRect
  di_zIndex :: int

definition FLOATING_DIALOG_Z_INDEX_BASE :: int where "FLOATING_DIALOG_Z_INDEX_BASE = 40"
definition MAX_DIALOGS_PER_KIND :: nat where "MAX_DIALOGS_PER_KIND = 2"
definition TERRAIN_PROFILE_DIALOG_KEY :: string where "TERRAIN_PROFILE_DIALOG_KEY = ''terrain-profile''"

fun sourceText :: "stationSource \<Rightarrow> string" where
  "sourceText SourceInternal = ''internal''"
| "sourceText SourceOfficial = ''official''"

fun getTopDialogFrom :: "dialogItem option \<Rightarrow> dialogItem list \<Rightarrow> dialogItem option" where
  "getTopDialogFrom found [] = found"
| "getTopDialogFrom found (d # ds) =
    getTopDialogFrom (case found of None \<Rightarrow> Some d | Some t \<Rightarrow> if di_zIndex t < di_zIndex d then Some d else Some t) ds"

definition getTopDialog :: "dialogItem list \<Rightarrow> dialogItem option" where
  "getTopDialog dialogs = getTopDialogFrom None dialogs"

definition getNextZIndex :: "dialogItem list \<Rightarrow> int" where
  "getNextZIndex dialogs = (case getTopDialog dialogs of Some t \<Rightarrow> di_zIndex t | None \<Rightarrow> FLOATING_DIALOG_Z_INDEX_BASE) + 1"

fun getDialogFamily :: "dialogRequest \<Rightarrow> string" where
  "getDialogFamily (StationDialog target) = ''station:'' @ sourceText (tg_source target)"
| "getDialogFamily (LinkDialog _) = ''microwave-link''"
| "getDialogFamily (ReportDialog _ _) = ''si2pem-report''"
| "getDialogFamily (HistoryDialog _) = ''station-history''"
| "getDialogFamily (TerrainDialog _) = ''terrain-profile''"

text \<open>Every dialog is an object of its own: \<open>indexOf\<close> finds a dialog by its place.\<close>

definition stackOrder :: "dialogItem list \<Rightarrow> nat list" where
  "stackOrder dialogs = sortBy (\<lambda>i j. of_int (di_zIndex (dialogs ! i)) - of_int (di_zIndex (dialogs ! j))) [0..<length dialogs]"

definition rankIn :: "nat list \<Rightarrow> nat \<Rightarrow> nat" where
  "rankIn ordered i = (case findIndex (\<lambda>j. j = i) ordered of Some r \<Rightarrow> r | None \<Rightarrow> 0)"

definition normalizeZIndexes :: "dialogItem list \<Rightarrow> dialogItem list" where
  "normalizeZIndexes dialogs =
    map (\<lambda>i. (dialogs ! i)\<lparr>di_zIndex := FLOATING_DIALOG_Z_INDEX_BASE + 1 + int (rankIn (stackOrder dialogs) i)\<rparr>) [0..<length dialogs]"

fun getDialogKey :: "dialogRequest \<Rightarrow> string" where
  "getDialogKey (StationDialog target) = ''station:'' @ sourceText (tg_source target) @ '':'' @ intText (tg_id target)"
| "getDialogKey (LinkDialog link) = ''microwave-link:'' @ dl_groupId link"
| "getDialogKey (ReportDialog _ payload) = ''si2pem-report:'' @ rp_reportUrl payload"
| "getDialogKey (HistoryDialog payload) = ''station-history:'' @ intText (hp_stationId payload)"
| "getDialogKey (TerrainDialog _) = TERRAIN_PROFILE_DIALOG_KEY"

fun hasSamePayload :: "dialogRequest \<Rightarrow> dialogRequest \<Rightarrow> bool" where
  "hasSamePayload (StationDialog _) (StationDialog _) = True"
| "hasSamePayload (LinkDialog a) (LinkDialog b) = (dl_object a = dl_object b)"
| "hasSamePayload (HistoryDialog a) (HistoryDialog b) =
    (hp_stationId a = hp_stationId b \<and> hp_stationCode a = hp_stationCode b \<and> hp_operatorName a = hp_operatorName b \<and>
     hp_operatorBrandId a = hp_operatorBrandId b)"
| "hasSamePayload (TerrainDialog a) (TerrainDialog b) =
    (tp_placementObject a = tp_placementObject b \<and> tp_isCollapsed a = tp_isCollapsed b \<and> tp_renderPanel a = tp_renderPanel b)"
| "hasSamePayload _ _ = False"

definition INITIAL_DIALOG_SIZE :: "dialogRequest \<Rightarrow> dialogSize" where
  "INITIAL_DIALOG_SIZE request =
    (case request of
       ReportDialog _ _ \<Rightarrow> \<lparr>fs_width = 1000, fs_height = 540\<rparr>
     | HistoryDialog _ \<Rightarrow> \<lparr>fs_width = 900, fs_height = 680\<rparr>
     | _ \<Rightarrow> DEFAULT_DIALOG_SIZE)"

definition createDialogRect :: "dialogSize \<Rightarrow> dialogRequest \<Rightarrow> nat \<Rightarrow> dialogRect" where
  "createDialogRect bounds request familyCount =
    (case request of
       TerrainDialog payload \<Rightarrow> tp_placement payload
     | _ \<Rightarrow> createInitialFloatingDialogRect bounds familyCount (INITIAL_DIALOG_SIZE request))"

text \<open>\<open>{ ...dialog, ...request }\<close>; a request that reaches a dialog has the dialog's key and so its kind.\<close>

fun mergeRequest :: "dialogRequest \<Rightarrow> dialogRequest \<Rightarrow> dialogRequest" where
  "mergeRequest (StationDialog old) (StationDialog new) =
    StationDialog (StationTarget (tg_id new) (tg_source new) (over (tg_locationId new) (tg_locationId old))
      (over (tg_officialSite new) (tg_officialSite old)) (over (tg_switchedFrom new) (tg_switchedFrom old)))"
| "mergeRequest (ReportDialog _ old) (ReportDialog requestId new) =
    ReportDialog requestId (new\<lparr>rp_operatorMnc := over (rp_operatorMnc new) (rp_operatorMnc old), rp_place := over (rp_place new) (rp_place old)\<rparr>)"
| "mergeRequest _ new = new"

section \<open>The stack\<close>

record dialogStack =
  fd_dialogs :: "dialogItem list"
  fd_lastFrameId :: int
  fd_lastReportOpenRequestId :: int

definition emptyStack :: dialogStack where
  "emptyStack = \<lparr>fd_dialogs = [], fd_lastFrameId = 0, fd_lastReportOpenRequestId = 0\<rparr>"

text \<open>An updater that hands back the list it was given changes nothing.\<close>

definition setDialogsSynced :: "(dialogItem list \<Rightarrow> dialogItem list option) \<Rightarrow> dialogStack \<Rightarrow> dialogStack" where
  "setDialogsSynced updater s =
    (case updater (fd_dialogs s) of None \<Rightarrow> s | Some dialogs \<Rightarrow> s\<lparr>fd_dialogs := normalizeZIndexes dialogs\<rparr>)"

definition findDialog :: "string \<Rightarrow> dialogItem list \<Rightarrow> dialogItem option" where
  "findDialog key dialogs = List.find (\<lambda>d. di_key d = key) dialogs"

definition isTopKey :: "string \<Rightarrow> dialogItem list \<Rightarrow> bool" where
  "isTopKey key dialogs \<longleftrightarrow> map_option di_key (getTopDialog dialogs) = Some key"

definition editDialog :: "string \<Rightarrow> (dialogItem \<Rightarrow> dialogItem) \<Rightarrow> dialogItem list \<Rightarrow> dialogItem list" where
  "editDialog key f dialogs = map (\<lambda>d. if di_key d = key then f d else d) dialogs"

definition focusDialog :: "string \<Rightarrow> dialogStack \<Rightarrow> dialogStack" where
  "focusDialog key = setDialogsSynced (\<lambda>current.
    if findDialog key current = None \<or> isTopKey key current then None
    else Some (editDialog key (\<lambda>d. d\<lparr>di_zIndex := getNextZIndex current\<rparr>) current))"

definition familySize :: "dialogItem list \<Rightarrow> string \<Rightarrow> nat" where
  "familySize dialogs family = length (filter (\<lambda>d. getDialogFamily (di_request d) = family) dialogs)"

definition openDialog :: "dialogSize \<Rightarrow> dialogRequest \<Rightarrow> dialogStack \<Rightarrow> bool \<times> dialogStack" where
  "openDialog bounds request s =
    (let key = getDialogKey request; current = fd_dialogs s in
     case findDialog key current of
       Some existing \<Rightarrow>
         (if isTopKey key current \<and> hasSamePayload (di_request existing) request then (True, s)
          else
            (let zIndex = (if isTopKey key current then di_zIndex existing else getNextZIndex current)
             in (True, setDialogsSynced (\<lambda>previous.
                  Some (editDialog key (\<lambda>d. d\<lparr>di_request := mergeRequest (di_request d) request, di_zIndex := zIndex\<rparr>) previous)) s)))
     | None \<Rightarrow>
         (let familyCount = familySize current (getDialogFamily request) in
          if MAX_DIALOGS_PER_KIND \<le> familyCount then (False, s)
          else
            (let s' = s\<lparr>fd_lastFrameId := fd_lastFrameId s + 1\<rparr>;
                 dialog = \<lparr>di_request = request, di_key = key, di_frameId = fd_lastFrameId s', di_rect = createDialogRect bounds request familyCount,
                   di_zIndex = getNextZIndex current\<rparr>
             in (True, setDialogsSynced (\<lambda>previous. Some (previous @ [dialog])) s'))))"

definition switchStationDialog :: "string \<Rightarrow> stationTarget \<Rightarrow> dialogStack \<Rightarrow> dialogStack" where
  "switchStationDialog key target =
    (let targetKey = getDialogKey (StationDialog target) in
     setDialogsSynced (\<lambda>current.
       case findIndex (\<lambda>d. di_key d = key) current of
         None \<Rightarrow> None
       | Some place \<Rightarrow>
           (let dialog = current ! place in
            case di_request dialog of
              StationDialog old \<Rightarrow>
                (if key = targetKey then None
                 else if findDialog targetKey current \<noteq> None
                 then Some (editDialog targetKey (\<lambda>d. d\<lparr>di_zIndex := getNextZIndex current\<rparr>) (dropAt place current))
                 else
                   (let from' = (case Option.bind (tg_switchedFrom target) id of
                          Some t \<Rightarrow> t
                        | None \<Rightarrow> StationTarget (tg_id old) (tg_source old) None (Some (Option.bind (tg_officialSite old) id)) None)
                    in Some (current[place := dialog\<lparr>di_request := StationDialog (StationTarget (tg_id target) (tg_source target)
                          (tg_locationId target) (tg_officialSite target) (Some (Some from'))), di_key := targetKey\<rparr>])))
            | _ \<Rightarrow> None)))"

definition openStationDialog :: "dialogSize \<Rightarrow> int \<Rightarrow> stationSource \<Rightarrow> int option \<Rightarrow> dialogStack \<Rightarrow> bool \<times> dialogStack" where
  "openStationDialog bounds i source locationId = openDialog bounds (StationDialog (StationTarget i source (Some locationId) None None))"

definition openOfficialSiteDialog :: "dialogSize \<Rightarrow> int \<Rightarrow> nat option \<Rightarrow> dialogStack \<Rightarrow> bool \<times> dialogStack" where
  "openOfficialSiteDialog bounds i officialSite =
    openDialog bounds (StationDialog (StationTarget i SourceOfficial None (Some officialSite) None))"

definition openMicrowaveLinkDialog :: "dialogSize \<Rightarrow> dialogLink \<Rightarrow> dialogStack \<Rightarrow> bool \<times> dialogStack" where
  "openMicrowaveLinkDialog bounds link = openDialog bounds (LinkDialog link)"

definition openSI2PEMReportDialog :: "dialogSize \<Rightarrow> reportPayload \<Rightarrow> dialogStack \<Rightarrow> bool \<times> dialogStack" where
  "openSI2PEMReportDialog bounds payload s =
    (let s' = s\<lparr>fd_lastReportOpenRequestId := fd_lastReportOpenRequestId s + 1\<rparr>
     in openDialog bounds (ReportDialog (fd_lastReportOpenRequestId s') payload) s')"

definition openStationHistoryDialog :: "dialogSize \<Rightarrow> historyPayload \<Rightarrow> dialogStack \<Rightarrow> bool \<times> dialogStack" where
  "openStationHistoryDialog bounds payload = openDialog bounds (HistoryDialog payload)"

definition openTerrainProfileDialog :: "dialogSize \<Rightarrow> terrainPayload \<Rightarrow> dialogStack \<Rightarrow> bool \<times> dialogStack" where
  "openTerrainProfileDialog bounds payload = openDialog bounds (TerrainDialog payload)"

definition closeDialog :: "string \<Rightarrow> dialogStack \<Rightarrow> dialogStack" where
  "closeDialog key = setDialogsSynced (\<lambda>current. Some (filter (\<lambda>d. di_key d \<noteq> key) current))"

text \<open>The callback of a terrain profile that is called in place of closing it comes with the state.\<close>

definition requestCloseDialog :: "string \<Rightarrow> dialogStack \<Rightarrow> dialogStack \<times> nat option" where
  "requestCloseDialog key s =
    (case map_option di_request (findDialog key (fd_dialogs s)) of
       Some (TerrainDialog payload) \<Rightarrow> (s, Some (tp_onRequestClose payload))
     | _ \<Rightarrow> (closeDialog key s, None))"

definition closeTerrainProfileDialog :: "dialogStack \<Rightarrow> dialogStack" where
  "closeTerrainProfileDialog = closeDialog TERRAIN_PROFILE_DIALOG_KEY"

definition focusTerrainProfileDialog :: "dialogStack \<Rightarrow> dialogStack" where
  "focusTerrainProfileDialog = focusDialog TERRAIN_PROFILE_DIALOG_KEY"

definition updateDialogRect :: "string \<Rightarrow> dialogRect \<Rightarrow> dialogStack \<Rightarrow> dialogStack" where
  "updateDialogRect key rect = setDialogsSynced (\<lambda>current.
    case findDialog key current of
      None \<Rightarrow> None
    | Some dialog \<Rightarrow>
        (if areFloatingDialogRectsEqual (di_rect dialog) rect then None else Some (editDialog key (\<lambda>d. d\<lparr>di_rect := rect\<rparr>) current)))"

text \<open>The Escape key; \<open>isTypingOutside\<close> tells of a text field outside the terrain profile that has the focus.\<close>

definition handleEscape :: "bool \<Rightarrow> dialogStack \<Rightarrow> dialogStack \<times> nat option" where
  "handleEscape isTypingOutside s =
    (case getTopDialog (fd_dialogs s) of
       None \<Rightarrow> (s, None)
     | Some topmost \<Rightarrow>
         (case di_request topmost of
            TerrainDialog _ \<Rightarrow> if isTypingOutside then (s, None) else requestCloseDialog (di_key topmost) s
          | _ \<Rightarrow> requestCloseDialog (di_key topmost) s))"

text \<open>What the rest of the client may do to the stack.\<close>

datatype dialogAction =
    OpenStation int stationSource "int option"
  | OpenOfficialSite int "nat option"
  | OpenMicrowaveLink dialogLink
  | OpenReport reportPayload
  | OpenHistory historyPayload
  | OpenTerrainProfile terrainPayload
  | SwitchStation string stationTarget
  | FocusDialog string
  | RequestClose string
  | CloseTerrainProfile
  | FocusTerrainProfile
  | UpdateRect string dialogRect
  | PressEscape bool

fun dialogStep :: "dialogSize \<Rightarrow> dialogStack \<Rightarrow> dialogAction \<Rightarrow> dialogStack" where
  "dialogStep bounds s (OpenStation i source locationId) = snd (openStationDialog bounds i source locationId s)"
| "dialogStep bounds s (OpenOfficialSite i site) = snd (openOfficialSiteDialog bounds i site s)"
| "dialogStep bounds s (OpenMicrowaveLink link) = snd (openMicrowaveLinkDialog bounds link s)"
| "dialogStep bounds s (OpenReport payload) = snd (openSI2PEMReportDialog bounds payload s)"
| "dialogStep bounds s (OpenHistory payload) = snd (openStationHistoryDialog bounds payload s)"
| "dialogStep bounds s (OpenTerrainProfile payload) = snd (openTerrainProfileDialog bounds payload s)"
| "dialogStep bounds s (SwitchStation key target) = switchStationDialog key target s"
| "dialogStep bounds s (FocusDialog key) = focusDialog key s"
| "dialogStep bounds s (RequestClose key) = fst (requestCloseDialog key s)"
| "dialogStep bounds s CloseTerrainProfile = closeTerrainProfileDialog s"
| "dialogStep bounds s FocusTerrainProfile = focusTerrainProfileDialog s"
| "dialogStep bounds s (UpdateRect key rect) = updateDialogRect key rect s"
| "dialogStep bounds s (PressEscape typing) = fst (handleEscape typing s)"

end
