(* ===== verification/DialogTheorems.thy ===== *)
theory DialogTheorems
  imports Dialogs
begin

text \<open>What holds of the stack of floating dialogs, whatever the client does to it, and of the places they get.\<close>

section \<open>Geometry\<close>

lemma roundHalfUp_of_int [simp]: "roundHalfUp (of_int k) = of_int k"
proof -
  have "\<lfloor>of_int k + 1 / 2 :: rat\<rfloor> = k" by linarith
  then show ?thesis by (simp add: roundHalfUp_def)
qed

lemma snapCoordinate_range:
  assumes "of_int lo \<le> hi"
  shows "of_int lo \<le> snapCoordinate x (of_int lo) hi" "snapCoordinate x (of_int lo) hi \<le> hi"
proof -
  have "lo \<le> \<lfloor>hi\<rfloor>" using assms by (simp add: le_floor_iff)
  then have cap: "max (of_int lo) (of_int \<lfloor>hi\<rfloor>) = (of_int \<lfloor>hi\<rfloor> :: rat)" "of_int lo \<le> (of_int \<lfloor>hi\<rfloor> :: rat)" by simp_all
  show "of_int lo \<le> snapCoordinate x (of_int lo) hi" using cap by (simp add: snapCoordinate_def Let_def)
  have "snapCoordinate x (of_int lo) hi \<le> of_int \<lfloor>hi\<rfloor>" using cap by (simp add: snapCoordinate_def Let_def)
  then show "snapCoordinate x (of_int lo) hi \<le> hi" using of_int_floor_le order_trans by blast
qed

lemma snapCoordinate_int:
  "snapCoordinate x lo hi = of_int (min (max \<lfloor>x + 1 / 2\<rfloor> \<lceil>lo\<rceil>) (max \<lceil>lo\<rceil> \<lfloor>hi\<rfloor>))"
  unfolding snapCoordinate_def Let_def roundHalfUp_def of_int_min of_int_max ..

lemma snapCoordinate_again:
  assumes "of_int lo \<le> hi"
  shows "snapCoordinate (min (max (snapCoordinate x (of_int lo) hi) (of_int lo)) hi) (of_int lo) hi = snapCoordinate x (of_int lo) hi"
proof -
  let ?y = "snapCoordinate x (of_int lo) hi"
  have range: "min (max ?y (of_int lo)) hi = ?y" using snapCoordinate_range [OF assms, of x] by simp
  obtain k where k: "?y = of_int k" using snapCoordinate_int by blast
  have "of_int k \<le> hi" "of_int lo \<le> (of_int k :: rat)" using snapCoordinate_range [OF assms, of x] k by simp_all
  then have "k \<le> \<lfloor>hi\<rfloor>" "lo \<le> k" "lo \<le> \<lfloor>hi\<rfloor>" using assms by (simp_all add: le_floor_iff)
  then have "snapCoordinate (of_int k) (of_int lo) hi = of_int k" by (simp add: snapCoordinate_def Let_def)
  then show ?thesis using range k by simp
qed

lemma margin: "(16 :: number) * 2 = 32" "DIALOG_MARGIN = 16"
  by (simp_all add: DIALOG_MARGIN_def)

lemma clamped_size:
  fixes m a x :: number
  shows "min (max (min (max x (min m a)) a) (min m a)) a = min (max x (min m a)) a" "min m a \<le> min (max x (min m a)) a"
  by (auto simp: min_def max_def)

text \<open>One axis of a clamped rectangle.\<close>

lemma clamped_axis:
  fixes size' :: number
  assumes "32 \<le> bound" "w = min (max width (min size' (max 0 (bound - 32)))) (max 0 (bound - 32))"
    "hi = max 16 (bound - w - 16)"
  shows "hi = bound - w - 16" "(16 :: rat) \<le> hi" "w \<le> bound - 32"
  using assms by (auto simp: min_def max_def split: if_splits)

text \<open>
  In a window of at least twice the margin a clamped rectangle keeps the margin to every edge of the window,
  it is at least as large as the least size where the window has the room, and clamping it again changes nothing.
\<close>

theorem clamped_rect_in_window:
  assumes "32 \<le> fs_width bounds" "32 \<le> fs_height bounds"
  shows "let r = clampFloatingDialogRect bounds rect minSize in
    16 \<le> fr_x r \<and> fr_x r + fr_width r \<le> fs_width bounds - 16 \<and> 16 \<le> fr_y r \<and> fr_y r + fr_height r \<le> fs_height bounds - 16 \<and>
    min (fs_width minSize) (fs_width bounds - 32) \<le> fr_width r \<and> min (fs_height minSize) (fs_height bounds - 32) \<le> fr_height r \<and>
    clampFloatingDialogRect bounds r minSize = r"
proof -
  let ?r = "clampFloatingDialogRect bounds rect minSize"
  have room: "0 \<le> fs_width bounds - 32" "0 \<le> fs_height bounds - 32" using assms by simp_all
  define w where "w = min (max (fr_width rect) (min (fs_width minSize) (max 0 (fs_width bounds - 32)))) (max 0 (fs_width bounds - 32))"
  define h where "h = min (max (fr_height rect) (min (fs_height minSize) (max 0 (fs_height bounds - 32)))) (max 0 (fs_height bounds - 32))"
  define mx where "mx = max 16 (fs_width bounds - w - 16)"
  define my where "my = max 16 (fs_height bounds - h - 16)"
  note wx = clamped_axis [OF assms(1) w_def mx_def] and hy = clamped_axis [OF assms(2) h_def my_def]
  have r: "?r = \<lparr>fr_x = snapCoordinate (min (max (fr_x rect) 16) mx) 16 mx, fr_y = snapCoordinate (min (max (fr_y rect) 16) my) 16 my,
      fr_width = w, fr_height = h\<rparr>"
    unfolding clampFloatingDialogRect_def Let_def margin w_def h_def mx_def my_def ..
  note sx = snapCoordinate_range [of 16 mx, simplified, OF wx(2)] and sy = snapCoordinate_range [of 16 my, simplified, OF hy(2)]
  have size: "min (max w (min (fs_width minSize) (max 0 (fs_width bounds - 32)))) (max 0 (fs_width bounds - 32)) = w"
    "min (max h (min (fs_height minSize) (max 0 (fs_height bounds - 32)))) (max 0 (fs_height bounds - 32)) = h"
    unfolding w_def h_def by (rule clamped_size)+
  have "clampFloatingDialogRect bounds ?r minSize = ?r"
    unfolding r unfolding clampFloatingDialogRect_def Let_def margin dialogRect.simps size mx_def [symmetric] my_def [symmetric]
      snapCoordinate_again [of 16 mx, simplified, OF wx(2)] snapCoordinate_again [of 16 my, simplified, OF hy(2)] ..
  moreover have "min (fs_width minSize) (fs_width bounds - 32) \<le> w" "min (fs_height minSize) (fs_height bounds - 32) \<le> h"
    using clamped_size(2) [of "fs_width minSize" "max 0 (fs_width bounds - 32)" "fr_width rect"]
      clamped_size(2) [of "fs_height minSize" "max 0 (fs_height bounds - 32)" "fr_height rect"]
    unfolding w_def [symmetric] h_def [symmetric] unfolding max_absorb2 [OF room(1)] max_absorb2 [OF room(2)] .
  moreover have "fr_x ?r + fr_width ?r \<le> fs_width bounds - 16" "fr_y ?r + fr_height ?r \<le> fs_height bounds - 16"
    using sx(2) [of "min (max (fr_x rect) 16) mx"] sy(2) [of "min (max (fr_y rect) 16) my"] unfolding r dialogRect.simps wx(1) hy(1) by linarith+
  moreover have "16 \<le> fr_x ?r" "16 \<le> fr_y ?r" unfolding r dialogRect.simps by (rule sx(1) sy(1))+
  moreover have "fr_width ?r = w" "fr_height ?r = h" unfolding r by simp_all
  ultimately show ?thesis unfolding Let_def by metis
qed

theorem clamped_rect_in_window_witness:
  "clampFloatingDialogRect \<lparr>fs_width = 1280, fs_height = 720\<rparr> \<lparr>fr_x = 900, fr_y = 10, fr_width = 920, fr_height = 600\<rparr> DESKTOP_MIN_SIZE =
     \<lparr>fr_x = 344, fr_y = 16, fr_width = 920, fr_height = 600\<rparr> \<and>
   clampFloatingDialogRect \<lparr>fs_width = 1280, fs_height = 720\<rparr> \<lparr>fr_x = 344, fr_y = 16, fr_width = 920, fr_height = 600\<rparr> DESKTOP_MIN_SIZE =
     \<lparr>fr_x = 344, fr_y = 16, fr_width = 920, fr_height = 600\<rparr>"
proof -
  have "clampFloatingDialogRect \<lparr>fs_width = 1280, fs_height = 720\<rparr> \<lparr>fr_x = 900, fr_y = 10, fr_width = 920, fr_height = 600\<rparr> DESKTOP_MIN_SIZE =
     \<lparr>fr_x = 344, fr_y = 16, fr_width = 920, fr_height = 600\<rparr>"
    by code_simp
  then show ?thesis
    using clamped_rect_in_window [of "\<lparr>fs_width = 1280, fs_height = 720\<rparr>" "\<lparr>fr_x = 900, fr_y = 10, fr_width = 920, fr_height = 600\<rparr>" DESKTOP_MIN_SIZE]
    by (simp add: Let_def)
qed

section \<open>The order of the dialogs\<close>

lemma stackOrder_perm: "distinct (stackOrder dialogs)" "set (stackOrder dialogs) = {..<length dialogs}" "length (stackOrder dialogs) = length dialogs"
proof -
  have "mset (stackOrder dialogs) = mset [0..<length dialogs]" by (simp add: stackOrder_def)
  then show "distinct (stackOrder dialogs)" "set (stackOrder dialogs) = {..<length dialogs}" "length (stackOrder dialogs) = length dialogs"
    by (metis distinct_upt mset_eq_imp_distinct_iff) (metis \<open>mset _ = _\<close> atLeast_upt set_mset_mset, metis \<open>mset _ = _\<close> length_upt minus_nat.diff_0 size_mset)
qed

lemma rankIn_nth:
  assumes "distinct xs" "p < length xs"
  shows "rankIn xs (xs ! p) = p"
proof -
  have "\<exists>q. findIndex (\<lambda>j. j = xs ! p) xs = Some q" using assms(2) findIndex_None [of "\<lambda>j. j = xs ! p" xs] nth_mem by blast
  then obtain q where q: "findIndex (\<lambda>j. j = xs ! p) xs = Some q" by blast
  have "q = p" using findIndex_Some [OF q] assms nth_eq_iff_index_eq [OF assms(1), of q p] by blast
  with q show ?thesis by (simp add: rankIn_def)
qed

lemma rankIn_place:
  assumes "i < length dialogs"
  obtains "rankIn (stackOrder dialogs) i < length dialogs" "stackOrder dialogs ! rankIn (stackOrder dialogs) i = i"
proof -
  have "i \<in> set (stackOrder dialogs)" using assms stackOrder_perm(2) by blast
  then obtain p where p: "p < length (stackOrder dialogs)" "stackOrder dialogs ! p = i" by (auto simp: in_set_conv_nth)
  then have "rankIn (stackOrder dialogs) i = p" using rankIn_nth [OF stackOrder_perm(1) p(1)] by simp
  with p that show ?thesis by (simp add: stackOrder_perm(3))
qed

lemma rankIn_order:
  assumes "i < length dialogs" "j < length dialogs" "di_zIndex (dialogs ! i) < di_zIndex (dialogs ! j)"
  shows "rankIn (stackOrder dialogs) i < rankIn (stackOrder dialogs) j"
proof (rule ccontr)
  let ?ys = "stackOrder dialogs"
  assume "\<not> rankIn ?ys i < rankIn ?ys j"
  moreover have "rankIn ?ys i \<noteq> rankIn ?ys j" using assms by (metis less_irrefl rankIn_place)
  ultimately have less: "rankIn ?ys j < rankIn ?ys i" by simp
  have sorted: "sorted_wrt (\<lambda>i j. (of_int (di_zIndex (dialogs ! i)) - of_int (di_zIndex (dialogs ! j)) :: number) \<le> 0) ?ys"
    unfolding stackOrder_def by (rule comparator.sorted_sortBy [OF comparator_by])
  have "rankIn ?ys i < length ?ys" using rankIn_place [OF assms(1)] stackOrder_perm(3) by metis
  from sorted_wrt_nth_less [OF sorted less this]
  have "di_zIndex (dialogs ! j) \<le> di_zIndex (dialogs ! i)"
    using rankIn_place [OF assms(1)] rankIn_place [OF assms(2)] by (metis diff_le_0_iff_le of_int_le_iff)
  with assms(3) show False by simp
qed

lemma normalize_nth:
  "i < length dialogs \<Longrightarrow> normalizeZIndexes dialogs ! i = (dialogs ! i)\<lparr>di_zIndex := 41 + int (rankIn (stackOrder dialogs) i)\<rparr>"
  by (simp add: normalizeZIndexes_def FLOATING_DIALOG_Z_INDEX_BASE_def)

lemma length_normalize [simp]: "length (normalizeZIndexes dialogs) = length dialogs"
  by (simp add: normalizeZIndexes_def)

lemma map_normalize:
  assumes "\<And>d z. f (d\<lparr>di_zIndex := z\<rparr>) = f d"
  shows "map f (normalizeZIndexes dialogs) = map f dialogs"
  by (rule nth_equalityI) (simp_all add: normalize_nth assms)

lemmas map_normalize_simps [simp] =
  map_normalize [of di_key, simplified] map_normalize [of di_request, simplified] map_normalize [of di_frameId, simplified]
  map_normalize [of di_rect, simplified]

text \<open>The indexes are consecutive, from the one above the base.\<close>

definition zIndexesOk :: "dialogItem list \<Rightarrow> bool" where
  "zIndexesOk dialogs \<longleftrightarrow> distinct (map di_zIndex dialogs) \<and> set (map di_zIndex dialogs) = {41..<41 + int (length dialogs)}"

lemma normalize_zIndexesOk: "zIndexesOk (normalizeZIndexes dialogs)"
proof -
  let ?n = "length dialogs" and ?r = "rankIn (stackOrder dialogs)"
  have zs: "map di_zIndex (normalizeZIndexes dialogs) = map (\<lambda>i. 41 + int (?r i)) [0..<?n]"
    by (simp add: normalizeZIndexes_def FLOATING_DIALOG_Z_INDEX_BASE_def)
  have inj: "inj_on ?r {..<?n}"
    by (rule inj_onI) (metis lessThan_iff rankIn_place)
  have range: "?r ` {..<?n} \<subseteq> {..<?n}" using rankIn_place by blast
  then have image: "?r ` {..<?n} = {..<?n}" using endo_inj_surj [OF _ range inj] by simp
  have "distinct (map (\<lambda>i. 41 + int (?r i)) [0..<?n])"
    using inj by (auto simp: distinct_map inj_on_def)
  moreover have "set (map (\<lambda>i. 41 + int (?r i)) [0..<?n]) = {41..<41 + int ?n}"
  proof -
    have "set (map (\<lambda>i. 41 + int (?r i)) [0..<?n]) = (\<lambda>p. 41 + int p) ` (?r ` {..<?n})" by (auto simp: image_image)
    also have "\<dots> = (\<lambda>p. 41 + int p) ` {..<?n}" unfolding image ..
    also have "\<dots> = {41..<41 + int ?n}"
    proof
      show "{41..<41 + int ?n} \<subseteq> (\<lambda>p. 41 + int p) ` {..<?n}"
      proof
        fix z assume "z \<in> {41..<41 + int ?n}"
        then have "z = 41 + int (nat (z - 41))" "nat (z - 41) < ?n" by auto
        then show "z \<in> (\<lambda>p. 41 + int p) ` {..<?n}" by blast
      qed
    qed auto
    finally show ?thesis .
  qed
  ultimately show ?thesis unfolding zIndexesOk_def zs by simp
qed

lemma normalize_order:
  assumes "distinct (map di_zIndex dialogs)" "i < length dialogs" "j < length dialogs"
  shows "di_zIndex (normalizeZIndexes dialogs ! i) < di_zIndex (normalizeZIndexes dialogs ! j) \<longleftrightarrow>
    di_zIndex (dialogs ! i) < di_zIndex (dialogs ! j)"
proof -
  have "di_zIndex (dialogs ! i) = di_zIndex (dialogs ! j) \<Longrightarrow> i = j"
    using assms nth_eq_iff_index_eq [of "map di_zIndex dialogs" i j] by simp
  then show ?thesis
    using rankIn_order [OF assms(2,3)] rankIn_order [OF assms(3,2)] assms(2,3) by (fastforce simp: normalize_nth)
qed

section \<open>The top dialog\<close>

lemma same_row: "distinct (map f xs) \<Longrightarrow> x \<in> set xs \<Longrightarrow> y \<in> set xs \<Longrightarrow> f x = f y \<Longrightarrow> x = y"
  by (simp add: distinct_map inj_on_def)

lemma getTopDialogFrom_Some:
  "getTopDialogFrom (Some t) dialogs = Some u \<Longrightarrow>
    (u = t \<or> u \<in> set dialogs) \<and> di_zIndex t \<le> di_zIndex u \<and> (\<forall>d\<in>set dialogs. di_zIndex d \<le> di_zIndex u)"
  by (induction dialogs arbitrary: t) (force split: if_splits)+

lemma getTopDialogFrom_ne [simp]: "getTopDialogFrom (Some t) dialogs \<noteq> None"
  by (induction dialogs arbitrary: t) auto

lemma getTopDialog_None [simp]: "getTopDialog dialogs = None \<longleftrightarrow> dialogs = []"
  by (cases dialogs) (simp_all add: getTopDialog_def)

lemma getTopDialog_Some:
  assumes "getTopDialog dialogs = Some u"
  shows "u \<in> set dialogs" "\<forall>d\<in>set dialogs. di_zIndex d \<le> di_zIndex u"
  using assms by (cases dialogs; force simp: getTopDialog_def dest: getTopDialogFrom_Some)+

lemma getTopDialog_iff:
  assumes "distinct (map di_zIndex dialogs)"
  shows "getTopDialog dialogs = Some u \<longleftrightarrow> u \<in> set dialogs \<and> (\<forall>d\<in>set dialogs. di_zIndex d \<le> di_zIndex u)"
proof (intro iffI conjI; (elim conjE)?)
  assume u: "u \<in> set dialogs" "\<forall>d\<in>set dialogs. di_zIndex d \<le> di_zIndex u"
  then obtain t where t: "getTopDialog dialogs = Some t" by (metis empty_iff getTopDialog_None list.set(1) option.exhaust)
  have "di_zIndex t = di_zIndex u" using getTopDialog_Some [OF t] u by fastforce
  then have "t = u" using getTopDialog_Some(1) [OF t] u(1) assms by (auto simp: distinct_map dest: inj_onD)
  with t show "getTopDialog dialogs = Some u" by simp
qed (use getTopDialog_Some in blast)+

lemma getNextZIndex_above: "d \<in> set dialogs \<Longrightarrow> di_zIndex d < getNextZIndex dialogs"
  using getTopDialog_Some(2) by (cases "getTopDialog dialogs") (fastforce simp: getNextZIndex_def)+

section \<open>The stack stays well formed\<close>

text \<open>
  The keys are distinct and belong to what the dialogs show, the indexes are consecutive, the frames are distinct
  and were handed out by the counter.
\<close>

definition wfDialogs :: "int \<Rightarrow> dialogItem list \<Rightarrow> bool" where
  "wfDialogs lastFrame dialogs \<longleftrightarrow>
    distinct (map di_key dialogs) \<and> map di_key dialogs = map (getDialogKey \<circ> di_request) dialogs \<and>
    distinct (map di_frameId dialogs) \<and> (\<forall>f\<in>set (map di_frameId dialogs). f \<le> lastFrame)"

definition wfStack :: "dialogStack \<Rightarrow> bool" where
  "wfStack s \<longleftrightarrow> wfDialogs (fd_lastFrameId s) (fd_dialogs s) \<and> zIndexesOk (fd_dialogs s)"

lemma wfDialogs_normalize [simp]: "wfDialogs lastFrame (normalizeZIndexes dialogs) = wfDialogs lastFrame dialogs"
  using map_normalize [of "getDialogKey \<circ> di_request" dialogs] by (simp add: wfDialogs_def)

lemma wfStack_set:
  assumes "\<And>dialogs. updater (fd_dialogs s) = Some dialogs \<Longrightarrow> wfDialogs (fd_lastFrameId s) dialogs" "wfStack s"
  shows "wfStack (setDialogsSynced updater s)"
  using assms by (auto simp: wfStack_def setDialogsSynced_def normalize_zIndexesOk split: option.split)

lemma wfDialogs_edit:
  assumes "wfDialogs lastFrame dialogs"
    and "\<And>d. d \<in> set dialogs \<Longrightarrow> di_key d = key \<Longrightarrow>
      di_key (f d) = di_key d \<and> getDialogKey (di_request (f d)) = di_key d \<and> di_frameId (f d) = di_frameId d"
  shows "wfDialogs lastFrame (editDialog key f dialogs)"
proof -
  have "map di_key (editDialog key f dialogs) = map di_key dialogs"
    "map di_frameId (editDialog key f dialogs) = map di_frameId dialogs"
    "map (getDialogKey \<circ> di_request) (editDialog key f dialogs) = map (getDialogKey \<circ> di_request) dialogs"
    using assms by (auto simp: editDialog_def wfDialogs_def)
  then show ?thesis using assms(1) by (simp add: wfDialogs_def)
qed

lemma wfDialogs_key: "wfDialogs lastFrame dialogs \<Longrightarrow> d \<in> set dialogs \<Longrightarrow> getDialogKey (di_request d) = di_key d"
  by (simp add: wfDialogs_def)

lemma getDialogKey_merge [simp]: "getDialogKey (mergeRequest old new) = getDialogKey new"
  by (cases "(old, new)" rule: mergeRequest.cases) simp_all

lemma wfDialogs_filter: "wfDialogs lastFrame dialogs \<Longrightarrow> wfDialogs lastFrame (filter P dialogs)"
  by (auto simp: wfDialogs_def distinct_filter_map)

lemma wfDialogs_dropAt: "wfDialogs lastFrame dialogs \<Longrightarrow> wfDialogs lastFrame (dropAt n dialogs)"
  using set_dropAt_subset [of n "map di_frameId dialogs"] unfolding wfDialogs_def
  by (metis distinct_dropAt map_dropAt subsetD)

lemma findDialog_None: "findDialog key dialogs = None \<longleftrightarrow> key \<notin> set (map di_key dialogs)"
  by (auto simp: findDialog_def find_None_iff)

lemma wfDialogs_append:
  assumes "wfDialogs lastFrame dialogs" "findDialog (di_key d) dialogs = None" "getDialogKey (di_request d) = di_key d"
    "di_frameId d = lastFrame + 1"
  shows "wfDialogs (lastFrame + 1) (dialogs @ [d])"
  using assms by (fastforce simp: wfDialogs_def findDialog_None)

lemma wfDialogs_update:
  assumes "wfDialogs lastFrame dialogs" "place < length dialogs" "di_key d \<notin> set (map di_key dialogs)"
    "getDialogKey (di_request d) = di_key d" "di_frameId d = di_frameId (dialogs ! place)"
  shows "wfDialogs lastFrame (dialogs[place := d])"
proof -
  have "map di_frameId (dialogs[place := d]) = map di_frameId dialogs"
    using assms(2,5) by (metis length_map list_update_id map_update nth_map)
  moreover have "distinct (map di_key (dialogs[place := d]))"
    using assms(1,3) by (simp add: map_update distinct_list_update wfDialogs_def)
  moreover have "map di_key (dialogs[place := d]) = map (getDialogKey \<circ> di_request) (dialogs[place := d])"
    using assms(1,4) unfolding wfDialogs_def map_update comp_apply by metis
  ultimately show ?thesis using assms(1) unfolding wfDialogs_def by metis
qed


lemma wfStack_parts: "wfStack s \<Longrightarrow> wfDialogs (fd_lastFrameId s) (fd_dialogs s)" "wfStack s \<Longrightarrow> distinct (map di_zIndex (fd_dialogs s))"
  by (simp_all add: wfStack_def zIndexesOk_def)

lemma wfStack_key: "wfStack s \<Longrightarrow> d \<in> set (fd_dialogs s) \<Longrightarrow> getDialogKey (di_request d) = di_key d"
  unfolding wfStack_def by (blast intro: wfDialogs_key)

lemma wfStack_focus: "wfStack s \<Longrightarrow> wfStack (focusDialog key s)"
  unfolding focusDialog_def
  by (rule wfStack_set) (auto split: if_splits simp: wfStack_key intro!: wfDialogs_edit dest: wfStack_parts)

lemma findDialog_Some: "findDialog key dialogs = Some d \<Longrightarrow> d \<in> set dialogs \<and> di_key d = key"
  by (auto simp: findDialog_def find_Some_iff)

lemma wfStack_open: "wfStack s \<Longrightarrow> wfStack (snd (openDialog bounds request s))"
proof (cases "findDialog (getDialogKey request) (fd_dialogs s)")
  case None
  assume wf: "wfStack s"
  let ?d = "\<lparr>di_request = request, di_key = getDialogKey request, di_frameId = fd_lastFrameId s + 1,
    di_rect = createDialogRect bounds request (familySize (fd_dialogs s) (getDialogFamily request)), di_zIndex = getNextZIndex (fd_dialogs s)\<rparr>"
  have "wfDialogs (fd_lastFrameId s + 1) (fd_dialogs s @ [?d])"
    using wfDialogs_append [OF wfStack_parts(1) [OF wf], of ?d] None by simp
  then show ?thesis using wf None
    by (simp add: openDialog_def Let_def setDialogsSynced_def wfStack_def normalize_zIndexesOk)
next
  case (Some existing)
  assume wf: "wfStack s"
  show ?thesis
    using wf Some by (auto simp: openDialog_def Let_def intro!: wfStack_set wfDialogs_edit dest: wfStack_parts)
qed

lemma wfStack_switch:
  assumes "wfStack s"
  shows "wfStack (switchStationDialog key target s)"
  unfolding switchStationDialog_def Let_def
proof (rule wfStack_set [OF _ assms])
  note wf = wfStack_parts(1) [OF assms]
  fix dialogs
  let ?to = "getDialogKey (StationDialog target)"
  assume eq: "(case findIndex (\<lambda>d. di_key d = key) (fd_dialogs s) of None \<Rightarrow> None
    | Some place \<Rightarrow> (case di_request (fd_dialogs s ! place) of
        StationDialog old \<Rightarrow> (if key = ?to then None
          else if findDialog ?to (fd_dialogs s) \<noteq> None
          then Some (editDialog ?to (\<lambda>d. d\<lparr>di_zIndex := getNextZIndex (fd_dialogs s)\<rparr>) (dropAt place (fd_dialogs s)))
          else Some ((fd_dialogs s)[place := (fd_dialogs s ! place)\<lparr>di_request := StationDialog (StationTarget (tg_id target) (tg_source target)
            (tg_locationId target) (tg_officialSite target) (Some (Some (case Option.bind (tg_switchedFrom target) id of
               Some t \<Rightarrow> t
             | None \<Rightarrow> StationTarget (tg_id old) (tg_source old) None (Some (Option.bind (tg_officialSite old) id)) None)))), di_key := ?to\<rparr>]))
      | _ \<Rightarrow> None)) = Some dialogs"
  then obtain place old where place: "findIndex (\<lambda>d. di_key d = key) (fd_dialogs s) = Some place"
    and old: "di_request (fd_dialogs s ! place) = StationDialog old"
    by (cases "findIndex (\<lambda>d. di_key d = key) (fd_dialogs s)") (auto split: dialogRequest.splits)
  show "wfDialogs (fd_lastFrameId s) dialogs"
  proof (cases "findDialog ?to (fd_dialogs s)")
    case None
    have "place < length (fd_dialogs s)" using findIndex_Some [OF place] by simp
    moreover have "?to \<notin> set (map di_key (fd_dialogs s))" using None by (simp add: findDialog_None)
    ultimately show ?thesis using eq place old None by (auto split: if_splits intro!: wfDialogs_update [OF wf])
  next
    case (Some d)
    have "wfDialogs (fd_lastFrameId s) (dropAt place (fd_dialogs s))" by (rule wfDialogs_dropAt [OF wf])
    with eq place old Some show ?thesis by (auto split: if_splits intro!: wfDialogs_edit dest: wfDialogs_key)
  qed
qed

lemma wfStack_close: "wfStack s \<Longrightarrow> wfStack (closeDialog key s)"
  unfolding closeDialog_def by (rule wfStack_set) (auto intro: wfDialogs_filter dest: wfStack_parts)

lemma wfStack_requestClose: "wfStack s \<Longrightarrow> wfStack (fst (requestCloseDialog key s))"
  by (auto simp: requestCloseDialog_def wfStack_close split: option.split dialogRequest.split)

lemma wfStack_rect: "wfStack s \<Longrightarrow> wfStack (updateDialogRect key rect s)"
  unfolding updateDialogRect_def
  by (rule wfStack_set) (auto split: option.splits if_splits simp: wfStack_key intro!: wfDialogs_edit dest: wfStack_parts)

lemma wfStack_escape: "wfStack s \<Longrightarrow> wfStack (fst (handleEscape typing s))"
  by (auto simp: handleEscape_def wfStack_requestClose split: option.split dialogRequest.split)

lemma wfStack_counter: "wfStack (s\<lparr>fd_lastReportOpenRequestId := i\<rparr>) = wfStack s"
  by (simp add: wfStack_def)

lemmas stack_openers = openStationDialog_def openOfficialSiteDialog_def openMicrowaveLinkDialog_def openSI2PEMReportDialog_def
  openStationHistoryDialog_def openTerrainProfileDialog_def

lemma wfStack_step: "wfStack s \<Longrightarrow> wfStack (dialogStep bounds s action)"
  by (cases action)
    (simp_all add: stack_openers closeTerrainProfileDialog_def focusTerrainProfileDialog_def Let_def wfStack_open wfStack_switch
      wfStack_focus wfStack_close wfStack_requestClose wfStack_rect wfStack_escape wfStack_counter)

interpretation dialogRun: invariant_machine "dialogStep bounds" "\<lambda>_ _. True" wfStack for bounds
  by unfold_locales (rule wfStack_step)

lemma wfStack_empty: "wfStack emptyStack"
  by (simp add: emptyStack_def wfStack_def wfDialogs_def zIndexesOk_def)

lemma runOk_all: "runOk step (\<lambda>_ e. P e) s es \<longleftrightarrow> (\<forall>e\<in>set es. P e)"
  by (induction es arbitrary: s) simp_all

text \<open>
  C17. Whatever is opened, switched, focused, moved and closed in whatever order: the keys of the dialogs are
  distinct and belong to what they show, their indexes are the consecutive ones above the base, without gaps, and
  their frames are distinct.
\<close>

theorem dialog_stack_well_formed: "wfStack (runAll (dialogStep bounds) emptyStack actions)"
  by (rule dialogRun.run_inv [OF wfStack_empty]) (simp add: runOk_all)

section \<open>What is opened comes to the top\<close>

text \<open>Of the dialogs with other keys, the one that was above is above.\<close>

definition keepsOrder :: "string \<Rightarrow> dialogItem list \<Rightarrow> dialogItem list \<Rightarrow> bool" where
  "keepsOrder key before after \<longleftrightarrow>
    (\<forall>a\<in>set before. \<forall>b\<in>set before. \<forall>a'\<in>set after. \<forall>b'\<in>set after.
      di_key a \<noteq> key \<and> di_key b \<noteq> key \<and> di_key a' = di_key a \<and> di_key b' = di_key b \<longrightarrow>
      (di_zIndex a < di_zIndex b \<longleftrightarrow> di_zIndex a' < di_zIndex b'))"

lemma in_normalize:
  assumes "d \<in> set (normalizeZIndexes dialogs)"
  obtains i where "i < length dialogs" "d = normalizeZIndexes dialogs ! i" "di_key (dialogs ! i) = di_key d"
  using assms normalize_nth by (fastforce simp: in_set_conv_nth)

lemma normalize_keepsOrder:
  assumes "distinct (map di_key before)" "distinct (map di_zIndex changed)"
    "\<And>d. d \<in> set changed \<Longrightarrow> di_key d \<noteq> key \<Longrightarrow> d \<in> set before"
  shows "keepsOrder key before (normalizeZIndexes changed)"
  unfolding keepsOrder_def
proof (intro ballI impI)
  fix a b a' b'
  assume ab: "a \<in> set before" "b \<in> set before" and ab': "a' \<in> set (normalizeZIndexes changed)" "b' \<in> set (normalizeZIndexes changed)"
    and keys: "di_key a \<noteq> key \<and> di_key b \<noteq> key \<and> di_key a' = di_key a \<and> di_key b' = di_key b"
  obtain i j where i: "i < length changed" "a' = normalizeZIndexes changed ! i" "di_key (changed ! i) = di_key a'"
    and j: "j < length changed" "b' = normalizeZIndexes changed ! j" "di_key (changed ! j) = di_key b'"
    using in_normalize [OF ab'(1)] in_normalize [OF ab'(2)] by metis
  have same: "x = y" if "x \<in> set before" "y \<in> set before" "di_key x = di_key y" for x y
    using assms(1) that by (auto simp: distinct_map dest: inj_onD)
  have "changed ! i = a" "changed ! j = b"
    using i j keys ab assms(3) [of "changed ! i"] assms(3) [of "changed ! j"] by (auto intro: same)
  then show "di_zIndex a < di_zIndex b \<longleftrightarrow> di_zIndex a' < di_zIndex b'"
    using normalize_order [OF assms(2) i(1) j(1)] i(2) j(2) by simp
qed

lemma normalize_top:
  assumes "distinct (map di_zIndex dialogs)" "d \<in> set dialogs" "\<forall>e\<in>set dialogs. di_zIndex e \<le> di_zIndex d"
  shows "map_option di_key (getTopDialog (normalizeZIndexes dialogs)) = Some (di_key d)"
proof -
  obtain i where i: "i < length dialogs" "dialogs ! i = d" using assms(2) by (auto simp: in_set_conv_nth)
  let ?t = "normalizeZIndexes dialogs ! i"
  have "\<forall>e\<in>set (normalizeZIndexes dialogs). di_zIndex e \<le> di_zIndex ?t"
  proof
    fix e assume "e \<in> set (normalizeZIndexes dialogs)"
    then obtain j where j: "j < length dialogs" "e = normalizeZIndexes dialogs ! j" using in_normalize by metis
    then show "di_zIndex e \<le> di_zIndex ?t"
      using normalize_order [OF assms(1) i(1) j(1)] assms(3) i(2) by (metis linorder_not_le nth_mem)
  qed
  moreover have "?t \<in> set (normalizeZIndexes dialogs)" using i(1) by simp
  moreover have "distinct (map di_zIndex (normalizeZIndexes dialogs))" using normalize_zIndexesOk by (simp add: zIndexesOk_def)
  ultimately have "getTopDialog (normalizeZIndexes dialogs) = Some ?t" by (simp add: getTopDialog_iff)
  then show ?thesis using i by (simp add: normalize_nth)
qed

text \<open>A dialog is raised to an index above all others.\<close>

lemma raise_dialog:
  assumes "distinct (map di_key dialogs)" "distinct (map di_zIndex dialogs)" "d \<in> set dialogs" "di_key d = key"
    and above: "\<And>e. e \<in> set dialogs \<Longrightarrow> di_key e \<noteq> key \<Longrightarrow> di_zIndex e < z"
    and f: "\<And>e. di_key (f e) = di_key e" "\<And>e. di_zIndex (f e) = z"
  shows "map_option di_key (getTopDialog (normalizeZIndexes (editDialog key f dialogs))) = Some key"
    "keepsOrder key dialogs (normalizeZIndexes (editDialog key f dialogs))"
proof -
  let ?g = "\<lambda>e. if di_key e = key then f e else e"
  have "inj_on (di_zIndex \<circ> ?g) (set dialogs)"
  proof (rule inj_onI)
    fix a b
    assume ab: "a \<in> set dialogs" "b \<in> set dialogs" and eq: "(di_zIndex \<circ> ?g) a = (di_zIndex \<circ> ?g) b"
    have same: "x = y" if "x \<in> set dialogs" "y \<in> set dialogs" "di_key x = di_key y \<or> di_zIndex x = di_zIndex y" for x y
      using assms(1,2) that by (auto simp: distinct_map dest: inj_onD)
    show "a = b" using eq ab above [OF ab(1)] above [OF ab(2)] same [OF ab] by (auto simp: f split: if_splits)
  qed
  then have dist: "distinct (map di_zIndex (editDialog key f dialogs))"
    using assms(1) by (simp add: editDialog_def distinct_map)
  have top: "f d \<in> set (editDialog key f dialogs)" using assms(3,4) by (auto simp: editDialog_def)
  have max: "\<forall>e\<in>set (editDialog key f dialogs). di_zIndex e \<le> di_zIndex (f d)"
    using above by (force simp: editDialog_def f)
  show "map_option di_key (getTopDialog (normalizeZIndexes (editDialog key f dialogs))) = Some key"
    using normalize_top [OF dist top max] f(1) assms(4) by simp
  show "keepsOrder key dialogs (normalizeZIndexes (editDialog key f dialogs))"
    by (rule normalize_keepsOrder [OF assms(1) dist]) (auto simp: editDialog_def f(1) split: if_splits)
qed

lemma append_dialog:
  assumes "distinct (map di_key dialogs)" "distinct (map di_zIndex dialogs)" "di_zIndex d = getNextZIndex dialogs"
  shows "map_option di_key (getTopDialog (normalizeZIndexes (dialogs @ [d]))) = Some (di_key d)"
    "keepsOrder (di_key d) dialogs (normalizeZIndexes (dialogs @ [d]))"
proof -
  have dist: "distinct (map di_zIndex (dialogs @ [d]))" using assms(2,3) getNextZIndex_above by fastforce
  show "map_option di_key (getTopDialog (normalizeZIndexes (dialogs @ [d]))) = Some (di_key d)"
    by (rule normalize_top [OF dist]) (auto simp: assms(3) dest: getNextZIndex_above)
  show "keepsOrder (di_key d) dialogs (normalizeZIndexes (dialogs @ [d]))"
    by (rule normalize_keepsOrder [OF assms(1) dist]) auto
qed

lemma keepsOrder_same:
  assumes "distinct (map di_key dialogs)"
  shows "keepsOrder key dialogs dialogs"
proof -
  have "x = y" if "x \<in> set dialogs" "y \<in> set dialogs" "di_key x = di_key y" for x y
    using assms that by (auto simp: distinct_map dest: inj_onD)
  then show ?thesis unfolding keepsOrder_def by metis
qed

text \<open>
  C19. When a dialog is opened on a well-formed stack, anew or again, the dialog of that key is on top afterwards, and
  the others keep the order they had.
\<close>

theorem opened_dialog_on_top:
  assumes "wfStack s" "openDialog bounds request s = (True, s')"
  shows "map_option di_key (getTopDialog (fd_dialogs s')) = Some (getDialogKey request) \<and>
    keepsOrder (getDialogKey request) (fd_dialogs s) (fd_dialogs s')"
proof (cases "findDialog (getDialogKey request) (fd_dialogs s)")
  case None
  have "distinct (map di_key (fd_dialogs s))" using wfStack_parts(1) [OF assms(1)] by (simp add: wfDialogs_def)
  note appended = append_dialog [OF this wfStack_parts(2) [OF assms(1)]]
  let ?d = "\<lparr>di_request = request, di_key = getDialogKey request, di_frameId = fd_lastFrameId s + 1,
    di_rect = createDialogRect bounds request (familySize (fd_dialogs s) (getDialogFamily request)), di_zIndex = getNextZIndex (fd_dialogs s)\<rparr>"
  have "fd_dialogs s' = normalizeZIndexes (fd_dialogs s @ [?d])"
    using None assms(2) by (auto simp: openDialog_def Let_def setDialogsSynced_def split: if_splits)
  then show ?thesis using appended [of ?d] by simp
next
  case (Some existing)
  have keys: "distinct (map di_key (fd_dialogs s))" using wfStack_parts(1) [OF assms(1)] by (simp add: wfDialogs_def)
  note zs = wfStack_parts(2) [OF assms(1)] and ex = findDialog_Some [OF Some]
  note raised = raise_dialog [OF keys zs conjunct1 [OF ex] conjunct2 [OF ex]]
  have topmost: "di_zIndex e < di_zIndex existing"
    if istop: "isTopKey (getDialogKey request) (fd_dialogs s)" and "e \<in> set (fd_dialogs s)" "di_key e \<noteq> getDialogKey request" for e
  proof -
    obtain t where t: "getTopDialog (fd_dialogs s) = Some t" "di_key t = getDialogKey request" using istop unfolding isTopKey_def map_option_eq_Some by blast
    then have "t = existing" using same_row [OF keys getTopDialog_Some(1) [OF t(1)]] ex by simp
    then have "di_zIndex e \<le> di_zIndex existing" using getTopDialog_Some(2) [OF t(1)] that(2) by simp
    moreover have "di_zIndex e \<noteq> di_zIndex existing" using same_row [OF zs that(2)] that(3) ex by blast
    ultimately show ?thesis by simp
  qed
  show ?thesis
  proof (cases "isTopKey (getDialogKey request) (fd_dialogs s) \<and> hasSamePayload (di_request existing) request")
    case True
    then have "s' = s" using assms(2) Some by (simp add: openDialog_def Let_def)
    then show ?thesis using True keepsOrder_same [OF keys] by (simp add: isTopKey_def)
  next
    case False
    let ?z = "if isTopKey (getDialogKey request) (fd_dialogs s) then di_zIndex existing else getNextZIndex (fd_dialogs s)"
    have s': "fd_dialogs s' = normalizeZIndexes (editDialog (getDialogKey request)
        (\<lambda>d. d\<lparr>di_request := mergeRequest (di_request d) request, di_zIndex := ?z\<rparr>) (fd_dialogs s))"
      using assms(2) Some False by (auto simp: openDialog_def Let_def setDialogsSynced_def)
    show ?thesis unfolding s'
      using raised [of ?z "\<lambda>d. d\<lparr>di_request := mergeRequest (di_request d) request, di_zIndex := ?z\<rparr>"] topmost getNextZIndex_above
      by simp
  qed
qed

theorem opened_dialog_on_top_witness:
  "map_option di_key (getTopDialog (fd_dialogs (snd (openDialog \<lparr>fs_width = 1280, fs_height = 720\<rparr>
     (StationDialog (StationTarget 7 SourceInternal None None None)) emptyStack)))) = Some ''station:internal:7''"
proof -
  let ?request = "StationDialog (StationTarget 7 SourceInternal None None None)"
  let ?result = "openDialog \<lparr>fs_width = 1280, fs_height = 720\<rparr> ?request emptyStack"
  have "fst ?result" by (simp add: openDialog_def Let_def emptyStack_def findDialog_def familySize_def MAX_DIALOGS_PER_KIND_def)
  then have "?result = (True, snd ?result)" by (metis eq_fst_iff prod.collapse)
  moreover have "getDialogKey ?request = ''station:internal:7''" by code_simp
  ultimately show ?thesis using opened_dialog_on_top [OF wfStack_empty] by metis
qed

section \<open>The limit on dialogs of one kind\<close>

definition withinLimit :: "dialogStack \<Rightarrow> bool" where
  "withinLimit s \<longleftrightarrow> (\<forall>family. familySize (fd_dialogs s) family \<le> 2)"

definition isSwitch :: "dialogAction \<Rightarrow> bool" where
  "isSwitch action = (case action of SwitchStation _ _ \<Rightarrow> True | _ \<Rightarrow> False)"

lemma familySize_map:
  "map (getDialogFamily \<circ> di_request) ds = map (getDialogFamily \<circ> di_request) es \<Longrightarrow> familySize ds family = familySize es family"
proof -
  have count: "familySize xs family = count_list (map (getDialogFamily \<circ> di_request) xs) family" for xs
    by (induction xs) (auto simp: familySize_def)
  show "map (getDialogFamily \<circ> di_request) ds = map (getDialogFamily \<circ> di_request) es \<Longrightarrow> familySize ds family = familySize es family"
    unfolding count by simp
qed

lemma familySize_normalize [simp]: "familySize (normalizeZIndexes dialogs) family = familySize dialogs family"
  by (rule familySize_map) (rule map_normalize, simp)

lemma familySize_append: "familySize (ds @ es) family = familySize ds family + familySize es family"
  by (simp add: familySize_def)

lemma familySize_one: "familySize [d] family = (if getDialogFamily (di_request d) = family then 1 else 0)"
  by (simp add: familySize_def)

lemma sourceText_inj [simp]: "sourceText a = sourceText b \<longleftrightarrow> a = b"
  by (cases a; cases b) simp_all

lemma key_determines_family:
  assumes "getDialogKey a = getDialogKey b"
  shows "getDialogFamily a = getDialogFamily b"
proof -
  have "sourceText x @ '':'' @ r = sourceText y @ '':'' @ r' \<Longrightarrow> x = y" for x y r r'
    by (cases x; cases y) simp_all
  then show ?thesis using assms by (cases a; cases b) (auto simp: TERRAIN_PROFILE_DIALOG_KEY_def)
qed

lemma getDialogFamily_merge: "getDialogKey old = getDialogKey new \<Longrightarrow> getDialogFamily (mergeRequest old new) = getDialogFamily old"
  using key_determines_family [of "mergeRequest old new" old] by simp

lemma familySize_edit:
  assumes "\<And>d. d \<in> set dialogs \<Longrightarrow> di_key d = key \<Longrightarrow> getDialogFamily (di_request (f d)) = getDialogFamily (di_request d)"
  shows "familySize (editDialog key f dialogs) family = familySize dialogs family"
  by (rule familySize_map) (simp add: editDialog_def assms)

lemma familySize_filter: "familySize (filter P dialogs) family \<le> familySize dialogs family"
  by (induction dialogs) (auto simp: familySize_def)

lemma withinLimit_set:
  assumes "withinLimit s" "\<And>dialogs. updater (fd_dialogs s) = Some dialogs \<Longrightarrow> \<forall>family. familySize dialogs family \<le> familySize (fd_dialogs s) family"
  shows "withinLimit (setDialogsSynced updater s)"
  using assms by (auto simp: withinLimit_def setDialogsSynced_def split: option.split intro: order_trans)

lemma withinLimit_focus: "withinLimit s \<Longrightarrow> withinLimit (focusDialog key s)"
  unfolding focusDialog_def by (rule withinLimit_set) (auto simp: familySize_edit split: if_splits)

lemma withinLimit_rect: "withinLimit s \<Longrightarrow> withinLimit (updateDialogRect key rect s)"
  unfolding updateDialogRect_def by (rule withinLimit_set) (auto simp: familySize_edit split: option.splits if_splits)

lemma withinLimit_close: "withinLimit s \<Longrightarrow> withinLimit (closeDialog key s)"
  unfolding closeDialog_def by (rule withinLimit_set) (auto simp: familySize_filter)

lemma withinLimit_requestClose: "withinLimit s \<Longrightarrow> withinLimit (fst (requestCloseDialog key s))"
  by (auto simp: requestCloseDialog_def withinLimit_close split: option.split dialogRequest.split)

lemma withinLimit_escape: "withinLimit s \<Longrightarrow> withinLimit (fst (handleEscape typing s))"
  by (auto simp: handleEscape_def withinLimit_requestClose split: option.split dialogRequest.split)

lemma withinLimit_open:
  assumes "wfStack s" "withinLimit s"
  shows "withinLimit (snd (openDialog bounds request s))"
proof (cases "findDialog (getDialogKey request) (fd_dialogs s)")
  case None
  then show ?thesis using assms(2)
    by (auto simp: openDialog_def Let_def withinLimit_def setDialogsSynced_def familySize_append familySize_one MAX_DIALOGS_PER_KIND_def)
next
  case (Some existing)
  have "getDialogFamily (mergeRequest (di_request d) request) = getDialogFamily (di_request d)"
    if "d \<in> set (fd_dialogs s)" "di_key d = getDialogKey request" for d
    using that wfStack_key [OF assms(1) that(1)] by (simp add: getDialogFamily_merge)
  then show ?thesis using Some assms(2)
    by (auto simp: openDialog_def Let_def familySize_edit intro!: withinLimit_set)
qed

lemma withinLimit_counter: "withinLimit (s\<lparr>fd_lastReportOpenRequestId := i\<rparr>) = withinLimit s"
  by (simp add: withinLimit_def)

lemma limit_step:
  assumes "wfStack s \<and> withinLimit s" "\<not> isSwitch action"
  shows "wfStack (dialogStep bounds s action) \<and> withinLimit (dialogStep bounds s action)"
  using assms wfStack_step [of s bounds action]
  by (cases action)
    (simp_all add: isSwitch_def stack_openers closeTerrainProfileDialog_def focusTerrainProfileDialog_def Let_def withinLimit_open
      withinLimit_focus withinLimit_close withinLimit_requestClose withinLimit_rect withinLimit_escape withinLimit_counter wfStack_counter)

interpretation limitRun: invariant_machine "dialogStep bounds" "\<lambda>_ action. \<not> isSwitch action" "\<lambda>s. wfStack s \<and> withinLimit s" for bounds
  by unfold_locales (rule limit_step)

text \<open>As long as no dialog is switched to another station, at most two dialogs of one kind are open.\<close>

lemma limit_holds_without_switching:
  assumes "\<forall>action\<in>set actions. \<not> isSwitch action"
  shows "familySize (fd_dialogs (runAll (dialogStep bounds) emptyStack actions)) family \<le> 2"
proof -
  have "wfStack emptyStack \<and> withinLimit emptyStack"
    by (simp add: wfStack_empty) (simp add: emptyStack_def withinLimit_def familySize_def)
  then have "withinLimit (runAll (dialogStep bounds) emptyStack actions)"
    using limitRun.run_inv [of emptyStack bounds actions] assms by (simp add: runOk_all)
  then show ?thesis by (simp add: withinLimit_def)
qed

text \<open>A station is opened and its dialog switched to an official site, again and again.\<close>

definition openAndSwitch :: "nat \<Rightarrow> dialogAction list" where
  "openAndSwitch i = [OpenStation (int i) SourceInternal None,
     SwitchStation (getDialogKey (StationDialog (StationTarget (int i) SourceInternal None None None)))
       (StationTarget (int i) SourceOfficial None None None)]"

definition officialKey :: "nat \<Rightarrow> string" where
  "officialKey i = ''station:official:'' @ intText (int i)"

lemma findIndex_first:
  assumes "n < length xs" "P (xs ! n)" "\<forall>j<n. \<not> P (xs ! j)"
  shows "findIndex P xs = Some n"
proof -
  obtain i where i: "findIndex P xs = Some i" using assms findIndex_None [of P xs] nth_mem by (metis not_None_eq)
  have "i = n" using findIndex_Some [OF i] assms by (metis linorder_neqE_nat)
  with i show ?thesis by simp
qed

lemma openAndSwitch_step:
  fixes bounds
  assumes "map di_key (fd_dialogs s) = map officialKey [0..<n]"
    "\<forall>d\<in>set (fd_dialogs s). getDialogFamily (di_request d) = ''station:official''"
  defines "s' \<equiv> runAll (dialogStep bounds) s (openAndSwitch n)"
  shows "map di_key (fd_dialogs s') = map officialKey [0..<Suc n] \<and>
    (\<forall>d\<in>set (fd_dialogs s'). getDialogFamily (di_request d) = ''station:official'')"
proof -
  let ?internal = "''station:internal:'' @ intText (int n)" and ?ds = "fd_dialogs s"
  have none: "findDialog ?internal ?ds = None" by (simp add: findDialog_None assms(1) officialKey_def image_iff)
  have size: "familySize ?ds ''station:internal'' = 0" using assms(2) by (simp add: familySize_def filter_empty_conv)
  define d where "d = \<lparr>di_request = StationDialog (StationTarget (int n) SourceInternal (Some None) None None), di_key = ?internal,
    di_frameId = fd_lastFrameId s + 1, di_rect = createDialogRect bounds (StationDialog (StationTarget (int n) SourceInternal (Some None) None None)) 0,
    di_zIndex = getNextZIndex ?ds\<rparr>"
  then have d: "di_request d = StationDialog (StationTarget (int n) SourceInternal (Some None) None None)" "di_key d = ?internal" by simp_all
  have opened: "fd_dialogs (snd (openStationDialog bounds (int n) SourceInternal None s)) = normalizeZIndexes (?ds @ [d])"
    using none size by (simp add: openStationDialog_def openDialog_def Let_def setDialogsSynced_def MAX_DIALOGS_PER_KIND_def d_def)
  let ?es = "normalizeZIndexes (?ds @ [d])"
  have keys: "map di_key ?es = map officialKey [0..<n] @ [?internal]" using assms(1) d(2) by simp
  have len: "length ?ds = n" using arg_cong [OF assms(1), of length] by simp
  have key_nth: "di_key (?es ! j) = (if j < n then officialKey j else ?internal)" if "j \<le> n" for j
  proof -
    have "di_key (?es ! j) = map di_key ?es ! j" using that len by (subst nth_map) simp_all
    then show ?thesis unfolding keys using that by (auto simp: nth_append)
  qed
  have place: "findIndex (\<lambda>d. di_key d = ?internal) ?es = Some n"
    by (rule findIndex_first) (simp_all add: key_nth len officialKey_def)
  have request: "di_request (?es ! n) = StationDialog (StationTarget (int n) SourceInternal (Some None) None None)"
    using d(1) len by (simp add: normalize_nth nth_append)
  have fresh: "findDialog (officialKey n) ?es = None"
    unfolding findDialog_None keys by (auto simp: officialKey_def)
  define e where "e = (?es ! n)\<lparr>di_request := StationDialog (StationTarget (int n) SourceOfficial None None
    (Some (Some (StationTarget (int n) SourceInternal None (Some None) None)))), di_key := officialKey n\<rparr>"
  have "fd_dialogs s' = normalizeZIndexes (?es[n := e])"
    using place request fresh
    by (simp add: s'_def openAndSwitch_def opened switchStationDialog_def Let_def setDialogsSynced_def officialKey_def e_def)
  moreover have "map di_key (?es[n := e]) = map officialKey [0..<Suc n]"
    using len unfolding map_update keys by (simp add: list_update_append e_def)
  moreover have "map di_request (?es[n := e]) = map di_request ?ds @ [di_request e]"
    using len by (simp add: map_update list_update_append)
  ultimately have "map di_key (fd_dialogs s') = map officialKey [0..<Suc n]"
    "map di_request (fd_dialogs s') = map di_request ?ds @ [di_request e]" by simp_all
  moreover have "getDialogFamily (di_request e) = ''station:official''" by (simp add: e_def)
  moreover have "\<forall>r\<in>set (map di_request ?ds). getDialogFamily r = ''station:official''" using assms(2) by simp
  ultimately have "\<forall>r\<in>set (map di_request (fd_dialogs s')). getDialogFamily r = ''station:official''" by simp
  then show ?thesis using \<open>map di_key (fd_dialogs s') = map officialKey [0..<Suc n]\<close> by simp
qed

lemma switched_dialogs_pile_up:
  "familySize (fd_dialogs (runAll (dialogStep bounds) emptyStack (concat (map openAndSwitch [0..<n])))) ''station:official'' = n"
proof -
  have "map di_key (fd_dialogs s) = map officialKey [0..<n] \<and>
      (\<forall>d\<in>set (fd_dialogs s). getDialogFamily (di_request d) = ''station:official'')"
    if "s = runAll (dialogStep bounds) emptyStack (concat (map openAndSwitch [0..<n]))" for s
    using that
  proof (induction n arbitrary: s)
    case 0
    then show ?case by (simp add: emptyStack_def)
  next
    case (Suc n)
    have s: "s = runAll (dialogStep bounds) (runAll (dialogStep bounds) emptyStack (concat (map openAndSwitch [0..<n]))) (openAndSwitch n)"
      using Suc.prems by (simp add: runAll_append)
    show ?case unfolding s
      by (rule openAndSwitch_step [OF conjunct1 [OF Suc.IH [OF refl]] conjunct2 [OF Suc.IH [OF refl]]])
  qed
  note run = this [OF refl]
  have "length (fd_dialogs (runAll (dialogStep bounds) emptyStack (concat (map openAndSwitch [0..<n])))) = n"
    using conjunct1 [OF run] by (metis length_map length_upt minus_nat.diff_0)
  then show ?thesis using run by (simp add: familySize_def filter_id_conv)
qed

lemma two_dialogs_open:
  "familySize (fd_dialogs (runAll (dialogStep bounds) emptyStack [OpenStation 1 SourceInternal None, OpenStation 2 SourceInternal None]))
    ''station:internal'' = 2"
  by code_simp

text \<open>
  C18. At most two dialogs of a kind are open, and two can be, as long as none is switched to another station. Switching
  is not counted: opening the internal dialog of a station and switching it to an official site, for n stations in turn,
  leaves n dialogs of official sites open.
\<close>

theorem switching_bypasses_limit:
  "((\<forall>action\<in>set actions. \<not> isSwitch action) \<longrightarrow>
      familySize (fd_dialogs (runAll (dialogStep bounds) emptyStack actions)) family \<le> 2) \<and>
   familySize (fd_dialogs (runAll (dialogStep bounds) emptyStack [OpenStation 1 SourceInternal None, OpenStation 2 SourceInternal None]))
     ''station:internal'' = 2 \<and>
   familySize (fd_dialogs (runAll (dialogStep bounds) emptyStack (concat (map openAndSwitch [0..<n])))) ''station:official'' = n"
  using limit_holds_without_switching [of actions bounds family] two_dialogs_open [of bounds] switched_dialogs_pile_up [of bounds n]
  by blast

theorem switching_bypasses_limit_witness:
  "familySize (fd_dialogs (runAll (dialogStep \<lparr>fs_width = 1280, fs_height = 720\<rparr>) emptyStack
      [OpenStation 1 SourceInternal None, OpenStation 2 SourceInternal None, OpenStation 3 SourceInternal None])) ''station:internal'' \<le> 2"
proof -
  have "\<forall>action\<in>set [OpenStation 1 SourceInternal None, OpenStation 2 SourceInternal None, OpenStation 3 SourceInternal None].
      \<not> isSwitch action" by (simp add: isSwitch_def)
  then show ?thesis using switching_bypasses_limit by blast
qed

end
