(* ===== verification/Spec2Isabelle.thy ===== *)
theory Spec2Isabelle
  imports SaveTheorems AccessTheorems Proposals CellTools TtlCache Async NsgStreamTheorems NsgResult
    NsgRecorderTheorems AnalyzerTheorems DuplicateTheorems DialogTheorems
begin

text \<open>
  \<^bold>\<open>The program.\<close> A web application that maps the base stations of mobile networks. Contributors and
  editors change stations in the station editor of the client (apps/client/src/features/
  station-editing); the server (apps/server) checks, stores and audits what they send; packages/shared
  holds what both agree on, and packages/country-packs what differs from country to country. The
  client also reads the recordings of a phone's modem (apps/client/src/lib/nsg-parser).

  \<^bold>\<open>How the parts interact.\<close> An edit session holds three snapshots of a station: the live record, the
  draft, and perhaps what a submission proposes. Every input is an action of the reducer; the tools
  give it whole lists of cells; the change list and the row states are read from the session; the
  checks and the bodies are made from the draft when it is sent. On the server a request is let
  through by the grants of its actor, and shares the cache and the concurrency helpers with the others.
  The analyzer answers for a batch of observed cells which stored cells they are, in two rounds of queries.
  The parser cuts the bytes of a recording into records as they arrive; Android events give cells,
  Qualcomm records give configurations, serving cells, measurements and signaling; at the end the
  records of the modem are joined with the cells of the events, for standalone NR and for the others.

  \<^bold>\<open>The theories.\<close>
  \<^item> \<open>Prelude\<close>: list and map operations of JavaScript; the locale \<open>keyed_rows\<close> (rows replaced by key) and
    the locale \<open>invariant_machine\<close> (one-step preservation lifted to runs).
  \<^item> \<open>EditTypes\<close> (model/types.ts), \<open>RatFields\<close> (model/ratFields.ts, model/networks.ts), \<open>Packs\<close>
    (packages/country-packs): the data of the editor, the table of each technology, the conventions.
  \<^item> \<open>Drafts\<close> (constructors and area codes of model/snapshots.ts), \<open>CellPatch\<close> (\<open>patchCell\<close>),
    \<open>DraftReducer\<close> (model/draftReducer.ts, every action): the state machine of the editor.
    \<open>DraftInvariants\<close> proves its invariant, \<open>EditorTheorems\<close> what its operations promise.
  \<^item> \<open>JsValues\<close>, \<open>TextParts\<close>: decimal texts, stable sorting (the locale \<open>comparator\<close>), the texts shown.
  \<^item> \<open>Proposals\<close>: the rest of model/snapshots.ts. A record of the API becomes a snapshot, and the
    changes of a submission are laid over the live one.
  \<^item> \<open>Bands\<close> (packages/shared/src/bandCatalog.ts, frequency.ts): the catalogue with its tables.
  \<^item> \<open>CellTools\<close> (features/cells/lib/remainingLteCells.ts, model/cellTools.ts): the cells missing from a
    series, and the tools over a technology's cells; the locales \<open>sector_rule\<close> and \<open>series_cells\<close>.
  \<^item> \<open>Changes\<close> and \<open>ChangeTheorems\<close> (model/changes.ts): the change list, the highlights, the counters.
  \<^item> \<open>Validate\<close> (model/validate.ts, hostStations.ts, unavailableCodes.ts, packages/shared pciSharing.ts),
    \<open>Bodies\<close> (model/bodies.ts), and \<open>SaveTheorems\<close> on both together.
  \<^item> \<open>Dialogs\<close> and \<open>DialogTheorems\<close> (features/floating-dialogs of the client): the dialogs over the map.
  \<^item> \<open>TtlCache\<close> (lib/boundedTTLCache.ts) and \<open>Async\<close> (lib/async) of the server.
  \<^item> \<open>Access\<close> and \<open>AccessTheorems\<close> (features/access, the routes under /role-grants): grants of editors.
  \<^item> \<open>Analyzer\<close> and \<open>AnalyzerMatch\<close> (features/analyzer of the server): observed cells are matched with the
    stored ones; \<open>AnalyzerTheorems\<close> with the locale \<open>batch_lookup\<close> for its eleven kinds of lookups.
  \<^item> \<open>Duplicates\<close> (features/cells: identityDuplicateSpecs.ts, pciDuplicateSpecs.ts, networkWrites.ts,
    duplicateCheck.ts; the checks over one request in submissions/helpers.ts): cells that may not be stored twice.
    \<open>LockedWrites\<close>: transactions that write, lock, check and commit, in one or several batches and at the
    isolation level they are started with; \<open>DuplicateTheorems\<close> on both.
  \<^item> \<open>NsgBytes\<close>, \<open>NsgTypes\<close>, \<open>NsgRecords\<close>, \<open>NsgSignaling\<close> (nsg-parser/model.ts, internal/qualcomm): the
    binary records of the modem and their decoders, with \<open>NsgRecordTheorems\<close>; \<open>NsgJson\<close> (the UTF-8 decoder
    and \<open>JSON.parse\<close> of the runtime), \<open>NsgEvents\<close> (internal/operatorState.ts, nrIdentity.ts,
    eventProcessor.ts) with \<open>NsgEventTheorems\<close>; \<open>NsgAssociation\<close> (internal/nonStandalone), \<open>NsgTimeline\<close> and
    \<open>NsgFusion\<close> (internal/standalone) with \<open>NsgFusionTheorems\<close>, \<open>NsgUsage\<close> (which measured cells are used up) and
    \<open>NsgResult\<close> (which of them the cells of the result are made from); \<open>NsgRecorder\<close>
    (internal/recordingBuilder.ts) with \<open>NsgRecorderTheorems\<close>, \<open>NsgStream\<close> (internal/streamDecoder.ts,
    fileHeader.ts) with \<open>NsgStreamTheorems\<close>.

  \<^bold>\<open>How state and operations correspond to the code.\<close> A record is the source's type, its fields with a
  prefix of the type; \<open>null\<close> and \<open>undefined\<close> are \<open>None\<close>, and an option of an option where a property
  may be absent or \<open>null\<close>. A reducer function that returns \<open>None\<close> hands back the session it was given. A
  \<open>Map\<close> that is iterated is an association list in insertion order, one that is only looked up in a
  partial function. An exception is a value of \<open>accessError\<close> or \<open>None\<close>. A database transaction is a
  function of the tables: the new tables, or an error and no change. Concurrency is a step relation
  with one step for each stretch of code between two awaits, taken in any order; a role written with its grants
  (\<open>writeRole\<close>) is one step where the code has two transactions in a row.

  \<^bold>\<open>What the groups of lemmas show.\<close> The session stays well formed whatever actions come in whatever
  order, as long as the snapshots and rows handed in from outside are well formed; single actions do what they mean to (area codes, patches, removal and restoration, order of
  sectors, moves of a station); laying a proposal over a snapshot loses nothing; the tools keep to the
  draft; the change list agrees with the highlights of a stored station; an accepted draft sends each of its new cells and
  has no duplicates; an untouched draft sends nothing; the channels of the bands are exact and
  unambiguous. The cache stays within its bounds and a hit is the last value set; the semaphore keeps
  its limit and serves its queue first come, first served; a key has one task in flight; the limited runner runs
  each task once. The floating dialogs keep distinct keys and
  consecutive stacking indexes, and their limit of two of a kind holds until one is switched. The grants stay consistent, nobody reaches
  beyond the countries they maintain, the guard agrees with the filter, and paging ends with every
  grant read once. Decoding a modem record reads nothing outside its bytes; the way a recording is cut into
  chunks makes no difference, and the bytes the recorder captures are enough; joining loses no cell, and no two
  cells of the result are made from one measured cell; the binary searches
  find what a scan would, and the history of the operators what the running state said where time never goes back. The analyzer answers for each cell of a batch as it answers for the cell alone,
  as long as no operator is observed under two of its codes. Read-committed transactions that lock
  the identities they write never commit two published cells with one identity; under repeatable read, the level of a
  revert, they may. The locks do not deadlock where each transaction takes them in one batch; taken in several, as the
  analyzer and a revert do, they may (the row locks a route takes beside them are not modelled; the operator and
  status of a station stay as they are meanwhile).

  \<^bold>\<open>Parameters.\<close> What is not under src/ is an argument: the keys \<open>nanoid\<close> draws (\<open>freshKey\<close>), ids of new
  rows (\<open>newId\<close>), the clock (\<open>now\<close>), the distance of two points, the address check of a country (a
  regular expression over letters beyond the characters of the model), \<open>verifyPermissions\<close> of the auth
  library, the size function of a cache.

  \<^bold>\<open>Numbers and bounds.\<close> A field the source types as \<open>number\<close> and that may hold a fraction is a rational (as are the
  numbers of a JSON text, which the code rounds to doubles);
  ids and integers of the code are \<open>int\<close>. The code computes on these within 2^53, so nothing
  wraps; the safe-integer checks of the source are in the model. Recursions end by the
  length of a list, but for \<open>readPages\<close>, which ends because a cursor leaves fewer rows, and
  \<open>pushLoop\<close>, a partial function that is proved to end. No definition uses fuel. Strings are lists of 8-bit characters.

  \<^bold>\<open>Not modelled.\<close> React components, hooks (but for the state of the floating dialogs) and routes of the
  client, its maps and charts, the table that places the server's refusals in the editor, the Discord bot, the web server's plumbing and the SQL of the routes (libraries and glue around the modelled
  logic); the migrations; the joins that find the country of a record (\<open>resolveScopeTargets\<close>: their
  result is an argument); the reading and
  unpacking of a recording in the browser; submissions as they are stored and applied, audit and revert, imports from
  official sources, search, statistics and exports.
\<close>

end
